(* ===== verification/Swift_Prelude.thy ===== *)
theory Swift_Prelude
  imports Main "HOL-Library.List_Lexorder" "HOL-Library.Char_ord" "HOL-Library.Sublist"
begin

text \<open>
  Shared ground of the development: the fact collections the component theories fill, the
  machine-integer conversions of the C++ sources, and generic lemmas on lists, association
  lists and byte strings.  A C++ \<^verbatim>\<open>std::string\<close> is a \<^typ>\<open>string\<close>, a list of bytes; its
  order (and RocksDB's bytewise comparator) is the lexicographic order of
  HOL-Library.List\_Lexorder over the byte order of HOL-Library.Char\_ord.
\<close>

named_theorems store_simps \<open>what a store operation does to the key-value state\<close>
named_theorems key_simps \<open>when two storage keys are equal\<close>
named_theorems codec_simps \<open>round trips of the encoders\<close>

section \<open>Machine integers\<close>

text \<open>\<open>static_cast<int32_t>\<close> of a wider integer: two's complement wrap-around.\<close>

definition wrap32 :: "int \<Rightarrow> int" where
  "wrap32 x = (x + 2 ^ 31) mod 2 ^ 32 - 2 ^ 31"

definition is_int32 :: "int \<Rightarrow> bool" where
  "is_int32 x \<longleftrightarrow> - (2 ^ 31) \<le> x \<and> x < 2 ^ 31"

definition is_int64 :: "int \<Rightarrow> bool" where
  "is_int64 x \<longleftrightarrow> - (2 ^ 63) \<le> x \<and> x < 2 ^ 63"

lemma wrap32_id [simp]: "is_int32 x \<Longrightarrow> wrap32 x = x"
  by (simp add: wrap32_def is_int32_def)

lemma is_int32_wrap32 [simp]: "is_int32 (wrap32 x)"
proof -
  have "0 \<le> (x + 2 ^ 31) mod 2 ^ 32" "(x + 2 ^ 31) mod 2 ^ 32 < (2 ^ 32 :: int)"
    by simp_all
  then show ?thesis by (simp add: wrap32_def is_int32_def)
qed

lemma is_int64_of_int32: "is_int32 x \<Longrightarrow> is_int64 x"
  by (auto simp: is_int32_def is_int64_def)

lemma is_int64_wrap32 [simp]: "is_int64 (wrap32 x)"
  by (rule is_int64_of_int32 [OF is_int32_wrap32])

lemma is_int64_if_int32 [simp]: "is_int32 x \<Longrightarrow> is_int64 x"
  by (simp add: is_int32_def is_int64_def)

lemma wrap32_eq_iff: "wrap32 x = x \<longleftrightarrow> is_int32 x"
  by (metis is_int32_wrap32 wrap32_id)

section \<open>Lists\<close>

lemma dropWhile_sorted_eq_filter:
  fixes ks :: "('k::linorder \<times> 'v) list"
  assumes "sorted_wrt (<) (map fst ks)"
  shows "dropWhile (\<lambda>e. fst e < p) ks = filter (\<lambda>e. p \<le> fst e) ks"
  using assms
proof (induction ks)
  case (Cons e ks)
  then have "\<not> fst e < p \<Longrightarrow> filter (\<lambda>e. p \<le> fst e) ks = ks"
    by (auto intro!: filter_True)
  with Cons show ?case by auto
qed simp

lemma map_of_filter_fst:
  "map_of (filter (\<lambda>e. P (fst e)) xs) k = (if P k then map_of xs k else None)"
  by (induction xs) auto

lemma distinct_if_sorted_less: "sorted_wrt (<) (xs :: 'a::linorder list) \<Longrightarrow> distinct xs"
  by (simp add: strict_sorted_iff)

lemma in_set_iff_map_of:
  "sorted_wrt (<) (map fst (xs :: ('k::linorder \<times> 'v) list)) \<Longrightarrow>
   (k, v) \<in> set xs \<longleftrightarrow> map_of xs k = Some v"
  by (simp add: distinct_if_sorted_less)

text \<open>A loop that keeps the results of the iterations that return one.\<close>

lemma set_map_filter: "set (List.map_filter f xs) = {y. \<exists>x \<in> set xs. f x = Some y}"
  by (auto simp: List.map_filter_def image_iff split: option.splits) (metis option.sel)

section \<open>Byte strings as keys\<close>

lemma prefix_order_le: "(p :: string) \<le> p @ r"
  by (induction p) auto

lemma prefix_imp_le: "prefix (p :: string) k \<Longrightarrow> p \<le> k"
  by (auto simp: prefix_def intro: prefix_order_le)

lemma le_prefix_mono:
  "p \<le> k \<Longrightarrow> k < l \<Longrightarrow> prefix p l \<Longrightarrow> prefix (p :: string) k"
proof (induction p arbitrary: k l)
  case (Cons c p)
  from Cons.prems(3) obtain l' where l: "l = c # l'" and pl: "prefix p l'"
    by (cases l) auto
  from Cons.prems(1) obtain d k' where k: "k = d # k'"
    by (cases k) auto
  from Cons.prems(1,2) have "d = c" and "p \<le> k'" and "k' < l'"
    by (auto simp: k l)
  with Cons.IH pl show ?case by (simp add: k)
qed simp

text \<open>
  In a strictly sorted scan the keys with a given prefix are contiguous and start at the
  first key that is not below the prefix: seeking there and stopping at the first key
  without the prefix finds exactly those keys.
\<close>

lemma takeWhile_eq_filter_if_convex:
  "sorted_wrt (<) (map fst xs) \<Longrightarrow> \<forall>e \<in> set xs. p \<le> fst e \<Longrightarrow>
   takeWhile (\<lambda>e. prefix p (fst e)) xs = filter (\<lambda>e. prefix (p :: string) (fst e)) xs"
proof (induction xs)
  case (Cons e xs)
  have "\<not> prefix p (fst e) \<Longrightarrow> \<forall>f \<in> set xs. \<not> prefix p (fst f)"
    using Cons.prems by (auto dest: le_prefix_mono)
  with Cons show ?case by (auto simp: filter_empty_conv)
qed simp

lemma seek_takeWhile_eq_filter:
  fixes ks :: "(string \<times> 'v) list"
  assumes "sorted_wrt (<) (map fst ks)"
  shows "takeWhile (\<lambda>e. prefix p (fst e)) (dropWhile (\<lambda>e. fst e < p) ks) =
    filter (\<lambda>e. prefix p (fst e)) ks"
proof -
  let ?ge = "filter (\<lambda>e. p \<le> fst e) ks"
  have "sorted_wrt (<) (map fst ?ge)"
    using assms by (induction ks) auto
  then have "takeWhile (\<lambda>e. prefix p (fst e)) ?ge = filter (\<lambda>e. prefix p (fst e)) ?ge"
    by (rule takeWhile_eq_filter_if_convex) simp
  also have "\<dots> = filter (\<lambda>e. prefix p (fst e)) ks"
    by (auto simp: prefix_imp_le intro!: filter_cong)
  finally show ?thesis by (simp add: dropWhile_sorted_eq_filter [OF assms])
qed

subsection \<open>Composite keys\<close>

text \<open>
  Composite keys are built as \<^verbatim>\<open>a + ":" + b\<close>.  An identifier is \<open>clean\<close> when it has no
  colon; a composite of two clean identifiers determines both, whatever the identifiers
  of the other composite are.
\<close>

definition clean :: "string \<Rightarrow> bool" where
  "clean s \<longleftrightarrow> CHR '':'' \<notin> set s"

lemma clean_simps [simp]:
  "clean []"
  "clean (c # s) \<longleftrightarrow> c \<noteq> CHR '':'' \<and> clean s"
  "clean (s @ t) \<longleftrightarrow> clean s \<and> clean t"
  by (auto simp: clean_def)

text \<open>An identifier that keys are built from: non-empty and without a colon.\<close>

definition id_ok :: "string \<Rightarrow> bool" where
  "id_ok s \<longleftrightarrow> s \<noteq> [] \<and> clean s"

lemma id_ok_simps: "id_ok s \<Longrightarrow> s \<noteq> []" "id_ok s \<Longrightarrow> clean s"
  by (simp_all add: id_ok_def)

lemma takeWhile_clean: "clean u \<Longrightarrow> takeWhile (\<lambda>c. c \<noteq> CHR '':'') (u @ CHR '':'' # f) = u"
  by (induction u) auto

lemma clean_first_eq_iff:
  assumes "clean u" "clean u'"
  shows "u @ CHR '':'' # f = u' @ CHR '':'' # f' \<longleftrightarrow> u = u' \<and> f = f'"
  by (metis assms takeWhile_clean same_append_eq list.inject)

lemma id_first_eq: "id_ok a \<Longrightarrow> id_ok a' \<Longrightarrow> a @ CHR '':'' # b = a' @ CHR '':'' # b' \<longleftrightarrow> a = a' \<and> b = b'"
  using clean_first_eq_iff [of a a' b b'] by (simp add: id_ok_def)

lemma clean_pair_eq_iff:
  assumes "clean u" "clean f"
  shows "u @ CHR '':'' # f = u' @ CHR '':'' # f' \<longleftrightarrow> u = u' \<and> f = f'"
proof
  assume eq: "u @ CHR '':'' # f = u' @ CHR '':'' # f'"
  have "count_list (u @ CHR '':'' # f) CHR '':'' = 1"
    using assms by (simp add: clean_def)
  then have "clean u'"
    by (simp add: eq clean_def count_list_0_iff)
  with assms eq show "u = u' \<and> f = f'" by (simp add: clean_first_eq_iff)
qed simp

lemma clean_pair_eq_iff':
  assumes "clean u'" "clean f'"
  shows "u @ CHR '':'' # f = u' @ CHR '':'' # f' \<longleftrightarrow> u = u' \<and> f = f'"
  using clean_pair_eq_iff [OF assms] by metis

lemmas clean_pair_eqs = clean_pair_eq_iff clean_pair_eq_iff'

text \<open>Scans: what follows a common prefix is ordered as the keys are, and decoding that never fails keeps keys.\<close>

lemma append_less_iff: "(p @ x < p @ y) = (x < (y :: string))"
  by (induction p) simp_all

lemma map_filter_total:
  "\<forall>e \<in> set es. \<exists>d. f e = Some d \<and> g d = h e \<Longrightarrow> map g (List.map_filter f es) = map h es"
  by (induction es) (auto simp: map_filter_simps)

end
