(* ===== verification/Cpp_Std.thy ===== *)
theory Cpp_Std
  imports Swift_Prelude
begin

text \<open>
  What the sources use of the C and C++ standard libraries on strings and numbers: the
  character classes of the C locale, \<^verbatim>\<open>std::string\<close> searching, decimal output and
  \<^verbatim>\<open>std::stoi\<close> / \<^verbatim>\<open>std::stoll\<close> input, and the extraction of a hexadecimal \<^verbatim>\<open>int\<close> from a
  stream.  The lemmas are the round trips between output and input and the facts on
  search that the component theories share.
\<close>

section \<open>Character classes\<close>

definition code :: "char \<Rightarrow> nat" where
  "code c = of_char c"

lemma code_less [simp]: "code c < 256"
  by (simp add: code_def)

lemma char_of_code [simp]: "char_of (code c) = c"
  by (simp add: code_def)

lemma code_char_of [simp]: "code (char_of (n :: nat)) = n mod 256"
  by (simp add: code_def)

lemma code_inject: "code c = code d \<longleftrightarrow> c = d"
  by (metis char_of_code)

definition isdigit :: "char \<Rightarrow> bool" where
  "isdigit c \<longleftrightarrow> 48 \<le> code c \<and> code c \<le> 57"

definition isupper :: "char \<Rightarrow> bool" where
  "isupper c \<longleftrightarrow> 65 \<le> code c \<and> code c \<le> 90"

definition islower :: "char \<Rightarrow> bool" where
  "islower c \<longleftrightarrow> 97 \<le> code c \<and> code c \<le> 122"

definition isalnum :: "char \<Rightarrow> bool" where
  "isalnum c \<longleftrightarrow> isdigit c \<or> isupper c \<or> islower c"

definition isspace :: "char \<Rightarrow> bool" where
  "isspace c \<longleftrightarrow> code c = 32 \<or> 9 \<le> code c \<and> code c \<le> 13"

definition tolower :: "char \<Rightarrow> char" where
  "tolower c = (if isupper c then char_of (code c + 32) else c)"

definition toupper :: "char \<Rightarrow> char" where
  "toupper c = (if islower c then char_of (code c - 32) else c)"

lemmas ctype_defs = isdigit_def isupper_def islower_def isalnum_def isspace_def

lemma tolower_idem [simp]: "tolower (tolower c) = tolower c"
  by (simp add: tolower_def isupper_def)

lemma tolower_toupper [simp]: "tolower (toupper c) = tolower c"
  by (auto simp: tolower_def toupper_def isupper_def islower_def)

section \<open>Searching\<close>

text \<open>\<^verbatim>\<open>s.find(c)\<close>, \<^verbatim>\<open>s.find(pat)\<close> (offset in \<open>s\<close>) and \<^verbatim>\<open>s.find(pat, pos)\<close>; \<open>None\<close> is \<^verbatim>\<open>npos\<close>.\<close>

fun find_char :: "char \<Rightarrow> string \<Rightarrow> nat option" where
  "find_char c [] = None"
| "find_char c (x # s) = (if x = c then Some 0 else map_option Suc (find_char c s))"

fun find_sub :: "string \<Rightarrow> string \<Rightarrow> nat option" where
  "find_sub pat [] = (if pat = [] then Some 0 else None)"
| "find_sub pat (c # s) =
     (if prefix pat (c # s) then Some 0 else map_option Suc (find_sub pat s))"

definition find_at :: "string \<Rightarrow> string \<Rightarrow> nat \<Rightarrow> nat option" where
  "find_at pat s pos =
     (if length s < pos then None else map_option (\<lambda>i. pos + i) (find_sub pat (drop pos s)))"

lemma find_char_None: "find_char c s = None \<longleftrightarrow> c \<notin> set s"
  by (induction s) auto

lemma find_char_Some:
  "find_char c s = Some i \<Longrightarrow> \<exists>u v. s = u @ c # v \<and> length u = i \<and> c \<notin> set u"
proof (induction s arbitrary: i)
  case (Cons x s)
  show ?case
  proof (cases "x = c")
    case True
    with Cons.prems show ?thesis by auto
  next
    case False
    with Cons.prems obtain j where j: "find_char c s = Some j" "i = Suc j" by auto
    from Cons.IH [OF j(1)] obtain u v where "s = u @ c # v" "length u = j" "c \<notin> set u"
      by blast
    with False j(2) have "x # s = (x # u) @ c # v \<and> length (x # u) = i \<and> c \<notin> set (x # u)"
      by simp
    then show ?thesis by blast
  qed
qed simp

lemma find_char_append [simp]: "c \<notin> set u \<Longrightarrow> find_char c (u @ c # v) = Some (length u)"
  by (induction u) auto

lemma find_sub_Some:
  "find_sub pat s = Some i \<Longrightarrow> \<exists>m r. s = m @ pat @ r \<and> length m = i"
proof (induction s arbitrary: i)
  case (Cons c s)
  show ?case
  proof (cases "prefix pat (c # s)")
    case True
    with Cons.prems show ?thesis by (auto simp: prefix_def)
  next
    case False
    with Cons.prems obtain j where j: "find_sub pat s = Some j" "i = Suc j" by auto
    from Cons.IH [OF j(1)] obtain m r where "s = m @ pat @ r" "length m = j" by blast
    with j(2) have "c # s = (c # m) @ pat @ r \<and> length (c # m) = i" by simp
    then show ?thesis by blast
  qed
qed (auto split: if_splits)

lemma find_at_Some:
  assumes "find_at pat s pos = Some e"
  shows "\<exists>m r. drop pos s = m @ pat @ r \<and> e = pos + length m \<and> e + length pat \<le> length s"
proof -
  from assms obtain i where i: "find_sub pat (drop pos s) = Some i" and e: "e = pos + i"
    and pos: "pos \<le> length s"
    by (auto simp: find_at_def split: if_splits)
  from find_sub_Some [OF i] obtain m r where mr: "drop pos s = m @ pat @ r" "length m = i"
    by blast
  then have "length s - pos = i + length pat + length r"
    by (metis add.assoc length_append length_drop)
  with mr pos e show ?thesis by fastforce
qed

section \<open>Decimal numbers\<close>

definition digit_char :: "nat \<Rightarrow> char" where
  "digit_char d = char_of (48 + d)"

fun show_nat :: "nat \<Rightarrow> string" where
  "show_nat n = (if n < 10 then [digit_char n] else show_nat (n div 10) @ [digit_char (n mod 10)])"

declare show_nat.simps [simp del]

definition to_string :: "int \<Rightarrow> string" where
  "to_string x = (if x < 0 then CHR ''-'' # show_nat (nat (- x)) else show_nat (nat x))"

fun digits_val :: "nat \<Rightarrow> string \<Rightarrow> nat" where
  "digits_val a [] = a"
| "digits_val a (c # s) = digits_val (10 * a + (code c - 48)) s"

text \<open>\<^verbatim>\<open>%0<w>d\<close> of a non-negative number.\<close>

definition pad0 :: "nat \<Rightarrow> string \<Rightarrow> string" where
  "pad0 w s = replicate (w - length s) CHR ''0'' @ s"

definition strtoll :: "string \<Rightarrow> int option" where
  "strtoll s =
     (let s1 = dropWhile isspace s;
          neg = (s1 \<noteq> [] \<and> hd s1 = CHR ''-'');
          s2 = (if s1 \<noteq> [] \<and> (hd s1 = CHR ''-'' \<or> hd s1 = CHR ''+'') then tl s1 else s1);
          ds = takeWhile isdigit s2;
          v = int (digits_val 0 ds)
      in if ds = [] then None else Some (if neg then - v else v))"

definition stoll :: "string \<Rightarrow> int option" where
  "stoll s = (case strtoll s of None \<Rightarrow> None | Some x \<Rightarrow> if is_int64 x then Some x else None)"

definition stoi :: "string \<Rightarrow> int option" where
  "stoi s = (case strtoll s of None \<Rightarrow> None | Some x \<Rightarrow> if is_int32 x then Some x else None)"

lemma code_digit_char [simp]: "d < 10 \<Longrightarrow> code (digit_char d) = 48 + d"
  by (simp add: digit_char_def)

lemma isdigit_digit_char [simp]: "d < 10 \<Longrightarrow> isdigit (digit_char d)"
  by (simp add: isdigit_def)

lemma isdigit_0 [simp]: "isdigit CHR ''0''"
  by (simp add: isdigit_def code_def)

lemma show_nat_not_Nil [simp]: "show_nat n \<noteq> []"
  by (subst show_nat.simps) simp

lemma show_nat_digits: "c \<in> set (show_nat n) \<Longrightarrow> isdigit c"
  by (induction n rule: show_nat.induct)
    (subst (asm) show_nat.simps, auto split: if_splits)

lemma digits_val_append: "digits_val a (s @ t) = digits_val (digits_val a s) t"
  by (induction a s rule: digits_val.induct) auto

lemma digits_val_show_nat [codec_simps]: "digits_val 0 (show_nat n) = n"
proof (induction n rule: show_nat.induct)
  case (1 n)
  then show ?case
    by (cases "n < 10") (simp_all add: show_nat.simps [of n] digits_val_append)
qed

lemma digits_val_acc: "digits_val a s = a * 10 ^ length s + digits_val 0 s"
proof (induction s arbitrary: a)
  case (Cons c s)
  show ?case
    using Cons.IH [of "10 * a + (code c - 48)"] Cons.IH [of "code c - 48"]
    by (simp add: algebra_simps)
qed simp

lemma digits_val_less: "\<forall>c \<in> set s. isdigit c \<Longrightarrow> digits_val 0 s < 10 ^ length s"
proof (induction s)
  case (Cons c s)
  then have "code c - 48 \<le> 9" "digits_val 0 s < 10 ^ length s"
    by (auto simp: isdigit_def)
  then have "(code c - 48) * 10 ^ length s + digits_val 0 s < 9 * 10 ^ length s + 10 ^ length s"
    by (meson add_le_less_mono mult_le_mono1)
  then show ?case
    using digits_val_acc [of "code c - 48" s] by simp
qed simp

lemma digits_val_pad0 [simp]: "digits_val 0 (pad0 w s) = digits_val 0 s"
proof -
  have "digits_val 0 (replicate k CHR ''0'') = 0" for k
    by (induction k) (auto simp: code_def)
  then show ?thesis by (simp add: pad0_def digits_val_append)
qed

lemma length_show_nat_le: "0 < w \<Longrightarrow> n < 10 ^ w \<Longrightarrow> length (show_nat n) \<le> w"
proof (induction n arbitrary: w rule: show_nat.induct)
  case (1 n)
  show ?case
  proof (cases "n < 10")
    case True
    with 1 show ?thesis by (simp add: show_nat.simps [of n])
  next
    case False
    with 1 obtain v where w: "w = Suc v" by (cases w) auto
    have "0 < v" using False 1 w by (cases v) auto
    moreover have "n div 10 < 10 ^ v" using 1(3) w by auto
    ultimately have "length (show_nat (n div 10)) \<le> v" using 1(1) False by blast
    with False w show ?thesis by (simp add: show_nat.simps [of n])
  qed
qed

lemma length_pad0: "length s \<le> w \<Longrightarrow> length (pad0 w s) = w"
  by (simp add: pad0_def)

lemma pad0_digits: "\<forall>c \<in> set s. isdigit c \<Longrightarrow> c \<in> set (pad0 w s) \<Longrightarrow> isdigit c"
  by (auto simp: pad0_def split: if_splits)

text \<open>Digit strings of one length are ordered as their values.\<close>

lemma digit_strings_less_iff:
  assumes "length s = length t" "\<forall>c \<in> set s. isdigit c" "\<forall>c \<in> set t. isdigit c"
  shows "s < t \<longleftrightarrow> digits_val 0 s < digits_val 0 t"
  using assms
proof (induction s t rule: list_induct2)
  case (Cons c s d t)
  let ?v = "\<lambda>c. code c - 48"
  have lt: "digits_val 0 s < 10 ^ length s" "digits_val 0 t < 10 ^ length s"
    using Cons.prems Cons.hyps digits_val_less [of s] digits_val_less [of t] by auto
  have cd: "c < d \<longleftrightarrow> ?v c < ?v d" "c = d \<longleftrightarrow> ?v c = ?v d"
    using Cons.prems by (auto simp: isdigit_def less_char_def code_def [symmetric] simp flip: code_inject)
  have eq: "digits_val 0 (c # s) = ?v c * 10 ^ length s + digits_val 0 s"
    "digits_val 0 (d # t) = ?v d * 10 ^ length s + digits_val 0 t"
    using digits_val_acc [of "?v c" s] digits_val_acc [of "?v d" t] Cons.hyps by auto
  have step: "x < y \<Longrightarrow> a < b \<Longrightarrow> x * b + a < y * b + c" for x y a b c :: nat
    by (metis Suc_leI add.commute add_less_mono1 le_add1 less_le_trans mult_Suc mult_le_mono1)
  show ?case
  proof (cases "?v c" "?v d" rule: linorder_cases)
    case less
    with step [OF less lt(1)] show ?thesis by (simp add: eq cd del: digits_val.simps)
  next
    case equal
    with Cons show ?thesis by (auto simp: eq cd simp del: digits_val.simps)
  next
    case greater
    with step [OF greater lt(2), of "digits_val 0 s"] show ?thesis
      by (auto simp: eq cd simp del: digits_val.simps)
  qed
qed simp

lemma takeWhile_isdigit_all: "\<forall>c \<in> set s. isdigit c \<Longrightarrow> takeWhile isdigit s = s"
  by (simp add: takeWhile_eq_all_conv)

lemma isdigit_hd:
  "isdigit c \<Longrightarrow> \<not> isspace c \<and> c \<noteq> CHR ''-'' \<and> c \<noteq> CHR ''+'' \<and> c \<noteq> CHR '':''"
  by (auto simp: ctype_defs code_def)

lemma strtoll_digits:
  assumes "\<forall>c \<in> set s. isdigit c" "s \<noteq> []"
  shows "strtoll s = Some (int (digits_val 0 s))"
proof -
  obtain c t where s: "s = c # t" using assms(2) by (cases s) auto
  with assms have c: "isdigit c" by simp
  then have "dropWhile isspace s = s"
    using s isdigit_hd by simp
  moreover have "takeWhile isdigit s = s" using assms by (simp add: takeWhile_isdigit_all)
  ultimately show ?thesis using isdigit_hd [OF c] s by (simp add: strtoll_def Let_def)
qed

lemma takeWhile_show_nat: "takeWhile isdigit (show_nat n) = show_nat n"
  by (simp add: takeWhile_isdigit_all show_nat_digits)

lemma strtoll_to_string [codec_simps]: "strtoll (to_string x) = Some x"
proof (cases "x < 0")
  case True
  have "\<not> isspace CHR ''-''" by (simp add: isspace_def code_def)
  then show ?thesis using True
    by (simp add: to_string_def strtoll_def Let_def takeWhile_show_nat codec_simps)
next
  case False
  then show ?thesis
    by (simp add: to_string_def strtoll_digits show_nat_digits codec_simps)
qed

lemma stoll_to_string [codec_simps]: "is_int64 x \<Longrightarrow> stoll (to_string x) = Some x"
  by (simp add: stoll_def codec_simps)

lemma stoi_to_string [codec_simps]: "is_int32 x \<Longrightarrow> stoi (to_string x) = Some x"
  by (simp add: stoi_def codec_simps)

section \<open>Hexadecimal numbers\<close>

definition hex_char :: "nat \<Rightarrow> char" where
  "hex_char d = (if d < 10 then char_of (48 + d) else char_of (87 + d))"

definition isxdigit :: "char \<Rightarrow> bool" where
  "isxdigit c \<longleftrightarrow> isdigit c \<or> 97 \<le> code c \<and> code c \<le> 102 \<or> 65 \<le> code c \<and> code c \<le> 70"

definition xdigit_val :: "char \<Rightarrow> nat" where
  "xdigit_val c = (if isdigit c then code c - 48 else if 97 \<le> code c then code c - 87 else code c - 55)"

fun show_hex :: "nat \<Rightarrow> string" where
  "show_hex n = (if n < 16 then [hex_char n] else show_hex (n div 16) @ [hex_char (n mod 16)])"

declare show_hex.simps [simp del]

fun xdigits_val :: "nat \<Rightarrow> string \<Rightarrow> nat" where
  "xdigits_val a [] = a"
| "xdigits_val a (c # s) = xdigits_val (16 * a + xdigit_val c) s"

text \<open>\<^verbatim>\<open>stream >> std::hex >> val\<close> for an \<^verbatim>\<open>int\<close>: \<open>None\<close> when the extraction fails.\<close>

definition hex_extract :: "string \<Rightarrow> int option" where
  "hex_extract s =
     (let s1 = dropWhile isspace s;
          neg = (s1 \<noteq> [] \<and> hd s1 = CHR ''-'');
          s2 = (if s1 \<noteq> [] \<and> (hd s1 = CHR ''-'' \<or> hd s1 = CHR ''+'') then tl s1 else s1);
          s3 = (if prefix ''0x'' s2 \<or> prefix ''0X'' s2 then drop 2 s2 else s2);
          ds = takeWhile isxdigit s3;
          v = int (xdigits_val 0 ds)
      in if ds = [] then None else Some (if neg then - v else v))"

lemma hex_char_props [simp]:
  assumes "d < 16"
  shows "isxdigit (hex_char d)" and "xdigit_val (hex_char d) = d" and "\<not> isspace (hex_char d)"
    and "hex_char d \<noteq> CHR ''-''" "hex_char d \<noteq> CHR ''+''" "CHR ''x'' \<noteq> hex_char d" "CHR ''X'' \<noteq> hex_char d"
proof -
  have c: "code (hex_char d) = (if d < 10 then 48 + d else 87 + d)"
    using assms by (simp add: hex_char_def)
  show "isxdigit (hex_char d)" "xdigit_val (hex_char d) = d" "\<not> isspace (hex_char d)"
    using assms c by (auto simp: isxdigit_def xdigit_val_def isdigit_def isspace_def)
  have "code CHR ''-'' = 45" "code CHR ''+'' = 43" "code CHR ''x'' = 120" "code CHR ''X'' = 88"
    by (simp_all add: code_def)
  with assms c show "hex_char d \<noteq> CHR ''-''" "hex_char d \<noteq> CHR ''+''" "CHR ''x'' \<noteq> hex_char d"
    "CHR ''X'' \<noteq> hex_char d"
    by (auto split: if_splits)
qed

lemma hex_extract_two:
  "a < 16 \<Longrightarrow> b < 16 \<Longrightarrow> hex_extract [hex_char a, hex_char b] = Some (int (16 * a + b))"
  by (simp add: hex_extract_def Let_def)

lemma length_show_hex_le: "0 < w \<Longrightarrow> n < 16 ^ w \<Longrightarrow> length (show_hex n) \<le> w"
proof (induction n arbitrary: w rule: show_hex.induct)
  case (1 n)
  show ?case
  proof (cases "n < 16")
    case True
    with 1 show ?thesis by (simp add: show_hex.simps [of n])
  next
    case False
    with 1 obtain v where w: "w = Suc v" by (cases w) auto
    have "0 < v" using False 1 w by (cases v) auto
    moreover have "n div 16 < 16 ^ v" using 1(3) w by auto
    ultimately have "length (show_hex (n div 16)) \<le> v" using 1(1) False by blast
    with False w show ?thesis by (simp add: show_hex.simps [of n])
  qed
qed

section \<open>Searching for a character outside a set\<close>

definition find_first_not_of :: "string \<Rightarrow> string \<Rightarrow> nat option" where
  "find_first_not_of cs s =
     (let n = length (takeWhile (\<lambda>c. c \<in> set cs) s) in if n < length s then Some n else None)"

definition find_last_not_of :: "string \<Rightarrow> string \<Rightarrow> nat option" where
  "find_last_not_of cs s = map_option (\<lambda>i. length s - 1 - i) (find_first_not_of cs (rev s))"

text \<open>The idiom \<^verbatim>\<open>substr(start, end - start + 1)\<close> between the two, which trims a string.\<close>

lemma find_first_not_of_None: "find_first_not_of cs s = None \<longleftrightarrow> dropWhile (\<lambda>c. c \<in> set cs) s = []"
proof -
  have "length (takeWhile (\<lambda>c. c \<in> set cs) s) + length (dropWhile (\<lambda>c. c \<in> set cs) s) = length s"
    by (metis length_append takeWhile_dropWhile_id)
  then have "(\<not> length (takeWhile (\<lambda>c. c \<in> set cs) s) < length s) = (length (dropWhile (\<lambda>c. c \<in> set cs) s) = 0)"
    by linarith
  then show ?thesis unfolding find_first_not_of_def Let_def length_0_conv by auto
qed

lemma find_first_not_of_drop:
  "find_first_not_of cs s = Some n \<Longrightarrow> drop n s = dropWhile (\<lambda>c. c \<in> set cs) s \<and> n < length s"
  by (auto simp: find_first_not_of_def Let_def dropWhile_eq_drop split: if_splits)

lemma trim_between:
  assumes "find_first_not_of cs s = Some i" "find_last_not_of cs s = Some j"
  shows "take (j - i + 1) (drop i s) =
    rev (dropWhile (\<lambda>c. c \<in> set cs) (rev (dropWhile (\<lambda>c. c \<in> set cs) s)))"
proof -
  let ?P = "\<lambda>c. c \<in> set cs"
  obtain k where k: "find_first_not_of cs (rev s) = Some k" "j = length s - 1 - k"
    using assms(2) by (auto simp: find_last_not_of_def)
  let ?d = "dropWhile ?P s"
  have d: "drop i s = ?d" "i < length s" using find_first_not_of_drop [OF assms(1)] by auto
  then have "?d \<noteq> []" by (metis drop_eq_Nil not_le)
  then have nt: "\<exists>x \<in> set (rev ?d). \<not> ?P x" using hd_dropWhile [of ?P s] by (metis hd_in_set set_rev)
  have "s = takeWhile ?P s @ ?d" by simp
  then have "rev s = rev ?d @ rev (takeWhile ?P s)" by (metis rev_append)
  then have "takeWhile ?P (rev s) = takeWhile ?P (rev ?d)"
    using nt by (metis takeWhile_append1)
  moreover have "k = length (takeWhile ?P (rev s))"
    using k(1) by (auto simp: find_first_not_of_def Let_def split: if_splits)
  ultimately have kk: "k = length (takeWhile ?P (rev ?d))" by simp
  have kl: "k < length ?d"
    using nt kk by (metis length_rev nth_length_takeWhile takeWhile_eq_all_conv length_takeWhile_le le_neq_implies_less takeWhile_dropWhile_id
        append_eq_conv_conj takeWhile_eq_take)
  have ld: "length ?d = length s - i" using d(1) by (metis length_drop)
  have "j - i + 1 = length ?d - k" using k(2) kl ld d(2) by arith
  then have "take (j - i + 1) (drop i s) = rev (drop k (rev ?d))"
    by (simp add: d(1) rev_drop)
  then show ?thesis by (simp add: kk dropWhile_eq_drop)
qed

end
