(* ===== verification/Error_Code.thy ===== *)
theory Error_Code
  imports Cpp_Std
begin

text \<open>
  The error codes and result types of \<^verbatim>\<open>backend/common/include/swift/error_code.h\<close>.  A C++
  \<^verbatim>\<open>enum class ErrorCode\<close> is a set of named \<^verbatim>\<open>int\<close> values: a code is an \<^typ>\<open>int\<close>,
  the abbreviations
  \<open>EC_...\<close> name the enumerators and \<open>ErrorCode_enum\<close> lists them.
  \<open>messages\<close> is the table behind \<^verbatim>\<open>ErrorCodeToString\<close>.
\<close>

type_synonym ErrorCode = int

abbreviation (input) EC_OK :: ErrorCode where "EC_OK \<equiv> 0"
abbreviation (input) EC_UNKNOWN :: ErrorCode where "EC_UNKNOWN \<equiv> 1"
abbreviation (input) EC_INVALID_PARAM :: ErrorCode where "EC_INVALID_PARAM \<equiv> 2"
abbreviation (input) EC_INTERNAL_ERROR :: ErrorCode where "EC_INTERNAL_ERROR \<equiv> 3"
abbreviation (input) EC_NOT_FOUND :: ErrorCode where "EC_NOT_FOUND \<equiv> 4"
abbreviation (input) EC_ALREADY_EXISTS :: ErrorCode where "EC_ALREADY_EXISTS \<equiv> 5"
abbreviation (input) EC_PERMISSION_DENIED :: ErrorCode where "EC_PERMISSION_DENIED \<equiv> 6"
abbreviation (input) EC_RATE_LIMITED :: ErrorCode where "EC_RATE_LIMITED \<equiv> 7"
abbreviation (input) EC_SERVICE_UNAVAILABLE :: ErrorCode where "EC_SERVICE_UNAVAILABLE \<equiv> 8"
abbreviation (input) EC_TIMEOUT :: ErrorCode where "EC_TIMEOUT \<equiv> 9"
abbreviation (input) EC_CANCELLED :: ErrorCode where "EC_CANCELLED \<equiv> 10"
abbreviation (input) EC_DATA_CORRUPTED :: ErrorCode where "EC_DATA_CORRUPTED \<equiv> 11"
abbreviation (input) EC_UNSUPPORTED :: ErrorCode where "EC_UNSUPPORTED \<equiv> 12"
abbreviation (input) EC_AUTH_FAILED :: ErrorCode where "EC_AUTH_FAILED \<equiv> 100"
abbreviation (input) EC_TOKEN_EXPIRED :: ErrorCode where "EC_TOKEN_EXPIRED \<equiv> 101"
abbreviation (input) EC_TOKEN_INVALID :: ErrorCode where "EC_TOKEN_INVALID \<equiv> 102"
abbreviation (input) EC_USER_NOT_FOUND :: ErrorCode where "EC_USER_NOT_FOUND \<equiv> 103"
abbreviation (input) EC_PASSWORD_WRONG :: ErrorCode where "EC_PASSWORD_WRONG \<equiv> 104"
abbreviation (input) EC_USER_ALREADY_EXISTS :: ErrorCode where "EC_USER_ALREADY_EXISTS \<equiv> 105"
abbreviation (input) EC_USERNAME_INVALID :: ErrorCode where "EC_USERNAME_INVALID \<equiv> 106"
abbreviation (input) EC_PASSWORD_TOO_WEAK :: ErrorCode where "EC_PASSWORD_TOO_WEAK \<equiv> 107"
abbreviation (input) EC_ACCOUNT_DISABLED :: ErrorCode where "EC_ACCOUNT_DISABLED \<equiv> 108"
abbreviation (input) EC_ACCOUNT_LOCKED :: ErrorCode where "EC_ACCOUNT_LOCKED \<equiv> 109"
abbreviation (input) EC_EMAIL_INVALID :: ErrorCode where "EC_EMAIL_INVALID \<equiv> 110"
abbreviation (input) EC_EMAIL_ALREADY_USED :: ErrorCode where "EC_EMAIL_ALREADY_USED \<equiv> 111"
abbreviation (input) EC_PHONE_INVALID :: ErrorCode where "EC_PHONE_INVALID \<equiv> 112"
abbreviation (input) EC_PHONE_ALREADY_USED :: ErrorCode where "EC_PHONE_ALREADY_USED \<equiv> 113"
abbreviation (input) EC_VERIFY_CODE_WRONG :: ErrorCode where "EC_VERIFY_CODE_WRONG \<equiv> 114"
abbreviation (input) EC_VERIFY_CODE_EXPIRED :: ErrorCode where "EC_VERIFY_CODE_EXPIRED \<equiv> 115"
abbreviation (input) EC_LOGIN_ELSEWHERE :: ErrorCode where "EC_LOGIN_ELSEWHERE \<equiv> 116"
abbreviation (input) EC_SESSION_INVALID :: ErrorCode where "EC_SESSION_INVALID \<equiv> 117"
abbreviation (input) EC_FRIEND_ALREADY :: ErrorCode where "EC_FRIEND_ALREADY \<equiv> 200"
abbreviation (input) EC_FRIEND_NOT_FOUND :: ErrorCode where "EC_FRIEND_NOT_FOUND \<equiv> 201"
abbreviation (input) EC_BLOCKED :: ErrorCode where "EC_BLOCKED \<equiv> 202"
abbreviation (input) EC_REQUEST_PENDING :: ErrorCode where "EC_REQUEST_PENDING \<equiv> 203"
abbreviation (input) EC_REQUEST_NOT_FOUND :: ErrorCode where "EC_REQUEST_NOT_FOUND \<equiv> 204"
abbreviation (input) EC_REQUEST_EXPIRED :: ErrorCode where "EC_REQUEST_EXPIRED \<equiv> 205"
abbreviation (input) EC_SELF_OPERATION :: ErrorCode where "EC_SELF_OPERATION \<equiv> 206"
abbreviation (input) EC_FRIEND_LIMIT_REACHED :: ErrorCode where "EC_FRIEND_LIMIT_REACHED \<equiv> 207"
abbreviation (input) EC_BLOCK_LIMIT_REACHED :: ErrorCode where "EC_BLOCK_LIMIT_REACHED \<equiv> 208"
abbreviation (input) EC_ALREADY_BLOCKED :: ErrorCode where "EC_ALREADY_BLOCKED \<equiv> 209"
abbreviation (input) EC_NOT_BLOCKED :: ErrorCode where "EC_NOT_BLOCKED \<equiv> 210"
abbreviation (input) EC_FRIEND_GROUP_DEFAULT :: ErrorCode where "EC_FRIEND_GROUP_DEFAULT \<equiv> 211"
abbreviation (input) EC_FRIEND_GROUP_NOT_FOUND :: ErrorCode where "EC_FRIEND_GROUP_NOT_FOUND \<equiv> 212"
abbreviation (input) EC_MSG_NOT_FOUND :: ErrorCode where "EC_MSG_NOT_FOUND \<equiv> 300"
abbreviation (input) EC_RECALL_TIMEOUT :: ErrorCode where "EC_RECALL_TIMEOUT \<equiv> 301"
abbreviation (input) EC_RECALL_NOT_ALLOWED :: ErrorCode where "EC_RECALL_NOT_ALLOWED \<equiv> 302"
abbreviation (input) EC_MSG_TOO_LONG :: ErrorCode where "EC_MSG_TOO_LONG \<equiv> 303"
abbreviation (input) EC_MSG_EMPTY :: ErrorCode where "EC_MSG_EMPTY \<equiv> 304"
abbreviation (input) EC_MSG_TYPE_INVALID :: ErrorCode where "EC_MSG_TYPE_INVALID \<equiv> 305"
abbreviation (input) EC_CONVERSATION_NOT_FOUND :: ErrorCode where "EC_CONVERSATION_NOT_FOUND \<equiv> 306"
abbreviation (input) EC_MSG_SEND_FAILED :: ErrorCode where "EC_MSG_SEND_FAILED \<equiv> 307"
abbreviation (input) EC_MSG_ALREADY_READ :: ErrorCode where "EC_MSG_ALREADY_READ \<equiv> 308"
abbreviation (input) EC_OFFLINE_MSG_LIMIT :: ErrorCode where "EC_OFFLINE_MSG_LIMIT \<equiv> 309"
abbreviation (input) EC_MSG_FILTERED :: ErrorCode where "EC_MSG_FILTERED \<equiv> 310"
abbreviation (input) EC_RECEIVER_OFFLINE :: ErrorCode where "EC_RECEIVER_OFFLINE \<equiv> 311"
abbreviation (input) EC_RECEIVER_BLOCKED :: ErrorCode where "EC_RECEIVER_BLOCKED \<equiv> 312"
abbreviation (input) EC_CONVERSATION_PRIVATE_CANNOT_DELETE :: ErrorCode where "EC_CONVERSATION_PRIVATE_CANNOT_DELETE \<equiv> 313"
abbreviation (input) EC_FILE_TOO_LARGE :: ErrorCode where "EC_FILE_TOO_LARGE \<equiv> 400"
abbreviation (input) EC_FILE_TYPE_NOT_ALLOWED :: ErrorCode where "EC_FILE_TYPE_NOT_ALLOWED \<equiv> 401"
abbreviation (input) EC_UPLOAD_FAILED :: ErrorCode where "EC_UPLOAD_FAILED \<equiv> 402"
abbreviation (input) EC_DOWNLOAD_FAILED :: ErrorCode where "EC_DOWNLOAD_FAILED \<equiv> 403"
abbreviation (input) EC_FILE_NOT_FOUND :: ErrorCode where "EC_FILE_NOT_FOUND \<equiv> 404"
abbreviation (input) EC_FILE_EXPIRED :: ErrorCode where "EC_FILE_EXPIRED \<equiv> 405"
abbreviation (input) EC_STORAGE_FULL :: ErrorCode where "EC_STORAGE_FULL \<equiv> 406"
abbreviation (input) EC_FILE_CORRUPTED :: ErrorCode where "EC_FILE_CORRUPTED \<equiv> 407"
abbreviation (input) EC_CHECKSUM_MISMATCH :: ErrorCode where "EC_CHECKSUM_MISMATCH \<equiv> 408"
abbreviation (input) EC_UPLOAD_INCOMPLETE :: ErrorCode where "EC_UPLOAD_INCOMPLETE \<equiv> 409"
abbreviation (input) EC_FILE_LOCKED :: ErrorCode where "EC_FILE_LOCKED \<equiv> 410"
abbreviation (input) EC_THUMBNAIL_FAILED :: ErrorCode where "EC_THUMBNAIL_FAILED \<equiv> 411"
abbreviation (input) EC_GROUP_NOT_FOUND :: ErrorCode where "EC_GROUP_NOT_FOUND \<equiv> 500"
abbreviation (input) EC_GROUP_ALREADY_EXISTS :: ErrorCode where "EC_GROUP_ALREADY_EXISTS \<equiv> 501"
abbreviation (input) EC_GROUP_FULL :: ErrorCode where "EC_GROUP_FULL \<equiv> 502"
abbreviation (input) EC_NOT_GROUP_MEMBER :: ErrorCode where "EC_NOT_GROUP_MEMBER \<equiv> 503"
abbreviation (input) EC_ALREADY_GROUP_MEMBER :: ErrorCode where "EC_ALREADY_GROUP_MEMBER \<equiv> 504"
abbreviation (input) EC_NOT_GROUP_ADMIN :: ErrorCode where "EC_NOT_GROUP_ADMIN \<equiv> 505"
abbreviation (input) EC_NOT_GROUP_OWNER :: ErrorCode where "EC_NOT_GROUP_OWNER \<equiv> 506"
abbreviation (input) EC_GROUP_DISBANDED :: ErrorCode where "EC_GROUP_DISBANDED \<equiv> 507"
abbreviation (input) EC_INVITE_NOT_ALLOWED :: ErrorCode where "EC_INVITE_NOT_ALLOWED \<equiv> 508"
abbreviation (input) EC_JOIN_NOT_ALLOWED :: ErrorCode where "EC_JOIN_NOT_ALLOWED \<equiv> 509"
abbreviation (input) EC_KICK_NOT_ALLOWED :: ErrorCode where "EC_KICK_NOT_ALLOWED \<equiv> 510"
abbreviation (input) EC_GROUP_MUTED :: ErrorCode where "EC_GROUP_MUTED \<equiv> 511"
abbreviation (input) EC_MEMBER_MUTED :: ErrorCode where "EC_MEMBER_MUTED \<equiv> 512"
abbreviation (input) EC_GROUP_NAME_INVALID :: ErrorCode where "EC_GROUP_NAME_INVALID \<equiv> 513"
abbreviation (input) EC_ADMIN_LIMIT_REACHED :: ErrorCode where "EC_ADMIN_LIMIT_REACHED \<equiv> 514"
abbreviation (input) EC_OWNER_CANNOT_LEAVE :: ErrorCode where "EC_OWNER_CANNOT_LEAVE \<equiv> 515"
abbreviation (input) EC_CANNOT_KICK_ADMIN :: ErrorCode where "EC_CANNOT_KICK_ADMIN \<equiv> 516"
abbreviation (input) EC_GROUP_MEMBERS_TOO_FEW :: ErrorCode where "EC_GROUP_MEMBERS_TOO_FEW \<equiv> 517"
abbreviation (input) EC_CONNECTION_CLOSED :: ErrorCode where "EC_CONNECTION_CLOSED \<equiv> 600"
abbreviation (input) EC_CONNECTION_TIMEOUT :: ErrorCode where "EC_CONNECTION_TIMEOUT \<equiv> 601"
abbreviation (input) EC_HANDSHAKE_FAILED :: ErrorCode where "EC_HANDSHAKE_FAILED \<equiv> 602"
abbreviation (input) EC_PROTOCOL_ERROR :: ErrorCode where "EC_PROTOCOL_ERROR \<equiv> 603"
abbreviation (input) EC_MESSAGE_TOO_LARGE :: ErrorCode where "EC_MESSAGE_TOO_LARGE \<equiv> 604"
abbreviation (input) EC_INVALID_FRAME :: ErrorCode where "EC_INVALID_FRAME \<equiv> 605"
abbreviation (input) EC_PING_TIMEOUT :: ErrorCode where "EC_PING_TIMEOUT \<equiv> 606"
abbreviation (input) EC_TOO_MANY_CONNECTIONS :: ErrorCode where "EC_TOO_MANY_CONNECTIONS \<equiv> 607"
abbreviation (input) EC_KICK_BY_SERVER :: ErrorCode where "EC_KICK_BY_SERVER \<equiv> 608"
abbreviation (input) EC_DUPLICATE_LOGIN :: ErrorCode where "EC_DUPLICATE_LOGIN \<equiv> 609"
abbreviation (input) EC_UPSTREAM_UNAVAILABLE :: ErrorCode where "EC_UPSTREAM_UNAVAILABLE \<equiv> 610"
abbreviation (input) EC_ROUTE_NOT_FOUND :: ErrorCode where "EC_ROUTE_NOT_FOUND \<equiv> 700"
abbreviation (input) EC_USER_OFFLINE :: ErrorCode where "EC_USER_OFFLINE \<equiv> 701"
abbreviation (input) EC_GATE_NOT_FOUND :: ErrorCode where "EC_GATE_NOT_FOUND \<equiv> 702"
abbreviation (input) EC_GATE_UNAVAILABLE :: ErrorCode where "EC_GATE_UNAVAILABLE \<equiv> 703"
abbreviation (input) EC_SESSION_NOT_FOUND :: ErrorCode where "EC_SESSION_NOT_FOUND \<equiv> 704"
abbreviation (input) EC_FORWARD_FAILED :: ErrorCode where "EC_FORWARD_FAILED \<equiv> 705"
abbreviation (input) EC_BROADCAST_FAILED :: ErrorCode where "EC_BROADCAST_FAILED \<equiv> 706"
abbreviation (input) EC_DB_CONNECTION_FAILED :: ErrorCode where "EC_DB_CONNECTION_FAILED \<equiv> 800"
abbreviation (input) EC_DB_QUERY_FAILED :: ErrorCode where "EC_DB_QUERY_FAILED \<equiv> 801"
abbreviation (input) EC_DB_WRITE_FAILED :: ErrorCode where "EC_DB_WRITE_FAILED \<equiv> 802"
abbreviation (input) EC_DB_TRANSACTION_FAILED :: ErrorCode where "EC_DB_TRANSACTION_FAILED \<equiv> 803"
abbreviation (input) EC_CACHE_MISS :: ErrorCode where "EC_CACHE_MISS \<equiv> 804"
abbreviation (input) EC_CACHE_WRITE_FAILED :: ErrorCode where "EC_CACHE_WRITE_FAILED \<equiv> 805"
abbreviation (input) EC_REDIS_CONNECTION_FAILED :: ErrorCode where "EC_REDIS_CONNECTION_FAILED \<equiv> 806"
abbreviation (input) EC_ROCKSDB_ERROR :: ErrorCode where "EC_ROCKSDB_ERROR \<equiv> 807"
abbreviation (input) EC_RPC_FAILED :: ErrorCode where "EC_RPC_FAILED \<equiv> 900"
abbreviation (input) EC_RPC_TIMEOUT :: ErrorCode where "EC_RPC_TIMEOUT \<equiv> 901"
abbreviation (input) EC_RPC_CANCELLED :: ErrorCode where "EC_RPC_CANCELLED \<equiv> 902"
abbreviation (input) EC_SERVICE_NOT_FOUND :: ErrorCode where "EC_SERVICE_NOT_FOUND \<equiv> 903"
abbreviation (input) EC_NETWORK_ERROR :: ErrorCode where "EC_NETWORK_ERROR \<equiv> 904"
abbreviation (input) EC_DNS_FAILED :: ErrorCode where "EC_DNS_FAILED \<equiv> 905"
abbreviation (input) EC_SSL_ERROR :: ErrorCode where "EC_SSL_ERROR \<equiv> 906"

definition ErrorCode_enum :: "ErrorCode list" where
  "ErrorCode_enum =
    [EC_OK,
     EC_UNKNOWN,
     EC_INVALID_PARAM,
     EC_INTERNAL_ERROR,
     EC_NOT_FOUND,
     EC_ALREADY_EXISTS,
     EC_PERMISSION_DENIED,
     EC_RATE_LIMITED,
     EC_SERVICE_UNAVAILABLE,
     EC_TIMEOUT,
     EC_CANCELLED,
     EC_DATA_CORRUPTED,
     EC_UNSUPPORTED,
     EC_AUTH_FAILED,
     EC_TOKEN_EXPIRED,
     EC_TOKEN_INVALID,
     EC_USER_NOT_FOUND,
     EC_PASSWORD_WRONG,
     EC_USER_ALREADY_EXISTS,
     EC_USERNAME_INVALID,
     EC_PASSWORD_TOO_WEAK,
     EC_ACCOUNT_DISABLED,
     EC_ACCOUNT_LOCKED,
     EC_EMAIL_INVALID,
     EC_EMAIL_ALREADY_USED,
     EC_PHONE_INVALID,
     EC_PHONE_ALREADY_USED,
     EC_VERIFY_CODE_WRONG,
     EC_VERIFY_CODE_EXPIRED,
     EC_LOGIN_ELSEWHERE,
     EC_SESSION_INVALID,
     EC_FRIEND_ALREADY,
     EC_FRIEND_NOT_FOUND,
     EC_BLOCKED,
     EC_REQUEST_PENDING,
     EC_REQUEST_NOT_FOUND,
     EC_REQUEST_EXPIRED,
     EC_SELF_OPERATION,
     EC_FRIEND_LIMIT_REACHED,
     EC_BLOCK_LIMIT_REACHED,
     EC_ALREADY_BLOCKED,
     EC_NOT_BLOCKED,
     EC_FRIEND_GROUP_DEFAULT,
     EC_FRIEND_GROUP_NOT_FOUND,
     EC_MSG_NOT_FOUND,
     EC_RECALL_TIMEOUT,
     EC_RECALL_NOT_ALLOWED,
     EC_MSG_TOO_LONG,
     EC_MSG_EMPTY,
     EC_MSG_TYPE_INVALID,
     EC_CONVERSATION_NOT_FOUND,
     EC_MSG_SEND_FAILED,
     EC_MSG_ALREADY_READ,
     EC_OFFLINE_MSG_LIMIT,
     EC_MSG_FILTERED,
     EC_RECEIVER_OFFLINE,
     EC_RECEIVER_BLOCKED,
     EC_CONVERSATION_PRIVATE_CANNOT_DELETE,
     EC_FILE_TOO_LARGE,
     EC_FILE_TYPE_NOT_ALLOWED,
     EC_UPLOAD_FAILED,
     EC_DOWNLOAD_FAILED,
     EC_FILE_NOT_FOUND,
     EC_FILE_EXPIRED,
     EC_STORAGE_FULL,
     EC_FILE_CORRUPTED,
     EC_CHECKSUM_MISMATCH,
     EC_UPLOAD_INCOMPLETE,
     EC_FILE_LOCKED,
     EC_THUMBNAIL_FAILED,
     EC_GROUP_NOT_FOUND,
     EC_GROUP_ALREADY_EXISTS,
     EC_GROUP_FULL,
     EC_NOT_GROUP_MEMBER,
     EC_ALREADY_GROUP_MEMBER,
     EC_NOT_GROUP_ADMIN,
     EC_NOT_GROUP_OWNER,
     EC_GROUP_DISBANDED,
     EC_INVITE_NOT_ALLOWED,
     EC_JOIN_NOT_ALLOWED,
     EC_KICK_NOT_ALLOWED,
     EC_GROUP_MUTED,
     EC_MEMBER_MUTED,
     EC_GROUP_NAME_INVALID,
     EC_ADMIN_LIMIT_REACHED,
     EC_OWNER_CANNOT_LEAVE,
     EC_CANNOT_KICK_ADMIN,
     EC_GROUP_MEMBERS_TOO_FEW,
     EC_CONNECTION_CLOSED,
     EC_CONNECTION_TIMEOUT,
     EC_HANDSHAKE_FAILED,
     EC_PROTOCOL_ERROR,
     EC_MESSAGE_TOO_LARGE,
     EC_INVALID_FRAME,
     EC_PING_TIMEOUT,
     EC_TOO_MANY_CONNECTIONS,
     EC_KICK_BY_SERVER,
     EC_DUPLICATE_LOGIN,
     EC_UPSTREAM_UNAVAILABLE,
     EC_ROUTE_NOT_FOUND,
     EC_USER_OFFLINE,
     EC_GATE_NOT_FOUND,
     EC_GATE_UNAVAILABLE,
     EC_SESSION_NOT_FOUND,
     EC_FORWARD_FAILED,
     EC_BROADCAST_FAILED,
     EC_DB_CONNECTION_FAILED,
     EC_DB_QUERY_FAILED,
     EC_DB_WRITE_FAILED,
     EC_DB_TRANSACTION_FAILED,
     EC_CACHE_MISS,
     EC_CACHE_WRITE_FAILED,
     EC_REDIS_CONNECTION_FAILED,
     EC_ROCKSDB_ERROR,
     EC_RPC_FAILED,
     EC_RPC_TIMEOUT,
     EC_RPC_CANCELLED,
     EC_SERVICE_NOT_FOUND,
     EC_NETWORK_ERROR,
     EC_DNS_FAILED,
     EC_SSL_ERROR]"

definition messages :: "(ErrorCode \<times> string) list" where
  "messages =
    [(EC_OK, ''success''),
     (EC_UNKNOWN, ''unknown error''),
     (EC_INVALID_PARAM, ''invalid parameter''),
     (EC_INTERNAL_ERROR, ''internal error''),
     (EC_NOT_FOUND, ''not found''),
     (EC_ALREADY_EXISTS, ''already exists''),
     (EC_PERMISSION_DENIED, ''permission denied''),
     (EC_RATE_LIMITED, ''rate limited''),
     (EC_SERVICE_UNAVAILABLE, ''service unavailable''),
     (EC_TIMEOUT, ''timeout''),
     (EC_CANCELLED, ''cancelled''),
     (EC_DATA_CORRUPTED, ''data corrupted''),
     (EC_UNSUPPORTED, ''unsupported''),
     (EC_AUTH_FAILED, ''authentication failed''),
     (EC_TOKEN_EXPIRED, ''token expired''),
     (EC_TOKEN_INVALID, ''token invalid''),
     (EC_USER_NOT_FOUND, ''user not found''),
     (EC_PASSWORD_WRONG, ''password wrong''),
     (EC_USER_ALREADY_EXISTS, ''user already exists''),
     (EC_USERNAME_INVALID, ''username invalid''),
     (EC_PASSWORD_TOO_WEAK, ''password too weak''),
     (EC_ACCOUNT_DISABLED, ''account disabled''),
     (EC_ACCOUNT_LOCKED, ''account locked''),
     (EC_EMAIL_INVALID, ''email invalid''),
     (EC_EMAIL_ALREADY_USED, ''email already used''),
     (EC_PHONE_INVALID, ''phone invalid''),
     (EC_PHONE_ALREADY_USED, ''phone already used''),
     (EC_VERIFY_CODE_WRONG, ''verify code wrong''),
     (EC_VERIFY_CODE_EXPIRED, ''verify code expired''),
     (EC_LOGIN_ELSEWHERE, ''login elsewhere''),
     (EC_SESSION_INVALID, ''session invalid''),
     (EC_FRIEND_ALREADY, ''already friends''),
     (EC_FRIEND_NOT_FOUND, ''friend not found''),
     (EC_BLOCKED, ''blocked by user''),
     (EC_REQUEST_PENDING, ''request pending''),
     (EC_REQUEST_NOT_FOUND, ''request not found''),
     (EC_REQUEST_EXPIRED, ''request expired''),
     (EC_SELF_OPERATION, ''cannot operate on self''),
     (EC_FRIEND_LIMIT_REACHED, ''friend limit reached''),
     (EC_BLOCK_LIMIT_REACHED, ''block limit reached''),
     (EC_ALREADY_BLOCKED, ''already blocked''),
     (EC_NOT_BLOCKED, ''not blocked''),
     (EC_MSG_NOT_FOUND, ''message not found''),
     (EC_RECALL_TIMEOUT, ''recall timeout''),
     (EC_RECALL_NOT_ALLOWED, ''recall not allowed''),
     (EC_MSG_TOO_LONG, ''message too long''),
     (EC_MSG_EMPTY, ''message empty''),
     (EC_MSG_TYPE_INVALID, ''message type invalid''),
     (EC_CONVERSATION_NOT_FOUND, ''conversation not found''),
     (EC_MSG_SEND_FAILED, ''message send failed''),
     (EC_MSG_ALREADY_READ, ''message already read''),
     (EC_OFFLINE_MSG_LIMIT, ''offline message limit''),
     (EC_MSG_FILTERED, ''message filtered''),
     (EC_RECEIVER_OFFLINE, ''receiver offline''),
     (EC_RECEIVER_BLOCKED, ''receiver blocked''),
     (EC_CONVERSATION_PRIVATE_CANNOT_DELETE, ''private conversation cannot be deleted''),
     (EC_FILE_TOO_LARGE, ''file too large''),
     (EC_FILE_TYPE_NOT_ALLOWED, ''file type not allowed''),
     (EC_UPLOAD_FAILED, ''upload failed''),
     (EC_DOWNLOAD_FAILED, ''download failed''),
     (EC_FILE_NOT_FOUND, ''file not found''),
     (EC_FILE_EXPIRED, ''file expired''),
     (EC_STORAGE_FULL, ''storage full''),
     (EC_FILE_CORRUPTED, ''file corrupted''),
     (EC_CHECKSUM_MISMATCH, ''checksum mismatch''),
     (EC_UPLOAD_INCOMPLETE, ''upload incomplete''),
     (EC_FILE_LOCKED, ''file locked''),
     (EC_THUMBNAIL_FAILED, ''thumbnail failed''),
     (EC_GROUP_NOT_FOUND, ''group not found''),
     (EC_GROUP_ALREADY_EXISTS, ''group already exists''),
     (EC_GROUP_FULL, ''group full''),
     (EC_NOT_GROUP_MEMBER, ''not group member''),
     (EC_ALREADY_GROUP_MEMBER, ''already group member''),
     (EC_NOT_GROUP_ADMIN, ''not group admin''),
     (EC_NOT_GROUP_OWNER, ''not group owner''),
     (EC_GROUP_DISBANDED, ''group disbanded''),
     (EC_INVITE_NOT_ALLOWED, ''invite not allowed''),
     (EC_JOIN_NOT_ALLOWED, ''join not allowed''),
     (EC_KICK_NOT_ALLOWED, ''kick not allowed''),
     (EC_GROUP_MUTED, ''group muted''),
     (EC_MEMBER_MUTED, ''member muted''),
     (EC_GROUP_NAME_INVALID, ''group name invalid''),
     (EC_ADMIN_LIMIT_REACHED, ''admin limit reached''),
     (EC_OWNER_CANNOT_LEAVE, ''owner cannot leave''),
     (EC_CANNOT_KICK_ADMIN, ''cannot kick admin''),
     (EC_GROUP_MEMBERS_TOO_FEW, ''group requires at least 3 members''),
     (EC_CONNECTION_CLOSED, ''connection closed''),
     (EC_CONNECTION_TIMEOUT, ''connection timeout''),
     (EC_HANDSHAKE_FAILED, ''handshake failed''),
     (EC_PROTOCOL_ERROR, ''protocol error''),
     (EC_MESSAGE_TOO_LARGE, ''message too large''),
     (EC_INVALID_FRAME, ''invalid frame''),
     (EC_PING_TIMEOUT, ''ping timeout''),
     (EC_TOO_MANY_CONNECTIONS, ''too many connections''),
     (EC_KICK_BY_SERVER, ''kick by server''),
     (EC_DUPLICATE_LOGIN, ''duplicate login''),
     (EC_UPSTREAM_UNAVAILABLE, ''upstream service not configured''),
     (EC_ROUTE_NOT_FOUND, ''route not found''),
     (EC_USER_OFFLINE, ''user offline''),
     (EC_GATE_NOT_FOUND, ''gate not found''),
     (EC_GATE_UNAVAILABLE, ''gate unavailable''),
     (EC_SESSION_NOT_FOUND, ''session not found''),
     (EC_FORWARD_FAILED, ''forward failed''),
     (EC_BROADCAST_FAILED, ''broadcast failed''),
     (EC_DB_CONNECTION_FAILED, ''database connection failed''),
     (EC_DB_QUERY_FAILED, ''database query failed''),
     (EC_DB_WRITE_FAILED, ''database write failed''),
     (EC_DB_TRANSACTION_FAILED, ''database transaction failed''),
     (EC_CACHE_MISS, ''cache miss''),
     (EC_CACHE_WRITE_FAILED, ''cache write failed''),
     (EC_REDIS_CONNECTION_FAILED, ''redis connection failed''),
     (EC_ROCKSDB_ERROR, ''rocksdb error''),
     (EC_RPC_FAILED, ''rpc failed''),
     (EC_RPC_TIMEOUT, ''rpc timeout''),
     (EC_RPC_CANCELLED, ''rpc cancelled''),
     (EC_SERVICE_NOT_FOUND, ''service not found''),
     (EC_NETWORK_ERROR, ''network error''),
     (EC_DNS_FAILED, ''dns failed''),
     (EC_SSL_ERROR, ''ssl error'')]"

definition ErrorCodeToString :: "ErrorCode \<Rightarrow> string" where
  "ErrorCodeToString c = (case map_of messages c of Some m \<Rightarrow> m | None \<Rightarrow> ''unknown'')"

definition ErrorCodeToInt :: "ErrorCode \<Rightarrow> int" where
  "ErrorCodeToInt c = c"

section \<open>Error, Result and Status\<close>

record Error =
  err_code :: ErrorCode
  err_message :: string

definition Error_of_code :: "ErrorCode \<Rightarrow> Error" where
  "Error_of_code c = \<lparr>err_code = c, err_message = ErrorCodeToString c\<rparr>"

definition Error_ok :: "Error \<Rightarrow> bool" where
  "Error_ok e \<longleftrightarrow> err_code e = EC_OK"

definition Error_ToString :: "Error \<Rightarrow> string" where
  "Error_ToString e = ''['' @ to_string (ErrorCodeToInt (err_code e)) @ ''] '' @ err_message e"

text \<open>\<^verbatim>\<open>Result<T>\<close> holds a value or an error, \<^verbatim>\<open>Status\<close> an error whose code may be \<^verbatim>\<open>OK\<close>.\<close>

type_synonym 'a Result = "Error + 'a"

definition Result_ok :: "'a Result \<Rightarrow> bool" where
  "Result_ok r \<longleftrightarrow> (case r of Inr _ \<Rightarrow> True | Inl _ \<Rightarrow> False)"

definition Result_value_or :: "'a Result \<Rightarrow> 'a \<Rightarrow> 'a" where
  "Result_value_or r d = (case r of Inr v \<Rightarrow> v | Inl _ \<Rightarrow> d)"

type_synonym Status = Error

definition Status_OK :: Status where
  "Status_OK = Error_of_code EC_OK"

definition Status_ok :: "Status \<Rightarrow> bool" where
  "Status_ok s \<longleftrightarrow> Error_ok s"

section \<open>The tables agree\<close>

lemma enum_codes_distinct: "distinct (ErrorCode_enum)"
  by (simp add: ErrorCode_enum_def)

lemma message_codes: "map fst messages = filter (\<lambda>c. c \<notin> {EC_FRIEND_GROUP_DEFAULT, EC_FRIEND_GROUP_NOT_FOUND})
    (ErrorCode_enum)"
  by (simp add: ErrorCode_enum_def messages_def)

lemma message_texts_distinct: "distinct (map snd messages)"
  by (simp add: messages_def)

lemma unknown_is_no_message: "''unknown'' \<notin> snd ` set messages"
  by (simp add: messages_def)

lemma ErrorCodeToString_inj:
  assumes "c \<in> fst ` set messages" "ErrorCodeToString c = ErrorCodeToString d"
  shows "c = d"
proof -
  from assms(1) obtain m where m: "map_of messages c = Some m"
    by (metis map_of_eq_None_iff option.exhaust)
  then have in1: "(c, m) \<in> set messages" by (rule map_of_SomeD)
  have "ErrorCodeToString c = m" by (simp add: ErrorCodeToString_def m)
  moreover from in1 have "m \<in> snd ` set messages" by (metis image_eqI snd_conv)
  ultimately have "map_of messages d = Some m"
    using assms(2) unknown_is_no_message
    by (auto simp: ErrorCodeToString_def split: option.splits)
  then have "(d, m) \<in> set messages" by (rule map_of_SomeD)
  with in1 message_texts_distinct show ?thesis
    by (metis inj_onD distinct_map prod.inject snd_conv)
qed

text \<open>Every enumerator except \<^verbatim>\<open>FRIEND_GROUP_DEFAULT\<close> and \<^verbatim>\<open>FRIEND_GROUP_NOT_FOUND\<close> has a message of its
  own; those two, which the table leaves out, both read as \<^verbatim>\<open>unknown\<close>.\<close>

theorem ErrorCodeToString_separates:
  assumes "c \<in> set ErrorCode_enum" and "d \<in> set ErrorCode_enum" and "c \<noteq> d"
  shows "(ErrorCodeToString c = ErrorCodeToString d) =
      ({c, d} = {EC_FRIEND_GROUP_DEFAULT, EC_FRIEND_GROUP_NOT_FOUND})
    \<and> ErrorCodeToString EC_FRIEND_GROUP_DEFAULT = ''unknown'' \<and> ErrorCodeToString EC_FRIEND_GROUP_NOT_FOUND = ''unknown''"
proof -
  let ?miss = "{EC_FRIEND_GROUP_DEFAULT, EC_FRIEND_GROUP_NOT_FOUND}"
  have dom: "e \<in> fst ` set messages \<longleftrightarrow> e \<in> set ErrorCode_enum \<and> e \<notin> ?miss" for e
    using arg_cong [OF message_codes, of set] by auto
  have miss: "ErrorCodeToString e = ''unknown''" if "e \<in> ?miss" for e
  proof -
    from that have "map_of messages e = None" unfolding map_of_eq_None_iff dom by simp
    then show ?thesis by (simp add: ErrorCodeToString_def)
  qed
  have "(ErrorCodeToString c = ErrorCodeToString d) = ({c, d} = ?miss)"
  proof (cases "c \<in> ?miss \<and> d \<in> ?miss")
    case True
    with assms(3) have "{c, d} = ?miss" by auto
    with True show ?thesis using miss by metis
  next
    case False
    then have "c \<in> fst ` set messages \<or> d \<in> fst ` set messages" using assms(1,2) dom by blast
    then have "ErrorCodeToString c \<noteq> ErrorCodeToString d"
      using assms(3) ErrorCodeToString_inj [of c d] ErrorCodeToString_inj [of d c] by metis
    with False show ?thesis by blast
  qed
  with miss show ?thesis by simp
qed

theorem ErrorCodeToString_separates_witness:
  "ErrorCodeToString EC_USER_NOT_FOUND \<noteq> ErrorCodeToString EC_PASSWORD_WRONG"
  using ErrorCodeToString_separates [of EC_USER_NOT_FOUND EC_PASSWORD_WRONG] by (auto simp: ErrorCode_enum_def)

end
