(* ===== verification/Swift_Utils.thy ===== *)
theory Swift_Utils
  imports Cpp_Std
begin

unbundle bit_operations_syntax

text \<open>
  \<^verbatim>\<open>backend/common/src/utils.cpp\<close>: identifiers, hexadecimal and URL encoding, string
  handling and number parsing.  Random draws and clock readings are arguments.  The
  hashing and Base64 functions call OpenSSL and are arguments of the definitions that use
  them in other theories.
\<close>

section \<open>Identifiers\<close>

definition kAlphaNum :: string where
  "kAlphaNum = ''0123456789'' @ ''ABCDEFGHIJKLMNOPQRSTUVWXYZ'' @ ''abcdefghijklmnopqrstuvwxyz''"

definition kHexChars :: string where
  "kHexChars = ''0123456789abcdef''"

text \<open>
  \<open>draws\<close> are the values that the uniform distribution on \<^verbatim>\<open>[0, chars.size() - 1]\<close>
  produces in this call, one per character.
\<close>

definition RandomString :: "nat list \<Rightarrow> nat \<Rightarrow> string \<Rightarrow> string" where
  "RandomString draws len charset =
     (let chars = (if charset = [] then kAlphaNum else charset)
      in map (\<lambda>i. chars ! (draws ! i)) [0..<len])"

definition GenerateShortId :: "nat list \<Rightarrow> string \<Rightarrow> nat \<Rightarrow> string" where
  "GenerateShortId draws pre len = pre @ RandomString draws len []"

text \<open>What the distribution and the loop guarantee about the draws of one call.\<close>

definition draws_ok :: "nat \<Rightarrow> nat list \<Rightarrow> bool" where
  "draws_ok len draws \<longleftrightarrow> len \<le> length draws \<and> (\<forall>d \<in> set draws. d < length kAlphaNum)"

text \<open>\<open>r\<close> gives the five 64-bit values that one call draws.\<close>

definition setw_hex :: "nat \<Rightarrow> nat \<Rightarrow> string" where
  "setw_hex w n = pad0 w (show_hex n)"

definition GenerateUUID :: "(nat \<Rightarrow> nat) \<Rightarrow> string" where
  "GenerateUUID r =
     setw_hex 8 (r 0 AND 0xFFFFFFFF) @ ''-'' @
     setw_hex 4 (r 1 AND 0xFFFF) @ ''-'' @
     setw_hex 4 ((r 2 AND 0x0FFF) OR 0x4000) @ ''-'' @
     setw_hex 4 ((r 3 AND 0x3FFF) OR 0x8000) @ ''-'' @
     setw_hex 12 (r 4 AND 0xFFFFFFFFFFFF)"

section \<open>Hexadecimal and URL encoding\<close>

definition BytesToHex :: "string \<Rightarrow> string" where
  "BytesToHex data =
     concat (map (\<lambda>b. [kHexChars ! ((code b div 16) AND 0x0F), kHexChars ! (code b AND 0x0F)]) data)"

text \<open>
  Digests: \<open>evp input\<close> is what OpenSSL's EVP calls compute for one message digest, \<open>None\<close> when one
  of them fails; \<open>hmac key data\<close> are the raw bytes of OpenSSL's HMAC-SHA256.
\<close>

definition ComputeDigestHex :: "(string \<Rightarrow> string option) \<Rightarrow> string \<Rightarrow> string" where
  "ComputeDigestHex evp input = (case evp input of None \<Rightarrow> [] | Some hash \<Rightarrow> BytesToHex hash)"

definition SHA256 :: "(string \<Rightarrow> string option) \<Rightarrow> string \<Rightarrow> string" where
  "SHA256 evp_sha256 input = ComputeDigestHex evp_sha256 input"

definition SHA512 :: "(string \<Rightarrow> string option) \<Rightarrow> string \<Rightarrow> string" where
  "SHA512 evp_sha512 input = ComputeDigestHex evp_sha512 input"

definition MD5 :: "(string \<Rightarrow> string option) \<Rightarrow> string \<Rightarrow> string" where
  "MD5 evp_md5 input = ComputeDigestHex evp_md5 input"

definition HmacSHA256 :: "(string \<Rightarrow> string \<Rightarrow> string) \<Rightarrow> string \<Rightarrow> string \<Rightarrow> string" where
  "HmacSHA256 hmac key data = BytesToHex (hmac key data)"

definition HexEncode :: "string \<Rightarrow> string" where
  "HexEncode input = BytesToHex input"

definition hex_digit_value :: "char \<Rightarrow> int" where
  "hex_digit_value c =
     (if isdigit c then int (code c) - 48 else int (code (tolower c)) - 97 + 10)"

fun HexDecode :: "string \<Rightarrow> string" where
  "HexDecode (high # low # rest) =
     char_of (nat (((hex_digit_value high * 16) OR hex_digit_value low) mod 256)) # HexDecode rest"
| "HexDecode _ = []"

definition url_unreserved :: "char \<Rightarrow> bool" where
  "url_unreserved c \<longleftrightarrow>
     isalnum c \<or> c = CHR ''-'' \<or> c = CHR ''_'' \<or> c = CHR ''.'' \<or> c = CHR ''~''"

fun UrlEncode :: "string \<Rightarrow> string" where
  "UrlEncode [] = []"
| "UrlEncode (c # s) =
     (if url_unreserved c then c # UrlEncode s
      else CHR ''%'' # setw_hex 2 (code c) @ UrlEncode s)"

text \<open>
  The loop reads \<open>input[i]\<close>; a percent sign with two more characters behind it is decoded
  when the two characters parse as a hexadecimal number, and copied otherwise.
\<close>

fun UrlDecode :: "string \<Rightarrow> string" where
  "UrlDecode [] = []"
| "UrlDecode (c # s) =
     (if c = CHR ''%'' \<and> 2 \<le> length s then
        (case hex_extract (take 2 s) of
           Some val \<Rightarrow> char_of (nat (val mod 256)) # UrlDecode (drop 2 s)
         | None \<Rightarrow> c # UrlDecode s)
      else if c = CHR ''+'' then CHR '' '' # UrlDecode s
      else c # UrlDecode s)"

section \<open>Strings\<close>

text \<open>\<^verbatim>\<open>Split\<close> on a character: \<^verbatim>\<open>std::getline\<close> until the stream is exhausted.\<close>

function Split_char :: "string \<Rightarrow> char \<Rightarrow> string list" where
  "Split_char str d =
     (if str = [] then []
      else takeWhile (\<lambda>c. c \<noteq> d) str # Split_char (drop 1 (dropWhile (\<lambda>c. c \<noteq> d) str)) d)"
  by pat_completeness auto
termination
proof (relation "measure (\<lambda>(str, d). length str)", goal_cases)
  case (2 str d)
  have "length (drop 1 (dropWhile (\<lambda>c. c \<noteq> d) str)) \<le> length str - 1"
    using length_dropWhile_le [of "\<lambda>c. c \<noteq> d" str] by simp
  moreover have "0 < length str" using 2 by simp
  ultimately have "length (drop 1 (dropWhile (\<lambda>c. c \<noteq> d) str)) < length str" by arith
  then show ?case by simp
qed simp

declare Split_char.simps [simp del]

text \<open>\<^verbatim>\<open>Split\<close> on a string: the loop from position \<open>start\<close>.\<close>

function split_loop :: "string \<Rightarrow> string \<Rightarrow> nat \<Rightarrow> string list" where
  "split_loop str d start =
     (if d = [] then [drop start str]
      else case find_at d str start of
        None \<Rightarrow> [drop start str]
      | Some e \<Rightarrow> take (e - start) (drop start str) # split_loop str d (e + length d))"
  by pat_completeness auto
termination
proof (relation "measure (\<lambda>(str, d, start). Suc (length str) - start)", goal_cases)
  case (2 str d start e)
  then have "start \<le> e" "e + length d \<le> length str" "0 < length d"
    using find_at_Some [of d str start e] by auto
  then have "Suc (length str) - (e + length d) < Suc (length str) - start" by arith
  then show ?case by simp
qed simp

declare split_loop.simps [simp del]

definition Split :: "string \<Rightarrow> string \<Rightarrow> string list" where
  "Split str d = (if d = [] then [str] else split_loop str d 0)"

fun Join :: "string list \<Rightarrow> string \<Rightarrow> string" where
  "Join [] d = []"
| "Join [p] d = p"
| "Join (p # q # ps) d = p @ d @ Join (q # ps) d"

definition trim_set :: string where
  "trim_set = [CHR '' '', CHR 0x09, CHR 0x0A, CHR 0x0D, CHR 0x0C, CHR 0x0B]"

definition TrimLeft :: "string \<Rightarrow> string" where
  "TrimLeft str = dropWhile (\<lambda>c. c \<in> set trim_set) str"

definition TrimRight :: "string \<Rightarrow> string" where
  "TrimRight str = rev (dropWhile (\<lambda>c. c \<in> set trim_set) (rev str))"

definition Trim :: "string \<Rightarrow> string" where
  "Trim str = TrimLeft (TrimRight str)"

definition ToLower :: "string \<Rightarrow> string" where
  "ToLower str = map tolower str"

definition ToUpper :: "string \<Rightarrow> string" where
  "ToUpper str = map toupper str"

definition Replace :: "string \<Rightarrow> string \<Rightarrow> string \<Rightarrow> string" where
  "Replace str frm to =
     (if frm = [] then str
      else case find_sub frm str of
        None \<Rightarrow> str
      | Some pos \<Rightarrow> take pos str @ to @ drop (pos + length frm) str)"

text \<open>The loop of \<^verbatim>\<open>ReplaceAll\<close>: \<open>result\<close> changes in place and \<open>pos\<close> moves behind the insertion.\<close>

function replace_loop :: "string \<Rightarrow> string \<Rightarrow> string \<Rightarrow> nat \<Rightarrow> string" where
  "replace_loop result frm to pos =
     (if frm = [] then result
      else case find_at frm result pos of
        None \<Rightarrow> result
      | Some p \<Rightarrow>
          replace_loop (take p result @ to @ drop (p + length frm) result) frm to (p + length to))"
  by pat_completeness auto
termination
proof (relation "measure (\<lambda>(result, frm, to, pos). Suc (length result) - pos)", goal_cases)
  case (2 result frm to pos p)
  then have "pos \<le> p" "p + length frm \<le> length result" "0 < length frm"
    using find_at_Some [of frm result pos p] by auto
  then have "Suc (min (length result) p + (length result - (p + length frm))) - p < Suc (length result) - pos"
    by arith
  then show ?case by simp
qed simp

declare replace_loop.simps [simp del]

definition ReplaceAll :: "string \<Rightarrow> string \<Rightarrow> string \<Rightarrow> string" where
  "ReplaceAll str frm to = (if frm = [] then str else replace_loop str frm to 0)"

definition StartsWith :: "string \<Rightarrow> string \<Rightarrow> bool" where
  "StartsWith str pre \<longleftrightarrow> \<not> length str < length pre \<and> take (length pre) str = pre"

definition EndsWith :: "string \<Rightarrow> string \<Rightarrow> bool" where
  "EndsWith str suf \<longleftrightarrow> \<not> length str < length suf \<and> drop (length str - length suf) str = suf"

definition IsDigit :: "string \<Rightarrow> bool" where
  "IsDigit str \<longleftrightarrow> str \<noteq> [] \<and> list_all isdigit str"

definition IsEmpty :: "string \<Rightarrow> bool" where
  "IsEmpty str \<longleftrightarrow> str = []"

definition IsBlank :: "string \<Rightarrow> bool" where
  "IsBlank str \<longleftrightarrow> list_all isspace str"

definition ToInt32 :: "string \<Rightarrow> int \<Rightarrow> int" where
  "ToInt32 str d = (case stoi str of Some x \<Rightarrow> x | None \<Rightarrow> d)"

definition ToInt64 :: "string \<Rightarrow> int \<Rightarrow> int" where
  "ToInt64 str d = (case stoll str of Some x \<Rightarrow> x | None \<Rightarrow> d)"

section \<open>Lemmas\<close>

subsection \<open>Identifiers\<close>

lemma length_GenerateShortId: "length (GenerateShortId draws pre len) = length pre + len"
  by (simp add: GenerateShortId_def RandomString_def Let_def)

lemma kAlphaNum_alnum: "c \<in> set kAlphaNum \<Longrightarrow> isalnum c"
proof -
  have "list_all isalnum kAlphaNum" by code_simp
  then show "c \<in> set kAlphaNum \<Longrightarrow> isalnum c" by (simp add: list_all_iff)
qed

lemma GenerateShortId_chars:
  assumes "draws_ok len draws" "c \<in> set (GenerateShortId draws pre len)"
  shows "c \<in> set pre \<or> isalnum c"
proof -
  have "kAlphaNum ! (draws ! i) \<in> set kAlphaNum" if "i < len" for i
    using assms(1) that by (simp add: draws_ok_def)
  with assms(2) show ?thesis
    by (auto simp: GenerateShortId_def RandomString_def Let_def intro: kAlphaNum_alnum)
qed

lemma isalnum_not_colon: "isalnum c \<Longrightarrow> c \<noteq> CHR '':''"
  by (auto simp: ctype_defs code_def)

lemma clean_GenerateShortId:
  "clean pre \<Longrightarrow> draws_ok len draws \<Longrightarrow> clean (GenerateShortId draws pre len)"
  by (auto simp: clean_def dest!: GenerateShortId_chars isalnum_not_colon)

subsection \<open>Hexadecimal\<close>

lemma kHexChars_nth: "n < 16 \<Longrightarrow> kHexChars ! n = hex_char n"
proof -
  have "list_all (\<lambda>n. kHexChars ! n = hex_char n) [0..<16]" by code_simp
  then show "n < 16 \<Longrightarrow> ?thesis" by (simp add: list_all_iff)
qed

lemma nibble_and: "n AND 0x0F = n mod 16" for n :: nat
  using take_bit_eq_mask [of 4 n] by (simp add: take_bit_eq_mod mask_eq_exp_minus_1)

lemma BytesToHex_Cons:
  "BytesToHex (b # bs) = hex_char (code b div 16) # hex_char (code b mod 16) # BytesToHex bs"
proof -
  have "code b div 16 < 16" using code_less [of b] by arith
  then show ?thesis by (simp add: BytesToHex_def nibble_and kHexChars_nth)
qed

lemma hex_digit_value_hex_char: "d < 16 \<Longrightarrow> hex_digit_value (hex_char d) = int d"
  by (auto simp: hex_digit_value_def hex_char_def isdigit_def tolower_def isupper_def)

lemma or_shift4: "b < 16 \<Longrightarrow> (int a * 16) OR int b = int (16 * a + b)"
proof -
  assume b: "b < 16"
  have "push_bit 4 (int a) OR take_bit 4 (int b) = push_bit 4 (int a) + take_bit 4 (int b)"
    by (rule disjunctive_add_eq_or [symmetric]) (auto simp: bit_eq_iff bit_simps)
  moreover have "take_bit 4 (int b) = int b" using b by (simp add: take_bit_eq_mod)
  ultimately show ?thesis by (simp add: push_bit_eq_mult algebra_simps)
qed

lemma HexDecode_BytesToHex [codec_simps]: "HexDecode (BytesToHex s) = s"
proof (induction s)
  case (Cons b s)
  have d: "code b div 16 < 16" using code_less [of b] by arith
  have "((int (code b div 16) * 16) OR int (code b mod 16)) mod 256 = int (code b)"
    using or_shift4 [of "code b mod 16" "code b div 16"] code_less [of b] by simp
  with Cons d show ?case by (simp add: BytesToHex_Cons hex_digit_value_hex_char)
qed (simp add: BytesToHex_def)

subsection \<open>URL encoding\<close>

lemma setw_hex_2: "n < 256 \<Longrightarrow> setw_hex 2 n = [hex_char (n div 16), hex_char (n mod 16)]"
proof -
  assume n: "n < 256"
  then have "n div 16 < 16" by arith
  then have "show_hex (n div 16) = [hex_char (n div 16)]" by (simp add: show_hex.simps)
  moreover have "hex_char 0 = CHR ''0''" by code_simp
  ultimately show ?thesis
    by (cases "n < 16") (simp_all add: setw_hex_def pad0_def show_hex.simps [of n])
qed

lemma url_unreserved_not_special: "url_unreserved c \<Longrightarrow> c \<noteq> CHR ''%'' \<and> c \<noteq> CHR ''+''"
  by (auto simp: url_unreserved_def ctype_defs code_def)

lemma UrlDecode_UrlEncode [codec_simps]: "UrlDecode (UrlEncode s) = s"
proof (induction s)
  case (Cons c s)
  show ?case
  proof (cases "url_unreserved c")
    case True
    with Cons url_unreserved_not_special show ?thesis by simp
  next
    case False
    have "code c div 16 < 16" using code_less [of c] by arith
    then have "hex_extract [hex_char (code c div 16), hex_char (code c mod 16)] = Some (int (code c))"
      by (simp add: hex_extract_two)
    with False Cons show ?thesis by (simp add: setw_hex_2)
  qed
qed simp

subsection \<open>Splitting and replacing\<close>

lemma split_loop_not_Nil [simp]: "split_loop str d start \<noteq> []"
  by (subst split_loop.simps) (auto split: option.splits)

lemma Join_Cons: "ps \<noteq> [] \<Longrightarrow> Join (p # ps) d = p @ d @ Join ps d"
  by (cases ps) auto

lemma Join_split_loop: "Join (split_loop str d start) d = drop start str"
proof (induction str d start rule: split_loop.induct)
  case (1 str d start)
  show ?case
  proof (cases "d = [] \<or> find_at d str start = None")
    case True
    then show ?thesis by (subst split_loop.simps) auto
  next
    case False
    then obtain e where d: "d \<noteq> []" and e: "find_at d str start = Some e" by auto
    from find_at_Some [OF e] obtain m r where
      mr: "drop start str = m @ d @ r" "e = start + length m" by blast
    have "drop (e + length d) str = drop (length m + length d) (drop start str)"
      by (simp add: mr(2) add.commute add.left_commute)
    also have "\<dots> = r" by (simp add: mr(1))
    finally have "Join (split_loop str d (e + length d)) d = r"
      using 1 [OF d e] by simp
    then show ?thesis
      using d e by (subst split_loop.simps) (simp add: Join_Cons mr)
  qed
qed

lemma replace_loop_split:
  assumes "frm \<noteq> []" "length pre = pos"
  shows "replace_loop (pre @ drop start str) frm to pos = pre @ Join (split_loop str frm start) to"
  using assms
proof (induction str frm start arbitrary: pre pos rule: split_loop.induct)
  case (1 str d start)
  have find: "find_at d (pre @ drop start str) pos =
      map_option (\<lambda>i. pos + i) (find_sub d (drop start str))"
    using "1.prems" by (simp add: find_at_def)
  show ?case
  proof (cases "find_sub d (drop start str)")
    case None
    then have "find_at d str start = None" by (simp add: find_at_def)
    with None "1.prems" find show ?thesis
      by (subst replace_loop.simps, subst split_loop.simps) simp
  next
    case (Some i)
    show ?thesis
    proof (cases "length str < start")
      case True
      with Some "1.prems" show ?thesis by (simp split: if_splits)
    next
      case False
      let ?e = "start + i"
      from Some False have e: "find_at d str start = Some ?e" by (simp add: find_at_def)
      from find_sub_Some [OF Some] obtain m r where mr: "drop start str = m @ d @ r" "length m = i"
        by blast
      have r: "drop (?e + length d) str = r"
        using mr by (metis add.assoc add.commute append_eq_conv_conj drop_drop length_append)
      have "replace_loop (pre @ m @ d @ r) d to pos =
          replace_loop ((pre @ m @ to) @ drop (?e + length d) str) d to (pos + i + length to)"
        using "1.prems" Some find mr
        by (subst replace_loop.simps) (simp add: r [unfolded add.assoc] r)
      also have "\<dots> = (pre @ m @ to) @ Join (split_loop str d (?e + length d)) to"
        using "1.prems" mr by (intro "1.IH" [OF _ e]) auto
      finally show ?thesis
        using "1.prems"(1) e mr by (subst split_loop.simps) (simp add: Join_Cons)
    qed
  qed
qed

lemma ReplaceAll_eq_Join_Split:
  assumes "frm \<noteq> []"
  shows "ReplaceAll str frm to = Join (Split str frm) to"
  using replace_loop_split [OF assms, of "[]" 0 0 str to] assms
  by (simp add: ReplaceAll_def Split_def)

lemma Join_Split: "Join (Split str d) d = str"
  by (simp add: Split_def Join_split_loop)

subsection \<open>Identifiers\<close>

lemma length_setw_hex: "0 < w \<Longrightarrow> n < 16 ^ w \<Longrightarrow> length (setw_hex w n) = w"
  by (simp add: setw_hex_def length_pad0 length_show_hex_le)

lemma setw_hex_4:
  assumes "4096 \<le> n" "n < 65536"
  shows "setw_hex 4 n = [hex_char (n div 4096), hex_char (n div 256 mod 16), hex_char (n div 16 mod 16), hex_char (n mod 16)]"
proof -
  have "n div 16 div 16 div 16 < 16" "\<not> n div 16 div 16 < 16" "\<not> n div 16 < 16" "\<not> n < 16"
    using assms by arith+
  then have "show_hex n = [hex_char (n div 16 div 16 div 16), hex_char (n div 16 div 16 mod 16), hex_char (n div 16 mod 16), hex_char (n mod 16)]"
    by (simp add: show_hex.simps [of n] show_hex.simps [of "n div 16"] show_hex.simps [of "n div 16 div 16"]
        show_hex.simps [of "n div 16 div 16 div 16"] del: div_mult2_eq)
  then show ?thesis by (simp add: setw_hex_def pad0_def div_mult2_eq [symmetric])
qed

lemma and_mask: "n AND (2 ^ k - 1) = n mod 2 ^ k" for n :: nat
  using take_bit_eq_mask [of k n] by (simp add: take_bit_eq_mod mask_eq_exp_minus_1)

lemma or_above: "b < 2 ^ k \<Longrightarrow> b OR (a * 2 ^ k) = a * 2 ^ k + b" for a b :: nat
proof -
  assume b: "b < 2 ^ k"
  have "take_bit k b OR push_bit k a = take_bit k b + push_bit k a"
    by (rule disjunctive_add_eq_or [symmetric]) (auto simp: bit_eq_iff bit_simps)
  with b show ?thesis by (simp add: push_bit_eq_mult take_bit_eq_mod algebra_simps)
qed

lemma uuid_fields:
  "(n AND 0x0FFF) OR 0x4000 = 0x4000 + n mod 0x1000"
  "(n AND 0x3FFF) OR 0x8000 = 0x8000 + n mod (0x4000 :: nat)"
  using or_above [of "n mod 0x1000" 12 4] or_above [of "n mod 0x4000" 14 2]
    and_mask [of n 12] and_mask [of n 14] by simp_all

text \<open>A generated UUID has the version 4 layout: 36 characters, dashes at the four fixed
  positions, version digit 4 and variant digit 8, 9, a or b, whatever the random values are.\<close>

theorem GenerateUUID_v4:
  "length (GenerateUUID r) = 36 \<and> GenerateUUID r ! 8 = CHR ''-'' \<and> GenerateUUID r ! 13 = CHR ''-''
   \<and> GenerateUUID r ! 18 = CHR ''-'' \<and> GenerateUUID r ! 23 = CHR ''-''
   \<and> GenerateUUID r ! 14 = CHR ''4'' \<and> GenerateUUID r ! 19 \<in> set ''89ab''"
proof -
  obtain a where a: "setw_hex 8 (r 0 AND 0xFFFFFFFF) = a" "length a = 8"
    using length_setw_hex [of 8 "r 0 mod 2 ^ 32"] and_mask [of "r 0" 32] by simp
  obtain b where b: "setw_hex 4 (r 1 AND 0xFFFF) = b" "length b = 4"
    using length_setw_hex [of 4 "r 1 mod 2 ^ 16"] and_mask [of "r 1" 16] by simp
  obtain e where e: "setw_hex 12 (r 4 AND 0xFFFFFFFFFFFF) = e" "length e = 12"
    using length_setw_hex [of 12 "r 4 mod 2 ^ 48"] and_mask [of "r 4" 48] by simp
  let ?c = "0x4000 + r 2 mod 0x1000" and ?d = "0x8000 + r 3 mod 0x4000"
  have b2: "r 2 mod 0x1000 < 0x1000" "r 3 mod 0x4000 < 0x4000" by simp_all
  have c: "?c div 4096 = 4" using b2(1) by (simp add: div_add_self1)
  have "?d div 4096 < 12" "8 \<le> ?d div 4096" using b2(2) by (simp_all add: div_less_iff_less_mult div_add_self1)
  then have "?d div 4096 \<in> {8, 9, 10, 11}" by auto
  moreover have "hex_char 8 = CHR ''8''" "hex_char 9 = CHR ''9''" "hex_char 10 = CHR ''a''" "hex_char 11 = CHR ''b''"
    "hex_char 4 = CHR ''4''" by code_simp+
  ultimately have h: "hex_char (?d div 4096) \<in> set ''89ab''" "hex_char (?c div 4096) = CHR ''4''"
    using c by auto
  have cs: "setw_hex 4 ?c = [hex_char (?c div 4096), hex_char (?c div 256 mod 16), hex_char (?c div 16 mod 16), hex_char (?c mod 16)]"
    by (rule setw_hex_4) (use b2 in linarith)+
  have ds: "setw_hex 4 ?d = [hex_char (?d div 4096), hex_char (?d div 256 mod 16), hex_char (?d div 16 mod 16), hex_char (?d mod 16)]"
    by (rule setw_hex_4) (use b2 in linarith)+
  have u: "GenerateUUID r = a @ ''-'' @ b @ ''-'' @ [hex_char (?c div 4096), hex_char (?c div 256 mod 16), hex_char (?c div 16 mod 16), hex_char (?c mod 16)]
      @ ''-'' @ [hex_char (?d div 4096), hex_char (?d div 256 mod 16), hex_char (?d div 16 mod 16), hex_char (?d mod 16)] @ ''-'' @ e"
    unfolding GenerateUUID_def a(1) b(1) e(1) uuid_fields cs ds ..
  show ?thesis unfolding u using h a(2) b(2) e(2) by (simp add: nth_append)
qed

section \<open>Properties\<close>

text \<open>The hexadecimal and the URL decoders invert their encoders on every byte string.\<close>

theorem hex_url_roundtrip: "HexDecode (HexEncode s) = s \<and> UrlDecode (UrlEncode s) = s"
  by (simp add: HexEncode_def codec_simps)

text \<open>Joining the parts of a split string with the same delimiter gives the string back, and the
  in-place \<^verbatim>\<open>ReplaceAll\<close> loop, which restarts after each inserted text, is the same as splitting at
  the pattern and joining with the replacement.\<close>

theorem split_join_replace:
  assumes "frm \<noteq> []"
  shows "Join (Split s frm) frm = s \<and> ReplaceAll s frm to = Join (Split s frm) to"
  using ReplaceAll_eq_Join_Split [OF assms] by (simp add: Join_Split)

theorem split_join_replace_witness:
  "''ab'' \<noteq> [] \<and> ReplaceAll ''xabyab'' ''ab'' ''abab'' = Join (Split ''xabyab'' ''ab'') ''abab''"
  using split_join_replace [of "''ab''" "''xabyab''" "''abab''"] by blast

end
