(* ===== verification/Config_Loader.thy ===== *)
theory Config_Loader
  imports Swift_Utils
begin

text \<open>
  \<^verbatim>\<open>backend/common/src/config_loader.cpp\<close>: key=value files and environment overrides.
  The \<^verbatim>\<open>unordered_map\<close> is a map; a file is \<open>None\<close> when it cannot be opened and the list of its
  lines otherwise; the environment is the list of its \<^verbatim>\<open>NAME=value\<close> strings.
\<close>

type_synonym KeyValueConfig = "string \<rightharpoonup> string"

definition config_blanks :: string where
  "config_blanks = [CHR '' '', CHR 0x09, CHR 0x0D, CHR 0x0A]"

definition config_Trim :: "string \<Rightarrow> string" where
  "config_Trim s =
     (case find_first_not_of config_blanks s of
        None \<Rightarrow> []
      | Some start \<Rightarrow>
          (case find_last_not_of config_blanks s of
             None \<Rightarrow> drop start s
           | Some stop \<Rightarrow> take (stop - start + 1) (drop start s)))"

definition ToLowerKey :: "string \<Rightarrow> string" where
  "ToLowerKey s = map tolower s"

fun LoadFile_loop :: "string list \<Rightarrow> KeyValueConfig \<Rightarrow> KeyValueConfig" where
  "LoadFile_loop [] m = m"
| "LoadFile_loop (line # rest) m =
     (let line = config_Trim line in
      if line = [] \<or> hd line = CHR ''#'' then LoadFile_loop rest m
      else
        (case find_char CHR ''='' line of
           None \<Rightarrow> LoadFile_loop rest m
         | Some eq \<Rightarrow>
            (let key = config_Trim (take eq line);
                 val = config_Trim (drop (eq + 1) line)
             in if key = [] then LoadFile_loop rest m
                else LoadFile_loop rest (m(ToLowerKey key \<mapsto> val)))))"

definition LoadFile :: "string list option \<Rightarrow> KeyValueConfig \<Rightarrow> KeyValueConfig" where
  "LoadFile file m = (case file of None \<Rightarrow> m | Some lns \<Rightarrow> LoadFile_loop lns m)"

fun env_loop :: "string \<Rightarrow> string list \<Rightarrow> KeyValueConfig \<Rightarrow> KeyValueConfig" where
  "env_loop prefix_upper [] m = m"
| "env_loop prefix_upper (env # rest) m =
     (case find_char CHR ''='' env of
        None \<Rightarrow> env_loop prefix_upper rest m
      | Some eq \<Rightarrow>
          (let nm = take eq env;
               val = drop (eq + 1) env;
               name_upper = map toupper nm;
               plen = length prefix_upper
           in if length name_upper \<le> plen \<or> take plen name_upper \<noteq> prefix_upper
              then env_loop prefix_upper rest m
              else env_loop prefix_upper rest (m(ToLowerKey (drop plen name_upper) \<mapsto> val))))"

definition ApplyEnvOverrides :: "string \<Rightarrow> string list \<Rightarrow> KeyValueConfig \<Rightarrow> KeyValueConfig" where
  "ApplyEnvOverrides env_prefix environ m = env_loop (map toupper env_prefix) environ m"

definition config_Load :: "string list option \<Rightarrow> string \<Rightarrow> string list \<Rightarrow> KeyValueConfig \<Rightarrow> KeyValueConfig" where
  "config_Load file env_prefix environ m = ApplyEnvOverrides env_prefix environ (LoadFile file m)"

definition Has :: "KeyValueConfig \<Rightarrow> string \<Rightarrow> bool" where
  "Has m key = (m (ToLowerKey key) \<noteq> None)"

definition config_Get :: "KeyValueConfig \<Rightarrow> string \<Rightarrow> string \<Rightarrow> string" where
  "config_Get m key default_val =
     (case m (ToLowerKey key) of None \<Rightarrow> default_val | Some v \<Rightarrow> v)"

definition GetInt :: "KeyValueConfig \<Rightarrow> string \<Rightarrow> int \<Rightarrow> int" where
  "GetInt m key default_val =
     (let v = config_Get m key [] in
      if v = [] then default_val else (case stoi v of Some n \<Rightarrow> n | None \<Rightarrow> default_val))"

definition GetInt64 :: "KeyValueConfig \<Rightarrow> string \<Rightarrow> int \<Rightarrow> int" where
  "GetInt64 m key default_val =
     (let v = config_Get m key [] in
      if v = [] then default_val else (case stoll v of Some n \<Rightarrow> n | None \<Rightarrow> default_val))"

definition GetBool :: "KeyValueConfig \<Rightarrow> string \<Rightarrow> bool \<Rightarrow> bool" where
  "GetBool m key default_val =
     (let v = config_Get m key [] in
      if v = [] then default_val
      else
        (let lower = ToLowerKey v in
         if lower \<in> {''1'', ''true'', ''yes'', ''on''} then True
         else if lower \<in> {''0'', ''false'', ''no'', ''off''} then False
         else default_val))"

definition LoadKeyValueConfig :: "string list option \<Rightarrow> string \<Rightarrow> string list \<Rightarrow> KeyValueConfig" where
  "LoadKeyValueConfig file env_prefix environ = config_Load file env_prefix environ Map.empty"

section \<open>What is loaded\<close>

text \<open>Trimming, and what one line and one environment entry contribute.\<close>

definition trimmed :: "string \<Rightarrow> string" where
  "trimmed s = rev (dropWhile (\<lambda>c. c \<in> set config_blanks) (rev (dropWhile (\<lambda>c. c \<in> set config_blanks) s)))"

lemma config_Trim_trimmed: "config_Trim s = trimmed s"
proof (cases "find_first_not_of config_blanks s")
  case None
  then have d: "dropWhile (\<lambda>c. c \<in> set config_blanks) s = []" by (simp only: find_first_not_of_None)
  show ?thesis unfolding config_Trim_def trimmed_def None d by simp
next
  case (Some i)
  then have "dropWhile (\<lambda>c. c \<in> set config_blanks) s \<noteq> []" by (metis find_first_not_of_None option.distinct(1))
  then have "\<exists>x \<in> set (rev s). x \<notin> set config_blanks" by auto
  then have "find_first_not_of config_blanks (rev s) \<noteq> None"
    unfolding find_first_not_of_None dropWhile_eq_Nil_conv by blast
  then obtain j where j: "find_last_not_of config_blanks s = Some j" by (auto simp: find_last_not_of_def)
  show ?thesis using trim_between [OF Some j] by (simp add: config_Trim_def trimmed_def Some j)
qed

definition line_binding :: "string \<Rightarrow> (string \<times> string) option" where
  "line_binding line =
     (let l = trimmed line; k = trimmed (takeWhile (\<lambda>c. c \<noteq> CHR ''='') l) in
      if CHR ''='' \<in> set l \<and> hd l \<noteq> CHR ''#'' \<and> k \<noteq> []
      then Some (map tolower k, trimmed (tl (dropWhile (\<lambda>c. c \<noteq> CHR ''='') l)))
      else None)"

definition env_binding :: "string \<Rightarrow> string \<Rightarrow> (string \<times> string) option" where
  "env_binding env_prefix env =
     (let nm = map toupper (takeWhile (\<lambda>c. c \<noteq> CHR ''='') env); p = map toupper env_prefix in
      if CHR ''='' \<in> set env \<and> strict_prefix p nm
      then Some (map tolower (drop (length p) nm), tl (dropWhile (\<lambda>c. c \<noteq> CHR ''='') env))
      else None)"

lemma find_char_split:
  "find_char c s = Some i \<Longrightarrow> take i s = takeWhile (\<lambda>x. x \<noteq> c) s \<and> drop (i + 1) s = tl (dropWhile (\<lambda>x. x \<noteq> c) s)
     \<and> c \<in> set s"
proof -
  assume "find_char c s = Some i"
  then obtain u v where s: "s = u @ c # v" "length u = i" "c \<notin> set u" using find_char_Some by blast
  then have "\<forall>x \<in> set u. x \<noteq> c" by auto
  with s show ?thesis by (simp add: takeWhile_append2 dropWhile_append2)
qed

lemma LoadFile_loop_eq: "LoadFile_loop lns m = m ++ map_of (rev (List.map_filter line_binding lns))"
proof (induction lns arbitrary: m)
  case (Cons line rest)
  show ?case
  proof (cases "find_char CHR ''='' (trimmed line)")
    case None
    then have "line_binding line = None" by (simp add: find_char_None line_binding_def Let_def)
    with None Cons show ?thesis by (simp add: config_Trim_trimmed map_filter_simps Let_def)
  next
    case (Some eq)
    note s = find_char_split [OF Some]
    from s have ne: "trimmed line \<noteq> []" by auto
    show ?thesis
      using Cons s ne Some
      by (auto simp: config_Trim_trimmed map_filter_simps line_binding_def ToLowerKey_def Let_def
          map_add_def fun_eq_iff split: option.splits)
  qed
qed (simp add: map_filter_simps)

lemma env_loop_eq: "env_loop (map toupper p) es m = m ++ map_of (rev (List.map_filter (env_binding p) es))"
proof (induction es arbitrary: m)
  case (Cons env rest)
  show ?case
  proof (cases "find_char CHR ''='' env")
    case None
    then have "env_binding p env = None" by (simp add: find_char_None env_binding_def Let_def)
    with None Cons show ?thesis by (simp add: map_filter_simps)
  next
    case (Some eq)
    note s = find_char_split [OF Some]
    have sp: "strict_prefix a b \<longleftrightarrow> \<not> (length b \<le> length a \<or> take (length a) b \<noteq> a)" for a b :: string
      by (auto simp: strict_prefix_def prefix_def)
        (metis append_take_drop_id le_refl take_all)+
    show ?thesis
      using Cons s Some
      by (auto simp: map_filter_simps env_binding_def ToLowerKey_def Let_def sp
          map_add_def fun_eq_iff split: option.splits)
  qed
qed (simp add: map_filter_simps)

text \<open>What a loaded configuration answers: the last environment variable \<^verbatim>\<open>PREFIX_KEY=value\<close> wins,
  else the last \<^verbatim>\<open>key = value\<close> line of the file, else the default; keys are compared without
  regard to case.\<close>

theorem config_Get_LoadKeyValueConfig:
  "config_Get (LoadKeyValueConfig file env_prefix environ) key d =
     (case map_of (rev (List.map_filter (env_binding env_prefix) environ)) (map tolower key) of
        Some v \<Rightarrow> v
      | None \<Rightarrow>
         (case map_of (rev (List.map_filter line_binding (case file of None \<Rightarrow> [] | Some lns \<Rightarrow> lns))) (map tolower key) of
            Some v \<Rightarrow> v | None \<Rightarrow> d))"
  by (auto simp: config_Get_def LoadKeyValueConfig_def config_Load_def LoadFile_def ApplyEnvOverrides_def
      LoadFile_loop_eq env_loop_eq ToLowerKey_def map_add_def map_filter_simps split: option.splits)

end
