(* ===== verification/Third_Party.thy ===== *)
theory Third_Party
  imports Swift_Prelude
begin

text \<open>
  The two third-party libraries the services store their data with, RocksDB and
  nlohmann::json, as parameters: a record of the calls the sources make, and a locale with
  the documented behaviour that the sources rely on.  Every store definition of the
  development takes the records \<open>R\<close> and \<open>J\<close> as arguments; every theorem about a store has
  the locale predicate \<open>store_env R J\<close> as a hypothesis.

  RocksDB: \<open>db_Get\<close> is \<^verbatim>\<open>DB::Get\<close> (\<open>None\<close> when the status is not ok), \<open>db_Write\<close> is
  \<^verbatim>\<open>DB::Write\<close> of a batch (\<^verbatim>\<open>DB::Put\<close> and \<^verbatim>\<open>DB::Delete\<close> write a batch of one), returning
  whether the status is ok and the database after the call, and \<open>db_Iter\<close> the entries
  that an iterator visits from the first key on.

  nlohmann::json: \<open>json_object\<close> builds an object from its members, \<open>json_dump\<close> and
  \<open>json_parse\<close> are \<^verbatim>\<open>dump\<close> and \<^verbatim>\<open>parse\<close> (\<open>None\<close>: it throws), and \<open>json_value_...\<close> are the
  instances of \<^verbatim>\<open>value(key, default)\<close> at \<^verbatim>\<open>std::string\<close>, \<^verbatim>\<open>int\<close>, \<^verbatim>\<open>int64_t\<close> and \<^verbatim>\<open>bool\<close>
  (\<open>None\<close>: it throws).  \<open>json_array\<close> gives the elements of a member that is an array, each
  as \<^verbatim>\<open>get<std::string>()\<close> returns it.
\<close>

section \<open>RocksDB\<close>

datatype batch_op = BPut string string | BDelete string

record 'db rocksdb =
  db_Get :: "'db \<Rightarrow> string \<Rightarrow> string option"
  db_Write :: "'db \<Rightarrow> batch_op list \<Rightarrow> bool \<times> 'db"
  db_Iter :: "'db \<Rightarrow> (string \<times> string) list"

definition db_Put :: "'db rocksdb \<Rightarrow> 'db \<Rightarrow> string \<Rightarrow> string \<Rightarrow> bool \<times> 'db" where
  "db_Put R db k v = db_Write R db [BPut k v]"

definition db_Delete :: "'db rocksdb \<Rightarrow> 'db \<Rightarrow> string \<Rightarrow> bool \<times> 'db" where
  "db_Delete R db k = db_Write R db [BDelete k]"

text \<open>
  The loop \<^verbatim>\<open>for (it->Seek(p); it->Valid(); it->Next()) if (!starts_with(p)) break;\<close>:
  seek to the first key not below the prefix, and go on while keys have the prefix.
\<close>

definition scan_prefix :: "'db rocksdb \<Rightarrow> 'db \<Rightarrow> string \<Rightarrow> (string \<times> string) list" where
  "scan_prefix R db p =
     takeWhile (\<lambda>e. prefix p (fst e)) (dropWhile (\<lambda>e. fst e < p) (db_Iter R db))"

text \<open>What a batch does to the mapping from keys to values.\<close>

fun apply_op :: "batch_op \<Rightarrow> (string \<Rightarrow> string option) \<Rightarrow> (string \<Rightarrow> string option)" where
  "apply_op (BPut k v) m = m(k := Some v)"
| "apply_op (BDelete k) m = m(k := None)"

fun apply_batch :: "batch_op list \<Rightarrow> (string \<Rightarrow> string option) \<Rightarrow> (string \<Rightarrow> string option)" where
  "apply_batch [] m = m"
| "apply_batch (b # bs) m = apply_batch bs (apply_op b m)"

lemma apply_batch_append: "apply_batch (as @ bs) m = apply_batch bs (apply_batch as m)"
  by (induction as arbitrary: m) auto

lemma apply_batch_deletes:
  "apply_batch (map BDelete ks) m k = (if k \<in> set ks then None else m k)"
  by (induction ks arbitrary: m) auto

fun op_key :: "batch_op \<Rightarrow> string" where
  "op_key (BPut k v) = k"
| "op_key (BDelete k) = k"

lemma apply_batch_other: "k \<notin> op_key ` set bs \<Longrightarrow> apply_batch bs m k = m k"
proof (induction bs arbitrary: m)
  case (Cons b bs)
  then show ?case by (cases b) auto
qed simp

text \<open>Collecting records from entries whose key determines the record's own key field.\<close>

lemma distinct_map_filter_keys:
  assumes "distinct (map fst es)" "\<And>e y. e \<in> set es \<Longrightarrow> g e = Some y \<Longrightarrow> fst e = c (h y)"
  shows "distinct (map h (List.map_filter g es))"
  using assms
proof (induction es)
  case (Cons e es)
  then have IH: "distinct (map h (List.map_filter g es))" by simp
  show ?case
  proof (cases "g e")
    case (Some y)
    have "h y \<notin> h ` set (List.map_filter g es)"
    proof
      assume "h y \<in> h ` set (List.map_filter g es)"
      then obtain e' y' where "e' \<in> set es" "g e' = Some y'" "h y' = h y" by (auto simp: set_map_filter)
      then have "fst e' = fst e" using Cons.prems(2) [of e' y'] Cons.prems(2) [of e y] Some by simp
      with \<open>e' \<in> set es\<close> Cons.prems(1) show False by (metis distinct.simps(2) imageI list.simps(9) list.set_map)
    qed
    with IH Some show ?thesis by (simp add: map_filter_simps)
  qed (simp add: IH map_filter_simps)
qed (simp add: map_filter_simps)

locale rocksdb_laws =
  fixes R :: "'db rocksdb"
  assumes get_write_ok: "db_Write R db bs = (True, db') \<Longrightarrow> db_Get R db' = apply_batch bs (db_Get R db)"
    and get_write_fail: "db_Write R db bs = (False, db') \<Longrightarrow> db_Get R db' = db_Get R db"
    and iter_sorted: "sorted_wrt (<) (map fst (db_Iter R db))"
    and iter_get: "map_of (db_Iter R db) = db_Get R db"
begin

lemma put_ok: "db_Put R db k v = (True, db') \<Longrightarrow> db_Get R db' = (db_Get R db)(k := Some v)"
  using get_write_ok by (fastforce simp: db_Put_def)

lemma put_fail: "db_Put R db k v = (False, db') \<Longrightarrow> db_Get R db' = db_Get R db"
  using get_write_fail by (fastforce simp: db_Put_def)

lemma delete_ok: "db_Delete R db k = (True, db') \<Longrightarrow> db_Get R db' = (db_Get R db)(k := None)"
  using get_write_ok by (fastforce simp: db_Delete_def)

lemma delete_fail: "db_Delete R db k = (False, db') \<Longrightarrow> db_Get R db' = db_Get R db"
  using get_write_fail by (fastforce simp: db_Delete_def)

lemma write_get: "db_Write R db bs = (ok, db') \<Longrightarrow>
    db_Get R db' = (if ok then apply_batch bs (db_Get R db) else db_Get R db)"
  by (cases ok) (auto simp: get_write_ok get_write_fail)

lemma put_get: "db_Put R db k v = (ok, db') \<Longrightarrow>
    db_Get R db' = (if ok then (db_Get R db)(k := Some v) else db_Get R db)"
  by (cases ok) (auto simp: put_ok put_fail)

lemma delete_get: "db_Delete R db k = (ok, db') \<Longrightarrow>
    db_Get R db' = (if ok then (db_Get R db)(k := None) else db_Get R db)"
  by (cases ok) (auto simp: delete_ok delete_fail)

lemma scan_prefix_eq_filter:
  "scan_prefix R db p = filter (\<lambda>e. prefix p (fst e)) (db_Iter R db)"
  by (simp add: scan_prefix_def seek_takeWhile_eq_filter [OF iter_sorted])

lemma in_scan_prefix: "(k, v) \<in> set (scan_prefix R db p) \<longleftrightarrow> db_Get R db k = Some v \<and> prefix p k"
  using in_set_iff_map_of [OF iter_sorted, of k v db]
  by (auto simp: scan_prefix_eq_filter iter_get)

text \<open>What a loop over the entries with a prefix collects.\<close>

lemma set_scan_prefix:
  "set (List.map_filter g (scan_prefix R db p)) =
     {y. \<exists>x v. db_Get R db (p @ x) = Some v \<and> g (p @ x, v) = Some y}"
  unfolding set_map_filter using in_scan_prefix by (fastforce simp: prefix_def)

lemma sorted_scan_prefix: "sorted_wrt (<) (map fst (scan_prefix R db p))"
proof -
  have "sorted_wrt (<) (map fst (filter P (xs :: (string \<times> string) list)))"
    if "sorted_wrt (<) (map fst xs)" for P xs
    using that by (induction xs) auto
  with iter_sorted show ?thesis by (simp add: scan_prefix_eq_filter)
qed

lemma distinct_scan_prefix: "distinct (map fst (scan_prefix R db p))"
  by (rule distinct_if_sorted_less [OF sorted_scan_prefix])

lemma distinct_scan_collect:
  assumes "\<And>x v y. db_Get R db (p @ x) = Some v \<Longrightarrow> g (p @ x, v) = Some y \<Longrightarrow> p @ x = c (h y)"
  shows "distinct (map h (List.map_filter g (scan_prefix R db p)))"
proof (rule distinct_map_filter_keys [OF distinct_scan_prefix])
  fix e y
  assume e: "e \<in> set (scan_prefix R db p)" "g e = Some y"
  obtain k v where kv: "e = (k, v)" by (cases e)
  with e(1) obtain x where "k = p @ x" "db_Get R db k = Some v" by (auto simp: in_scan_prefix prefix_def)
  with e(2) kv assms [of x v y] show "fst e = c (h y)" by simp
qed

lemma scan_prefix_cong: "db_Get R db = db_Get R db' \<Longrightarrow> scan_prefix R db p = scan_prefix R db' p"
proof -
  assume eq: "db_Get R db = db_Get R db'"
  have "db_Iter R db = db_Iter R db'"
  proof (rule map_sorted_distinct_set_unique)
    show "inj_on fst (set (db_Iter R db) \<union> set (db_Iter R db'))"
      using in_set_iff_map_of [OF iter_sorted, of _ _ db] in_set_iff_map_of [OF iter_sorted, of _ _ db'] eq
      by (auto simp: iter_get inj_on_def)
    show "set (db_Iter R db) = set (db_Iter R db')"
      using in_set_iff_map_of [OF iter_sorted, of _ _ db] in_set_iff_map_of [OF iter_sorted, of _ _ db'] eq
      by (auto simp: iter_get)
  qed (use iter_sorted in \<open>simp_all add: strict_sorted_imp_sorted strict_sorted_iff\<close>)
  then show ?thesis by (simp add: scan_prefix_def)
qed

end

section \<open>nlohmann::json\<close>

datatype jval = JStr string | JInt int | JBool bool | JStrs "string list"

record 'j nlohmann =
  json_object :: "(string \<times> jval) list \<Rightarrow> 'j"
  json_dump :: "'j \<Rightarrow> string"
  json_parse :: "string \<Rightarrow> 'j option"
  json_value_string :: "'j \<Rightarrow> string \<Rightarrow> string \<Rightarrow> string option"
  json_value_int :: "'j \<Rightarrow> string \<Rightarrow> int \<Rightarrow> int option"
  json_value_int64 :: "'j \<Rightarrow> string \<Rightarrow> int \<Rightarrow> int option"
  json_value_bool :: "'j \<Rightarrow> string \<Rightarrow> bool \<Rightarrow> bool option"
  json_array :: "'j \<Rightarrow> string \<Rightarrow> string option list option"

locale json_laws =
  fixes J :: "'j nlohmann"
  assumes parse_dump: "distinct (map fst kvs) \<Longrightarrow>
      json_parse J (json_dump J (json_object J kvs)) = Some (json_object J kvs)"
    and value_string: "distinct (map fst kvs) \<Longrightarrow> map_of kvs k = Some (JStr s) \<Longrightarrow>
      json_value_string J (json_object J kvs) k d = Some s"
    and value_string_absent: "distinct (map fst kvs) \<Longrightarrow> map_of kvs k = None \<Longrightarrow>
      json_value_string J (json_object J kvs) k d = Some d"
    and value_int: "distinct (map fst kvs) \<Longrightarrow> map_of kvs k = Some (JInt n) \<Longrightarrow> is_int64 n \<Longrightarrow>
      json_value_int J (json_object J kvs) k e = Some (wrap32 n)"
    and value_int64: "distinct (map fst kvs) \<Longrightarrow> map_of kvs k = Some (JInt n) \<Longrightarrow> is_int64 n \<Longrightarrow>
      json_value_int64 J (json_object J kvs) k e = Some n"
    and value_bool: "distinct (map fst kvs) \<Longrightarrow> map_of kvs k = Some (JBool b) \<Longrightarrow>
      json_value_bool J (json_object J kvs) k c = Some b"
    and array: "distinct (map fst kvs) \<Longrightarrow> map_of kvs k = Some (JStrs xs) \<Longrightarrow>
      json_array J (json_object J kvs) k = Some (map Some xs)"
begin

lemmas json_simps = parse_dump value_string value_string_absent value_int value_int64 value_bool array

end

text \<open>Both libraries together: the environment a store runs in.\<close>

locale store_env = rocksdb_laws R + json_laws J
  for R :: "'db rocksdb" and J :: "'j nlohmann"

end
