(* ===== verification/Third_Party_Instances.thy ===== *)
theory Third_Party_Instances
  imports Third_Party Cpp_Std
begin

text \<open>
  Concrete, executable instances of the third-party parameters.  They show that the laws
  of \<open>store_env\<close> can hold together and let the witnesses of the development evaluate the
  store definitions: a database that is an association list whose writes succeed, a
  database whose writes all fail, and a length-prefixed text form of the JSON objects the
  sources build.
\<close>

section \<open>A database as an association list\<close>

fun alist_op :: "batch_op \<Rightarrow> (string \<times> string) list \<Rightarrow> (string \<times> string) list" where
  "alist_op (BPut k v) xs = (k, v) # filter (\<lambda>e. fst e \<noteq> k) xs"
| "alist_op (BDelete k) xs = filter (\<lambda>e. fst e \<noteq> k) xs"

fun alist_write :: "(string \<times> string) list \<Rightarrow> batch_op list \<Rightarrow> (string \<times> string) list" where
  "alist_write xs [] = xs"
| "alist_write xs (b # bs) = alist_write (alist_op b xs) bs"

definition alist_iter :: "(string \<times> string) list \<Rightarrow> (string \<times> string) list" where
  "alist_iter xs = map (\<lambda>k. (k, the (map_of xs k))) (sort (remdups (map fst xs)))"

definition alist_db :: "(string \<times> string) list rocksdb" where
  "alist_db = \<lparr>db_Get = map_of, db_Write = (\<lambda>xs bs. (True, alist_write xs bs)), db_Iter = alist_iter\<rparr>"

definition readonly_db :: "(string \<times> string) list rocksdb" where
  "readonly_db = \<lparr>db_Get = map_of, db_Write = (\<lambda>xs bs. (False, xs)), db_Iter = alist_iter\<rparr>"

lemma map_of_alist_op: "map_of (alist_op b xs) = apply_op b (map_of xs)"
  by (cases b) (auto simp: fun_eq_iff map_of_filter_fst [of "\<lambda>x. x \<noteq> _"])

lemma map_of_alist_write: "map_of (alist_write xs bs) = apply_batch bs (map_of xs)"
  by (induction xs bs rule: alist_write.induct) (auto simp: map_of_alist_op)

lemma map_of_alist_iter: "map_of (alist_iter xs) = map_of xs"
proof
  fix k
  have "map_of (map (\<lambda>k. (k, f k)) ks) k = (if k \<in> set ks then Some (f k) else None)"
    for f :: "string \<Rightarrow> string" and ks by (induction ks) auto
  then show "map_of (alist_iter xs) k = map_of xs k"
    using map_of_eq_None_iff [of xs k] by (auto simp: alist_iter_def)
qed

lemma sorted_alist_iter: "sorted_wrt (<) (map fst (alist_iter xs))"
proof -
  have "map fst (alist_iter xs) = sort (remdups (map fst xs))"
    by (simp add: alist_iter_def comp_def)
  then show ?thesis by (simp add: strict_sorted_iff)
qed

interpretation alist: rocksdb_laws alist_db
  by unfold_locales
    (auto simp: alist_db_def map_of_alist_write map_of_alist_iter sorted_alist_iter)

interpretation readonly: rocksdb_laws readonly_db
  by unfold_locales
    (auto simp: readonly_db_def map_of_alist_iter sorted_alist_iter)

section \<open>A text form of JSON objects\<close>

definition enc_str :: "string \<Rightarrow> string" where
  "enc_str s = show_nat (length s) @ CHR '':'' # s"

definition dec_str :: "string \<Rightarrow> (string \<times> string) option" where
  "dec_str s =
     (case dropWhile isdigit s of
        [] \<Rightarrow> None
      | _ # t \<Rightarrow>
          (let n = digits_val 0 (takeWhile isdigit s)
           in if n \<le> length t then Some (take n t, drop n t) else None))"

fun dec_many :: "(string \<Rightarrow> ('a \<times> string) option) \<Rightarrow> nat \<Rightarrow> string \<Rightarrow> ('a list \<times> string) option" where
  "dec_many f 0 s = Some ([], s)"
| "dec_many f (Suc n) s =
     (case f s of None \<Rightarrow> None
      | Some (x, r) \<Rightarrow> (case dec_many f n r of None \<Rightarrow> None | Some (xs, r') \<Rightarrow> Some (x # xs, r')))"

definition enc_list :: "('a \<Rightarrow> string) \<Rightarrow> 'a list \<Rightarrow> string" where
  "enc_list e xs = enc_str (show_nat (length xs)) @ concat (map e xs)"

definition dec_list :: "(string \<Rightarrow> ('a \<times> string) option) \<Rightarrow> string \<Rightarrow> ('a list \<times> string) option" where
  "dec_list f s = (case dec_str s of None \<Rightarrow> None | Some (n, r) \<Rightarrow> dec_many f (digits_val 0 n) r)"

fun enc_jval :: "jval \<Rightarrow> string" where
  "enc_jval (JStr s) = CHR ''S'' # enc_str s"
| "enc_jval (JInt i) = CHR ''I'' # enc_str (to_string i)"
| "enc_jval (JBool b) = [CHR ''B'', if b then CHR ''T'' else CHR ''F'']"
| "enc_jval (JStrs xs) = CHR ''L'' # enc_list enc_str xs"

definition dec_jval :: "string \<Rightarrow> (jval \<times> string) option" where
  "dec_jval s =
     (case s of
        [] \<Rightarrow> None
      | c # r \<Rightarrow>
          if c = CHR ''S'' then map_option (\<lambda>(x, r). (JStr x, r)) (dec_str r)
          else if c = CHR ''I'' then
            (case dec_str r of None \<Rightarrow> None
             | Some (x, r) \<Rightarrow> map_option (\<lambda>i. (JInt i, r)) (strtoll x))
          else if c = CHR ''B'' then
            (case r of [] \<Rightarrow> None | b # r \<Rightarrow> Some (JBool (b = CHR ''T''), r))
          else map_option (\<lambda>(xs, r). (JStrs xs, r)) (dec_list dec_str r))"

definition enc_member :: "string \<times> jval \<Rightarrow> string" where
  "enc_member m = enc_str (fst m) @ enc_jval (snd m)"

definition dec_member :: "string \<Rightarrow> ((string \<times> jval) \<times> string) option" where
  "dec_member s =
     (case dec_str s of None \<Rightarrow> None
      | Some (k, r) \<Rightarrow> map_option (\<lambda>(v, r). ((k, v), r)) (dec_jval r))"

lemma takeWhile_dropWhile_enc:
  "takeWhile isdigit (show_nat n @ CHR '':'' # s) = show_nat n"
  "dropWhile isdigit (show_nat n @ CHR '':'' # s) = CHR '':'' # s"
proof -
  have "\<not> isdigit CHR '':''" by (simp add: isdigit_def code_def)
  moreover have "\<forall>c \<in> set (show_nat n). isdigit c" by (simp add: show_nat_digits)
  ultimately show "takeWhile isdigit (show_nat n @ CHR '':'' # s) = show_nat n"
    "dropWhile isdigit (show_nat n @ CHR '':'' # s) = CHR '':'' # s"
    by (simp_all add: takeWhile_append2 dropWhile_append2)
qed

lemma dec_enc_str: "dec_str (enc_str s @ r) = Some (s, r)"
  by (simp add: dec_str_def enc_str_def takeWhile_dropWhile_enc digits_val_show_nat)

lemma dec_enc_many:
  assumes "\<And>x r. f (e x @ r) = Some (x, r)"
  shows "dec_many f (length xs) (concat (map e xs) @ r) = Some (xs, r)"
  by (induction xs) (auto simp: assms)

lemma dec_enc_list:
  assumes "\<And>x r. f (e x @ r) = Some (x, r)"
  shows "dec_list f (enc_list e xs @ r) = Some (xs, r)"
  by (simp add: dec_list_def enc_list_def dec_enc_str digits_val_show_nat dec_enc_many [OF assms])

lemma dec_enc_jval: "dec_jval (enc_jval v @ r) = Some (v, r)"
  by (cases v) (auto simp: dec_jval_def dec_enc_str strtoll_to_string dec_enc_list [OF dec_enc_str])

lemma dec_enc_member: "dec_member (enc_member m @ r) = Some (m, r)"
  by (cases m) (simp add: dec_member_def enc_member_def dec_enc_str dec_enc_jval)

definition text_json :: "(string \<times> jval) list nlohmann" where
  "text_json = \<lparr>json_object = id,
     json_dump = enc_list enc_member,
     json_parse = (\<lambda>s. map_option fst (dec_list dec_member s)),
     json_value_string = (\<lambda>j k d. case map_of j k of None \<Rightarrow> Some d | Some (JStr s) \<Rightarrow> Some s | _ \<Rightarrow> None),
     json_value_int = (\<lambda>j k d. case map_of j k of None \<Rightarrow> Some d | Some (JInt n) \<Rightarrow> Some (wrap32 n) | _ \<Rightarrow> None),
     json_value_int64 = (\<lambda>j k d. case map_of j k of None \<Rightarrow> Some d | Some (JInt n) \<Rightarrow> Some n | _ \<Rightarrow> None),
     json_value_bool = (\<lambda>j k d. case map_of j k of None \<Rightarrow> Some d | Some (JBool b) \<Rightarrow> Some b | _ \<Rightarrow> None),
     json_array = (\<lambda>j k. case map_of j k of Some (JStrs xs) \<Rightarrow> Some (map Some xs) | _ \<Rightarrow> None)\<rparr>"

interpretation text_json: json_laws text_json
proof unfold_locales
  fix kvs :: "(string \<times> jval) list"
  show "json_parse text_json (json_dump text_json (json_object text_json kvs)) =
      Some (json_object text_json kvs)"
    using dec_enc_list [OF dec_enc_member, of kvs "[]"] by (simp add: text_json_def)
qed (auto simp: text_json_def)

interpretation alist_env: store_env alist_db text_json
  by unfold_locales

interpretation readonly_env: store_env readonly_db text_json
  by unfold_locales

end
