(* ===== verification/Jwt_Helper.thy ===== *)
theory Jwt_Helper
  imports Swift_Utils Third_Party_Instances
begin

unbundle bit_operations_syntax

text \<open>
  \<^verbatim>\<open>backend/common/src/jwt_helper.cpp\<close>: Base64url, the token format and its verification.
  The accumulators \<^verbatim>\<open>int val\<close> of the two Base64 loops are 32-bit: they wrap, and the
  wrap-around is written out with \<open>wrap32\<close>.  OpenSSL's \<^verbatim>\<open>HMAC\<close> is the parameter
  \<open>hmac key data\<close> (the raw bytes), nlohmann::json the parameter \<open>J\<close>, and every clock
  reading an argument.
\<close>

section \<open>Base64url\<close>

definition b64 :: string where
  "b64 = ''ABCDEFGHIJKLMNOPQRSTUVWXYZabcdefghijklmnopqrstuvwxyz0123456789+/''"

text \<open>\<^verbatim>\<open>(val >> k) & m\<close> for \<open>m = 2 ^ b - 1\<close>, on a two's complement \<^verbatim>\<open>int\<close>.\<close>

definition bits_at :: "int \<Rightarrow> int \<Rightarrow> nat \<Rightarrow> nat" where
  "bits_at val k b = nat ((val div 2 ^ nat k) mod 2 ^ b)"

function enc_while :: "int \<Rightarrow> int \<Rightarrow> string \<Rightarrow> int \<times> string" where
  "enc_while val valb out =
     (if valb \<ge> 0 then enc_while val (valb - 6) (out @ [b64 ! bits_at val valb 6]) else (valb, out))"
  by pat_completeness auto
termination
  by (relation "measure (\<lambda>(val, valb, out). nat (valb + 6))") auto

declare enc_while.simps [simp del]

fun enc_for :: "string \<Rightarrow> int \<Rightarrow> int \<Rightarrow> string \<Rightarrow> int \<times> int \<times> string" where
  "enc_for [] val valb out = (val, valb, out)"
| "enc_for (d # ds) val valb out =
     (let val = wrap32 (val * 256 + int (code d));
          (valb, out) = enc_while val (valb + 8) out
      in enc_for ds val valb out)"

definition to_url_char :: "char \<Rightarrow> char" where
  "to_url_char c = (if c = CHR ''+'' then CHR ''-'' else if c = CHR ''/'' then CHR ''_'' else c)"

definition Base64UrlEncode :: "string \<Rightarrow> string" where
  "Base64UrlEncode data =
     (let (val, valb, out) = enc_for data 0 (- 6) [];
          out = (if valb > - 6 then out @ [b64 ! bits_at (wrap32 (val * 256)) (valb + 8) 6] else out);
          out = map to_url_char out
      in rev (dropWhile (\<lambda>c. c = CHR ''='') (rev out)))"

text \<open>
  The decoding table: the initialiser lists 128 values, the remaining 128 entries of
  \<^verbatim>\<open>T[256]\<close> are zero.
\<close>

definition T_listed :: "int list" where
  "T_listed =
    [-1,-1,-1,-1,-1,-1,-1,-1,-1,-1,-1,-1,-1,-1,-1,-1,-1,-1,-1,-1,-1,-1,-1,-1,-1,-1,-1,-1,-1,-1,-1,-1,
     -1,-1,-1,-1,-1,-1,-1,-1,-1,-1,-1,62,-1,-1,-1,63,52,53,54,55,56,57,58,59,60,61,-1,-1,-1,-1,-1,-1,
     -1, 0, 1, 2, 3, 4, 5, 6, 7, 8, 9,10,11,12,13,14,15,16,17,18,19,20,21,22,23,24,25,-1,-1,-1,-1,-1,
     -1,26,27,28,29,30,31,32,33,34,35,36,37,38,39,40,41,42,43,44,45,46,47,48,49,50,51,-1,-1,-1,-1,-1]"

definition T :: "int list" where
  "T = T_listed @ replicate 128 0"

definition from_url_char :: "char \<Rightarrow> char" where
  "from_url_char c = (if c = CHR ''-'' then CHR ''+'' else if c = CHR ''_'' then CHR ''/'' else c)"

definition pad4 :: "string \<Rightarrow> string" where
  "pad4 s = s @ replicate ((4 - length s mod 4) mod 4) CHR ''=''"

fun dec_for :: "string \<Rightarrow> int \<Rightarrow> int \<Rightarrow> string \<Rightarrow> string" where
  "dec_for [] val valb out = out"
| "dec_for (c # s) val valb out =
     (if T ! code c < 0 then out
      else
        (let val = wrap32 (val * 64 + T ! code c);
             valb = valb + 6
         in if valb \<ge> 0 then dec_for s val (valb - 8) (out @ [char_of (bits_at val valb 8)])
            else dec_for s val valb out))"

definition Base64UrlDecode :: "string \<Rightarrow> string" where
  "Base64UrlDecode input = dec_for (pad4 (map from_url_char input)) 0 (- 8) []"

section \<open>Signature\<close>

definition HmacSha256 :: "(string \<Rightarrow> string \<Rightarrow> string) \<Rightarrow> string \<Rightarrow> string \<Rightarrow> string" where
  "HmacSha256 hmac key data = concat (map (\<lambda>b. pad0 2 (show_hex (code b))) (hmac key data))"

definition jwt_hex_value :: "char \<Rightarrow> nat" where
  "jwt_hex_value c =
     (if CHR ''0'' \<le> c \<and> c \<le> CHR ''9'' then code c - 48
      else if CHR ''a'' \<le> c \<and> c \<le> CHR ''f'' then code c - 97 + 10
      else if CHR ''A'' \<le> c \<and> c \<le> CHR ''F'' then code c - 65 + 10
      else 0)"

fun jwt_HexDecode :: "string \<Rightarrow> string" where
  "jwt_HexDecode (a # b # rest) = char_of ((jwt_hex_value a * 16) OR jwt_hex_value b) # jwt_HexDecode rest"
| "jwt_HexDecode _ = []"

definition jwt_signature :: "(string \<Rightarrow> string \<Rightarrow> string) \<Rightarrow> string \<Rightarrow> string \<Rightarrow> string" where
  "jwt_signature hmac secret msg = Base64UrlEncode (jwt_HexDecode (HmacSha256 hmac secret msg))"

section \<open>Tokens\<close>

definition jwt_payload_members :: "string \<Rightarrow> string \<Rightarrow> int \<Rightarrow> int \<Rightarrow> (string \<times> jval) list" where
  "jwt_payload_members issuer user_id now exp =
     [(''iss'', JStr (if issuer = [] then ''swift-online'' else issuer)),
      (''sub'', JStr user_id), (''iat'', JInt now), (''exp'', JInt exp)]"

definition JwtCreate ::
  "'j nlohmann \<Rightarrow> (string \<Rightarrow> string \<Rightarrow> string) \<Rightarrow> int \<Rightarrow> string \<Rightarrow> string \<Rightarrow> int \<Rightarrow> string \<Rightarrow> string" where
  "JwtCreate J hmac now_ms user_id secret expire_hours issuer =
     (let now = now_ms div 1000;
          exp = now + expire_hours * 3600;
          header = json_object J [(''alg'', JStr ''HS256''), (''typ'', JStr ''JWT'')];
          payload = json_object J (jwt_payload_members issuer user_id now exp);
          msg = Base64UrlEncode (json_dump J header) @ ''.'' @ Base64UrlEncode (json_dump J payload)
      in msg @ ''.'' @ jwt_signature hmac secret msg)"

record JwtPayload =
  jwt_valid :: bool
  jwt_user_id :: string
  jwt_issuer :: string
  jwt_iat :: int
  jwt_exp :: int

definition jwt_invalid :: JwtPayload where
  "jwt_invalid = \<lparr>jwt_valid = False, jwt_user_id = [], jwt_issuer = [], jwt_iat = 0, jwt_exp = 0\<rparr>"

text \<open>The \<^verbatim>\<open>try\<close> block: an exception leaves the fields assigned so far and \<^verbatim>\<open>valid = false\<close>.\<close>

definition jwt_read_payload :: "'j nlohmann \<Rightarrow> int \<Rightarrow> string \<Rightarrow> JwtPayload" where
  "jwt_read_payload J now_ms payload_b64 =
     (case json_parse J (Base64UrlDecode payload_b64) of
        None \<Rightarrow> jwt_invalid
      | Some p \<Rightarrow>
       (case json_value_string J p ''sub'' [] of
          None \<Rightarrow> jwt_invalid
        | Some sub \<Rightarrow>
         (let r = jwt_invalid\<lparr>jwt_user_id := sub\<rparr> in
          case json_value_string J p ''iss'' [] of
            None \<Rightarrow> r
          | Some iss \<Rightarrow>
           (let r = r\<lparr>jwt_issuer := iss\<rparr> in
            case json_value_int J p ''iat'' 0 of
              None \<Rightarrow> r
            | Some iat \<Rightarrow>
             (let r = r\<lparr>jwt_iat := iat\<rparr> in
              case json_value_int J p ''exp'' 0 of
                None \<Rightarrow> r
              | Some exp \<Rightarrow>
               (let r = r\<lparr>jwt_exp := exp\<rparr>;
                    now = now_ms div 1000
                in if exp < now then r
                   else if iss \<noteq> ''swift-online'' \<and> iss \<noteq> ''swift-auth'' then r
                   else if sub = [] then r
                   else r\<lparr>jwt_valid := True\<rparr>))))))"

definition JwtVerify ::
  "'j nlohmann \<Rightarrow> (string \<Rightarrow> string \<Rightarrow> string) \<Rightarrow> int \<Rightarrow> string \<Rightarrow> string \<Rightarrow> JwtPayload" where
  "JwtVerify J hmac now_ms token secret =
     (case find_char CHR ''.'' token of
        None \<Rightarrow> jwt_invalid
      | Some dot1 \<Rightarrow>
       (case find_at ''.'' token (dot1 + 1) of
          None \<Rightarrow> jwt_invalid
        | Some dot2 \<Rightarrow>
         (let payload_b64 = take (dot2 - dot1 - 1) (drop (dot1 + 1) token);
              sig_b64 = drop (dot2 + 1) token;
              msg = take dot2 token
          in if sig_b64 \<noteq> jwt_signature hmac secret msg then jwt_invalid
             else jwt_read_payload J now_ms payload_b64)))"

section \<open>Base64url: the loops against groups of three bytes\<close>

text \<open>The reference encoder: three bytes give four characters, the rest two or three.\<close>

fun enc3 :: "nat list \<Rightarrow> nat list" where
  "enc3 (a # b # c # r) =
     a div 4 # (a mod 4 * 16 + b div 16) # (b mod 16 * 4 + c div 64) # c mod 64 # enc3 r"
| "enc3 [a, b] = [a div 4, a mod 4 * 16 + b div 16, b mod 16 * 4]"
| "enc3 [a] = [a div 4, a mod 4 * 16]"
| "enc3 [] = []"

lemma div_mod_eqI: "(n :: nat) = d * q + t \<Longrightarrow> t < d \<Longrightarrow> n div d = q \<and> n mod d = t"
  by auto

lemma field_less:
  "(a :: nat) < 256 \<Longrightarrow> a div 4 < 64" "(b :: nat) < 256 \<Longrightarrow> a mod 4 * 16 + b div 16 < 64"
  "(c :: nat) < 256 \<Longrightarrow> b mod 16 * 4 + c div 64 < 64" "a mod 4 * 16 < 64" "b mod 16 * 4 < 64"
proof -
  have a: "a mod 4 \<le> 3" "b mod 16 \<le> 15"
    using mod_less_divisor [of 4 a] mod_less_divisor [of 16 b] by linarith+
  then show "a mod 4 * 16 < 64" "b mod 16 * 4 < 64" by linarith+
  show "a < 256 \<Longrightarrow> a div 4 < 64" by (simp add: div_less_iff_less_mult)
  have "b < 256 \<Longrightarrow> b div 16 < 16" "c < 256 \<Longrightarrow> c div 64 < 4"
    by (simp_all add: div_less_iff_less_mult)
  with a show "b < 256 \<Longrightarrow> a mod 4 * 16 + b div 16 < 64" "c < 256 \<Longrightarrow> b mod 16 * 4 + c div 64 < 64"
    by linarith+
qed

lemma enc3_less: "\<forall>x \<in> set bs. x < 256 \<Longrightarrow> i \<in> set (enc3 bs) \<Longrightarrow> i < 64"
  by (induction bs rule: enc3.induct) (auto simp: field_less)

lemma wrap32_cong: "\<exists>q. wrap32 x = x - 2 ^ 32 * q"
proof -
  have "wrap32 x = x - 2 ^ 32 * ((x + 2 ^ 31) div 2 ^ 32)"
    by (simp add: wrap32_def minus_mult_div_eq_mod [symmetric])
  then show ?thesis by blast
qed

lemma bits_at_wrap32:
  assumes "0 \<le> k" "nat k + b \<le> 32"
  shows "bits_at (wrap32 x) k b = bits_at x k b"
proof -
  obtain q where q: "wrap32 x = x - 2 ^ 32 * q" using wrap32_cong by blast
  define n where "n = nat k"
  define m where "m = 32 - (n + b)"
  have m: "32 = n + (b + m)" using assms(2) by (simp add: m_def n_def)
  define c where "c = - (2 ^ m * q)"
  have "(2 :: int) ^ 32 = 2 ^ n * (2 ^ b * 2 ^ m)" by (subst m) (simp add: power_add)
  then have x: "x - 2 ^ 32 * q = x + (c * 2 ^ b) * 2 ^ n"
    by (simp only: c_def) (simp add: mult.assoc mult.commute mult.left_commute)
  have "(x + (c * 2 ^ b) * 2 ^ n) div 2 ^ n = c * 2 ^ b + x div 2 ^ n"
    by (rule div_mult_self1) simp
  then show ?thesis
    unfolding bits_at_def q x n_def [symmetric] by (simp only: mod_mult_self3)
qed

text \<open>The bit fields that one step of the encoder reads.\<close>

lemma bits_at_low:
  assumes "k + b \<le> m" "m \<le> 32"
  shows "bits_at (wrap32 (x * 2 ^ m + int c)) (int k) b = c div 2 ^ k mod 2 ^ b"
proof -
  obtain n where m: "m = k + (b + n)" using assms(1) le_Suc_ex by (metis add.assoc)
  have "(x * 2 ^ m + int c) div 2 ^ k = x * 2 ^ n * 2 ^ b + int (c div 2 ^ k)"
    using div_mult_self3 [of "(2 :: int) ^ k" "x * 2 ^ n * 2 ^ b" "int c"]
    by (simp add: m power_add zdiv_int algebra_simps)
  then have "(x * 2 ^ m + int c) div 2 ^ k mod 2 ^ b = int (c div 2 ^ k mod 2 ^ b)"
    by (simp add: zmod_int)
  moreover have "bits_at (wrap32 y) (int k) b = nat (y div 2 ^ k mod 2 ^ b)" for y
    using assms by (simp add: bits_at_wrap32) (simp add: bits_at_def)
  ultimately show ?thesis by simp
qed

lemma enc_bits1:
  assumes "a < 256"
  shows "bits_at (wrap32 (v * 256 + int a)) 2 6 = a div 4"
    and "bits_at (wrap32 (v * 256 + int a)) 0 6 = a mod 64"
  using bits_at_low [of 2 6 8 v a] bits_at_low [of 0 6 8 v a] field_less(1) [OF assms] by simp_all

lemma split16: "(a :: nat) = 4 * p + r \<Longrightarrow> b = 16 * s + t \<Longrightarrow> a * 256 + b = 16 * (64 * p + (r * 16 + s)) + t"
  by simp

lemma split64: "(a :: nat) = 16 * p + r \<Longrightarrow> b = 64 * s + t \<Longrightarrow> a * 256 + b = 64 * (64 * p + (r * 4 + s)) + t"
  by simp

lemma enc_bits2:
  assumes "a < 256" "b < 256"
  shows "bits_at (wrap32 (wrap32 (v * 256 + int a) * 256 + int b)) 4 6 = a mod 4 * 16 + b div 16"
    and "bits_at (wrap32 (wrap32 (v * 256 + int a) * 256 + int b)) 6 6 = a mod 16 * 4 + b div 64"
proof -
  obtain q where q: "wrap32 (v * 256 + int a) = v * 256 + int a - 2 ^ 32 * q"
    using wrap32_cong [of "v * 256 + int a"] by auto
  then have eq: "wrap32 (v * 256 + int a) * 256 + int b = (v - 2 ^ 24 * q) * 2 ^ 16 + int (a * 256 + b)"
    by simp
  have "a * 256 + b = 16 * (64 * (a div 4) + (a mod 4 * 16 + b div 16)) + b mod 16"
    by (rule split16) simp_all
  then have "(a * 256 + b) div 16 = 64 * (a div 4) + (a mod 4 * 16 + b div 16)"
    by (rule div_mod_eqI [THEN conjunct1]) simp
  moreover have "a * 256 + b = 64 * (64 * (a div 16) + (a mod 16 * 4 + b div 64)) + b mod 64"
    by (rule split64) simp_all
  then have "(a * 256 + b) div 64 = 64 * (a div 16) + (a mod 16 * 4 + b div 64)"
    by (rule div_mod_eqI [THEN conjunct1]) simp
  ultimately have "(a * 256 + b) div 16 mod 64 = a mod 4 * 16 + b div 16"
    "(a * 256 + b) div 64 mod 64 = a mod 16 * 4 + b div 64"
    using field_less(2) [OF assms(2), of a] field_less(3) [OF assms(2), of a] by (simp_all only: mod_mult_self4 mod_less)
  then show "bits_at (wrap32 (wrap32 (v * 256 + int a) * 256 + int b)) 4 6 = a mod 4 * 16 + b div 16"
    and "bits_at (wrap32 (wrap32 (v * 256 + int a) * 256 + int b)) 6 6 = a mod 16 * 4 + b div 64"
    unfolding eq using bits_at_low [of 4 6 16 "v - 2 ^ 24 * q" "a * 256 + b"]
      bits_at_low [of 6 6 16 "v - 2 ^ 24 * q" "a * 256 + b"] by simp_all
qed

lemmas enc_bits3 = enc_bits2 [where b = 0, simplified]

lemma enc_while_neg: "valb < 0 \<Longrightarrow> enc_while val valb out = (valb, out)"
  by (subst enc_while.simps) simp

lemma enc_while_step:
  "0 \<le> valb \<Longrightarrow> enc_while val valb out = enc_while val (valb - 6) (out @ [b64 ! bits_at val valb 6])"
  by (subst enc_while.simps) simp

definition b64_chars :: "nat list \<Rightarrow> string" where
  "b64_chars is = map (\<lambda>i. b64 ! i) is"

lemma enc_for_enc3:
  "(let (val', valb, out') = enc_for ds val (- 6) out in
      if valb > - 6 then out' @ [b64 ! bits_at (wrap32 (val' * 256)) (valb + 8) 6] else out') =
   out @ b64_chars (enc3 (map code ds))"
proof (induction "map code ds" arbitrary: ds val out rule: enc3.induct)
  case (1 a b c r)
  then obtain x y z ds' where ds: "ds = x # y # z # ds'" "a = code x" "b = code y" "c = code z"
    "r = map code ds'" by (auto simp: map_eq_Cons_conv)
  show ?case
    using "1.hyps"(1) [OF ds(5)]
    by (simp add: ds enc_while_step enc_while_neg enc_bits1 enc_bits2 b64_chars_def Let_def)
next
  case (2 a b)
  then obtain x y where ds: "ds = [x, y]" "a = code x" "b = code y" by (auto simp: map_eq_Cons_conv)
  show ?case
    by (simp add: ds enc_while_step enc_while_neg enc_bits1 enc_bits2 enc_bits3 b64_chars_def)
next
  case (3 a)
  then obtain x where ds: "ds = [x]" "a = code x" by (auto simp: map_eq_Cons_conv)
  show ?case
    by (simp add: ds enc_while_step enc_while_neg enc_bits1 enc_bits3 b64_chars_def)
qed (simp add: b64_chars_def)

lemma b64_nth:
  assumes "i < 64"
  shows "T ! code (b64 ! i) = int i" "from_url_char (to_url_char (b64 ! i)) = b64 ! i"
    "to_url_char (b64 ! i) \<noteq> CHR ''=''" "to_url_char (b64 ! i) \<noteq> CHR ''.''"
proof -
  have "list_all (\<lambda>i. T ! code (b64 ! i) = int i) [0..<64]"
    "list_all (\<lambda>c. from_url_char (to_url_char c) = c \<and> to_url_char c \<noteq> CHR ''='' \<and> to_url_char c \<noteq> CHR ''.'') b64"
    by code_simp+
  moreover have "b64 ! i \<in> set b64" using assms by (intro nth_mem) (simp add: b64_def)
  ultimately show "T ! code (b64 ! i) = int i" "from_url_char (to_url_char (b64 ! i)) = b64 ! i"
    "to_url_char (b64 ! i) \<noteq> CHR ''=''" "to_url_char (b64 ! i) \<noteq> CHR ''.''"
    using assms by (auto simp: list_all_iff)
qed

lemma Base64UrlEncode_enc3: "Base64UrlEncode s = map to_url_char (b64_chars (enc3 (map code s)))"
proof -
  let ?o = "map to_url_char (b64_chars (enc3 (map code s)))"
  have less: "\<forall>i \<in> set (enc3 (map code s)). i < 64" using enc3_less [of "map code s"] by simp
  obtain val valb out where e: "enc_for s 0 (- 6) [] = (val, valb, out)"
    by (cases "enc_for s 0 (- 6) []") auto
  have "(if valb > - 6 then out @ [b64 ! bits_at (wrap32 (val * 256)) (valb + 8) 6] else out) =
      b64_chars (enc3 (map code s))"
    using enc_for_enc3 [of s 0 "[]"] by (simp add: e)
  then have "Base64UrlEncode s = rev (dropWhile (\<lambda>c. c = CHR ''='') (rev ?o))"
    unfolding Base64UrlEncode_def e by (simp only: prod.case Let_def)
  also have "dropWhile (\<lambda>c. c = CHR ''='') (rev ?o) = rev ?o"
  proof (cases "rev ?o")
    case (Cons c cs)
    then have "c \<in> set ?o" by (metis list.set_intros(1) set_rev)
    with less have "c \<noteq> CHR ''=''" by (auto simp: b64_chars_def b64_nth)
    with Cons show ?thesis by simp
  qed simp
  finally show ?thesis by simp
qed

lemma dec_bits2:
  assumes "k + 8 \<le> 12"
  shows "bits_at (wrap32 (wrap32 (v * 64 + int i) * 64 + int j)) (int k) 8 = (i * 64 + j) div 2 ^ k mod 256"
proof -
  obtain q where "wrap32 (v * 64 + int i) = v * 64 + int i - 2 ^ 32 * q"
    using wrap32_cong [of "v * 64 + int i"] by auto
  then have eq: "wrap32 (v * 64 + int i) * 64 + int j = (v - 2 ^ 26 * q) * 2 ^ 12 + int (i * 64 + j)"
    by simp
  show ?thesis unfolding eq using bits_at_low [OF assms, of "v - 2 ^ 26 * q" "i * 64 + j"] by simp
qed

lemmas dec_bits = dec_bits2 [of 4, simplified] dec_bits2 [of 2, simplified] dec_bits2 [of 0, simplified]

lemma join64:
  "a = 4 * p + r \<Longrightarrow> p * 64 + (r * 16 + s) = 16 * a + (s :: nat)"
  "b = 16 * s + t \<Longrightarrow> (r * 16 + s) * 64 + (t * 4 + u) = 4 * (256 * r + b) + (u :: nat)"
  "c = 64 * u + x \<Longrightarrow> (t * 4 + u) * 64 + x = 256 * t + (c :: nat)"
  by simp_all

lemma dec_fields:
  assumes "a < 256" "b < 256" "c < 256"
  shows "(a div 4 * 64 + (a mod 4 * 16 + b div 16)) div 16 mod 256 = (a :: nat)"
    and "((a mod 4 * 16 + b div 16) * 64 + (b mod 16 * 4 + c div 64)) div 4 mod 256 = b"
    and "((b mod 16 * 4 + c div 64) * 64 + c mod 64) mod 256 = c"
proof -
  have "a div 4 * 64 + (a mod 4 * 16 + b div 16) = 16 * a + b div 16"
    by (rule join64) simp
  moreover have "b div 16 < 16" using assms(2) by (simp add: div_less_iff_less_mult)
  ultimately have "(a div 4 * 64 + (a mod 4 * 16 + b div 16)) div 16 = a"
    by (metis div_mod_eqI)
  then show "(a div 4 * 64 + (a mod 4 * 16 + b div 16)) div 16 mod 256 = a" using assms by simp
  have "(a mod 4 * 16 + b div 16) * 64 + (b mod 16 * 4 + c div 64) = 4 * (256 * (a mod 4) + b) + c div 64"
    by (rule join64) simp
  moreover have "c div 64 < 4" using assms(3) by (simp add: div_less_iff_less_mult)
  ultimately have "((a mod 4 * 16 + b div 16) * 64 + (b mod 16 * 4 + c div 64)) div 4 = 256 * (a mod 4) + b"
    by (metis div_mod_eqI)
  then show "((a mod 4 * 16 + b div 16) * 64 + (b mod 16 * 4 + c div 64)) div 4 mod 256 = b"
    using assms by simp
  have "(b mod 16 * 4 + c div 64) * 64 + c mod 64 = 256 * (b mod 16) + c"
    by (rule join64) simp
  then show "((b mod 16 * 4 + c div 64) * 64 + c mod 64) mod 256 = c" using assms by simp
qed

text \<open>What the decoder does with the padding: it stops.\<close>

lemma dec_for_pad: "pad = [] \<or> hd pad = CHR ''='' \<Longrightarrow> dec_for pad val valb out = out"
proof -
  have "T ! code CHR ''='' < 0" by code_simp
  then show "pad = [] \<or> hd pad = CHR ''='' \<Longrightarrow> dec_for pad val valb out = out" by (cases pad) auto
qed

lemma dec_for_2:
  assumes "i < 64" "j < 64"
  shows "\<exists>val'. dec_for (b64 ! i # b64 ! j # r) val (- 8) out =
    dec_for r val' (- 4) (out @ [char_of ((i * 64 + j) div 16 mod 256)])"
  using assms by (simp add: b64_nth Let_def dec_bits) blast

lemma dec_for_3:
  assumes "i < 64" "j < 64" "k < 64"
  shows "\<exists>val'. dec_for (b64 ! i # b64 ! j # b64 ! k # r) val (- 8) out =
    dec_for r val' (- 6) (out @ [char_of ((i * 64 + j) div 16 mod 256), char_of ((j * 64 + k) div 4 mod 256)])"
  using assms by (simp add: b64_nth Let_def dec_bits) blast

lemma dec_for_4:
  assumes "i < 64" "j < 64" "k < 64" "l < 64"
  shows "\<exists>val'. dec_for (b64 ! i # b64 ! j # b64 ! k # b64 ! l # r) val (- 8) out =
    dec_for r val' (- 8) (out @ [char_of ((i * 64 + j) div 16 mod 256), char_of ((j * 64 + k) div 4 mod 256),
      char_of ((k * 64 + l) mod 256)])"
  using assms by (simp add: b64_nth Let_def dec_bits) blast

lemma dec_for_enc3:
  assumes "pad = [] \<or> hd pad = CHR ''=''" "\<forall>x \<in> set bs. x < 256"
  shows "dec_for (b64_chars (enc3 bs) @ pad) val (- 8) out = out @ map char_of bs"
  using assms
proof (induction bs arbitrary: val out rule: enc3.induct)
  case (1 a b c r)
  then have abc: "a < 256" "b < 256" "c < 256" by auto
  obtain val' where "dec_for (b64_chars (enc3 (a # b # c # r)) @ pad) val (- 8) out =
      dec_for (b64_chars (enc3 r) @ pad) val' (- 8) (out @ [char_of a, char_of b, char_of c])"
    using dec_for_4 [OF field_less(1) [OF abc(1)] field_less(2) [OF abc(2), of a]
        field_less(3) [OF abc(3), of b], of "c mod 64" "b64_chars (enc3 r) @ pad" val out]
    unfolding dec_fields [OF abc] by (auto simp: b64_chars_def)
  with 1 show ?case by simp
next
  case (2 a b)
  then have ab: "a < 256" "b < 256" by auto
  obtain val' where "dec_for (b64_chars (enc3 [a, b]) @ pad) val (- 8) out =
      dec_for pad val' (- 6) (out @ [char_of a, char_of b])"
    using dec_for_3 [OF field_less(1) [OF ab(1)] field_less(2) [OF ab(2), of a]
        field_less(5) [of b], of pad val out] dec_fields [OF ab, of 0]
    by (auto simp: b64_chars_def)
  with 2 show ?case by (simp add: dec_for_pad)
next
  case (3 a)
  then have a: "a < 256" by auto
  obtain val' where "dec_for (b64_chars (enc3 [a]) @ pad) val (- 8) out =
      dec_for pad val' (- 4) (out @ [char_of a])"
    using dec_for_2 [OF field_less(1) [OF a] field_less(4) [of a], of pad val out] dec_fields [OF a, of 0 0]
    by (auto simp: b64_chars_def)
  with 3 show ?case by (simp add: dec_for_pad)
qed (simp add: b64_chars_def dec_for_pad)

lemma Base64UrlDecode_Encode [codec_simps]: "Base64UrlDecode (Base64UrlEncode s) = s"
proof -
  let ?c = "b64_chars (enc3 (map code s))"
  have less: "\<forall>i \<in> set (enc3 (map code s)). i < 64" using enc3_less [of "map code s"] by simp
  have "map from_url_char (map to_url_char ?c) = ?c"
    using less by (simp add: b64_chars_def b64_nth)
  then have "Base64UrlDecode (Base64UrlEncode s) =
      dec_for (?c @ replicate ((4 - length ?c mod 4) mod 4) CHR ''='') 0 (- 8) []"
    by (simp add: Base64UrlDecode_def Base64UrlEncode_enc3 pad4_def)
  also have "\<dots> = [] @ map char_of (map code s)"
    by (rule dec_for_enc3, metis hd_replicate replicate_empty) simp
  finally show ?thesis by (simp add: comp_def)
qed

lemma dot_notin_Base64UrlEncode [simp]: "CHR ''.'' \<notin> set (Base64UrlEncode s)"
proof -
  have "\<forall>i \<in> set (enc3 (map code s)). i < 64" using enc3_less [of "map code s"] by simp
  then have "\<forall>i \<in> set (enc3 (map code s)). to_url_char (b64 ! i) \<noteq> CHR ''.''"
    by (simp add: b64_nth)
  then show ?thesis
    by (auto simp: Base64UrlEncode_enc3 b64_chars_def)
qed

section \<open>The signature and the token\<close>

lemma jwt_hex_value_hex_char: "d < 16 \<Longrightarrow> jwt_hex_value (hex_char d) = d"
proof -
  have "list_all (\<lambda>d. jwt_hex_value (hex_char d) = d) [0..<16]" by code_simp
  then show "d < 16 \<Longrightarrow> jwt_hex_value (hex_char d) = d" by (simp add: list_all_iff)
qed

lemma or_shift4_nat: "b < 16 \<Longrightarrow> (a * 16) OR b = 16 * a + (b :: nat)"
proof -
  assume "b < 16"
  then have "int ((a * 16) OR b) = int (16 * a + b)" using or_shift4 [of b a] by (simp add: of_nat_or_eq)
  then show ?thesis by (simp only: of_nat_eq_iff)
qed

lemma jwt_HexDecode_Hmac: "jwt_HexDecode (HmacSha256 hmac key data) = hmac key data"
proof -
  have "jwt_HexDecode (concat (map (\<lambda>b. pad0 2 (show_hex (code b))) bs)) = bs" for bs
  proof (induction bs)
    case (Cons b bs)
    have "code b div 16 < 16" using code_less [of b] by arith
    with Cons show ?case
      using setw_hex_2 [OF code_less [of b]]
      by (simp add: setw_hex_def jwt_hex_value_hex_char or_shift4_nat)
  qed simp
  then show ?thesis by (simp add: HmacSha256_def)
qed

lemma jwt_signature_eq: "jwt_signature hmac secret msg = Base64UrlEncode (hmac secret msg)"
  by (simp add: jwt_signature_def jwt_HexDecode_Hmac)

lemma dot_notin_jwt_signature [simp]: "CHR ''.'' \<notin> set (jwt_signature hmac secret msg)"
  by (simp add: jwt_signature_def)

lemma find_sub_single: "find_sub [c] s = find_char c s"
  by (induction s) auto

lemma JwtVerify_parts:
  assumes "CHR ''.'' \<notin> set h" "CHR ''.'' \<notin> set p"
  shows "JwtVerify J hmac now_ms (h @ ''.'' @ p @ ''.'' @ s) secret =
    (if s = jwt_signature hmac secret (h @ ''.'' @ p) then jwt_read_payload J now_ms p else jwt_invalid)"
proof -
  have "find_char CHR ''.'' (h @ ''.'' @ p @ ''.'' @ s) = Some (length h)"
    using find_char_append [OF assms(1), of "p @ ''.'' @ s"] by simp
  moreover have "find_at ''.'' (h @ ''.'' @ p @ ''.'' @ s) (length h + 1) = Some (length h + 1 + length p)"
    using find_char_append [OF assms(2), of s] by (simp add: find_at_def find_sub_single)
  ultimately show ?thesis by (simp add: JwtVerify_def Let_def)
qed

text \<open>A token that is not rejected has three parts, the last of which signs the first two.\<close>

lemma JwtVerify_cases:
  assumes "jwt_valid (JwtVerify J hmac now_ms token secret)"
  obtains h p where "CHR ''.'' \<notin> set h" "CHR ''.'' \<notin> set p"
    "token = h @ ''.'' @ p @ ''.'' @ jwt_signature hmac secret (h @ ''.'' @ p)"
    "JwtVerify J hmac now_ms token secret = jwt_read_payload J now_ms p"
proof -
  obtain dot1 where "find_char CHR ''.'' token = Some dot1"
    using assms by (auto simp: JwtVerify_def jwt_invalid_def split: option.splits)
  from find_char_Some [OF this] obtain h v where tok: "token = h @ CHR ''.'' # v" "CHR ''.'' \<notin> set h"
    and dot1: "find_char CHR ''.'' token = Some (length h)" by auto
  have "find_char CHR ''.'' v \<noteq> None"
    using assms dot1 by (auto simp: JwtVerify_def jwt_invalid_def tok(1) find_at_def find_sub_single split: option.splits)
  then obtain k where "find_char CHR ''.'' v = Some k" by blast
  from find_char_Some [OF this] obtain p s where v: "v = p @ CHR ''.'' # s" "CHR ''.'' \<notin> set p" by auto
  note parts = JwtVerify_parts [OF tok(2) v(2), of J hmac now_ms s secret]
  have "s = jwt_signature hmac secret (h @ ''.'' @ p)"
    using assms parts by (auto simp: tok(1) v(1) jwt_invalid_def split: if_splits)
  with that [of h p] parts tok v show ?thesis by simp
qed

lemma jwt_read_payload_valid:
  assumes "jwt_valid (jwt_read_payload J now_ms p)"
  shows "now_ms div 1000 \<le> jwt_exp (jwt_read_payload J now_ms p)
    \<and> jwt_issuer (jwt_read_payload J now_ms p) \<in> {''swift-online'', ''swift-auth''}
    \<and> jwt_user_id (jwt_read_payload J now_ms p) \<noteq> []"
  using assms
  by (auto simp: jwt_read_payload_def jwt_invalid_def Let_def split: option.splits if_splits)

context json_laws
begin

lemma jwt_read_payload_created:
  assumes "is_int64 now" "is_int64 exp"
  shows "jwt_read_payload J now_ms (Base64UrlEncode (json_dump J (json_object J (jwt_payload_members issuer user_id now exp)))) =
    (let iss = if issuer = [] then ''swift-online'' else issuer
     in \<lparr>jwt_valid = now_ms div 1000 \<le> wrap32 exp \<and> iss \<in> {''swift-online'', ''swift-auth''} \<and> user_id \<noteq> [],
         jwt_user_id = user_id, jwt_issuer = iss, jwt_iat = wrap32 now, jwt_exp = wrap32 exp\<rparr>)"
  using assms
  by (auto simp: jwt_read_payload_def jwt_payload_members_def Base64UrlDecode_Encode json_simps jwt_invalid_def Let_def)

lemma JwtVerify_created:
  assumes "is_int64 (now_ms div 1000)" "is_int64 (now_ms div 1000 + expire_hours * 3600)"
  shows "JwtVerify J hmac later_ms (JwtCreate J hmac now_ms user_id secret expire_hours issuer) secret =
    (let iss = if issuer = [] then ''swift-online'' else issuer;
         exp = wrap32 (now_ms div 1000 + expire_hours * 3600)
     in \<lparr>jwt_valid = later_ms div 1000 \<le> exp \<and> iss \<in> {''swift-online'', ''swift-auth''} \<and> user_id \<noteq> [],
         jwt_user_id = user_id, jwt_issuer = iss, jwt_iat = wrap32 (now_ms div 1000), jwt_exp = exp\<rparr>)"
  unfolding JwtCreate_def Let_def append_assoc
    JwtVerify_parts [OF dot_notin_Base64UrlEncode dot_notin_Base64UrlEncode]
  using jwt_read_payload_created [OF assms, of later_ms issuer user_id]
  by (simp only: Let_def if_True refl)

end

text \<open>Base64url decoding inverts encoding on every byte string, and the encoder's shift
  loop computes the standard grouping of three bytes into four characters.\<close>

theorem Base64Url_roundtrip:
  "Base64UrlDecode (Base64UrlEncode s) = s
   \<and> Base64UrlEncode s = map to_url_char (map ((!) b64) (enc3 (map code s)))"
  by (rule conjI [OF Base64UrlDecode_Encode]) (simp add: Base64UrlEncode_enc3 b64_chars_def)

text \<open>C21: A token created for a non-empty user id, by one of the two known issuers, verifies under
  the same secret until its expiry and returns what was signed, while expiry fits in 31 bits.\<close>

theorem JwtVerify_JwtCreate:
  assumes "json_laws J" and "user_id \<noteq> []" and "issuer \<in> {[], ''swift-online'', ''swift-auth''}"
    and "0 \<le> now_ms" and "0 \<le> expire_hours" and "now_ms div 1000 + expire_hours * 3600 < 2 ^ 31"
    and "later_ms div 1000 \<le> now_ms div 1000 + expire_hours * 3600"
  shows "JwtVerify J hmac later_ms (JwtCreate J hmac now_ms user_id secret expire_hours issuer) secret =
    \<lparr>jwt_valid = True, jwt_user_id = user_id,
     jwt_issuer = (if issuer = [] then ''swift-online'' else issuer),
     jwt_iat = now_ms div 1000, jwt_exp = now_ms div 1000 + expire_hours * 3600\<rparr>"
proof -
  have now: "0 \<le> now_ms div 1000" using assms(4) by simp
  with assms(5,6) have b: "is_int32 (now_ms div 1000)" "is_int32 (now_ms div 1000 + expire_hours * 3600)"
    by (auto simp: is_int32_def)
  then have "is_int64 (now_ms div 1000)" "is_int64 (now_ms div 1000 + expire_hours * 3600)"
    by (auto simp: is_int32_def is_int64_def)
  note json_laws.JwtVerify_created [OF assms(1) this, of hmac later_ms user_id secret issuer]
  with b assms(2,3,7) show ?thesis by (auto simp: wrap32_id Let_def)
qed

theorem JwtVerify_JwtCreate_witness:
  "JwtVerify text_json (\<lambda>k d. rev d) 1700000001000
     (JwtCreate text_json (\<lambda>k d. rev d) 1700000000000 ''u_1'' ''key'' 168 []) ''key'' =
   \<lparr>jwt_valid = True, jwt_user_id = ''u_1'', jwt_issuer = ''swift-online'',
     jwt_iat = 1700000000, jwt_exp = 1700604800\<rparr>"
  using JwtVerify_JwtCreate [OF text_json.json_laws_axioms,
      of "''u_1''" "[]" 1700000000000 168 1700000001000 "\<lambda>k d. rev d" "''key''"] by simp

text \<open>C9: Every token that verifies carries, after its second dot, the Base64url form of the HMAC of
  everything before it; its expiry has not passed, its issuer is one of the two known ones and it
  names a user.\<close>

theorem JwtVerify_sound:
  assumes "jwt_valid (JwtVerify J hmac now_ms token secret)"
  shows "(\<exists>msg. token = msg @ ''.'' @ Base64UrlEncode (hmac secret msg) \<and> count_list msg CHR ''.'' = 1)
    \<and> now_ms div 1000 \<le> jwt_exp (JwtVerify J hmac now_ms token secret)
    \<and> jwt_issuer (JwtVerify J hmac now_ms token secret) \<in> {''swift-online'', ''swift-auth''}
    \<and> jwt_user_id (JwtVerify J hmac now_ms token secret) \<noteq> []"
proof -
  obtain h p where hp: "CHR ''.'' \<notin> set h" "CHR ''.'' \<notin> set p"
    "token = h @ ''.'' @ p @ ''.'' @ jwt_signature hmac secret (h @ ''.'' @ p)"
    "JwtVerify J hmac now_ms token secret = jwt_read_payload J now_ms p"
    using JwtVerify_cases [OF assms] .
  have "count_list (h @ ''.'' @ p) CHR ''.'' = 1"
    using hp(1,2) by (simp add: count_list_0_iff)
  moreover have "token = (h @ ''.'' @ p) @ ''.'' @ Base64UrlEncode (hmac secret (h @ ''.'' @ p))"
    using hp(3) by (simp add: jwt_signature_eq)
  ultimately show ?thesis
    using jwt_read_payload_valid [of J now_ms p] assms hp(4) by metis
qed

theorem JwtVerify_sound_witness:
  "\<exists>msg. JwtCreate text_json (\<lambda>k d. rev d) 1700000000000 ''u_1'' ''key'' 1 [] =
     msg @ ''.'' @ Base64UrlEncode (rev msg) \<and> count_list msg CHR ''.'' = 1"
proof -
  have "jwt_valid (JwtVerify text_json (\<lambda>k d. rev d) 1700000000000
      (JwtCreate text_json (\<lambda>k d. rev d) 1700000000000 ''u_1'' ''key'' 1 []) ''key'')"
    by (subst text_json.JwtVerify_created) (simp_all add: is_int64_def wrap32_def)
  from JwtVerify_sound [OF this] show ?thesis by blast
qed

text \<open>C34: What happens to tokens that expire after January 2038.  \<^verbatim>\<open>p.value("exp", 0)\<close> reads the 64-bit expiry as a 32-bit
  \<^verbatim>\<open>int\<close>, so that the expiry which is compared with the clock is the remainder in the range of that type, for every
  time of issue and every number of hours.  A token that expires at a time from 2^31 up to 2^32 seconds is therefore never accepted;
  one that expires still later is accepted exactly while the clock has not passed the remainder, which may lie in
  the future again.\<close>

theorem JwtVerify_after_2038:
  assumes "json_laws J" and "is_int64 (now_ms div 1000)" and "is_int32 expire_hours"
    and "is_int64 (now_ms div 1000 + expire_hours * 3600)"
  shows "jwt_exp (JwtVerify J hmac later_ms (JwtCreate J hmac now_ms user_id secret expire_hours issuer) secret) =
      wrap32 (now_ms div 1000 + expire_hours * 3600)
    \<and> (jwt_valid (JwtVerify J hmac later_ms (JwtCreate J hmac now_ms user_id secret expire_hours issuer) secret) \<longleftrightarrow>
        later_ms div 1000 \<le> wrap32 (now_ms div 1000 + expire_hours * 3600) \<and> issuer \<in> {[], ''swift-online'', ''swift-auth''} \<and> user_id \<noteq> [])
    \<and> (0 \<le> later_ms \<and> 2 ^ 31 \<le> now_ms div 1000 + expire_hours * 3600 \<and> now_ms div 1000 + expire_hours * 3600 < 2 ^ 32 \<longrightarrow>
        \<not> jwt_valid (JwtVerify J hmac later_ms (JwtCreate J hmac now_ms user_id secret expire_hours issuer) secret))"
proof -
  note v = json_laws.JwtVerify_created [OF assms(1,2,4), of hmac later_ms user_id secret issuer]
  have "\<not> later_ms div 1000 \<le> wrap32 (now_ms div 1000 + expire_hours * 3600)"
    if "0 \<le> later_ms" "2 ^ 31 \<le> now_ms div 1000 + expire_hours * 3600" "now_ms div 1000 + expire_hours * 3600 < 2 ^ 32"
  proof -
    have "wrap32 (now_ms div 1000 + expire_hours * 3600) = now_ms div 1000 + expire_hours * 3600 - 2 ^ 32"
      using that(2,3) by (simp add: wrap32_def mod_pos_geq)
    moreover have "0 \<le> later_ms div 1000" using that(1) by simp
    ultimately show ?thesis using that(3) by linarith
  qed
  then show ?thesis unfolding v by (auto simp: Let_def)
qed

theorem JwtVerify_after_2038_witness:
  "\<not> jwt_valid (JwtVerify text_json (\<lambda>k d. rev d) 2147000000000
     (JwtCreate text_json (\<lambda>k d. rev d) 2147000000000 ''u_1'' ''key'' 168 []) ''key'')
   \<and> jwt_valid (JwtVerify text_json (\<lambda>k d. rev d) 1790000000000
     (JwtCreate text_json (\<lambda>k d. rev d) 1790000000000 ''u_1'' ''key'' 1200000 []) ''key'')"
  using JwtVerify_after_2038 [OF text_json.json_laws_axioms, of 2147000000000 168 "\<lambda>k d. rev d" 2147000000000 "''u_1''" "''key''" "[]"]
    JwtVerify_after_2038 [OF text_json.json_laws_axioms, of 1790000000000 1200000 "\<lambda>k d. rev d" 1790000000000 "''u_1''" "''key''" "[]"]
  by (simp add: is_int64_def is_int32_def wrap32_def)

end
