(* ===== verification/Grpc_Auth.thy ===== *)
theory Grpc_Auth
  imports Jwt_Helper
begin

text \<open>
  \<^verbatim>\<open>backend/common/src/grpc_auth.cpp\<close>: the caller's identity from the metadata of a gRPC call.
  \<^verbatim>\<open>context->client_metadata()\<close> is a list of (key, value) pairs, in which \<^verbatim>\<open>find\<close> takes the first
  value of a key; a null context is \<open>None\<close>.
\<close>

type_synonym ServerContext = "(string \<times> string) list option"

definition kAuthHeader :: string where
  "kAuthHeader = ''authorization''"

definition kTokenHeader :: string where
  "kTokenHeader = ''x-token''"

definition kBearerPrefix :: string where
  "kBearerPrefix = ''Bearer ''"

definition blank4 :: string where
  "blank4 = [CHR '' '', CHR 0x09, CHR 0x0D, CHR 0x0A]"

definition blank2 :: string where
  "blank2 = [CHR '' '', CHR 0x09]"

definition GetTokenFromContext :: "(string \<times> string) list \<Rightarrow> string" where
  "GetTokenFromContext meta =
     (case map_of meta kAuthHeader of
        Some v \<Rightarrow>
          (case find_first_not_of blank4 v of
             None \<Rightarrow> []
           | Some start \<Rightarrow>
              (let v = (case find_last_not_of blank4 v of
                          None \<Rightarrow> drop start v
                        | Some stop \<Rightarrow> take (stop - start + 1) (drop start v))
               in if prefix kBearerPrefix v
                  then (let v = drop (length kBearerPrefix) v
                        in case find_first_not_of blank2 v of None \<Rightarrow> v | Some start \<Rightarrow> drop start v)
                  else v))
      | None \<Rightarrow>
          (case map_of meta kTokenHeader of Some v \<Rightarrow> v | None \<Rightarrow> []))"

definition GetAuthenticatedUserId ::
  "'j nlohmann \<Rightarrow> (string \<Rightarrow> string \<Rightarrow> string) \<Rightarrow> int \<Rightarrow> ServerContext \<Rightarrow> string \<Rightarrow> string" where
  "GetAuthenticatedUserId J hmac now_ms context jwt_secret =
     (case context of
        None \<Rightarrow> []
      | Some meta \<Rightarrow>
          if jwt_secret = [] then []
          else
            (let token = GetTokenFromContext meta in
             if token = [] then []
             else
               (let payload = JwtVerify J hmac now_ms token jwt_secret in
                if \<not> jwt_valid payload then [] else jwt_user_id payload)))"

text \<open>
  What a handler returns: the gRPC status, and the fields it sets in the response message;
  \<^verbatim>\<open>CommonResponse\<close> has a code and a message.
\<close>

datatype grpc_Status = grpc_OK | grpc_UNAUTHENTICATED string | grpc_NOT_FOUND string | grpc_INTERNAL string

record CommonResponse =
  resp_code :: int
  resp_message :: string

definition CommonResponse_default :: CommonResponse where
  "CommonResponse_default = \<lparr>resp_code = 0, resp_message = []\<rparr>"

section \<open>A token survives its header\<close>

lemma blank2_blank4: "set blank2 \<subseteq> set blank4"
  by (auto simp: blank2_def blank4_def)

lemma Base64UrlEncode_no_blank: "c \<in> set (Base64UrlEncode s) \<Longrightarrow> c \<notin> set blank4"
proof -
  assume "c \<in> set (Base64UrlEncode s)"
  then obtain i where i: "i \<in> set (enc3 (map code s))" "c = to_url_char (b64 ! i)"
    by (auto simp: Base64UrlEncode_enc3 b64_chars_def)
  then have "i < 64" using enc3_less [of "map code s"] by simp
  then have "b64 ! i \<in> set b64" by (intro nth_mem) (simp add: b64_def)
  moreover have "list_all (\<lambda>c. to_url_char c \<notin> set blank4) b64" by code_simp
  ultimately show ?thesis by (auto simp: i(2) list_all_iff)
qed

lemma JwtCreate_no_blank:
  "c \<in> set (JwtCreate J hmac now user_id secret hours issuer) \<Longrightarrow> c \<notin> set blank4"
proof -
  have "CHR ''.'' \<notin> set blank4" by (simp add: blank4_def)
  then show "c \<in> set (JwtCreate J hmac now user_id secret hours issuer) \<Longrightarrow> c \<notin> set blank4"
    by (auto simp: JwtCreate_def Let_def jwt_signature_def dest: Base64UrlEncode_no_blank)
qed

lemma JwtCreate_not_Nil: "JwtCreate J hmac now user_id secret hours issuer \<noteq> []"
  by (simp add: JwtCreate_def Let_def)

lemma dropWhile_no_blank: "set cs \<subseteq> set blank4 \<Longrightarrow> \<forall>c \<in> set t. c \<notin> set blank4 \<Longrightarrow>
    dropWhile (\<lambda>c. c \<in> set cs) t = t"
  by (cases t) auto

lemma find_first_no_blank: "set cs \<subseteq> set blank4 \<Longrightarrow> \<forall>c \<in> set t. c \<notin> set blank4 \<Longrightarrow> t \<noteq> [] \<Longrightarrow>
    find_first_not_of cs t = Some 0"
  by (cases t) (auto simp: find_first_not_of_def)

lemma GetTokenFromContext_bearer:
  assumes "\<forall>c \<in> set t. c \<notin> set blank4" "t \<noteq> []" "map_of meta kAuthHeader = Some (kBearerPrefix @ t)"
  shows "GetTokenFromContext meta = t"
proof -
  let ?v = "kBearerPrefix @ t"
  have start: "find_first_not_of blank4 ?v = Some 0"
    by (simp add: find_first_not_of_def kBearerPrefix_def blank4_def)
  have "find_first_not_of blank4 (rev ?v) = Some 0"
    using assms(1,2) by (cases t rule: rev_cases) (auto simp: find_first_not_of_def)
  then have "find_last_not_of blank4 ?v = Some (length ?v - 1)"
    by (simp add: find_last_not_of_def)
  moreover have "find_first_not_of blank2 t = Some 0"
    by (rule find_first_no_blank [OF blank2_blank4 assms(1,2)])
  ultimately show ?thesis
    using assms(2) by (simp add: GetTokenFromContext_def assms(3) start Let_def)
qed

lemma bearer_identity:
  assumes "json_laws J" and "secret \<noteq> []" and "user_id \<noteq> []" and "issuer \<in> {[], ''swift-online'', ''swift-auth''}"
    and "0 \<le> now_ms" and "0 \<le> hours" and "now_ms div 1000 + hours * 3600 < 2 ^ 31"
    and "later_ms div 1000 \<le> now_ms div 1000 + hours * 3600"
    and "map_of meta kAuthHeader = Some (kBearerPrefix @ JwtCreate J hmac now_ms user_id secret hours issuer)"
  shows "GetAuthenticatedUserId J hmac later_ms (Some meta) secret = user_id"
proof -
  let ?t = "JwtCreate J hmac now_ms user_id secret hours issuer"
  have tok: "GetTokenFromContext meta = ?t"
    by (rule GetTokenFromContext_bearer [OF _ JwtCreate_not_Nil assms(9)]) (blast dest: JwtCreate_no_blank)
  have b: "is_int32 (now_ms div 1000 + hours * 3600)" "is_int64 (now_ms div 1000)"
    "is_int64 (now_ms div 1000 + hours * 3600)"
    using assms(5-7) by (auto simp: is_int32_def is_int64_def)
  show ?thesis
    using assms(2-4,8) json_laws.JwtVerify_created [OF assms(1) b(2,3), of hmac later_ms user_id secret issuer]
    by (auto simp: GetAuthenticatedUserId_def tok JwtCreate_not_Nil Let_def wrap32_id [OF b(1)])
qed

text \<open>The metadata of a call by the user \<open>u\<close>, for concrete runs of the handlers.\<close>

definition demo_context :: "string \<Rightarrow> ServerContext" where
  "demo_context u = Some [(kAuthHeader, kBearerPrefix @ JwtCreate text_json (\<lambda>k d. rev d) 0 u ''key'' 1 [])]"

lemma demo_context_caller: "u \<noteq> [] \<Longrightarrow> GetAuthenticatedUserId text_json (\<lambda>k d. rev d) 0 (demo_context u) ''key'' = u"
  unfolding demo_context_def by (rule bearer_identity [OF text_json.json_laws_axioms]) simp_all

text \<open>A token issued to a user authenticates that user, and only that user, on a later call: sent
  as \<^verbatim>\<open>authorization: Bearer <jwt>\<close> before it expires, it makes the server see exactly the
  user id it was created for.\<close>

theorem GetAuthenticatedUserId_bearer:
  assumes "json_laws J" and "secret \<noteq> []" and "user_id \<noteq> []" and "issuer \<in> {[], ''swift-online'', ''swift-auth''}"
    and "0 \<le> now_ms" and "0 \<le> hours" and "now_ms div 1000 + hours * 3600 < 2 ^ 31"
    and "later_ms div 1000 \<le> now_ms div 1000 + hours * 3600"
    and "map_of meta kAuthHeader = Some (kBearerPrefix @ JwtCreate J hmac now_ms user_id secret hours issuer)"
  shows "GetAuthenticatedUserId J hmac later_ms (Some meta) secret = user_id"
  by (rule bearer_identity [OF assms])

theorem GetAuthenticatedUserId_bearer_witness:
  "GetAuthenticatedUserId text_json (\<lambda>k d. rev d) 1700000001000
     (Some [(kAuthHeader, kBearerPrefix @ JwtCreate text_json (\<lambda>k d. rev d) 1700000000000 ''u_1'' ''key'' 168 [])])
     ''key'' = ''u_1''"
  by (rule GetAuthenticatedUserId_bearer [OF text_json.json_laws_axioms]) simp_all

text \<open>Whatever a client sends, a non-empty identity comes from a token that verifies under the
  server's secret at this moment; with an empty secret nobody is authenticated.\<close>

theorem GetAuthenticatedUserId_sound:
  assumes "GetAuthenticatedUserId J hmac now_ms context secret \<noteq> []"
  shows "\<exists>meta. context = Some meta \<and> secret \<noteq> []
    \<and> jwt_valid (JwtVerify J hmac now_ms (GetTokenFromContext meta) secret)
    \<and> jwt_user_id (JwtVerify J hmac now_ms (GetTokenFromContext meta) secret) =
        GetAuthenticatedUserId J hmac now_ms context secret"
  using assms by (auto simp: GetAuthenticatedUserId_def Let_def split: option.splits if_splits)

theorem GetAuthenticatedUserId_sound_witness:
  "jwt_valid (JwtVerify text_json (\<lambda>k d. rev d) 1700000000000
     (JwtCreate text_json (\<lambda>k d. rev d) 1700000000000 ''u_1'' ''key'' 1 []) ''key'')"
proof -
  let ?t = "JwtCreate text_json (\<lambda>k d. rev d) 1700000000000 ''u_1'' ''key'' 1 []"
  let ?m = "[(kTokenHeader, ?t)]"
  have tok: "GetTokenFromContext ?m = ?t"
    by (simp add: GetTokenFromContext_def kTokenHeader_def kAuthHeader_def)
  have "GetAuthenticatedUserId text_json (\<lambda>k d. rev d) 1700000000000 (Some ?m) ''key'' \<noteq> []"
    unfolding GetAuthenticatedUserId_def
    by (simp add: tok JwtCreate_not_Nil text_json.JwtVerify_created is_int64_def wrap32_def)
  from GetAuthenticatedUserId_sound [OF this] show ?thesis by (auto simp only: tok option.inject)
qed

end
