(* ===== verification/User_Store.thy ===== *)
theory User_Store
  imports Swift_Utils Third_Party_Instances "HOL-Library.Monad_Syntax"
begin

text \<open>
  \<^verbatim>\<open>backend/authsvr/internal/store/user_store.{h,cpp}\<close>.  The abstract class \<^verbatim>\<open>UserStore\<close> is the
  record \<open>UserStore\<close> of its virtual methods over a state; \<open>RocksDBUserStore\<close> is the RocksDB
  implementation.  The locale \<open>user_store\<close> states what a client relies on, and \<open>store_env\<close> is
  a sublocale of it through the implementation.  The stores' \<^verbatim>\<open>if (!impl_->db)\<close> guards never
  fire: the constructor throws when the database cannot be opened.
\<close>

section \<open>Data\<close>

record UserData =
  ud_user_id :: string
  ud_username :: string
  ud_password_hash :: string
  ud_nickname :: string
  ud_avatar_url :: string
  ud_signature :: string
  ud_gender :: int
  ud_created_at :: int
  ud_updated_at :: int

record 's UserStore =
  us_Create :: "'s \<Rightarrow> UserData \<Rightarrow> bool \<times> 's"
  us_GetById :: "'s \<Rightarrow> string \<Rightarrow> UserData option"
  us_GetByUsername :: "'s \<Rightarrow> string \<Rightarrow> UserData option"
  us_Update :: "'s \<Rightarrow> UserData \<Rightarrow> bool \<times> 's"
  us_UsernameExists :: "'s \<Rightarrow> string \<Rightarrow> bool"
  us_SearchUsers :: "'s \<Rightarrow> string \<Rightarrow> int \<Rightarrow> UserData list"

section \<open>JSON form\<close>

definition user_members :: "UserData \<Rightarrow> (string \<times> jval) list" where
  "user_members user =
     [(''user_id'', JStr (ud_user_id user)), (''username'', JStr (ud_username user)),
      (''password_hash'', JStr (ud_password_hash user)), (''nickname'', JStr (ud_nickname user)),
      (''avatar_url'', JStr (ud_avatar_url user)), (''signature'', JStr (ud_signature user)),
      (''gender'', JInt (ud_gender user)), (''created_at'', JInt (ud_created_at user)),
      (''updated_at'', JInt (ud_updated_at user))]"

definition SerializeUser :: "'j nlohmann \<Rightarrow> UserData \<Rightarrow> string" where
  "SerializeUser J user = json_dump J (json_object J (user_members user))"

definition DeserializeUser :: "'j nlohmann \<Rightarrow> string \<Rightarrow> UserData option" where
  "DeserializeUser J data = do {
     j \<leftarrow> json_parse J data;
     user_id \<leftarrow> json_value_string J j ''user_id'' [];
     username \<leftarrow> json_value_string J j ''username'' [];
     password_hash \<leftarrow> json_value_string J j ''password_hash'' [];
     nickname \<leftarrow> json_value_string J j ''nickname'' [];
     avatar_url \<leftarrow> json_value_string J j ''avatar_url'' [];
     signature \<leftarrow> json_value_string J j ''signature'' [];
     gender \<leftarrow> json_value_int J j ''gender'' 0;
     created_at \<leftarrow> json_value_int J j ''created_at'' 0;
     updated_at \<leftarrow> json_value_int J j ''updated_at'' 0;
     Some \<lparr>ud_user_id = user_id, ud_username = username, ud_password_hash = password_hash,
       ud_nickname = nickname, ud_avatar_url = avatar_url, ud_signature = signature,
       ud_gender = gender, ud_created_at = created_at, ud_updated_at = updated_at\<rparr> }"

definition KEY_PREFIX_USER :: string where
  "KEY_PREFIX_USER = ''user:''"

definition KEY_PREFIX_USERNAME :: string where
  "KEY_PREFIX_USERNAME = ''username:''"

section \<open>Operations\<close>

definition RocksDBUserStore_UsernameExists :: "'db rocksdb \<Rightarrow> 'db \<Rightarrow> string \<Rightarrow> bool" where
  "RocksDBUserStore_UsernameExists R db username =
     (if username = [] then False else db_Get R db (KEY_PREFIX_USERNAME @ username) \<noteq> None)"

definition RocksDBUserStore_GetById :: "'db rocksdb \<Rightarrow> 'j nlohmann \<Rightarrow> 'db \<Rightarrow> string \<Rightarrow> UserData option" where
  "RocksDBUserStore_GetById R J db user_id =
     (if user_id = [] then None
      else (case db_Get R db (KEY_PREFIX_USER @ user_id) of
              None \<Rightarrow> None
            | Some val \<Rightarrow> DeserializeUser J val))"

definition RocksDBUserStore_GetByUsername :: "'db rocksdb \<Rightarrow> 'j nlohmann \<Rightarrow> 'db \<Rightarrow> string \<Rightarrow> UserData option" where
  "RocksDBUserStore_GetByUsername R J db username =
     (if username = [] then None
      else (case db_Get R db (KEY_PREFIX_USERNAME @ username) of
              None \<Rightarrow> None
            | Some user_id \<Rightarrow> RocksDBUserStore_GetById R J db user_id))"

definition RocksDBUserStore_Create :: "'db rocksdb \<Rightarrow> 'j nlohmann \<Rightarrow> 'db \<Rightarrow> UserData \<Rightarrow> bool \<times> 'db" where
  "RocksDBUserStore_Create R J db user =
     (if RocksDBUserStore_UsernameExists R db (ud_username user) then (False, db)
      else
        (let val = SerializeUser J user;
             batch = [BPut (KEY_PREFIX_USER @ ud_user_id user) val,
                      BPut (KEY_PREFIX_USERNAME @ ud_username user) (ud_user_id user)]
         in db_Write R db batch))"

definition RocksDBUserStore_Update :: "'db rocksdb \<Rightarrow> 'j nlohmann \<Rightarrow> 'db \<Rightarrow> UserData \<Rightarrow> bool \<times> 'db" where
  "RocksDBUserStore_Update R J db user =
     (if ud_user_id user = [] then (False, db)
      else
        (case RocksDBUserStore_GetById R J db (ud_user_id user) of
           None \<Rightarrow> (False, db)
         | Some existing \<Rightarrow>
             if ud_username existing \<noteq> ud_username user
                \<and> RocksDBUserStore_UsernameExists R db (ud_username user)
             then (False, db)
             else
               (let batch = (if ud_username existing \<noteq> ud_username user
                             then [BDelete (KEY_PREFIX_USERNAME @ ud_username existing),
                                   BPut (KEY_PREFIX_USERNAME @ ud_username user) (ud_user_id user)]
                             else []);
                    val = SerializeUser J user
                in db_Write R db (batch @ [BPut (KEY_PREFIX_USER @ ud_user_id user) val]))))"

definition haystack :: "UserData \<Rightarrow> string" where
  "haystack user = map tolower (ud_user_id user @ '' '' @ ud_username user @ '' '' @ ud_nickname user)"

text \<open>The loop over the entries with the prefix, with the results so far.\<close>

fun search_loop :: "'j nlohmann \<Rightarrow> string \<Rightarrow> int \<Rightarrow> (string \<times> string) list \<Rightarrow> UserData list \<Rightarrow> UserData list" where
  "search_loop J key limit [] result = result"
| "search_loop J key limit ((k, val) # es) result =
     (if \<not> int (length result) < limit then result
      else
        (case DeserializeUser J val of
           None \<Rightarrow> search_loop J key limit es result
         | Some user \<Rightarrow>
             if find_sub key (haystack user) \<noteq> None
             then search_loop J key limit es (result @ [user])
             else search_loop J key limit es result))"

definition RocksDBUserStore_SearchUsers ::
  "'db rocksdb \<Rightarrow> 'j nlohmann \<Rightarrow> 'db \<Rightarrow> string \<Rightarrow> int \<Rightarrow> UserData list" where
  "RocksDBUserStore_SearchUsers R J db keyword limit =
     (if keyword = [] \<or> limit \<le> 0 then []
      else search_loop J (map tolower keyword) limit (scan_prefix R db KEY_PREFIX_USER) [])"

definition RocksDBUserStore :: "'db rocksdb \<Rightarrow> 'j nlohmann \<Rightarrow> 'db UserStore" where
  "RocksDBUserStore R J =
     \<lparr>us_Create = RocksDBUserStore_Create R J, us_GetById = RocksDBUserStore_GetById R J,
      us_GetByUsername = RocksDBUserStore_GetByUsername R J, us_Update = RocksDBUserStore_Update R J,
      us_UsernameExists = RocksDBUserStore_UsernameExists R,
      us_SearchUsers = RocksDBUserStore_SearchUsers R J\<rparr>"

lemma RocksDBUserStore_simps [simp]:
  "us_Create (RocksDBUserStore R J) = RocksDBUserStore_Create R J"
  "us_GetById (RocksDBUserStore R J) = RocksDBUserStore_GetById R J"
  "us_GetByUsername (RocksDBUserStore R J) = RocksDBUserStore_GetByUsername R J"
  "us_Update (RocksDBUserStore R J) = RocksDBUserStore_Update R J"
  "us_UsernameExists (RocksDBUserStore R J) = RocksDBUserStore_UsernameExists R"
  "us_SearchUsers (RocksDBUserStore R J) = RocksDBUserStore_SearchUsers R J"
  by (simp_all add: RocksDBUserStore_def)

section \<open>The contract\<close>

text \<open>
  What the JSON form keeps of a user: the two timestamps are read back with
  \<^verbatim>\<open>value("...", 0)\<close>, an \<^verbatim>\<open>int\<close>, and so lose their upper 32 bits.
\<close>

definition narrow_user :: "UserData \<Rightarrow> UserData" where
  "narrow_user u = u\<lparr>ud_created_at := wrap32 (ud_created_at u), ud_updated_at := wrap32 (ud_updated_at u)\<rparr>"

definition user_ok :: "UserData \<Rightarrow> bool" where
  "user_ok u \<longleftrightarrow> ud_user_id u \<noteq> [] \<and> ud_username u \<noteq> [] \<and> is_int32 (ud_gender u)
     \<and> is_int64 (ud_created_at u) \<and> is_int64 (ud_updated_at u)"

definition user_matches :: "string \<Rightarrow> UserData \<Rightarrow> bool" where
  "user_matches keyword u \<longleftrightarrow> (\<exists>a b. haystack u = a @ map tolower keyword @ b)"

locale user_store =
  fixes US :: "'s UserStore" and inv :: "'s \<Rightarrow> bool"
  assumes by_id_ok: "inv s \<Longrightarrow> us_GetById US s uid = Some u \<Longrightarrow>
      ud_user_id u = uid \<and> user_ok u"
    and username_unique: "inv s \<Longrightarrow> us_GetById US s a = Some u \<Longrightarrow> us_GetById US s b = Some v \<Longrightarrow>
      ud_username u = ud_username v \<Longrightarrow> a = b"
    and by_username: "inv s \<Longrightarrow> us_GetByUsername US s n = Some u \<longleftrightarrow>
      (\<exists>uid. us_GetById US s uid = Some u \<and> ud_username u = n)"
    and username_exists: "inv s \<Longrightarrow> us_UsernameExists US s n \<longleftrightarrow> us_GetByUsername US s n \<noteq> None"
    and create_taken: "us_UsernameExists US s (ud_username u) \<Longrightarrow> us_Create US s u = (False, s)"
    and create_result: "inv s \<Longrightarrow> us_Create US s u = (ok, s') \<Longrightarrow> user_ok u \<Longrightarrow>
      us_GetById US s (ud_user_id u) = None \<Longrightarrow>
      inv s' \<and> us_GetById US s' =
        (if ok then (us_GetById US s)(ud_user_id u \<mapsto> narrow_user u) else us_GetById US s)"
    and update_result: "inv s \<Longrightarrow> us_Update US s u = (ok, s') \<Longrightarrow> user_ok u \<Longrightarrow>
      inv s' \<and> us_GetById US s' =
        (if ok then (us_GetById US s)(ud_user_id u \<mapsto> narrow_user u) else us_GetById US s)"
    and update_absent: "us_GetById US s (ud_user_id u) = None \<Longrightarrow> us_Update US s u = (False, s)"
    and search_sound: "inv s \<Longrightarrow> u \<in> set (us_SearchUsers US s keyword limit) \<Longrightarrow>
      us_GetById US s (ud_user_id u) = Some u \<and> user_matches keyword u"
    and search_bound: "0 \<le> limit \<Longrightarrow> int (length (us_SearchUsers US s keyword limit)) \<le> limit"
    and search_complete: "inv s \<Longrightarrow> keyword \<noteq> [] \<Longrightarrow> us_GetById US s uid = Some u \<Longrightarrow> user_matches keyword u \<Longrightarrow>
      int (length (us_SearchUsers US s keyword limit)) < limit \<Longrightarrow> u \<in> set (us_SearchUsers US s keyword limit)"

section \<open>The implementation meets it\<close>

definition user_inv :: "'db rocksdb \<Rightarrow> 'j nlohmann \<Rightarrow> 'db \<Rightarrow> bool" where
  "user_inv R J db \<longleftrightarrow>
     (\<forall>uid val. db_Get R db (KEY_PREFIX_USER @ uid) = Some val \<longrightarrow>
        (\<exists>u. DeserializeUser J val = Some u \<and> ud_user_id u = uid \<and> user_ok u
           \<and> db_Get R db (KEY_PREFIX_USERNAME @ ud_username u) = Some uid)) \<and>
     (\<forall>n uid. db_Get R db (KEY_PREFIX_USERNAME @ n) = Some uid \<longrightarrow>
        (\<exists>u. RocksDBUserStore_GetById R J db uid = Some u \<and> ud_username u = n))"

lemmas user_keys = KEY_PREFIX_USER_def KEY_PREFIX_USERNAME_def

lemma user_key_neq [simp]: "KEY_PREFIX_USER @ a \<noteq> KEY_PREFIX_USERNAME @ b" "KEY_PREFIX_USERNAME @ b \<noteq> KEY_PREFIX_USER @ a"
  by (simp_all add: user_keys)

lemma find_sub_eq: "find_sub pat s \<noteq> None \<longleftrightarrow> (\<exists>a b. s = a @ pat @ b)"
proof
  assume "find_sub pat s \<noteq> None"
  then show "\<exists>a b. s = a @ pat @ b" using find_sub_Some by (metis option.exhaust)
next
  have "find_sub pat (a @ pat @ b) \<noteq> None" for a b
  proof (induction a)
    case Nil
    have "prefix pat (pat @ b)" by simp
    then show ?case by (cases "pat @ b") auto
  qed auto
  then show "\<exists>a b. s = a @ pat @ b \<Longrightarrow> find_sub pat s \<noteq> None" by auto
qed

lemma user_ok_narrow: "user_ok u \<Longrightarrow> user_ok (narrow_user u)"
  by (simp add: user_ok_def narrow_user_def)

lemma narrow_user_simps [simp]: "ud_user_id (narrow_user u) = ud_user_id u" "ud_username (narrow_user u) = ud_username u"
  "ud_password_hash (narrow_user u) = ud_password_hash u"
  by (simp_all add: narrow_user_def)

lemma search_loop_eq:
  "search_loop J key limit es result =
     result @ take (nat limit - length result)
       (filter (\<lambda>u. find_sub key (haystack u) \<noteq> None) (List.map_filter (\<lambda>e. DeserializeUser J (snd e)) es))"
proof (induction es arbitrary: result)
  case (Cons e es)
  obtain k val where e: "e = (k, val)" by (cases e)
  show ?case
  proof (cases "int (length result) < limit")
    case True
    then have "0 < nat limit - length result" by simp
    then obtain m where "nat limit - length result = Suc m" using gr0_conv_Suc by blast
    moreover from this have "nat limit - Suc (length result) = m" by simp
    ultimately show ?thesis
      using True Cons by (auto simp: e map_filter_simps split: option.splits)
  qed (simp add: e)
qed (simp add: map_filter_simps)

context json_laws
begin

lemma DeserializeUser_Serialize: "user_ok u \<Longrightarrow> DeserializeUser J (SerializeUser J u) = Some (narrow_user u)"
  by (simp add: DeserializeUser_def SerializeUser_def user_members_def json_simps user_ok_def narrow_user_def wrap32_id
      is_int32_def is_int64_def)

end

lemma user_inv_cong: "db_Get R db = db_Get R db' \<Longrightarrow> user_inv R J db = user_inv R J db'"
  by (simp add: user_inv_def RocksDBUserStore_GetById_def)

lemma GetById_cong: "db_Get R db = db_Get R db' \<Longrightarrow> RocksDBUserStore_GetById R J db = RocksDBUserStore_GetById R J db'"
  by (simp add: RocksDBUserStore_GetById_def fun_eq_iff)

lemma user_inv_by_id:
  assumes "user_inv R J db"
  shows "RocksDBUserStore_GetById R J db uid = Some u \<longleftrightarrow>
      (\<exists>val. db_Get R db (KEY_PREFIX_USER @ uid) = Some val \<and> DeserializeUser J val = Some u)"
    and "RocksDBUserStore_GetById R J db uid = None \<longleftrightarrow> db_Get R db (KEY_PREFIX_USER @ uid) = None"
proof -
  have ex: "db_Get R db (KEY_PREFIX_USER @ uid) = Some val \<Longrightarrow>
      \<exists>u. DeserializeUser J val = Some u \<and> ud_user_id u = uid \<and> user_ok u" for val
    using assms by (auto simp: user_inv_def)
  then have "db_Get R db (KEY_PREFIX_USER @ uid) \<noteq> None \<Longrightarrow> uid \<noteq> []" by (auto simp: user_ok_def)
  with ex show "RocksDBUserStore_GetById R J db uid = Some u \<longleftrightarrow>
      (\<exists>val. db_Get R db (KEY_PREFIX_USER @ uid) = Some val \<and> DeserializeUser J val = Some u)"
    and "RocksDBUserStore_GetById R J db uid = None \<longleftrightarrow> db_Get R db (KEY_PREFIX_USER @ uid) = None"
    by (auto simp: RocksDBUserStore_GetById_def split: option.splits)
qed

lemma user_inv_GetById:
  assumes "user_inv R J db" "RocksDBUserStore_GetById R J db uid = Some u"
  shows "ud_user_id u = uid \<and> user_ok u \<and> db_Get R db (KEY_PREFIX_USERNAME @ ud_username u) = Some uid"
proof -
  obtain val where val: "db_Get R db (KEY_PREFIX_USER @ uid) = Some val" "DeserializeUser J val = Some u"
    using assms(2) unfolding user_inv_by_id(1) [OF assms(1)] by blast
  then obtain w where "DeserializeUser J val = Some w \<and> ud_user_id w = uid \<and> user_ok w
      \<and> db_Get R db (KEY_PREFIX_USERNAME @ ud_username w) = Some uid"
    using assms(1) unfolding user_inv_def by blast
  with val(2) show ?thesis by simp
qed

lemma user_inv_index:
  assumes "user_inv R J db"
  shows "db_Get R db (KEY_PREFIX_USERNAME @ n) = Some uid \<longleftrightarrow>
     (\<exists>u. RocksDBUserStore_GetById R J db uid = Some u \<and> ud_username u = n)"
proof
  show "db_Get R db (KEY_PREFIX_USERNAME @ n) = Some uid \<Longrightarrow>
      \<exists>u. RocksDBUserStore_GetById R J db uid = Some u \<and> ud_username u = n"
    using assms unfolding user_inv_def by blast
qed (use user_inv_GetById [OF assms] in blast)

text \<open>
  The database after a user record is written at \<open>u\<close>'s id, with \<open>u\<close>'s name pointing to it and
  the name \<open>old\<close> of the user that was there removed.
\<close>

lemma user_inv_write:
  assumes inv: "user_inv R J db" and ok: "user_ok u"
    and free: "db_Get R db (KEY_PREFIX_USERNAME @ ud_username u) \<in> {None, Some (ud_user_id u)}"
    and val: "DeserializeUser J val = Some (narrow_user u)"
    and get: "\<And>k. db_Get R db' k =
      (if k = KEY_PREFIX_USER @ ud_user_id u then Some val
       else if k = KEY_PREFIX_USERNAME @ ud_username u then Some (ud_user_id u)
       else if \<exists>v. RocksDBUserStore_GetById R J db (ud_user_id u) = Some v \<and> k = KEY_PREFIX_USERNAME @ ud_username v then None
       else db_Get R db k)"
  shows "user_inv R J db' \<and> RocksDBUserStore_GetById R J db' =
    (RocksDBUserStore_GetById R J db)(ud_user_id u \<mapsto> narrow_user u)"
proof -
  let ?G = "RocksDBUserStore_GetById R J"
  have uid: "ud_user_id u \<noteq> []" using ok by (simp add: user_ok_def)
  have by_id: "?G db' = (?G db)(ud_user_id u \<mapsto> narrow_user u)"
    by (rule ext) (simp add: RocksDBUserStore_GetById_def get uid val)
  have okn: "user_ok (narrow_user u)" using ok by (rule user_ok_narrow)
  have "\<exists>w. DeserializeUser J x = Some w \<and> ud_user_id w = a \<and> user_ok w
      \<and> db_Get R db' (KEY_PREFIX_USERNAME @ ud_username w) = Some a"
    if "db_Get R db' (KEY_PREFIX_USER @ a) = Some x" for a x
  proof (cases "a = ud_user_id u")
    case True
    with that val okn show ?thesis by (simp add: get)
  next
    case False
    with that have "db_Get R db (KEY_PREFIX_USER @ a) = Some x" by (simp add: get)
    then obtain w where w: "DeserializeUser J x = Some w" "ud_user_id w = a" "user_ok w"
      "db_Get R db (KEY_PREFIX_USERNAME @ ud_username w) = Some a"
      using inv by (auto simp: user_inv_def)
    have "?G db (ud_user_id u) = Some v \<Longrightarrow> ud_username w \<noteq> ud_username v" for v
      using user_inv_GetById [OF inv, of "ud_user_id u" v] w(4) False by auto
    moreover have "ud_username w \<noteq> ud_username u" using w(4) free False by auto
    ultimately have "db_Get R db' (KEY_PREFIX_USERNAME @ ud_username w) = Some a" using w(4) by (auto simp: get)
    with w show ?thesis by blast
  qed
  moreover have "\<exists>w. ?G db' a = Some w \<and> ud_username w = n"
    if "db_Get R db' (KEY_PREFIX_USERNAME @ n) = Some a" for n a
  proof (cases "n = ud_username u")
    case True
    with that show ?thesis by (simp add: get by_id)
  next
    case False
    with that have old: "db_Get R db (KEY_PREFIX_USERNAME @ n) = Some a"
      and nv: "\<And>v. ?G db (ud_user_id u) = Some v \<Longrightarrow> n \<noteq> ud_username v"
      by (auto simp: get split: if_splits)
    from old obtain w where w: "?G db a = Some w" "ud_username w = n" using user_inv_index [OF inv] by blast
    with nv have "a \<noteq> ud_user_id u" by auto
    with w show ?thesis by (simp add: by_id)
  qed
  ultimately show ?thesis using by_id by (simp add: user_inv_def)
qed

context store_env
begin

lemma user_create:
  assumes inv: "user_inv R J db" and "RocksDBUserStore_Create R J db u = (ok, db')" and "user_ok u"
    and fresh: "RocksDBUserStore_GetById R J db (ud_user_id u) = None"
  shows "user_inv R J db' \<and> RocksDBUserStore_GetById R J db' =
    (if ok then (RocksDBUserStore_GetById R J db)(ud_user_id u \<mapsto> narrow_user u) else RocksDBUserStore_GetById R J db)"
proof (cases "RocksDBUserStore_UsernameExists R db (ud_username u)")
  case True
  with assms show ?thesis by (simp add: RocksDBUserStore_Create_def)
next
  case False
  then have free: "db_Get R db (KEY_PREFIX_USERNAME @ ud_username u) = None"
    using assms(3) by (auto simp: RocksDBUserStore_UsernameExists_def user_ok_def split: if_splits)
  have w: "db_Write R db [BPut (KEY_PREFIX_USER @ ud_user_id u) (SerializeUser J u),
      BPut (KEY_PREFIX_USERNAME @ ud_username u) (ud_user_id u)] = (ok, db')"
    using assms(2) False by (simp add: RocksDBUserStore_Create_def)
  show ?thesis
  proof (cases ok)
    case True
    have "db_Get R db' k = (if k = KEY_PREFIX_USER @ ud_user_id u then Some (SerializeUser J u)
       else if k = KEY_PREFIX_USERNAME @ ud_username u then Some (ud_user_id u)
       else if \<exists>v. RocksDBUserStore_GetById R J db (ud_user_id u) = Some v \<and> k = KEY_PREFIX_USERNAME @ ud_username v then None
       else db_Get R db k)" for k
      using write_get [OF w] True fresh by simp
    from user_inv_write [OF inv assms(3) _ DeserializeUser_Serialize [OF assms(3)] this] free True
    show ?thesis by simp
  next
    case False
    then have "db_Get R db' = db_Get R db" using write_get [OF w] by simp
    with inv False show ?thesis by (simp add: user_inv_cong [of R db'] GetById_cong [of R db'])
  qed
qed

lemma user_update:
  assumes inv: "user_inv R J db" and upd: "RocksDBUserStore_Update R J db u = (ok, db')" and "user_ok u"
  shows "user_inv R J db' \<and> RocksDBUserStore_GetById R J db' =
    (if ok then (RocksDBUserStore_GetById R J db)(ud_user_id u \<mapsto> narrow_user u) else RocksDBUserStore_GetById R J db)"
proof (cases "RocksDBUserStore_GetById R J db (ud_user_id u)")
  case None
  with assms show ?thesis by (auto simp: RocksDBUserStore_Update_def split: if_splits)
next
  case (Some v)
  note v = user_inv_GetById [OF inv Some]
  let ?taken = "ud_username v \<noteq> ud_username u \<and> RocksDBUserStore_UsernameExists R db (ud_username u)"
  let ?batch = "(if ud_username v \<noteq> ud_username u
     then [BDelete (KEY_PREFIX_USERNAME @ ud_username v), BPut (KEY_PREFIX_USERNAME @ ud_username u) (ud_user_id u)] else [])
     @ [BPut (KEY_PREFIX_USER @ ud_user_id u) (SerializeUser J u)]"
  have uid: "ud_user_id u \<noteq> []" using assms(3) by (simp add: user_ok_def)
  show ?thesis
  proof (cases ?taken)
    case True
    with upd Some uid inv show ?thesis by (simp add: RocksDBUserStore_Update_def)
  next
    case nt: False
    with upd Some uid have w: "db_Write R db ?batch = (ok, db')"
      unfolding RocksDBUserStore_Update_def by (simp only: option.case if_False Let_def)
    have free: "db_Get R db (KEY_PREFIX_USERNAME @ ud_username u) \<in> {None, Some (ud_user_id u)}"
      using nt v assms(3) by (auto simp: RocksDBUserStore_UsernameExists_def user_ok_def split: if_splits)
    show ?thesis
    proof (cases ok)
      case True
      have "db_Get R db' k = (if k = KEY_PREFIX_USER @ ud_user_id u then Some (SerializeUser J u)
         else if k = KEY_PREFIX_USERNAME @ ud_username u then Some (ud_user_id u)
         else if \<exists>v. RocksDBUserStore_GetById R J db (ud_user_id u) = Some v \<and> k = KEY_PREFIX_USERNAME @ ud_username v then None
         else db_Get R db k)" for k
        using write_get [OF w] True Some v by auto
      from user_inv_write [OF inv assms(3) free DeserializeUser_Serialize [OF assms(3)] this] True
      show ?thesis by simp
    next
      case False
      then have "db_Get R db' = db_Get R db" using write_get [OF w] by simp
      with inv False show ?thesis by (simp add: user_inv_cong [of R db'] GetById_cong [of R db'])
    qed
  qed
qed

lemma user_scan:
  assumes "user_inv R J db"
  shows "u \<in> set (List.map_filter (\<lambda>e. DeserializeUser J (snd e)) (scan_prefix R db KEY_PREFIX_USER)) \<longleftrightarrow>
    (\<exists>uid. RocksDBUserStore_GetById R J db uid = Some u)"
proof
  assume "u \<in> set (List.map_filter (\<lambda>e. DeserializeUser J (snd e)) (scan_prefix R db KEY_PREFIX_USER))"
  then show "\<exists>uid. RocksDBUserStore_GetById R J db uid = Some u"
    unfolding user_inv_by_id(1) [OF assms] by (auto simp: set_map_filter in_scan_prefix prefix_def) blast
next
  assume "\<exists>uid. RocksDBUserStore_GetById R J db uid = Some u"
  then obtain uid val where "db_Get R db (KEY_PREFIX_USER @ uid) = Some val" "DeserializeUser J val = Some u"
    unfolding user_inv_by_id(1) [OF assms] by blast
  then have "(KEY_PREFIX_USER @ uid, val) \<in> set (scan_prefix R db KEY_PREFIX_USER)" "DeserializeUser J (snd (KEY_PREFIX_USER @ uid, val)) = Some u"
    by (simp_all add: in_scan_prefix)
  then show "u \<in> set (List.map_filter (\<lambda>e. DeserializeUser J (snd e)) (scan_prefix R db KEY_PREFIX_USER))"
    unfolding set_map_filter by blast
qed

end

sublocale store_env \<subseteq> us: user_store "RocksDBUserStore R J" "user_inv R J"
proof
  fix db uid u
  assume inv: "user_inv R J db" and "us_GetById (RocksDBUserStore R J) db uid = Some u"
  then show "ud_user_id u = uid \<and> user_ok u"
    using user_inv_GetById [OF inv, of uid u] by simp
next
  fix db a b u v
  assume inv: "user_inv R J db" and "us_GetById (RocksDBUserStore R J) db a = Some u"
    "us_GetById (RocksDBUserStore R J) db b = Some v" "ud_username u = ud_username v"
  then show "a = b"
    using user_inv_GetById [OF inv, of a u] user_inv_GetById [OF inv, of b v] by simp
next
  fix db n u
  assume inv: "user_inv R J db"
  then have ne: "\<And>uid. RocksDBUserStore_GetById R J db uid = Some u \<Longrightarrow> ud_username u \<noteq> []"
    using user_inv_GetById by (fastforce simp: user_ok_def)
  have "RocksDBUserStore_GetByUsername R J db n = Some u \<longleftrightarrow>
      n \<noteq> [] \<and> (\<exists>uid. db_Get R db (KEY_PREFIX_USERNAME @ n) = Some uid \<and> RocksDBUserStore_GetById R J db uid = Some u)"
    by (auto simp: RocksDBUserStore_GetByUsername_def split: option.splits)
  also have "\<dots> \<longleftrightarrow> (\<exists>uid. RocksDBUserStore_GetById R J db uid = Some u \<and> ud_username u = n)"
    using ne user_inv_index [OF inv, of n] by (metis option.inject)
  finally show "(us_GetByUsername (RocksDBUserStore R J) db n = Some u) =
      (\<exists>uid. us_GetById (RocksDBUserStore R J) db uid = Some u \<and> ud_username u = n)"
    by simp
next
  fix db n
  assume inv: "user_inv R J db"
  show "us_UsernameExists (RocksDBUserStore R J) db n = (us_GetByUsername (RocksDBUserStore R J) db n \<noteq> None)"
  proof (cases "db_Get R db (KEY_PREFIX_USERNAME @ n)")
    case (Some uid)
    then obtain u where "RocksDBUserStore_GetById R J db uid = Some u" using user_inv_index [OF inv] by blast
    with Some show ?thesis
      by (simp add: RocksDBUserStore_UsernameExists_def RocksDBUserStore_GetByUsername_def)
  qed (simp add: RocksDBUserStore_UsernameExists_def RocksDBUserStore_GetByUsername_def)
next
  fix db and u :: UserData
  assume "us_UsernameExists (RocksDBUserStore R J) db (ud_username u)"
  then show "us_Create (RocksDBUserStore R J) db u = (False, db)"
    by (simp add: RocksDBUserStore_Create_def)
next
  fix db u ok db'
  assume "user_inv R J db" "us_Create (RocksDBUserStore R J) db u = (ok, db')" "user_ok u"
    "us_GetById (RocksDBUserStore R J) db (ud_user_id u) = None"
  then show "user_inv R J db' \<and> us_GetById (RocksDBUserStore R J) db' =
     (if ok then (us_GetById (RocksDBUserStore R J) db)(ud_user_id u \<mapsto> narrow_user u) else us_GetById (RocksDBUserStore R J) db)"
    using user_create [of db u ok db'] by simp
next
  fix db u ok db'
  assume "user_inv R J db" "us_Update (RocksDBUserStore R J) db u = (ok, db')" "user_ok u"
  then show "user_inv R J db' \<and> us_GetById (RocksDBUserStore R J) db' =
     (if ok then (us_GetById (RocksDBUserStore R J) db)(ud_user_id u \<mapsto> narrow_user u) else us_GetById (RocksDBUserStore R J) db)"
    using user_update [of db u ok db'] by simp
next
  fix db and u :: UserData
  assume "us_GetById (RocksDBUserStore R J) db (ud_user_id u) = None"
  then show "us_Update (RocksDBUserStore R J) db u = (False, db)"
    by (simp add: RocksDBUserStore_Update_def)
next
  fix db u keyword limit
  assume inv: "user_inv R J db" and "u \<in> set (us_SearchUsers (RocksDBUserStore R J) db keyword limit)"
  then have "u \<in> set (List.map_filter (\<lambda>e. DeserializeUser J (snd e)) (scan_prefix R db KEY_PREFIX_USER))"
    "find_sub (map tolower keyword) (haystack u) \<noteq> None"
    by (auto simp: RocksDBUserStore_SearchUsers_def search_loop_eq dest!: in_set_takeD split: if_splits)
  then show "us_GetById (RocksDBUserStore R J) db (ud_user_id u) = Some u \<and> user_matches keyword u"
    using user_inv_GetById [OF inv] unfolding user_scan [OF inv] find_sub_eq
    by (auto simp: user_matches_def)
next
  fix db keyword and limit :: int
  assume "0 \<le> limit"
  then show "int (length (us_SearchUsers (RocksDBUserStore R J) db keyword limit)) \<le> limit"
    by (auto simp: RocksDBUserStore_SearchUsers_def search_loop_eq)
next
  fix db keyword uid u and limit :: int
  assume inv: "user_inv R J db" and kw: "keyword \<noteq> []" and u: "us_GetById (RocksDBUserStore R J) db uid = Some u"
    and m: "user_matches keyword u" and short: "int (length (us_SearchUsers (RocksDBUserStore R J) db keyword limit)) < limit"
  let ?f = "filter (\<lambda>u. find_sub (map tolower keyword) (haystack u) \<noteq> None)
      (List.map_filter (\<lambda>e. DeserializeUser J (snd e)) (scan_prefix R db KEY_PREFIX_USER))"
  have "u \<in> set ?f"
    using u m user_scan [OF inv, of u] unfolding set_filter find_sub_eq user_matches_def
    by auto
  moreover have s: "us_SearchUsers (RocksDBUserStore R J) db keyword limit = take (nat limit) ?f"
    using kw short by (simp add: RocksDBUserStore_SearchUsers_def search_loop_eq)
  moreover have "length ?f \<le> nat limit" using short unfolding s by auto
  ultimately show "u \<in> set (us_SearchUsers (RocksDBUserStore R J) db keyword limit)" by simp
qed

context store_env
begin

lemma rocksdb_user_store: "user_store (RocksDBUserStore R J) (user_inv R J)"
  by unfold_locales

end

lemma user_inv_empty: "db_Get R db = Map.empty \<Longrightarrow> user_inv R J db"
  by (simp add: user_inv_def)

interpretation alist_us: user_store "RocksDBUserStore alist_db text_json" "user_inv alist_db text_json"
  by unfold_locales

end
