(* ===== verification/Auth_Service.thy ===== *)
theory Auth_Service
  imports User_Store Error_Code
begin

text \<open>
  \<^verbatim>\<open>backend/authsvr/internal/service/auth_service.{h,cpp}\<close>: registration, credential check and
  profiles over a \<open>UserStore\<close>.  \<open>evp\<close> is OpenSSL's SHA-256, \<open>draws\<close> the random values and
  \<open>now\<close> the clock reading of one call.  Logging is left out.
\<close>

section \<open>Operations\<close>

definition kPasswordSalt :: string where
  "kPasswordSalt = ''swift_salt_2026''"

definition ValidateUsername :: "string \<Rightarrow> bool" where
  "ValidateUsername username =
     (if length username < 3 \<or> length username > 32 then False
      else list_all (\<lambda>c. isalnum c \<or> c = CHR ''_'') username)"

definition ValidatePassword :: "string \<Rightarrow> bool" where
  "ValidatePassword password \<longleftrightarrow> length password \<ge> 8"

record AuthProfile =
  ap_user_id :: string
  ap_username :: string
  ap_nickname :: string
  ap_avatar_url :: string
  ap_signature :: string
  ap_gender :: int
  ap_created_at :: int

record RegisterResult =
  rr_success :: bool
  rr_user_id :: string
  rr_error :: string
  rr_error_code :: ErrorCode

record VerifyCredentialsResult =
  vr_success :: bool
  vr_user_id :: string
  vr_profile :: "AuthProfile option"
  vr_error :: string
  vr_error_code :: ErrorCode

record UpdateProfileResult =
  up_success :: bool
  up_error :: string
  up_error_code :: ErrorCode

definition GenerateUserId :: "nat list \<Rightarrow> string" where
  "GenerateUserId draws = GenerateShortId draws ''u_'' 12"

definition HashPassword :: "(string \<Rightarrow> string option) \<Rightarrow> string \<Rightarrow> string" where
  "HashPassword evp password = SHA256 evp (password @ kPasswordSalt)"

definition VerifyPassword :: "(string \<Rightarrow> string option) \<Rightarrow> string \<Rightarrow> string \<Rightarrow> bool" where
  "VerifyPassword evp password hash \<longleftrightarrow> HashPassword evp password = hash"

definition ToProfile :: "UserData \<Rightarrow> AuthProfile" where
  "ToProfile user =
     \<lparr>ap_user_id = ud_user_id user, ap_username = ud_username user, ap_nickname = ud_nickname user,
      ap_avatar_url = ud_avatar_url user, ap_signature = ud_signature user, ap_gender = ud_gender user,
      ap_created_at = ud_created_at user\<rparr>"

definition register_error :: "string \<Rightarrow> ErrorCode \<Rightarrow> RegisterResult" where
  "register_error msg c = \<lparr>rr_success = False, rr_user_id = [], rr_error = msg, rr_error_code = c\<rparr>"

definition new_user :: "(string \<Rightarrow> string option) \<Rightarrow> nat list \<Rightarrow> int \<Rightarrow> string \<Rightarrow> string \<Rightarrow> string \<Rightarrow> string \<Rightarrow> UserData" where
  "new_user evp draws now username password nickname avatar_url =
     \<lparr>ud_user_id = GenerateUserId draws, ud_username = username,
      ud_password_hash = HashPassword evp password,
      ud_nickname = (if nickname = [] then username else nickname),
      ud_avatar_url = avatar_url, ud_signature = [], ud_gender = 0,
      ud_created_at = now, ud_updated_at = now\<rparr>"

definition AuthServiceCore_Register ::
  "'s UserStore \<Rightarrow> (string \<Rightarrow> string option) \<Rightarrow> nat list \<Rightarrow> int \<Rightarrow> 's \<Rightarrow> string \<Rightarrow> string \<Rightarrow> string \<Rightarrow> string \<Rightarrow> string
     \<Rightarrow> RegisterResult \<times> 's" where
  "AuthServiceCore_Register US evp draws now s username password nickname email avatar_url =
     (if \<not> ValidateUsername username
      then (register_error ''Username must be 3-32 chars, alphanumeric and underscore'' EC_USERNAME_INVALID, s)
      else if \<not> ValidatePassword password
      then (register_error ''Password must be at least 6 characters'' EC_PASSWORD_TOO_WEAK, s)
      else if us_UsernameExists US s username
      then (register_error ''Username already exists'' EC_USER_ALREADY_EXISTS, s)
      else
        (case us_Create US s (new_user evp draws now username password nickname avatar_url) of
           (True, s') \<Rightarrow> (\<lparr>rr_success = True, rr_user_id = GenerateUserId draws, rr_error = [], rr_error_code = EC_OK\<rparr>, s')
         | (False, s') \<Rightarrow> (register_error ''Failed to create user'' EC_ROCKSDB_ERROR, s')))"

definition verify_error :: "string \<Rightarrow> ErrorCode \<Rightarrow> VerifyCredentialsResult" where
  "verify_error msg c = \<lparr>vr_success = False, vr_user_id = [], vr_profile = None, vr_error = msg, vr_error_code = c\<rparr>"

definition AuthServiceCore_VerifyCredentials ::
  "'s UserStore \<Rightarrow> (string \<Rightarrow> string option) \<Rightarrow> 's \<Rightarrow> string \<Rightarrow> string \<Rightarrow> VerifyCredentialsResult" where
  "AuthServiceCore_VerifyCredentials US evp s username password =
     (case us_GetByUsername US s username of
        None \<Rightarrow> verify_error ''User not found'' EC_USER_NOT_FOUND
      | Some user \<Rightarrow>
          if \<not> VerifyPassword evp password (ud_password_hash user)
          then verify_error ''Wrong password'' EC_PASSWORD_WRONG
          else \<lparr>vr_success = True, vr_user_id = ud_user_id user, vr_profile = Some (ToProfile user),
                vr_error = [], vr_error_code = EC_OK\<rparr>)"

definition AuthServiceCore_GetProfile :: "'s UserStore \<Rightarrow> 's \<Rightarrow> string \<Rightarrow> AuthProfile option" where
  "AuthServiceCore_GetProfile US s user_id =
     (case us_GetById US s user_id of None \<Rightarrow> None | Some user \<Rightarrow> Some (ToProfile user))"

definition update_error :: "string \<Rightarrow> ErrorCode \<Rightarrow> UpdateProfileResult" where
  "update_error msg c = \<lparr>up_success = False, up_error = msg, up_error_code = c\<rparr>"

definition edit_profile :: "int \<Rightarrow> string \<Rightarrow> string \<Rightarrow> string \<Rightarrow> UserData \<Rightarrow> UserData" where
  "edit_profile now nickname avatar_url signature user =
     (let user = (if nickname \<noteq> [] then user\<lparr>ud_nickname := nickname\<rparr> else user);
          user = (if avatar_url \<noteq> [] then user\<lparr>ud_avatar_url := avatar_url\<rparr> else user);
          user = (if signature \<noteq> [] then user\<lparr>ud_signature := signature\<rparr> else user)
      in user\<lparr>ud_updated_at := now\<rparr>)"

definition AuthServiceCore_UpdateProfile ::
  "'s UserStore \<Rightarrow> int \<Rightarrow> 's \<Rightarrow> string \<Rightarrow> string \<Rightarrow> string \<Rightarrow> string \<Rightarrow> UpdateProfileResult \<times> 's" where
  "AuthServiceCore_UpdateProfile US now s user_id nickname avatar_url signature =
     (case us_GetById US s user_id of
        None \<Rightarrow> (update_error ''User not found'' EC_USER_NOT_FOUND, s)
      | Some user \<Rightarrow>
          (case us_Update US s (edit_profile now nickname avatar_url signature user) of
             (True, s') \<Rightarrow> (\<lparr>up_success = True, up_error = [], up_error_code = EC_OK\<rparr>, s')
           | (False, s') \<Rightarrow> (update_error ''Failed to update profile'' EC_ROCKSDB_ERROR, s')))"

definition AuthServiceCore_SearchUsers :: "'s UserStore \<Rightarrow> 's \<Rightarrow> string \<Rightarrow> int \<Rightarrow> AuthProfile list" where
  "AuthServiceCore_SearchUsers US s keyword limit =
     (if keyword = [] then []
      else
        (let capped_limit = (if limit \<le> 0 then 20 else min limit 100)
         in map ToProfile (us_SearchUsers US s keyword capped_limit)))"

section \<open>Steps of the service\<close>

text \<open>
  The states that calls of the service reach, with ids that do not collide with a stored one
  (the twelve random characters of \<^verbatim>\<open>GenerateUserId\<close>) and 64-bit clock readings.
\<close>

inductive auth_reach :: "'s UserStore \<Rightarrow> (string \<Rightarrow> string option) \<Rightarrow> 's \<Rightarrow> 's \<Rightarrow> bool"
  for US evp s0 where
  start: "auth_reach US evp s0 s0"
| register: "auth_reach US evp s0 s \<Longrightarrow> is_int64 now \<Longrightarrow> us_GetById US s (GenerateUserId draws) = None \<Longrightarrow>
    auth_reach US evp s0 (snd (AuthServiceCore_Register US evp draws now s username password nickname email avatar_url))"
| update: "auth_reach US evp s0 s \<Longrightarrow> is_int64 now \<Longrightarrow>
    auth_reach US evp s0 (snd (AuthServiceCore_UpdateProfile US now s user_id nickname avatar_url signature))"

section \<open>What the service guarantees over any store that meets the contract\<close>

lemma GenerateUserId_not_Nil [simp]: "GenerateUserId draws \<noteq> []"
  by (simp add: GenerateUserId_def GenerateShortId_def)

lemma new_user_simps [simp]:
  "ud_user_id (new_user evp draws now username password nickname avatar_url) = GenerateUserId draws"
  "ud_username (new_user evp draws now username password nickname avatar_url) = username"
  "ud_password_hash (new_user evp draws now username password nickname avatar_url) = HashPassword evp password"
  by (simp_all add: new_user_def)

lemma new_user_ok: "ValidateUsername username \<Longrightarrow> is_int64 now \<Longrightarrow>
    user_ok (new_user evp draws now username password nickname avatar_url)"
  by (auto simp: user_ok_def ValidateUsername_def new_user_def is_int32_def)

lemma edit_profile_simps [simp]:
  "ud_user_id (edit_profile now n a sg u) = ud_user_id u" "ud_username (edit_profile now n a sg u) = ud_username u"
  "ud_password_hash (edit_profile now n a sg u) = ud_password_hash u"
  by (simp_all add: edit_profile_def Let_def)

lemma edit_profile_ok: "user_ok u \<Longrightarrow> is_int64 now \<Longrightarrow> user_ok (edit_profile now n a sg u)"
  by (simp add: user_ok_def edit_profile_def Let_def)

text \<open>What is fixed about an account once it exists.\<close>

definition same_account :: "UserData \<Rightarrow> UserData \<Rightarrow> bool" where
  "same_account u v \<longleftrightarrow> ud_user_id u = ud_user_id v \<and> ud_username u = ud_username v
     \<and> ud_password_hash u = ud_password_hash v"

context user_store
begin

lemma Register_result:
  fixes evp username password nickname email avatar_url
  assumes "inv s" "is_int64 now" "us_GetById US s (GenerateUserId draws) = None"
  defines "r \<equiv> AuthServiceCore_Register US evp draws now s username password nickname email avatar_url"
  shows "inv (snd r)"
    and "us_GetById US (snd r) =
      (if rr_success (fst r)
       then (us_GetById US s)(GenerateUserId draws \<mapsto> narrow_user (new_user evp draws now username password nickname avatar_url))
       else us_GetById US s)"
proof -
  let ?u = "new_user evp draws now username password nickname avatar_url"
  obtain ok s' where c: "us_Create US s ?u = (ok, s')" by fastforce
  have "ValidateUsername username \<Longrightarrow> inv s' \<and> us_GetById US s' =
      (if ok then (us_GetById US s)(GenerateUserId draws \<mapsto> narrow_user ?u) else us_GetById US s)"
    using create_result [OF assms(1) c new_user_ok] assms(2,3) by simp
  then show "inv (snd r)" and "us_GetById US (snd r) =
      (if rr_success (fst r) then (us_GetById US s)(GenerateUserId draws \<mapsto> narrow_user ?u) else us_GetById US s)"
    using assms(1) c by (auto simp: r_def AuthServiceCore_Register_def register_error_def split: bool.splits)
qed

lemma UpdateProfile_result:
  fixes user_id nickname avatar_url signature
  assumes "inv s" "is_int64 now"
  defines "r \<equiv> AuthServiceCore_UpdateProfile US now s user_id nickname avatar_url signature"
  shows "inv (snd r)"
    and "us_GetById US (snd r) =
      (if up_success (fst r)
       then (us_GetById US s)(user_id \<mapsto> narrow_user (edit_profile now nickname avatar_url signature (the (us_GetById US s user_id))))
       else us_GetById US s)"
    and "up_success (fst r) \<Longrightarrow> us_GetById US s user_id \<noteq> None"
proof -
  have "inv (snd r) \<and> us_GetById US (snd r) =
      (if up_success (fst r)
       then (us_GetById US s)(user_id \<mapsto> narrow_user (edit_profile now nickname avatar_url signature (the (us_GetById US s user_id))))
       else us_GetById US s) \<and> (up_success (fst r) \<longrightarrow> us_GetById US s user_id \<noteq> None)"
  proof (cases "us_GetById US s user_id")
    case None
    then show ?thesis using assms(1) by (simp add: r_def AuthServiceCore_UpdateProfile_def update_error_def)
  next
    case (Some u)
    obtain ok s' where c: "us_Update US s (edit_profile now nickname avatar_url signature u) = (ok, s')" by fastforce
    note u = by_id_ok [OF assms(1) Some]
    from update_result [OF assms(1) c edit_profile_ok] u assms(2) show ?thesis
      by (cases ok) (auto simp: r_def AuthServiceCore_UpdateProfile_def update_error_def Some c)
  qed
  then show "inv (snd r)" "us_GetById US (snd r) =
      (if up_success (fst r)
       then (us_GetById US s)(user_id \<mapsto> narrow_user (edit_profile now nickname avatar_url signature (the (us_GetById US s user_id))))
       else us_GetById US s)" "up_success (fst r) \<Longrightarrow> us_GetById US s user_id \<noteq> None" by blast+
qed

lemma reach_inv: "auth_reach US evp s0 s \<Longrightarrow> inv s0 \<Longrightarrow> inv s"
  by (induction rule: auth_reach.induct) (auto intro: Register_result(1) UpdateProfile_result(1))

lemma reach_keeps_accounts:
  assumes "auth_reach US evp s0 s" "inv s0" "us_GetById US s0 uid = Some u"
  shows "\<exists>v. us_GetById US s uid = Some v \<and> same_account u v"
  using assms
proof (induction rule: auth_reach.induct)
  case (register s now draws username password nickname email avatar_url)
  then obtain v where v: "us_GetById US s uid = Some v" "same_account u v" by auto
  have i: "inv s" using register by (blast intro: reach_inv)
  from v(1) register(3) have "uid \<noteq> GenerateUserId draws" by auto
  with v show ?case using Register_result(2) [OF i register(2,3)] by simp
next
  case (update s now user_id nickname avatar_url signature)
  then obtain v where v: "us_GetById US s uid = Some v" "same_account u v" by auto
  have i: "inv s" using update by (blast intro: reach_inv)
  from v show ?case using UpdateProfile_result(2) [OF i update(2)] by (auto simp: same_account_def)
qed (auto simp: same_account_def)

lemma VerifyCredentials_account:
  assumes "inv s" "us_GetById US s uid = Some u"
  shows "AuthServiceCore_VerifyCredentials US evp s (ud_username u) password =
    (if HashPassword evp password = ud_password_hash u
     then \<lparr>vr_success = True, vr_user_id = uid, vr_profile = Some (ToProfile u), vr_error = [], vr_error_code = EC_OK\<rparr>
     else verify_error ''Wrong password'' EC_PASSWORD_WRONG)"
proof -
  have "us_GetByUsername US s (ud_username u) = Some u" using by_username [OF assms(1)] assms(2) by blast
  with by_id_ok [OF assms] show ?thesis by (simp add: AuthServiceCore_VerifyCredentials_def VerifyPassword_def)
qed

lemma registered_can_log_in:
  assumes "inv s" "is_int64 now" "us_GetById US s (GenerateUserId draws) = None"
    and ok: "rr_success (fst (AuthServiceCore_Register US evp draws now s username password nickname email avatar_url))"
    and reach: "auth_reach US evp (snd (AuthServiceCore_Register US evp draws now s username password nickname email avatar_url)) s'"
  shows "vr_success (AuthServiceCore_VerifyCredentials US evp s' username attempt) \<longleftrightarrow>
      HashPassword evp attempt = HashPassword evp password"
    and "vr_success (AuthServiceCore_VerifyCredentials US evp s' username attempt) \<Longrightarrow>
      vr_user_id (AuthServiceCore_VerifyCredentials US evp s' username attempt) = GenerateUserId draws"
proof -
  note r = Register_result [OF assms(1-3), where evp = evp and username = username and password = password
      and nickname = nickname and email = email and avatar_url = avatar_url]
  obtain v where v: "us_GetById US s' (GenerateUserId draws) = Some v" "ud_username v = username"
    "ud_password_hash v = HashPassword evp password"
    using reach_keeps_accounts [OF reach r(1), of "GenerateUserId draws"] r(2) ok by (auto simp: same_account_def)
  note VerifyCredentials_account [OF reach_inv [OF reach r(1)] v(1), of evp attempt]
  then show "vr_success (AuthServiceCore_VerifyCredentials US evp s' username attempt) \<longleftrightarrow>
      HashPassword evp attempt = HashPassword evp password"
    and "vr_success (AuthServiceCore_VerifyCredentials US evp s' username attempt) \<Longrightarrow>
      vr_user_id (AuthServiceCore_VerifyCredentials US evp s' username attempt) = GenerateUserId draws"
    using v by (auto simp: verify_error_def)
qed

end

text \<open>Random values for the concrete runs below.\<close>

definition demo_draws :: "nat list" where
  "demo_draws = replicate 12 3"

section \<open>Properties of the deployed service\<close>

text \<open>C22: A registered account can log in with its password in every state that later
  registrations and profile updates reach, and with no password that hashes differently; the login
  returns the id that registration returned.\<close>

theorem registered_account_logs_in:
  assumes "store_env R J" and "user_inv R J db" and "is_int64 now"
    and "RocksDBUserStore_GetById R J db (GenerateUserId draws) = None"
    and "AuthServiceCore_Register (RocksDBUserStore R J) evp draws now db username password nickname email avatar_url = (r, db')"
    and "rr_success r" and "auth_reach (RocksDBUserStore R J) evp db' db''"
  shows "(vr_success (AuthServiceCore_VerifyCredentials (RocksDBUserStore R J) evp db'' username attempt) \<longleftrightarrow>
      HashPassword evp attempt = HashPassword evp password)
    \<and> (HashPassword evp attempt = HashPassword evp password \<longrightarrow>
      vr_user_id (AuthServiceCore_VerifyCredentials (RocksDBUserStore R J) evp db'' username attempt) = rr_user_id r)"
proof -
  note us = store_env.rocksdb_user_store [OF assms(1)]
  have r: "rr_user_id r = GenerateUserId draws"
    using assms(5,6) by (auto simp: AuthServiceCore_Register_def register_error_def split: if_splits prod.splits bool.splits)
  have fresh: "us_GetById (RocksDBUserStore R J) db (GenerateUserId draws) = None" using assms(4) by simp
  note l = user_store.registered_can_log_in [OF us assms(2,3) fresh, where evp = evp and username = username
      and password = password and nickname = nickname and email = email and avatar_url = avatar_url
      and s' = db'' and attempt = attempt, unfolded assms(5) fst_conv snd_conv, OF assms(6,7)]
  show ?thesis using l(1) l(2) [unfolded l(1)] unfolding r by blast
qed

theorem registered_account_logs_in_witness:
  "vr_success (AuthServiceCore_VerifyCredentials (RocksDBUserStore alist_db text_json) Some
     (snd (AuthServiceCore_Register (RocksDBUserStore alist_db text_json) Some demo_draws 1700000000000 []
        ''alice_1'' ''password'' [] [] [])) ''alice_1'' ''password'')"
proof -
  let ?r = "AuthServiceCore_Register (RocksDBUserStore alist_db text_json) Some demo_draws 1700000000000 []
        ''alice_1'' ''password'' [] [] []"
  have "user_inv alist_db text_json []" by (rule user_inv_empty) (simp add: alist_db_def)
  moreover have "rr_success (fst ?r)"
    by (simp add: AuthServiceCore_Register_def ValidateUsername_def ValidatePassword_def ctype_defs code_def
        RocksDBUserStore_UsernameExists_def RocksDBUserStore_Create_def alist_db_def)
  ultimately show ?thesis
    using registered_account_logs_in [OF alist_env.store_env_axioms, of "[]" 1700000000000 demo_draws Some
        "''alice_1''" "''password''" "[]" "[]" "[]" "fst ?r" "snd ?r" "snd ?r" "''password''"]
    by (simp add: auth_reach.start is_int64_def RocksDBUserStore_GetById_def alist_db_def)
qed

lemma alist_user_inv_Nil: "user_inv alist_db text_json []"
  by (rule user_inv_empty) (simp add: alist_db_def)

text \<open>C26: In every state that the service reaches from an empty database, two accounts never share a
  username, and looking an account up by its username finds it.\<close>

theorem usernames_stay_unique:
  assumes "store_env R J" and "db_Get R db0 = Map.empty" and "auth_reach (RocksDBUserStore R J) evp db0 db"
    and "RocksDBUserStore_GetById R J db a = Some u" and "RocksDBUserStore_GetById R J db b = Some v"
    and "ud_username u = ud_username v"
  shows "a = b \<and> RocksDBUserStore_GetByUsername R J db (ud_username u) = Some u"
proof -
  note us = store_env.rocksdb_user_store [OF assms(1)]
  have inv: "user_inv R J db"
    by (rule user_store.reach_inv [OF us assms(3)]) (rule user_inv_empty [OF assms(2)])
  show ?thesis
    using user_store.username_unique [OF us inv, of a u b v] user_store.by_username [OF us inv, of "ud_username u" u] assms(4-6)
    by auto
qed

theorem usernames_stay_unique_witness:
  "\<exists>u db. RocksDBUserStore_GetById alist_db text_json db (GenerateUserId demo_draws) = Some u
     \<and> RocksDBUserStore_GetByUsername alist_db text_json db (ud_username u) = Some u"
proof -
  let ?r = "AuthServiceCore_Register (RocksDBUserStore alist_db text_json) Some demo_draws 1700000000000 []
        ''alice_1'' ''password'' [] [] []"
  have fresh: "us_GetById (RocksDBUserStore alist_db text_json) [] (GenerateUserId demo_draws) = None"
    by (simp add: RocksDBUserStore_GetById_def alist_db_def)
  have i: "is_int64 1700000000000" by (simp add: is_int64_def)
  have "auth_reach (RocksDBUserStore alist_db text_json) Some [] (snd ?r)"
    by (rule auth_reach.register [OF auth_reach.start i fresh])
  moreover have "rr_success (fst ?r)"
    by (simp add: AuthServiceCore_Register_def ValidateUsername_def ValidatePassword_def ctype_defs code_def
        RocksDBUserStore_UsernameExists_def RocksDBUserStore_Create_def alist_db_def)
  then have "\<exists>u. RocksDBUserStore_GetById alist_db text_json (snd ?r) (GenerateUserId demo_draws) = Some u"
    using alist_env.us.Register_result(2) [OF alist_user_inv_Nil i fresh, of Some "''alice_1''" "''password''" "[]" "[]" "[]"]
    by simp
  moreover have "db_Get alist_db [] = Map.empty" by (simp add: alist_db_def)
  ultimately show ?thesis using usernames_stay_unique [OF alist_env.store_env_axioms] by metis
qed

text \<open>What registration answers: the first check that fails determines the error code (a
  password must have eight characters, although the message says six), a taken username is
  refused, and only a successful registration changes an account.\<close>

theorem Register_outcome:
  assumes "store_env R J" and "user_inv R J db" and "is_int64 now"
    and "RocksDBUserStore_GetById R J db (GenerateUserId draws) = None"
    and "AuthServiceCore_Register (RocksDBUserStore R J) evp draws now db username password nickname email avatar_url = (r, db')"
  shows "rr_error_code r =
      (if \<not> ValidateUsername username then EC_USERNAME_INVALID
       else if length password < 8 then EC_PASSWORD_TOO_WEAK
       else if \<exists>uid u. RocksDBUserStore_GetById R J db uid = Some u \<and> ud_username u = username then EC_USER_ALREADY_EXISTS
       else if rr_success r then EC_OK else EC_ROCKSDB_ERROR)
    \<and> rr_success r = (rr_error_code r = EC_OK)
    \<and> user_inv R J db'
    \<and> RocksDBUserStore_GetById R J db' =
        (if rr_success r
         then (RocksDBUserStore_GetById R J db)(rr_user_id r \<mapsto> narrow_user (new_user evp draws now username password nickname avatar_url))
         else RocksDBUserStore_GetById R J db)"
proof -
  note us = store_env.rocksdb_user_store [OF assms(1)]
  have fresh: "us_GetById (RocksDBUserStore R J) db (GenerateUserId draws) = None" using assms(4) by simp
  have taken: "us_UsernameExists (RocksDBUserStore R J) db username \<longleftrightarrow>
      (\<exists>uid u. RocksDBUserStore_GetById R J db uid = Some u \<and> ud_username u = username)"
    unfolding user_store.username_exists [OF us assms(2)]
    using user_store.by_username [OF us assms(2), of username] by (auto simp: not_None_eq)
  have "rr_error_code r =
      (if \<not> ValidateUsername username then EC_USERNAME_INVALID
       else if length password < 8 then EC_PASSWORD_TOO_WEAK
       else if us_UsernameExists (RocksDBUserStore R J) db username then EC_USER_ALREADY_EXISTS
       else if rr_success r then EC_OK else EC_ROCKSDB_ERROR)"
    "rr_success r = (rr_error_code r = EC_OK)" "rr_success r \<Longrightarrow> rr_user_id r = GenerateUserId draws"
    using assms(5)
    by (auto simp: AuthServiceCore_Register_def register_error_def ValidatePassword_def split: if_splits prod.splits bool.splits)
  then show ?thesis
    using user_store.Register_result [OF us assms(2,3) fresh, where evp = evp and username = username
      and password = password and nickname = nickname and email = email and avatar_url = avatar_url, unfolded assms(5)]
    unfolding taken by (auto split del: if_split cong: if_cong)
qed

theorem Register_outcome_witness:
  "rr_error_code (fst (AuthServiceCore_Register (RocksDBUserStore alist_db text_json) Some demo_draws 0 [] ''bob'' ''seven77'' [] [] []))
     = EC_PASSWORD_TOO_WEAK"
  using Register_outcome [OF alist_env.store_env_axioms alist_user_inv_Nil, of 0 demo_draws Some "''bob''" "''seven77''" "[]" "[]" "[]"]
  by (simp add: is_int64_def ValidateUsername_def ctype_defs code_def RocksDBUserStore_GetById_def alist_db_def prod_eq_iff)

text \<open>A search returns at most one hundred profiles, each of an existing account whose id, name or
  nickname contains the keyword without regard to case, and misses none unless the limit cut it off.\<close>

theorem SearchUsers_outcome:
  assumes "store_env R J" and "user_inv R J db" and "keyword \<noteq> []"
  shows "length (AuthServiceCore_SearchUsers (RocksDBUserStore R J) db keyword limit) \<le> 100
    \<and> (\<forall>p. p \<in> set (AuthServiceCore_SearchUsers (RocksDBUserStore R J) db keyword limit) \<longrightarrow>
        (\<exists>u. RocksDBUserStore_GetById R J db (ud_user_id u) = Some u \<and> user_matches keyword u \<and> p = ToProfile u))
    \<and> (int (length (AuthServiceCore_SearchUsers (RocksDBUserStore R J) db keyword limit)) < (if limit \<le> 0 then 20 else min limit 100) \<longrightarrow>
        (\<forall>uid u. RocksDBUserStore_GetById R J db uid = Some u \<and> user_matches keyword u \<longrightarrow>
           ToProfile u \<in> set (AuthServiceCore_SearchUsers (RocksDBUserStore R J) db keyword limit)))"
proof -
  note us = store_env.rocksdb_user_store [OF assms(1)]
  define l where "l = (if limit \<le> 0 then 20 else min limit 100)"
  let ?f = "us_SearchUsers (RocksDBUserStore R J) db keyword l"
  have l: "0 \<le> l" "l \<le> 100" by (auto simp: l_def)
  have s: "AuthServiceCore_SearchUsers (RocksDBUserStore R J) db keyword limit = map ToProfile ?f"
    using assms(3) by (simp add: AuthServiceCore_SearchUsers_def l_def)
  have "length ?f \<le> 100" using user_store.search_bound [OF us l(1), of db keyword] l(2) by simp
  moreover have "\<And>u. u \<in> set ?f \<Longrightarrow> RocksDBUserStore_GetById R J db (ud_user_id u) = Some u \<and> user_matches keyword u"
    using user_store.search_sound [OF us assms(2)] by simp
  moreover have "\<And>uid u. RocksDBUserStore_GetById R J db uid = Some u \<Longrightarrow> user_matches keyword u \<Longrightarrow>
      int (length ?f) < l \<Longrightarrow> u \<in> set ?f"
    using user_store.search_complete [OF us assms(2,3)] by simp
  ultimately show ?thesis unfolding s l_def [symmetric] by (auto simp del: RocksDBUserStore_simps)
qed

theorem SearchUsers_outcome_witness:
  "length (AuthServiceCore_SearchUsers (RocksDBUserStore alist_db text_json) [] ''al'' 1000) \<le> 100"
  using SearchUsers_outcome [OF alist_env.store_env_axioms alist_user_inv_Nil, of "''al''" 1000] by blast

end
