(* ===== verification/Auth_Handler.thy ===== *)
theory Auth_Handler
  imports Auth_Service Grpc_Auth
begin

text \<open>
  \<^verbatim>\<open>backend/authsvr/internal/handler/auth_handler.cpp\<close>: the gRPC methods.  A request is the
  arguments the method reads from it, a response the record of the fields it sets.
\<close>

record RegisterResponse =
  rresp_code :: int
  rresp_message :: string
  rresp_user_id :: string

record VerifyCredentialsResponse =
  vresp_code :: int
  vresp_message :: string
  vresp_user_id :: string
  vresp_profile :: "AuthProfile option"

record SearchUsersResponse =
  sresp_code :: int
  sresp_message :: string
  sresp_users :: "AuthProfile list"

definition AuthHandler_Register ::
  "'s UserStore \<Rightarrow> (string \<Rightarrow> string option) \<Rightarrow> nat list \<Rightarrow> int \<Rightarrow> 's \<Rightarrow> string \<Rightarrow> string \<Rightarrow> string \<Rightarrow> string \<Rightarrow> string
     \<Rightarrow> RegisterResponse \<times> 's" where
  "AuthHandler_Register US evp draws now s username password nickname email avatar_url =
     (let (result, s') = AuthServiceCore_Register US evp draws now s username password nickname email avatar_url
      in (if rr_success result
          then \<lparr>rresp_code = EC_OK, rresp_message = [], rresp_user_id = rr_user_id result\<rparr>
          else \<lparr>rresp_code = ErrorCodeToInt (rr_error_code result), rresp_message = rr_error result, rresp_user_id = []\<rparr>,
          s'))"

definition AuthHandler_VerifyCredentials ::
  "'s UserStore \<Rightarrow> (string \<Rightarrow> string option) \<Rightarrow> 's \<Rightarrow> string \<Rightarrow> string \<Rightarrow> VerifyCredentialsResponse" where
  "AuthHandler_VerifyCredentials US evp s username password =
     (let result = AuthServiceCore_VerifyCredentials US evp s username password
      in if vr_success result
         then \<lparr>vresp_code = EC_OK, vresp_message = [], vresp_user_id = vr_user_id result, vresp_profile = vr_profile result\<rparr>
         else \<lparr>vresp_code = ErrorCodeToInt (vr_error_code result), vresp_message = vr_error result,
               vresp_user_id = [], vresp_profile = None\<rparr>)"

definition AuthHandler_GetProfile ::
  "'s UserStore \<Rightarrow> 'j nlohmann \<Rightarrow> (string \<Rightarrow> string \<Rightarrow> string) \<Rightarrow> string \<Rightarrow> int \<Rightarrow> 's \<Rightarrow> ServerContext
     \<Rightarrow> grpc_Status \<times> AuthProfile option" where
  "AuthHandler_GetProfile US J hmac jwt_secret now_ms s context =
     (let uid = GetAuthenticatedUserId J hmac now_ms context jwt_secret in
      if uid = [] then (grpc_UNAUTHENTICATED ''token invalid or missing'', None)
      else
        (case AuthServiceCore_GetProfile US s uid of
           None \<Rightarrow> (grpc_NOT_FOUND ''user not found'', None)
         | Some profile \<Rightarrow> (grpc_OK, Some profile)))"

definition AuthHandler_UpdateProfile ::
  "'s UserStore \<Rightarrow> 'j nlohmann \<Rightarrow> (string \<Rightarrow> string \<Rightarrow> string) \<Rightarrow> string \<Rightarrow> int \<Rightarrow> int \<Rightarrow> 's \<Rightarrow> ServerContext
     \<Rightarrow> string \<Rightarrow> string \<Rightarrow> string \<Rightarrow> CommonResponse \<times> 's" where
  "AuthHandler_UpdateProfile US J hmac jwt_secret now_ms now s context nickname avatar_url signature =
     (let uid = GetAuthenticatedUserId J hmac now_ms context jwt_secret in
      if uid = []
      then (\<lparr>resp_code = ErrorCodeToInt EC_TOKEN_INVALID, resp_message = ''token invalid or missing''\<rparr>, s)
      else
        (let (result, s') = AuthServiceCore_UpdateProfile US now s uid nickname avatar_url signature
         in (if up_success result then \<lparr>resp_code = EC_OK, resp_message = []\<rparr>
             else \<lparr>resp_code = ErrorCodeToInt (up_error_code result), resp_message = up_error result\<rparr>,
             s')))"

definition AuthHandler_SearchUsers ::
  "'s UserStore \<Rightarrow> 'j nlohmann \<Rightarrow> (string \<Rightarrow> string \<Rightarrow> string) \<Rightarrow> string \<Rightarrow> int \<Rightarrow> 's \<Rightarrow> ServerContext
     \<Rightarrow> string \<Rightarrow> int \<Rightarrow> SearchUsersResponse" where
  "AuthHandler_SearchUsers US J hmac jwt_secret now_ms s context keyword limit =
     (let uid = GetAuthenticatedUserId J hmac now_ms context jwt_secret in
      if uid = []
      then \<lparr>sresp_code = ErrorCodeToInt EC_TOKEN_INVALID, sresp_message = ''token invalid or missing'', sresp_users = []\<rparr>
      else \<lparr>sresp_code = EC_OK, sresp_message = [], sresp_users = AuthServiceCore_SearchUsers US s keyword limit\<rparr>)"

section \<open>A profile is changed by its owner only\<close>

text \<open>An \<^verbatim>\<open>UpdateProfile\<close> call changes at most the account named by the caller's token, and of that
  account neither the id, the username nor the password hash; without a valid token the store is
  unchanged and the response code is \<^verbatim>\<open>TOKEN_INVALID\<close>.\<close>

theorem UpdateProfile_only_own_account:
  assumes "store_env R J" and "user_inv R J db" and "is_int64 now"
    and "AuthHandler_UpdateProfile (RocksDBUserStore R J) J hmac jwt_secret now_ms now db context nickname avatar_url signature = (resp, db')"
  shows "user_inv R J db'
    \<and> (GetAuthenticatedUserId J hmac now_ms context jwt_secret = [] \<longrightarrow> db' = db \<and> resp_code resp = EC_TOKEN_INVALID)
    \<and> (\<forall>uid. uid \<noteq> GetAuthenticatedUserId J hmac now_ms context jwt_secret \<longrightarrow>
        RocksDBUserStore_GetById R J db' uid = RocksDBUserStore_GetById R J db uid)
    \<and> (\<forall>uid u. RocksDBUserStore_GetById R J db uid = Some u \<longrightarrow>
        (\<exists>v. RocksDBUserStore_GetById R J db' uid = Some v \<and> same_account u v))"
proof -
  let ?uid = "GetAuthenticatedUserId J hmac now_ms context jwt_secret"
  let ?r = "AuthServiceCore_UpdateProfile (RocksDBUserStore R J) now db ?uid nickname avatar_url signature"
  note us = store_env.rocksdb_user_store [OF assms(1)]
  note r = user_store.UpdateProfile_result [OF us assms(2,3), of ?uid nickname avatar_url signature]
  show ?thesis
  proof (cases "?uid = []")
    case True
    with assms(2,4) show ?thesis
      by (auto simp: AuthHandler_UpdateProfile_def ErrorCodeToInt_def same_account_def)
  next
    case False
    with assms(4) have db': "db' = snd ?r" by (auto simp: AuthHandler_UpdateProfile_def split: prod.splits)
    show ?thesis
      using False r unfolding db' by (auto simp: same_account_def split: if_splits)
  qed
qed

theorem UpdateProfile_only_own_account_witness:
  "AuthHandler_UpdateProfile (RocksDBUserStore alist_db text_json) text_json (\<lambda>k d. rev d) ''key'' 0 0
     [] (Some []) ''n'' [] [] = (\<lparr>resp_code = EC_TOKEN_INVALID, resp_message = ''token invalid or missing''\<rparr>, [])"
proof -
  have "GetAuthenticatedUserId text_json (\<lambda>k d. rev d) 0 (Some []) ''key'' = []"
    by (simp add: GetAuthenticatedUserId_def GetTokenFromContext_def)
  then show ?thesis
    using UpdateProfile_only_own_account [OF alist_env.store_env_axioms alist_user_inv_Nil, of 0 "\<lambda>k d. rev d" "''key''" 0
        "Some []" "''n''" "[]" "[]"]
    by (simp add: is_int64_def AuthHandler_UpdateProfile_def ErrorCodeToInt_def)
qed

end
