(* ===== verification/Session_Store.thy ===== *)
theory Session_Store
  imports Third_Party_Instances "HOL-Library.Monad_Syntax"
begin

text \<open>
  \<^verbatim>\<open>backend/onlinesvr/internal/store/session_store.{h,cpp}\<close>: one login session per user under
  \<^verbatim>\<open>session:{user_id}\<close>.  The locale \<open>session_store\<close> is the contract of the abstract class.
\<close>

record SessionData =
  sd_user_id :: string
  sd_device_id :: string
  sd_token :: string
  sd_login_time :: int
  sd_expire_at :: int

record 's SessionStore =
  ss_SetSession :: "'s \<Rightarrow> SessionData \<Rightarrow> bool \<times> 's"
  ss_GetSession :: "'s \<Rightarrow> string \<Rightarrow> SessionData option"
  ss_RemoveSession :: "'s \<Rightarrow> string \<Rightarrow> bool \<times> 's"

definition kSessionPrefix :: string where
  "kSessionPrefix = ''session:''"

definition session_members :: "SessionData \<Rightarrow> (string \<times> jval) list" where
  "session_members session =
     [(''user_id'', JStr (sd_user_id session)), (''device_id'', JStr (sd_device_id session)),
      (''token'', JStr (sd_token session)), (''login_time'', JInt (sd_login_time session)),
      (''expire_at'', JInt (sd_expire_at session))]"

definition SerializeSession :: "'j nlohmann \<Rightarrow> SessionData \<Rightarrow> string" where
  "SerializeSession J session = json_dump J (json_object J (session_members session))"

definition DeserializeSession :: "'j nlohmann \<Rightarrow> string \<Rightarrow> SessionData option" where
  "DeserializeSession J data = do {
     j \<leftarrow> json_parse J data;
     user_id \<leftarrow> json_value_string J j ''user_id'' [];
     device_id \<leftarrow> json_value_string J j ''device_id'' [];
     token \<leftarrow> json_value_string J j ''token'' [];
     login_time \<leftarrow> json_value_int64 J j ''login_time'' 0;
     expire_at \<leftarrow> json_value_int64 J j ''expire_at'' 0;
     Some \<lparr>sd_user_id = user_id, sd_device_id = device_id, sd_token = token,
       sd_login_time = login_time, sd_expire_at = expire_at\<rparr> }"

definition RocksDBSessionStore_SetSession :: "'db rocksdb \<Rightarrow> 'j nlohmann \<Rightarrow> 'db \<Rightarrow> SessionData \<Rightarrow> bool \<times> 'db" where
  "RocksDBSessionStore_SetSession R J db session =
     (let key = kSessionPrefix @ sd_user_id session;
          val = SerializeSession J session
      in db_Put R db key val)"

definition RocksDBSessionStore_GetSession :: "'db rocksdb \<Rightarrow> 'j nlohmann \<Rightarrow> 'db \<Rightarrow> string \<Rightarrow> SessionData option" where
  "RocksDBSessionStore_GetSession R J db user_id =
     (case db_Get R db (kSessionPrefix @ user_id) of
        None \<Rightarrow> None
      | Some val \<Rightarrow> DeserializeSession J val)"

definition RocksDBSessionStore_RemoveSession :: "'db rocksdb \<Rightarrow> 'db \<Rightarrow> string \<Rightarrow> bool \<times> 'db" where
  "RocksDBSessionStore_RemoveSession R db user_id = db_Delete R db (kSessionPrefix @ user_id)"

definition RocksDBSessionStore :: "'db rocksdb \<Rightarrow> 'j nlohmann \<Rightarrow> 'db SessionStore" where
  "RocksDBSessionStore R J =
     \<lparr>ss_SetSession = RocksDBSessionStore_SetSession R J, ss_GetSession = RocksDBSessionStore_GetSession R J,
      ss_RemoveSession = RocksDBSessionStore_RemoveSession R\<rparr>"

lemma RocksDBSessionStore_simps [simp]:
  "ss_SetSession (RocksDBSessionStore R J) = RocksDBSessionStore_SetSession R J"
  "ss_GetSession (RocksDBSessionStore R J) = RocksDBSessionStore_GetSession R J"
  "ss_RemoveSession (RocksDBSessionStore R J) = RocksDBSessionStore_RemoveSession R"
  by (simp_all add: RocksDBSessionStore_def)

section \<open>The contract\<close>

definition session_ok :: "SessionData \<Rightarrow> bool" where
  "session_ok d \<longleftrightarrow> is_int64 (sd_login_time d) \<and> is_int64 (sd_expire_at d)"

locale session_store =
  fixes SS :: "'s SessionStore"
  assumes set_session: "ss_SetSession SS s d = (ok, s') \<Longrightarrow> session_ok d \<Longrightarrow>
      ss_GetSession SS s' = (if ok then (ss_GetSession SS s)(sd_user_id d \<mapsto> d) else ss_GetSession SS s)"
    and remove_session: "ss_RemoveSession SS s uid = (ok, s') \<Longrightarrow>
      ss_GetSession SS s' = (if ok then (ss_GetSession SS s)(uid := None) else ss_GetSession SS s)"

context json_laws
begin

lemma DeserializeSession_Serialize:
  "session_ok d \<Longrightarrow> DeserializeSession J (SerializeSession J d) = Some d"
  by (simp add: DeserializeSession_def SerializeSession_def session_members_def json_simps session_ok_def)

end

sublocale store_env \<subseteq> ss: session_store "RocksDBSessionStore R J"
proof
  fix db db' d ok
  assume "ss_SetSession (RocksDBSessionStore R J) db d = (ok, db')" "session_ok d"
  then show "ss_GetSession (RocksDBSessionStore R J) db' =
      (if ok then (ss_GetSession (RocksDBSessionStore R J) db)(sd_user_id d \<mapsto> d) else ss_GetSession (RocksDBSessionStore R J) db)"
    by (auto simp: RocksDBSessionStore_SetSession_def RocksDBSessionStore_GetSession_def fun_eq_iff
        DeserializeSession_Serialize dest!: put_get)
next
  fix db db' uid ok
  assume "ss_RemoveSession (RocksDBSessionStore R J) db uid = (ok, db')"
  then show "ss_GetSession (RocksDBSessionStore R J) db' =
      (if ok then (ss_GetSession (RocksDBSessionStore R J) db)(uid := None) else ss_GetSession (RocksDBSessionStore R J) db)"
    by (auto simp: RocksDBSessionStore_RemoveSession_def RocksDBSessionStore_GetSession_def fun_eq_iff dest!: delete_get)
qed

context store_env
begin

lemma rocksdb_session_store: "session_store (RocksDBSessionStore R J)"
  by unfold_locales

end

interpretation alist_ss: session_store "RocksDBSessionStore alist_db text_json"
  by unfold_locales

end
