(* ===== verification/Online_Service.thy ===== *)
theory Online_Service
  imports Session_Store Grpc_Auth Error_Code
begin

text \<open>
  \<^verbatim>\<open>backend/onlinesvr/internal/service/online_service.cpp\<close> and
  \<^verbatim>\<open>backend/onlinesvr/internal/handler/online_handler.cpp\<close>: login sessions.  \<open>clock i\<close> is the
  \<open>i\<close>-th clock reading of one call, in the order of the readings in the source (those of
  \<^verbatim>\<open>JwtVerify\<close>, \<^verbatim>\<open>GenerateToken\<close> and \<^verbatim>\<open>JwtCreate\<close> included).  The service always has a store,
  so the \<^verbatim>\<open>if (!store_)\<close> guards are left out.
\<close>

section \<open>Operations\<close>

definition kTokenExpireDays :: int where
  "kTokenExpireDays = 7"

definition kMsPerDay :: int where
  "kMsPerDay = 24 * 3600 * 1000"

definition kDefaultDeviceId :: string where
  "kDefaultDeviceId = ''default''"

definition online_jwt_secret :: "string \<Rightarrow> string" where
  "online_jwt_secret jwt_secret = (if jwt_secret = [] then ''swift_online_secret_2026'' else jwt_secret)"

record LoginResult =
  lr_success :: bool
  lr_token :: string
  lr_expire_at :: int
  lr_error :: string

record LogoutResult =
  lo_success :: bool
  lo_error :: string

record TokenResult =
  tr_valid :: bool
  tr_user_id :: string

definition GenerateToken ::
  "'j nlohmann \<Rightarrow> (string \<Rightarrow> string \<Rightarrow> string) \<Rightarrow> string \<Rightarrow> int \<Rightarrow> int \<Rightarrow> string \<Rightarrow> string \<times> int" where
  "GenerateToken J hmac jwt_secret now_ms now_create user_id =
     (let expire_hours = kTokenExpireDays * 24;
          token = JwtCreate J hmac now_create user_id jwt_secret expire_hours [];
          expire_at = now_ms + kTokenExpireDays * kMsPerDay
      in (token, expire_at))"

definition NormalizeDeviceId :: "string \<Rightarrow> string" where
  "NormalizeDeviceId device_id = (if device_id = [] then kDefaultDeviceId else device_id)"

definition login_error :: "string \<Rightarrow> LoginResult" where
  "login_error msg = \<lparr>lr_success = False, lr_token = [], lr_expire_at = 0, lr_error = msg\<rparr>"

text \<open>The end of \<^verbatim>\<open>Login\<close>: a new token and session.\<close>

definition login_new ::
  "'s SessionStore \<Rightarrow> 'j nlohmann \<Rightarrow> (string \<Rightarrow> string \<Rightarrow> string) \<Rightarrow> string \<Rightarrow> (nat \<Rightarrow> int) \<Rightarrow> 's \<Rightarrow> string \<Rightarrow> string
     \<Rightarrow> LoginResult \<times> 's" where
  "login_new SS J hmac jwt_secret clock s user_id normalized_device =
     (let (token, expire_at) = GenerateToken J hmac jwt_secret (clock 2) (clock 3) user_id;
          session = \<lparr>sd_user_id = user_id, sd_device_id = normalized_device, sd_token = token,
                     sd_login_time = clock 0, sd_expire_at = expire_at\<rparr>
      in case ss_SetSession SS s session of
           (False, s') \<Rightarrow> (login_error ''Failed to persist session'', s')
         | (True, s') \<Rightarrow> (\<lparr>lr_success = True, lr_token = token, lr_expire_at = expire_at, lr_error = []\<rparr>, s'))"

definition OnlineServiceCore_Login ::
  "'s SessionStore \<Rightarrow> 'j nlohmann \<Rightarrow> (string \<Rightarrow> string \<Rightarrow> string) \<Rightarrow> string \<Rightarrow> (nat \<Rightarrow> int) \<Rightarrow> 's \<Rightarrow> string \<Rightarrow> string \<Rightarrow> string
     \<Rightarrow> LoginResult \<times> 's" where
  "OnlineServiceCore_Login SS J hmac jwt_secret clock s user_id device_id device_type =
     (if user_id = [] then (login_error ''user_id required'', s)
      else
        (let normalized_device = NormalizeDeviceId device_id;
             now_ms = clock 0
         in case ss_GetSession SS s user_id of
              Some existing_session \<Rightarrow>
                if sd_device_id existing_session \<noteq> normalized_device
                then (login_error ''User already logged in on another device'', s)
                else if jwt_valid (JwtVerify J hmac (clock 1) (sd_token existing_session) jwt_secret)
                        \<and> sd_expire_at existing_session > now_ms
                then (\<lparr>lr_success = True, lr_token = sd_token existing_session,
                       lr_expire_at = sd_expire_at existing_session, lr_error = []\<rparr>, s)
                else login_new SS J hmac jwt_secret clock s user_id normalized_device
            | None \<Rightarrow> login_new SS J hmac jwt_secret clock s user_id normalized_device))"

definition OnlineServiceCore_Logout :: "'s SessionStore \<Rightarrow> 's \<Rightarrow> string \<Rightarrow> string \<Rightarrow> LogoutResult \<times> 's" where
  "OnlineServiceCore_Logout SS s user_id token =
     (case ss_GetSession SS s user_id of
        None \<Rightarrow> (\<lparr>lo_success = True, lo_error = []\<rparr>, s)
      | Some session \<Rightarrow> (\<lparr>lo_success = True, lo_error = []\<rparr>, snd (ss_RemoveSession SS s user_id)))"

definition token_invalid :: TokenResult where
  "token_invalid = \<lparr>tr_valid = False, tr_user_id = []\<rparr>"

definition OnlineServiceCore_ValidateToken ::
  "'s SessionStore \<Rightarrow> 'j nlohmann \<Rightarrow> (string \<Rightarrow> string \<Rightarrow> string) \<Rightarrow> string \<Rightarrow> (nat \<Rightarrow> int) \<Rightarrow> 's \<Rightarrow> string \<Rightarrow> TokenResult \<times> 's" where
  "OnlineServiceCore_ValidateToken SS J hmac jwt_secret clock s token =
     (if token = [] then (token_invalid, s)
      else
        (let payload = JwtVerify J hmac (clock 0) token jwt_secret in
         if \<not> jwt_valid payload then (token_invalid, s)
         else
           (case ss_GetSession SS s (jwt_user_id payload) of
              None \<Rightarrow> (token_invalid, s)
            | Some session \<Rightarrow>
                (let now_ms = clock 1 in
                 if sd_token session \<noteq> token \<or> sd_expire_at session \<le> now_ms
                 then (token_invalid, snd (ss_RemoveSession SS s (jwt_user_id payload)))
                 else (\<lparr>tr_valid = True, tr_user_id = jwt_user_id payload\<rparr>, s)))))"

section \<open>Handlers\<close>

record LoginResponse =
  lresp_code :: int
  lresp_message :: string
  lresp_token :: string
  lresp_expire_at :: int

record TokenResponse =
  tresp_code :: int
  tresp_message :: string
  tresp_user_id :: string
  tresp_valid :: bool

definition OnlineHandler_Login ::
  "'s SessionStore \<Rightarrow> 'j nlohmann \<Rightarrow> (string \<Rightarrow> string \<Rightarrow> string) \<Rightarrow> string \<Rightarrow> (nat \<Rightarrow> int) \<Rightarrow> 's \<Rightarrow> string \<Rightarrow> string \<Rightarrow> string
     \<Rightarrow> LoginResponse \<times> 's" where
  "OnlineHandler_Login SS J hmac jwt_secret clock s user_id device_id device_type =
     (let (result, s') = OnlineServiceCore_Login SS J hmac jwt_secret clock s user_id device_id device_type
      in (\<lparr>lresp_code = (if lr_success result then ErrorCodeToInt EC_OK else ErrorCodeToInt EC_AUTH_FAILED),
           lresp_message = lr_error result,
           lresp_token = (if lr_success result then lr_token result else []),
           lresp_expire_at = (if lr_success result then lr_expire_at result else 0)\<rparr>, s'))"

definition OnlineHandler_Logout :: "'s SessionStore \<Rightarrow> 's \<Rightarrow> string \<Rightarrow> string \<Rightarrow> CommonResponse \<times> 's" where
  "OnlineHandler_Logout SS s user_id token =
     (let (result, s') = OnlineServiceCore_Logout SS s user_id token
      in (\<lparr>resp_code = (if lo_success result then ErrorCodeToInt EC_OK else ErrorCodeToInt EC_AUTH_FAILED),
           resp_message = lo_error result\<rparr>, s'))"

definition OnlineHandler_ValidateToken ::
  "'s SessionStore \<Rightarrow> 'j nlohmann \<Rightarrow> (string \<Rightarrow> string \<Rightarrow> string) \<Rightarrow> string \<Rightarrow> (nat \<Rightarrow> int) \<Rightarrow> 's \<Rightarrow> string \<Rightarrow> TokenResponse \<times> 's" where
  "OnlineHandler_ValidateToken SS J hmac jwt_secret clock s token =
     (let (result, s') = OnlineServiceCore_ValidateToken SS J hmac jwt_secret clock s token
      in (if \<not> tr_valid result
          then \<lparr>tresp_code = ErrorCodeToInt EC_TOKEN_INVALID, tresp_message = ErrorCodeToString EC_TOKEN_INVALID,
                tresp_user_id = [], tresp_valid = False\<rparr>
          else \<lparr>tresp_code = ErrorCodeToInt EC_OK, tresp_message = [], tresp_user_id = tr_user_id result, tresp_valid = True\<rparr>,
          s'))"

section \<open>Reachable states\<close>

text \<open>
  The clock does not run backwards within a call, and tokens expire before 2038 (see the
  32-bit truncation in \<^verbatim>\<open>JwtVerify\<close>).
\<close>

definition clock_ok :: "(nat \<Rightarrow> int) \<Rightarrow> bool" where
  "clock_ok clock \<longleftrightarrow> 0 \<le> clock 0 \<and> clock 0 \<le> clock 1 \<and> clock 1 \<le> clock 2 \<and> clock 2 \<le> clock 3
     \<and> clock 3 div 1000 + 7 * 24 * 3600 < 2 ^ 31"

inductive online_reach ::
  "'s SessionStore \<Rightarrow> 'j nlohmann \<Rightarrow> (string \<Rightarrow> string \<Rightarrow> string) \<Rightarrow> string \<Rightarrow> 's \<Rightarrow> 's \<Rightarrow> bool"
  for SS J hmac secret s0 where
  start: "online_reach SS J hmac secret s0 s0"
| login: "online_reach SS J hmac secret s0 s \<Longrightarrow> clock_ok clock \<Longrightarrow>
    online_reach SS J hmac secret s0 (snd (OnlineServiceCore_Login SS J hmac secret clock s user_id device_id device_type))"
| logout: "online_reach SS J hmac secret s0 s \<Longrightarrow>
    online_reach SS J hmac secret s0 (snd (OnlineServiceCore_Logout SS s user_id token))"
| validate: "online_reach SS J hmac secret s0 s \<Longrightarrow>
    online_reach SS J hmac secret s0 (snd (OnlineServiceCore_ValidateToken SS J hmac secret clock s token))"

text \<open>Every stored session holds a token that was issued to its user, not before the session's own clock reading.\<close>

definition issued_session :: "'j nlohmann \<Rightarrow> (string \<Rightarrow> string \<Rightarrow> string) \<Rightarrow> string \<Rightarrow> string \<Rightarrow> SessionData \<Rightarrow> bool" where
  "issued_session J hmac secret uid d \<longleftrightarrow> uid \<noteq> [] \<and> session_ok d \<and>
     (\<exists>now. 0 \<le> now \<and> now div 1000 + 7 * 24 * 3600 < 2 ^ 31 \<and> sd_expire_at d \<le> now + 7 * 24 * 3600 * 1000
        \<and> sd_token d = JwtCreate J hmac now uid secret 168 [])"

definition online_inv ::
  "'s SessionStore \<Rightarrow> 'j nlohmann \<Rightarrow> (string \<Rightarrow> string \<Rightarrow> string) \<Rightarrow> string \<Rightarrow> 's \<Rightarrow> bool" where
  "online_inv SS J hmac secret s \<longleftrightarrow>
     (\<forall>uid d. ss_GetSession SS s uid = Some d \<longrightarrow> issued_session J hmac secret uid d)"

lemma issued_session_verifies:
  assumes "json_laws J" "issued_session J hmac secret uid d"
  shows "jwt_user_id (JwtVerify J hmac t (sd_token d) secret) = uid"
    and "t < sd_expire_at d \<Longrightarrow> jwt_valid (JwtVerify J hmac t (sd_token d) secret)"
    and "sd_token d \<noteq> []"
proof -
  obtain now where now: "0 \<le> now" "now div 1000 + 7 * 24 * 3600 < 2 ^ 31"
    "sd_expire_at d \<le> now + 7 * 24 * 3600 * 1000" "sd_token d = JwtCreate J hmac now uid secret 168 []"
    and uid: "uid \<noteq> []" using assms(2) by (auto simp: issued_session_def)
  have b: "is_int32 (now div 1000 + 168 * 3600)" "is_int64 (now div 1000)" "is_int64 (now div 1000 + 168 * 3600)"
    using now(1,2) by (auto simp: is_int32_def is_int64_def)
  note v = json_laws.JwtVerify_created [OF assms(1) b(2,3), of hmac t uid secret "[]"]
  show "jwt_user_id (JwtVerify J hmac t (sd_token d) secret) = uid" by (simp add: now(4) v Let_def)
  show "jwt_valid (JwtVerify J hmac t (sd_token d) secret)" if "t < sd_expire_at d"
  proof -
    have "t div 1000 \<le> (now + 604800 * 1000) div 1000" using that now(3) by (intro zdiv_mono1) auto
    also have "\<dots> = now div 1000 + 604800" by simp
    finally show ?thesis using uid wrap32_id [OF b(1)] by (simp add: now(4) v Let_def)
  qed
  show "sd_token d \<noteq> []" by (simp add: now(4) JwtCreate_not_Nil)
qed

context session_store
begin

lemma Login_result:
  assumes "online_inv SS J hmac secret s" "clock_ok clock" "json_laws J"
    and "OnlineServiceCore_Login SS J hmac secret clock s user_id device_id device_type = (r, s')"
  shows "online_inv SS J hmac secret s'"
    and "lr_success r \<Longrightarrow> \<exists>d. ss_GetSession SS s' user_id = Some d \<and> sd_token d = lr_token r \<and> sd_expire_at d = lr_expire_at r
      \<and> sd_device_id d = NormalizeDeviceId device_id"
    and "\<not> lr_success r \<Longrightarrow> ss_GetSession SS s' = ss_GetSession SS s"
    and "uid \<noteq> user_id \<Longrightarrow> ss_GetSession SS s' uid = ss_GetSession SS s uid"
proof -
  define d where "d = \<lparr>sd_user_id = user_id, sd_device_id = NormalizeDeviceId device_id,
    sd_token = JwtCreate J hmac (clock 3) user_id secret 168 [], sd_login_time = clock 0, sd_expire_at = clock 2 + 604800000\<rparr>"
  obtain ok t where w: "ss_SetSession SS s d = (ok, t)" by fastforce
  have c: "0 \<le> clock 3" "clock 2 \<le> clock 3" "clock 3 div 1000 + 604800 < 2 ^ 31" "clock 3 < 2 ^ 42"
    using assms(2) by (auto simp: clock_ok_def)
  then have "session_ok d" using assms(2) by (auto simp: session_ok_def d_def is_int64_def clock_ok_def)
  with c have i: "user_id \<noteq> [] \<Longrightarrow> issued_session J hmac secret user_id d"
    by (auto simp: issued_session_def d_def intro!: exI [of _ "clock 3"])
  have g: "ss_GetSession SS t = (if ok then (ss_GetSession SS s)(user_id \<mapsto> d) else ss_GetSession SS s)"
    using set_session [OF w \<open>session_ok d\<close>] by (simp add: d_def)
  have n: "login_new SS J hmac secret clock s user_id (NormalizeDeviceId device_id) =
      (if ok then (\<lparr>lr_success = True, lr_token = sd_token d, lr_expire_at = sd_expire_at d, lr_error = []\<rparr>, t)
       else (login_error ''Failed to persist session'', t))"
    using w by (auto simp: login_new_def GenerateToken_def Let_def d_def kTokenExpireDays_def kMsPerDay_def split: bool.splits)
  have dd: "sd_device_id d = NormalizeDeviceId device_id" by (simp add: d_def)
  show "online_inv SS J hmac secret s'"
    using assms(1,4) i g n by (auto simp: OnlineServiceCore_Login_def online_inv_def Let_def split: if_splits option.splits)
  show "lr_success r \<Longrightarrow> \<exists>d. ss_GetSession SS s' user_id = Some d \<and> sd_token d = lr_token r \<and> sd_expire_at d = lr_expire_at r
      \<and> sd_device_id d = NormalizeDeviceId device_id"
    using assms(4) g n dd
    by (auto simp: OnlineServiceCore_Login_def login_error_def Let_def split: if_splits option.splits)
  show "\<not> lr_success r \<Longrightarrow> ss_GetSession SS s' = ss_GetSession SS s"
    "uid \<noteq> user_id \<Longrightarrow> ss_GetSession SS s' uid = ss_GetSession SS s uid"
    using assms(4) g n
    by (auto simp: OnlineServiceCore_Login_def Let_def split: if_splits option.splits)
qed

lemma remove_keeps_inv: "online_inv SS J hmac secret s \<Longrightarrow> online_inv SS J hmac secret (snd (ss_RemoveSession SS s uid))"
proof -
  obtain ok t where w: "ss_RemoveSession SS s uid = (ok, t)" by fastforce
  show "online_inv SS J hmac secret s \<Longrightarrow> ?thesis"
    using remove_session [OF w] by (auto simp: online_inv_def w split: if_splits)
qed

lemma reach_online_inv:
  assumes "online_reach SS J hmac secret s0 s" "json_laws J" "online_inv SS J hmac secret s0"
  shows "online_inv SS J hmac secret s"
  using assms
proof (induction rule: online_reach.induct)
  case (login s clock user_id device_id device_type)
  then show ?case by (metis Login_result(1) prod.collapse)
next
  case (logout s user_id token)
  then show ?case by (auto simp: OnlineServiceCore_Logout_def remove_keeps_inv split: option.splits)
next
  case (validate s clock token)
  then show ?case by (auto simp: OnlineServiceCore_ValidateToken_def Let_def remove_keeps_inv split: option.splits)
qed auto

text \<open>In a reachable state the tokens that validate are the stored ones that have not expired.\<close>

lemma ValidateToken_iff:
  assumes "online_inv SS J hmac secret s" "json_laws J" "clock 0 \<le> clock 1"
  shows "fst (OnlineServiceCore_ValidateToken SS J hmac secret clock s token) = \<lparr>tr_valid = True, tr_user_id = uid\<rparr> \<longleftrightarrow>
    (\<exists>d. ss_GetSession SS s uid = Some d \<and> sd_token d = token \<and> clock 1 < sd_expire_at d)"
proof
  assume "fst (OnlineServiceCore_ValidateToken SS J hmac secret clock s token) = \<lparr>tr_valid = True, tr_user_id = uid\<rparr>"
  then show "\<exists>d. ss_GetSession SS s uid = Some d \<and> sd_token d = token \<and> clock 1 < sd_expire_at d"
    by (auto simp: OnlineServiceCore_ValidateToken_def token_invalid_def Let_def split: if_splits option.splits)
next
  assume "\<exists>d. ss_GetSession SS s uid = Some d \<and> sd_token d = token \<and> clock 1 < sd_expire_at d"
  then obtain d where d: "ss_GetSession SS s uid = Some d" "sd_token d = token" "clock 1 < sd_expire_at d" by blast
  then have i: "issued_session J hmac secret uid d" using assms(1) by (auto simp: online_inv_def)
  note v = issued_session_verifies(1,2) [OF assms(2) i, of "clock 0"] issued_session_verifies(3) [OF assms(2) i]
  with d assms(3) show "fst (OnlineServiceCore_ValidateToken SS J hmac secret clock s token) = \<lparr>tr_valid = True, tr_user_id = uid\<rparr>"
    by (auto simp: OnlineServiceCore_ValidateToken_def Let_def)
qed

end

section \<open>Properties\<close>

text \<open>C20: In every state the service reaches from an empty store, a token validates for a user exactly
  when it is the token of that user's stored session and the session has not expired; so each user
  has at most one token that validates, and logging out invalidates it.  The clocks of the logins show times before 2038.\<close>

theorem ValidateToken_reachable:
  assumes "store_env R J" and "db_Get R db0 = Map.empty"
    and "online_reach (RocksDBSessionStore R J) J hmac secret db0 db" and "clock 0 \<le> clock 1"
  shows "fst (OnlineServiceCore_ValidateToken (RocksDBSessionStore R J) J hmac secret clock db token) =
      \<lparr>tr_valid = True, tr_user_id = uid\<rparr> \<longleftrightarrow>
    (\<exists>d. RocksDBSessionStore_GetSession R J db uid = Some d \<and> sd_token d = token \<and> clock 1 < sd_expire_at d)"
proof -
  note ss = store_env.rocksdb_session_store [OF assms(1)]
  have J: "json_laws J" using assms(1) by (simp add: store_env_def)
  have "online_inv (RocksDBSessionStore R J) J hmac secret db0"
    by (simp add: online_inv_def RocksDBSessionStore_GetSession_def assms(2))
  from session_store.ValidateToken_iff [OF ss session_store.reach_online_inv [OF ss assms(3) J this] J assms(4)]
  show ?thesis by simp
qed

theorem ValidateToken_reachable_witness:
  "fst (OnlineServiceCore_ValidateToken (RocksDBSessionStore alist_db text_json) text_json (\<lambda>k d. rev d) ''key''
     (\<lambda>i. 1700000001000)
     (snd (OnlineServiceCore_Login (RocksDBSessionStore alist_db text_json) text_json (\<lambda>k d. rev d) ''key''
        (\<lambda>i. 1700000000000) [] ''u_1'' [] []))
     (JwtCreate text_json (\<lambda>k d. rev d) 1700000000000 ''u_1'' ''key'' 168 [])) = \<lparr>tr_valid = True, tr_user_id = ''u_1''\<rparr>"
proof -
  let ?SS = "RocksDBSessionStore alist_db text_json"
  let ?l = "OnlineServiceCore_Login ?SS text_json (\<lambda>k d. rev d) ''key'' (\<lambda>i. 1700000000000) [] ''u_1'' [] []"
  have c: "clock_ok (\<lambda>i. 1700000000000)" by (simp add: clock_ok_def)
  have inv: "online_inv ?SS text_json (\<lambda>k d. rev d) ''key'' []"
    by (simp add: online_inv_def RocksDBSessionStore_GetSession_def alist_db_def)
  have "fst ?l = \<lparr>lr_success = True, lr_token = JwtCreate text_json (\<lambda>k d. rev d) 1700000000000 ''u_1'' ''key'' 168 [],
      lr_expire_at = 1700604800000, lr_error = []\<rparr>"
    by (simp add: OnlineServiceCore_Login_def login_new_def GenerateToken_def RocksDBSessionStore_GetSession_def
        RocksDBSessionStore_SetSession_def db_Put_def alist_db_def kTokenExpireDays_def kMsPerDay_def)
  moreover have "online_reach ?SS text_json (\<lambda>k d. rev d) ''key'' [] (snd ?l)"
    by (rule online_reach.login [OF online_reach.start c])
  moreover note alist_env.ss.Login_result(2) [OF inv c text_json.json_laws_axioms prod.collapse [symmetric],
      of "''u_1''" "[]" "[]"]
  moreover have "db_Get alist_db [] = Map.empty" by (simp add: alist_db_def)
  ultimately show ?thesis
    using ValidateToken_reachable [OF alist_env.store_env_axioms, of "[]" "\<lambda>k d. rev d" "''key''" "snd ?l"
        "\<lambda>i. 1700000001000" "JwtCreate text_json (\<lambda>k d. rev d) 1700000000000 ''u_1'' ''key'' 168 []" "''u_1''"]
    by auto
qed

text \<open>A successful login returns the token of the session that is then stored for the user and the
  normalised device, and it leaves every other user's session alone; a failed login changes no session.\<close>

theorem Login_outcome:
  assumes "store_env R J" and "online_inv (RocksDBSessionStore R J) J hmac secret db" and "clock_ok clock"
    and "OnlineServiceCore_Login (RocksDBSessionStore R J) J hmac secret clock db user_id device_id device_type = (r, db')"
  shows "online_inv (RocksDBSessionStore R J) J hmac secret db'
    \<and> (lr_success r \<longrightarrow> (\<exists>d. RocksDBSessionStore_GetSession R J db' user_id = Some d \<and> sd_token d = lr_token r
         \<and> sd_expire_at d = lr_expire_at r \<and> sd_device_id d = NormalizeDeviceId device_id))
    \<and> (\<not> lr_success r \<longrightarrow> RocksDBSessionStore_GetSession R J db' = RocksDBSessionStore_GetSession R J db)
    \<and> (\<forall>uid. uid \<noteq> user_id \<longrightarrow> RocksDBSessionStore_GetSession R J db' uid = RocksDBSessionStore_GetSession R J db uid)"
proof -
  note ss = store_env.rocksdb_session_store [OF assms(1)]
  have J: "json_laws J" using assms(1) by (simp add: store_env_def)
  note l = session_store.Login_result [OF ss assms(2,3) J assms(4)]
  show ?thesis using l by simp
qed

theorem Login_outcome_witness:
  "RocksDBSessionStore_GetSession alist_db text_json
     (snd (OnlineServiceCore_Login (RocksDBSessionStore alist_db text_json) text_json (\<lambda>k d. rev d) ''key''
        (\<lambda>i. 1700000000000) [] ''u_1'' [] [])) ''u_2'' = None"
proof -
  have c: "clock_ok (\<lambda>i. 1700000000000)" by (simp add: clock_ok_def)
  have inv: "online_inv (RocksDBSessionStore alist_db text_json) text_json (\<lambda>k d. rev d) ''key'' []"
    by (simp add: online_inv_def RocksDBSessionStore_GetSession_def alist_db_def)
  from Login_outcome [OF alist_env.store_env_axioms inv c prod.collapse [symmetric], of "''u_1''" "[]" "[]"]
  show ?thesis by (simp add: RocksDBSessionStore_GetSession_def alist_db_def)
qed

text \<open>A stored session refuses every login from another device and is left in place, however long ago
  it expired: the device check comes before the expiry check.\<close>

lemma Login_other_device_refused:
  assumes "ss_GetSession SS s user_id = Some d" and "sd_device_id d \<noteq> NormalizeDeviceId device_id" and "user_id \<noteq> []"
  shows "OnlineServiceCore_Login SS J hmac secret clock s user_id device_id device_type =
    (login_error ''User already logged in on another device'', s)"
  using assms by (simp add: OnlineServiceCore_Login_def)

text \<open>Presenting an older token that still carries a valid signature ends the user's current session:
  \<^verbatim>\<open>ValidateToken\<close> removes the stored session when its token differs.\<close>

theorem ValidateToken_stale_evicts:
  assumes "session_store SS" and "ss_RemoveSession SS s uid = (True, s')" and "ss_GetSession SS s uid = Some d"
    and "jwt_valid (JwtVerify J hmac (clock 0) old secret)" and "jwt_user_id (JwtVerify J hmac (clock 0) old secret) = uid"
    and "old \<noteq> []" and "sd_token d \<noteq> old"
  shows "ss_GetSession SS (snd (OnlineServiceCore_ValidateToken SS J hmac secret clock s old)) uid = None"
  using assms(2-) session_store.remove_session [OF assms(1,2)] by (simp add: OnlineServiceCore_ValidateToken_def Let_def)

theorem ValidateToken_stale_evicts_witness:
  "\<exists>s old. ss_GetSession (RocksDBSessionStore alist_db text_json) s ''u_1'' \<noteq> None \<and>
     ss_GetSession (RocksDBSessionStore alist_db text_json)
       (snd (OnlineServiceCore_ValidateToken (RocksDBSessionStore alist_db text_json) text_json (\<lambda>k d. rev d) ''key''
          (\<lambda>i. 1700000000000) s old)) ''u_1'' = None"
proof -
  let ?SS = "RocksDBSessionStore alist_db text_json"
  let ?d = "\<lparr>sd_user_id = ''u_1'', sd_device_id = [], sd_token = ''new'', sd_login_time = 0, sd_expire_at = 1700604800000\<rparr>"
  let ?s = "snd (ss_SetSession ?SS [] ?d)"
  let ?old = "JwtCreate text_json (\<lambda>k d. rev d) 1690000000000 ''u_1'' ''key'' 9999 []"
  have w: "ss_SetSession ?SS [] ?d = (True, ?s)"
    by (simp add: RocksDBSessionStore_SetSession_def db_Put_def alist_db_def)
  have g: "ss_GetSession ?SS ?s ''u_1'' = Some ?d"
    using alist_env.ss.set_session [OF w] by (simp add: session_ok_def is_int64_def)
  have v: "JwtVerify text_json (\<lambda>k d. rev d) 1700000000000 ?old ''key'' =
      \<lparr>jwt_valid = True, jwt_user_id = ''u_1'', jwt_issuer = ''swift-online'', jwt_iat = 1690000000, jwt_exp = 1725996400\<rparr>"
    by (subst text_json.JwtVerify_created) (simp_all add: is_int64_def wrap32_def)
  have r: "ss_RemoveSession ?SS ?s ''u_1'' = (True, snd (ss_RemoveSession ?SS ?s ''u_1''))"
    by (simp add: RocksDBSessionStore_RemoveSession_def db_Delete_def alist_db_def)
  have "''new'' \<noteq> ?old"
  proof
    assume "''new'' = ?old"
    moreover have "CHR ''.'' \<in> set ?old" by (simp add: JwtCreate_def Let_def)
    ultimately have "CHR ''.'' \<in> set ''new''" by metis
    then show False by simp
  qed
  with ValidateToken_stale_evicts [OF alist_env.ss.session_store_axioms r g, of text_json "\<lambda>k d. rev d" "\<lambda>i. 1700000000000" ?old "''key''"] v g
  show ?thesis by (intro exI [of _ ?s] exI [of _ ?old]) (simp add: JwtCreate_not_Nil)
qed

end
