(* ===== verification/Friend_Store.thy ===== *)
theory Friend_Store
  imports Swift_Utils Third_Party_Instances "HOL-Library.Monad_Syntax"
begin

text \<open>
  \<^verbatim>\<open>backend/friendsvr/internal/store/friend_store.{h,cpp}\<close>: friendships, friend requests with
  two indexes, friend groups and block lists in one database.  The record \<open>FriendStore\<close> is the
  abstract class, \<open>RocksDBFriendStore\<close> the implementation.  \<^verbatim>\<open>UpdateRemark\<close> and \<^verbatim>\<open>MoveFriend\<close>
  parse the stored value outside any \<^verbatim>\<open>try\<close>: their result is \<open>None\<close> when the parser throws.
\<close>

section \<open>Data\<close>

record FriendData =
  fd_user_id :: string
  fd_friend_id :: string
  fd_remark :: string
  fd_group_id :: string
  fd_added_at :: int

record FriendRequestData =
  fr_request_id :: string
  fr_from_user_id :: string
  fr_to_user_id :: string
  fr_remark :: string
  fr_status :: int
  fr_created_at :: int

record FriendGroupData =
  fg_group_id :: string
  fg_user_id :: string
  fg_group_name :: string
  fg_sort_order :: int

definition kDefaultFriendGroupId :: string where
  "kDefaultFriendGroupId = ''default''"

text \<open>The UTF-8 bytes of the display name.\<close>

definition kDefaultFriendGroupName :: string where
  "kDefaultFriendGroupName =
     [CHR 0xE6, CHR 0x88, CHR 0x91, CHR 0xE7, CHR 0x9A, CHR 0x84, CHR 0xE5, CHR 0xA5, CHR 0xBD, CHR 0xE5, CHR 0x8F, CHR 0x8B]"

record 's FriendStore =
  fs_AddFriend :: "'s \<Rightarrow> FriendData \<Rightarrow> bool \<times> 's"
  fs_RemoveFriend :: "'s \<Rightarrow> string \<Rightarrow> string \<Rightarrow> bool \<times> 's"
  fs_GetFriends :: "'s \<Rightarrow> string \<Rightarrow> string \<Rightarrow> FriendData list"
  fs_IsFriend :: "'s \<Rightarrow> string \<Rightarrow> string \<Rightarrow> bool"
  fs_UpdateRemark :: "'s \<Rightarrow> string \<Rightarrow> string \<Rightarrow> string \<Rightarrow> bool option \<times> 's"
  fs_MoveFriend :: "'s \<Rightarrow> string \<Rightarrow> string \<Rightarrow> string \<Rightarrow> bool option \<times> 's"
  fs_CreateRequest :: "'s \<Rightarrow> FriendRequestData \<Rightarrow> bool \<times> 's"
  fs_GetRequest :: "'s \<Rightarrow> string \<Rightarrow> FriendRequestData option"
  fs_UpdateRequestStatus :: "'s \<Rightarrow> string \<Rightarrow> int \<Rightarrow> bool \<times> 's"
  fs_GetReceivedRequests :: "'s \<Rightarrow> string \<Rightarrow> FriendRequestData list"
  fs_GetSentRequests :: "'s \<Rightarrow> string \<Rightarrow> FriendRequestData list"
  fs_CreateGroup :: "'s \<Rightarrow> FriendGroupData \<Rightarrow> bool \<times> 's"
  fs_GetGroups :: "'s \<Rightarrow> string \<Rightarrow> FriendGroupData list"
  fs_DeleteGroup :: "'s \<Rightarrow> string \<Rightarrow> string \<Rightarrow> bool \<times> 's"
  fs_Block :: "'s \<Rightarrow> string \<Rightarrow> string \<Rightarrow> bool \<times> 's"
  fs_Unblock :: "'s \<Rightarrow> string \<Rightarrow> string \<Rightarrow> bool \<times> 's"
  fs_IsBlocked :: "'s \<Rightarrow> string \<Rightarrow> string \<Rightarrow> bool"
  fs_GetBlockList :: "'s \<Rightarrow> string \<Rightarrow> string list"

section \<open>JSON forms\<close>

definition friend_members :: "FriendData \<Rightarrow> (string \<times> jval) list" where
  "friend_members d =
     [(''user_id'', JStr (fd_user_id d)), (''friend_id'', JStr (fd_friend_id d)), (''remark'', JStr (fd_remark d)),
      (''group_id'', JStr (fd_group_id d)), (''added_at'', JInt (fd_added_at d))]"

definition SerializeFriend :: "'j nlohmann \<Rightarrow> FriendData \<Rightarrow> string" where
  "SerializeFriend J d = json_dump J (json_object J (friend_members d))"

definition DeserializeFriend :: "'j nlohmann \<Rightarrow> string \<Rightarrow> FriendData option" where
  "DeserializeFriend J data = do {
     j \<leftarrow> json_parse J data;
     user_id \<leftarrow> json_value_string J j ''user_id'' [];
     friend_id \<leftarrow> json_value_string J j ''friend_id'' [];
     remark \<leftarrow> json_value_string J j ''remark'' [];
     group_id \<leftarrow> json_value_string J j ''group_id'' [];
     added_at \<leftarrow> json_value_int J j ''added_at'' 0;
     Some \<lparr>fd_user_id = user_id, fd_friend_id = friend_id, fd_remark = remark, fd_group_id = group_id,
       fd_added_at = added_at\<rparr> }"

definition request_members :: "FriendRequestData \<Rightarrow> (string \<times> jval) list" where
  "request_members r =
     [(''request_id'', JStr (fr_request_id r)), (''from_user_id'', JStr (fr_from_user_id r)),
      (''to_user_id'', JStr (fr_to_user_id r)), (''remark'', JStr (fr_remark r)), (''status'', JInt (fr_status r)),
      (''created_at'', JInt (fr_created_at r))]"

definition SerializeRequest :: "'j nlohmann \<Rightarrow> FriendRequestData \<Rightarrow> string" where
  "SerializeRequest J r = json_dump J (json_object J (request_members r))"

definition DeserializeRequest :: "'j nlohmann \<Rightarrow> string \<Rightarrow> FriendRequestData option" where
  "DeserializeRequest J data = do {
     j \<leftarrow> json_parse J data;
     request_id \<leftarrow> json_value_string J j ''request_id'' [];
     from_user_id \<leftarrow> json_value_string J j ''from_user_id'' [];
     to_user_id \<leftarrow> json_value_string J j ''to_user_id'' [];
     remark \<leftarrow> json_value_string J j ''remark'' [];
     status \<leftarrow> json_value_int J j ''status'' 0;
     created_at \<leftarrow> json_value_int J j ''created_at'' 0;
     Some \<lparr>fr_request_id = request_id, fr_from_user_id = from_user_id, fr_to_user_id = to_user_id,
       fr_remark = remark, fr_status = status, fr_created_at = created_at\<rparr> }"

definition friend_group_members :: "FriendGroupData \<Rightarrow> (string \<times> jval) list" where
  "friend_group_members g =
     [(''group_id'', JStr (fg_group_id g)), (''user_id'', JStr (fg_user_id g)),
      (''group_name'', JStr (fg_group_name g)), (''sort_order'', JInt (fg_sort_order g))]"

definition SerializeGroup :: "'j nlohmann \<Rightarrow> FriendGroupData \<Rightarrow> string" where
  "SerializeGroup J g = json_dump J (json_object J (friend_group_members g))"

definition DeserializeGroup :: "'j nlohmann \<Rightarrow> string \<Rightarrow> FriendGroupData option" where
  "DeserializeGroup J data = do {
     j \<leftarrow> json_parse J data;
     group_id \<leftarrow> json_value_string J j ''group_id'' [];
     user_id \<leftarrow> json_value_string J j ''user_id'' [];
     group_name \<leftarrow> json_value_string J j ''group_name'' [];
     sort_order \<leftarrow> json_value_int J j ''sort_order'' 0;
     Some \<lparr>fg_group_id = group_id, fg_user_id = user_id, fg_group_name = group_name, fg_sort_order = sort_order\<rparr> }"

section \<open>Keys\<close>

definition K_FRIEND :: string where "K_FRIEND = ''friend:''"
definition K_FRIEND_REQ :: string where "K_FRIEND_REQ = ''friend_req:''"
definition K_FRIEND_REQ_TO :: string where "K_FRIEND_REQ_TO = ''friend_req_to:''"
definition K_FRIEND_REQ_FROM :: string where "K_FRIEND_REQ_FROM = ''friend_req_from:''"
definition K_FRIEND_GROUP :: string where "K_FRIEND_GROUP = ''friend_group:''"
definition K_BLOCK :: string where "K_BLOCK = ''block:''"

definition KeyFriend :: "string \<Rightarrow> string \<Rightarrow> string" where
  "KeyFriend user_id friend_id = K_FRIEND @ user_id @ '':'' @ friend_id"

definition KeyFriendReq :: "string \<Rightarrow> string" where
  "KeyFriendReq request_id = K_FRIEND_REQ @ request_id"

definition KeyFriendReqTo :: "string \<Rightarrow> string \<Rightarrow> string" where
  "KeyFriendReqTo to_user_id request_id = K_FRIEND_REQ_TO @ to_user_id @ '':'' @ request_id"

definition KeyFriendReqFrom :: "string \<Rightarrow> string \<Rightarrow> string" where
  "KeyFriendReqFrom from_user_id request_id = K_FRIEND_REQ_FROM @ from_user_id @ '':'' @ request_id"

definition KeyFriendGroup :: "string \<Rightarrow> string \<Rightarrow> string" where
  "KeyFriendGroup user_id group_id = K_FRIEND_GROUP @ user_id @ '':'' @ group_id"

definition KeyBlock :: "string \<Rightarrow> string \<Rightarrow> string" where
  "KeyBlock user_id target_id = K_BLOCK @ user_id @ '':'' @ target_id"

definition PrefixFriend :: "string \<Rightarrow> string" where
  "PrefixFriend user_id = K_FRIEND @ user_id @ '':''"

definition PrefixFriendReqTo :: "string \<Rightarrow> string" where
  "PrefixFriendReqTo to_user_id = K_FRIEND_REQ_TO @ to_user_id @ '':''"

definition PrefixFriendReqFrom :: "string \<Rightarrow> string" where
  "PrefixFriendReqFrom from_user_id = K_FRIEND_REQ_FROM @ from_user_id @ '':''"

definition PrefixFriendGroup :: "string \<Rightarrow> string" where
  "PrefixFriendGroup user_id = K_FRIEND_GROUP @ user_id @ '':''"

definition PrefixBlock :: "string \<Rightarrow> string" where
  "PrefixBlock user_id = K_BLOCK @ user_id @ '':''"

section \<open>Friendships\<close>

definition RocksDBFriendStore_IsFriend :: "'db rocksdb \<Rightarrow> 'db \<Rightarrow> string \<Rightarrow> string \<Rightarrow> bool" where
  "RocksDBFriendStore_IsFriend R db user_id friend_id =
     (if user_id = [] \<or> friend_id = [] then False
      else db_Get R db (KeyFriend user_id friend_id) \<noteq> None)"

definition reverse_friend :: "FriendData \<Rightarrow> FriendData" where
  "reverse_friend d =
     \<lparr>fd_user_id = fd_friend_id d, fd_friend_id = fd_user_id d, fd_remark = [],
      fd_group_id = kDefaultFriendGroupId, fd_added_at = fd_added_at d\<rparr>"

definition RocksDBFriendStore_AddFriend :: "'db rocksdb \<Rightarrow> 'j nlohmann \<Rightarrow> 'db \<Rightarrow> FriendData \<Rightarrow> bool \<times> 'db" where
  "RocksDBFriendStore_AddFriend R J db data =
     (if fd_user_id data = [] \<or> fd_friend_id data = [] then (False, db)
      else if RocksDBFriendStore_IsFriend R db (fd_user_id data) (fd_friend_id data) then (False, db)
      else
        (let reverse = reverse_friend data
         in db_Write R db
              [BPut (KeyFriend (fd_user_id data) (fd_friend_id data)) (SerializeFriend J data),
               BPut (KeyFriend (fd_user_id reverse) (fd_friend_id reverse)) (SerializeFriend J reverse)]))"

definition RocksDBFriendStore_RemoveFriend :: "'db rocksdb \<Rightarrow> 'db \<Rightarrow> string \<Rightarrow> string \<Rightarrow> bool \<times> 'db" where
  "RocksDBFriendStore_RemoveFriend R db user_id friend_id =
     (if user_id = [] \<or> friend_id = [] then (False, db)
      else db_Write R db [BDelete (KeyFriend user_id friend_id), BDelete (KeyFriend friend_id user_id)])"

definition friend_listed :: "'j nlohmann \<Rightarrow> string \<Rightarrow> string \<times> string \<Rightarrow> FriendData option" where
  "friend_listed J group_id e =
     (case DeserializeFriend J (snd e) of
        None \<Rightarrow> None
      | Some d \<Rightarrow>
          if fd_group_id d = [] then None
          else if group_id = [] \<or> fd_group_id d = group_id then Some d else None)"

definition RocksDBFriendStore_GetFriends :: "'db rocksdb \<Rightarrow> 'j nlohmann \<Rightarrow> 'db \<Rightarrow> string \<Rightarrow> string \<Rightarrow> FriendData list" where
  "RocksDBFriendStore_GetFriends R J db user_id group_id =
     (if user_id = [] then []
      else List.map_filter (friend_listed J group_id) (scan_prefix R db (PrefixFriend user_id)))"

definition RocksDBFriendStore_UpdateRemark ::
  "'db rocksdb \<Rightarrow> 'j nlohmann \<Rightarrow> 'db \<Rightarrow> string \<Rightarrow> string \<Rightarrow> string \<Rightarrow> bool option \<times> 'db" where
  "RocksDBFriendStore_UpdateRemark R J db user_id friend_id remark =
     (if user_id = [] \<or> friend_id = [] then (Some False, db)
      else
        (case db_Get R db (KeyFriend user_id friend_id) of
           None \<Rightarrow> (Some False, db)
         | Some val \<Rightarrow>
             (case DeserializeFriend J val of
                None \<Rightarrow> (None, db)
              | Some d \<Rightarrow>
                  apfst Some (db_Put R db (KeyFriend user_id friend_id) (SerializeFriend J (d\<lparr>fd_remark := remark\<rparr>))))))"

definition RocksDBFriendStore_MoveFriend ::
  "'db rocksdb \<Rightarrow> 'j nlohmann \<Rightarrow> 'db \<Rightarrow> string \<Rightarrow> string \<Rightarrow> string \<Rightarrow> bool option \<times> 'db" where
  "RocksDBFriendStore_MoveFriend R J db user_id friend_id to_group_id =
     (if user_id = [] \<or> friend_id = [] then (Some False, db)
      else
        (case db_Get R db (KeyFriend user_id friend_id) of
           None \<Rightarrow> (Some False, db)
         | Some val \<Rightarrow>
             (case DeserializeFriend J val of
                None \<Rightarrow> (None, db)
              | Some d \<Rightarrow>
                  apfst Some (db_Put R db (KeyFriend user_id friend_id) (SerializeFriend J (d\<lparr>fd_group_id := to_group_id\<rparr>))))))"

section \<open>Requests\<close>

definition RocksDBFriendStore_CreateRequest :: "'db rocksdb \<Rightarrow> 'j nlohmann \<Rightarrow> 'db \<Rightarrow> FriendRequestData \<Rightarrow> bool \<times> 'db" where
  "RocksDBFriendStore_CreateRequest R J db req =
     (if fr_request_id req = [] \<or> fr_from_user_id req = [] \<or> fr_to_user_id req = [] then (False, db)
      else if db_Get R db (KeyFriendReq (fr_request_id req)) \<noteq> None then (False, db)
      else db_Write R db
             [BPut (KeyFriendReq (fr_request_id req)) (SerializeRequest J req),
              BPut (KeyFriendReqTo (fr_to_user_id req) (fr_request_id req)) [],
              BPut (KeyFriendReqFrom (fr_from_user_id req) (fr_request_id req)) []])"

definition RocksDBFriendStore_GetRequest :: "'db rocksdb \<Rightarrow> 'j nlohmann \<Rightarrow> 'db \<Rightarrow> string \<Rightarrow> FriendRequestData option" where
  "RocksDBFriendStore_GetRequest R J db request_id =
     (if request_id = [] then None
      else (case db_Get R db (KeyFriendReq request_id) of
              None \<Rightarrow> None
            | Some val \<Rightarrow> DeserializeRequest J val))"

definition RocksDBFriendStore_UpdateRequestStatus :: "'db rocksdb \<Rightarrow> 'j nlohmann \<Rightarrow> 'db \<Rightarrow> string \<Rightarrow> int \<Rightarrow> bool \<times> 'db" where
  "RocksDBFriendStore_UpdateRequestStatus R J db request_id status =
     (if request_id = [] then (False, db)
      else
        (case RocksDBFriendStore_GetRequest R J db request_id of
           None \<Rightarrow> (False, db)
         | Some req \<Rightarrow> db_Put R db (KeyFriendReq request_id) (SerializeRequest J (req\<lparr>fr_status := status\<rparr>))))"

definition request_listed :: "'db rocksdb \<Rightarrow> 'j nlohmann \<Rightarrow> 'db \<Rightarrow> nat \<Rightarrow> string \<times> string \<Rightarrow> FriendRequestData option" where
  "request_listed R J db pos e =
     (if pos \<ge> length (fst e) then None
      else RocksDBFriendStore_GetRequest R J db (drop pos (fst e)))"

definition RocksDBFriendStore_GetReceivedRequests :: "'db rocksdb \<Rightarrow> 'j nlohmann \<Rightarrow> 'db \<Rightarrow> string \<Rightarrow> FriendRequestData list" where
  "RocksDBFriendStore_GetReceivedRequests R J db user_id =
     (if user_id = [] then []
      else List.map_filter (request_listed R J db (length (PrefixFriendReqTo user_id)))
             (scan_prefix R db (PrefixFriendReqTo user_id)))"

definition RocksDBFriendStore_GetSentRequests :: "'db rocksdb \<Rightarrow> 'j nlohmann \<Rightarrow> 'db \<Rightarrow> string \<Rightarrow> FriendRequestData list" where
  "RocksDBFriendStore_GetSentRequests R J db user_id =
     (if user_id = [] then []
      else List.map_filter (request_listed R J db (length (PrefixFriendReqFrom user_id)))
             (scan_prefix R db (PrefixFriendReqFrom user_id)))"

section \<open>Groups\<close>

definition RocksDBFriendStore_CreateGroup :: "'db rocksdb \<Rightarrow> 'j nlohmann \<Rightarrow> 'db \<Rightarrow> FriendGroupData \<Rightarrow> bool \<times> 'db" where
  "RocksDBFriendStore_CreateGroup R J db grp =
     (if fg_user_id grp = [] \<or> fg_group_id grp = [] then (False, db)
      else if db_Get R db (KeyFriendGroup (fg_user_id grp) (fg_group_id grp)) \<noteq> None then (False, db)
      else db_Put R db (KeyFriendGroup (fg_user_id grp) (fg_group_id grp)) (SerializeGroup J grp))"

definition RocksDBFriendStore_GetGroups :: "'db rocksdb \<Rightarrow> 'j nlohmann \<Rightarrow> 'db \<Rightarrow> string \<Rightarrow> FriendGroupData list" where
  "RocksDBFriendStore_GetGroups R J db user_id =
     (if user_id = [] then []
      else List.map_filter (\<lambda>e. DeserializeGroup J (snd e)) (scan_prefix R db (PrefixFriendGroup user_id)))"

definition RocksDBFriendStore_DeleteGroup :: "'db rocksdb \<Rightarrow> 'j nlohmann \<Rightarrow> 'db \<Rightarrow> string \<Rightarrow> string \<Rightarrow> bool \<times> 'db" where
  "RocksDBFriendStore_DeleteGroup R J db user_id group_id =
     (if user_id = [] \<or> group_id = [] then (False, db)
      else
        (let friends = RocksDBFriendStore_GetFriends R J db user_id group_id
         in db_Write R db
              (BDelete (KeyFriendGroup user_id group_id)
               # map (\<lambda>f. BPut (KeyFriend user_id (fd_friend_id f))
                            (SerializeFriend J (f\<lparr>fd_group_id := kDefaultFriendGroupId\<rparr>))) friends)))"

section \<open>Block lists\<close>

definition RocksDBFriendStore_Block :: "'db rocksdb \<Rightarrow> 'db \<Rightarrow> string \<Rightarrow> string \<Rightarrow> bool \<times> 'db" where
  "RocksDBFriendStore_Block R db user_id target_id =
     (if user_id = [] \<or> target_id = [] then (False, db) else db_Put R db (KeyBlock user_id target_id) ''1'')"

definition RocksDBFriendStore_Unblock :: "'db rocksdb \<Rightarrow> 'db \<Rightarrow> string \<Rightarrow> string \<Rightarrow> bool \<times> 'db" where
  "RocksDBFriendStore_Unblock R db user_id target_id =
     (if user_id = [] \<or> target_id = [] then (False, db) else db_Delete R db (KeyBlock user_id target_id))"

definition RocksDBFriendStore_IsBlocked :: "'db rocksdb \<Rightarrow> 'db \<Rightarrow> string \<Rightarrow> string \<Rightarrow> bool" where
  "RocksDBFriendStore_IsBlocked R db user_id target_id =
     (if user_id = [] \<or> target_id = [] then False else db_Get R db (KeyBlock user_id target_id) \<noteq> None)"

definition RocksDBFriendStore_GetBlockList :: "'db rocksdb \<Rightarrow> 'db \<Rightarrow> string \<Rightarrow> string list" where
  "RocksDBFriendStore_GetBlockList R db user_id =
     (if user_id = [] then []
      else
        (let pos = length (PrefixBlock user_id)
         in List.map_filter (\<lambda>e. if pos < length (fst e) then Some (drop pos (fst e)) else None)
              (scan_prefix R db (PrefixBlock user_id))))"

definition RocksDBFriendStore :: "'db rocksdb \<Rightarrow> 'j nlohmann \<Rightarrow> 'db FriendStore" where
  "RocksDBFriendStore R J =
     \<lparr>fs_AddFriend = RocksDBFriendStore_AddFriend R J, fs_RemoveFriend = RocksDBFriendStore_RemoveFriend R,
      fs_GetFriends = RocksDBFriendStore_GetFriends R J, fs_IsFriend = RocksDBFriendStore_IsFriend R,
      fs_UpdateRemark = RocksDBFriendStore_UpdateRemark R J, fs_MoveFriend = RocksDBFriendStore_MoveFriend R J,
      fs_CreateRequest = RocksDBFriendStore_CreateRequest R J, fs_GetRequest = RocksDBFriendStore_GetRequest R J,
      fs_UpdateRequestStatus = RocksDBFriendStore_UpdateRequestStatus R J,
      fs_GetReceivedRequests = RocksDBFriendStore_GetReceivedRequests R J,
      fs_GetSentRequests = RocksDBFriendStore_GetSentRequests R J,
      fs_CreateGroup = RocksDBFriendStore_CreateGroup R J, fs_GetGroups = RocksDBFriendStore_GetGroups R J,
      fs_DeleteGroup = RocksDBFriendStore_DeleteGroup R J, fs_Block = RocksDBFriendStore_Block R,
      fs_Unblock = RocksDBFriendStore_Unblock R, fs_IsBlocked = RocksDBFriendStore_IsBlocked R,
      fs_GetBlockList = RocksDBFriendStore_GetBlockList R\<rparr>"

lemma RocksDBFriendStore_simps [simp]:
  "fs_AddFriend (RocksDBFriendStore R J) = RocksDBFriendStore_AddFriend R J"
  "fs_RemoveFriend (RocksDBFriendStore R J) = RocksDBFriendStore_RemoveFriend R"
  "fs_GetFriends (RocksDBFriendStore R J) = RocksDBFriendStore_GetFriends R J"
  "fs_IsFriend (RocksDBFriendStore R J) = RocksDBFriendStore_IsFriend R"
  "fs_UpdateRemark (RocksDBFriendStore R J) = RocksDBFriendStore_UpdateRemark R J"
  "fs_MoveFriend (RocksDBFriendStore R J) = RocksDBFriendStore_MoveFriend R J"
  "fs_CreateRequest (RocksDBFriendStore R J) = RocksDBFriendStore_CreateRequest R J"
  "fs_GetRequest (RocksDBFriendStore R J) = RocksDBFriendStore_GetRequest R J"
  "fs_UpdateRequestStatus (RocksDBFriendStore R J) = RocksDBFriendStore_UpdateRequestStatus R J"
  "fs_GetReceivedRequests (RocksDBFriendStore R J) = RocksDBFriendStore_GetReceivedRequests R J"
  "fs_GetSentRequests (RocksDBFriendStore R J) = RocksDBFriendStore_GetSentRequests R J"
  "fs_CreateGroup (RocksDBFriendStore R J) = RocksDBFriendStore_CreateGroup R J"
  "fs_GetGroups (RocksDBFriendStore R J) = RocksDBFriendStore_GetGroups R J"
  "fs_DeleteGroup (RocksDBFriendStore R J) = RocksDBFriendStore_DeleteGroup R J"
  "fs_Block (RocksDBFriendStore R J) = RocksDBFriendStore_Block R"
  "fs_Unblock (RocksDBFriendStore R J) = RocksDBFriendStore_Unblock R"
  "fs_IsBlocked (RocksDBFriendStore R J) = RocksDBFriendStore_IsBlocked R"
  "fs_GetBlockList (RocksDBFriendStore R J) = RocksDBFriendStore_GetBlockList R"
  by (simp_all add: RocksDBFriendStore_def)

end
