(* ===== verification/Friend_Store_Laws.thy ===== *)
theory Friend_Store_Laws
  imports Friend_Store
begin

text \<open>
  What the friend store promises.  The abstract state \<open>FriendState\<close> has the friendships, requests,
  groups and blocks that the database represents; the locale \<open>friend_store\<close> gives every operation
  as a function on it, and \<open>RocksDBFriendStore\<close> is shown to refine it on the databases that
  satisfy \<open>friend_inv\<close> (every key has the form of its table and its value parses to the record
  the key names; the two request indexes agree with the requests).
\<close>

section \<open>The abstract store\<close>

record FriendState =
  ab_friend :: "string \<times> string \<Rightarrow> FriendData option"
  ab_req :: "string \<Rightarrow> FriendRequestData option"
  ab_group :: "string \<times> string \<Rightarrow> FriendGroupData option"
  ab_block :: "(string \<times> string) set"

definition friend_ok :: "FriendData \<Rightarrow> bool" where
  "friend_ok d \<longleftrightarrow> id_ok (fd_user_id d) \<and> id_ok (fd_friend_id d) \<and> is_int64 (fd_added_at d)"

definition request_ok :: "FriendRequestData \<Rightarrow> bool" where
  "request_ok r \<longleftrightarrow> id_ok (fr_request_id r) \<and> id_ok (fr_from_user_id r) \<and> id_ok (fr_to_user_id r)
     \<and> is_int32 (fr_status r) \<and> is_int64 (fr_created_at r)"

definition fgroup_ok :: "FriendGroupData \<Rightarrow> bool" where
  "fgroup_ok g \<longleftrightarrow> id_ok (fg_user_id g) \<and> fg_group_id g \<noteq> [] \<and> is_int32 (fg_sort_order g)"

text \<open>The timestamps are read back as 32-bit values.\<close>

definition narrow_friend :: "FriendData \<Rightarrow> FriendData" where
  "narrow_friend d = d\<lparr>fd_added_at := wrap32 (fd_added_at d)\<rparr>"

definition narrow_request :: "FriendRequestData \<Rightarrow> FriendRequestData" where
  "narrow_request r = r\<lparr>fr_created_at := wrap32 (fr_created_at r)\<rparr>"

definition to_default_group :: "string \<Rightarrow> string \<Rightarrow> (string \<times> string \<Rightarrow> FriendData option) \<Rightarrow> string \<times> string \<Rightarrow> FriendData option" where
  "to_default_group u g fr k =
     (case fr k of
        None \<Rightarrow> None
      | Some d \<Rightarrow> if fst k = u \<and> fd_group_id d = g then Some (d\<lparr>fd_group_id := kDefaultFriendGroupId\<rparr>) else Some d)"

locale friend_store =
  fixes FS :: "'s FriendStore" and inv :: "'s \<Rightarrow> bool" and abs :: "'s \<Rightarrow> FriendState"
  assumes friend_data: "inv s \<Longrightarrow> ab_friend (abs s) (u, f) = Some d \<Longrightarrow>
      fd_user_id d = u \<and> fd_friend_id d = f \<and> friend_ok d \<and> narrow_friend d = d"
    and request_data: "inv s \<Longrightarrow> ab_req (abs s) rid = Some r \<Longrightarrow>
      fr_request_id r = rid \<and> request_ok r \<and> narrow_request r = r"
    and group_data: "inv s \<Longrightarrow> ab_group (abs s) (u, g) = Some gd \<Longrightarrow>
      fg_user_id gd = u \<and> fg_group_id gd = g \<and> fgroup_ok gd"
    and is_friend: "inv s \<Longrightarrow> id_ok u \<Longrightarrow> id_ok f \<Longrightarrow> fs_IsFriend FS s u f \<longleftrightarrow> ab_friend (abs s) (u, f) \<noteq> None"
    and get_friends: "inv s \<Longrightarrow> id_ok u \<Longrightarrow> d \<in> set (fs_GetFriends FS s u g) \<longleftrightarrow>
      (\<exists>f. ab_friend (abs s) (u, f) = Some d) \<and> fd_group_id d \<noteq> [] \<and> (g = [] \<or> fd_group_id d = g)"
    and get_friends_distinct: "inv s \<Longrightarrow> id_ok u \<Longrightarrow> distinct (map fd_friend_id (fs_GetFriends FS s u g))"
    and add_friend: "inv s \<Longrightarrow> fs_AddFriend FS s d = (ok, s') \<Longrightarrow> friend_ok d \<Longrightarrow> fd_user_id d \<noteq> fd_friend_id d \<Longrightarrow>
      inv s' \<and> (ok \<longrightarrow> ab_friend (abs s) (fd_user_id d, fd_friend_id d) = None) \<and>
      abs s' = (if ok then (abs s)\<lparr>ab_friend := (ab_friend (abs s))
          ((fd_user_id d, fd_friend_id d) \<mapsto> narrow_friend d,
           (fd_friend_id d, fd_user_id d) \<mapsto> narrow_friend (reverse_friend d))\<rparr> else abs s)"
    and remove_friend: "inv s \<Longrightarrow> fs_RemoveFriend FS s u f = (ok, s') \<Longrightarrow> id_ok u \<Longrightarrow> id_ok f \<Longrightarrow>
      inv s' \<and> abs s' = (if ok then (abs s)\<lparr>ab_friend := (ab_friend (abs s))((u, f) := None, (f, u) := None)\<rparr> else abs s)"
    and update_remark: "inv s \<Longrightarrow> fs_UpdateRemark FS s u f rem = (res, s') \<Longrightarrow> id_ok u \<Longrightarrow> id_ok f \<Longrightarrow>
      inv s' \<and> (case ab_friend (abs s) (u, f) of
          None \<Rightarrow> res = Some False \<and> abs s' = abs s
        | Some d \<Rightarrow> res \<noteq> None \<and> abs s' = (if res = Some True
            then (abs s)\<lparr>ab_friend := (ab_friend (abs s))((u, f) \<mapsto> d\<lparr>fd_remark := rem\<rparr>)\<rparr> else abs s))"
    and move_friend: "inv s \<Longrightarrow> fs_MoveFriend FS s u f g = (res, s') \<Longrightarrow> id_ok u \<Longrightarrow> id_ok f \<Longrightarrow>
      inv s' \<and> (case ab_friend (abs s) (u, f) of
          None \<Rightarrow> res = Some False \<and> abs s' = abs s
        | Some d \<Rightarrow> res \<noteq> None \<and> abs s' = (if res = Some True
            then (abs s)\<lparr>ab_friend := (ab_friend (abs s))((u, f) \<mapsto> d\<lparr>fd_group_id := g\<rparr>)\<rparr> else abs s))"
    and get_request: "fs_GetRequest FS s rid = ab_req (abs s) rid"
    and create_request: "inv s \<Longrightarrow> fs_CreateRequest FS s r = (ok, s') \<Longrightarrow> request_ok r \<Longrightarrow>
      inv s' \<and> (ok \<longrightarrow> ab_req (abs s) (fr_request_id r) = None) \<and>
      abs s' = (if ok then (abs s)\<lparr>ab_req := (ab_req (abs s))(fr_request_id r \<mapsto> narrow_request r)\<rparr> else abs s)"
    and update_status: "inv s \<Longrightarrow> fs_UpdateRequestStatus FS s rid st = (ok, s') \<Longrightarrow> is_int32 st \<Longrightarrow>
      inv s' \<and> (case ab_req (abs s) rid of
          None \<Rightarrow> \<not> ok \<and> abs s' = abs s
        | Some r \<Rightarrow> abs s' = (if ok then (abs s)\<lparr>ab_req := (ab_req (abs s))(rid \<mapsto> r\<lparr>fr_status := st\<rparr>)\<rparr> else abs s))"
    and received: "inv s \<Longrightarrow> id_ok u \<Longrightarrow> r \<in> set (fs_GetReceivedRequests FS s u) \<longleftrightarrow>
      (\<exists>rid. ab_req (abs s) rid = Some r) \<and> fr_to_user_id r = u"
    and sent: "inv s \<Longrightarrow> id_ok u \<Longrightarrow> r \<in> set (fs_GetSentRequests FS s u) \<longleftrightarrow>
      (\<exists>rid. ab_req (abs s) rid = Some r) \<and> fr_from_user_id r = u"
    and create_group: "inv s \<Longrightarrow> fs_CreateGroup FS s gd = (ok, s') \<Longrightarrow> fgroup_ok gd \<Longrightarrow>
      inv s' \<and> (ok \<longrightarrow> ab_group (abs s) (fg_user_id gd, fg_group_id gd) = None) \<and>
      abs s' = (if ok then (abs s)\<lparr>ab_group := (ab_group (abs s))((fg_user_id gd, fg_group_id gd) \<mapsto> gd)\<rparr> else abs s)"
    and get_groups: "inv s \<Longrightarrow> id_ok u \<Longrightarrow> gd \<in> set (fs_GetGroups FS s u) \<longleftrightarrow> (\<exists>gid. ab_group (abs s) (u, gid) = Some gd)"
    and delete_group: "inv s \<Longrightarrow> fs_DeleteGroup FS s u g = (ok, s') \<Longrightarrow> id_ok u \<Longrightarrow> g \<noteq> [] \<Longrightarrow>
      inv s' \<and> abs s' = (if ok then (abs s)\<lparr>ab_group := (ab_group (abs s))((u, g) := None),
          ab_friend := to_default_group u g (ab_friend (abs s))\<rparr> else abs s)"
    and block: "inv s \<Longrightarrow> fs_Block FS s u t = (ok, s') \<Longrightarrow> id_ok u \<Longrightarrow> t \<noteq> [] \<Longrightarrow>
      inv s' \<and> abs s' = (if ok then (abs s)\<lparr>ab_block := insert (u, t) (ab_block (abs s))\<rparr> else abs s)"
    and unblock: "inv s \<Longrightarrow> fs_Unblock FS s u t = (ok, s') \<Longrightarrow> id_ok u \<Longrightarrow> t \<noteq> [] \<Longrightarrow>
      inv s' \<and> abs s' = (if ok then (abs s)\<lparr>ab_block := ab_block (abs s) - {(u, t)}\<rparr> else abs s)"
    and is_blocked: "inv s \<Longrightarrow> id_ok u \<Longrightarrow> fs_IsBlocked FS s u t \<longleftrightarrow> (u, t) \<in> ab_block (abs s)"
    and block_list: "inv s \<Longrightarrow> id_ok u \<Longrightarrow>
      set (fs_GetBlockList FS s u) = {t. (u, t) \<in> ab_block (abs s)} \<and> distinct (fs_GetBlockList FS s u)"

section \<open>The invariant of the database\<close>

definition friends_part :: "'j nlohmann \<Rightarrow> (string \<Rightarrow> string option) \<Rightarrow> bool" where
  "friends_part J m \<longleftrightarrow> (\<forall>x v. m (K_FRIEND @ x) = Some v \<longrightarrow>
     (\<exists>d. DeserializeFriend J v = Some d \<and> x = fd_user_id d @ CHR '':'' # fd_friend_id d \<and> friend_ok d \<and> narrow_friend d = d))"

definition requests_part :: "'j nlohmann \<Rightarrow> (string \<Rightarrow> string option) \<Rightarrow> bool" where
  "requests_part J m \<longleftrightarrow>
     (\<forall>x v. m (K_FRIEND_REQ @ x) = Some v \<longrightarrow>
        (\<exists>r. DeserializeRequest J v = Some r \<and> x = fr_request_id r \<and> request_ok r \<and> narrow_request r = r
           \<and> m (KeyFriendReqTo (fr_to_user_id r) x) \<noteq> None \<and> m (KeyFriendReqFrom (fr_from_user_id r) x) \<noteq> None)) \<and>
     (\<forall>x v. m (K_FRIEND_REQ_TO @ x) = Some v \<longrightarrow>
        (\<exists>w r. m (K_FRIEND_REQ @ fr_request_id r) = Some w \<and> DeserializeRequest J w = Some r
           \<and> x = fr_to_user_id r @ CHR '':'' # fr_request_id r)) \<and>
     (\<forall>x v. m (K_FRIEND_REQ_FROM @ x) = Some v \<longrightarrow>
        (\<exists>w r. m (K_FRIEND_REQ @ fr_request_id r) = Some w \<and> DeserializeRequest J w = Some r
           \<and> x = fr_from_user_id r @ CHR '':'' # fr_request_id r))"

definition groups_part :: "'j nlohmann \<Rightarrow> (string \<Rightarrow> string option) \<Rightarrow> bool" where
  "groups_part J m \<longleftrightarrow> (\<forall>x v. m (K_FRIEND_GROUP @ x) = Some v \<longrightarrow>
     (\<exists>g. DeserializeGroup J v = Some g \<and> x = fg_user_id g @ CHR '':'' # fg_group_id g \<and> fgroup_ok g))"

definition blocks_part :: "(string \<Rightarrow> string option) \<Rightarrow> bool" where
  "blocks_part m \<longleftrightarrow> (\<forall>x v. m (K_BLOCK @ x) = Some v \<longrightarrow> (\<exists>u t. x = u @ CHR '':'' # t \<and> id_ok u \<and> t \<noteq> []))"

definition map_inv :: "'j nlohmann \<Rightarrow> (string \<Rightarrow> string option) \<Rightarrow> bool" where
  "map_inv J m \<longleftrightarrow> friends_part J m \<and> requests_part J m \<and> groups_part J m \<and> blocks_part m"

definition friend_inv :: "'db rocksdb \<Rightarrow> 'j nlohmann \<Rightarrow> 'db \<Rightarrow> bool" where
  "friend_inv R J db \<longleftrightarrow> map_inv J (db_Get R db)"

text \<open>The abstract state of a database, as a function of its mapping from keys to values.\<close>

definition map_abs :: "'j nlohmann \<Rightarrow> (string \<Rightarrow> string option) \<Rightarrow> FriendState" where
  "map_abs J m =
     \<lparr>ab_friend = (\<lambda>(u, f). if clean u then Option.bind (m (KeyFriend u f)) (DeserializeFriend J) else None),
      ab_req = (\<lambda>rid. if rid = [] then None else Option.bind (m (KeyFriendReq rid)) (DeserializeRequest J)),
      ab_group = (\<lambda>(u, g). if clean u then Option.bind (m (KeyFriendGroup u g)) (DeserializeGroup J) else None),
      ab_block = {(u, t). id_ok u \<and> t \<noteq> [] \<and> m (KeyBlock u t) \<noteq> None}\<rparr>"

definition friend_abs :: "'db rocksdb \<Rightarrow> 'j nlohmann \<Rightarrow> 'db \<Rightarrow> FriendState" where
  "friend_abs R J db = map_abs J (db_Get R db)"

section \<open>Keys of different tables\<close>

lemmas friend_prefixes = K_FRIEND_def K_FRIEND_REQ_def K_FRIEND_REQ_TO_def K_FRIEND_REQ_FROM_def K_FRIEND_GROUP_def K_BLOCK_def

lemmas friend_keys = KeyFriend_def KeyFriendReq_def KeyFriendReqTo_def KeyFriendReqFrom_def KeyFriendGroup_def KeyBlock_def
  PrefixFriend_def PrefixFriendReqTo_def PrefixFriendReqFrom_def PrefixFriendGroup_def PrefixBlock_def

lemma friend_tables_disjoint [simp]:
  "K_FRIEND @ a \<noteq> K_FRIEND_REQ @ b" "K_FRIEND @ a \<noteq> K_FRIEND_REQ_TO @ b" "K_FRIEND @ a \<noteq> K_FRIEND_REQ_FROM @ b"
  "K_FRIEND @ a \<noteq> K_FRIEND_GROUP @ b" "K_FRIEND @ a \<noteq> K_BLOCK @ b"
  "K_FRIEND_REQ @ a \<noteq> K_FRIEND @ b" "K_FRIEND_REQ @ a \<noteq> K_FRIEND_REQ_TO @ b" "K_FRIEND_REQ @ a \<noteq> K_FRIEND_REQ_FROM @ b"
  "K_FRIEND_REQ @ a \<noteq> K_FRIEND_GROUP @ b" "K_FRIEND_REQ @ a \<noteq> K_BLOCK @ b"
  "K_FRIEND_REQ_TO @ a \<noteq> K_FRIEND @ b" "K_FRIEND_REQ_TO @ a \<noteq> K_FRIEND_REQ @ b" "K_FRIEND_REQ_TO @ a \<noteq> K_FRIEND_REQ_FROM @ b"
  "K_FRIEND_REQ_TO @ a \<noteq> K_FRIEND_GROUP @ b" "K_FRIEND_REQ_TO @ a \<noteq> K_BLOCK @ b"
  "K_FRIEND_REQ_FROM @ a \<noteq> K_FRIEND @ b" "K_FRIEND_REQ_FROM @ a \<noteq> K_FRIEND_REQ @ b" "K_FRIEND_REQ_FROM @ a \<noteq> K_FRIEND_REQ_TO @ b"
  "K_FRIEND_REQ_FROM @ a \<noteq> K_FRIEND_GROUP @ b" "K_FRIEND_REQ_FROM @ a \<noteq> K_BLOCK @ b"
  "K_FRIEND_GROUP @ a \<noteq> K_FRIEND @ b" "K_FRIEND_GROUP @ a \<noteq> K_FRIEND_REQ @ b" "K_FRIEND_GROUP @ a \<noteq> K_FRIEND_REQ_TO @ b"
  "K_FRIEND_GROUP @ a \<noteq> K_FRIEND_REQ_FROM @ b" "K_FRIEND_GROUP @ a \<noteq> K_BLOCK @ b"
  "K_BLOCK @ a \<noteq> K_FRIEND @ b" "K_BLOCK @ a \<noteq> K_FRIEND_REQ @ b" "K_BLOCK @ a \<noteq> K_FRIEND_REQ_TO @ b"
  "K_BLOCK @ a \<noteq> K_FRIEND_REQ_FROM @ b" "K_BLOCK @ a \<noteq> K_FRIEND_GROUP @ b"
  by (simp_all add: friend_prefixes)

text \<open>A write to one table leaves the other parts of the invariant and of the abstract state alone.\<close>

lemma other_tables_friend:
  "requests_part J (m(K_FRIEND @ x := v)) = requests_part J m" "groups_part J (m(K_FRIEND @ x := v)) = groups_part J m"
  "blocks_part (m(K_FRIEND @ x := v)) = blocks_part m"
  by (simp_all add: requests_part_def groups_part_def blocks_part_def friend_keys)

lemma other_tables_group:
  "requests_part J (m(K_FRIEND_GROUP @ x := v)) = requests_part J m" "friends_part J (m(K_FRIEND_GROUP @ x := v)) = friends_part J m"
  "blocks_part (m(K_FRIEND_GROUP @ x := v)) = blocks_part m"
  by (simp_all add: requests_part_def friends_part_def blocks_part_def friend_keys)

lemma other_tables_block:
  "requests_part J (m(K_BLOCK @ x := v)) = requests_part J m" "friends_part J (m(K_BLOCK @ x := v)) = friends_part J m"
  "groups_part J (m(K_BLOCK @ x := v)) = groups_part J m"
  by (simp_all add: requests_part_def friends_part_def groups_part_def friend_keys)

lemma other_tables_request:
  "friends_part J (m(K_FRIEND_REQ @ x := v)) = friends_part J m" "groups_part J (m(K_FRIEND_REQ @ x := v)) = groups_part J m"
  "blocks_part (m(K_FRIEND_REQ @ x := v)) = blocks_part m"
  "friends_part J (m(K_FRIEND_REQ_TO @ x := v)) = friends_part J m" "groups_part J (m(K_FRIEND_REQ_TO @ x := v)) = groups_part J m"
  "blocks_part (m(K_FRIEND_REQ_TO @ x := v)) = blocks_part m"
  "friends_part J (m(K_FRIEND_REQ_FROM @ x := v)) = friends_part J m" "groups_part J (m(K_FRIEND_REQ_FROM @ x := v)) = groups_part J m"
  "blocks_part (m(K_FRIEND_REQ_FROM @ x := v)) = blocks_part m"
  by (simp_all add: friends_part_def groups_part_def blocks_part_def)

lemmas other_tables = other_tables_friend other_tables_group other_tables_block other_tables_request

section \<open>Effect of one write on the abstract state\<close>

lemma map_abs_friend: "clean u \<Longrightarrow> map_abs J (m(KeyFriend u f := v)) =
    (map_abs J m)\<lparr>ab_friend := (ab_friend (map_abs J m))((u, f) := Option.bind v (DeserializeFriend J))\<rparr>"
  by (auto simp: map_abs_def friend_keys fun_eq_iff clean_first_eq_iff)

lemma map_abs_group: "clean u \<Longrightarrow> map_abs J (m(KeyFriendGroup u g := v)) =
    (map_abs J m)\<lparr>ab_group := (ab_group (map_abs J m))((u, g) := Option.bind v (DeserializeGroup J))\<rparr>"
  by (auto simp: map_abs_def friend_keys fun_eq_iff clean_first_eq_iff)

lemma map_abs_block: "id_ok u \<Longrightarrow> t \<noteq> [] \<Longrightarrow> map_abs J (m(KeyBlock u t := v)) =
    (map_abs J m)\<lparr>ab_block := (if v = None then ab_block (map_abs J m) - {(u, t)} else insert (u, t) (ab_block (map_abs J m)))\<rparr>"
  by (auto simp: map_abs_def friend_keys fun_eq_iff clean_first_eq_iff id_ok_def)

lemma map_abs_request: "rid \<noteq> [] \<Longrightarrow> map_abs J (m(KeyFriendReq rid := v)) =
    (map_abs J m)\<lparr>ab_req := (ab_req (map_abs J m))(rid := Option.bind v (DeserializeRequest J))\<rparr>"
  by (auto simp: map_abs_def friend_keys fun_eq_iff)

lemma map_abs_index: "map_abs J (m(KeyFriendReqTo u rid := v)) = map_abs J m"
    "map_abs J (m(KeyFriendReqFrom u rid := v)) = map_abs J m"
  by (auto simp: map_abs_def friend_keys fun_eq_iff)

lemma narrow_friend_simps [simp]: "fd_user_id (narrow_friend d) = fd_user_id d" "fd_friend_id (narrow_friend d) = fd_friend_id d"
  "fd_group_id (narrow_friend d) = fd_group_id d" "fd_remark (narrow_friend d) = fd_remark d"
  "narrow_friend (narrow_friend d) = narrow_friend d"
  by (simp_all add: narrow_friend_def)

lemma narrow_request_simps [simp]: "fr_request_id (narrow_request r) = fr_request_id r"
  "fr_from_user_id (narrow_request r) = fr_from_user_id r" "fr_to_user_id (narrow_request r) = fr_to_user_id r"
  "fr_status (narrow_request r) = fr_status r" "narrow_request (narrow_request r) = narrow_request r"
  by (simp_all add: narrow_request_def)

lemma friend_ok_narrow: "friend_ok d \<Longrightarrow> friend_ok (narrow_friend d)"
  by (simp add: friend_ok_def narrow_friend_def)

lemma request_ok_narrow: "request_ok r \<Longrightarrow> request_ok (narrow_request r)"
  by (simp add: request_ok_def narrow_request_def)

context json_laws
begin

lemma DeserializeFriend_Serialize: "friend_ok d \<Longrightarrow> DeserializeFriend J (SerializeFriend J d) = Some (narrow_friend d)"
  by (simp add: DeserializeFriend_def SerializeFriend_def friend_members_def json_simps friend_ok_def narrow_friend_def)

lemma DeserializeRequest_Serialize: "request_ok r \<Longrightarrow> DeserializeRequest J (SerializeRequest J r) = Some (narrow_request r)"
  by (simp add: DeserializeRequest_def SerializeRequest_def request_members_def json_simps request_ok_def narrow_request_def
      is_int64_of_int32)

lemma DeserializeGroup_Serialize: "fgroup_ok g \<Longrightarrow> DeserializeGroup J (SerializeGroup J g) = Some g"
  by (simp add: DeserializeGroup_def SerializeGroup_def friend_group_members_def json_simps fgroup_ok_def is_int64_of_int32)

section \<open>Each write keeps the invariant\<close>

lemma map_inv_put_friend:
  assumes "map_inv J m" "friend_ok d"
  shows "map_inv J (m(KeyFriend (fd_user_id d) (fd_friend_id d) \<mapsto> SerializeFriend J d))"
proof -
  have "friends_part J (m(KeyFriend (fd_user_id d) (fd_friend_id d) \<mapsto> SerializeFriend J d))"
    using assms friend_ok_narrow [OF assms(2)]
    by (simp add: map_inv_def friends_part_def friend_keys DeserializeFriend_Serialize)
  with assms(1) show ?thesis by (simp add: map_inv_def KeyFriend_def other_tables)
qed

lemma map_inv_del_friend: "map_inv J m \<Longrightarrow> map_inv J (m(KeyFriend u f := None))"
  by (simp add: map_inv_def KeyFriend_def other_tables) (simp add: friends_part_def)

lemma map_inv_put_group:
  assumes "map_inv J m" "fgroup_ok g"
  shows "map_inv J (m(KeyFriendGroup (fg_user_id g) (fg_group_id g) \<mapsto> SerializeGroup J g))"
proof -
  have "groups_part J (m(KeyFriendGroup (fg_user_id g) (fg_group_id g) \<mapsto> SerializeGroup J g))"
    using assms by (simp add: map_inv_def groups_part_def friend_keys DeserializeGroup_Serialize)
  with assms(1) show ?thesis by (simp add: map_inv_def KeyFriendGroup_def other_tables)
qed

lemma map_inv_del_group: "map_inv J m \<Longrightarrow> map_inv J (m(KeyFriendGroup u g := None))"
  by (simp add: map_inv_def KeyFriendGroup_def other_tables) (simp add: groups_part_def)

lemma map_inv_block: "map_inv J m \<Longrightarrow> id_ok u \<Longrightarrow> t \<noteq> [] \<Longrightarrow> map_inv J (m(KeyBlock u t := v))"
  by (simp add: map_inv_def KeyBlock_def other_tables) (auto simp: blocks_part_def)

lemma map_inv_put_request:
  assumes "map_inv J m" "request_ok r"
    and idx: "m (KeyFriendReqTo (fr_to_user_id r) (fr_request_id r)) \<noteq> None" "m (KeyFriendReqFrom (fr_from_user_id r) (fr_request_id r)) \<noteq> None"
    and same: "\<And>v w. m (KeyFriendReq (fr_request_id r)) = Some v \<Longrightarrow> DeserializeRequest J v = Some w \<Longrightarrow>
      fr_to_user_id w = fr_to_user_id r \<and> fr_from_user_id w = fr_from_user_id r"
  shows "map_inv J (m(KeyFriendReq (fr_request_id r) \<mapsto> SerializeRequest J r))"
proof -
  have "requests_part J (m(KeyFriendReq (fr_request_id r) \<mapsto> SerializeRequest J r))"
    unfolding requests_part_def
  proof (intro conjI allI impI)
    fix x v
    assume "(m(KeyFriendReq (fr_request_id r) \<mapsto> SerializeRequest J r)) (K_FRIEND_REQ @ x) = Some v"
    then show "\<exists>r'. DeserializeRequest J v = Some r' \<and> x = fr_request_id r' \<and> request_ok r' \<and> narrow_request r' = r' \<and>
        (m(KeyFriendReq (fr_request_id r) \<mapsto> SerializeRequest J r)) (KeyFriendReqTo (fr_to_user_id r') x) \<noteq> None \<and>
        (m(KeyFriendReq (fr_request_id r) \<mapsto> SerializeRequest J r)) (KeyFriendReqFrom (fr_from_user_id r') x) \<noteq> None"
      using assms(1) idx request_ok_narrow [OF assms(2)]
      by (auto simp: map_inv_def requests_part_def friend_keys DeserializeRequest_Serialize [OF assms(2)] split: if_splits)
  next
    fix x v
    assume "(m(KeyFriendReq (fr_request_id r) \<mapsto> SerializeRequest J r)) (K_FRIEND_REQ_TO @ x) = Some v"
    then have "m (K_FRIEND_REQ_TO @ x) = Some v" by (simp add: KeyFriendReq_def)
    then obtain w r0 where r0: "m (K_FRIEND_REQ @ fr_request_id r0) = Some w" "DeserializeRequest J w = Some r0"
      "x = fr_to_user_id r0 @ CHR '':'' # fr_request_id r0"
      using assms(1) unfolding map_inv_def requests_part_def by blast
    show "\<exists>w r'. (m(KeyFriendReq (fr_request_id r) \<mapsto> SerializeRequest J r)) (K_FRIEND_REQ @ fr_request_id r') = Some w \<and>
        DeserializeRequest J w = Some r' \<and> x = fr_to_user_id r' @ CHR '':'' # fr_request_id r'"
    proof (cases "fr_request_id r0 = fr_request_id r")
      case True
      with r0 same [of w r0] show ?thesis
        by (intro exI [of _ "SerializeRequest J r"] exI [of _ "narrow_request r"])
          (simp add: KeyFriendReq_def DeserializeRequest_Serialize [OF assms(2)])
    next
      case False
      with r0 show ?thesis by (intro exI [of _ w] exI [of _ r0]) (simp add: KeyFriendReq_def)
    qed
  next
    fix x v
    assume "(m(KeyFriendReq (fr_request_id r) \<mapsto> SerializeRequest J r)) (K_FRIEND_REQ_FROM @ x) = Some v"
    then have "m (K_FRIEND_REQ_FROM @ x) = Some v" by (simp add: KeyFriendReq_def)
    then obtain w r0 where r0: "m (K_FRIEND_REQ @ fr_request_id r0) = Some w" "DeserializeRequest J w = Some r0"
      "x = fr_from_user_id r0 @ CHR '':'' # fr_request_id r0"
      using assms(1) unfolding map_inv_def requests_part_def by blast
    show "\<exists>w r'. (m(KeyFriendReq (fr_request_id r) \<mapsto> SerializeRequest J r)) (K_FRIEND_REQ @ fr_request_id r') = Some w \<and>
        DeserializeRequest J w = Some r' \<and> x = fr_from_user_id r' @ CHR '':'' # fr_request_id r'"
    proof (cases "fr_request_id r0 = fr_request_id r")
      case True
      with r0 same [of w r0] show ?thesis
        by (intro exI [of _ "SerializeRequest J r"] exI [of _ "narrow_request r"])
          (simp add: KeyFriendReq_def DeserializeRequest_Serialize [OF assms(2)])
    next
      case False
      with r0 show ?thesis by (intro exI [of _ w] exI [of _ r0]) (simp add: KeyFriendReq_def)
    qed
  qed
  with assms(1) show ?thesis by (simp add: map_inv_def KeyFriendReq_def other_tables)
qed

lemma map_inv_create_request:
  assumes "map_inv J m" "request_ok r" "m (KeyFriendReq (fr_request_id r)) = None"
  shows "map_inv J (m(KeyFriendReq (fr_request_id r) \<mapsto> SerializeRequest J r,
    KeyFriendReqTo (fr_to_user_id r) (fr_request_id r) \<mapsto> [], KeyFriendReqFrom (fr_from_user_id r) (fr_request_id r) \<mapsto> []))"
    (is "map_inv J ?m")
proof -
  let ?rid = "fr_request_id r"
  have new: "?m (K_FRIEND_REQ @ ?rid) = Some (SerializeRequest J r)" by (simp add: friend_keys)
  have old: "x \<noteq> ?rid \<Longrightarrow> ?m (K_FRIEND_REQ @ x) = m (K_FRIEND_REQ @ x)" for x by (simp add: friend_keys)
  have keep: "m (K_FRIEND_REQ @ fr_request_id r0) = Some w \<Longrightarrow> ?m (K_FRIEND_REQ @ fr_request_id r0) = Some w" for r0 w
    using assms(3) old [of "fr_request_id r0"] by (cases "fr_request_id r0 = ?rid") (auto simp: KeyFriendReq_def)
  have rq: "requests_part J m" using assms(1) by (simp add: map_inv_def)
  note ser = DeserializeRequest_Serialize [OF assms(2)] request_ok_narrow [OF assms(2)]
  have "requests_part J ?m"
    unfolding requests_part_def
  proof (intro conjI allI impI)
    fix x v
    assume v: "?m (K_FRIEND_REQ @ x) = Some v"
    show "\<exists>r'. DeserializeRequest J v = Some r' \<and> x = fr_request_id r' \<and> request_ok r' \<and> narrow_request r' = r' \<and>
        ?m (KeyFriendReqTo (fr_to_user_id r') x) \<noteq> None \<and> ?m (KeyFriendReqFrom (fr_from_user_id r') x) \<noteq> None"
    proof (cases "x = ?rid")
      case True
      with v new ser show ?thesis by (intro exI [of _ "narrow_request r"]) auto
    next
      case False
      then have "m (K_FRIEND_REQ @ x) = Some v" using v old by simp
      then obtain r' where "DeserializeRequest J v = Some r'" "x = fr_request_id r'" "request_ok r'" "narrow_request r' = r'"
        "m (KeyFriendReqTo (fr_to_user_id r') x) \<noteq> None" "m (KeyFriendReqFrom (fr_from_user_id r') x) \<noteq> None"
        using rq unfolding requests_part_def by blast
      then show ?thesis by (intro exI [of _ r']) (simp add: friend_keys)
    qed
  next
    fix x v
    assume v: "?m (K_FRIEND_REQ_TO @ x) = Some v"
    show "\<exists>w r'. ?m (K_FRIEND_REQ @ fr_request_id r') = Some w \<and> DeserializeRequest J w = Some r' \<and>
        x = fr_to_user_id r' @ CHR '':'' # fr_request_id r'"
    proof (cases "x = fr_to_user_id r @ CHR '':'' # ?rid")
      case True
      with new ser show ?thesis by (intro exI [of _ "SerializeRequest J r"] exI [of _ "narrow_request r"]) simp
    next
      case False
      then have "m (K_FRIEND_REQ_TO @ x) = Some v" using v by (simp add: friend_keys split: if_splits)
      then show ?thesis using rq keep unfolding requests_part_def by blast
    qed
  next
    fix x v
    assume v: "?m (K_FRIEND_REQ_FROM @ x) = Some v"
    show "\<exists>w r'. ?m (K_FRIEND_REQ @ fr_request_id r') = Some w \<and> DeserializeRequest J w = Some r' \<and>
        x = fr_from_user_id r' @ CHR '':'' # fr_request_id r'"
    proof (cases "x = fr_from_user_id r @ CHR '':'' # ?rid")
      case True
      with new ser show ?thesis by (intro exI [of _ "SerializeRequest J r"] exI [of _ "narrow_request r"]) simp
    next
      case False
      then have "m (K_FRIEND_REQ_FROM @ x) = Some v" using v by (simp add: friend_keys split: if_splits)
      then show ?thesis using rq keep unfolding requests_part_def by blast
    qed
  qed
  with assms(1) show ?thesis by (simp add: map_inv_def KeyFriendReq_def KeyFriendReqTo_def KeyFriendReqFrom_def other_tables)
qed

end

section \<open>Reading\<close>

lemma friends_part_get:
  assumes "friends_part J m" "m (KeyFriend u f) = Some v" "clean u"
  shows "\<exists>d. DeserializeFriend J v = Some d \<and> fd_user_id d = u \<and> fd_friend_id d = f \<and> friend_ok d \<and> narrow_friend d = d"
proof -
  obtain d where d: "DeserializeFriend J v = Some d" "u @ CHR '':'' # f = fd_user_id d @ CHR '':'' # fd_friend_id d"
    "friend_ok d" "narrow_friend d = d"
    using assms(1,2) unfolding friends_part_def KeyFriend_def by fastforce
  then have "u = fd_user_id d \<and> f = fd_friend_id d"
    using clean_first_eq_iff [OF assms(3)] by (auto simp: friend_ok_def id_ok_def)
  with d show ?thesis by auto
qed

lemma groups_part_get:
  assumes "groups_part J m" "m (KeyFriendGroup u g) = Some v" "clean u"
  shows "\<exists>d. DeserializeGroup J v = Some d \<and> fg_user_id d = u \<and> fg_group_id d = g \<and> fgroup_ok d"
proof -
  obtain d where d: "DeserializeGroup J v = Some d" "u @ CHR '':'' # g = fg_user_id d @ CHR '':'' # fg_group_id d" "fgroup_ok d"
    using assms(1,2) unfolding groups_part_def KeyFriendGroup_def by fastforce
  then have "u = fg_user_id d \<and> g = fg_group_id d"
    using clean_first_eq_iff [OF assms(3)] by (auto simp: fgroup_ok_def id_ok_def)
  with d show ?thesis by auto
qed

lemma requests_part_get:
  assumes "requests_part J m" "m (KeyFriendReq rid) = Some v"
  shows "\<exists>r. DeserializeRequest J v = Some r \<and> fr_request_id r = rid \<and> request_ok r \<and> narrow_request r = r
    \<and> m (KeyFriendReqTo (fr_to_user_id r) rid) \<noteq> None \<and> m (KeyFriendReqFrom (fr_from_user_id r) rid) \<noteq> None"
  using assms unfolding requests_part_def KeyFriendReq_def by fastforce

lemma ab_friend_iff:
  assumes "map_inv J m"
  shows "ab_friend (map_abs J m) (u, f) = Some d \<longleftrightarrow> clean u \<and> (\<exists>v. m (KeyFriend u f) = Some v \<and> DeserializeFriend J v = Some d)"
    and "clean u \<Longrightarrow> ab_friend (map_abs J m) (u, f) = None \<longleftrightarrow> m (KeyFriend u f) = None"
proof -
  have "friends_part J m" using assms by (simp add: map_inv_def)
  then show "ab_friend (map_abs J m) (u, f) = Some d \<longleftrightarrow> clean u \<and> (\<exists>v. m (KeyFriend u f) = Some v \<and> DeserializeFriend J v = Some d)"
    and "clean u \<Longrightarrow> ab_friend (map_abs J m) (u, f) = None \<longleftrightarrow> m (KeyFriend u f) = None"
    by (cases "m (KeyFriend u f)"; auto simp: map_abs_def dest: friends_part_get)+
qed

lemma ab_group_iff:
  assumes "map_inv J m"
  shows "ab_group (map_abs J m) (u, g) = Some d \<longleftrightarrow> clean u \<and> (\<exists>v. m (KeyFriendGroup u g) = Some v \<and> DeserializeGroup J v = Some d)"
    and "clean u \<Longrightarrow> ab_group (map_abs J m) (u, g) = None \<longleftrightarrow> m (KeyFriendGroup u g) = None"
proof -
  have "groups_part J m" using assms by (simp add: map_inv_def)
  then show "ab_group (map_abs J m) (u, g) = Some d \<longleftrightarrow> clean u \<and> (\<exists>v. m (KeyFriendGroup u g) = Some v \<and> DeserializeGroup J v = Some d)"
    and "clean u \<Longrightarrow> ab_group (map_abs J m) (u, g) = None \<longleftrightarrow> m (KeyFriendGroup u g) = None"
    by (cases "m (KeyFriendGroup u g)"; auto simp: map_abs_def dest: groups_part_get)+
qed

lemma ab_req_iff:
  assumes "map_inv J m"
  shows "ab_req (map_abs J m) rid = Some r \<longleftrightarrow> (\<exists>v. m (KeyFriendReq rid) = Some v \<and> DeserializeRequest J v = Some r)"
    and "ab_req (map_abs J m) rid = None \<longleftrightarrow> m (KeyFriendReq rid) = None"
proof -
  have p: "requests_part J m" using assms by (simp add: map_inv_def)
  have "m (KeyFriendReq []) = None"
    using requests_part_get [OF p, of "[]"] by (cases "m (KeyFriendReq [])") (auto simp: request_ok_def id_ok_def)
  then show "ab_req (map_abs J m) rid = Some r \<longleftrightarrow> (\<exists>v. m (KeyFriendReq rid) = Some v \<and> DeserializeRequest J v = Some r)"
    and "ab_req (map_abs J m) rid = None \<longleftrightarrow> m (KeyFriendReq rid) = None"
    using requests_part_get [OF p, of rid]
    by (cases "m (KeyFriendReq rid)"; auto simp: map_abs_def)+
qed

section \<open>The operations of the implementation\<close>

lemma friend_scan_key: "PrefixFriend u @ x = KeyFriend u x" "PrefixFriendGroup u @ x = KeyFriendGroup u x"
  "PrefixBlock u @ x = KeyBlock u x" "PrefixFriendReqTo u @ x = KeyFriendReqTo u x" "PrefixFriendReqFrom u @ x = KeyFriendReqFrom u x"
  by (simp_all add: friend_keys)

lemmas friend_view = friend_inv_def friend_abs_def

context store_env
begin

lemma fs_is_friend:
  "friend_inv R J db \<Longrightarrow> id_ok u \<Longrightarrow> id_ok f \<Longrightarrow>
     RocksDBFriendStore_IsFriend R db u f \<longleftrightarrow> ab_friend (friend_abs R J db) (u, f) \<noteq> None"
  by (simp add: RocksDBFriendStore_IsFriend_def friend_view ab_friend_iff(2) id_ok_def)

lemma fs_get_friends:
  assumes "friend_inv R J db" "id_ok u"
  shows "d \<in> set (RocksDBFriendStore_GetFriends R J db u g) \<longleftrightarrow>
      (\<exists>f. ab_friend (friend_abs R J db) (u, f) = Some d) \<and> fd_group_id d \<noteq> [] \<and> (g = [] \<or> fd_group_id d = g)"
    and "distinct (map fd_friend_id (RocksDBFriendStore_GetFriends R J db u g))"
proof -
  have fr: "friends_part J (db_Get R db)" and inv: "map_inv J (db_Get R db)" and u: "u \<noteq> []" "clean u"
    using assms by (simp_all add: friend_view map_inv_def id_ok_def)
  have l: "friend_listed J g (k, v) = Some d \<longleftrightarrow> DeserializeFriend J v = Some d \<and> fd_group_id d \<noteq> [] \<and> (g = [] \<or> fd_group_id d = g)" for k v d
    by (auto simp: friend_listed_def split: option.splits)
  show "d \<in> set (RocksDBFriendStore_GetFriends R J db u g) \<longleftrightarrow>
      (\<exists>f. ab_friend (friend_abs R J db) (u, f) = Some d) \<and> fd_group_id d \<noteq> [] \<and> (g = [] \<or> fd_group_id d = g)"
    using u by (auto simp: RocksDBFriendStore_GetFriends_def set_scan_prefix friend_scan_key l friend_abs_def ab_friend_iff(1) [OF inv])
  have "distinct (map fd_friend_id (List.map_filter (friend_listed J g) (scan_prefix R db (PrefixFriend u))))"
  proof (rule distinct_scan_collect [where c = "KeyFriend u"])
    fix x v y
    assume "db_Get R db (PrefixFriend u @ x) = Some v" "friend_listed J g (PrefixFriend u @ x, v) = Some y"
    then show "PrefixFriend u @ x = KeyFriend u (fd_friend_id y)"
      using friends_part_get [OF fr _ u(2), of x v] by (auto simp: friend_scan_key l)
  qed
  then show "distinct (map fd_friend_id (RocksDBFriendStore_GetFriends R J db u g))"
    by (simp add: RocksDBFriendStore_GetFriends_def)
qed

lemma fs_add_friend:
  assumes "friend_inv R J db" "RocksDBFriendStore_AddFriend R J db d = (ok, db')" "friend_ok d" "fd_user_id d \<noteq> fd_friend_id d"
  shows "friend_inv R J db' \<and> (ok \<longrightarrow> ab_friend (friend_abs R J db) (fd_user_id d, fd_friend_id d) = None) \<and>
    friend_abs R J db' = (if ok then (friend_abs R J db)\<lparr>ab_friend := (ab_friend (friend_abs R J db))
          ((fd_user_id d, fd_friend_id d) \<mapsto> narrow_friend d,
           (fd_friend_id d, fd_user_id d) \<mapsto> narrow_friend (reverse_friend d))\<rparr> else friend_abs R J db)"
proof (cases "RocksDBFriendStore_IsFriend R db (fd_user_id d) (fd_friend_id d)")
  case True
  with assms show ?thesis by (auto simp: RocksDBFriendStore_AddFriend_def split: if_splits)
next
  case False
  let ?b = "[BPut (KeyFriend (fd_user_id d) (fd_friend_id d)) (SerializeFriend J d),
    BPut (KeyFriend (fd_friend_id d) (fd_user_id d)) (SerializeFriend J (reverse_friend d))]"
  have ids: "id_ok (fd_user_id d)" "id_ok (fd_friend_id d)" using assms(3) by (simp_all add: friend_ok_def)
  have r: "friend_ok (reverse_friend d)" "fd_user_id (reverse_friend d) = fd_friend_id d" "fd_friend_id (reverse_friend d) = fd_user_id d"
    using assms(3) by (simp_all add: friend_ok_def reverse_friend_def)
  have w: "db_Write R db ?b = (ok, db')"
    using assms(2) False ids by (simp add: RocksDBFriendStore_AddFriend_def id_ok_def r Let_def)
  have "map_inv J (db_Get R db')" "friend_abs R J db' = (if ok then (friend_abs R J db)\<lparr>ab_friend := (ab_friend (friend_abs R J db))
          ((fd_user_id d, fd_friend_id d) \<mapsto> narrow_friend d,
           (fd_friend_id d, fd_user_id d) \<mapsto> narrow_friend (reverse_friend d))\<rparr> else friend_abs R J db)"
    using assms(1,3) ids write_get [OF w] map_inv_put_friend [OF map_inv_put_friend [OF _ assms(3)] r(1)]
    by (auto simp: friend_view r map_abs_friend id_ok_def DeserializeFriend_Serialize [OF assms(3)] DeserializeFriend_Serialize [OF r(1)])
  moreover have "ab_friend (friend_abs R J db) (fd_user_id d, fd_friend_id d) = None"
    using fs_is_friend [OF assms(1) ids] False by simp
  ultimately show ?thesis by (simp add: friend_inv_def)
qed

lemma fs_remove_friend:
  assumes "friend_inv R J db" "RocksDBFriendStore_RemoveFriend R db u f = (ok, db')" "id_ok u" "id_ok f"
  shows "friend_inv R J db' \<and> friend_abs R J db' =
    (if ok then (friend_abs R J db)\<lparr>ab_friend := (ab_friend (friend_abs R J db))((u, f) := None, (f, u) := None)\<rparr> else friend_abs R J db)"
proof -
  have w: "db_Write R db [BDelete (KeyFriend u f), BDelete (KeyFriend f u)] = (ok, db')"
    using assms(2-4) by (simp add: RocksDBFriendStore_RemoveFriend_def id_ok_def)
  show ?thesis
    using assms(1,3,4) write_get [OF w] by (auto simp: friend_view map_abs_friend id_ok_def map_inv_del_friend)
qed

text \<open>Rewriting the record of an existing friendship.\<close>

lemma fs_rewrite_friend:
  assumes inv: "friend_inv R J db" and d: "ab_friend (friend_abs R J db) (u, f) = Some d"
    and e: "fd_user_id e = fd_user_id d" "fd_friend_id e = fd_friend_id d" "fd_added_at e = fd_added_at d"
    and w: "db_Put R db (KeyFriend u f) (SerializeFriend J e) = (ok, db')"
  shows "friend_inv R J db' \<and> friend_abs R J db' =
    (if ok then (friend_abs R J db)\<lparr>ab_friend := (ab_friend (friend_abs R J db))((u, f) \<mapsto> e)\<rparr> else friend_abs R J db)"
proof -
  have inv': "map_inv J (db_Get R db)" using inv by (simp add: friend_view)
  then have fr: "friends_part J (db_Get R db)" by (simp add: map_inv_def)
  obtain v where v: "db_Get R db (KeyFriend u f) = Some v" "DeserializeFriend J v = Some d" "clean u"
    using d by (auto simp: friend_abs_def ab_friend_iff(1) [OF inv'])
  from friends_part_get [OF fr v(1,3)] v(2) have dd: "fd_user_id d = u" "fd_friend_id d = f" "friend_ok d" "narrow_friend d = d"
    by auto
  have ok: "friend_ok e" using dd(3) e by (simp add: friend_ok_def)
  have "fd_added_at (narrow_friend d) = fd_added_at d" using dd(4) by simp
  then have ne: "narrow_friend e = e" using e(3) by (simp add: narrow_friend_def)
  show ?thesis
    using put_get [OF w] inv' map_inv_put_friend [OF inv' ok] dd(1,2) e(1,2) v(3)
    by (auto simp: friend_view map_abs_friend DeserializeFriend_Serialize [OF ok] ne)
qed

lemma fs_update_friend:
  assumes "friend_inv R J db" "id_ok u" "id_ok f"
  shows "RocksDBFriendStore_UpdateRemark R J db u f rem = (res, db') \<Longrightarrow>
      friend_inv R J db' \<and> (case ab_friend (friend_abs R J db) (u, f) of
          None \<Rightarrow> res = Some False \<and> friend_abs R J db' = friend_abs R J db
        | Some d \<Rightarrow> res \<noteq> None \<and> friend_abs R J db' = (if res = Some True
            then (friend_abs R J db)\<lparr>ab_friend := (ab_friend (friend_abs R J db))((u, f) \<mapsto> d\<lparr>fd_remark := rem\<rparr>)\<rparr>
            else friend_abs R J db))" (is "?U \<Longrightarrow> ?UC")
    and "RocksDBFriendStore_MoveFriend R J db u f g = (res, db') \<Longrightarrow>
      friend_inv R J db' \<and> (case ab_friend (friend_abs R J db) (u, f) of
          None \<Rightarrow> res = Some False \<and> friend_abs R J db' = friend_abs R J db
        | Some d \<Rightarrow> res \<noteq> None \<and> friend_abs R J db' = (if res = Some True
            then (friend_abs R J db)\<lparr>ab_friend := (ab_friend (friend_abs R J db))((u, f) \<mapsto> d\<lparr>fd_group_id := g\<rparr>)\<rparr>
            else friend_abs R J db))" (is "?M \<Longrightarrow> ?MC")
proof -
  have inv: "map_inv J (db_Get R db)" and u: "clean u" "u \<noteq> []" "f \<noteq> []" using assms by (simp_all add: friend_view id_ok_def)
  have none: "db_Get R db (KeyFriend u f) = None" if "ab_friend (friend_abs R J db) (u, f) = None"
    using that ab_friend_iff(2) [OF inv u(1)] by (simp add: friend_abs_def)
  have some: "\<exists>v. db_Get R db (KeyFriend u f) = Some v \<and> DeserializeFriend J v = Some d"
    if "ab_friend (friend_abs R J db) (u, f) = Some d" for d
    using that by (simp add: friend_abs_def ab_friend_iff(1) [OF inv])
  show "?U \<Longrightarrow> ?UC"
  proof (cases "ab_friend (friend_abs R J db) (u, f)")
    case (Some d)
    assume "?U"
    with some [OF Some] u obtain ok where ok: "db_Put R db (KeyFriend u f) (SerializeFriend J (d\<lparr>fd_remark := rem\<rparr>)) = (ok, db')"
      "res = Some ok" by (auto simp: RocksDBFriendStore_UpdateRemark_def apfst_def map_prod_def split: prod.splits)
    with fs_rewrite_friend [OF assms(1) Some _ _ _ ok(1)] Some show ?UC by simp
  qed (use none assms(1) u in \<open>auto simp: RocksDBFriendStore_UpdateRemark_def\<close>)
  show "?M \<Longrightarrow> ?MC"
  proof (cases "ab_friend (friend_abs R J db) (u, f)")
    case (Some d)
    assume "?M"
    with some [OF Some] u obtain ok where ok: "db_Put R db (KeyFriend u f) (SerializeFriend J (d\<lparr>fd_group_id := g\<rparr>)) = (ok, db')"
      "res = Some ok" by (auto simp: RocksDBFriendStore_MoveFriend_def apfst_def map_prod_def split: prod.splits)
    with fs_rewrite_friend [OF assms(1) Some _ _ _ ok(1)] Some show ?MC by simp
  qed (use none assms(1) u in \<open>auto simp: RocksDBFriendStore_MoveFriend_def\<close>)
qed

lemma fs_get_request: "RocksDBFriendStore_GetRequest R J db rid = ab_req (friend_abs R J db) rid"
  by (simp add: RocksDBFriendStore_GetRequest_def friend_abs_def map_abs_def split: option.splits)

lemma fs_create_request:
  assumes "friend_inv R J db" "RocksDBFriendStore_CreateRequest R J db r = (ok, db')" "request_ok r"
  shows "friend_inv R J db' \<and> (ok \<longrightarrow> ab_req (friend_abs R J db) (fr_request_id r) = None) \<and>
    friend_abs R J db' = (if ok then (friend_abs R J db)\<lparr>ab_req := (ab_req (friend_abs R J db))(fr_request_id r \<mapsto> narrow_request r)\<rparr>
      else friend_abs R J db)"
proof (cases "db_Get R db (KeyFriendReq (fr_request_id r))")
  case (Some v)
  with assms show ?thesis by (auto simp: RocksDBFriendStore_CreateRequest_def split: if_splits)
next
  case None
  have inv: "map_inv J (db_Get R db)" using assms(1) by (simp add: friend_view)
  have ne: "fr_request_id r \<noteq> []" using assms(3) by (simp add: request_ok_def id_ok_def)
  have w: "db_Write R db [BPut (KeyFriendReq (fr_request_id r)) (SerializeRequest J r),
      BPut (KeyFriendReqTo (fr_to_user_id r) (fr_request_id r)) [], BPut (KeyFriendReqFrom (fr_from_user_id r) (fr_request_id r)) []] = (ok, db')"
    using assms(2,3) None by (simp add: RocksDBFriendStore_CreateRequest_def request_ok_def id_ok_def)
  show ?thesis
    using write_get [OF w] inv map_inv_create_request [OF inv assms(3) None] None ne ab_req_iff(2) [OF inv]
    by (auto simp: friend_view map_abs_index map_abs_request DeserializeRequest_Serialize [OF assms(3)])
qed

lemma fs_update_status:
  assumes "friend_inv R J db" "RocksDBFriendStore_UpdateRequestStatus R J db rid st = (ok, db')" "is_int32 st"
  shows "friend_inv R J db' \<and> (case ab_req (friend_abs R J db) rid of
      None \<Rightarrow> \<not> ok \<and> friend_abs R J db' = friend_abs R J db
    | Some r \<Rightarrow> friend_abs R J db' =
        (if ok then (friend_abs R J db)\<lparr>ab_req := (ab_req (friend_abs R J db))(rid \<mapsto> r\<lparr>fr_status := st\<rparr>)\<rparr> else friend_abs R J db))"
proof (cases "ab_req (friend_abs R J db) rid")
  case None
  with assms show ?thesis by (auto simp: RocksDBFriendStore_UpdateRequestStatus_def fs_get_request split: if_splits)
next
  case (Some r)
  have inv: "map_inv J (db_Get R db)" using assms(1) by (simp add: friend_view)
  then have rq: "requests_part J (db_Get R db)" by (simp add: map_inv_def)
  obtain v where v: "db_Get R db (KeyFriendReq rid) = Some v" "DeserializeRequest J v = Some r"
    using Some by (auto simp: friend_abs_def ab_req_iff(1) [OF inv])
  from requests_part_get [OF rq v(1)] v(2) have r: "fr_request_id r = rid" "request_ok r" "narrow_request r = r"
    "db_Get R db (KeyFriendReqTo (fr_to_user_id r) rid) \<noteq> None" "db_Get R db (KeyFriendReqFrom (fr_from_user_id r) rid) \<noteq> None"
    by auto
  let ?r = "r\<lparr>fr_status := st\<rparr>"
  have ok: "request_ok ?r" using r(2) assms(3) by (simp add: request_ok_def)
  have "fr_created_at (narrow_request r) = fr_created_at r" using r(3) by simp
  then have n: "narrow_request ?r = ?r" by (simp add: narrow_request_def)
  have ne: "rid \<noteq> []" using r(1,2) by (auto simp: request_ok_def id_ok_def)
  have w: "db_Put R db (KeyFriendReq rid) (SerializeRequest J ?r) = (ok, db')"
    using assms(2) ne Some by (simp add: RocksDBFriendStore_UpdateRequestStatus_def fs_get_request)
  have "map_inv J ((db_Get R db)(KeyFriendReq (fr_request_id ?r) \<mapsto> SerializeRequest J ?r))"
    by (rule map_inv_put_request [OF inv ok]) (use r v in auto)
  then show ?thesis
    using put_get [OF w] inv Some r(1) ne
    by (auto simp: friend_view map_abs_request DeserializeRequest_Serialize [OF ok] n)
qed

text \<open>The two index scans.\<close>

lemma requests_index:
  assumes "requests_part J m" "clean u"
  shows "m (KeyFriendReqTo u rid) \<noteq> None \<longleftrightarrow>
      (\<exists>v r. m (KeyFriendReq rid) = Some v \<and> DeserializeRequest J v = Some r \<and> fr_to_user_id r = u)"
    and "m (KeyFriendReqFrom u rid) \<noteq> None \<longleftrightarrow>
      (\<exists>v r. m (KeyFriendReq rid) = Some v \<and> DeserializeRequest J v = Some r \<and> fr_from_user_id r = u)"
proof -
  have get: "m (K_FRIEND_REQ @ fr_request_id r) = Some w \<Longrightarrow> DeserializeRequest J w = Some r \<Longrightarrow>
      clean (fr_to_user_id r) \<and> clean (fr_from_user_id r)" for w r
    using requests_part_get [OF assms(1), of "fr_request_id r" w] by (auto simp: KeyFriendReq_def request_ok_def id_ok_def)
  show "m (KeyFriendReqTo u rid) \<noteq> None \<longleftrightarrow>
      (\<exists>v r. m (KeyFriendReq rid) = Some v \<and> DeserializeRequest J v = Some r \<and> fr_to_user_id r = u)"
  proof
    assume "m (KeyFriendReqTo u rid) \<noteq> None"
    then obtain v where "m (K_FRIEND_REQ_TO @ (u @ CHR '':'' # rid)) = Some v" by (auto simp: KeyFriendReqTo_def)
    then obtain w r where r: "m (K_FRIEND_REQ @ fr_request_id r) = Some w" "DeserializeRequest J w = Some r"
      "u @ CHR '':'' # rid = fr_to_user_id r @ CHR '':'' # fr_request_id r"
      using assms(1) unfolding requests_part_def by blast
    then have "u = fr_to_user_id r \<and> rid = fr_request_id r"
      using get clean_first_eq_iff [OF assms(2), of "fr_to_user_id r"] by blast
    with r show "\<exists>v r. m (KeyFriendReq rid) = Some v \<and> DeserializeRequest J v = Some r \<and> fr_to_user_id r = u"
      by (auto simp: KeyFriendReq_def)
  qed (use requests_part_get [OF assms(1), of rid] in fastforce)
  show "m (KeyFriendReqFrom u rid) \<noteq> None \<longleftrightarrow>
      (\<exists>v r. m (KeyFriendReq rid) = Some v \<and> DeserializeRequest J v = Some r \<and> fr_from_user_id r = u)"
  proof
    assume "m (KeyFriendReqFrom u rid) \<noteq> None"
    then obtain v where "m (K_FRIEND_REQ_FROM @ (u @ CHR '':'' # rid)) = Some v" by (auto simp: KeyFriendReqFrom_def)
    then obtain w r where r: "m (K_FRIEND_REQ @ fr_request_id r) = Some w" "DeserializeRequest J w = Some r"
      "u @ CHR '':'' # rid = fr_from_user_id r @ CHR '':'' # fr_request_id r"
      using assms(1) unfolding requests_part_def by blast
    then have "u = fr_from_user_id r \<and> rid = fr_request_id r"
      using get clean_first_eq_iff [OF assms(2), of "fr_from_user_id r"] by blast
    with r show "\<exists>v r. m (KeyFriendReq rid) = Some v \<and> DeserializeRequest J v = Some r \<and> fr_from_user_id r = u"
      by (auto simp: KeyFriendReq_def)
  qed (use requests_part_get [OF assms(1), of rid] in fastforce)
qed

lemma fs_request_lists:
  assumes "friend_inv R J db" "id_ok u"
  shows "r \<in> set (RocksDBFriendStore_GetReceivedRequests R J db u) \<longleftrightarrow>
      (\<exists>rid. ab_req (friend_abs R J db) rid = Some r) \<and> fr_to_user_id r = u"
    and "r \<in> set (RocksDBFriendStore_GetSentRequests R J db u) \<longleftrightarrow>
      (\<exists>rid. ab_req (friend_abs R J db) rid = Some r) \<and> fr_from_user_id r = u"
proof -
  have inv: "map_inv J (db_Get R db)" and rq: "requests_part J (db_Get R db)" and u: "u \<noteq> []" "clean u"
    using assms by (simp_all add: friend_view map_inv_def id_ok_def)
  have l: "request_listed R J db (length p) (p @ x, v) = ab_req (friend_abs R J db) x" for p x v
    by (simp add: request_listed_def fs_get_request) (simp add: friend_abs_def map_abs_def)
  note l = l [of "PrefixFriendReqTo u", unfolded friend_scan_key] l [of "PrefixFriendReqFrom u", unfolded friend_scan_key]
  note i = requests_index [OF rq u(2)]
  have "r \<in> set (RocksDBFriendStore_GetReceivedRequests R J db u) \<longleftrightarrow>
      (\<exists>x. db_Get R db (KeyFriendReqTo u x) \<noteq> None \<and> ab_req (friend_abs R J db) x = Some r)"
    using u by (auto simp: RocksDBFriendStore_GetReceivedRequests_def set_scan_prefix l friend_scan_key)
  also have "\<dots> \<longleftrightarrow> (\<exists>rid. ab_req (friend_abs R J db) rid = Some r) \<and> fr_to_user_id r = u"
    unfolding i by (auto simp: friend_abs_def ab_req_iff(1) [OF inv])
  finally show "r \<in> set (RocksDBFriendStore_GetReceivedRequests R J db u) \<longleftrightarrow>
      (\<exists>rid. ab_req (friend_abs R J db) rid = Some r) \<and> fr_to_user_id r = u" .
  have "r \<in> set (RocksDBFriendStore_GetSentRequests R J db u) \<longleftrightarrow>
      (\<exists>x. db_Get R db (KeyFriendReqFrom u x) \<noteq> None \<and> ab_req (friend_abs R J db) x = Some r)"
    using u by (auto simp: RocksDBFriendStore_GetSentRequests_def set_scan_prefix l friend_scan_key)
  also have "\<dots> \<longleftrightarrow> (\<exists>rid. ab_req (friend_abs R J db) rid = Some r) \<and> fr_from_user_id r = u"
    unfolding i by (auto simp: friend_abs_def ab_req_iff(1) [OF inv])
  finally show "r \<in> set (RocksDBFriendStore_GetSentRequests R J db u) \<longleftrightarrow>
      (\<exists>rid. ab_req (friend_abs R J db) rid = Some r) \<and> fr_from_user_id r = u" .
qed

lemma fs_create_group:
  assumes "friend_inv R J db" "RocksDBFriendStore_CreateGroup R J db g = (ok, db')" "fgroup_ok g"
  shows "friend_inv R J db' \<and> (ok \<longrightarrow> ab_group (friend_abs R J db) (fg_user_id g, fg_group_id g) = None) \<and>
    friend_abs R J db' = (if ok then (friend_abs R J db)\<lparr>ab_group := (ab_group (friend_abs R J db))((fg_user_id g, fg_group_id g) \<mapsto> g)\<rparr>
      else friend_abs R J db)"
proof (cases "db_Get R db (KeyFriendGroup (fg_user_id g) (fg_group_id g))")
  case (Some v)
  with assms show ?thesis by (auto simp: RocksDBFriendStore_CreateGroup_def split: if_splits)
next
  case None
  have inv: "map_inv J (db_Get R db)" using assms(1) by (simp add: friend_view)
  have c: "clean (fg_user_id g)" using assms(3) by (simp add: fgroup_ok_def id_ok_def)
  have w: "db_Put R db (KeyFriendGroup (fg_user_id g) (fg_group_id g)) (SerializeGroup J g) = (ok, db')"
    using assms(2,3) None by (simp add: RocksDBFriendStore_CreateGroup_def fgroup_ok_def id_ok_def)
  show ?thesis
    using put_get [OF w] inv map_inv_put_group [OF inv assms(3)] None c ab_group_iff(2) [OF inv c]
    by (auto simp: friend_view map_abs_group DeserializeGroup_Serialize [OF assms(3)])
qed

lemma fs_get_groups:
  assumes "friend_inv R J db" "id_ok u"
  shows "g \<in> set (RocksDBFriendStore_GetGroups R J db u) \<longleftrightarrow> (\<exists>gid. ab_group (friend_abs R J db) (u, gid) = Some g)"
proof -
  have inv: "map_inv J (db_Get R db)" and u: "u \<noteq> []" "clean u"
    using assms by (simp_all add: friend_view id_ok_def)
  then show ?thesis
    by (auto simp: RocksDBFriendStore_GetGroups_def set_scan_prefix friend_scan_key friend_abs_def ab_group_iff(1) [OF inv])
qed

text \<open>Moving a list of friends of one user to the default group.\<close>

lemma put_friends:
  assumes "map_inv J m" "\<forall>f \<in> set fs. friend_ok f \<and> narrow_friend f = f \<and> fd_user_id f = u" "clean u" "distinct (map fd_friend_id fs)"
  defines "puts \<equiv> map (\<lambda>f. BPut (KeyFriend u (fd_friend_id f)) (SerializeFriend J (f\<lparr>fd_group_id := kDefaultFriendGroupId\<rparr>)))"
  shows "map_inv J (apply_batch (puts fs) m) \<and> map_abs J (apply_batch (puts fs) m) =
    (map_abs J m)\<lparr>ab_friend := \<lambda>k. case find (\<lambda>f. k = (u, fd_friend_id f)) fs of
        None \<Rightarrow> ab_friend (map_abs J m) k | Some f \<Rightarrow> Some (f\<lparr>fd_group_id := kDefaultFriendGroupId\<rparr>)\<rparr>"
  using assms(1,2,4)
proof (induction fs arbitrary: m)
  case (Cons f fs)
  let ?f = "f\<lparr>fd_group_id := kDefaultFriendGroupId\<rparr>"
  let ?m = "m(KeyFriend u (fd_friend_id f) \<mapsto> SerializeFriend J ?f)"
  have ok: "friend_ok ?f" using Cons.prems(2) by (auto simp: friend_ok_def)
  have "fd_added_at (narrow_friend f) = fd_added_at f" using Cons.prems(2) by simp
  then have n: "narrow_friend ?f = ?f" by (simp add: narrow_friend_def)
  have inv: "map_inv J ?m" using map_inv_put_friend [OF Cons.prems(1) ok] Cons.prems(2) by simp
  have abs: "map_abs J ?m = (map_abs J m)\<lparr>ab_friend := (ab_friend (map_abs J m))((u, fd_friend_id f) \<mapsto> ?f)\<rparr>"
    by (simp add: map_abs_friend [OF assms(3)] DeserializeFriend_Serialize [OF ok] n)
  have nf: "find (\<lambda>f'. (u, fd_friend_id f) = (u, fd_friend_id f')) fs = None"
    using Cons.prems(3) by (auto simp: find_None_iff)
  have step: "apply_batch (puts (f # fs)) m = apply_batch (puts fs) ?m" by (simp add: puts_def)
  have fn: "(\<lambda>k. case find (\<lambda>f. k = (u, fd_friend_id f)) fs of
        None \<Rightarrow> ((ab_friend (map_abs J m))((u, fd_friend_id f) \<mapsto> ?f)) k | Some f \<Rightarrow> Some (f\<lparr>fd_group_id := kDefaultFriendGroupId\<rparr>)) =
      (\<lambda>k. case find (\<lambda>f. k = (u, fd_friend_id f)) (f # fs) of
        None \<Rightarrow> ab_friend (map_abs J m) k | Some f \<Rightarrow> Some (f\<lparr>fd_group_id := kDefaultFriendGroupId\<rparr>))"
  proof (rule ext)
    fix k
    show "(case find (\<lambda>f. k = (u, fd_friend_id f)) fs of
        None \<Rightarrow> ((ab_friend (map_abs J m))((u, fd_friend_id f) \<mapsto> ?f)) k | Some f \<Rightarrow> Some (f\<lparr>fd_group_id := kDefaultFriendGroupId\<rparr>)) =
      (case find (\<lambda>f. k = (u, fd_friend_id f)) (f # fs) of
        None \<Rightarrow> ab_friend (map_abs J m) k | Some f \<Rightarrow> Some (f\<lparr>fd_group_id := kDefaultFriendGroupId\<rparr>))"
      using nf by (cases "k = (u, fd_friend_id f)") (auto split: option.splits)
  qed
  have "\<forall>f \<in> set fs. friend_ok f \<and> narrow_friend f = f \<and> fd_user_id f = u" "distinct (map fd_friend_id fs)"
    using Cons.prems(2,3) by auto
  from Cons.IH [OF inv this] have IH: "map_inv J (apply_batch (puts fs) ?m)"
    "map_abs J (apply_batch (puts fs) ?m) = (map_abs J ?m)\<lparr>ab_friend := \<lambda>k. case find (\<lambda>f. k = (u, fd_friend_id f)) fs of
        None \<Rightarrow> ab_friend (map_abs J ?m) k | Some f \<Rightarrow> Some (f\<lparr>fd_group_id := kDefaultFriendGroupId\<rparr>)\<rparr>"
    by blast+
  have ab: "ab_friend (map_abs J ?m) = (ab_friend (map_abs J m))((u, fd_friend_id f) \<mapsto> ?f)" unfolding abs by simp
  have "map_abs J (apply_batch (puts fs) ?m) = (map_abs J m)\<lparr>ab_friend := \<lambda>k. case find (\<lambda>f. k = (u, fd_friend_id f)) (f # fs) of
        None \<Rightarrow> ab_friend (map_abs J m) k | Some f \<Rightarrow> Some (f\<lparr>fd_group_id := kDefaultFriendGroupId\<rparr>)\<rparr>"
    unfolding IH(2) ab fn unfolding abs by simp
  with IH(1) show ?case unfolding step by blast
qed (simp add: puts_def)

lemma fs_delete_group:
  assumes "friend_inv R J db" "RocksDBFriendStore_DeleteGroup R J db u g = (ok, db')" "id_ok u" "g \<noteq> []"
  shows "friend_inv R J db' \<and> friend_abs R J db' = (if ok then (friend_abs R J db)\<lparr>ab_group := (ab_group (friend_abs R J db))((u, g) := None),
      ab_friend := to_default_group u g (ab_friend (friend_abs R J db))\<rparr> else friend_abs R J db)"
proof -
  let ?fs = "RocksDBFriendStore_GetFriends R J db u g"
  let ?puts = "map (\<lambda>f. BPut (KeyFriend u (fd_friend_id f)) (SerializeFriend J (f\<lparr>fd_group_id := kDefaultFriendGroupId\<rparr>))) ?fs"
  let ?m = "(db_Get R db)(KeyFriendGroup u g := None)"
  have inv: "map_inv J (db_Get R db)" and u: "clean u" "u \<noteq> []" using assms(1,3) by (simp_all add: friend_view id_ok_def)
  have w: "db_Write R db (BDelete (KeyFriendGroup u g) # ?puts) = (ok, db')"
    using assms(2,4) u by (simp add: RocksDBFriendStore_DeleteGroup_def)
  have listed: "d \<in> set ?fs \<longleftrightarrow> ab_friend (map_abs J (db_Get R db)) (u, fd_friend_id d) = Some d \<and> fd_group_id d = g" for d
  proof -
    have "ab_friend (map_abs J (db_Get R db)) (u, f) = Some d \<Longrightarrow> f = fd_friend_id d" for f
      using friends_part_get [of J "db_Get R db" u f] inv by (auto simp: map_inv_def ab_friend_iff(1) [OF inv])
    then show ?thesis using fs_get_friends(1) [OF assms(1,3), of d g] assms(4) by (auto simp: friend_abs_def)
  qed
  have "friend_ok f \<and> narrow_friend f = f \<and> fd_user_id f = u" if fm: "f \<in> set ?fs" for f
  proof -
    obtain v where "db_Get R db (KeyFriend u (fd_friend_id f)) = Some v" "DeserializeFriend J v = Some f"
      using fm unfolding listed ab_friend_iff(1) [OF inv] by blast
    with friends_part_get [of J "db_Get R db" u "fd_friend_id f" v] inv u(1) show ?thesis by (auto simp: map_inv_def)
  qed
  then have "\<forall>f \<in> set ?fs. friend_ok f \<and> narrow_friend f = f \<and> fd_user_id f = u" by blast
  note p = put_friends [OF map_inv_del_group [OF inv] this u(1) fs_get_friends(2) [OF assms(1,3), of g], of u g]
  have fn: "(case find (\<lambda>f. k = (u, fd_friend_id f)) ?fs of
      None \<Rightarrow> ab_friend (map_abs J (db_Get R db)) k | Some f \<Rightarrow> Some (f\<lparr>fd_group_id := kDefaultFriendGroupId\<rparr>)) =
      to_default_group u g (ab_friend (map_abs J (db_Get R db))) k" for k
  proof (cases "find (\<lambda>f. k = (u, fd_friend_id f)) ?fs")
    case None
    then have nf: "\<And>f. f \<in> set ?fs \<Longrightarrow> k \<noteq> (u, fd_friend_id f)" by (auto simp: find_None_iff)
    have "False" if "ab_friend (map_abs J (db_Get R db)) k = Some d" "fst k = u" "fd_group_id d = g" for d
    proof -
      have "k = (u, fd_friend_id d)"
        using that(1,2) friends_part_get [of J "db_Get R db" u "snd k"] inv by (cases k) (auto simp: map_inv_def ab_friend_iff(1) [OF inv])
      with that nf [of d] listed [of d] show False by simp
    qed
    with None show ?thesis by (auto simp: to_default_group_def split: option.splits)
  next
    case (Some d)
    then have d: "d \<in> set ?fs" "k = (u, fd_friend_id d)" by (auto simp: find_Some_iff)
    with listed [of d] Some show ?thesis by (simp add: to_default_group_def)
  qed
  have ab: "ab_friend (map_abs J ?m) = ab_friend (map_abs J (db_Get R db))" by (simp add: map_abs_group [OF u(1)])
  show ?thesis
    using write_get [OF w] inv p [unfolded ab fn] by (auto simp: friend_view map_abs_group [OF u(1)])
qed

lemma fs_block:
  assumes "friend_inv R J db" "id_ok u" "t \<noteq> []"
  shows "RocksDBFriendStore_Block R db u t = (ok, db') \<Longrightarrow> friend_inv R J db' \<and>
      friend_abs R J db' = (if ok then (friend_abs R J db)\<lparr>ab_block := insert (u, t) (ab_block (friend_abs R J db))\<rparr> else friend_abs R J db)"
    and "RocksDBFriendStore_Unblock R db u t = (ok, db') \<Longrightarrow> friend_inv R J db' \<and>
      friend_abs R J db' = (if ok then (friend_abs R J db)\<lparr>ab_block := ab_block (friend_abs R J db) - {(u, t)}\<rparr> else friend_abs R J db)"
  using assms
  by (auto simp: RocksDBFriendStore_Block_def RocksDBFriendStore_Unblock_def id_ok_def friend_view map_abs_block map_inv_block
      dest!: put_get delete_get)

lemma fs_blocked:
  assumes "friend_inv R J db" "id_ok u"
  shows "RocksDBFriendStore_IsBlocked R db u t \<longleftrightarrow> (u, t) \<in> ab_block (friend_abs R J db)"
    and "set (RocksDBFriendStore_GetBlockList R db u) = {t. (u, t) \<in> ab_block (friend_abs R J db)}"
    and "distinct (RocksDBFriendStore_GetBlockList R db u)"
proof -
  have u: "u \<noteq> []" "clean u" using assms(2) by (simp_all add: id_ok_def)
  let ?g = "\<lambda>e. if length (PrefixBlock u) < length (fst e) then Some (drop (length (PrefixBlock u)) (fst e)) else None"
  have g: "?g (PrefixBlock u @ x, v) = (if x = [] then None else Some x)" for x v by simp
  show "RocksDBFriendStore_IsBlocked R db u t \<longleftrightarrow> (u, t) \<in> ab_block (friend_abs R J db)"
    using u assms(2) by (auto simp: RocksDBFriendStore_IsBlocked_def friend_abs_def map_abs_def)
  have l: "RocksDBFriendStore_GetBlockList R db u = List.map_filter ?g (scan_prefix R db (PrefixBlock u))"
    using u by (simp add: RocksDBFriendStore_GetBlockList_def Let_def)
  show "set (RocksDBFriendStore_GetBlockList R db u) = {t. (u, t) \<in> ab_block (friend_abs R J db)}"
    unfolding l set_scan_prefix g using assms(2) by (auto simp: friend_abs_def map_abs_def friend_scan_key)
  have "distinct (map id (List.map_filter ?g (scan_prefix R db (PrefixBlock u))))"
    by (rule distinct_scan_collect [where c = "\<lambda>x. PrefixBlock u @ x"]) (auto split: if_splits)
  then show "distinct (RocksDBFriendStore_GetBlockList R db u)" by (simp add: l)
qed

end

sublocale store_env \<subseteq> fs: friend_store "RocksDBFriendStore R J" "friend_inv R J" "friend_abs R J"
proof (unfold_locales, simp_all only: RocksDBFriendStore_simps)
  fix db u f d
  assume "friend_inv R J db" "ab_friend (friend_abs R J db) (u, f) = Some d"
  then show "fd_user_id d = u \<and> fd_friend_id d = f \<and> friend_ok d \<and> narrow_friend d = d"
    using friends_part_get [of J "db_Get R db" u f] by (auto simp: friend_view map_inv_def ab_friend_iff(1))
next
  fix db rid r
  assume "friend_inv R J db" "ab_req (friend_abs R J db) rid = Some r"
  then show "fr_request_id r = rid \<and> request_ok r \<and> narrow_request r = r"
    using requests_part_get [of J "db_Get R db" rid] by (auto simp: friend_view map_inv_def ab_req_iff(1))
next
  fix db u g gd
  assume "friend_inv R J db" "ab_group (friend_abs R J db) (u, g) = Some gd"
  then show "fg_user_id gd = u \<and> fg_group_id gd = g \<and> fgroup_ok gd"
    using groups_part_get [of J "db_Get R db" u g] by (auto simp: friend_view map_inv_def ab_group_iff(1))
qed (rule fs_is_friend fs_get_friends fs_add_friend fs_remove_friend fs_update_friend fs_get_request fs_create_request
    fs_update_status fs_request_lists fs_create_group fs_get_groups fs_delete_group fs_block fs_blocked conjI [OF fs_blocked(2,3)];
    assumption)+

context store_env
begin

lemma rocksdb_friend_store: "friend_store (RocksDBFriendStore R J) (friend_inv R J) (friend_abs R J)"
  by unfold_locales

end

lemma friend_inv_empty: "db_Get R db = Map.empty \<Longrightarrow> friend_inv R J db"
  by (simp add: friend_inv_def map_inv_def friends_part_def requests_part_def groups_part_def blocks_part_def)

interpretation alist_fs: friend_store "RocksDBFriendStore alist_db text_json" "friend_inv alist_db text_json" "friend_abs alist_db text_json"
  by unfold_locales

end
