(* ===== verification/Friend_Service.thy ===== *)
theory Friend_Service
  imports Friend_Store_Laws Error_Code
begin

text \<open>
  \<^verbatim>\<open>backend/friendsvr/internal/service/friend_service.cpp\<close>: friend requests, friendships, block
  lists and friend groups over a \<open>FriendStore\<close>.  \<open>draws\<close> are the random values and \<open>now\<close> the
  clock reading of one call.
\<close>

section \<open>Operations\<close>

definition FriendService_AddFriend ::
  "'s FriendStore \<Rightarrow> nat list \<Rightarrow> int \<Rightarrow> 's \<Rightarrow> string \<Rightarrow> string \<Rightarrow> string \<Rightarrow> bool \<times> 's" where
  "FriendService_AddFriend FS draws now s user_id friend_id remark =
     (if user_id = [] \<or> friend_id = [] then (False, s)
      else if user_id = friend_id then (False, s)
      else if fs_IsFriend FS s user_id friend_id then (False, s)
      else if fs_IsBlocked FS s friend_id user_id then (False, s)
      else if list_ex (\<lambda>r. fr_from_user_id r = user_id \<and> fr_status r = 0) (fs_GetReceivedRequests FS s friend_id)
      then (False, s)
      else
        fs_CreateRequest FS s
          \<lparr>fr_request_id = GenerateShortId draws ''req_'' 12, fr_from_user_id = user_id, fr_to_user_id = friend_id,
           fr_remark = remark, fr_status = 0, fr_created_at = now\<rparr>)"

definition FriendService_EnsureDefaultGroup :: "'s FriendStore \<Rightarrow> 's \<Rightarrow> string \<Rightarrow> 's" where
  "FriendService_EnsureDefaultGroup FS s user_id =
     (if user_id = [] then s
      else if list_ex (\<lambda>g. fg_group_id g = kDefaultFriendGroupId) (fs_GetGroups FS s user_id) then s
      else snd (fs_CreateGroup FS s
             \<lparr>fg_group_id = kDefaultFriendGroupId, fg_user_id = user_id, fg_group_name = kDefaultFriendGroupName,
              fg_sort_order = 0\<rparr>))"

definition FriendService_HandleRequest ::
  "'s FriendStore \<Rightarrow> int \<Rightarrow> 's \<Rightarrow> string \<Rightarrow> string \<Rightarrow> bool \<Rightarrow> string \<Rightarrow> bool \<times> 's" where
  "FriendService_HandleRequest FS now s user_id request_id accept group_id =
     (if user_id = [] \<or> request_id = [] then (False, s)
      else
        (case fs_GetRequest FS s request_id of
           None \<Rightarrow> (False, s)
         | Some req \<Rightarrow>
             if fr_to_user_id req \<noteq> user_id then (False, s)
             else if fr_status req \<noteq> 0 then (False, s)
             else if accept then
               (let target_group = (if group_id = [] then kDefaultFriendGroupId else group_id);
                    s1 = FriendService_EnsureDefaultGroup FS s user_id;
                    data = \<lparr>fd_user_id = user_id, fd_friend_id = fr_from_user_id req, fd_remark = [],
                            fd_group_id = target_group, fd_added_at = now\<rparr>
                in case fs_AddFriend FS s1 data of
                     (False, s2) \<Rightarrow> (False, s2)
                   | (True, s2) \<Rightarrow> fs_UpdateRequestStatus FS s2 request_id 1)
             else fs_UpdateRequestStatus FS s request_id 2))"

definition FriendService_RemoveFriend :: "'s FriendStore \<Rightarrow> 's \<Rightarrow> string \<Rightarrow> string \<Rightarrow> bool \<times> 's" where
  "FriendService_RemoveFriend FS s user_id friend_id =
     (if user_id = [] \<or> friend_id = [] then (False, s)
      else if \<not> fs_IsFriend FS s user_id friend_id then (False, s)
      else fs_RemoveFriend FS s user_id friend_id)"

definition FriendService_GetFriends :: "'s FriendStore \<Rightarrow> 's \<Rightarrow> string \<Rightarrow> string \<Rightarrow> FriendData list" where
  "FriendService_GetFriends FS s user_id group_id =
     (if user_id = [] then [] else fs_GetFriends FS s user_id group_id)"

definition FriendService_Block :: "'s FriendStore \<Rightarrow> 's \<Rightarrow> string \<Rightarrow> string \<Rightarrow> bool \<times> 's" where
  "FriendService_Block FS s user_id target_id =
     (if user_id = [] \<or> target_id = [] then (False, s)
      else if user_id = target_id then (False, s)
      else fs_Block FS s user_id target_id)"

definition FriendService_Unblock :: "'s FriendStore \<Rightarrow> 's \<Rightarrow> string \<Rightarrow> string \<Rightarrow> bool \<times> 's" where
  "FriendService_Unblock FS s user_id target_id =
     (if user_id = [] \<or> target_id = [] then (False, s) else fs_Unblock FS s user_id target_id)"

definition FriendService_GetBlockList :: "'s FriendStore \<Rightarrow> 's \<Rightarrow> string \<Rightarrow> string list" where
  "FriendService_GetBlockList FS s user_id = (if user_id = [] then [] else fs_GetBlockList FS s user_id)"

definition FriendService_CreateFriendGroup ::
  "'s FriendStore \<Rightarrow> nat list \<Rightarrow> 's \<Rightarrow> string \<Rightarrow> string \<Rightarrow> string option \<times> 's" where
  "FriendService_CreateFriendGroup FS draws s user_id group_name =
     (if user_id = [] \<or> group_name = [] then (None, s)
      else
        (let group_id = GenerateShortId draws ''g_'' 8
         in case fs_CreateGroup FS s \<lparr>fg_group_id = group_id, fg_user_id = user_id, fg_group_name = group_name, fg_sort_order = 0\<rparr> of
              (False, s') \<Rightarrow> (None, s')
            | (True, s') \<Rightarrow> (Some group_id, s')))"

definition FriendService_GetFriendGroups :: "'s FriendStore \<Rightarrow> 's \<Rightarrow> string \<Rightarrow> FriendGroupData list \<times> 's" where
  "FriendService_GetFriendGroups FS s user_id =
     (if user_id = [] then ([], s)
      else (let s' = FriendService_EnsureDefaultGroup FS s user_id in (fs_GetGroups FS s' user_id, s')))"

definition FriendService_DeleteFriendGroup :: "'s FriendStore \<Rightarrow> 's \<Rightarrow> string \<Rightarrow> string \<Rightarrow> ErrorCode \<times> 's" where
  "FriendService_DeleteFriendGroup FS s user_id group_id =
     (if user_id = [] then (EC_INVALID_PARAM, s)
      else if group_id = [] \<or> group_id = kDefaultFriendGroupId then (EC_FRIEND_GROUP_DEFAULT, s)
      else if \<not> list_ex (\<lambda>g. fg_group_id g = group_id) (fs_GetGroups FS s user_id) then (EC_FRIEND_GROUP_NOT_FOUND, s)
      else
        (case fs_DeleteGroup FS s user_id group_id of
           (False, s') \<Rightarrow> (EC_INTERNAL_ERROR, s')
         | (True, s') \<Rightarrow> (EC_OK, s')))"

definition FriendService_MoveFriend :: "'s FriendStore \<Rightarrow> 's \<Rightarrow> string \<Rightarrow> string \<Rightarrow> string \<Rightarrow> bool option \<times> 's" where
  "FriendService_MoveFriend FS s user_id friend_id to_group_id =
     (if user_id = [] \<or> friend_id = [] then (Some False, s)
      else if \<not> fs_IsFriend FS s user_id friend_id then (Some False, s)
      else fs_MoveFriend FS s user_id friend_id to_group_id)"

definition FriendService_SetRemark :: "'s FriendStore \<Rightarrow> 's \<Rightarrow> string \<Rightarrow> string \<Rightarrow> string \<Rightarrow> bool option \<times> 's" where
  "FriendService_SetRemark FS s user_id friend_id remark =
     (if user_id = [] \<or> friend_id = [] then (Some False, s)
      else if \<not> fs_IsFriend FS s user_id friend_id then (Some False, s)
      else fs_UpdateRemark FS s user_id friend_id remark)"

definition FriendService_GetFriendRequests :: "'s FriendStore \<Rightarrow> 's \<Rightarrow> string \<Rightarrow> int \<Rightarrow> FriendRequestData list" where
  "FriendService_GetFriendRequests FS s user_id type =
     (if user_id = [] then []
      else if type = 1 then fs_GetReceivedRequests FS s user_id
      else if type = 2 then fs_GetSentRequests FS s user_id
      else fs_GetReceivedRequests FS s user_id @ fs_GetSentRequests FS s user_id)"

section \<open>Steps of the service\<close>

text \<open>
  One call of the service.  User ids are those of authenticated callers and of requests
  addressed to existing users: non-empty and without a colon (\<open>id_ok\<close>), as \<^verbatim>\<open>GenerateUserId\<close>
  makes them.
\<close>

inductive friend_step :: "'s FriendStore \<Rightarrow> 's \<Rightarrow> 's \<Rightarrow> bool" for FS s where
  add: "id_ok u \<Longrightarrow> id_ok f \<Longrightarrow> draws_ok 12 draws \<Longrightarrow> is_int64 now \<Longrightarrow>
    friend_step FS s (snd (FriendService_AddFriend FS draws now s u f remark))"
| handle: "id_ok u \<Longrightarrow> is_int64 now \<Longrightarrow>
    friend_step FS s (snd (FriendService_HandleRequest FS now s u rid accept g))"
| remove: "id_ok u \<Longrightarrow> id_ok f \<Longrightarrow> friend_step FS s (snd (FriendService_RemoveFriend FS s u f))"
| block: "id_ok u \<Longrightarrow> friend_step FS s (snd (FriendService_Block FS s u t))"
| unblock: "id_ok u \<Longrightarrow> friend_step FS s (snd (FriendService_Unblock FS s u t))"
| create_group: "id_ok u \<Longrightarrow> friend_step FS s (snd (FriendService_CreateFriendGroup FS draws s u name))"
| get_groups: "id_ok u \<Longrightarrow> friend_step FS s (snd (FriendService_GetFriendGroups FS s u))"
| delete_group: "id_ok u \<Longrightarrow> friend_step FS s (snd (FriendService_DeleteFriendGroup FS s u g))"
| move: "id_ok u \<Longrightarrow> id_ok f \<Longrightarrow> friend_step FS s (snd (FriendService_MoveFriend FS s u f g))"
| set_remark: "id_ok u \<Longrightarrow> id_ok f \<Longrightarrow> friend_step FS s (snd (FriendService_SetRemark FS s u f remark))"

inductive friend_reach :: "'s FriendStore \<Rightarrow> 's \<Rightarrow> 's \<Rightarrow> bool" for FS s0 where
  start: "friend_reach FS s0 s0"
| step: "friend_reach FS s0 s \<Longrightarrow> friend_step FS s s' \<Longrightarrow> friend_reach FS s0 s'"

section \<open>The abstract effect of the calls\<close>

text \<open>
  What one call may do to the abstract state: to the friendships (add a pair both ways, remove a
  pair both ways, edit existing records), to the requests (add a pending one between two different
  users who have no pending one, settle a pending one), to groups and blocks.
\<close>

definition symmetric_friends :: "FriendState \<Rightarrow> bool" where
  "symmetric_friends a \<longleftrightarrow> (\<forall>u f. ab_friend a (u, f) \<noteq> None \<longrightarrow> ab_friend a (f, u) \<noteq> None \<and> u \<noteq> f)"

definition requests_sane :: "FriendState \<Rightarrow> bool" where
  "requests_sane a \<longleftrightarrow>
     (\<forall>rid r. ab_req a rid = Some r \<longrightarrow> fr_from_user_id r \<noteq> fr_to_user_id r \<and> fr_status r \<in> {0, 1, 2}) \<and>
     (\<forall>i j r q. ab_req a i = Some r \<longrightarrow> ab_req a j = Some q \<longrightarrow> fr_status r = 0 \<longrightarrow> fr_status q = 0 \<longrightarrow>
        fr_from_user_id r = fr_from_user_id q \<longrightarrow> fr_to_user_id r = fr_to_user_id q \<longrightarrow> i = j)"

definition request_evolves :: "FriendRequestData \<Rightarrow> FriendRequestData \<Rightarrow> bool" where
  "request_evolves r q \<longleftrightarrow> r\<lparr>fr_status := fr_status q\<rparr> = q \<and> (fr_status r \<noteq> 0 \<longrightarrow> fr_status q = fr_status r)"

definition requests_evolve :: "FriendState \<Rightarrow> FriendState \<Rightarrow> bool" where
  "requests_evolve a b \<longleftrightarrow> (\<forall>rid r. ab_req a rid = Some r \<longrightarrow> (\<exists>q. ab_req b rid = Some q \<and> request_evolves r q))"

definition good_step :: "FriendState \<Rightarrow> FriendState \<Rightarrow> bool" where
  "good_step a b \<longleftrightarrow> requests_evolve a b \<and> (symmetric_friends a \<longrightarrow> requests_sane a \<longrightarrow> symmetric_friends b \<and> requests_sane b)"

text \<open>A request \<open>rid\<close> waiting for the answer of \<open>u\<close>, and what its answer does.\<close>

definition pending_for :: "FriendState \<Rightarrow> string \<Rightarrow> string \<Rightarrow> bool" where
  "pending_for a u rid \<longleftrightarrow> (\<exists>r. ab_req a rid = Some r \<and> fr_to_user_id r = u \<and> fr_status r = 0)"

definition handled :: "FriendState \<Rightarrow> FriendState \<Rightarrow> string \<Rightarrow> string \<Rightarrow> bool \<Rightarrow> string \<Rightarrow> int \<Rightarrow> bool" where
  "handled a b u rid accept g now \<longleftrightarrow>
     (\<exists>r. ab_req a rid = Some r \<and> fr_to_user_id r = u \<and> fr_status r = 0 \<and>
        ab_req b rid = Some (r\<lparr>fr_status := if accept then 1 else 2\<rparr>) \<and>
        (if accept
         then ab_friend a (u, fr_from_user_id r) = None \<and>
           ab_friend b = (ab_friend a)
             ((u, fr_from_user_id r) \<mapsto> \<lparr>fd_user_id = u, fd_friend_id = fr_from_user_id r, fd_remark = [],
                 fd_group_id = (if g = [] then kDefaultFriendGroupId else g), fd_added_at = wrap32 now\<rparr>,
              (fr_from_user_id r, u) \<mapsto> \<lparr>fd_user_id = fr_from_user_id r, fd_friend_id = u, fd_remark = [],
                 fd_group_id = kDefaultFriendGroupId, fd_added_at = wrap32 now\<rparr>)
         else ab_friend b = ab_friend a))"

lemma requests_evolve_refl [simp]: "ab_req b = ab_req a \<Longrightarrow> requests_evolve a b"
  by (auto simp: requests_evolve_def request_evolves_def)

lemma requests_sane_cong: "ab_req b = ab_req a \<Longrightarrow> requests_sane b = requests_sane a"
  by (simp add: requests_sane_def)

lemma symmetric_friends_cong: "(\<And>k. (ab_friend b k = None) = (ab_friend a k = None)) \<Longrightarrow> symmetric_friends b = symmetric_friends a"
  by (simp add: symmetric_friends_def)

text \<open>Steps that leave the requests alone and keep, or symmetrically change, who is whose friend.\<close>

lemma good_step_same_friends:
  "ab_req b = ab_req a \<Longrightarrow> (\<And>k. (ab_friend b k = None) = (ab_friend a k = None)) \<Longrightarrow> good_step a b"
  unfolding good_step_def using requests_sane_cong [of b a] symmetric_friends_cong [of b a] by simp

lemma good_step_refl [simp]: "good_step a a"
  by (rule good_step_same_friends) simp_all

lemma good_step_friends:
  "ab_req b = ab_req a \<Longrightarrow> (symmetric_friends a \<Longrightarrow> symmetric_friends b) \<Longrightarrow> good_step a b"
  unfolding good_step_def using requests_sane_cong [of b a] by simp

lemma request_evolves_trans: "request_evolves r q \<Longrightarrow> request_evolves q t \<Longrightarrow> request_evolves r t"
  by (cases r; cases q; cases t) (auto simp: request_evolves_def)

lemma good_step_trans: "good_step a b \<Longrightarrow> good_step b c \<Longrightarrow> good_step a c"
proof -
  have "requests_evolve a b \<Longrightarrow> requests_evolve b c \<Longrightarrow> requests_evolve a c"
    unfolding requests_evolve_def using request_evolves_trans by blast
  then show "good_step a b \<Longrightarrow> good_step b c \<Longrightarrow> good_step a c" unfolding good_step_def by blast
qed

lemma requests_sane_add:
  assumes "requests_sane a" "ab_req b = (ab_req a)(rid \<mapsto> r)" "fr_from_user_id r \<noteq> fr_to_user_id r" "fr_status r \<in> {0, 1, 2}"
    and none: "\<And>i q. i \<noteq> rid \<Longrightarrow> ab_req a i = Some q \<Longrightarrow> fr_status r = 0 \<Longrightarrow>
      \<not> (fr_from_user_id q = fr_from_user_id r \<and> fr_to_user_id q = fr_to_user_id r \<and> fr_status q = 0)"
  shows "requests_sane b"
proof -
  have one: "fr_from_user_id q \<noteq> fr_to_user_id q \<and> fr_status q \<in> {0, 1, 2}" if "ab_req b i = Some q" for i q
    using that assms(1-4) by (cases "i = rid") (auto simp: requests_sane_def)
  moreover have "i = j" if i: "ab_req b i = Some q" "ab_req b j = Some t" "fr_status q = 0" "fr_status t = 0"
    "fr_from_user_id q = fr_from_user_id t" "fr_to_user_id q = fr_to_user_id t" for i j q t
  proof (cases "i = rid \<or> j = rid")
    case True
    then show ?thesis using i none [of j t] none [of i q] assms(2) by (cases "i = j") auto
  next
    case False
    then have "ab_req a i = Some q" "ab_req a j = Some t" using i(1,2) assms(2) by auto
    with i(3-) assms(1) show ?thesis unfolding requests_sane_def by blast
  qed
  ultimately show ?thesis unfolding requests_sane_def by blast
qed

context friend_store
begin

lemma EnsureDefaultGroup_effect:
  assumes "inv s" "id_ok u"
  shows "inv (FriendService_EnsureDefaultGroup FS s u)"
    and "ab_friend (abs (FriendService_EnsureDefaultGroup FS s u)) = ab_friend (abs s)"
    and "ab_req (abs (FriendService_EnsureDefaultGroup FS s u)) = ab_req (abs s)"
    and "ab_block (abs (FriendService_EnsureDefaultGroup FS s u)) = ab_block (abs s)"
proof -
  let ?g = "\<lparr>fg_group_id = kDefaultFriendGroupId, fg_user_id = u, fg_group_name = kDefaultFriendGroupName, fg_sort_order = 0\<rparr>"
  have ok: "fgroup_ok ?g" using assms(2) by (simp add: fgroup_ok_def kDefaultFriendGroupId_def is_int32_def)
  obtain b s' where c: "fs_CreateGroup FS s ?g = (b, s')" by fastforce
  from create_group [OF assms(1) c ok] assms
  show "inv (FriendService_EnsureDefaultGroup FS s u)"
    "ab_friend (abs (FriendService_EnsureDefaultGroup FS s u)) = ab_friend (abs s)"
    "ab_req (abs (FriendService_EnsureDefaultGroup FS s u)) = ab_req (abs s)"
    "ab_block (abs (FriendService_EnsureDefaultGroup FS s u)) = ab_block (abs s)"
    by (auto simp: FriendService_EnsureDefaultGroup_def c)
qed

lemma AddFriend_effect:
  assumes "inv s" "id_ok u" "id_ok f" "draws_ok 12 draws" "is_int64 now"
    and "FriendService_AddFriend FS draws now s u f remark = (ok, s')"
  shows "inv s' \<and> good_step (abs s) (abs s') \<and> ab_friend (abs s') = ab_friend (abs s) \<and>
    (if ok then (\<exists>rid. ab_req (abs s) rid = None \<and> ab_req (abs s') = (ab_req (abs s))(rid \<mapsto>
        \<lparr>fr_request_id = rid, fr_from_user_id = u, fr_to_user_id = f, fr_remark = remark, fr_status = 0, fr_created_at = wrap32 now\<rparr>))
     else abs s' = abs s)"
proof (cases "u \<noteq> f \<and> \<not> fs_IsFriend FS s u f \<and> \<not> fs_IsBlocked FS s f u \<and>
    \<not> list_ex (\<lambda>r. fr_from_user_id r = u \<and> fr_status r = 0) (fs_GetReceivedRequests FS s f)")
  case False
  with assms show ?thesis by (auto simp: FriendService_AddFriend_def split: if_splits)
next
  case True
  let ?rid = "GenerateShortId draws ''req_'' 12"
  let ?r = "\<lparr>fr_request_id = ?rid, fr_from_user_id = u, fr_to_user_id = f, fr_remark = remark, fr_status = 0, fr_created_at = now\<rparr>"
  have c: "fs_CreateRequest FS s ?r = (ok, s')"
    using assms(2,3,6) True by (simp add: FriendService_AddFriend_def id_ok_def)
  have "id_ok ?rid" using clean_GenerateShortId [OF _ assms(4), of "''req_''"] by (simp add: id_ok_def GenerateShortId_def)
  then have "request_ok ?r" using assms by (simp add: request_ok_def is_int32_def)
  note e = create_request [OF assms(1) c this]
  have n: "narrow_request ?r = ?r\<lparr>fr_created_at := wrap32 now\<rparr>" by (simp add: narrow_request_def)
  have nopend: "\<not> (fr_from_user_id r = u \<and> fr_to_user_id r = f \<and> fr_status r = 0)" if "ab_req (abs s) i = Some r" for i r
    using True received [OF assms(1,3), of r] that by (auto simp: list_ex_iff)
  have "good_step (abs s) (abs s')"
  proof (cases ok)
    case ok: True
    have req: "ab_req (abs s') = (ab_req (abs s))(?rid \<mapsto> ?r\<lparr>fr_created_at := wrap32 now\<rparr>)" "ab_req (abs s) ?rid = None"
      "ab_friend (abs s') = ab_friend (abs s)"
      using e ok by (simp_all add: n)
    have "requests_evolve (abs s) (abs s')" using req by (auto simp: requests_evolve_def request_evolves_def)
    moreover have "requests_sane (abs s) \<Longrightarrow> requests_sane (abs s')"
      by (rule requests_sane_add [OF _ req(1)]) (use nopend True in auto)
    ultimately show ?thesis using symmetric_friends_cong [of "abs s'" "abs s"] req(3) by (simp add: good_step_def)
  qed (use e in simp)
  with e show ?thesis by (auto simp: n intro: exI [of _ ?rid])
qed

text \<open>Settling a pending request.\<close>

lemma settle_request:
  assumes "inv s" "ab_req (abs s) rid = Some r" "fr_status r = 0" "st \<in> {1, 2}"
    and "fs_UpdateRequestStatus FS s rid st = (ok, s')"
  shows "inv s' \<and> good_step (abs s) (abs s') \<and> ab_friend (abs s') = ab_friend (abs s) \<and>
    abs s' = (if ok then (abs s)\<lparr>ab_req := (ab_req (abs s))(rid \<mapsto> r\<lparr>fr_status := st\<rparr>)\<rparr> else abs s)"
proof -
  have "is_int32 st" using assms(4) by (auto simp: is_int32_def)
  note e = update_status [OF assms(1,5) this]
  have "good_step (abs s) (abs s')"
  proof (cases ok)
    case True
    have req: "ab_req (abs s') = (ab_req (abs s))(rid \<mapsto> r\<lparr>fr_status := st\<rparr>)" "ab_friend (abs s') = ab_friend (abs s)"
      using e True assms(2) by simp_all
    have "requests_evolve (abs s) (abs s')" using req assms(2,3) by (auto simp: requests_evolve_def request_evolves_def)
    moreover have "requests_sane (abs s) \<Longrightarrow> requests_sane (abs s')"
      by (rule requests_sane_add [OF _ req(1)]) (use assms(2-4) in \<open>auto simp: requests_sane_def\<close>)
    ultimately show ?thesis using symmetric_friends_cong [of "abs s'" "abs s"] req(2) by (simp add: good_step_def)
  qed (use e assms(2) in simp)
  with e assms(2) show ?thesis by simp
qed

text \<open>Accepting a pending request.\<close>

lemma accept_effect:
  assumes "inv s" "id_ok u" "is_int64 now" "requests_sane (abs s)"
    and r: "ab_req (abs s) rid = Some r" "fr_to_user_id r = u" "fr_status r = 0" "rid \<noteq> []"
    and h: "FriendService_HandleRequest FS now s u rid True g = (ok, s')"
  shows "inv s' \<and> good_step (abs s) (abs s') \<and> (ok \<longrightarrow> handled (abs s) (abs s') u rid True g now)"
proof -
  have ne: "u \<noteq> []" "id_ok (fr_from_user_id r)" "fr_from_user_id r \<noteq> u"
    using assms(2,4) request_data [OF assms(1) r(1)] r(1,2) by (auto simp: id_ok_def request_ok_def requests_sane_def)
  let ?s1 = "FriendService_EnsureDefaultGroup FS s u"
  let ?d = "\<lparr>fd_user_id = u, fd_friend_id = fr_from_user_id r, fd_remark = [],
      fd_group_id = (if g = [] then kDefaultFriendGroupId else g), fd_added_at = now\<rparr>"
  note e1 = EnsureDefaultGroup_effect [OF assms(1,2)]
  obtain b s2 where a: "fs_AddFriend FS ?s1 ?d = (b, s2)" by fastforce
  have dok: "friend_ok ?d" using assms(2,3) ne by (simp add: friend_ok_def)
  have e2: "inv s2" "b \<longrightarrow> ab_friend (abs s) (u, fr_from_user_id r) = None"
    "abs s2 = (if b then (abs ?s1)\<lparr>ab_friend := (ab_friend (abs s))((u, fr_from_user_id r) \<mapsto> narrow_friend ?d,
        (fr_from_user_id r, u) \<mapsto> narrow_friend (reverse_friend ?d))\<rparr> else abs ?s1)"
    using add_friend [OF e1(1) a dok] ne(3) e1(2) by auto
  have g1: "good_step (abs s) (abs ?s1)" using e1 by (intro good_step_same_friends) simp_all
  show ?thesis
  proof (cases b)
    case False
    with h r ne a have "ok = False \<and> s' = s2"
      by (simp add: FriendService_HandleRequest_def get_request Let_def)
    with e2(1,3) g1 False show ?thesis by simp
  next
    case True
    have f: "ab_friend (abs s2) = (ab_friend (abs s))((u, fr_from_user_id r) \<mapsto> narrow_friend ?d,
        (fr_from_user_id r, u) \<mapsto> narrow_friend (reverse_friend ?d))" "ab_req (abs s2) = ab_req (abs s)"
      using True e2(3) e1(3) by simp_all
    have u: "fs_UpdateRequestStatus FS s2 rid 1 = (ok, s')"
      using h r ne a True by (simp add: FriendService_HandleRequest_def get_request Let_def)
    have "good_step (abs s) (abs s2)"
      by (rule good_step_friends [OF f(2)]) (use f(1) ne(3) in \<open>auto simp: symmetric_friends_def\<close>)
    moreover have q: "ab_req (abs s2) rid = Some r" using f(2) r(1) by simp
    note e3 = settle_request [OF e2(1) q r(3) _ u, simplified]
    have "ok \<Longrightarrow> ab_req (abs s') rid = Some (r\<lparr>fr_status := 1\<rparr>)" using e3 by simp
    then have "ok \<Longrightarrow> handled (abs s) (abs s') u rid True g now"
      unfolding handled_def using r e2(2) True e3 f(1)
      by (intro exI [of _ r]) (simp add: narrow_friend_def reverse_friend_def)
    ultimately show ?thesis using e3 good_step_trans by blast
  qed
qed

lemma HandleRequest_effect:
  assumes "inv s" "id_ok u" "is_int64 now" "requests_sane (abs s)"
    and h: "FriendService_HandleRequest FS now s u rid accept g = (ok, s')"
  shows "inv s' \<and> good_step (abs s) (abs s')"
    and "ok \<Longrightarrow> handled (abs s) (abs s') u rid accept g now"
    and "\<not> pending_for (abs s) u rid \<Longrightarrow> \<not> ok \<and> s' = s"
proof -
  have refused: "\<not> ok \<and> s' = s" if "\<not> (pending_for (abs s) u rid \<and> rid \<noteq> [])"
    using that h by (auto simp: FriendService_HandleRequest_def get_request pending_for_def split: if_splits option.splits)
  then show "\<not> pending_for (abs s) u rid \<Longrightarrow> \<not> ok \<and> s' = s" by blast
  have "inv s' \<and> good_step (abs s) (abs s') \<and> (ok \<longrightarrow> handled (abs s) (abs s') u rid accept g now)"
  proof (cases "pending_for (abs s) u rid \<and> rid \<noteq> []")
    case False
    with refused assms(1) show ?thesis by simp
  next
    case True
    then obtain r where r: "ab_req (abs s) rid = Some r" "fr_to_user_id r = u" "fr_status r = 0" "rid \<noteq> []"
      by (auto simp: pending_for_def)
    show ?thesis
    proof (cases accept)
      case acc: True
      from acc h have "FriendService_HandleRequest FS now s u rid True g = (ok, s')" by simp
      from accept_effect [OF assms(1-4) r this] acc show ?thesis by simp
    next
      case False
      with h r assms(2) have "fs_UpdateRequestStatus FS s rid 2 = (ok, s')"
        by (simp add: FriendService_HandleRequest_def get_request id_ok_def)
      note e = settle_request [OF assms(1) r(1,3) _ this, simplified]
      have "ok \<Longrightarrow> handled (abs s) (abs s') u rid False g now"
        unfolding handled_def using r e by (intro exI [of _ r]) simp
      moreover have "inv s'" "good_step (abs s) (abs s')" using e by blast+
      ultimately show ?thesis using False by simp
    qed
  qed
  then show "inv s' \<and> good_step (abs s) (abs s')" "ok \<Longrightarrow> handled (abs s) (abs s') u rid accept g now" by blast+
qed

lemma RemoveFriend_effect:
  assumes "inv s" "id_ok u" "id_ok f" "FriendService_RemoveFriend FS s u f = (ok, s')"
  shows "inv s' \<and> good_step (abs s) (abs s') \<and>
    abs s' = (if ok then (abs s)\<lparr>ab_friend := (ab_friend (abs s))((u, f) := None, (f, u) := None)\<rparr> else abs s)"
proof -
  have "inv s' \<and> abs s' = (if ok then (abs s)\<lparr>ab_friend := (ab_friend (abs s))((u, f) := None, (f, u) := None)\<rparr> else abs s)"
    using assms remove_friend [OF assms(1)] by (auto simp: FriendService_RemoveFriend_def split: if_splits)
  moreover have "good_step (abs s) ((abs s)\<lparr>ab_friend := (ab_friend (abs s))((u, f) := None, (f, u) := None)\<rparr>)"
    by (rule good_step_friends) (auto simp: symmetric_friends_def)
  ultimately show ?thesis by simp
qed

lemma edit_friend_good:
  "ab_friend a k = Some d \<Longrightarrow> good_step a (a\<lparr>ab_friend := (ab_friend a)(k \<mapsto> e)\<rparr>)"
  by (rule good_step_same_friends) auto

lemma MoveFriend_effect:
  assumes "inv s" "id_ok u" "id_ok f" "FriendService_MoveFriend FS s u f g = (res, s')"
  shows "inv s' \<and> good_step (abs s) (abs s')"
    and "res = Some True \<Longrightarrow> \<exists>d. ab_friend (abs s) (u, f) = Some d \<and>
      ab_friend (abs s') = (ab_friend (abs s))((u, f) \<mapsto> d\<lparr>fd_group_id := g\<rparr>)"
proof -
  obtain r t where m: "fs_MoveFriend FS s u f g = (r, t)" by fastforce
  note e = move_friend [OF assms(1) m assms(2,3)]
  have "inv s' \<and> good_step (abs s) (abs s') \<and> (res = Some True \<longrightarrow> (\<exists>d. ab_friend (abs s) (u, f) = Some d \<and>
      ab_friend (abs s') = (ab_friend (abs s))((u, f) \<mapsto> d\<lparr>fd_group_id := g\<rparr>)))"
    using assms e m is_friend [OF assms(1-3)]
    by (cases "ab_friend (abs s) (u, f)") (auto simp: FriendService_MoveFriend_def edit_friend_good split: if_splits)
  then show "inv s' \<and> good_step (abs s) (abs s')" "res = Some True \<Longrightarrow> \<exists>d. ab_friend (abs s) (u, f) = Some d \<and>
      ab_friend (abs s') = (ab_friend (abs s))((u, f) \<mapsto> d\<lparr>fd_group_id := g\<rparr>)" by blast+
qed

lemma SetRemark_effect:
  assumes "inv s" "id_ok u" "id_ok f" "FriendService_SetRemark FS s u f rem = (res, s')"
  shows "inv s' \<and> good_step (abs s) (abs s')"
proof -
  obtain r t where m: "fs_UpdateRemark FS s u f rem = (r, t)" by fastforce
  note e = update_remark [OF assms(1) m assms(2,3)]
  show ?thesis
    using assms e m is_friend [OF assms(1-3)]
    by (cases "ab_friend (abs s) (u, f)") (auto simp: FriendService_SetRemark_def edit_friend_good split: if_splits)
qed

lemma Block_effect:
  assumes "inv s" "id_ok u"
  shows "FriendService_Block FS s u t = (ok, s') \<Longrightarrow> inv s' \<and> good_step (abs s) (abs s')"
    and "FriendService_Unblock FS s u t = (ok, s') \<Longrightarrow> inv s' \<and> good_step (abs s) (abs s')"
proof -
  have good: "good_step (abs s) ((abs s)\<lparr>ab_block := B\<rparr>)" for B by (rule good_step_same_friends) simp_all
  show "FriendService_Block FS s u t = (ok, s') \<Longrightarrow> inv s' \<and> good_step (abs s) (abs s')"
    using assms block [OF assms(1) _ assms(2), of t ok s'] good by (auto simp: FriendService_Block_def split: if_splits)
  show "FriendService_Unblock FS s u t = (ok, s') \<Longrightarrow> inv s' \<and> good_step (abs s) (abs s')"
    using assms unblock [OF assms(1) _ assms(2), of t ok s'] good by (auto simp: FriendService_Unblock_def split: if_splits)
qed

lemma CreateFriendGroup_effect:
  assumes "inv s" "id_ok u" "FriendService_CreateFriendGroup FS draws s u name = (res, s')"
  shows "inv s' \<and> good_step (abs s) (abs s')"
proof -
  let ?g = "\<lparr>fg_group_id = GenerateShortId draws ''g_'' 8, fg_user_id = u, fg_group_name = name, fg_sort_order = 0\<rparr>"
  obtain b t where c: "fs_CreateGroup FS s ?g = (b, t)" by fastforce
  have "fgroup_ok ?g" using assms(2) by (simp add: fgroup_ok_def GenerateShortId_def is_int32_def)
  note e = create_group [OF assms(1) c this]
  have good: "good_step (abs s) ((abs s)\<lparr>ab_group := G\<rparr>)" for G by (rule good_step_same_friends) simp_all
  show ?thesis using assms e c good by (auto simp: FriendService_CreateFriendGroup_def split: if_splits bool.splits)
qed

lemma DeleteFriendGroup_effect:
  assumes "inv s" "id_ok u" "FriendService_DeleteFriendGroup FS s u g = (ec, s')"
  shows "inv s' \<and> good_step (abs s) (abs s')"
    and "ec = (if g = [] \<or> g = kDefaultFriendGroupId then EC_FRIEND_GROUP_DEFAULT
      else if ab_group (abs s) (u, g) = None then EC_FRIEND_GROUP_NOT_FOUND
      else if ec = EC_OK then EC_OK else EC_INTERNAL_ERROR)"
    and "abs s' = (if ec = EC_OK then (abs s)\<lparr>ab_group := (ab_group (abs s))((u, g) := None),
        ab_friend := to_default_group u g (ab_friend (abs s))\<rparr> else abs s)"
proof -
  obtain b t where d: "fs_DeleteGroup FS s u g = (b, t)" by fastforce
  have e: "g \<noteq> [] \<Longrightarrow> inv t \<and> abs t = (if b then (abs s)\<lparr>ab_group := (ab_group (abs s))((u, g) := None),
      ab_friend := to_default_group u g (ab_friend (abs s))\<rparr> else abs s)"
    by (rule delete_group [OF assms(1) d assms(2)])
  have "list_ex (\<lambda>h. fg_group_id h = g) (fs_GetGroups FS s u) \<longleftrightarrow> ab_group (abs s) (u, g) \<noteq> None"
    using get_groups [OF assms(1,2)] group_data [OF assms(1)] by (fastforce simp: list_ex_iff)
  then have main: "s' = (if g = [] \<or> g = kDefaultFriendGroupId \<or> ab_group (abs s) (u, g) = None then s else t) \<and>
      ec = (if g = [] \<or> g = kDefaultFriendGroupId then EC_FRIEND_GROUP_DEFAULT
        else if ab_group (abs s) (u, g) = None then EC_FRIEND_GROUP_NOT_FOUND else if b then EC_OK else EC_INTERNAL_ERROR)"
    using assms(2,3) d by (auto simp: FriendService_DeleteFriendGroup_def id_ok_def split: if_splits bool.splits)
  have "good_step (abs s) ((abs s)\<lparr>ab_group := G, ab_friend := to_default_group u g (ab_friend (abs s))\<rparr>)" for G
    by (rule good_step_same_friends) (auto simp: to_default_group_def split: option.splits)
  with main e assms(1) show "inv s' \<and> good_step (abs s) (abs s')" by auto
  from main show "ec = (if g = [] \<or> g = kDefaultFriendGroupId then EC_FRIEND_GROUP_DEFAULT
      else if ab_group (abs s) (u, g) = None then EC_FRIEND_GROUP_NOT_FOUND
      else if ec = EC_OK then EC_OK else EC_INTERNAL_ERROR)" by simp
  from main e show "abs s' = (if ec = EC_OK then (abs s)\<lparr>ab_group := (ab_group (abs s))((u, g) := None),
        ab_friend := to_default_group u g (ab_friend (abs s))\<rparr> else abs s)" by auto
qed

lemma step_effect:
  assumes "friend_step FS s s'" "inv s" "requests_sane (abs s)"
  shows "inv s' \<and> good_step (abs s) (abs s')"
  using assms
proof (induction rule: friend_step.induct)
  case (get_groups u)
  then show ?case
    using EnsureDefaultGroup_effect [OF get_groups(2,1)]
    by (auto simp: FriendService_GetFriendGroups_def Let_def intro!: good_step_same_friends)
qed (metis prod.collapse AddFriend_effect HandleRequest_effect(1) RemoveFriend_effect Block_effect CreateFriendGroup_effect
    DeleteFriendGroup_effect(1) MoveFriend_effect(1) SetRemark_effect)+

lemma reach_effect:
  assumes "friend_reach FS s0 s" "inv s0" "symmetric_friends (abs s0)" "requests_sane (abs s0)"
  shows "inv s \<and> symmetric_friends (abs s) \<and> requests_sane (abs s) \<and> requests_evolve (abs s0) (abs s)"
  using assms
proof (induction rule: friend_reach.induct)
  case (step s s')
  then have IH: "inv s" "symmetric_friends (abs s)" "requests_sane (abs s)" "requests_evolve (abs s0) (abs s)" by auto
  have "inv s' \<and> good_step (abs s) (abs s')" by (rule step_effect [OF step.hyps(2) IH(1,3)])
  with IH show ?case
    unfolding good_step_def requests_evolve_def using request_evolves_trans by blast
qed simp

end

end
