(* ===== verification/Friend_Properties.thy ===== *)
theory Friend_Properties
  imports Friend_Service
begin

text \<open>
  What the friend service guarantees on the RocksDB store, in the terms of its own operations:
  the laws of \<open>friend_store\<close> and the effects proved over them, read back through
  \<open>RocksDBFriendStore\<close>, and a concrete run for each.
\<close>

section \<open>Reachable states\<close>

lemma empty_friend_state:
  assumes "db_Get R db0 = Map.empty"
  shows "friend_inv R J db0" "symmetric_friends (friend_abs R J db0)" "requests_sane (friend_abs R J db0)"
  using friend_inv_empty [OF assms]
  by (simp_all add: symmetric_friends_def requests_sane_def friend_abs_def map_abs_def assms)

lemma friend_reach_facts:
  assumes "store_env R J" "db_Get R db0 = Map.empty" "friend_reach (RocksDBFriendStore R J) db0 db"
  shows "friend_inv R J db" "symmetric_friends (friend_abs R J db)" "requests_sane (friend_abs R J db)"
  using friend_store.reach_effect [OF store_env.rocksdb_friend_store [OF assms(1)] assms(3) empty_friend_state [OF assms(2)]]
  by auto

text \<open>A concrete history: \<open>a\<close> asks \<open>b\<close>, and \<open>b\<close> accepts.\<close>

definition friend_demo_draws :: "nat list" where
  "friend_demo_draws = replicate 12 3"

definition friend_demo_req :: string where
  "friend_demo_req = GenerateShortId friend_demo_draws ''req_'' 12"

definition friend_demo1 :: "(string \<times> string) list" where
  "friend_demo1 = snd (FriendService_AddFriend (RocksDBFriendStore alist_db text_json) friend_demo_draws 1000 [] ''a'' ''b'' ''hi'')"

definition friend_demo2 :: "(string \<times> string) list" where
  "friend_demo2 = snd (FriendService_HandleRequest (RocksDBFriendStore alist_db text_json) 2000 friend_demo1 ''b'' friend_demo_req True [])"

lemma alist_empty: "db_Get alist_db [] = Map.empty"
  by (simp add: alist_db_def)

lemma demo_ids: "id_ok ''a''" "id_ok ''b''" "id_ok ''c''" "is_int64 1000" "is_int64 2000"
  by (simp_all add: id_ok_def is_int64_def)

lemma demo_draws_ok: "draws_ok 12 friend_demo_draws"
  by (simp add: draws_ok_def friend_demo_draws_def kAlphaNum_def)

lemma friend_demo1_reach: "friend_reach (RocksDBFriendStore alist_db text_json) [] friend_demo1"
  unfolding friend_demo1_def
  by (rule friend_reach.step [OF friend_reach.start friend_step.add [OF demo_ids(1,2) demo_draws_ok demo_ids(4)]])

lemma friend_demo2_step: "friend_step (RocksDBFriendStore alist_db text_json) friend_demo1 friend_demo2"
  unfolding friend_demo2_def by (rule friend_step.handle [OF demo_ids(2,5)])

lemma friend_demo2_reach: "friend_reach (RocksDBFriendStore alist_db text_json) [] friend_demo2"
  by (rule friend_reach.step [OF friend_demo1_reach friend_demo2_step])

lemma friend_demo_accepted:
  "FriendService_HandleRequest (RocksDBFriendStore alist_db text_json) 2000 friend_demo1 ''b'' friend_demo_req True [] = (True, friend_demo2)"
proof -
  have "fst (FriendService_HandleRequest (RocksDBFriendStore alist_db text_json) 2000 friend_demo1 ''b'' friend_demo_req True [])"
    by code_simp
  then show ?thesis by (simp add: friend_demo2_def prod_eq_iff)
qed

section \<open>Friendships and requests\<close>

text \<open>C18: In every state the friend service reaches from an empty database, friendship is symmetric
  and nobody is their own friend.  The ids of users have no colon, as those of accounts have none.\<close>

theorem friendship_symmetric:
  assumes "store_env R J" and "db_Get R db0 = Map.empty" and "friend_reach (RocksDBFriendStore R J) db0 db"
    and "id_ok u" and "id_ok f"
  shows "RocksDBFriendStore_IsFriend R db u f = RocksDBFriendStore_IsFriend R db f u \<and> \<not> RocksDBFriendStore_IsFriend R db u u"
proof -
  note r = friend_reach_facts [OF assms(1-3)]
  have i: "RocksDBFriendStore_IsFriend R db x y \<longleftrightarrow> ab_friend (friend_abs R J db) (x, y) \<noteq> None" if "x \<in> {u, f}" "y \<in> {u, f}" for x y
    using store_env.fs_is_friend [OF assms(1) r(1), of x y] that assms(4,5) by blast
  note s = r(2) [unfolded symmetric_friends_def, rule_format]
  show ?thesis using s [of u f] s [of f u] s [of u u] i [of u f] i [of f u] i [of u u] by blast
qed

theorem friendship_symmetric_witness:
  "RocksDBFriendStore_IsFriend alist_db friend_demo2 ''a'' ''b'' = RocksDBFriendStore_IsFriend alist_db friend_demo2 ''b'' ''a''"
  using friendship_symmetric [OF alist_env.store_env_axioms alist_empty friend_demo2_reach demo_ids(1,2)] by blast

text \<open>A friend request never disappears and never changes its sender, receiver, text or time; its
  status is 0, 1 or 2 and, once it is not 0, stays what it is in every later state.\<close>

theorem friend_request_settled_once:
  assumes "store_env R J" and "db_Get R db0 = Map.empty" and "friend_reach (RocksDBFriendStore R J) db0 db"
    and "friend_reach (RocksDBFriendStore R J) db db'" and "RocksDBFriendStore_GetRequest R J db rid = Some r"
  shows "\<exists>q. RocksDBFriendStore_GetRequest R J db' rid = Some q \<and> q = r\<lparr>fr_status := fr_status q\<rparr>
    \<and> fr_status q \<in> {0, 1, 2} \<and> (fr_status r \<noteq> 0 \<longrightarrow> fr_status q = fr_status r)"
proof -
  note r = friend_reach_facts [OF assms(1-3)]
  have "requests_sane (friend_abs R J db') \<and> requests_evolve (friend_abs R J db) (friend_abs R J db')"
    using friend_store.reach_effect [OF store_env.rocksdb_friend_store [OF assms(1)] assms(4) r] by blast
  with assms(5) show ?thesis
    unfolding store_env.fs_get_request [OF assms(1)] requests_evolve_def request_evolves_def requests_sane_def by metis
qed

theorem friend_request_settled_once_witness:
  "\<exists>q. RocksDBFriendStore_GetRequest alist_db text_json friend_demo2 friend_demo_req = Some q \<and> fr_status q = 1"
proof -
  have "RocksDBFriendStore_GetRequest alist_db text_json friend_demo2 friend_demo_req =
      Some \<lparr>fr_request_id = friend_demo_req, fr_from_user_id = ''a'', fr_to_user_id = ''b'', fr_remark = ''hi'', fr_status = 1, fr_created_at = 1000\<rparr>"
    by code_simp
  from friend_request_settled_once [OF alist_env.store_env_axioms alist_empty friend_demo2_reach friend_reach.start this]
  show ?thesis by auto
qed

text \<open>In every reachable state at most one request from one user to another is waiting for an answer.\<close>

theorem one_pending_request:
  assumes "store_env R J" and "db_Get R db0 = Map.empty" and "friend_reach (RocksDBFriendStore R J) db0 db"
    and "RocksDBFriendStore_GetRequest R J db i = Some r" and "RocksDBFriendStore_GetRequest R J db j = Some q"
    and "fr_status r = 0" and "fr_status q = 0"
    and "fr_from_user_id r = fr_from_user_id q" and "fr_to_user_id r = fr_to_user_id q"
  shows "i = j"
  using friend_reach_facts(3) [OF assms(1-3)] assms(4-)
  unfolding store_env.fs_get_request [OF assms(1)] requests_sane_def by blast

theorem one_pending_request_witness:
  "\<exists>r. RocksDBFriendStore_GetRequest alist_db text_json friend_demo1 friend_demo_req = Some r \<and> fr_status r = 0 \<and> friend_demo_req = friend_demo_req"
proof -
  have "RocksDBFriendStore_GetRequest alist_db text_json friend_demo1 friend_demo_req =
      Some \<lparr>fr_request_id = friend_demo_req, fr_from_user_id = ''a'', fr_to_user_id = ''b'', fr_remark = ''hi'', fr_status = 0, fr_created_at = 1000\<rparr>"
    by code_simp
  with one_pending_request [OF alist_env.store_env_axioms alist_empty friend_demo1_reach this this] show ?thesis by simp
qed

text \<open>C19: Answering a request succeeds only for its receiver and only while it is pending (otherwise
  nothing changes); acceptance makes exactly the two users friends, both ways, refusal leaves all
  friendships alone, and the request is marked accordingly.  The ids of users
  have no colon.\<close>

theorem HandleRequest_outcome:
  assumes "store_env R J" and "db_Get R db0 = Map.empty" and "friend_reach (RocksDBFriendStore R J) db0 db"
    and "id_ok u" and "is_int64 now" and "FriendService_HandleRequest (RocksDBFriendStore R J) now db u rid accept g = (ok, db')"
  shows "((\<forall>r. RocksDBFriendStore_GetRequest R J db rid = Some r \<longrightarrow> fr_to_user_id r \<noteq> u \<or> fr_status r \<noteq> 0) \<longrightarrow> \<not> ok \<and> db' = db)
    \<and> (ok \<longrightarrow> (\<exists>r. RocksDBFriendStore_GetRequest R J db rid = Some r
        \<and> RocksDBFriendStore_GetRequest R J db' rid = Some (r\<lparr>fr_status := if accept then 1 else 2\<rparr>)
        \<and> (\<forall>x y. id_ok x \<longrightarrow> id_ok y \<longrightarrow> RocksDBFriendStore_IsFriend R db' x y =
             (RocksDBFriendStore_IsFriend R db x y \<or> accept \<and> {x, y} = {u, fr_from_user_id r} \<and> x \<noteq> y))))"
proof -
  note r = friend_reach_facts [OF assms(1-3)]
  note fs = store_env.rocksdb_friend_store [OF assms(1)]
  note h = friend_store.HandleRequest_effect [OF fs r(1) assms(4,5) r(3) assms(6)]
  have inv': "friend_inv R J db'" using h(1) by blast
  have "\<exists>r. ab_req (friend_abs R J db) rid = Some r \<and> ab_req (friend_abs R J db') rid = Some (r\<lparr>fr_status := if accept then 1 else 2\<rparr>)
      \<and> (\<forall>x y. (ab_friend (friend_abs R J db') (x, y) \<noteq> None) =
         (ab_friend (friend_abs R J db) (x, y) \<noteq> None \<or> accept \<and> {x, y} = {u, fr_from_user_id r} \<and> x \<noteq> y))" if ok
  proof -
    from h(2) [OF that] obtain q d e where q: "ab_req (friend_abs R J db) rid = Some q" "fr_to_user_id q = u"
      "ab_req (friend_abs R J db') rid = Some (q\<lparr>fr_status := if accept then 1 else 2\<rparr>)"
      and f: "ab_friend (friend_abs R J db') = (if accept then (ab_friend (friend_abs R J db))
         ((u, fr_from_user_id q) \<mapsto> d, (fr_from_user_id q, u) \<mapsto> e) else ab_friend (friend_abs R J db))"
      unfolding handled_def by (cases accept) auto
    have n: "fr_from_user_id q \<noteq> u" using r(3) q(1,2) by (auto simp: requests_sane_def)
    have "(ab_friend (friend_abs R J db') (x, y) \<noteq> None) = (ab_friend (friend_abs R J db) (x, y) \<noteq> None
         \<or> accept \<and> {x, y} = {u, fr_from_user_id q} \<and> x \<noteq> y)" for x y
      unfolding f doubleton_eq_iff using n by (cases accept) auto
    with q show ?thesis by blast
  qed
  note settled = this
  show ?thesis
  proof (intro conjI impI)
    assume "\<forall>r. RocksDBFriendStore_GetRequest R J db rid = Some r \<longrightarrow> fr_to_user_id r \<noteq> u \<or> fr_status r \<noteq> 0"
    then have "\<not> pending_for (friend_abs R J db) u rid"
      unfolding pending_for_def store_env.fs_get_request [OF assms(1)] by blast
    with h(3) show "\<not> ok" "db' = db" by blast+
  next
    assume ok
    from settled [OF this] obtain q where q: "ab_req (friend_abs R J db) rid = Some q"
      "ab_req (friend_abs R J db') rid = Some (q\<lparr>fr_status := if accept then 1 else 2\<rparr>)"
      "\<forall>x y. (ab_friend (friend_abs R J db') (x, y) \<noteq> None) =
         (ab_friend (friend_abs R J db) (x, y) \<noteq> None \<or> accept \<and> {x, y} = {u, fr_from_user_id q} \<and> x \<noteq> y)" by blast
    have "RocksDBFriendStore_IsFriend R db' x y =
        (RocksDBFriendStore_IsFriend R db x y \<or> accept \<and> {x, y} = {u, fr_from_user_id q} \<and> x \<noteq> y)" if "id_ok x" "id_ok y" for x y
      using q(3) [rule_format, of x y] unfolding store_env.fs_is_friend [OF assms(1) r(1) that] store_env.fs_is_friend [OF assms(1) inv' that] .
    with q(1,2) show "\<exists>r. RocksDBFriendStore_GetRequest R J db rid = Some r
        \<and> RocksDBFriendStore_GetRequest R J db' rid = Some (r\<lparr>fr_status := if accept then 1 else 2\<rparr>)
        \<and> (\<forall>x y. id_ok x \<longrightarrow> id_ok y \<longrightarrow> RocksDBFriendStore_IsFriend R db' x y =
             (RocksDBFriendStore_IsFriend R db x y \<or> accept \<and> {x, y} = {u, fr_from_user_id r} \<and> x \<noteq> y))"
      unfolding store_env.fs_get_request [OF assms(1)] by blast
  qed
qed

theorem HandleRequest_outcome_witness:
  "RocksDBFriendStore_IsFriend alist_db friend_demo2 ''a'' ''b'' \<and> \<not> RocksDBFriendStore_IsFriend alist_db friend_demo2 ''a'' ''c''"
proof -
  have "RocksDBFriendStore_GetRequest alist_db text_json friend_demo1 friend_demo_req =
      Some \<lparr>fr_request_id = friend_demo_req, fr_from_user_id = ''a'', fr_to_user_id = ''b'', fr_remark = ''hi'', fr_status = 0, fr_created_at = 1000\<rparr>"
    by code_simp
  moreover have "\<not> RocksDBFriendStore_IsFriend alist_db friend_demo1 ''a'' ''c''" by code_simp
  ultimately show ?thesis
    using HandleRequest_outcome [OF alist_env.store_env_axioms alist_empty friend_demo1_reach demo_ids(2,5) friend_demo_accepted]
      demo_ids by (auto simp: doubleton_eq_iff)
qed

section \<open>Friend groups\<close>

text \<open>Deleting a friend group: the default group is refused, an unknown group is reported, and on
  success the group is gone and no friend is lost, those of the group now being in the default group.\<close>

theorem DeleteFriendGroup_outcome:
  assumes "store_env R J" and "db_Get R db0 = Map.empty" and "friend_reach (RocksDBFriendStore R J) db0 db"
    and "id_ok u" and "FriendService_DeleteFriendGroup (RocksDBFriendStore R J) db u g = (ec, db')"
  shows "ec \<in> {EC_OK, EC_FRIEND_GROUP_DEFAULT, EC_FRIEND_GROUP_NOT_FOUND, EC_INTERNAL_ERROR}
    \<and> (g = [] \<or> g = kDefaultFriendGroupId \<longrightarrow> ec = EC_FRIEND_GROUP_DEFAULT)
    \<and> (g \<noteq> [] \<and> g \<noteq> kDefaultFriendGroupId \<and> g \<notin> fg_group_id ` set (RocksDBFriendStore_GetGroups R J db u) \<longrightarrow> ec = EC_FRIEND_GROUP_NOT_FOUND)
    \<and> (ec = EC_OK \<longrightarrow> g \<notin> fg_group_id ` set (RocksDBFriendStore_GetGroups R J db' u)
        \<and> set (RocksDBFriendStore_GetFriends R J db' u []) =
            (\<lambda>d. if fd_group_id d = g then d\<lparr>fd_group_id := kDefaultFriendGroupId\<rparr> else d) ` set (RocksDBFriendStore_GetFriends R J db u []))"
proof -
  note r = friend_reach_facts [OF assms(1-3)]
  note fs = store_env.rocksdb_friend_store [OF assms(1)]
  note d = friend_store.DeleteFriendGroup_effect [OF fs r(1) assms(4,5)]
  have inv': "friend_inv R J db'" using d(1) by blast
  have grp: "g \<in> fg_group_id ` set (RocksDBFriendStore_GetGroups R J D u) \<longleftrightarrow> ab_group (friend_abs R J D) (u, g) \<noteq> None"
    if "friend_inv R J D" for D
    using friend_store.get_groups [OF fs that assms(4)] friend_store.group_data [OF fs that]
    by (auto simp: image_iff) (metis+)
  have lst: "set (RocksDBFriendStore_GetFriends R J D u []) =
      {e. (\<exists>f. ab_friend (friend_abs R J D) (u, f) = Some e) \<and> fd_group_id e \<noteq> []}" if "friend_inv R J D" for D
    using friend_store.get_friends [OF fs that assms(4), of _ "[]"] by auto
  have "set (RocksDBFriendStore_GetFriends R J db' u []) =
      (\<lambda>d. if fd_group_id d = g then d\<lparr>fd_group_id := kDefaultFriendGroupId\<rparr> else d) ` set (RocksDBFriendStore_GetFriends R J db u [])"
    if ok: "ec = EC_OK"
  proof -
    have g: "g \<noteq> []" using d(2) ok by (auto split: if_splits)
    have fr: "ab_friend (friend_abs R J db') (u, f) = map_option
        (\<lambda>d. if fd_group_id d = g then d\<lparr>fd_group_id := kDefaultFriendGroupId\<rparr> else d) (ab_friend (friend_abs R J db) (u, f))" for f
      using d(3) ok by (simp add: to_default_group_def split: option.split)
    show ?thesis
      unfolding lst [OF r(1)] lst [OF inv'] fr using g
      by (auto simp: image_iff kDefaultFriendGroupId_def split: if_splits)
  qed
  moreover have "g \<notin> fg_group_id ` set (RocksDBFriendStore_GetGroups R J db' u)" if "ec = EC_OK"
    using grp [OF inv'] d(3) that by simp
  ultimately show ?thesis using d(2) grp [OF r(1)] by (auto split: if_splits)
qed

text \<open>\<open>b\<close> makes a group.\<close>

definition friend_demo_group :: string where
  "friend_demo_group = GenerateShortId friend_demo_draws ''g_'' 8"

definition friend_demo3 :: "(string \<times> string) list" where
  "friend_demo3 = snd (FriendService_CreateFriendGroup (RocksDBFriendStore alist_db text_json) friend_demo_draws [] ''b'' ''work'')"

lemma friend_demo3_reach: "friend_reach (RocksDBFriendStore alist_db text_json) [] friend_demo3"
  unfolding friend_demo3_def by (rule friend_reach.step [OF friend_reach.start friend_step.create_group [OF demo_ids(2)]])

theorem DeleteFriendGroup_outcome_witness:
  "\<exists>db'. FriendService_DeleteFriendGroup (RocksDBFriendStore alist_db text_json) friend_demo3 ''b'' friend_demo_group = (EC_OK, db') \<and>
     friend_demo_group \<notin> fg_group_id ` set (RocksDBFriendStore_GetGroups alist_db text_json db' ''b'')"
proof -
  have "fst (FriendService_DeleteFriendGroup (RocksDBFriendStore alist_db text_json) friend_demo3 ''b'' friend_demo_group) = EC_OK"
    by code_simp
  then obtain db' where d: "FriendService_DeleteFriendGroup (RocksDBFriendStore alist_db text_json) friend_demo3 ''b'' friend_demo_group = (EC_OK, db')"
    by (metis prod.collapse)
  with DeleteFriendGroup_outcome [OF alist_env.store_env_axioms alist_empty friend_demo3_reach demo_ids(2) d] show ?thesis by blast
qed

end
