(* ===== verification/Friend_Handler.thy ===== *)
theory Friend_Handler
  imports Friend_Properties Grpc_Auth
begin

text \<open>
  \<^verbatim>\<open>backend/friendsvr/internal/handler/friend_handler.cpp\<close>: the gRPC methods of the friend
  service.  Every method takes the caller from the token (\<open>jwt_secret\<close>, \<open>now_ms\<close>, \<open>context\<close>);
  the other arguments are the fields it reads from the request.  Where the service can throw
  (\<open>None\<close>) the exception leaves the method, and the response is \<open>None\<close>.
\<close>

section \<open>Responses\<close>

definition SetOk :: "CommonResponse \<Rightarrow> CommonResponse" where
  "SetOk response = response\<lparr>resp_code := EC_OK\<rparr>"

definition SetFail :: "CommonResponse \<Rightarrow> ErrorCode \<Rightarrow> string \<Rightarrow> CommonResponse" where
  "SetFail response ec message =
     response\<lparr>resp_code := ErrorCodeToInt ec,
       resp_message := (if message = [] then ErrorCodeToString ec else message)\<rparr>"

definition RequireAuth ::
  "'j nlohmann \<Rightarrow> (string \<Rightarrow> string \<Rightarrow> string) \<Rightarrow> string \<Rightarrow> int \<Rightarrow> ServerContext \<Rightarrow> CommonResponse \<Rightarrow> string \<times> CommonResponse" where
  "RequireAuth J hmac jwt_secret now_ms context response =
     (let uid = GetAuthenticatedUserId J hmac now_ms context jwt_secret
      in (uid, if uid = [] then SetFail response EC_TOKEN_INVALID ''token invalid or missing'' else response))"

record FriendInfo =
  fi_friend_id :: string
  fi_remark :: string
  fi_group_id :: string
  fi_status :: int
  fi_added_at :: int

record FriendListResponse = CommonResponse +
  flr_friends :: "FriendInfo list"

record BlockListResponse = CommonResponse +
  blr_blocked_ids :: "string list"

record FriendGroup =
  gi_group_id :: string
  gi_group_name :: string
  gi_friend_count :: int
  gi_sort_order :: int

record FriendGroupListResponse = CommonResponse +
  glr_groups :: "FriendGroup list"

record FriendRequestListResponse = CommonResponse +
  rlr_requests :: "FriendRequestData list"

section \<open>Requests and friendships\<close>

definition FriendHandler_AddFriend ::
  "'s FriendStore \<Rightarrow> 'j nlohmann \<Rightarrow> (string \<Rightarrow> string \<Rightarrow> string) \<Rightarrow> string \<Rightarrow> int \<Rightarrow> nat list \<Rightarrow> int \<Rightarrow> 's \<Rightarrow> ServerContext
     \<Rightarrow> string \<Rightarrow> string \<Rightarrow> CommonResponse \<times> 's" where
  "FriendHandler_AddFriend FS J hmac jwt_secret now_ms draws now s context friend_id remark =
     (let (uid, response) = RequireAuth J hmac jwt_secret now_ms context CommonResponse_default in
      if uid = [] then (response, s)
      else
        (let (ok, s') = FriendService_AddFriend FS draws now s uid friend_id remark
         in (if ok then SetOk response else SetFail response EC_UNKNOWN ''operation failed'', s')))"

definition FriendHandler_HandleFriendRequest ::
  "'s FriendStore \<Rightarrow> 'j nlohmann \<Rightarrow> (string \<Rightarrow> string \<Rightarrow> string) \<Rightarrow> string \<Rightarrow> int \<Rightarrow> int \<Rightarrow> 's \<Rightarrow> ServerContext
     \<Rightarrow> string \<Rightarrow> bool \<Rightarrow> string \<Rightarrow> CommonResponse \<times> 's" where
  "FriendHandler_HandleFriendRequest FS J hmac jwt_secret now_ms now s context request_id accept group_id =
     (let (uid, response) = RequireAuth J hmac jwt_secret now_ms context CommonResponse_default in
      if uid = [] then (response, s)
      else
        (let (ok, s') = FriendService_HandleRequest FS now s uid request_id accept group_id
         in (if ok then SetOk response else SetFail response EC_UNKNOWN ''operation failed'', s')))"

definition FriendHandler_RemoveFriend ::
  "'s FriendStore \<Rightarrow> 'j nlohmann \<Rightarrow> (string \<Rightarrow> string \<Rightarrow> string) \<Rightarrow> string \<Rightarrow> int \<Rightarrow> 's \<Rightarrow> ServerContext
     \<Rightarrow> string \<Rightarrow> CommonResponse \<times> 's" where
  "FriendHandler_RemoveFriend FS J hmac jwt_secret now_ms s context friend_id =
     (let (uid, response) = RequireAuth J hmac jwt_secret now_ms context CommonResponse_default in
      if uid = [] then (response, s)
      else
        (let (ok, s') = FriendService_RemoveFriend FS s uid friend_id
         in (if ok then SetOk response else SetFail response EC_FRIEND_NOT_FOUND ''friend not found'', s')))"

definition FriendHandler_GetFriends ::
  "'s FriendStore \<Rightarrow> 'j nlohmann \<Rightarrow> (string \<Rightarrow> string \<Rightarrow> string) \<Rightarrow> string \<Rightarrow> int \<Rightarrow> 's \<Rightarrow> ServerContext
     \<Rightarrow> string \<Rightarrow> FriendListResponse" where
  "FriendHandler_GetFriends FS J hmac jwt_secret now_ms s context group_id =
     (let uid = GetAuthenticatedUserId J hmac now_ms context jwt_secret in
      if uid = []
      then \<lparr>resp_code = ErrorCodeToInt EC_TOKEN_INVALID, resp_message = ''token invalid or missing'', flr_friends = []\<rparr>
      else \<lparr>resp_code = EC_OK, resp_message = [],
            flr_friends = map (\<lambda>f. \<lparr>fi_friend_id = fd_friend_id f, fi_remark = fd_remark f, fi_group_id = fd_group_id f,
                                   fi_status = 0, fi_added_at = fd_added_at f\<rparr>)
                             (FriendService_GetFriends FS s uid group_id)\<rparr>)"

section \<open>Block list\<close>

definition FriendHandler_BlockUser ::
  "'s FriendStore \<Rightarrow> 'j nlohmann \<Rightarrow> (string \<Rightarrow> string \<Rightarrow> string) \<Rightarrow> string \<Rightarrow> int \<Rightarrow> 's \<Rightarrow> ServerContext
     \<Rightarrow> string \<Rightarrow> CommonResponse \<times> 's" where
  "FriendHandler_BlockUser FS J hmac jwt_secret now_ms s context target_id =
     (let (uid, response) = RequireAuth J hmac jwt_secret now_ms context CommonResponse_default in
      if uid = [] then (response, s)
      else
        (let (ok, s') = FriendService_Block FS s uid target_id
         in (if ok then SetOk response else SetFail response EC_UNKNOWN ''operation failed'', s')))"

definition FriendHandler_UnblockUser ::
  "'s FriendStore \<Rightarrow> 'j nlohmann \<Rightarrow> (string \<Rightarrow> string \<Rightarrow> string) \<Rightarrow> string \<Rightarrow> int \<Rightarrow> 's \<Rightarrow> ServerContext
     \<Rightarrow> string \<Rightarrow> CommonResponse \<times> 's" where
  "FriendHandler_UnblockUser FS J hmac jwt_secret now_ms s context target_id =
     (let (uid, response) = RequireAuth J hmac jwt_secret now_ms context CommonResponse_default in
      if uid = [] then (response, s)
      else
        (let (ok, s') = FriendService_Unblock FS s uid target_id
         in (if ok then SetOk response else SetFail response EC_UNKNOWN ''operation failed'', s')))"

definition FriendHandler_GetBlockList ::
  "'s FriendStore \<Rightarrow> 'j nlohmann \<Rightarrow> (string \<Rightarrow> string \<Rightarrow> string) \<Rightarrow> string \<Rightarrow> int \<Rightarrow> 's \<Rightarrow> ServerContext \<Rightarrow> BlockListResponse" where
  "FriendHandler_GetBlockList FS J hmac jwt_secret now_ms s context =
     (let uid = GetAuthenticatedUserId J hmac now_ms context jwt_secret in
      if uid = []
      then \<lparr>resp_code = ErrorCodeToInt EC_TOKEN_INVALID, resp_message = ''token invalid or missing'', blr_blocked_ids = []\<rparr>
      else \<lparr>resp_code = EC_OK, resp_message = [], blr_blocked_ids = FriendService_GetBlockList FS s uid\<rparr>)"

section \<open>Groups and remarks\<close>

definition FriendHandler_CreateFriendGroup ::
  "'s FriendStore \<Rightarrow> 'j nlohmann \<Rightarrow> (string \<Rightarrow> string \<Rightarrow> string) \<Rightarrow> string \<Rightarrow> int \<Rightarrow> nat list \<Rightarrow> 's \<Rightarrow> ServerContext
     \<Rightarrow> string \<Rightarrow> CommonResponse \<times> 's" where
  "FriendHandler_CreateFriendGroup FS J hmac jwt_secret now_ms draws s context group_name =
     (let (uid, response) = RequireAuth J hmac jwt_secret now_ms context CommonResponse_default in
      if uid = [] then (response, s)
      else
        (let (created, s') = FriendService_CreateFriendGroup FS draws s uid group_name
         in (if created \<noteq> None then SetOk response else SetFail response EC_UNKNOWN ''operation failed'', s')))"

definition FriendHandler_GetFriendGroups ::
  "'s FriendStore \<Rightarrow> 'j nlohmann \<Rightarrow> (string \<Rightarrow> string \<Rightarrow> string) \<Rightarrow> string \<Rightarrow> int \<Rightarrow> 's \<Rightarrow> ServerContext
     \<Rightarrow> FriendGroupListResponse \<times> 's" where
  "FriendHandler_GetFriendGroups FS J hmac jwt_secret now_ms s context =
     (let uid = GetAuthenticatedUserId J hmac now_ms context jwt_secret in
      if uid = []
      then (\<lparr>resp_code = ErrorCodeToInt EC_TOKEN_INVALID, resp_message = ''token invalid or missing'', glr_groups = []\<rparr>, s)
      else
        (let (groups, s') = FriendService_GetFriendGroups FS s uid
         in (\<lparr>resp_code = EC_OK, resp_message = [],
              glr_groups = map (\<lambda>g. \<lparr>gi_group_id = fg_group_id g, gi_group_name = fg_group_name g,
                    gi_friend_count = wrap32 (int (length (FriendService_GetFriends FS s' uid (fg_group_id g)))),
                    gi_sort_order = fg_sort_order g\<rparr>) groups\<rparr>, s')))"

definition FriendHandler_DeleteFriendGroup ::
  "'s FriendStore \<Rightarrow> 'j nlohmann \<Rightarrow> (string \<Rightarrow> string \<Rightarrow> string) \<Rightarrow> string \<Rightarrow> int \<Rightarrow> 's \<Rightarrow> ServerContext
     \<Rightarrow> string \<Rightarrow> CommonResponse \<times> 's" where
  "FriendHandler_DeleteFriendGroup FS J hmac jwt_secret now_ms s context group_id =
     (let (uid, response) = RequireAuth J hmac jwt_secret now_ms context CommonResponse_default in
      if uid = [] then (response, s)
      else
        (let (ec, s') = FriendService_DeleteFriendGroup FS s uid group_id
         in (if ec = EC_OK then SetOk response else SetFail response ec ''operation failed'', s')))"

definition FriendHandler_MoveFriend ::
  "'s FriendStore \<Rightarrow> 'j nlohmann \<Rightarrow> (string \<Rightarrow> string \<Rightarrow> string) \<Rightarrow> string \<Rightarrow> int \<Rightarrow> 's \<Rightarrow> ServerContext
     \<Rightarrow> string \<Rightarrow> string \<Rightarrow> CommonResponse option \<times> 's" where
  "FriendHandler_MoveFriend FS J hmac jwt_secret now_ms s context friend_id to_group_id =
     (let (uid, response) = RequireAuth J hmac jwt_secret now_ms context CommonResponse_default in
      if uid = [] then (Some response, s)
      else
        (let (res, s') = FriendService_MoveFriend FS s uid friend_id to_group_id
         in (map_option (\<lambda>ok. if ok then SetOk response else SetFail response EC_FRIEND_NOT_FOUND ''friend not found'') res, s')))"

definition FriendHandler_SetRemark ::
  "'s FriendStore \<Rightarrow> 'j nlohmann \<Rightarrow> (string \<Rightarrow> string \<Rightarrow> string) \<Rightarrow> string \<Rightarrow> int \<Rightarrow> 's \<Rightarrow> ServerContext
     \<Rightarrow> string \<Rightarrow> string \<Rightarrow> CommonResponse option \<times> 's" where
  "FriendHandler_SetRemark FS J hmac jwt_secret now_ms s context friend_id remark =
     (let (uid, response) = RequireAuth J hmac jwt_secret now_ms context CommonResponse_default in
      if uid = [] then (Some response, s)
      else
        (let (res, s') = FriendService_SetRemark FS s uid friend_id remark
         in (map_option (\<lambda>ok. if ok then SetOk response else SetFail response EC_FRIEND_NOT_FOUND ''friend not found'') res, s')))"

definition FriendHandler_GetFriendRequests ::
  "'s FriendStore \<Rightarrow> 'j nlohmann \<Rightarrow> (string \<Rightarrow> string \<Rightarrow> string) \<Rightarrow> string \<Rightarrow> int \<Rightarrow> 's \<Rightarrow> ServerContext
     \<Rightarrow> int \<Rightarrow> FriendRequestListResponse" where
  "FriendHandler_GetFriendRequests FS J hmac jwt_secret now_ms s context type =
     (let uid = GetAuthenticatedUserId J hmac now_ms context jwt_secret in
      if uid = []
      then \<lparr>resp_code = ErrorCodeToInt EC_TOKEN_INVALID, resp_message = ''token invalid or missing'', rlr_requests = []\<rparr>
      else \<lparr>resp_code = EC_OK, resp_message = [], rlr_requests = FriendService_GetFriendRequests FS s uid type\<rparr>)"

section \<open>A call reaches only what belongs to its caller\<close>

text \<open>What the caller \<open>u\<close> may change: friendships \<open>u\<close> is a side of, the block list and the groups of \<open>u\<close>.\<close>

definition caller_frame :: "string \<Rightarrow> FriendState \<Rightarrow> FriendState \<Rightarrow> bool" where
  "caller_frame u a b \<longleftrightarrow>
     (\<forall>x y. x \<noteq> u \<longrightarrow> y \<noteq> u \<longrightarrow> ab_friend b (x, y) = ab_friend a (x, y)) \<and>
     (\<forall>x t. x \<noteq> u \<longrightarrow> ((x, t) \<in> ab_block b) = ((x, t) \<in> ab_block a)) \<and>
     (\<forall>x g. x \<noteq> u \<longrightarrow> ab_group b (x, g) = ab_group a (x, g))"

lemma caller_frame_refl [simp]: "caller_frame u a a"
  by (simp add: caller_frame_def)

lemma caller_frame_trans: "caller_frame u a b \<Longrightarrow> caller_frame u b c \<Longrightarrow> caller_frame u a c"
  by (simp add: caller_frame_def)

lemma caller_frame_updates [simp]:
  "caller_frame u a (a\<lparr>ab_req := q\<rparr>)"
  "caller_frame u a (a\<lparr>ab_friend := (ab_friend a)((u, f) := d, (f, u) := e)\<rparr>)"
  "caller_frame u a (a\<lparr>ab_friend := (ab_friend a)((u, f) := d)\<rparr>)"
  "caller_frame u a (a\<lparr>ab_block := insert (u, f) (ab_block a)\<rparr>)"
  "caller_frame u a (a\<lparr>ab_block := ab_block a - {(u, f)}\<rparr>)"
  "caller_frame u a (a\<lparr>ab_group := (ab_group a)((u, g) := h)\<rparr>)"
  "caller_frame u a (a\<lparr>ab_group := (ab_group a)((u, g) := h), ab_friend := to_default_group u k (ab_friend a)\<rparr>)"
  by (auto simp: caller_frame_def to_default_group_def split: option.splits)

context friend_store
begin

lemma EnsureDefaultGroup_frame:
  assumes "inv s" "id_ok u"
  shows "caller_frame u (abs s) (abs (FriendService_EnsureDefaultGroup FS s u))"
proof -
  let ?g = "\<lparr>fg_group_id = kDefaultFriendGroupId, fg_user_id = u, fg_group_name = kDefaultFriendGroupName, fg_sort_order = 0\<rparr>"
  have ok: "fgroup_ok ?g" using assms(2) by (simp add: fgroup_ok_def kDefaultFriendGroupId_def is_int32_def)
  obtain b s' where c: "fs_CreateGroup FS s ?g = (b, s')" by fastforce
  from create_group [OF assms(1) c ok] show ?thesis by (simp add: FriendService_EnsureDefaultGroup_def c)
qed

lemma update_status_frame:
  assumes "inv s" "is_int32 st"
  shows "caller_frame u (abs s) (abs (snd (fs_UpdateRequestStatus FS s rid st)))"
proof -
  obtain ok s' where c: "fs_UpdateRequestStatus FS s rid st = (ok, s')" by fastforce
  from update_status [OF assms(1) c assms(2)] show ?thesis by (auto simp: c split: option.splits)
qed

lemma accept_frame:
  assumes "inv s" "id_ok u" "is_int64 now" "id_ok f" "f \<noteq> u"
    and "fs_AddFriend FS (FriendService_EnsureDefaultGroup FS s u)
      \<lparr>fd_user_id = u, fd_friend_id = f, fd_remark = [], fd_group_id = (if g = [] then kDefaultFriendGroupId else g), fd_added_at = now\<rparr> = (b, s2)"
  shows "inv s2" "caller_frame u (abs s) (abs s2)"
proof -
  let ?d = "\<lparr>fd_user_id = u, fd_friend_id = f, fd_remark = [], fd_group_id = (if g = [] then kDefaultFriendGroupId else g), fd_added_at = now\<rparr>"
  have "friend_ok ?d" using assms(2-4) by (simp add: friend_ok_def)
  from add_friend [OF EnsureDefaultGroup_effect(1) [OF assms(1,2)] assms(6) this] assms(5)
  have e: "inv s2" "caller_frame u (abs (FriendService_EnsureDefaultGroup FS s u)) (abs s2)" by auto
  with caller_frame_trans EnsureDefaultGroup_frame [OF assms(1,2)] show "inv s2" "caller_frame u (abs s) (abs s2)" by blast+
qed

lemma HandleRequest_frame:
  assumes "inv s" "id_ok u" "is_int64 now" "requests_sane (abs s)"
  shows "caller_frame u (abs s) (abs (snd (FriendService_HandleRequest FS now s u rid accept g)))"
proof (cases "\<exists>r. rid \<noteq> [] \<and> accept \<and> ab_req (abs s) rid = Some r \<and> fr_to_user_id r = u \<and> fr_status r = 0")
  case False
  with assms(1) update_status_frame [of s 2 u rid] show ?thesis
    by (auto simp: FriendService_HandleRequest_def get_request is_int32_def split: option.split)
next
  case True
  then obtain r where r: "rid \<noteq> []" accept "ab_req (abs s) rid = Some r" "fr_to_user_id r = u" "fr_status r = 0" by blast
  have ne: "u \<noteq> []" "id_ok (fr_from_user_id r)" "fr_from_user_id r \<noteq> u"
    using assms(2,4) request_data [OF assms(1) r(3)] r(3,4) by (auto simp: id_ok_def request_ok_def requests_sane_def)
  let ?d = "\<lparr>fd_user_id = u, fd_friend_id = fr_from_user_id r, fd_remark = [],
      fd_group_id = (if g = [] then kDefaultFriendGroupId else g), fd_added_at = now\<rparr>"
  obtain b s2 where a: "fs_AddFriend FS (FriendService_EnsureDefaultGroup FS s u) ?d = (b, s2)" by fastforce
  note e = accept_frame [OF assms(1-3) ne(2,3) a]
  have "snd (FriendService_HandleRequest FS now s u rid accept g) = (if b then snd (fs_UpdateRequestStatus FS s2 rid 1) else s2)"
    using r ne(1) a by (simp add: FriendService_HandleRequest_def get_request Let_def)
  with e caller_frame_trans [OF e(2) update_status_frame [OF e(1), of 1 u rid]] show ?thesis by (simp add: is_int32_def)
qed

lemma GetFriendGroups_state:
  "u \<noteq> [] \<Longrightarrow> snd (FriendService_GetFriendGroups FS s u) = FriendService_EnsureDefaultGroup FS s u"
  by (simp add: FriendService_GetFriendGroups_def Let_def)

lemma edits_frame:
  assumes "inv s" "id_ok u"
  shows "id_ok f \<Longrightarrow> caller_frame u (abs s) (abs (snd (FriendService_MoveFriend FS s u f g)))"
    and "id_ok f \<Longrightarrow> caller_frame u (abs s) (abs (snd (FriendService_SetRemark FS s u f rem)))"
proof -
  assume f: "id_ok f"
  obtain r t where m: "fs_MoveFriend FS s u f g = (r, t)" by fastforce
  from move_friend [OF assms(1) m assms(2) f] m
  show "caller_frame u (abs s) (abs (snd (FriendService_MoveFriend FS s u f g)))"
    by (auto simp: FriendService_MoveFriend_def split: option.splits)
  obtain r t where m: "fs_UpdateRemark FS s u f rem = (r, t)" by fastforce
  from update_remark [OF assms(1) m assms(2) f] m
  show "caller_frame u (abs s) (abs (snd (FriendService_SetRemark FS s u f rem)))"
    by (auto simp: FriendService_SetRemark_def split: option.splits)
qed

lemma blocks_frame:
  assumes "inv s" "id_ok u"
  shows "caller_frame u (abs s) (abs (snd (FriendService_Block FS s u t)))"
    and "caller_frame u (abs s) (abs (snd (FriendService_Unblock FS s u t)))"
proof -
  obtain r s' where m: "fs_Block FS s u t = (r, s')" by fastforce
  from block [OF assms(1) m assms(2)] m show "caller_frame u (abs s) (abs (snd (FriendService_Block FS s u t)))"
    by (cases "t = []") (auto simp: FriendService_Block_def)
  obtain r s' where m: "fs_Unblock FS s u t = (r, s')" by fastforce
  from unblock [OF assms(1) m assms(2)] m show "caller_frame u (abs s) (abs (snd (FriendService_Unblock FS s u t)))"
    by (cases "t = []") (auto simp: FriendService_Unblock_def)
qed

lemma groups_frame:
  assumes "inv s" "id_ok u"
  shows "caller_frame u (abs s) (abs (snd (FriendService_CreateFriendGroup FS draws s u name)))"
    and "caller_frame u (abs s) (abs (snd (FriendService_DeleteFriendGroup FS s u g)))"
proof -
  let ?g = "\<lparr>fg_group_id = GenerateShortId draws ''g_'' 8, fg_user_id = u, fg_group_name = name, fg_sort_order = 0\<rparr>"
  obtain b t where c: "fs_CreateGroup FS s ?g = (b, t)" by fastforce
  have "fgroup_ok ?g" using assms(2) by (simp add: fgroup_ok_def GenerateShortId_def is_int32_def)
  from create_group [OF assms(1) c this] c
  show "caller_frame u (abs s) (abs (snd (FriendService_CreateFriendGroup FS draws s u name)))"
    by (auto simp: FriendService_CreateFriendGroup_def Let_def split: bool.splits)
  obtain ec s' where d: "FriendService_DeleteFriendGroup FS s u g = (ec, s')" by fastforce
  from DeleteFriendGroup_effect(3) [OF assms d] show "caller_frame u (abs s) (abs (snd (FriendService_DeleteFriendGroup FS s u g)))"
    by (simp add: d)
qed

lemma friendship_frame:
  assumes "inv s" "id_ok u" "id_ok f"
  shows "draws_ok 12 draws \<Longrightarrow> is_int64 now \<Longrightarrow> caller_frame u (abs s) (abs (snd (FriendService_AddFriend FS draws now s u f rem)))"
    and "caller_frame u (abs s) (abs (snd (FriendService_RemoveFriend FS s u f)))"
proof -
  obtain ok s' where r: "FriendService_RemoveFriend FS s u f = (ok, s')" by fastforce
  from RemoveFriend_effect [OF assms r] show "caller_frame u (abs s) (abs (snd (FriendService_RemoveFriend FS s u f)))"
    by (simp add: r)
  assume d: "draws_ok 12 draws" "is_int64 now"
  let ?rid = "GenerateShortId draws ''req_'' 12"
  let ?r = "\<lparr>fr_request_id = ?rid, fr_from_user_id = u, fr_to_user_id = f, fr_remark = rem, fr_status = 0, fr_created_at = now\<rparr>"
  obtain b t where c: "fs_CreateRequest FS s ?r = (b, t)" by fastforce
  have "id_ok ?rid" using clean_GenerateShortId [OF _ d(1), of "''req_''"] by (simp add: id_ok_def GenerateShortId_def)
  then have "request_ok ?r" using assms d by (simp add: request_ok_def is_int32_def)
  from create_request [OF assms(1) c this] c
  show "caller_frame u (abs s) (abs (snd (FriendService_AddFriend FS draws now s u f rem)))"
    by (auto simp: FriendService_AddFriend_def)
qed

end

text \<open>The calls that may change the store, as one dispatcher returns their new state.\<close>

datatype FriendRpc =
  Rpc_AddFriend string string
| Rpc_HandleFriendRequest string bool string
| Rpc_RemoveFriend string
| Rpc_BlockUser string
| Rpc_UnblockUser string
| Rpc_CreateFriendGroup string
| Rpc_GetFriendGroups
| Rpc_DeleteFriendGroup string
| Rpc_MoveFriend string string
| Rpc_SetRemark string string

fun friend_rpc_ids_ok :: "FriendRpc \<Rightarrow> bool" where
  "friend_rpc_ids_ok (Rpc_AddFriend f _) = id_ok f"
| "friend_rpc_ids_ok (Rpc_RemoveFriend f) = id_ok f"
| "friend_rpc_ids_ok (Rpc_MoveFriend f _) = id_ok f"
| "friend_rpc_ids_ok (Rpc_SetRemark f _) = id_ok f"
| "friend_rpc_ids_ok _ = True"

fun friend_dispatch ::
  "'s FriendStore \<Rightarrow> 'j nlohmann \<Rightarrow> (string \<Rightarrow> string \<Rightarrow> string) \<Rightarrow> string \<Rightarrow> int \<Rightarrow> nat list \<Rightarrow> int \<Rightarrow> 's \<Rightarrow> ServerContext \<Rightarrow> FriendRpc \<Rightarrow> 's" where
  "friend_dispatch FS J hmac sec now_ms draws now s ctx (Rpc_AddFriend f r) =
     snd (FriendHandler_AddFriend FS J hmac sec now_ms draws now s ctx f r)"
| "friend_dispatch FS J hmac sec now_ms draws now s ctx (Rpc_HandleFriendRequest i a g) =
     snd (FriendHandler_HandleFriendRequest FS J hmac sec now_ms now s ctx i a g)"
| "friend_dispatch FS J hmac sec now_ms draws now s ctx (Rpc_RemoveFriend f) =
     snd (FriendHandler_RemoveFriend FS J hmac sec now_ms s ctx f)"
| "friend_dispatch FS J hmac sec now_ms draws now s ctx (Rpc_BlockUser t) =
     snd (FriendHandler_BlockUser FS J hmac sec now_ms s ctx t)"
| "friend_dispatch FS J hmac sec now_ms draws now s ctx (Rpc_UnblockUser t) =
     snd (FriendHandler_UnblockUser FS J hmac sec now_ms s ctx t)"
| "friend_dispatch FS J hmac sec now_ms draws now s ctx (Rpc_CreateFriendGroup n) =
     snd (FriendHandler_CreateFriendGroup FS J hmac sec now_ms draws s ctx n)"
| "friend_dispatch FS J hmac sec now_ms draws now s ctx Rpc_GetFriendGroups =
     snd (FriendHandler_GetFriendGroups FS J hmac sec now_ms s ctx)"
| "friend_dispatch FS J hmac sec now_ms draws now s ctx (Rpc_DeleteFriendGroup g) =
     snd (FriendHandler_DeleteFriendGroup FS J hmac sec now_ms s ctx g)"
| "friend_dispatch FS J hmac sec now_ms draws now s ctx (Rpc_MoveFriend f g) =
     snd (FriendHandler_MoveFriend FS J hmac sec now_ms s ctx f g)"
| "friend_dispatch FS J hmac sec now_ms draws now s ctx (Rpc_SetRemark f r) =
     snd (FriendHandler_SetRemark FS J hmac sec now_ms s ctx f r)"

lemmas friend_handler_defs =
  FriendHandler_AddFriend_def FriendHandler_HandleFriendRequest_def FriendHandler_RemoveFriend_def
  FriendHandler_BlockUser_def FriendHandler_UnblockUser_def FriendHandler_CreateFriendGroup_def
  FriendHandler_GetFriendGroups_def FriendHandler_DeleteFriendGroup_def FriendHandler_MoveFriend_def
  FriendHandler_SetRemark_def RequireAuth_def

lemma friend_dispatch_unauthenticated:
  "GetAuthenticatedUserId J hmac now_ms ctx sec = [] \<Longrightarrow> friend_dispatch FS J hmac sec now_ms draws now s ctx rpc = s"
  by (cases rpc) (simp_all add: friend_handler_defs Let_def)

lemma friend_dispatch_step:
  assumes "GetAuthenticatedUserId J hmac now_ms ctx sec = u" "id_ok u" "friend_rpc_ids_ok rpc" "draws_ok 12 draws" "is_int64 now"
  shows "friend_step FS s (friend_dispatch FS J hmac sec now_ms draws now s ctx rpc)"
proof -
  have u: "u \<noteq> []" using assms(2) by (simp add: id_ok_def)
  show ?thesis
    using assms(2-) u
    by (cases rpc)
      (simp_all add: friend_handler_defs assms(1) Let_def case_prod_unfold friend_step.intros)
qed

context friend_store
begin

lemma friend_dispatch_frame:
  assumes "GetAuthenticatedUserId J hmac now_ms ctx sec = u" "id_ok u" "friend_rpc_ids_ok rpc" "draws_ok 12 draws" "is_int64 now"
    "inv s" "requests_sane (abs s)"
  shows "caller_frame u (abs s) (abs (friend_dispatch FS J hmac sec now_ms draws now s ctx rpc))"
proof -
  have u: "u \<noteq> []" using assms(2) by (simp add: id_ok_def)
  show ?thesis
    using assms(2-) u
    by (cases rpc)
      (simp_all add: friend_handler_defs assms(1) Let_def case_prod_unfold friendship_frame HandleRequest_frame blocks_frame
        groups_frame edits_frame GetFriendGroups_state EnsureDefaultGroup_frame)
qed

end

text \<open>C25: A call of the friend API acts for the user its token names and for nobody else: without a
  valid token the database is unchanged; otherwise the call is a step of the service, friendships
  between two other users stay what they are, and so do the block lists of all other users.  The ids
  in this request and in the calls before it have no colon.\<close>

theorem friend_calls_act_for_caller:
  assumes "store_env R J" and "db_Get R db0 = Map.empty" and "friend_reach (RocksDBFriendStore R J) db0 db"
    and "GetAuthenticatedUserId J hmac now_ms context jwt_secret = uid" and "uid = [] \<or> id_ok uid"
    and "friend_rpc_ids_ok rpc" and "draws_ok 12 draws" and "is_int64 now"
    and "friend_dispatch (RocksDBFriendStore R J) J hmac jwt_secret now_ms draws now db context rpc = db'"
  shows "friend_reach (RocksDBFriendStore R J) db0 db' \<and> (uid = [] \<longrightarrow> db' = db)
    \<and> (\<forall>x y. id_ok x \<longrightarrow> id_ok y \<longrightarrow> x \<noteq> uid \<longrightarrow> y \<noteq> uid \<longrightarrow>
        RocksDBFriendStore_IsFriend R db' x y = RocksDBFriendStore_IsFriend R db x y)
    \<and> (\<forall>x t. id_ok x \<longrightarrow> x \<noteq> uid \<longrightarrow> RocksDBFriendStore_IsBlocked R db' x t = RocksDBFriendStore_IsBlocked R db x t)"
proof (cases "uid = []")
  case True
  then have "GetAuthenticatedUserId J hmac now_ms context jwt_secret = []" using assms(4) by simp
  then have "db' = db" using assms(9) friend_dispatch_unauthenticated by metis
  with assms(3) show ?thesis by simp
next
  case False
  note fs = store_env.rocksdb_friend_store [OF assms(1)]
  have u: "id_ok uid" using False assms(5) by blast
  note r = friend_reach_facts [OF assms(1-3)]
  have reach: "friend_reach (RocksDBFriendStore R J) db0 db'"
    using friend_reach.step [OF assms(3) friend_dispatch_step [OF assms(4) u assms(6-8)]] assms(9) by simp
  note r' = friend_reach_facts [OF assms(1,2) reach]
  have f: "caller_frame uid (friend_abs R J db) (friend_abs R J db')"
    using friend_store.friend_dispatch_frame [OF fs assms(4) u assms(6-8) r(1,3)] assms(9) by simp
  have "RocksDBFriendStore_IsFriend R db' x y = RocksDBFriendStore_IsFriend R db x y"
    if "id_ok x" "id_ok y" "x \<noteq> uid" "y \<noteq> uid" for x y
    using f that store_env.fs_is_friend [OF assms(1) r(1) that(1,2)] store_env.fs_is_friend [OF assms(1) r'(1) that(1,2)]
    by (simp add: caller_frame_def)
  moreover have "RocksDBFriendStore_IsBlocked R db' x t = RocksDBFriendStore_IsBlocked R db x t" if "id_ok x" "x \<noteq> uid" for x t
    using f that friend_store.is_blocked [OF fs r(1) that(1), of t] friend_store.is_blocked [OF fs r'(1) that(1), of t]
    by (simp add: caller_frame_def)
  ultimately show ?thesis using reach False by blast
qed

theorem friend_calls_act_for_caller_witness:
  "let db' = friend_dispatch (RocksDBFriendStore alist_db text_json) text_json (\<lambda>k d. rev d) ''key'' 0 friend_demo_draws 1000
        friend_demo2 (demo_context ''c'') (Rpc_BlockUser ''a'')
   in friend_reach (RocksDBFriendStore alist_db text_json) [] db' \<and>
      RocksDBFriendStore_IsFriend alist_db db' ''a'' ''b'' = RocksDBFriendStore_IsFriend alist_db friend_demo2 ''a'' ''b''"
  using friend_calls_act_for_caller [OF alist_env.store_env_axioms alist_empty friend_demo2_reach
      demo_context_caller [of "''c''"] _ _ demo_draws_ok demo_ids(4) refl, of "Rpc_BlockUser ''a''"] demo_ids
  by (simp add: Let_def)

end
