(* ===== verification/Group_Store.thy ===== *)
theory Group_Store
  imports Swift_Utils Third_Party_Instances "HOL-Library.Monad_Syntax"
begin

text \<open>
  \<^verbatim>\<open>backend/chatsvr/internal/store/group_store.{h,cpp}\<close>: chat groups, their members and the index
  of the groups of a user, in one database.  The record \<open>GroupStore\<close> is the abstract class,
  \<open>RocksDBGroupStore\<close> the implementation.  \<^verbatim>\<open>member_count\<close> is a 32-bit counter (\<open>wrap32\<close>).
  \<^verbatim>\<open>GetMembers\<close> computes an offset with \<^verbatim>\<open>int\<close> arithmetic: its result is \<open>None\<close> where that
  arithmetic overflows, which the language leaves undefined.
\<close>

section \<open>Data\<close>

record GroupData =
  gd_group_id :: string
  gd_group_name :: string
  gd_avatar_url :: string
  gd_owner_id :: string
  gd_member_count :: int
  gd_announcement :: string
  gd_created_at :: int
  gd_updated_at :: int
  gd_status :: int

record GroupMemberData =
  gm_user_id :: string
  gm_role :: int
  gm_nickname :: string
  gm_joined_at :: int

record 's GroupStore =
  gs_CreateGroup :: "'s \<Rightarrow> GroupData \<Rightarrow> bool \<times> 's"
  gs_GetGroup :: "'s \<Rightarrow> string \<Rightarrow> GroupData option"
  gs_UpdateGroup :: "'s \<Rightarrow> string \<Rightarrow> string \<Rightarrow> string \<Rightarrow> string \<Rightarrow> int \<Rightarrow> bool \<times> 's"
  gs_UpdateGroupOwner :: "'s \<Rightarrow> string \<Rightarrow> string \<Rightarrow> bool \<times> 's"
  gs_DeleteGroup :: "'s \<Rightarrow> string \<Rightarrow> bool \<times> 's"
  gs_DissolveGroup :: "'s \<Rightarrow> string \<Rightarrow> bool \<times> 's"
  gs_AddMember :: "'s \<Rightarrow> string \<Rightarrow> GroupMemberData \<Rightarrow> bool \<times> 's"
  gs_RemoveMember :: "'s \<Rightarrow> string \<Rightarrow> string \<Rightarrow> bool \<times> 's"
  gs_GetMember :: "'s \<Rightarrow> string \<Rightarrow> string \<Rightarrow> GroupMemberData option"
  gs_GetMembers :: "'s \<Rightarrow> string \<Rightarrow> int \<Rightarrow> int \<Rightarrow> (GroupMemberData list \<times> int option) option"
  gs_UpdateMemberRole :: "'s \<Rightarrow> string \<Rightarrow> string \<Rightarrow> int \<Rightarrow> bool \<times> 's"
  gs_IsMember :: "'s \<Rightarrow> string \<Rightarrow> string \<Rightarrow> bool"
  gs_GetUserGroupIds :: "'s \<Rightarrow> string \<Rightarrow> string list"

section \<open>JSON forms\<close>

definition group_members :: "GroupData \<Rightarrow> (string \<times> jval) list" where
  "group_members g =
     [(''group_id'', JStr (gd_group_id g)), (''group_name'', JStr (gd_group_name g)), (''avatar_url'', JStr (gd_avatar_url g)),
      (''owner_id'', JStr (gd_owner_id g)), (''member_count'', JInt (gd_member_count g)),
      (''announcement'', JStr (gd_announcement g)), (''created_at'', JInt (gd_created_at g)),
      (''updated_at'', JInt (gd_updated_at g)), (''status'', JInt (gd_status g))]"

definition SerializeGroupData :: "'j nlohmann \<Rightarrow> GroupData \<Rightarrow> string" where
  "SerializeGroupData J g = json_dump J (json_object J (group_members g))"

definition DeserializeGroupData :: "'j nlohmann \<Rightarrow> string \<Rightarrow> GroupData option" where
  "DeserializeGroupData J data = do {
     j \<leftarrow> json_parse J data;
     group_id \<leftarrow> json_value_string J j ''group_id'' [];
     group_name \<leftarrow> json_value_string J j ''group_name'' [];
     avatar_url \<leftarrow> json_value_string J j ''avatar_url'' [];
     owner_id \<leftarrow> json_value_string J j ''owner_id'' [];
     member_count \<leftarrow> json_value_int J j ''member_count'' 0;
     announcement \<leftarrow> json_value_string J j ''announcement'' [];
     created_at \<leftarrow> json_value_int64 J j ''created_at'' 0;
     updated_at \<leftarrow> json_value_int64 J j ''updated_at'' 0;
     status \<leftarrow> json_value_int J j ''status'' 0;
     Some \<lparr>gd_group_id = group_id, gd_group_name = group_name, gd_avatar_url = avatar_url, gd_owner_id = owner_id,
           gd_member_count = member_count, gd_announcement = announcement, gd_created_at = created_at,
           gd_updated_at = updated_at, gd_status = status\<rparr> }"

definition member_members :: "GroupMemberData \<Rightarrow> (string \<times> jval) list" where
  "member_members m =
     [(''user_id'', JStr (gm_user_id m)), (''role'', JInt (gm_role m)), (''nickname'', JStr (gm_nickname m)),
      (''joined_at'', JInt (gm_joined_at m))]"

definition SerializeMember :: "'j nlohmann \<Rightarrow> GroupMemberData \<Rightarrow> string" where
  "SerializeMember J m = json_dump J (json_object J (member_members m))"

definition DeserializeMember :: "'j nlohmann \<Rightarrow> string \<Rightarrow> GroupMemberData option" where
  "DeserializeMember J data = do {
     j \<leftarrow> json_parse J data;
     user_id \<leftarrow> json_value_string J j ''user_id'' [];
     role \<leftarrow> json_value_int J j ''role'' 1;
     nickname \<leftarrow> json_value_string J j ''nickname'' [];
     joined_at \<leftarrow> json_value_int64 J j ''joined_at'' 0;
     Some \<lparr>gm_user_id = user_id, gm_role = role, gm_nickname = nickname, gm_joined_at = joined_at\<rparr> }"

section \<open>Keys\<close>

definition K_GROUP :: string where "K_GROUP = ''group:''"
definition K_GROUP_MEMBER :: string where "K_GROUP_MEMBER = ''group_member:''"
definition K_USER_GROUPS :: string where "K_USER_GROUPS = ''user_groups:''"

definition KeyGroup :: "string \<Rightarrow> string" where
  "KeyGroup group_id = K_GROUP @ group_id"

definition KeyGroupMember :: "string \<Rightarrow> string \<Rightarrow> string" where
  "KeyGroupMember group_id user_id = K_GROUP_MEMBER @ group_id @ '':'' @ user_id"

definition KeyUserGroup :: "string \<Rightarrow> string \<Rightarrow> string" where
  "KeyUserGroup user_id group_id = K_USER_GROUPS @ user_id @ '':'' @ group_id"

definition PrefixGroupMember :: "string \<Rightarrow> string" where
  "PrefixGroupMember group_id = K_GROUP_MEMBER @ group_id @ '':''"

definition PrefixUserGroups :: "string \<Rightarrow> string" where
  "PrefixUserGroups user_id = K_USER_GROUPS @ user_id @ '':''"

section \<open>Groups\<close>

definition RocksDBGroupStore_CreateGroup :: "'db rocksdb \<Rightarrow> 'j nlohmann \<Rightarrow> 'db \<Rightarrow> GroupData \<Rightarrow> bool \<times> 'db" where
  "RocksDBGroupStore_CreateGroup R J db data =
     (if gd_group_id data = [] \<or> gd_owner_id data = [] then (False, db)
      else if db_Get R db (KeyGroup (gd_group_id data)) \<noteq> None then (False, db)
      else db_Put R db (KeyGroup (gd_group_id data)) (SerializeGroupData J data))"

definition RocksDBGroupStore_GetGroup :: "'db rocksdb \<Rightarrow> 'j nlohmann \<Rightarrow> 'db \<Rightarrow> string \<Rightarrow> GroupData option" where
  "RocksDBGroupStore_GetGroup R J db group_id =
     (if group_id = [] then None
      else (case db_Get R db (KeyGroup group_id) of
              None \<Rightarrow> None
            | Some val \<Rightarrow> DeserializeGroupData J val))"

definition edit_group :: "GroupData \<Rightarrow> string \<Rightarrow> string \<Rightarrow> string \<Rightarrow> int \<Rightarrow> GroupData" where
  "edit_group g group_name avatar_url announcement updated_at =
     g\<lparr>gd_group_name := (if group_name = [] then gd_group_name g else group_name),
       gd_avatar_url := (if avatar_url = [] then gd_avatar_url g else avatar_url),
       gd_announcement := announcement,
       gd_updated_at := (if updated_at \<noteq> 0 then updated_at else gd_updated_at g)\<rparr>"

definition RocksDBGroupStore_UpdateGroup ::
  "'db rocksdb \<Rightarrow> 'j nlohmann \<Rightarrow> 'db \<Rightarrow> string \<Rightarrow> string \<Rightarrow> string \<Rightarrow> string \<Rightarrow> int \<Rightarrow> bool \<times> 'db" where
  "RocksDBGroupStore_UpdateGroup R J db group_id group_name avatar_url announcement updated_at =
     (if group_id = [] then (False, db)
      else
        (case RocksDBGroupStore_GetGroup R J db group_id of
           None \<Rightarrow> (False, db)
         | Some g \<Rightarrow>
             db_Put R db (KeyGroup group_id) (SerializeGroupData J (edit_group g group_name avatar_url announcement updated_at))))"

definition RocksDBGroupStore_UpdateGroupOwner ::
  "'db rocksdb \<Rightarrow> 'j nlohmann \<Rightarrow> 'db \<Rightarrow> string \<Rightarrow> string \<Rightarrow> bool \<times> 'db" where
  "RocksDBGroupStore_UpdateGroupOwner R J db group_id new_owner_id =
     (if group_id = [] \<or> new_owner_id = [] then (False, db)
      else
        (case RocksDBGroupStore_GetGroup R J db group_id of
           None \<Rightarrow> (False, db)
         | Some g \<Rightarrow> db_Put R db (KeyGroup group_id) (SerializeGroupData J (g\<lparr>gd_owner_id := new_owner_id\<rparr>))))"

text \<open>The user ids of the member keys of a group, as \<^verbatim>\<open>DeleteGroup\<close> and \<^verbatim>\<open>DissolveGroup\<close> collect them.\<close>

definition member_key_ids :: "'db rocksdb \<Rightarrow> 'db \<Rightarrow> string \<Rightarrow> string list" where
  "member_key_ids R db group_id =
     (let pos = length (PrefixGroupMember group_id)
      in List.map_filter (\<lambda>e. if pos < length (fst e) then Some (drop pos (fst e)) else None)
           (scan_prefix R db (PrefixGroupMember group_id)))"

definition RocksDBGroupStore_DeleteGroup :: "'db rocksdb \<Rightarrow> 'db \<Rightarrow> string \<Rightarrow> bool \<times> 'db" where
  "RocksDBGroupStore_DeleteGroup R db group_id =
     (if group_id = [] then (False, db)
      else
        (let user_ids = member_key_ids R db group_id
         in db_Write R db
              (BDelete (KeyGroup group_id)
               # concat (map (\<lambda>uid. [BDelete (KeyGroupMember group_id uid), BDelete (KeyUserGroup uid group_id)]) user_ids))))"

definition RocksDBGroupStore_DissolveGroup :: "'db rocksdb \<Rightarrow> 'j nlohmann \<Rightarrow> 'db \<Rightarrow> string \<Rightarrow> bool \<times> 'db" where
  "RocksDBGroupStore_DissolveGroup R J db group_id =
     (if group_id = [] then (False, db)
      else
        (case RocksDBGroupStore_GetGroup R J db group_id of
           None \<Rightarrow> (False, db)
         | Some g \<Rightarrow>
             if gd_status g = 1 then (True, db)
             else
               (let user_ids = member_key_ids R db group_id
                in db_Write R db
                     (BPut (KeyGroup group_id) (SerializeGroupData J (g\<lparr>gd_status := 1, gd_member_count := 0\<rparr>))
                      # concat (map (\<lambda>uid. [BDelete (KeyGroupMember group_id uid), BDelete (KeyUserGroup uid group_id)]) user_ids)))))"

section \<open>Members\<close>

definition RocksDBGroupStore_AddMember :: "'db rocksdb \<Rightarrow> 'j nlohmann \<Rightarrow> 'db \<Rightarrow> string \<Rightarrow> GroupMemberData \<Rightarrow> bool \<times> 'db" where
  "RocksDBGroupStore_AddMember R J db group_id member =
     (if group_id = [] \<or> gm_user_id member = [] then (False, db)
      else if db_Get R db (KeyGroupMember group_id (gm_user_id member)) \<noteq> None then (False, db)
      else
        (case RocksDBGroupStore_GetGroup R J db group_id of
           None \<Rightarrow> (False, db)
         | Some g \<Rightarrow>
             db_Write R db
               [BPut (KeyGroupMember group_id (gm_user_id member)) (SerializeMember J member),
                BPut (KeyUserGroup (gm_user_id member) group_id) [],
                BPut (KeyGroup group_id)
                  (SerializeGroupData J (g\<lparr>gd_member_count := wrap32 (gd_member_count g + 1), gd_updated_at := 0\<rparr>))]))"

definition RocksDBGroupStore_RemoveMember :: "'db rocksdb \<Rightarrow> 'j nlohmann \<Rightarrow> 'db \<Rightarrow> string \<Rightarrow> string \<Rightarrow> bool \<times> 'db" where
  "RocksDBGroupStore_RemoveMember R J db group_id user_id =
     (if group_id = [] \<or> user_id = [] then (False, db)
      else if db_Get R db (KeyGroupMember group_id user_id) = None then (False, db)
      else
        (case RocksDBGroupStore_GetGroup R J db group_id of
           None \<Rightarrow> (False, db)
         | Some g \<Rightarrow>
             db_Write R db
               [BDelete (KeyGroupMember group_id user_id),
                BDelete (KeyUserGroup user_id group_id),
                BPut (KeyGroup group_id)
                  (SerializeGroupData J (g\<lparr>gd_member_count := max 0 (wrap32 (gd_member_count g - 1))\<rparr>))]))"

definition RocksDBGroupStore_GetMember :: "'db rocksdb \<Rightarrow> 'j nlohmann \<Rightarrow> 'db \<Rightarrow> string \<Rightarrow> string \<Rightarrow> GroupMemberData option" where
  "RocksDBGroupStore_GetMember R J db group_id user_id =
     (if group_id = [] \<or> user_id = [] then None
      else (case db_Get R db (KeyGroupMember group_id user_id) of
              None \<Rightarrow> None
            | Some val \<Rightarrow> DeserializeMember J val))"

text \<open>The page of a vector: \<open>None\<close> where the \<^verbatim>\<open>int\<close> arithmetic overflows.\<close>

definition page_of :: "'a list \<Rightarrow> int \<Rightarrow> int \<Rightarrow> 'a list option" where
  "page_of all_items page0 page_size0 =
     (let page = (if page0 \<le> 0 then 1 else page0);
          page_size = (if page_size0 \<le> 0 then 50 else page_size0);
          offset = (page - 1) * page_size;
          size = wrap32 (int (length all_items))
      in if \<not> is_int32 offset then None
         else if offset \<ge> size then Some []
         else if \<not> is_int32 (offset + page_size) then None
         else
           (let stop = min (offset + page_size) size
            in Some (take (nat (stop - offset)) (drop (nat offset) all_items))))"

definition RocksDBGroupStore_GetMembers ::
  "'db rocksdb \<Rightarrow> 'j nlohmann \<Rightarrow> 'db \<Rightarrow> string \<Rightarrow> int \<Rightarrow> int \<Rightarrow> (GroupMemberData list \<times> int option) option" where
  "RocksDBGroupStore_GetMembers R J db group_id page page_size =
     (if group_id = [] then Some ([], None)
      else
        (let all_members = List.map_filter (\<lambda>e. DeserializeMember J (snd e)) (scan_prefix R db (PrefixGroupMember group_id));
             total = wrap32 (int (length all_members))
         in map_option (\<lambda>ms. (ms, Some total)) (page_of all_members page page_size)))"

definition RocksDBGroupStore_UpdateMemberRole ::
  "'db rocksdb \<Rightarrow> 'j nlohmann \<Rightarrow> 'db \<Rightarrow> string \<Rightarrow> string \<Rightarrow> int \<Rightarrow> bool \<times> 'db" where
  "RocksDBGroupStore_UpdateMemberRole R J db group_id user_id role =
     (if group_id = [] \<or> user_id = [] then (False, db)
      else
        (case RocksDBGroupStore_GetMember R J db group_id user_id of
           None \<Rightarrow> (False, db)
         | Some m \<Rightarrow> db_Put R db (KeyGroupMember group_id user_id) (SerializeMember J (m\<lparr>gm_role := role\<rparr>))))"

definition RocksDBGroupStore_IsMember :: "'db rocksdb \<Rightarrow> 'db \<Rightarrow> string \<Rightarrow> string \<Rightarrow> bool" where
  "RocksDBGroupStore_IsMember R db group_id user_id =
     (if group_id = [] \<or> user_id = [] then False
      else db_Get R db (KeyGroupMember group_id user_id) \<noteq> None)"

definition RocksDBGroupStore_GetUserGroupIds :: "'db rocksdb \<Rightarrow> 'db \<Rightarrow> string \<Rightarrow> string list" where
  "RocksDBGroupStore_GetUserGroupIds R db user_id =
     (if user_id = [] then []
      else
        (let pos = length (PrefixUserGroups user_id)
         in List.map_filter (\<lambda>e. if pos < length (fst e) then Some (drop pos (fst e)) else None)
              (scan_prefix R db (PrefixUserGroups user_id))))"

definition RocksDBGroupStore :: "'db rocksdb \<Rightarrow> 'j nlohmann \<Rightarrow> 'db GroupStore" where
  "RocksDBGroupStore R J =
     \<lparr>gs_CreateGroup = RocksDBGroupStore_CreateGroup R J, gs_GetGroup = RocksDBGroupStore_GetGroup R J,
      gs_UpdateGroup = RocksDBGroupStore_UpdateGroup R J, gs_UpdateGroupOwner = RocksDBGroupStore_UpdateGroupOwner R J,
      gs_DeleteGroup = RocksDBGroupStore_DeleteGroup R, gs_DissolveGroup = RocksDBGroupStore_DissolveGroup R J,
      gs_AddMember = RocksDBGroupStore_AddMember R J, gs_RemoveMember = RocksDBGroupStore_RemoveMember R J,
      gs_GetMember = RocksDBGroupStore_GetMember R J, gs_GetMembers = RocksDBGroupStore_GetMembers R J,
      gs_UpdateMemberRole = RocksDBGroupStore_UpdateMemberRole R J, gs_IsMember = RocksDBGroupStore_IsMember R,
      gs_GetUserGroupIds = RocksDBGroupStore_GetUserGroupIds R\<rparr>"

lemma RocksDBGroupStore_simps [simp]:
  "gs_CreateGroup (RocksDBGroupStore R J) = RocksDBGroupStore_CreateGroup R J"
  "gs_GetGroup (RocksDBGroupStore R J) = RocksDBGroupStore_GetGroup R J"
  "gs_UpdateGroup (RocksDBGroupStore R J) = RocksDBGroupStore_UpdateGroup R J"
  "gs_UpdateGroupOwner (RocksDBGroupStore R J) = RocksDBGroupStore_UpdateGroupOwner R J"
  "gs_DeleteGroup (RocksDBGroupStore R J) = RocksDBGroupStore_DeleteGroup R"
  "gs_DissolveGroup (RocksDBGroupStore R J) = RocksDBGroupStore_DissolveGroup R J"
  "gs_AddMember (RocksDBGroupStore R J) = RocksDBGroupStore_AddMember R J"
  "gs_RemoveMember (RocksDBGroupStore R J) = RocksDBGroupStore_RemoveMember R J"
  "gs_GetMember (RocksDBGroupStore R J) = RocksDBGroupStore_GetMember R J"
  "gs_GetMembers (RocksDBGroupStore R J) = RocksDBGroupStore_GetMembers R J"
  "gs_UpdateMemberRole (RocksDBGroupStore R J) = RocksDBGroupStore_UpdateMemberRole R J"
  "gs_IsMember (RocksDBGroupStore R J) = RocksDBGroupStore_IsMember R"
  "gs_GetUserGroupIds (RocksDBGroupStore R J) = RocksDBGroupStore_GetUserGroupIds R"
  by (simp_all add: RocksDBGroupStore_def)

end
