(* ===== verification/Group_Store_Laws.thy ===== *)
theory Group_Store_Laws
  imports Group_Store
begin

text \<open>
  What the group store promises.  The abstract state has the groups and the memberships; the
  locale \<open>group_store\<close> gives every operation as a function on it, and \<open>RocksDBGroupStore\<close>
  refines it on the databases that satisfy \<open>group_inv\<close>: every key has the form of its table, its
  value parses to the record the key names, a member key belongs to an existing group, and the
  index of a user's groups has exactly the memberships.
\<close>

section \<open>The abstract store\<close>

record GroupState =
  ag_group :: "string \<Rightarrow> GroupData option"
  ag_member :: "string \<times> string \<Rightarrow> GroupMemberData option"

definition group_ok :: "GroupData \<Rightarrow> bool" where
  "group_ok g \<longleftrightarrow> id_ok (gd_group_id g) \<and> gd_owner_id g \<noteq> [] \<and> is_int32 (gd_member_count g) \<and> is_int32 (gd_status g)
     \<and> is_int64 (gd_created_at g) \<and> is_int64 (gd_updated_at g)"

definition member_ok :: "GroupMemberData \<Rightarrow> bool" where
  "member_ok m \<longleftrightarrow> id_ok (gm_user_id m) \<and> is_int32 (gm_role m) \<and> is_int64 (gm_joined_at m)"

definition grown :: "GroupData \<Rightarrow> GroupData" where
  "grown g = g\<lparr>gd_member_count := wrap32 (gd_member_count g + 1), gd_updated_at := 0\<rparr>"

definition shrunk :: "GroupData \<Rightarrow> GroupData" where
  "shrunk g = g\<lparr>gd_member_count := max 0 (wrap32 (gd_member_count g - 1))\<rparr>"

definition without_members :: "string \<Rightarrow> (string \<times> string \<Rightarrow> GroupMemberData option) \<Rightarrow> string \<times> string \<Rightarrow> GroupMemberData option" where
  "without_members gid mem k = (if fst k = gid then None else mem k)"

locale group_store =
  fixes GS :: "'s GroupStore" and inv :: "'s \<Rightarrow> bool" and abs :: "'s \<Rightarrow> GroupState"
  assumes group_data: "inv s \<Longrightarrow> ag_group (abs s) gid = Some g \<Longrightarrow> gd_group_id g = gid \<and> group_ok g"
    and member_data: "inv s \<Longrightarrow> ag_member (abs s) (gid, uid) = Some m \<Longrightarrow>
      gm_user_id m = uid \<and> member_ok m \<and> id_ok gid \<and> ag_group (abs s) gid \<noteq> None"
    and get_group: "inv s \<Longrightarrow> gs_GetGroup GS s gid = ag_group (abs s) gid"
    and get_member: "inv s \<Longrightarrow> id_ok gid \<Longrightarrow> gs_GetMember GS s gid uid = ag_member (abs s) (gid, uid)"
    and is_member: "inv s \<Longrightarrow> id_ok gid \<Longrightarrow> gs_IsMember GS s gid uid \<longleftrightarrow> ag_member (abs s) (gid, uid) \<noteq> None"
    and get_members: "inv s \<Longrightarrow> id_ok gid \<Longrightarrow> \<exists>ms. sorted_wrt (<) (map gm_user_id ms) \<and>
      set ms = {m. \<exists>uid. ag_member (abs s) (gid, uid) = Some m} \<and>
      (\<forall>page page_size. gs_GetMembers GS s gid page page_size =
         map_option (\<lambda>l. (l, Some (wrap32 (int (length ms))))) (page_of ms page page_size))"
    and user_groups: "inv s \<Longrightarrow> id_ok uid \<Longrightarrow> set (gs_GetUserGroupIds GS s uid) = {gid. ag_member (abs s) (gid, uid) \<noteq> None}"
    and create_group: "inv s \<Longrightarrow> gs_CreateGroup GS s g = (ok, s') \<Longrightarrow> group_ok g \<Longrightarrow>
      inv s' \<and> (ok \<longrightarrow> ag_group (abs s) (gd_group_id g) = None) \<and>
      abs s' = (if ok then (abs s)\<lparr>ag_group := (ag_group (abs s))(gd_group_id g \<mapsto> g)\<rparr> else abs s)"
    and update_group: "inv s \<Longrightarrow> gs_UpdateGroup GS s gid name avatar ann upd = (ok, s') \<Longrightarrow> is_int64 upd \<Longrightarrow>
      inv s' \<and> (case ag_group (abs s) gid of
          None \<Rightarrow> \<not> ok \<and> abs s' = abs s
        | Some g \<Rightarrow> abs s' = (if ok then (abs s)\<lparr>ag_group := (ag_group (abs s))(gid \<mapsto> edit_group g name avatar ann upd)\<rparr> else abs s))"
    and update_owner: "inv s \<Longrightarrow> gs_UpdateGroupOwner GS s gid new_owner = (ok, s') \<Longrightarrow>
      inv s' \<and> (case ag_group (abs s) gid of
          None \<Rightarrow> \<not> ok \<and> abs s' = abs s
        | Some g \<Rightarrow> abs s' = (if ok then (abs s)\<lparr>ag_group := (ag_group (abs s))(gid \<mapsto> g\<lparr>gd_owner_id := new_owner\<rparr>)\<rparr> else abs s))"
    and delete_group: "inv s \<Longrightarrow> gs_DeleteGroup GS s gid = (ok, s') \<Longrightarrow> id_ok gid \<Longrightarrow>
      inv s' \<and> abs s' = (if ok then \<lparr>ag_group = (ag_group (abs s))(gid := None), ag_member = without_members gid (ag_member (abs s))\<rparr> else abs s)"
    and dissolve_group: "inv s \<Longrightarrow> gs_DissolveGroup GS s gid = (ok, s') \<Longrightarrow>
      inv s' \<and> (case ag_group (abs s) gid of
          None \<Rightarrow> \<not> ok \<and> abs s' = abs s
        | Some g \<Rightarrow> if gd_status g = 1 then ok \<and> s' = s
            else abs s' = (if ok then \<lparr>ag_group = (ag_group (abs s))(gid \<mapsto> g\<lparr>gd_status := 1, gd_member_count := 0\<rparr>),
                ag_member = without_members gid (ag_member (abs s))\<rparr> else abs s))"
    and add_member: "inv s \<Longrightarrow> gs_AddMember GS s gid m = (ok, s') \<Longrightarrow> id_ok gid \<Longrightarrow> member_ok m \<Longrightarrow>
      inv s' \<and> (if ok then ag_member (abs s) (gid, gm_user_id m) = None \<and> (\<exists>g. ag_group (abs s) gid = Some g \<and>
          abs s' = \<lparr>ag_group = (ag_group (abs s))(gid \<mapsto> grown g), ag_member = (ag_member (abs s))((gid, gm_user_id m) \<mapsto> m)\<rparr>)
        else abs s' = abs s)"
    and remove_member: "inv s \<Longrightarrow> gs_RemoveMember GS s gid uid = (ok, s') \<Longrightarrow> id_ok gid \<Longrightarrow>
      inv s' \<and> (if ok then ag_member (abs s) (gid, uid) \<noteq> None \<and> (\<exists>g. ag_group (abs s) gid = Some g \<and>
          abs s' = \<lparr>ag_group = (ag_group (abs s))(gid \<mapsto> shrunk g), ag_member = (ag_member (abs s))((gid, uid) := None)\<rparr>)
        else abs s' = abs s)"
    and update_role: "inv s \<Longrightarrow> gs_UpdateMemberRole GS s gid uid role = (ok, s') \<Longrightarrow> id_ok gid \<Longrightarrow> is_int32 role \<Longrightarrow>
      inv s' \<and> (case ag_member (abs s) (gid, uid) of
          None \<Rightarrow> \<not> ok \<and> abs s' = abs s
        | Some m \<Rightarrow> abs s' = (if ok then (abs s)\<lparr>ag_member := (ag_member (abs s))((gid, uid) \<mapsto> m\<lparr>gm_role := role\<rparr>)\<rparr> else abs s))"

section \<open>The invariant of the database\<close>

definition group_table :: "'j nlohmann \<Rightarrow> (string \<Rightarrow> string option) \<Rightarrow> bool" where
  "group_table J m \<longleftrightarrow> (\<forall>x v. m (K_GROUP @ x) = Some v \<longrightarrow> (\<exists>g. DeserializeGroupData J v = Some g \<and> gd_group_id g = x \<and> group_ok g))"

definition member_table :: "'j nlohmann \<Rightarrow> (string \<Rightarrow> string option) \<Rightarrow> bool" where
  "member_table J m \<longleftrightarrow> (\<forall>x v. m (K_GROUP_MEMBER @ x) = Some v \<longrightarrow>
     (\<exists>gid d. DeserializeMember J v = Some d \<and> x = gid @ CHR '':'' # gm_user_id d \<and> id_ok gid \<and> member_ok d \<and> m (K_GROUP @ gid) \<noteq> None))"

definition index_table :: "(string \<Rightarrow> string option) \<Rightarrow> bool" where
  "index_table m \<longleftrightarrow>
     (\<forall>x. m (K_USER_GROUPS @ x) \<noteq> None \<longrightarrow> (\<exists>uid gid. x = uid @ CHR '':'' # gid \<and> id_ok uid \<and> id_ok gid)) \<and>
     (\<forall>uid gid. id_ok uid \<longrightarrow> id_ok gid \<longrightarrow>
        (m (K_USER_GROUPS @ uid @ CHR '':'' # gid) \<noteq> None) = (m (K_GROUP_MEMBER @ gid @ CHR '':'' # uid) \<noteq> None))"

definition gmap_inv :: "'j nlohmann \<Rightarrow> (string \<Rightarrow> string option) \<Rightarrow> bool" where
  "gmap_inv J m \<longleftrightarrow> group_table J m \<and> member_table J m \<and> index_table m"

definition group_inv :: "'db rocksdb \<Rightarrow> 'j nlohmann \<Rightarrow> 'db \<Rightarrow> bool" where
  "group_inv R J db \<longleftrightarrow> gmap_inv J (db_Get R db)"

definition gmap_abs :: "'j nlohmann \<Rightarrow> (string \<Rightarrow> string option) \<Rightarrow> GroupState" where
  "gmap_abs J m =
     \<lparr>ag_group = (\<lambda>gid. if gid = [] then None else Option.bind (m (KeyGroup gid)) (DeserializeGroupData J)),
      ag_member = (\<lambda>(gid, uid). if id_ok gid \<and> uid \<noteq> [] then Option.bind (m (KeyGroupMember gid uid)) (DeserializeMember J) else None)\<rparr>"

definition group_abs :: "'db rocksdb \<Rightarrow> 'j nlohmann \<Rightarrow> 'db \<Rightarrow> GroupState" where
  "group_abs R J db = gmap_abs J (db_Get R db)"

lemmas group_prefixes = K_GROUP_def K_GROUP_MEMBER_def K_USER_GROUPS_def
lemmas group_keys = KeyGroup_def KeyGroupMember_def KeyUserGroup_def PrefixGroupMember_def PrefixUserGroups_def
lemmas group_view = group_inv_def group_abs_def

lemma group_tables_disjoint [simp]:
  "K_GROUP @ a \<noteq> K_GROUP_MEMBER @ b" "K_GROUP @ a \<noteq> K_USER_GROUPS @ b"
  "K_GROUP_MEMBER @ a \<noteq> K_GROUP @ b" "K_GROUP_MEMBER @ a \<noteq> K_USER_GROUPS @ b"
  "K_USER_GROUPS @ a \<noteq> K_GROUP @ b" "K_USER_GROUPS @ a \<noteq> K_GROUP_MEMBER @ b"
  by (simp_all add: group_prefixes)

declare id_first_eq [simp]

text \<open>Reading.\<close>

lemma group_table_get:
  "gmap_inv J m \<Longrightarrow> m (KeyGroup gid) = Some v \<Longrightarrow> \<exists>g. DeserializeGroupData J v = Some g \<and> gd_group_id g = gid \<and> group_ok g"
  by (auto simp: gmap_inv_def group_table_def KeyGroup_def)

lemma member_table_get:
  assumes "gmap_inv J m" "m (KeyGroupMember gid uid) = Some v" "id_ok gid"
  shows "\<exists>d. DeserializeMember J v = Some d \<and> gm_user_id d = uid \<and> member_ok d \<and> m (KeyGroup gid) \<noteq> None"
proof -
  obtain gid' d where d: "DeserializeMember J v = Some d" "gid @ CHR '':'' # uid = gid' @ CHR '':'' # gm_user_id d" "id_ok gid'"
    "member_ok d" "m (K_GROUP @ gid') \<noteq> None"
    using assms(1,2) unfolding gmap_inv_def member_table_def KeyGroupMember_def by fastforce
  with assms(3) show ?thesis by (auto simp: KeyGroup_def)
qed

lemma ag_group_iff:
  assumes "gmap_inv J m"
  shows "ag_group (gmap_abs J m) gid = Some g \<longleftrightarrow> (\<exists>v. m (KeyGroup gid) = Some v \<and> DeserializeGroupData J v = Some g)"
    and "ag_group (gmap_abs J m) gid = None \<longleftrightarrow> m (KeyGroup gid) = None"
proof -
  have "m (KeyGroup []) = None"
    using group_table_get [OF assms, of "[]"] by (cases "m (KeyGroup [])") (auto simp: group_ok_def id_ok_def)
  then show "ag_group (gmap_abs J m) gid = Some g \<longleftrightarrow> (\<exists>v. m (KeyGroup gid) = Some v \<and> DeserializeGroupData J v = Some g)"
    and "ag_group (gmap_abs J m) gid = None \<longleftrightarrow> m (KeyGroup gid) = None"
    using group_table_get [OF assms, of gid] by (cases "m (KeyGroup gid)"; auto simp: gmap_abs_def)+
qed

lemma ag_member_iff:
  assumes "gmap_inv J m"
  shows "ag_member (gmap_abs J m) (gid, uid) = Some d \<longleftrightarrow> id_ok gid \<and> (\<exists>v. m (KeyGroupMember gid uid) = Some v \<and> DeserializeMember J v = Some d)"
    and "id_ok gid \<Longrightarrow> ag_member (gmap_abs J m) (gid, uid) = None \<longleftrightarrow> m (KeyGroupMember gid uid) = None"
proof -
  have "uid \<noteq> []" if "m (KeyGroupMember gid uid) = Some v" "id_ok gid" for v
    using member_table_get [OF assms that] by (auto simp: member_ok_def id_ok_def)
  then show "ag_member (gmap_abs J m) (gid, uid) = Some d \<longleftrightarrow> id_ok gid \<and> (\<exists>v. m (KeyGroupMember gid uid) = Some v \<and> DeserializeMember J v = Some d)"
    and "id_ok gid \<Longrightarrow> ag_member (gmap_abs J m) (gid, uid) = None \<longleftrightarrow> m (KeyGroupMember gid uid) = None"
    using member_table_get [OF assms, of gid uid]
    by (cases "m (KeyGroupMember gid uid)"; auto simp: gmap_abs_def)+
qed

section \<open>Effect of the writes on invariant and abstract state\<close>

lemma gmap_abs_group: "gid \<noteq> [] \<Longrightarrow> gmap_abs J (m(KeyGroup gid := v)) =
    (gmap_abs J m)\<lparr>ag_group := (ag_group (gmap_abs J m))(gid := Option.bind v (DeserializeGroupData J))\<rparr>"
  by (auto simp: gmap_abs_def group_keys fun_eq_iff)

lemma gmap_abs_member: "id_ok gid \<Longrightarrow> uid \<noteq> [] \<Longrightarrow> gmap_abs J (m(KeyGroupMember gid uid := v)) =
    (gmap_abs J m)\<lparr>ag_member := (ag_member (gmap_abs J m))((gid, uid) := Option.bind v (DeserializeMember J))\<rparr>"
  by (auto simp: gmap_abs_def group_keys fun_eq_iff)

lemma gmap_abs_index: "gmap_abs J (m(KeyUserGroup uid gid := v)) = gmap_abs J m"
  by (auto simp: gmap_abs_def group_keys fun_eq_iff)

lemma member_table_mono:
  assumes "member_table J m" "\<And>x. m' (K_GROUP_MEMBER @ x) = m (K_GROUP_MEMBER @ x)"
    "\<And>x. m (K_GROUP @ x) \<noteq> None \<Longrightarrow> m' (K_GROUP @ x) \<noteq> None"
  shows "member_table J m'"
  unfolding member_table_def
proof (intro allI impI)
  fix x v
  assume "m' (K_GROUP_MEMBER @ x) = Some v"
  then obtain gid d where "DeserializeMember J v = Some d" "x = gid @ CHR '':'' # gm_user_id d" "id_ok gid" "member_ok d" "m (K_GROUP @ gid) \<noteq> None"
    using assms(1) unfolding member_table_def assms(2) by blast
  with assms(3) [of gid] show "\<exists>gid d. DeserializeMember J v = Some d \<and> x = gid @ CHR '':'' # gm_user_id d \<and> id_ok gid \<and> member_ok d \<and> m' (K_GROUP @ gid) \<noteq> None"
    by blast
qed

lemmas gmap_abs_writes = gmap_abs_group gmap_abs_member gmap_abs_index

context json_laws
begin

lemma DeserializeGroupData_Serialize: "group_ok g \<Longrightarrow> DeserializeGroupData J (SerializeGroupData J g) = Some g"
  by (simp add: DeserializeGroupData_def SerializeGroupData_def group_members_def json_simps group_ok_def is_int64_of_int32)

lemma DeserializeMember_Serialize: "member_ok d \<Longrightarrow> DeserializeMember J (SerializeMember J d) = Some d"
  by (simp add: DeserializeMember_def SerializeMember_def member_members_def json_simps member_ok_def is_int64_of_int32)

lemma gmap_inv_put_group:
  assumes "gmap_inv J m" "group_ok g"
  shows "gmap_inv J (m(KeyGroup (gd_group_id g) \<mapsto> SerializeGroupData J g))"
proof -
  let ?m = "m(KeyGroup (gd_group_id g) \<mapsto> SerializeGroupData J g)"
  have "group_table J ?m" using assms by (simp add: gmap_inv_def group_table_def group_keys DeserializeGroupData_Serialize)
  moreover have "member_table J ?m"
    by (rule member_table_mono [of J m]) (use assms(1) in \<open>simp_all add: gmap_inv_def group_keys\<close>)
  moreover have "index_table ?m" using assms(1) by (simp add: gmap_inv_def index_table_def group_keys)
  ultimately show ?thesis by (simp add: gmap_inv_def)
qed

lemma gmap_inv_put_member:
  assumes "gmap_inv J m" "id_ok gid" "member_ok d" "m (KeyGroup gid) \<noteq> None"
  shows "gmap_inv J (m(KeyGroupMember gid (gm_user_id d) \<mapsto> SerializeMember J d, KeyUserGroup (gm_user_id d) gid \<mapsto> []))"
    (is "gmap_inv J ?m")
proof -
  have u: "id_ok (gm_user_id d)" using assms(3) by (simp add: member_ok_def)
  have "group_table J ?m" using assms(1) by (simp add: gmap_inv_def group_table_def group_keys)
  moreover have "member_table J ?m"
    using assms by (simp add: gmap_inv_def member_table_def group_keys DeserializeMember_Serialize)
  moreover have "index_table ?m"
    using assms(1,2) u by (auto simp: gmap_inv_def index_table_def group_keys)
  ultimately show ?thesis by (simp add: gmap_inv_def)
qed

lemma gmap_inv_role:
  assumes "gmap_inv J m" "id_ok gid" "member_ok d" "m (KeyGroupMember gid (gm_user_id d)) \<noteq> None"
  shows "gmap_inv J (m(KeyGroupMember gid (gm_user_id d) \<mapsto> SerializeMember J d))" (is "gmap_inv J ?m")
proof -
  have "m (KeyGroup gid) \<noteq> None" using member_table_get [OF assms(1) _ assms(2), of "gm_user_id d"] assms(4) by auto
  then have "member_table J ?m"
    using assms by (simp add: gmap_inv_def member_table_def group_keys DeserializeMember_Serialize)
  moreover have "group_table J ?m" using assms(1) by (simp add: gmap_inv_def group_table_def group_keys)
  moreover have "index_table ?m" using assms by (auto simp: gmap_inv_def index_table_def group_keys)
  ultimately show ?thesis by (simp add: gmap_inv_def)
qed

lemma gmap_inv_del_member:
  assumes "gmap_inv J m" "id_ok gid" "id_ok uid"
  shows "gmap_inv J (m(KeyGroupMember gid uid := None, KeyUserGroup uid gid := None))" (is "gmap_inv J ?m")
proof -
  have "group_table J ?m" using assms(1) by (simp add: gmap_inv_def group_table_def group_keys)
  moreover have "member_table J ?m" using assms(1) by (simp add: gmap_inv_def member_table_def group_keys)
  moreover have "index_table ?m" using assms by (auto simp: gmap_inv_def index_table_def group_keys)
  ultimately show ?thesis by (simp add: gmap_inv_def)
qed

end

text \<open>Removing all members of a group, whatever happens to the group's own record.\<close>

definition drop_members :: "string \<Rightarrow> string list \<Rightarrow> (string \<Rightarrow> string option) \<Rightarrow> string \<Rightarrow> string option" where
  "drop_members gid us m k = (if k \<in> KeyGroupMember gid ` set us \<or> (\<exists>u \<in> set us. k = KeyUserGroup u gid) then None else m k)"

lemma apply_batch_drop_members:
  "apply_batch (concat (map (\<lambda>uid. [BDelete (KeyGroupMember gid uid), BDelete (KeyUserGroup uid gid)]) us)) m = drop_members gid us m"
  by (induction us arbitrary: m) (auto simp: drop_members_def fun_eq_iff)

lemma GroupState_both: "(a :: GroupState)\<lparr>ag_group := x, ag_member := y\<rparr> = \<lparr>ag_group = x, ag_member = y\<rparr>"
  by (cases a) simp

lemma drop_members_group: "drop_members gid us (m(KeyGroup g := v)) = (drop_members gid us m)(KeyGroup g := v)"
  by (auto simp: drop_members_def group_keys fun_eq_iff)

lemma drop_members_gone:
  assumes "gmap_inv J m" "id_ok gid" "set us = {u. m (KeyGroupMember gid u) \<noteq> None}"
  shows "drop_members gid us m (K_GROUP_MEMBER @ x) = (if \<exists>u. x = gid @ CHR '':'' # u then None else m (K_GROUP_MEMBER @ x))"
    and "drop_members gid us m (K_USER_GROUPS @ x) = (if \<exists>u \<in> set us. x = u @ CHR '':'' # gid then None else m (K_USER_GROUPS @ x))"
    and "drop_members gid us m (K_GROUP @ x) = m (K_GROUP @ x)"
proof -
  show "drop_members gid us m (K_GROUP_MEMBER @ x) = (if \<exists>u. x = gid @ CHR '':'' # u then None else m (K_GROUP_MEMBER @ x))"
    using assms(3) by (auto simp: drop_members_def group_keys)
qed (auto simp: drop_members_def group_keys)

lemma gmap_inv_drop_members:
  assumes inv: "gmap_inv J m" and gid: "id_ok gid" and us: "set us = {u. m (KeyGroupMember gid u) \<noteq> None}"
  shows "gmap_inv J (drop_members gid us m)" "gmap_inv J ((drop_members gid us m)(KeyGroup gid := None))"
    and "gmap_abs J (drop_members gid us m) = (gmap_abs J m)\<lparr>ag_member := without_members gid (ag_member (gmap_abs J m))\<rparr>"
proof -
  let ?m = "drop_members gid us m"
  note d = drop_members_gone [OF inv gid us]
  have us_ok: "id_ok u" if "u \<in> set us" for u
    using that us member_table_get [OF inv _ gid, of u] by (auto simp: member_ok_def)
  have mt: "\<exists>g' e. DeserializeMember J v = Some e \<and> x = g' @ CHR '':'' # gm_user_id e \<and> id_ok g' \<and> g' \<noteq> gid \<and> member_ok e \<and> m (K_GROUP @ g') \<noteq> None"
    if "?m (K_GROUP_MEMBER @ x) = Some v" for x v
  proof -
    have v: "m (K_GROUP_MEMBER @ x) = Some v" "\<nexists>u. x = gid @ CHR '':'' # u" using that d(1) [of x] by (auto split: if_splits)
    then obtain g' e where "DeserializeMember J v = Some e" "x = g' @ CHR '':'' # gm_user_id e" "id_ok g'" "member_ok e" "m (K_GROUP @ g') \<noteq> None"
      using inv unfolding gmap_inv_def member_table_def by blast
    with v(2) show ?thesis by blast
  qed
  have "index_table ?m"
    unfolding index_table_def
  proof (intro conjI allI impI)
    fix x
    assume "?m (K_USER_GROUPS @ x) \<noteq> None"
    then show "\<exists>uid g. x = uid @ CHR '':'' # g \<and> id_ok uid \<and> id_ok g"
      using inv d(2) [of x] unfolding gmap_inv_def index_table_def by (auto split: if_splits)
  next
    fix u g
    assume ug: "id_ok u" "id_ok g"
    have old: "(m (K_USER_GROUPS @ u @ CHR '':'' # g) \<noteq> None) = (m (K_GROUP_MEMBER @ g @ CHR '':'' # u) \<noteq> None)"
      using inv ug by (simp add: gmap_inv_def index_table_def)
    have a: "(\<exists>u' \<in> set us. u @ CHR '':'' # g = u' @ CHR '':'' # gid) \<longleftrightarrow> g = gid \<and> u \<in> set us"
      using us_ok ug by auto
    have b: "(\<exists>u'. g @ CHR '':'' # u = gid @ CHR '':'' # u') \<longleftrightarrow> g = gid" using ug gid by auto
    have c: "g = gid \<Longrightarrow> u \<in> set us \<longleftrightarrow> m (K_GROUP_MEMBER @ g @ CHR '':'' # u) \<noteq> None" using us by (simp add: KeyGroupMember_def)
    show "(?m (K_USER_GROUPS @ u @ CHR '':'' # g) \<noteq> None) = (?m (K_GROUP_MEMBER @ g @ CHR '':'' # u) \<noteq> None)"
      unfolding d a b using old c by auto
  qed
  moreover have "group_table J ?m" using inv by (simp add: gmap_inv_def group_table_def d(3))
  moreover have "member_table J ?m" unfolding member_table_def d(3) using mt by blast
  ultimately show "gmap_inv J ?m" by (simp add: gmap_inv_def)
  have "member_table J (?m(KeyGroup gid := None))"
    unfolding member_table_def
  proof (intro allI impI)
    fix x v
    assume "(?m(KeyGroup gid := None)) (K_GROUP_MEMBER @ x) = Some v"
    then have "?m (K_GROUP_MEMBER @ x) = Some v" by (simp add: KeyGroup_def)
    from mt [OF this] show "\<exists>g' e. DeserializeMember J v = Some e \<and> x = g' @ CHR '':'' # gm_user_id e \<and> id_ok g' \<and> member_ok e \<and>
        (?m(KeyGroup gid := None)) (K_GROUP @ g') \<noteq> None"
      by (fastforce simp: KeyGroup_def d(3))
  qed
  with \<open>group_table J ?m\<close> \<open>index_table ?m\<close> show "gmap_inv J (?m(KeyGroup gid := None))"
    by (simp add: gmap_inv_def group_table_def index_table_def KeyGroup_def)
  show "gmap_abs J ?m = (gmap_abs J m)\<lparr>ag_member := without_members gid (ag_member (gmap_abs J m))\<rparr>"
    using gid by (auto simp: gmap_abs_def group_keys without_members_def fun_eq_iff d)
qed

section \<open>The operations of the implementation\<close>

lemma group_scan_key: "PrefixGroupMember gid @ x = KeyGroupMember gid x" "PrefixUserGroups uid @ x = KeyUserGroup uid x"
  by (simp_all add: group_keys)

text \<open>The suffixes of the non-trivial keys with a prefix.\<close>

definition key_suffix :: "string \<Rightarrow> string \<times> string \<Rightarrow> string option" where
  "key_suffix p e = (if length p < length (fst e) then Some (drop (length p) (fst e)) else None)"

lemma key_suffix_append [simp]: "key_suffix p (p @ x, v) = (if x = [] then None else Some x)"
  by (simp add: key_suffix_def)

context store_env
begin

lemma gs_get_group: "group_inv R J db \<Longrightarrow> RocksDBGroupStore_GetGroup R J db gid = ag_group (group_abs R J db) gid"
  by (simp add: RocksDBGroupStore_GetGroup_def group_abs_def gmap_abs_def split: option.splits)

lemma gs_get_member: "group_inv R J db \<Longrightarrow> id_ok gid \<Longrightarrow> RocksDBGroupStore_GetMember R J db gid uid = ag_member (group_abs R J db) (gid, uid)"
  by (auto simp: RocksDBGroupStore_GetMember_def group_abs_def gmap_abs_def id_ok_def split: option.splits)

lemma gs_is_member: "group_inv R J db \<Longrightarrow> id_ok gid \<Longrightarrow> RocksDBGroupStore_IsMember R db gid uid \<longleftrightarrow> ag_member (group_abs R J db) (gid, uid) \<noteq> None"
  using ag_member_iff(2) [of J "db_Get R db" gid uid]
  by (cases "uid = []") (auto simp: RocksDBGroupStore_IsMember_def group_view id_ok_def gmap_abs_def)

lemma gs_member_key_ids:
  assumes "group_inv R J db" "id_ok gid"
  shows "set (member_key_ids R db gid) = {u. db_Get R db (KeyGroupMember gid u) \<noteq> None}"
proof -
  have "x \<noteq> []" if "db_Get R db (KeyGroupMember gid x) = Some v" for x v
    using member_table_get [of J "db_Get R db" gid x v] that assms by (auto simp: group_view member_ok_def id_ok_def)
  moreover have "member_key_ids R db gid = List.map_filter (key_suffix (PrefixGroupMember gid)) (scan_prefix R db (PrefixGroupMember gid))"
    by (simp add: member_key_ids_def key_suffix_def [abs_def] Let_def)
  ultimately show ?thesis by (simp only: set_scan_prefix key_suffix_append) (auto simp: group_scan_key split: if_splits)
qed

lemma gs_user_groups:
  assumes "group_inv R J db" "id_ok uid"
  shows "set (RocksDBGroupStore_GetUserGroupIds R db uid) = {gid. ag_member (group_abs R J db) (gid, uid) \<noteq> None}"
proof -
  have inv: "gmap_inv J (db_Get R db)" using assms(1) by (simp add: group_view)
  have i: "db_Get R db (KeyUserGroup uid gid) \<noteq> None \<longleftrightarrow> id_ok gid \<and> db_Get R db (KeyGroupMember gid uid) \<noteq> None" for gid
  proof
    assume "db_Get R db (KeyUserGroup uid gid) \<noteq> None"
    moreover from this have "db_Get R db (K_USER_GROUPS @ (uid @ CHR '':'' # gid)) \<noteq> None" by (simp add: KeyUserGroup_def)
    then obtain u g where "uid @ CHR '':'' # gid = u @ CHR '':'' # g" "id_ok u" "id_ok g"
      using inv unfolding gmap_inv_def index_table_def by blast
    ultimately show "id_ok gid \<and> db_Get R db (KeyGroupMember gid uid) \<noteq> None"
      using assms(2) inv by (simp add: gmap_inv_def index_table_def group_keys)
  qed (use assms(2) inv in \<open>simp add: gmap_inv_def index_table_def group_keys\<close>)
  have "RocksDBGroupStore_GetUserGroupIds R db uid = List.map_filter (key_suffix (PrefixUserGroups uid)) (scan_prefix R db (PrefixUserGroups uid))"
    using assms(2) by (simp add: RocksDBGroupStore_GetUserGroupIds_def key_suffix_def [abs_def] Let_def id_ok_def)
  then have "set (RocksDBGroupStore_GetUserGroupIds R db uid) = {gid. gid \<noteq> [] \<and> db_Get R db (KeyUserGroup uid gid) \<noteq> None}"
    by (simp only: set_scan_prefix key_suffix_append) (auto simp: group_scan_key split: if_splits)
  also have "\<dots> = {gid. ag_member (group_abs R J db) (gid, uid) \<noteq> None}"
  proof -
    have "ag_member (group_abs R J db) (gid, uid) \<noteq> None \<longleftrightarrow> gid \<noteq> [] \<and> id_ok gid \<and> db_Get R db (KeyGroupMember gid uid) \<noteq> None" for gid
      using ag_member_iff(2) [OF inv, of gid uid] by (cases "id_ok gid") (auto simp: group_abs_def gmap_abs_def id_ok_def)
    then show ?thesis unfolding i by blast
  qed
  finally show ?thesis .
qed

lemma gs_get_members:
  assumes "group_inv R J db" "id_ok gid"
  shows "\<exists>ms. sorted_wrt (<) (map gm_user_id ms) \<and> set ms = {m. \<exists>uid. ag_member (group_abs R J db) (gid, uid) = Some m} \<and>
      (\<forall>page page_size. RocksDBGroupStore_GetMembers R J db gid page page_size =
         map_option (\<lambda>l. (l, Some (wrap32 (int (length ms))))) (page_of ms page page_size))"
proof -
  have inv: "gmap_inv J (db_Get R db)" using assms(1) by (simp add: group_view)
  let ?es = "scan_prefix R db (PrefixGroupMember gid)"
  let ?ms = "List.map_filter (\<lambda>e. DeserializeMember J (snd e)) ?es"
  have "map (\<lambda>m. PrefixGroupMember gid @ gm_user_id m) ?ms = map fst ?es"
  proof -
    have "\<exists>d. DeserializeMember J (snd e) = Some d \<and> PrefixGroupMember gid @ gm_user_id d = fst e" if "e \<in> set ?es" for e
    proof -
      obtain k v where e: "e = (k, v)" by (cases e)
      with that obtain x where x: "k = PrefixGroupMember gid @ x" "db_Get R db (KeyGroupMember gid x) = Some v"
        by (auto simp: in_scan_prefix prefix_def group_scan_key)
      from member_table_get [OF inv x(2) assms(2)] x(1) e show ?thesis by auto
    qed
    then show ?thesis by (intro map_filter_total) blast
  qed
  then have "sorted_wrt (<) (map (\<lambda>m. PrefixGroupMember gid @ gm_user_id m) ?ms)" by (simp add: sorted_scan_prefix)
  then have "sorted_wrt (<) (map gm_user_id ?ms)" by (simp add: sorted_wrt_map append_less_iff)
  moreover have "set ?ms = {m. \<exists>uid. ag_member (group_abs R J db) (gid, uid) = Some m}"
    using assms(2) by (auto simp: set_scan_prefix group_scan_key group_abs_def ag_member_iff(1) [OF inv])
  moreover have "gid \<noteq> []" using assms(2) by (simp add: id_ok_def)
  ultimately show ?thesis by (intro exI [of _ ?ms]) (simp add: RocksDBGroupStore_GetMembers_def Let_def)
qed

text \<open>Rewriting the record of an existing group.\<close>

lemma gs_rewrite_group:
  assumes "group_inv R J db" "group_ok g" "db_Put R db (KeyGroup (gd_group_id g)) (SerializeGroupData J g) = (ok, db')"
  shows "group_inv R J db' \<and> group_abs R J db' =
    (if ok then (group_abs R J db)\<lparr>ag_group := (ag_group (group_abs R J db))(gd_group_id g \<mapsto> g)\<rparr> else group_abs R J db)"
proof -
  have "gd_group_id g \<noteq> []" using assms(2) by (simp add: group_ok_def id_ok_def)
  with assms(1) put_get [OF assms(3)] gmap_inv_put_group [OF _ assms(2)] show ?thesis
    by (auto simp: group_view gmap_abs_writes DeserializeGroupData_Serialize [OF assms(2)])
qed

lemma gs_group_data: "group_inv R J db \<Longrightarrow> ag_group (group_abs R J db) gid = Some g \<Longrightarrow> gd_group_id g = gid \<and> group_ok g"
  using group_table_get [of J "db_Get R db" gid] by (auto simp: group_view ag_group_iff(1))

lemma gs_member_data:
  assumes "group_inv R J db" "ag_member (group_abs R J db) (gid, uid) = Some m"
  shows "gm_user_id m = uid \<and> member_ok m \<and> id_ok gid \<and> ag_group (group_abs R J db) gid \<noteq> None"
proof -
  have inv: "gmap_inv J (db_Get R db)" using assms(1) by (simp add: group_view)
  obtain v where v: "id_ok gid" "db_Get R db (KeyGroupMember gid uid) = Some v" "DeserializeMember J v = Some m"
    using assms(2) by (auto simp: group_abs_def ag_member_iff(1) [OF inv])
  with member_table_get [OF inv v(2,1)] ag_group_iff(2) [OF inv, of gid] show ?thesis by (auto simp: group_abs_def)
qed

lemma gs_create_group:
  assumes "group_inv R J db" "RocksDBGroupStore_CreateGroup R J db g = (ok, db')" "group_ok g"
  shows "group_inv R J db' \<and> (ok \<longrightarrow> ag_group (group_abs R J db) (gd_group_id g) = None) \<and>
    group_abs R J db' = (if ok then (group_abs R J db)\<lparr>ag_group := (ag_group (group_abs R J db))(gd_group_id g \<mapsto> g)\<rparr> else group_abs R J db)"
proof (cases "db_Get R db (KeyGroup (gd_group_id g))")
  case (Some v)
  with assms show ?thesis by (auto simp: RocksDBGroupStore_CreateGroup_def split: if_splits)
next
  case None
  have w: "db_Put R db (KeyGroup (gd_group_id g)) (SerializeGroupData J g) = (ok, db')"
    using assms(2,3) None by (simp add: RocksDBGroupStore_CreateGroup_def group_ok_def id_ok_def)
  with gs_rewrite_group [OF assms(1,3) w] None ag_group_iff(2) [of J "db_Get R db"] assms(1) show ?thesis by (simp add: group_view)
qed

lemma gs_update_group:
  assumes "group_inv R J db" "RocksDBGroupStore_UpdateGroup R J db gid name avatar ann upd = (ok, db')" "is_int64 upd"
  shows "group_inv R J db' \<and> (case ag_group (group_abs R J db) gid of
          None \<Rightarrow> \<not> ok \<and> group_abs R J db' = group_abs R J db
        | Some g \<Rightarrow> group_abs R J db' = (if ok then (group_abs R J db)\<lparr>ag_group := (ag_group (group_abs R J db))(gid \<mapsto> edit_group g name avatar ann upd)\<rparr>
            else group_abs R J db))"
proof (cases "ag_group (group_abs R J db) gid")
  case None
  with assms show ?thesis by (auto simp: RocksDBGroupStore_UpdateGroup_def gs_get_group split: if_splits)
next
  case (Some g)
  let ?g = "edit_group g name avatar ann upd"
  have g: "gd_group_id g = gid" "group_ok g" using gs_group_data [OF assms(1) Some] by auto
  then have e: "gd_group_id ?g = gid" "group_ok ?g" "gid \<noteq> []" using assms(3) by (auto simp: edit_group_def group_ok_def id_ok_def)
  have "db_Put R db (KeyGroup (gd_group_id ?g)) (SerializeGroupData J ?g) = (ok, db')"
    using assms(1,2) e(1,3) Some by (simp add: RocksDBGroupStore_UpdateGroup_def gs_get_group)
  from gs_rewrite_group [OF assms(1) e(2) this] e(1) Some show ?thesis by simp
qed

lemma gs_update_owner:
  assumes "group_inv R J db" "RocksDBGroupStore_UpdateGroupOwner R J db gid new_owner = (ok, db')"
  shows "group_inv R J db' \<and> (case ag_group (group_abs R J db) gid of
          None \<Rightarrow> \<not> ok \<and> group_abs R J db' = group_abs R J db
        | Some g \<Rightarrow> group_abs R J db' = (if ok then (group_abs R J db)\<lparr>ag_group := (ag_group (group_abs R J db))(gid \<mapsto> g\<lparr>gd_owner_id := new_owner\<rparr>)\<rparr>
            else group_abs R J db))"
proof (cases "\<exists>g. ag_group (group_abs R J db) gid = Some g \<and> new_owner \<noteq> []")
  case False
  with assms show ?thesis by (auto simp: RocksDBGroupStore_UpdateGroupOwner_def gs_get_group split: if_splits option.splits)
next
  case True
  then obtain g where Some: "ag_group (group_abs R J db) gid = Some g" "new_owner \<noteq> []" by blast
  let ?g = "g\<lparr>gd_owner_id := new_owner\<rparr>"
  have g: "gd_group_id g = gid" "group_ok g" using gs_group_data [OF assms(1) Some(1)] by auto
  then have e: "gd_group_id ?g = gid" "group_ok ?g" "gid \<noteq> []" using Some(2) by (auto simp: group_ok_def id_ok_def)
  have "db_Put R db (KeyGroup (gd_group_id ?g)) (SerializeGroupData J ?g) = (ok, db')"
    using assms(1,2) e(1,3) Some by (simp add: RocksDBGroupStore_UpdateGroupOwner_def gs_get_group)
  from gs_rewrite_group [OF assms(1) e(2) this] e(1) Some show ?thesis by simp
qed

lemma gs_delete_group:
  assumes "group_inv R J db" "RocksDBGroupStore_DeleteGroup R db gid = (ok, db')" "id_ok gid"
  shows "group_inv R J db' \<and> group_abs R J db' =
    (if ok then \<lparr>ag_group = (ag_group (group_abs R J db))(gid := None), ag_member = without_members gid (ag_member (group_abs R J db))\<rparr>
     else group_abs R J db)"
proof -
  let ?us = "member_key_ids R db gid"
  have inv: "gmap_inv J (db_Get R db)" and g: "gid \<noteq> []" using assms(1,3) by (simp_all add: group_view id_ok_def)
  have "db_Write R db (BDelete (KeyGroup gid) # concat (map (\<lambda>uid. [BDelete (KeyGroupMember gid uid), BDelete (KeyUserGroup uid gid)]) ?us)) = (ok, db')"
    using assms(2) g by (simp add: RocksDBGroupStore_DeleteGroup_def Let_def)
  from write_get [OF this] have w: "db_Get R db' = (if ok then (drop_members gid ?us (db_Get R db))(KeyGroup gid := None) else db_Get R db)"
    by (simp add: apply_batch_drop_members drop_members_group)
  note d = gmap_inv_drop_members [OF inv assms(3) gs_member_key_ids [OF assms(1,3)]]
  show ?thesis using inv d(2) by (auto simp: group_view w gmap_abs_group [OF g] d(3) GroupState_both)
qed

lemma gs_dissolve_group:
  assumes "group_inv R J db" "RocksDBGroupStore_DissolveGroup R J db gid = (ok, db')"
  shows "group_inv R J db' \<and> (case ag_group (group_abs R J db) gid of
          None \<Rightarrow> \<not> ok \<and> group_abs R J db' = group_abs R J db
        | Some g \<Rightarrow> if gd_status g = 1 then ok \<and> db' = db
            else group_abs R J db' = (if ok then \<lparr>ag_group = (ag_group (group_abs R J db))(gid \<mapsto> g\<lparr>gd_status := 1, gd_member_count := 0\<rparr>),
                ag_member = without_members gid (ag_member (group_abs R J db))\<rparr> else group_abs R J db))"
proof (cases "\<exists>g. ag_group (group_abs R J db) gid = Some g \<and> gd_status g \<noteq> 1")
  case False
  with assms show ?thesis
    by (auto simp: RocksDBGroupStore_DissolveGroup_def gs_get_group group_abs_def gmap_abs_def split: if_splits option.splits)
next
  case True
  then obtain g where Some: "ag_group (group_abs R J db) gid = Some g" "gd_status g \<noteq> 1" by blast
  let ?g = "g\<lparr>gd_status := 1, gd_member_count := 0\<rparr>" and ?us = "member_key_ids R db gid"
  have g: "gd_group_id g = gid" "group_ok g" using gs_group_data [OF assms(1) Some(1)] by auto
  then have e: "gd_group_id ?g = gid" "group_ok ?g" "gid \<noteq> []" "id_ok gid" by (auto simp: group_ok_def id_ok_def is_int32_def)
  have inv: "gmap_inv J (db_Get R db)" using assms(1) by (simp add: group_view)
  have "db_Write R db (BPut (KeyGroup gid) (SerializeGroupData J ?g) #
      concat (map (\<lambda>uid. [BDelete (KeyGroupMember gid uid), BDelete (KeyUserGroup uid gid)]) ?us)) = (ok, db')"
    using assms e(3) Some by (simp add: RocksDBGroupStore_DissolveGroup_def gs_get_group Let_def)
  from write_get [OF this] have w: "db_Get R db' = (if ok then (drop_members gid ?us (db_Get R db))(KeyGroup gid \<mapsto> SerializeGroupData J ?g) else db_Get R db)"
    by (simp add: apply_batch_drop_members drop_members_group)
  note d = gmap_inv_drop_members [OF inv e(4) gs_member_key_ids [OF assms(1) e(4)]]
  have i: "gmap_inv J ((drop_members gid ?us (db_Get R db))(KeyGroup gid \<mapsto> SerializeGroupData J ?g))"
    using gmap_inv_put_group [OF d(1) e(2)] e(1) by simp
  show ?thesis
    using inv i Some by (auto simp: group_view w gmap_abs_group [OF e(3)] d(3) DeserializeGroupData_Serialize [OF e(2)] GroupState_both)
qed

lemma gs_add_member:
  assumes "group_inv R J db" "RocksDBGroupStore_AddMember R J db gid d = (ok, db')" "id_ok gid" "member_ok d"
  shows "group_inv R J db' \<and> (if ok then ag_member (group_abs R J db) (gid, gm_user_id d) = None \<and> (\<exists>g. ag_group (group_abs R J db) gid = Some g \<and>
      group_abs R J db' = \<lparr>ag_group = (ag_group (group_abs R J db))(gid \<mapsto> grown g),
        ag_member = (ag_member (group_abs R J db))((gid, gm_user_id d) \<mapsto> d)\<rparr>) else group_abs R J db' = group_abs R J db)"
proof (cases "\<exists>g. ag_group (group_abs R J db) gid = Some g \<and> ag_member (group_abs R J db) (gid, gm_user_id d) = None")
  case False
  have inv: "gmap_inv J (db_Get R db)" using assms(1) by (simp add: group_view)
  have "ok = False \<and> db' = db"
    using False assms ag_member_iff(2) [OF inv assms(3), of "gm_user_id d"]
    by (auto simp: RocksDBGroupStore_AddMember_def gs_get_group group_abs_def split: if_splits option.splits)
  with assms(1) show ?thesis by simp
next
  case True
  then obtain g where g: "ag_group (group_abs R J db) gid = Some g" "ag_member (group_abs R J db) (gid, gm_user_id d) = None" by blast
  have inv: "gmap_inv J (db_Get R db)" using assms(1) by (simp add: group_view)
  let ?m1 = "(db_Get R db)(KeyGroupMember gid (gm_user_id d) \<mapsto> SerializeMember J d, KeyUserGroup (gm_user_id d) gid \<mapsto> [])"
  have key: "db_Get R db (KeyGroupMember gid (gm_user_id d)) = None" "db_Get R db (KeyGroup gid) \<noteq> None"
    using g ag_member_iff(2) [OF inv assms(3)] ag_group_iff(2) [OF inv, of gid] by (auto simp: group_abs_def)
  have ids: "gid \<noteq> []" "gm_user_id d \<noteq> []" using assms(3,4) by (auto simp: id_ok_def member_ok_def)
  have e: "group_ok (grown g)" "gd_group_id (grown g) = gid"
    using gs_group_data [OF assms(1) g(1)] by (auto simp: group_ok_def grown_def is_int64_def)
  have "db_Write R db [BPut (KeyGroupMember gid (gm_user_id d)) (SerializeMember J d), BPut (KeyUserGroup (gm_user_id d) gid) [],
      BPut (KeyGroup gid) (SerializeGroupData J (grown g))] = (ok, db')"
    using assms(1,2) ids key(1) g(1) by (simp add: RocksDBGroupStore_AddMember_def gs_get_group grown_def)
  from write_get [OF this] have w: "db_Get R db' = (if ok then ?m1(KeyGroup gid \<mapsto> SerializeGroupData J (grown g)) else db_Get R db)"
    by simp
  have i: "gmap_inv J (?m1(KeyGroup gid \<mapsto> SerializeGroupData J (grown g)))"
    using gmap_inv_put_group [OF gmap_inv_put_member [OF inv assms(3,4) key(2)] e(1)] e(2) by simp
  show ?thesis
    using i inv g ids
    by (simp add: group_view w gmap_abs_group gmap_abs_member [OF assms(3)] gmap_abs_index GroupState_both
        DeserializeGroupData_Serialize [OF e(1)] DeserializeMember_Serialize [OF assms(4)])
qed

lemma gs_remove_member:
  assumes "group_inv R J db" "RocksDBGroupStore_RemoveMember R J db gid uid = (ok, db')" "id_ok gid"
  shows "group_inv R J db' \<and> (if ok then ag_member (group_abs R J db) (gid, uid) \<noteq> None \<and> (\<exists>g. ag_group (group_abs R J db) gid = Some g \<and>
      group_abs R J db' = \<lparr>ag_group = (ag_group (group_abs R J db))(gid \<mapsto> shrunk g),
        ag_member = (ag_member (group_abs R J db))((gid, uid) := None)\<rparr>) else group_abs R J db' = group_abs R J db)"
proof (cases "ag_member (group_abs R J db) (gid, uid)")
  case None
  have inv: "gmap_inv J (db_Get R db)" using assms(1) by (simp add: group_view)
  have "db_Get R db (KeyGroupMember gid uid) = None" using None ag_member_iff(2) [OF inv assms(3)] by (simp add: group_abs_def)
  with assms show ?thesis by (auto simp: RocksDBGroupStore_RemoveMember_def split: if_splits)
next
  case (Some d)
  have inv: "gmap_inv J (db_Get R db)" using assms(1) by (simp add: group_view)
  note dd = gs_member_data [OF assms(1) Some]
  then obtain g where g: "ag_group (group_abs R J db) gid = Some g" by blast
  let ?m1 = "(db_Get R db)(KeyGroupMember gid uid := None, KeyUserGroup uid gid := None)"
  have key: "db_Get R db (KeyGroupMember gid uid) \<noteq> None" using Some ag_member_iff(2) [OF inv assms(3), of uid] by (auto simp: group_abs_def)
  have ids: "gid \<noteq> []" "uid \<noteq> []" "id_ok uid" using assms(3) dd by (auto simp: id_ok_def member_ok_def)
  have e: "group_ok (shrunk g)" "gd_group_id (shrunk g) = gid"
    using gs_group_data [OF assms(1) g] is_int32_wrap32 [of "gd_member_count g - 1"]
    by (auto simp: group_ok_def shrunk_def is_int32_def max_def)
  have "db_Write R db [BDelete (KeyGroupMember gid uid), BDelete (KeyUserGroup uid gid),
      BPut (KeyGroup gid) (SerializeGroupData J (shrunk g))] = (ok, db')"
    using assms(1,2) ids(1,2) key g by (simp add: RocksDBGroupStore_RemoveMember_def gs_get_group shrunk_def)
  from write_get [OF this] have w: "db_Get R db' = (if ok then ?m1(KeyGroup gid \<mapsto> SerializeGroupData J (shrunk g)) else db_Get R db)"
    by simp
  have i: "gmap_inv J (?m1(KeyGroup gid \<mapsto> SerializeGroupData J (shrunk g)))"
    using gmap_inv_put_group [OF gmap_inv_del_member [OF inv assms(3) ids(3)] e(1)] e(2) by simp
  show ?thesis
    using i inv g ids(1,2) Some
    by (simp add: group_view w gmap_abs_group gmap_abs_member [OF assms(3)] gmap_abs_index GroupState_both
        DeserializeGroupData_Serialize [OF e(1)])
qed

lemma gs_update_role:
  assumes "group_inv R J db" "RocksDBGroupStore_UpdateMemberRole R J db gid uid role = (ok, db')" "id_ok gid" "is_int32 role"
  shows "group_inv R J db' \<and> (case ag_member (group_abs R J db) (gid, uid) of
          None \<Rightarrow> \<not> ok \<and> group_abs R J db' = group_abs R J db
        | Some m \<Rightarrow> group_abs R J db' = (if ok then (group_abs R J db)\<lparr>ag_member := (ag_member (group_abs R J db))((gid, uid) \<mapsto> m\<lparr>gm_role := role\<rparr>)\<rparr>
            else group_abs R J db))"
proof (cases "ag_member (group_abs R J db) (gid, uid)")
  case None
  with assms show ?thesis by (auto simp: RocksDBGroupStore_UpdateMemberRole_def gs_get_member split: if_splits)
next
  case (Some d)
  have inv: "gmap_inv J (db_Get R db)" using assms(1) by (simp add: group_view)
  let ?d = "d\<lparr>gm_role := role\<rparr>"
  have dd: "gm_user_id ?d = uid" "member_ok ?d" "gid \<noteq> []" "uid \<noteq> []"
    using gs_member_data [OF assms(1) Some] assms(3,4) by (auto simp: member_ok_def id_ok_def)
  have key: "db_Get R db (KeyGroupMember gid (gm_user_id ?d)) \<noteq> None"
    using Some dd(1) ag_member_iff(2) [OF inv assms(3), of uid] by (auto simp: group_abs_def)
  have "db_Put R db (KeyGroupMember gid uid) (SerializeMember J ?d) = (ok, db')"
    using assms(1-3) dd(3,4) Some by (simp add: RocksDBGroupStore_UpdateMemberRole_def gs_get_member)
  from put_get [OF this] gmap_inv_role [OF inv assms(3) dd(2) key] inv Some dd show ?thesis
    by (auto simp: group_view gmap_abs_member [OF assms(3)] DeserializeMember_Serialize [OF dd(2)])
qed

end

sublocale store_env \<subseteq> gs: group_store "RocksDBGroupStore R J" "group_inv R J" "group_abs R J"
  by (unfold_locales, simp_all only: RocksDBGroupStore_simps)
    (rule gs_group_data gs_member_data gs_get_group gs_get_member gs_is_member gs_get_members gs_user_groups gs_create_group
      gs_update_group gs_update_owner gs_delete_group gs_dissolve_group gs_add_member gs_remove_member gs_update_role; assumption)+

context store_env
begin

lemma rocksdb_group_store: "group_store (RocksDBGroupStore R J) (group_inv R J) (group_abs R J)"
  by unfold_locales

end

lemma group_inv_empty: "db_Get R db = Map.empty \<Longrightarrow> group_inv R J db"
  by (simp add: group_inv_def gmap_inv_def group_table_def member_table_def index_table_def)

interpretation alist_gs: group_store "RocksDBGroupStore alist_db text_json" "group_inv alist_db text_json" "group_abs alist_db text_json"
  by unfold_locales

end
