(* ===== verification/Group_Service.thy ===== *)
theory Group_Service
  imports Group_Store_Laws Error_Code
begin

text \<open>
  \<^verbatim>\<open>backend/chatsvr/internal/service/group_service.cpp\<close>: creation, membership, roles and ownership
  of chat groups over a \<open>GroupStore\<close>.  \<open>draws\<close> are the random values and \<open>now\<close> the clock
  reading of one call.
\<close>

section \<open>Operations\<close>

definition ROLE_OWNER :: int where "ROLE_OWNER = 0"
definition ROLE_MEMBER :: int where "ROLE_MEMBER = 1"
definition ROLE_ADMIN :: int where "ROLE_ADMIN = 2"
definition MIN_GROUP_MEMBERS :: nat where "MIN_GROUP_MEMBERS = 3"

record CreateGroupResult =
  cgr_error_code :: ErrorCode
  cgr_group_id :: string

text \<open>The UTF-8 bytes of the name a group gets when none is given.\<close>

definition kDefaultGroupName :: string where
  "kDefaultGroupName = [CHR 0xE7, CHR 0xBE, CHR 0xA4, CHR 0xE8, CHR 0x81, CHR 0x8A]"

text \<open>\<^verbatim>\<open>std::set<std::string>\<close>: the distinct ids in increasing order.\<close>

definition unique_ids :: "string \<Rightarrow> string list \<Rightarrow> string list" where
  "unique_ids creator_id member_ids = sort (remdups (creator_id # filter (\<lambda>i. i \<noteq> []) member_ids))"

definition new_member :: "string \<Rightarrow> int \<Rightarrow> int \<Rightarrow> GroupMemberData" where
  "new_member uid role now = \<lparr>gm_user_id = uid, gm_role = role, gm_nickname = [], gm_joined_at = now\<rparr>"

fun add_others :: "'s GroupStore \<Rightarrow> string \<Rightarrow> string \<Rightarrow> int \<Rightarrow> string list \<Rightarrow> 's \<Rightarrow> 's" where
  "add_others GS group_id creator_id now [] s = s"
| "add_others GS group_id creator_id now (uid # us) s =
     (if uid = creator_id then add_others GS group_id creator_id now us s
      else add_others GS group_id creator_id now us (snd (gs_AddMember GS s group_id (new_member uid ROLE_MEMBER now))))"

definition GroupService_CreateGroup ::
  "'s GroupStore \<Rightarrow> nat list \<Rightarrow> int \<Rightarrow> 's \<Rightarrow> string \<Rightarrow> string \<Rightarrow> string \<Rightarrow> string list \<Rightarrow> CreateGroupResult \<times> 's" where
  "GroupService_CreateGroup GS draws now s creator_id group_name avatar_url member_ids =
     (if creator_id = [] then (\<lparr>cgr_error_code = EC_INVALID_PARAM, cgr_group_id = []\<rparr>, s)
      else
        (let unique = unique_ids creator_id member_ids in
         if length unique < MIN_GROUP_MEMBERS then (\<lparr>cgr_error_code = EC_GROUP_MEMBERS_TOO_FEW, cgr_group_id = []\<rparr>, s)
         else
           (let group_id = GenerateShortId draws ''g_'' 12;
                data = \<lparr>gd_group_id = group_id, gd_group_name = (if group_name = [] then kDefaultGroupName else group_name),
                        gd_avatar_url = avatar_url, gd_owner_id = creator_id,
                        gd_member_count = wrap32 (int (length unique)), gd_announcement = [],
                        gd_created_at = now, gd_updated_at = now, gd_status = 0\<rparr>
            in case gs_CreateGroup GS s data of
                 (False, s1) \<Rightarrow> (\<lparr>cgr_error_code = EC_INTERNAL_ERROR, cgr_group_id = []\<rparr>, s1)
               | (True, s1) \<Rightarrow>
                   (case gs_AddMember GS s1 group_id (new_member creator_id ROLE_OWNER now) of
                      (False, s2) \<Rightarrow> (\<lparr>cgr_error_code = EC_INTERNAL_ERROR, cgr_group_id = []\<rparr>, snd (gs_DeleteGroup GS s2 group_id))
                    | (True, s2) \<Rightarrow>
                        (\<lparr>cgr_error_code = EC_OK, cgr_group_id = group_id\<rparr>, add_others GS group_id creator_id now unique s2)))))"

definition GroupService_DismissGroup :: "'s GroupStore \<Rightarrow> 's \<Rightarrow> string \<Rightarrow> string \<Rightarrow> ErrorCode \<times> 's" where
  "GroupService_DismissGroup GS s group_id operator_id =
     (if group_id = [] \<or> operator_id = [] then (EC_INVALID_PARAM, s)
      else
        (case gs_GetGroup GS s group_id of
           None \<Rightarrow> (EC_GROUP_NOT_FOUND, s)
         | Some g \<Rightarrow>
             if gd_owner_id g \<noteq> operator_id then (EC_NOT_GROUP_OWNER, s)
             else
               (case gs_DeleteGroup GS s group_id of
                  (True, s') \<Rightarrow> (EC_OK, s')
                | (False, s') \<Rightarrow> (EC_INTERNAL_ERROR, s'))))"

definition GroupService_GetGroupInfo :: "'s GroupStore \<Rightarrow> 's \<Rightarrow> string \<Rightarrow> GroupData option" where
  "GroupService_GetGroupInfo GS s group_id = (if group_id = [] then None else gs_GetGroup GS s group_id)"

definition GroupService_UpdateGroup ::
  "'s GroupStore \<Rightarrow> int \<Rightarrow> 's \<Rightarrow> string \<Rightarrow> string \<Rightarrow> string \<Rightarrow> string \<Rightarrow> string \<Rightarrow> ErrorCode \<times> 's" where
  "GroupService_UpdateGroup GS now s group_id operator_id group_name avatar_url announcement =
     (if group_id = [] \<or> operator_id = [] then (EC_INVALID_PARAM, s)
      else
        (case gs_GetGroup GS s group_id of
           None \<Rightarrow> (EC_GROUP_NOT_FOUND, s)
         | Some g \<Rightarrow>
             if gd_owner_id g \<noteq> operator_id
                \<and> (case gs_GetMember GS s group_id operator_id of None \<Rightarrow> True | Some mem \<Rightarrow> gm_role mem \<noteq> ROLE_ADMIN)
             then (EC_PERMISSION_DENIED, s)
             else
               (let name = (if group_name \<noteq> [] then group_name else gd_group_name g);
                    avatar = (if avatar_url \<noteq> [] then avatar_url else gd_avatar_url g)
                in case gs_UpdateGroup GS s group_id name avatar announcement now of
                     (False, s') \<Rightarrow> (EC_INTERNAL_ERROR, s')
                   | (True, s') \<Rightarrow> (EC_OK, s'))))"

fun invite_loop :: "'s GroupStore \<Rightarrow> string \<Rightarrow> int \<Rightarrow> string list \<Rightarrow> 's \<Rightarrow> 's" where
  "invite_loop GS group_id now [] s = s"
| "invite_loop GS group_id now (uid # us) s =
     (if uid = [] then invite_loop GS group_id now us s
      else if gs_IsMember GS s group_id uid then invite_loop GS group_id now us s
      else invite_loop GS group_id now us (snd (gs_AddMember GS s group_id (new_member uid ROLE_MEMBER now))))"

definition GroupService_InviteMembers ::
  "'s GroupStore \<Rightarrow> int \<Rightarrow> 's \<Rightarrow> string \<Rightarrow> string \<Rightarrow> string list \<Rightarrow> ErrorCode \<times> 's" where
  "GroupService_InviteMembers GS now s group_id inviter_id member_ids =
     (if group_id = [] \<or> inviter_id = [] then (EC_INVALID_PARAM, s)
      else
        (case gs_GetGroup GS s group_id of
           None \<Rightarrow> (EC_GROUP_NOT_FOUND, s)
         | Some g \<Rightarrow>
             if \<not> gs_IsMember GS s group_id inviter_id then (EC_NOT_GROUP_MEMBER, s)
             else (EC_OK, invite_loop GS group_id now member_ids s)))"

definition GroupService_RemoveMember :: "'s GroupStore \<Rightarrow> 's \<Rightarrow> string \<Rightarrow> string \<Rightarrow> string \<Rightarrow> ErrorCode \<times> 's" where
  "GroupService_RemoveMember GS s group_id operator_id member_id =
     (if group_id = [] \<or> operator_id = [] \<or> member_id = [] then (EC_INVALID_PARAM, s)
      else
        (case gs_GetGroup GS s group_id of
           None \<Rightarrow> (EC_GROUP_NOT_FOUND, s)
         | Some g \<Rightarrow>
             if \<not> gs_IsMember GS s group_id member_id then (EC_NOT_GROUP_MEMBER, s)
             else
               (case gs_GetMember GS s group_id operator_id of
                  None \<Rightarrow> (EC_NOT_GROUP_MEMBER, s)
                | Some op \<Rightarrow>
                    (case gs_GetMember GS s group_id member_id of
                       None \<Rightarrow> (EC_NOT_GROUP_MEMBER, s)
                     | Some target \<Rightarrow>
                         if gm_role target = ROLE_OWNER then (EC_KICK_NOT_ALLOWED, s)
                         else if gm_role op \<noteq> ROLE_OWNER \<and> gm_role op \<noteq> ROLE_ADMIN then (EC_PERMISSION_DENIED, s)
                         else if gm_role op = ROLE_ADMIN \<and> gm_role target = ROLE_ADMIN then (EC_KICK_NOT_ALLOWED, s)
                         else
                           (case gs_RemoveMember GS s group_id member_id of
                              (True, s') \<Rightarrow> (EC_OK, s')
                            | (False, s') \<Rightarrow> (EC_INTERNAL_ERROR, s'))))))"

definition GroupService_LeaveGroup :: "'s GroupStore \<Rightarrow> 's \<Rightarrow> string \<Rightarrow> string \<Rightarrow> ErrorCode \<times> 's" where
  "GroupService_LeaveGroup GS s group_id user_id =
     (if group_id = [] \<or> user_id = [] then (EC_INVALID_PARAM, s)
      else
        (case gs_GetGroup GS s group_id of
           None \<Rightarrow> (EC_GROUP_NOT_FOUND, s)
         | Some g \<Rightarrow>
             if gd_owner_id g = user_id then (EC_OWNER_CANNOT_LEAVE, s)
             else if \<not> gs_IsMember GS s group_id user_id then (EC_NOT_GROUP_MEMBER, s)
             else
               (case gs_RemoveMember GS s group_id user_id of
                  (True, s') \<Rightarrow> (EC_OK, s')
                | (False, s') \<Rightarrow> (EC_INTERNAL_ERROR, s'))))"

definition GroupService_GetGroupMembers ::
  "'s GroupStore \<Rightarrow> 's \<Rightarrow> string \<Rightarrow> int \<Rightarrow> int \<Rightarrow> (GroupMemberData list \<times> int option) option" where
  "GroupService_GetGroupMembers GS s group_id page page_size =
     (if group_id = [] then Some ([], None) else gs_GetMembers GS s group_id page page_size)"

definition GroupService_TransferOwner :: "'s GroupStore \<Rightarrow> 's \<Rightarrow> string \<Rightarrow> string \<Rightarrow> string \<Rightarrow> ErrorCode \<times> 's" where
  "GroupService_TransferOwner GS s group_id old_owner_id new_owner_id =
     (if group_id = [] \<or> old_owner_id = [] \<or> new_owner_id = [] then (EC_INVALID_PARAM, s)
      else
        (case gs_GetGroup GS s group_id of
           None \<Rightarrow> (EC_GROUP_NOT_FOUND, s)
         | Some g \<Rightarrow>
             if gd_owner_id g \<noteq> old_owner_id then (EC_NOT_GROUP_OWNER, s)
             else if \<not> gs_IsMember GS s group_id new_owner_id then (EC_NOT_GROUP_MEMBER, s)
             else
               (case gs_UpdateMemberRole GS s group_id old_owner_id ROLE_MEMBER of
                  (False, s1) \<Rightarrow> (EC_INTERNAL_ERROR, s1)
                | (True, s1) \<Rightarrow>
                    (case gs_UpdateMemberRole GS s1 group_id new_owner_id ROLE_OWNER of
                       (False, s2) \<Rightarrow> (EC_INTERNAL_ERROR, s2)
                     | (True, s2) \<Rightarrow>
                         (case gs_UpdateGroupOwner GS s2 group_id new_owner_id of
                            (False, s3) \<Rightarrow> (EC_INTERNAL_ERROR, s3)
                          | (True, s3) \<Rightarrow> (EC_OK, s3))))))"

definition GroupService_SetMemberRole :: "'s GroupStore \<Rightarrow> 's \<Rightarrow> string \<Rightarrow> string \<Rightarrow> string \<Rightarrow> int \<Rightarrow> ErrorCode \<times> 's" where
  "GroupService_SetMemberRole GS s group_id operator_id member_id role =
     (if group_id = [] \<or> operator_id = [] \<or> member_id = [] then (EC_INVALID_PARAM, s)
      else
        (case gs_GetGroup GS s group_id of
           None \<Rightarrow> (EC_GROUP_NOT_FOUND, s)
         | Some g \<Rightarrow>
             if gd_owner_id g \<noteq> operator_id then (EC_NOT_GROUP_OWNER, s)
             else
               (case gs_GetMember GS s group_id member_id of
                  None \<Rightarrow> (EC_NOT_GROUP_MEMBER, s)
                | Some target \<Rightarrow>
                    if gm_role target = ROLE_OWNER then (EC_PERMISSION_DENIED, s)
                    else
                      (case gs_UpdateMemberRole GS s group_id member_id role of
                         (True, s') \<Rightarrow> (EC_OK, s')
                       | (False, s') \<Rightarrow> (EC_INTERNAL_ERROR, s')))))"

definition GroupService_GetUserGroups :: "'s GroupStore \<Rightarrow> 's \<Rightarrow> string \<Rightarrow> GroupData list" where
  "GroupService_GetUserGroups GS s user_id =
     (if user_id = [] then [] else List.map_filter (gs_GetGroup GS s) (gs_GetUserGroupIds GS s user_id))"

section \<open>Steps of the service\<close>

text \<open>
  One call with the code it reports.  \<open>ok\<close> says which ids of users the calls name that make members: the code takes any,
  which is \<open>group_step (\<lambda>_. True)\<close>.  The keys of the store join their parts by colons, so that the tables agree only as long as
  these ids have none; the theorems therefore speak of \<open>group_step clean\<close>, and \<open>colon_member_confuses\<close> shows what a colon does.
\<close>

definition ids_ok :: "string list \<Rightarrow> bool" where
  "ids_ok us \<longleftrightarrow> list_all (\<lambda>u. u = [] \<or> id_ok u) us"

lemma ids_ok_clean: "ids_ok us = list_all clean us"
proof -
  have "(u = [] \<or> id_ok u) = clean u" for u by (cases "u = []") (simp_all add: id_ok_def)
  then show ?thesis by (simp add: ids_ok_def)
qed

inductive group_step :: "(string \<Rightarrow> bool) \<Rightarrow> 's GroupStore \<Rightarrow> 's \<Rightarrow> ErrorCode \<Rightarrow> 's \<Rightarrow> bool" for ok GS s where
  create: "ok c \<Longrightarrow> list_all ok us \<Longrightarrow> draws_ok 12 draws \<Longrightarrow> is_int64 now \<Longrightarrow>
    GroupService_CreateGroup GS draws now s c name avatar us = (r, s') \<Longrightarrow> group_step ok GS s (cgr_error_code r) s'"
| dismiss: "GroupService_DismissGroup GS s gid u = (ec, s') \<Longrightarrow> group_step ok GS s ec s'"
| update: "is_int64 now \<Longrightarrow> GroupService_UpdateGroup GS now s gid u name avatar ann = (ec, s') \<Longrightarrow> group_step ok GS s ec s'"
| invite: "list_all ok us \<Longrightarrow> is_int64 now \<Longrightarrow> GroupService_InviteMembers GS now s gid u us = (ec, s') \<Longrightarrow> group_step ok GS s ec s'"
| remove: "GroupService_RemoveMember GS s gid u v = (ec, s') \<Longrightarrow> group_step ok GS s ec s'"
| leave: "GroupService_LeaveGroup GS s gid u = (ec, s') \<Longrightarrow> group_step ok GS s ec s'"
| transfer: "GroupService_TransferOwner GS s gid u v = (ec, s') \<Longrightarrow> group_step ok GS s ec s'"
| set_role: "is_int32 role \<Longrightarrow> GroupService_SetMemberRole GS s gid u v role = (ec, s') \<Longrightarrow> group_step ok GS s ec s'"

text \<open>States reached by calls that name ids with \<open>ok\<close> and whose codes satisfy \<open>P\<close>.\<close>

inductive group_reach :: "(string \<Rightarrow> bool) \<Rightarrow> (ErrorCode \<Rightarrow> bool) \<Rightarrow> 's GroupStore \<Rightarrow> 's \<Rightarrow> 's \<Rightarrow> bool" for ok P GS s0 where
  start: "group_reach ok P GS s0 s0"
| step: "group_reach ok P GS s0 s \<Longrightarrow> group_step ok GS s ec s' \<Longrightarrow> P ec \<Longrightarrow> group_reach ok P GS s0 s'"

section \<open>The abstract effect of the calls\<close>

definition owner_sane :: "GroupState \<Rightarrow> bool" where
  "owner_sane a \<longleftrightarrow> (\<forall>gid g. ag_group a gid = Some g \<longrightarrow>
     (\<exists>m. ag_member a (gid, gd_owner_id g) = Some m \<and> gm_role m = ROLE_OWNER))"

text \<open>Group \<open>gid\<close> looks the same.\<close>

definition same_group :: "string \<Rightarrow> GroupState \<Rightarrow> GroupState \<Rightarrow> bool" where
  "same_group gid a b \<longleftrightarrow> ag_group b gid = ag_group a gid \<and> (\<forall>u. ag_member b (gid, u) = ag_member a (gid, u))"

text \<open>Users of \<open>U\<close> may have been added to \<open>gid\<close> as ordinary members; nothing else has changed.\<close>

definition same_info :: "GroupData \<Rightarrow> GroupData \<Rightarrow> bool" where
  "same_info g h \<longleftrightarrow> h = g\<lparr>gd_member_count := gd_member_count h, gd_updated_at := gd_updated_at h\<rparr>"

definition members_added :: "string \<Rightarrow> string set \<Rightarrow> GroupState \<Rightarrow> GroupState \<Rightarrow> bool" where
  "members_added gid U a b \<longleftrightarrow>
     (\<forall>x. x \<noteq> gid \<longrightarrow> same_group x a b) \<and>
     (\<forall>u m. ag_member a (gid, u) = Some m \<longrightarrow> ag_member b (gid, u) = Some m) \<and>
     (\<forall>u m. ag_member a (gid, u) = None \<longrightarrow> ag_member b (gid, u) = Some m \<longrightarrow> u \<in> U \<and> gm_role m = ROLE_MEMBER) \<and>
     (case ag_group a gid of
        None \<Rightarrow> ag_group b gid = None
      | Some g \<Rightarrow> \<exists>h. ag_group b gid = Some h \<and> same_info g h)"

lemma same_info_refl [simp]: "same_info g g"
  by (simp add: same_info_def)

lemma same_info_trans: "same_info f g \<Longrightarrow> same_info g h \<Longrightarrow> same_info f h"
  by (cases f; cases g; cases h) (simp add: same_info_def)

lemma same_info_grown [simp]: "same_info g (grown g)"
  by (simp add: same_info_def grown_def)

lemma same_info_owner: "same_info g h \<Longrightarrow> gd_owner_id h = gd_owner_id g"
  by (cases g; cases h) (simp add: same_info_def)

lemma same_group_refl [simp]: "same_group gid a a"
  by (simp add: same_group_def)

lemma same_group_trans: "same_group gid a b \<Longrightarrow> same_group gid b c \<Longrightarrow> same_group gid a c"
  by (simp add: same_group_def)

lemma members_added_refl [simp]: "members_added gid U a a"
  by (auto simp: members_added_def split: option.splits)

lemma members_added_trans:
  assumes "members_added gid U a b" "members_added gid U b c"
  shows "members_added gid U a c"
proof -
  have "\<forall>x. x \<noteq> gid \<longrightarrow> same_group x a c" using assms same_group_trans unfolding members_added_def by blast
  moreover have "u \<in> U \<and> gm_role m = ROLE_MEMBER" if "ag_member a (gid, u) = None" "ag_member c (gid, u) = Some m" for u m
    using assms that unfolding members_added_def by (cases "ag_member b (gid, u)") auto
  moreover have "case ag_group a gid of None \<Rightarrow> ag_group c gid = None | Some g \<Rightarrow> \<exists>h. ag_group c gid = Some h \<and> same_info g h"
    using assms unfolding members_added_def by (auto split: option.splits dest: same_info_trans)
  ultimately show ?thesis using assms unfolding members_added_def by blast
qed

lemma owner_sane_members_added: "members_added gid U a b \<Longrightarrow> owner_sane a \<Longrightarrow> owner_sane b"
proof -
  assume ab: "members_added gid U a b" and a: "owner_sane a"
  have "\<exists>m. ag_member b (x, gd_owner_id g) = Some m \<and> gm_role m = ROLE_OWNER" if g: "ag_group b x = Some g" for x g
  proof (cases "x = gid")
    case False
    with ab g a show ?thesis by (auto simp: members_added_def same_group_def owner_sane_def)
  next
    case True
    then obtain h where h: "ag_group a gid = Some h" "gd_owner_id g = gd_owner_id h"
      using ab g by (auto simp: members_added_def same_info_owner split: option.splits)
    then obtain m where "ag_member a (gid, gd_owner_id g) = Some m" "gm_role m = ROLE_OWNER" using a by (auto simp: owner_sane_def)
    with ab True show ?thesis by (auto simp: members_added_def)
  qed
  then show "owner_sane b" by (simp add: owner_sane_def)
qed

context group_store
begin

lemma group_id_ok: "inv s \<Longrightarrow> ag_group (abs s) gid = Some g \<Longrightarrow> id_ok gid \<and> gd_group_id g = gid"
  using group_data [of s gid g] by (auto simp: group_ok_def)

lemma add_member_effect:
  assumes "inv s" "id_ok gid" "id_ok u" "is_int64 now" "u \<in> U"
  shows "inv (snd (gs_AddMember GS s gid (new_member u ROLE_MEMBER now))) \<and>
    members_added gid U (abs s) (abs (snd (gs_AddMember GS s gid (new_member u ROLE_MEMBER now))))"
proof -
  obtain ok s' where c: "gs_AddMember GS s gid (new_member u ROLE_MEMBER now) = (ok, s')" by fastforce
  have "member_ok (new_member u ROLE_MEMBER now)" using assms(3,4) by (simp add: member_ok_def new_member_def ROLE_MEMBER_def is_int32_def)
  from add_member [OF assms(1) c assms(2) this] assms(5) c show ?thesis
    by (cases ok) (auto simp: members_added_def same_group_def new_member_def split: option.splits if_splits)
qed

lemma add_others_effect:
  assumes "inv s" "id_ok gid" "is_int64 now" "\<forall>u \<in> set us. id_ok u \<and> u \<in> U"
  shows "inv (add_others GS gid c now us s) \<and> members_added gid U (abs s) (abs (add_others GS gid c now us s))"
  using assms(1,4)
proof (induction us arbitrary: s)
  case (Cons u us)
  with add_member_effect [OF Cons.prems(1) assms(2) _ assms(3), of u U] members_added_trans show ?case by fastforce
qed simp

lemma invite_loop_effect:
  assumes "inv s" "id_ok gid" "is_int64 now" "ids_ok us" "set us \<subseteq> U"
  shows "inv (invite_loop GS gid now us s) \<and> members_added gid U (abs s) (abs (invite_loop GS gid now us s))"
  using assms(1,4,5)
proof (induction us arbitrary: s)
  case (Cons u us)
  have prems: "ids_ok us" "set us \<subseteq> U" "u \<in> U" "u = [] \<or> id_ok u" using Cons.prems by (auto simp: ids_ok_def)
  show ?case
  proof (cases "u = [] \<or> gs_IsMember GS s gid u")
    case True
    with Cons.IH [OF Cons.prems(1) prems(1,2)] show ?thesis by auto
  next
    case False
    with prems have "id_ok u" by blast
    note e = add_member_effect [OF Cons.prems(1) assms(2) this assms(3) prems(3)]
    with False Cons.IH [OF _ prems(1,2)] members_added_trans show ?thesis by fastforce
  qed
qed simp

end

text \<open>
  What a call by \<open>u\<close> that reports \<open>ec\<close> may do: leave every existing group alone of which \<open>u\<close> is
  neither owner nor member, add only groups with a generated id, and, unless a write failed, keep every owner a member with the owner's role.
\<close>

definition outsider :: "GroupState \<Rightarrow> string \<Rightarrow> string \<Rightarrow> bool" where
  "outsider a gid u \<longleftrightarrow> (\<forall>g. ag_group a gid = Some g \<longrightarrow> gd_owner_id g \<noteq> u) \<and> ag_member a (gid, u) = None"

definition call_effect :: "string \<Rightarrow> GroupState \<Rightarrow> ErrorCode \<Rightarrow> GroupState \<Rightarrow> bool" where
  "call_effect u a ec b \<longleftrightarrow>
     (\<forall>x. ag_group a x \<noteq> None \<longrightarrow> outsider a x u \<longrightarrow> same_group x a b) \<and>
     (\<forall>x. ag_group b x \<noteq> None \<longrightarrow> ag_group a x \<noteq> None \<or> prefix ''g_'' x) \<and>
     (ec \<noteq> EC_INTERNAL_ERROR \<longrightarrow> owner_sane a \<longrightarrow> owner_sane b)"

lemma call_effect_refl [simp]: "call_effect u a ec a"
  by (simp add: call_effect_def)

lemma call_effectI:
  "(\<And>x. x \<noteq> gid \<Longrightarrow> same_group x a b) \<Longrightarrow> ag_group a gid \<noteq> None \<Longrightarrow> \<not> outsider a gid u \<Longrightarrow> (ec \<noteq> EC_INTERNAL_ERROR \<Longrightarrow> owner_sane a \<Longrightarrow> owner_sane b) \<Longrightarrow>
   call_effect u a ec b"
  unfolding call_effect_def same_group_def by metis

lemma call_effect_newI:
  "(\<And>x. x \<noteq> gid \<Longrightarrow> same_group x a b) \<Longrightarrow> ag_group a gid = None \<Longrightarrow> prefix ''g_'' gid \<Longrightarrow>
   (ec \<noteq> EC_INTERNAL_ERROR \<Longrightarrow> owner_sane a \<Longrightarrow> owner_sane b) \<Longrightarrow> call_effect u a ec b"
  unfolding call_effect_def same_group_def by metis

context group_store
begin

lemma DismissGroup_effect:
  assumes "inv s" "GroupService_DismissGroup GS s gid u = (ec, s')"
  shows "inv s' \<and> call_effect u (abs s) ec (abs s')"
proof (cases "\<exists>g. gid \<noteq> [] \<and> u \<noteq> [] \<and> ag_group (abs s) gid = Some g \<and> gd_owner_id g = u")
  case False
  with assms show ?thesis by (auto simp: GroupService_DismissGroup_def get_group split: if_splits option.splits)
next
  case True
  then obtain g where g: "gid \<noteq> []" "u \<noteq> []" "ag_group (abs s) gid = Some g" "gd_owner_id g = u" by blast
  obtain ok t where d: "gs_DeleteGroup GS s gid = (ok, t)" by fastforce
  have id: "id_ok gid" using group_id_ok [OF assms(1) g(3)] by simp
  have st: "s' = t" using assms g d by (auto simp: GroupService_DismissGroup_def get_group split: bool.splits)
  note e = delete_group [OF assms(1) d id]
  have "call_effect u (abs s) ec (abs t)"
    by (rule call_effectI [of gid])
      (use e g in \<open>auto simp: same_group_def outsider_def owner_sane_def without_members_def split: if_splits\<close>)
  with e st show ?thesis by simp
qed

lemma UpdateGroup_effect:
  assumes "inv s" "is_int64 now" "GroupService_UpdateGroup GS now s gid u name avatar ann = (ec, s')"
  shows "inv s' \<and> call_effect u (abs s) ec (abs s')"
proof (cases "\<exists>g. gid \<noteq> [] \<and> u \<noteq> [] \<and> ag_group (abs s) gid = Some g \<and> (gd_owner_id g = u \<or> (\<exists>m. ag_member (abs s) (gid, u) = Some m \<and> gm_role m = ROLE_ADMIN))")
  case False
  with assms group_id_ok [OF assms(1), of gid] show ?thesis
    by (auto simp: GroupService_UpdateGroup_def get_group get_member split: if_splits option.splits)
next
  case True
  then obtain g where g: "gid \<noteq> []" "u \<noteq> []" "ag_group (abs s) gid = Some g"
    "gd_owner_id g = u \<or> (\<exists>m. ag_member (abs s) (gid, u) = Some m \<and> gm_role m = ROLE_ADMIN)" by blast
  have id: "id_ok gid" using group_id_ok [OF assms(1) g(3)] by simp
  let ?n = "if name \<noteq> [] then name else gd_group_name g" and ?v = "if avatar \<noteq> [] then avatar else gd_avatar_url g"
  have "s' = snd (gs_UpdateGroup GS s gid ?n ?v ann now)"
    using assms g id by (auto simp: GroupService_UpdateGroup_def get_group get_member Let_def split: bool.splits prod.splits)
  then obtain n v ok where d: "gs_UpdateGroup GS s gid n v ann now = (ok, s')" by (metis prod.collapse)
  have e: "inv s'" "abs s' = (if ok then (abs s)\<lparr>ag_group := (ag_group (abs s))(gid \<mapsto> edit_group g n v ann now)\<rparr> else abs s)"
    using update_group [OF assms(1) d assms(2)] g(3) by simp_all
  have "call_effect u (abs s) ec (abs s')"
    by (rule call_effectI [of gid]) (use e g in \<open>auto simp: same_group_def outsider_def owner_sane_def edit_group_def\<close>)
  with e show ?thesis by simp
qed

lemma InviteMembers_effect:
  assumes "inv s" "ids_ok us" "is_int64 now" "GroupService_InviteMembers GS now s gid u us = (ec, s')"
  shows "inv s' \<and> call_effect u (abs s) ec (abs s')"
proof (cases "\<exists>g. gid \<noteq> [] \<and> u \<noteq> [] \<and> ag_group (abs s) gid = Some g \<and> ag_member (abs s) (gid, u) \<noteq> None")
  case False
  with assms group_id_ok [OF assms(1), of gid] show ?thesis
    by (auto simp: GroupService_InviteMembers_def get_group is_member split: if_splits option.splits)
next
  case True
  then obtain g where g: "gid \<noteq> []" "u \<noteq> []" "ag_group (abs s) gid = Some g" "ag_member (abs s) (gid, u) \<noteq> None" by blast
  have id: "id_ok gid" using group_id_ok [OF assms(1) g(3)] by simp
  have st: "s' = invite_loop GS gid now us s"
    using assms(1,4) g id by (auto simp: GroupService_InviteMembers_def get_group is_member)
  note e = invite_loop_effect [OF assms(1) id assms(3,2) subset_refl]
  have "call_effect u (abs s) ec (abs s')"
  proof (rule call_effectI [of gid])
    show "owner_sane (abs s) \<Longrightarrow> owner_sane (abs s')" using e owner_sane_members_added unfolding st by blast
  qed (use e g in \<open>auto simp: st members_added_def outsider_def\<close>)
  with e st show ?thesis by simp
qed

text \<open>Removing a member who is not the owner.\<close>

lemma remove_member_effect:
  assumes "inv s" "id_ok gid" "ag_group (abs s) gid = Some g" "\<not> outsider (abs s) gid u"
    and "gs_RemoveMember GS s gid v = (ok, s')" "owner_sane (abs s) \<Longrightarrow> v \<noteq> gd_owner_id g"
  shows "inv s' \<and> call_effect u (abs s) ec (abs s')"
proof -
  note e = remove_member [OF assms(1,5,2)]
  have "call_effect u (abs s) ec (abs s')"
  proof (rule call_effectI [of gid])
    show "\<And>x. x \<noteq> gid \<Longrightarrow> same_group x (abs s) (abs s')" using e by (cases ok) (auto simp: same_group_def)
    assume o: "owner_sane (abs s)"
    show "owner_sane (abs s')" using e assms(3) o assms(6) [OF o] by (cases ok) (auto simp: owner_sane_def shrunk_def)
  qed (use assms(3,4) in simp_all)
  with e show ?thesis by simp
qed

lemma RemoveMember_effect:
  assumes "inv s" "GroupService_RemoveMember GS s gid u v = (ec, s')"
  shows "inv s' \<and> call_effect u (abs s) ec (abs s')"
proof (cases "\<exists>g op target. gid \<noteq> [] \<and> u \<noteq> [] \<and> v \<noteq> [] \<and> ag_group (abs s) gid = Some g \<and> ag_member (abs s) (gid, u) = Some op \<and>
    ag_member (abs s) (gid, v) = Some target \<and> gm_role target \<noteq> ROLE_OWNER \<and> (gm_role op = ROLE_OWNER \<or> gm_role op = ROLE_ADMIN) \<and>
    (gm_role op = ROLE_ADMIN \<longrightarrow> gm_role target \<noteq> ROLE_ADMIN)")
  case False
  with assms group_id_ok [OF assms(1), of gid] have "s' = s"
    by (auto simp: GroupService_RemoveMember_def get_group is_member get_member split: if_splits option.splits)
  with assms(1) show ?thesis by simp
next
  case True
  then obtain g op target where g: "gid \<noteq> []" "u \<noteq> []" "v \<noteq> []" "ag_group (abs s) gid = Some g" "ag_member (abs s) (gid, u) = Some op"
    "ag_member (abs s) (gid, v) = Some target" "gm_role target \<noteq> ROLE_OWNER" "gm_role op = ROLE_OWNER \<or> gm_role op = ROLE_ADMIN"
    "gm_role op = ROLE_ADMIN \<longrightarrow> gm_role target \<noteq> ROLE_ADMIN" by blast
  have id: "id_ok gid" using group_id_ok [OF assms(1) g(4)] by simp
  have "s' = snd (gs_RemoveMember GS s gid v)"
    using assms g id by (auto simp: GroupService_RemoveMember_def get_group is_member get_member split: prod.splits bool.splits)
  then obtain ok where d: "gs_RemoveMember GS s gid v = (ok, s')" by (metis prod.collapse)
  have "v \<noteq> gd_owner_id g" if "owner_sane (abs s)" using that g(4,6,7) unfolding owner_sane_def by force
  then show ?thesis by (intro remove_member_effect [OF assms(1) id g(4) _ d]) (use g in \<open>auto simp: outsider_def\<close>)
qed

lemma LeaveGroup_effect:
  assumes "inv s" "GroupService_LeaveGroup GS s gid u = (ec, s')"
  shows "inv s' \<and> call_effect u (abs s) ec (abs s')"
proof (cases "\<exists>g. gid \<noteq> [] \<and> u \<noteq> [] \<and> ag_group (abs s) gid = Some g \<and> gd_owner_id g \<noteq> u \<and> ag_member (abs s) (gid, u) \<noteq> None")
  case False
  with assms group_id_ok [OF assms(1), of gid] show ?thesis
    by (auto simp: GroupService_LeaveGroup_def get_group is_member split: if_splits option.splits)
next
  case True
  then obtain g where g: "gid \<noteq> []" "u \<noteq> []" "ag_group (abs s) gid = Some g" "gd_owner_id g \<noteq> u" "ag_member (abs s) (gid, u) \<noteq> None" by blast
  have id: "id_ok gid" using group_id_ok [OF assms(1) g(3)] by simp
  have "s' = snd (gs_RemoveMember GS s gid u)"
    using assms g id by (auto simp: GroupService_LeaveGroup_def get_group is_member split: prod.splits bool.splits)
  then obtain ok where d: "gs_RemoveMember GS s gid u = (ok, s')" by (metis prod.collapse)
  show ?thesis by (rule remove_member_effect [OF assms(1) id g(3) _ d]) (use g in \<open>auto simp: outsider_def\<close>)
qed

lemma SetMemberRole_effect:
  assumes "inv s" "is_int32 role" "GroupService_SetMemberRole GS s gid u v role = (ec, s')"
  shows "inv s' \<and> call_effect u (abs s) ec (abs s')"
proof (cases "\<exists>g target. gid \<noteq> [] \<and> u \<noteq> [] \<and> v \<noteq> [] \<and> ag_group (abs s) gid = Some g \<and> gd_owner_id g = u \<and>
    ag_member (abs s) (gid, v) = Some target \<and> gm_role target \<noteq> ROLE_OWNER")
  case False
  with assms group_id_ok [OF assms(1), of gid] have "s' = s"
    by (auto simp: GroupService_SetMemberRole_def get_group get_member split: if_splits option.splits)
  with assms(1) show ?thesis by simp
next
  case True
  then obtain g target where g: "gid \<noteq> []" "u \<noteq> []" "v \<noteq> []" "ag_group (abs s) gid = Some g" "gd_owner_id g = u"
    "ag_member (abs s) (gid, v) = Some target" "gm_role target \<noteq> ROLE_OWNER" by blast
  have id: "id_ok gid" using group_id_ok [OF assms(1) g(4)] by simp
  have "s' = snd (gs_UpdateMemberRole GS s gid v role)"
    using assms g id by (auto simp: GroupService_SetMemberRole_def get_group get_member split: prod.splits bool.splits)
  then obtain ok where d: "gs_UpdateMemberRole GS s gid v role = (ok, s')" by (metis prod.collapse)
  have e: "inv s'" "abs s' = (if ok then (abs s)\<lparr>ag_member := (ag_member (abs s))((gid, v) \<mapsto> target\<lparr>gm_role := role\<rparr>)\<rparr> else abs s)"
    using update_role [OF assms(1) d id assms(2)] g(6) by simp_all
  have "v \<noteq> gd_owner_id g" if "owner_sane (abs s)" using that g(4,6,7) unfolding owner_sane_def by force
  then have "owner_sane (abs s) \<Longrightarrow> owner_sane (abs s')" using e(2) g(4) by (auto simp: owner_sane_def)
  then have "call_effect u (abs s) ec (abs s')"
    by (intro call_effectI [of gid]) (use e g in \<open>auto simp: same_group_def outsider_def\<close>)
  with e show ?thesis by simp
qed

text \<open>Each of the three writes of a transfer concerns one group only.\<close>

lemma TransferOwner_effect:
  assumes "inv s" "GroupService_TransferOwner GS s gid u v = (ec, s')"
  shows "inv s' \<and> call_effect u (abs s) ec (abs s')"
    and "ec = EC_OK \<Longrightarrow> \<exists>g m n. ag_group (abs s) gid = Some g \<and> gd_owner_id g = u \<and> ag_member (abs s) (gid, u) = Some m \<and> ag_member (abs s) (gid, v) = Some n \<and>
      abs s' = \<lparr>ag_group = (ag_group (abs s))(gid \<mapsto> g\<lparr>gd_owner_id := v\<rparr>),
        ag_member = (ag_member (abs s))((gid, u) \<mapsto> m\<lparr>gm_role := ROLE_MEMBER\<rparr>, (gid, v) \<mapsto> n\<lparr>gm_role := ROLE_OWNER\<rparr>)\<rparr>"
proof -
  have main: "inv s' \<and> call_effect u (abs s) ec (abs s') \<and> (ec = EC_OK \<longrightarrow> (\<exists>g m n. ag_group (abs s) gid = Some g \<and> gd_owner_id g = u \<and>
      ag_member (abs s) (gid, u) = Some m \<and> ag_member (abs s) (gid, v) = Some n \<and>
      abs s' = \<lparr>ag_group = (ag_group (abs s))(gid \<mapsto> g\<lparr>gd_owner_id := v\<rparr>),
        ag_member = (ag_member (abs s))((gid, u) \<mapsto> m\<lparr>gm_role := ROLE_MEMBER\<rparr>, (gid, v) \<mapsto> n\<lparr>gm_role := ROLE_OWNER\<rparr>)\<rparr>))"
  proof (cases "\<exists>g n. gid \<noteq> [] \<and> u \<noteq> [] \<and> v \<noteq> [] \<and> ag_group (abs s) gid = Some g \<and> gd_owner_id g = u \<and> ag_member (abs s) (gid, v) = Some n")
    case False
    with assms group_id_ok [OF assms(1), of gid] show ?thesis
      by (auto simp: GroupService_TransferOwner_def get_group is_member split: if_splits option.splits)
  next
    case True
    then obtain g n where g: "gid \<noteq> []" "u \<noteq> []" "v \<noteq> []" "ag_group (abs s) gid = Some g" "gd_owner_id g = u" "ag_member (abs s) (gid, v) = Some n" by blast
    have id: "id_ok gid" using group_id_ok [OF assms(1) g(4)] by simp
    have r: "is_int32 ROLE_MEMBER" "is_int32 ROLE_OWNER" by (simp_all add: is_int32_def ROLE_MEMBER_def ROLE_OWNER_def)
    obtain b1 s1 where d1: "gs_UpdateMemberRole GS s gid u ROLE_MEMBER = (b1, s1)" by fastforce
    obtain b2 s2 where d2: "gs_UpdateMemberRole GS s1 gid v ROLE_OWNER = (b2, s2)" by fastforce
    obtain b3 s3 where d3: "gs_UpdateGroupOwner GS s2 gid v = (b3, s3)" by fastforce
    have res: "ec = (if b1 \<and> b2 \<and> b3 then EC_OK else EC_INTERNAL_ERROR) \<and> s' = (if b1 then if b2 then s3 else s2 else s1)"
      using assms g id d1 d2 d3 by (auto simp: GroupService_TransferOwner_def get_group is_member split: bool.splits)
    note e1 = update_role [OF assms(1) d1 id r(1)]
    then have i1: "inv s1" by blast
    note e2 = update_role [OF i1 d2 id r(2)]
    then have i2: "inv s2" by blast
    note e3 = update_owner [OF i2 d3]
    have f1: "same_group x (abs s) (abs s1) \<and> ag_group (abs s1) = ag_group (abs s)" if "x \<noteq> gid" for x
      using e1 that by (auto simp: same_group_def split: option.splits if_splits)
    have f2: "same_group x (abs s) (abs s2) \<and> ag_group (abs s2) = ag_group (abs s)" if "x \<noteq> gid" for x
      using e2 f1 [OF that] that by (auto simp: same_group_def split: option.splits if_splits)
    have f3: "same_group x (abs s) (abs s3)" if "x \<noteq> gid" for x
      using e3 f2 [OF that] that by (auto simp: same_group_def split: option.splits if_splits)
    have fin: "\<exists>g m n. ag_group (abs s) gid = Some g \<and> gd_owner_id g = u \<and> ag_member (abs s) (gid, u) = Some m \<and> ag_member (abs s) (gid, v) = Some n \<and>
      abs s' = \<lparr>ag_group = (ag_group (abs s))(gid \<mapsto> g\<lparr>gd_owner_id := v\<rparr>),
        ag_member = (ag_member (abs s))((gid, u) \<mapsto> m\<lparr>gm_role := ROLE_MEMBER\<rparr>, (gid, v) \<mapsto> n\<lparr>gm_role := ROLE_OWNER\<rparr>)\<rparr>"
      if b: "b1" "b2" "b3"
      using e1 e2 e3 g(4-6) b res by (cases "abs s") (auto split: option.splits if_splits)
    have "owner_sane (abs s) \<Longrightarrow> owner_sane (abs s')" if b: "b1" "b2" "b3"
      using fin [OF b] by (auto simp: owner_sane_def split: if_splits)
    then have "call_effect u (abs s) ec (abs s')"
      by (intro call_effectI [of gid]) (use f1 f2 f3 g res in \<open>auto simp: outsider_def split: if_splits\<close>)
    with i1 i2 e3 res fin show ?thesis by auto
  qed
  then show "inv s' \<and> call_effect u (abs s) ec (abs s')"
    "ec = EC_OK \<Longrightarrow> \<exists>g m n. ag_group (abs s) gid = Some g \<and> gd_owner_id g = u \<and> ag_member (abs s) (gid, u) = Some m \<and> ag_member (abs s) (gid, v) = Some n \<and>
      abs s' = \<lparr>ag_group = (ag_group (abs s))(gid \<mapsto> g\<lparr>gd_owner_id := v\<rparr>),
        ag_member = (ag_member (abs s))((gid, u) \<mapsto> m\<lparr>gm_role := ROLE_MEMBER\<rparr>, (gid, v) \<mapsto> n\<lparr>gm_role := ROLE_OWNER\<rparr>)\<rparr>"
    by blast+
qed

lemma unique_ids_set: "set (unique_ids c us) = insert c {i \<in> set us. i \<noteq> []}"
  by (auto simp: unique_ids_def)

lemma CreateGroup_effect:
  assumes "inv s" "id_ok c" "ids_ok us" "draws_ok 12 draws" "is_int64 now"
    and "GroupService_CreateGroup GS draws now s c name avatar us = (r, s')"
  shows "inv s' \<and> call_effect c (abs s) (cgr_error_code r) (abs s')"
proof (cases "length (unique_ids c us) < MIN_GROUP_MEMBERS")
  case True
  with assms show ?thesis by (auto simp: GroupService_CreateGroup_def Let_def split: if_splits)
next
  case False
  let ?gid = "GenerateShortId draws ''g_'' 12"
  let ?d = "\<lparr>gd_group_id = ?gid, gd_group_name = (if name = [] then kDefaultGroupName else name), gd_avatar_url = avatar, gd_owner_id = c,
      gd_member_count = wrap32 (int (length (unique_ids c us))), gd_announcement = [], gd_created_at = now, gd_updated_at = now, gd_status = 0\<rparr>"
  let ?o = "new_member c ROLE_OWNER now"
  have id: "id_ok ?gid" using clean_GenerateShortId [OF _ assms(4), of "''g_''"] by (simp add: id_ok_def GenerateShortId_def)
  have dok: "group_ok ?d" using id assms(2,5) by (simp add: group_ok_def is_int32_def [of 0] id_ok_def)
  have ook: "member_ok ?o" using assms(2,5) by (simp add: member_ok_def new_member_def ROLE_OWNER_def is_int32_def)
  obtain b1 s1 where d1: "gs_CreateGroup GS s ?d = (b1, s1)" by fastforce
  obtain b2 s2 where d2: "gs_AddMember GS s1 ?gid ?o = (b2, s2)" by fastforce
  have ne: "c \<noteq> []" using assms(2) by (simp add: id_ok_def)
  note e1 = create_group [OF assms(1) d1 dok]
  then have i1: "inv s1" by blast
  note e2 = add_member [OF i1 d2 id ook]
  then have i2: "inv s2" by blast
  have us: "\<forall>u \<in> set (unique_ids c us). id_ok u \<and> u \<in> set (unique_ids c us)"
    using assms(2,3) by (auto simp: unique_ids_set ids_ok_def list_all_iff)
  note e3 = add_others_effect [OF i2 id assms(5) us]
  have new: "b1 \<Longrightarrow> ag_group (abs s) ?gid = None" using e1 by simp
  have gen: "prefix ''g_'' ?gid" by (simp add: GenerateShortId_def)
  have f: "b1 \<Longrightarrow> x \<noteq> ?gid \<Longrightarrow> same_group x (abs s) (abs s2)" for x
    using e1 e2 by (cases b2) (auto simp: same_group_def)
  consider (no) "\<not> b1" | (undo) "b1" "\<not> b2" | (ok) "b1" "b2" by blast
  then show ?thesis
  proof cases
    case no
    with assms(6) False ne d1 e1 show ?thesis by (auto simp: GroupService_CreateGroup_def Let_def)
  next
    case undo
    obtain b4 s4 where d4: "gs_DeleteGroup GS s2 ?gid = (b4, s4)" by fastforce
    have r: "cgr_error_code r = EC_INTERNAL_ERROR \<and> s' = s4"
      using assms(6) False ne d1 d2 d4 undo by (auto simp: GroupService_CreateGroup_def Let_def)
    note e4 = delete_group [OF i2 d4 id]
    have "same_group x (abs s) (abs s4)" if "x \<noteq> ?gid" for x
      using f [OF undo(1) that] e4 that by (cases b4) (auto simp: same_group_def without_members_def)
    from call_effect_newI [OF this new [OF undo(1)] gen] r e4 show ?thesis by simp
  next
    case ok
    have r: "cgr_error_code r = EC_OK \<and> s' = add_others GS ?gid c now (unique_ids c us) s2"
      using assms(6) False ne d1 d2 ok by (auto simp: GroupService_CreateGroup_def Let_def)
    have "owner_sane (abs s) \<Longrightarrow> owner_sane (abs s2)" using e1 e2 ok by (auto simp: owner_sane_def grown_def new_member_def)
    then have "owner_sane (abs s) \<Longrightarrow> owner_sane (abs s')" using e3 r owner_sane_members_added by blast
    moreover have "same_group x (abs s) (abs s')" if "x \<noteq> ?gid" for x
      using same_group_trans [OF f [OF ok(1) that]] e3 r that unfolding members_added_def by blast
    ultimately show ?thesis using call_effect_newI [OF _ new [OF ok(1)] gen] e3 r by blast
  qed
qed

lemma group_step_effect:
  assumes "group_step clean GS s ec s'" "inv s"
  shows "inv s' \<and> (\<forall>x. ag_group (abs s') x \<noteq> None \<longrightarrow> ag_group (abs s) x \<noteq> None \<or> prefix ''g_'' x) \<and>
    (ec \<noteq> EC_INTERNAL_ERROR \<longrightarrow> owner_sane (abs s) \<longrightarrow> owner_sane (abs s'))"
proof -
  have "\<exists>u. inv s' \<and> call_effect u (abs s) ec (abs s')"
    using assms
  proof (induction rule: group_step.induct)
    case (create c us draws now name avatar r s')
    show ?case
    proof (cases "c = []")
      case True
      with create show ?thesis by (auto simp: GroupService_CreateGroup_def)
    next
      case False
      then have "id_ok c" using create(1) by (simp add: id_ok_def)
      with create show ?thesis using CreateGroup_effect ids_ok_clean by blast
    qed
  next
    case (dismiss gid u ec s')
    then show ?case using DismissGroup_effect by blast
  next
    case (update now gid u name avatar ann ec s')
    then show ?case using UpdateGroup_effect by blast
  next
    case (invite us now gid u ec s')
    then show ?case using InviteMembers_effect ids_ok_clean by blast
  next
    case (remove gid u v ec s')
    then show ?case using RemoveMember_effect by blast
  next
    case (leave gid u ec s')
    then show ?case using LeaveGroup_effect by blast
  next
    case (transfer gid u v ec s')
    then show ?case using TransferOwner_effect(1) by blast
  next
    case (set_role role gid u v ec s')
    then show ?case using SetMemberRole_effect by blast
  qed
  then show ?thesis unfolding call_effect_def by blast
qed

lemma group_reach_effect:
  assumes "group_reach clean P GS s0 s" "inv s0"
  shows "inv s \<and> ((\<forall>ec. P ec \<longrightarrow> ec \<noteq> EC_INTERNAL_ERROR) \<longrightarrow> owner_sane (abs s0) \<longrightarrow> owner_sane (abs s))"
  using assms by (induction rule: group_reach.induct) (use group_step_effect in blast)+

end

end
