(* ===== verification/Group_Properties.thy ===== *)
theory Group_Properties
  imports Group_Service
begin

text \<open>
  What the group service guarantees on the RocksDB store, in the terms of its own operations.
  Two results suppose that writes to the database do not fail (\<open>reliable_env\<close>); the others hold
  with failing writes too.
\<close>

section \<open>A store whose writes succeed\<close>

locale reliable_env = store_env +
  assumes write_ok: "fst (db_Write R db bs)"

locale reliable_group_store = group_store +
  assumes create_ok: "inv s \<Longrightarrow> group_ok g \<Longrightarrow> ag_group (abs s) (gd_group_id g) = None \<Longrightarrow> fst (gs_CreateGroup GS s g)"
    and add_ok: "inv s \<Longrightarrow> id_ok gid \<Longrightarrow> member_ok m \<Longrightarrow> ag_group (abs s) gid \<noteq> None \<Longrightarrow> ag_member (abs s) (gid, gm_user_id m) = None \<Longrightarrow>
      fst (gs_AddMember GS s gid m)"

sublocale reliable_env \<subseteq> rgs: reliable_group_store "RocksDBGroupStore R J" "group_inv R J" "group_abs R J"
proof (unfold_locales, simp_all only: RocksDBGroupStore_simps)
  fix db g
  assume "group_inv R J db" "group_ok g" "ag_group (group_abs R J db) (gd_group_id g) = None"
  then show "fst (RocksDBGroupStore_CreateGroup R J db g)"
    using ag_group_iff(2) [of J "db_Get R db" "gd_group_id g"] write_ok
    by (auto simp: RocksDBGroupStore_CreateGroup_def group_view group_ok_def id_ok_def db_Put_def)
next
  fix db gid m
  assume a: "group_inv R J db" "id_ok gid" "member_ok m" "ag_group (group_abs R J db) gid \<noteq> None"
    "ag_member (group_abs R J db) (gid, gm_user_id m) = None"
  then have "db_Get R db (KeyGroupMember gid (gm_user_id m)) = None"
    using ag_member_iff(2) [of J "db_Get R db" gid] by (simp add: group_view)
  with a show "fst (RocksDBGroupStore_AddMember R J db gid m)"
    using write_ok by (auto simp: RocksDBGroupStore_AddMember_def gs_get_group member_ok_def id_ok_def)
qed

context reliable_env
begin

lemma reliable_rocksdb_group_store: "reliable_group_store (RocksDBGroupStore R J) (group_inv R J) (group_abs R J)"
  by unfold_locales

end

interpretation alist_reliable: reliable_env alist_db text_json
  by unfold_locales (simp add: alist_db_def)

section \<open>What creating a group writes\<close>

lemma wrap32_add [simp]: "wrap32 (wrap32 x + y) = wrap32 (x + y)"
proof -
  have "wrap32 x + y + 2 ^ 31 = (x + 2 ^ 31) mod 2 ^ 32 + y" by (simp add: wrap32_def)
  then have "(wrap32 x + y + 2 ^ 31) mod 2 ^ 32 = (x + y + 2 ^ 31) mod 2 ^ 32" by (simp add: mod_simps algebra_simps)
  then show ?thesis by (simp add: wrap32_def)
qed

context reliable_group_store
begin

lemma add_others_exact:
  assumes "inv s" "id_ok gid" "is_int64 now" "ag_group (abs s) gid = Some g" "distinct us" "\<forall>u \<in> set us. id_ok u"
    "\<forall>u \<in> set us. u \<noteq> c \<longrightarrow> ag_member (abs s) (gid, u) = None"
  shows "inv (add_others GS gid c now us s) \<and>
    (\<forall>u. ag_member (abs (add_others GS gid c now us s)) (gid, u) =
      (if u \<in> set us \<and> u \<noteq> c then Some (new_member u ROLE_MEMBER now) else ag_member (abs s) (gid, u))) \<and>
    (\<exists>h. ag_group (abs (add_others GS gid c now us s)) gid = Some h \<and> gd_owner_id h = gd_owner_id g \<and>
      gd_member_count h = wrap32 (gd_member_count g + int (card (set us - {c}))))"
  using assms(1,4-7)
proof (induction us arbitrary: s g)
  case (Cons u us)
  show ?case
  proof (cases "u = c")
    case True
    have "\<forall>v \<in> set us. id_ok v" "\<forall>v \<in> set us. v \<noteq> c \<longrightarrow> ag_member (abs s) (gid, v) = None" "distinct us"
      using Cons.prems by auto
    from Cons.IH [OF Cons.prems(1,2) this(3,1,2)] True show ?thesis by auto
  next
    case False
    let ?m = "new_member u ROLE_MEMBER now"
    obtain ok t where a: "gs_AddMember GS s gid ?m = (ok, t)" by fastforce
    have mok: "member_ok ?m" using Cons.prems(4) assms(3) by (simp add: member_ok_def new_member_def ROLE_MEMBER_def is_int32_def)
    have ok: ok using add_ok [OF Cons.prems(1) assms(2) mok] Cons.prems(2,5) False a by (auto simp: new_member_def)
    have e: "inv t" "abs t = \<lparr>ag_group = (ag_group (abs s))(gid \<mapsto> grown g), ag_member = (ag_member (abs s))((gid, u) \<mapsto> ?m)\<rparr>"
      using add_member [OF Cons.prems(1) a assms(2) mok] ok Cons.prems(2) by (auto simp: new_member_def)
    have IH: "inv (add_others GS gid c now us t) \<and>
        (\<forall>v. ag_member (abs (add_others GS gid c now us t)) (gid, v) =
          (if v \<in> set us \<and> v \<noteq> c then Some (new_member v ROLE_MEMBER now) else ag_member (abs t) (gid, v))) \<and>
        (\<exists>h. ag_group (abs (add_others GS gid c now us t)) gid = Some h \<and> gd_owner_id h = gd_owner_id (grown g) \<and>
          gd_member_count h = wrap32 (gd_member_count (grown g) + int (card (set us - {c}))))"
      by (rule Cons.IH [OF e(1)]) (use e(2) Cons.prems in auto)
    have card: "card (set (u # us) - {c}) = Suc (card (set us - {c}))"
    proof -
      have "set (u # us) - {c} = insert u (set us - {c})" "u \<notin> set us - {c}" using False Cons.prems(3) by auto
      then show ?thesis by simp
    qed
    have "wrap32 (gd_member_count (grown g) + int (card (set us - {c}))) = wrap32 (gd_member_count g + int (card (set (u # us) - {c})))"
      unfolding card by (simp add: grown_def add.assoc)
    with IH e(2) False a show ?thesis by (auto simp: grown_def)
  qed
qed (use group_data in \<open>auto simp: group_ok_def\<close>)

lemma distinct_unique_ids: "distinct (unique_ids c us)"
  by (simp add: unique_ids_def)

lemma CreateGroup_exact:
  assumes "inv s" "id_ok c" "ids_ok us" "draws_ok 12 draws" "is_int64 now"
    and "ag_group (abs s) (GenerateShortId draws ''g_'' 12) = None" and "3 \<le> card (set (unique_ids c us))"
    and "GroupService_CreateGroup GS draws now s c name avatar us = (r, s')"
  shows "inv s' \<and> r = \<lparr>cgr_error_code = EC_OK, cgr_group_id = GenerateShortId draws ''g_'' 12\<rparr> \<and>
    (\<forall>u. ag_member (abs s') (cgr_group_id r, u) =
      (if u \<in> set (unique_ids c us) then Some (new_member u (if u = c then ROLE_OWNER else ROLE_MEMBER) now) else None)) \<and>
    (\<exists>g. ag_group (abs s') (cgr_group_id r) = Some g \<and> gd_owner_id g = c \<and>
      gd_member_count g = wrap32 (2 * int (card (set (unique_ids c us)))))"
proof -
  let ?gid = "GenerateShortId draws ''g_'' 12" and ?us = "unique_ids c us"
  let ?d = "\<lparr>gd_group_id = ?gid, gd_group_name = (if name = [] then kDefaultGroupName else name), gd_avatar_url = avatar, gd_owner_id = c,
      gd_member_count = wrap32 (int (length ?us)), gd_announcement = [], gd_created_at = now, gd_updated_at = now, gd_status = 0\<rparr>"
  let ?o = "new_member c ROLE_OWNER now"
  have len: "length ?us = card (set ?us)" by (simp add: distinct_unique_ids distinct_card)
  have ne: "c \<noteq> []" "\<not> length ?us < MIN_GROUP_MEMBERS" using assms(2,7) by (simp_all add: id_ok_def MIN_GROUP_MEMBERS_def len)
  have id: "id_ok ?gid" using clean_GenerateShortId [OF _ assms(4), of "''g_''"] by (simp add: id_ok_def GenerateShortId_def)
  have dok: "group_ok ?d" using id assms(2,5) by (simp add: group_ok_def is_int32_def [of 0] id_ok_def)
  have ook: "member_ok ?o" "gm_user_id ?o = c" using assms(2,5) by (simp_all add: member_ok_def new_member_def ROLE_OWNER_def is_int32_def)
  obtain b1 s1 where d1: "gs_CreateGroup GS s ?d = (b1, s1)" by fastforce
  have b1: b1 using create_ok [OF assms(1) dok] assms(6) d1 by simp
  have e1: "inv s1" "abs s1 = (abs s)\<lparr>ag_group := (ag_group (abs s))(?gid \<mapsto> ?d)\<rparr>" using create_group [OF assms(1) d1 dok] b1 by simp_all
  have nomem: "ag_member (abs s) (?gid, u) = None" for u using member_data [OF assms(1), of ?gid u] assms(6) by (cases "ag_member (abs s) (?gid, u)") auto
  obtain b2 s2 where d2: "gs_AddMember GS s1 ?gid ?o = (b2, s2)" by fastforce
  have b2: b2 using add_ok [OF e1(1) id ook(1)] e1(2) nomem d2 by simp
  have e2: "inv s2" "abs s2 = \<lparr>ag_group = (ag_group (abs s1))(?gid \<mapsto> grown ?d), ag_member = (ag_member (abs s1))((?gid, c) \<mapsto> ?o)\<rparr>"
    using add_member [OF e1(1) d2 id ook(1)] b2 e1(2) by (auto simp: ook(2))
  have r: "r = \<lparr>cgr_error_code = EC_OK, cgr_group_id = ?gid\<rparr> \<and> s' = add_others GS ?gid c now ?us s2"
    using assms(8) ne d1 d2 b1 b2 by (auto simp: GroupService_CreateGroup_def Let_def)
  have us: "\<forall>u \<in> set ?us. id_ok u" using assms(2,3) by (auto simp: unique_ids_set ids_ok_def list_all_iff)
  have "\<forall>u \<in> set ?us. u \<noteq> c \<longrightarrow> ag_member (abs s2) (?gid, u) = None" using nomem e1(2) e2(2) by simp
  note e3 = add_others_exact [OF e2(1) id assms(5) _ distinct_unique_ids us this, of "grown ?d"]
  have "card (set ?us - {c}) = card (set ?us) - 1" by (rule card_Diff_singleton) (simp add: unique_ids_set)
  then have card: "int (card (set ?us)) + 1 + int (card (set ?us - {c})) = 2 * int (card (set ?us))" using assms(7) by simp
  have cnt: "wrap32 (gd_member_count (grown ?d) + int (card (set ?us - {c}))) = wrap32 (2 * int (card (set ?us)))"
    unfolding card [symmetric] by (simp add: grown_def len)
  have c: "c \<in> set ?us" by (simp add: unique_ids_set)
  have "gd_owner_id (grown ?d) = c" by (simp add: grown_def)
  moreover have "ag_group (abs s2) ?gid = Some (grown ?d)" "\<And>u. ag_member (abs s2) (?gid, u) = (if u = c then Some ?o else None)"
    using e2(2) e1(2) nomem by auto
  ultimately show ?thesis using e3 r cnt c by auto
qed

end

section \<open>A concrete history\<close>

text \<open>\<open>a\<close> creates a group with \<open>b\<close> and \<open>c\<close>.\<close>

definition group_demo_draws :: "nat list" where
  "group_demo_draws = replicate 12 3"

definition group_demo_id :: string where
  "group_demo_id = GenerateShortId group_demo_draws ''g_'' 12"

definition group_demo1 :: "(string \<times> string) list" where
  "group_demo1 = snd (GroupService_CreateGroup (RocksDBGroupStore alist_db text_json) group_demo_draws 1000 [] ''a'' ''team'' [] [''b'', ''c'', []])"

lemma group_demo_ids: "id_ok ''a''" "id_ok ''b''" "id_ok ''c''" "ids_ok [''b'', ''c'', []]" "is_int64 1000"
  by (simp_all add: id_ok_def is_int64_def ids_ok_def)

lemma group_demo_draws_ok: "draws_ok 12 group_demo_draws"
  by (simp add: draws_ok_def group_demo_draws_def kAlphaNum_def)

lemma alist_no_keys: "db_Get alist_db [] = Map.empty"
  by (simp add: alist_db_def)

lemma empty_group_state:
  assumes "db_Get R db0 = Map.empty"
  shows "group_inv R J db0" "ag_group (group_abs R J db0) gid = None" "owner_sane (group_abs R J db0)"
  using group_inv_empty [OF assms] by (simp_all add: group_abs_def gmap_abs_def assms owner_sane_def)

lemma group_demo_unique: "set (unique_ids ''a'' [''b'', ''c'', []]) = {''a'', ''b'', ''c''}" "card {''a'', ''b'', ''c''} = 3"
  by (auto simp: unique_ids_def)

lemma group_demo1_facts:
  "group_inv alist_db text_json group_demo1"
  "ag_member (group_abs alist_db text_json group_demo1) (group_demo_id, u) =
     (if u \<in> {''a'', ''b'', ''c''} then Some (new_member u (if u = ''a'' then ROLE_OWNER else ROLE_MEMBER) 1000) else None)"
  "\<exists>g. ag_group (group_abs alist_db text_json group_demo1) group_demo_id = Some g \<and> gd_owner_id g = ''a''"
  "fst (GroupService_CreateGroup (RocksDBGroupStore alist_db text_json) group_demo_draws 1000 [] ''a'' ''team'' [] [''b'', ''c'', []]) =
     \<lparr>cgr_error_code = EC_OK, cgr_group_id = group_demo_id\<rparr>"
proof -
  have call: "GroupService_CreateGroup (RocksDBGroupStore alist_db text_json) group_demo_draws 1000 [] ''a'' ''team'' [] [''b'', ''c'', []] =
      (fst (GroupService_CreateGroup (RocksDBGroupStore alist_db text_json) group_demo_draws 1000 [] ''a'' ''team'' [] [''b'', ''c'', []]), group_demo1)"
    by (simp add: group_demo1_def)
  note e = alist_reliable.rgs.CreateGroup_exact [OF empty_group_state(1) [OF alist_no_keys] group_demo_ids(1,4) group_demo_draws_ok
      group_demo_ids(5) empty_group_state(2) [OF alist_no_keys] _ call, unfolded group_demo_unique, simplified, folded group_demo_id_def]
  from e show "group_inv alist_db text_json group_demo1"
    "ag_member (group_abs alist_db text_json group_demo1) (group_demo_id, u) =
     (if u \<in> {''a'', ''b'', ''c''} then Some (new_member u (if u = ''a'' then ROLE_OWNER else ROLE_MEMBER) 1000) else None)"
    "\<exists>g. ag_group (group_abs alist_db text_json group_demo1) group_demo_id = Some g \<and> gd_owner_id g = ''a''"
    "fst (GroupService_CreateGroup (RocksDBGroupStore alist_db text_json) group_demo_draws 1000 [] ''a'' ''team'' [] [''b'', ''c'', []]) =
     \<lparr>cgr_error_code = EC_OK, cgr_group_id = group_demo_id\<rparr>"
    by auto
qed

lemma group_demo1_reach: "P EC_OK \<Longrightarrow> group_reach clean P (RocksDBGroupStore alist_db text_json) [] group_demo1"
proof -
  assume P: "P EC_OK"
  obtain r where r: "GroupService_CreateGroup (RocksDBGroupStore alist_db text_json) group_demo_draws 1000 [] ''a'' ''team'' [] [''b'', ''c'', []] = (r, group_demo1)"
    "cgr_error_code r = EC_OK"
    using group_demo1_facts(4) by (metis CreateGroupResult.select_convs(1) group_demo1_def prod.collapse)
  from group_step.create [of clean, OF id_ok_simps(2) [OF group_demo_ids(1)] group_demo_ids(4) [unfolded ids_ok_clean] group_demo_draws_ok group_demo_ids(5) r(1)] r(2) P
  show ?thesis using group_reach.step [OF group_reach.start] by simp
qed

lemma group_demo_id_ok: "id_ok group_demo_id"
  using clean_GenerateShortId [OF _ group_demo_draws_ok, of "''g_''"] by (simp add: group_demo_id_def id_ok_def GenerateShortId_def)

section \<open>Membership\<close>

text \<open>What the ids without a colon are for: the record of a member \<open>u:v\<close> in the index of the users' groups is also the one of a user \<open>u\<close>, in a
  group that does not exist.\<close>

lemma colon_member_confuses:
  assumes "store_env R J" and "RocksDBGroupStore_AddMember R J db gid m = (True, db')" and "gm_user_id m = u @ '':'' @ v" and "u \<noteq> []"
  shows "v @ '':'' @ gid \<in> set (RocksDBGroupStore_GetUserGroupIds R db' u)"
proof -
  have env: "rocksdb_laws R" using assms(1) by (simp add: store_env_def)
  obtain bs g where w: "db_Write R db [BPut (KeyGroupMember gid (gm_user_id m)) bs, BPut (KeyUserGroup (gm_user_id m) gid) [], BPut (KeyGroup gid) g] = (True, db')"
    using assms(2) by (auto simp: RocksDBGroupStore_AddMember_def split: if_splits option.splits)
  have "KeyGroup gid \<noteq> KeyUserGroup (gm_user_id m) gid" by (simp add: KeyGroup_def KeyUserGroup_def K_GROUP_def K_USER_GROUPS_def)
  then have k: "db_Get R db' (KeyUserGroup (gm_user_id m) gid) = Some []" using rocksdb_laws.get_write_ok [OF env w] by simp
  have key: "KeyUserGroup (gm_user_id m) gid = PrefixUserGroups u @ v @ '':'' @ gid" by (simp add: assms(3) KeyUserGroup_def PrefixUserGroups_def)
  then have "(PrefixUserGroups u @ v @ '':'' @ gid, []) \<in> set (scan_prefix R db' (PrefixUserGroups u))"
    using k by (simp add: rocksdb_laws.in_scan_prefix [OF env])
  then show ?thesis using assms(4) by (force simp: RocksDBGroupStore_GetUserGroupIds_def Let_def set_map_filter)
qed

text \<open>C10: In every state that calls reach which make members only of users whose ids have no colon (the ids of accounts have none, but the
  code does not check the ids that a client sends), the three views of membership agree: the member record, the listing of
  the user's groups and the existence of the group; a user's group list holds the groups the user is a
  member of, and every one of them exists.\<close>

theorem group_membership_consistent:
  assumes "store_env R J" and "db_Get R db0 = Map.empty" and "group_reach clean P (RocksDBGroupStore R J) db0 db"
    and "id_ok gid" and "id_ok uid"
  shows "(RocksDBGroupStore_IsMember R db gid uid \<longleftrightarrow> gid \<in> set (RocksDBGroupStore_GetUserGroupIds R db uid))
    \<and> (RocksDBGroupStore_IsMember R db gid uid \<longleftrightarrow> RocksDBGroupStore_GetMember R J db gid uid \<noteq> None)
    \<and> (RocksDBGroupStore_IsMember R db gid uid \<longrightarrow> RocksDBGroupStore_GetGroup R J db gid \<noteq> None)
    \<and> length (GroupService_GetUserGroups (RocksDBGroupStore R J) db uid) = length (RocksDBGroupStore_GetUserGroupIds R db uid)"
proof -
  note gs = store_env.rocksdb_group_store [OF assms(1)]
  have inv: "group_inv R J db" using group_store.group_reach_effect [OF gs assms(3) empty_group_state(1) [OF assms(2)]] by blast
  note laws = group_store.is_member [OF gs inv assms(4)] group_store.user_groups [OF gs inv assms(5)] group_store.get_member [OF gs inv assms(4)]
    group_store.get_group [OF gs inv]
  have ex: "ag_group (group_abs R J db) g \<noteq> None" if "ag_member (group_abs R J db) (g, uid) \<noteq> None" for g
    using group_store.member_data [OF gs inv, of g uid] that by auto
  have "length (List.map_filter f gs) = length gs" if "\<forall>g \<in> set gs. f g \<noteq> None" for f :: "string \<Rightarrow> GroupData option" and gs
    using that by (induction gs) (auto simp: map_filter_simps)
  moreover have "uid \<noteq> []" using assms(5) by (simp add: id_ok_def)
  ultimately have "length (GroupService_GetUserGroups (RocksDBGroupStore R J) db uid) = length (RocksDBGroupStore_GetUserGroupIds R db uid)"
    using ex laws(2,4) by (simp add: GroupService_GetUserGroups_def)
  with laws ex [of gid] show ?thesis by simp
qed

theorem group_membership_consistent_witness:
  "group_demo_id \<in> set (RocksDBGroupStore_GetUserGroupIds alist_db group_demo1 ''b'') \<and> RocksDBGroupStore_GetGroup alist_db text_json group_demo1 group_demo_id \<noteq> None"
proof -
  have "RocksDBGroupStore_IsMember alist_db group_demo1 group_demo_id ''b''"
    using alist_env.gs_is_member [OF group_demo1_facts(1) group_demo_id_ok] by (simp add: group_demo1_facts(2))
  then show ?thesis
    using group_membership_consistent [OF alist_env.store_env_axioms alist_no_keys group_demo1_reach [of "\<lambda>_. True"] group_demo_id_ok group_demo_ids(2)]
    by simp
qed



text \<open>Creating a group: fewer than three distinct users (the creator included, empty ids not counted) is
  refused and changes nothing; otherwise the group exists with exactly those users as members, the creator
  as owner and the others as ordinary members.  The stored member count is twice the number of members:
  it is initialised with that number and then incremented once per member.\<close>

theorem CreateGroup_outcome:
  assumes "reliable_env R J" and "db_Get R db0 = Map.empty" and "group_reach clean P (RocksDBGroupStore R J) db0 db"
    and "id_ok creator" and "ids_ok member_ids" and "draws_ok 12 draws" and "is_int64 now"
    and "RocksDBGroupStore_GetGroup R J db (GenerateShortId draws ''g_'' 12) = None"
    and "users = {creator} \<union> {u \<in> set member_ids. u \<noteq> []}" and "card users < 2 ^ 30"
    and "GroupService_CreateGroup (RocksDBGroupStore R J) draws now db creator name avatar member_ids = (r, db')"
  shows "(card users < 3 \<longrightarrow> cgr_error_code r = EC_GROUP_MEMBERS_TOO_FEW \<and> db' = db)
    \<and> (3 \<le> card users \<longrightarrow> cgr_error_code r = EC_OK
        \<and> (\<forall>u. RocksDBGroupStore_GetMember R J db' (cgr_group_id r) u =
              (if u \<in> users then Some (new_member u (if u = creator then ROLE_OWNER else ROLE_MEMBER) now) else None))
        \<and> (\<exists>g. RocksDBGroupStore_GetGroup R J db' (cgr_group_id r) = Some g \<and> gd_owner_id g = creator
              \<and> gd_member_count g = 2 * int (card users)))"
proof -
  have env: "store_env R J" using assms(1) by (rule reliable_env.axioms(1))
  note gs = store_env.rocksdb_group_store [OF env]
  note rgs = reliable_env.reliable_rocksdb_group_store [OF assms(1)]
  have inv: "group_inv R J db" using group_store.group_reach_effect [OF gs assms(3) empty_group_state(1) [OF assms(2)]] by blast
  have u: "set (unique_ids creator member_ids) = users" using assms(9) by (auto simp: unique_ids_def)
  have len: "length (unique_ids creator member_ids) = card users"
    unfolding u [symmetric] by (rule distinct_card [symmetric]) (simp add: unique_ids_def)
  have few: "cgr_error_code r = EC_GROUP_MEMBERS_TOO_FEW \<and> db' = db" if "card users < 3"
    using that assms(4,11) len by (auto simp: GroupService_CreateGroup_def MIN_GROUP_MEMBERS_def id_ok_def)
  have "ag_group (group_abs R J db) (GenerateShortId draws ''g_'' 12) = None" using assms(8) store_env.gs_get_group [OF env inv] by simp
  note e = reliable_group_store.CreateGroup_exact [OF rgs inv assms(4-7) this _ assms(11), unfolded u]
  have id: "id_ok (GenerateShortId draws ''g_'' 12)"
    using clean_GenerateShortId [OF _ assms(6), of "''g_''"] by (simp add: id_ok_def GenerateShortId_def)
  have "wrap32 (2 * int (card users)) = 2 * int (card users)" using assms(10) by (intro wrap32_id) (simp add: is_int32_def)
  with e store_env.gs_get_group [OF env, of db'] store_env.gs_get_member [OF env _ id, of db'] few show ?thesis by auto
qed

theorem CreateGroup_outcome_witness:
  "\<exists>g. RocksDBGroupStore_GetGroup alist_db text_json group_demo1 group_demo_id = Some g \<and> gd_owner_id g = ''a'' \<and> gd_member_count g = 6"
proof -
  have call: "GroupService_CreateGroup (RocksDBGroupStore alist_db text_json) group_demo_draws 1000 [] ''a'' ''team'' [] [''b'', ''c'', []] =
      (\<lparr>cgr_error_code = EC_OK, cgr_group_id = group_demo_id\<rparr>, group_demo1)"
    using group_demo1_facts(4) by (simp add: group_demo1_def prod_eq_iff)
  have users: "{''a'', ''b'', ''c''} = {''a''} \<union> {u \<in> set [''b'', ''c'', []]. u \<noteq> []}" by auto
  have "RocksDBGroupStore_GetGroup alist_db text_json [] (GenerateShortId group_demo_draws ''g_'' 12) = None"
    by (simp add: RocksDBGroupStore_GetGroup_def alist_no_keys)
  from CreateGroup_outcome [OF alist_reliable.reliable_env_axioms alist_no_keys group_reach.start group_demo_ids(1,4) group_demo_draws_ok
      group_demo_ids(5) this users _ call] group_demo_unique(2)
  show ?thesis by auto
qed

section \<open>Permissions\<close>

text \<open>C29: Removing a member succeeds only when the operator is the owner, or an administrator whose target
  is an ordinary member, and the target does not have the owner's role; then exactly that membership
  disappears.  In every other case the call reports why and no membership changes.  The ids of members have no colon.\<close>

theorem RemoveMember_outcome:
  assumes "store_env R J" and "db_Get R db0 = Map.empty" and "group_reach clean P (RocksDBGroupStore R J) db0 db"
    and "id_ok gid" and "u \<noteq> []" and "v \<noteq> []"
    and "GroupService_RemoveMember (RocksDBGroupStore R J) db gid u v = (ec, db')"
  shows "ec = (if RocksDBGroupStore_GetGroup R J db gid = None then EC_GROUP_NOT_FOUND
        else case (RocksDBGroupStore_GetMember R J db gid u, RocksDBGroupStore_GetMember R J db gid v) of
          (Some op, Some target) \<Rightarrow>
            if gm_role target = ROLE_OWNER then EC_KICK_NOT_ALLOWED
            else if gm_role op \<notin> {ROLE_OWNER, ROLE_ADMIN} then EC_PERMISSION_DENIED
            else if gm_role op = ROLE_ADMIN \<and> gm_role target = ROLE_ADMIN then EC_KICK_NOT_ALLOWED
            else if ec = EC_OK then EC_OK else EC_INTERNAL_ERROR
        | _ \<Rightarrow> EC_NOT_GROUP_MEMBER)
    \<and> (\<forall>g w. id_ok g \<longrightarrow> RocksDBGroupStore_GetMember R J db' g w =
        (if ec = EC_OK \<and> g = gid \<and> w = v then None else RocksDBGroupStore_GetMember R J db g w))"
proof -
  note gs = store_env.rocksdb_group_store [OF assms(1)]
  have inv: "group_inv R J db" using group_store.group_reach_effect [OF gs assms(3) empty_group_state(1) [OF assms(2)]] by blast
  have inv': "group_inv R J db'" using group_store.RemoveMember_effect [OF gs inv assms(7)] by blast
  note laws = store_env.gs_get_group [OF assms(1) inv] store_env.gs_get_member [OF assms(1) inv] store_env.gs_is_member [OF assms(1) inv]
  obtain ok t where d: "RocksDBGroupStore_RemoveMember R J db gid v = (ok, t)" by fastforce
  have g: "gid \<noteq> []" using assms(4) by (simp add: id_ok_def)
  have main: "ec = (if RocksDBGroupStore_GetGroup R J db gid = None then EC_GROUP_NOT_FOUND
        else case (RocksDBGroupStore_GetMember R J db gid u, RocksDBGroupStore_GetMember R J db gid v) of
          (Some op, Some target) \<Rightarrow>
            if gm_role target = ROLE_OWNER then EC_KICK_NOT_ALLOWED
            else if gm_role op \<notin> {ROLE_OWNER, ROLE_ADMIN} then EC_PERMISSION_DENIED
            else if gm_role op = ROLE_ADMIN \<and> gm_role target = ROLE_ADMIN then EC_KICK_NOT_ALLOWED
            else if ok then EC_OK else EC_INTERNAL_ERROR
        | _ \<Rightarrow> EC_NOT_GROUP_MEMBER) \<and> db' = (if ec \<in> {EC_OK, EC_INTERNAL_ERROR} then t else db)"
    using assms(5-7) g d laws(3) [OF assms(4)] laws(2) [OF assms(4)]
    by (auto simp: GroupService_RemoveMember_def split: option.splits bool.splits if_splits)
  have ok: "ec = EC_OK \<Longrightarrow> ok" "ec = EC_INTERNAL_ERROR \<Longrightarrow> \<not> ok" using main by (auto split: if_splits option.splits)
  have "ag_member (group_abs R J db') (x, w) = (if ec = EC_OK \<and> x = gid \<and> w = v then None else ag_member (group_abs R J db) (x, w))" for x w
    using store_env.gs_remove_member [OF assms(1) inv d assms(4)] conjunct2 [OF main] ok by (auto split: if_splits)
  then have "\<forall>x w. id_ok x \<longrightarrow> RocksDBGroupStore_GetMember R J db' x w =
      (if ec = EC_OK \<and> x = gid \<and> w = v then None else RocksDBGroupStore_GetMember R J db x w)"
    using laws(2) store_env.gs_get_member [OF assms(1) inv'] by simp
  with main ok show ?thesis by (auto split: if_splits option.splits)
qed

theorem RemoveMember_outcome_witness:
  "fst (GroupService_RemoveMember (RocksDBGroupStore alist_db text_json) group_demo1 group_demo_id ''b'' ''c'') = EC_PERMISSION_DENIED \<and>
   fst (GroupService_RemoveMember (RocksDBGroupStore alist_db text_json) group_demo1 group_demo_id ''b'' ''a'') = EC_KICK_NOT_ALLOWED"
proof -
  have m: "RocksDBGroupStore_GetMember alist_db text_json group_demo1 group_demo_id u =
      (if u \<in> {''a'', ''b'', ''c''} then Some (new_member u (if u = ''a'' then ROLE_OWNER else ROLE_MEMBER) 1000) else None)" for u
    using alist_env.gs_get_member [OF group_demo1_facts(1) group_demo_id_ok] by (simp add: group_demo1_facts(2))
  have g: "RocksDBGroupStore_GetGroup alist_db text_json group_demo1 group_demo_id \<noteq> None"
    using alist_env.gs_get_group [OF group_demo1_facts(1)] group_demo1_facts(3) by auto
  have "fst (GroupService_RemoveMember (RocksDBGroupStore alist_db text_json) group_demo1 group_demo_id ''b'' v) =
      (if v = ''a'' then EC_KICK_NOT_ALLOWED else EC_PERMISSION_DENIED)" if "v \<in> {''a'', ''c''}" for v
    using RemoveMember_outcome [OF alist_env.store_env_axioms alist_no_keys group_demo1_reach [of "\<lambda>_. True"] group_demo_id_ok _ _ prod.collapse [symmetric],
        of "''b''" v] g that
    by (auto simp: m new_member_def ROLE_OWNER_def ROLE_MEMBER_def ROLE_ADMIN_def)
  then show ?thesis by simp
qed

section \<open>Pages of the member list\<close>

lemma page_of_eq:
  assumes "0 < k" "int (p * k + k) < 2 ^ 31" "int (length xs) < 2 ^ 31"
  shows "page_of xs (int (Suc p)) (int k) = Some (take k (drop (p * k) xs))"
proof -
  have pos: "\<not> int (Suc p) \<le> 0" "\<not> int k \<le> 0" using assms(1) by simp_all
  have off: "(int (Suc p) - 1) * int k = int (p * k)" by simp
  have w: "wrap32 (int (length xs)) = int (length xs)" using assms(3) by (intro wrap32_id) (simp add: is_int32_def)
  have i: "is_int32 (int (p * k))" "is_int32 (int (p * k) + int k)" using assms(2) unfolding is_int32_def by linarith+
  have mn: "nat (min (int q + int k) (int (length xs)) - int q) = min k (length xs - q)" for q by linarith
  have "page_of xs (int (Suc p)) (int k) =
      (if int (length xs) \<le> int (p * k) then Some []
       else Some (take (nat (min (int (p * k) + int k) (int (length xs)) - int (p * k))) (drop (p * k) xs)))"
    unfolding page_of_def Let_def if_not_P [OF pos(1)] if_not_P [OF pos(2)] off w using i by (simp del: of_nat_mult)
  also have "\<dots> = Some (take k (drop (p * k) xs))"
    unfolding mn by (auto simp: take_all_iff min_def simp del: of_nat_mult)
  finally show ?thesis .
qed

lemma concat_pages: "concat (map (\<lambda>p. take k (drop (p * k) xs)) [0..<n]) = take (n * k) xs"
proof (induction n)
  case (Suc n)
  have "take (n * k) xs @ take k (drop (n * k) xs) = take (n * k + k) xs" by (simp add: take_add)
  with Suc show ?case by (simp add: add.commute)
qed simp

text \<open>C30: Paging through the member list shows every member exactly once, in the order of the user ids: page
  \<open>p\<close> of size \<open>k\<close> is the corresponding slice of one sorted list of all members, the pages in order make
  up that list, and the reported total is its length.  The ids of members have no colon, and the numbers stay
  in the range of \<^verbatim>\<open>int\<close>.\<close>

theorem GetMembers_pages:
  assumes "store_env R J" and "db_Get R db0 = Map.empty" and "group_reach clean P (RocksDBGroupStore R J) db0 db"
    and "id_ok gid" and "card {u. RocksDBGroupStore_IsMember R db gid u} < 2 ^ 31"
  shows "\<exists>ms. sorted_wrt (<) (map gm_user_id ms) \<and> gm_user_id ` set ms = {u. RocksDBGroupStore_IsMember R db gid u}
    \<and> (\<forall>p k. 0 < k \<and> p * k + k < 2 ^ 31 \<longrightarrow>
        RocksDBGroupStore_GetMembers R J db gid (int (Suc p)) (int k) = Some (take k (drop (p * k) ms), Some (int (length ms))))
    \<and> (\<forall>n k. 0 < k \<and> n * k < 2 ^ 31 \<and> length ms \<le> n * k \<longrightarrow>
        concat (map (\<lambda>p. fst (the (RocksDBGroupStore_GetMembers R J db gid (int (Suc p)) (int k)))) [0..<n]) = ms)"
proof -
  note gs = store_env.rocksdb_group_store [OF assms(1)]
  have inv: "group_inv R J db" using group_store.group_reach_effect [OF gs assms(3) empty_group_state(1) [OF assms(2)]] by blast
  obtain ms where ms: "sorted_wrt (<) (map gm_user_id ms)" "set ms = {m. \<exists>uid. ag_member (group_abs R J db) (gid, uid) = Some m}"
    "\<And>page page_size. RocksDBGroupStore_GetMembers R J db gid page page_size =
         map_option (\<lambda>l. (l, Some (wrap32 (int (length ms))))) (page_of ms page page_size)"
    using store_env.gs_get_members [OF assms(1) inv assms(4)] by blast
  have ids: "gm_user_id ` set ms = {u. RocksDBGroupStore_IsMember R db gid u}"
    using store_env.gs_member_data [OF assms(1) inv, of gid] store_env.gs_is_member [OF assms(1) inv assms(4)]
    unfolding ms(2) by (force simp: image_iff)
  have "length ms = card (gm_user_id ` set ms)"
    using distinct_card [OF distinct_if_sorted_less [OF ms(1)]] by simp
  then have len: "int (length ms) < 2 ^ 31" using assms(5) ids by simp
  then have w: "wrap32 (int (length ms)) = int (length ms)" by (intro wrap32_id) (simp add: is_int32_def)
  have page: "RocksDBGroupStore_GetMembers R J db gid (int (Suc p)) (int k) = Some (take k (drop (p * k) ms), Some (int (length ms)))"
    if "0 < k" "p * k + k < 2 ^ 31" for p k
  proof -
    have "int (p * k + k) < 2 ^ 31" using that(2) by (metis of_nat_less_numeral_power_cancel_iff)
    from page_of_eq [OF that(1) this len] show ?thesis unfolding ms(3) w by simp
  qed
  have "concat (map (\<lambda>p. fst (the (RocksDBGroupStore_GetMembers R J db gid (int (Suc p)) (int k)))) [0..<n]) = ms"
    if k: "0 < k" "n * k < 2 ^ 31" "length ms \<le> n * k" for n k
  proof -
    have "p * k + k < 2 ^ 31" if "p < n" for p
    proof -
      have "Suc p * k \<le> n * k" using that by (intro mult_le_mono1) simp
      with k(2) show ?thesis by simp
    qed
    then have "map (\<lambda>p. fst (the (RocksDBGroupStore_GetMembers R J db gid (int (Suc p)) (int k)))) [0..<n] = map (\<lambda>p. take k (drop (p * k) ms)) [0..<n]"
      using page [OF k(1)] by (simp del: of_nat_Suc)
    then show ?thesis using concat_pages [of k ms n] k(3) by (simp only: take_all)
  qed
  with ms(1) ids page show ?thesis by blast
qed

theorem GetMembers_pages_witness:
  "\<exists>ms. map gm_user_id ms = [''a'', ''b'', ''c''] \<and>
     RocksDBGroupStore_GetMembers alist_db text_json group_demo1 group_demo_id 2 2 = Some (take 2 (drop 2 ms), Some 3)"
proof -
  have mem: "{u. RocksDBGroupStore_IsMember alist_db group_demo1 group_demo_id u} = {''a'', ''b'', ''c''}"
    using alist_env.gs_is_member [OF group_demo1_facts(1) group_demo_id_ok] group_demo1_facts(2) by (auto split: if_splits)
  then have "card {u. RocksDBGroupStore_IsMember alist_db group_demo1 group_demo_id u} < 2 ^ 31" by simp
  from GetMembers_pages [OF alist_env.store_env_axioms alist_no_keys group_demo1_reach [of "\<lambda>_. True"] group_demo_id_ok this]
  obtain ms where ms: "sorted_wrt (<) (map gm_user_id ms)" "set (map gm_user_id ms) = set [''a'', ''b'', ''c'']"
    "\<And>p k. 0 < k \<and> p * k + k < 2 ^ 31 \<Longrightarrow>
       RocksDBGroupStore_GetMembers alist_db text_json group_demo1 group_demo_id (int (Suc p)) (int k) = Some (take k (drop (p * k) ms), Some (int (length ms)))"
    unfolding mem by auto
  have "map gm_user_id ms = [''a'', ''b'', ''c'']"
    by (rule sorted_distinct_set_unique [OF _ _ _ _ ms(2)]) (use ms(1) in \<open>simp_all add: strict_sorted_iff\<close>)
  moreover from this have "length ms = 3" by (metis length_map length_Cons list.size(3) numeral_3_eq_3)
  ultimately show ?thesis using ms(3) [of 2 1] by (intro exI [of _ ms]) simp
qed

end
