(* ===== verification/Group_Handler.thy ===== *)
theory Group_Handler
  imports Group_Properties Grpc_Auth
begin

text \<open>
  \<^verbatim>\<open>backend/chatsvr/internal/handler/group_handler.cpp\<close>: the gRPC methods of the group service.
  Every method takes the caller from the token; the other arguments are the fields it reads from
  the request.  Logging is left out.
\<close>

section \<open>Responses\<close>

definition SetCommonOk :: "CommonResponse \<Rightarrow> CommonResponse" where
  "SetCommonOk response = response\<lparr>resp_code := EC_OK\<rparr>"

definition SetCommonFail :: "CommonResponse \<Rightarrow> ErrorCode \<Rightarrow> string \<Rightarrow> CommonResponse" where
  "SetCommonFail response ec message =
     response\<lparr>resp_code := ErrorCodeToInt ec,
       resp_message := (if message = [] then ErrorCodeToString ec else message)\<rparr>"

record GroupInfo =
  ginfo_group_id :: string
  ginfo_group_name :: string
  ginfo_avatar_url :: string
  ginfo_owner_id :: string
  ginfo_member_count :: int
  ginfo_announcement :: string
  ginfo_created_at :: int
  ginfo_updated_at :: int

definition FillGroupInfo :: "GroupData \<Rightarrow> GroupInfo" where
  "FillGroupInfo g =
     \<lparr>ginfo_group_id = gd_group_id g, ginfo_group_name = gd_group_name g, ginfo_avatar_url = gd_avatar_url g,
      ginfo_owner_id = gd_owner_id g, ginfo_member_count = gd_member_count g, ginfo_announcement = gd_announcement g,
      ginfo_created_at = gd_created_at g, ginfo_updated_at = gd_updated_at g\<rparr>"

record GroupMember =
  gmem_user_id :: string
  gmem_role :: int
  gmem_nickname :: string
  gmem_joined_at :: int

definition FillGroupMember :: "GroupMemberData \<Rightarrow> GroupMember" where
  "FillGroupMember m =
     \<lparr>gmem_user_id = gm_user_id m, gmem_role = gm_role m, gmem_nickname = gm_nickname m, gmem_joined_at = gm_joined_at m\<rparr>"

record CreateGroupResponse = CommonResponse +
  cgresp_group_id :: string

record GroupInfoResponse = CommonResponse +
  giresp_group :: "GroupInfo option"

record GroupMembersResponse = CommonResponse +
  gmresp_members :: "GroupMember list"
  gmresp_total :: int

record UserGroupsResponse = CommonResponse +
  ugresp_groups :: "GroupInfo list"

section \<open>Methods\<close>

definition GroupHandler_CreateGroup ::
  "'s GroupStore \<Rightarrow> 'j nlohmann \<Rightarrow> (string \<Rightarrow> string \<Rightarrow> string) \<Rightarrow> string \<Rightarrow> int \<Rightarrow> nat list \<Rightarrow> int \<Rightarrow> 's \<Rightarrow> ServerContext
     \<Rightarrow> string \<Rightarrow> string \<Rightarrow> string list \<Rightarrow> CreateGroupResponse \<times> 's" where
  "GroupHandler_CreateGroup GS J hmac jwt_secret now_ms draws now s context group_name avatar_url member_ids =
     (let uid = GetAuthenticatedUserId J hmac now_ms context jwt_secret in
      if uid = []
      then (\<lparr>resp_code = ErrorCodeToInt EC_TOKEN_INVALID, resp_message = ''token invalid or missing'', cgresp_group_id = []\<rparr>, s)
      else
        (let (result, s') = GroupService_CreateGroup GS draws now s uid group_name avatar_url member_ids
         in (\<lparr>resp_code = ErrorCodeToInt (cgr_error_code result), resp_message = ErrorCodeToString (cgr_error_code result),
              cgresp_group_id = (if cgr_error_code result = EC_OK then cgr_group_id result else [])\<rparr>, s')))"

text \<open>The common frame of the methods that report only a code.\<close>

definition common_call ::
  "'j nlohmann \<Rightarrow> (string \<Rightarrow> string \<Rightarrow> string) \<Rightarrow> string \<Rightarrow> int \<Rightarrow> 's \<Rightarrow> ServerContext \<Rightarrow> (string \<Rightarrow> ErrorCode \<times> 's) \<Rightarrow> CommonResponse \<times> 's" where
  "common_call J hmac jwt_secret now_ms s context service =
     (let uid = GetAuthenticatedUserId J hmac now_ms context jwt_secret in
      if uid = [] then (SetCommonFail CommonResponse_default EC_TOKEN_INVALID [], s)
      else
        (let (ec, s') = service uid
         in (if ec = EC_OK then SetCommonOk CommonResponse_default else SetCommonFail CommonResponse_default ec [], s')))"

definition GroupHandler_DismissGroup ::
  "'s GroupStore \<Rightarrow> 'j nlohmann \<Rightarrow> (string \<Rightarrow> string \<Rightarrow> string) \<Rightarrow> string \<Rightarrow> int \<Rightarrow> 's \<Rightarrow> ServerContext \<Rightarrow> string \<Rightarrow> CommonResponse \<times> 's" where
  "GroupHandler_DismissGroup GS J hmac jwt_secret now_ms s context group_id =
     common_call J hmac jwt_secret now_ms s context (\<lambda>uid. GroupService_DismissGroup GS s group_id uid)"

definition GroupHandler_GetGroupInfo ::
  "'s GroupStore \<Rightarrow> 'j nlohmann \<Rightarrow> (string \<Rightarrow> string \<Rightarrow> string) \<Rightarrow> string \<Rightarrow> int \<Rightarrow> 's \<Rightarrow> ServerContext \<Rightarrow> string \<Rightarrow> GroupInfoResponse" where
  "GroupHandler_GetGroupInfo GS J hmac jwt_secret now_ms s context group_id =
     (let uid = GetAuthenticatedUserId J hmac now_ms context jwt_secret in
      if uid = []
      then \<lparr>resp_code = ErrorCodeToInt EC_TOKEN_INVALID, resp_message = ''token invalid or missing'', giresp_group = None\<rparr>
      else
        (case GroupService_GetGroupInfo GS s group_id of
           None \<Rightarrow> \<lparr>resp_code = ErrorCodeToInt EC_GROUP_NOT_FOUND, resp_message = ErrorCodeToString EC_GROUP_NOT_FOUND, giresp_group = None\<rparr>
         | Some g \<Rightarrow> \<lparr>resp_code = EC_OK, resp_message = [], giresp_group = Some (FillGroupInfo g)\<rparr>))"

definition GroupHandler_UpdateGroup ::
  "'s GroupStore \<Rightarrow> 'j nlohmann \<Rightarrow> (string \<Rightarrow> string \<Rightarrow> string) \<Rightarrow> string \<Rightarrow> int \<Rightarrow> int \<Rightarrow> 's \<Rightarrow> ServerContext
     \<Rightarrow> string \<Rightarrow> string \<Rightarrow> string \<Rightarrow> string \<Rightarrow> CommonResponse \<times> 's" where
  "GroupHandler_UpdateGroup GS J hmac jwt_secret now_ms now s context group_id group_name avatar_url announcement =
     common_call J hmac jwt_secret now_ms s context
       (\<lambda>uid. GroupService_UpdateGroup GS now s group_id uid group_name avatar_url announcement)"

definition GroupHandler_InviteMembers ::
  "'s GroupStore \<Rightarrow> 'j nlohmann \<Rightarrow> (string \<Rightarrow> string \<Rightarrow> string) \<Rightarrow> string \<Rightarrow> int \<Rightarrow> int \<Rightarrow> 's \<Rightarrow> ServerContext
     \<Rightarrow> string \<Rightarrow> string list \<Rightarrow> CommonResponse \<times> 's" where
  "GroupHandler_InviteMembers GS J hmac jwt_secret now_ms now s context group_id member_ids =
     common_call J hmac jwt_secret now_ms s context (\<lambda>uid. GroupService_InviteMembers GS now s group_id uid member_ids)"

definition GroupHandler_RemoveMember ::
  "'s GroupStore \<Rightarrow> 'j nlohmann \<Rightarrow> (string \<Rightarrow> string \<Rightarrow> string) \<Rightarrow> string \<Rightarrow> int \<Rightarrow> 's \<Rightarrow> ServerContext
     \<Rightarrow> string \<Rightarrow> string \<Rightarrow> CommonResponse \<times> 's" where
  "GroupHandler_RemoveMember GS J hmac jwt_secret now_ms s context group_id member_id =
     common_call J hmac jwt_secret now_ms s context (\<lambda>uid. GroupService_RemoveMember GS s group_id uid member_id)"

definition GroupHandler_LeaveGroup ::
  "'s GroupStore \<Rightarrow> 'j nlohmann \<Rightarrow> (string \<Rightarrow> string \<Rightarrow> string) \<Rightarrow> string \<Rightarrow> int \<Rightarrow> 's \<Rightarrow> ServerContext \<Rightarrow> string \<Rightarrow> CommonResponse \<times> 's" where
  "GroupHandler_LeaveGroup GS J hmac jwt_secret now_ms s context group_id =
     common_call J hmac jwt_secret now_ms s context (\<lambda>uid. GroupService_LeaveGroup GS s group_id uid)"

definition GroupHandler_GetGroupMembers ::
  "'s GroupStore \<Rightarrow> 'j nlohmann \<Rightarrow> (string \<Rightarrow> string \<Rightarrow> string) \<Rightarrow> string \<Rightarrow> int \<Rightarrow> 's \<Rightarrow> ServerContext
     \<Rightarrow> string \<Rightarrow> int \<Rightarrow> int \<Rightarrow> GroupMembersResponse option" where
  "GroupHandler_GetGroupMembers GS J hmac jwt_secret now_ms s context group_id req_page req_page_size =
     (let uid = GetAuthenticatedUserId J hmac now_ms context jwt_secret in
      if uid = []
      then Some \<lparr>resp_code = ErrorCodeToInt EC_TOKEN_INVALID, resp_message = ''token invalid or missing'', gmresp_members = [], gmresp_total = 0\<rparr>
      else
        (let page = (if req_page > 0 then req_page else 1);
             page_size = (if req_page_size > 0 then req_page_size else 50)
         in map_option
              (\<lambda>(members, total). \<lparr>resp_code = EC_OK, resp_message = [], gmresp_members = map FillGroupMember members,
                 gmresp_total = (case total of None \<Rightarrow> 0 | Some n \<Rightarrow> n)\<rparr>)
              (GroupService_GetGroupMembers GS s group_id page page_size)))"

definition GroupHandler_TransferOwner ::
  "'s GroupStore \<Rightarrow> 'j nlohmann \<Rightarrow> (string \<Rightarrow> string \<Rightarrow> string) \<Rightarrow> string \<Rightarrow> int \<Rightarrow> 's \<Rightarrow> ServerContext
     \<Rightarrow> string \<Rightarrow> string \<Rightarrow> CommonResponse \<times> 's" where
  "GroupHandler_TransferOwner GS J hmac jwt_secret now_ms s context group_id new_owner_id =
     common_call J hmac jwt_secret now_ms s context (\<lambda>uid. GroupService_TransferOwner GS s group_id uid new_owner_id)"

definition GroupHandler_SetMemberRole ::
  "'s GroupStore \<Rightarrow> 'j nlohmann \<Rightarrow> (string \<Rightarrow> string \<Rightarrow> string) \<Rightarrow> string \<Rightarrow> int \<Rightarrow> 's \<Rightarrow> ServerContext
     \<Rightarrow> string \<Rightarrow> string \<Rightarrow> int \<Rightarrow> CommonResponse \<times> 's" where
  "GroupHandler_SetMemberRole GS J hmac jwt_secret now_ms s context group_id member_id role =
     common_call J hmac jwt_secret now_ms s context (\<lambda>uid. GroupService_SetMemberRole GS s group_id uid member_id role)"

definition GroupHandler_GetUserGroups ::
  "'s GroupStore \<Rightarrow> 'j nlohmann \<Rightarrow> (string \<Rightarrow> string \<Rightarrow> string) \<Rightarrow> string \<Rightarrow> int \<Rightarrow> 's \<Rightarrow> ServerContext \<Rightarrow> UserGroupsResponse" where
  "GroupHandler_GetUserGroups GS J hmac jwt_secret now_ms s context =
     (let uid = GetAuthenticatedUserId J hmac now_ms context jwt_secret in
      if uid = []
      then \<lparr>resp_code = ErrorCodeToInt EC_TOKEN_INVALID, resp_message = ''token invalid or missing'', ugresp_groups = []\<rparr>
      else \<lparr>resp_code = EC_OK, resp_message = [], ugresp_groups = map FillGroupInfo (GroupService_GetUserGroups GS s uid)\<rparr>)"

definition GroupHandler_MuteGroup ::
  "'j nlohmann \<Rightarrow> (string \<Rightarrow> string \<Rightarrow> string) \<Rightarrow> string \<Rightarrow> int \<Rightarrow> 's \<Rightarrow> ServerContext \<Rightarrow> CommonResponse \<times> 's" where
  "GroupHandler_MuteGroup J hmac jwt_secret now_ms s context =
     (let uid = GetAuthenticatedUserId J hmac now_ms context jwt_secret in
      if uid = [] then (SetCommonFail CommonResponse_default EC_TOKEN_INVALID [], s)
      else (SetCommonOk CommonResponse_default, s))"

section \<open>Groups are changed by their members only\<close>

datatype GroupRpc =
  Rpc_CreateGroup string string "string list"
| Rpc_DismissGroup string
| Rpc_UpdateGroup string string string string
| Rpc_InviteMembers string "string list"
| Rpc_RemoveMember string string
| Rpc_LeaveGroup string
| Rpc_TransferOwner string string
| Rpc_SetMemberRole string string int
| Rpc_MuteGroup string

fun group_rpc_ok :: "GroupRpc \<Rightarrow> bool" where
  "group_rpc_ok (Rpc_CreateGroup _ _ us) = ids_ok us"
| "group_rpc_ok (Rpc_InviteMembers _ us) = ids_ok us"
| "group_rpc_ok (Rpc_SetMemberRole _ _ role) = is_int32 role"
| "group_rpc_ok _ = True"

fun group_dispatch ::
  "'s GroupStore \<Rightarrow> 'j nlohmann \<Rightarrow> (string \<Rightarrow> string \<Rightarrow> string) \<Rightarrow> string \<Rightarrow> int \<Rightarrow> nat list \<Rightarrow> int \<Rightarrow> 's \<Rightarrow> ServerContext \<Rightarrow> GroupRpc
     \<Rightarrow> int \<times> 's" where
  "group_dispatch GS J hmac sec now_ms draws now s ctx (Rpc_CreateGroup n a us) =
     apfst resp_code (GroupHandler_CreateGroup GS J hmac sec now_ms draws now s ctx n a us)"
| "group_dispatch GS J hmac sec now_ms draws now s ctx (Rpc_DismissGroup g) =
     apfst resp_code (GroupHandler_DismissGroup GS J hmac sec now_ms s ctx g)"
| "group_dispatch GS J hmac sec now_ms draws now s ctx (Rpc_UpdateGroup g n a t) =
     apfst resp_code (GroupHandler_UpdateGroup GS J hmac sec now_ms now s ctx g n a t)"
| "group_dispatch GS J hmac sec now_ms draws now s ctx (Rpc_InviteMembers g us) =
     apfst resp_code (GroupHandler_InviteMembers GS J hmac sec now_ms now s ctx g us)"
| "group_dispatch GS J hmac sec now_ms draws now s ctx (Rpc_RemoveMember g v) =
     apfst resp_code (GroupHandler_RemoveMember GS J hmac sec now_ms s ctx g v)"
| "group_dispatch GS J hmac sec now_ms draws now s ctx (Rpc_LeaveGroup g) =
     apfst resp_code (GroupHandler_LeaveGroup GS J hmac sec now_ms s ctx g)"
| "group_dispatch GS J hmac sec now_ms draws now s ctx (Rpc_TransferOwner g v) =
     apfst resp_code (GroupHandler_TransferOwner GS J hmac sec now_ms s ctx g v)"
| "group_dispatch GS J hmac sec now_ms draws now s ctx (Rpc_SetMemberRole g v role) =
     apfst resp_code (GroupHandler_SetMemberRole GS J hmac sec now_ms s ctx g v role)"
| "group_dispatch GS J hmac sec now_ms draws now s ctx (Rpc_MuteGroup g) =
     apfst resp_code (GroupHandler_MuteGroup J hmac sec now_ms s ctx)"

lemmas group_handler_defs =
  GroupHandler_CreateGroup_def GroupHandler_DismissGroup_def GroupHandler_UpdateGroup_def GroupHandler_InviteMembers_def
  GroupHandler_RemoveMember_def GroupHandler_LeaveGroup_def GroupHandler_TransferOwner_def GroupHandler_SetMemberRole_def
  GroupHandler_MuteGroup_def common_call_def

lemma group_dispatch_unauthenticated:
  "GetAuthenticatedUserId J hmac now_ms ctx sec = [] \<Longrightarrow>
   group_dispatch GS J hmac sec now_ms draws now s ctx rpc = (EC_TOKEN_INVALID, s)"
  by (cases rpc) (simp_all add: group_handler_defs SetCommonFail_def ErrorCodeToInt_def)

lemma common_call_authenticated:
  assumes "GetAuthenticatedUserId J hmac now_ms ctx sec = u" "u \<noteq> []"
  shows "apfst resp_code (common_call J hmac sec now_ms s ctx f) = f u"
  using assms by (auto simp: common_call_def SetCommonFail_def SetCommonOk_def ErrorCodeToInt_def split: prod.split)

context group_store
begin

lemma group_dispatch_effect:
  assumes "GetAuthenticatedUserId J hmac now_ms ctx sec = u" "id_ok u" "group_rpc_ok rpc" "draws_ok 12 draws" "is_int64 now" "inv s"
    and "group_dispatch GS J hmac sec now_ms draws now s ctx rpc = (ec, s')"
  shows "inv s' \<and> call_effect u (abs s) ec (abs s')"
proof -
  have u: "u \<noteq> []" using assms(2) by (simp add: id_ok_def)
  note c = common_call_authenticated [OF assms(1) u]
  show ?thesis
  proof (cases rpc)
    case (Rpc_CreateGroup n a us)
    then obtain r where "GroupService_CreateGroup GS draws now s u n a us = (r, s')" "ec = cgr_error_code r"
      using assms(1,7) u by (auto simp: GroupHandler_CreateGroup_def ErrorCodeToInt_def split: prod.splits)
    with CreateGroup_effect [OF assms(6,2) _ assms(4,5)] assms(3) Rpc_CreateGroup show ?thesis by auto
  next
    case (Rpc_MuteGroup g)
    then show ?thesis using assms(1,6,7) u by (auto simp: GroupHandler_MuteGroup_def)
  next
    case (Rpc_DismissGroup g)
    then have "GroupService_DismissGroup GS s g u = (ec, s')" using assms(7) by (simp add: GroupHandler_DismissGroup_def c)
    with DismissGroup_effect [OF assms(6)] assms(3) Rpc_DismissGroup show ?thesis by simp
  next
    case (Rpc_UpdateGroup g n a t)
    then have "GroupService_UpdateGroup GS now s g u n a t = (ec, s')" using assms(7) by (simp add: GroupHandler_UpdateGroup_def c)
    with UpdateGroup_effect [OF assms(6,5)] assms(3) Rpc_UpdateGroup show ?thesis by simp
  next
    case (Rpc_InviteMembers g us)
    then have "GroupService_InviteMembers GS now s g u us = (ec, s')" using assms(7) by (simp add: GroupHandler_InviteMembers_def c)
    with InviteMembers_effect [OF assms(6) _ assms(5)] assms(3) Rpc_InviteMembers show ?thesis by simp
  next
    case (Rpc_RemoveMember g v)
    then have "GroupService_RemoveMember GS s g u v = (ec, s')" using assms(7) by (simp add: GroupHandler_RemoveMember_def c)
    with RemoveMember_effect [OF assms(6)] assms(3) Rpc_RemoveMember show ?thesis by simp
  next
    case (Rpc_LeaveGroup g)
    then have "GroupService_LeaveGroup GS s g u = (ec, s')" using assms(7) by (simp add: GroupHandler_LeaveGroup_def c)
    with LeaveGroup_effect [OF assms(6)] assms(3) Rpc_LeaveGroup show ?thesis by simp
  next
    case (Rpc_TransferOwner g v)
    then have "GroupService_TransferOwner GS s g u v = (ec, s')" using assms(7) by (simp add: GroupHandler_TransferOwner_def c)
    with TransferOwner_effect(1) [OF assms(6)] assms(3) Rpc_TransferOwner show ?thesis by simp
  next
    case (Rpc_SetMemberRole g v role)
    then have "GroupService_SetMemberRole GS s g u v role = (ec, s')" using assms(7) by (simp add: GroupHandler_SetMemberRole_def c)
    with SetMemberRole_effect [OF assms(6)] assms(3) Rpc_SetMemberRole show ?thesis by simp
  qed
qed

end

text \<open>C24: Whatever a call of the group API asks for, it leaves every existing group alone that the caller
  named by the token neither owns nor belongs to: the group's record and all its memberships stay what
  they are.  Without a valid token nothing changes and the code is \<^verbatim>\<open>TOKEN_INVALID\<close>.  The ids in
  this request and in the calls before it have no colon.\<close>

theorem group_calls_by_outsiders:
  assumes "store_env R J" and "db_Get R db0 = Map.empty" and "group_reach clean P (RocksDBGroupStore R J) db0 db"
    and "GetAuthenticatedUserId J hmac now_ms context jwt_secret = uid" and "uid = [] \<or> id_ok uid"
    and "group_rpc_ok rpc" and "draws_ok 12 draws" and "is_int64 now"
    and "RocksDBGroupStore_GetGroup R J db gid = Some g" and "gd_owner_id g \<noteq> uid" and "\<not> RocksDBGroupStore_IsMember R db gid uid"
    and "group_dispatch (RocksDBGroupStore R J) J hmac jwt_secret now_ms draws now db context rpc = (ec, db')"
  shows "(uid = [] \<longrightarrow> ec = EC_TOKEN_INVALID \<and> db' = db)
    \<and> RocksDBGroupStore_GetGroup R J db' gid = Some g
    \<and> (\<forall>u. RocksDBGroupStore_GetMember R J db' gid u = RocksDBGroupStore_GetMember R J db gid u)"
proof (cases "uid = []")
  case True
  then have "GetAuthenticatedUserId J hmac now_ms context jwt_secret = []" using assms(4) by simp
  then have "(ec, db') = (EC_TOKEN_INVALID, db)" using assms(12) group_dispatch_unauthenticated by metis
  with assms(9) True show ?thesis by simp
next
  case False
  then have u: "id_ok uid" using assms(5) by blast
  note gs = store_env.rocksdb_group_store [OF assms(1)]
  have inv: "group_inv R J db" using group_store.group_reach_effect [OF gs assms(3) empty_group_state(1) [OF assms(2)]] by blast
  note e = group_store.group_dispatch_effect [OF gs assms(4) u assms(6-8) inv assms(12)]
  then have inv': "group_inv R J db'" by blast
  have g: "ag_group (group_abs R J db) gid = Some g" using store_env.gs_get_group [OF assms(1) inv] assms(9) by simp
  then have id: "id_ok gid" using group_store.group_id_ok [OF gs inv] by blast
  have "outsider (group_abs R J db) gid uid"
    using g assms(10,11) store_env.gs_is_member [OF assms(1) inv id] by (simp add: outsider_def)
  then have "same_group gid (group_abs R J db) (group_abs R J db')" using e g by (simp add: call_effect_def)
  with g False id show ?thesis
    using store_env.gs_get_group [OF assms(1) inv'] store_env.gs_get_member [OF assms(1) inv id] store_env.gs_get_member [OF assms(1) inv' id]
    by (simp add: same_group_def)
qed

theorem group_calls_by_outsiders_witness:
  "RocksDBGroupStore_GetMember alist_db text_json
     (snd (group_dispatch (RocksDBGroupStore alist_db text_json) text_json (\<lambda>k d. rev d) ''key'' 0 group_demo_draws 1000
        group_demo1 (demo_context ''d'') (Rpc_RemoveMember group_demo_id ''c''))) group_demo_id ''c'' =
   RocksDBGroupStore_GetMember alist_db text_json group_demo1 group_demo_id ''c''"
proof -
  let ?call = "group_dispatch (RocksDBGroupStore alist_db text_json) text_json (\<lambda>k d. rev d) ''key'' 0 group_demo_draws 1000
        group_demo1 (demo_context ''d'') (Rpc_RemoveMember group_demo_id ''c'')"
  obtain g where g: "RocksDBGroupStore_GetGroup alist_db text_json group_demo1 group_demo_id = Some g" "gd_owner_id g \<noteq> ''d''"
    using alist_env.gs_get_group [OF group_demo1_facts(1)] group_demo1_facts(3) by auto
  have m: "\<not> RocksDBGroupStore_IsMember alist_db group_demo1 group_demo_id ''d''"
    using alist_env.gs_is_member [OF group_demo1_facts(1) group_demo_id_ok] by (simp add: group_demo1_facts(2))
  have "group_rpc_ok (Rpc_RemoveMember group_demo_id ''c'')" by simp
  from group_calls_by_outsiders [OF alist_env.store_env_axioms alist_no_keys group_demo1_reach [of "\<lambda>_. True"]
      demo_context_caller [of "''d''"] _ this group_demo_draws_ok group_demo_ids(5) g m prod.collapse [symmetric]]
  show ?thesis by (simp add: id_ok_def)
qed

end
