(* ===== verification/Message_Store.thy ===== *)
theory Message_Store
  imports Swift_Utils Third_Party_Instances "HOL-Library.Monad_Syntax"
begin

text \<open>
  \<^verbatim>\<open>backend/chatsvr/internal/store/message_store.{h,cpp}\<close>, the message store: messages by id, the
  time line of every conversation and the offline queue of every user, both ordered by a
  reversed time stamp of thirteen digits.  The record \<open>MessageStore\<close> is the abstract class,
  \<open>RocksDBMessageStore\<close> the implementation.
\<close>

section \<open>Data\<close>

record MessageData =
  md_msg_id :: string
  md_from_user_id :: string
  md_to_id :: string
  md_conversation_id :: string
  md_chat_type :: int
  md_content :: string
  md_media_url :: string
  md_media_type :: string
  md_mentions :: "string list"
  md_reply_to_msg_id :: string
  md_timestamp :: int
  md_status :: int
  md_recall_at :: int

record 's MessageStore =
  ms_Save :: "'s \<Rightarrow> MessageData \<Rightarrow> bool \<times> 's"
  ms_GetById :: "'s \<Rightarrow> string \<Rightarrow> MessageData option"
  ms_GetHistory :: "'s \<Rightarrow> string \<Rightarrow> int \<Rightarrow> string \<Rightarrow> int \<Rightarrow> MessageData list"
  ms_MarkRecalled :: "'s \<Rightarrow> string \<Rightarrow> int \<Rightarrow> bool \<times> 's"
  ms_AddToOffline :: "'s \<Rightarrow> string \<Rightarrow> string \<Rightarrow> bool \<times> 's"
  ms_PullOffline :: "'s \<Rightarrow> string \<Rightarrow> string \<Rightarrow> int \<Rightarrow> MessageData list \<times> string \<times> bool"
  ms_ClearOffline :: "'s \<Rightarrow> string \<Rightarrow> string \<Rightarrow> bool \<times> 's"

definition MAX_TS :: int where
  "MAX_TS = 9999999999999"

section \<open>JSON form\<close>

definition message_members :: "MessageData \<Rightarrow> (string \<times> jval) list" where
  "message_members m =
     [(''msg_id'', JStr (md_msg_id m)), (''from_user_id'', JStr (md_from_user_id m)), (''to_id'', JStr (md_to_id m)),
      (''conversation_id'', JStr (md_conversation_id m)), (''chat_type'', JInt (md_chat_type m)),
      (''content'', JStr (md_content m)), (''media_url'', JStr (md_media_url m)), (''media_type'', JStr (md_media_type m)),
      (''mentions'', JStrs (md_mentions m)), (''reply_to_msg_id'', JStr (md_reply_to_msg_id m)),
      (''timestamp'', JInt (md_timestamp m)), (''status'', JInt (md_status m)), (''recall_at'', JInt (md_recall_at m))]"

definition SerializeMessage :: "'j nlohmann \<Rightarrow> MessageData \<Rightarrow> string" where
  "SerializeMessage J m = json_dump J (json_object J (message_members m))"

definition DeserializeMessage :: "'j nlohmann \<Rightarrow> string \<Rightarrow> MessageData option" where
  "DeserializeMessage J data = do {
     j \<leftarrow> json_parse J data;
     msg_id \<leftarrow> json_value_string J j ''msg_id'' [];
     from_user_id \<leftarrow> json_value_string J j ''from_user_id'' [];
     to_id \<leftarrow> json_value_string J j ''to_id'' [];
     chat_id \<leftarrow> json_value_string J j ''chat_id'' [];
     conversation_id \<leftarrow> json_value_string J j ''conversation_id'' chat_id;
     chat_type \<leftarrow> json_value_int J j ''chat_type'' 1;
     content \<leftarrow> json_value_string J j ''content'' [];
     media_url \<leftarrow> json_value_string J j ''media_url'' [];
     media_type \<leftarrow> json_value_string J j ''media_type'' [];
     mentions \<leftarrow> (case json_array J j ''mentions'' of None \<Rightarrow> Some [] | Some xs \<Rightarrow> those xs);
     reply_to_msg_id \<leftarrow> json_value_string J j ''reply_to_msg_id'' [];
     timestamp \<leftarrow> json_value_int64 J j ''timestamp'' 0;
     status \<leftarrow> json_value_int J j ''status'' 0;
     recall_at \<leftarrow> json_value_int64 J j ''recall_at'' 0;
     Some \<lparr>md_msg_id = msg_id, md_from_user_id = from_user_id, md_to_id = to_id, md_conversation_id = conversation_id,
           md_chat_type = chat_type, md_content = content, md_media_url = media_url, md_media_type = media_type,
           md_mentions = mentions, md_reply_to_msg_id = reply_to_msg_id, md_timestamp = timestamp, md_status = status,
           md_recall_at = recall_at\<rparr> }"

section \<open>Keys\<close>

definition K_MSG :: string where "K_MSG = ''msg:''"
definition K_CHAT :: string where "K_CHAT = ''chat:''"
definition K_OFFLINE :: string where "K_OFFLINE = ''offline:''"

definition KeyMsg :: "string \<Rightarrow> string" where
  "KeyMsg msg_id = K_MSG @ msg_id"

definition RevTs :: "int \<Rightarrow> string" where
  "RevTs timestamp =
     (let rev_ts = (if timestamp \<le> 0 \<or> timestamp > MAX_TS then MAX_TS else MAX_TS - timestamp)
      in pad0 13 (to_string rev_ts))"

definition KeyChat :: "string \<Rightarrow> int \<Rightarrow> string \<Rightarrow> string" where
  "KeyChat chat_id timestamp msg_id = K_CHAT @ chat_id @ '':'' @ RevTs timestamp @ '':'' @ msg_id"

definition PrefixChat :: "string \<Rightarrow> string" where
  "PrefixChat chat_id = K_CHAT @ chat_id @ '':''"

definition KeyOffline :: "string \<Rightarrow> int \<Rightarrow> string \<Rightarrow> string" where
  "KeyOffline user_id timestamp msg_id = K_OFFLINE @ user_id @ '':'' @ RevTs timestamp @ '':'' @ msg_id"

definition PrefixOffline :: "string \<Rightarrow> string" where
  "PrefixOffline user_id = K_OFFLINE @ user_id @ '':''"

text \<open>The out parameters keep their initial value, the empty string, when the key is too short.\<close>

definition ParseChatKey :: "string \<Rightarrow> string \<Rightarrow> string \<times> string" where
  "ParseChatKey key p =
     (let pos = length p
      in if length key \<le> pos + 13 + 1 then ([], []) else (take 13 (drop pos key), drop (pos + 14) key))"

definition ParseOfflineKey :: "string \<Rightarrow> string \<Rightarrow> string \<times> string" where
  "ParseOfflineKey key p =
     (let pos = length p
      in if length key \<le> pos + 13 + 1 then ([], []) else (take 13 (drop pos key), drop (pos + 14) key))"

section \<open>Messages and time lines\<close>

definition RocksDBMessageStore_Save :: "'db rocksdb \<Rightarrow> 'j nlohmann \<Rightarrow> 'db \<Rightarrow> MessageData \<Rightarrow> bool \<times> 'db" where
  "RocksDBMessageStore_Save R J db msg =
     (if md_msg_id msg = [] \<or> md_from_user_id msg = [] then (False, db)
      else if db_Get R db (KeyMsg (md_msg_id msg)) \<noteq> None then (False, db)
      else
        (let timeline_id = (if md_conversation_id msg = [] then md_to_id msg else md_conversation_id msg)
         in db_Write R db
              [BPut (KeyMsg (md_msg_id msg)) (SerializeMessage J msg),
               BPut (KeyChat timeline_id (md_timestamp msg) (md_msg_id msg)) []]))"

definition RocksDBMessageStore_GetById :: "'db rocksdb \<Rightarrow> 'j nlohmann \<Rightarrow> 'db \<Rightarrow> string \<Rightarrow> MessageData option" where
  "RocksDBMessageStore_GetById R J db msg_id =
     (if msg_id = [] then None
      else (case db_Get R db (KeyMsg msg_id) of
              None \<Rightarrow> None
            | Some val \<Rightarrow> DeserializeMessage J val))"

text \<open>The loop that collects the keys of the page: \<open>cutoff\<close> is negative when there is no message to start after.\<close>

fun history_loop :: "string \<Rightarrow> int \<Rightarrow> int \<Rightarrow> (string \<times> string) list \<Rightarrow> (string \<times> string) list \<Rightarrow> (string \<times> string) list" where
  "history_loop p cutoff limit [] keys = keys"
| "history_loop p cutoff limit (e # es) keys =
     (let (rev_ts, msg_id) = ParseChatKey (fst e) p
      in if length rev_ts \<noteq> 13 then history_loop p cutoff limit es keys
         else
           (case stoll rev_ts of
              None \<Rightarrow> history_loop p cutoff limit es keys
            | Some r \<Rightarrow>
                if cutoff \<ge> 0 \<and> r \<le> cutoff then history_loop p cutoff limit es keys
                else
                  (let keys' = keys @ [(rev_ts, msg_id)]
                   in if wrap32 (int (length keys')) \<ge> limit then keys' else history_loop p cutoff limit es keys')))"

definition RocksDBMessageStore_GetHistory ::
  "'db rocksdb \<Rightarrow> 'j nlohmann \<Rightarrow> 'db \<Rightarrow> string \<Rightarrow> int \<Rightarrow> string \<Rightarrow> int \<Rightarrow> MessageData list" where
  "RocksDBMessageStore_GetHistory R J db conversation_id chat_type before_msg_id limit =
     (if conversation_id = [] \<or> limit \<le> 0 then []
      else
        (let collect = (\<lambda>cutoff. List.map_filter (\<lambda>k. RocksDBMessageStore_GetById R J db (snd k))
               (history_loop (PrefixChat conversation_id) cutoff limit (scan_prefix R db (PrefixChat conversation_id)) []))
         in if before_msg_id = [] then collect (- 1)
            else
              (case RocksDBMessageStore_GetById R J db before_msg_id of
                 None \<Rightarrow> []
               | Some msg \<Rightarrow>
                   if md_conversation_id msg \<noteq> conversation_id \<and> md_to_id msg \<noteq> conversation_id then []
                   else collect (MAX_TS - md_timestamp msg))))"

definition RocksDBMessageStore_MarkRecalled :: "'db rocksdb \<Rightarrow> 'j nlohmann \<Rightarrow> 'db \<Rightarrow> string \<Rightarrow> int \<Rightarrow> bool \<times> 'db" where
  "RocksDBMessageStore_MarkRecalled R J db msg_id recall_at =
     (if msg_id = [] then (False, db)
      else
        (case RocksDBMessageStore_GetById R J db msg_id of
           None \<Rightarrow> (False, db)
         | Some msg \<Rightarrow> db_Put R db (KeyMsg msg_id) (SerializeMessage J (msg\<lparr>md_status := 1, md_recall_at := recall_at\<rparr>))))"

section \<open>Offline queues\<close>

definition RocksDBMessageStore_AddToOffline :: "'db rocksdb \<Rightarrow> 'j nlohmann \<Rightarrow> 'db \<Rightarrow> string \<Rightarrow> string \<Rightarrow> bool \<times> 'db" where
  "RocksDBMessageStore_AddToOffline R J db user_id msg_id =
     (if user_id = [] \<or> msg_id = [] then (False, db)
      else
        (case RocksDBMessageStore_GetById R J db msg_id of
           None \<Rightarrow> (False, db)
         | Some msg \<Rightarrow> db_Put R db (KeyOffline user_id (md_timestamp msg) msg_id) []))"

text \<open>
  The loop over the queue; its last result says whether an entry follows the one at which the
  limit was reached.
\<close>

fun pull_loop ::
  "'db rocksdb \<Rightarrow> 'j nlohmann \<Rightarrow> 'db \<Rightarrow> string \<Rightarrow> string \<Rightarrow> int \<Rightarrow> (string \<times> string) list \<Rightarrow> bool \<Rightarrow> int \<Rightarrow> string \<Rightarrow> MessageData list
     \<Rightarrow> MessageData list \<times> string \<times> bool" where
  "pull_loop R J db p cursor limit [] skip count last_rev_ts result = (result, [], False)"
| "pull_loop R J db p cursor limit (e # es) skip count last_rev_ts result =
     (let (rev_ts, msg_id) = ParseOfflineKey (fst e) p
      in if skip \<and> rev_ts = cursor then pull_loop R J db p cursor limit es False count last_rev_ts result
         else if skip then pull_loop R J db p cursor limit es skip count last_rev_ts result
         else
           (case RocksDBMessageStore_GetById R J db msg_id of
              None \<Rightarrow> pull_loop R J db p cursor limit es skip count last_rev_ts result
            | Some msg \<Rightarrow>
                if count + 1 \<ge> limit
                then (result @ [msg], if es \<noteq> [] then rev_ts else [], es \<noteq> [])
                else pull_loop R J db p cursor limit es skip (count + 1) rev_ts (result @ [msg])))"

definition RocksDBMessageStore_PullOffline ::
  "'db rocksdb \<Rightarrow> 'j nlohmann \<Rightarrow> 'db \<Rightarrow> string \<Rightarrow> string \<Rightarrow> int \<Rightarrow> MessageData list \<times> string \<times> bool" where
  "RocksDBMessageStore_PullOffline R J db user_id cursor limit =
     (if user_id = [] \<or> limit \<le> 0 then ([], [], False)
      else pull_loop R J db (PrefixOffline user_id) cursor limit (scan_prefix R db (PrefixOffline user_id)) (cursor \<noteq> []) 0 [] [])"

definition offline_expired :: "string \<Rightarrow> int \<Rightarrow> string \<times> string \<Rightarrow> bool" where
  "offline_expired p until_ts e =
     (let (rev_ts, msg_id) = ParseOfflineKey (fst e) p
      in case stoll rev_ts of None \<Rightarrow> False | Some r \<Rightarrow> MAX_TS - r \<le> until_ts)"

definition RocksDBMessageStore_ClearOffline :: "'db rocksdb \<Rightarrow> 'j nlohmann \<Rightarrow> 'db \<Rightarrow> string \<Rightarrow> string \<Rightarrow> bool \<times> 'db" where
  "RocksDBMessageStore_ClearOffline R J db user_id until_msg_id =
     (if user_id = [] then (True, db)
      else
        (let p = PrefixOffline user_id in
         if until_msg_id = [] then db_Write R db (map (\<lambda>e. BDelete (fst e)) (scan_prefix R db p))
         else
           (case RocksDBMessageStore_GetById R J db until_msg_id of
              None \<Rightarrow> (True, db)
            | Some until_msg \<Rightarrow>
                db_Write R db (map (\<lambda>e. BDelete (fst e)) (filter (offline_expired p (md_timestamp until_msg)) (scan_prefix R db p))))))"

definition RocksDBMessageStore :: "'db rocksdb \<Rightarrow> 'j nlohmann \<Rightarrow> 'db MessageStore" where
  "RocksDBMessageStore R J =
     \<lparr>ms_Save = RocksDBMessageStore_Save R J, ms_GetById = RocksDBMessageStore_GetById R J,
      ms_GetHistory = RocksDBMessageStore_GetHistory R J, ms_MarkRecalled = RocksDBMessageStore_MarkRecalled R J,
      ms_AddToOffline = RocksDBMessageStore_AddToOffline R J, ms_PullOffline = RocksDBMessageStore_PullOffline R J,
      ms_ClearOffline = RocksDBMessageStore_ClearOffline R J\<rparr>"

lemma RocksDBMessageStore_simps [simp]:
  "ms_Save (RocksDBMessageStore R J) = RocksDBMessageStore_Save R J"
  "ms_GetById (RocksDBMessageStore R J) = RocksDBMessageStore_GetById R J"
  "ms_GetHistory (RocksDBMessageStore R J) = RocksDBMessageStore_GetHistory R J"
  "ms_MarkRecalled (RocksDBMessageStore R J) = RocksDBMessageStore_MarkRecalled R J"
  "ms_AddToOffline (RocksDBMessageStore R J) = RocksDBMessageStore_AddToOffline R J"
  "ms_PullOffline (RocksDBMessageStore R J) = RocksDBMessageStore_PullOffline R J"
  "ms_ClearOffline (RocksDBMessageStore R J) = RocksDBMessageStore_ClearOffline R J"
  by (simp_all add: RocksDBMessageStore_def)

end
