(* ===== verification/Message_Store_Laws.thy ===== *)
theory Message_Store_Laws
  imports Message_Store
begin

text \<open>
  What the message store promises.  The abstract state has the messages by id and the pairs of
  a user and a message that waits for that user.  The locale \<open>message_store\<close> gives every operation as a
  function on it: the history of a conversation and the offline queue of a user are lists ordered
  newest first, and the reads return slices of them.  \<open>RocksDBMessageStore\<close> refines it on the
  databases that satisfy \<open>message_inv\<close>: every message key holds the message it names, the
  time line keys are exactly those of the stored messages, and an offline key names a stored message.
\<close>

section \<open>Reversed time stamps\<close>

lemma RevTs_eq: "0 < ts \<Longrightarrow> ts \<le> MAX_TS \<Longrightarrow> RevTs ts = pad0 13 (show_nat (nat (MAX_TS - ts)))"
  by (simp add: RevTs_def to_string_def)

lemma RevTs_digits: "\<forall>c \<in> set (RevTs ts). isdigit c"
proof -
  have "0 \<le> (if ts \<le> 0 \<or> ts > MAX_TS then MAX_TS else MAX_TS - ts)" by (simp add: MAX_TS_def)
  then show ?thesis by (auto simp: RevTs_def to_string_def Let_def intro: pad0_digits dest: show_nat_digits)
qed

lemma length_RevTs [simp]: "length (RevTs ts) = 13"
proof -
  let ?r = "if ts \<le> 0 \<or> ts > MAX_TS then MAX_TS else MAX_TS - ts"
  have "0 \<le> ?r" "nat ?r < 10 ^ 13" by (auto simp: MAX_TS_def)
  then show ?thesis using length_show_nat_le [of 13 "nat ?r"] by (simp add: RevTs_def to_string_def Let_def length_pad0)
qed

lemma RevTs_not_Nil [simp]: "RevTs ts \<noteq> []"
  using length_RevTs [of ts] by (metis list.size(3) zero_neq_numeral)

lemma digits_val_RevTs: "0 < ts \<Longrightarrow> ts \<le> MAX_TS \<Longrightarrow> digits_val 0 (RevTs ts) = nat (MAX_TS - ts)"
  by (simp add: RevTs_eq digits_val_show_nat)

lemma stoll_RevTs: "0 < ts \<Longrightarrow> ts \<le> MAX_TS \<Longrightarrow> stoll (RevTs ts) = Some (MAX_TS - ts)"
  by (simp add: stoll_def strtoll_digits RevTs_digits digits_val_RevTs) (simp add: is_int64_def MAX_TS_def)

lemma RevTs_less_iff:
  assumes "0 < a" "a \<le> MAX_TS" "0 < b" "b \<le> MAX_TS"
  shows "RevTs a < RevTs b \<longleftrightarrow> b < a"
  using assms digit_strings_less_iff [of "RevTs a" "RevTs b"] RevTs_digits by (auto simp: digits_val_RevTs nat_less_eq_zless)

lemma RevTs_eq_iff: "0 < a \<Longrightarrow> a \<le> MAX_TS \<Longrightarrow> 0 < b \<Longrightarrow> b \<le> MAX_TS \<Longrightarrow> RevTs a = RevTs b \<longleftrightarrow> a = b"
  by (metis RevTs_less_iff less_irrefl linorder_neqE_linordered_idom)

section \<open>The abstract store\<close>

record MessageState =
  am_msg :: "string \<Rightarrow> MessageData option"
  am_queued :: "(string \<times> string) set"

definition message_ok :: "MessageData \<Rightarrow> bool" where
  "message_ok d \<longleftrightarrow> md_msg_id d \<noteq> [] \<and> md_from_user_id d \<noteq> [] \<and> id_ok (md_conversation_id d) \<and> 0 < md_timestamp d \<and>
     md_timestamp d \<le> MAX_TS \<and> is_int32 (md_chat_type d) \<and> is_int32 (md_status d) \<and> is_int64 (md_recall_at d)"

text \<open>The order of a time line and of an offline queue: newest first, by message id at the same time.\<close>

definition newest_first :: "MessageData \<Rightarrow> MessageData \<Rightarrow> bool" where
  "newest_first a b \<longleftrightarrow> md_timestamp b < md_timestamp a \<or> md_timestamp a = md_timestamp b \<and> md_msg_id a < md_msg_id b"

definition history_page :: "MessageState \<Rightarrow> MessageData list \<Rightarrow> string \<Rightarrow> string \<Rightarrow> int \<Rightarrow> MessageData list" where
  "history_page st ms c before limit =
     (if before = [] then take (nat limit) ms
      else (case am_msg st before of
              None \<Rightarrow> []
            | Some b \<Rightarrow>
                if md_conversation_id b \<noteq> c \<and> md_to_id b \<noteq> c then []
                else take (nat limit) (filter (\<lambda>d. md_timestamp d < md_timestamp b) ms)))"

definition offline_page :: "MessageData list \<Rightarrow> string \<Rightarrow> int \<Rightarrow> MessageData list \<times> string \<times> bool" where
  "offline_page qs cursor limit =
     (let rest = (if cursor = [] then qs else tl (dropWhile (\<lambda>d. RevTs (md_timestamp d) \<noteq> cursor) qs));
          n = nat limit
      in (take n rest, if n < length rest then RevTs (md_timestamp (rest ! (n - 1))) else [], n < length rest))"

definition settled_by :: "MessageState \<Rightarrow> string \<Rightarrow> string \<Rightarrow> bool" where
  "settled_by st until mid \<longleftrightarrow> until = [] \<or>
     (\<exists>b d. am_msg st until = Some b \<and> am_msg st mid = Some d \<and> md_timestamp d \<le> md_timestamp b)"

locale message_store =
  fixes MS :: "'s MessageStore" and inv :: "'s \<Rightarrow> bool" and abs :: "'s \<Rightarrow> MessageState"
  assumes message_data: "inv s \<Longrightarrow> am_msg (abs s) mid = Some d \<Longrightarrow> md_msg_id d = mid \<and> message_ok d"
    and queued_data: "inv s \<Longrightarrow> (uid, mid) \<in> am_queued (abs s) \<Longrightarrow> id_ok uid \<and> am_msg (abs s) mid \<noteq> None"
    and get_by_id: "inv s \<Longrightarrow> ms_GetById MS s mid = am_msg (abs s) mid"
    and history: "inv s \<Longrightarrow> id_ok c \<Longrightarrow> \<exists>ms. sorted_wrt newest_first ms \<and>
      set ms = {d. am_msg (abs s) (md_msg_id d) = Some d \<and> md_conversation_id d = c} \<and>
      (\<forall>chat_type before limit. 0 < limit \<longrightarrow> is_int32 limit \<longrightarrow>
         ms_GetHistory MS s c chat_type before limit = history_page (abs s) ms c before limit)"
    and pull_offline: "inv s \<Longrightarrow> id_ok uid \<Longrightarrow> \<exists>qs. sorted_wrt newest_first qs \<and>
      set qs = {d. am_msg (abs s) (md_msg_id d) = Some d \<and> (uid, md_msg_id d) \<in> am_queued (abs s)} \<and>
      (\<forall>cursor limit. 0 < limit \<longrightarrow> ms_PullOffline MS s uid cursor limit = offline_page qs cursor limit)"
    and save: "inv s \<Longrightarrow> ms_Save MS s d = (ok, s') \<Longrightarrow> message_ok d \<Longrightarrow>
      inv s' \<and> (ok \<longrightarrow> am_msg (abs s) (md_msg_id d) = None) \<and>
      abs s' = (if ok then (abs s)\<lparr>am_msg := (am_msg (abs s))(md_msg_id d \<mapsto> d)\<rparr> else abs s)"
    and mark_recalled: "inv s \<Longrightarrow> ms_MarkRecalled MS s mid at = (ok, s') \<Longrightarrow> is_int64 at \<Longrightarrow>
      inv s' \<and> (case am_msg (abs s) mid of
          None \<Rightarrow> \<not> ok \<and> abs s' = abs s
        | Some d \<Rightarrow> abs s' = (if ok then (abs s)\<lparr>am_msg := (am_msg (abs s))(mid \<mapsto> d\<lparr>md_status := 1, md_recall_at := at\<rparr>)\<rparr> else abs s))"
    and add_offline: "inv s \<Longrightarrow> ms_AddToOffline MS s uid mid = (ok, s') \<Longrightarrow> id_ok uid \<Longrightarrow>
      inv s' \<and> (ok \<longrightarrow> am_msg (abs s) mid \<noteq> None) \<and>
      abs s' = (if ok then (abs s)\<lparr>am_queued := insert (uid, mid) (am_queued (abs s))\<rparr> else abs s)"
    and clear_offline: "inv s \<Longrightarrow> ms_ClearOffline MS s uid until = (ok, s') \<Longrightarrow> id_ok uid \<Longrightarrow>
      inv s' \<and> abs s' = (if ok then (abs s)\<lparr>am_queued := {q \<in> am_queued (abs s). \<not> (fst q = uid \<and> settled_by (abs s) until (snd q))}\<rparr> else abs s)"

section \<open>The invariant of the database\<close>

definition line_key :: "MessageData \<Rightarrow> string" where
  "line_key d = RevTs (md_timestamp d) @ CHR '':'' # md_msg_id d"

definition stored :: "'j nlohmann \<Rightarrow> (string \<Rightarrow> string option) \<Rightarrow> string \<Rightarrow> MessageData option" where
  "stored J m mid = Option.bind (m (K_MSG @ mid)) (DeserializeMessage J)"

definition msg_table :: "'j nlohmann \<Rightarrow> (string \<Rightarrow> string option) \<Rightarrow> bool" where
  "msg_table J m \<longleftrightarrow> (\<forall>x v. m (K_MSG @ x) = Some v \<longrightarrow> (\<exists>d. DeserializeMessage J v = Some d \<and> md_msg_id d = x \<and> message_ok d))"

definition line_table :: "'j nlohmann \<Rightarrow> (string \<Rightarrow> string option) \<Rightarrow> bool" where
  "line_table J m \<longleftrightarrow>
     (\<forall>x. m (K_CHAT @ x) \<noteq> None \<longleftrightarrow> (\<exists>mid d. stored J m mid = Some d \<and> x = md_conversation_id d @ CHR '':'' # line_key d))"

definition queue_table :: "'j nlohmann \<Rightarrow> (string \<Rightarrow> string option) \<Rightarrow> bool" where
  "queue_table J m \<longleftrightarrow>
     (\<forall>x. m (K_OFFLINE @ x) \<noteq> None \<longrightarrow> (\<exists>uid mid d. id_ok uid \<and> stored J m mid = Some d \<and> x = uid @ CHR '':'' # line_key d))"

definition mmap_inv :: "'j nlohmann \<Rightarrow> (string \<Rightarrow> string option) \<Rightarrow> bool" where
  "mmap_inv J m \<longleftrightarrow> msg_table J m \<and> line_table J m \<and> queue_table J m"

definition mmap_abs :: "'j nlohmann \<Rightarrow> (string \<Rightarrow> string option) \<Rightarrow> MessageState" where
  "mmap_abs J m =
     \<lparr>am_msg = stored J m,
      am_queued = {(uid, mid). id_ok uid \<and> (\<exists>d. stored J m mid = Some d \<and> m (K_OFFLINE @ uid @ CHR '':'' # line_key d) \<noteq> None)}\<rparr>"

definition message_inv :: "'db rocksdb \<Rightarrow> 'j nlohmann \<Rightarrow> 'db \<Rightarrow> bool" where
  "message_inv R J db \<longleftrightarrow> mmap_inv J (db_Get R db)"

definition message_abs :: "'db rocksdb \<Rightarrow> 'j nlohmann \<Rightarrow> 'db \<Rightarrow> MessageState" where
  "message_abs R J db = mmap_abs J (db_Get R db)"

lemmas message_prefixes = K_MSG_def K_CHAT_def K_OFFLINE_def
lemmas message_keys = KeyMsg_def KeyChat_def KeyOffline_def PrefixChat_def PrefixOffline_def
lemmas message_view = message_inv_def message_abs_def

lemma message_tables_disjoint [simp]:
  "K_MSG @ a \<noteq> K_CHAT @ b" "K_MSG @ a \<noteq> K_OFFLINE @ b" "K_CHAT @ a \<noteq> K_MSG @ b"
  "K_CHAT @ a \<noteq> K_OFFLINE @ b" "K_OFFLINE @ a \<noteq> K_MSG @ b" "K_OFFLINE @ a \<noteq> K_CHAT @ b"
  by (simp_all add: message_prefixes)

lemma stored_iff:
  assumes "msg_table J m"
  shows "stored J m mid = Some d \<Longrightarrow> md_msg_id d = mid \<and> message_ok d"
    and "stored J m mid = None \<longleftrightarrow> m (K_MSG @ mid) = None"
  using assms unfolding msg_table_def stored_def by (cases "m (K_MSG @ mid)"; fastforce)+

lemma line_key_less:
  assumes "message_ok a" "message_ok b"
  shows "line_key a < line_key b \<longleftrightarrow> newest_first a b"
proof -
  have "(s @ x < t @ y) = (s < t \<or> s = t \<and> x < y)" if "length s = length t" for s t x y :: string
    using that by (induction s t rule: list_induct2) auto
  with assms show ?thesis by (auto simp: line_key_def newest_first_def message_ok_def RevTs_less_iff RevTs_eq_iff)
qed

lemma line_key_eq:
  assumes "message_ok a" "message_ok b"
  shows "line_key a = line_key b \<longleftrightarrow> md_timestamp a = md_timestamp b \<and> md_msg_id a = md_msg_id b"
  using assms by (auto simp: line_key_def message_ok_def RevTs_eq_iff)

section \<open>Effect of the writes on invariant and abstract state\<close>

lemma stored_write [simp]:
  "stored J (m(K_MSG @ mid := v)) = (stored J m)(mid := Option.bind v (DeserializeMessage J))"
  "stored J (m(K_CHAT @ x := w)) = stored J m"
  "stored J (m(K_OFFLINE @ x := w)) = stored J m"
  by (auto simp: stored_def fun_eq_iff)

lemma mmap_parts:
  assumes "mmap_inv J m"
  shows "msg_table J m" "line_table J m" "queue_table J m"
  using assms by (simp_all add: mmap_inv_def)

lemma queued_iff:
  "(uid, mid) \<in> am_queued (mmap_abs J m) \<longleftrightarrow>
     id_ok uid \<and> (\<exists>d. stored J m mid = Some d \<and> m (K_OFFLINE @ uid @ CHR '':'' # line_key d) \<noteq> None)"
  by (simp add: mmap_abs_def)

lemma am_msg_abs [simp]: "am_msg (mmap_abs J m) = stored J m"
  by (simp add: mmap_abs_def)

lemma MessageState_eqI: "am_msg a = am_msg b \<Longrightarrow> (\<And>u i. (u, i) \<in> am_queued a \<longleftrightarrow> (u, i) \<in> am_queued b) \<Longrightarrow> a = (b :: MessageState)"
  by (cases a, cases b) auto

lemma queue_key_unique:
  assumes "mmap_inv J m" "id_ok uid" "m (K_OFFLINE @ uid @ CHR '':'' # line_key d) \<noteq> None" "message_ok d"
  shows "stored J m (md_msg_id d) \<noteq> None"
proof -
  obtain uid' mid e where e: "id_ok uid'" "stored J m mid = Some e" "uid @ CHR '':'' # line_key d = uid' @ CHR '':'' # line_key e"
    using mmap_parts(3) [OF assms(1)] assms(3) unfolding queue_table_def by blast
  have "md_msg_id e = mid \<and> message_ok e" using stored_iff(1) [OF mmap_parts(1) [OF assms(1)] e(2)] .
  moreover have "line_key d = line_key e" using e(1,3) assms(2) by (simp add: id_first_eq)
  ultimately have "md_msg_id d = mid" using assms(4) by (simp add: line_key_eq)
  with e(2) show ?thesis by simp
qed

text \<open>Writes to the offline queues only.\<close>

lemma mmap_inv_offline:
  assumes "mmap_inv J m" "queue_table J m'" "\<And>x. m' (K_MSG @ x) = m (K_MSG @ x)" "\<And>x. m' (K_CHAT @ x) = m (K_CHAT @ x)"
  shows "mmap_inv J m'" "stored J m' = stored J m"
proof -
  show st: "stored J m' = stored J m" using assms(3) by (simp add: stored_def fun_eq_iff)
  show "mmap_inv J m'" using assms st by (simp add: mmap_inv_def msg_table_def line_table_def)
qed

lemma mmap_queue:
  assumes "mmap_inv J m" "stored J m mid = Some d" "id_ok uid"
  shows "mmap_inv J (m(K_OFFLINE @ uid @ CHR '':'' # line_key d \<mapsto> v))" (is "mmap_inv J ?m")
    and "mmap_abs J (m(K_OFFLINE @ uid @ CHR '':'' # line_key d \<mapsto> v)) =
      (mmap_abs J m)\<lparr>am_queued := insert (uid, mid) (am_queued (mmap_abs J m))\<rparr>"
proof -
  have st: "stored J ?m = stored J m" by simp
  have d: "md_msg_id d = mid \<and> message_ok d" using stored_iff(1) [OF mmap_parts(1) [OF assms(1)] assms(2)] .
  have "queue_table J ?m"
    unfolding queue_table_def st
  proof (intro allI impI)
    fix x
    assume x: "?m (K_OFFLINE @ x) \<noteq> None"
    show "\<exists>u i e. id_ok u \<and> stored J m i = Some e \<and> x = u @ CHR '':'' # line_key e"
    proof (cases "x = uid @ CHR '':'' # line_key d")
      case False
      with x have "m (K_OFFLINE @ x) \<noteq> None" by simp
      with mmap_parts(3) [OF assms(1)] show ?thesis unfolding queue_table_def by blast
    qed (use assms(2,3) in blast)
  qed
  then show "mmap_inv J ?m" by (rule mmap_inv_offline(1) [OF assms(1)]) simp_all
  show "mmap_abs J ?m = (mmap_abs J m)\<lparr>am_queued := insert (uid, mid) (am_queued (mmap_abs J m))\<rparr>"
  proof (rule MessageState_eqI)
    fix u i
    have *: "u @ CHR '':'' # line_key e = uid @ CHR '':'' # line_key d \<longleftrightarrow> u = uid \<and> i = mid"
      if "id_ok u" "stored J m i = Some e" for e
    proof -
      have e: "md_msg_id e = i \<and> message_ok e" using stored_iff(1) [OF mmap_parts(1) [OF assms(1)] that(2)] .
      then have "line_key e = line_key d \<longleftrightarrow> i = mid" using d that(2) assms(2) by (cases "i = mid") (simp_all add: line_key_eq)
      then show ?thesis using that(1) assms(3) by (simp add: id_first_eq)
    qed
    show "(u, i) \<in> am_queued (mmap_abs J ?m) \<longleftrightarrow> (u, i) \<in> am_queued ((mmap_abs J m)\<lparr>am_queued := insert (uid, mid) (am_queued (mmap_abs J m))\<rparr>)"
    proof (cases "id_ok u \<and> (\<exists>e. stored J m i = Some e)")
      case True
      then obtain e where "id_ok u" "stored J m i = Some e" by blast
      with * [OF this] show ?thesis by (auto simp: queued_iff st)
    next
      case False
      then have "\<not> (u = uid \<and> i = mid)" using assms(2,3) by blast
      with False show ?thesis unfolding queued_iff st by (auto simp: queued_iff)
    qed
  qed simp
qed

lemma mmap_dequeue:
  assumes "mmap_inv J m" "id_ok uid"
    and keys: "\<And>e i. stored J m i = Some e \<Longrightarrow> m (K_OFFLINE @ uid @ CHR '':'' # line_key e) \<noteq> None \<Longrightarrow>
      K_OFFLINE @ uid @ CHR '':'' # line_key e \<in> set ks \<longleftrightarrow> P i"
    and own: "\<And>k. k \<in> set ks \<Longrightarrow> prefix (PrefixOffline uid) k"
  shows "mmap_inv J (apply_batch (map BDelete ks) m)" (is "mmap_inv J ?m")
    and "mmap_abs J (apply_batch (map BDelete ks) m) =
      (mmap_abs J m)\<lparr>am_queued := {q \<in> am_queued (mmap_abs J m). \<not> (fst q = uid \<and> P (snd q))}\<rparr>"
proof -
  have own': "k \<in> set ks \<Longrightarrow> \<exists>x. k = K_OFFLINE @ uid @ CHR '':'' # x" for k
    using own [of k] by (auto simp: PrefixOffline_def prefix_def)
  have out: "K_MSG @ x \<notin> set ks" "K_CHAT @ x \<notin> set ks" for x using own' [of "K_MSG @ x"] own' [of "K_CHAT @ x"] by auto
  have q: "queue_table J ?m"
    using mmap_parts(3) [OF assms(1)] out unfolding queue_table_def by (simp add: apply_batch_deletes stored_def)
  note i = mmap_inv_offline [OF assms(1) q]
  show "mmap_inv J ?m" by (rule i(1)) (simp_all add: apply_batch_deletes out)
  have st: "stored J ?m = stored J m" by (rule i(2)) (simp_all add: apply_batch_deletes out)
  show "mmap_abs J ?m = (mmap_abs J m)\<lparr>am_queued := {q \<in> am_queued (mmap_abs J m). \<not> (fst q = uid \<and> P (snd q))}\<rparr>"
  proof (rule MessageState_eqI)
    fix u j
    have *: "K_OFFLINE @ u @ CHR '':'' # x \<notin> set ks" if "u \<noteq> uid" "id_ok u" for x
      using own' [of "K_OFFLINE @ u @ CHR '':'' # x"] that assms(2) by (auto simp: id_first_eq)
    show "(u, j) \<in> am_queued (mmap_abs J ?m) \<longleftrightarrow>
        (u, j) \<in> am_queued ((mmap_abs J m)\<lparr>am_queued := {q \<in> am_queued (mmap_abs J m). \<not> (fst q = uid \<and> P (snd q))}\<rparr>)"
    proof (cases "u = uid")
      case True
      then show ?thesis using keys [of j] by (auto simp: queued_iff st apply_batch_deletes)
    next
      case False
      then show ?thesis using * by (auto simp: queued_iff st apply_batch_deletes)
    qed
  qed (simp add: st)
qed

text \<open>Writes of messages.\<close>

lemma key_in_filter: "k \<in> fst ` set (filter P es) \<longleftrightarrow> (\<exists>v. (k, v) \<in> set es \<and> P (k, v))"
  by force

lemma those_map_Some [simp]: "those (map Some xs) = Some xs"
  by (induction xs) simp_all

context json_laws
begin

lemma DeserializeMessage_Serialize: "message_ok d \<Longrightarrow> DeserializeMessage J (SerializeMessage J d) = Some d"
  by (simp add: DeserializeMessage_def SerializeMessage_def message_members_def json_simps message_ok_def is_int64_of_int32
      is_int64_def [of "md_timestamp d"] MAX_TS_def)

lemma mmap_save:
  assumes "mmap_inv J m" "message_ok d" "stored J m (md_msg_id d) = None"
  shows "mmap_inv J (m(K_MSG @ md_msg_id d \<mapsto> SerializeMessage J d, K_CHAT @ md_conversation_id d @ CHR '':'' # line_key d \<mapsto> v))"
      (is "mmap_inv J ?m")
    and "mmap_abs J (m(K_MSG @ md_msg_id d \<mapsto> SerializeMessage J d, K_CHAT @ md_conversation_id d @ CHR '':'' # line_key d \<mapsto> v)) =
      (mmap_abs J m)\<lparr>am_msg := (stored J m)(md_msg_id d \<mapsto> d)\<rparr>"
proof -
  have st: "stored J ?m = (stored J m)(md_msg_id d \<mapsto> d)" by (simp add: DeserializeMessage_Serialize [OF assms(2)])
  have other: "stored J m i = Some e \<Longrightarrow> i \<noteq> md_msg_id d" for i e using assms(3) by auto
  have st': "stored J ?m i = Some e \<longleftrightarrow> i = md_msg_id d \<and> e = d \<or> stored J m i = Some e" for i e
    unfolding st using other [of i e] by auto
  have "msg_table J ?m"
    using mmap_parts(1) [OF assms(1)] assms(2) by (simp add: msg_table_def DeserializeMessage_Serialize)
  moreover have "line_table J ?m"
    using mmap_parts(2) [OF assms(1)] unfolding line_table_def st' by auto
  moreover have "queue_table J ?m"
  proof -
    have "?m (K_OFFLINE @ x) = m (K_OFFLINE @ x)" for x by simp
    then show ?thesis using mmap_parts(3) [OF assms(1)] unfolding queue_table_def st' by metis
  qed
  ultimately show "mmap_inv J ?m" by (simp add: mmap_inv_def)
  show "mmap_abs J ?m = (mmap_abs J m)\<lparr>am_msg := (stored J m)(md_msg_id d \<mapsto> d)\<rparr>"
  proof (rule MessageState_eqI)
    fix u i
    have "m (K_OFFLINE @ u @ CHR '':'' # line_key d) = None" if "id_ok u"
      using queue_key_unique [OF assms(1) that _ assms(2)] assms(3) by fastforce
    then show "(u, i) \<in> am_queued (mmap_abs J ?m) \<longleftrightarrow> (u, i) \<in> am_queued ((mmap_abs J m)\<lparr>am_msg := (stored J m)(md_msg_id d \<mapsto> d)\<rparr>)"
      using assms(3) unfolding queued_iff st' by (auto simp: queued_iff)
  qed (simp add: st del: stored_write)
qed

lemma mmap_rewrite:
  assumes "mmap_inv J m" "stored J m mid = Some d" "message_ok e" "md_msg_id e = mid"
    "md_conversation_id e = md_conversation_id d" "md_timestamp e = md_timestamp d"
  shows "mmap_inv J (m(K_MSG @ mid \<mapsto> SerializeMessage J e))" (is "mmap_inv J ?m")
    and "mmap_abs J (m(K_MSG @ mid \<mapsto> SerializeMessage J e)) = (mmap_abs J m)\<lparr>am_msg := (stored J m)(mid \<mapsto> e)\<rparr>"
proof -
  have st: "stored J ?m = (stored J m)(mid \<mapsto> e)" by (simp add: DeserializeMessage_Serialize [OF assms(3)])
  have d: "md_msg_id d = mid" using stored_iff(1) [OF mmap_parts(1) [OF assms(1)] assms(2)] by simp
  have lk: "line_key e = line_key d" using assms(4,6) d by (simp add: line_key_def)
  have "msg_table J ?m"
    using mmap_parts(1) [OF assms(1)] assms(3,4) by (simp add: msg_table_def DeserializeMessage_Serialize)
  moreover have ex: "(\<exists>i f. stored J ?m i = Some f \<and> Q (md_conversation_id f) (line_key f)) \<longleftrightarrow>
      (\<exists>i f. stored J m i = Some f \<and> Q (md_conversation_id f) (line_key f))" for Q
  proof
    assume "\<exists>i f. stored J ?m i = Some f \<and> Q (md_conversation_id f) (line_key f)"
    then obtain i f where "stored J ?m i = Some f" "Q (md_conversation_id f) (line_key f)" by blast
    with assms(2,5) lk show "\<exists>i f. stored J m i = Some f \<and> Q (md_conversation_id f) (line_key f)"
      by (cases "i = mid") (auto simp: st simp del: stored_write)
  next
    assume "\<exists>i f. stored J m i = Some f \<and> Q (md_conversation_id f) (line_key f)"
    then obtain i f where f: "stored J m i = Some f" "Q (md_conversation_id f) (line_key f)" by blast
    show "\<exists>i f. stored J ?m i = Some f \<and> Q (md_conversation_id f) (line_key f)"
    proof (cases "i = mid")
      case True
      with f assms(2,5) lk have "stored J ?m mid = Some e \<and> Q (md_conversation_id e) (line_key e)"
        by (simp add: st del: stored_write)
      then show ?thesis by blast
    next
      case False
      with f have "stored J ?m i = Some f" by (simp add: st del: stored_write)
      with f(2) show ?thesis by blast
    qed
  qed
  have "line_table J ?m"
    using mmap_parts(2) [OF assms(1)] ex [of "\<lambda>c k. _ = c @ CHR '':'' # k"] unfolding line_table_def by simp
  moreover have "queue_table J ?m"
  proof -
    have "(\<exists>uid i f. id_ok uid \<and> stored J ?m i = Some f \<and> x = uid @ CHR '':'' # line_key f) \<longleftrightarrow>
        (\<exists>uid i f. id_ok uid \<and> stored J m i = Some f \<and> x = uid @ CHR '':'' # line_key f)" for x
      using ex [of "\<lambda>c k. id_ok _ \<and> x = _ @ CHR '':'' # k"] by blast
    then show ?thesis using mmap_parts(3) [OF assms(1)] unfolding queue_table_def by simp
  qed
  ultimately show "mmap_inv J ?m" by (simp add: mmap_inv_def)
  show "mmap_abs J ?m = (mmap_abs J m)\<lparr>am_msg := (stored J m)(mid \<mapsto> e)\<rparr>"
  proof (rule MessageState_eqI)
    fix u i
    show "(u, i) \<in> am_queued (mmap_abs J ?m) \<longleftrightarrow> (u, i) \<in> am_queued ((mmap_abs J m)\<lparr>am_msg := (stored J m)(mid \<mapsto> e)\<rparr>)"
      using assms(2) lk by (cases "i = mid") (simp_all add: queued_iff st del: stored_write)
  qed (simp add: st del: stored_write)
qed

end

section \<open>The loops\<close>

lemma parse_line [simp]:
  "message_ok d \<Longrightarrow> ParseChatKey (p @ line_key d) p = (RevTs (md_timestamp d), md_msg_id d)"
  "message_ok d \<Longrightarrow> ParseOfflineKey (p @ line_key d) p = (RevTs (md_timestamp d), md_msg_id d)"
  by (simp_all add: ParseChatKey_def ParseOfflineKey_def line_key_def message_ok_def)

lemma history_loop_eq:
  assumes "is_int32 limit"
  shows "map fst es = map (\<lambda>d. p @ line_key d) ms \<Longrightarrow> \<forall>d \<in> set ms. message_ok d \<Longrightarrow> int (length keys) < limit \<Longrightarrow>
    history_loop p cutoff limit es keys = keys @ map (\<lambda>d. (RevTs (md_timestamp d), md_msg_id d))
      (take (nat limit - length keys) (filter (\<lambda>d. \<not> (0 \<le> cutoff \<and> MAX_TS - md_timestamp d \<le> cutoff)) ms))"
proof (induction es arbitrary: ms keys)
  case (Cons e es)
  then obtain d ms' where ms: "ms = d # ms'" "fst e = p @ line_key d" "map fst es = map (\<lambda>d. p @ line_key d) ms'"
    by (cases ms) auto
  let ?k = "(RevTs (md_timestamp d), md_msg_id d)"
  have d: "message_ok d" "\<forall>d \<in> set ms'. message_ok d" using Cons.prems(2) ms(1) by simp_all
  have r: "stoll (RevTs (md_timestamp d)) = Some (MAX_TS - md_timestamp d)" using d(1) by (simp add: message_ok_def stoll_RevTs)
  show ?case
  proof (cases "0 \<le> cutoff \<and> MAX_TS - md_timestamp d \<le> cutoff")
    case True
    then show ?thesis using Cons.IH [OF ms(3) d(2) Cons.prems(3)] by (simp add: ms d(1) r)
  next
    case keep: False
    have w: "wrap32 (int (length keys) + 1) = int (length keys) + 1"
      using assms Cons.prems(3) by (intro wrap32_id) (simp add: is_int32_def)
    have n: "nat limit - length keys = Suc (nat limit - Suc (length keys))" using Cons.prems(3) by linarith
    show ?thesis
    proof (cases "limit \<le> int (length keys) + 1")
      case True
      then have "nat limit - Suc (length keys) = 0" by linarith
      with True keep show ?thesis by (auto simp: ms d(1) r w n Let_def add.commute [of 1])
    next
      case False
      then have "history_loop p cutoff limit es (keys @ [?k]) = (keys @ [?k]) @ map (\<lambda>d. (RevTs (md_timestamp d), md_msg_id d))
          (take (nat limit - length (keys @ [?k])) (filter (\<lambda>d. \<not> (0 \<le> cutoff \<and> MAX_TS - md_timestamp d \<le> cutoff)) ms'))"
        by (intro Cons.IH [OF ms(3) d(2)]) simp
      with False keep show ?thesis by (auto simp: ms d(1) r w n Let_def add.commute [of 1])
    qed
  qed
qed simp

text \<open>After the cursor is found, the loop takes messages up to the limit.\<close>

lemma pull_loop_take:
  assumes "\<And>d. d \<in> set qs \<Longrightarrow> message_ok d \<and> RocksDBMessageStore_GetById R J db (md_msg_id d) = Some d"
  shows "map fst es = map (\<lambda>d. p @ line_key d) qs \<Longrightarrow> 0 \<le> count \<Longrightarrow> count < limit \<Longrightarrow>
    pull_loop R J db p cursor limit es False count last_rev result =
      (let n = nat (limit - count)
       in (result @ take n qs, if n < length qs then RevTs (md_timestamp (qs ! (n - 1))) else [], n < length qs))"
  using assms
proof (induction es arbitrary: qs count last_rev result)
  case (Cons e es)
  then obtain d qs' where qs: "qs = d # qs'" "fst e = p @ line_key d" "map fst es = map (\<lambda>d. p @ line_key d) qs'"
    by (cases qs) auto
  have d: "message_ok d" "RocksDBMessageStore_GetById R J db (md_msg_id d) = Some d" using Cons.prems(4) [of d] qs(1) by simp_all
  have len: "length es = length qs'" using qs(3) by (metis length_map)
  show ?case
  proof (cases "limit \<le> count + 1")
    case True
    then have "nat (limit - count) = 1" using Cons.prems(3) by linarith
    moreover have "es \<noteq> [] \<longleftrightarrow> qs' \<noteq> []" using len by auto
    ultimately show ?thesis using True by (simp add: qs d Let_def)
  next
    case False
    define k where "k = nat (limit - count) - 2"
    have k: "nat (limit - count) = Suc (Suc k)" "nat (limit - (count + 1)) = Suc k"
      using False unfolding k_def by linarith+
    have "pull_loop R J db p cursor limit es False (count + 1) (RevTs (md_timestamp d)) (result @ [d]) =
      (let n = nat (limit - (count + 1))
       in ((result @ [d]) @ take n qs', if n < length qs' then RevTs (md_timestamp (qs' ! (n - 1))) else [], n < length qs'))"
      by (rule Cons.IH) (use Cons.prems qs False in auto)
    with False show ?thesis by (simp add: qs d Let_def k)
  qed
qed simp

lemma pull_loop_skip:
  assumes "\<And>d. d \<in> set qs \<Longrightarrow> message_ok d \<and> RocksDBMessageStore_GetById R J db (md_msg_id d) = Some d" "0 < limit"
  shows "map fst es = map (\<lambda>d. p @ line_key d) qs \<Longrightarrow> cursor \<noteq> [] \<Longrightarrow>
    pull_loop R J db p cursor limit es True 0 last_rev [] = offline_page qs cursor limit"
  using assms(1)
proof (induction es arbitrary: qs)
  case (Cons e es)
  then obtain d qs' where qs: "qs = d # qs'" "fst e = p @ line_key d" "map fst es = map (\<lambda>d. p @ line_key d) qs'"
    by (cases qs) auto
  have d: "message_ok d" using Cons.prems(3) [of d] qs(1) by simp
  have qs': "\<And>d. d \<in> set qs' \<Longrightarrow> message_ok d \<and> RocksDBMessageStore_GetById R J db (md_msg_id d) = Some d" using Cons.prems(3) qs(1) by simp
  show ?case
  proof (cases "RevTs (md_timestamp d) = cursor")
    case True
    then show ?thesis using pull_loop_take [OF qs' qs(3), of 0 limit] assms(2) Cons.prems(2) by (simp add: qs d offline_page_def Let_def)
  next
    case False
    with Cons.IH [OF qs(3) Cons.prems(2) qs'] Cons.prems(2) show ?thesis by (simp add: qs d offline_page_def)
  qed
qed (simp add: offline_page_def)

section \<open>The operations of the implementation\<close>

context store_env
begin

lemma ms_message_data: "message_inv R J db \<Longrightarrow> am_msg (message_abs R J db) mid = Some d \<Longrightarrow> md_msg_id d = mid \<and> message_ok d"
  using stored_iff(1) [of J "db_Get R db" mid d] by (simp add: message_view mmap_inv_def)

lemma ms_queued_data: "message_inv R J db \<Longrightarrow> (uid, mid) \<in> am_queued (message_abs R J db) \<Longrightarrow> id_ok uid \<and> am_msg (message_abs R J db) mid \<noteq> None"
  by (auto simp: message_view queued_iff)

lemma ms_get_by_id:
  assumes "message_inv R J db"
  shows "RocksDBMessageStore_GetById R J db mid = am_msg (message_abs R J db) mid"
proof (cases "mid = []")
  case True
  have "am_msg (message_abs R J db) [] = None"
    using ms_message_data [OF assms, of "[]"] by (cases "am_msg (message_abs R J db) []") (auto simp: message_ok_def)
  with True show ?thesis by (simp add: RocksDBMessageStore_GetById_def)
qed (simp add: RocksDBMessageStore_GetById_def message_abs_def stored_def KeyMsg_def split: option.splits)

text \<open>The entries below a prefix, as the list of their messages.\<close>

lemma ms_scan_lines:
  assumes "message_inv R J db"
    and keys: "\<And>x. db_Get R db (p @ x) \<noteq> None \<Longrightarrow> \<exists>mid d. stored J (db_Get R db) mid = Some d \<and> x = line_key d"
  obtains ms where "map fst (scan_prefix R db p) = map (\<lambda>d. p @ line_key d) ms" "sorted_wrt newest_first ms"
    "set ms = {d. am_msg (message_abs R J db) (md_msg_id d) = Some d \<and> db_Get R db (p @ line_key d) \<noteq> None}"
    "\<And>d. d \<in> set ms \<Longrightarrow> message_ok d \<and> RocksDBMessageStore_GetById R J db (md_msg_id d) = Some d"
proof -
  let ?es = "scan_prefix R db p" and ?st = "am_msg (message_abs R J db)"
  let ?ms = "List.map_filter (\<lambda>e. ?st (drop (length p + 14) (fst e))) ?es"
  have st: "?st = stored J (db_Get R db)" by (simp add: message_abs_def)
  have entry: "\<exists>d. ?st (drop (length p + 14) (fst e)) = Some d \<and> p @ line_key d = fst e" if "e \<in> set ?es" for e
  proof -
    obtain k v where e: "e = (k, v)" by (cases e)
    with that obtain x where x: "k = p @ x" "db_Get R db (p @ x) = Some v" by (auto simp: in_scan_prefix prefix_def)
    obtain mid d where d: "?st mid = Some d" "x = line_key d" using keys [of x] x(2) st by auto
    then have "md_msg_id d = mid" using ms_message_data [OF assms(1) d(1)] by simp
    then have "drop (length p + 14) (fst e) = mid" by (simp add: e x(1) d(2) line_key_def)
    with d e x(1) show ?thesis by auto
  qed
  then have map: "map (\<lambda>d. p @ line_key d) ?ms = map fst ?es" by (intro map_filter_total) blast
  have set: "set ?ms = {d. ?st (md_msg_id d) = Some d \<and> db_Get R db (p @ line_key d) \<noteq> None}"
  proof (intro set_eqI iffI)
    fix d
    assume "d \<in> set ?ms"
    then obtain e where e: "e \<in> set ?es" "?st (drop (length p + 14) (fst e)) = Some d" by (auto simp: set_map_filter)
    from entry [OF e(1)] e(2) have f: "p @ line_key d = fst e" by auto
    have "?st (md_msg_id d) = Some d" using ms_message_data [OF assms(1) e(2)] e(2) by simp
    moreover have "db_Get R db (fst e) \<noteq> None" using e(1) in_scan_prefix [of "fst e" "snd e"] by simp
    ultimately show "d \<in> {d. ?st (md_msg_id d) = Some d \<and> db_Get R db (p @ line_key d) \<noteq> None}" using f by simp
  next
    fix d
    assume "d \<in> {d. ?st (md_msg_id d) = Some d \<and> db_Get R db (p @ line_key d) \<noteq> None}"
    then obtain v where d: "?st (md_msg_id d) = Some d" "db_Get R db (p @ line_key d) = Some v" by auto
    then have "(p @ line_key d, v) \<in> set ?es" by (simp add: in_scan_prefix)
    moreover have "drop (length p + 14) (p @ line_key d) = md_msg_id d" by (simp add: line_key_def)
    ultimately show "d \<in> set ?ms" using d(1) unfolding set_map_filter by force
  qed
  have ok: "message_ok d" if "d \<in> set ?ms" for d using that set ms_message_data [OF assms(1), of "md_msg_id d" d] by blast
  have "sorted_wrt (<) (map (\<lambda>d. p @ line_key d) ?ms)" unfolding map by (rule sorted_scan_prefix)
  then have "sorted_wrt (\<lambda>a b. line_key a < line_key b) ?ms" by (simp add: sorted_wrt_map append_less_iff)
  then have "sorted_wrt newest_first ?ms"
    by (rule sorted_wrt_mono_rel [rotated]) (simp add: line_key_less ok)
  with that [OF map [symmetric] _ set] ok set show thesis by (auto simp: ms_get_by_id [OF assms(1)])
qed

lemma ms_history:
  assumes "message_inv R J db" "id_ok c"
  shows "\<exists>ms. sorted_wrt newest_first ms \<and>
      set ms = {d. am_msg (message_abs R J db) (md_msg_id d) = Some d \<and> md_conversation_id d = c} \<and>
      (\<forall>chat_type before limit. 0 < limit \<longrightarrow> is_int32 limit \<longrightarrow>
         RocksDBMessageStore_GetHistory R J db c chat_type before limit = history_page (message_abs R J db) ms c before limit)"
proof -
  have lt: "db_Get R db (K_CHAT @ x) \<noteq> None \<longleftrightarrow>
      (\<exists>mid d. stored J (db_Get R db) mid = Some d \<and> x = md_conversation_id d @ CHR '':'' # line_key d)" for x
    using assms(1) unfolding message_view mmap_inv_def line_table_def by blast
  have st: "am_msg (message_abs R J db) = stored J (db_Get R db)" by (simp add: message_abs_def)
  have key: "db_Get R db (PrefixChat c @ x) \<noteq> None \<longleftrightarrow> (\<exists>mid d. stored J (db_Get R db) mid = Some d \<and> md_conversation_id d = c \<and> x = line_key d)" for x
  proof -
    have "md_conversation_id d @ CHR '':'' # line_key d = c @ CHR '':'' # x \<longleftrightarrow> md_conversation_id d = c \<and> line_key d = x"
      if "stored J (db_Get R db) mid = Some d" for mid d
      using ms_message_data [OF assms(1), of mid d] that assms(2) by (simp add: st message_ok_def id_first_eq)
    then have "(\<exists>mid d. stored J (db_Get R db) mid = Some d \<and> c @ CHR '':'' # x = md_conversation_id d @ CHR '':'' # line_key d) \<longleftrightarrow>
        (\<exists>mid d. stored J (db_Get R db) mid = Some d \<and> md_conversation_id d = c \<and> x = line_key d)" by metis
    then show ?thesis using lt [of "c @ CHR '':'' # x"] by (simp add: PrefixChat_def)
  qed
  obtain ms where ms: "map fst (scan_prefix R db (PrefixChat c)) = map (\<lambda>d. PrefixChat c @ line_key d) ms" "sorted_wrt newest_first ms"
    "set ms = {d. am_msg (message_abs R J db) (md_msg_id d) = Some d \<and> db_Get R db (PrefixChat c @ line_key d) \<noteq> None}"
    "\<And>d. d \<in> set ms \<Longrightarrow> message_ok d \<and> RocksDBMessageStore_GetById R J db (md_msg_id d) = Some d"
    by (rule ms_scan_lines [OF assms(1), of "PrefixChat c"]) (use key in blast)+
  have "set ms = {d. am_msg (message_abs R J db) (md_msg_id d) = Some d \<and> md_conversation_id d = c}"
  proof -
    have "db_Get R db (PrefixChat c @ line_key d) \<noteq> None \<longleftrightarrow> md_conversation_id d = c"
      if "am_msg (message_abs R J db) (md_msg_id d) = Some d" for d
    proof
      assume "db_Get R db (PrefixChat c @ line_key d) \<noteq> None"
      then obtain mid e where e: "stored J (db_Get R db) mid = Some e" "md_conversation_id e = c" "line_key d = line_key e" using key by blast
      then have "md_msg_id d = mid" using ms_message_data [OF assms(1), of mid e] ms_message_data [OF assms(1) that] by (simp add: st line_key_eq)
      with that e show "md_conversation_id d = c" by (simp add: st)
    next
      assume "md_conversation_id d = c"
      with that show "db_Get R db (PrefixChat c @ line_key d) \<noteq> None" unfolding key st by blast
    qed
    then show ?thesis unfolding ms(3) by blast
  qed
  moreover have "RocksDBMessageStore_GetHistory R J db c ct before limit = history_page (message_abs R J db) ms c before limit"
    if l: "0 < limit" "is_int32 limit" for ct before limit
  proof -
    have get: "List.map_filter (\<lambda>k. RocksDBMessageStore_GetById R J db (snd k))
        (map (\<lambda>d. (RevTs (md_timestamp d), md_msg_id d)) ds) = ds" if "set ds \<subseteq> set ms" for ds
      using that by (induction ds) (use ms(4) in \<open>auto simp: map_filter_simps\<close>)
    have collect: "List.map_filter (\<lambda>k. RocksDBMessageStore_GetById R J db (snd k))
        (history_loop (PrefixChat c) cutoff limit (scan_prefix R db (PrefixChat c)) []) =
        take (nat limit) (filter (\<lambda>d. \<not> (0 \<le> cutoff \<and> MAX_TS - md_timestamp d \<le> cutoff)) ms)" for cutoff
      using history_loop_eq [OF l(2) ms(1), of "[]" cutoff] l(1) ms(4) get [of "take (nat limit) (filter _ ms)"]
      by (simp add: set_take_subset [THEN subset_trans])
    have cut: "filter (\<lambda>d. md_timestamp b \<le> MAX_TS \<longrightarrow> \<not> md_timestamp b \<le> md_timestamp d) ms =
        filter (\<lambda>d. md_timestamp d < md_timestamp b) ms" if "am_msg (message_abs R J db) before = Some b" for b
      using ms_message_data [OF assms(1) that] by (intro filter_cong) (auto simp: message_ok_def)
    have "c \<noteq> []" using assms(2) by (simp add: id_ok_def)
    then show ?thesis using l(1)
      by (simp only: RocksDBMessageStore_GetHistory_def Let_def collect)
        (simp add: history_page_def ms_get_by_id [OF assms(1)] cut split: option.split)
  qed
  ultimately show ?thesis using ms(2) by blast
qed

lemma ms_pull_offline:
  assumes "message_inv R J db" "id_ok uid"
  shows "\<exists>qs. sorted_wrt newest_first qs \<and>
      set qs = {d. am_msg (message_abs R J db) (md_msg_id d) = Some d \<and> (uid, md_msg_id d) \<in> am_queued (message_abs R J db)} \<and>
      (\<forall>cursor limit. 0 < limit \<longrightarrow> RocksDBMessageStore_PullOffline R J db uid cursor limit = offline_page qs cursor limit)"
proof -
  have st: "am_msg (message_abs R J db) = stored J (db_Get R db)" by (simp add: message_abs_def)
  have key: "\<exists>mid d. stored J (db_Get R db) mid = Some d \<and> x = line_key d" if "db_Get R db (PrefixOffline uid @ x) \<noteq> None" for x
  proof -
    have "db_Get R db (K_OFFLINE @ (uid @ CHR '':'' # x)) \<noteq> None" using that by (simp add: PrefixOffline_def)
    then obtain u mid d where "id_ok u" "stored J (db_Get R db) mid = Some d" "uid @ CHR '':'' # x = u @ CHR '':'' # line_key d"
      using assms(1) unfolding message_view mmap_inv_def queue_table_def by blast
    with assms(2) show ?thesis by (auto simp: id_first_eq)
  qed
  obtain qs where qs: "map fst (scan_prefix R db (PrefixOffline uid)) = map (\<lambda>d. PrefixOffline uid @ line_key d) qs" "sorted_wrt newest_first qs"
    "set qs = {d. am_msg (message_abs R J db) (md_msg_id d) = Some d \<and> db_Get R db (PrefixOffline uid @ line_key d) \<noteq> None}"
    "\<And>d. d \<in> set qs \<Longrightarrow> message_ok d \<and> RocksDBMessageStore_GetById R J db (md_msg_id d) = Some d"
    by (rule ms_scan_lines [OF assms(1), of "PrefixOffline uid"]) (use key in blast)+
  have "set qs = {d. am_msg (message_abs R J db) (md_msg_id d) = Some d \<and> (uid, md_msg_id d) \<in> am_queued (message_abs R J db)}"
    unfolding qs(3) using assms(2) by (auto simp: message_abs_def queued_iff PrefixOffline_def)
  moreover have "RocksDBMessageStore_PullOffline R J db uid cursor limit = offline_page qs cursor limit" if "0 < limit" for cursor limit
  proof -
    have "uid \<noteq> []" using assms(2) by (simp add: id_ok_def)
    then show ?thesis
      using that pull_loop_skip [OF qs(4) that qs(1), of cursor] pull_loop_take [OF qs(4) qs(1), of 0 limit]
      by (cases "cursor = []") (simp_all add: RocksDBMessageStore_PullOffline_def offline_page_def)
  qed
  ultimately show ?thesis using qs(2) by blast
qed

lemma ms_save:
  assumes "message_inv R J db" "RocksDBMessageStore_Save R J db d = (ok, db')" "message_ok d"
  shows "message_inv R J db' \<and> (ok \<longrightarrow> am_msg (message_abs R J db) (md_msg_id d) = None) \<and>
      message_abs R J db' = (if ok then (message_abs R J db)\<lparr>am_msg := (am_msg (message_abs R J db))(md_msg_id d \<mapsto> d)\<rparr> else message_abs R J db)"
proof -
  have inv: "mmap_inv J (db_Get R db)" using assms(1) by (simp add: message_view)
  have ne: "md_msg_id d \<noteq> []" "md_from_user_id d \<noteq> []" "md_conversation_id d \<noteq> []" using assms(3) by (auto simp: message_ok_def id_ok_def)
  show ?thesis
  proof (cases "stored J (db_Get R db) (md_msg_id d)")
    case (Some e)
    then have "db_Get R db (KeyMsg (md_msg_id d)) \<noteq> None" using stored_iff(2) [OF mmap_parts(1) [OF inv], of "md_msg_id d"] by (simp add: KeyMsg_def)
    with assms ne show ?thesis by (simp add: RocksDBMessageStore_Save_def)
  next
    case None
    then have "db_Get R db (KeyMsg (md_msg_id d)) = None" using stored_iff(2) [OF mmap_parts(1) [OF inv]] by (simp add: KeyMsg_def)
    with assms(2) ne have "db_Write R db [BPut (KeyMsg (md_msg_id d)) (SerializeMessage J d),
        BPut (KeyChat (md_conversation_id d) (md_timestamp d) (md_msg_id d)) []] = (ok, db')"
      by (simp add: RocksDBMessageStore_Save_def)
    from write_get [OF this] have "db_Get R db' = (if ok then (db_Get R db)(K_MSG @ md_msg_id d \<mapsto> SerializeMessage J d,
        K_CHAT @ md_conversation_id d @ CHR '':'' # line_key d \<mapsto> []) else db_Get R db)"
      by (simp add: message_keys line_key_def)
    with mmap_save [OF inv assms(3) None, of "[]"] inv None show ?thesis by (simp add: message_view)
  qed
qed

lemma ms_mark_recalled:
  assumes "message_inv R J db" "RocksDBMessageStore_MarkRecalled R J db mid at = (ok, db')" "is_int64 at"
  shows "message_inv R J db' \<and> (case am_msg (message_abs R J db) mid of
          None \<Rightarrow> \<not> ok \<and> message_abs R J db' = message_abs R J db
        | Some d \<Rightarrow> message_abs R J db' = (if ok then (message_abs R J db)\<lparr>am_msg := (am_msg (message_abs R J db))
            (mid \<mapsto> d\<lparr>md_status := 1, md_recall_at := at\<rparr>)\<rparr> else message_abs R J db))"
proof (cases "am_msg (message_abs R J db) mid")
  case None
  with assms show ?thesis by (auto simp: RocksDBMessageStore_MarkRecalled_def ms_get_by_id split: if_splits)
next
  case (Some d)
  let ?e = "d\<lparr>md_status := 1, md_recall_at := at\<rparr>"
  have inv: "mmap_inv J (db_Get R db)" and st: "stored J (db_Get R db) mid = Some d" using assms(1) Some by (simp_all add: message_view)
  have d: "md_msg_id d = mid" "message_ok d" using ms_message_data [OF assms(1) Some] by simp_all
  then have e: "message_ok ?e" "mid \<noteq> []" using assms(3) by (auto simp: message_ok_def is_int32_def)
  have "db_Put R db (KeyMsg mid) (SerializeMessage J ?e) = (ok, db')"
    using assms(1,2) Some e(2) by (simp add: RocksDBMessageStore_MarkRecalled_def ms_get_by_id)
  from put_get [OF this] mmap_rewrite [OF inv st e(1)] d(1) inv Some show ?thesis by (simp add: message_view KeyMsg_def)
qed

lemma ms_add_offline:
  assumes "message_inv R J db" "RocksDBMessageStore_AddToOffline R J db uid mid = (ok, db')" "id_ok uid"
  shows "message_inv R J db' \<and> (ok \<longrightarrow> am_msg (message_abs R J db) mid \<noteq> None) \<and>
      message_abs R J db' = (if ok then (message_abs R J db)\<lparr>am_queued := insert (uid, mid) (am_queued (message_abs R J db))\<rparr> else message_abs R J db)"
proof (cases "am_msg (message_abs R J db) mid")
  case None
  with assms show ?thesis by (auto simp: RocksDBMessageStore_AddToOffline_def ms_get_by_id split: if_splits)
next
  case (Some d)
  have inv: "mmap_inv J (db_Get R db)" and st: "stored J (db_Get R db) mid = Some d" using assms(1) Some by (simp_all add: message_view)
  have d: "md_msg_id d = mid" "mid \<noteq> []" using ms_message_data [OF assms(1) Some] by (auto simp: message_ok_def)
  have "db_Put R db (KeyOffline uid (md_timestamp d) mid) [] = (ok, db')"
    using assms Some d(2) by (simp add: RocksDBMessageStore_AddToOffline_def ms_get_by_id id_ok_def)
  moreover have "KeyOffline uid (md_timestamp d) mid = K_OFFLINE @ uid @ CHR '':'' # line_key d" by (simp add: KeyOffline_def line_key_def d(1))
  ultimately show ?thesis using put_get [of db "KeyOffline uid (md_timestamp d) mid" "[]" ok db'] mmap_queue [OF inv st assms(3), of "[]"] inv st
    by (simp add: message_view)
qed

lemma ms_clear_offline:
  assumes "message_inv R J db" "RocksDBMessageStore_ClearOffline R J db uid until = (ok, db')" "id_ok uid"
  shows "message_inv R J db' \<and> message_abs R J db' = (if ok then (message_abs R J db)\<lparr>am_queued :=
      {q \<in> am_queued (message_abs R J db). \<not> (fst q = uid \<and> settled_by (message_abs R J db) until (snd q))}\<rparr> else message_abs R J db)"
proof (cases "until \<noteq> [] \<and> am_msg (message_abs R J db) until = None")
  case True
  moreover from this have "{q \<in> am_queued (message_abs R J db). \<not> (fst q = uid \<and> settled_by (message_abs R J db) until (snd q))} = am_queued (message_abs R J db)"
    by (auto simp: settled_by_def)
  ultimately show ?thesis using assms by (auto simp: RocksDBMessageStore_ClearOffline_def ms_get_by_id id_ok_def)
next
  case False
  let ?p = "PrefixOffline uid" and ?st = "message_abs R J db"
  let ?ks = "map fst (if until = [] then scan_prefix R db ?p
      else filter (offline_expired ?p (md_timestamp (the (am_msg ?st until)))) (scan_prefix R db ?p))"
  have inv: "mmap_inv J (db_Get R db)" using assms(1) by (simp add: message_view)
  have "db_Write R db (map BDelete ?ks) = (ok, db')"
    using assms False by (auto simp: RocksDBMessageStore_ClearOffline_def ms_get_by_id id_ok_def Let_def comp_def split: if_splits)
  note w = write_get [OF this]
  have own: "prefix ?p k" if "k \<in> set ?ks" for k using that in_scan_prefix [of k] by (auto split: if_splits)
  have keys: "K_OFFLINE @ uid @ CHR '':'' # line_key e \<in> set ?ks \<longleftrightarrow> settled_by ?st until i"
    if e: "stored J (db_Get R db) i = Some e" "db_Get R db (K_OFFLINE @ uid @ CHR '':'' # line_key e) \<noteq> None" for e i
  proof -
    let ?k = "?p @ line_key e"
    have k: "K_OFFLINE @ uid @ CHR '':'' # line_key e = ?k" by (simp add: PrefixOffline_def)
    have scan: "?k \<in> set (map fst (scan_prefix R db ?p))"
    proof -
      obtain v where "db_Get R db ?k = Some v" using e(2) k by auto
      then have "(?k, v) \<in> set (scan_prefix R db ?p)" by (simp add: in_scan_prefix)
      then show ?thesis by (metis fst_conv image_eqI set_map)
    qed
    have ok: "message_ok e" using ms_message_data [OF assms(1), of i e] e(1) by (simp add: message_abs_def)
    have exp: "offline_expired ?p ts (?k, v) \<longleftrightarrow> md_timestamp e \<le> ts" for ts v
      using ok by (simp add: offline_expired_def message_ok_def stoll_RevTs)
    have exp': "?k \<in> fst ` set (filter (offline_expired ?p ts) (scan_prefix R db ?p)) \<longleftrightarrow> md_timestamp e \<le> ts" for ts
      using scan exp key_in_filter [of ?k "offline_expired ?p ts"] key_in_filter [of ?k "\<lambda>e. True"] by auto
    show ?thesis
    proof (cases "until = []")
      case True
      with scan show ?thesis by (simp add: k settled_by_def)
    next
      case n: False
      then obtain b where "am_msg ?st until = Some b" using False by auto
      moreover have "am_msg ?st i = Some e" using e(1) by (simp add: message_abs_def)
      ultimately show ?thesis using n exp' by (simp add: k settled_by_def)
    qed
  qed
  show ?thesis using mmap_dequeue [OF inv assms(3) keys own] inv by (simp add: message_view w)
qed

end

sublocale store_env \<subseteq> ms: message_store "RocksDBMessageStore R J" "message_inv R J" "message_abs R J"
  by (unfold_locales, simp_all only: RocksDBMessageStore_simps)
    (rule ms_message_data ms_queued_data ms_get_by_id ms_history ms_pull_offline ms_save ms_mark_recalled ms_add_offline
      ms_clear_offline; assumption)+

context store_env
begin

lemma rocksdb_message_store: "message_store (RocksDBMessageStore R J) (message_inv R J) (message_abs R J)"
  by unfold_locales

end

lemma message_inv_empty:
  assumes "\<And>k. db_Get R db k = None"
  shows "message_inv R J db" "message_abs R J db = \<lparr>am_msg = (\<lambda>mid. None), am_queued = {}\<rparr>"
  using assms by (simp_all add: message_view mmap_inv_def msg_table_def line_table_def queue_table_def mmap_abs_def stored_def fun_eq_iff)

interpretation alist_ms: message_store "RocksDBMessageStore alist_db text_json" "message_inv alist_db text_json" "message_abs alist_db text_json"
  by unfold_locales

end
