(* ===== verification/Conversation_Store.thy ===== *)
theory Conversation_Store
  imports Swift_Utils Third_Party_Instances "HOL-Library.Monad_Syntax"
begin

text \<open>
  \<^verbatim>\<open>backend/chatsvr/internal/store/message_store.{h,cpp}\<close>, the per-user conversation list
  (\<open>RocksDBConversationStore\<close>) and the registry of private conversations
  (\<open>RocksDBConversationRegistry\<close>), each in a database of its own.
\<close>

section \<open>Conversation lists\<close>

record ConversationData =
  cd_conversation_id :: string
  cd_chat_type :: int
  cd_peer_id :: string
  cd_last_msg_id :: string
  cd_unread_count :: int
  cd_updated_at :: int
  cd_is_pinned :: bool
  cd_is_muted :: bool

record 's ConversationStore =
  cst_Upsert :: "'s \<Rightarrow> string \<Rightarrow> ConversationData \<Rightarrow> bool \<times> 's"
  cst_GetList :: "'s \<Rightarrow> string \<Rightarrow> ConversationData list"
  cst_Delete :: "'s \<Rightarrow> string \<Rightarrow> string \<Rightarrow> bool \<times> 's"
  cst_UpdateUnread :: "'s \<Rightarrow> string \<Rightarrow> string \<Rightarrow> int \<Rightarrow> bool \<times> 's"
  cst_ClearUnread :: "'s \<Rightarrow> string \<Rightarrow> string \<Rightarrow> bool \<times> 's"

definition conversation_members :: "ConversationData \<Rightarrow> (string \<times> jval) list" where
  "conversation_members c =
     [(''conversation_id'', JStr (cd_conversation_id c)), (''chat_type'', JInt (cd_chat_type c)), (''peer_id'', JStr (cd_peer_id c)),
      (''last_msg_id'', JStr (cd_last_msg_id c)), (''unread_count'', JInt (cd_unread_count c)),
      (''updated_at'', JInt (cd_updated_at c)), (''is_pinned'', JBool (cd_is_pinned c)), (''is_muted'', JBool (cd_is_muted c))]"

definition SerializeConversation :: "'j nlohmann \<Rightarrow> ConversationData \<Rightarrow> string" where
  "SerializeConversation J c = json_dump J (json_object J (conversation_members c))"

definition DeserializeConversation :: "'j nlohmann \<Rightarrow> string \<Rightarrow> ConversationData option" where
  "DeserializeConversation J data = do {
     j \<leftarrow> json_parse J data;
     chat_id \<leftarrow> json_value_string J j ''chat_id'' [];
     conversation_id \<leftarrow> json_value_string J j ''conversation_id'' chat_id;
     chat_type \<leftarrow> json_value_int J j ''chat_type'' 1;
     peer_id \<leftarrow> json_value_string J j ''peer_id'' [];
     last_msg_id \<leftarrow> json_value_string J j ''last_msg_id'' [];
     unread_count \<leftarrow> json_value_int J j ''unread_count'' 0;
     updated_at \<leftarrow> json_value_int64 J j ''updated_at'' 0;
     is_pinned \<leftarrow> json_value_bool J j ''is_pinned'' False;
     is_muted \<leftarrow> json_value_bool J j ''is_muted'' False;
     Some \<lparr>cd_conversation_id = conversation_id, cd_chat_type = chat_type, cd_peer_id = peer_id, cd_last_msg_id = last_msg_id,
           cd_unread_count = unread_count, cd_updated_at = updated_at, cd_is_pinned = is_pinned, cd_is_muted = is_muted\<rparr> }"

definition K_CONV :: string where "K_CONV = ''conv:''"
definition K_CONV_META :: string where "K_CONV_META = ''conv_meta:''"

definition KeyConv :: "string \<Rightarrow> string \<Rightarrow> string" where
  "KeyConv user_id conversation_id = K_CONV @ user_id @ '':'' @ conversation_id"

definition KeyConvMeta :: "string \<Rightarrow> string" where
  "KeyConvMeta conversation_id = K_CONV_META @ conversation_id"

definition PrefixConv :: "string \<Rightarrow> string" where
  "PrefixConv user_id = K_CONV @ user_id @ '':''"

definition RocksDBConversationStore_Upsert ::
  "'db rocksdb \<Rightarrow> 'j nlohmann \<Rightarrow> 'db \<Rightarrow> string \<Rightarrow> ConversationData \<Rightarrow> bool \<times> 'db" where
  "RocksDBConversationStore_Upsert R J db user_id conv =
     (if user_id = [] \<or> cd_conversation_id conv = [] then (False, db)
      else db_Put R db (KeyConv user_id (cd_conversation_id conv)) (SerializeConversation J conv))"

definition RocksDBConversationStore_GetList :: "'db rocksdb \<Rightarrow> 'j nlohmann \<Rightarrow> 'db \<Rightarrow> string \<Rightarrow> ConversationData list" where
  "RocksDBConversationStore_GetList R J db user_id =
     (if user_id = [] then []
      else List.map_filter (\<lambda>e. DeserializeConversation J (snd e)) (scan_prefix R db (PrefixConv user_id)))"

definition RocksDBConversationStore_Delete :: "'db rocksdb \<Rightarrow> 'db \<Rightarrow> string \<Rightarrow> string \<Rightarrow> bool \<times> 'db" where
  "RocksDBConversationStore_Delete R db user_id conversation_id =
     (if user_id = [] \<or> conversation_id = [] then (False, db)
      else db_Delete R db (KeyConv user_id conversation_id))"

definition RocksDBConversationStore_UpdateUnread ::
  "'db rocksdb \<Rightarrow> 'j nlohmann \<Rightarrow> 'db \<Rightarrow> string \<Rightarrow> string \<Rightarrow> int \<Rightarrow> bool \<times> 'db" where
  "RocksDBConversationStore_UpdateUnread R J db user_id conversation_id delta =
     (if user_id = [] \<or> conversation_id = [] then (False, db)
      else
        (case db_Get R db (KeyConv user_id conversation_id) of
           None \<Rightarrow> (False, db)
         | Some val \<Rightarrow>
             (case DeserializeConversation J val of
                None \<Rightarrow> (False, db)
              | Some c \<Rightarrow>
                  db_Put R db (KeyConv user_id conversation_id)
                    (SerializeConversation J (c\<lparr>cd_unread_count := max 0 (wrap32 (cd_unread_count c + delta))\<rparr>)))))"

definition RocksDBConversationStore_ClearUnread ::
  "'db rocksdb \<Rightarrow> 'j nlohmann \<Rightarrow> 'db \<Rightarrow> string \<Rightarrow> string \<Rightarrow> bool \<times> 'db" where
  "RocksDBConversationStore_ClearUnread R J db user_id conversation_id =
     (if user_id = [] \<or> conversation_id = [] then (False, db)
      else
        (case db_Get R db (KeyConv user_id conversation_id) of
           None \<Rightarrow> (False, db)
         | Some val \<Rightarrow>
             (case DeserializeConversation J val of
                None \<Rightarrow> (False, db)
              | Some c \<Rightarrow>
                  db_Put R db (KeyConv user_id conversation_id) (SerializeConversation J (c\<lparr>cd_unread_count := 0\<rparr>)))))"

definition RocksDBConversationStore :: "'db rocksdb \<Rightarrow> 'j nlohmann \<Rightarrow> 'db ConversationStore" where
  "RocksDBConversationStore R J =
     \<lparr>cst_Upsert = RocksDBConversationStore_Upsert R J, cst_GetList = RocksDBConversationStore_GetList R J,
      cst_Delete = RocksDBConversationStore_Delete R, cst_UpdateUnread = RocksDBConversationStore_UpdateUnread R J,
      cst_ClearUnread = RocksDBConversationStore_ClearUnread R J\<rparr>"

lemma RocksDBConversationStore_simps [simp]:
  "cst_Upsert (RocksDBConversationStore R J) = RocksDBConversationStore_Upsert R J"
  "cst_GetList (RocksDBConversationStore R J) = RocksDBConversationStore_GetList R J"
  "cst_Delete (RocksDBConversationStore R J) = RocksDBConversationStore_Delete R"
  "cst_UpdateUnread (RocksDBConversationStore R J) = RocksDBConversationStore_UpdateUnread R J"
  "cst_ClearUnread (RocksDBConversationStore R J) = RocksDBConversationStore_ClearUnread R J"
  by (simp_all add: RocksDBConversationStore_def)

section \<open>Registry of private conversations\<close>

record 's ConversationRegistry =
  reg_GetOrCreatePrivateConversation :: "'s \<Rightarrow> string \<Rightarrow> string \<Rightarrow> string \<times> 's"

definition private_conversation_id :: "string \<Rightarrow> string \<Rightarrow> string" where
  "private_conversation_id user_id_1 user_id_2 =
     (let (a, b) = (if user_id_1 > user_id_2 then (user_id_2, user_id_1) else (user_id_1, user_id_2))
      in ''p_'' @ a @ ''_'' @ b)"

definition RocksDBConversationRegistry_GetOrCreatePrivateConversation ::
  "'db rocksdb \<Rightarrow> 'j nlohmann \<Rightarrow> 'db \<Rightarrow> string \<Rightarrow> string \<Rightarrow> string \<times> 'db" where
  "RocksDBConversationRegistry_GetOrCreatePrivateConversation R J db user_id_1 user_id_2 =
     (if user_id_1 = [] \<or> user_id_2 = [] then ([], db)
      else
        (let conversation_id = private_conversation_id user_id_1 user_id_2;
             key = KeyConvMeta conversation_id
         in (conversation_id,
             if db_Get R db key = None
             then snd (db_Put R db key (json_dump J (json_object J [(''type'', JStr ''private'')])))
             else db)))"

definition RocksDBConversationRegistry :: "'db rocksdb \<Rightarrow> 'j nlohmann \<Rightarrow> 'db ConversationRegistry" where
  "RocksDBConversationRegistry R J =
     \<lparr>reg_GetOrCreatePrivateConversation = RocksDBConversationRegistry_GetOrCreatePrivateConversation R J\<rparr>"

lemma RocksDBConversationRegistry_simps [simp]:
  "reg_GetOrCreatePrivateConversation (RocksDBConversationRegistry R J) =
     RocksDBConversationRegistry_GetOrCreatePrivateConversation R J"
  by (simp add: RocksDBConversationRegistry_def)

end
