(* ===== verification/Conversation_Store_Laws.thy ===== *)
theory Conversation_Store_Laws
  imports Conversation_Store
begin

text \<open>
  What the conversation lists and the registry of private conversations promise.  The
  abstract state of the lists is a map from a user and a conversation to the entry; the locale
  \<open>conversation_store\<close> gives every operation as a function on it, and
  \<open>RocksDBConversationStore\<close> refines it.  The registry promises that the identifier of a private
  conversation depends on the unordered pair of users only.
\<close>

section \<open>The abstract lists\<close>

type_synonym ConvState = "string \<times> string \<Rightarrow> ConversationData option"

definition conversation_ok :: "ConversationData \<Rightarrow> bool" where
  "conversation_ok c \<longleftrightarrow> cd_conversation_id c \<noteq> [] \<and> is_int32 (cd_chat_type c) \<and> is_int32 (cd_unread_count c) \<and> is_int64 (cd_updated_at c)"

definition unread_by :: "int \<Rightarrow> ConversationData \<Rightarrow> ConversationData" where
  "unread_by delta c = c\<lparr>cd_unread_count := max 0 (wrap32 (cd_unread_count c + delta))\<rparr>"

locale conversation_store =
  fixes CS :: "'s ConversationStore" and inv :: "'s \<Rightarrow> bool" and abs :: "'s \<Rightarrow> ConvState"
  assumes conversation_data: "inv s \<Longrightarrow> abs s (uid, cid) = Some c \<Longrightarrow> cd_conversation_id c = cid \<and> conversation_ok c \<and> id_ok uid"
    and get_list: "inv s \<Longrightarrow> id_ok uid \<Longrightarrow>
      sorted_wrt (<) (map cd_conversation_id (cst_GetList CS s uid)) \<and> set (cst_GetList CS s uid) = {c. \<exists>cid. abs s (uid, cid) = Some c}"
    and upsert: "inv s \<Longrightarrow> cst_Upsert CS s uid c = (ok, s') \<Longrightarrow> id_ok uid \<Longrightarrow> conversation_ok c \<Longrightarrow>
      inv s' \<and> abs s' = (if ok then (abs s)((uid, cd_conversation_id c) \<mapsto> c) else abs s)"
    and delete: "inv s \<Longrightarrow> cst_Delete CS s uid cid = (ok, s') \<Longrightarrow> id_ok uid \<Longrightarrow>
      inv s' \<and> abs s' = (if ok then (abs s)((uid, cid) := None) else abs s)"
    and update_unread: "inv s \<Longrightarrow> cst_UpdateUnread CS s uid cid delta = (ok, s') \<Longrightarrow> id_ok uid \<Longrightarrow>
      inv s' \<and> (case abs s (uid, cid) of
          None \<Rightarrow> \<not> ok \<and> abs s' = abs s
        | Some c \<Rightarrow> abs s' = (if ok then (abs s)((uid, cid) \<mapsto> unread_by delta c) else abs s))"
    and clear_unread: "inv s \<Longrightarrow> cst_ClearUnread CS s uid cid = (ok, s') \<Longrightarrow> id_ok uid \<Longrightarrow>
      inv s' \<and> (case abs s (uid, cid) of
          None \<Rightarrow> \<not> ok \<and> abs s' = abs s
        | Some c \<Rightarrow> abs s' = (if ok then (abs s)((uid, cid) \<mapsto> c\<lparr>cd_unread_count := 0\<rparr>) else abs s))"

section \<open>The invariant of the database\<close>

definition cmap_inv :: "'j nlohmann \<Rightarrow> (string \<Rightarrow> string option) \<Rightarrow> bool" where
  "cmap_inv J m \<longleftrightarrow> (\<forall>x v. m (K_CONV @ x) = Some v \<longrightarrow>
     (\<exists>uid c. DeserializeConversation J v = Some c \<and> id_ok uid \<and> x = uid @ CHR '':'' # cd_conversation_id c \<and> conversation_ok c))"

definition cmap_abs :: "'j nlohmann \<Rightarrow> (string \<Rightarrow> string option) \<Rightarrow> ConvState" where
  "cmap_abs J m = (\<lambda>(uid, cid). if id_ok uid then Option.bind (m (KeyConv uid cid)) (DeserializeConversation J) else None)"

definition conversation_inv :: "'db rocksdb \<Rightarrow> 'j nlohmann \<Rightarrow> 'db \<Rightarrow> bool" where
  "conversation_inv R J db \<longleftrightarrow> cmap_inv J (db_Get R db)"

definition conversation_abs :: "'db rocksdb \<Rightarrow> 'j nlohmann \<Rightarrow> 'db \<Rightarrow> ConvState" where
  "conversation_abs R J db = cmap_abs J (db_Get R db)"

lemmas conversation_view = conversation_inv_def conversation_abs_def

lemma cmap_get:
  assumes "cmap_inv J m" "m (KeyConv uid cid) = Some v" "id_ok uid"
  shows "\<exists>c. DeserializeConversation J v = Some c \<and> cd_conversation_id c = cid \<and> conversation_ok c"
proof -
  obtain u c where c: "DeserializeConversation J v = Some c" "id_ok u" "uid @ CHR '':'' # cid = u @ CHR '':'' # cd_conversation_id c" "conversation_ok c"
    using assms(1,2) unfolding cmap_inv_def KeyConv_def by fastforce
  with assms(3) show ?thesis by (auto simp: id_first_eq)
qed

lemma cmap_abs_iff:
  assumes "cmap_inv J m"
  shows "cmap_abs J m (uid, cid) = Some c \<longleftrightarrow> id_ok uid \<and> (\<exists>v. m (KeyConv uid cid) = Some v \<and> DeserializeConversation J v = Some c)"
    and "id_ok uid \<Longrightarrow> cmap_abs J m (uid, cid) = None \<longleftrightarrow> m (KeyConv uid cid) = None"
  using cmap_get [OF assms, of uid cid] by (cases "m (KeyConv uid cid)"; auto simp: cmap_abs_def)+

lemma cmap_abs_write:
  "id_ok uid \<Longrightarrow> cmap_abs J (m(KeyConv uid cid := v)) = (cmap_abs J m)((uid, cid) := Option.bind v (DeserializeConversation J))"
  by (auto simp: cmap_abs_def KeyConv_def fun_eq_iff id_first_eq)

lemma cmap_inv_delete: "cmap_inv J m \<Longrightarrow> cmap_inv J (m(KeyConv uid cid := None))"
  by (simp add: cmap_inv_def)

context json_laws
begin

lemma DeserializeConversation_Serialize: "conversation_ok c \<Longrightarrow> DeserializeConversation J (SerializeConversation J c) = Some c"
  by (simp add: DeserializeConversation_def SerializeConversation_def conversation_members_def json_simps conversation_ok_def is_int64_of_int32)

lemma cmap_put:
  assumes "cmap_inv J m" "id_ok uid" "conversation_ok c"
  shows "cmap_inv J (m(KeyConv uid (cd_conversation_id c) \<mapsto> SerializeConversation J c))"
    and "cmap_abs J (m(KeyConv uid (cd_conversation_id c) \<mapsto> SerializeConversation J c)) = (cmap_abs J m)((uid, cd_conversation_id c) \<mapsto> c)"
proof -
  show "cmap_inv J (m(KeyConv uid (cd_conversation_id c) \<mapsto> SerializeConversation J c))"
    unfolding cmap_inv_def
  proof (intro allI impI)
    fix x v
    assume v: "(m(KeyConv uid (cd_conversation_id c) \<mapsto> SerializeConversation J c)) (K_CONV @ x) = Some v"
    show "\<exists>u d. DeserializeConversation J v = Some d \<and> id_ok u \<and> x = u @ CHR '':'' # cd_conversation_id d \<and> conversation_ok d"
    proof (cases "x = uid @ CHR '':'' # cd_conversation_id c")
      case True
      with v assms show ?thesis by (auto simp: KeyConv_def DeserializeConversation_Serialize)
    next
      case False
      with v have "m (K_CONV @ x) = Some v" by (simp add: KeyConv_def)
      with assms(1) show ?thesis unfolding cmap_inv_def by blast
    qed
  qed
qed (simp add: cmap_abs_write assms DeserializeConversation_Serialize)

end

section \<open>The operations of the implementation\<close>

context store_env
begin

lemma cs_conversation_data:
  "conversation_inv R J db \<Longrightarrow> conversation_abs R J db (uid, cid) = Some c \<Longrightarrow> cd_conversation_id c = cid \<and> conversation_ok c \<and> id_ok uid"
  using cmap_get [of J "db_Get R db" uid cid] by (auto simp: conversation_view cmap_abs_iff(1))

lemma cs_rewrite:
  assumes "conversation_inv R J db" "id_ok uid" "conversation_ok c"
    "db_Put R db (KeyConv uid (cd_conversation_id c)) (SerializeConversation J c) = (ok, db')"
  shows "conversation_inv R J db' \<and>
    conversation_abs R J db' = (if ok then (conversation_abs R J db)((uid, cd_conversation_id c) \<mapsto> c) else conversation_abs R J db)"
  using put_get [OF assms(4)] cmap_put [OF _ assms(2,3), of "db_Get R db"] assms(1) by (simp add: conversation_view)

lemma cs_upsert:
  "conversation_inv R J db \<Longrightarrow> RocksDBConversationStore_Upsert R J db uid c = (ok, db') \<Longrightarrow> id_ok uid \<Longrightarrow> conversation_ok c \<Longrightarrow>
   conversation_inv R J db' \<and>
    conversation_abs R J db' = (if ok then (conversation_abs R J db)((uid, cd_conversation_id c) \<mapsto> c) else conversation_abs R J db)"
  using cs_rewrite [of db uid c ok db'] by (simp add: RocksDBConversationStore_Upsert_def conversation_ok_def id_ok_def)

lemma cs_delete:
  assumes "conversation_inv R J db" "RocksDBConversationStore_Delete R db uid cid = (ok, db')" "id_ok uid"
  shows "conversation_inv R J db' \<and>
    conversation_abs R J db' = (if ok then (conversation_abs R J db)((uid, cid) := None) else conversation_abs R J db)"
proof (cases "cid = []")
  case False
  then have "db_Delete R db (KeyConv uid cid) = (ok, db')" using assms by (simp add: RocksDBConversationStore_Delete_def id_ok_def)
  from delete_get [OF this] assms(1,3) show ?thesis by (simp add: conversation_view cmap_abs_write cmap_inv_delete)
qed (use assms in \<open>simp add: RocksDBConversationStore_Delete_def\<close>)

text \<open>Rewriting an existing entry.\<close>

lemma cs_edit:
  assumes "conversation_inv R J db" "id_ok uid" and f: "\<And>c. conversation_ok c \<Longrightarrow> conversation_ok (f c) \<and> cd_conversation_id (f c) = cd_conversation_id c"
    and op: "(if uid = [] \<or> cid = [] then (False, db)
      else case db_Get R db (KeyConv uid cid) of None \<Rightarrow> (False, db)
        | Some val \<Rightarrow> (case DeserializeConversation J val of None \<Rightarrow> (False, db)
            | Some c \<Rightarrow> db_Put R db (KeyConv uid cid) (SerializeConversation J (f c)))) = (ok, db')"
  shows "conversation_inv R J db' \<and> (case conversation_abs R J db (uid, cid) of
          None \<Rightarrow> \<not> ok \<and> conversation_abs R J db' = conversation_abs R J db
        | Some c \<Rightarrow> conversation_abs R J db' = (if ok then (conversation_abs R J db)((uid, cid) \<mapsto> f c) else conversation_abs R J db))"
proof (cases "conversation_abs R J db (uid, cid)")
  case None
  then have "db_Get R db (KeyConv uid cid) = None" using cmap_abs_iff(2) [of J "db_Get R db" uid cid] assms(1,2) by (simp add: conversation_view)
  with op None assms(1) show ?thesis by (auto split: if_splits)
next
  case (Some c)
  have c: "cd_conversation_id c = cid" "conversation_ok c" using cs_conversation_data [OF assms(1) Some] by simp_all
  obtain v where "db_Get R db (KeyConv uid cid) = Some v" "DeserializeConversation J v = Some c"
    using Some cmap_abs_iff(1) [of J "db_Get R db" uid cid c] assms(1) by (auto simp: conversation_view)
  moreover have "uid \<noteq> []" "cid \<noteq> []" using assms(2) c by (auto simp: id_ok_def conversation_ok_def)
  ultimately have "db_Put R db (KeyConv uid (cd_conversation_id (f c))) (SerializeConversation J (f c)) = (ok, db')"
    using op f [OF c(2)] c(1) by simp
  from cs_rewrite [OF assms(1,2) _ this] f [OF c(2)] c(1) Some show ?thesis by simp
qed

lemma conversation_ok_unread:
  assumes "conversation_ok c"
  shows "conversation_ok (unread_by delta c) \<and> cd_conversation_id (unread_by delta c) = cd_conversation_id c"
    and "conversation_ok (c\<lparr>cd_unread_count := 0\<rparr>) \<and> cd_conversation_id (c\<lparr>cd_unread_count := 0\<rparr>) = cd_conversation_id c"
proof -
  have "is_int32 (max 0 (wrap32 x))" for x using is_int32_wrap32 [of x] by (auto simp: is_int32_def)
  with assms show "conversation_ok (unread_by delta c) \<and> cd_conversation_id (unread_by delta c) = cd_conversation_id c"
    by (simp add: conversation_ok_def unread_by_def)
  show "conversation_ok (c\<lparr>cd_unread_count := 0\<rparr>) \<and> cd_conversation_id (c\<lparr>cd_unread_count := 0\<rparr>) = cd_conversation_id c"
    using assms by (simp add: conversation_ok_def is_int32_def [of 0])
qed

lemma cs_update_unread:
  assumes "conversation_inv R J db" "RocksDBConversationStore_UpdateUnread R J db uid cid delta = (ok, db')" "id_ok uid"
  shows "conversation_inv R J db' \<and> (case conversation_abs R J db (uid, cid) of
          None \<Rightarrow> \<not> ok \<and> conversation_abs R J db' = conversation_abs R J db
        | Some c \<Rightarrow> conversation_abs R J db' = (if ok then (conversation_abs R J db)((uid, cid) \<mapsto> unread_by delta c) else conversation_abs R J db))"
  by (rule cs_edit [OF assms(1,3) conversation_ok_unread(1)])
    (use assms(2) in \<open>simp_all add: RocksDBConversationStore_UpdateUnread_def unread_by_def cong: if_cong option.case_cong\<close>)

lemma cs_clear_unread:
  assumes "conversation_inv R J db" "RocksDBConversationStore_ClearUnread R J db uid cid = (ok, db')" "id_ok uid"
  shows "conversation_inv R J db' \<and> (case conversation_abs R J db (uid, cid) of
          None \<Rightarrow> \<not> ok \<and> conversation_abs R J db' = conversation_abs R J db
        | Some c \<Rightarrow> conversation_abs R J db' = (if ok then (conversation_abs R J db)((uid, cid) \<mapsto> c\<lparr>cd_unread_count := 0\<rparr>) else conversation_abs R J db))"
  by (rule cs_edit [OF assms(1,3) conversation_ok_unread(2)])
    (use assms(2) in \<open>simp_all add: RocksDBConversationStore_ClearUnread_def cong: if_cong option.case_cong\<close>)

lemma cs_get_list:
  assumes "conversation_inv R J db" "id_ok uid"
  shows "sorted_wrt (<) (map cd_conversation_id (RocksDBConversationStore_GetList R J db uid)) \<and>
    set (RocksDBConversationStore_GetList R J db uid) = {c. \<exists>cid. conversation_abs R J db (uid, cid) = Some c}"
proof -
  have inv: "cmap_inv J (db_Get R db)" using assms(1) by (simp add: conversation_view)
  let ?es = "scan_prefix R db (PrefixConv uid)"
  let ?cs = "List.map_filter (\<lambda>e. DeserializeConversation J (snd e)) ?es"
  have scan: "PrefixConv uid @ x = KeyConv uid x" for x by (simp add: PrefixConv_def KeyConv_def)
  have "map (\<lambda>c. PrefixConv uid @ cd_conversation_id c) ?cs = map fst ?es"
  proof -
    have "\<exists>c. DeserializeConversation J (snd e) = Some c \<and> PrefixConv uid @ cd_conversation_id c = fst e" if "e \<in> set ?es" for e
    proof -
      obtain k v where e: "e = (k, v)" by (cases e)
      with that obtain x where x: "k = PrefixConv uid @ x" "db_Get R db (KeyConv uid x) = Some v"
        by (auto simp: in_scan_prefix prefix_def scan)
      from cmap_get [OF inv x(2) assms(2)] x(1) e show ?thesis by auto
    qed
    then show ?thesis by (intro map_filter_total) blast
  qed
  then have "sorted_wrt (<) (map (\<lambda>c. PrefixConv uid @ cd_conversation_id c) ?cs)" by (simp add: sorted_scan_prefix)
  then have "sorted_wrt (<) (map cd_conversation_id ?cs)" by (simp add: sorted_wrt_map append_less_iff)
  moreover have "set ?cs = {c. \<exists>cid. conversation_abs R J db (uid, cid) = Some c}"
    using assms(2) by (auto simp: set_scan_prefix scan conversation_abs_def cmap_abs_iff(1) [OF inv])
  moreover have "uid \<noteq> []" using assms(2) by (simp add: id_ok_def)
  ultimately show ?thesis by (simp add: RocksDBConversationStore_GetList_def)
qed

end

sublocale store_env \<subseteq> cs: conversation_store "RocksDBConversationStore R J" "conversation_inv R J" "conversation_abs R J"
  by (unfold_locales, simp_all only: RocksDBConversationStore_simps)
    (rule cs_conversation_data cs_get_list cs_upsert cs_delete cs_update_unread cs_clear_unread; assumption)+

context store_env
begin

lemma rocksdb_conversation_store: "conversation_store (RocksDBConversationStore R J) (conversation_inv R J) (conversation_abs R J)"
  by unfold_locales

end

lemma conversation_inv_empty:
  assumes "\<And>k. db_Get R db k = None"
  shows "conversation_inv R J db" "conversation_abs R J db = (\<lambda>k. None)"
  using assms by (simp_all add: conversation_view cmap_inv_def cmap_abs_def fun_eq_iff)

interpretation alist_cs: conversation_store "RocksDBConversationStore alist_db text_json" "conversation_inv alist_db text_json"
    "conversation_abs alist_db text_json"
  by unfold_locales

section \<open>The registry\<close>

locale conversation_registry =
  fixes REG :: "'s ConversationRegistry"
  assumes registered: "u \<noteq> [] \<Longrightarrow> v \<noteq> [] \<Longrightarrow> fst (reg_GetOrCreatePrivateConversation REG s u v) = private_conversation_id u v"
    and unregistered: "u = [] \<or> v = [] \<Longrightarrow> reg_GetOrCreatePrivateConversation REG s u v = ([], s)"

lemma rocksdb_conversation_registry: "conversation_registry (RocksDBConversationRegistry R J)"
  by unfold_locales (auto simp: RocksDBConversationRegistry_GetOrCreatePrivateConversation_def Let_def)

interpretation rocksdb_registry: conversation_registry "RocksDBConversationRegistry R J"
  by (rule rocksdb_conversation_registry)

lemma private_conversation_id_commute: "private_conversation_id u v = private_conversation_id v u"
  by (auto simp: private_conversation_id_def)

lemma private_conversation_id_not_Nil [simp]: "private_conversation_id u v \<noteq> []"
  by (simp add: private_conversation_id_def split: prod.splits)

lemma id_ok_private_conversation_id: "clean u \<Longrightarrow> clean v \<Longrightarrow> id_ok (private_conversation_id u v)"
  by (auto simp: private_conversation_id_def id_ok_def)

text \<open>
  The sender of a message is an authenticated account, whose id has a fixed length; the
  other end is whatever the request says.  The identifier of a conversation of two
  accounts is then never that of another pair.
\<close>

lemma private_conversation_id_pair:
  assumes "length u = n" "length a = n" "length b = n" "private_conversation_id u v = private_conversation_id a b"
  shows "u = a \<and> v = b \<or> u = b \<and> v = a"
proof -
  obtain x y where ab: "private_conversation_id a b = ''p_'' @ x @ ''_'' @ y" "length x = n" "length y = n" "x = a \<and> y = b \<or> x = b \<and> y = a"
    using assms(2,3) by (cases "b < a") (auto simp: private_conversation_id_def)
  show ?thesis
  proof (cases "v < u")
    case True
    then have "(v @ ''_'') @ u = (x @ ''_'') @ y" using assms(4) ab(1) by (simp add: private_conversation_id_def)
    then have "u = y \<and> v = x" using assms(1) ab(3) by (simp add: append_eq_append_conv)
    with ab(4) show ?thesis by auto
  next
    case False
    then have "u @ ''_'' @ v = x @ ''_'' @ y" using assms(4) ab(1) by (simp add: private_conversation_id_def)
    then have "u = x \<and> v = y" using assms(1) ab(2) by (simp add: append_eq_append_conv)
    with ab(4) show ?thesis by auto
  qed
qed

end
