(* ===== verification/Chat_Service.thy ===== *)
theory Chat_Service
  imports Message_Store_Laws Conversation_Store_Laws Group_Service
begin

text \<open>
  \<^verbatim>\<open>backend/chatsvr/internal/service/chat_service.{h,cpp}\<close> and \<^verbatim>\<open>common/include/swift/chat_type.h\<close>:
  sending, recalling and reading messages, the offline queue and the conversation lists.  The
  service works on four stores; the registry of conversations and the group store are pointers that
  may be null.  \<open>draws\<close> are the random values and \<open>now\<close> the clock reading of one call.
\<close>

section \<open>Configuration and state\<close>

datatype ChatType = PRIVATE | GROUP

definition ChatType_int :: "ChatType \<Rightarrow> int" where
  "ChatType_int t = (case t of PRIVATE \<Rightarrow> 1 | GROUP \<Rightarrow> 2)"

record ('m, 'c, 'r, 'g) ChatServiceCore =
  csc_msg_store :: "'m MessageStore"
  csc_conv_store :: "'c ConversationStore"
  csc_conv_registry :: "'r ConversationRegistry option"
  csc_group_store :: "'g GroupStore option"

record ('m, 'c, 'r, 'g) ChatState =
  cs_msg :: 'm
  cs_conv :: 'c
  cs_reg :: 'r
  cs_grp :: 'g

record SendResult =
  sr_success :: bool
  sr_msg_id :: string
  sr_conversation_id :: string
  sr_timestamp :: int
  sr_error :: string

record RecallResult =
  rcr_success :: bool
  rcr_error :: string

record OfflineResult =
  or_messages :: "MessageData list"
  or_next_cursor :: string
  or_has_more :: bool

record DeleteConversationResult =
  dcr_success :: bool
  dcr_error :: ErrorCode

definition RECALL_TIMEOUT_SECONDS :: int where
  "RECALL_TIMEOUT_SECONDS = 120"

definition GenerateMsgId :: "nat list \<Rightarrow> string" where
  "GenerateMsgId draws = GenerateShortId draws ''m_'' 16"

section \<open>Sending\<close>

definition ResolveConversationId ::
  "('m, 'c, 'r, 'g) ChatServiceCore \<Rightarrow> ('m, 'c, 'r, 'g) ChatState \<Rightarrow> string \<Rightarrow> string \<Rightarrow> ChatType \<Rightarrow> string \<times> ('m, 'c, 'r, 'g) ChatState" where
  "ResolveConversationId C s user_id chat_id chat_type =
     (if chat_id = [] then ([], s)
      else if chat_type = PRIVATE
        then (case csc_conv_registry C of
                None \<Rightarrow> ([], s)
              | Some REG \<Rightarrow>
                  (let (cid, r) = reg_GetOrCreatePrivateConversation REG (cs_reg s) user_id chat_id in (cid, s\<lparr>cs_reg := r\<rparr>)))
      else (chat_id, s))"

definition send_failed :: "string \<Rightarrow> SendResult" where
  "send_failed e = \<lparr>sr_success = False, sr_msg_id = [], sr_conversation_id = [], sr_timestamp = 0, sr_error = e\<rparr>"

text \<open>The checks before a message is made: an error, or the conversation and the state after the registry call.\<close>

definition send_conversation ::
  "('m, 'c, 'r, 'g) ChatServiceCore \<Rightarrow> ('m, 'c, 'r, 'g) ChatState \<Rightarrow> string \<Rightarrow> string \<Rightarrow> ChatType \<Rightarrow>
     string + string \<times> ('m, 'c, 'r, 'g) ChatState" where
  "send_conversation C s from_user_id to_id chat_type =
     (if chat_type = PRIVATE
      then (case csc_conv_registry C of
              None \<Rightarrow> Inl ''conv_registry not set''
            | Some REG \<Rightarrow>
                (let (cid, r) = reg_GetOrCreatePrivateConversation REG (cs_reg s) from_user_id to_id in Inr (cid, s\<lparr>cs_reg := r\<rparr>)))
      else
        (case csc_group_store C of
           None \<Rightarrow> Inr (to_id, s)
         | Some GS \<Rightarrow> if \<not> gs_IsMember GS (cs_grp s) to_id from_user_id then Inl ''not a group member'' else Inr (to_id, s)))"

text \<open>
  The members that receive a group message: the first page of \<open>n\<close>.  The page arithmetic does
  not overflow at page 0 and the sizes the service uses.  \<^verbatim>\<open>SendMessage\<close> reads the page twice, for the
  conversation lists and for the offline queues, with no change of the groups in between.
\<close>

definition first_members :: "'g GroupStore \<Rightarrow> 'g \<Rightarrow> string \<Rightarrow> int \<Rightarrow> string list" where
  "first_members GS g group_id n = (case gs_GetMembers GS g group_id 0 n of None \<Rightarrow> [] | Some (ms, _) \<Rightarrow> map gm_user_id ms)"

definition conv_entry :: "string \<Rightarrow> ChatType \<Rightarrow> string \<Rightarrow> string \<Rightarrow> int \<Rightarrow> ConversationData" where
  "conv_entry conversation_id chat_type peer_id msg_id now =
     \<lparr>cd_conversation_id = conversation_id, cd_chat_type = ChatType_int chat_type, cd_peer_id = peer_id, cd_last_msg_id = msg_id,
      cd_unread_count = 0, cd_updated_at = now, cd_is_pinned = False, cd_is_muted = False\<rparr>"

text \<open>The entry of a receiver: written, then its unread count raised by one.\<close>

definition deliver :: "'c ConversationStore \<Rightarrow> string \<Rightarrow> ConversationData \<Rightarrow> 'c \<Rightarrow> 'c" where
  "deliver CS user_id conv c =
     snd (cst_UpdateUnread CS (snd (cst_Upsert CS c user_id conv)) user_id (cd_conversation_id conv) 1)"

definition new_message ::
  "nat list \<Rightarrow> int \<Rightarrow> string \<Rightarrow> string \<Rightarrow> string \<Rightarrow> ChatType \<Rightarrow> string \<Rightarrow> string \<Rightarrow> string \<Rightarrow> string list \<Rightarrow> string \<Rightarrow> MessageData" where
  "new_message draws now from_user_id to_id conversation_id chat_type content media_url media_type mentions reply_to_msg_id =
     \<lparr>md_msg_id = GenerateMsgId draws, md_from_user_id = from_user_id, md_to_id = to_id, md_conversation_id = conversation_id,
      md_chat_type = ChatType_int chat_type, md_content = content, md_media_url = media_url,
      md_media_type = (if media_type = [] then ''text'' else media_type), md_mentions = mentions,
      md_reply_to_msg_id = reply_to_msg_id, md_timestamp = now, md_status = 0, md_recall_at = 0\<rparr>"

definition ChatServiceCore_SendMessage ::
  "('m, 'c, 'r, 'g) ChatServiceCore \<Rightarrow> nat list \<Rightarrow> int \<Rightarrow> ('m, 'c, 'r, 'g) ChatState \<Rightarrow> string \<Rightarrow> string \<Rightarrow> ChatType \<Rightarrow> string \<Rightarrow> string
     \<Rightarrow> string \<Rightarrow> string list \<Rightarrow> string \<Rightarrow> SendResult \<times> ('m, 'c, 'r, 'g) ChatState" where
  "ChatServiceCore_SendMessage C draws now s from_user_id to_id chat_type content media_url media_type mentions reply_to_msg_id =
     (if from_user_id = [] \<or> to_id = [] then (send_failed ''invalid params'', s)
      else
        (case send_conversation C s from_user_id to_id chat_type of
           Inl e \<Rightarrow> (send_failed e, s)
         | Inr (conversation_id, s1) \<Rightarrow>
             (let msg = new_message draws now from_user_id to_id conversation_id chat_type content media_url media_type mentions reply_to_msg_id;
                  (saved, m1) = ms_Save (csc_msg_store C) (cs_msg s1) msg
              in if \<not> saved then (send_failed ''save failed'', s1\<lparr>cs_msg := m1\<rparr>)
                 else
                   (let entry = (\<lambda>peer. conv_entry conversation_id chat_type peer (md_msg_id msg) now);
                        c1 = snd (cst_Upsert (csc_conv_store C) (cs_conv s1) from_user_id (entry to_id));
                        receivers =
                          (if chat_type = PRIVATE then [to_id]
                           else (case csc_group_store C of
                                   None \<Rightarrow> []
                                 | Some GS \<Rightarrow> filter (\<lambda>u. u \<noteq> from_user_id) (first_members GS (cs_grp s1) to_id 1000)));
                        peer = (if chat_type = PRIVATE then from_user_id else to_id);
                        c2 = fold (\<lambda>u. deliver (csc_conv_store C) u (entry peer)) receivers c1;
                        m2 = fold (\<lambda>u m. snd (ms_AddToOffline (csc_msg_store C) m u (md_msg_id msg))) receivers m1
                    in (\<lparr>sr_success = True, sr_msg_id = md_msg_id msg, sr_conversation_id = conversation_id, sr_timestamp = now, sr_error = []\<rparr>,
                        s1\<lparr>cs_msg := m2, cs_conv := c2\<rparr>)))))"

section \<open>Recall, offline queue, history\<close>

definition recall_failed :: "string \<Rightarrow> RecallResult" where
  "recall_failed e = \<lparr>rcr_success = False, rcr_error = e\<rparr>"

definition ChatServiceCore_RecallMessage ::
  "('m, 'c, 'r, 'g) ChatServiceCore \<Rightarrow> int \<Rightarrow> ('m, 'c, 'r, 'g) ChatState \<Rightarrow> string \<Rightarrow> string \<Rightarrow> RecallResult \<times> ('m, 'c, 'r, 'g) ChatState" where
  "ChatServiceCore_RecallMessage C now s msg_id user_id =
     (if msg_id = [] \<or> user_id = [] then (recall_failed ''invalid params'', s)
      else
        (case ms_GetById (csc_msg_store C) (cs_msg s) msg_id of
           None \<Rightarrow> (recall_failed ''message not found'', s)
         | Some msg \<Rightarrow>
             if md_from_user_id msg \<noteq> user_id then (recall_failed ''not allowed to recall'', s)
             else if now - md_timestamp msg > RECALL_TIMEOUT_SECONDS * 1000 then (recall_failed ''recall timeout'', s)
             else
               (case ms_MarkRecalled (csc_msg_store C) (cs_msg s) msg_id now of
                  (False, m) \<Rightarrow> (recall_failed ''mark recalled failed'', s\<lparr>cs_msg := m\<rparr>)
                | (True, m) \<Rightarrow> (\<lparr>rcr_success = True, rcr_error = []\<rparr>, s\<lparr>cs_msg := m\<rparr>))))"

definition ChatServiceCore_PullOffline ::
  "('m, 'c, 'r, 'g) ChatServiceCore \<Rightarrow> ('m, 'c, 'r, 'g) ChatState \<Rightarrow> string \<Rightarrow> string \<Rightarrow> int \<Rightarrow> OfflineResult" where
  "ChatServiceCore_PullOffline C s user_id cursor limit =
     (let (ms, next_cursor, has_more) = ms_PullOffline (csc_msg_store C) (cs_msg s) user_id cursor (if limit \<le> 0 then 100 else limit)
      in \<lparr>or_messages = ms, or_next_cursor = next_cursor, or_has_more = has_more\<rparr>)"

text \<open>Whether the group store has the group as dissolved.\<close>

definition dissolved :: "('m, 'c, 'r, 'g) ChatServiceCore \<Rightarrow> ('m, 'c, 'r, 'g) ChatState \<Rightarrow> string \<Rightarrow> bool" where
  "dissolved C s group_id =
     (case csc_group_store C of
        None \<Rightarrow> False
      | Some GS \<Rightarrow> (case gs_GetGroup GS (cs_grp s) group_id of None \<Rightarrow> False | Some g \<Rightarrow> gd_status g = 1))"

definition ChatServiceCore_GetHistory ::
  "('m, 'c, 'r, 'g) ChatServiceCore \<Rightarrow> ('m, 'c, 'r, 'g) ChatState \<Rightarrow> string \<Rightarrow> string \<Rightarrow> ChatType \<Rightarrow> string \<Rightarrow> int
     \<Rightarrow> MessageData list \<times> ('m, 'c, 'r, 'g) ChatState" where
  "ChatServiceCore_GetHistory C s user_id chat_id chat_type before_msg_id limit =
     (if chat_id = [] \<or> limit \<le> 0 then ([], s)
      else
        (let (conversation_id, s1) = ResolveConversationId C s user_id chat_id chat_type
         in if conversation_id = [] then ([], s1)
            else if chat_type = GROUP \<and> dissolved C s1 conversation_id then ([], s1)
            else (ms_GetHistory (csc_msg_store C) (cs_msg s1) conversation_id (ChatType_int chat_type) before_msg_id limit, s1)))"

definition ChatServiceCore_MarkRead ::
  "('m, 'c, 'r, 'g) ChatServiceCore \<Rightarrow> ('m, 'c, 'r, 'g) ChatState \<Rightarrow> string \<Rightarrow> string \<Rightarrow> ChatType \<Rightarrow> string
     \<Rightarrow> bool \<times> ('m, 'c, 'r, 'g) ChatState" where
  "ChatServiceCore_MarkRead C s user_id chat_id chat_type last_msg_id =
     (if user_id = [] \<or> chat_id = [] then (False, s)
      else
        (let (conversation_id, s1) = ResolveConversationId C s user_id chat_id chat_type
         in if conversation_id = [] then (False, s1)
            else
              (let (ok, c) = cst_ClearUnread (csc_conv_store C) (cs_conv s1) user_id conversation_id;
                   m = (if last_msg_id = [] then cs_msg s1 else snd (ms_ClearOffline (csc_msg_store C) (cs_msg s1) user_id last_msg_id))
               in (ok, s1\<lparr>cs_conv := c, cs_msg := m\<rparr>))))"

section \<open>Conversations\<close>

definition ChatServiceCore_SyncConversations ::
  "('m, 'c, 'r, 'g) ChatServiceCore \<Rightarrow> ('m, 'c, 'r, 'g) ChatState \<Rightarrow> string \<Rightarrow> ConversationData list" where
  "ChatServiceCore_SyncConversations C s user_id =
     (if user_id = [] then []
      else
        filter (\<lambda>c. \<not> (cd_chat_type c = ChatType_int GROUP \<and> dissolved C s (cd_conversation_id c)))
          (cst_GetList (csc_conv_store C) (cs_conv s) user_id))"

definition ChatServiceCore_GetMessageById ::
  "('m, 'c, 'r, 'g) ChatServiceCore \<Rightarrow> ('m, 'c, 'r, 'g) ChatState \<Rightarrow> string \<Rightarrow> MessageData option" where
  "ChatServiceCore_GetMessageById C s msg_id = (if msg_id = [] then None else ms_GetById (csc_msg_store C) (cs_msg s) msg_id)"

definition delete_failed :: "ErrorCode \<Rightarrow> DeleteConversationResult" where
  "delete_failed ec = \<lparr>dcr_success = False, dcr_error = ec\<rparr>"

definition ChatServiceCore_DeleteConversation ::
  "('m, 'c, 'r, 'g) ChatServiceCore \<Rightarrow> ('m, 'c, 'r, 'g) ChatState \<Rightarrow> string \<Rightarrow> string \<Rightarrow> ChatType
     \<Rightarrow> DeleteConversationResult \<times> ('m, 'c, 'r, 'g) ChatState" where
  "ChatServiceCore_DeleteConversation C s user_id chat_id chat_type =
     (if user_id = [] \<or> chat_id = [] then (delete_failed EC_INVALID_PARAM, s)
      else if chat_type = PRIVATE then (delete_failed EC_CONVERSATION_PRIVATE_CANNOT_DELETE, s)
      else
        (case csc_group_store C of
           None \<Rightarrow> (delete_failed EC_INVALID_PARAM, s)
         | Some GS \<Rightarrow>
             (case gs_GetGroup GS (cs_grp s) chat_id of
                None \<Rightarrow> (delete_failed EC_GROUP_NOT_FOUND, s)
              | Some g \<Rightarrow>
                  if gd_owner_id g \<noteq> user_id then (delete_failed EC_NOT_GROUP_OWNER, s)
                  else if gd_status g = 1 then (\<lparr>dcr_success = True, dcr_error = EC_OK\<rparr>, s)
                  else
                    (let members = first_members GS (cs_grp s) chat_id 10000
                     in case gs_DissolveGroup GS (cs_grp s) chat_id of
                          (False, g') \<Rightarrow> (delete_failed EC_INTERNAL_ERROR, s\<lparr>cs_grp := g'\<rparr>)
                        | (True, g') \<Rightarrow>
                            (\<lparr>dcr_success = True, dcr_error = EC_OK\<rparr>,
                             s\<lparr>cs_grp := g', cs_conv := fold (\<lambda>u c. snd (cst_Delete (csc_conv_store C) c u chat_id)) members (cs_conv s)\<rparr>)))))"

end
