(* ===== verification/Chat_Service_Laws.thy ===== *)
theory Chat_Service_Laws
  imports Chat_Service Auth_Service
begin

text \<open>
  The chat service over stores that keep their promises.  The locale \<open>chat_stores\<close> puts the four
  contracts together; inside it, the effect of every operation on the abstract states of the stores, and
  what all histories of chat and group calls preserve: the stores' invariants, that a message once stored
  changes in its recall marks only, and that the conversation of a message is the one of its two
  ends or of its group.
\<close>

section \<open>The service and its calls\<close>

definition chat_core ::
  "'m MessageStore \<Rightarrow> 'c ConversationStore \<Rightarrow> 'r ConversationRegistry \<Rightarrow> 'g GroupStore \<Rightarrow> ('m, 'c, 'r, 'g) ChatServiceCore" where
  "chat_core MS CS REG GS =
     \<lparr>csc_msg_store = MS, csc_conv_store = CS, csc_conv_registry = Some REG, csc_group_store = Some GS\<rparr>"

lemma chat_core_simps [simp]:
  "csc_msg_store (chat_core MS CS REG GS) = MS" "csc_conv_store (chat_core MS CS REG GS) = CS"
  "csc_conv_registry (chat_core MS CS REG GS) = Some REG" "csc_group_store (chat_core MS CS REG GS) = Some GS"
  by (simp_all add: chat_core_def)

text \<open>Ids of accounts, as the registration generates them.\<close>

definition account_id :: "string \<Rightarrow> bool" where
  "account_id u \<longleftrightarrow> clean u \<and> length u = 14"

lemma account_id_GenerateUserId: "draws_ok 12 draws \<Longrightarrow> account_id (GenerateUserId draws)"
  by (simp add: account_id_def GenerateUserId_def clean_GenerateShortId length_GenerateShortId)

lemma account_id_ok: "account_id u \<Longrightarrow> id_ok u"
  by (auto simp: account_id_def id_ok_def)

definition clock_ok :: "int \<Rightarrow> bool" where
  "clock_ok now \<longleftrightarrow> 0 < now \<and> now \<le> MAX_TS"

lemma clock_ok_int64: "clock_ok now \<Longrightarrow> is_int64 now"
  by (simp add: clock_ok_def MAX_TS_def is_int64_def)

text \<open>
  One call of the chat service.  The sender and the reader are accounts, because a handler takes them from a token.  \<open>ok\<close> says which
  receivers and which members of groups the calls name: the code takes any, which is \<open>chat_step (\<lambda>_. True)\<close>; the theorems speak
  of \<open>chat_step clean\<close>, runs in which these ids have no colon, since the keys of time lines and offline queues join
  their parts by colons.
\<close>

inductive chat_step ::
  "(string \<Rightarrow> bool) \<Rightarrow> ('m, 'c, 'r, 'g) ChatServiceCore \<Rightarrow> 'g GroupStore \<Rightarrow> ('m, 'c, 'r, 'g) ChatState \<Rightarrow> ('m, 'c, 'r, 'g) ChatState \<Rightarrow> bool" for ok C GS s where
  send: "account_id u \<Longrightarrow> ok to_id \<Longrightarrow> draws_ok 16 draws \<Longrightarrow> clock_ok now \<Longrightarrow>
    ChatServiceCore_SendMessage C draws now s u to_id ct content media_url media_type mentions reply = (r, s') \<Longrightarrow> chat_step ok C GS s s'"
| recall: "clock_ok now \<Longrightarrow> ChatServiceCore_RecallMessage C now s mid u = (r, s') \<Longrightarrow> chat_step ok C GS s s'"
| history: "ChatServiceCore_GetHistory C s u chat_id ct before limit = (ms, s') \<Longrightarrow> chat_step ok C GS s s'"
| read: "account_id u \<Longrightarrow> ChatServiceCore_MarkRead C s u chat_id ct mid = (b, s') \<Longrightarrow> chat_step ok C GS s s'"
| delete: "ChatServiceCore_DeleteConversation C s u chat_id ct = (d, s') \<Longrightarrow> chat_step ok C GS s s'"
| groups: "group_step ok GS (cs_grp s) ec g \<Longrightarrow> chat_step ok C GS s (s\<lparr>cs_grp := g\<rparr>)"

inductive chat_reach ::
  "(string \<Rightarrow> bool) \<Rightarrow> ('m, 'c, 'r, 'g) ChatServiceCore \<Rightarrow> 'g GroupStore \<Rightarrow> ('m, 'c, 'r, 'g) ChatState \<Rightarrow> ('m, 'c, 'r, 'g) ChatState \<Rightarrow> bool" for ok C GS s0 where
  start: "chat_reach ok C GS s0 s0"
| step: "chat_reach ok C GS s0 s \<Longrightarrow> chat_step ok C GS s s' \<Longrightarrow> chat_reach ok C GS s0 s'"

section \<open>What calls preserve\<close>

definition same_message :: "MessageData \<Rightarrow> MessageData \<Rightarrow> bool" where
  "same_message d e \<longleftrightarrow> e = d \<or> (\<exists>at. e = d\<lparr>md_status := 1, md_recall_at := at\<rparr>)"

lemma same_message_refl [simp]: "same_message d d"
  by (simp add: same_message_def)

lemma same_message_trans: "same_message d e \<Longrightarrow> same_message e f \<Longrightarrow> same_message d f"
  by (auto simp: same_message_def)

definition addressed :: "MessageData \<Rightarrow> bool" where
  "addressed d \<longleftrightarrow> account_id (md_from_user_id d) \<and>
     (md_chat_type d = ChatType_int PRIVATE \<and> md_conversation_id d = private_conversation_id (md_from_user_id d) (md_to_id d) \<or>
      md_chat_type d = ChatType_int GROUP \<and> md_conversation_id d = md_to_id d \<and> prefix ''g_'' (md_to_id d))"

lemma addressed_same: "same_message d e \<Longrightarrow> addressed d \<Longrightarrow> addressed e"
  by (auto simp: same_message_def addressed_def)

definition messages_kept :: "MessageState \<Rightarrow> MessageState \<Rightarrow> bool" where
  "messages_kept a b \<longleftrightarrow>
     (\<forall>mid d. am_msg a mid = Some d \<longrightarrow> (\<exists>e. am_msg b mid = Some e \<and> same_message d e)) \<and>
     (\<forall>mid e. am_msg a mid = None \<longrightarrow> am_msg b mid = Some e \<longrightarrow> addressed e)"

lemma messages_kept_same: "am_msg b = am_msg a \<Longrightarrow> messages_kept a b"
  by (auto simp: messages_kept_def)

lemma messages_kept_update:
  "am_msg a mid = Some d \<Longrightarrow> same_message d e \<Longrightarrow> messages_kept a (a\<lparr>am_msg := (am_msg a)(mid \<mapsto> e)\<rparr>)"
  by (simp add: messages_kept_def)

lemma messages_kept_addressed:
  assumes "messages_kept a b" "\<forall>mid d. am_msg a mid = Some d \<longrightarrow> addressed d"
  shows "\<forall>mid d. am_msg b mid = Some d \<longrightarrow> addressed d"
proof (intro allI impI)
  fix mid d
  assume d: "am_msg b mid = Some d"
  show "addressed d"
  proof (cases "am_msg a mid")
    case None
    with assms(1) d show ?thesis unfolding messages_kept_def by blast
  next
    case (Some c)
    with assms(1) d have "same_message c d" unfolding messages_kept_def by fastforce
    with Some assms(2) show ?thesis using addressed_same by blast
  qed
qed

locale chat_stores =
  ms: message_store MS minv mabs + cs: conversation_store CS cinv cabs + rg: conversation_registry REG + gs: group_store GS ginv gabs
  for MS :: "'m MessageStore" and minv :: "'m \<Rightarrow> bool" and mabs :: "'m \<Rightarrow> MessageState"
    and CS :: "'c ConversationStore" and cinv :: "'c \<Rightarrow> bool" and cabs :: "'c \<Rightarrow> ConvState"
    and REG :: "'r ConversationRegistry"
    and GS :: "'g GroupStore" and ginv :: "'g \<Rightarrow> bool" and gabs :: "'g \<Rightarrow> GroupState"
begin

definition chat_inv :: "('m, 'c, 'r, 'g) ChatState \<Rightarrow> bool" where
  "chat_inv s \<longleftrightarrow> minv (cs_msg s) \<and> cinv (cs_conv s) \<and> ginv (cs_grp s) \<and>
     (\<forall>gid. ag_group (gabs (cs_grp s)) gid \<noteq> None \<longrightarrow> prefix ''g_'' gid)"

definition chat_effect :: "('m, 'c, 'r, 'g) ChatState \<Rightarrow> ('m, 'c, 'r, 'g) ChatState \<Rightarrow> bool" where
  "chat_effect s s' \<longleftrightarrow> chat_inv s' \<and> messages_kept (mabs (cs_msg s)) (mabs (cs_msg s'))"

lemma chat_effect_refl: "chat_inv s \<Longrightarrow> chat_effect s s"
  by (simp add: chat_effect_def messages_kept_same)

lemma chat_effect_frame:
  "chat_inv s \<Longrightarrow> minv m \<Longrightarrow> messages_kept (mabs (cs_msg s)) (mabs m) \<Longrightarrow> cinv c \<Longrightarrow> chat_effect s (s\<lparr>cs_msg := m, cs_conv := c, cs_reg := r\<rparr>)"
  by (simp add: chat_effect_def chat_inv_def)

text \<open>The members a page of the group store lists.\<close>

lemma first_members_sub:
  assumes "ginv g" "id_ok gid" "u \<in> set (first_members GS g gid n)"
  shows "ag_member (gabs g) (gid, u) \<noteq> None"
proof -
  obtain ms where ms: "set ms = {m. \<exists>uid. ag_member (gabs g) (gid, uid) = Some m}"
    "\<And>page size. gs_GetMembers GS g gid page size = map_option (\<lambda>l. (l, Some (wrap32 (int (length ms))))) (page_of ms page size)"
    using gs.get_members [OF assms(1,2)] by blast
  have "set l \<subseteq> set ms" if "page_of ms 0 n = Some l" for l
    using that by (auto simp: page_of_def Let_def split: if_splits dest: in_set_takeD in_set_dropD)
  then obtain m where "m \<in> set ms" "gm_user_id m = u"
    using assms(3) ms(2) by (cases "page_of ms 0 n") (auto simp: first_members_def)
  with ms(1) gs.member_data [OF assms(1)] show ?thesis by blast
qed

lemma first_members_all:
  assumes "ginv g" "id_ok gid" "card {u. ag_member (gabs g) (gid, u) \<noteq> None} \<le> nat n" "0 < n" "is_int32 n"
  shows "set (first_members GS g gid n) = {u. ag_member (gabs g) (gid, u) \<noteq> None}" "distinct (first_members GS g gid n)"
proof -
  obtain ms where ms: "sorted_wrt (<) (map gm_user_id ms)" "set ms = {m. \<exists>uid. ag_member (gabs g) (gid, uid) = Some m}"
    "\<And>page size. gs_GetMembers GS g gid page size = map_option (\<lambda>l. (l, Some (wrap32 (int (length ms))))) (page_of ms page size)"
    using gs.get_members [OF assms(1,2)] by blast
  have set: "set (map gm_user_id ms) = {u. ag_member (gabs g) (gid, u) \<noteq> None}"
    using ms(2) gs.member_data [OF assms(1), of gid] by (force simp: image_iff)
  have dist: "distinct (map gm_user_id ms)" using distinct_if_sorted_less [OF ms(1)] .
  then have "length ms = card {u. ag_member (gabs g) (gid, u) \<noteq> None}" using distinct_card [OF dist] set by simp
  with assms(3) have len: "int (length ms) \<le> n" using assms(4) by linarith
  then have w: "wrap32 (int (length ms)) = int (length ms)" using assms(5) by (intro wrap32_id) (simp add: is_int32_def)
  have "page_of ms 0 n = Some ms"
    using len assms(4,5) by (cases ms) (simp_all add: page_of_def Let_def w is_int32_def)
  then have "first_members GS g gid n = map gm_user_id ms" by (simp add: first_members_def ms(3))
  with set dist show "set (first_members GS g gid n) = {u. ag_member (gabs g) (gid, u) \<noteq> None}" "distinct (first_members GS g gid n)" by simp_all
qed

text \<open>The loops over receivers and members.\<close>

lemma queue_loop:
  assumes "minv m" "\<forall>u \<in> set us. id_ok u"
  shows "minv (fold (\<lambda>u m. snd (ms_AddToOffline MS m u mid)) us m) \<and>
    am_msg (mabs (fold (\<lambda>u m. snd (ms_AddToOffline MS m u mid)) us m)) = am_msg (mabs m)"
  using assms
proof (induction us arbitrary: m)
  case (Cons u us)
  obtain ok m' where a: "ms_AddToOffline MS m u mid = (ok, m')" by fastforce
  have "minv m' \<and> am_msg (mabs m') = am_msg (mabs m)" using ms.add_offline [OF Cons.prems(1) a] Cons.prems(2) by (cases ok) auto
  with Cons.IH [of m'] Cons.prems(2) a show ?case by simp
qed simp

lemma deliver_inv: "cinv c \<Longrightarrow> id_ok u \<Longrightarrow> conversation_ok conv \<Longrightarrow> cinv (deliver CS u conv c)"
  unfolding deliver_def by (metis cs.upsert cs.update_unread prod.collapse)

lemma deliver_loop_inv:
  "cinv c \<Longrightarrow> \<forall>u \<in> set us. id_ok u \<Longrightarrow> conversation_ok conv \<Longrightarrow> cinv (fold (\<lambda>u. deliver CS u conv) us c)"
  by (induction us arbitrary: c) (auto simp: deliver_inv)

lemma delete_loop_inv:
  "cinv c \<Longrightarrow> \<forall>u \<in> set us. id_ok u \<Longrightarrow> cinv (fold (\<lambda>u c. snd (cst_Delete CS c u cid)) us c)"
proof (induction us arbitrary: c)
  case (Cons u us)
  then have "cinv (snd (cst_Delete CS c u cid))" using cs.delete [of c u cid] by (metis list.set_intros(1) prod.collapse)
  with Cons show ?case by simp
qed simp

end

section \<open>The effect of the calls\<close>

text \<open>The conversation of a message, and that it belongs to its ends.\<close>

definition conversation_for :: "string \<Rightarrow> string \<Rightarrow> ChatType \<Rightarrow> string" where
  "conversation_for u to_id ct = (if ct = PRIVATE then private_conversation_id u to_id else to_id)"

lemma new_message_ok:
  assumes "account_id u" "clean to_id" "to_id \<noteq> []" "clock_ok now"
  shows "message_ok (new_message draws now u to_id (conversation_for u to_id ct) ct content media_url media_type mentions reply)"
  using assms account_id_ok [OF assms(1)] id_ok_private_conversation_id [of u to_id]
  by (cases ct) (auto simp: message_ok_def new_message_def conversation_for_def GenerateMsgId_def GenerateShortId_def account_id_def
      clock_ok_def id_ok_def ChatType_int_def is_int32_def is_int64_def)

lemma new_message_addressed:
  assumes "account_id u" "ct = GROUP \<Longrightarrow> prefix ''g_'' to_id"
  shows "addressed (new_message draws now u to_id (conversation_for u to_id ct) ct content media_url media_type mentions reply)"
  using assms by (cases ct) (simp_all add: addressed_def new_message_def conversation_for_def)

lemma conv_entry_ok: "cid \<noteq> [] \<Longrightarrow> clock_ok now \<Longrightarrow> conversation_ok (conv_entry cid ct peer mid now)"
  using clock_ok_int64 [of now] by (cases ct) (auto simp: conversation_ok_def conv_entry_def ChatType_int_def is_int32_def)

lemma conv_entry_id [simp]: "cd_conversation_id (conv_entry cid ct peer mid now) = cid"
  by (simp add: conv_entry_def)

context chat_stores
begin

abbreviation "C \<equiv> chat_core MS CS REG GS"

lemma send_conversation_eq:
  assumes "u \<noteq> []" "to_id \<noteq> []" "ct = GROUP \<longrightarrow> gs_IsMember GS (cs_grp s) to_id u"
  obtains r where "send_conversation C s u to_id ct = Inr (conversation_for u to_id ct, s\<lparr>cs_reg := r\<rparr>)"
proof (cases ct)
  case PRIVATE
  obtain c r where cr: "reg_GetOrCreatePrivateConversation REG (cs_reg s) u to_id = (c, r)" by fastforce
  then have "c = private_conversation_id u to_id" using rg.registered [OF assms(1,2), of "cs_reg s"] by simp
  with PRIVATE cr show thesis using that [of r] by (simp add: send_conversation_def conversation_for_def)
next
  case GROUP
  then show thesis using that [of "cs_reg s"] assms(3) by (simp add: send_conversation_def conversation_for_def)
qed

definition receivers_of :: "'g \<Rightarrow> string \<Rightarrow> string \<Rightarrow> ChatType \<Rightarrow> string list" where
  "receivers_of g u to_id ct = (if ct = PRIVATE then [to_id] else filter (\<lambda>v. v \<noteq> u) (first_members GS g to_id 1000))"

lemma SendMessage_cases:
  assumes "u \<noteq> []" "to_id \<noteq> []"
    "ChatServiceCore_SendMessage C draws now s u to_id ct content media_url media_type mentions reply = (r, s')"
  defines "cid \<equiv> conversation_for u to_id ct" and "us \<equiv> receivers_of (cs_grp s) u to_id ct" and "mid \<equiv> GenerateMsgId draws"
  defines "msg \<equiv> new_message draws now u to_id cid ct content media_url media_type mentions reply"
  obtains (outsider) "ct = GROUP" "\<not> gs_IsMember GS (cs_grp s) to_id u" "r = send_failed ''not a group member''" "s' = s"
  | (unsaved) reg m1 where "ct = GROUP \<longrightarrow> gs_IsMember GS (cs_grp s) to_id u" "ms_Save MS (cs_msg s) msg = (False, m1)"
      "r = send_failed ''save failed''" "s' = s\<lparr>cs_reg := reg, cs_msg := m1\<rparr>"
  | (sent) reg m1 where "ct = GROUP \<longrightarrow> gs_IsMember GS (cs_grp s) to_id u" "ms_Save MS (cs_msg s) msg = (True, m1)"
      "r = \<lparr>sr_success = True, sr_msg_id = mid, sr_conversation_id = cid, sr_timestamp = now, sr_error = []\<rparr>"
      "s' = s\<lparr>cs_reg := reg, cs_msg := fold (\<lambda>u m. snd (ms_AddToOffline MS m u mid)) us m1,
        cs_conv := fold (\<lambda>v. deliver CS v (conv_entry cid ct (if ct = PRIVATE then u else to_id) mid now)) us
          (snd (cst_Upsert CS (cs_conv s) u (conv_entry cid ct to_id mid now)))\<rparr>"
proof (cases "ct = GROUP \<longrightarrow> gs_IsMember GS (cs_grp s) to_id u")
  case False
  then have g: "ct = GROUP" "\<not> gs_IsMember GS (cs_grp s) to_id u" by blast+
  with assms(1-3) have "r = send_failed ''not a group member'' \<and> s' = s"
    by (simp add: ChatServiceCore_SendMessage_def send_conversation_def)
  with g show thesis using outsider by blast
next
  case True
  obtain reg where reg: "send_conversation C s u to_id ct = Inr (cid, s\<lparr>cs_reg := reg\<rparr>)"
    using send_conversation_eq [OF assms(1,2) True] unfolding cid_def .
  obtain saved m1 where sv: "ms_Save MS (cs_msg s) msg = (saved, m1)" by fastforce
  have mid: "md_msg_id (new_message draws now u to_id c t content media_url media_type mentions reply) = mid" for c t
    by (simp add: mid_def new_message_def)
  show thesis
  proof (cases saved)
    case False
    with assms(1-3) reg sv have "r = send_failed ''save failed'' \<and> s' = s\<lparr>cs_reg := reg, cs_msg := m1\<rparr>"
      by (simp add: ChatServiceCore_SendMessage_def msg_def)
    then show thesis using unsaved [OF True, of m1 reg] sv False by simp
  next
    case saved: True
    have "ChatServiceCore_SendMessage C draws now s u to_id ct content media_url media_type mentions reply =
      (\<lparr>sr_success = True, sr_msg_id = mid, sr_conversation_id = cid, sr_timestamp = now, sr_error = []\<rparr>,
       s\<lparr>cs_reg := reg, cs_msg := fold (\<lambda>u m. snd (ms_AddToOffline MS m u mid)) us m1,
        cs_conv := fold (\<lambda>v. deliver CS v (conv_entry cid ct (if ct = PRIVATE then u else to_id) mid now)) us
          (snd (cst_Upsert CS (cs_conv s) u (conv_entry cid ct to_id mid now)))\<rparr>)"
      using assms(1,2) reg sv [unfolded msg_def] saved
      by (cases ct) (simp_all add: ChatServiceCore_SendMessage_def Let_def mid us_def receivers_of_def)
    then show thesis using sent [OF True, of m1 reg] sv saved assms(3) by simp
  qed
qed

lemma receivers_ok:
  assumes "ginv g" "id_ok to_id" "v \<in> set (receivers_of g u to_id ct)"
  shows "id_ok v"
  using assms first_members_sub [OF assms(1,2), of v 1000] gs.member_data [OF assms(1), of to_id v]
  by (cases ct) (auto simp: receivers_of_def member_ok_def)

lemma SendMessage_effect:
  assumes "chat_inv s" "account_id u" "clean to_id" "draws_ok 16 draws" "clock_ok now"
    and "ChatServiceCore_SendMessage C draws now s u to_id ct content media_url media_type mentions reply = (r, s')"
  shows "chat_effect s s'"
proof (cases "to_id = [] \<or> ct = GROUP \<and> \<not> gs_IsMember GS (cs_grp s) to_id u")
  case True
  then have "s' = s"
    using assms(6) by (auto simp: ChatServiceCore_SendMessage_def send_conversation_def split: if_splits)
  then show ?thesis using chat_effect_refl [OF assms(1)] by simp
next
  case False
  let ?cid = "conversation_for u to_id ct"
  let ?msg = "new_message draws now u to_id ?cid ct content media_url media_type mentions reply" and ?mid = "GenerateMsgId draws"
  let ?us = "receivers_of (cs_grp s) u to_id ct" and ?peer = "if ct = PRIVATE then u else to_id"
  have ids: "u \<noteq> []" "id_ok u" "id_ok to_id" "to_id \<noteq> []" using account_id_ok [OF assms(2)] assms(3) False by (auto simp: id_ok_def)
  have inv: "minv (cs_msg s)" "cinv (cs_conv s)" "ginv (cs_grp s)" using assms(1) by (simp_all add: chat_inv_def)
  have mem: "prefix ''g_'' to_id" if "ct = GROUP"
  proof -
    have "ag_member (gabs (cs_grp s)) (to_id, u) \<noteq> None" using False that gs.is_member [OF inv(3) ids(3)] by blast
    then show ?thesis using gs.member_data [OF inv(3)] assms(1) unfolding chat_inv_def by blast
  qed
  obtain saved m1 where sv: "ms_Save MS (cs_msg s) ?msg = (saved, m1)" by fastforce
  have ok: "message_ok ?msg" using new_message_ok assms(2,3,5) ids(4) by blast
  note e1 = ms.save [OF inv(1) sv ok]
  have kept: "messages_kept (mabs (cs_msg s)) (mabs m1)"
    using e1 new_message_addressed [OF assms(2) mem] by (cases saved) (auto simp: messages_kept_def)
  have us: "\<forall>v \<in> set ?us. id_ok v" using receivers_ok [OF inv(3) ids(3)] by blast
  let ?m = "fold (\<lambda>u m. snd (ms_AddToOffline MS m u ?mid)) ?us m1"
  have m: "minv ?m" "messages_kept (mabs (cs_msg s)) (mabs ?m)"
    using queue_loop [OF _ us, of m1 ?mid] e1 kept by (simp_all add: messages_kept_def)
  have "?cid \<noteq> []" using ids(4) by (simp add: conversation_for_def)
  then have entry: "conversation_ok (conv_entry ?cid ct p ?mid now)" for p using conv_entry_ok assms(5) by blast
  let ?c1 = "snd (cst_Upsert CS (cs_conv s) u (conv_entry ?cid ct to_id ?mid now))"
  have "cinv ?c1" using cs.upsert [OF inv(2) _ ids(2) entry] by (metis prod.collapse)
  then have c: "cinv (fold (\<lambda>v. deliver CS v (conv_entry ?cid ct ?peer ?mid now)) ?us ?c1)" by (rule deliver_loop_inv [OF _ us entry])
  show ?thesis
    by (rule SendMessage_cases [OF ids(1,4) assms(6)])
      (use False sv assms(1) e1 kept m c in \<open>auto simp: chat_effect_def chat_inv_def\<close>)
qed

lemma RecallMessage_effect:
  assumes "chat_inv s" "clock_ok now" "ChatServiceCore_RecallMessage C now s mid u = (r, s')"
  shows "chat_effect s s'"
proof -
  have inv: "minv (cs_msg s)" using assms(1) by (simp add: chat_inv_def)
  obtain ok m where r: "ms_MarkRecalled MS (cs_msg s) mid now = (ok, m)" by fastforce
  note e = ms.mark_recalled [OF inv r clock_ok_int64 [OF assms(2)]]
  have "messages_kept (mabs (cs_msg s)) (mabs m)"
  proof (cases "am_msg (mabs (cs_msg s)) mid")
    case None
    with e show ?thesis by (simp add: messages_kept_same)
  next
    case (Some d)
    have "same_message d (d\<lparr>md_status := 1, md_recall_at := now\<rparr>)" by (auto simp: same_message_def)
    from messages_kept_update [OF Some this] e Some show ?thesis by (cases ok) (simp_all add: messages_kept_same)
  qed
  moreover have "s' = s \<or> s' = s\<lparr>cs_msg := m\<rparr>"
    using assms(3) r by (auto simp: ChatServiceCore_RecallMessage_def split: if_splits option.splits bool.splits)
  ultimately show ?thesis using chat_effect_refl [OF assms(1)] assms(1) e by (auto simp: chat_effect_def chat_inv_def)
qed

lemma ResolveConversationId_state: "\<exists>r. snd (ResolveConversationId C s u chat_id ct) = s\<lparr>cs_reg := r\<rparr>"
  by (auto simp: ResolveConversationId_def split: prod.splits intro: exI [of _ "cs_reg s"])

lemma GetHistory_effect:
  assumes "chat_inv s" "ChatServiceCore_GetHistory C s u chat_id ct before limit = (ms, s')"
  shows "chat_effect s s'"
proof -
  obtain r where "snd (ResolveConversationId C s u chat_id ct) = s\<lparr>cs_reg := r\<rparr>" using ResolveConversationId_state by blast
  then have "s' = s \<or> s' = s\<lparr>cs_reg := r\<rparr>"
    using assms(2) by (auto simp: ChatServiceCore_GetHistory_def Let_def split: if_splits prod.splits)
  then show ?thesis using assms(1) by (auto simp: chat_effect_def chat_inv_def messages_kept_same)
qed

lemma MarkRead_effect:
  assumes "chat_inv s" "account_id u" "ChatServiceCore_MarkRead C s u chat_id ct mid = (ok, s')"
  shows "chat_effect s s'"
proof -
  have inv: "minv (cs_msg s)" "cinv (cs_conv s)" using assms(1) by (simp_all add: chat_inv_def)
  obtain cid s1 where r: "ResolveConversationId C s u chat_id ct = (cid, s1)" by fastforce
  then obtain reg where s1: "s1 = s\<lparr>cs_reg := reg\<rparr>" using ResolveConversationId_state by (metis snd_conv)
  obtain b c where c: "cst_ClearUnread CS (cs_conv s) u cid = (b, c)" by fastforce
  obtain k m where m: "ms_ClearOffline MS (cs_msg s) u mid = (k, m)" by fastforce
  have "cinv c" using cs.clear_unread [OF inv(2) c account_id_ok [OF assms(2)]] by blast
  moreover have "minv m \<and> am_msg (mabs m) = am_msg (mabs (cs_msg s))"
    using ms.clear_offline [OF inv(1) m account_id_ok [OF assms(2)]] by (cases k) auto
  moreover have "s' = s \<or> s' = s1 \<or> s' = s1\<lparr>cs_conv := c, cs_msg := cs_msg s\<rparr> \<or> s' = s1\<lparr>cs_conv := c, cs_msg := m\<rparr>"
    using assms(3) r c m by (auto simp: ChatServiceCore_MarkRead_def Let_def s1 split: if_splits)
  ultimately show ?thesis using assms(1) s1 by (auto simp: chat_effect_def chat_inv_def messages_kept_same)
qed

lemma dissolve_effect:
  assumes "ginv g" "gs_DissolveGroup GS g gid = (ok, g')"
  shows "ginv g' \<and> (ag_group (gabs g') x \<noteq> None \<longrightarrow> ag_group (gabs g) x \<noteq> None)"
  using gs.dissolve_group [OF assms] by (auto split: option.splits if_splits)

lemma DeleteConversation_effect:
  assumes "chat_inv s" "ChatServiceCore_DeleteConversation C s u chat_id ct = (d, s')"
  shows "chat_effect s s'"
proof (cases "s' = s")
  case False
  have inv: "cinv (cs_conv s)" "ginv (cs_grp s)" using assms(1) by (simp_all add: chat_inv_def)
  obtain ok g' where g': "gs_DissolveGroup GS (cs_grp s) chat_id = (ok, g')" by fastforce
  let ?us = "first_members GS (cs_grp s) chat_id 10000"
  have s': "s' = s\<lparr>cs_grp := g'\<rparr> \<or> s' = s\<lparr>cs_grp := g', cs_conv := fold (\<lambda>u c. snd (cst_Delete CS c u chat_id)) ?us (cs_conv s)\<rparr>"
    and ex: "gs_GetGroup GS (cs_grp s) chat_id \<noteq> None"
    using assms(2) False g' by (auto simp: ChatServiceCore_DeleteConversation_def Let_def split: if_splits option.splits bool.splits)
  obtain g where "ag_group (gabs (cs_grp s)) chat_id = Some g" using ex gs.get_group [OF inv(2)] by auto
  then have "id_ok chat_id" using gs.group_data [OF inv(2)] by (auto simp: group_ok_def)
  then have "\<forall>u \<in> set ?us. id_ok u"
    using first_members_sub [OF inv(2)] gs.member_data [OF inv(2), of chat_id] by (fastforce simp: member_ok_def)
  from delete_loop_inv [OF inv(1) this] s' assms(1) dissolve_effect [OF inv(2) g'] show ?thesis
    by (auto simp: chat_effect_def chat_inv_def messages_kept_same)
qed (use chat_effect_refl [OF assms(1)] in simp)

lemma chat_step_effect:
  assumes "chat_step clean C GS s s'" "chat_inv s"
  shows "chat_effect s s'"
  using assms
proof (induction rule: chat_step.induct)
  case (groups ec g)
  then have "ginv g" "\<forall>x. ag_group (gabs g) x \<noteq> None \<longrightarrow> ag_group (gabs (cs_grp s)) x \<noteq> None \<or> prefix ''g_'' x"
    using gs.group_step_effect [OF groups(1)] by (auto simp: chat_inv_def)
  with groups(2) show ?case unfolding chat_effect_def chat_inv_def by (auto simp: messages_kept_same)
next
  case (send u to_id draws now ct content media_url media_type mentions reply r s')
  then show ?case using SendMessage_effect by blast
next
  case (recall now mid u r s')
  then show ?case using RecallMessage_effect by blast
next
  case (history u chat_id ct before limit ms s')
  then show ?case using GetHistory_effect by blast
next
  case (read u chat_id ct mid ok s')
  then show ?case using MarkRead_effect by blast
next
  case (delete u chat_id ct d s')
  then show ?case using DeleteConversation_effect by blast
qed

lemma chat_reach_effect:
  assumes "chat_reach clean C GS s0 s" "chat_inv s0" "\<forall>mid d. am_msg (mabs (cs_msg s0)) mid = Some d \<longrightarrow> addressed d"
  shows "chat_inv s \<and> (\<forall>mid d. am_msg (mabs (cs_msg s)) mid = Some d \<longrightarrow> addressed d) \<and>
    (\<forall>mid d. am_msg (mabs (cs_msg s0)) mid = Some d \<longrightarrow> (\<exists>e. am_msg (mabs (cs_msg s)) mid = Some e \<and> same_message d e))"
  using assms(1)
proof (induction rule: chat_reach.induct)
  case (step s s')
  then have e: "chat_inv s'" "messages_kept (mabs (cs_msg s)) (mabs (cs_msg s'))"
    using chat_step_effect [OF step(2)] by (simp_all add: chat_effect_def)
  have "\<exists>e. am_msg (mabs (cs_msg s')) mid = Some e \<and> same_message d e" if d: "am_msg (mabs (cs_msg s0)) mid = Some d" for mid d
  proof -
    obtain e where "am_msg (mabs (cs_msg s)) mid = Some e" "same_message d e" using step.IH d by blast
    then show ?thesis using e(2) same_message_trans unfolding messages_kept_def by blast
  qed
  moreover have "\<forall>mid d. am_msg (mabs (cs_msg s')) mid = Some d \<longrightarrow> addressed d"
    using messages_kept_addressed [OF e(2)] step.IH by blast
  ultimately show ?case using e(1) by blast
qed (use assms(2,3) in auto)

end

section \<open>The service on RocksDB\<close>

definition rocksdb_chat :: "'db rocksdb \<Rightarrow> 'j nlohmann \<Rightarrow> ('db, 'db, 'db, 'db) ChatServiceCore" where
  "rocksdb_chat R J =
     chat_core (RocksDBMessageStore R J) (RocksDBConversationStore R J) (RocksDBConversationRegistry R J) (RocksDBGroupStore R J)"

context store_env
begin

lemma rocksdb_chat_stores:
  "chat_stores (RocksDBMessageStore R J) (message_inv R J) (message_abs R J) (RocksDBConversationStore R J) (conversation_inv R J)
     (conversation_abs R J) (RocksDBConversationRegistry R J) (RocksDBGroupStore R J) (group_inv R J) (group_abs R J)"
  by (intro chat_stores.intro rocksdb_message_store rocksdb_conversation_store rocksdb_conversation_registry rocksdb_group_store)

end

interpretation alist_chat: chat_stores "RocksDBMessageStore alist_db text_json" "message_inv alist_db text_json" "message_abs alist_db text_json"
    "RocksDBConversationStore alist_db text_json" "conversation_inv alist_db text_json" "conversation_abs alist_db text_json"
    "RocksDBConversationRegistry alist_db text_json" "RocksDBGroupStore alist_db text_json" "group_inv alist_db text_json" "group_abs alist_db text_json"
  by (rule alist_env.rocksdb_chat_stores)

end
