(* ===== verification/Chat_Properties.thy ===== *)
theory Chat_Properties
  imports Chat_Service_Laws Group_Properties
begin

text \<open>
  What the chat service guarantees on the RocksDB stores, in the terms of its own operations: what
  sending does, who may recall, that stored messages stay, who sees a private conversation, and
  that paging through a history or an offline queue gives all of it.  The outcome of sending supposes that
  writes to the databases do not fail (\<open>reliable_env\<close>).
\<close>

section \<open>Stores whose writes succeed\<close>

locale reliable_chat_stores = chat_stores +
  assumes save_ok: "minv m \<Longrightarrow> message_ok d \<Longrightarrow> am_msg (mabs m) (md_msg_id d) = None \<Longrightarrow> fst (ms_Save MS m d)"
    and queue_ok: "minv m \<Longrightarrow> id_ok u \<Longrightarrow> am_msg (mabs m) mid \<noteq> None \<Longrightarrow> fst (ms_AddToOffline MS m u mid)"
    and upsert_ok: "cinv c \<Longrightarrow> id_ok u \<Longrightarrow> conversation_ok e \<Longrightarrow> fst (cst_Upsert CS c u e)"
    and unread_ok: "cinv c \<Longrightarrow> id_ok u \<Longrightarrow> cabs c (u, cid) \<noteq> None \<Longrightarrow> fst (cst_UpdateUnread CS c u cid delta)"
    and remove_ok: "cinv c \<Longrightarrow> id_ok u \<Longrightarrow> cid \<noteq> [] \<Longrightarrow> fst (cst_Delete CS c u cid)"
begin

lemma queue_loop_exact:
  assumes "minv m" "\<forall>u \<in> set us. id_ok u" "am_msg (mabs m) mid \<noteq> None"
  shows "minv (fold (\<lambda>u m. snd (ms_AddToOffline MS m u mid)) us m) \<and>
    mabs (fold (\<lambda>u m. snd (ms_AddToOffline MS m u mid)) us m) = (mabs m)\<lparr>am_queued := am_queued (mabs m) \<union> set us \<times> {mid}\<rparr>"
  using assms
proof (induction us arbitrary: m)
  case (Cons u us)
  obtain ok m' where a: "ms_AddToOffline MS m u mid = (ok, m')" by fastforce
  have ok using queue_ok [of m u mid] Cons.prems a by simp
  then have e: "minv m'" "mabs m' = (mabs m)\<lparr>am_queued := insert (u, mid) (am_queued (mabs m))\<rparr>"
    using ms.add_offline [OF Cons.prems(1) a] Cons.prems(2) by simp_all
  from Cons.IH [OF e(1)] Cons.prems(2,3) e(2) a show ?case by (auto simp: Un_insert_right)
qed simp

lemma deliver_exact:
  assumes "cinv c" "id_ok u" "conversation_ok conv"
  shows "cinv (deliver CS u conv c) \<and> cabs (deliver CS u conv c) = (cabs c)((u, cd_conversation_id conv) \<mapsto> unread_by 1 conv)"
proof -
  obtain b1 c1 where a1: "cst_Upsert CS c u conv = (b1, c1)" by fastforce
  have b1 using upsert_ok [OF assms] a1 by simp
  then have e1: "cinv c1" "cabs c1 = (cabs c)((u, cd_conversation_id conv) \<mapsto> conv)" using cs.upsert [OF assms(1) a1 assms(2,3)] by simp_all
  obtain b2 c2 where a2: "cst_UpdateUnread CS c1 u (cd_conversation_id conv) 1 = (b2, c2)" by fastforce
  have b2 using unread_ok [OF e1(1) assms(2), of "cd_conversation_id conv" 1] a2 e1(2) by simp
  then have "cinv c2" "cabs c2 = (cabs c1)((u, cd_conversation_id conv) \<mapsto> unread_by 1 conv)"
    using cs.update_unread [OF e1(1) a2 assms(2)] e1(2) by simp_all
  with e1(2) show ?thesis by (simp add: deliver_def a1 a2)
qed

lemma deliver_loop_exact:
  assumes "cinv c" "\<forall>u \<in> set us. id_ok u" "conversation_ok conv"
  shows "cinv (fold (\<lambda>u. deliver CS u conv) us c) \<and>
    (\<forall>u k. cabs (fold (\<lambda>u. deliver CS u conv) us c) (u, k) =
      (if u \<in> set us \<and> k = cd_conversation_id conv then Some (unread_by 1 conv) else cabs c (u, k)))"
  using assms(1,2)
proof (induction us arbitrary: c)
  case (Cons u us)
  have e: "cinv (deliver CS u conv c)" "cabs (deliver CS u conv c) = (cabs c)((u, cd_conversation_id conv) \<mapsto> unread_by 1 conv)"
    using deliver_exact [OF Cons.prems(1) _ assms(3)] Cons.prems(2) by simp_all
  from Cons.IH [OF e(1)] Cons.prems(2) e(2) show ?case by auto
qed simp

lemma delete_loop_exact:
  assumes "cinv c" "\<forall>u \<in> set us. id_ok u" "cid \<noteq> []"
  shows "cinv (fold (\<lambda>u c. snd (cst_Delete CS c u cid)) us c) \<and>
    (\<forall>u k. cabs (fold (\<lambda>u c. snd (cst_Delete CS c u cid)) us c) (u, k) = (if u \<in> set us \<and> k = cid then None else cabs c (u, k)))"
  using assms(1,2)
proof (induction us arbitrary: c)
  case (Cons u us)
  obtain ok c' where a: "cst_Delete CS c u cid = (ok, c')" by fastforce
  have ok using remove_ok [OF Cons.prems(1) _ assms(3), of u] Cons.prems(2) a by simp
  then have e: "cinv c'" "cabs c' = (cabs c)((u, cid) := None)" using cs.delete [OF Cons.prems(1) a] Cons.prems(2) by simp_all
  from Cons.IH [OF e(1)] Cons.prems(2) e(2) a show ?case by auto
qed simp

text \<open>What sending writes.\<close>

lemma SendMessage_exact:
  assumes inv: "minv (cs_msg s)" "cinv (cs_conv s)" "ginv (cs_grp s)"
    and ids: "account_id u" "id_ok to_id" and now: "clock_ok now"
    and fresh: "am_msg (mabs (cs_msg s)) (GenerateMsgId draws) = None"
    and member: "ct = GROUP \<Longrightarrow> ag_member (gabs (cs_grp s)) (to_id, u) \<noteq> None"
    and send: "ChatServiceCore_SendMessage C draws now s u to_id ct content media_url media_type mentions reply = (r, s')"
  defines "cid \<equiv> conversation_for u to_id ct" and "us \<equiv> receivers_of (cs_grp s) u to_id ct" and "mid \<equiv> GenerateMsgId draws"
  shows "r = \<lparr>sr_success = True, sr_msg_id = mid, sr_conversation_id = cid, sr_timestamp = now, sr_error = []\<rparr>"
    and "minv (cs_msg s')" "cinv (cs_conv s')" "cs_grp s' = cs_grp s"
    and "mabs (cs_msg s') = (mabs (cs_msg s))\<lparr>
      am_msg := (am_msg (mabs (cs_msg s)))(mid \<mapsto> new_message draws now u to_id cid ct content media_url media_type mentions reply),
      am_queued := am_queued (mabs (cs_msg s)) \<union> set us \<times> {mid}\<rparr>"
    and "\<And>v k. cabs (cs_conv s') (v, k) =
      (if v \<in> set us \<and> k = cid then Some ((conv_entry cid ct (if ct = PRIVATE then u else to_id) mid now)\<lparr>cd_unread_count := 1\<rparr>)
       else if v = u \<and> k = cid then Some (conv_entry cid ct to_id mid now) else cabs (cs_conv s) (v, k))"
proof -
  let ?msg = "new_message draws now u to_id cid ct content media_url media_type mentions reply"
  let ?entry = "\<lambda>p. conv_entry cid ct p mid now" and ?peer = "if ct = PRIVATE then u else to_id"
  have u: "u \<noteq> []" "id_ok u" "to_id \<noteq> []" "clean to_id" using account_id_ok [OF ids(1)] ids(2) by (simp_all add: id_ok_def)
  have ok: "message_ok ?msg" unfolding cid_def using new_message_ok [OF ids(1) u(4,3) now] by blast
  have mid: "md_msg_id ?msg = mid" by (simp add: mid_def new_message_def)
  obtain saved m1 where sv: "ms_Save MS (cs_msg s) ?msg = (saved, m1)" by fastforce
  have saved using save_ok [OF inv(1) ok] fresh sv mid by (simp add: mid_def)
  then have e1: "minv m1" "mabs m1 = (mabs (cs_msg s))\<lparr>am_msg := (am_msg (mabs (cs_msg s)))(mid \<mapsto> ?msg)\<rparr>"
    using ms.save [OF inv(1) sv ok] mid by simp_all
  have us: "\<forall>v \<in> set us. id_ok v" unfolding us_def using receivers_ok [OF inv(3) ids(2)] by blast
  have "am_msg (mabs m1) mid \<noteq> None" using e1(2) by simp
  note e2 = queue_loop_exact [OF e1(1) us this]
  have "cid \<noteq> []" using u(3) by (simp add: cid_def conversation_for_def)
  then have entry: "conversation_ok (?entry p)" for p using conv_entry_ok now by blast
  obtain b c1 where c1: "cst_Upsert CS (cs_conv s) u (?entry to_id) = (b, c1)" by fastforce
  have b using upsert_ok [OF inv(2) u(2) entry] c1 by (metis fst_conv)
  then have e3: "cinv c1" "cabs c1 = (cabs (cs_conv s))((u, cid) \<mapsto> ?entry to_id)" using cs.upsert [OF inv(2) c1 u(2) entry] by simp_all
  note e4 = deliver_loop_exact [OF e3(1) us entry, of ?peer]
  have unread: "unread_by 1 (?entry p) = (?entry p)\<lparr>cd_unread_count := 1\<rparr>" for p
    by (simp add: unread_by_def conv_entry_def wrap32_def)
  have mem: "ct = GROUP \<longrightarrow> gs_IsMember GS (cs_grp s) to_id u" using member gs.is_member [OF inv(3) ids(2)] by blast
  obtain reg where r: "r = \<lparr>sr_success = True, sr_msg_id = mid, sr_conversation_id = cid, sr_timestamp = now, sr_error = []\<rparr>"
    and s': "s' = s\<lparr>cs_reg := reg, cs_msg := fold (\<lambda>u m. snd (ms_AddToOffline MS m u mid)) us m1,
        cs_conv := fold (\<lambda>v. deliver CS v (?entry ?peer)) us c1\<rparr>"
  proof (rule SendMessage_cases [OF u(1,3) send])
  qed (use mem sv \<open>saved\<close> c1 in \<open>auto simp: cid_def us_def mid_def\<close>)
  show "r = \<lparr>sr_success = True, sr_msg_id = mid, sr_conversation_id = cid, sr_timestamp = now, sr_error = []\<rparr>" by (rule r)
  show "minv (cs_msg s')" "cinv (cs_conv s')" "cs_grp s' = cs_grp s" using e2 e4 s' by simp_all
  show "mabs (cs_msg s') = (mabs (cs_msg s))\<lparr>am_msg := (am_msg (mabs (cs_msg s)))(mid \<mapsto> ?msg),
      am_queued := am_queued (mabs (cs_msg s)) \<union> set us \<times> {mid}\<rparr>" using e2 e1(2) s' by simp
  show "cabs (cs_conv s') (v, k) = (if v \<in> set us \<and> k = cid then Some ((?entry ?peer)\<lparr>cd_unread_count := 1\<rparr>)
       else if v = u \<and> k = cid then Some (?entry to_id) else cabs (cs_conv s) (v, k))" for v k
    using e4 e3(2) s' unread by simp
qed

end

context reliable_env
begin

lemma rocksdb_reliable_chat:
  "reliable_chat_stores (RocksDBMessageStore R J) (message_inv R J) (message_abs R J) (RocksDBConversationStore R J) (conversation_inv R J)
     (conversation_abs R J) (RocksDBConversationRegistry R J) (RocksDBGroupStore R J) (group_inv R J) (group_abs R J)"
proof (rule reliable_chat_stores.intro [OF rocksdb_chat_stores], unfold_locales, simp_all only: RocksDBMessageStore_simps RocksDBConversationStore_simps)
  have put: "fst (db_Put R db k v)" and del: "fst (db_Delete R db k)" for db k v using write_ok by (simp_all add: db_Put_def db_Delete_def)
  show "fst (RocksDBMessageStore_Save R J m d)"
    if "message_inv R J m" "message_ok d" "am_msg (message_abs R J m) (md_msg_id d) = None" for m d
    using that write_ok stored_iff(2) [of J "db_Get R m" "md_msg_id d"]
    by (auto simp: RocksDBMessageStore_Save_def message_view mmap_inv_def message_ok_def KeyMsg_def Let_def)
  show "fst (RocksDBMessageStore_AddToOffline R J m u mid)"
    if "message_inv R J m" "id_ok u" "am_msg (message_abs R J m) mid \<noteq> None" for m u mid
    using that put ms_message_data [OF that(1), of mid]
    by (auto simp: RocksDBMessageStore_AddToOffline_def ms_get_by_id id_ok_def message_ok_def)
  show "fst (RocksDBConversationStore_Upsert R J c u e)" if "conversation_inv R J c" "id_ok u" "conversation_ok e" for c u e
    using that put by (simp add: RocksDBConversationStore_Upsert_def id_ok_def conversation_ok_def)
  show "fst (RocksDBConversationStore_Delete R c u cid)" if "conversation_inv R J c" "id_ok u" "cid \<noteq> []" for c u cid
    using that del by (simp add: RocksDBConversationStore_Delete_def id_ok_def)
  show "fst (RocksDBConversationStore_UpdateUnread R J c u cid delta)"
    if "conversation_inv R J c" "id_ok u" "conversation_abs R J c (u, cid) \<noteq> None" for c u cid delta
    using that put cs_conversation_data [OF that(1), of u cid] cmap_abs_iff(1) [of J "db_Get R c" u cid]
    by (auto simp: RocksDBConversationStore_UpdateUnread_def conversation_view id_ok_def conversation_ok_def)
qed

end

section \<open>A conversation to try the results on\<close>

definition empty_chat :: "'db rocksdb \<Rightarrow> ('db, 'db, 'db, 'db) ChatState \<Rightarrow> bool" where
  "empty_chat R s \<longleftrightarrow> db_Get R (cs_msg s) = Map.empty \<and> db_Get R (cs_conv s) = Map.empty \<and> db_Get R (cs_grp s) = Map.empty"

context store_env
begin

lemma empty_chat_state:
  assumes "empty_chat R s"
  shows "message_inv R J (cs_msg s)" "conversation_inv R J (cs_conv s)" "group_inv R J (cs_grp s)"
    "am_msg (message_abs R J (cs_msg s)) = Map.empty" "ag_group (group_abs R J (cs_grp s)) = Map.empty"
    "chat_stores.chat_inv (message_inv R J) (conversation_inv R J) (group_inv R J) (group_abs R J) s"
proof -
  show i: "message_inv R J (cs_msg s)" "conversation_inv R J (cs_conv s)" "group_inv R J (cs_grp s)"
    "am_msg (message_abs R J (cs_msg s)) = Map.empty" "ag_group (group_abs R J (cs_grp s)) = Map.empty"
    using assms message_inv_empty [of R "cs_msg s" J] conversation_inv_empty [of R "cs_conv s" J] group_inv_empty [of R "cs_grp s" J]
    by (simp_all add: empty_chat_def group_abs_def gmap_abs_def fun_eq_iff)
  then show "chat_stores.chat_inv (message_inv R J) (conversation_inv R J) (group_inv R J) (group_abs R J) s"
    by (simp add: chat_stores.chat_inv_def [OF rocksdb_chat_stores])
qed

text \<open>States reached from empty databases.\<close>

lemma chat_reach_facts:
  assumes "empty_chat R s0" "chat_reach clean (rocksdb_chat R J) (RocksDBGroupStore R J) s0 s"
  shows "message_inv R J (cs_msg s)" "conversation_inv R J (cs_conv s)" "group_inv R J (cs_grp s)"
    "am_msg (message_abs R J (cs_msg s)) mid = Some d \<Longrightarrow> addressed d"
proof -
  note r = chat_stores.chat_reach_effect [OF rocksdb_chat_stores, folded rocksdb_chat_def, OF assms(2) empty_chat_state(6) [OF assms(1)]]
  from r empty_chat_state(4) [OF assms(1)] show "message_inv R J (cs_msg s)" "conversation_inv R J (cs_conv s)" "group_inv R J (cs_grp s)"
    "am_msg (message_abs R J (cs_msg s)) mid = Some d \<Longrightarrow> addressed d"
    by (auto simp: chat_stores.chat_inv_def [OF rocksdb_chat_stores])
qed

end

definition chat_demo0 :: "((string \<times> string) list, (string \<times> string) list, (string \<times> string) list, (string \<times> string) list) ChatState" where
  "chat_demo0 = \<lparr>cs_msg = [], cs_conv = [], cs_reg = [], cs_grp = []\<rparr>"

definition chat_demo_draws :: "nat \<Rightarrow> nat list" where
  "chat_demo_draws n = replicate 16 n"

definition alice :: string where "alice = GenerateUserId (replicate 12 0)"
definition bob :: string where "bob = GenerateUserId (replicate 12 1)"

definition alist_send where
  "alist_send n now s u v text = ChatServiceCore_SendMessage (rocksdb_chat alist_db text_json) (chat_demo_draws n) now s u v PRIVATE text [] [] [] []"

definition chat_demo1 where "chat_demo1 = snd (alist_send 2 1000 chat_demo0 alice bob ''hello'')"

lemma chat_demo_ids: "account_id alice" "account_id bob" "id_ok alice" "id_ok bob" "alice \<noteq> bob"
proof -
  have d: "draws_ok 12 (replicate 12 n)" if "n < 62" for n using that by (simp add: draws_ok_def kAlphaNum_def)
  show "account_id alice" "account_id bob" using account_id_GenerateUserId [OF d] by (simp_all add: alice_def bob_def)
  then show "id_ok alice" "id_ok bob" by (simp_all add: account_id_ok)
  show "alice \<noteq> bob" by (simp add: alice_def bob_def GenerateUserId_def GenerateShortId_def RandomString_def kAlphaNum_def numeral_eq_Suc)
qed

lemma chat_demo_draws_ok: "n < 62 \<Longrightarrow> draws_ok 16 (chat_demo_draws n)"
  by (simp add: draws_ok_def kAlphaNum_def chat_demo_draws_def)

lemma chat_demo0_empty: "empty_chat alist_db chat_demo0"
  by (simp add: empty_chat_def chat_demo0_def alist_db_def)

interpretation alist_reliable_chat: reliable_chat_stores "RocksDBMessageStore alist_db text_json" "message_inv alist_db text_json"
    "message_abs alist_db text_json" "RocksDBConversationStore alist_db text_json" "conversation_inv alist_db text_json"
    "conversation_abs alist_db text_json" "RocksDBConversationRegistry alist_db text_json" "RocksDBGroupStore alist_db text_json"
    "group_inv alist_db text_json" "group_abs alist_db text_json"
  by (rule alist_reliable.rocksdb_reliable_chat)

text \<open>Alice's message to Bob.\<close>

definition hello :: MessageData where
  "hello = new_message (chat_demo_draws 2) 1000 alice bob (private_conversation_id alice bob) PRIVATE ''hello'' [] [] [] []"

lemma chat_demo1_send: "\<exists>r. alist_send 2 1000 chat_demo0 alice bob ''hello'' = (r, chat_demo1)"
  by (simp add: chat_demo1_def prod_eq_iff)

lemma demo_clock: "clock_ok 1000" "clock_ok 2000"
  by (simp_all add: clock_ok_def MAX_TS_def)

lemma chat_demo1_facts:
  "message_inv alist_db text_json (cs_msg chat_demo1)" "conversation_inv alist_db text_json (cs_conv chat_demo1)"
  "cs_grp chat_demo1 = []"
  "message_abs alist_db text_json (cs_msg chat_demo1) = \<lparr>am_msg = [md_msg_id hello \<mapsto> hello], am_queued = {(bob, md_msg_id hello)}\<rparr>"
proof -
  obtain r where r: "alist_send 2 1000 chat_demo0 alice bob ''hello'' = (r, chat_demo1)" using chat_demo1_send by blast
  have e: "message_abs alist_db text_json (cs_msg chat_demo0) = \<lparr>am_msg = Map.empty, am_queued = {}\<rparr>"
    using message_inv_empty(2) [of alist_db "[]" text_json] by (simp add: chat_demo0_def alist_db_def)
  note x = alist_reliable_chat.SendMessage_exact [OF alist_env.empty_chat_state(1-3) [OF chat_demo0_empty] chat_demo_ids(1,4) demo_clock(1) _ _
      r [unfolded alist_send_def rocksdb_chat_def], unfolded e, simplified]
  show "message_inv alist_db text_json (cs_msg chat_demo1)" "conversation_inv alist_db text_json (cs_conv chat_demo1)" "cs_grp chat_demo1 = []"
    using x(2-4) by (simp_all add: chat_demo0_def)
  show "message_abs alist_db text_json (cs_msg chat_demo1) = \<lparr>am_msg = [md_msg_id hello \<mapsto> hello], am_queued = {(bob, md_msg_id hello)}\<rparr>"
    using x(5) by (simp add: hello_def new_message_def conversation_for_def alist_chat.receivers_of_def)
qed

lemma chat_demo1_reach: "chat_reach clean (rocksdb_chat alist_db text_json) (RocksDBGroupStore alist_db text_json) chat_demo0 chat_demo1"
proof -
  have "chat_step clean (rocksdb_chat alist_db text_json) (RocksDBGroupStore alist_db text_json) chat_demo0 chat_demo1"
    using chat_step.send [OF chat_demo_ids(1) _ chat_demo_draws_ok [of 2] demo_clock(1)] chat_demo1_send chat_demo_ids(4)
    by (auto simp: alist_send_def id_ok_def)
  then show ?thesis using chat_reach.step [OF chat_reach.start] by blast
qed

section \<open>Private conversations\<close>

lemma GetHistory_resolved:
  assumes "u \<noteq> []" "chat_id \<noteq> []" "0 < limit" "\<not> (ct = GROUP \<and> dissolved (rocksdb_chat R J) s chat_id)"
  shows "\<exists>reg. ChatServiceCore_GetHistory (rocksdb_chat R J) s u chat_id ct before limit =
    (RocksDBMessageStore_GetHistory R J (cs_msg s) (conversation_for u chat_id ct) (ChatType_int ct) before limit, s\<lparr>cs_reg := reg\<rparr>)"
proof (cases ct)
  case PRIVATE
  obtain c r where r: "RocksDBConversationRegistry_GetOrCreatePrivateConversation R J (cs_reg s) u chat_id = (c, r)" by fastforce
  then have "c = private_conversation_id u chat_id" using rocksdb_registry.registered [OF assms(1,2), of R J "cs_reg s"] by simp
  with PRIVATE assms r show ?thesis
    by (intro exI [of _ r]) (simp add: ChatServiceCore_GetHistory_def ResolveConversationId_def rocksdb_chat_def conversation_for_def)
next
  case GROUP
  with assms show ?thesis
    by (intro exI [of _ "cs_reg s"]) (simp add: ChatServiceCore_GetHistory_def ResolveConversationId_def conversation_for_def,
        simp add: rocksdb_chat_def)
qed

lemma conversation_for_ok: "account_id u \<Longrightarrow> id_ok v \<Longrightarrow> id_ok (conversation_for u v ct)"
  using id_ok_private_conversation_id [of u v] by (simp add: conversation_for_def account_id_def id_ok_def)

context store_env
begin

lemma GetHistory_messages:
  assumes "message_inv R J (cs_msg s)" "account_id u" "id_ok v" "is_int32 limit"
    and "ChatServiceCore_GetHistory (rocksdb_chat R J) s u v ct before limit = (ms, s')" "d \<in> set ms"
  shows "am_msg (message_abs R J (cs_msg s)) (md_msg_id d) = Some d \<and> md_conversation_id d = conversation_for u v ct"
proof -
  let ?C = "rocksdb_chat R J" and ?cid = "conversation_for u v ct"
  have ne: "u \<noteq> []" "v \<noteq> []" using assms(2,3) by (auto simp: account_id_def id_ok_def)
  have limit: "0 < limit" using assms(5,6) by (auto simp: ChatServiceCore_GetHistory_def split: if_splits)
  have dis: "\<not> (ct = GROUP \<and> dissolved ?C s v)"
    using assms(5,6) by (auto simp: ChatServiceCore_GetHistory_def ResolveConversationId_def split: if_splits)
  obtain hs where hs: "set hs = {d. am_msg (message_abs R J (cs_msg s)) (md_msg_id d) = Some d \<and> md_conversation_id d = ?cid}"
    "RocksDBMessageStore_GetHistory R J (cs_msg s) ?cid (ChatType_int ct) before limit = history_page (message_abs R J (cs_msg s)) hs ?cid before limit"
    using ms_history [OF assms(1) conversation_for_ok [OF assms(2,3)]] limit assms(4) by blast
  have "d \<in> set (history_page (message_abs R J (cs_msg s)) hs ?cid before limit)"
    using GetHistory_resolved [OF ne limit dis, of before] assms(5,6) hs(2) by auto
  then have "d \<in> set hs" by (auto simp: history_page_def dest: in_set_takeD split: if_splits option.splits)
  with hs(1) show ?thesis by blast
qed

end

text \<open>C3: Confidentiality of private conversations.  In every state that chat and group calls reach
  from empty databases, the history that an account reads of its private conversation with another
  account has only messages that one of the two sent to the other.  The calls name receivers and members
  without a colon in their ids, as the ids of accounts and groups are.\<close>

theorem private_history_confidential:
  assumes "store_env R J" "empty_chat R s0" "chat_reach clean (rocksdb_chat R J) (RocksDBGroupStore R J) s0 s"
    and "account_id u" "account_id v" "is_int32 limit"
    and "ChatServiceCore_GetHistory (rocksdb_chat R J) s u v PRIVATE before limit = (ms, s')" "d \<in> set ms"
  shows "md_from_user_id d = u \<and> md_to_id d = v \<or> md_from_user_id d = v \<and> md_to_id d = u"
proof -
  note r = store_env.chat_reach_facts [OF assms(1-3)]
  have d: "am_msg (message_abs R J (cs_msg s)) (md_msg_id d) = Some d" "md_conversation_id d = private_conversation_id u v"
    using store_env.GetHistory_messages [OF assms(1) r(1) assms(4) account_id_ok [OF assms(5)] assms(6-8)] by (simp_all add: conversation_for_def)
  have "addressed d" by (rule r(4) [OF d(1)])
  moreover have "\<not> prefix ''g_'' (private_conversation_id u v)" by (auto simp: private_conversation_id_def)
  ultimately have "account_id (md_from_user_id d)" "private_conversation_id (md_from_user_id d) (md_to_id d) = private_conversation_id u v"
    using d(2) by (auto simp: addressed_def)
  with assms(4,5) private_conversation_id_pair [of "md_from_user_id d" 14 u v "md_to_id d"] show ?thesis by (simp add: account_id_def)
qed

lemma bob_reads_hello:
  "\<exists>s'. ChatServiceCore_GetHistory (rocksdb_chat alist_db text_json) chat_demo1 bob alice PRIVATE [] 10 = ([hello], s')"
proof -
  let ?st = "message_abs alist_db text_json (cs_msg chat_demo1)" and ?cid = "private_conversation_id alice bob"
  have cid: "conversation_for bob alice PRIVATE = ?cid" by (simp add: conversation_for_def private_conversation_id_commute)
  obtain ms where ms: "sorted_wrt newest_first ms" "set ms = {d. am_msg ?st (md_msg_id d) = Some d \<and> md_conversation_id d = ?cid}"
    "RocksDBMessageStore_GetHistory alist_db text_json (cs_msg chat_demo1) ?cid (ChatType_int PRIVATE) [] 10 = history_page ?st ms ?cid [] 10"
    using alist_env.ms_history [OF chat_demo1_facts(1) id_ok_private_conversation_id [of alice bob]] chat_demo_ids(3,4)
    by (auto simp: id_ok_def is_int32_def)
  have "set ms = {hello}" by (auto simp: ms(2) chat_demo1_facts(4) hello_def new_message_def split: if_splits)
  then have "ms = [hello]" using ms(1) by (cases ms; cases "tl ms") (auto simp: newest_first_def)
  with ms(3) GetHistory_resolved [of bob alice 10 PRIVATE alist_db text_json chat_demo1 "[]"] chat_demo_ids(3,4) show ?thesis
    unfolding cid by (auto simp: history_page_def id_ok_def)
qed

theorem private_history_confidential_witness:
  "md_from_user_id hello = bob \<and> md_to_id hello = alice \<or> md_from_user_id hello = alice \<and> md_to_id hello = bob"
proof -
  obtain s' where "ChatServiceCore_GetHistory (rocksdb_chat alist_db text_json) chat_demo1 bob alice PRIVATE [] 10 = ([hello], s')"
    using bob_reads_hello by blast
  from private_history_confidential [OF alist_env.store_env_axioms chat_demo0_empty chat_demo1_reach chat_demo_ids(2,1) _ this, of hello]
  show ?thesis by (simp add: is_int32_def)
qed

section \<open>Stored messages stay\<close>

lemma GetMessageById_eq:
  "store_env R J \<Longrightarrow> message_inv R J (cs_msg s) \<Longrightarrow>
   ChatServiceCore_GetMessageById (rocksdb_chat R J) s mid = am_msg (message_abs R J (cs_msg s)) mid"
  using store_env.ms_get_by_id [of R J "cs_msg s" mid]
  by (auto simp: ChatServiceCore_GetMessageById_def rocksdb_chat_def RocksDBMessageStore_GetById_def)

text \<open>C27: Whatever calls follow, a stored message keeps its content, its ends, its conversation and its
  time; the one change it can see is being marked recalled.  The calls name receivers and members without a colon
  in their ids.\<close>

theorem messages_immutable:
  assumes "store_env R J" "empty_chat R s0" "chat_reach clean (rocksdb_chat R J) (RocksDBGroupStore R J) s0 s"
    and "chat_reach clean (rocksdb_chat R J) (RocksDBGroupStore R J) s s'"
    and "ChatServiceCore_GetMessageById (rocksdb_chat R J) s mid = Some d"
  shows "\<exists>e. ChatServiceCore_GetMessageById (rocksdb_chat R J) s' mid = Some e \<and>
    (e = d \<or> (\<exists>at. e = d\<lparr>md_status := 1, md_recall_at := at\<rparr>))"
proof -
  note c = store_env.rocksdb_chat_stores [OF assms(1)]
  note r = store_env.chat_reach_facts [OF assms(1-3)]
  have inv: "chat_stores.chat_inv (message_inv R J) (conversation_inv R J) (group_inv R J) (group_abs R J) s"
    using chat_stores.chat_reach_effect [OF c, folded rocksdb_chat_def, OF assms(3) store_env.empty_chat_state(6) [OF assms(1,2)]]
      store_env.empty_chat_state(4) [OF assms(1,2)] by simp
  have d: "am_msg (message_abs R J (cs_msg s)) mid = Some d" using assms(5) GetMessageById_eq [OF assms(1) r(1)] by simp
  have "\<forall>mid d. am_msg (message_abs R J (cs_msg s)) mid = Some d \<longrightarrow> addressed d" using r(4) by blast
  note e = chat_stores.chat_reach_effect [OF c, folded rocksdb_chat_def, OF assms(4) inv this]
  then obtain e where "am_msg (message_abs R J (cs_msg s')) mid = Some e" "same_message d e" using d by blast
  moreover have "message_inv R J (cs_msg s')" using e by (simp add: chat_stores.chat_inv_def [OF c])
  ultimately show ?thesis using GetMessageById_eq [OF assms(1), of s' mid] by (auto simp: same_message_def)
qed

lemma demo_hello_stored: "ChatServiceCore_GetMessageById (rocksdb_chat alist_db text_json) chat_demo1 (md_msg_id hello) = Some hello"
  using GetMessageById_eq [OF alist_env.store_env_axioms chat_demo1_facts(1)] by (simp add: chat_demo1_facts(4))

definition chat_demo2 where
  "chat_demo2 = snd (ChatServiceCore_RecallMessage (rocksdb_chat alist_db text_json) 2000 chat_demo1 (md_msg_id hello) alice)"

lemma chat_demo2_reach: "chat_reach clean (rocksdb_chat alist_db text_json) (RocksDBGroupStore alist_db text_json) chat_demo1 chat_demo2"
proof (rule chat_reach.step [OF chat_reach.start])
  show "chat_step clean (rocksdb_chat alist_db text_json) (RocksDBGroupStore alist_db text_json) chat_demo1 chat_demo2"
    by (rule chat_step.recall [OF demo_clock(2), of _ _ "md_msg_id hello" alice]) (simp add: chat_demo2_def prod_eq_iff)
qed

theorem messages_immutable_witness:
  "\<exists>e. ChatServiceCore_GetMessageById (rocksdb_chat alist_db text_json) chat_demo2 (md_msg_id hello) = Some e \<and> md_content e = ''hello''"
  using messages_immutable [OF alist_env.store_env_axioms chat_demo0_empty chat_demo1_reach chat_demo2_reach demo_hello_stored]
  by (auto simp: hello_def new_message_def)

section \<open>Recall\<close>

text \<open>C28: The outcome of recalling: which error the service reports, that a recall succeeds only for the
  sender within two minutes, that it marks exactly this message, and that a refused recall changes
  nothing.  The message database is as calls with ids without a colon leave it.\<close>

theorem RecallMessage_outcome:
  assumes "store_env R J" "message_inv R J (cs_msg s)" "clock_ok now"
    and "ChatServiceCore_RecallMessage (rocksdb_chat R J) now s mid u = (r, s')"
  shows "message_inv R J (cs_msg s') \<and>
    (let old = ChatServiceCore_GetMessageById (rocksdb_chat R J) s; new = ChatServiceCore_GetMessageById (rocksdb_chat R J) s' in
     if mid = [] \<or> u = [] then r = \<lparr>rcr_success = False, rcr_error = ''invalid params''\<rparr> \<and> s' = s
     else case old mid of
         None \<Rightarrow> r = \<lparr>rcr_success = False, rcr_error = ''message not found''\<rparr> \<and> s' = s
       | Some d \<Rightarrow>
           if md_from_user_id d \<noteq> u then r = \<lparr>rcr_success = False, rcr_error = ''not allowed to recall''\<rparr> \<and> s' = s
           else if 120000 < now - md_timestamp d then r = \<lparr>rcr_success = False, rcr_error = ''recall timeout''\<rparr> \<and> s' = s
           else (if rcr_success r then rcr_error r = [] \<and> new = old(mid \<mapsto> d\<lparr>md_status := 1, md_recall_at := now\<rparr>)
             else rcr_error r = ''mark recalled failed'' \<and> new = old) \<and>
             cs_conv s' = cs_conv s \<and> cs_reg s' = cs_reg s \<and> cs_grp s' = cs_grp s)"
proof -
  note get = GetMessageById_eq [OF assms(1)]
  obtain ok m where m: "RocksDBMessageStore_MarkRecalled R J (cs_msg s) mid now = (ok, m)" by fastforce
  note e = store_env.ms_mark_recalled [OF assms(1,2) m clock_ok_int64 [OF assms(3)]]
  have old: "ChatServiceCore_GetMessageById (rocksdb_chat R J) s = am_msg (message_abs R J (cs_msg s))"
    using get [OF assms(2)] by (simp add: fun_eq_iff)
  have new: "ChatServiceCore_GetMessageById (rocksdb_chat R J) (s\<lparr>cs_msg := m\<rparr>) = am_msg (message_abs R J m)"
    using get [of "s\<lparr>cs_msg := m\<rparr>"] e by (simp add: fun_eq_iff)
  show ?thesis
  proof (cases "\<exists>d. mid \<noteq> [] \<and> u \<noteq> [] \<and> am_msg (message_abs R J (cs_msg s)) mid = Some d \<and> md_from_user_id d = u \<and> \<not> 120000 < now - md_timestamp d")
    case False
    with assms(2,4) show ?thesis unfolding old Let_def
      by (auto simp: ChatServiceCore_RecallMessage_def recall_failed_def rocksdb_chat_def store_env.ms_get_by_id [OF assms(1,2)]
          RECALL_TIMEOUT_SECONDS_def split: if_splits option.splits)
  next
    case True
    then obtain d where d: "mid \<noteq> []" "u \<noteq> []" "am_msg (message_abs R J (cs_msg s)) mid = Some d" "md_from_user_id d = u" "\<not> 120000 < now - md_timestamp d"
      by blast
    then have r: "r = (if ok then \<lparr>rcr_success = True, rcr_error = []\<rparr> else recall_failed ''mark recalled failed'')" "s' = s\<lparr>cs_msg := m\<rparr>"
      using assms(4) m by (auto simp: ChatServiceCore_RecallMessage_def rocksdb_chat_def store_env.ms_get_by_id [OF assms(1,2)]
          RECALL_TIMEOUT_SECONDS_def split: bool.splits)
    show ?thesis unfolding r(2) old new Let_def using d e r(1) by (cases ok) (simp_all add: recall_failed_def)
  qed
qed

theorem RecallMessage_outcome_witness:
  "(let (r, s') = ChatServiceCore_RecallMessage (rocksdb_chat alist_db text_json) 2000 chat_demo1 (md_msg_id hello) bob
    in r = \<lparr>rcr_success = False, rcr_error = ''not allowed to recall''\<rparr> \<and> s' = chat_demo1)"
proof -
  obtain r s' where rs: "ChatServiceCore_RecallMessage (rocksdb_chat alist_db text_json) 2000 chat_demo1 (md_msg_id hello) bob = (r, s')" by fastforce
  have "md_msg_id hello \<noteq> []" "md_from_user_id hello = alice" "bob \<noteq> []"
    using chat_demo_ids(4) by (simp_all add: hello_def new_message_def GenerateMsgId_def GenerateShortId_def id_ok_def)
  with RecallMessage_outcome [OF alist_env.store_env_axioms chat_demo1_facts(1) demo_clock(2) rs] rs chat_demo_ids(5) show ?thesis
    by (simp add: demo_hello_stored)
qed

section \<open>Sending\<close>

context store_env
begin

lemma queued_is_pulled:
  assumes "message_inv R J (cs_msg s)" "id_ok w" "am_msg (message_abs R J (cs_msg s)) (md_msg_id d) = Some d"
    "(w, md_msg_id d) \<in> am_queued (message_abs R J (cs_msg s))"
  shows "\<exists>n. d \<in> set (or_messages (ChatServiceCore_PullOffline (rocksdb_chat R J) s w [] n))"
proof -
  obtain qs where qs: "set qs = {d. am_msg (message_abs R J (cs_msg s)) (md_msg_id d) = Some d \<and> (w, md_msg_id d) \<in> am_queued (message_abs R J (cs_msg s))}"
    "\<forall>cursor limit. 0 < limit \<longrightarrow> RocksDBMessageStore_PullOffline R J (cs_msg s) w cursor limit = offline_page qs cursor limit"
    using ms_pull_offline [OF assms(1,2)] by blast
  let ?n = "int (length qs) + 1"
  have "RocksDBMessageStore_PullOffline R J (cs_msg s) w [] ?n = offline_page qs [] ?n" using qs(2) by simp
  moreover have "take (nat ?n) qs = qs" by simp
  ultimately have "or_messages (ChatServiceCore_PullOffline (rocksdb_chat R J) s w [] ?n) = qs"
    by (simp add: ChatServiceCore_PullOffline_def rocksdb_chat_def offline_page_def Let_def)
  with qs(1) assms(3,4) show ?thesis by (intro exI [of _ ?n]) simp
qed

lemma listed_iff:
  "conversation_inv R J db \<Longrightarrow> id_ok w \<Longrightarrow> c \<in> set (RocksDBConversationStore_GetList R J db w) \<longleftrightarrow> (\<exists>cid. conversation_abs R J db (w, cid) = Some c)"
  using cs_get_list [of db w] by blast

end

text \<open>C11: What sending does, when the databases accept the writes.  The message is stored under its
  new id; it waits in the offline queue of every receiver, that is, of the other end of a private conversation
  and of every other member of a group of at most a thousand; the conversation lists of sender and receivers
  show it as last message; and the unread count of a receiver is then one, whatever it was
  before.  No other conversation entry changes.  The databases are as calls with ids without
  a colon leave them, the new id is unused, and the receiver's id has no colon.\<close>

theorem SendMessage_outcome:
  assumes rel: "reliable_env R J"
    and inv: "message_inv R J (cs_msg s)" "conversation_inv R J (cs_conv s)" "group_inv R J (cs_grp s)"
    and ids: "account_id u" "id_ok v" "clock_ok now"
    and fresh: "ChatServiceCore_GetMessageById (rocksdb_chat R J) s (GenerateMsgId draws) = None"
    and grp: "ct = GROUP \<Longrightarrow> RocksDBGroupStore_IsMember R (cs_grp s) v u \<and> card {w. RocksDBGroupStore_IsMember R (cs_grp s) v w} \<le> 1000"
    and send: "ChatServiceCore_SendMessage (rocksdb_chat R J) draws now s u v ct content media_url media_type mentions reply = (r, s')"
  shows "let cid = (if ct = PRIVATE then private_conversation_id u v else v); mid = GenerateMsgId draws;
      msg = new_message draws now u v cid ct content media_url media_type mentions reply;
      receivers = (if ct = PRIVATE then {v} else {w. RocksDBGroupStore_IsMember R (cs_grp s) v w} - {u});
      entry = (\<lambda>peer. conv_entry cid ct peer mid now); listed = (\<lambda>t w. set (RocksDBConversationStore_GetList R J (cs_conv t) w))
    in r = \<lparr>sr_success = True, sr_msg_id = mid, sr_conversation_id = cid, sr_timestamp = now, sr_error = []\<rparr> \<and>
      ChatServiceCore_GetMessageById (rocksdb_chat R J) s' = (ChatServiceCore_GetMessageById (rocksdb_chat R J) s)(mid \<mapsto> msg) \<and>
      (\<forall>w \<in> receivers. (\<exists>n. msg \<in> set (or_messages (ChatServiceCore_PullOffline (rocksdb_chat R J) s' w [] n))) \<and>
        (entry (if ct = PRIVATE then u else v))\<lparr>cd_unread_count := 1\<rparr> \<in> listed s' w) \<and>
      (u \<notin> receivers \<longrightarrow> entry v \<in> listed s' u) \<and>
      (\<forall>w c. id_ok w \<longrightarrow> cd_conversation_id c \<noteq> cid \<or> w \<notin> insert u receivers \<longrightarrow> (c \<in> listed s' w \<longleftrightarrow> c \<in> listed s w))"
proof -
  have env: "store_env R J" using rel by (simp add: reliable_env_def)
  note c = store_env.rocksdb_chat_stores [OF env] and rc = reliable_env.rocksdb_reliable_chat [OF rel]
  let ?g = "group_abs R J (cs_grp s)" and ?cid = "conversation_for u v ct" and ?mid = "GenerateMsgId draws"
  let ?msg = "new_message draws now u v ?cid ct content media_url media_type mentions reply"
  let ?us = "chat_stores.receivers_of (RocksDBGroupStore R J) (cs_grp s) u v ct"
  have mem: "RocksDBGroupStore_IsMember R (cs_grp s) v w \<longleftrightarrow> ag_member ?g (v, w) \<noteq> None" for w
    by (rule store_env.gs_is_member [OF env inv(3) ids(2)])
  have fresh': "am_msg (message_abs R J (cs_msg s)) ?mid = None" using fresh GetMessageById_eq [OF env inv(1)] by simp
  have "ct = GROUP \<Longrightarrow> ag_member ?g (v, u) \<noteq> None" using grp mem by blast
  note e = reliable_chat_stores.SendMessage_exact [OF rc inv ids fresh' this send [unfolded rocksdb_chat_def]]
  have us: "set ?us = (if ct = PRIVATE then {v} else {w. RocksDBGroupStore_IsMember R (cs_grp s) v w} - {u})"
  proof (cases ct)
    case GROUP
    then have "card {w. ag_member ?g (v, w) \<noteq> None} \<le> nat 1000" using grp unfolding mem by simp
    from chat_stores.first_members_all(1) [OF c inv(3) ids(2) this] GROUP show ?thesis
      unfolding mem by (auto simp: chat_stores.receivers_of_def [OF c] is_int32_def)
  qed (simp add: chat_stores.receivers_of_def [OF c])
  have ok: "id_ok w" if "w \<in> set ?us" for w using chat_stores.receivers_ok [OF c inv(3) ids(2) that] .
  have mid: "md_msg_id ?msg = ?mid" by (simp add: new_message_def)
  have get: "ChatServiceCore_GetMessageById (rocksdb_chat R J) s' = (ChatServiceCore_GetMessageById (rocksdb_chat R J) s)(?mid \<mapsto> ?msg)"
    using GetMessageById_eq [OF env inv(1)] GetMessageById_eq [OF env e(2)] e(5) by (simp add: fun_eq_iff)
  have pull: "\<exists>n. ?msg \<in> set (or_messages (ChatServiceCore_PullOffline (rocksdb_chat R J) s' w [] n))" if "w \<in> set ?us" for w
    by (rule store_env.queued_is_pulled [OF env e(2) ok [OF that]]) (use e(5) mid that in simp_all)
  have list: "(conv_entry ?cid ct (if ct = PRIVATE then u else v) ?mid now)\<lparr>cd_unread_count := 1\<rparr> \<in> set (RocksDBConversationStore_GetList R J (cs_conv s') w)"
    if w: "w \<in> set ?us" for w
  proof -
    have "conversation_abs R J (cs_conv s') (w, ?cid) = Some ((conv_entry ?cid ct (if ct = PRIVATE then u else v) ?mid now)\<lparr>cd_unread_count := 1\<rparr>)"
      using e(6) [of w ?cid] w by simp
    then show ?thesis using store_env.listed_iff [OF env e(3) ok [OF w]] by blast
  qed
  have own: "conv_entry ?cid ct v ?mid now \<in> set (RocksDBConversationStore_GetList R J (cs_conv s') u)" if "u \<notin> set ?us"
  proof -
    have "conversation_abs R J (cs_conv s') (u, ?cid) = Some (conv_entry ?cid ct v ?mid now)" using e(6) [of u ?cid] that by simp
    then show ?thesis using store_env.listed_iff [OF env e(3) account_id_ok [OF ids(1)]] by blast
  qed
  have other: "d \<in> set (RocksDBConversationStore_GetList R J (cs_conv s') w) \<longleftrightarrow> d \<in> set (RocksDBConversationStore_GetList R J (cs_conv s) w)"
    if "id_ok w" "cd_conversation_id d \<noteq> ?cid \<or> w \<notin> insert u (set ?us)" for w d
  proof -
    have "conversation_abs R J (cs_conv s') (w, k) = Some d \<longleftrightarrow> conversation_abs R J (cs_conv s) (w, k) = Some d" for k
    proof (cases "k = ?cid \<and> w \<in> insert u (set ?us)")
      case True
      with that(2) have "cd_conversation_id d \<noteq> k" by blast
      then show ?thesis
        using store_env.cs_conversation_data [OF env inv(2), of w k d] store_env.cs_conversation_data [OF env e(3), of w k d] by blast
    next
      case False
      then have "conversation_abs R J (cs_conv s') (w, k) = conversation_abs R J (cs_conv s) (w, k)" using e(6) [of w k] by auto
      then show ?thesis by simp
    qed
    then show ?thesis using store_env.listed_iff [OF env e(3) that(1), of d] store_env.listed_iff [OF env inv(2) that(1), of d] by simp
  qed
  show ?thesis
    unfolding Let_def us [symmetric] conversation_for_def [symmetric]
    using e(1) get pull list own other by blast
qed

theorem SendMessage_outcome_witness:
  "(\<exists>n. hello \<in> set (or_messages (ChatServiceCore_PullOffline (rocksdb_chat alist_db text_json) chat_demo1 bob [] n))) \<and>
   (conv_entry (private_conversation_id alice bob) PRIVATE alice (md_msg_id hello) 1000)\<lparr>cd_unread_count := 1\<rparr>
     \<in> set (RocksDBConversationStore_GetList alist_db text_json (cs_conv chat_demo1) bob)"
proof -
  obtain r where r: "alist_send 2 1000 chat_demo0 alice bob ''hello'' = (r, chat_demo1)" using chat_demo1_send by blast
  have "ChatServiceCore_GetMessageById (rocksdb_chat alist_db text_json) chat_demo0 (GenerateMsgId (chat_demo_draws 2)) = None"
    using GetMessageById_eq [OF alist_env.store_env_axioms alist_env.empty_chat_state(1) [OF chat_demo0_empty]]
      alist_env.empty_chat_state(4) [OF chat_demo0_empty] by simp
  from SendMessage_outcome [OF alist_reliable.reliable_env_axioms alist_env.empty_chat_state(1-3) [OF chat_demo0_empty] chat_demo_ids(1,4)
      demo_clock(1) this _ r [unfolded alist_send_def]] show ?thesis by (simp add: Let_def hello_def) (simp add: new_message_def)
qed

section \<open>Deleting a conversation\<close>

text \<open>Deleting a conversation, when the databases accept the writes: a private conversation is never deleted; a group
  is dissolved by its owner only, once; then it keeps its record with the status of a dissolved
  group and nobody is its member, its entry is gone from the list of everyone who was (up to ten thousand), and no message and no other
  entry is touched.
\<close>

theorem DeleteConversation_outcome:
  assumes rel: "reliable_env R J" and inv: "conversation_inv R J (cs_conv s)" "group_inv R J (cs_grp s)"
    and few: "card {w. RocksDBGroupStore_IsMember R (cs_grp s) gid w} \<le> 10000"
    and del: "ChatServiceCore_DeleteConversation (rocksdb_chat R J) s u gid ct = (r, s')"
  shows "if u = [] \<or> gid = [] then r = delete_failed EC_INVALID_PARAM \<and> s' = s
    else if ct = PRIVATE then r = delete_failed EC_CONVERSATION_PRIVATE_CANNOT_DELETE \<and> s' = s
    else case RocksDBGroupStore_GetGroup R J (cs_grp s) gid of
        None \<Rightarrow> r = delete_failed EC_GROUP_NOT_FOUND \<and> s' = s
      | Some g \<Rightarrow>
          if gd_owner_id g \<noteq> u then r = delete_failed EC_NOT_GROUP_OWNER \<and> s' = s
          else dcr_success r \<and> cs_msg s' = cs_msg s \<and>
            (if gd_status g = 1 then s' = s
             else RocksDBGroupStore_GetGroup R J (cs_grp s') gid = Some (g\<lparr>gd_status := 1, gd_member_count := 0\<rparr>) \<and>
               (\<forall>w. \<not> RocksDBGroupStore_IsMember R (cs_grp s') gid w) \<and>
               (\<forall>w c. id_ok w \<longrightarrow> (c \<in> set (RocksDBConversationStore_GetList R J (cs_conv s') w) \<longleftrightarrow>
                 c \<in> set (RocksDBConversationStore_GetList R J (cs_conv s) w) \<and>
                 \<not> (RocksDBGroupStore_IsMember R (cs_grp s) gid w \<and> cd_conversation_id c = gid))))"
proof (cases "\<exists>g. u \<noteq> [] \<and> gid \<noteq> [] \<and> ct = GROUP \<and> RocksDBGroupStore_GetGroup R J (cs_grp s) gid = Some g \<and> gd_owner_id g = u \<and> gd_status g \<noteq> 1")
  case False
  have "ct \<noteq> PRIVATE \<longleftrightarrow> ct = GROUP" by (cases ct) simp_all
  with False del show ?thesis
    by (auto simp: ChatServiceCore_DeleteConversation_def rocksdb_chat_def split: if_splits option.splits)
next
  case True
  then obtain g where g: "u \<noteq> []" "gid \<noteq> []" "ct = GROUP" "RocksDBGroupStore_GetGroup R J (cs_grp s) gid = Some g" "gd_owner_id g = u" "gd_status g \<noteq> 1"
    by blast
  have env: "store_env R J" using rel by (simp add: reliable_env_def)
  note c = store_env.rocksdb_chat_stores [OF env] and rc = reliable_env.rocksdb_reliable_chat [OF rel]
  let ?us = "first_members (RocksDBGroupStore R J) (cs_grp s) gid 10000"
  have ag: "ag_group (group_abs R J (cs_grp s)) gid = Some g" using g(4) store_env.gs_get_group [OF env inv(2)] by simp
  then have id: "id_ok gid" using store_env.gs_group_data [OF env inv(2)] by (auto simp: group_ok_def)
  note mem = store_env.gs_is_member [OF env inv(2) id]
  obtain ok g' where d: "RocksDBGroupStore_DissolveGroup R J (cs_grp s) gid = (ok, g')" by fastforce
  have ok using d g reliable_env.write_ok [OF rel] by (auto simp: RocksDBGroupStore_DissolveGroup_def Let_def dest: arg_cong [of _ _ fst])
  then have e: "group_inv R J g'" "group_abs R J g' = \<lparr>ag_group = (ag_group (group_abs R J (cs_grp s)))(gid \<mapsto> g\<lparr>gd_status := 1, gd_member_count := 0\<rparr>),
      ag_member = without_members gid (ag_member (group_abs R J (cs_grp s)))\<rparr>"
    using store_env.gs_dissolve_group [OF env inv(2) d] ag g(6) by simp_all
  have us: "set ?us = {w. RocksDBGroupStore_IsMember R (cs_grp s) gid w}"
    using chat_stores.first_members_all(1) [OF c inv(2) id, of 10000] few unfolding mem by (simp add: is_int32_def)
  have us_ok: "\<forall>w \<in> set ?us. id_ok w"
    using store_env.gs_member_data [OF env inv(2), of gid] unfolding us mem by (auto simp: member_ok_def)
  note f = reliable_chat_stores.delete_loop_exact [OF rc inv(1) us_ok g(2), simplified RocksDBConversationStore_simps]
  let ?c = "fold (\<lambda>u c. snd (RocksDBConversationStore_Delete R c u gid)) ?us (cs_conv s)"
  have s': "s' = s\<lparr>cs_grp := g', cs_conv := ?c\<rparr>" "dcr_success r"
    using del g d \<open>ok\<close> by (auto simp: ChatServiceCore_DeleteConversation_def rocksdb_chat_def Let_def)
  have grp: "RocksDBGroupStore_GetGroup R J g' gid = Some (g\<lparr>gd_status := 1, gd_member_count := 0\<rparr>)" "\<not> RocksDBGroupStore_IsMember R g' gid w" for w
    using store_env.gs_get_group [OF env e(1)] store_env.gs_is_member [OF env e(1) id] e(2) by (simp_all add: without_members_def)
  have list: "x \<in> set (RocksDBConversationStore_GetList R J ?c w) \<longleftrightarrow> x \<in> set (RocksDBConversationStore_GetList R J (cs_conv s) w) \<and>
      \<not> (RocksDBGroupStore_IsMember R (cs_grp s) gid w \<and> cd_conversation_id x = gid)" if w: "id_ok w" for w x
  proof -
    have ci: "conversation_inv R J ?c" using f by simp
    have "conversation_abs R J ?c (w, k) = Some x \<longleftrightarrow> conversation_abs R J (cs_conv s) (w, k) = Some x \<and>
        \<not> (RocksDBGroupStore_IsMember R (cs_grp s) gid w \<and> cd_conversation_id x = gid)" for k
      using f us store_env.cs_conversation_data [OF env inv(1), of w k x] by auto
    then show ?thesis using store_env.listed_iff [OF env ci w, of x] store_env.listed_iff [OF env inv(1) w, of x] by blast
  qed
  from g grp list s' show ?thesis by simp
qed

text \<open>In the group of \<open>a\<close>, \<open>b\<close> and \<open>c\<close>, member \<open>b\<close> is refused.\<close>

theorem DeleteConversation_outcome_witness:
  "ChatServiceCore_DeleteConversation (rocksdb_chat alist_db text_json) (chat_demo1\<lparr>cs_grp := group_demo1\<rparr>) ''b'' group_demo_id GROUP =
     (delete_failed EC_NOT_GROUP_OWNER, chat_demo1\<lparr>cs_grp := group_demo1\<rparr>)"
proof -
  let ?s = "chat_demo1\<lparr>cs_grp := group_demo1\<rparr>"
  obtain r s' where d: "ChatServiceCore_DeleteConversation (rocksdb_chat alist_db text_json) ?s ''b'' group_demo_id GROUP = (r, s')" by fastforce
  have "{w. RocksDBGroupStore_IsMember alist_db group_demo1 group_demo_id w} = {''a'', ''b'', ''c''}"
    using alist_env.gs_is_member [OF group_demo1_facts(1) group_demo_id_ok] by (auto simp: group_demo1_facts(2))
  then have few: "card {w. RocksDBGroupStore_IsMember alist_db (cs_grp ?s) group_demo_id w} \<le> 10000" by (simp add: group_demo_unique(2) [simplified])
  obtain g where "RocksDBGroupStore_GetGroup alist_db text_json group_demo1 group_demo_id = Some g" "gd_owner_id g = ''a''"
    using group_demo1_facts(3) alist_env.gs_get_group [OF group_demo1_facts(1)] by auto
  moreover have "group_demo_id \<noteq> []" using group_demo_id_ok by (simp add: id_ok_def)
  ultimately show ?thesis
    using DeleteConversation_outcome [OF alist_reliable.reliable_env_axioms _ _ few d] chat_demo1_facts(2) group_demo1_facts(1) d by simp
qed

end
