(* ===== verification/Chat_Handler.thy ===== *)
theory Chat_Handler
  imports Chat_Properties Grpc_Auth
begin

text \<open>
  \<^verbatim>\<open>backend/chatsvr/internal/handler/chat_handler.cpp\<close>: the gRPC methods of the chat service.
  Every method takes the caller from the token; the other arguments are the fields it reads from
  the request.  Logging is left out.
\<close>

section \<open>Responses\<close>

definition kMaxPullOfflineLimit :: int where "kMaxPullOfflineLimit = 200"
definition kMaxHistoryLimit :: int where "kMaxHistoryLimit = 100"

definition chat_SetCommonOk :: CommonResponse where
  "chat_SetCommonOk = \<lparr>resp_code = ErrorCodeToInt EC_OK, resp_message = ErrorCodeToString EC_OK\<rparr>"

definition chat_SetCommonFail :: "ErrorCode \<Rightarrow> string \<Rightarrow> CommonResponse" where
  "chat_SetCommonFail ec message =
     \<lparr>resp_code = ErrorCodeToInt ec, resp_message = (if message = [] then ErrorCodeToString ec else message)\<rparr>"

definition MapSendErrorToCode :: "string \<Rightarrow> ErrorCode" where
  "MapSendErrorToCode e =
     (if e = [] then EC_OK
      else if e = ''invalid params'' then EC_INVALID_PARAM
      else if e = ''not a group member'' then EC_NOT_GROUP_MEMBER
      else if e = ''save failed'' \<or> e = ''conv_registry not set'' then EC_MSG_SEND_FAILED
      else EC_INTERNAL_ERROR)"

definition MapRecallErrorToCode :: "string \<Rightarrow> ErrorCode" where
  "MapRecallErrorToCode e =
     (if e = [] then EC_OK
      else if e = ''invalid params'' then EC_INVALID_PARAM
      else if e = ''message not found'' then EC_MSG_NOT_FOUND
      else if e = ''not allowed to recall'' then EC_RECALL_NOT_ALLOWED
      else if e = ''recall timeout'' then EC_RECALL_TIMEOUT
      else if e = ''mark recalled failed'' then EC_INTERNAL_ERROR
      else EC_INTERNAL_ERROR)"

record ChatMessage =
  cmsg_msg_id :: string
  cmsg_from_user_id :: string
  cmsg_to_id :: string
  cmsg_chat_type :: int
  cmsg_content :: string
  cmsg_media_url :: string
  cmsg_media_type :: string
  cmsg_mentions :: "string list"
  cmsg_reply_to_msg_id :: string
  cmsg_timestamp :: int
  cmsg_status :: int
  cmsg_recall_at :: int

definition FillChatMessage :: "MessageData \<Rightarrow> ChatMessage" where
  "FillChatMessage m =
     \<lparr>cmsg_msg_id = md_msg_id m, cmsg_from_user_id = md_from_user_id m, cmsg_to_id = md_to_id m, cmsg_chat_type = md_chat_type m,
      cmsg_content = md_content m, cmsg_media_url = md_media_url m, cmsg_media_type = md_media_type m, cmsg_mentions = md_mentions m,
      cmsg_reply_to_msg_id = md_reply_to_msg_id m, cmsg_timestamp = md_timestamp m, cmsg_status = md_status m, cmsg_recall_at = md_recall_at m\<rparr>"

record Conversation =
  conv_chat_id :: string
  conv_chat_type :: int
  conv_peer_id :: string
  conv_peer_name :: string
  conv_peer_avatar :: string
  conv_last_message :: "ChatMessage option"
  conv_unread_count :: int
  conv_updated_at :: int
  conv_is_pinned :: bool
  conv_is_muted :: bool

definition FillConversation :: "ConversationData \<Rightarrow> MessageData option \<Rightarrow> Conversation" where
  "FillConversation c last_msg =
     \<lparr>conv_chat_id = cd_conversation_id c, conv_chat_type = cd_chat_type c, conv_peer_id = cd_peer_id c, conv_peer_name = [], conv_peer_avatar = [],
      conv_last_message = map_option FillChatMessage last_msg, conv_unread_count = cd_unread_count c, conv_updated_at = cd_updated_at c,
      conv_is_pinned = cd_is_pinned c, conv_is_muted = cd_is_muted c\<rparr>"

record SendMessageResponse = CommonResponse +
  smresp_msg_id :: string
  smresp_timestamp :: int

record PullOfflineResponse = CommonResponse +
  poresp_messages :: "ChatMessage list"
  poresp_next_cursor :: string
  poresp_has_more :: bool

record GetHistoryResponse = CommonResponse +
  ghresp_messages :: "ChatMessage list"
  ghresp_has_more :: bool

record SyncConversationsResponse = CommonResponse +
  scresp_conversations :: "Conversation list"

definition request_chat_type :: "int \<Rightarrow> ChatType" where
  "request_chat_type chat_type = (if chat_type = 2 then GROUP else PRIVATE)"

section \<open>Methods\<close>

definition ChatHandler_SendMessage ::
  "('m, 'c, 'r, 'g) ChatServiceCore \<Rightarrow> 'j nlohmann \<Rightarrow> (string \<Rightarrow> string \<Rightarrow> string) \<Rightarrow> string \<Rightarrow> int \<Rightarrow> nat list \<Rightarrow> int \<Rightarrow> ('m, 'c, 'r, 'g) ChatState
     \<Rightarrow> ServerContext \<Rightarrow> string \<Rightarrow> int \<Rightarrow> string \<Rightarrow> string \<Rightarrow> string \<Rightarrow> string list \<Rightarrow> string \<Rightarrow> SendMessageResponse \<times> ('m, 'c, 'r, 'g) ChatState" where
  "ChatHandler_SendMessage C J hmac jwt_secret now_ms draws now s context to_id chat_type content media_url media_type mentions reply_to_msg_id =
     (let uid = GetAuthenticatedUserId J hmac now_ms context jwt_secret;
          reply = (\<lambda>ec message mid ts. \<lparr>resp_code = ErrorCodeToInt ec, resp_message = message, smresp_msg_id = mid, smresp_timestamp = ts\<rparr>) in
      if uid = [] then (reply EC_TOKEN_INVALID ''token invalid or missing'' [] 0, s)
      else if to_id = [] then (reply EC_INVALID_PARAM (ErrorCodeToString EC_INVALID_PARAM) [] 0, s)
      else
        (let (result, s') = ChatServiceCore_SendMessage C draws now s uid to_id (request_chat_type chat_type) content media_url media_type mentions reply_to_msg_id
         in (if sr_success result then reply EC_OK (ErrorCodeToString EC_OK) (sr_msg_id result) (sr_timestamp result)
             else
               (let ec = MapSendErrorToCode (sr_error result)
                in reply ec (if sr_error result = [] then ErrorCodeToString ec else sr_error result) [] 0), s')))"

definition ChatHandler_RecallMessage ::
  "('m, 'c, 'r, 'g) ChatServiceCore \<Rightarrow> 'j nlohmann \<Rightarrow> (string \<Rightarrow> string \<Rightarrow> string) \<Rightarrow> string \<Rightarrow> int \<Rightarrow> int \<Rightarrow> ('m, 'c, 'r, 'g) ChatState
     \<Rightarrow> ServerContext \<Rightarrow> string \<Rightarrow> CommonResponse \<times> ('m, 'c, 'r, 'g) ChatState" where
  "ChatHandler_RecallMessage C J hmac jwt_secret now_ms now s context msg_id =
     (let uid = GetAuthenticatedUserId J hmac now_ms context jwt_secret in
      if uid = [] then (chat_SetCommonFail EC_TOKEN_INVALID [], s)
      else if msg_id = [] then (chat_SetCommonFail EC_INVALID_PARAM [], s)
      else
        (let (result, s') = ChatServiceCore_RecallMessage C now s msg_id uid
         in (if rcr_success result then chat_SetCommonOk else chat_SetCommonFail (MapRecallErrorToCode (rcr_error result)) (rcr_error result), s')))"

definition ChatHandler_PullOffline ::
  "('m, 'c, 'r, 'g) ChatServiceCore \<Rightarrow> 'j nlohmann \<Rightarrow> (string \<Rightarrow> string \<Rightarrow> string) \<Rightarrow> string \<Rightarrow> int \<Rightarrow> ('m, 'c, 'r, 'g) ChatState
     \<Rightarrow> ServerContext \<Rightarrow> int \<Rightarrow> string \<Rightarrow> PullOfflineResponse" where
  "ChatHandler_PullOffline C J hmac jwt_secret now_ms s context req_limit cursor =
     (let uid = GetAuthenticatedUserId J hmac now_ms context jwt_secret in
      if uid = []
      then \<lparr>resp_code = ErrorCodeToInt EC_TOKEN_INVALID, resp_message = ''token invalid or missing'', poresp_messages = [],
            poresp_next_cursor = [], poresp_has_more = False\<rparr>
      else
        (let limit = (if req_limit > 0 then min req_limit kMaxPullOfflineLimit else 100);
             result = ChatServiceCore_PullOffline C s uid cursor limit
         in \<lparr>resp_code = ErrorCodeToInt EC_OK, resp_message = ErrorCodeToString EC_OK, poresp_messages = map FillChatMessage (or_messages result),
             poresp_next_cursor = or_next_cursor result, poresp_has_more = or_has_more result\<rparr>))"

definition ChatHandler_MarkRead ::
  "('m, 'c, 'r, 'g) ChatServiceCore \<Rightarrow> 'j nlohmann \<Rightarrow> (string \<Rightarrow> string \<Rightarrow> string) \<Rightarrow> string \<Rightarrow> int \<Rightarrow> ('m, 'c, 'r, 'g) ChatState
     \<Rightarrow> ServerContext \<Rightarrow> string \<Rightarrow> int \<Rightarrow> string \<Rightarrow> CommonResponse \<times> ('m, 'c, 'r, 'g) ChatState" where
  "ChatHandler_MarkRead C J hmac jwt_secret now_ms s context chat_id chat_type last_msg_id =
     (let uid = GetAuthenticatedUserId J hmac now_ms context jwt_secret in
      if uid = [] then (chat_SetCommonFail EC_TOKEN_INVALID [], s)
      else if chat_id = [] then (chat_SetCommonFail EC_INVALID_PARAM [], s)
      else
        (let (ok, s') = ChatServiceCore_MarkRead C s uid chat_id (request_chat_type chat_type) last_msg_id
         in (if ok then chat_SetCommonOk else chat_SetCommonFail EC_CONVERSATION_NOT_FOUND [], s')))"

definition ChatHandler_GetHistory ::
  "('m, 'c, 'r, 'g) ChatServiceCore \<Rightarrow> 'j nlohmann \<Rightarrow> (string \<Rightarrow> string \<Rightarrow> string) \<Rightarrow> string \<Rightarrow> int \<Rightarrow> ('m, 'c, 'r, 'g) ChatState
     \<Rightarrow> ServerContext \<Rightarrow> string \<Rightarrow> int \<Rightarrow> string \<Rightarrow> int \<Rightarrow> GetHistoryResponse \<times> ('m, 'c, 'r, 'g) ChatState" where
  "ChatHandler_GetHistory C J hmac jwt_secret now_ms s context chat_id chat_type before_msg_id req_limit =
     (let uid = GetAuthenticatedUserId J hmac now_ms context jwt_secret;
          fail = (\<lambda>ec message. \<lparr>resp_code = ErrorCodeToInt ec, resp_message = message, ghresp_messages = [], ghresp_has_more = False\<rparr>) in
      if uid = [] then (fail EC_TOKEN_INVALID ''token invalid or missing'', s)
      else if chat_id = [] then (fail EC_INVALID_PARAM (ErrorCodeToString EC_INVALID_PARAM), s)
      else
        (let limit = (if req_limit > 0 then min req_limit kMaxHistoryLimit else 50);
             (messages, s') = ChatServiceCore_GetHistory C s uid chat_id (request_chat_type chat_type) before_msg_id limit
         in (\<lparr>resp_code = ErrorCodeToInt EC_OK, resp_message = ErrorCodeToString EC_OK, ghresp_messages = map FillChatMessage messages,
              ghresp_has_more = (wrap32 (int (length messages)) = limit)\<rparr>, s')))"

definition ChatHandler_SyncConversations ::
  "('m, 'c, 'r, 'g) ChatServiceCore \<Rightarrow> 'j nlohmann \<Rightarrow> (string \<Rightarrow> string \<Rightarrow> string) \<Rightarrow> string \<Rightarrow> int \<Rightarrow> ('m, 'c, 'r, 'g) ChatState
     \<Rightarrow> ServerContext \<Rightarrow> SyncConversationsResponse" where
  "ChatHandler_SyncConversations C J hmac jwt_secret now_ms s context =
     (let uid = GetAuthenticatedUserId J hmac now_ms context jwt_secret in
      if uid = [] then \<lparr>resp_code = ErrorCodeToInt EC_TOKEN_INVALID, resp_message = ''token invalid or missing'', scresp_conversations = []\<rparr>
      else
        \<lparr>resp_code = ErrorCodeToInt EC_OK, resp_message = ErrorCodeToString EC_OK,
         scresp_conversations = map (\<lambda>c. FillConversation c
             (if cd_last_msg_id c = [] then None else ChatServiceCore_GetMessageById C s (cd_last_msg_id c)))
           (ChatServiceCore_SyncConversations C s uid)\<rparr>)"

definition ChatHandler_DeleteConversation ::
  "('m, 'c, 'r, 'g) ChatServiceCore \<Rightarrow> 'j nlohmann \<Rightarrow> (string \<Rightarrow> string \<Rightarrow> string) \<Rightarrow> string \<Rightarrow> int \<Rightarrow> ('m, 'c, 'r, 'g) ChatState
     \<Rightarrow> ServerContext \<Rightarrow> string \<Rightarrow> int \<Rightarrow> CommonResponse \<times> ('m, 'c, 'r, 'g) ChatState" where
  "ChatHandler_DeleteConversation C J hmac jwt_secret now_ms s context chat_id chat_type =
     (let uid = GetAuthenticatedUserId J hmac now_ms context jwt_secret in
      if uid = [] then (chat_SetCommonFail EC_TOKEN_INVALID [], s)
      else if chat_id = [] then (chat_SetCommonFail EC_INVALID_PARAM [], s)
      else
        (let (result, s') = ChatServiceCore_DeleteConversation C s uid chat_id (request_chat_type chat_type)
         in (if dcr_success result then chat_SetCommonOk else chat_SetCommonFail (dcr_error result) [], s')))"

section \<open>What a call does for its caller\<close>

datatype ChatRpc =
    Chat_SendMessage string int string string string "string list" string
  | Chat_RecallMessage string
  | Chat_PullOffline int string
  | Chat_MarkRead string int string
  | Chat_GetHistory string int string int
  | Chat_SyncConversations
  | Chat_DeleteConversation string int

text \<open>The code a call reports and the state after it.\<close>

fun chat_dispatch ::
  "('m, 'c, 'r, 'g) ChatServiceCore \<Rightarrow> 'j nlohmann \<Rightarrow> (string \<Rightarrow> string \<Rightarrow> string) \<Rightarrow> string \<Rightarrow> int \<Rightarrow> nat list \<Rightarrow> int \<Rightarrow> ('m, 'c, 'r, 'g) ChatState
     \<Rightarrow> ServerContext \<Rightarrow> ChatRpc \<Rightarrow> int \<times> ('m, 'c, 'r, 'g) ChatState" where
  "chat_dispatch C J hmac k now_ms draws now s x (Chat_SendMessage to_id ct content url mt mentions rep) =
     map_prod resp_code id (ChatHandler_SendMessage C J hmac k now_ms draws now s x to_id ct content url mt mentions rep)"
| "chat_dispatch C J hmac k now_ms draws now s x (Chat_RecallMessage mid) =
     map_prod resp_code id (ChatHandler_RecallMessage C J hmac k now_ms now s x mid)"
| "chat_dispatch C J hmac k now_ms draws now s x (Chat_PullOffline limit cursor) =
     (resp_code (ChatHandler_PullOffline C J hmac k now_ms s x limit cursor), s)"
| "chat_dispatch C J hmac k now_ms draws now s x (Chat_MarkRead chat_id ct mid) =
     map_prod resp_code id (ChatHandler_MarkRead C J hmac k now_ms s x chat_id ct mid)"
| "chat_dispatch C J hmac k now_ms draws now s x (Chat_GetHistory chat_id ct before limit) =
     map_prod resp_code id (ChatHandler_GetHistory C J hmac k now_ms s x chat_id ct before limit)"
| "chat_dispatch C J hmac k now_ms draws now s x Chat_SyncConversations =
     (resp_code (ChatHandler_SyncConversations C J hmac k now_ms s x), s)"
| "chat_dispatch C J hmac k now_ms draws now s x (Chat_DeleteConversation chat_id ct) =
     map_prod resp_code id (ChatHandler_DeleteConversation C J hmac k now_ms s x chat_id ct)"

lemmas chat_handler_defs = ChatHandler_SendMessage_def ChatHandler_RecallMessage_def ChatHandler_PullOffline_def ChatHandler_MarkRead_def
  ChatHandler_GetHistory_def ChatHandler_SyncConversations_def ChatHandler_DeleteConversation_def

lemma chat_dispatch_unauthenticated:
  "GetAuthenticatedUserId J hmac now_ms x k = [] \<Longrightarrow> chat_dispatch C J hmac k now_ms draws now s x rpc = (EC_TOKEN_INVALID, s)"
  by (cases rpc) (simp_all add: chat_handler_defs chat_SetCommonFail_def ErrorCodeToInt_def)

text \<open>Requests whose ids can be part of a key.\<close>

fun chat_rpc_ok :: "ChatRpc \<Rightarrow> bool" where
  "chat_rpc_ok (Chat_SendMessage to_id ct content url mt mentions rep) = clean to_id"
| "chat_rpc_ok rpc = True"

text \<open>Every message that differs is one of \<open>u\<close>.\<close>

definition messages_by :: "string \<Rightarrow> MessageState \<Rightarrow> MessageState \<Rightarrow> bool" where
  "messages_by u a b \<longleftrightarrow> (\<forall>mid. am_msg b mid \<noteq> am_msg a mid \<longrightarrow> (\<exists>d. am_msg b mid = Some d \<and> md_from_user_id d = u))"

lemma messages_by_same: "am_msg b = am_msg a \<Longrightarrow> messages_by u a b"
  by (simp add: messages_by_def)

lemma messages_by_update: "md_from_user_id d = u \<Longrightarrow> am_msg b = (am_msg a)(mid \<mapsto> d) \<Longrightarrow> messages_by u a b"
  by (simp add: messages_by_def)

context chat_stores
begin

lemma SendMessage_by:
  assumes "chat_inv s" "account_id u" "clean to_id" "clock_ok now"
    and "ChatServiceCore_SendMessage C draws now s u to_id ct content media_url media_type mentions reply = (r, s')"
  shows "messages_by u (mabs (cs_msg s)) (mabs (cs_msg s'))"
proof (cases "to_id = []")
  case True
  then have "s' = s" using assms(5) by (simp add: ChatServiceCore_SendMessage_def)
  then show ?thesis by (simp add: messages_by_same)
next
  case False
  let ?cid = "conversation_for u to_id ct"
  let ?msg = "new_message draws now u to_id ?cid ct content media_url media_type mentions reply"
  have ids: "u \<noteq> []" "id_ok to_id" using account_id_ok [OF assms(2)] assms(3) False by (auto simp: id_ok_def)
  have inv: "minv (cs_msg s)" "ginv (cs_grp s)" using assms(1) by (simp_all add: chat_inv_def)
  have ok: "message_ok ?msg" using new_message_ok assms(2-4) False by blast
  have us: "\<forall>v \<in> set (receivers_of (cs_grp s) u to_id ct). id_ok v" using receivers_ok [OF inv(2) ids(2)] by blast
  show ?thesis
  proof (rule SendMessage_cases [OF ids(1) False assms(5)])
    assume "s' = s"
    then show ?thesis by (simp add: messages_by_same)
  next
    fix reg m1
    assume a: "ms_Save MS (cs_msg s) ?msg = (False, m1)" "s' = s\<lparr>cs_reg := reg, cs_msg := m1\<rparr>"
    then show ?thesis using ms.save [OF inv(1) a(1) ok] by (simp add: messages_by_same)
  next
    fix reg m1
    let ?m = "fold (\<lambda>u m. snd (ms_AddToOffline MS m u (GenerateMsgId draws))) (receivers_of (cs_grp s) u to_id ct) m1"
    let ?c = "fold (\<lambda>v. deliver CS v (conv_entry ?cid ct (if ct = PRIVATE then u else to_id) (GenerateMsgId draws) now)) (receivers_of (cs_grp s) u to_id ct)
          (snd (cst_Upsert CS (cs_conv s) u (conv_entry ?cid ct to_id (GenerateMsgId draws) now)))"
    assume a: "ms_Save MS (cs_msg s) ?msg = (True, m1)" "s' = s\<lparr>cs_reg := reg, cs_msg := ?m, cs_conv := ?c\<rparr>"
    have e: "minv m1" "am_msg (mabs m1) = (am_msg (mabs (cs_msg s)))(md_msg_id ?msg \<mapsto> ?msg)" using ms.save [OF inv(1) a(1) ok] by simp_all
    from queue_loop [OF e(1) us] e(2) a(2) show ?thesis by (intro messages_by_update [of ?msg]) (simp_all, simp add: new_message_def)
  qed
qed

lemma RecallMessage_by:
  assumes "chat_inv s" "clock_ok now" "ChatServiceCore_RecallMessage C now s mid u = (r, s')"
  shows "messages_by u (mabs (cs_msg s)) (mabs (cs_msg s'))"
proof (cases "\<exists>d. am_msg (mabs (cs_msg s)) mid = Some d \<and> md_from_user_id d = u \<and> s' \<noteq> s")
  case False
  have inv: "minv (cs_msg s)" using assms(1) by (simp add: chat_inv_def)
  have "s' = s" using False assms(3) by (auto simp: ChatServiceCore_RecallMessage_def ms.get_by_id [OF inv] split: if_splits option.splits)
  then show ?thesis by (simp add: messages_by_same)
next
  case True
  have inv: "minv (cs_msg s)" using assms(1) by (simp add: chat_inv_def)
  from True obtain d where d: "am_msg (mabs (cs_msg s)) mid = Some d" "md_from_user_id d = u" "s' \<noteq> s" by blast
  obtain ok m where m: "ms_MarkRecalled MS (cs_msg s) mid now = (ok, m)" by fastforce
  have "s' = s\<lparr>cs_msg := m\<rparr>"
    using assms(3) d(3) m by (auto simp: ChatServiceCore_RecallMessage_def split: if_splits option.splits bool.splits)
  moreover have "messages_by u (mabs (cs_msg s)) (mabs m)"
    using ms.mark_recalled [OF inv m clock_ok_int64 [OF assms(2)]] d(1,2)
    by (cases ok) (auto intro: messages_by_same messages_by_update [of "d\<lparr>md_status := 1, md_recall_at := now\<rparr>"])
  ultimately show ?thesis by simp
qed

lemma GetHistory_state: "\<exists>reg. snd (ChatServiceCore_GetHistory C s u chat_id ct before limit) = s\<lparr>cs_reg := reg\<rparr>"
proof -
  have "\<exists>reg. s = s\<lparr>cs_reg := reg\<rparr>" by (rule exI [of _ "cs_reg s"]) simp
  then show ?thesis using ResolveConversationId_state [of s u chat_id ct]
    by (auto simp: ChatServiceCore_GetHistory_def Let_def split: prod.splits)
qed

lemma MarkRead_by:
  assumes "chat_inv s" "account_id u" "ChatServiceCore_MarkRead C s u chat_id ct mid = (ok, s')"
  shows "messages_by u (mabs (cs_msg s)) (mabs (cs_msg s'))"
proof -
  have inv: "minv (cs_msg s)" using assms(1) by (simp add: chat_inv_def)
  obtain k m where m: "ms_ClearOffline MS (cs_msg s) u mid = (k, m)" by fastforce
  have a: "am_msg (mabs m) = am_msg (mabs (cs_msg s))" using ms.clear_offline [OF inv m account_id_ok [OF assms(2)]] by (cases k) auto
  obtain cid s1 where r: "ResolveConversationId C s u chat_id ct = (cid, s1)" by fastforce
  have "cs_msg s1 = cs_msg s" using ResolveConversationId_state [of s u chat_id ct] r by auto
  then have "cs_msg s' = cs_msg s \<or> cs_msg s' = m"
    using assms(3) r m by (auto simp: ChatServiceCore_MarkRead_def Let_def split: if_splits prod.splits)
  with a show ?thesis by (auto intro: messages_by_same)
qed

lemma chat_dispatch_by:
  assumes "GetAuthenticatedUserId J hmac now_ms x k = u" "account_id u" "chat_rpc_ok rpc" "draws_ok 16 draws" "clock_ok now" "chat_inv s"
    and "chat_dispatch C J hmac k now_ms draws now s x rpc = (ec, s')"
  shows "(s' = s \<or> chat_step clean C GS s s') \<and> messages_by u (mabs (cs_msg s)) (mabs (cs_msg s'))"
proof -
  have u: "u \<noteq> []" using assms(2) by (auto simp: account_id_def)
  show ?thesis
  proof (cases "s' = s")
    case True
    then show ?thesis by (simp add: messages_by_same)
  next
    case False
    show ?thesis
    proof (cases rpc)
      case (Chat_SendMessage to_id ct content url mt mentions rep)
      obtain r t where r: "ChatServiceCore_SendMessage C draws now s u to_id (request_chat_type ct) content url mt mentions rep = (r, t)" by fastforce
      have "s' = t" using assms(1,7) u False r Chat_SendMessage by (auto simp: ChatHandler_SendMessage_def Let_def split: if_splits)
      then show ?thesis
        using chat_step.send [OF assms(2) _ assms(4,5) r] SendMessage_by [OF assms(6,2) _ assms(5) r] assms(3) Chat_SendMessage by auto
    next
      case (Chat_RecallMessage mid)
      obtain r t where r: "ChatServiceCore_RecallMessage C now s mid u = (r, t)" by fastforce
      have "s' = t" using assms(1,7) u False r Chat_RecallMessage by (auto simp: ChatHandler_RecallMessage_def split: if_splits)
      then show ?thesis using chat_step.recall [OF assms(5) r] RecallMessage_by [OF assms(6,5) r] by blast
    next
      case (Chat_MarkRead chat_id ct mid)
      obtain ok t where r: "ChatServiceCore_MarkRead C s u chat_id (request_chat_type ct) mid = (ok, t)" by fastforce
      have "s' = t" using assms(1,7) u False r Chat_MarkRead by (auto simp: ChatHandler_MarkRead_def split: if_splits)
      then show ?thesis using chat_step.read [OF assms(2) r] MarkRead_by [OF assms(6,2) r] by blast
    next
      case (Chat_GetHistory chat_id ct before req)
      let ?l = "if req > 0 then min req kMaxHistoryLimit else 50"
      obtain ms t where r: "ChatServiceCore_GetHistory C s u chat_id (request_chat_type ct) before ?l = (ms, t)" by fastforce
      have "s' = t" using assms(1,7) u False r Chat_GetHistory by (auto simp: ChatHandler_GetHistory_def Let_def split: if_splits)
      moreover have "cs_msg t = cs_msg s" using GetHistory_state [of s u chat_id "request_chat_type ct" before ?l] r by auto
      ultimately show ?thesis using chat_step.history [OF r] by (auto intro: messages_by_same)
    next
      case (Chat_DeleteConversation chat_id ct)
      obtain r t where r: "ChatServiceCore_DeleteConversation C s u chat_id (request_chat_type ct) = (r, t)" by fastforce
      have "s' = t" using assms(1,7) u False r Chat_DeleteConversation by (auto simp: ChatHandler_DeleteConversation_def split: if_splits)
      moreover have "cs_msg t = cs_msg s"
        using r by (auto simp: ChatServiceCore_DeleteConversation_def Let_def split: if_splits option.splits bool.splits prod.splits)
      ultimately show ?thesis using chat_step.delete [OF r] by (auto intro: messages_by_same)
    qed (use assms(7) False in simp_all)
  qed
qed

end

text \<open>C4: A call of the chat API acts for the caller that the token names: every message that it adds
  or marks has the caller as its sender, whatever the request says.  Without a valid token nothing changes and
  the code is \<^verbatim>\<open>TOKEN_INVALID\<close>.  The receivers and members that this call and the ones before it
  name have no colon in their ids.\<close>

theorem chat_calls_act_for_caller:
  assumes "store_env R J" "empty_chat R s0" "chat_reach clean (rocksdb_chat R J) (RocksDBGroupStore R J) s0 s"
    and "GetAuthenticatedUserId J hmac now_ms x jwt_secret = uid" "uid = [] \<or> account_id uid"
    and "chat_rpc_ok rpc" "draws_ok 16 draws" "clock_ok now"
    and "chat_dispatch (rocksdb_chat R J) J hmac jwt_secret now_ms draws now s x rpc = (ec, s')"
  shows "(uid = [] \<longrightarrow> ec = EC_TOKEN_INVALID \<and> s' = s) \<and>
    chat_reach clean (rocksdb_chat R J) (RocksDBGroupStore R J) s0 s' \<and>
    (\<forall>mid. ChatServiceCore_GetMessageById (rocksdb_chat R J) s' mid \<noteq> ChatServiceCore_GetMessageById (rocksdb_chat R J) s mid \<longrightarrow>
      (\<exists>d. ChatServiceCore_GetMessageById (rocksdb_chat R J) s' mid = Some d \<and> md_from_user_id d = uid))"
proof (cases "uid = []")
  case True
  then have "(ec, s') = (EC_TOKEN_INVALID, s)" using assms(4,9) chat_dispatch_unauthenticated by metis
  with assms(3) show ?thesis by simp
next
  case False
  note c = store_env.rocksdb_chat_stores [OF assms(1)]
  have u: "account_id uid" using False assms(5) by blast
  have inv: "chat_stores.chat_inv (message_inv R J) (conversation_inv R J) (group_inv R J) (group_abs R J) s"
    using chat_stores.chat_reach_effect [OF c, folded rocksdb_chat_def, OF assms(3) store_env.empty_chat_state(6) [OF assms(1,2)]]
      store_env.empty_chat_state(4) [OF assms(1,2)] by simp
  note e = chat_stores.chat_dispatch_by [OF c assms(4) u assms(6-8) inv, folded rocksdb_chat_def, OF assms(9)]
  have r: "chat_reach clean (rocksdb_chat R J) (RocksDBGroupStore R J) s0 s'" using e assms(3) chat_reach.step by blast
  have m: "message_inv R J (cs_msg s)" "message_inv R J (cs_msg s')"
    using store_env.chat_reach_facts(1) [OF assms(1,2)] assms(3) r by blast+
  from e r False show ?thesis
    unfolding GetMessageById_eq [OF assms(1) m(1)] GetMessageById_eq [OF assms(1) m(2)] messages_by_def by blast
qed

theorem chat_calls_act_for_caller_witness:
  "let s' = snd (chat_dispatch (rocksdb_chat alist_db text_json) text_json (\<lambda>k d. rev d) ''key'' 0 (chat_demo_draws 5) 2000 chat_demo1
        (demo_context bob) (Chat_RecallMessage (md_msg_id hello)))
   in chat_reach clean (rocksdb_chat alist_db text_json) (RocksDBGroupStore alist_db text_json) chat_demo0 s' \<and>
      {mid. ChatServiceCore_GetMessageById (rocksdb_chat alist_db text_json) s' mid \<noteq>
        ChatServiceCore_GetMessageById (rocksdb_chat alist_db text_json) chat_demo1 mid}
      \<subseteq> {mid. \<exists>d. ChatServiceCore_GetMessageById (rocksdb_chat alist_db text_json) s' mid = Some d \<and> md_from_user_id d = bob}"
  using chat_calls_act_for_caller [OF alist_env.store_env_axioms chat_demo0_empty chat_demo1_reach demo_context_caller [of bob] _ _
      chat_demo_draws_ok [of 5] demo_clock(2) prod.collapse [symmetric], of "Chat_RecallMessage (md_msg_id hello)"] chat_demo_ids(2,4)
  by (auto simp: id_ok_def Let_def)

end
