(* ===== verification/Chat_Paging.thy ===== *)
theory Chat_Paging
  imports Chat_Properties
begin

text \<open>
  Paging as a client does it: asking for the page before the last message it has, until a page
  is empty, and pulling the offline queue with the cursor of the previous page, until there is no more.
\<close>

section \<open>Lists ordered newest first\<close>

definition distinct_times :: "MessageData set \<Rightarrow> bool" where
  "distinct_times D \<longleftrightarrow> (\<forall>d \<in> D. \<forall>e \<in> D. md_timestamp d = md_timestamp e \<longrightarrow> d = e)"

lemma newest_first_split:
  assumes "sorted_wrt newest_first (xs @ y # zs)" "distinct_times (set (xs @ y # zs))"
  shows "\<forall>x \<in> set xs. md_timestamp y < md_timestamp x" "\<forall>z \<in> set zs. md_timestamp z < md_timestamp y"
proof -
  have strict: "md_timestamp b < md_timestamp a" if "newest_first a b" "a \<in> set (xs @ y # zs)" "b \<in> set (xs @ y # zs)" for a b
    using that assms(2) unfolding distinct_times_def newest_first_def by fastforce
  show "\<forall>x \<in> set xs. md_timestamp y < md_timestamp x" "\<forall>z \<in> set zs. md_timestamp z < md_timestamp y"
    using assms(1) strict by (auto simp: sorted_wrt_append)
qed

text \<open>What is older than the message at \<open>j\<close> is a rest of the list, and what the rest leaves out after \<open>j\<close> has the same time stamp.\<close>

lemma older_rest:
  assumes "sorted_wrt newest_first ms" "j < length ms"
  obtains k where "j < k" "k \<le> length ms" "filter (\<lambda>d. md_timestamp d < md_timestamp (ms ! j)) ms = drop k ms"
    "\<And>i. j < i \<Longrightarrow> i < k \<Longrightarrow> md_timestamp (ms ! i) = md_timestamp (ms ! j)"
proof -
  let ?t = "md_timestamp (ms ! j)" and ?k = "length (takeWhile (\<lambda>d. md_timestamp (ms ! j) \<le> md_timestamp d) ms)"
  have order: "md_timestamp (ms ! b) \<le> md_timestamp (ms ! a)" if "a \<le> b" "b < length ms" for a b
    using that sorted_wrt_nth_less [OF assms(1), of a b] by (cases "a = b") (auto simp: newest_first_def)
  have "filter (\<lambda>d. md_timestamp d < t) xs = dropWhile (\<lambda>d. t \<le> md_timestamp d) xs" if "sorted_wrt newest_first xs" for xs t
    using that
  proof (induction xs)
    case (Cons x xs)
    then have "md_timestamp x < t \<Longrightarrow> filter (\<lambda>d. md_timestamp d < t) xs = xs"
      by (intro filter_True) (auto simp: newest_first_def)
    with Cons show ?case by simp
  qed simp
  then have eq: "filter (\<lambda>d. md_timestamp d < ?t) ms = drop ?k ms" using assms(1) by (simp add: dropWhile_eq_drop)
  have le: "?k \<le> length ms" by (rule length_takeWhile_le)
  have "j < ?k"
  proof (rule ccontr)
    assume "\<not> j < ?k"
    then have "?k \<le> j" "?k < length ms" using assms(2) by simp_all
    then have "\<not> ?t \<le> md_timestamp (ms ! ?k)" using nth_length_takeWhile by blast
    with order [OF \<open>?k \<le> j\<close> assms(2)] show False by simp
  qed
  moreover have "md_timestamp (ms ! i) = ?t" if "j < i" "i < ?k" for i
  proof -
    have "ms ! i \<in> set (takeWhile (\<lambda>d. ?t \<le> md_timestamp d) ms)" using that(2) by (metis nth_mem takeWhile_nth)
    then have "?t \<le> md_timestamp (ms ! i)" by (rule set_takeWhileD [THEN conjunct2])
    with order [of j i] that le show ?thesis by simp
  qed
  ultimately show thesis using that le eq by blast
qed

lemma drop_to_cursor:
  assumes "sorted_wrt newest_first (xs @ y # zs)" "distinct_times (set (xs @ y # zs))" "\<forall>d \<in> set (xs @ y # zs). message_ok d"
  shows "tl (dropWhile (\<lambda>d. RevTs (md_timestamp d) \<noteq> RevTs (md_timestamp y)) (xs @ y # zs)) = zs"
proof -
  have "\<forall>x \<in> set xs. RevTs (md_timestamp x) \<noteq> RevTs (md_timestamp y)"
    using newest_first_split(1) [OF assms(1,2)] assms(3) by (auto simp: message_ok_def RevTs_eq_iff)
  then have "dropWhile (\<lambda>d. RevTs (md_timestamp d) \<noteq> RevTs (md_timestamp y)) (xs @ y # zs) = y # zs"
    by (subst dropWhile_append2) auto
  then show ?thesis by simp
qed

lemma in_drop_nth: "d \<in> set (drop n xs) \<longleftrightarrow> (\<exists>i. n \<le> i \<and> i < length xs \<and> d = xs ! i)"
proof
  assume "d \<in> set (drop n xs)"
  then obtain i where "i < length (drop n xs)" "d = drop n xs ! i" by (auto simp: in_set_conv_nth)
  then show "\<exists>i. n \<le> i \<and> i < length xs \<and> d = xs ! i" by (intro exI [of _ "n + i"]) simp
next
  assume "\<exists>i. n \<le> i \<and> i < length xs \<and> d = xs ! i"
  then obtain i where i: "n \<le> i" "i < length xs" "d = xs ! i" by blast
  then have "d = drop n xs ! (i - n)" "i - n < length (drop n xs)" by simp_all
  then show "d \<in> set (drop n xs)" by (metis nth_mem)
qed


text \<open>The element after which a rest of a list starts.\<close>

lemma rest_split: "0 < k \<Longrightarrow> k \<le> length ms \<Longrightarrow> ms = take (k - 1) ms @ ms ! (k - 1) # drop k ms"
  by (metis One_nat_def Suc_pred diff_less id_take_nth_drop lessI less_le_trans zero_less_one)

text \<open>A page, and a reading of what is older than its last message.\<close>

lemma paging_step:
  assumes ms: "sorted_wrt newest_first ms" and k: "k < length ms" and n: "0 < n"
  obtains k' where "k < k'" "k' \<le> length ms" "filter (\<lambda>d. md_timestamp d < md_timestamp (last (take n (drop k ms)))) ms = drop k' ms"
    "\<And>xs. sorted_wrt newest_first xs \<Longrightarrow> set xs \<subseteq> set (drop k' ms) \<Longrightarrow>
      \<forall>d \<in> set (drop k' ms). \<exists>e \<in> set xs. md_timestamp e = md_timestamp d \<Longrightarrow>
      sorted_wrt newest_first (take n (drop k ms) @ xs) \<and> set (take n (drop k ms) @ xs) \<subseteq> set (drop k ms) \<and>
      (\<forall>d \<in> set (drop k ms). \<exists>e \<in> set (take n (drop k ms) @ xs). md_timestamp e = md_timestamp d)"
proof -
  let ?l = "min n (length ms - k)" and ?pg = "take n (drop k ms)"
  have l: "0 < ?l" "k + ?l \<le> length ms" using n k by auto
  have pg: "?pg \<noteq> []" "last ?pg = ms ! (k + ?l - 1)"
    using l n k by (auto simp: last_conv_nth nth_append min_def intro!: arg_cong [of _ _ "(!) ms"])
  have parts: "drop k ms = ?pg @ drop (k + ?l) ms"
    by (metis append_take_drop_id drop_drop add.commute drop_all le_add2 length_drop min_def nat_le_linear take_all)
  obtain k' where k': "k + ?l - 1 < k'" "k' \<le> length ms" "filter (\<lambda>d. md_timestamp d < md_timestamp (ms ! (k + ?l - 1))) ms = drop k' ms"
    "\<And>i. k + ?l - 1 < i \<Longrightarrow> i < k' \<Longrightarrow> md_timestamp (ms ! i) = md_timestamp (ms ! (k + ?l - 1))"
    by (rule older_rest [OF ms, of "k + ?l - 1"]) (use l in linarith, blast)
  have sub: "set (drop k' ms) \<subseteq> set (drop (k + ?l) ms)" using k'(1) l by (intro set_drop_subset_set_drop) linarith
  have sorted: "sorted_wrt newest_first (?pg @ drop (k + ?l) ms)" using sorted_wrt_drop [OF ms, of k] parts by simp
  have cover: "d \<in> set (drop k' ms) \<or> (\<exists>e \<in> set ?pg. md_timestamp e = md_timestamp d)" if d: "d \<in> set (drop k ms)" for d
  proof (cases "d \<in> set ?pg")
    case False
    then have "d \<in> set (drop (k + ?l) ms)" using d parts by (metis Un_iff set_append)
    then obtain i where i: "k + ?l \<le> i" "i < length ms" "d = ms ! i" by (auto simp: in_drop_nth)
    show ?thesis
    proof (cases "i < k'")
      case True
      then have "md_timestamp d = md_timestamp (last ?pg)" using k'(4) [of i] i l pg(2) by simp
      then show ?thesis using last_in_set [OF pg(1)] by auto
    qed (use i in \<open>auto simp: in_drop_nth intro!: exI [of _ i]\<close>)
  qed auto
  show thesis
  proof (rule that [of k'])
    show "k < k'" "k' \<le> length ms" using k'(1,2) l by linarith+
    show "filter (\<lambda>d. md_timestamp d < md_timestamp (last ?pg)) ms = drop k' ms" using k'(3) pg(2) by simp
    fix xs
    assume xs: "sorted_wrt newest_first xs" "set xs \<subseteq> set (drop k' ms)" "\<forall>d \<in> set (drop k' ms). \<exists>e \<in> set xs. md_timestamp e = md_timestamp d"
    have "sorted_wrt newest_first (?pg @ xs)" using sorted xs(1,2) sub unfolding sorted_wrt_append by blast
    moreover have "set (?pg @ xs) \<subseteq> set (drop k ms)" using xs(2) sub arg_cong [OF parts, of set] unfolding set_append by blast
    moreover have "\<forall>d \<in> set (drop k ms). \<exists>e \<in> set (?pg @ xs). md_timestamp e = md_timestamp d" using cover xs(3) unfolding set_append by blast
    ultimately show "sorted_wrt newest_first (?pg @ xs) \<and> set (?pg @ xs) \<subseteq> set (drop k ms) \<and>
        (\<forall>d \<in> set (drop k ms). \<exists>e \<in> set (?pg @ xs). md_timestamp e = md_timestamp d)" by blast
  qed
qed

section \<open>History\<close>

primrec read_history ::
  "nat \<Rightarrow> ('m, 'c, 'r, 'g) ChatServiceCore \<Rightarrow> ('m, 'c, 'r, 'g) ChatState \<Rightarrow> string \<Rightarrow> string \<Rightarrow> ChatType \<Rightarrow> string \<Rightarrow> int \<Rightarrow> MessageData list" where
  "read_history 0 C s u chat_id ct before limit = []"
| "read_history (Suc n) C s u chat_id ct before limit =
     (let (page, s') = ChatServiceCore_GetHistory C s u chat_id ct before limit
      in if page = [] then [] else page @ read_history n C s' u chat_id ct (md_msg_id (last page)) limit)"

lemma dissolved_reg [simp]: "dissolved C (s\<lparr>cs_reg := r\<rparr>) gid = dissolved C s gid"
  by (simp add: dissolved_def split: option.split)

context store_env
begin

lemma read_history_rest:
  assumes "message_inv R J (cs_msg s)" "u \<noteq> []" "v \<noteq> []" "0 < limit" "\<not> (ct = GROUP \<and> dissolved (rocksdb_chat R J) s v)"
    and ms: "sorted_wrt newest_first ms"
      "\<And>d. d \<in> set ms \<Longrightarrow> am_msg (message_abs R J (cs_msg s)) (md_msg_id d) = Some d \<and> md_conversation_id d = conversation_for u v ct"
    and page: "\<And>before. RocksDBMessageStore_GetHistory R J (cs_msg s) (conversation_for u v ct) (ChatType_int ct) before limit =
      history_page (message_abs R J (cs_msg s)) ms (conversation_for u v ct) before limit"
  shows "k \<le> length ms \<Longrightarrow> history_page (message_abs R J (cs_msg s)) ms (conversation_for u v ct) before limit = take (nat limit) (drop k ms) \<Longrightarrow>
    \<exists>xs. (\<forall>reg. \<forall>n > length ms - k. read_history n (rocksdb_chat R J) (s\<lparr>cs_reg := reg\<rparr>) u v ct before limit = xs) \<and>
      sorted_wrt newest_first xs \<and> set xs \<subseteq> set (drop k ms) \<and> (\<forall>d \<in> set (drop k ms). \<exists>e \<in> set xs. md_timestamp e = md_timestamp d)"
proof (induction "length ms - k" arbitrary: k before rule: less_induct)
  case less
  let ?hp = "history_page (message_abs R J (cs_msg s)) ms (conversation_for u v ct)" and ?pg = "take (nat limit) (drop k ms)"
  have get: "\<exists>reg'. ChatServiceCore_GetHistory (rocksdb_chat R J) (s\<lparr>cs_reg := reg\<rparr>) u v ct before limit = (?pg, s\<lparr>cs_reg := reg'\<rparr>)" for reg
    using GetHistory_resolved [OF assms(2-4), of ct R J "s\<lparr>cs_reg := reg\<rparr>" before] assms(5) page less.prems(2) by auto
  show ?case
  proof (cases "k < length ms")
    case False
    have "read_history n (rocksdb_chat R J) (s\<lparr>cs_reg := reg\<rparr>) u v ct before limit = []" if "length ms - k < n" for reg n
      using get [of reg] that False by (cases n) auto
    with False show ?thesis by (intro exI [of _ "[]"]) auto
  next
    case True
    have n: "0 < nat limit" using assms(4) by simp
    obtain k' where k': "k < k'" "k' \<le> length ms" "filter (\<lambda>d. md_timestamp d < md_timestamp (last ?pg)) ms = drop k' ms"
      "\<And>xs. sorted_wrt newest_first xs \<Longrightarrow> set xs \<subseteq> set (drop k' ms) \<Longrightarrow> \<forall>d \<in> set (drop k' ms). \<exists>e \<in> set xs. md_timestamp e = md_timestamp d \<Longrightarrow>
        sorted_wrt newest_first (?pg @ xs) \<and> set (?pg @ xs) \<subseteq> set (drop k ms) \<and> (\<forall>d \<in> set (drop k ms). \<exists>e \<in> set (?pg @ xs). md_timestamp e = md_timestamp d)"
      by (rule paging_step [OF ms(1) True n]) blast
    have pg: "?pg \<noteq> []" using True n by simp
    have y: "last ?pg \<in> set ms" using last_in_set [OF pg] by (meson in_set_dropD in_set_takeD)
    then have "md_msg_id (last ?pg) \<noteq> []" using ms_message_data [OF assms(1)] ms(2) by (auto simp: message_ok_def)
    then have hp: "?hp (md_msg_id (last ?pg)) limit = take (nat limit) (drop k' ms)"
      using ms(2) [OF y] k'(3) by (simp add: history_page_def)
    obtain xs where xs: "\<And>reg m. length ms - k' < m \<Longrightarrow> read_history m (rocksdb_chat R J) (s\<lparr>cs_reg := reg\<rparr>) u v ct (md_msg_id (last ?pg)) limit = xs"
      "sorted_wrt newest_first xs" "set xs \<subseteq> set (drop k' ms)" "\<forall>d \<in> set (drop k' ms). \<exists>e \<in> set xs. md_timestamp e = md_timestamp d"
      using less.hyps [of k' "md_msg_id (last ?pg)", OF _ k'(2) hp] k'(1) True by fastforce
    have "read_history m (rocksdb_chat R J) (s\<lparr>cs_reg := reg\<rparr>) u v ct before limit = ?pg @ xs" if m: "length ms - k < m" for reg m
    proof -
      obtain m' where m': "m = Suc m'" using m by (cases m) auto
      have less: "length ms - k' < m'" using m m' k'(1,2) by linarith
      obtain reg' where "ChatServiceCore_GetHistory (rocksdb_chat R J) (s\<lparr>cs_reg := reg\<rparr>) u v ct before limit = (?pg, s\<lparr>cs_reg := reg'\<rparr>)"
        using get by blast
      then show ?thesis using pg m' xs(1) [OF less] by simp
    qed
    then show ?thesis using k'(4) [OF xs(2-4)] by blast
  qed
qed

end



section \<open>Offline queue\<close>

primrec pull_all ::
  "nat \<Rightarrow> ('m, 'c, 'r, 'g) ChatServiceCore \<Rightarrow> ('m, 'c, 'r, 'g) ChatState \<Rightarrow> string \<Rightarrow> string \<Rightarrow> int \<Rightarrow> MessageData list" where
  "pull_all 0 C s u cursor limit = []"
| "pull_all (Suc n) C s u cursor limit =
     (let r = ChatServiceCore_PullOffline C s u cursor limit
      in or_messages r @ (if or_has_more r then pull_all n C s u (or_next_cursor r) limit else []))"

lemma pull_all_rest:
  assumes qs: "sorted_wrt newest_first qs" "distinct_times (set qs)" "\<forall>d \<in> set qs. message_ok d" and "0 < lim"
    and page: "\<And>cursor. (let r = ChatServiceCore_PullOffline C s u cursor limit in (or_messages r, or_next_cursor r, or_has_more r)) = offline_page qs cursor lim"
  shows "k \<le> length qs \<Longrightarrow> length qs - k < n \<Longrightarrow> cursor = (if k = 0 then [] else RevTs (md_timestamp (qs ! (k - 1)))) \<Longrightarrow>
    pull_all n C s u cursor limit = drop k qs"
proof (induction n arbitrary: k cursor)
  case (Suc n)
  let ?r = "ChatServiceCore_PullOffline C s u cursor limit" and ?n = "nat lim"
  have rest: "(if cursor = [] then qs else tl (dropWhile (\<lambda>d. RevTs (md_timestamp d) \<noteq> cursor) qs)) = drop k qs"
  proof (cases "k = 0")
    case False
    have split: "qs = take (k - 1) qs @ qs ! (k - 1) # drop k qs" using rest_split [of k qs] False Suc.prems(1) by simp
    then have "tl (dropWhile (\<lambda>d. RevTs (md_timestamp d) \<noteq> RevTs (md_timestamp (qs ! (k - 1)))) qs) = drop k qs"
      using drop_to_cursor [of "take (k - 1) qs" "qs ! (k - 1)" "drop k qs", folded split, OF qs(1-3)] by blast
    with False Suc.prems(3) show ?thesis by simp
  qed (simp add: Suc.prems(3))
  have r: "or_messages ?r = take ?n (drop k qs)" "or_has_more ?r \<longleftrightarrow> ?n < length qs - k"
    "or_has_more ?r \<Longrightarrow> or_next_cursor ?r = RevTs (md_timestamp (qs ! (k + ?n - 1)))"
    using page [of cursor] rest assms(4) Suc.prems(1) by (auto simp: offline_page_def Let_def)
  show ?case
  proof (cases "or_has_more ?r")
    case True
    have "pull_all n C s u (or_next_cursor ?r) limit = drop (k + ?n) qs"
      by (rule Suc.IH) (use True r(2,3) Suc.prems assms(4) in auto)
    moreover have "take ?n (drop k qs) @ drop (k + ?n) qs = drop k qs" by (metis append_take_drop_id drop_drop add.commute)
    ultimately show ?thesis using True by (simp add: r(1) Let_def)
  next
    case False
    then show ?thesis using r(1,2) by (simp add: Let_def)
  qed
qed simp

text \<open>C13: Draining the offline queue, in a state that calls reach which name receivers and members without a colon in their ids, while nothing
  else happens, and if no two of the waiting messages have the same time stamp in milliseconds (if they have, the code
  repeats messages and need not come to an end).  Pulling page after page with the cursor of the last one ends,
  after no more requests than there are waiting messages and one, and has then returned every message that
  waits for the user, newest first and each exactly once.
\<close>

theorem offline_queue_drains:
  assumes "store_env R J" "empty_chat R s0" "chat_reach clean (rocksdb_chat R J) (RocksDBGroupStore R J) s0 s" "id_ok u"
    and "distinct_times {d. ChatServiceCore_GetMessageById (rocksdb_chat R J) s (md_msg_id d) = Some d \<and>
      db_Get R (cs_msg s) (KeyOffline u (md_timestamp d) (md_msg_id d)) \<noteq> None}"
  shows "\<exists>qs. sorted_wrt newest_first qs \<and>
    set qs = {d. ChatServiceCore_GetMessageById (rocksdb_chat R J) s (md_msg_id d) = Some d \<and>
      db_Get R (cs_msg s) (KeyOffline u (md_timestamp d) (md_msg_id d)) \<noteq> None} \<and>
    (\<forall>n > length qs. pull_all n (rocksdb_chat R J) s u [] limit = qs)"
proof -
  have inv: "message_inv R J (cs_msg s)" by (rule store_env.chat_reach_facts(1) [OF assms(1-3)])
  note get = GetMessageById_eq [OF assms(1) inv]
  let ?lim = "if limit \<le> 0 then 100 else limit"
  obtain qs where qs: "sorted_wrt newest_first qs"
    "set qs = {d. am_msg (message_abs R J (cs_msg s)) (md_msg_id d) = Some d \<and> (u, md_msg_id d) \<in> am_queued (message_abs R J (cs_msg s))}"
    "\<And>cursor lim. 0 < lim \<Longrightarrow> RocksDBMessageStore_PullOffline R J (cs_msg s) u cursor lim = offline_page qs cursor lim"
    using store_env.ms_pull_offline [OF assms(1) inv assms(4)] by blast
  have q: "(u, md_msg_id d) \<in> am_queued (message_abs R J (cs_msg s)) \<longleftrightarrow> db_Get R (cs_msg s) (KeyOffline u (md_timestamp d) (md_msg_id d)) \<noteq> None"
    if "am_msg (message_abs R J (cs_msg s)) (md_msg_id d) = Some d" for d
    using that assms(4) by (simp add: message_abs_def queued_iff KeyOffline_def line_key_def)
  then have set: "set qs = {d. ChatServiceCore_GetMessageById (rocksdb_chat R J) s (md_msg_id d) = Some d \<and>
      db_Get R (cs_msg s) (KeyOffline u (md_timestamp d) (md_msg_id d)) \<noteq> None}" unfolding get qs(2) by blast
  have ok: "\<forall>d \<in> set qs. message_ok d" using store_env.ms_message_data [OF assms(1) inv] qs(2) by blast
  have page: "(let r = ChatServiceCore_PullOffline (rocksdb_chat R J) s u cursor limit in (or_messages r, or_next_cursor r, or_has_more r)) =
      offline_page qs cursor ?lim" for cursor
    using qs(3) [of ?lim cursor] by (simp add: ChatServiceCore_PullOffline_def rocksdb_chat_def Let_def split: prod.splits)
  have "pull_all n (rocksdb_chat R J) s u [] limit = qs" if "length qs < n" for n
    using pull_all_rest [OF qs(1) _ ok _ page, of 0 n "[]"] assms(5) that set by simp
  with qs(1) set show ?thesis by blast
qed

theorem offline_queue_drains_witness:
  "hello \<in> set (pull_all 2 (rocksdb_chat alist_db text_json) chat_demo1 bob [] 1)"
proof -
  let ?D = "{d. ChatServiceCore_GetMessageById (rocksdb_chat alist_db text_json) chat_demo1 (md_msg_id d) = Some d \<and>
      db_Get alist_db (cs_msg chat_demo1) (KeyOffline bob (md_timestamp d) (md_msg_id d)) \<noteq> None}"
  have "(bob, md_msg_id hello) \<in> am_queued (message_abs alist_db text_json (cs_msg chat_demo1))" by (simp add: chat_demo1_facts(4))
  then have "db_Get alist_db (cs_msg chat_demo1) (KeyOffline bob (md_timestamp hello) (md_msg_id hello)) \<noteq> None"
    using demo_hello_stored GetMessageById_eq [OF alist_env.store_env_axioms chat_demo1_facts(1)]
    by (auto simp: message_abs_def queued_iff KeyOffline_def line_key_def)
  then have D: "?D = {hello}"
    using GetMessageById_eq [OF alist_env.store_env_axioms chat_demo1_facts(1)] by (auto simp: chat_demo1_facts(4) split: if_splits)
  have dist: "distinct_times ?D" unfolding D by (simp add: distinct_times_def)
  obtain qs where qs: "sorted_wrt newest_first qs" "set qs = ?D" "\<forall>n > length qs. pull_all n (rocksdb_chat alist_db text_json) chat_demo1 bob [] 1 = qs"
    using offline_queue_drains [OF alist_env.store_env_axioms chat_demo0_empty chat_demo1_reach chat_demo_ids(4) dist, of 1] by blast
  have "length qs = 1" using qs(1,2) D by (cases qs; cases "tl qs") (auto simp: newest_first_def)
  then have "pull_all 2 (rocksdb_chat alist_db text_json) chat_demo1 bob [] 1 = qs" using qs(3) by simp
  with qs(2) D show ?thesis by simp
qed

end
