(* ===== verification/File_Store.thy ===== *)
theory File_Store
  imports Swift_Utils Third_Party_Instances "HOL-Library.Monad_Syntax"
begin

text \<open>
  \<^verbatim>\<open>backend/filesvr/internal/store/file_store.{h,cpp}\<close>: the meta data of stored files, the index
  from an MD5 digest to a file, and the sessions of uploads under way, in one database.  The
  record \<open>FileStore\<close> is the abstract class, \<open>RocksDBFileStore\<close> the implementation.
\<close>

section \<open>Data\<close>

record FileMetaData =
  fm_file_id :: string
  fm_file_name :: string
  fm_content_type :: string
  fm_file_size :: int
  fm_md5 :: string
  fm_uploader_id :: string
  fm_storage_path :: string
  fm_uploaded_at :: int

record UploadSessionData =
  us_upload_id :: string
  us_user_id :: string
  us_file_name :: string
  us_content_type :: string
  us_file_size :: int
  us_md5 :: string
  us_msg_id :: string
  us_temp_path :: string
  us_bytes_written :: int
  us_expire_at :: int

record 's FileStore =
  fst_Save :: "'s \<Rightarrow> FileMetaData \<Rightarrow> bool \<times> 's"
  fst_GetById :: "'s \<Rightarrow> string \<Rightarrow> FileMetaData option"
  fst_GetByMd5 :: "'s \<Rightarrow> string \<Rightarrow> FileMetaData option"
  fst_Delete :: "'s \<Rightarrow> string \<Rightarrow> bool \<times> 's"
  fst_SaveUploadSession :: "'s \<Rightarrow> UploadSessionData \<Rightarrow> bool \<times> 's"
  fst_GetUploadSession :: "'s \<Rightarrow> string \<Rightarrow> UploadSessionData option"
  fst_UpdateUploadSessionBytes :: "'s \<Rightarrow> string \<Rightarrow> int \<Rightarrow> bool \<times> 's"
  fst_DeleteUploadSession :: "'s \<Rightarrow> string \<Rightarrow> bool \<times> 's"
  fst_ListAllUploadSessions :: "'s \<Rightarrow> UploadSessionData list"

section \<open>Serialisation\<close>

definition meta_members :: "FileMetaData \<Rightarrow> (string \<times> jval) list" where
  "meta_members meta =
     [(''file_id'', JStr (fm_file_id meta)), (''file_name'', JStr (fm_file_name meta)),
      (''content_type'', JStr (fm_content_type meta)), (''file_size'', JInt (fm_file_size meta)),
      (''md5'', JStr (fm_md5 meta)), (''uploader_id'', JStr (fm_uploader_id meta)),
      (''storage_path'', JStr (fm_storage_path meta)), (''uploaded_at'', JInt (fm_uploaded_at meta))]"

definition SerializeMeta :: "'j nlohmann \<Rightarrow> FileMetaData \<Rightarrow> string" where
  "SerializeMeta J meta = json_dump J (json_object J (meta_members meta))"

definition DeserializeMeta :: "'j nlohmann \<Rightarrow> string \<Rightarrow> FileMetaData option" where
  "DeserializeMeta J data = do {
     j \<leftarrow> json_parse J data;
     file_id \<leftarrow> json_value_string J j ''file_id'' [];
     file_name \<leftarrow> json_value_string J j ''file_name'' [];
     content_type \<leftarrow> json_value_string J j ''content_type'' [];
     file_size \<leftarrow> json_value_int64 J j ''file_size'' 0;
     md5 \<leftarrow> json_value_string J j ''md5'' [];
     uploader_id \<leftarrow> json_value_string J j ''uploader_id'' [];
     storage_path \<leftarrow> json_value_string J j ''storage_path'' [];
     uploaded_at \<leftarrow> json_value_int64 J j ''uploaded_at'' 0;
     Some \<lparr>fm_file_id = file_id, fm_file_name = file_name, fm_content_type = content_type, fm_file_size = file_size,
           fm_md5 = md5, fm_uploader_id = uploader_id, fm_storage_path = storage_path, fm_uploaded_at = uploaded_at\<rparr> }"

definition upload_session_members :: "UploadSessionData \<Rightarrow> (string \<times> jval) list" where
  "upload_session_members s =
     [(''upload_id'', JStr (us_upload_id s)), (''user_id'', JStr (us_user_id s)), (''file_name'', JStr (us_file_name s)),
      (''content_type'', JStr (us_content_type s)), (''file_size'', JInt (us_file_size s)), (''md5'', JStr (us_md5 s)),
      (''msg_id'', JStr (us_msg_id s)), (''temp_path'', JStr (us_temp_path s)),
      (''bytes_written'', JInt (us_bytes_written s)), (''expire_at'', JInt (us_expire_at s))]"

definition SerializeUploadSession :: "'j nlohmann \<Rightarrow> UploadSessionData \<Rightarrow> string" where
  "SerializeUploadSession J s = json_dump J (json_object J (upload_session_members s))"

definition DeserializeUploadSession :: "'j nlohmann \<Rightarrow> string \<Rightarrow> UploadSessionData option" where
  "DeserializeUploadSession J data = do {
     j \<leftarrow> json_parse J data;
     upload_id \<leftarrow> json_value_string J j ''upload_id'' [];
     user_id \<leftarrow> json_value_string J j ''user_id'' [];
     file_name \<leftarrow> json_value_string J j ''file_name'' [];
     content_type \<leftarrow> json_value_string J j ''content_type'' [];
     file_size \<leftarrow> json_value_int64 J j ''file_size'' 0;
     md5 \<leftarrow> json_value_string J j ''md5'' [];
     msg_id \<leftarrow> json_value_string J j ''msg_id'' [];
     temp_path \<leftarrow> json_value_string J j ''temp_path'' [];
     bytes_written \<leftarrow> json_value_int64 J j ''bytes_written'' 0;
     expire_at \<leftarrow> json_value_int64 J j ''expire_at'' 0;
     Some \<lparr>us_upload_id = upload_id, us_user_id = user_id, us_file_name = file_name, us_content_type = content_type,
           us_file_size = file_size, us_md5 = md5, us_msg_id = msg_id, us_temp_path = temp_path,
           us_bytes_written = bytes_written, us_expire_at = expire_at\<rparr> }"

definition KEY_PREFIX_FILE :: string where "KEY_PREFIX_FILE = ''file:''"
definition KEY_PREFIX_FILE_MD5 :: string where "KEY_PREFIX_FILE_MD5 = ''file_md5:''"
definition KEY_PREFIX_UPLOAD :: string where "KEY_PREFIX_UPLOAD = ''upload:''"

section \<open>Operations\<close>

definition RocksDBFileStore_Save :: "'db rocksdb \<Rightarrow> 'j nlohmann \<Rightarrow> 'db \<Rightarrow> FileMetaData \<Rightarrow> bool \<times> 'db" where
  "RocksDBFileStore_Save R J db meta =
     (if fm_file_id meta = [] then (False, db)
      else
        db_Write R db
          (BPut (KEY_PREFIX_FILE @ fm_file_id meta) (SerializeMeta J meta) #
           (if fm_md5 meta \<noteq> [] then [BPut (KEY_PREFIX_FILE_MD5 @ fm_md5 meta) (fm_file_id meta)] else [])))"

definition RocksDBFileStore_GetById :: "'db rocksdb \<Rightarrow> 'j nlohmann \<Rightarrow> 'db \<Rightarrow> string \<Rightarrow> FileMetaData option" where
  "RocksDBFileStore_GetById R J db file_id =
     (if file_id = [] then None
      else
        (case db_Get R db (KEY_PREFIX_FILE @ file_id) of
           None \<Rightarrow> None
         | Some val \<Rightarrow> DeserializeMeta J val))"

definition RocksDBFileStore_GetByMd5 :: "'db rocksdb \<Rightarrow> 'j nlohmann \<Rightarrow> 'db \<Rightarrow> string \<Rightarrow> FileMetaData option" where
  "RocksDBFileStore_GetByMd5 R J db md5 =
     (if md5 = [] then None
      else
        (case db_Get R db (KEY_PREFIX_FILE_MD5 @ md5) of
           None \<Rightarrow> None
         | Some file_id \<Rightarrow> RocksDBFileStore_GetById R J db file_id))"

definition RocksDBFileStore_Delete :: "'db rocksdb \<Rightarrow> 'j nlohmann \<Rightarrow> 'db \<Rightarrow> string \<Rightarrow> bool \<times> 'db" where
  "RocksDBFileStore_Delete R J db file_id =
     (if file_id = [] then (False, db)
      else
        (case RocksDBFileStore_GetById R J db file_id of
           None \<Rightarrow> (False, db)
         | Some meta \<Rightarrow>
             db_Write R db
               (BDelete (KEY_PREFIX_FILE @ file_id) #
                (if fm_md5 meta \<noteq> [] then [BDelete (KEY_PREFIX_FILE_MD5 @ fm_md5 meta)] else []))))"

definition RocksDBFileStore_SaveUploadSession :: "'db rocksdb \<Rightarrow> 'j nlohmann \<Rightarrow> 'db \<Rightarrow> UploadSessionData \<Rightarrow> bool \<times> 'db" where
  "RocksDBFileStore_SaveUploadSession R J db session =
     (if us_upload_id session = [] then (False, db)
      else db_Put R db (KEY_PREFIX_UPLOAD @ us_upload_id session) (SerializeUploadSession J session))"

definition RocksDBFileStore_GetUploadSession :: "'db rocksdb \<Rightarrow> 'j nlohmann \<Rightarrow> 'db \<Rightarrow> string \<Rightarrow> UploadSessionData option" where
  "RocksDBFileStore_GetUploadSession R J db upload_id =
     (if upload_id = [] then None
      else
        (case db_Get R db (KEY_PREFIX_UPLOAD @ upload_id) of
           None \<Rightarrow> None
         | Some val \<Rightarrow> DeserializeUploadSession J val))"

definition RocksDBFileStore_UpdateUploadSessionBytes ::
  "'db rocksdb \<Rightarrow> 'j nlohmann \<Rightarrow> 'db \<Rightarrow> string \<Rightarrow> int \<Rightarrow> bool \<times> 'db" where
  "RocksDBFileStore_UpdateUploadSessionBytes R J db upload_id bytes_written =
     (if upload_id = [] then (False, db)
      else
        (case RocksDBFileStore_GetUploadSession R J db upload_id of
           None \<Rightarrow> (False, db)
         | Some s \<Rightarrow> RocksDBFileStore_SaveUploadSession R J db (s\<lparr>us_bytes_written := bytes_written\<rparr>)))"

definition RocksDBFileStore_DeleteUploadSession :: "'db rocksdb \<Rightarrow> 'db \<Rightarrow> string \<Rightarrow> bool \<times> 'db" where
  "RocksDBFileStore_DeleteUploadSession R db upload_id =
     (if upload_id = [] then (False, db)
      else db_Delete R db (KEY_PREFIX_UPLOAD @ upload_id))"

definition RocksDBFileStore_ListAllUploadSessions :: "'db rocksdb \<Rightarrow> 'j nlohmann \<Rightarrow> 'db \<Rightarrow> UploadSessionData list" where
  "RocksDBFileStore_ListAllUploadSessions R J db =
     List.map_filter (\<lambda>e. DeserializeUploadSession J (snd e)) (scan_prefix R db KEY_PREFIX_UPLOAD)"

definition RocksDBFileStore :: "'db rocksdb \<Rightarrow> 'j nlohmann \<Rightarrow> 'db FileStore" where
  "RocksDBFileStore R J =
     \<lparr>fst_Save = RocksDBFileStore_Save R J, fst_GetById = RocksDBFileStore_GetById R J,
      fst_GetByMd5 = RocksDBFileStore_GetByMd5 R J, fst_Delete = RocksDBFileStore_Delete R J,
      fst_SaveUploadSession = RocksDBFileStore_SaveUploadSession R J,
      fst_GetUploadSession = RocksDBFileStore_GetUploadSession R J,
      fst_UpdateUploadSessionBytes = RocksDBFileStore_UpdateUploadSessionBytes R J,
      fst_DeleteUploadSession = RocksDBFileStore_DeleteUploadSession R,
      fst_ListAllUploadSessions = RocksDBFileStore_ListAllUploadSessions R J\<rparr>"

lemma RocksDBFileStore_simps [simp]:
  "fst_Save (RocksDBFileStore R J) = RocksDBFileStore_Save R J"
  "fst_GetById (RocksDBFileStore R J) = RocksDBFileStore_GetById R J"
  "fst_GetByMd5 (RocksDBFileStore R J) = RocksDBFileStore_GetByMd5 R J"
  "fst_Delete (RocksDBFileStore R J) = RocksDBFileStore_Delete R J"
  "fst_SaveUploadSession (RocksDBFileStore R J) = RocksDBFileStore_SaveUploadSession R J"
  "fst_GetUploadSession (RocksDBFileStore R J) = RocksDBFileStore_GetUploadSession R J"
  "fst_UpdateUploadSessionBytes (RocksDBFileStore R J) = RocksDBFileStore_UpdateUploadSessionBytes R J"
  "fst_DeleteUploadSession (RocksDBFileStore R J) = RocksDBFileStore_DeleteUploadSession R"
  "fst_ListAllUploadSessions (RocksDBFileStore R J) = RocksDBFileStore_ListAllUploadSessions R J"
  by (simp_all add: RocksDBFileStore_def)

end
