(* ===== verification/File_Store_Laws.thy ===== *)
theory File_Store_Laws
  imports File_Store
begin

text \<open>
  What the file store promises.  The abstract state has the meta data of the files by id, the
  index from a digest to a file id, and the upload sessions by id; the locale \<open>file_store\<close> gives every
  operation as a function on it, and \<open>RocksDBFileStore\<close> refines it on the databases that
  satisfy \<open>file_inv\<close>: every file and every session key holds the record it names.
\<close>

section \<open>The abstract store\<close>

record FileState =
  af_meta :: "string \<Rightarrow> FileMetaData option"
  af_md5 :: "string \<Rightarrow> string option"
  af_up :: "string \<Rightarrow> UploadSessionData option"

definition meta_ok :: "FileMetaData \<Rightarrow> bool" where
  "meta_ok m \<longleftrightarrow> fm_file_id m \<noteq> [] \<and> is_int64 (fm_file_size m) \<and> is_int64 (fm_uploaded_at m)"

definition session_ok :: "UploadSessionData \<Rightarrow> bool" where
  "session_ok u \<longleftrightarrow> us_upload_id u \<noteq> [] \<and> is_int64 (us_file_size u) \<and> is_int64 (us_bytes_written u) \<and> is_int64 (us_expire_at u)"

definition with_meta :: "FileMetaData \<Rightarrow> FileState \<Rightarrow> FileState" where
  "with_meta m a =
     a\<lparr>af_meta := (af_meta a)(fm_file_id m \<mapsto> m),
       af_md5 := (if fm_md5 m \<noteq> [] then (af_md5 a)(fm_md5 m \<mapsto> fm_file_id m) else af_md5 a)\<rparr>"

definition without_meta :: "FileMetaData \<Rightarrow> FileState \<Rightarrow> FileState" where
  "without_meta m a =
     a\<lparr>af_meta := (af_meta a)(fm_file_id m := None),
       af_md5 := (if fm_md5 m \<noteq> [] then (af_md5 a)(fm_md5 m := None) else af_md5 a)\<rparr>"

definition with_session :: "UploadSessionData \<Rightarrow> FileState \<Rightarrow> FileState" where
  "with_session u a = a\<lparr>af_up := (af_up a)(us_upload_id u \<mapsto> u)\<rparr>"

definition without_session :: "string \<Rightarrow> FileState \<Rightarrow> FileState" where
  "without_session uid a = a\<lparr>af_up := (af_up a)(uid := None)\<rparr>"

lemma file_state_simps [simp]:
  "af_meta (with_session u a) = af_meta a" "af_md5 (with_session u a) = af_md5 a"
  "af_up (with_session u a) = (af_up a)(us_upload_id u \<mapsto> u)"
  "af_meta (without_session i a) = af_meta a" "af_md5 (without_session i a) = af_md5 a"
  "af_up (without_session i a) = (af_up a)(i := None)"
  "af_up (with_meta m a) = af_up a" "af_up (without_meta m a) = af_up a"
  "af_meta (with_meta m a) = (af_meta a)(fm_file_id m \<mapsto> m)"
  "af_meta (without_meta m a) = (af_meta a)(fm_file_id m := None)"
  by (simp_all add: with_session_def without_session_def with_meta_def without_meta_def)

locale file_store =
  fixes FS :: "'s FileStore" and inv :: "'s \<Rightarrow> bool" and abs :: "'s \<Rightarrow> FileState"
  assumes meta_data: "inv s \<Longrightarrow> af_meta (abs s) fid = Some m \<Longrightarrow> fm_file_id m = fid \<and> meta_ok m"
    and session_data: "inv s \<Longrightarrow> af_up (abs s) uid = Some u \<Longrightarrow> us_upload_id u = uid \<and> session_ok u"
    and no_empty_digest: "inv s \<Longrightarrow> af_md5 (abs s) [] = None"
    and get_by_id: "inv s \<Longrightarrow> fst_GetById FS s fid = af_meta (abs s) fid"
    and get_by_md5: "inv s \<Longrightarrow> fst_GetByMd5 FS s h = Option.bind (af_md5 (abs s) h) (af_meta (abs s))"
    and get_session: "inv s \<Longrightarrow> fst_GetUploadSession FS s uid = af_up (abs s) uid"
    and list_sessions: "inv s \<Longrightarrow> set (fst_ListAllUploadSessions FS s) = ran (af_up (abs s))
      \<and> distinct (map us_upload_id (fst_ListAllUploadSessions FS s))"
    and save: "inv s \<Longrightarrow> meta_ok m \<Longrightarrow> fst_Save FS s m = (ok, s') \<Longrightarrow>
      inv s' \<and> abs s' = (if ok then with_meta m (abs s) else abs s)"
    and delete: "inv s \<Longrightarrow> fst_Delete FS s fid = (ok, s') \<Longrightarrow>
      inv s' \<and> (case af_meta (abs s) fid of
          None \<Rightarrow> \<not> ok \<and> abs s' = abs s
        | Some m \<Rightarrow> abs s' = (if ok then without_meta m (abs s) else abs s))"
    and save_session: "inv s \<Longrightarrow> session_ok u \<Longrightarrow> fst_SaveUploadSession FS s u = (ok, s') \<Longrightarrow>
      inv s' \<and> abs s' = (if ok then with_session u (abs s) else abs s)"
    and update_bytes: "inv s \<Longrightarrow> is_int64 n \<Longrightarrow> fst_UpdateUploadSessionBytes FS s uid n = (ok, s') \<Longrightarrow>
      inv s' \<and> (case af_up (abs s) uid of
          None \<Rightarrow> \<not> ok \<and> abs s' = abs s
        | Some u \<Rightarrow> abs s' = (if ok then with_session (u\<lparr>us_bytes_written := n\<rparr>) (abs s) else abs s))"
    and delete_session: "inv s \<Longrightarrow> fst_DeleteUploadSession FS s uid = (ok, s') \<Longrightarrow>
      inv s' \<and> abs s' = (if ok then without_session uid (abs s) else abs s)"

section \<open>The invariant of the database\<close>

definition fmap_inv :: "'j nlohmann \<Rightarrow> (string \<Rightarrow> string option) \<Rightarrow> bool" where
  "fmap_inv J m \<longleftrightarrow>
     (\<forall>fid v. m (KEY_PREFIX_FILE @ fid) = Some v \<longrightarrow> (\<exists>d. DeserializeMeta J v = Some d \<and> fm_file_id d = fid \<and> meta_ok d)) \<and>
     (\<forall>uid v. m (KEY_PREFIX_UPLOAD @ uid) = Some v \<longrightarrow>
        (\<exists>u. DeserializeUploadSession J v = Some u \<and> us_upload_id u = uid \<and> session_ok u)) \<and>
     m KEY_PREFIX_FILE_MD5 = None"

definition fmap_abs :: "'j nlohmann \<Rightarrow> (string \<Rightarrow> string option) \<Rightarrow> FileState" where
  "fmap_abs J m =
     \<lparr>af_meta = (\<lambda>fid. Option.bind (m (KEY_PREFIX_FILE @ fid)) (DeserializeMeta J)),
      af_md5 = (\<lambda>h. m (KEY_PREFIX_FILE_MD5 @ h)),
      af_up = (\<lambda>uid. Option.bind (m (KEY_PREFIX_UPLOAD @ uid)) (DeserializeUploadSession J))\<rparr>"

definition file_inv :: "'db rocksdb \<Rightarrow> 'j nlohmann \<Rightarrow> 'db \<Rightarrow> bool" where
  "file_inv R J db \<longleftrightarrow> fmap_inv J (db_Get R db)"

definition file_abs :: "'db rocksdb \<Rightarrow> 'j nlohmann \<Rightarrow> 'db \<Rightarrow> FileState" where
  "file_abs R J db = fmap_abs J (db_Get R db)"

lemmas file_view = file_inv_def file_abs_def

lemma file_tables_disjoint [simp]:
  "KEY_PREFIX_FILE @ x \<noteq> KEY_PREFIX_FILE_MD5 @ y" "KEY_PREFIX_FILE_MD5 @ y \<noteq> KEY_PREFIX_FILE @ x"
  "KEY_PREFIX_FILE @ x \<noteq> KEY_PREFIX_UPLOAD @ y" "KEY_PREFIX_UPLOAD @ y \<noteq> KEY_PREFIX_FILE @ x"
  "KEY_PREFIX_FILE_MD5 @ x \<noteq> KEY_PREFIX_UPLOAD @ y" "KEY_PREFIX_UPLOAD @ y \<noteq> KEY_PREFIX_FILE_MD5 @ x"
  "KEY_PREFIX_FILE @ x \<noteq> KEY_PREFIX_FILE_MD5" "KEY_PREFIX_UPLOAD @ x \<noteq> KEY_PREFIX_FILE_MD5"
  "KEY_PREFIX_FILE_MD5 \<noteq> KEY_PREFIX_FILE @ x" "KEY_PREFIX_FILE_MD5 \<noteq> KEY_PREFIX_UPLOAD @ x"
  by (simp_all add: KEY_PREFIX_FILE_def KEY_PREFIX_FILE_MD5_def KEY_PREFIX_UPLOAD_def)

text \<open>Writing one key of a table changes one entry of the abstract state.\<close>

lemma fmap_abs_meta:
  "fmap_abs J (m(KEY_PREFIX_FILE @ fid := v)) =
     (fmap_abs J m)\<lparr>af_meta := (af_meta (fmap_abs J m))(fid := Option.bind v (DeserializeMeta J))\<rparr>"
  by (simp add: fmap_abs_def fun_eq_iff)

lemma fmap_abs_md5:
  "fmap_abs J (m(KEY_PREFIX_FILE_MD5 @ h := v)) = (fmap_abs J m)\<lparr>af_md5 := (af_md5 (fmap_abs J m))(h := v)\<rparr>"
  by (simp add: fmap_abs_def fun_eq_iff)

lemma fmap_abs_session:
  "fmap_abs J (m(KEY_PREFIX_UPLOAD @ uid := v)) =
     (fmap_abs J m)\<lparr>af_up := (af_up (fmap_abs J m))(uid := Option.bind v (DeserializeUploadSession J))\<rparr>"
  by (simp add: fmap_abs_def fun_eq_iff)

lemma fmap_inv_md5: "fmap_inv J m \<Longrightarrow> h \<noteq> [] \<Longrightarrow> fmap_inv J (m(KEY_PREFIX_FILE_MD5 @ h := v))"
  by (simp add: fmap_inv_def)

lemma fmap_inv_meta:
  "fmap_inv J m \<Longrightarrow> v = None \<or> (\<exists>d. Option.bind v (DeserializeMeta J) = Some d \<and> fm_file_id d = fid \<and> meta_ok d) \<Longrightarrow>
   fmap_inv J (m(KEY_PREFIX_FILE @ fid := v))"
  by (auto simp: fmap_inv_def)

lemma fmap_inv_session:
  "fmap_inv J m \<Longrightarrow> v = None \<or> (\<exists>u. Option.bind v (DeserializeUploadSession J) = Some u \<and> us_upload_id u = uid \<and> session_ok u) \<Longrightarrow>
   fmap_inv J (m(KEY_PREFIX_UPLOAD @ uid := v))"
  by (auto simp: fmap_inv_def)

context json_laws
begin

lemma DeserializeMeta_Serialize: "meta_ok m \<Longrightarrow> DeserializeMeta J (SerializeMeta J m) = Some m"
  by (simp add: DeserializeMeta_def SerializeMeta_def meta_members_def json_simps meta_ok_def)

lemma DeserializeUploadSession_Serialize: "session_ok u \<Longrightarrow> DeserializeUploadSession J (SerializeUploadSession J u) = Some u"
  by (simp add: DeserializeUploadSession_def SerializeUploadSession_def upload_session_members_def json_simps session_ok_def)

end

section \<open>The operations of the implementation\<close>

context store_env
begin

lemma fl_meta_data: "file_inv R J db \<Longrightarrow> af_meta (file_abs R J db) fid = Some m \<Longrightarrow> fm_file_id m = fid \<and> meta_ok m"
  unfolding file_view fmap_inv_def by (fastforce simp: fmap_abs_def bind_eq_Some_conv)

lemma fl_session_data: "file_inv R J db \<Longrightarrow> af_up (file_abs R J db) uid = Some u \<Longrightarrow> us_upload_id u = uid \<and> session_ok u"
  unfolding file_view fmap_inv_def by (fastforce simp: fmap_abs_def bind_eq_Some_conv)

lemma fl_empty_id:
  assumes "file_inv R J db"
  shows "af_meta (file_abs R J db) [] = None" "af_up (file_abs R J db) [] = None" "af_md5 (file_abs R J db) [] = None"
proof -
  show "af_meta (file_abs R J db) [] = None"
    using fl_meta_data [OF assms, of "[]"] by (cases "af_meta (file_abs R J db) []") (auto simp: meta_ok_def)
  show "af_up (file_abs R J db) [] = None"
    using fl_session_data [OF assms, of "[]"] by (cases "af_up (file_abs R J db) []") (auto simp: session_ok_def)
  show "af_md5 (file_abs R J db) [] = None" using assms by (simp add: file_view fmap_inv_def fmap_abs_def)
qed

lemma fl_get_by_id: "file_inv R J db \<Longrightarrow> RocksDBFileStore_GetById R J db fid = af_meta (file_abs R J db) fid"
  using fl_empty_id(1) [of db] by (auto simp: RocksDBFileStore_GetById_def file_view fmap_abs_def split: option.splits)

lemma fl_get_by_md5:
  "file_inv R J db \<Longrightarrow> RocksDBFileStore_GetByMd5 R J db h = Option.bind (af_md5 (file_abs R J db) h) (af_meta (file_abs R J db))"
  using fl_empty_id(3) [of db]
  by (auto simp: RocksDBFileStore_GetByMd5_def fl_get_by_id file_view fmap_abs_def split: option.splits)

lemma fl_get_session: "file_inv R J db \<Longrightarrow> RocksDBFileStore_GetUploadSession R J db uid = af_up (file_abs R J db) uid"
  using fl_empty_id(2) [of db] by (auto simp: RocksDBFileStore_GetUploadSession_def file_view fmap_abs_def split: option.splits)

lemma fl_list_sessions:
  assumes "file_inv R J db"
  shows "set (RocksDBFileStore_ListAllUploadSessions R J db) = ran (af_up (file_abs R J db))
    \<and> distinct (map us_upload_id (RocksDBFileStore_ListAllUploadSessions R J db))"
proof -
  have "set (RocksDBFileStore_ListAllUploadSessions R J db) = ran (af_up (file_abs R J db))"
    by (auto simp: RocksDBFileStore_ListAllUploadSessions_def set_scan_prefix ran_def file_abs_def fmap_abs_def bind_eq_Some_conv)
  moreover have "distinct (map us_upload_id (RocksDBFileStore_ListAllUploadSessions R J db))"
    unfolding RocksDBFileStore_ListAllUploadSessions_def
    by (rule distinct_scan_collect [where c = "\<lambda>i. KEY_PREFIX_UPLOAD @ i"])
      (use assms in \<open>fastforce simp: file_inv_def fmap_inv_def\<close>)
  ultimately show ?thesis by simp
qed

lemma fl_save:
  assumes "file_inv R J db" "meta_ok m" "RocksDBFileStore_Save R J db m = (ok, db')"
  shows "file_inv R J db' \<and> file_abs R J db' = (if ok then with_meta m (file_abs R J db) else file_abs R J db)"
proof -
  have "fm_file_id m \<noteq> []" using assms(2) by (simp add: meta_ok_def)
  then have "db_Get R db' = (if ok then apply_batch
      (BPut (KEY_PREFIX_FILE @ fm_file_id m) (SerializeMeta J m) #
        (if fm_md5 m \<noteq> [] then [BPut (KEY_PREFIX_FILE_MD5 @ fm_md5 m) (fm_file_id m)] else [])) (db_Get R db) else db_Get R db)"
    using assms(3) by (intro write_get) (simp add: RocksDBFileStore_Save_def)
  with assms(1,2) show ?thesis
    by (auto simp: file_view with_meta_def fmap_abs_meta fmap_abs_md5 DeserializeMeta_Serialize intro!: fmap_inv_meta fmap_inv_md5)
qed

lemma fl_delete:
  assumes "file_inv R J db" "RocksDBFileStore_Delete R J db fid = (ok, db')"
  shows "file_inv R J db' \<and> (case af_meta (file_abs R J db) fid of
      None \<Rightarrow> \<not> ok \<and> file_abs R J db' = file_abs R J db
    | Some m \<Rightarrow> file_abs R J db' = (if ok then without_meta m (file_abs R J db) else file_abs R J db))"
proof (cases "af_meta (file_abs R J db) fid")
  case None
  with assms show ?thesis by (auto simp: RocksDBFileStore_Delete_def fl_get_by_id split: if_splits)
next
  case (Some m)
  have m: "fm_file_id m = fid" "fid \<noteq> []" using fl_meta_data [OF assms(1) Some] by (auto simp: meta_ok_def)
  then have "db_Get R db' = (if ok then apply_batch
      (BDelete (KEY_PREFIX_FILE @ fid) # (if fm_md5 m \<noteq> [] then [BDelete (KEY_PREFIX_FILE_MD5 @ fm_md5 m)] else [])) (db_Get R db) else db_Get R db)"
    using assms Some by (intro write_get) (simp add: RocksDBFileStore_Delete_def fl_get_by_id)
  with assms(1) m Some show ?thesis
    by (auto simp: file_view without_meta_def fmap_abs_meta fmap_abs_md5 intro!: fmap_inv_meta fmap_inv_md5)
qed

lemma fl_save_session:
  assumes "file_inv R J db" "session_ok u" "RocksDBFileStore_SaveUploadSession R J db u = (ok, db')"
  shows "file_inv R J db' \<and> file_abs R J db' = (if ok then with_session u (file_abs R J db) else file_abs R J db)"
proof -
  have "us_upload_id u \<noteq> []" using assms(2) by (simp add: session_ok_def)
  then have "db_Get R db' = (if ok then (db_Get R db)(KEY_PREFIX_UPLOAD @ us_upload_id u \<mapsto> SerializeUploadSession J u) else db_Get R db)"
    using assms(3) by (intro put_get) (simp add: RocksDBFileStore_SaveUploadSession_def)
  with assms(1,2) show ?thesis
    by (auto simp: file_view with_session_def fmap_abs_session DeserializeUploadSession_Serialize intro!: fmap_inv_session)
qed

lemma fl_update_bytes:
  assumes "file_inv R J db" "is_int64 n" "RocksDBFileStore_UpdateUploadSessionBytes R J db uid n = (ok, db')"
  shows "file_inv R J db' \<and> (case af_up (file_abs R J db) uid of
      None \<Rightarrow> \<not> ok \<and> file_abs R J db' = file_abs R J db
    | Some u \<Rightarrow> file_abs R J db' = (if ok then with_session (u\<lparr>us_bytes_written := n\<rparr>) (file_abs R J db) else file_abs R J db))"
proof (cases "af_up (file_abs R J db) uid")
  case None
  with assms show ?thesis by (auto simp: RocksDBFileStore_UpdateUploadSessionBytes_def fl_get_session split: if_splits)
next
  case (Some u)
  have u: "us_upload_id u = uid" "session_ok u" "uid \<noteq> []" using fl_session_data [OF assms(1) Some] by (auto simp: session_ok_def)
  then have "session_ok (u\<lparr>us_bytes_written := n\<rparr>)" using assms(2) by (simp add: session_ok_def)
  moreover have "RocksDBFileStore_SaveUploadSession R J db (u\<lparr>us_bytes_written := n\<rparr>) = (ok, db')"
    using assms(1,3) Some u(3) by (simp add: RocksDBFileStore_UpdateUploadSessionBytes_def fl_get_session)
  ultimately show ?thesis using fl_save_session [OF assms(1)] Some by simp
qed

lemma fl_delete_session:
  assumes "file_inv R J db" "RocksDBFileStore_DeleteUploadSession R db uid = (ok, db')"
  shows "file_inv R J db' \<and> file_abs R J db' = (if ok then without_session uid (file_abs R J db) else file_abs R J db)"
proof (cases "uid = []")
  case False
  then have "db_Get R db' = (if ok then (db_Get R db)(KEY_PREFIX_UPLOAD @ uid := None) else db_Get R db)"
    using assms(2) by (intro delete_get) (simp add: RocksDBFileStore_DeleteUploadSession_def)
  with assms(1) show ?thesis by (auto simp: file_view without_session_def fmap_abs_session intro!: fmap_inv_session)
qed (use assms in \<open>simp add: RocksDBFileStore_DeleteUploadSession_def\<close>)

end

sublocale store_env \<subseteq> fl: file_store "RocksDBFileStore R J" "file_inv R J" "file_abs R J"
  by (unfold_locales, simp_all only: RocksDBFileStore_simps)
    (rule fl_meta_data fl_session_data fl_empty_id(3) fl_get_by_id fl_get_by_md5 fl_get_session fl_list_sessions fl_save fl_delete
      fl_save_session fl_update_bytes fl_delete_session; assumption)+

context store_env
begin

lemma rocksdb_file_store: "file_store (RocksDBFileStore R J) (file_inv R J) (file_abs R J)"
  by unfold_locales

end

lemma file_inv_empty:
  assumes "\<And>k. db_Get R db k = None"
  shows "file_inv R J db" "af_meta (file_abs R J db) fid = None" "af_md5 (file_abs R J db) h = None" "af_up (file_abs R J db) uid = None"
  using assms by (simp_all add: file_view fmap_inv_def fmap_abs_def)

interpretation alist_fl: file_store "RocksDBFileStore alist_db text_json" "file_inv alist_db text_json" "file_abs alist_db text_json"
  by unfold_locales

end
