(* ===== verification/File_Config.thy ===== *)
theory File_Config
  imports Config_Loader
begin

text \<open>
  \<^verbatim>\<open>backend/filesvr/internal/config/config.{h,cpp}\<close>: the settings of the file server.  The file is
  given by its lines and the environment by its \<^verbatim>\<open>NAME=value\<close> strings, as in \<open>Config_Loader\<close>.
\<close>

record FileConfig =
  fc_host :: string
  fc_grpc_port :: int
  fc_http_port :: int
  fc_store_type :: string
  fc_rocksdb_path :: string
  fc_storage_path :: string
  fc_storage_type :: string
  fc_minio_endpoint :: string
  fc_minio_access_key :: string
  fc_minio_secret_key :: string
  fc_minio_bucket :: string
  fc_max_file_size :: int
  fc_allowed_types :: string
  fc_upload_session_expire_seconds :: int
  fc_cleanup_interval_seconds :: int
  fc_log_dir :: string
  fc_log_level :: string
  fc_jwt_secret :: string

definition file_LoadConfig :: "string list option \<Rightarrow> string list \<Rightarrow> FileConfig" where
  "file_LoadConfig config_file environ =
     (let kv = LoadKeyValueConfig config_file ''FILESVR_'' environ in
      \<lparr>fc_host = config_Get kv ''host'' ''0.0.0.0'',
       fc_grpc_port = GetInt kv ''grpc_port'' 9100,
       fc_http_port = GetInt kv ''http_port'' 8080,
       fc_store_type = config_Get kv ''store_type'' ''rocksdb'',
       fc_rocksdb_path = config_Get kv ''rocksdb_path'' ''/data/file-meta'',
       fc_storage_path = config_Get kv ''storage_path'' ''/data/files'',
       fc_storage_type = config_Get kv ''storage_type'' ''local'',
       fc_minio_endpoint = config_Get kv ''minio_endpoint'' [],
       fc_minio_access_key = config_Get kv ''minio_access_key'' [],
       fc_minio_secret_key = config_Get kv ''minio_secret_key'' [],
       fc_minio_bucket = config_Get kv ''minio_bucket'' ''swift-files'',
       fc_max_file_size = GetInt64 kv ''max_file_size'' (1024 * 1024 * 1024),
       fc_allowed_types = config_Get kv ''allowed_types'' ''image/*,video/*,audio/*,application/pdf'',
       fc_upload_session_expire_seconds = GetInt64 kv ''upload_session_expire_seconds'' (24 * 3600),
       fc_cleanup_interval_seconds = 3600,
       fc_log_dir = config_Get kv ''log_dir'' ''/data/logs'',
       fc_log_level = config_Get kv ''log_level'' ''INFO'',
       fc_jwt_secret = config_Get kv ''jwt_secret'' []\<rparr>)"

end
