(* ===== verification/File_Service.thy ===== *)
theory File_Service
  imports File_Store_Laws File_Config Error_Code "HOL-Library.Word"
begin

unbundle bit_operations_syntax

text \<open>
  \<^verbatim>\<open>backend/filesvr/internal/service/file_service.{h,cpp}\<close>: resumable uploads, one-shot uploads,
  reading and deletion of files.  The state is the meta data store together with the files on
  disk, a map from a path to the bytes of the file.  Which calls of \<^verbatim>\<open>std::filesystem\<close> and the file streams
  succeed is the environment's choice: a \<open>Disk\<close> says it for every path, and how many bytes a
  failing write leaves behind.  \<open>ns\<close> and \<open>rnd\<close> are the clock reading and the random value
  of \<^verbatim>\<open>GenerateFileId\<close>, \<open>now\<close> the reading of \<^verbatim>\<open>NowSeconds\<close>.  Directories are not part of the state.
\<close>

section \<open>The disk\<close>

record Disk =
  dk_mkdir :: "string \<Rightarrow> bool"
  dk_open :: "string \<Rightarrow> bool"
  dk_write :: "string \<Rightarrow> bool"
  dk_flush :: "string \<Rightarrow> bool"
  dk_partial :: "string \<Rightarrow> nat"
  dk_rename :: "string \<Rightarrow> string \<Rightarrow> bool"
  dk_remove :: "string \<Rightarrow> bool"
  dk_exists :: "string \<Rightarrow> bool"
  dk_read :: "string \<Rightarrow> bool"

type_synonym Files = "string \<Rightarrow> string option"

text \<open>
  An \<^verbatim>\<open>ofstream\<close> on \<open>p\<close> that already holds \<open>old\<close>, then \<^verbatim>\<open>write\<close> and \<^verbatim>\<open>flush\<close>: when one of them
  fails, some prefix of the data has been written.
\<close>

definition stream_write :: "Disk \<Rightarrow> string \<Rightarrow> string \<Rightarrow> string \<Rightarrow> Files \<Rightarrow> Files" where
  "stream_write d p old data fs =
     fs(p \<mapsto> old @ (if dk_write d p \<and> dk_flush d p then data else take (dk_partial d p) data))"

definition fs_rename :: "Disk \<Rightarrow> string \<Rightarrow> string \<Rightarrow> Files \<Rightarrow> bool \<times> Files" where
  "fs_rename d src dst fs =
     (case fs src of
        None \<Rightarrow> (False, fs)
      | Some c \<Rightarrow> if dk_rename d src dst then (True, (fs(src := None))(dst \<mapsto> c)) else (False, fs))"

definition fs_exists :: "Disk \<Rightarrow> string \<Rightarrow> Files \<Rightarrow> bool" where
  "fs_exists d p fs \<longleftrightarrow> fs p \<noteq> None \<and> dk_exists d p"

definition fs_remove :: "Disk \<Rightarrow> string \<Rightarrow> Files \<Rightarrow> bool \<times> Files" where
  "fs_remove d p fs = (if fs p = None then (True, fs) else if dk_remove d p then (True, fs(p := None)) else (False, fs))"

section \<open>State and results\<close>

record 's FileServiceCore =
  fsc_store :: "'s FileStore"
  fsc_config :: FileConfig

record 's FileServer =
  fsv_store :: 's
  fsv_files :: Files

record InitUploadResult =
  iur_success :: bool
  iur_error_code :: int
  iur_error :: string
  iur_upload_id :: string
  iur_expire_at :: int
  iur_existing_file_id :: string

record GetUploadStateResult =
  gus_found :: bool
  gus_error_code :: int
  gus_error :: string
  gus_offset :: int
  gus_file_size :: int
  gus_completed :: bool
  gus_file_id :: string
  gus_expire_at :: int

record AppendChunkResult =
  acr_success :: bool
  acr_error_code :: int
  acr_error :: string
  acr_new_offset :: int

record CompleteUploadResult =
  cur_success :: bool
  cur_error_code :: int
  cur_error :: string
  cur_file_id :: string
  cur_file_url :: string
  cur_thumbnail_url :: string

record UploadResult =
  ulr_success :: bool
  ulr_error_code :: int
  ulr_file_id :: string
  ulr_file_url :: string
  ulr_thumbnail_url :: string
  ulr_error :: string

record FileUrlResult =
  fur_success :: bool
  fur_error_code :: int
  fur_error :: string
  fur_file_url :: string
  fur_file_name :: string
  fur_file_size :: int
  fur_content_type :: string
  fur_expire_at :: int

record UploadTokenResult =
  utr_success :: bool
  utr_error_code :: int
  utr_error :: string
  utr_upload_token :: string
  utr_upload_url :: string
  utr_expire_at :: int

definition init_failed :: "ErrorCode \<Rightarrow> InitUploadResult" where
  "init_failed ec = \<lparr>iur_success = False, iur_error_code = ErrorCodeToInt ec, iur_error = ErrorCodeToString ec,
     iur_upload_id = [], iur_expire_at = 0, iur_existing_file_id = []\<rparr>"

definition append_failed :: "ErrorCode \<Rightarrow> AppendChunkResult" where
  "append_failed ec = \<lparr>acr_success = False, acr_error_code = ErrorCodeToInt ec, acr_error = ErrorCodeToString ec, acr_new_offset = 0\<rparr>"

definition complete_failed :: "ErrorCode \<Rightarrow> CompleteUploadResult" where
  "complete_failed ec = \<lparr>cur_success = False, cur_error_code = ErrorCodeToInt ec, cur_error = ErrorCodeToString ec,
     cur_file_id = [], cur_file_url = [], cur_thumbnail_url = []\<rparr>"

definition upload_failed :: "ErrorCode \<Rightarrow> UploadResult" where
  "upload_failed ec = \<lparr>ulr_success = False, ulr_error_code = ErrorCodeToInt ec, ulr_file_id = [], ulr_file_url = [],
     ulr_thumbnail_url = [], ulr_error = ErrorCodeToString ec\<rparr>"

section \<open>Identifiers and paths\<close>

definition kHex :: string where "kHex = ''0123456789abcdef''"

definition file_HexEncode :: "string \<Rightarrow> string" where
  "file_HexEncode data = concat (map (\<lambda>b. [kHex ! ((code b div 16) AND 0x0f), kHex ! (code b AND 0x0f)]) data)"

text \<open>\<^verbatim>\<open>memcpy\<close> of a 64-bit integer: its bytes, the least significant first.\<close>

fun le_bytes :: "nat \<Rightarrow> nat \<Rightarrow> string" where
  "le_bytes 0 n = []"
| "le_bytes (Suc k) n = char_of n # le_bytes k (n div 256)"

definition GenerateFileId :: "64 word \<Rightarrow> 64 word \<Rightarrow> string" where
  "GenerateFileId ns rnd = file_HexEncode (le_bytes 8 (unat ns) @ le_bytes 8 (unat rnd))"

definition BuildStoragePath :: "FileConfig \<Rightarrow> string \<Rightarrow> string" where
  "BuildStoragePath config file_id =
     (if length file_id < 2 then fc_storage_path config @ ''/'' @ file_id
      else fc_storage_path config @ ''/'' @ take 2 file_id @ ''/'' @ file_id)"

definition BuildFileUrl :: "FileConfig \<Rightarrow> string \<Rightarrow> string" where
  "BuildFileUrl config file_id =
     (let host = (if fc_host config = ''0.0.0.0'' then ''127.0.0.1'' else fc_host config)
      in ''http://'' @ host @ '':'' @ to_string (fc_http_port config) @ ''/files/'' @ file_id)"

definition GetTempPath :: "FileConfig \<Rightarrow> string \<Rightarrow> string" where
  "GetTempPath config upload_id = fc_storage_path config @ ''/.tmp/'' @ upload_id"

section \<open>Upload sessions\<close>

definition new_session ::
  "string \<Rightarrow> string \<Rightarrow> string \<Rightarrow> string \<Rightarrow> int \<Rightarrow> string \<Rightarrow> string \<Rightarrow> string \<Rightarrow> int \<Rightarrow> UploadSessionData" where
  "new_session upload_id user_id file_name content_type file_size md5 msg_id temp_path expire_at =
     \<lparr>us_upload_id = upload_id, us_user_id = user_id, us_file_name = file_name, us_content_type = content_type,
      us_file_size = file_size, us_md5 = md5, us_msg_id = msg_id, us_temp_path = temp_path,
      us_bytes_written = 0, us_expire_at = expire_at\<rparr>"

definition InitUpload ::
  "'s FileServiceCore \<Rightarrow> Disk \<Rightarrow> 64 word \<Rightarrow> 64 word \<Rightarrow> int \<Rightarrow> 's FileServer \<Rightarrow> string \<Rightarrow> string \<Rightarrow> string \<Rightarrow> int \<Rightarrow> string \<Rightarrow> string
     \<Rightarrow> InitUploadResult \<times> 's FileServer" where
  "InitUpload C d ns rnd now s user_id file_name content_type file_size md5 msg_id =
     (let config = fsc_config C; expire_at = now + fc_upload_session_expire_seconds config in
      if file_size \<le> 0 \<or> file_size > fc_max_file_size config then (init_failed EC_FILE_TOO_LARGE, s)
      else
        (case (if md5 \<noteq> [] then fst_GetByMd5 (fsc_store C) (fsv_store s) md5 else None) of
           Some existing \<Rightarrow>
             (\<lparr>iur_success = True, iur_error_code = 0, iur_error = [], iur_upload_id = fm_file_id existing,
               iur_expire_at = expire_at, iur_existing_file_id = fm_file_id existing\<rparr>, s)
         | None \<Rightarrow>
             (let upload_id = GenerateFileId ns rnd;
                  temp_path = GetTempPath config upload_id
              in if \<not> dk_mkdir d (fc_storage_path config @ ''/.tmp'') then (init_failed EC_INTERNAL_ERROR, s)
                 else
                   (let session = new_session upload_id user_id file_name content_type file_size md5 msg_id temp_path expire_at;
                        (ok, st) = fst_SaveUploadSession (fsc_store C) (fsv_store s) session;
                        s' = s\<lparr>fsv_store := st\<rparr>
                    in if \<not> ok then (init_failed EC_UPLOAD_FAILED, s')
                       else
                         (\<lparr>iur_success = True, iur_error_code = 0, iur_error = [], iur_upload_id = upload_id,
                           iur_expire_at = expire_at, iur_existing_file_id = []\<rparr>, s')))))"

definition GetUploadState :: "'s FileServiceCore \<Rightarrow> 's FileServer \<Rightarrow> string \<Rightarrow> GetUploadStateResult" where
  "GetUploadState C s upload_id =
     (case fst_GetUploadSession (fsc_store C) (fsv_store s) upload_id of
        None \<Rightarrow>
          \<lparr>gus_found = False, gus_error_code = ErrorCodeToInt EC_FILE_EXPIRED, gus_error = ErrorCodeToString EC_FILE_EXPIRED,
           gus_offset = 0, gus_file_size = 0, gus_completed = False, gus_file_id = [], gus_expire_at = 0\<rparr>
      | Some u \<Rightarrow>
          \<lparr>gus_found = True, gus_error_code = 0, gus_error = [], gus_offset = us_bytes_written u,
           gus_file_size = us_file_size u, gus_completed = False, gus_file_id = [], gus_expire_at = us_expire_at u\<rparr>)"

definition AppendChunk ::
  "'s FileServiceCore \<Rightarrow> Disk \<Rightarrow> 's FileServer \<Rightarrow> string \<Rightarrow> string \<Rightarrow> AppendChunkResult \<times> 's FileServer" where
  "AppendChunk C d s upload_id data =
     (case fst_GetUploadSession (fsc_store C) (fsv_store s) upload_id of
        None \<Rightarrow> (append_failed EC_FILE_EXPIRED, s)
      | Some u \<Rightarrow>
          (let new_offset = us_bytes_written u + int (length data); path = us_temp_path u in
           if new_offset > us_file_size u then (append_failed EC_INVALID_PARAM, s)
           else if \<not> dk_open d path then (append_failed EC_UPLOAD_FAILED, s)
           else
             (let old = (case fsv_files s path of None \<Rightarrow> [] | Some c \<Rightarrow> c);
                  s1 = s\<lparr>fsv_files := stream_write d path old data (fsv_files s)\<rparr>
              in if \<not> dk_write d path then (append_failed EC_UPLOAD_FAILED, s1)
                 else if \<not> dk_flush d path then (append_failed EC_UPLOAD_FAILED, s1)
                 else
                   (let (ok, st) = fst_UpdateUploadSessionBytes (fsc_store C) (fsv_store s1) upload_id new_offset;
                        s2 = s1\<lparr>fsv_store := st\<rparr>
                    in if \<not> ok then (append_failed EC_UPLOAD_FAILED, s2)
                       else (\<lparr>acr_success = True, acr_error_code = 0, acr_error = [], acr_new_offset = new_offset\<rparr>, s2)))))"

text \<open>The directory of a path: \<^verbatim>\<open>fs::path::parent_path\<close>.\<close>

definition parent_path :: "string \<Rightarrow> string" where
  "parent_path p = rev (drop 1 (dropWhile (\<lambda>c. c \<noteq> CHR ''/'') (rev p)))"

definition uploaded_meta :: "UploadSessionData \<Rightarrow> string \<Rightarrow> string \<Rightarrow> int \<Rightarrow> FileMetaData" where
  "uploaded_meta u file_id final_path now =
     \<lparr>fm_file_id = file_id, fm_file_name = us_file_name u, fm_content_type = us_content_type u,
      fm_file_size = us_file_size u, fm_md5 = us_md5 u, fm_uploader_id = us_user_id u,
      fm_storage_path = final_path, fm_uploaded_at = now\<rparr>"

definition CompleteUpload ::
  "'s FileServiceCore \<Rightarrow> Disk \<Rightarrow> 64 word \<Rightarrow> 64 word \<Rightarrow> int \<Rightarrow> 's FileServer \<Rightarrow> string \<Rightarrow> CompleteUploadResult \<times> 's FileServer" where
  "CompleteUpload C d ns rnd now s upload_id =
     (case fst_GetUploadSession (fsc_store C) (fsv_store s) upload_id of
        None \<Rightarrow> (complete_failed EC_FILE_EXPIRED, s)
      | Some u \<Rightarrow>
          if us_bytes_written u \<noteq> us_file_size u then (complete_failed EC_UPLOAD_INCOMPLETE, s)
          else
            (let file_id = GenerateFileId ns rnd;
                 final_path = BuildStoragePath (fsc_config C) file_id
             in if \<not> dk_mkdir d (parent_path final_path) then (complete_failed EC_INTERNAL_ERROR, s)
                else
                  (let (moved, files) = fs_rename d (us_temp_path u) final_path (fsv_files s) in
                   if \<not> moved then (complete_failed EC_UPLOAD_FAILED, s)
                   else
                     (let meta = uploaded_meta u file_id final_path now;
                          (saved, st) = fst_Save (fsc_store C) (fsv_store s) meta
                      in if \<not> saved then
                           (complete_failed EC_UPLOAD_FAILED,
                            s\<lparr>fsv_store := st, fsv_files := snd (fs_remove d final_path files)\<rparr>)
                         else
                           (\<lparr>cur_success = True, cur_error_code = 0, cur_error = [], cur_file_id = file_id,
                             cur_file_url = BuildFileUrl (fsc_config C) file_id, cur_thumbnail_url = []\<rparr>,
                            s\<lparr>fsv_store := snd (fst_DeleteUploadSession (fsc_store C) st upload_id), fsv_files := files\<rparr>)))))"

section \<open>One-shot upload\<close>

text \<open>
  The stream is not flushed: what \<^verbatim>\<open>write\<close> has buffered goes to the disk when the stream
  is destroyed, after the result has been decided.
\<close>

definition Upload ::
  "'s FileServiceCore \<Rightarrow> Disk \<Rightarrow> 64 word \<Rightarrow> 64 word \<Rightarrow> int \<Rightarrow> 's FileServer \<Rightarrow> string \<Rightarrow> string \<Rightarrow> string \<Rightarrow> string
     \<Rightarrow> UploadResult \<times> 's FileServer" where
  "Upload C d ns rnd now s user_id file_name content_type data =
     (if int (length data) > fc_max_file_size (fsc_config C) then (upload_failed EC_FILE_TOO_LARGE, s)
      else
        (let file_id = GenerateFileId ns rnd;
             path = BuildStoragePath (fsc_config C) file_id
         in if \<not> dk_mkdir d (parent_path path) then (upload_failed EC_INTERNAL_ERROR, s)
            else if \<not> dk_open d path then (upload_failed EC_UPLOAD_FAILED, s)
            else
              (let files = stream_write d path [] data (fsv_files s) in
               if \<not> dk_write d path then (upload_failed EC_UPLOAD_FAILED, s\<lparr>fsv_files := snd (fs_remove d path files)\<rparr>)
               else
                 (let meta = \<lparr>fm_file_id = file_id, fm_file_name = file_name, fm_content_type = content_type,
                              fm_file_size = int (length data), fm_md5 = [], fm_uploader_id = user_id,
                              fm_storage_path = path, fm_uploaded_at = now\<rparr>;
                      (saved, st) = fst_Save (fsc_store C) (fsv_store s) meta
                  in if \<not> saved then
                       (upload_failed EC_UPLOAD_FAILED, s\<lparr>fsv_store := st, fsv_files := snd (fs_remove d path files)\<rparr>)
                     else
                       (\<lparr>ulr_success = True, ulr_error_code = 0, ulr_file_id = file_id,
                         ulr_file_url = BuildFileUrl (fsc_config C) file_id, ulr_thumbnail_url = [], ulr_error = []\<rparr>,
                        s\<lparr>fsv_store := st, fsv_files := files\<rparr>)))))"

section \<open>Reading\<close>

definition GetFileUrl :: "'s FileServiceCore \<Rightarrow> 's FileServer \<Rightarrow> string \<Rightarrow> string \<Rightarrow> FileUrlResult" where
  "GetFileUrl C s file_id user_id =
     (case fst_GetById (fsc_store C) (fsv_store s) file_id of
        None \<Rightarrow>
          \<lparr>fur_success = False, fur_error_code = ErrorCodeToInt EC_FILE_NOT_FOUND, fur_error = ErrorCodeToString EC_FILE_NOT_FOUND,
           fur_file_url = [], fur_file_name = [], fur_file_size = 0, fur_content_type = [], fur_expire_at = 0\<rparr>
      | Some meta \<Rightarrow>
          \<lparr>fur_success = True, fur_error_code = 0, fur_error = [], fur_file_url = BuildFileUrl (fsc_config C) file_id,
           fur_file_name = fm_file_name meta, fur_file_size = fm_file_size meta, fur_content_type = fm_content_type meta,
           fur_expire_at = 0\<rparr>)"

text \<open>
  The bytes, the content type and the name.  \<^verbatim>\<open>ReadFileRange\<close> adds the recorded size;
  \<open>Overflow\<close> is the case in which the sum of two 64-bit offsets leaves the type.
\<close>

definition ReadFile :: "'s FileServiceCore \<Rightarrow> Disk \<Rightarrow> 's FileServer \<Rightarrow> string \<Rightarrow> (string \<times> string \<times> string) option" where
  "ReadFile C d s file_id =
     (case fst_GetById (fsc_store C) (fsv_store s) file_id of
        None \<Rightarrow> None
      | Some meta \<Rightarrow>
          (case fsv_files s (fm_storage_path meta) of
             None \<Rightarrow> None
           | Some c \<Rightarrow>
               if \<not> dk_open d (fm_storage_path meta) \<or> \<not> dk_read d (fm_storage_path meta) then None
               else Some (c, fm_content_type meta, fm_file_name meta)))"

datatype 'a ReadResult = Overflow | ReadFailed | ReadOk 'a

definition ReadFileRange ::
  "'s FileServiceCore \<Rightarrow> Disk \<Rightarrow> 's FileServer \<Rightarrow> string \<Rightarrow> int \<Rightarrow> int \<Rightarrow> (string \<times> string \<times> string \<times> int) ReadResult" where
  "ReadFileRange C d s file_id offset0 len =
     (case fst_GetById (fsc_store C) (fsv_store s) file_id of
        None \<Rightarrow> ReadFailed
      | Some meta \<Rightarrow>
          (let file_size = fm_file_size meta;
               offset = (if offset0 < 0 then 0 else offset0)
           in if offset \<ge> file_size then ReadOk ([], fm_content_type meta, fm_file_name meta, file_size)
              else
                (let read_len0 = (if len < 0 then file_size - offset else len) in
                 if \<not> is_int64 (offset + read_len0) then Overflow
                 else
                   (let read_len = (if offset + read_len0 > file_size then file_size - offset else read_len0) in
                    case fsv_files s (fm_storage_path meta) of
                      None \<Rightarrow> ReadFailed
                    | Some c \<Rightarrow>
                        if \<not> dk_open d (fm_storage_path meta) \<or> \<not> dk_read d (fm_storage_path meta) then ReadFailed
                        else if length (drop (nat offset) c) < nat read_len then ReadFailed
                        else ReadOk (take (nat read_len) (drop (nat offset) c), fm_content_type meta, fm_file_name meta, file_size)))))"

definition GetFileInfo :: "'s FileServiceCore \<Rightarrow> 's FileServer \<Rightarrow> string \<Rightarrow> FileMetaData option" where
  "GetFileInfo C s file_id = fst_GetById (fsc_store C) (fsv_store s) file_id"

section \<open>Deletion and cleaning up\<close>

definition DeleteFile :: "'s FileServiceCore \<Rightarrow> Disk \<Rightarrow> 's FileServer \<Rightarrow> string \<Rightarrow> string \<Rightarrow> bool \<times> 's FileServer" where
  "DeleteFile C d s file_id user_id =
     (case fst_GetById (fsc_store C) (fsv_store s) file_id of
        None \<Rightarrow> (False, s)
      | Some meta \<Rightarrow>
          if fm_uploader_id meta \<noteq> user_id then (False, s)
          else
            (let (ok, st) = fst_Delete (fsc_store C) (fsv_store s) file_id; s1 = s\<lparr>fsv_store := st\<rparr> in
             if \<not> ok then (False, s1)
             else (True, s1\<lparr>fsv_files := snd (fs_remove d (fm_storage_path meta) (fsv_files s1))\<rparr>)))"

definition CheckMd5 :: "'s FileServiceCore \<Rightarrow> 's FileServer \<Rightarrow> string \<Rightarrow> string option" where
  "CheckMd5 C s md5 = map_option fm_file_id (fst_GetByMd5 (fsc_store C) (fsv_store s) md5)"

definition cleanup_session ::
  "'s FileServiceCore \<Rightarrow> Disk \<Rightarrow> int \<Rightarrow> UploadSessionData \<Rightarrow> 's FileServer \<Rightarrow> 's FileServer" where
  "cleanup_session C d now session s =
     (if us_expire_at session > now then s
      else if fs_exists d (us_temp_path session) (fsv_files s) then
        (let (removed, files) = fs_remove d (us_temp_path session) (fsv_files s) in
         if \<not> removed then s
         else s\<lparr>fsv_files := files,
                fsv_store := snd (fst_DeleteUploadSession (fsc_store C) (fsv_store s) (us_upload_id session))\<rparr>)
      else s\<lparr>fsv_store := snd (fst_DeleteUploadSession (fsc_store C) (fsv_store s) (us_upload_id session))\<rparr>)"

definition CleanupExpiredSessions :: "'s FileServiceCore \<Rightarrow> Disk \<Rightarrow> int \<Rightarrow> 's FileServer \<Rightarrow> 's FileServer" where
  "CleanupExpiredSessions C d now s =
     fold (cleanup_session C d now) (fst_ListAllUploadSessions (fsc_store C) (fsv_store s)) s"

definition GetUploadToken ::
  "'s FileServiceCore \<Rightarrow> Disk \<Rightarrow> 64 word \<Rightarrow> 64 word \<Rightarrow> int \<Rightarrow> 's FileServer \<Rightarrow> string \<Rightarrow> string \<Rightarrow> int \<Rightarrow> UploadTokenResult \<times> 's FileServer" where
  "GetUploadToken C d ns rnd now s user_id file_name file_size =
     (let failed = (\<lambda>ec msg. \<lparr>utr_success = False, utr_error_code = ec, utr_error = msg, utr_upload_token = [],
                              utr_upload_url = [], utr_expire_at = 0\<rparr>)
      in if file_size \<le> 0 \<or> file_size > fc_max_file_size (fsc_config C)
         then (failed (ErrorCodeToInt EC_FILE_TOO_LARGE) (ErrorCodeToString EC_FILE_TOO_LARGE), s)
         else
           (let (init, s') = InitUpload C d ns rnd now s user_id file_name [] file_size [] [] in
            if \<not> iur_success init then (failed (iur_error_code init) (iur_error init), s')
            else
              (let url0 = BuildFileUrl (fsc_config C) [];
                   url = (if last url0 \<noteq> CHR ''/'' then url0 @ ''/'' else url0)
               in (\<lparr>utr_success = True, utr_error_code = 0, utr_error = [], utr_upload_token = iur_upload_id init,
                    utr_upload_url = url @ ''upload'', utr_expire_at = iur_expire_at init\<rparr>, s'))))"

end
