(* ===== verification/File_Service_Laws.thy ===== *)
theory File_Service_Laws
  imports File_Service
begin

text \<open>
  The file service over a store that keeps its promises.  Identifiers carry the clock reading of
  the call that made them, so that identifiers made later are new; the paths of different
  identifiers differ.  \<open>files_ok\<close> is the invariant that ties the store to the disk.  The
  locale \<open>file_service\<close> gives the outcome of every operation, and what all sequences of operations preserve.
\<close>

section \<open>Identifiers and paths\<close>

lemma file_HexEncode_eq: "file_HexEncode = BytesToHex"
  by (simp add: fun_eq_iff file_HexEncode_def BytesToHex_def kHex_def kHexChars_def)

lemma length_le_bytes [simp]: "length (le_bytes k n) = k"
  by (induction k arbitrary: n) auto

lemma le_bytes_inject: "n < 256 ^ k \<Longrightarrow> m < 256 ^ k \<Longrightarrow> le_bytes k n = le_bytes k m \<Longrightarrow> n = m"
proof (induction k arbitrary: n m)
  case (Suc k)
  then have "n div 256 = m div 256" by (intro Suc.IH) (auto simp: div_less_iff_less_mult)
  moreover have "n mod 256 = m mod 256"
    using Suc.prems(3) arg_cong [of "char_of n :: char" "char_of m" of_char] by simp
  ultimately show ?case by (metis div_mult_mod_eq)
qed simp

lemma GenerateFileId_inject: "GenerateFileId ns rnd = GenerateFileId ns' rnd' \<longleftrightarrow> ns = ns' \<and> rnd = rnd'"
proof
  assume eq: "GenerateFileId ns rnd = GenerateFileId ns' rnd'"
  have b: "unat w < 256 ^ 8" for w :: "64 word" using unsigned_less [of w, where ?'a = nat] by simp
  have "le_bytes 8 (unat ns) @ le_bytes 8 (unat rnd) = le_bytes 8 (unat ns') @ le_bytes 8 (unat rnd')"
    using arg_cong [OF eq, of HexDecode] by (simp add: GenerateFileId_def file_HexEncode_eq HexDecode_BytesToHex)
  then have "unat ns = unat ns'" "unat rnd = unat rnd'" using le_bytes_inject [OF b b] by (auto simp: append_eq_append_conv)
  then show "ns = ns' \<and> rnd = rnd'" by (simp add: word_unat_eq_iff)
qed simp

lemma length_BytesToHex: "length (BytesToHex bs) = 2 * length bs"
  by (induction bs) (simp_all add: BytesToHex_def)

lemma length_GenerateFileId [simp]: "length (GenerateFileId ns rnd) = 32"
  by (simp add: GenerateFileId_def file_HexEncode_eq length_BytesToHex)

lemma GenerateFileId_not_Nil [simp]: "GenerateFileId ns rnd \<noteq> []"
  using length_GenerateFileId [of ns rnd] by (metis list.size(3) zero_neq_numeral)

lemma hd_BytesToHex: "bs \<noteq> [] \<Longrightarrow> hd (BytesToHex bs) \<noteq> CHR ''.''"
proof (cases bs)
  case (Cons b bs')
  have "code b div 16 < 16" using code_less [of b] by arith
  then have "isxdigit (hex_char (code b div 16))" by simp
  moreover have "\<not> isxdigit CHR ''.''" by (simp add: isxdigit_def isdigit_def code_def)
  ultimately show ?thesis using Cons by (auto simp: BytesToHex_Cons)
qed simp

lemma hd_GenerateFileId: "hd (GenerateFileId ns rnd) \<noteq> CHR ''.''"
  unfolding GenerateFileId_def file_HexEncode_eq by (rule hd_BytesToHex) (metis append_is_Nil_conv length_le_bytes list.size(3) zero_neq_numeral)

text \<open>The identifiers made by clock readings before \<open>t\<close>.\<close>

definition issued :: "nat \<Rightarrow> string \<Rightarrow> bool" where
  "issued t i \<longleftrightarrow> (\<exists>ns rnd. i = GenerateFileId ns rnd \<and> unat ns < t)"

lemma issued_mono: "issued t i \<Longrightarrow> t \<le> t' \<Longrightarrow> issued t' i"
  by (auto simp: issued_def intro: less_le_trans)

lemma issued_new [simp]: "issued (Suc (unat ns)) (GenerateFileId ns rnd)"
  by (auto simp: issued_def)

lemma not_issued_new: "t \<le> unat ns \<Longrightarrow> \<not> issued t (GenerateFileId ns rnd)"
  by (auto simp: issued_def GenerateFileId_inject)

lemma issued_not_Nil: "issued t i \<Longrightarrow> i \<noteq> []"
  by (auto simp: issued_def)

lemma temp_path_eq [simp]: "GetTempPath c u = GetTempPath c v \<longleftrightarrow> u = v"
  by (simp add: GetTempPath_def)

lemma storage_path_eq: "issued t f \<Longrightarrow> issued t' g \<Longrightarrow> BuildStoragePath c f = BuildStoragePath c g \<longleftrightarrow> f = g"
  by (auto simp: issued_def BuildStoragePath_def append_eq_append_conv)

lemma temp_not_storage:
  assumes "issued t f"
  shows "GetTempPath c u \<noteq> BuildStoragePath c f"
proof
  assume eq: "GetTempPath c u = BuildStoragePath c f"
  from assms obtain ns rnd where f: "f = GenerateFileId ns rnd" by (auto simp: issued_def)
  then obtain x y z where xyz: "f = x # y # z" using length_GenerateFileId [of ns rnd] by (cases f; cases "tl f"; force)
  with eq have "x = CHR ''.''" by (simp add: GetTempPath_def BuildStoragePath_def)
  with f xyz show False using hd_GenerateFileId [of ns rnd] by (metis list.sel(1))
qed

section \<open>The invariant\<close>

definition file_config_ok :: "FileConfig \<Rightarrow> bool" where
  "file_config_ok c \<longleftrightarrow> is_int64 (fc_max_file_size c) \<and> 0 \<le> fc_upload_session_expire_seconds c \<and> fc_upload_session_expire_seconds c < 2 ^ 62"

definition seconds_ok :: "int \<Rightarrow> bool" where
  "seconds_ok now \<longleftrightarrow> 0 \<le> now \<and> now < 2 ^ 62"

definition stored_ok :: "FileConfig \<Rightarrow> nat \<Rightarrow> Files \<Rightarrow> string \<Rightarrow> FileMetaData \<Rightarrow> bool" where
  "stored_ok c t fs fid m \<longleftrightarrow> issued t fid \<and> fm_storage_path m = BuildStoragePath c fid \<and> fs (BuildStoragePath c fid) \<noteq> None"

definition upload_ok :: "FileConfig \<Rightarrow> nat \<Rightarrow> string \<Rightarrow> UploadSessionData \<Rightarrow> bool" where
  "upload_ok c t uid u \<longleftrightarrow> issued t uid \<and> us_temp_path u = GetTempPath c uid \<and> 0 \<le> us_bytes_written u \<and>
     us_bytes_written u \<le> us_file_size u \<and> 0 < us_file_size u \<and> us_file_size u \<le> fc_max_file_size c"

definition files_ok :: "FileConfig \<Rightarrow> nat \<Rightarrow> FileState \<Rightarrow> Files \<Rightarrow> bool" where
  "files_ok c t a fs \<longleftrightarrow>
     (\<forall>fid m. af_meta a fid = Some m \<longrightarrow> stored_ok c t fs fid m) \<and>
     (\<forall>uid u. af_up a uid = Some u \<longrightarrow> upload_ok c t uid u) \<and>
     (\<forall>h fid. af_md5 a h = Some fid \<longrightarrow> (\<exists>m. af_meta a fid = Some m \<and> fm_md5 m = h)) \<and>
     (\<forall>i. fs (GetTempPath c i) \<noteq> None \<longrightarrow> issued t i)"

lemma files_okD:
  assumes "files_ok c t a fs"
  shows "af_meta a fid = Some m \<Longrightarrow> stored_ok c t fs fid m" "af_up a uid = Some u \<Longrightarrow> upload_ok c t uid u"
    "af_md5 a h = Some fid \<Longrightarrow> \<exists>m. af_meta a fid = Some m \<and> fm_md5 m = h" "fs (GetTempPath c i) \<noteq> None \<Longrightarrow> issued t i"
  using assms unfolding files_ok_def by blast+

lemma stored_ok_mono: "stored_ok c t fs fid m \<Longrightarrow> t \<le> t' \<Longrightarrow> stored_ok c t' fs fid m"
  by (auto simp: stored_ok_def intro: issued_mono)

lemma upload_ok_mono: "upload_ok c t uid u \<Longrightarrow> t \<le> t' \<Longrightarrow> upload_ok c t' uid u"
  by (auto simp: upload_ok_def intro: issued_mono)

lemma files_ok_mono: "files_ok c t a fs \<Longrightarrow> t \<le> t' \<Longrightarrow> files_ok c t' a fs"
  unfolding files_ok_def by (blast intro: stored_ok_mono upload_ok_mono issued_mono)

text \<open>The ways in which the operations change the store and the disk, and that each keeps the invariant.\<close>

lemma files_ok_temp:
  assumes "files_ok c t a fs" "v = None \<or> issued t uid"
  shows "files_ok c t a (fs(GetTempPath c uid := v))"
proof -
  have "stored_ok c t (fs(GetTempPath c uid := v)) fid m" if "af_meta a fid = Some m" for fid m
    using files_okD(1) [OF assms(1) that] temp_not_storage [of t fid c uid] by (auto simp: stored_ok_def)
  then show ?thesis using assms unfolding files_ok_def by auto
qed

lemma files_ok_session:
  assumes "files_ok c t a fs" "upload_ok c t (us_upload_id u) u"
  shows "files_ok c t (with_session u a) fs"
  using assms unfolding files_ok_def by auto

lemma files_ok_no_session: "files_ok c t a fs \<Longrightarrow> files_ok c t (without_session uid a) fs"
  unfolding files_ok_def by auto

lemma files_ok_storage:
  assumes "files_ok c t a fs" "issued t' fid" "af_meta a fid = None"
  shows "files_ok c t a (fs(BuildStoragePath c fid := v))"
proof -
  have "stored_ok c t (fs(BuildStoragePath c fid := v)) f m" if "af_meta a f = Some m" for f m
  proof -
    have "issued t f" "f \<noteq> fid" using files_okD(1) [OF assms(1) that] that assms(3) by (auto simp: stored_ok_def)
    then show ?thesis
      using files_okD(1) [OF assms(1) that] storage_path_eq [of t f t' fid c] assms(2) by (auto simp: stored_ok_def)
  qed
  moreover have "(fs(BuildStoragePath c fid := v)) (GetTempPath c i) = fs (GetTempPath c i)" for i
    using temp_not_storage [OF assms(2)] by simp
  ultimately show ?thesis using assms(1) unfolding files_ok_def by simp
qed

lemma files_ok_meta:
  assumes "files_ok c t a fs" "stored_ok c t fs (fm_file_id m) m" "af_meta a (fm_file_id m) = None"
  shows "files_ok c t (with_meta m a) fs"
proof -
  have "\<exists>n. af_meta (with_meta m a) fid = Some n \<and> fm_md5 n = h" if "af_md5 (with_meta m a) h = Some fid" for h fid
    using that files_okD(3) [OF assms(1), of h fid] assms(3)
    by (cases "fm_md5 m \<noteq> [] \<and> h = fm_md5 m") (auto simp: with_meta_def split: if_splits)
  then show ?thesis using assms(1,2) unfolding files_ok_def by auto
qed

lemma files_ok_no_meta:
  assumes "files_ok c t a fs" "af_meta a fid = Some m" "fm_file_id m = fid" "af_md5 a [] = None"
  shows "files_ok c t (without_meta m a) fs"
proof -
  have "\<exists>n. af_meta (without_meta m a) f = Some n \<and> fm_md5 n = h" if "af_md5 (without_meta m a) h = Some f" for h f
  proof -
    have h: "af_md5 a h = Some f" "h \<noteq> fm_md5 m" using that assms(4) by (auto simp: without_meta_def split: if_splits)
    from files_okD(3) [OF assms(1) h(1)] obtain n where "af_meta a f = Some n" "fm_md5 n = h" by blast
    with h(2) assms(2,3) show ?thesis by auto
  qed
  then show ?thesis using assms(1) unfolding files_ok_def by auto
qed

section \<open>What a change keeps\<close>

text \<open>
  \<open>evolves c t D T a fs a' fs'\<close>: the invariant holds afterwards, the files outside \<open>D\<close> keep their meta
  data and their bytes, and the upload sessions outside \<open>T\<close> keep their record and their temporary file.
\<close>

definition files_kept :: "FileConfig \<Rightarrow> string set \<Rightarrow> FileState \<Rightarrow> Files \<Rightarrow> FileState \<Rightarrow> Files \<Rightarrow> bool" where
  "files_kept c D a fs a' fs' \<longleftrightarrow> (\<forall>fid m. fid \<notin> D \<longrightarrow> af_meta a fid = Some m \<longrightarrow>
     af_meta a' fid = Some m \<and> fs' (BuildStoragePath c fid) = fs (BuildStoragePath c fid))"

definition uploads_kept :: "FileConfig \<Rightarrow> string set \<Rightarrow> FileState \<Rightarrow> Files \<Rightarrow> FileState \<Rightarrow> Files \<Rightarrow> bool" where
  "uploads_kept c T a fs a' fs' \<longleftrightarrow> (\<forall>uid u. uid \<notin> T \<longrightarrow> af_up a uid = Some u \<longrightarrow>
     af_up a' uid = Some u \<and> fs' (GetTempPath c uid) = fs (GetTempPath c uid))"

definition evolves ::
  "FileConfig \<Rightarrow> nat \<Rightarrow> string set \<Rightarrow> string set \<Rightarrow> FileState \<Rightarrow> Files \<Rightarrow> FileState \<Rightarrow> Files \<Rightarrow> bool" where
  "evolves c t D T a fs a' fs' \<longleftrightarrow> files_ok c t a' fs' \<and> files_kept c D a fs a' fs' \<and> uploads_kept c T a fs a' fs'"

lemma files_keptD:
  "files_kept c D a fs a' fs' \<Longrightarrow> fid \<notin> D \<Longrightarrow> af_meta a fid = Some m \<Longrightarrow>
   af_meta a' fid = Some m \<and> fs' (BuildStoragePath c fid) = fs (BuildStoragePath c fid)"
  unfolding files_kept_def by blast

lemma uploads_keptD:
  "uploads_kept c T a fs a' fs' \<Longrightarrow> uid \<notin> T \<Longrightarrow> af_up a uid = Some u \<Longrightarrow>
   af_up a' uid = Some u \<and> fs' (GetTempPath c uid) = fs (GetTempPath c uid)"
  unfolding uploads_kept_def by blast

lemma evolvesD:
  assumes "evolves c t D T a fs a' fs'"
  shows "files_ok c t a' fs'" "files_kept c D a fs a' fs'" "uploads_kept c T a fs a' fs'"
  using assms by (simp_all add: evolves_def)

lemma evolves_refl: "files_ok c t a fs \<Longrightarrow> evolves c t D T a fs a fs"
  by (simp add: evolves_def files_kept_def uploads_kept_def)

lemma evolves_trans:
  assumes "evolves c t D T a fs b gs" "evolves c t D T b gs a' hs"
  shows "evolves c t D T a fs a' hs"
proof -
  have "files_kept c D a fs a' hs"
    unfolding files_kept_def
    using files_keptD [OF evolvesD(2) [OF assms(1)]] files_keptD [OF evolvesD(2) [OF assms(2)]] by metis
  moreover have "uploads_kept c T a fs a' hs"
    unfolding uploads_kept_def
    using uploads_keptD [OF evolvesD(3) [OF assms(1)]] uploads_keptD [OF evolvesD(3) [OF assms(2)]] by metis
  ultimately show ?thesis using evolvesD(1) [OF assms(2)] by (simp add: evolves_def)
qed

lemma evolves_temp:
  assumes "files_ok c t a fs" "v = None \<or> issued t uid" "uid \<in> T \<or> af_up a uid = None"
  shows "evolves c t D T a fs a (fs(GetTempPath c uid := v))"
proof -
  have "BuildStoragePath c fid \<noteq> GetTempPath c uid" if "af_meta a fid = Some m" for fid m
    using files_okD(1) [OF assms(1) that] temp_not_storage [of t fid c uid] by (auto simp: stored_ok_def)
  then show ?thesis using files_ok_temp [OF assms(1,2)] assms(3)
    by (auto simp: evolves_def files_kept_def uploads_kept_def)
qed

lemma evolves_storage:
  assumes "files_ok c t a fs" "issued t' fid" "af_meta a fid = None"
  shows "evolves c t D T a fs a (fs(BuildStoragePath c fid := v))"
proof -
  have "BuildStoragePath c f \<noteq> BuildStoragePath c fid" if "af_meta a f = Some m" for f m
    using files_okD(1) [OF assms(1) that] storage_path_eq [of t f t' fid c] assms(2,3) that by (auto simp: stored_ok_def)
  then show ?thesis using files_ok_storage [OF assms] temp_not_storage [OF assms(2)]
    by (auto simp: evolves_def files_kept_def uploads_kept_def)
qed

lemma evolves_session:
  assumes "files_ok c t a fs" "upload_ok c t (us_upload_id u) u" "us_upload_id u \<in> T \<or> af_up a (us_upload_id u) = None"
  shows "evolves c t D T a fs (with_session u a) fs"
  using files_ok_session [OF assms(1,2)] assms(3) by (auto simp: evolves_def files_kept_def uploads_kept_def)

lemma evolves_no_session:
  assumes "files_ok c t a fs" "uid \<in> T"
  shows "evolves c t D T a fs (without_session uid a) fs"
  using files_ok_no_session [OF assms(1)] assms(2) by (auto simp: evolves_def files_kept_def uploads_kept_def)

lemma evolves_meta:
  assumes "files_ok c t a fs" "stored_ok c t fs (fm_file_id m) m" "af_meta a (fm_file_id m) = None"
  shows "evolves c t D T a fs (with_meta m a) fs"
  using files_ok_meta [OF assms] assms(3) by (auto simp: evolves_def files_kept_def uploads_kept_def)

lemma evolves_no_meta:
  assumes "files_ok c t a fs" "af_meta a fid = Some m" "fm_file_id m = fid" "af_md5 a [] = None" "fid \<in> D"
  shows "evolves c t D T a fs (without_meta m a) fs"
  using files_ok_no_meta [OF assms(1-4)] assms(3,5) by (auto simp: evolves_def files_kept_def uploads_kept_def)

section \<open>The service over a store that keeps its contract\<close>

definition file_core :: "'s FileStore \<Rightarrow> FileConfig \<Rightarrow> 's FileServiceCore" where
  "file_core FS config = \<lparr>fsc_store = FS, fsc_config = config\<rparr>"

lemma file_core_simps [simp]: "fsc_store (file_core FS config) = FS" "fsc_config (file_core FS config) = config"
  by (simp_all add: file_core_def)

lemma fs_remove_cases: "fs_remove d p fs = (ok, fs') \<Longrightarrow> fs' = fs \<or> fs' = fs(p := None)"
  by (auto simp: fs_remove_def split: if_splits)

lemma fs_rename_cases: "fs_rename d p q fs = (True, fs') \<Longrightarrow> \<exists>c. fs p = Some c \<and> fs' = (fs(p := None))(q \<mapsto> c)"
  by (auto simp: fs_rename_def split: option.splits if_splits)

locale file_service = file_store FS inv abs
  for FS :: "'s FileStore" and inv :: "'s \<Rightarrow> bool" and abs :: "'s \<Rightarrow> FileState" +
  fixes config :: FileConfig
  assumes config_ok: "file_config_ok config"
begin

definition server_ok :: "nat \<Rightarrow> 's FileServer \<Rightarrow> bool" where
  "server_ok t s \<longleftrightarrow> inv (fsv_store s) \<and> files_ok config t (abs (fsv_store s)) (fsv_files s)"

definition server_evolves :: "nat \<Rightarrow> string set \<Rightarrow> string set \<Rightarrow> 's FileServer \<Rightarrow> 's FileServer \<Rightarrow> bool" where
  "server_evolves t D T s s' \<longleftrightarrow>
     inv (fsv_store s') \<and> evolves config t D T (abs (fsv_store s)) (fsv_files s) (abs (fsv_store s')) (fsv_files s')"

lemma server_evolves_ok: "server_evolves t D T s s' \<Longrightarrow> server_ok t s'"
  by (auto simp: server_evolves_def server_ok_def dest: evolvesD(1))

lemma server_evolves_refl: "server_ok t s \<Longrightarrow> server_evolves t D T s s"
  by (simp add: server_evolves_def server_ok_def evolves_refl)

lemma server_ok_mono: "server_ok t s \<Longrightarrow> t \<le> t' \<Longrightarrow> server_ok t' s"
  by (auto simp: server_ok_def intro: files_ok_mono)

lemma session_fresh:
  assumes "server_ok t s" "t \<le> unat ns"
  shows "af_up (abs (fsv_store s)) (GenerateFileId ns rnd) = None" "af_meta (abs (fsv_store s)) (GenerateFileId ns rnd) = None"
    "fsv_files s (GetTempPath config (GenerateFileId ns rnd)) = None"
proof -
  let ?i = "GenerateFileId ns rnd"
  have f: "files_ok config t (abs (fsv_store s)) (fsv_files s)" using assms(1) by (simp add: server_ok_def)
  note n = not_issued_new [OF assms(2), of rnd]
  show "af_up (abs (fsv_store s)) ?i = None" using files_okD(2) [OF f] n by (cases "af_up (abs (fsv_store s)) ?i") (auto simp: upload_ok_def)
  show "af_meta (abs (fsv_store s)) ?i = None" using files_okD(1) [OF f] n by (cases "af_meta (abs (fsv_store s)) ?i") (auto simp: stored_ok_def)
  show "fsv_files s (GetTempPath config ?i) = None" using files_okD(4) [OF f] n by blast
qed

lemma session_shape:
  assumes "server_ok t s" "af_up (abs (fsv_store s)) uid = Some u"
  shows "us_upload_id u = uid" "session_ok u" "upload_ok config t uid u"
  using assms session_data [of "fsv_store s" uid u] files_okD(2) [of config t "abs (fsv_store s)" "fsv_files s" uid u]
  by (simp_all add: server_ok_def)

lemma new_session_ok:
  assumes "0 < sz" "sz \<le> fc_max_file_size config" "seconds_ok now"
  shows "session_ok (new_session (GenerateFileId ns rnd) user nm ct sz md5 msg p (now + fc_upload_session_expire_seconds config))"
    and "upload_ok config (Suc (unat ns)) (GenerateFileId ns rnd)
      (new_session (GenerateFileId ns rnd) user nm ct sz md5 msg (GetTempPath config (GenerateFileId ns rnd)) e)"
  using assms config_ok
  by (auto simp: session_ok_def new_session_def upload_ok_def file_config_ok_def seconds_ok_def is_int64_def)

lemma server_step_store:
  assumes "server_ok t s" "inv st" "abs st = abs (fsv_store s)"
  shows "server_evolves t D T s (s\<lparr>fsv_store := st\<rparr>)"
  using assms by (simp add: server_evolves_def server_ok_def evolves_refl)

subsection \<open>Initialising an upload\<close>

lemma InitUpload_cases:
  assumes "InitUpload (file_core FS config) d ns rnd now s user nm ct sz md5 msg = (r, s')"
  obtains (refused) "s' = s" "\<not> iur_success r"
  | (existing) m where "s' = s" "iur_success r" "fst_GetByMd5 FS (fsv_store s) md5 = Some m" "iur_existing_file_id r = fm_file_id m"
      "0 < sz" "sz \<le> fc_max_file_size config"
  | (saved) st where "s' = s\<lparr>fsv_store := st\<rparr>" "0 < sz" "sz \<le> fc_max_file_size config"
      "fst_SaveUploadSession FS (fsv_store s) (new_session (GenerateFileId ns rnd) user nm ct sz md5 msg
        (GetTempPath config (GenerateFileId ns rnd)) (now + fc_upload_session_expire_seconds config)) = (iur_success r, st)"
      "iur_success r \<longrightarrow> iur_upload_id r = GenerateFileId ns rnd" "iur_existing_file_id r = []"
proof (cases "sz \<le> 0 \<or> sz > fc_max_file_size config")
  case True
  with assms refused show ?thesis by (auto simp: InitUpload_def init_failed_def Let_def)
next
  case size: False
  show ?thesis
  proof (cases "if md5 \<noteq> [] then fst_GetByMd5 FS (fsv_store s) md5 else None")
    case (Some m)
    with size assms existing show ?thesis by (auto simp: InitUpload_def Let_def split: if_splits)
  next
    case None
    obtain ok st where "fst_SaveUploadSession FS (fsv_store s) (new_session (GenerateFileId ns rnd) user nm ct sz md5 msg
        (GetTempPath config (GenerateFileId ns rnd)) (now + fc_upload_session_expire_seconds config)) = (ok, st)" by fastforce
    with size None assms refused saved show ?thesis
      by (auto simp: InitUpload_def init_failed_def Let_def split: if_splits)
  qed
qed

lemma InitUpload_outcome:
  assumes ok: "server_ok t s" and now: "seconds_ok now" "t \<le> unat ns"
    and run: "InitUpload (file_core FS config) d ns rnd now s user nm ct sz md5 msg = (r, s')"
  shows "server_evolves (Suc (unat ns)) {} {} s s'"
    and "iur_success r \<Longrightarrow> iur_existing_file_id r = [] \<Longrightarrow>
      iur_upload_id r = GenerateFileId ns rnd \<and> fsv_files s' = fsv_files s \<and>
      abs (fsv_store s') = with_session (new_session (GenerateFileId ns rnd) user nm ct sz md5 msg
        (GetTempPath config (GenerateFileId ns rnd)) (now + fc_upload_session_expire_seconds config)) (abs (fsv_store s))"
    and "iur_success r \<Longrightarrow> iur_existing_file_id r \<noteq> [] \<Longrightarrow>
      s' = s \<and> (\<exists>m. af_meta (abs (fsv_store s)) (iur_existing_file_id r) = Some m \<and> fm_md5 m = md5)"
proof -
  let ?t = "Suc (unat ns)"
  have ok': "server_ok ?t s" and inv: "inv (fsv_store s)"
    using server_ok_mono [OF ok] now(2) ok by (auto simp: server_ok_def)
  show "server_evolves ?t {} {} s s'"
    using run
  proof (cases rule: InitUpload_cases)
    case (saved st)
    note n = new_session_ok [OF saved(2,3) now(1)]
    note st = save_session [OF inv n(1) saved(4)]
    have "evolves config ?t {} {} (abs (fsv_store s)) (fsv_files s) (abs st) (fsv_files s)"
      using st n(2) session_fresh(1) [OF ok now(2), of rnd] ok'
      by (auto simp: server_ok_def new_session_def intro: evolves_refl evolves_session)
    with st saved(1) show ?thesis by (simp add: server_evolves_def)
  qed (use ok' in \<open>auto intro: server_evolves_refl\<close>)
  show "iur_upload_id r = GenerateFileId ns rnd \<and> fsv_files s' = fsv_files s \<and>
      abs (fsv_store s') = with_session (new_session (GenerateFileId ns rnd) user nm ct sz md5 msg
        (GetTempPath config (GenerateFileId ns rnd)) (now + fc_upload_session_expire_seconds config)) (abs (fsv_store s))"
    if "iur_success r" "iur_existing_file_id r = []"
    using run
  proof (cases rule: InitUpload_cases)
    case (existing m)
    then have "fm_file_id m = []" using that by simp
    moreover have "\<exists>fid. af_meta (abs (fsv_store s)) fid = Some m" using existing(3) get_by_md5 [OF inv] by (auto simp: bind_eq_Some_conv)
    ultimately show ?thesis using meta_data [OF inv] by (auto simp: meta_ok_def)
  next
    case (saved st)
    then show ?thesis using save_session [OF inv new_session_ok(1) [OF saved(2,3) now(1)] saved(4)] that by simp
  qed (use that in simp)
  show "s' = s \<and> (\<exists>m. af_meta (abs (fsv_store s)) (iur_existing_file_id r) = Some m \<and> fm_md5 m = md5)"
    if "iur_success r" "iur_existing_file_id r \<noteq> []"
    using run
  proof (cases rule: InitUpload_cases)
    case (existing m)
    obtain fid where fid: "af_md5 (abs (fsv_store s)) md5 = Some fid" "af_meta (abs (fsv_store s)) fid = Some m"
      using existing(3) get_by_md5 [OF inv] by (auto simp: bind_eq_Some_conv)
    then have "fm_md5 m = md5" using ok files_okD(3) unfolding server_ok_def by fastforce
    with existing fid meta_data [OF inv fid(2)] show ?thesis by simp
  qed (use that in simp_all)
qed

subsection \<open>Appending a chunk\<close>

lemma AppendChunk_cases:
  assumes "AppendChunk (file_core FS config) d s uid data = (r, s')" "inv (fsv_store s)"
  obtains (refused) "s' = s" "\<not> acr_success r"
  | (partial) u x where "af_up (abs (fsv_store s)) uid = Some u" "\<not> acr_success r"
      "us_bytes_written u + int (length data) \<le> us_file_size u"
      "s' = s\<lparr>fsv_files := (fsv_files s)(us_temp_path u \<mapsto> (case fsv_files s (us_temp_path u) of None \<Rightarrow> [] | Some c \<Rightarrow> c) @ x)\<rparr>"
  | (written) u st where "af_up (abs (fsv_store s)) uid = Some u"
      "us_bytes_written u + int (length data) \<le> us_file_size u"
      "fst_UpdateUploadSessionBytes FS (fsv_store s) uid (us_bytes_written u + int (length data)) = (acr_success r, st)"
      "s' = s\<lparr>fsv_store := st, fsv_files :=
         (fsv_files s)(us_temp_path u \<mapsto> (case fsv_files s (us_temp_path u) of None \<Rightarrow> [] | Some c \<Rightarrow> c) @ data)\<rparr>"
proof (cases "af_up (abs (fsv_store s)) uid")
  case None
  with assms refused show ?thesis by (auto simp: AppendChunk_def get_session append_failed_def)
next
  case (Some u)
  let ?old = "case fsv_files s (us_temp_path u) of None \<Rightarrow> [] | Some c \<Rightarrow> c"
  obtain ok st where st: "fst_UpdateUploadSessionBytes FS (fsv_store s) uid (us_bytes_written u + int (length data)) = (ok, st)" by fastforce
  show ?thesis
  proof (cases "us_bytes_written u + int (length data) > us_file_size u \<or> \<not> dk_open d (us_temp_path u)")
    case True
    with Some assms refused show ?thesis by (auto simp: AppendChunk_def get_session append_failed_def Let_def split: if_splits)
  next
    case go: False
    show ?thesis
    proof (cases "dk_write d (us_temp_path u) \<and> dk_flush d (us_temp_path u)")
      case True
      with go Some assms st written [of u st] show ?thesis
        by (auto simp: AppendChunk_def get_session append_failed_def Let_def stream_write_def split: if_splits)
    next
      case False
      with go Some assms partial [of u "take (dk_partial d (us_temp_path u)) data"] show ?thesis
        by (auto simp: AppendChunk_def get_session append_failed_def Let_def stream_write_def split: if_splits)
    qed
  qed
qed

lemma bytes_int64: "session_ok u \<Longrightarrow> upload_ok c t uid u \<Longrightarrow> us_bytes_written u + int n \<le> us_file_size u \<Longrightarrow> is_int64 (us_bytes_written u + int n)"
  by (auto simp: session_ok_def upload_ok_def is_int64_def)

lemma AppendChunk_outcome:
  assumes ok: "server_ok t s" and run: "AppendChunk (file_core FS config) d s uid data = (r, s')"
  shows "server_evolves t {} {uid} s s'"
    and "acr_success r \<Longrightarrow> \<exists>u. af_up (abs (fsv_store s)) uid = Some u \<and>
      us_bytes_written u + int (length data) \<le> us_file_size u \<and>
      af_up (abs (fsv_store s')) uid = Some (u\<lparr>us_bytes_written := us_bytes_written u + int (length data)\<rparr>) \<and>
      fsv_files s' (GetTempPath config uid) = Some ((case fsv_files s (GetTempPath config uid) of None \<Rightarrow> [] | Some c \<Rightarrow> c) @ data)"
proof -
  have inv: "inv (fsv_store s)" and fok: "files_ok config t (abs (fsv_store s)) (fsv_files s)" using ok by (simp_all add: server_ok_def)
  show "server_evolves t {} {uid} s s'"
    using run inv
  proof (cases rule: AppendChunk_cases)
    case (partial u x)
    have "issued t uid" "us_temp_path u = GetTempPath config uid" using session_shape(3) [OF ok partial(1)] by (simp_all add: upload_ok_def)
    with partial evolves_temp [OF fok] inv show ?thesis by (simp add: server_evolves_def)
  next
    case (written u st)
    let ?u = "u\<lparr>us_bytes_written := us_bytes_written u + int (length data)\<rparr>"
    note sh = session_shape [OF ok written(1)]
    have p: "issued t uid" "us_temp_path u = GetTempPath config uid" using sh(3) by (simp_all add: upload_ok_def)
    have st: "inv st" "abs st = (if acr_success r then with_session ?u (abs (fsv_store s)) else abs (fsv_store s))"
      using update_bytes [OF inv bytes_int64 [OF sh(2,3) written(2)] written(3)] written(1) by simp_all
    have e1: "evolves config t {} {uid} (abs (fsv_store s)) (fsv_files s) (abs (fsv_store s)) (fsv_files s')"
      using evolves_temp [OF fok] p written(4) by simp
    have "upload_ok config t (us_upload_id ?u) ?u" using sh(1,3) written(2) by (simp add: upload_ok_def)
    then have "evolves config t {} {uid} (abs (fsv_store s)) (fsv_files s') (abs st) (fsv_files s')"
      using st(2) sh(1) evolvesD(1) [OF e1] by (auto intro: evolves_session evolves_refl)
    with e1 st(1) written(4) show ?thesis by (auto simp: server_evolves_def intro: evolves_trans)
  qed (use ok in \<open>auto intro: server_evolves_refl\<close>)
  show "\<exists>u. af_up (abs (fsv_store s)) uid = Some u \<and> us_bytes_written u + int (length data) \<le> us_file_size u \<and>
      af_up (abs (fsv_store s')) uid = Some (u\<lparr>us_bytes_written := us_bytes_written u + int (length data)\<rparr>) \<and>
      fsv_files s' (GetTempPath config uid) = Some ((case fsv_files s (GetTempPath config uid) of None \<Rightarrow> [] | Some c \<Rightarrow> c) @ data)"
    if "acr_success r"
    using run inv
  proof (cases rule: AppendChunk_cases)
    case (written u st)
    note sh = session_shape [OF ok written(1)]
    show ?thesis
      using update_bytes [OF inv bytes_int64 [OF sh(2,3) written(2)] written(3)] written that sh(1,3)
      by (simp add: upload_ok_def)
  qed (use that in auto)
qed

subsection \<open>Completing an upload\<close>

lemma CompleteUpload_cases:
  assumes "CompleteUpload (file_core FS config) d ns rnd now s uid = (r, s')" "inv (fsv_store s)"
  obtains (refused) "s' = s" "\<not> cur_success r"
  | (moved) u c saved st where "af_up (abs (fsv_store s)) uid = Some u" "us_bytes_written u = us_file_size u"
      "fsv_files s (us_temp_path u) = Some c" "saved = cur_success r"
      "fst_Save FS (fsv_store s) (uploaded_meta u (GenerateFileId ns rnd) (BuildStoragePath config (GenerateFileId ns rnd)) now) = (saved, st)"
      "saved \<longrightarrow> cur_file_id r = GenerateFileId ns rnd \<and> s' = s\<lparr>fsv_store := snd (fst_DeleteUploadSession FS st uid),
         fsv_files := ((fsv_files s)(us_temp_path u := None))(BuildStoragePath config (GenerateFileId ns rnd) \<mapsto> c)\<rparr>"
      "\<not> saved \<longrightarrow> (\<exists>v. s' = s\<lparr>fsv_store := st,
         fsv_files := ((fsv_files s)(us_temp_path u := None))(BuildStoragePath config (GenerateFileId ns rnd) := v)\<rparr>)"
proof -
  let ?f = "GenerateFileId ns rnd"
  show ?thesis
  proof (cases "\<exists>u files. af_up (abs (fsv_store s)) uid = Some u \<and> us_bytes_written u = us_file_size u \<and>
      dk_mkdir d (parent_path (BuildStoragePath config ?f)) \<and> fs_rename d (us_temp_path u) (BuildStoragePath config ?f) (fsv_files s) = (True, files)")
    case False
    with assms refused show ?thesis
      by (auto simp: CompleteUpload_def get_session complete_failed_def Let_def split: option.splits if_splits prod.splits)
  next
    case True
    then obtain u files where u: "af_up (abs (fsv_store s)) uid = Some u" "us_bytes_written u = us_file_size u"
      "dk_mkdir d (parent_path (BuildStoragePath config ?f))" "fs_rename d (us_temp_path u) (BuildStoragePath config ?f) (fsv_files s) = (True, files)"
      by blast
    obtain c where c: "fsv_files s (us_temp_path u) = Some c" "files = ((fsv_files s)(us_temp_path u := None))(BuildStoragePath config ?f \<mapsto> c)"
      using fs_rename_cases [OF u(4)] by blast
    obtain saved st where sv: "fst_Save FS (fsv_store s) (uploaded_meta u ?f (BuildStoragePath config ?f) now) = (saved, st)" by fastforce
    obtain v where v: "snd (fs_remove d (BuildStoragePath config ?f) files) = ((fsv_files s)(us_temp_path u := None))(BuildStoragePath config ?f := v)"
      using fs_remove_cases [of d "BuildStoragePath config ?f" files] c(2) by (cases "fs_remove d (BuildStoragePath config ?f) files") auto
    show ?thesis
      by (rule moved [OF u(1,2) c(1) _ sv])
        (use assms u sv c(2) v in \<open>auto simp: CompleteUpload_def get_session complete_failed_def Let_def split: if_splits\<close>)
  qed
qed

lemma CompleteUpload_outcome:
  assumes ok: "server_ok t s" and now: "seconds_ok now" "t \<le> unat ns"
    and run: "CompleteUpload (file_core FS config) d ns rnd now s uid = (r, s')"
  shows "server_evolves (Suc (unat ns)) {} {uid} s s'"
    and "cur_success r \<Longrightarrow> \<exists>u c. af_up (abs (fsv_store s)) uid = Some u \<and> us_bytes_written u = us_file_size u \<and>
      fsv_files s (GetTempPath config uid) = Some c \<and> cur_file_id r = GenerateFileId ns rnd \<and>
      af_meta (abs (fsv_store s')) (cur_file_id r) =
        Some (uploaded_meta u (cur_file_id r) (BuildStoragePath config (cur_file_id r)) now) \<and>
      fsv_files s' (BuildStoragePath config (cur_file_id r)) = Some c"
proof -
  let ?t = "Suc (unat ns)" let ?f = "GenerateFileId ns rnd"
  let ?p = "BuildStoragePath config ?f"
  have ok': "server_ok ?t s" and inv: "inv (fsv_store s)"
    using server_ok_mono [OF ok] now(2) ok by (auto simp: server_ok_def)
  have fok: "files_ok config ?t (abs (fsv_store s)) (fsv_files s)" using ok' by (simp add: server_ok_def)
  have meta_ok: "meta_ok (uploaded_meta u ?f ?p now)" if "session_ok u" for u
    using that now(1) by (simp add: meta_ok_def session_ok_def uploaded_meta_def seconds_ok_def is_int64_def)
  have moves: "evolves config ?t {} {uid} (abs (fsv_store s)) (fsv_files s) (abs (fsv_store s)) (((fsv_files s)(us_temp_path u := None))(?p := v))"
    if "af_up (abs (fsv_store s)) uid = Some u" for u v
  proof -
    have p: "us_temp_path u = GetTempPath config uid" using session_shape(3) [OF ok that] by (simp add: upload_ok_def)
    have e: "evolves config ?t {} {uid} (abs (fsv_store s)) (fsv_files s) (abs (fsv_store s)) ((fsv_files s)(us_temp_path u := None))"
      unfolding p using fok by (intro evolves_temp) auto
    show ?thesis
      by (rule evolves_trans [OF e evolves_storage [OF evolvesD(1) [OF e] issued_new session_fresh(2) [OF ok now(2)]]])
  qed
  show "server_evolves ?t {} {uid} s s'"
    using run inv
  proof (cases rule: CompleteUpload_cases)
    case (moved u c saved st)
    note sh = session_shape [OF ok moved(1)]
    let ?m = "uploaded_meta u ?f ?p now"
    note st = save [OF inv meta_ok [OF sh(2)] moved(5)]
    show ?thesis
    proof (cases saved)
      case False
      with moved(7) moves [OF moved(1)] st show ?thesis by (auto simp: server_evolves_def)
    next
      case True
      let ?fs = "((fsv_files s)(us_temp_path u := None))(?p \<mapsto> c)"
      obtain ok2 st2 where d: "fst_DeleteUploadSession FS st uid = (ok2, st2)" by fastforce
      have a: "abs st = with_meta ?m (abs (fsv_store s))" "inv st" using st True by simp_all
      note d2 = delete_session [OF a(2) d]
      note e1 = moves [OF moved(1), of "Some c"]
      have "evolves config ?t {} {uid} (abs (fsv_store s)) ?fs (abs st) ?fs"
        unfolding a(1) using session_fresh(2) [OF ok now(2), of rnd]
        by (intro evolves_meta evolvesD(1) [OF e1]) (simp_all add: uploaded_meta_def stored_ok_def)
      from evolves_trans [OF e1 this]
      have e2: "evolves config ?t {} {uid} (abs (fsv_store s)) (fsv_files s) (abs st) ?fs" .
      have "evolves config ?t {} {uid} (abs st) ?fs (abs st2) ?fs"
        using d2 evolvesD(1) [OF e2] by (auto intro: evolves_refl evolves_no_session)
      from evolves_trans [OF e2 this] True moved(6) d d2 show ?thesis by (simp add: server_evolves_def)
    qed
  qed (use ok' in \<open>auto intro: server_evolves_refl\<close>)
  show "\<exists>u c. af_up (abs (fsv_store s)) uid = Some u \<and> us_bytes_written u = us_file_size u \<and>
      fsv_files s (GetTempPath config uid) = Some c \<and> cur_file_id r = ?f \<and>
      af_meta (abs (fsv_store s')) (cur_file_id r) = Some (uploaded_meta u (cur_file_id r) (BuildStoragePath config (cur_file_id r)) now) \<and>
      fsv_files s' (BuildStoragePath config (cur_file_id r)) = Some c"
    if "cur_success r"
    using run inv
  proof (cases rule: CompleteUpload_cases)
    case (moved u c saved st)
    note sh = session_shape [OF ok moved(1)]
    note st = save [OF inv meta_ok [OF sh(2)] moved(5)]
    obtain ok2 st2 where d: "fst_DeleteUploadSession FS st uid = (ok2, st2)" by fastforce
    have "af_meta (abs st2) ?f = Some (uploaded_meta u ?f ?p now)"
      using delete_session [OF _ d] st moved(4) that by (simp add: uploaded_meta_def)
    moreover have "us_temp_path u = GetTempPath config uid" using sh(3) by (simp add: upload_ok_def)
    ultimately show ?thesis using moved that d by simp
  qed (use that in auto)
qed

subsection \<open>Uploading in one call\<close>

lemma Upload_cases:
  assumes "Upload (file_core FS config) d ns rnd now s user nm ct data = (r, s')"
  obtains (refused) "s' = s" "\<not> ulr_success r"
  | (failed) v where "s' = s\<lparr>fsv_files := (fsv_files s)(BuildStoragePath config (GenerateFileId ns rnd) := v)\<rparr>" "\<not> ulr_success r"
  | (saved) m st v x where "m = \<lparr>fm_file_id = GenerateFileId ns rnd, fm_file_name = nm, fm_content_type = ct, fm_file_size = int (length data),
         fm_md5 = [], fm_uploader_id = user, fm_storage_path = BuildStoragePath config (GenerateFileId ns rnd), fm_uploaded_at = now\<rparr>"
      "int (length data) \<le> fc_max_file_size config" "fst_Save FS (fsv_store s) m = (ulr_success r, st)"
      "s' = s\<lparr>fsv_store := st, fsv_files := (fsv_files s)(BuildStoragePath config (GenerateFileId ns rnd) := v)\<rparr>"
      "ulr_success r \<longrightarrow> v = Some x \<and> ulr_file_id r = GenerateFileId ns rnd \<and>
         (dk_flush d (BuildStoragePath config (GenerateFileId ns rnd)) \<longrightarrow> x = data)"
proof -
  let ?f = "GenerateFileId ns rnd" let ?p = "BuildStoragePath config ?f"
  let ?x = "if dk_write d ?p \<and> dk_flush d ?p then data else take (dk_partial d ?p) data"
  let ?m = "\<lparr>fm_file_id = ?f, fm_file_name = nm, fm_content_type = ct, fm_file_size = int (length data),
         fm_md5 = [], fm_uploader_id = user, fm_storage_path = ?p, fm_uploaded_at = now\<rparr>"
  obtain ok st where st: "fst_Save FS (fsv_store s) ?m = (ok, st)" by fastforce
  obtain v where v: "snd (fs_remove d ?p ((fsv_files s)(?p \<mapsto> ?x))) = (fsv_files s)(?p := v)"
    using fs_remove_cases [of d ?p "(fsv_files s)(?p \<mapsto> ?x)"] by (cases "fs_remove d ?p ((fsv_files s)(?p \<mapsto> ?x))") auto
  show ?thesis
  proof (cases "int (length data) > fc_max_file_size config \<or> \<not> dk_mkdir d (parent_path ?p) \<or> \<not> dk_open d ?p")
    case True
    with assms refused show ?thesis by (auto simp: Upload_def upload_failed_def Let_def split: if_splits)
  next
    case go: False
    show ?thesis
    proof (cases "dk_write d ?p")
      case False
      with go assms v failed [of v] show ?thesis by (auto simp: Upload_def upload_failed_def Let_def stream_write_def split: if_splits)
    next
      case True
      with go assms v st saved [OF refl, of st v ?x] saved [OF refl, of st "Some ?x" ?x] show ?thesis
        by (cases ok) (auto simp: Upload_def upload_failed_def Let_def stream_write_def split: if_splits)
    qed
  qed
qed

lemma Upload_outcome:
  assumes ok: "server_ok t s" and now: "seconds_ok now" "t \<le> unat ns"
    and run: "Upload (file_core FS config) d ns rnd now s user nm ct data = (r, s')"
  shows "server_evolves (Suc (unat ns)) {} {} s s'"
    and "ulr_success r \<Longrightarrow> \<exists>m x. af_meta (abs (fsv_store s')) (ulr_file_id r) = Some m \<and> ulr_file_id r = GenerateFileId ns rnd \<and>
      fm_uploader_id m = user \<and> fm_file_name m = nm \<and> fm_content_type m = ct \<and>
      fsv_files s' (BuildStoragePath config (ulr_file_id r)) = Some x \<and>
      (dk_flush d (BuildStoragePath config (ulr_file_id r)) \<longrightarrow> x = data)"
proof -
  let ?t = "Suc (unat ns)" let ?f = "GenerateFileId ns rnd" let ?p = "BuildStoragePath config ?f"
  have ok': "server_ok ?t s" and inv: "inv (fsv_store s)"
    using server_ok_mono [OF ok] now(2) ok by (auto simp: server_ok_def)
  have fok: "files_ok config ?t (abs (fsv_store s)) (fsv_files s)" using ok' by (simp add: server_ok_def)
  have writes: "evolves config ?t {} {} (abs (fsv_store s)) (fsv_files s) (abs (fsv_store s)) ((fsv_files s)(?p := v))" for v
    by (rule evolves_storage [OF fok issued_new session_fresh(2) [OF ok now(2)]])
  have mok: "meta_ok \<lparr>fm_file_id = ?f, fm_file_name = nm, fm_content_type = ct, fm_file_size = int (length data),
         fm_md5 = [], fm_uploader_id = user, fm_storage_path = ?p, fm_uploaded_at = now\<rparr>"
    if "int (length data) \<le> fc_max_file_size config"
    using that now(1) config_ok by (simp add: meta_ok_def seconds_ok_def file_config_ok_def is_int64_def)
  show "server_evolves ?t {} {} s s'"
    using run
  proof (cases rule: Upload_cases)
    case (failed v)
    with writes inv show ?thesis by (simp add: server_evolves_def)
  next
    case (saved m st v x)
    note st = save [OF inv _ saved(3), unfolded saved(1), OF mok [OF saved(2)]]
    show ?thesis
    proof (cases "ulr_success r")
      case False
      with saved(4) writes st show ?thesis by (auto simp: server_evolves_def)
    next
      case True
      let ?fs = "(fsv_files s)(?p \<mapsto> x)"
      have "evolves config ?t {} {} (abs (fsv_store s)) ?fs (with_meta m (abs (fsv_store s))) ?fs"
        using session_fresh(2) [OF ok now(2), of rnd] unfolding saved(1)
        by (intro evolves_meta evolvesD(1) [OF writes]) (simp_all add: stored_ok_def)
      from evolves_trans [OF writes this] True saved st show ?thesis by (simp add: server_evolves_def)
    qed
  qed (use ok' in \<open>auto intro: server_evolves_refl\<close>)
  show "\<exists>m x. af_meta (abs (fsv_store s')) (ulr_file_id r) = Some m \<and> ulr_file_id r = ?f \<and>
      fm_uploader_id m = user \<and> fm_file_name m = nm \<and> fm_content_type m = ct \<and>
      fsv_files s' (BuildStoragePath config (ulr_file_id r)) = Some x \<and>
      (dk_flush d (BuildStoragePath config (ulr_file_id r)) \<longrightarrow> x = data)"
    if "ulr_success r"
    using run
  proof (cases rule: Upload_cases)
    case (saved m st v x)
    then show ?thesis using save [OF inv _ saved(3), unfolded saved(1), OF mok [OF saved(2)]] that by auto
  qed (use that in auto)
qed

subsection \<open>Deleting a file\<close>

lemma DeleteFile_outcome:
  assumes ok: "server_ok t s" and run: "DeleteFile (file_core FS config) d s fid user = (r, s')"
  shows "server_evolves t (if r then {fid} else {}) {} s s'"
    and "r \<Longrightarrow> \<exists>m. af_meta (abs (fsv_store s)) fid = Some m \<and> fm_uploader_id m = user \<and> af_meta (abs (fsv_store s')) = (af_meta (abs (fsv_store s)))(fid := None)"
    and "\<not> r \<Longrightarrow> abs (fsv_store s') = abs (fsv_store s) \<and> fsv_files s' = fsv_files s"
proof -
  have inv: "inv (fsv_store s)" and fok: "files_ok config t (abs (fsv_store s)) (fsv_files s)" using ok by (simp_all add: server_ok_def)
  have "server_evolves t (if r then {fid} else {}) {} s s' \<and>
    (r \<longrightarrow> (\<exists>m. af_meta (abs (fsv_store s)) fid = Some m \<and> fm_uploader_id m = user \<and> af_meta (abs (fsv_store s')) = (af_meta (abs (fsv_store s)))(fid := None))) \<and>
    (\<not> r \<longrightarrow> abs (fsv_store s') = abs (fsv_store s) \<and> fsv_files s' = fsv_files s)"
  proof (cases "\<exists>m. af_meta (abs (fsv_store s)) fid = Some m \<and> fm_uploader_id m = user")
    case False
    then have "\<not> r" "s' = s" using run by (auto simp: DeleteFile_def get_by_id [OF inv] split: option.splits if_splits)
    with ok show ?thesis by (simp add: server_evolves_refl)
  next
    case True
    then obtain m where m: "af_meta (abs (fsv_store s)) fid = Some m" "fm_uploader_id m = user" by blast
    obtain del st where st: "fst_Delete FS (fsv_store s) fid = (del, st)" by fastforce
    have a: "inv st" "abs st = (if del then without_meta m (abs (fsv_store s)) else abs (fsv_store s))" using delete [OF inv st] m(1) by simp_all
    have run': "r = del" "fsv_store s' = st" "fsv_files s' = (if del then snd (fs_remove d (fm_storage_path m) (fsv_files s)) else fsv_files s)"
      using run m st by (auto simp: DeleteFile_def get_by_id [OF inv] Let_def split: if_splits)
    show ?thesis
    proof (cases del)
      case False
      with a run' fok show ?thesis by (simp add: server_evolves_def evolves_refl)
    next
      case True
      have f: "fm_file_id m = fid" using meta_data [OF inv m(1)] by simp
      have p: "issued t fid" "fm_storage_path m = BuildStoragePath config fid" using files_okD(1) [OF fok m(1)] by (simp_all add: stored_ok_def)
      have e1: "evolves config t {fid} {} (abs (fsv_store s)) (fsv_files s) (abs st) (fsv_files s)"
        using a(2) True evolves_no_meta [OF fok m(1) f no_empty_digest [OF inv]] by simp
      have "af_meta (abs st) fid = None" using a(2) True f by simp
      then have "evolves config t {fid} {} (abs st) (fsv_files s) (abs st) (fsv_files s')"
        using fs_remove_cases [of d "fm_storage_path m" "fsv_files s"] evolvesD(1) [OF e1] p run'(3) True
        by (cases "fs_remove d (fm_storage_path m) (fsv_files s)") (auto intro: evolves_refl evolves_storage)
      from evolves_trans [OF e1 this] a run' True m f show ?thesis by (simp add: server_evolves_def)
    qed
  qed
  then show "server_evolves t (if r then {fid} else {}) {} s s'"
    and "r \<Longrightarrow> \<exists>m. af_meta (abs (fsv_store s)) fid = Some m \<and> fm_uploader_id m = user \<and> af_meta (abs (fsv_store s')) = (af_meta (abs (fsv_store s)))(fid := None)"
    and "\<not> r \<Longrightarrow> abs (fsv_store s') = abs (fsv_store s) \<and> fsv_files s' = fsv_files s" by blast+
qed

subsection \<open>Cleaning up\<close>

lemma server_evolves_trans:
  "server_evolves t D T s s1 \<Longrightarrow> server_evolves t D T s1 s2 \<Longrightarrow> server_evolves t D T s s2"
  by (auto simp: server_evolves_def intro: evolves_trans)

text \<open>The listed sessions are the stored ones, and stay so until the loop reaches them.\<close>

lemma cleanup_session_evolves:
  assumes ok: "server_ok t s" and u: "us_temp_path u = GetTempPath config (us_upload_id u)"
    and T: "us_expire_at u \<le> now \<Longrightarrow> us_upload_id u \<in> T"
  shows "server_evolves t {} T s (cleanup_session (file_core FS config) d now u s)"
proof (cases "us_expire_at u > now")
  case True
  with ok show ?thesis by (simp add: cleanup_session_def server_evolves_refl)
next
  case False
  let ?i = "us_upload_id u"
  have inv: "inv (fsv_store s)" and fok: "files_ok config t (abs (fsv_store s)) (fsv_files s)" using ok by (simp_all add: server_ok_def)
  have T': "?i \<in> T" using T False by simp
  obtain ok2 st where st: "fst_DeleteUploadSession FS (fsv_store s) ?i = (ok2, st)" by fastforce
  note d = delete_session [OF inv st]
  have gone: "evolves config t {} T (abs (fsv_store s)) fs (abs st) fs" if "files_ok config t (abs (fsv_store s)) fs" for fs
    using d that T' by (auto intro: evolves_refl evolves_no_session)
  show ?thesis
  proof (cases "fs_exists d (us_temp_path u) (fsv_files s)")
    case False
    with \<open>\<not> us_expire_at u > now\<close> gone [OF fok] d st show ?thesis by (simp add: cleanup_session_def server_evolves_def)
  next
    case ex: True
    obtain rm files where rm: "fs_remove d (us_temp_path u) (fsv_files s) = (rm, files)" by fastforce
    show ?thesis
    proof (cases rm)
      case False
      with \<open>\<not> us_expire_at u > now\<close> ex rm ok show ?thesis by (simp add: cleanup_session_def server_evolves_refl)
    next
      case True
      have e: "evolves config t {} T (abs (fsv_store s)) (fsv_files s) (abs (fsv_store s)) files"
        using fs_remove_cases [OF rm] u fok T' by (auto intro: evolves_refl evolves_temp)
      from evolves_trans [OF e gone [OF evolvesD(1) [OF e]]] \<open>\<not> us_expire_at u > now\<close> ex rm True st d
      show ?thesis by (simp add: cleanup_session_def server_evolves_def)
    qed
  qed
qed

lemma cleanup_loop_evolves:
  assumes "server_ok t s" "\<And>u. u \<in> set us \<Longrightarrow> us_temp_path u = GetTempPath config (us_upload_id u) \<and> (us_expire_at u \<le> now \<longrightarrow> us_upload_id u \<in> T)"
  shows "server_evolves t {} T s (fold (cleanup_session (file_core FS config) d now) us s)"
  using assms
proof (induction us arbitrary: s)
  case (Cons u us)
  have "server_evolves t {} T s (cleanup_session (file_core FS config) d now u s)"
    using Cons.prems by (intro cleanup_session_evolves) auto
  with Cons show ?case by (auto intro: server_evolves_trans server_evolves_ok)
qed (simp add: server_evolves_refl)

lemma CleanupExpiredSessions_outcome:
  assumes ok: "server_ok t s"
  shows "server_evolves t {} {uid. \<exists>u. af_up (abs (fsv_store s)) uid = Some u \<and> us_expire_at u \<le> now} s
    (CleanupExpiredSessions (file_core FS config) d now s)"
proof -
  have "set (fst_ListAllUploadSessions FS (fsv_store s)) = ran (af_up (abs (fsv_store s)))"
    using list_sessions ok by (simp add: server_ok_def)
  then have "us_temp_path u = GetTempPath config (us_upload_id u) \<and>
      (us_expire_at u \<le> now \<longrightarrow> us_upload_id u \<in> {uid. \<exists>u. af_up (abs (fsv_store s)) uid = Some u \<and> us_expire_at u \<le> now})"
    if "u \<in> set (fst_ListAllUploadSessions FS (fsv_store s))" for u
    using that session_shape [OF ok] by (auto simp: ran_def upload_ok_def)
  then show ?thesis unfolding CleanupExpiredSessions_def file_core_simps by (intro cleanup_loop_evolves [OF ok]) blast
qed

subsection \<open>Upload tokens\<close>

lemma GetUploadToken_outcome:
  assumes "server_ok t s" "seconds_ok now" "t \<le> unat ns" "GetUploadToken (file_core FS config) d ns rnd now s user nm sz = (r, s')"
  shows "server_evolves (Suc (unat ns)) {} {} s s'"
proof -
  obtain i s1 where i: "InitUpload (file_core FS config) d ns rnd now s user nm [] sz [] [] = (i, s1)" by fastforce
  then have "s' = s \<or> s' = s1" using assms(4) by (auto simp: GetUploadToken_def Let_def split: if_splits)
  with InitUpload_outcome(1) [OF assms(1-3) i] server_evolves_refl [OF server_ok_mono [OF assms(1), of "Suc (unat ns)"]] assms(3)
  show ?thesis by auto
qed

end

section \<open>Sequences of operations\<close>

text \<open>
  One operation of the service with the choices of its environment.  Operations that make an
  identifier read the clock; these readings increase from call to call.
\<close>

datatype FileOp =
  Do_InitUpload Disk "64 word" "64 word" int string string string int string string
| Do_AppendChunk Disk string string
| Do_CompleteUpload Disk "64 word" "64 word" int string
| Do_Upload Disk "64 word" "64 word" int string string string string
| Do_DeleteFile Disk string string
| Do_Cleanup Disk int
| Do_GetUploadToken Disk "64 word" "64 word" int string string int

fun file_exec :: "'s FileServiceCore \<Rightarrow> FileOp \<Rightarrow> 's FileServer \<Rightarrow> 's FileServer" where
  "file_exec C (Do_InitUpload d ns rnd now user nm ct sz md5 msg) s = snd (InitUpload C d ns rnd now s user nm ct sz md5 msg)"
| "file_exec C (Do_AppendChunk d uid data) s = snd (AppendChunk C d s uid data)"
| "file_exec C (Do_CompleteUpload d ns rnd now uid) s = snd (CompleteUpload C d ns rnd now s uid)"
| "file_exec C (Do_Upload d ns rnd now user nm ct data) s = snd (Upload C d ns rnd now s user nm ct data)"
| "file_exec C (Do_DeleteFile d fid user) s = snd (DeleteFile C d s fid user)"
| "file_exec C (Do_Cleanup d now) s = CleanupExpiredSessions C d now s"
| "file_exec C (Do_GetUploadToken d ns rnd now user nm sz) s = snd (GetUploadToken C d ns rnd now s user nm sz)"

fun id_clock :: "FileOp \<Rightarrow> (64 word \<times> int) option" where
  "id_clock (Do_InitUpload d ns rnd now user nm ct sz md5 msg) = Some (ns, now)"
| "id_clock (Do_CompleteUpload d ns rnd now uid) = Some (ns, now)"
| "id_clock (Do_Upload d ns rnd now user nm ct data) = Some (ns, now)"
| "id_clock (Do_GetUploadToken d ns rnd now user nm sz) = Some (ns, now)"
| "id_clock _ = None"

definition clock_step :: "nat \<Rightarrow> FileOp \<Rightarrow> nat \<Rightarrow> bool" where
  "clock_step t op t' \<longleftrightarrow>
     (case id_clock op of None \<Rightarrow> t' = t | Some (ns, now) \<Rightarrow> t \<le> unat ns \<and> t' = Suc (unat ns) \<and> seconds_ok now)"

inductive file_steps :: "'s FileServiceCore \<Rightarrow> nat \<times> 's FileServer \<Rightarrow> FileOp list \<Rightarrow> nat \<times> 's FileServer \<Rightarrow> bool" for C where
  none: "file_steps C x [] x"
| step: "file_steps C x ops (t, s) \<Longrightarrow> clock_step t op t' \<Longrightarrow> file_steps C x (ops @ [op]) (t', file_exec C op s)"

text \<open>The files that an operation may delete and the upload sessions that it may change.\<close>

fun op_deletes :: "'s FileServiceCore \<Rightarrow> FileOp \<Rightarrow> 's FileServer \<Rightarrow> string set" where
  "op_deletes C (Do_DeleteFile d fid user) s = (if fst (DeleteFile C d s fid user) then {fid} else {})"
| "op_deletes C _ s = {}"

fun op_touches :: "'s FileServiceCore \<Rightarrow> FileOp \<Rightarrow> 's FileServer \<Rightarrow> string set" where
  "op_touches C (Do_AppendChunk d uid data) s = {uid}"
| "op_touches C (Do_CompleteUpload d ns rnd now uid) s = {uid}"
| "op_touches C (Do_Cleanup d now) s =
     {uid. \<exists>u. fst_GetUploadSession (fsc_store C) (fsv_store s) uid = Some u \<and> us_expire_at u \<le> now}"
| "op_touches C _ s = {}"

context file_service
begin

lemma file_exec_evolves:
  assumes ok: "server_ok t s" and t: "clock_step t op t'"
  shows "server_evolves t' (op_deletes (file_core FS config) op s) (op_touches (file_core FS config) op s) s (file_exec (file_core FS config) op s)"
proof (cases op)
  case (Do_InitUpload d ns rnd now user nm ct sz md5 msg)
  with t InitUpload_outcome(1) [OF ok _ _ prod.collapse [symmetric]] show ?thesis by (simp add: clock_step_def)
next
  case (Do_AppendChunk d uid data)
  with t AppendChunk_outcome(1) [OF ok prod.collapse [symmetric]] show ?thesis by (simp add: clock_step_def)
next
  case (Do_CompleteUpload d ns rnd now uid)
  with t CompleteUpload_outcome(1) [OF ok _ _ prod.collapse [symmetric]] show ?thesis by (simp add: clock_step_def)
next
  case (Do_Upload d ns rnd now user nm ct data)
  with t Upload_outcome(1) [OF ok _ _ prod.collapse [symmetric]] show ?thesis by (simp add: clock_step_def)
next
  case (Do_DeleteFile d fid user)
  with t DeleteFile_outcome(1) [OF ok prod.collapse [symmetric]] show ?thesis by (simp add: clock_step_def)
next
  case (Do_Cleanup d now)
  with t ok CleanupExpiredSessions_outcome [OF ok] show ?thesis by (simp add: clock_step_def server_ok_def get_session)
next
  case (Do_GetUploadToken d ns rnd now user nm sz)
  with t GetUploadToken_outcome [OF ok _ _ prod.collapse [symmetric]] show ?thesis by (simp add: clock_step_def)
qed

lemma file_steps_ok:
  assumes "file_steps (file_core FS config) (t0, s0) ops (t, s)" "server_ok t0 s0"
  shows "server_ok t s"
  using assms
proof (induction "(t0, s0)" ops "(t, s)" arbitrary: t s rule: file_steps.induct)
  case (step ops t s op t')
  with file_exec_evolves server_evolves_ok show ?case by blast
qed simp

end

end
