(* ===== verification/File_Uploads.thy ===== *)
theory File_Uploads
  imports File_Service_Laws
begin

text \<open>
  Uploads under way, whatever happens to them.  A run of the server is watched from the start of one upload on: a log records
  which chunks were accepted, what failed calls left in the temporary file, and that the temporary file or the session went away.  The
  log determines what the upload has stored so far.
\<close>

section \<open>The log of an upload\<close>

datatype UploadEvent = Accepted string | LeftBehind string | Gone

fun after_event :: "string \<Rightarrow> UploadEvent \<Rightarrow> string" where
  "after_event c (Accepted x) = c @ x"
| "after_event c (LeftBehind x) = c @ x"
| "after_event c Gone = []"

definition on_disk :: "UploadEvent list \<Rightarrow> string" where
  "on_disk ev = foldl after_event [] ev"

fun accepted_of :: "UploadEvent \<Rightarrow> string" where
  "accepted_of (Accepted x) = x"
| "accepted_of _ = []"

definition accepted :: "UploadEvent list \<Rightarrow> string" where
  "accepted ev = concat (map accepted_of ev)"

text \<open>No call of the upload failed after it had written something, and nothing of the upload went away.\<close>

fun harmless :: "UploadEvent \<Rightarrow> bool" where
  "harmless (Accepted x) = True"
| "harmless (LeftBehind x) = (x = [])"
| "harmless Gone = False"

definition intact :: "UploadEvent list \<Rightarrow> bool" where
  "intact ev = list_all harmless ev"

lemma log_simps [simp]:
  "on_disk [] = []" "accepted [] = []" "intact []"
  "on_disk (ev @ [e]) = after_event (on_disk ev) e" "accepted (ev @ [e]) = accepted ev @ accepted_of e"
  "intact (ev @ [e]) \<longleftrightarrow> intact ev \<and> harmless e"
  by (simp_all add: on_disk_def accepted_def intact_def)

lemma intact_on_disk: "intact ev \<Longrightarrow> on_disk ev = accepted ev"
proof (induction ev rule: rev_induct)
  case (snoc e ev)
  then show ?case by (cases e) simp_all
qed simp

section \<open>Runs\<close>

definition file_bytes :: "Files \<Rightarrow> string \<Rightarrow> string" where
  "file_bytes fs p = (case fs p of None \<Rightarrow> [] | Some c \<Rightarrow> c)"

definition upload_lost :: "'s FileServiceCore \<Rightarrow> string \<Rightarrow> 's FileServer \<Rightarrow> 's FileServer \<Rightarrow> bool" where
  "upload_lost C uid s s' \<longleftrightarrow>
     fsv_files s (GetTempPath (fsc_config C) uid) \<noteq> None \<and> fsv_files s' (GetTempPath (fsc_config C) uid) = None \<or>
     fst_GetUploadSession (fsc_store C) (fsv_store s) uid \<noteq> None \<and> fst_GetUploadSession (fsc_store C) (fsv_store s') uid = None"

definition chunk_event :: "'s FileServiceCore \<Rightarrow> string \<Rightarrow> string \<Rightarrow> AppendChunkResult \<Rightarrow> 's FileServer \<Rightarrow> 's FileServer \<Rightarrow> UploadEvent" where
  "chunk_event C uid data r s s' =
     (if acr_success r then Accepted data
      else LeftBehind (drop (length (file_bytes (fsv_files s) (GetTempPath (fsc_config C) uid))) (file_bytes (fsv_files s') (GetTempPath (fsc_config C) uid))))"

text \<open>
  \<open>upload_run C x0 user nm ct sz md5 uid t s ev\<close>: the upload \<open>uid\<close>, begun by \<open>user\<close> for a file of \<open>sz\<close> bytes, has the log \<open>ev\<close> in state
  \<open>s\<close>.  After its start any operations may run, on this upload and on others, and may succeed or fail at any point.
\<close>

inductive upload_run ::
  "'s FileServiceCore \<Rightarrow> nat \<times> 's FileServer \<Rightarrow> string \<Rightarrow> string \<Rightarrow> string \<Rightarrow> int \<Rightarrow> string \<Rightarrow> string \<Rightarrow> nat \<Rightarrow> 's FileServer \<Rightarrow> UploadEvent list \<Rightarrow> bool"
  for C x0 user nm ct sz md5 uid where
  started: "file_steps C x0 ops (t, s) \<Longrightarrow> t \<le> unat ns \<Longrightarrow> seconds_ok now \<Longrightarrow>
    InitUpload C d ns rnd now s user nm ct sz md5 msg = (r, s') \<Longrightarrow> iur_success r \<Longrightarrow> iur_existing_file_id r = [] \<Longrightarrow>
    iur_upload_id r = uid \<Longrightarrow> upload_run C x0 user nm ct sz md5 uid (Suc (unat ns)) s' []"
| appended: "upload_run C x0 user nm ct sz md5 uid t s ev \<Longrightarrow> AppendChunk C d s uid data = (r, s') \<Longrightarrow>
    upload_run C x0 user nm ct sz md5 uid t s' (ev @ [chunk_event C uid data r s s'])"
| other: "upload_run C x0 user nm ct sz md5 uid t s ev \<Longrightarrow> clock_step t op t' \<Longrightarrow> (\<And>d data. op \<noteq> Do_AppendChunk d uid data) \<Longrightarrow>
    upload_run C x0 user nm ct sz md5 uid t' (file_exec C op s) (if upload_lost C uid s (file_exec C op s) then ev @ [Gone] else ev)"

section \<open>What the operations do to an upload\<close>

context file_service
begin

lemma cleanup_sessions_shrink:
  assumes "inv (fsv_store s)"
  shows "inv (fsv_store (fold (cleanup_session (file_core FS config) d now) us s)) \<and>
    (af_up (abs (fsv_store (fold (cleanup_session (file_core FS config) d now) us s))) i = None \<or>
     af_up (abs (fsv_store (fold (cleanup_session (file_core FS config) d now) us s))) i = af_up (abs (fsv_store s)) i) \<and>
    (fsv_files (fold (cleanup_session (file_core FS config) d now) us s) p = None \<or>
     fsv_files (fold (cleanup_session (file_core FS config) d now) us s) p = fsv_files s p)"
  using assms
proof (induction us arbitrary: s)
  case (Cons u us)
  let ?s = "cleanup_session (file_core FS config) d now u s"
  obtain ok st where st: "fst_DeleteUploadSession FS (fsv_store s) (us_upload_id u) = (ok, st)" by fastforce
  have "inv (fsv_store ?s) \<and> (af_up (abs (fsv_store ?s)) i = None \<or> af_up (abs (fsv_store ?s)) i = af_up (abs (fsv_store s)) i) \<and>
      (fsv_files ?s p = None \<or> fsv_files ?s p = fsv_files s p)"
    using delete_session [OF Cons.prems st] Cons.prems st
    by (auto simp: cleanup_session_def fs_remove_def split: if_splits)
  with Cons.IH [of ?s] show ?case by auto
qed simp

text \<open>A session that is gone does not come back: new sessions have new ids.\<close>

lemma InitUpload_other:
  assumes ok: "server_ok t s" and i: "issued t uid" and now: "seconds_ok now" "t \<le> unat ns"
    and run: "InitUpload (file_core FS config) d ns rnd now s user nm ct sz md5 msg = (r, s')"
  shows "af_up (abs (fsv_store s')) uid = af_up (abs (fsv_store s)) uid"
  using run
proof (cases rule: InitUpload_cases)
  case (saved st)
  have inv: "inv (fsv_store s)" using ok by (simp add: server_ok_def)
  have "uid \<noteq> GenerateFileId ns rnd" using i not_issued_new [OF now(2)] by auto
  with saved save_session [OF inv new_session_ok(1) [OF saved(2,3) now(1)] saved(4)] show ?thesis by (auto simp: new_session_def)
qed simp_all

lemma CompleteUpload_other:
  assumes ok: "server_ok t s" and now: "seconds_ok now"
    and run: "CompleteUpload (file_core FS config) d ns rnd now s i = (r, s')"
  shows "af_up (abs (fsv_store s')) uid = None \<or> af_up (abs (fsv_store s')) uid = af_up (abs (fsv_store s)) uid"
    and "fsv_files s' (GetTempPath config uid) = None \<or> fsv_files s' (GetTempPath config uid) = fsv_files s (GetTempPath config uid)"
proof -
  have inv: "inv (fsv_store s)" using ok by (simp add: server_ok_def)
  have "(af_up (abs (fsv_store s')) uid = None \<or> af_up (abs (fsv_store s')) uid = af_up (abs (fsv_store s)) uid) \<and>
    (fsv_files s' (GetTempPath config uid) = None \<or> fsv_files s' (GetTempPath config uid) = fsv_files s (GetTempPath config uid))"
    using run inv
  proof (cases rule: CompleteUpload_cases)
    case (moved u c saved st)
    note sh = session_shape [OF ok moved(1)]
    have "meta_ok (uploaded_meta u (GenerateFileId ns rnd) (BuildStoragePath config (GenerateFileId ns rnd)) now)"
      using sh(2) now by (simp add: meta_ok_def session_ok_def uploaded_meta_def seconds_ok_def is_int64_def)
    note st = save [OF inv this moved(5)]
    obtain ok2 st2 where d: "fst_DeleteUploadSession FS st i = (ok2, st2)" by fastforce
    have "inv st" using st by simp
    note del = delete_session [OF this d]
    have "GetTempPath config uid \<noteq> BuildStoragePath config (GenerateFileId ns rnd)" by (rule temp_not_storage [OF issued_new])
    then show ?thesis using moved(6,7) st del d by (cases saved) auto
  qed simp
  then show "af_up (abs (fsv_store s')) uid = None \<or> af_up (abs (fsv_store s')) uid = af_up (abs (fsv_store s)) uid"
    and "fsv_files s' (GetTempPath config uid) = None \<or> fsv_files s' (GetTempPath config uid) = fsv_files s (GetTempPath config uid)" by blast+
qed

lemma file_exec_no_session:
  assumes ok: "server_ok t s" and i: "issued t uid" and t: "clock_step t op t'" and none: "af_up (abs (fsv_store s)) uid = None"
  shows "af_up (abs (fsv_store (file_exec (file_core FS config) op s))) uid = None"
proof -
  have inv: "inv (fsv_store s)" using ok by (simp add: server_ok_def)
  show ?thesis
  proof (cases op)
    case (Do_InitUpload d ns rnd now user nm ct sz md5 msg)
    with t none InitUpload_other [OF ok i _ _ prod.collapse [symmetric]] show ?thesis by (simp add: clock_step_def)
  next
    case (Do_AppendChunk d i data)
    obtain r s' where run: "AppendChunk (file_core FS config) d s i data = (r, s')" by fastforce
    from this inv have "af_up (abs (fsv_store s')) uid = None"
    proof (cases rule: AppendChunk_cases)
      case (written u st)
      note sh = session_shape [OF ok written(1)]
      have "abs st = (if acr_success r then with_session (u\<lparr>us_bytes_written := us_bytes_written u + int (length data)\<rparr>) (abs (fsv_store s)) else abs (fsv_store s))"
        using update_bytes [OF inv bytes_int64 [OF sh(2,3) written(2)] written(3)] written(1) by simp
      moreover have "uid \<noteq> us_upload_id u" using none written(1) sh(1) by auto
      ultimately show ?thesis using written(4) none by simp
    qed (use none in simp_all)
    then show ?thesis using run Do_AppendChunk by simp
  next
    case (Do_CompleteUpload d ns rnd now i)
    with t none CompleteUpload_other(1) [OF ok _ prod.collapse [symmetric], of now d ns rnd i uid] show ?thesis by (simp add: clock_step_def)
  next
    case (Do_Upload d ns rnd now user nm ct data)
    obtain r s' where run: "Upload (file_core FS config) d ns rnd now s user nm ct data = (r, s')" by fastforce
    then have "af_up (abs (fsv_store s')) uid = None"
    proof (cases rule: Upload_cases)
      case (saved m st v x)
      have "meta_ok m" using saved(1,2) t Do_Upload config_ok by (simp add: clock_step_def meta_ok_def seconds_ok_def file_config_ok_def is_int64_def)
      from save [OF inv this saved(3)] saved(4) none show ?thesis by simp
    qed (use none in simp_all)
    then show ?thesis using run Do_Upload by simp
  next
    case (Do_DeleteFile d fid user)
    obtain del st where st: "fst_Delete FS (fsv_store s) fid = (del, st)" by fastforce
    have "af_up (abs st) uid = None" using delete [OF inv st] none by (auto split: option.splits if_splits)
    with none st show ?thesis unfolding Do_DeleteFile by (auto simp: DeleteFile_def Let_def split: option.splits if_splits prod.splits)
  next
    case (Do_Cleanup d now)
    with none cleanup_sessions_shrink [OF inv, of d now "fst_ListAllUploadSessions FS (fsv_store s)" uid] show ?thesis
      by (auto simp: CleanupExpiredSessions_def)
  next
    case (Do_GetUploadToken d ns rnd now user nm sz)
    obtain r s1 where r: "InitUpload (file_core FS config) d ns rnd now s user nm [] sz [] [] = (r, s1)" by fastforce
    have "af_up (abs (fsv_store s1)) uid = None" using none t Do_GetUploadToken InitUpload_other [OF ok i _ _ r] by (simp add: clock_step_def)
    with none r show ?thesis unfolding Do_GetUploadToken by (auto simp: GetUploadToken_def Let_def split: if_splits)
  qed
qed

text \<open>An operation other than appending to it leaves an upload as it is, or takes its session or its temporary file away.\<close>

lemma file_exec_other:
  assumes ok: "server_ok t s" and i: "issued t uid" and t: "clock_step t op t'" and op: "\<And>d data. op \<noteq> Do_AppendChunk d uid data"
    and some: "af_up (abs (fsv_store (file_exec (file_core FS config) op s))) uid = Some u"
  shows "af_up (abs (fsv_store s)) uid = Some u \<and>
    (fsv_files (file_exec (file_core FS config) op s) (GetTempPath config uid) = None \<or>
     fsv_files (file_exec (file_core FS config) op s) (GetTempPath config uid) = fsv_files s (GetTempPath config uid))"
proof -
  let ?s = "file_exec (file_core FS config) op s"
  obtain v where v: "af_up (abs (fsv_store s)) uid = Some v"
    using file_exec_no_session [OF ok i t] some by (cases "af_up (abs (fsv_store s)) uid") auto
  have inv: "inv (fsv_store s)" using ok by (simp add: server_ok_def)
  show ?thesis
  proof (cases "uid \<in> op_touches (file_core FS config) op s")
    case False
    have e: "server_evolves t' (op_deletes (file_core FS config) op s) (op_touches (file_core FS config) op s) s ?s" by (rule file_exec_evolves [OF ok t])
    with uploads_keptD [OF evolvesD(3) False v] v some show ?thesis by (auto simp: server_evolves_def)
  next
    case True
    then consider d ns rnd now where "op = Do_CompleteUpload d ns rnd now uid" | d now where "op = Do_Cleanup d now"
      using op by (cases op) auto
    then show ?thesis
    proof cases
      case (1 d ns rnd now)
      with t CompleteUpload_other [OF ok _ prod.collapse [symmetric], of now d ns rnd uid uid] some v show ?thesis by (auto simp: clock_step_def)
    next
      case (2 d now)
      with cleanup_sessions_shrink [OF inv, of d now "fst_ListAllUploadSessions FS (fsv_store s)" uid "GetTempPath config uid"] some v show ?thesis
        by (auto simp: CleanupExpiredSessions_def)
    qed
  qed
qed

section \<open>What the log determines\<close>

text \<open>As long as the session is there, it counts the accepted bytes \<open>a\<close>, and the temporary file has the bytes \<open>c\<close>.\<close>

definition tracked :: "string \<Rightarrow> string \<Rightarrow> string \<Rightarrow> int \<Rightarrow> string \<Rightarrow> string \<Rightarrow> 's FileServer \<Rightarrow> string \<Rightarrow> string \<Rightarrow> bool" where
  "tracked user nm ct sz md5 uid s a c \<longleftrightarrow>
     (\<forall>u. af_up (abs (fsv_store s)) uid = Some u \<longrightarrow> us_user_id u = user \<and> us_file_name u = nm \<and> us_content_type u = ct \<and>
        us_file_size u = sz \<and> us_md5 u = md5 \<and> us_bytes_written u = int (length a) \<and>
        (fsv_files s (GetTempPath config uid) = Some c \<or> c = [] \<and> fsv_files s (GetTempPath config uid) = None))"

definition progress :: "string \<Rightarrow> string \<Rightarrow> string \<Rightarrow> int \<Rightarrow> string \<Rightarrow> string \<Rightarrow> 's FileServer \<Rightarrow> string \<Rightarrow> bool" where
  "progress user nm ct sz md5 uid s c \<longleftrightarrow>
     (\<exists>u. af_up (abs (fsv_store s)) uid = Some u \<and> us_user_id u = user \<and> us_file_name u = nm \<and> us_content_type u = ct \<and>
        us_file_size u = sz \<and> us_md5 u = md5 \<and> us_bytes_written u = int (length c) \<and>
        (fsv_files s (GetTempPath config uid) = Some c \<or> c = [] \<and> fsv_files s (GetTempPath config uid) = None))"

lemma progress_iff: "progress user nm ct sz md5 uid s c \<longleftrightarrow> tracked user nm ct sz md5 uid s c c \<and> af_up (abs (fsv_store s)) uid \<noteq> None"
  by (auto simp: progress_def tracked_def)

lemma tracked_bytes: "tracked user nm ct sz md5 uid s a c \<Longrightarrow> af_up (abs (fsv_store s)) uid = Some u \<Longrightarrow> file_bytes (fsv_files s) (GetTempPath config uid) = c"
  by (auto simp: tracked_def file_bytes_def)

lemma tracked_appended:
  assumes ok: "server_ok t s" and tr: "tracked user nm ct sz md5 uid s a c"
    and run: "AppendChunk (file_core FS config) d s uid data = (r, s')"
  defines "e \<equiv> chunk_event (file_core FS config) uid data r s s'"
  shows "tracked user nm ct sz md5 uid s' (a @ accepted_of e) (after_event c e)"
    and "af_up (abs (fsv_store s)) uid \<noteq> None \<Longrightarrow> af_up (abs (fsv_store s')) uid \<noteq> None"
proof -
  have inv: "inv (fsv_store s)" using ok by (simp add: server_ok_def)
  let ?p = "GetTempPath config uid"
  have "tracked user nm ct sz md5 uid s' (a @ accepted_of e) (after_event c e) \<and>
      (af_up (abs (fsv_store s)) uid \<noteq> None \<longrightarrow> af_up (abs (fsv_store s')) uid \<noteq> None)"
    using run inv
  proof (cases rule: AppendChunk_cases)
    case refused
    then show ?thesis using tr by (simp add: e_def chunk_event_def)
  next
    case (partial u x)
    have p: "us_temp_path u = ?p" using session_shape(3) [OF ok partial(1)] by (simp add: upload_ok_def)
    have "e = LeftBehind x" using partial(2,4) p by (simp add: e_def chunk_event_def file_bytes_def)
    then show ?thesis using tr partial(1,4) p by (auto simp: tracked_def split: option.splits)
  next
    case (written u st)
    note sh = session_shape [OF ok written(1)]
    have p: "us_temp_path u = ?p" using sh(3) by (simp add: upload_ok_def)
    have st: "abs st = (if acr_success r then with_session (u\<lparr>us_bytes_written := us_bytes_written u + int (length data)\<rparr>) (abs (fsv_store s)) else abs (fsv_store s))"
      using update_bytes [OF inv bytes_int64 [OF sh(2,3) written(2)] written(3)] written(1) by simp
    have "e = (if acr_success r then Accepted data else LeftBehind data)" using written(4) p by (simp add: e_def chunk_event_def file_bytes_def)
    then show ?thesis using tr written(1,4) st sh(1) p by (auto simp: tracked_def split: option.splits)
  qed
  then show "tracked user nm ct sz md5 uid s' (a @ accepted_of e) (after_event c e)"
    and "af_up (abs (fsv_store s)) uid \<noteq> None \<Longrightarrow> af_up (abs (fsv_store s')) uid \<noteq> None" by blast+
qed

lemma tracked_other:
  assumes ok: "server_ok t s" and i: "issued t uid" and t: "clock_step t op t'" and op: "\<And>d data. op \<noteq> Do_AppendChunk d uid data"
    and tr: "tracked user nm ct sz md5 uid s a c"
  defines "s' \<equiv> file_exec (file_core FS config) op s"
  shows "tracked user nm ct sz md5 uid s' a (if upload_lost (file_core FS config) uid s s' then [] else c)"
    and "\<not> upload_lost (file_core FS config) uid s s' \<Longrightarrow> af_up (abs (fsv_store s)) uid \<noteq> None \<Longrightarrow> af_up (abs (fsv_store s')) uid \<noteq> None"
proof -
  have inv: "inv (fsv_store s)" "inv (fsv_store s')"
    using ok server_evolves_ok [OF file_exec_evolves [OF ok t]] by (simp_all add: server_ok_def s'_def)
  show "af_up (abs (fsv_store s')) uid \<noteq> None" if "\<not> upload_lost (file_core FS config) uid s s'" "af_up (abs (fsv_store s)) uid \<noteq> None"
    using that inv by (simp add: upload_lost_def get_session)
  show "tracked user nm ct sz md5 uid s' a (if upload_lost (file_core FS config) uid s s' then [] else c)"
    unfolding tracked_def
  proof (intro allI impI)
    fix u
    assume some: "af_up (abs (fsv_store s')) uid = Some u"
    let ?p = "GetTempPath config uid"
    have u: "af_up (abs (fsv_store s)) uid = Some u" and f: "fsv_files s' ?p = None \<or> fsv_files s' ?p = fsv_files s ?p"
      using file_exec_other [OF ok i t op] some unfolding s'_def by blast+
    have "upload_lost (file_core FS config) uid s s' \<longleftrightarrow> fsv_files s ?p \<noteq> None \<and> fsv_files s' ?p = None"
      using some u inv by (simp add: upload_lost_def get_session)
    moreover note tr [unfolded tracked_def, rule_format, OF u]
    ultimately show "us_user_id u = user \<and> us_file_name u = nm \<and> us_content_type u = ct \<and> us_file_size u = sz \<and> us_md5 u = md5 \<and>
        us_bytes_written u = int (length a) \<and>
        (fsv_files s' ?p = Some (if upload_lost (file_core FS config) uid s s' then [] else c) \<or>
         (if upload_lost (file_core FS config) uid s s' then [] else c) = [] \<and> fsv_files s' ?p = None)"
      using f by (cases "fsv_files s ?p") auto
  qed
qed

lemma upload_run_tracked:
  assumes "upload_run (file_core FS config) (t0, s0) user nm ct sz md5 uid t s ev" "server_ok t0 s0"
  shows "server_ok t s \<and> issued t uid \<and> tracked user nm ct sz md5 uid s (accepted ev) (on_disk ev) \<and>
    (intact ev \<longrightarrow> af_up (abs (fsv_store s)) uid \<noteq> None)"
  using assms
proof (induction rule: upload_run.induct)
  case (started ops t s ns now d rnd msg r s')
  have ok: "server_ok t s" using started.hyps(1) started.prems by (rule file_steps_ok)
  note i = InitUpload_outcome [OF ok started.hyps(3,2,4)]
  from i(2) started.hyps(5-7) have s': "uid = GenerateFileId ns rnd" "fsv_files s' = fsv_files s"
    "abs (fsv_store s') = with_session (new_session uid user nm ct sz md5 msg (GetTempPath config uid) (now + fc_upload_session_expire_seconds config)) (abs (fsv_store s))"
    by simp_all
  then have "tracked user nm ct sz md5 uid s' [] [] \<and> af_up (abs (fsv_store s')) uid \<noteq> None"
    using session_fresh(3) [OF ok started.hyps(2), of rnd] by (simp add: tracked_def new_session_def)
  with server_evolves_ok [OF i(1)] s'(1) show ?case by simp
next
  case (appended t s ev d data r s')
  then have ih: "server_ok t s" "issued t uid" "tracked user nm ct sz md5 uid s (accepted ev) (on_disk ev)"
    "intact ev \<longrightarrow> af_up (abs (fsv_store s)) uid \<noteq> None" by blast+
  from tracked_appended [OF ih(1,3) appended.hyps(2)] ih(2,4) server_evolves_ok [OF AppendChunk_outcome(1) [OF ih(1) appended.hyps(2)]]
  show ?case by simp
next
  case (other t s ev op t')
  then have ih: "server_ok t s" "issued t uid" "tracked user nm ct sz md5 uid s (accepted ev) (on_disk ev)"
    "intact ev \<longrightarrow> af_up (abs (fsv_store s)) uid \<noteq> None" by blast+
  have "t \<le> t'" using other.hyps(2) by (auto simp: clock_step_def split: option.splits prod.splits)
  with tracked_other [OF ih(1,2) other.hyps(2,3) ih(3)] ih(4) issued_mono [OF ih(2)] server_evolves_ok [OF file_exec_evolves [OF ih(1) other.hyps(2)]]
  show ?case by auto
qed

lemma upload_run_progress:
  assumes "upload_run (file_core FS config) (t0, s0) user nm ct sz md5 uid t s ev" "server_ok t0 s0" "intact ev"
  shows "server_ok t s \<and> progress user nm ct sz md5 uid s (accepted ev)"
  using upload_run_tracked [OF assms(1,2)] assms(3) intact_on_disk [OF assms(3)] by (simp add: progress_iff)

lemma tracked_completed:
  assumes ok: "server_ok t s" and p: "tracked user nm ct sz md5 uid s a c" and now: "seconds_ok now" "t \<le> unat ns"
    and run: "CompleteUpload (file_core FS config) d ns rnd now s uid = (r, s')" "cur_success r"
  shows "int (length a) = sz \<and> server_ok (Suc (unat ns)) s' \<and>
    (\<exists>m. af_meta (abs (fsv_store s')) (cur_file_id r) = Some m \<and> fm_file_name m = nm \<and> fm_content_type m = ct \<and>
      fm_uploader_id m = user \<and> fm_file_size m = sz \<and> fm_md5 m = md5 \<and> fsv_files s' (fm_storage_path m) = Some c)"
proof -
  note o = CompleteUpload_outcome [OF ok now run(1)]
  obtain u c' where u: "af_up (abs (fsv_store s)) uid = Some u" "us_bytes_written u = us_file_size u"
      "fsv_files s (GetTempPath config uid) = Some c'"
      "af_meta (abs (fsv_store s')) (cur_file_id r) = Some (uploaded_meta u (cur_file_id r) (BuildStoragePath config (cur_file_id r)) now)"
      "fsv_files s' (BuildStoragePath config (cur_file_id r)) = Some c'"
    using o(2) [OF run(2)] by blast
  with p have "c' = c" "us_user_id u = user" "us_file_name u = nm" "us_content_type u = ct" "us_file_size u = sz" "us_md5 u = md5"
    "int (length a) = sz" by (auto simp: tracked_def)
  with u server_evolves_ok [OF o(1)] show ?thesis by (simp add: uploaded_meta_def)
qed

lemmas progress_completed = tracked_completed [OF _ conjunct1 [OF progress_iff [THEN iffD1]]]

end

end
