(* ===== verification/File_Properties.thy ===== *)
theory File_Properties
  imports File_Uploads Group_Properties
begin

text \<open>
  What the file service guarantees on the RocksDB store: an upload that completes stores what its log says, which is the accepted
  bytes unless calls of the same upload failed half way; a stored file never changes and only its
  uploader can delete it; sessions stay within their bounds; cleaning up spares live uploads;
  a range is a slice of the file.
\<close>

section \<open>The RocksDB store\<close>

definition rocksdb_files :: "'db rocksdb \<Rightarrow> 'j nlohmann \<Rightarrow> FileConfig \<Rightarrow> 'db FileServiceCore" where
  "rocksdb_files R J config = file_core (RocksDBFileStore R J) config"

definition empty_files :: "'db rocksdb \<Rightarrow> FileConfig \<Rightarrow> 'db FileServer \<Rightarrow> bool" where
  "empty_files R config s \<longleftrightarrow> db_Get R (fsv_store s) = Map.empty \<and> (\<forall>i. fsv_files s (GetTempPath config i) = None)"

definition disk_reads :: "Disk \<Rightarrow> bool" where
  "disk_reads d \<longleftrightarrow> (\<forall>p. dk_open d p \<and> dk_read d p)"

context store_env
begin

lemma rocksdb_file_service: "file_config_ok config \<Longrightarrow> file_service (RocksDBFileStore R J) (file_inv R J) (file_abs R J) config"
  by unfold_locales

lemma empty_files_ok:
  assumes "file_config_ok config" "empty_files R config s"
  shows "file_service.server_ok (file_inv R J) (file_abs R J) config t s"
  using file_inv_empty [of R "fsv_store s" J] assms
  by (simp add: file_service.server_ok_def [OF rocksdb_file_service] empty_files_def files_ok_def)

lemma files_reach_ok:
  assumes "file_config_ok config" "empty_files R config s0" "file_steps (rocksdb_files R J config) (t0, s0) ops (t, s)"
  shows "file_service.server_ok (file_inv R J) (file_abs R J) config t s"
  using file_service.file_steps_ok [OF rocksdb_file_service [OF assms(1)] assms(3) [unfolded rocksdb_files_def]] empty_files_ok [OF assms(1,2)] .

end

context file_service
begin

lemma ReadFile_eq:
  "inv (fsv_store s) \<Longrightarrow> disk_reads d \<Longrightarrow>
   ReadFile (file_core FS config) d s fid =
     (case af_meta (abs (fsv_store s)) fid of None \<Rightarrow> None
      | Some m \<Rightarrow> map_option (\<lambda>c. (c, fm_content_type m, fm_file_name m)) (fsv_files s (fm_storage_path m)))"
  by (simp add: ReadFile_def get_by_id disk_reads_def split: option.splits)

lemma file_stays_step:
  assumes ok: "server_ok t s" and t: "clock_step t op t'" and m: "af_meta (abs (fsv_store s)) fid = Some m"
    and op: "\<And>d. op \<noteq> Do_DeleteFile d fid (fm_uploader_id m)"
  shows "af_meta (abs (fsv_store (file_exec (file_core FS config) op s))) fid = Some m \<and>
    fsv_files (file_exec (file_core FS config) op s) (BuildStoragePath config fid) = fsv_files s (BuildStoragePath config fid)"
proof -
  have "fid \<notin> op_deletes (file_core FS config) op s"
  proof (cases op)
    case (Do_DeleteFile d f user)
    then show ?thesis using DeleteFile_outcome(2) [OF ok prod.collapse [symmetric], of d f user] op [of d] m by auto
  qed auto
  with file_exec_evolves [OF ok t] files_keptD [OF evolvesD(2) _ m] show ?thesis by (auto simp: server_evolves_def)
qed

lemma file_stays:
  assumes "file_steps (file_core FS config) (t, s) ops (t', s')" "server_ok t s" "af_meta (abs (fsv_store s)) fid = Some m"
    "\<And>d. Do_DeleteFile d fid (fm_uploader_id m) \<notin> set ops"
  shows "server_ok t' s' \<and> af_meta (abs (fsv_store s')) fid = Some m \<and>
    fsv_files s' (BuildStoragePath config fid) = fsv_files s (BuildStoragePath config fid)"
  using assms
proof (induction "(t, s)" ops "(t', s')" arbitrary: t' s' rule: file_steps.induct)
  case (step ops t1 s1 op t')
  then have ih: "server_ok t1 s1" "af_meta (abs (fsv_store s1)) fid = Some m"
    "fsv_files s1 (BuildStoragePath config fid) = fsv_files s (BuildStoragePath config fid)" by auto
  have "op \<noteq> Do_DeleteFile d fid (fm_uploader_id m)" for d using step.prems(3) [of d] by auto
  from file_stays_step [OF ih(1) step.hyps(3) ih(2) this] ih(3) server_evolves_ok [OF file_exec_evolves [OF ih(1) step.hyps(3)]]
  show ?case by simp
qed simp

lemma stored_path:
  "server_ok t s \<Longrightarrow> af_meta (abs (fsv_store s)) fid = Some m \<Longrightarrow>
   fm_storage_path m = BuildStoragePath config fid \<and> fsv_files s (BuildStoragePath config fid) \<noteq> None"
  using files_okD(1) [of config t "abs (fsv_store s)" "fsv_files s" fid m] by (simp add: server_ok_def stored_ok_def)

lemma files_agree:
  assumes "server_ok t s" "server_ok t' s'" "disk_reads d" "af_meta (abs (fsv_store s')) fid = af_meta (abs (fsv_store s)) fid"
    "fsv_files s' (BuildStoragePath config fid) = fsv_files s (BuildStoragePath config fid)"
  shows "ReadFile (file_core FS config) d s' fid = ReadFile (file_core FS config) d s fid"
  using assms stored_path [OF assms(1)]
  by (auto simp: ReadFile_eq server_ok_def split: option.splits)

end

section \<open>When nothing fails\<close>

definition disk_works :: "Disk \<Rightarrow> bool" where
  "disk_works d \<longleftrightarrow> (\<forall>p q. dk_mkdir d p \<and> dk_open d p \<and> dk_write d p \<and> dk_flush d p \<and> dk_rename d p q \<and>
     dk_remove d p \<and> dk_exists d p \<and> dk_read d p)"

lemma disk_works_reads: "disk_works d \<Longrightarrow> disk_reads d"
  by (simp add: disk_works_def disk_reads_def)

locale reliable_file_service = file_service +
  assumes save_ok: "inv s \<Longrightarrow> meta_ok m \<Longrightarrow> fst (fst_Save FS s m)"
    and save_session_ok: "inv s \<Longrightarrow> session_ok u \<Longrightarrow> fst (fst_SaveUploadSession FS s u)"
    and update_bytes_ok: "inv s \<Longrightarrow> af_up (abs s) uid \<noteq> None \<Longrightarrow> fst (fst_UpdateUploadSessionBytes FS s uid n)"
    and delete_session_ok: "inv s \<Longrightarrow> uid \<noteq> [] \<Longrightarrow> fst (fst_DeleteUploadSession FS s uid)"
begin

lemma InitUpload_works:
  assumes "server_ok t s" "seconds_ok now" "0 < sz" "sz \<le> fc_max_file_size config" "md5 = []" "disk_works d"
    "InitUpload (file_core FS config) d ns rnd now s user nm ct sz md5 msg = (r, s')"
  shows "iur_success r" "iur_existing_file_id r = []" "iur_upload_id r = GenerateFileId ns rnd"
proof -
  have "fst (fst_SaveUploadSession FS (fsv_store s) (new_session (GenerateFileId ns rnd) user nm ct sz md5 msg
      (GetTempPath config (GenerateFileId ns rnd)) (now + fc_upload_session_expire_seconds config)))"
    using assms(1) new_session_ok(1) [OF assms(3,4,2)] by (intro save_session_ok) (simp_all add: server_ok_def)
  then show "iur_success r" "iur_existing_file_id r = []" "iur_upload_id r = GenerateFileId ns rnd"
    using assms(3-7) by (auto simp: InitUpload_def disk_works_def Let_def split: prod.splits if_splits)
qed

lemma AppendChunk_works:
  assumes "server_ok t s" "progress user nm ct sz md5 uid s c" "int (length c + length data) \<le> sz" "disk_works d"
    "AppendChunk (file_core FS config) d s uid data = (r, s')"
  shows "acr_success r"
proof -
  have inv: "inv (fsv_store s)" using assms(1) by (simp add: server_ok_def)
  obtain u where u: "af_up (abs (fsv_store s)) uid = Some u" "us_file_size u = sz" "us_bytes_written u = int (length c)"
    using assms(2) by (auto simp: progress_def)
  obtain st where "fst_UpdateUploadSessionBytes FS (fsv_store s) uid (int (length c) + int (length data)) = (True, st)"
    using update_bytes_ok [OF inv, of uid "int (length c) + int (length data)"] u(1) by (metis option.distinct(1) prod.collapse)
  with u assms(3-5) show ?thesis by (auto simp: AppendChunk_def get_session [OF inv] disk_works_def Let_def split: if_splits)
qed

lemma AppendChunk_refused:
  assumes "server_ok t s" "progress user nm ct sz md5 uid s c" "int (length c + length data) > sz"
  shows "AppendChunk (file_core FS config) d s uid data = (append_failed EC_INVALID_PARAM, s)"
  using assms by (auto simp: AppendChunk_def progress_def server_ok_def get_session Let_def)

lemma CompleteUpload_works:
  assumes ok: "server_ok t s" and p: "progress user nm ct sz md5 uid s c" "int (length c) = sz"
    and "seconds_ok now" "disk_works d" "CompleteUpload (file_core FS config) d ns rnd now s uid = (r, s')"
  shows "cur_success r"
proof -
  have inv: "inv (fsv_store s)" using ok by (simp add: server_ok_def)
  obtain u where u: "af_up (abs (fsv_store s)) uid = Some u" "us_file_size u = sz" "us_bytes_written u = int (length c)"
      "fsv_files s (GetTempPath config uid) = Some c \<or> c = [] \<and> fsv_files s (GetTempPath config uid) = None"
    using p(1) by (auto simp: progress_def)
  note sh = session_shape [OF ok u(1)]
  have temp: "fsv_files s (us_temp_path u) = Some c" using sh(3) u p(2) by (auto simp: upload_ok_def)
  have "meta_ok (uploaded_meta u (GenerateFileId ns rnd) q now)" for q
    using sh(2) assms(4) by (simp add: meta_ok_def session_ok_def uploaded_meta_def seconds_ok_def is_int64_def)
  then obtain st where "fst_Save FS (fsv_store s) (uploaded_meta u (GenerateFileId ns rnd)
      (BuildStoragePath config (GenerateFileId ns rnd)) now) = (True, st)" using save_ok [OF inv] by (metis prod.collapse)
  with assms(5,6) u p(2) temp show ?thesis
    by (auto simp: CompleteUpload_def get_session [OF inv] fs_rename_def disk_works_def Let_def split: if_splits)
qed

lemma CompleteUpload_incomplete:
  assumes "server_ok t s" "progress user nm ct sz md5 uid s c" "int (length c) \<noteq> sz"
  shows "CompleteUpload (file_core FS config) d ns rnd now s uid = (complete_failed EC_UPLOAD_INCOMPLETE, s)"
  using assms by (auto simp: CompleteUpload_def progress_def server_ok_def get_session)

text \<open>Cleaning up: an expired session and its temporary file are gone after its turn, and stay so.\<close>

lemma cleanup_session_gone:
  assumes "server_ok t s" "disk_works d" "us_expire_at u \<le> now" "us_upload_id u \<noteq> []"
  shows "af_up (abs (fsv_store (cleanup_session (file_core FS config) d now u s))) (us_upload_id u) = None \<and>
    fsv_files (cleanup_session (file_core FS config) d now u s) (us_temp_path u) = None"
proof -
  have inv: "inv (fsv_store s)" using assms(1) by (simp add: server_ok_def)
  obtain st where st: "fst_DeleteUploadSession FS (fsv_store s) (us_upload_id u) = (True, st)"
    using delete_session_ok [OF inv assms(4)] by (cases "fst_DeleteUploadSession FS (fsv_store s) (us_upload_id u)") auto
  show ?thesis
    using assms(2,3) st delete_session [OF inv st]
    by (auto simp: cleanup_session_def fs_exists_def fs_remove_def disk_works_def)
qed

lemma cleanup_session_keeps_gone:
  assumes ok: "server_ok t s" and "af_up (abs (fsv_store s)) i = None" "fsv_files s p = None"
  shows "af_up (abs (fsv_store (cleanup_session (file_core FS config) d now u s))) i = None \<and>
    fsv_files (cleanup_session (file_core FS config) d now u s) p = None"
proof -
  have inv: "inv (fsv_store s)" using ok by (simp add: server_ok_def)
  obtain ok2 st where st: "fst_DeleteUploadSession FS (fsv_store s) (us_upload_id u) = (ok2, st)" by fastforce
  have "af_up (abs st) i = None" using delete_session [OF inv st] assms(2) by simp
  then show ?thesis using assms st by (auto simp: cleanup_session_def fs_remove_def split: prod.splits if_splits)
qed

lemma cleanup_loop_gone:
  assumes "server_ok t s" "disk_works d" "\<And>u. u \<in> set us \<Longrightarrow> us_temp_path u = GetTempPath config (us_upload_id u) \<and> us_upload_id u \<noteq> []"
    "(\<exists>u \<in> set us. us_upload_id u = i \<and> us_expire_at u \<le> now) \<or> af_up (abs (fsv_store s)) i = None \<and> fsv_files s (GetTempPath config i) = None"
  shows "af_up (abs (fsv_store (fold (cleanup_session (file_core FS config) d now) us s))) i = None \<and>
    fsv_files (fold (cleanup_session (file_core FS config) d now) us s) (GetTempPath config i) = None"
  using assms
proof (induction us arbitrary: s)
  case (Cons u us)
  let ?s = "cleanup_session (file_core FS config) d now u s"
  have "server_evolves t {} UNIV s ?s" using Cons.prems by (intro cleanup_session_evolves) auto
  then have ok: "server_ok t ?s" by (rule server_evolves_ok)
  have "(\<exists>u \<in> set us. us_upload_id u = i \<and> us_expire_at u \<le> now) \<or> af_up (abs (fsv_store ?s)) i = None \<and> fsv_files ?s (GetTempPath config i) = None"
  proof (cases "us_upload_id u = i \<and> us_expire_at u \<le> now")
    case True
    with cleanup_session_gone [OF Cons.prems(1,2), of u now] Cons.prems(3) [of u] show ?thesis by auto
  next
    case False
    with Cons.prems(4) cleanup_session_keeps_gone [OF Cons.prems(1), of i "GetTempPath config i" d now u] show ?thesis by auto
  qed
  with Cons.IH [OF ok Cons.prems(2)] Cons.prems(3) show ?case by simp
qed simp

lemma CleanupExpiredSessions_gone:
  assumes ok: "server_ok t s" and d: "disk_works d" and u: "af_up (abs (fsv_store s)) uid = Some u" "us_expire_at u \<le> now"
  shows "af_up (abs (fsv_store (CleanupExpiredSessions (file_core FS config) d now s))) uid = None \<and>
    fsv_files (CleanupExpiredSessions (file_core FS config) d now s) (GetTempPath config uid) = None"
proof -
  have l: "set (fst_ListAllUploadSessions FS (fsv_store s)) = ran (af_up (abs (fsv_store s)))"
    using list_sessions ok by (simp add: server_ok_def)
  have "us_temp_path v = GetTempPath config (us_upload_id v) \<and> us_upload_id v \<noteq> []"
    if "v \<in> set (fst_ListAllUploadSessions FS (fsv_store s))" for v
  proof -
    from that obtain i where i: "af_up (abs (fsv_store s)) i = Some v" unfolding l by (auto simp: ran_def)
    note sh = session_shape [OF ok i]
    from sh(1,3) issued_not_Nil [of t i] show ?thesis by (auto simp: upload_ok_def)
  qed
  moreover have "\<exists>v \<in> set (fst_ListAllUploadSessions FS (fsv_store s)). us_upload_id v = uid \<and> us_expire_at v \<le> now"
    unfolding l using u session_shape(1) [OF ok u(1)] by (auto simp: ran_def)
  ultimately show ?thesis unfolding CleanupExpiredSessions_def file_core_simps by (intro cleanup_loop_gone [OF ok d]) blast+
qed

end

context reliable_env
begin

lemma rocksdb_reliable_files:
  assumes "file_config_ok config"
  shows "reliable_file_service (RocksDBFileStore R J) (file_inv R J) (file_abs R J) config"
proof (rule reliable_file_service.intro [OF rocksdb_file_service [OF assms]], unfold_locales, simp_all only: RocksDBFileStore_simps)
  fix s m assume "meta_ok m"
  then show "fst (RocksDBFileStore_Save R J s m)" by (simp add: RocksDBFileStore_Save_def meta_ok_def write_ok)
next
  fix s u assume "session_ok u"
  then show saved: "fst (RocksDBFileStore_SaveUploadSession R J s u)"
    by (simp add: RocksDBFileStore_SaveUploadSession_def session_ok_def db_Put_def write_ok)
next
  fix s uid n assume inv: "file_inv R J s" and some: "af_up (file_abs R J s) uid \<noteq> None"
  then obtain u where u: "af_up (file_abs R J s) uid = Some u" by blast
  with fl_session_data [OF inv u] inv show "fst (RocksDBFileStore_UpdateUploadSessionBytes R J s uid n)"
    by (auto simp: RocksDBFileStore_UpdateUploadSessionBytes_def fl_get_session RocksDBFileStore_SaveUploadSession_def session_ok_def db_Put_def write_ok)
next
  fix s uid assume "uid \<noteq> ([] :: string)"
  then show "fst (RocksDBFileStore_DeleteUploadSession R s uid)"
    by (simp add: RocksDBFileStore_DeleteUploadSession_def db_Delete_def write_ok)
qed

end

section \<open>A server to try the results on\<close>

definition good_disk :: Disk where
  "good_disk = \<lparr>dk_mkdir = (\<lambda>p. True), dk_open = (\<lambda>p. True), dk_write = (\<lambda>p. True), dk_flush = (\<lambda>p. True), dk_partial = (\<lambda>p. 0),
     dk_rename = (\<lambda>p q. True), dk_remove = (\<lambda>p. True), dk_exists = (\<lambda>p. True), dk_read = (\<lambda>p. True)\<rparr>"

definition demo_files :: "(string \<times> string) list FileServiceCore" where
  "demo_files = rocksdb_files alist_db text_json (file_LoadConfig None [])"

definition file_demo0 :: "(string \<times> string) list FileServer" where
  "file_demo0 = \<lparr>fsv_store = [], fsv_files = Map.empty\<rparr>"

definition demo_upload :: string where
  "demo_upload = GenerateFileId 1 7"

definition file_demo1 :: "(string \<times> string) list FileServer" where
  "file_demo1 = snd (InitUpload demo_files good_disk 1 7 10 file_demo0 ''alice'' ''notes.txt'' ''text/plain'' 5 [] [])"

definition file_demo2 :: "(string \<times> string) list FileServer" where
  "file_demo2 = snd (AppendChunk demo_files good_disk file_demo1 demo_upload ''hel'')"

definition file_demo3 :: "(string \<times> string) list FileServer" where
  "file_demo3 = snd (AppendChunk demo_files good_disk file_demo2 demo_upload ''lo'')"

definition file_demo4 :: "(string \<times> string) list FileServer" where
  "file_demo4 = snd (CompleteUpload demo_files good_disk 2 8 20 file_demo3 demo_upload)"

definition demo_file :: string where
  "demo_file = cur_file_id (fst (CompleteUpload demo_files good_disk 2 8 20 file_demo3 demo_upload))"

lemma good_disk_works: "disk_works good_disk"
  by (simp add: disk_works_def good_disk_def)

lemma demo_settings: "fc_max_file_size (file_LoadConfig None []) = 1073741824"
    "fc_upload_session_expire_seconds (file_LoadConfig None []) = 86400"
  by (simp_all add: file_LoadConfig_def Let_def LoadKeyValueConfig_def config_Load_def LoadFile_def ApplyEnvOverrides_def GetInt64_def
      config_Get_def Has_def)

lemma demo_config_ok: "file_config_ok (file_LoadConfig None [])"
  by (simp add: file_config_ok_def demo_settings is_int64_def)

lemma file_demo0_empty: "empty_files alist_db (file_LoadConfig None []) file_demo0"
  by (simp add: empty_files_def file_demo0_def alist_db_def)

interpretation demo: reliable_file_service "RocksDBFileStore alist_db text_json" "file_inv alist_db text_json" "file_abs alist_db text_json"
    "file_LoadConfig None []"
  by (rule alist_reliable.rocksdb_reliable_files [OF demo_config_ok])

lemmas demo_core = demo_files_def rocksdb_files_def

lemma file_demo1_run: "upload_run demo_files (0, file_demo0) ''alice'' ''notes.txt'' ''text/plain'' 5 [] demo_upload 2 file_demo1 []"
proof -
  have ok: "demo.server_ok 0 file_demo0" by (rule alist_env.empty_files_ok [OF demo_config_ok file_demo0_empty])
  have n: "seconds_ok 10" by (simp add: seconds_ok_def)
  note i = demo.InitUpload_works [OF ok n _ _ refl good_disk_works prod.collapse [symmetric], of 5 1 7 "''alice''" "''notes.txt''" "''text/plain''" "[]"]
  have "upload_run demo_files (0, file_demo0) ''alice'' ''notes.txt'' ''text/plain'' 5 [] demo_upload (Suc (unat (1 :: 64 word))) file_demo1 []"
    unfolding file_demo1_def
    by (rule upload_run.started [OF file_steps.none _ n prod.collapse [symmetric]])
      (use i in \<open>simp_all add: demo_core demo_upload_def demo_settings\<close>)
  then show ?thesis by (simp add: numeral_2_eq_2)
qed

lemma demo_append:
  assumes "upload_run demo_files (0, file_demo0) ''alice'' ''notes.txt'' ''text/plain'' 5 [] demo_upload t s ev" "intact ev"
    "length (accepted ev) + length data \<le> 5"
  shows "upload_run demo_files (0, file_demo0) ''alice'' ''notes.txt'' ''text/plain'' 5 [] demo_upload t
    (snd (AppendChunk demo_files good_disk s demo_upload data)) (ev @ [Accepted data])"
proof -
  have p: "demo.server_ok t s" "demo.progress ''alice'' ''notes.txt'' ''text/plain'' 5 [] demo_upload s (accepted ev)"
    using demo.upload_run_progress [OF assms(1) [unfolded demo_core] alist_env.empty_files_ok [OF demo_config_ok file_demo0_empty] assms(2)] by blast+
  have "acr_success (fst (AppendChunk demo_files good_disk s demo_upload data))"
    unfolding demo_core using assms(3) by (intro demo.AppendChunk_works [OF p _ good_disk_works prod.collapse [symmetric]]) simp
  with upload_run.appended [OF assms(1) prod.collapse [symmetric], of good_disk data] show ?thesis by (simp add: chunk_event_def)
qed

lemma file_demo3_run:
  "upload_run demo_files (0, file_demo0) ''alice'' ''notes.txt'' ''text/plain'' 5 [] demo_upload 2 file_demo3 [Accepted ''hel'', Accepted ''lo'']"
proof -
  have "upload_run demo_files (0, file_demo0) ''alice'' ''notes.txt'' ''text/plain'' 5 [] demo_upload 2 file_demo2 [Accepted ''hel'']"
    using demo_append [OF file_demo1_run, of "''hel''"] by (simp add: file_demo2_def)
  from demo_append [OF this, of "''lo''"] show ?thesis by (simp add: file_demo3_def intact_def accepted_def)
qed

lemma file_demo3_progress:
  "demo.server_ok 2 file_demo3" "demo.progress ''alice'' ''notes.txt'' ''text/plain'' 5 [] demo_upload file_demo3 ''hello''"
  using demo.upload_run_progress [OF file_demo3_run [unfolded demo_core] alist_env.empty_files_ok [OF demo_config_ok file_demo0_empty]]
  by (simp_all add: intact_def accepted_def)

lemma file_demo4_complete:
  "CompleteUpload demo_files good_disk 2 8 20 file_demo3 demo_upload = (fst (CompleteUpload demo_files good_disk 2 8 20 file_demo3 demo_upload), file_demo4)"
  "cur_success (fst (CompleteUpload demo_files good_disk 2 8 20 file_demo3 demo_upload))"
proof -
  show "CompleteUpload demo_files good_disk 2 8 20 file_demo3 demo_upload = (fst (CompleteUpload demo_files good_disk 2 8 20 file_demo3 demo_upload), file_demo4)"
    by (simp add: file_demo4_def)
  note p = file_demo3_progress
  show "cur_success (fst (CompleteUpload demo_files good_disk 2 8 20 file_demo3 demo_upload))"
    unfolding demo_core by (rule demo.CompleteUpload_works [OF p _ _ good_disk_works prod.collapse [symmetric]]) (simp_all add: seconds_ok_def)
qed

section \<open>Properties\<close>

text \<open>C5: Round trip of a resumable upload.  Take any run of the file server, with a database and a disk whose operations may fail at any
  time, from the start of an upload on: chunks may be appended, refused, written in part, or written without being
  counted; the upload may be completed without success, cleaned up or asked for again; other operations may come in between.  The log
  of the run says what was accepted and what failed calls left behind.  If the completion of the upload then succeeds, the declared
  size is the number of the bytes in accepted chunks, and after any further operations, as long as the uploader has not deleted the
  file, reading it gives, with the declared type and name, the bytes that the log puts into the temporary file: accepted chunks and what failed
  calls wrote, in the order of the calls, since the temporary file was last taken away.  These are exactly the accepted bytes if no
  failed call of this upload wrote anything and neither its session nor its temporary file was taken away.
\<close>

theorem upload_roundtrip:
  assumes "store_env R J" "file_config_ok config" "empty_files R config s0"
    and run: "upload_run (rocksdb_files R J config) (t0, s0) user nm ct sz md5 uid t s ev"
    and complete: "CompleteUpload (rocksdb_files R J config) d ns rnd now s uid = (r, s')" "cur_success r" "t \<le> unat ns" "seconds_ok now"
    and later: "file_steps (rocksdb_files R J config) (Suc (unat ns), s') ops (t', s'')"
      "\<And>d. Do_DeleteFile d (cur_file_id r) user \<notin> set ops"
    and "disk_reads d'"
  shows "int (length (accepted ev)) = sz \<and> ReadFile (rocksdb_files R J config) d' s'' (cur_file_id r) = Some (on_disk ev, ct, nm)
    \<and> (intact ev \<longrightarrow> on_disk ev = accepted ev)"
proof -
  note fs = store_env.rocksdb_file_service [OF assms(1,2)]
  note c = rocksdb_files_def
  have p: "file_service.server_ok (file_inv R J) (file_abs R J) config t s"
      "file_service.tracked (file_abs R J) config user nm ct sz md5 uid s (accepted ev) (on_disk ev)"
    using file_service.upload_run_tracked [OF fs run [unfolded c] store_env.empty_files_ok [OF assms(1-3)]] by blast+
  from file_service.tracked_completed [OF fs p complete(4,3,1) [unfolded c] complete(2)]
  obtain m where m: "int (length (accepted ev)) = sz" "file_service.server_ok (file_inv R J) (file_abs R J) config (Suc (unat ns)) s'"
      "af_meta (file_abs R J (fsv_store s')) (cur_file_id r) = Some m" "fm_file_name m = nm" "fm_content_type m = ct"
      "fm_uploader_id m = user" "fsv_files s' (fm_storage_path m) = Some (on_disk ev)" by blast
  have st: "file_service.server_ok (file_inv R J) (file_abs R J) config t' s''"
      "af_meta (file_abs R J (fsv_store s'')) (cur_file_id r) = Some m"
      "fsv_files s'' (BuildStoragePath config (cur_file_id r)) = fsv_files s' (BuildStoragePath config (cur_file_id r))"
    using file_service.file_stays [OF fs later(1) [unfolded c] m(2,3)] later(2) m(6) by simp_all
  then have "file_inv R J (fsv_store s'')" by (simp add: file_service.server_ok_def [OF fs])
  then have "ReadFile (rocksdb_files R J config) d' s'' (cur_file_id r) = Some (on_disk ev, ct, nm)"
    unfolding c using file_service.ReadFile_eq [OF fs _ assms(11)] st m file_service.stored_path [OF fs m(2,3)] by simp
  with m(1) intact_on_disk show ?thesis by blast
qed

theorem upload_roundtrip_witness:
  "ReadFile demo_files good_disk file_demo4 demo_file = Some (''hello'', ''text/plain'', ''notes.txt'')"
  using upload_roundtrip [OF alist_env.store_env_axioms demo_config_ok file_demo0_empty file_demo3_run [unfolded demo_files_def]
      file_demo4_complete [unfolded demo_files_def] _ _ file_steps.none _ disk_works_reads [OF good_disk_works]]
  by (simp add: demo_files_def demo_file_def seconds_ok_def intact_def accepted_def)

text \<open>C31: Stored files are immutable.  In every state that a run of the server reaches, a file whose meta data
  is stored can be read.  Whatever operations follow, with whatever failures, the meta data, the bytes, the
  type and the name stay the same, unless one of them is a deletion of this file in the name of its uploader.
\<close>

theorem stored_files_immutable:
  assumes "store_env R J" "file_config_ok config" "empty_files R config s0"
    and reach: "file_steps (rocksdb_files R J config) (t0, s0) ops0 (t, s)"
    and m: "GetFileInfo (rocksdb_files R J config) s fid = Some m"
    and later: "file_steps (rocksdb_files R J config) (t, s) ops (t', s')" "\<And>d. Do_DeleteFile d fid (fm_uploader_id m) \<notin> set ops"
    and "disk_reads d"
  shows "(\<exists>c. ReadFile (rocksdb_files R J config) d s fid = Some (c, fm_content_type m, fm_file_name m)) \<and>
    ReadFile (rocksdb_files R J config) d s' fid = ReadFile (rocksdb_files R J config) d s fid \<and>
    GetFileInfo (rocksdb_files R J config) s' fid = Some m"
proof -
  note fs = store_env.rocksdb_file_service [OF assms(1,2)] and c = rocksdb_files_def
  have ok: "file_service.server_ok (file_inv R J) (file_abs R J) config t s" by (rule store_env.files_reach_ok [OF assms(1-3) reach])
  then have inv: "file_inv R J (fsv_store s)" by (simp add: file_service.server_ok_def [OF fs])
  have m': "af_meta (file_abs R J (fsv_store s)) fid = Some m"
    using m store_env.fl_get_by_id [OF assms(1) inv] by (simp add: GetFileInfo_def c)
  have st: "file_service.server_ok (file_inv R J) (file_abs R J) config t' s'" "af_meta (file_abs R J (fsv_store s')) fid = Some m"
      "fsv_files s' (BuildStoragePath config fid) = fsv_files s (BuildStoragePath config fid)"
    using file_service.file_stays [OF fs later(1) [unfolded c] ok m'] later(2) by blast+
  then have inv': "file_inv R J (fsv_store s')" by (simp add: file_service.server_ok_def [OF fs])
  have "\<exists>x. ReadFile (rocksdb_files R J config) d s fid = Some (x, fm_content_type m, fm_file_name m)"
    unfolding c file_service.ReadFile_eq [OF fs inv assms(8)] using m' file_service.stored_path [OF fs ok m'] by auto
  moreover have "ReadFile (rocksdb_files R J config) d s' fid = ReadFile (rocksdb_files R J config) d s fid"
    unfolding c using file_service.files_agree [OF fs ok st(1) assms(8)] st m' by simp
  moreover have "GetFileInfo (rocksdb_files R J config) s' fid = Some m"
    using st(2) store_env.fl_get_by_id [OF assms(1) inv'] by (simp add: GetFileInfo_def c)
  ultimately show ?thesis by blast
qed

lemma file_demo3_reach: "file_steps demo_files (0, file_demo0)
    [Do_InitUpload good_disk 1 7 10 ''alice'' ''notes.txt'' ''text/plain'' 5 [] [], Do_AppendChunk good_disk demo_upload ''hel'',
     Do_AppendChunk good_disk demo_upload ''lo''] (2, file_demo3)"
proof -
  have 1: "file_steps demo_files (0, file_demo0) ([] @ [Do_InitUpload good_disk 1 7 10 ''alice'' ''notes.txt'' ''text/plain'' 5 [] []]) (2, file_exec demo_files
      (Do_InitUpload good_disk 1 7 10 ''alice'' ''notes.txt'' ''text/plain'' 5 [] []) file_demo0)"
    by (rule file_steps.step [OF file_steps.none]) (simp add: clock_step_def seconds_ok_def)
  note 2 = file_steps.step [OF 1, of "Do_AppendChunk good_disk demo_upload ''hel''" 2]
  note 3 = file_steps.step [OF 2, of "Do_AppendChunk good_disk demo_upload ''lo''" 2]
  have "file_exec demo_files (Do_AppendChunk good_disk demo_upload ''lo'')
     (file_exec demo_files (Do_AppendChunk good_disk demo_upload ''hel'') (file_exec demo_files
      (Do_InitUpload good_disk 1 7 10 ''alice'' ''notes.txt'' ''text/plain'' 5 [] []) file_demo0)) = file_demo3"
    by (simp only: file_exec.simps file_demo3_def file_demo2_def file_demo1_def)
  with 3 show ?thesis by (simp add: clock_step_def)
qed

lemma file_demo4_reach: "file_steps demo_files (0, file_demo0)
    [Do_InitUpload good_disk 1 7 10 ''alice'' ''notes.txt'' ''text/plain'' 5 [] [], Do_AppendChunk good_disk demo_upload ''hel'',
     Do_AppendChunk good_disk demo_upload ''lo'', Do_CompleteUpload good_disk 2 8 20 demo_upload] (3, file_demo4)"
  using file_steps.step [OF file_demo3_reach, of "Do_CompleteUpload good_disk 2 8 20 demo_upload" 3]
  by (simp add: clock_step_def seconds_ok_def file_demo4_def)

lemma demo_file_stored: "\<exists>m. GetFileInfo demo_files file_demo4 demo_file = Some m \<and> fm_uploader_id m = ''alice'' \<and> fm_file_size m = 5"
proof -
  have p: "demo.server_ok 2 file_demo3" "demo.progress ''alice'' ''notes.txt'' ''text/plain'' 5 [] demo_upload file_demo3 ''hello''"
    by (rule file_demo3_progress)+
  have n: "seconds_ok 20" "2 \<le> unat (2 :: 64 word)" by (simp_all add: seconds_ok_def)
  from demo.progress_completed [OF p n file_demo4_complete [unfolded demo_core]] alist_env.fl_get_by_id
  show ?thesis by (fastforce simp: GetFileInfo_def demo_core demo_file_def demo.server_ok_def)
qed

theorem stored_files_immutable_witness:
  "ReadFile demo_files good_disk (file_exec demo_files (Do_DeleteFile good_disk demo_file ''mallory'') file_demo4) demo_file
   = ReadFile demo_files good_disk file_demo4 demo_file"
proof -
  obtain m where m: "GetFileInfo demo_files file_demo4 demo_file = Some m" "fm_uploader_id m = ''alice''" using demo_file_stored by blast
  have "file_steps demo_files (3, file_demo4) ([] @ [Do_DeleteFile good_disk demo_file ''mallory''])
      (3, file_exec demo_files (Do_DeleteFile good_disk demo_file ''mallory'') file_demo4)"
    by (rule file_steps.step [OF file_steps.none]) (simp add: clock_step_def)
  from stored_files_immutable [OF alist_env.store_env_axioms demo_config_ok file_demo0_empty file_demo4_reach [unfolded demo_files_def]
      m(1) [unfolded demo_files_def] this [unfolded demo_files_def] _ disk_works_reads [OF good_disk_works]] m(2)
  show ?thesis by (simp add: demo_files_def)
qed

text \<open>C35: Upload sessions are well formed in every reachable state, whatever failed on the way: the size that
  was declared is positive and at most the configured maximum, and the offset that a client is told to resume
  from lies within the file.  Every digest that \<^verbatim>\<open>CheckMd5\<close> knows belongs to a stored file with that digest.
\<close>

theorem upload_sessions_well_formed:
  assumes "store_env R J" "file_config_ok config" "empty_files R config s0"
    and reach: "file_steps (rocksdb_files R J config) (t0, s0) ops (t, s)"
  shows "(gus_found (GetUploadState (rocksdb_files R J config) s uid) \<longrightarrow>
      0 \<le> gus_offset (GetUploadState (rocksdb_files R J config) s uid) \<and>
      gus_offset (GetUploadState (rocksdb_files R J config) s uid) \<le> gus_file_size (GetUploadState (rocksdb_files R J config) s uid) \<and>
      0 < gus_file_size (GetUploadState (rocksdb_files R J config) s uid) \<and>
      gus_file_size (GetUploadState (rocksdb_files R J config) s uid) \<le> fc_max_file_size config) \<and>
    (\<forall>fid. CheckMd5 (rocksdb_files R J config) s h = Some fid \<longrightarrow>
      (\<exists>m. GetFileInfo (rocksdb_files R J config) s fid = Some m \<and> fm_md5 m = h))"
proof -
  note fs = store_env.rocksdb_file_service [OF assms(1,2)] and c = rocksdb_files_def
  have ok: "file_service.server_ok (file_inv R J) (file_abs R J) config t s" by (rule store_env.files_reach_ok [OF assms(1-3) reach])
  then have inv: "file_inv R J (fsv_store s)" and fok: "files_ok config t (file_abs R J (fsv_store s)) (fsv_files s)"
    by (simp_all add: file_service.server_ok_def [OF fs])
  have "gus_found (GetUploadState (rocksdb_files R J config) s uid) \<longrightarrow>
      0 \<le> gus_offset (GetUploadState (rocksdb_files R J config) s uid) \<and>
      gus_offset (GetUploadState (rocksdb_files R J config) s uid) \<le> gus_file_size (GetUploadState (rocksdb_files R J config) s uid) \<and>
      0 < gus_file_size (GetUploadState (rocksdb_files R J config) s uid) \<and>
      gus_file_size (GetUploadState (rocksdb_files R J config) s uid) \<le> fc_max_file_size config"
    using files_okD(2) [OF fok, of uid] store_env.fl_get_session [OF assms(1) inv, of uid]
    by (auto simp: GetUploadState_def c upload_ok_def split: option.splits)
  moreover have "\<exists>m. GetFileInfo (rocksdb_files R J config) s fid = Some m \<and> fm_md5 m = h"
    if "CheckMd5 (rocksdb_files R J config) s h = Some fid" for fid
  proof -
    from that obtain f m where m: "af_md5 (file_abs R J (fsv_store s)) h = Some f" "af_meta (file_abs R J (fsv_store s)) f = Some m" "fm_file_id m = fid"
      using store_env.fl_get_by_md5 [OF assms(1) inv, of h] by (auto simp: CheckMd5_def c bind_eq_Some_conv)
    then have "fid = f" using store_env.fl_meta_data [OF assms(1) inv m(2)] by simp
    with m files_okD(3) [OF fok m(1)] store_env.fl_get_by_id [OF assms(1) inv] show ?thesis by (auto simp: GetFileInfo_def c)
  qed
  ultimately show ?thesis by blast
qed

lemma file_demo3_state: "GetUploadState demo_files file_demo3 demo_upload =
    (GetUploadState demo_files file_demo3 demo_upload)\<lparr>gus_found := True, gus_offset := 5, gus_file_size := 5\<rparr>"
proof -
  have p: "demo.server_ok 2 file_demo3" "demo.progress ''alice'' ''notes.txt'' ''text/plain'' 5 [] demo_upload file_demo3 ''hello''"
    by (rule file_demo3_progress)+
  then show ?thesis using alist_env.fl_get_session by (auto simp: demo.progress_def demo.server_ok_def GetUploadState_def demo_core)
qed

theorem upload_sessions_well_formed_witness:
  "gus_found (GetUploadState demo_files file_demo3 demo_upload) \<and>
   gus_offset (GetUploadState demo_files file_demo3 demo_upload) \<le> gus_file_size (GetUploadState demo_files file_demo3 demo_upload)"
proof -
  have "gus_found (GetUploadState demo_files file_demo3 demo_upload)" by (subst file_demo3_state) simp
  with upload_sessions_well_formed [OF alist_env.store_env_axioms demo_config_ok file_demo0_empty file_demo3_reach [unfolded demo_files_def],
      of demo_upload] show ?thesis by (simp add: demo_files_def)
qed

text \<open>Initialising an upload.  A size that is not positive or above the maximum is refused with
  \<^verbatim>\<open>FILE_TOO_LARGE\<close> and changes nothing.  If the digest is known, nothing changes and the answer names a stored
  file with that digest.  Otherwise, when the call succeeds, there is a new session of the caller at
  offset zero with the declared size and the configured life time.  No stored file changes in any case.
\<close>

theorem InitUpload_effect:
  assumes "store_env R J" "file_config_ok config" "empty_files R config s0"
    and reach: "file_steps (rocksdb_files R J config) (t0, s0) ops (t, s)" "t \<le> unat ns" "seconds_ok now"
    and run: "InitUpload (rocksdb_files R J config) d ns rnd now s user nm ct sz md5 msg = (r, s')"
    and "disk_reads d'"
  shows "(sz \<le> 0 \<or> fc_max_file_size config < sz \<longrightarrow> r = init_failed EC_FILE_TOO_LARGE \<and> s' = s) \<and>
    (iur_success r \<and> iur_existing_file_id r \<noteq> [] \<longrightarrow> s' = s \<and>
      (\<exists>m. GetFileInfo (rocksdb_files R J config) s (iur_existing_file_id r) = Some m \<and> fm_md5 m = md5)) \<and>
    (iur_success r \<and> iur_existing_file_id r = [] \<longrightarrow>
      GetUploadState (rocksdb_files R J config) s (iur_upload_id r) = GetUploadState (rocksdb_files R J config) s [] \<and>
      GetUploadState (rocksdb_files R J config) s' (iur_upload_id r) =
        \<lparr>gus_found = True, gus_error_code = 0, gus_error = [], gus_offset = 0, gus_file_size = sz, gus_completed = False, gus_file_id = [],
         gus_expire_at = now + fc_upload_session_expire_seconds config\<rparr>) \<and>
    (\<forall>fid. GetFileInfo (rocksdb_files R J config) s fid \<noteq> None \<longrightarrow>
      ReadFile (rocksdb_files R J config) d' s' fid = ReadFile (rocksdb_files R J config) d' s fid)"
proof -
  note fs = store_env.rocksdb_file_service [OF assms(1,2)] and c = rocksdb_files_def
  have ok: "file_service.server_ok (file_inv R J) (file_abs R J) config t s" by (rule store_env.files_reach_ok [OF assms(1-3) reach(1)])
  note i = file_service.InitUpload_outcome [OF fs ok reach(3,2) run [unfolded c]]
  have ok': "file_service.server_ok (file_inv R J) (file_abs R J) config (Suc (unat ns)) s'" by (rule file_service.server_evolves_ok [OF fs i(1)])
  have inv: "file_inv R J (fsv_store s)" "file_inv R J (fsv_store s')" using ok ok' by (simp_all add: file_service.server_ok_def [OF fs])
  have 1: "sz \<le> 0 \<or> fc_max_file_size config < sz \<longrightarrow> r = init_failed EC_FILE_TOO_LARGE \<and> s' = s"
    using run by (auto simp: InitUpload_def c Let_def)
  have 2: "iur_success r \<and> iur_existing_file_id r \<noteq> [] \<longrightarrow> s' = s \<and>
      (\<exists>m. GetFileInfo (rocksdb_files R J config) s (iur_existing_file_id r) = Some m \<and> fm_md5 m = md5)"
    using i(3) store_env.fl_get_by_id [OF assms(1) inv(1)] by (simp add: GetFileInfo_def c)
  have 3: "iur_success r \<and> iur_existing_file_id r = [] \<longrightarrow>
      GetUploadState (rocksdb_files R J config) s (iur_upload_id r) = GetUploadState (rocksdb_files R J config) s [] \<and>
      GetUploadState (rocksdb_files R J config) s' (iur_upload_id r) =
        \<lparr>gus_found = True, gus_error_code = 0, gus_error = [], gus_offset = 0, gus_file_size = sz, gus_completed = False, gus_file_id = [],
         gus_expire_at = now + fc_upload_session_expire_seconds config\<rparr>"
    using i(2) file_service.session_fresh(1) [OF fs ok reach(2), of rnd] store_env.fl_empty_id(2) [OF assms(1) inv(1)]
      store_env.fl_get_session [OF assms(1)] inv by (simp add: GetUploadState_def c new_session_def)
  have 4: "ReadFile (rocksdb_files R J config) d' s' fid = ReadFile (rocksdb_files R J config) d' s fid"
    if "GetFileInfo (rocksdb_files R J config) s fid \<noteq> None" for fid
  proof -
    from that obtain m where m: "af_meta (file_abs R J (fsv_store s)) fid = Some m"
      using store_env.fl_get_by_id [OF assms(1) inv(1)] by (auto simp: GetFileInfo_def c)
    have "evolves config (Suc (unat ns)) {} {} (file_abs R J (fsv_store s)) (fsv_files s) (file_abs R J (fsv_store s')) (fsv_files s')"
      using i(1) by (simp add: file_service.server_evolves_def [OF fs])
    from files_keptD [OF evolvesD(2) [OF this] _ m] m show ?thesis
      unfolding c by (intro file_service.files_agree [OF fs ok ok' assms(8)]) simp_all
  qed
  from 1 2 3 4 show ?thesis by blast
qed

theorem InitUpload_effect_witness:
  "InitUpload demo_files good_disk 1 7 10 file_demo0 ''alice'' ''big'' [] (2 ^ 40) [] [] = (init_failed EC_FILE_TOO_LARGE, file_demo0)"
proof -
  obtain r s' where r: "InitUpload demo_files good_disk 1 7 10 file_demo0 ''alice'' ''big'' [] (2 ^ 40) [] [] = (r, s')" by fastforce
  from InitUpload_effect [OF alist_env.store_env_axioms demo_config_ok file_demo0_empty file_steps.none [of _ "(0, file_demo0)"] _ _
      r [unfolded demo_files_def] disk_works_reads [OF good_disk_works]] r
  show ?thesis by (simp add: seconds_ok_def demo_settings)
qed

text \<open>Cleaning up, on a database and a disk that work.  A session that has not expired keeps its offset, its size
  and its expiry; an expired session is gone, together with its temporary file; stored files are not touched.
\<close>

theorem CleanupExpiredSessions_effect:
  assumes "reliable_env R J" "file_config_ok config" "empty_files R config s0"
    and reach: "file_steps (rocksdb_files R J config) (t0, s0) ops (t, s)"
    and d: "disk_works d" "disk_reads d'" and s': "s' = CleanupExpiredSessions (rocksdb_files R J config) d now s"
    and g: "g = GetUploadState (rocksdb_files R J config) s uid" "gus_found g"
  shows "(now < gus_expire_at g \<longrightarrow> GetUploadState (rocksdb_files R J config) s' uid = g \<and>
        fsv_files s' (GetTempPath config uid) = fsv_files s (GetTempPath config uid)) \<and>
    (gus_expire_at g \<le> now \<longrightarrow> \<not> gus_found (GetUploadState (rocksdb_files R J config) s' uid) \<and>
        fsv_files s' (GetTempPath config uid) = None) \<and>
    (\<forall>fid. GetFileInfo (rocksdb_files R J config) s fid \<noteq> None \<longrightarrow>
      ReadFile (rocksdb_files R J config) d' s' fid = ReadFile (rocksdb_files R J config) d' s fid)"
proof -
  have env: "store_env R J" using assms(1) by (simp add: reliable_env_def)
  note fs = store_env.rocksdb_file_service [OF env assms(2)] and c = rocksdb_files_def
  have ok: "file_service.server_ok (file_inv R J) (file_abs R J) config t s" by (rule store_env.files_reach_ok [OF env assms(2,3) reach])
  note e = file_service.CleanupExpiredSessions_outcome [OF fs ok, of now d, folded c, folded s']
  have ok': "file_service.server_ok (file_inv R J) (file_abs R J) config t s'" by (rule file_service.server_evolves_ok [OF fs e])
  have inv: "file_inv R J (fsv_store s)" "file_inv R J (fsv_store s')" using ok ok' by (simp_all add: file_service.server_ok_def [OF fs])
  note get = store_env.fl_get_session [OF env inv(1)] store_env.fl_get_session [OF env inv(2)] store_env.fl_get_by_id [OF env inv(1)]
  note ev = e [unfolded file_service.server_evolves_def [OF fs]]
  obtain u where u: "af_up (file_abs R J (fsv_store s)) uid = Some u" "gus_expire_at g = us_expire_at u"
    using g get by (auto simp: GetUploadState_def c split: option.splits)
  have "GetUploadState (rocksdb_files R J config) s' uid = g \<and> fsv_files s' (GetTempPath config uid) = fsv_files s (GetTempPath config uid)"
    if "now < gus_expire_at g"
    using uploads_keptD [OF evolvesD(3) _ u(1)] ev u that g get by (auto simp: GetUploadState_def c)
  moreover have "\<not> gus_found (GetUploadState (rocksdb_files R J config) s' uid) \<and> fsv_files s' (GetTempPath config uid) = None"
    if "gus_expire_at g \<le> now"
    using reliable_file_service.CleanupExpiredSessions_gone [OF reliable_env.rocksdb_reliable_files [OF assms(1,2)] ok d(1) u(1), of now, folded c, folded s']
      that u(2) get by (simp add: GetUploadState_def c)
  moreover have "ReadFile (rocksdb_files R J config) d' s' fid = ReadFile (rocksdb_files R J config) d' s fid"
    if "GetFileInfo (rocksdb_files R J config) s fid \<noteq> None" for fid
  proof -
    from that obtain m where m: "af_meta (file_abs R J (fsv_store s)) fid = Some m" using get(3) by (auto simp: GetFileInfo_def c)
    with files_keptD [OF evolvesD(2) _ m] ev show ?thesis
      unfolding c by (intro file_service.files_agree [OF fs ok ok' d(2)]) auto
  qed
  ultimately show ?thesis by blast
qed

theorem CleanupExpiredSessions_effect_witness:
  "\<not> gus_found (GetUploadState demo_files (CleanupExpiredSessions demo_files good_disk 100000 file_demo1) demo_upload)"
proof -
  have "file_steps demo_files (0, file_demo0) ([] @ [Do_InitUpload good_disk 1 7 10 ''alice'' ''notes.txt'' ''text/plain'' 5 [] []]) (2, file_exec demo_files
      (Do_InitUpload good_disk 1 7 10 ''alice'' ''notes.txt'' ''text/plain'' 5 [] []) file_demo0)"
    by (rule file_steps.step [OF file_steps.none]) (simp add: clock_step_def seconds_ok_def)
  then have reach: "file_steps demo_files (0, file_demo0) ([] @ [Do_InitUpload good_disk 1 7 10 ''alice'' ''notes.txt'' ''text/plain'' 5 [] []]) (2, file_demo1)"
    by (simp add: file_demo1_def)
  have n: "seconds_ok 10" "0 \<le> unat (1 :: 64 word)" by (simp_all add: seconds_ok_def)
  have ok: "demo.server_ok 0 file_demo0" by (rule alist_env.empty_files_ok [OF demo_config_ok file_demo0_empty])
  note run = prod.collapse [symmetric, of "InitUpload (file_core (RocksDBFileStore alist_db text_json) (file_LoadConfig None []))
    good_disk 1 7 10 file_demo0 ''alice'' ''notes.txt'' ''text/plain'' 5 [] []"]
  note i = demo.InitUpload_works [OF ok n(1) _ _ refl good_disk_works run] and o = demo.InitUpload_outcome [OF ok n run]
  have d1: "demo.server_ok 2 file_demo1" using demo.server_evolves_ok [OF o(1)] by (simp add: file_demo1_def demo_core numeral_2_eq_2)
  then have "gus_found (GetUploadState demo_files file_demo1 demo_upload) \<and> gus_expire_at (GetUploadState demo_files file_demo1 demo_upload) = 86410"
    using o(2) i alist_env.fl_get_session
    by (simp add: demo_settings demo.server_ok_def GetUploadState_def demo_core demo_upload_def file_demo1_def new_session_def)
  with CleanupExpiredSessions_effect [OF alist_reliable.reliable_env_axioms demo_config_ok file_demo0_empty reach [unfolded demo_files_def]
      good_disk_works disk_works_reads [OF good_disk_works] refl refl, of demo_upload 100000]
  show ?thesis by (simp add: demo_files_def)
qed

text \<open>A range of a file is a slice of it.  When a file can be read and has the recorded size, a read of \<open>len\<close> bytes from
  \<open>off\<close> returns the bytes of the file from there, cut off at its end; a negative offset counts as zero, a negative
  length as the rest, and an offset beyond the end gives no bytes.  The only exception is a sum of offset and
  length that is no 64-bit number.
\<close>

lemma ReadFileRange_slice:
  assumes "ReadFile C d s fid = Some (c, ct, nm)" "GetFileInfo C s fid = Some m" "fm_file_size m = int (length c)"
    and "is_int64 (int (length c))" "is_int64 (max 0 off + len)"
  shows "ReadFileRange C d s fid off len =
    ReadOk (if len < 0 then drop (nat off) c else take (nat len) (drop (nat off) c), ct, nm, int (length c))"
proof -
  from assms(1,2) have m: "fst_GetById (fsc_store C) (fsv_store s) fid = Some m" "fsv_files s (fm_storage_path m) = Some c"
    "dk_open d (fm_storage_path m)" "dk_read d (fm_storage_path m)" "ct = fm_content_type m" "nm = fm_file_name m"
    by (auto simp: ReadFile_def GetFileInfo_def split: option.splits if_splits)
  let ?o = "max 0 off"
  have o: "(if off < 0 then 0 else off) = ?o" "nat ?o = nat off" by simp_all
  show ?thesis
  proof (cases "?o \<ge> int (length c)")
    case True
    then have "drop (nat off) c = []" by simp
    with True m assms(3) o show ?thesis by (simp add: ReadFileRange_def Let_def)
  next
    case False
    then have n: "nat off < length c" by auto
    have "ReadFileRange C d s fid off len =
      (let read_len0 = (if len < 0 then int (length c) - ?o else len); read_len = (if ?o + read_len0 > int (length c) then int (length c) - ?o else read_len0)
       in ReadOk (take (nat read_len) (drop (nat off) c), ct, nm, int (length c)))"
      using False m assms(3-5) o n by (auto simp: ReadFileRange_def Let_def is_int64_def nat_diff_distrib split: if_splits)
    also have "\<dots> = ReadOk (if len < 0 then drop (nat off) c else take (nat len) (drop (nat off) c), ct, nm, int (length c))"
      using n False by (auto simp: Let_def nat_diff_distrib)
    finally show ?thesis .
  qed
qed

lemma demo_file_read: "ReadFile demo_files good_disk file_demo4 demo_file = Some (''hello'', ''text/plain'', ''notes.txt'')"
  using demo.progress_completed [OF _ _ _ _ file_demo4_complete [unfolded demo_core], of 2 "''alice''" "''notes.txt''" "''text/plain''" 5 "[]" "''hello''"]
    file_demo3_progress
    demo.ReadFile_eq [OF _ disk_works_reads [OF good_disk_works], of file_demo4 demo_file]
  by (auto simp: seconds_ok_def demo_core demo_file_def demo.server_ok_def)

end
