(* ===== verification/File_Handler.thy ===== *)
theory File_Handler
  imports File_Properties Grpc_Auth
begin

text \<open>
  \<^verbatim>\<open>backend/filesvr/internal/handler/file_handler.cpp\<close>: the gRPC methods of the file service and
  the handler of HTTP downloads.  A request is the fields that a method reads; a client stream is the
  list of its messages, and \<open>ds n\<close> is what the disk does while message \<open>n\<close> is handled.  The variable \<^verbatim>\<open>write_offset\<close> of
  \<^verbatim>\<open>UploadFile\<close> is assigned and never read, and is left out.
\<close>

section \<open>Responses\<close>

record InitUploadResponse =
  iup_code :: int
  iup_message :: string
  iup_upload_id :: string
  iup_expire_at :: int

record GetUploadStateResponse =
  gsr_code :: int
  gsr_message :: string
  gsr_offset :: int
  gsr_file_size :: int
  gsr_completed :: bool
  gsr_file_id :: string
  gsr_expire_at :: int

record UploadResponse =
  upr_code :: int
  upr_message :: string
  upr_file_id :: string
  upr_file_url :: string
  upr_thumbnail_url :: string

record FileUrlResponse =
  fup_code :: int
  fup_message :: string
  fup_file_url :: string
  fup_file_name :: string
  fup_file_size :: int
  fup_content_type :: string
  fup_expire_at :: int

record FileInfo =
  fi_file_id :: string
  fi_file_name :: string
  fi_file_size :: int
  fi_content_type :: string
  fi_uploader_id :: string
  fi_uploaded_at :: int
  fi_md5 :: string

record FileInfoResponse =
  fir_code :: int
  fir_message :: string
  fir_file_info :: "FileInfo option"

record DeleteFileResponse =
  dfr_code :: int
  dfr_message :: string

record UploadTokenResponse =
  utp_code :: int
  utp_message :: string
  utp_upload_token :: string
  utp_upload_url :: string
  utp_expire_at :: int

definition init_response :: "int \<Rightarrow> string \<Rightarrow> InitUploadResponse" where
  "init_response ec message = \<lparr>iup_code = ec, iup_message = message, iup_upload_id = [], iup_expire_at = 0\<rparr>"

definition state_response :: "int \<Rightarrow> string \<Rightarrow> GetUploadStateResponse" where
  "state_response ec message = \<lparr>gsr_code = ec, gsr_message = message, gsr_offset = 0, gsr_file_size = 0, gsr_completed = False,
     gsr_file_id = [], gsr_expire_at = 0\<rparr>"

definition upload_response :: "int \<Rightarrow> string \<Rightarrow> UploadResponse" where
  "upload_response ec message = \<lparr>upr_code = ec, upr_message = message, upr_file_id = [], upr_file_url = [], upr_thumbnail_url = []\<rparr>"

definition url_response :: "int \<Rightarrow> string \<Rightarrow> FileUrlResponse" where
  "url_response ec message = \<lparr>fup_code = ec, fup_message = message, fup_file_url = [], fup_file_name = [], fup_file_size = 0,
     fup_content_type = [], fup_expire_at = 0\<rparr>"

definition token_response :: "int \<Rightarrow> string \<Rightarrow> UploadTokenResponse" where
  "token_response ec message = \<lparr>utp_code = ec, utp_message = message, utp_upload_token = [], utp_upload_url = [], utp_expire_at = 0\<rparr>"

section \<open>The gRPC methods\<close>

definition FileHandler_GetUserId ::
  "'j nlohmann \<Rightarrow> (string \<Rightarrow> string \<Rightarrow> string) \<Rightarrow> string \<Rightarrow> int \<Rightarrow> ServerContext \<Rightarrow> string \<Rightarrow> string" where
  "FileHandler_GetUserId J hmac jwt_secret now_ms context request_user_id =
     (if jwt_secret \<noteq> [] then
        (let uid = GetAuthenticatedUserId J hmac now_ms context jwt_secret
         in if uid \<noteq> [] then uid else request_user_id)
      else request_user_id)"

definition FileHandler_InitUpload ::
  "'s FileServiceCore \<Rightarrow> 'j nlohmann \<Rightarrow> (string \<Rightarrow> string \<Rightarrow> string) \<Rightarrow> string \<Rightarrow> int \<Rightarrow> Disk \<Rightarrow> 64 word \<Rightarrow> 64 word \<Rightarrow> int \<Rightarrow> 's FileServer
     \<Rightarrow> ServerContext \<Rightarrow> string \<Rightarrow> string \<Rightarrow> string \<Rightarrow> int \<Rightarrow> string \<Rightarrow> string \<Rightarrow> InitUploadResponse \<times> 's FileServer" where
  "FileHandler_InitUpload C J hmac jwt_secret now_ms d ns rnd now s context req_user_id file_name content_type file_size md5 msg_id =
     (let user_id = FileHandler_GetUserId J hmac jwt_secret now_ms context req_user_id in
      if user_id = [] then (init_response (ErrorCodeToInt EC_TOKEN_INVALID) ''token invalid or missing'', s)
      else if file_name = [] then (init_response (ErrorCodeToInt EC_INVALID_PARAM) (ErrorCodeToString EC_INVALID_PARAM), s)
      else
        (let (result, s') = InitUpload C d ns rnd now s user_id file_name content_type file_size md5 msg_id in
         (if iur_success result then
            (init_response EC_OK (ErrorCodeToString EC_OK))
              \<lparr>iup_upload_id := (if iur_upload_id result = [] then iur_existing_file_id result else iur_upload_id result),
               iup_expire_at := iur_expire_at result\<rparr>
          else init_response (iur_error_code result) (iur_error result), s')))"

definition FileHandler_GetUploadState :: "'s FileServiceCore \<Rightarrow> 's FileServer \<Rightarrow> string \<Rightarrow> GetUploadStateResponse" where
  "FileHandler_GetUploadState C s upload_id =
     (if upload_id = [] then state_response (ErrorCodeToInt EC_INVALID_PARAM) (ErrorCodeToString EC_INVALID_PARAM)
      else
        (let result = GetUploadState C s upload_id in
         if \<not> gus_found result then
           state_response (if gus_error_code result \<noteq> 0 then gus_error_code result else ErrorCodeToInt EC_NOT_FOUND)
             (if gus_error result = [] then ErrorCodeToString EC_NOT_FOUND else gus_error result)
         else
           \<lparr>gsr_code = EC_OK, gsr_message = ErrorCodeToString EC_OK, gsr_offset = gus_offset result, gsr_file_size = gus_file_size result,
            gsr_completed = gus_completed result,
            gsr_file_id = (if gus_completed result \<and> gus_file_id result \<noteq> [] then gus_file_id result else []),
            gsr_expire_at = gus_expire_at result\<rparr>))"

datatype UploadChunk = UC_Meta string | UC_Chunk string | UC_ResumeMeta string int | UC_NotSet

fun upload_loop ::
  "'s FileServiceCore \<Rightarrow> (nat \<Rightarrow> Disk) \<Rightarrow> nat \<Rightarrow> UploadChunk list \<Rightarrow> string \<Rightarrow> bool \<Rightarrow> 's FileServer
     \<Rightarrow> (UploadResponse + string \<times> bool) \<times> 's FileServer" where
  "upload_loop C ds n [] upload_id is_first s = (Inr (upload_id, is_first), s)"
| "upload_loop C ds n (UC_Meta m_upload_id # cs) upload_id is_first s =
     (if m_upload_id = [] then (Inl (upload_response (ErrorCodeToInt EC_INVALID_PARAM) ''upload_id required''), s)
      else upload_loop C ds (Suc n) cs m_upload_id False s)"
| "upload_loop C ds n (UC_ResumeMeta r_upload_id r_offset # cs) upload_id is_first s =
     (if r_upload_id = [] then (Inl (upload_response (ErrorCodeToInt EC_INVALID_PARAM) ''upload_id required''), s)
      else upload_loop C ds (Suc n) cs r_upload_id False s)"
| "upload_loop C ds n (UC_Chunk data # cs) upload_id is_first s =
     (if data = [] then upload_loop C ds (Suc n) cs upload_id is_first s
      else if upload_id = [] then
        (Inl (upload_response (ErrorCodeToInt EC_INVALID_PARAM) ''first message must be meta or resume_meta''), s)
      else
        (let (append, s') = AppendChunk C (ds n) s upload_id data in
         if \<not> acr_success append then (Inl (upload_response (acr_error_code append) (acr_error append)), s')
         else upload_loop C ds (Suc n) cs upload_id is_first s'))"
| "upload_loop C ds n (UC_NotSet # cs) upload_id is_first s = upload_loop C ds (Suc n) cs upload_id is_first s"

definition FileHandler_UploadFile ::
  "'s FileServiceCore \<Rightarrow> (nat \<Rightarrow> Disk) \<Rightarrow> 64 word \<Rightarrow> 64 word \<Rightarrow> int \<Rightarrow> 's FileServer \<Rightarrow> UploadChunk list \<Rightarrow> UploadResponse \<times> 's FileServer" where
  "FileHandler_UploadFile C ds ns rnd now s stream =
     (case upload_loop C ds 0 stream [] True s of
        (Inl response, s') \<Rightarrow> (response, s')
      | (Inr (upload_id, is_first), s') \<Rightarrow>
          if is_first \<or> upload_id = [] then
            (upload_response (ErrorCodeToInt EC_INVALID_PARAM) ''stream must start with meta or resume_meta'', s')
          else
            (let (complete, s'') = CompleteUpload C (ds (length stream)) ns rnd now s' upload_id in
             (if cur_success complete then
                \<lparr>upr_code = EC_OK, upr_message = ErrorCodeToString EC_OK, upr_file_id = cur_file_id complete,
                 upr_file_url = cur_file_url complete,
                 upr_thumbnail_url = (if cur_thumbnail_url complete \<noteq> [] then cur_thumbnail_url complete else [])\<rparr>
              else upload_response (cur_error_code complete) (cur_error complete), s'')))"

definition FileHandler_GetFileUrl ::
  "'s FileServiceCore \<Rightarrow> 'j nlohmann \<Rightarrow> (string \<Rightarrow> string \<Rightarrow> string) \<Rightarrow> string \<Rightarrow> int \<Rightarrow> 's FileServer \<Rightarrow> ServerContext \<Rightarrow> string \<Rightarrow> string
     \<Rightarrow> FileUrlResponse" where
  "FileHandler_GetFileUrl C J hmac jwt_secret now_ms s context file_id req_user_id =
     (let user_id = FileHandler_GetUserId J hmac jwt_secret now_ms context req_user_id in
      if user_id = [] then url_response (ErrorCodeToInt EC_TOKEN_INVALID) ''token invalid or missing''
      else if file_id = [] then url_response (ErrorCodeToInt EC_INVALID_PARAM) (ErrorCodeToString EC_INVALID_PARAM)
      else
        (let result = GetFileUrl C s file_id user_id in
         if fur_success result then
           \<lparr>fup_code = EC_OK, fup_message = ErrorCodeToString EC_OK, fup_file_url = fur_file_url result, fup_file_name = fur_file_name result,
            fup_file_size = fur_file_size result, fup_content_type = fur_content_type result,
            fup_expire_at = (if fur_expire_at result > 0 then fur_expire_at result else 0)\<rparr>
         else url_response (fur_error_code result) (fur_error result)))"

definition FileHandler_GetFileInfo :: "'s FileServiceCore \<Rightarrow> 's FileServer \<Rightarrow> string \<Rightarrow> FileInfoResponse" where
  "FileHandler_GetFileInfo C s file_id =
     (if file_id = [] then
        \<lparr>fir_code = ErrorCodeToInt EC_INVALID_PARAM, fir_message = ErrorCodeToString EC_INVALID_PARAM, fir_file_info = None\<rparr>
      else
        (case GetFileInfo C s file_id of
           None \<Rightarrow>
             \<lparr>fir_code = ErrorCodeToInt EC_FILE_NOT_FOUND, fir_message = ErrorCodeToString EC_FILE_NOT_FOUND, fir_file_info = None\<rparr>
         | Some meta \<Rightarrow>
             \<lparr>fir_code = EC_OK, fir_message = ErrorCodeToString EC_OK,
              fir_file_info = Some
                \<lparr>fi_file_id = fm_file_id meta, fi_file_name = fm_file_name meta, fi_file_size = fm_file_size meta,
                 fi_content_type = fm_content_type meta, fi_uploader_id = fm_uploader_id meta,
                 fi_uploaded_at = fm_uploaded_at meta, fi_md5 = fm_md5 meta\<rparr>\<rparr>))"

definition FileHandler_DeleteFile ::
  "'s FileServiceCore \<Rightarrow> 'j nlohmann \<Rightarrow> (string \<Rightarrow> string \<Rightarrow> string) \<Rightarrow> string \<Rightarrow> int \<Rightarrow> Disk \<Rightarrow> 's FileServer \<Rightarrow> ServerContext \<Rightarrow> string \<Rightarrow> string
     \<Rightarrow> DeleteFileResponse \<times> 's FileServer" where
  "FileHandler_DeleteFile C J hmac jwt_secret now_ms d s context file_id req_user_id =
     (let user_id = FileHandler_GetUserId J hmac jwt_secret now_ms context req_user_id in
      if user_id = [] then (\<lparr>dfr_code = ErrorCodeToInt EC_TOKEN_INVALID, dfr_message = ''token invalid or missing''\<rparr>, s)
      else if file_id = [] then (\<lparr>dfr_code = ErrorCodeToInt EC_INVALID_PARAM, dfr_message = ErrorCodeToString EC_INVALID_PARAM\<rparr>, s)
      else
        (let (ok, s') = DeleteFile C d s file_id user_id in
         (if ok then \<lparr>dfr_code = EC_OK, dfr_message = ErrorCodeToString EC_OK\<rparr>
          else \<lparr>dfr_code = ErrorCodeToInt EC_FILE_NOT_FOUND, dfr_message = ErrorCodeToString EC_FILE_NOT_FOUND\<rparr>, s')))"

definition FileHandler_GetUploadToken ::
  "'s FileServiceCore \<Rightarrow> 'j nlohmann \<Rightarrow> (string \<Rightarrow> string \<Rightarrow> string) \<Rightarrow> string \<Rightarrow> int \<Rightarrow> Disk \<Rightarrow> 64 word \<Rightarrow> 64 word \<Rightarrow> int \<Rightarrow> 's FileServer
     \<Rightarrow> ServerContext \<Rightarrow> string \<Rightarrow> string \<Rightarrow> int \<Rightarrow> UploadTokenResponse \<times> 's FileServer" where
  "FileHandler_GetUploadToken C J hmac jwt_secret now_ms d ns rnd now s context req_user_id file_name file_size =
     (let user_id = FileHandler_GetUserId J hmac jwt_secret now_ms context req_user_id in
      if user_id = [] then (token_response (ErrorCodeToInt EC_TOKEN_INVALID) ''token invalid or missing'', s)
      else if file_name = [] then (token_response (ErrorCodeToInt EC_INVALID_PARAM) (ErrorCodeToString EC_INVALID_PARAM), s)
      else
        (let (result, s') = GetUploadToken C d ns rnd now s user_id file_name file_size in
         (if utr_success result then
            \<lparr>utp_code = EC_OK, utp_message = ErrorCodeToString EC_OK, utp_upload_token = utr_upload_token result,
             utp_upload_url = utr_upload_url result, utp_expire_at = utr_expire_at result\<rparr>
          else token_response (utr_error_code result) (utr_error result), s')))"

section \<open>HTTP downloads\<close>

text \<open>The bytes, the type, the name, the total size, and whether the answer is partial.\<close>

definition HttpDownloadHandler_Serve ::
  "'s FileServiceCore \<Rightarrow> Disk \<Rightarrow> 's FileServer \<Rightarrow> string \<Rightarrow> int \<Rightarrow> int \<Rightarrow> (string \<times> string \<times> string \<times> int \<times> bool) ReadResult" where
  "HttpDownloadHandler_Serve C d s file_id range_start range_end =
     (if range_start \<ge> 0 \<and> range_end \<ge> 0 \<and> range_end \<ge> range_start then
        (if \<not> is_int64 (range_end - range_start + 1) then Overflow
         else
           (case ReadFileRange C d s file_id range_start (range_end - range_start + 1) of
              Overflow \<Rightarrow> Overflow
            | ReadFailed \<Rightarrow> ReadFailed
            | ReadOk (data, content_type, file_name, total_size) \<Rightarrow> ReadOk (data, content_type, file_name, total_size, True)))
      else
        (case ReadFile C d s file_id of
           None \<Rightarrow> ReadFailed
         | Some (data, content_type, file_name) \<Rightarrow> ReadOk (data, content_type, file_name, int (length data), False)))"

section \<open>Properties\<close>

text \<open>Appending the chunks of one stream.\<close>

lemma upload_loop_chunks:
  assumes rel: "reliable_env R J" and cfg: "file_config_ok config" and s0: "empty_files R config s0"
    and run: "upload_run (rocksdb_files R J config) (t0, s0) user nm ct sz md5 uid t s ev" "intact ev"
    and fits: "int (length (accepted ev @ concat chunks)) \<le> sz" and disk: "\<And>n. disk_works (ds n)"
  shows "\<exists>s' ev'. upload_loop (rocksdb_files R J config) ds n (map UC_Chunk chunks) uid False s = (Inr (uid, False), s') \<and>
    upload_run (rocksdb_files R J config) (t0, s0) user nm ct sz md5 uid t s' ev' \<and> intact ev' \<and> accepted ev' = accepted ev @ concat chunks"
  using run fits
proof (induction chunks arbitrary: n s ev)
  case (Cons x chunks)
  have env: "store_env R J" using rel by (simp add: reliable_env_def)
  note fs = store_env.rocksdb_file_service [OF env cfg] and rfs = reliable_env.rocksdb_reliable_files [OF rel cfg]
  have p: "file_service.server_ok (file_inv R J) (file_abs R J) config t s" "file_service.progress (file_abs R J) config user nm ct sz md5 uid s (accepted ev)"
    using file_service.upload_run_progress [OF fs Cons.prems(1) [unfolded rocksdb_files_def] store_env.empty_files_ok [OF env cfg s0] Cons.prems(2)] by blast+
  have uid: "uid \<noteq> []"
    using p(2) file_service.session_shape(3) [OF fs p(1)] issued_not_Nil by (auto simp: file_service.progress_def [OF fs] upload_ok_def)
  show ?case
  proof (cases "x = []")
    case True
    with Cons show ?thesis by simp
  next
    case False
    obtain r s1 where a: "AppendChunk (rocksdb_files R J config) (ds n) s uid x = (r, s1)" by fastforce
    have "int (length (accepted ev) + length x) \<le> sz" using Cons.prems(3) by simp
    then have r: "acr_success r"
      using reliable_file_service.AppendChunk_works [OF rfs p _ disk a [unfolded rocksdb_files_def]] by simp
    have "upload_run (rocksdb_files R J config) (t0, s0) user nm ct sz md5 uid t s1 (ev @ [Accepted x])"
      using upload_run.appended [OF Cons.prems(1) a] r by (simp add: chunk_event_def)
    from Cons.IH [OF this, of "Suc n"] Cons.prems(2,3) a r False uid show ?thesis by simp
  qed
qed auto

text \<open>C32: Resumable uploads make progress.  On a database and a disk that work, let an upload have received the bytes
  \<open>c\<close> (accepted chunks; calls of this upload may also have failed, without writing anything), and let the client send a stream that begins with the upload's id, as a new or a resumed upload, followed by chunks
  with the bytes \<open>x\<close>.  If these complete the declared size, the answer is \<^verbatim>\<open>OK\<close> and the file it names reads back as \<open>c\<close> followed
  by \<open>x\<close>; if bytes are still missing, the answer is \<^verbatim>\<open>UPLOAD_INCOMPLETE\<close> and the upload stands at \<open>c\<close> followed by \<open>x\<close>, ready to be
  resumed.  The offset that a resuming client sends has no effect.
\<close>

theorem UploadFile_resumes:
  assumes rel: "reliable_env R J" and cfg: "file_config_ok config" and s0: "empty_files R config s0"
    and run: "upload_run (rocksdb_files R J config) (t0, s0) user nm ct sz md5 uid t s ev" "intact ev" and c: "c = accepted ev"
    and stream: "stream = hd_msg # map UC_Chunk chunks" "hd_msg = UC_Meta uid \<or> hd_msg = UC_ResumeMeta uid off"
    and fits: "int (length (c @ concat chunks)) \<le> sz" and disk: "\<And>n. disk_works (ds n)" "disk_reads d'"
    and clock: "t \<le> unat ns" "seconds_ok now"
    and call: "FileHandler_UploadFile (rocksdb_files R J config) ds ns rnd now s stream = (resp, s')"
  shows "(int (length (c @ concat chunks)) = sz \<longrightarrow> upr_code resp = EC_OK \<and>
      ReadFile (rocksdb_files R J config) d' s' (upr_file_id resp) = Some (c @ concat chunks, ct, nm)) \<and>
    (int (length (c @ concat chunks)) < sz \<longrightarrow> upr_code resp = EC_UPLOAD_INCOMPLETE \<and>
      (\<exists>ev'. upload_run (rocksdb_files R J config) (t0, s0) user nm ct sz md5 uid t s' ev' \<and> intact ev' \<and> accepted ev' = c @ concat chunks))"
proof -
  have env: "store_env R J" using rel by (simp add: reliable_env_def)
  note fs = store_env.rocksdb_file_service [OF env cfg] and rfs = reliable_env.rocksdb_reliable_files [OF rel cfg] and co = rocksdb_files_def
  obtain s1 ev1 where s1: "upload_loop (rocksdb_files R J config) ds 1 (map UC_Chunk chunks) uid False s = (Inr (uid, False), s1)"
      "upload_run (rocksdb_files R J config) (t0, s0) user nm ct sz md5 uid t s1 ev1" "intact ev1" "accepted ev1 = c @ concat chunks"
    using upload_loop_chunks [where ds = ds and n = 1, OF rel cfg s0 run fits [unfolded c] disk(1)] c by blast
  have p: "file_service.server_ok (file_inv R J) (file_abs R J) config t s1"
      "file_service.progress (file_abs R J) config user nm ct sz md5 uid s1 (c @ concat chunks)"
    using file_service.upload_run_progress [OF fs s1(2) [unfolded co] store_env.empty_files_ok [OF env cfg s0] s1(3)] s1(4) by simp_all
  have uid: "uid \<noteq> []"
    using p(2) file_service.session_shape(3) [OF fs p(1)] issued_not_Nil by (auto simp: file_service.progress_def [OF fs] upload_ok_def)
  have loop: "upload_loop (rocksdb_files R J config) ds 0 stream [] True s = (Inr (uid, False), s1)"
    using stream s1(1) uid by auto
  obtain r s2 where done2: "CompleteUpload (rocksdb_files R J config) (ds (length stream)) ns rnd now s1 uid = (r, s2)" by fastforce
  have resp: "s' = s2" "upr_code resp = (if cur_success r then EC_OK else cur_error_code r)" "cur_success r \<Longrightarrow> upr_file_id resp = cur_file_id r"
    using call loop done2 uid by (auto simp: FileHandler_UploadFile_def upload_response_def split: if_splits)
  have "upr_code resp = EC_OK \<and> ReadFile (rocksdb_files R J config) d' s' (upr_file_id resp) = Some (c @ concat chunks, ct, nm)"
    if full: "int (length (c @ concat chunks)) = sz"
  proof -
    have ok: "cur_success r"
      by (rule reliable_file_service.CompleteUpload_works [OF rfs p full clock(2) disk(1) done2 [unfolded co]])
    from file_service.progress_completed [OF fs p clock(2,1) done2 [unfolded co] ok] resp ok
    show ?thesis unfolding co by (auto simp: file_service.ReadFile_eq [OF fs _ disk(2)] file_service.server_ok_def [OF fs])
  qed
  moreover have "upr_code resp = EC_UPLOAD_INCOMPLETE \<and>
      (\<exists>ev'. upload_run (rocksdb_files R J config) (t0, s0) user nm ct sz md5 uid t s' ev' \<and> intact ev' \<and> accepted ev' = c @ concat chunks)"
    if short: "int (length (c @ concat chunks)) < sz"
    using reliable_file_service.CompleteUpload_incomplete [OF rfs p, of "ds (length stream)" ns rnd now] short done2 resp s1(2-4)
    by (auto simp: co complete_failed_def ErrorCodeToInt_def)
  ultimately show ?thesis by blast
qed

theorem UploadFile_resumes_witness:
  "upr_code (fst (FileHandler_UploadFile demo_files (\<lambda>n. good_disk) 3 9 30 file_demo1 [UC_ResumeMeta demo_upload 0, UC_Chunk ''he'', UC_Chunk ''llo''])) = EC_OK"
  using UploadFile_resumes [where ds = "\<lambda>n. good_disk" and ns = 3 and rnd = 9 and now = 30 and hd_msg = "UC_ResumeMeta demo_upload 0" and off = 0
      and chunks = "[''he'', ''llo'']", OF alist_reliable.reliable_env_axioms demo_config_ok file_demo0_empty file_demo1_run [unfolded demo_files_def] log_simps(3) refl refl
      _ _ good_disk_works disk_works_reads [OF good_disk_works] _ _ prod.collapse [symmetric]]
  by (simp add: demo_files_def seconds_ok_def)

text \<open>C33: Who deletes a file.  The method succeeds only when the file is stored and its uploader is the acting user,
  and then the file is gone; otherwise nothing that can be read changes, and no other file ever does.  The acting user is the user of
  the token when the token is valid.  Without a valid token it is the user that the request
  names, also when the server has a secret to check tokens with.
\<close>

theorem DeleteFile_caller:
  assumes "store_env R J" "file_config_ok config" "empty_files R config s0"
    and reach: "file_steps (rocksdb_files R J config) (t0, s0) ops (t, s)"
    and uid: "uid = GetAuthenticatedUserId J2 hmac now_ms x jwt_secret" and acting: "acting = (if uid \<noteq> [] then uid else req_user_id)"
    and call: "FileHandler_DeleteFile (rocksdb_files R J config) J2 hmac jwt_secret now_ms d s x fid req_user_id = (resp, s')" and "disk_reads d'"
  shows "(dfr_code resp = EC_OK \<longrightarrow> (\<exists>m. GetFileInfo (rocksdb_files R J config) s fid = Some m \<and> fm_uploader_id m = acting) \<and>
      GetFileInfo (rocksdb_files R J config) s' fid = None \<and> ReadFile (rocksdb_files R J config) d' s' fid = None) \<and>
    (dfr_code resp \<noteq> EC_OK \<longrightarrow> GetFileInfo (rocksdb_files R J config) s' = GetFileInfo (rocksdb_files R J config) s) \<and>
    (\<forall>f. dfr_code resp \<noteq> EC_OK \<or> f \<noteq> fid \<longrightarrow> ReadFile (rocksdb_files R J config) d' s' f = ReadFile (rocksdb_files R J config) d' s f)"
proof -
  note fs = store_env.rocksdb_file_service [OF assms(1,2)] and co = rocksdb_files_def
  have ok: "file_service.server_ok (file_inv R J) (file_abs R J) config t s" by (rule store_env.files_reach_ok [OF assms(1-3) reach])
  have user: "FileHandler_GetUserId J2 hmac jwt_secret now_ms x req_user_id = acting"
    using uid acting by (auto simp: FileHandler_GetUserId_def GetAuthenticatedUserId_def split: option.splits)
  show ?thesis
  proof (cases "acting = [] \<or> fid = []")
    case True
    then have "s' = s" "dfr_code resp \<noteq> EC_OK"
      using call user by (auto simp: FileHandler_DeleteFile_def Let_def ErrorCodeToInt_def split: if_splits)
    then show ?thesis by simp
  next
    case False
    obtain r where r: "DeleteFile (rocksdb_files R J config) d s fid acting = (r, s')" "dfr_code resp = EC_OK \<longleftrightarrow> r"
      using call user False by (auto simp: FileHandler_DeleteFile_def Let_def ErrorCodeToInt_def split: prod.splits if_splits)
    note o = file_service.DeleteFile_outcome [OF fs ok r(1) [unfolded co]]
    have ok': "file_service.server_ok (file_inv R J) (file_abs R J) config t s'" by (rule file_service.server_evolves_ok [OF fs o(1)])
    have inv: "file_inv R J (fsv_store s)" "file_inv R J (fsv_store s')" using ok ok' by (simp_all add: file_service.server_ok_def [OF fs])
    have get: "GetFileInfo (rocksdb_files R J config) s = af_meta (file_abs R J (fsv_store s))"
      "GetFileInfo (rocksdb_files R J config) s' = af_meta (file_abs R J (fsv_store s'))"
      using store_env.fl_get_by_id [OF assms(1)] inv by (simp_all add: GetFileInfo_def co fun_eq_iff)
    have read: "ReadFile (rocksdb_files R J config) d' s' f = ReadFile (rocksdb_files R J config) d' s f" if "\<not> r \<or> f \<noteq> fid" for f
    proof (cases "af_meta (file_abs R J (fsv_store s)) f")
      case None
      have "af_meta (file_abs R J (fsv_store s')) f = None"
        using o(2,3) None by (cases r) auto
      with None inv show ?thesis unfolding co by (simp add: file_service.ReadFile_eq [OF fs _ assms(8)])
    next
      case (Some m)
      have "evolves config t (if r then {fid} else {}) {} (file_abs R J (fsv_store s)) (fsv_files s) (file_abs R J (fsv_store s')) (fsv_files s')"
        using o(1) by (simp add: file_service.server_evolves_def [OF fs])
      from files_keptD [OF evolvesD(2) [OF this] _ Some] that Some show ?thesis
        unfolding co by (intro file_service.files_agree [OF fs ok ok' assms(8)]) (auto split: if_splits)
    qed
    have "ReadFile (rocksdb_files R J config) d' s' fid = None" if "af_meta (file_abs R J (fsv_store s')) fid = None"
      using that inv(2) unfolding co by (simp add: file_service.ReadFile_eq [OF fs _ assms(8)])
    with o r(2) get read show ?thesis by auto
  qed
qed

lemma demo_delete: "fst (DeleteFile demo_files good_disk file_demo4 demo_file ''alice'')"
proof -
  obtain m where m: "GetFileInfo demo_files file_demo4 demo_file = Some m" "fm_uploader_id m = ''alice''" using demo_file_stored by blast
  then have g: "RocksDBFileStore_GetById alist_db text_json (fsv_store file_demo4) demo_file = Some m" by (simp add: GetFileInfo_def demo_core)
  then have "demo_file \<noteq> []" by (auto simp: RocksDBFileStore_GetById_def)
  with g have "fst (RocksDBFileStore_Delete alist_db text_json (fsv_store file_demo4) demo_file)"
    by (simp add: RocksDBFileStore_Delete_def alist_reliable.write_ok)
  with m show ?thesis by (auto simp: DeleteFile_def GetFileInfo_def demo_core Let_def split: prod.splits)
qed

theorem DeleteFile_caller_witness:
  "let (resp, s') = FileHandler_DeleteFile demo_files text_json (\<lambda>k d. rev d) ''key'' 0 good_disk file_demo4 (Some []) demo_file ''alice''
   in dfr_code resp = EC_OK \<and> GetFileInfo demo_files s' demo_file = None"
proof -
  obtain resp s' where r: "FileHandler_DeleteFile demo_files text_json (\<lambda>k d. rev d) ''key'' 0 good_disk file_demo4 (Some []) demo_file ''alice'' = (resp, s')"
    by fastforce
  have u: "FileHandler_GetUserId text_json (\<lambda>k d. rev d) ''key'' 0 (Some []) ''alice'' = ''alice''" by code_simp
  obtain m where m: "GetFileInfo demo_files file_demo4 demo_file = Some m" using demo_file_stored by blast
  have "demo_file \<noteq> []" using m by (auto simp: GetFileInfo_def demo_core RocksDBFileStore_GetById_def)
  then have ok: "dfr_code resp = EC_OK" using r u demo_delete by (auto simp: FileHandler_DeleteFile_def Let_def split: prod.splits)
  from DeleteFile_caller [OF alist_env.store_env_axioms demo_config_ok file_demo0_empty file_demo4_reach [unfolded demo_files_def] refl refl
      r [unfolded demo_files_def] disk_works_reads [OF good_disk_works]] ok r
  show ?thesis by (simp add: demo_files_def)
qed

fun served :: "(string \<times> string \<times> string \<times> int \<times> bool) ReadResult \<Rightarrow> string" where
  "served (ReadOk (data, content_type, file_name, total_size, is_partial)) = data"
| "served _ = []"

lemma concat_ranges: "concat (map (\<lambda>i. take k (drop (i * k) c)) [0..<n]) = take (n * k) c"
  by (induction n) (simp_all add: take_add [symmetric] add.commute)

text \<open>Downloading in ranges gives the whole file.  For a file that can be read and has its recorded size, the requests for
  the byte ranges \<open>[0, k)\<close>, \<open>[k, 2k)\<close> and so on are all answered, with the type, the name and the size of the file,
  and the answers to enough of them, put together, are its bytes.
\<close>

theorem Serve_ranges:
  assumes "ReadFile C d s fid = Some (c, ct, nm)" "GetFileInfo C s fid = Some m" "fm_file_size m = int (length c)"
    and "0 < k" "length c \<le> n * k" "int (n * k) < 2 ^ 63"
  shows "(\<forall>i < n. HttpDownloadHandler_Serve C d s fid (int (i * k)) (int (i * k) + int k - 1) =
      ReadOk (take k (drop (i * k) c), ct, nm, int (length c), True)) \<and>
    concat (map (\<lambda>i. served (HttpDownloadHandler_Serve C d s fid (int (i * k)) (int (i * k) + int k - 1))) [0..<n]) = c"
proof -
  have range: "HttpDownloadHandler_Serve C d s fid (int (i * k)) (int (i * k) + int k - 1) =
      ReadOk (take k (drop (i * k) c), ct, nm, int (length c), True)" if "i < n" for i
  proof -
    have "Suc i * k \<le> n * k" using that by (intro mult_le_mono1) simp
    then have b: "int (i * k) + int k \<le> int (n * k)" by (simp flip: of_nat_add of_nat_mult)
    then have "is_int64 (max 0 (int (i * k)) + int k)" "is_int64 (int (length c))" "is_int64 (int k)"
      using assms(5,6) by (auto simp: is_int64_def simp flip: of_nat_mult)
    with ReadFileRange_slice [OF assms(1-3), of "int (i * k)" "int k"] assms(4) show ?thesis
      by (simp add: HttpDownloadHandler_Serve_def flip: of_nat_mult)
  qed
  then have "concat (map (\<lambda>i. served (HttpDownloadHandler_Serve C d s fid (int (i * k)) (int (i * k) + int k - 1))) [0..<n]) = take (n * k) c"
    unfolding concat_ranges [symmetric] by (intro arg_cong [of _ _ concat] map_cong) simp_all
  with range assms(5) show ?thesis by simp
qed

theorem Serve_ranges_witness:
  "HttpDownloadHandler_Serve demo_files good_disk file_demo4 demo_file 2 3 = ReadOk (''ll'', ''text/plain'', ''notes.txt'', 5, True)"
proof -
  obtain m where "GetFileInfo demo_files file_demo4 demo_file = Some m" "fm_file_size m = 5" using demo_file_stored by blast
  from Serve_ranges [OF demo_file_read this(1), of 2 3] this(2) show ?thesis by (auto simp: eval_nat_numeral dest: spec [of _ 1])
qed

end
