(* ===== verification/Zone_Rpc.thy ===== *)
theory Zone_Rpc
  imports Chat_Handler Group_Handler Friend_Handler Auth_Handler Online_Service File_Handler
begin

text \<open>
  \<^verbatim>\<open>backend/zonesvr/internal/rpc\<close>: the clients with which the zone server calls the business services.  A generated
  stub is a parameter: a record of its methods, each of which takes the metadata of the call and the
  fields of the request, and returns the response or the message of a failed status, with the state of
  everything behind it.  \<open>Inl e\<close> is a client method that returns \<^verbatim>\<open>false\<close> (or a result without success) with the
  error \<open>e\<close>, and a null stub is \<open>None\<close>.  Deadlines show as failed statuses.  Setting a text field of a request only
  when it is not empty is the same as setting it.
\<close>

type_synonym ClientContext = "(string \<times> string) list"

type_synonym ('a, 'w) rpc = "'w \<Rightarrow> (string + 'a) \<times> 'w"

definition CreateContext :: "string \<Rightarrow> ClientContext" where
  "CreateContext token = (if token \<noteq> [] then [(''authorization'', ''Bearer '' @ token)] else [])"

text \<open>What every method does with a response: a code other than zero is an error with the message of the
  response or, without one, a text of its own.\<close>

definition rpc_outcome :: "string \<Rightarrow> int \<Rightarrow> string \<Rightarrow> 'b \<Rightarrow> string + 'b" where
  "rpc_outcome text rcode message x = (if rcode \<noteq> 0 then Inl (if message = [] then text else message) else Inr x)"

definition rpc_reply :: "string \<Rightarrow> ('z CommonResponse_scheme \<Rightarrow> 'b) \<Rightarrow> string + 'z CommonResponse_scheme \<Rightarrow> string + 'b" where
  "rpc_reply text read r =
     (case r of Inl e \<Rightarrow> Inl e | Inr resp \<Rightarrow> rpc_outcome text (resp_code resp) (resp_message resp) (read resp))"

definition rpc_ok :: "string + 'b \<Rightarrow> bool" where
  "rpc_ok r = (case r of Inl _ \<Rightarrow> False | Inr _ \<Rightarrow> True)"

definition with_stub :: "'stub option \<Rightarrow> ('stub \<Rightarrow> ('b, 'w) rpc) \<Rightarrow> ('b, 'w) rpc" where
  "with_stub stub call w = (case stub of None \<Rightarrow> (Inl [], w) | Some s \<Rightarrow> call s w)"

section \<open>Chat service\<close>

record 'w ChatStub =
  chat_SendMessage :: "ClientContext \<Rightarrow> string \<Rightarrow> string \<Rightarrow> int \<Rightarrow> string \<Rightarrow> string \<Rightarrow> string \<Rightarrow> string list \<Rightarrow> string \<Rightarrow> string \<Rightarrow> int
     \<Rightarrow> (SendMessageResponse, 'w) rpc"
  chat_RecallMessage :: "ClientContext \<Rightarrow> string \<Rightarrow> string \<Rightarrow> (CommonResponse, 'w) rpc"
  chat_PullOffline :: "ClientContext \<Rightarrow> string \<Rightarrow> int \<Rightarrow> string \<Rightarrow> (PullOfflineResponse, 'w) rpc"
  chat_GetHistory :: "ClientContext \<Rightarrow> string \<Rightarrow> string \<Rightarrow> int \<Rightarrow> string \<Rightarrow> int \<Rightarrow> (GetHistoryResponse, 'w) rpc"
  chat_SyncConversations :: "ClientContext \<Rightarrow> string \<Rightarrow> int \<Rightarrow> (SyncConversationsResponse, 'w) rpc"
  chat_DeleteConversation :: "ClientContext \<Rightarrow> string \<Rightarrow> string \<Rightarrow> int \<Rightarrow> (CommonResponse, 'w) rpc"
  chat_MarkRead :: "ClientContext \<Rightarrow> string \<Rightarrow> string \<Rightarrow> int \<Rightarrow> string \<Rightarrow> (CommonResponse, 'w) rpc"

record ChatMessageResult =
  mr_msg_id :: string
  mr_from_user_id :: string
  mr_to_id :: string
  mr_chat_type :: int
  mr_content :: string
  mr_media_url :: string
  mr_media_type :: string
  mr_timestamp :: int
  mr_status :: int

definition FromProto :: "ChatMessage \<Rightarrow> ChatMessageResult" where
  "FromProto m =
     \<lparr>mr_msg_id = cmsg_msg_id m, mr_from_user_id = cmsg_from_user_id m, mr_to_id = cmsg_to_id m, mr_chat_type = cmsg_chat_type m,
      mr_content = cmsg_content m, mr_media_url = cmsg_media_url m, mr_media_type = cmsg_media_type m, mr_timestamp = cmsg_timestamp m,
      mr_status = cmsg_status m\<rparr>"

record ConversationResult =
  cvr_chat_id :: string
  cvr_chat_type :: int
  cvr_peer_id :: string
  cvr_peer_name :: string
  cvr_peer_avatar :: string
  cvr_unread_count :: int
  cvr_updated_at :: int
  cvr_last_msg_id :: string
  cvr_last_content :: string
  cvr_last_timestamp :: int

definition conversation_result :: "Conversation \<Rightarrow> ConversationResult" where
  "conversation_result c =
     \<lparr>cvr_chat_id = conv_chat_id c, cvr_chat_type = conv_chat_type c, cvr_peer_id = conv_peer_id c, cvr_peer_name = conv_peer_name c,
      cvr_peer_avatar = conv_peer_avatar c, cvr_unread_count = conv_unread_count c, cvr_updated_at = conv_updated_at c,
      cvr_last_msg_id = (case conv_last_message c of Some m \<Rightarrow> cmsg_msg_id m | None \<Rightarrow> []),
      cvr_last_content = (case conv_last_message c of Some m \<Rightarrow> cmsg_content m | None \<Rightarrow> []),
      cvr_last_timestamp = (case conv_last_message c of Some m \<Rightarrow> cmsg_timestamp m | None \<Rightarrow> 0)\<rparr>"

definition ChatRpcClient_SendMessage ::
  "'w ChatStub option \<Rightarrow> string \<Rightarrow> string \<Rightarrow> int \<Rightarrow> string \<Rightarrow> string \<Rightarrow> string \<Rightarrow> string list \<Rightarrow> string \<Rightarrow> string \<Rightarrow> int \<Rightarrow> string
     \<Rightarrow> (string \<times> int, 'w) rpc" where
  "ChatRpcClient_SendMessage stub from_user_id to_id chat_type content media_url media_type mentions reply_to_msg_id client_msg_id file_size token =
     with_stub stub (\<lambda>s w. apfst (rpc_reply ''send failed'' (\<lambda>resp. (smresp_msg_id resp, smresp_timestamp resp)))
       (chat_SendMessage s (CreateContext token) from_user_id to_id chat_type content media_url media_type mentions reply_to_msg_id client_msg_id
          (if file_size > 0 then file_size else 0) w))"

definition ChatRpcClient_RecallMessage :: "'w ChatStub option \<Rightarrow> string \<Rightarrow> string \<Rightarrow> string \<Rightarrow> (unit, 'w) rpc" where
  "ChatRpcClient_RecallMessage stub msg_id user_id token =
     with_stub stub (\<lambda>s w. apfst (rpc_reply ''recall failed'' (\<lambda>_. ())) (chat_RecallMessage s (CreateContext token) msg_id user_id w))"

definition ChatRpcClient_PullOffline ::
  "'w ChatStub option \<Rightarrow> string \<Rightarrow> int \<Rightarrow> string \<Rightarrow> string \<Rightarrow> (ChatMessageResult list \<times> string \<times> bool, 'w) rpc" where
  "ChatRpcClient_PullOffline stub user_id limit cursor token =
     with_stub stub (\<lambda>s w. apfst (rpc_reply ''pull failed''
         (\<lambda>resp. (map FromProto (poresp_messages resp), poresp_next_cursor resp, poresp_has_more resp)))
       (chat_PullOffline s (CreateContext token) user_id (if limit > 0 then limit else 0) cursor w))"

definition ChatRpcClient_GetHistory ::
  "'w ChatStub option \<Rightarrow> string \<Rightarrow> string \<Rightarrow> int \<Rightarrow> string \<Rightarrow> int \<Rightarrow> string \<Rightarrow> (ChatMessageResult list \<times> bool, 'w) rpc" where
  "ChatRpcClient_GetHistory stub user_id chat_id chat_type before_msg_id limit token =
     with_stub stub (\<lambda>s w. apfst (rpc_reply ''get history failed''
         (\<lambda>resp. (map FromProto (ghresp_messages resp), ghresp_has_more resp)))
       (chat_GetHistory s (CreateContext token) user_id chat_id chat_type before_msg_id (if limit > 0 then limit else 0) w))"

definition ChatRpcClient_SyncConversations :: "'w ChatStub option \<Rightarrow> string \<Rightarrow> int \<Rightarrow> string \<Rightarrow> (ConversationResult list, 'w) rpc" where
  "ChatRpcClient_SyncConversations stub user_id last_sync_time token =
     with_stub stub (\<lambda>s w. apfst (rpc_reply ''sync conversations failed'' (\<lambda>resp. map conversation_result (scresp_conversations resp)))
       (chat_SyncConversations s (CreateContext token) user_id (if last_sync_time > 0 then last_sync_time else 0) w))"

definition ChatRpcClient_DeleteConversation :: "'w ChatStub option \<Rightarrow> string \<Rightarrow> string \<Rightarrow> int \<Rightarrow> string \<Rightarrow> (unit, 'w) rpc" where
  "ChatRpcClient_DeleteConversation stub user_id chat_id chat_type token =
     with_stub stub (\<lambda>s w. apfst (rpc_reply ''delete conversation failed'' (\<lambda>_. ()))
       (chat_DeleteConversation s (CreateContext token) user_id chat_id chat_type w))"

definition ChatRpcClient_MarkRead :: "'w ChatStub option \<Rightarrow> string \<Rightarrow> string \<Rightarrow> int \<Rightarrow> string \<Rightarrow> string \<Rightarrow> (unit, 'w) rpc" where
  "ChatRpcClient_MarkRead stub user_id chat_id chat_type last_msg_id token =
     with_stub stub (\<lambda>s w. apfst (rpc_reply ''mark read failed'' (\<lambda>_. ()))
       (chat_MarkRead s (CreateContext token) user_id chat_id chat_type last_msg_id w))"

section \<open>Group service\<close>

text \<open>None of these methods takes a token: the metadata of their calls is empty.\<close>

record 'w GroupStub =
  group_CreateGroup :: "ClientContext \<Rightarrow> string \<Rightarrow> string \<Rightarrow> string \<Rightarrow> string list \<Rightarrow> (CreateGroupResponse, 'w) rpc"
  group_DismissGroup :: "ClientContext \<Rightarrow> string \<Rightarrow> string \<Rightarrow> (CommonResponse, 'w) rpc"
  group_GetGroupInfo :: "ClientContext \<Rightarrow> string \<Rightarrow> (GroupInfoResponse, 'w) rpc"
  group_GetGroupMembers :: "ClientContext \<Rightarrow> string \<Rightarrow> int \<Rightarrow> int \<Rightarrow> (GroupMembersResponse, 'w) rpc"
  group_GetUserGroups :: "ClientContext \<Rightarrow> string \<Rightarrow> (UserGroupsResponse, 'w) rpc"
  group_InviteMembers :: "ClientContext \<Rightarrow> string \<Rightarrow> string \<Rightarrow> string list \<Rightarrow> (CommonResponse, 'w) rpc"
  group_RemoveMember :: "ClientContext \<Rightarrow> string \<Rightarrow> string \<Rightarrow> string \<Rightarrow> (CommonResponse, 'w) rpc"
  group_LeaveGroup :: "ClientContext \<Rightarrow> string \<Rightarrow> string \<Rightarrow> (CommonResponse, 'w) rpc"
  group_TransferOwner :: "ClientContext \<Rightarrow> string \<Rightarrow> string \<Rightarrow> string \<Rightarrow> (CommonResponse, 'w) rpc"

record GroupInfoResult =
  gir_group_id :: string
  gir_group_name :: string
  gir_avatar_url :: string
  gir_owner_id :: string
  gir_member_count :: int
  gir_announcement :: string
  gir_created_at :: int

definition group_info_result :: "GroupInfo option \<Rightarrow> GroupInfoResult" where
  "group_info_result info =
     (case info of
        Some g \<Rightarrow> \<lparr>gir_group_id = ginfo_group_id g, gir_group_name = ginfo_group_name g, gir_avatar_url = ginfo_avatar_url g,
            gir_owner_id = ginfo_owner_id g, gir_member_count = ginfo_member_count g, gir_announcement = ginfo_announcement g,
            gir_created_at = ginfo_created_at g\<rparr>
      | None \<Rightarrow> \<lparr>gir_group_id = [], gir_group_name = [], gir_avatar_url = [], gir_owner_id = [], gir_member_count = 0,
            gir_announcement = [], gir_created_at = 0\<rparr>)"

record GroupMemberResult =
  gmr_user_id :: string
  gmr_role :: int
  gmr_nickname :: string
  gmr_joined_at :: int

definition group_member_result :: "GroupMember \<Rightarrow> GroupMemberResult" where
  "group_member_result m =
     \<lparr>gmr_user_id = gmem_user_id m, gmr_role = gmem_role m, gmr_nickname = gmem_nickname m, gmr_joined_at = gmem_joined_at m\<rparr>"

definition GroupRpcClient_CreateGroup :: "'w GroupStub option \<Rightarrow> string \<Rightarrow> string \<Rightarrow> string \<Rightarrow> string list \<Rightarrow> (string, 'w) rpc" where
  "GroupRpcClient_CreateGroup stub creator_id group_name avatar_url member_ids =
     with_stub stub (\<lambda>s w. apfst (rpc_reply ''create group failed'' cgresp_group_id)
       (group_CreateGroup s (CreateContext []) creator_id group_name avatar_url member_ids w))"

definition GroupRpcClient_DismissGroup :: "'w GroupStub option \<Rightarrow> string \<Rightarrow> string \<Rightarrow> (unit, 'w) rpc" where
  "GroupRpcClient_DismissGroup stub group_id operator_id =
     with_stub stub (\<lambda>s w. apfst (rpc_reply ''dismiss failed'' (\<lambda>_. ())) (group_DismissGroup s (CreateContext []) group_id operator_id w))"

definition GroupRpcClient_GetGroupInfo :: "'w GroupStub option \<Rightarrow> string \<Rightarrow> (GroupInfoResult, 'w) rpc" where
  "GroupRpcClient_GetGroupInfo stub group_id =
     with_stub stub (\<lambda>s w. apfst (rpc_reply ''get group info failed'' (\<lambda>resp. group_info_result (giresp_group resp)))
       (group_GetGroupInfo s (CreateContext []) group_id w))"

definition GroupRpcClient_GetGroupMembers ::
  "'w GroupStub option \<Rightarrow> string \<Rightarrow> int \<Rightarrow> int \<Rightarrow> (GroupMemberResult list \<times> int, 'w) rpc" where
  "GroupRpcClient_GetGroupMembers stub group_id page page_size =
     with_stub stub (\<lambda>s w. apfst (rpc_reply ''get members failed'' (\<lambda>resp. (map group_member_result (gmresp_members resp), gmresp_total resp)))
       (group_GetGroupMembers s (CreateContext []) group_id (if page > 0 then page else 0) (if page_size > 0 then page_size else 0) w))"

definition GroupRpcClient_GetUserGroups :: "'w GroupStub option \<Rightarrow> string \<Rightarrow> (GroupInfoResult list, 'w) rpc" where
  "GroupRpcClient_GetUserGroups stub user_id =
     with_stub stub (\<lambda>s w. apfst (rpc_reply ''get user groups failed'' (\<lambda>resp. map (\<lambda>g. group_info_result (Some g)) (ugresp_groups resp)))
       (group_GetUserGroups s (CreateContext []) user_id w))"

definition GroupRpcClient_InviteMembers :: "'w GroupStub option \<Rightarrow> string \<Rightarrow> string \<Rightarrow> string list \<Rightarrow> (unit, 'w) rpc" where
  "GroupRpcClient_InviteMembers stub group_id inviter_id member_ids =
     with_stub stub (\<lambda>s w. apfst (rpc_reply ''invite failed'' (\<lambda>_. ())) (group_InviteMembers s (CreateContext []) group_id inviter_id member_ids w))"

definition GroupRpcClient_RemoveMember :: "'w GroupStub option \<Rightarrow> string \<Rightarrow> string \<Rightarrow> string \<Rightarrow> (unit, 'w) rpc" where
  "GroupRpcClient_RemoveMember stub group_id operator_id member_id =
     with_stub stub (\<lambda>s w. apfst (rpc_reply ''remove member failed'' (\<lambda>_. ())) (group_RemoveMember s (CreateContext []) group_id operator_id member_id w))"

definition GroupRpcClient_LeaveGroup :: "'w GroupStub option \<Rightarrow> string \<Rightarrow> string \<Rightarrow> (unit, 'w) rpc" where
  "GroupRpcClient_LeaveGroup stub group_id user_id =
     with_stub stub (\<lambda>s w. apfst (rpc_reply ''leave failed'' (\<lambda>_. ())) (group_LeaveGroup s (CreateContext []) group_id user_id w))"

definition GroupRpcClient_TransferOwner :: "'w GroupStub option \<Rightarrow> string \<Rightarrow> string \<Rightarrow> string \<Rightarrow> (unit, 'w) rpc" where
  "GroupRpcClient_TransferOwner stub group_id old_owner_id new_owner_id =
     with_stub stub (\<lambda>s w. apfst (rpc_reply ''transfer owner failed'' (\<lambda>_. ()))
       (group_TransferOwner s (CreateContext []) group_id old_owner_id new_owner_id w))"

section \<open>Friend service\<close>

record UserProfileMessage =
  upm_nickname :: string
  upm_avatar_url :: string

record FriendInfoMessage = FriendInfo +
  fim_profile :: "UserProfileMessage option"

record FriendListMessage = CommonResponse +
  flm_friends :: "FriendInfoMessage list"

record FriendRequestMessage = FriendRequestData +
  frm_from_profile :: "UserProfileMessage option"

record FriendRequestListMessage = CommonResponse +
  frl_requests :: "FriendRequestMessage list"

record 'w FriendStub =
  friend_AddFriend :: "ClientContext \<Rightarrow> string \<Rightarrow> string \<Rightarrow> string \<Rightarrow> string \<Rightarrow> (CommonResponse, 'w) rpc"
  friend_HandleFriendRequest :: "ClientContext \<Rightarrow> string \<Rightarrow> string \<Rightarrow> bool \<Rightarrow> string \<Rightarrow> (CommonResponse, 'w) rpc"
  friend_RemoveFriend :: "ClientContext \<Rightarrow> string \<Rightarrow> string \<Rightarrow> (CommonResponse, 'w) rpc"
  friend_GetFriends :: "ClientContext \<Rightarrow> string \<Rightarrow> string \<Rightarrow> (FriendListMessage, 'w) rpc"
  friend_GetFriendRequests :: "ClientContext \<Rightarrow> string \<Rightarrow> int \<Rightarrow> (FriendRequestListMessage, 'w) rpc"
  friend_BlockUser :: "ClientContext \<Rightarrow> string \<Rightarrow> string \<Rightarrow> (CommonResponse, 'w) rpc"
  friend_UnblockUser :: "ClientContext \<Rightarrow> string \<Rightarrow> string \<Rightarrow> (CommonResponse, 'w) rpc"
  friend_GetBlockList :: "ClientContext \<Rightarrow> string \<Rightarrow> (BlockListResponse, 'w) rpc"
  friend_CreateFriendGroup :: "ClientContext \<Rightarrow> string \<Rightarrow> string \<Rightarrow> (CommonResponse, 'w) rpc"
  friend_GetFriendGroups :: "ClientContext \<Rightarrow> string \<Rightarrow> (FriendGroupListResponse, 'w) rpc"
  friend_MoveFriend :: "ClientContext \<Rightarrow> string \<Rightarrow> string \<Rightarrow> string \<Rightarrow> (CommonResponse, 'w) rpc"
  friend_DeleteFriendGroup :: "ClientContext \<Rightarrow> string \<Rightarrow> string \<Rightarrow> (CommonResponse, 'w) rpc"
  friend_SetRemark :: "ClientContext \<Rightarrow> string \<Rightarrow> string \<Rightarrow> string \<Rightarrow> (CommonResponse, 'w) rpc"

record FriendInfoResult =
  fir_friend_id :: string
  fir_remark :: string
  fir_group_id :: string
  fir_nickname :: string
  fir_avatar_url :: string
  fir_added_at :: int

definition friend_info_result :: "FriendInfoMessage \<Rightarrow> FriendInfoResult" where
  "friend_info_result f =
     \<lparr>fir_friend_id = fi_friend_id f, fir_remark = fi_remark f, fir_group_id = fi_group_id f,
      fir_nickname = (case fim_profile f of Some p \<Rightarrow> upm_nickname p | None \<Rightarrow> []),
      fir_avatar_url = (case fim_profile f of Some p \<Rightarrow> upm_avatar_url p | None \<Rightarrow> []), fir_added_at = fi_added_at f\<rparr>"

record FriendRequestInfoResult =
  rir_request_id :: string
  rir_from_user_id :: string
  rir_to_user_id :: string
  rir_remark :: string
  rir_status :: int
  rir_created_at :: int
  rir_from_nickname :: string
  rir_from_avatar_url :: string

definition friend_request_result :: "FriendRequestMessage \<Rightarrow> FriendRequestInfoResult" where
  "friend_request_result r =
     \<lparr>rir_request_id = fr_request_id r, rir_from_user_id = fr_from_user_id r, rir_to_user_id = fr_to_user_id r, rir_remark = fr_remark r,
      rir_status = fr_status r, rir_created_at = fr_created_at r,
      rir_from_nickname = (case frm_from_profile r of Some p \<Rightarrow> upm_nickname p | None \<Rightarrow> []),
      rir_from_avatar_url = (case frm_from_profile r of Some p \<Rightarrow> upm_avatar_url p | None \<Rightarrow> [])\<rparr>"

definition FriendRpcClient_AddFriend :: "'w FriendStub option \<Rightarrow> string \<Rightarrow> string \<Rightarrow> string \<Rightarrow> string \<Rightarrow> string \<Rightarrow> (unit, 'w) rpc" where
  "FriendRpcClient_AddFriend stub user_id friend_id remark group_id token =
     with_stub stub (\<lambda>s w. apfst (rpc_reply ''add friend failed'' (\<lambda>_. ())) (friend_AddFriend s (CreateContext token) user_id friend_id remark group_id w))"

definition FriendRpcClient_HandleFriendRequest :: "'w FriendStub option \<Rightarrow> string \<Rightarrow> string \<Rightarrow> bool \<Rightarrow> string \<Rightarrow> string \<Rightarrow> (unit, 'w) rpc" where
  "FriendRpcClient_HandleFriendRequest stub user_id request_id accept group_id token =
     with_stub stub (\<lambda>s w. apfst (rpc_reply ''handle request failed'' (\<lambda>_. ()))
       (friend_HandleFriendRequest s (CreateContext token) user_id request_id accept group_id w))"

definition FriendRpcClient_RemoveFriend :: "'w FriendStub option \<Rightarrow> string \<Rightarrow> string \<Rightarrow> string \<Rightarrow> (unit, 'w) rpc" where
  "FriendRpcClient_RemoveFriend stub user_id friend_id token =
     with_stub stub (\<lambda>s w. apfst (rpc_reply ''remove friend failed'' (\<lambda>_. ())) (friend_RemoveFriend s (CreateContext token) user_id friend_id w))"

definition FriendRpcClient_GetFriends :: "'w FriendStub option \<Rightarrow> string \<Rightarrow> string \<Rightarrow> string \<Rightarrow> (FriendInfoResult list, 'w) rpc" where
  "FriendRpcClient_GetFriends stub user_id group_id token =
     with_stub stub (\<lambda>s w. apfst (rpc_reply ''get friends failed'' (\<lambda>resp. map friend_info_result (flm_friends resp)))
       (friend_GetFriends s (CreateContext token) user_id group_id w))"

definition FriendRpcClient_GetFriendRequests :: "'w FriendStub option \<Rightarrow> string \<Rightarrow> int \<Rightarrow> string \<Rightarrow> (FriendRequestInfoResult list, 'w) rpc" where
  "FriendRpcClient_GetFriendRequests stub user_id type token =
     with_stub stub (\<lambda>s w. apfst (rpc_reply ''get friend requests failed'' (\<lambda>resp. map friend_request_result (frl_requests resp)))
       (friend_GetFriendRequests s (CreateContext token) user_id (if type \<ge> 0 then type else 0) w))"

definition FriendRpcClient_BlockUser :: "'w FriendStub option \<Rightarrow> string \<Rightarrow> string \<Rightarrow> string \<Rightarrow> (unit, 'w) rpc" where
  "FriendRpcClient_BlockUser stub user_id target_id token =
     with_stub stub (\<lambda>s w. apfst (rpc_reply ''block failed'' (\<lambda>_. ())) (friend_BlockUser s (CreateContext token) user_id target_id w))"

definition FriendRpcClient_UnblockUser :: "'w FriendStub option \<Rightarrow> string \<Rightarrow> string \<Rightarrow> string \<Rightarrow> (unit, 'w) rpc" where
  "FriendRpcClient_UnblockUser stub user_id target_id token =
     with_stub stub (\<lambda>s w. apfst (rpc_reply ''unblock failed'' (\<lambda>_. ())) (friend_UnblockUser s (CreateContext token) user_id target_id w))"

definition FriendRpcClient_GetBlockList :: "'w FriendStub option \<Rightarrow> string \<Rightarrow> string \<Rightarrow> (string list, 'w) rpc" where
  "FriendRpcClient_GetBlockList stub user_id token =
     with_stub stub (\<lambda>s w. apfst (rpc_reply ''get block list failed'' blr_blocked_ids) (friend_GetBlockList s (CreateContext token) user_id w))"

definition FriendRpcClient_CreateFriendGroup :: "'w FriendStub option \<Rightarrow> string \<Rightarrow> string \<Rightarrow> string \<Rightarrow> (unit, 'w) rpc" where
  "FriendRpcClient_CreateFriendGroup stub user_id group_name token =
     with_stub stub (\<lambda>s w. apfst (rpc_reply ''create friend group failed'' (\<lambda>_. ())) (friend_CreateFriendGroup s (CreateContext token) user_id group_name w))"

definition FriendRpcClient_GetFriendGroups :: "'w FriendStub option \<Rightarrow> string \<Rightarrow> string \<Rightarrow> (FriendGroup list, 'w) rpc" where
  "FriendRpcClient_GetFriendGroups stub user_id token =
     with_stub stub (\<lambda>s w. apfst (rpc_reply ''get friend groups failed'' glr_groups) (friend_GetFriendGroups s (CreateContext token) user_id w))"

definition FriendRpcClient_MoveFriendToGroup :: "'w FriendStub option \<Rightarrow> string \<Rightarrow> string \<Rightarrow> string \<Rightarrow> string \<Rightarrow> (unit, 'w) rpc" where
  "FriendRpcClient_MoveFriendToGroup stub user_id friend_id group_id token =
     with_stub stub (\<lambda>s w. apfst (rpc_reply ''move friend to group failed'' (\<lambda>_. ())) (friend_MoveFriend s (CreateContext token) user_id friend_id group_id w))"

definition FriendRpcClient_DeleteFriendGroup :: "'w FriendStub option \<Rightarrow> string \<Rightarrow> string \<Rightarrow> string \<Rightarrow> (unit, 'w) rpc" where
  "FriendRpcClient_DeleteFriendGroup stub user_id group_id token =
     with_stub stub (\<lambda>s w. apfst (rpc_reply ''delete friend group failed'' (\<lambda>_. ())) (friend_DeleteFriendGroup s (CreateContext token) user_id group_id w))"

definition FriendRpcClient_SetRemark :: "'w FriendStub option \<Rightarrow> string \<Rightarrow> string \<Rightarrow> string \<Rightarrow> string \<Rightarrow> (unit, 'w) rpc" where
  "FriendRpcClient_SetRemark stub user_id friend_id remark token =
     with_stub stub (\<lambda>s w. apfst (rpc_reply ''set remark failed'' (\<lambda>_. ())) (friend_SetRemark s (CreateContext token) user_id friend_id remark w))"

section \<open>Accounts and login sessions\<close>

record 'w AuthStub =
  auth_Register :: "ClientContext \<Rightarrow> string \<Rightarrow> string \<Rightarrow> string \<Rightarrow> string \<Rightarrow> string \<Rightarrow> (RegisterResponse, 'w) rpc"
  auth_VerifyCredentials :: "ClientContext \<Rightarrow> string \<Rightarrow> string \<Rightarrow> (VerifyCredentialsResponse, 'w) rpc"
  auth_GetProfile :: "ClientContext \<Rightarrow> string \<Rightarrow> (AuthProfile, 'w) rpc"
  auth_UpdateProfile :: "ClientContext \<Rightarrow> string \<Rightarrow> string \<Rightarrow> string \<Rightarrow> string \<Rightarrow> (CommonResponse, 'w) rpc"
  auth_SearchUsers :: "ClientContext \<Rightarrow> string \<Rightarrow> int \<Rightarrow> (SearchUsersResponse, 'w) rpc"

record SearchUserResult =
  sur_user_id :: string
  sur_username :: string
  sur_nickname :: string
  sur_avatar_url :: string
  sur_signature :: string
  sur_gender :: int

definition search_user_result :: "AuthProfile \<Rightarrow> SearchUserResult" where
  "search_user_result u =
     \<lparr>sur_user_id = ap_user_id u, sur_username = ap_username u, sur_nickname = ap_nickname u, sur_avatar_url = ap_avatar_url u,
      sur_signature = ap_signature u, sur_gender = ap_gender u\<rparr>"

text \<open>\<open>Inl (error, error_code)\<close> of a failed registration.\<close>

definition AuthRpcClient_Register ::
  "'w AuthStub option \<Rightarrow> string \<Rightarrow> string \<Rightarrow> string \<Rightarrow> string \<Rightarrow> string \<Rightarrow> 'w \<Rightarrow> ((string \<times> int) + string) \<times> 'w" where
  "AuthRpcClient_Register stub username password nickname email avatar_url w =
     (case stub of
        None \<Rightarrow> (Inl ([], 0), w)
      | Some s \<Rightarrow>
          apfst (\<lambda>r. case r of
                   Inl e \<Rightarrow> Inl (e, -1)
                 | Inr resp \<Rightarrow>
                     if rresp_code resp \<noteq> 0
                     then Inl (if rresp_message resp = [] then ''register failed'' else rresp_message resp, rresp_code resp)
                     else Inr (rresp_user_id resp))
            (auth_Register s (CreateContext []) username password nickname email avatar_url w))"

definition AuthRpcClient_VerifyCredentials :: "'w AuthStub option \<Rightarrow> string \<Rightarrow> string \<Rightarrow> (string, 'w) rpc" where
  "AuthRpcClient_VerifyCredentials stub username password =
     with_stub stub (\<lambda>s w. apfst (\<lambda>r. case r of
         Inl e \<Rightarrow> Inl e
       | Inr resp \<Rightarrow> rpc_outcome ''auth failed'' (vresp_code resp) (vresp_message resp) (vresp_user_id resp))
       (auth_VerifyCredentials s (CreateContext []) username password w))"

definition AuthRpcClient_GetProfile :: "'w AuthStub option \<Rightarrow> string \<Rightarrow> (string \<times> string, 'w) rpc" where
  "AuthRpcClient_GetProfile stub user_id =
     with_stub stub (\<lambda>s w. apfst (map_sum id (\<lambda>resp. (ap_nickname resp, ap_avatar_url resp))) (auth_GetProfile s (CreateContext []) user_id w))"

definition AuthRpcClient_UpdateProfile :: "'w AuthStub option \<Rightarrow> string \<Rightarrow> string \<Rightarrow> string \<Rightarrow> string \<Rightarrow> (unit, 'w) rpc" where
  "AuthRpcClient_UpdateProfile stub user_id nickname avatar_url signature =
     with_stub stub (\<lambda>s w. apfst (rpc_reply ''update failed'' (\<lambda>_. ())) (auth_UpdateProfile s (CreateContext []) user_id nickname avatar_url signature w))"

definition AuthRpcClient_SearchUsers :: "'w AuthStub option \<Rightarrow> string \<Rightarrow> int \<Rightarrow> string \<Rightarrow> (SearchUserResult list, 'w) rpc" where
  "AuthRpcClient_SearchUsers stub keyword limit token =
     with_stub stub (\<lambda>s w.
       if keyword = [] then (Inr [], w)
       else apfst (\<lambda>r. case r of
           Inl e \<Rightarrow> Inl e
         | Inr resp \<Rightarrow> rpc_outcome ''search users failed'' (sresp_code resp) (sresp_message resp) (map search_user_result (sresp_users resp)))
         (auth_SearchUsers s (CreateContext token) keyword (if limit > 0 then limit else 20) w))"

record 'w OnlineStub =
  online_Login :: "ClientContext \<Rightarrow> string \<Rightarrow> string \<Rightarrow> string \<Rightarrow> (LoginResponse, 'w) rpc"
  online_Logout :: "ClientContext \<Rightarrow> string \<Rightarrow> string \<Rightarrow> (CommonResponse, 'w) rpc"
  online_ValidateToken :: "ClientContext \<Rightarrow> string \<Rightarrow> (TokenResponse, 'w) rpc"

definition OnlineRpcClient_Login :: "'w OnlineStub option \<Rightarrow> string \<Rightarrow> string \<Rightarrow> string \<Rightarrow> (string \<times> int, 'w) rpc" where
  "OnlineRpcClient_Login stub user_id device_id device_type =
     with_stub stub (\<lambda>s w. apfst (\<lambda>r. case r of
         Inl e \<Rightarrow> Inl e
       | Inr resp \<Rightarrow> rpc_outcome ''login failed'' (lresp_code resp) (lresp_message resp) (lresp_token resp, lresp_expire_at resp))
       (online_Login s (CreateContext []) user_id device_id device_type w))"

definition OnlineRpcClient_Logout :: "'w OnlineStub option \<Rightarrow> string \<Rightarrow> string \<Rightarrow> (unit, 'w) rpc" where
  "OnlineRpcClient_Logout stub user_id token w =
     (case stub of
        None \<Rightarrow> (Inl ''stub not initialized'', w)
      | Some s \<Rightarrow> apfst (rpc_reply [] (\<lambda>_. ())) (online_Logout s (CreateContext []) user_id token w))"

definition OnlineRpcClient_ValidateToken :: "'w OnlineStub option \<Rightarrow> string \<Rightarrow> 'w \<Rightarrow> string option \<times> 'w" where
  "OnlineRpcClient_ValidateToken stub token w =
     (case stub of
        None \<Rightarrow> (None, w)
      | Some s \<Rightarrow>
          apfst (\<lambda>r. case r of
                   Inl e \<Rightarrow> None
                 | Inr resp \<Rightarrow> if tresp_code resp \<noteq> 0 \<or> \<not> tresp_valid resp then None else Some (tresp_user_id resp))
            (online_ValidateToken s (CreateContext []) token w))"

section \<open>File service\<close>

text \<open>None of these methods takes a token either.\<close>

record 'w FileStub =
  file_InitUpload :: "ClientContext \<Rightarrow> string \<Rightarrow> string \<Rightarrow> string \<Rightarrow> int \<Rightarrow> string \<Rightarrow> string \<Rightarrow> (InitUploadResponse, 'w) rpc"
  file_GetFileUrl :: "ClientContext \<Rightarrow> string \<Rightarrow> string \<Rightarrow> (FileUrlResponse, 'w) rpc"
  file_GetUploadToken :: "ClientContext \<Rightarrow> string \<Rightarrow> string \<Rightarrow> int \<Rightarrow> (UploadTokenResponse, 'w) rpc"
  file_DeleteFile :: "ClientContext \<Rightarrow> string \<Rightarrow> string \<Rightarrow> (DeleteFileResponse, 'w) rpc"
  file_GetFileInfo :: "ClientContext \<Rightarrow> string \<Rightarrow> (FileInfoResponse, 'w) rpc"

definition FileRpcClient_InitUpload :: "'w FileStub option \<Rightarrow> string \<Rightarrow> string \<Rightarrow> string \<Rightarrow> int \<Rightarrow> string \<Rightarrow> string \<Rightarrow> (string \<times> int, 'w) rpc" where
  "FileRpcClient_InitUpload stub user_id file_name content_type file_size md5 msg_id =
     with_stub stub (\<lambda>s w. apfst (\<lambda>r. case r of
         Inl e \<Rightarrow> Inl e
       | Inr resp \<Rightarrow> rpc_outcome ''init upload failed'' (iup_code resp) (iup_message resp) (iup_upload_id resp, iup_expire_at resp))
       (file_InitUpload s (CreateContext []) user_id file_name content_type file_size md5 msg_id w))"

definition FileRpcClient_GetFileUrl :: "'w FileStub option \<Rightarrow> string \<Rightarrow> string \<Rightarrow> (FileUrlResponse, 'w) rpc" where
  "FileRpcClient_GetFileUrl stub file_id user_id =
     with_stub stub (\<lambda>s w. apfst (\<lambda>r. case r of
         Inl e \<Rightarrow> Inl e
       | Inr resp \<Rightarrow> rpc_outcome ''get file url failed'' (fup_code resp) (fup_message resp) resp)
       (file_GetFileUrl s (CreateContext []) file_id user_id w))"

definition FileRpcClient_GetUploadToken :: "'w FileStub option \<Rightarrow> string \<Rightarrow> string \<Rightarrow> int \<Rightarrow> (UploadTokenResponse, 'w) rpc" where
  "FileRpcClient_GetUploadToken stub user_id file_name file_size =
     with_stub stub (\<lambda>s w. apfst (\<lambda>r. case r of
         Inl e \<Rightarrow> Inl e
       | Inr resp \<Rightarrow> rpc_outcome ''get upload token failed'' (utp_code resp) (utp_message resp) resp)
       (file_GetUploadToken s (CreateContext []) user_id file_name file_size w))"

definition FileRpcClient_DeleteFile :: "'w FileStub option \<Rightarrow> string \<Rightarrow> string \<Rightarrow> (unit, 'w) rpc" where
  "FileRpcClient_DeleteFile stub file_id user_id =
     with_stub stub (\<lambda>s w. apfst (\<lambda>r. case r of
         Inl e \<Rightarrow> Inl e
       | Inr resp \<Rightarrow> rpc_outcome ''delete file failed'' (dfr_code resp) (dfr_message resp) ())
       (file_DeleteFile s (CreateContext []) file_id user_id w))"

definition FileInfo_default :: FileInfo where
  "FileInfo_default = \<lparr>fi_file_id = [], fi_file_name = [], fi_file_size = 0, fi_content_type = [], fi_uploader_id = [], fi_uploaded_at = 0, fi_md5 = []\<rparr>"

definition FileRpcClient_GetFileInfo :: "'w FileStub option \<Rightarrow> string \<Rightarrow> (FileInfo, 'w) rpc" where
  "FileRpcClient_GetFileInfo stub file_id =
     with_stub stub (\<lambda>s w. apfst (\<lambda>r. case r of
         Inl e \<Rightarrow> Inl e
       | Inr resp \<Rightarrow> rpc_outcome ''get file info failed'' (fir_code resp) (fir_message resp)
           (case fir_file_info resp of Some f \<Rightarrow> f | None \<Rightarrow> FileInfo_default))
       (file_GetFileInfo s (CreateContext []) file_id w))"

section \<open>Gates\<close>

text \<open>The gates: for an address, whether a channel gets connected in time, whether an open channel is ready or idle, and
  the stub of the gate there.\<close>

record 'w GateNet =
  gate_WaitForConnected :: "string \<Rightarrow> 'w \<Rightarrow> bool"
  gate_channel_up :: "string \<Rightarrow> 'w \<Rightarrow> bool"
  gate_PushMessage :: "string \<Rightarrow> ClientContext \<Rightarrow> string \<Rightarrow> string \<Rightarrow> string \<Rightarrow> (CommonResponse, 'w) rpc"
  gate_DisconnectUser :: "string \<Rightarrow> ClientContext \<Rightarrow> string \<Rightarrow> string \<Rightarrow> (CommonResponse, 'w) rpc"

definition GateRpcClient_PushMessage :: "'w GateNet \<Rightarrow> string \<Rightarrow> string \<Rightarrow> string \<Rightarrow> string \<Rightarrow> (unit, 'w) rpc" where
  "GateRpcClient_PushMessage N address user_id cmd payload w =
     apfst (rpc_reply ''push failed'' (\<lambda>_. ())) (gate_PushMessage N address (CreateContext []) user_id cmd payload w)"

definition GateRpcClient_DisconnectUser :: "'w GateNet \<Rightarrow> string \<Rightarrow> string \<Rightarrow> string \<Rightarrow> (unit, 'w) rpc" where
  "GateRpcClient_DisconnectUser N address user_id reason w =
     apfst (rpc_reply ''disconnect failed'' (\<lambda>_. ())) (gate_DisconnectUser N address (CreateContext []) user_id reason w)"

end
