(* ===== verification/Zone_Systems.thy ===== *)
theory Zone_Systems
  imports Zone_Rpc Config_Loader
begin

text \<open>
  \<^verbatim>\<open>backend/zonesvr/internal/system\<close>: one system per business service, which holds a client and forwards to it, the
  manager that connects them, and \<^verbatim>\<open>config/config.cpp\<close>.  A system is its client; a null client is \<open>None\<close>, and so is
  a null stub inside a client.  As before, \<open>Inl e\<close> is a failure with the error \<open>e\<close>.
\<close>

section \<open>Settings\<close>

record ZoneConfig =
  zc_host :: string
  zc_port :: int
  zc_auth_svr_addr :: string
  zc_online_svr_addr :: string
  zc_friend_svr_addr :: string
  zc_chat_svr_addr :: string
  zc_file_svr_addr :: string
  zc_gate_svr_addr :: string
  zc_session_store_type :: string
  zc_redis_url :: string
  zc_session_expire_seconds :: int
  zc_gate_heartbeat_timeout :: int
  zc_log_dir :: string
  zc_log_level :: string
  zc_internal_secret :: string
  zc_standalone :: bool

definition ZoneConfig_default :: ZoneConfig where
  "ZoneConfig_default =
     \<lparr>zc_host = ''0.0.0.0'', zc_port = 9092, zc_auth_svr_addr = ''localhost:9094'', zc_online_svr_addr = ''localhost:9095'',
      zc_friend_svr_addr = ''localhost:9096'', zc_chat_svr_addr = ''localhost:9098'', zc_file_svr_addr = ''localhost:9100'',
      zc_gate_svr_addr = ''localhost:9091'', zc_session_store_type = ''redis'', zc_redis_url = ''redis://localhost:6379'',
      zc_session_expire_seconds = 3600, zc_gate_heartbeat_timeout = 30, zc_log_dir = ''/data/logs'', zc_log_level = ''INFO'',
      zc_internal_secret = [], zc_standalone = False\<rparr>"

definition zone_LoadConfig :: "string list option \<Rightarrow> string list \<Rightarrow> ZoneConfig" where
  "zone_LoadConfig config_file environ =
     (let kv = LoadKeyValueConfig config_file ''ZONESVR_'' environ; c = ZoneConfig_default in
      \<lparr>zc_host = config_Get kv ''host'' (zc_host c),
       zc_port = GetInt kv ''port'' (zc_port c),
       zc_auth_svr_addr = config_Get kv ''auth_svr_addr'' (zc_auth_svr_addr c),
       zc_online_svr_addr = config_Get kv ''online_svr_addr'' (zc_online_svr_addr c),
       zc_friend_svr_addr = config_Get kv ''friend_svr_addr'' (zc_friend_svr_addr c),
       zc_chat_svr_addr = config_Get kv ''chat_svr_addr'' (zc_chat_svr_addr c),
       zc_file_svr_addr = config_Get kv ''file_svr_addr'' (zc_file_svr_addr c),
       zc_gate_svr_addr = config_Get kv ''gate_svr_addr'' (zc_gate_svr_addr c),
       zc_session_store_type = config_Get kv ''session_store_type'' (zc_session_store_type c),
       zc_redis_url = config_Get kv ''redis_url'' (zc_redis_url c),
       zc_session_expire_seconds = GetInt kv ''session_expire_seconds'' (zc_session_expire_seconds c),
       zc_gate_heartbeat_timeout = GetInt kv ''gate_heartbeat_timeout'' (zc_gate_heartbeat_timeout c),
       zc_log_dir = config_Get kv ''log_dir'' (zc_log_dir c),
       zc_log_level = config_Get kv ''log_level'' (zc_log_level c),
       zc_internal_secret = config_Get kv ''internal_secret'' (zc_internal_secret c),
       zc_standalone = GetBool kv ''standalone'' (zc_standalone c)\<rparr>)"

section \<open>Accounts\<close>

record 'w AuthSystem =
  as_auth_rpc_client :: "'w AuthStub option option"
  as_online_rpc_client :: "'w OnlineStub option option"

record AuthRegisterResult =
  arr_success :: bool
  arr_user_id :: string
  arr_error :: string
  arr_error_code :: int

record AuthLoginResult =
  alr_success :: bool
  alr_user_id :: string
  alr_token :: string
  alr_expire_at :: int
  alr_error :: string

definition login_error :: "string \<Rightarrow> AuthLoginResult" where
  "login_error e = \<lparr>alr_success = False, alr_user_id = [], alr_token = [], alr_expire_at = 0, alr_error = e\<rparr>"

definition AuthSystem_Register ::
  "'w AuthSystem \<Rightarrow> string \<Rightarrow> string \<Rightarrow> string \<Rightarrow> string \<Rightarrow> string \<Rightarrow> 'w \<Rightarrow> AuthRegisterResult \<times> 'w" where
  "AuthSystem_Register sys username password nickname email avatar_url w =
     (case as_auth_rpc_client sys of
        None \<Rightarrow> (\<lparr>arr_success = False, arr_user_id = [], arr_error = ''auth not configured'', arr_error_code = 0\<rparr>, w)
      | Some client \<Rightarrow>
          (case AuthRpcClient_Register client username password nickname email avatar_url w of
             (Inl (e, ec), w) \<Rightarrow> (\<lparr>arr_success = False, arr_user_id = [], arr_error = e, arr_error_code = ec\<rparr>, w)
           | (Inr user_id, w) \<Rightarrow> (\<lparr>arr_success = True, arr_user_id = user_id, arr_error = [], arr_error_code = 0\<rparr>, w)))"

definition AuthSystem_Login :: "'w AuthSystem \<Rightarrow> string \<Rightarrow> string \<Rightarrow> string \<Rightarrow> string \<Rightarrow> 'w \<Rightarrow> AuthLoginResult \<times> 'w" where
  "AuthSystem_Login sys username password device_id device_type w =
     (case (as_auth_rpc_client sys, as_online_rpc_client sys) of
        (Some auth, Some online) \<Rightarrow>
          (case AuthRpcClient_VerifyCredentials auth username password w of
             (Inl e, w) \<Rightarrow> (login_error e, w)
           | (Inr user_id, w) \<Rightarrow>
               (case OnlineRpcClient_Login online user_id device_id device_type w of
                  (Inl e, w) \<Rightarrow> (login_error e, w)
                | (Inr (token, expire_at), w) \<Rightarrow>
                    (\<lparr>alr_success = True, alr_user_id = user_id, alr_token = token, alr_expire_at = expire_at, alr_error = []\<rparr>, w)))
      | _ \<Rightarrow> (login_error ''auth not configured'', w))"

definition AuthSystem_Logout :: "'w AuthSystem \<Rightarrow> string \<Rightarrow> string \<Rightarrow> (unit, 'w) rpc" where
  "AuthSystem_Logout sys user_id token w =
     (case as_online_rpc_client sys of
        None \<Rightarrow> (Inl ''auth not configured'', w)
      | Some client \<Rightarrow> OnlineRpcClient_Logout client user_id token w)"

definition AuthSystem_ValidateToken :: "'w AuthSystem \<Rightarrow> string \<Rightarrow> 'w \<Rightarrow> string \<times> 'w" where
  "AuthSystem_ValidateToken sys token w =
     (case as_online_rpc_client sys of
        None \<Rightarrow> ([], w)
      | Some client \<Rightarrow> apfst (\<lambda>r. case r of Some user_id \<Rightarrow> user_id | None \<Rightarrow> []) (OnlineRpcClient_ValidateToken client token w))"

definition AuthSystem_SearchUsers :: "'w AuthSystem \<Rightarrow> string \<Rightarrow> int \<Rightarrow> string \<Rightarrow> (SearchUserResult list, 'w) rpc" where
  "AuthSystem_SearchUsers sys keyword limit token w =
     (case as_auth_rpc_client sys of
        None \<Rightarrow> (Inl ''auth not configured'', w)
      | Some client \<Rightarrow> AuthRpcClient_SearchUsers client keyword limit token w)"

section \<open>Messages\<close>

text \<open>The systems with one client: what a missing client answers differs between the methods.\<close>

definition with_client :: "string \<Rightarrow> 'c option \<Rightarrow> ('c \<Rightarrow> ('b, 'w) rpc) \<Rightarrow> ('b, 'w) rpc" where
  "with_client e client call w = (case client of None \<Rightarrow> (Inl e, w) | Some c \<Rightarrow> call c w)"

record 'w ChatSystem =
  cs_rpc_client :: "'w ChatStub option option"

definition ChatSystem_SendMessage ::
  "'w ChatSystem \<Rightarrow> string \<Rightarrow> string \<Rightarrow> int \<Rightarrow> string \<Rightarrow> string \<Rightarrow> string \<Rightarrow> string list \<Rightarrow> string \<Rightarrow> string \<Rightarrow> int \<Rightarrow> string
     \<Rightarrow> (string \<times> int, 'w) rpc" where
  "ChatSystem_SendMessage sys from_user_id to_id chat_type content media_url media_type mentions reply_to_msg_id client_msg_id file_size token =
     with_client [] (cs_rpc_client sys) (\<lambda>c.
       ChatRpcClient_SendMessage c from_user_id to_id chat_type content media_url media_type mentions reply_to_msg_id client_msg_id file_size token)"

record OfflineMessage =
  om_msg_id :: string
  om_from_user_id :: string
  om_to_id :: string
  om_chat_type :: int
  om_content :: string
  om_media_url :: string
  om_media_type :: string
  om_timestamp :: int

definition offline_message :: "ChatMessageResult \<Rightarrow> OfflineMessage" where
  "offline_message m =
     \<lparr>om_msg_id = mr_msg_id m, om_from_user_id = mr_from_user_id m, om_to_id = mr_to_id m, om_chat_type = mr_chat_type m,
      om_content = mr_content m, om_media_url = mr_media_url m, om_media_type = mr_media_type m, om_timestamp = mr_timestamp m\<rparr>"

definition ChatSystem_PullOffline :: "'w ChatSystem \<Rightarrow> string \<Rightarrow> int \<Rightarrow> string \<Rightarrow> string \<Rightarrow> (OfflineMessage list \<times> string \<times> bool, 'w) rpc" where
  "ChatSystem_PullOffline sys user_id limit cursor token =
     with_client ''ChatSystem not available'' (cs_rpc_client sys) (\<lambda>c w.
       apfst (map_sum id (\<lambda>(msgs, next_cursor, has_more). (map offline_message msgs, next_cursor, has_more)))
         (ChatRpcClient_PullOffline c user_id limit cursor token w))"

definition ChatSystem_RecallMessage :: "'w ChatSystem \<Rightarrow> string \<Rightarrow> string \<Rightarrow> string \<Rightarrow> (unit, 'w) rpc" where
  "ChatSystem_RecallMessage sys msg_id user_id token =
     with_client ''ChatSystem not available'' (cs_rpc_client sys) (\<lambda>c. ChatRpcClient_RecallMessage c msg_id user_id token)"

definition ChatSystem_MarkRead :: "'w ChatSystem \<Rightarrow> string \<Rightarrow> string \<Rightarrow> int \<Rightarrow> string \<Rightarrow> string \<Rightarrow> (unit, 'w) rpc" where
  "ChatSystem_MarkRead sys user_id chat_id chat_type last_msg_id token =
     with_client ''ChatSystem not available'' (cs_rpc_client sys) (\<lambda>c. ChatRpcClient_MarkRead c user_id chat_id chat_type last_msg_id token)"

definition ChatSystem_GetHistory ::
  "'w ChatSystem \<Rightarrow> string \<Rightarrow> string \<Rightarrow> int \<Rightarrow> string \<Rightarrow> int \<Rightarrow> string \<Rightarrow> (ChatMessageResult list \<times> bool, 'w) rpc" where
  "ChatSystem_GetHistory sys user_id chat_id chat_type before_msg_id limit token =
     with_client ''ChatSystem not available'' (cs_rpc_client sys) (\<lambda>c.
       ChatRpcClient_GetHistory c user_id chat_id chat_type before_msg_id limit token)"

definition ChatSystem_SyncConversations :: "'w ChatSystem \<Rightarrow> string \<Rightarrow> int \<Rightarrow> string \<Rightarrow> (ConversationResult list, 'w) rpc" where
  "ChatSystem_SyncConversations sys user_id last_sync_time token =
     with_client ''ChatSystem not available'' (cs_rpc_client sys) (\<lambda>c. ChatRpcClient_SyncConversations c user_id last_sync_time token)"

definition ChatSystem_DeleteConversation :: "'w ChatSystem \<Rightarrow> string \<Rightarrow> string \<Rightarrow> int \<Rightarrow> string \<Rightarrow> (unit, 'w) rpc" where
  "ChatSystem_DeleteConversation sys user_id chat_id chat_type token =
     with_client ''ChatSystem not available'' (cs_rpc_client sys) (\<lambda>c. ChatRpcClient_DeleteConversation c user_id chat_id chat_type token)"

section \<open>Friends\<close>

record 'w FriendSystem =
  fs_rpc_client :: "'w FriendStub option option"

definition FriendSystem_AddFriend :: "'w FriendSystem \<Rightarrow> string \<Rightarrow> string \<Rightarrow> string \<Rightarrow> string \<Rightarrow> 'w \<Rightarrow> bool \<times> 'w" where
  "FriendSystem_AddFriend sys user_id friend_id remark token w =
     apfst rpc_ok (with_client [] (fs_rpc_client sys) (\<lambda>c. FriendRpcClient_AddFriend c user_id friend_id remark [] token) w)"

definition FriendSystem_HandleFriendRequest :: "'w FriendSystem \<Rightarrow> string \<Rightarrow> string \<Rightarrow> bool \<Rightarrow> string \<Rightarrow> 'w \<Rightarrow> bool \<times> 'w" where
  "FriendSystem_HandleFriendRequest sys user_id request_id accept token w =
     apfst rpc_ok (with_client [] (fs_rpc_client sys) (\<lambda>c. FriendRpcClient_HandleFriendRequest c user_id request_id accept [] token) w)"

definition FriendSystem_RemoveFriend :: "'w FriendSystem \<Rightarrow> string \<Rightarrow> string \<Rightarrow> string \<Rightarrow> 'w \<Rightarrow> bool \<times> 'w" where
  "FriendSystem_RemoveFriend sys user_id friend_id token w =
     apfst rpc_ok (with_client [] (fs_rpc_client sys) (\<lambda>c. FriendRpcClient_RemoveFriend c user_id friend_id token) w)"

definition FriendSystem_GetFriends :: "'w FriendSystem \<Rightarrow> string \<Rightarrow> string \<Rightarrow> string \<Rightarrow> (FriendInfoResult list, 'w) rpc" where
  "FriendSystem_GetFriends sys user_id group_id token =
     with_client ''FriendSystem not available'' (fs_rpc_client sys) (\<lambda>c. FriendRpcClient_GetFriends c user_id group_id token)"

definition FriendSystem_GetFriendRequests :: "'w FriendSystem \<Rightarrow> string \<Rightarrow> int \<Rightarrow> string \<Rightarrow> (FriendRequestInfoResult list, 'w) rpc" where
  "FriendSystem_GetFriendRequests sys user_id type token =
     with_client ''FriendSystem not available'' (fs_rpc_client sys) (\<lambda>c. FriendRpcClient_GetFriendRequests c user_id type token)"

definition FriendSystem_BlockUser :: "'w FriendSystem \<Rightarrow> string \<Rightarrow> string \<Rightarrow> string \<Rightarrow> 'w \<Rightarrow> bool \<times> 'w" where
  "FriendSystem_BlockUser sys user_id target_id token w =
     apfst rpc_ok (with_client [] (fs_rpc_client sys) (\<lambda>c. FriendRpcClient_BlockUser c user_id target_id token) w)"

definition FriendSystem_UnblockUser :: "'w FriendSystem \<Rightarrow> string \<Rightarrow> string \<Rightarrow> string \<Rightarrow> 'w \<Rightarrow> bool \<times> 'w" where
  "FriendSystem_UnblockUser sys user_id target_id token w =
     apfst rpc_ok (with_client [] (fs_rpc_client sys) (\<lambda>c. FriendRpcClient_UnblockUser c user_id target_id token) w)"

definition FriendSystem_IsFriend :: "'w FriendSystem \<Rightarrow> string \<Rightarrow> string \<Rightarrow> 'w \<Rightarrow> bool \<times> 'w" where
  "FriendSystem_IsFriend sys user_id friend_id w =
     (case fs_rpc_client sys of
        None \<Rightarrow> (False, w)
      | Some c \<Rightarrow>
          if friend_id = [] then (False, w)
          else apfst (\<lambda>r. case r of Inl e \<Rightarrow> False | Inr friends \<Rightarrow> list_ex (\<lambda>f. fir_friend_id f = friend_id) friends)
                 (FriendRpcClient_GetFriends c user_id [] [] w))"

definition FriendSystem_IsBlocked :: "'w FriendSystem \<Rightarrow> string \<Rightarrow> string \<Rightarrow> 'w \<Rightarrow> bool \<times> 'w" where
  "FriendSystem_IsBlocked sys user_id target_id w =
     (case fs_rpc_client sys of
        None \<Rightarrow> (False, w)
      | Some c \<Rightarrow>
          if target_id = [] then (False, w)
          else apfst (\<lambda>r. case r of Inl e \<Rightarrow> False | Inr blocked_ids \<Rightarrow> list_ex (\<lambda>i. i = target_id) blocked_ids)
                 (FriendRpcClient_GetBlockList c user_id [] w))"

definition FriendSystem_GetBlockList :: "'w FriendSystem \<Rightarrow> string \<Rightarrow> string \<Rightarrow> (string list, 'w) rpc" where
  "FriendSystem_GetBlockList sys user_id token =
     with_client ''FriendSystem not available'' (fs_rpc_client sys) (\<lambda>c. FriendRpcClient_GetBlockList c user_id token)"

definition FriendSystem_CreateFriendGroup :: "'w FriendSystem \<Rightarrow> string \<Rightarrow> string \<Rightarrow> string \<Rightarrow> (unit, 'w) rpc" where
  "FriendSystem_CreateFriendGroup sys user_id group_name token =
     with_client ''FriendSystem not available'' (fs_rpc_client sys) (\<lambda>c. FriendRpcClient_CreateFriendGroup c user_id group_name token)"

definition FriendSystem_GetFriendGroups :: "'w FriendSystem \<Rightarrow> string \<Rightarrow> string \<Rightarrow> (FriendGroup list, 'w) rpc" where
  "FriendSystem_GetFriendGroups sys user_id token =
     with_client ''FriendSystem not available'' (fs_rpc_client sys) (\<lambda>c. FriendRpcClient_GetFriendGroups c user_id token)"

definition FriendSystem_MoveFriendToGroup :: "'w FriendSystem \<Rightarrow> string \<Rightarrow> string \<Rightarrow> string \<Rightarrow> string \<Rightarrow> (unit, 'w) rpc" where
  "FriendSystem_MoveFriendToGroup sys user_id friend_id group_id token =
     with_client ''FriendSystem not available'' (fs_rpc_client sys) (\<lambda>c. FriendRpcClient_MoveFriendToGroup c user_id friend_id group_id token)"

definition FriendSystem_DeleteFriendGroup :: "'w FriendSystem \<Rightarrow> string \<Rightarrow> string \<Rightarrow> string \<Rightarrow> (unit, 'w) rpc" where
  "FriendSystem_DeleteFriendGroup sys user_id group_id token =
     with_client ''FriendSystem not available'' (fs_rpc_client sys) (\<lambda>c. FriendRpcClient_DeleteFriendGroup c user_id group_id token)"

definition FriendSystem_SetRemark :: "'w FriendSystem \<Rightarrow> string \<Rightarrow> string \<Rightarrow> string \<Rightarrow> string \<Rightarrow> (unit, 'w) rpc" where
  "FriendSystem_SetRemark sys user_id friend_id remark token =
     with_client ''FriendSystem not available'' (fs_rpc_client sys) (\<lambda>c. FriendRpcClient_SetRemark c user_id friend_id remark token)"

section \<open>Groups\<close>

record 'w GroupSystem =
  gs_rpc_client :: "'w GroupStub option option"

definition GroupSystem_CreateGroup :: "'w GroupSystem \<Rightarrow> string \<Rightarrow> string \<Rightarrow> string list \<Rightarrow> 'w \<Rightarrow> string \<times> 'w" where
  "GroupSystem_CreateGroup sys creator_id group_name member_ids w =
     apfst (\<lambda>r. case r of Inl e \<Rightarrow> [] | Inr group_id \<Rightarrow> group_id)
       (with_client [] (gs_rpc_client sys) (\<lambda>c. GroupRpcClient_CreateGroup c creator_id group_name [] member_ids) w)"

definition GroupSystem_DismissGroup :: "'w GroupSystem \<Rightarrow> string \<Rightarrow> string \<Rightarrow> 'w \<Rightarrow> bool \<times> 'w" where
  "GroupSystem_DismissGroup sys group_id operator_id w =
     apfst rpc_ok (with_client [] (gs_rpc_client sys) (\<lambda>c. GroupRpcClient_DismissGroup c group_id operator_id) w)"

definition GroupSystem_InviteMembers :: "'w GroupSystem \<Rightarrow> string \<Rightarrow> string \<Rightarrow> string list \<Rightarrow> 'w \<Rightarrow> bool \<times> 'w" where
  "GroupSystem_InviteMembers sys group_id inviter_id member_ids w =
     apfst rpc_ok (with_client [] (gs_rpc_client sys) (\<lambda>c. GroupRpcClient_InviteMembers c group_id inviter_id member_ids) w)"

definition GroupSystem_RemoveMember :: "'w GroupSystem \<Rightarrow> string \<Rightarrow> string \<Rightarrow> string \<Rightarrow> 'w \<Rightarrow> bool \<times> 'w" where
  "GroupSystem_RemoveMember sys group_id operator_id member_id w =
     apfst rpc_ok (with_client [] (gs_rpc_client sys) (\<lambda>c. GroupRpcClient_RemoveMember c group_id operator_id member_id) w)"

definition GroupSystem_LeaveGroup :: "'w GroupSystem \<Rightarrow> string \<Rightarrow> string \<Rightarrow> 'w \<Rightarrow> bool \<times> 'w" where
  "GroupSystem_LeaveGroup sys group_id user_id w =
     apfst rpc_ok (with_client [] (gs_rpc_client sys) (\<lambda>c. GroupRpcClient_LeaveGroup c group_id user_id) w)"

definition GroupSystem_TransferOwner :: "'w GroupSystem \<Rightarrow> string \<Rightarrow> string \<Rightarrow> string \<Rightarrow> 'w \<Rightarrow> bool \<times> 'w" where
  "GroupSystem_TransferOwner sys group_id old_owner_id new_owner_id w =
     apfst rpc_ok (with_client [] (gs_rpc_client sys) (\<lambda>c. GroupRpcClient_TransferOwner c group_id old_owner_id new_owner_id) w)"

definition GroupSystem_GetGroupMembers :: "'w GroupSystem \<Rightarrow> string \<Rightarrow> int \<Rightarrow> int \<Rightarrow> (GroupMemberResult list \<times> int, 'w) rpc" where
  "GroupSystem_GetGroupMembers sys group_id page page_size =
     with_client ''GroupSystem not available'' (gs_rpc_client sys) (\<lambda>c. GroupRpcClient_GetGroupMembers c group_id page page_size)"

definition GroupSystem_GetGroupInfo :: "'w GroupSystem \<Rightarrow> string \<Rightarrow> (GroupInfoResult, 'w) rpc" where
  "GroupSystem_GetGroupInfo sys group_id =
     with_client ''GroupSystem not available'' (gs_rpc_client sys) (\<lambda>c. GroupRpcClient_GetGroupInfo c group_id)"

definition GroupSystem_GetUserGroups :: "'w GroupSystem \<Rightarrow> string \<Rightarrow> (GroupInfoResult list, 'w) rpc" where
  "GroupSystem_GetUserGroups sys user_id =
     with_client ''GroupSystem not available'' (gs_rpc_client sys) (\<lambda>c. GroupRpcClient_GetUserGroups c user_id)"

section \<open>Files\<close>

text \<open>
  The results of a failed call leave the numbers of the structs without a value (they have no initialiser);
  \<open>indet\<close> stands for what is found there.
\<close>

record 'w FileSystem =
  fl_rpc_client :: "'w FileStub option option"
  fl_indet :: int

record UploadTokenInfo =
  ut_token :: string
  ut_upload_url :: string
  ut_expire_at :: int

record FileUrlInfo =
  fu_url :: string
  fu_file_name :: string
  fu_file_size :: int
  fu_content_type :: string
  fu_expire_at :: int

record SystemFileInfo = FileInfo +
  sfi_success :: bool
  sfi_error :: string

definition FileSystem_InitUpload :: "'w FileSystem \<Rightarrow> string \<Rightarrow> string \<Rightarrow> string \<Rightarrow> int \<Rightarrow> string \<Rightarrow> string \<Rightarrow> (string \<times> int, 'w) rpc" where
  "FileSystem_InitUpload sys user_id file_name content_type file_size md5 msg_id =
     with_client [] (fl_rpc_client sys) (\<lambda>c. FileRpcClient_InitUpload c user_id file_name content_type file_size md5 msg_id)"

definition FileSystem_GetUploadToken :: "'w FileSystem \<Rightarrow> string \<Rightarrow> string \<Rightarrow> int \<Rightarrow> 'w \<Rightarrow> UploadTokenInfo \<times> 'w" where
  "FileSystem_GetUploadToken sys user_id file_name file_size w =
     apfst (\<lambda>r. case r of
              Inl e \<Rightarrow> \<lparr>ut_token = [], ut_upload_url = [], ut_expire_at = fl_indet sys\<rparr>
            | Inr x \<Rightarrow> \<lparr>ut_token = utp_upload_token x, ut_upload_url = utp_upload_url x, ut_expire_at = utp_expire_at x\<rparr>)
       (with_client [] (fl_rpc_client sys) (\<lambda>c. FileRpcClient_GetUploadToken c user_id file_name file_size) w)"

definition FileSystem_GetFileUrl :: "'w FileSystem \<Rightarrow> string \<Rightarrow> string \<Rightarrow> 'w \<Rightarrow> FileUrlInfo \<times> 'w" where
  "FileSystem_GetFileUrl sys file_id user_id w =
     apfst (\<lambda>r. case r of
              Inl e \<Rightarrow> \<lparr>fu_url = [], fu_file_name = [], fu_file_size = fl_indet sys, fu_content_type = [], fu_expire_at = fl_indet sys\<rparr>
            | Inr x \<Rightarrow> \<lparr>fu_url = fup_file_url x, fu_file_name = fup_file_name x, fu_file_size = fup_file_size x,
                 fu_content_type = fup_content_type x, fu_expire_at = fup_expire_at x\<rparr>)
       (with_client [] (fl_rpc_client sys) (\<lambda>c. FileRpcClient_GetFileUrl c file_id user_id) w)"

definition FileSystem_GetFileInfo :: "'w FileSystem \<Rightarrow> string \<Rightarrow> 'w \<Rightarrow> SystemFileInfo \<times> 'w" where
  "FileSystem_GetFileInfo sys file_id w =
     apfst (\<lambda>r. case r of
              Inl e \<Rightarrow> \<lparr>fi_file_id = [], fi_file_name = [], fi_file_size = fl_indet sys, fi_content_type = [], fi_uploader_id = [],
                 fi_uploaded_at = fl_indet sys, fi_md5 = [], sfi_success = False, sfi_error = e\<rparr>
            | Inr x \<Rightarrow> \<lparr>fi_file_id = fi_file_id x, fi_file_name = fi_file_name x, fi_file_size = fi_file_size x,
                 fi_content_type = fi_content_type x, fi_uploader_id = fi_uploader_id x, fi_uploaded_at = fi_uploaded_at x,
                 fi_md5 = fi_md5 x, sfi_success = True, sfi_error = []\<rparr>)
       (with_client [] (fl_rpc_client sys) (\<lambda>c. FileRpcClient_GetFileInfo c file_id) w)"

definition FileSystem_DeleteFile :: "'w FileSystem \<Rightarrow> string \<Rightarrow> string \<Rightarrow> 'w \<Rightarrow> bool \<times> 'w" where
  "FileSystem_DeleteFile sys file_id user_id w =
     apfst rpc_ok (with_client [] (fl_rpc_client sys) (\<lambda>c. FileRpcClient_DeleteFile c file_id user_id) w)"

section \<open>The manager\<close>

text \<open>
  The network at start-up: whether a channel to an address gets connected in time, and the stubs that
  the services at an address are reached by.  \<open>Connect\<close> without waiting always succeeds.
\<close>

record 'w Backends =
  net_WaitForConnected :: "string \<Rightarrow> bool"
  net_auth :: "string \<Rightarrow> 'w AuthStub"
  net_online :: "string \<Rightarrow> 'w OnlineStub"
  net_friend :: "string \<Rightarrow> 'w FriendStub"
  net_chat :: "string \<Rightarrow> 'w ChatStub"
  net_group :: "string \<Rightarrow> 'w GroupStub"
  net_file :: "string \<Rightarrow> 'w FileStub"

definition RpcClientBase_Connect :: "'w Backends \<Rightarrow> string \<Rightarrow> bool \<Rightarrow> bool" where
  "RpcClientBase_Connect N address wait_ready = (if \<not> wait_ready then True else net_WaitForConnected N address)"

definition AuthSystem_Init :: "'w Backends \<Rightarrow> ZoneConfig \<Rightarrow> 'w AuthSystem option" where
  "AuthSystem_Init N config =
     (let wait = \<not> zc_standalone config in
      if \<not> RpcClientBase_Connect N (zc_auth_svr_addr config) wait then None
      else if \<not> RpcClientBase_Connect N (zc_online_svr_addr config) wait then None
      else Some \<lparr>as_auth_rpc_client = Some (Some (net_auth N (zc_auth_svr_addr config))),
             as_online_rpc_client = Some (Some (net_online N (zc_online_svr_addr config)))\<rparr>)"

definition ChatSystem_Init :: "'w Backends \<Rightarrow> ZoneConfig \<Rightarrow> 'w ChatSystem option" where
  "ChatSystem_Init N config =
     (if \<not> RpcClientBase_Connect N (zc_chat_svr_addr config) (\<not> zc_standalone config) then None
      else Some \<lparr>cs_rpc_client = Some (Some (net_chat N (zc_chat_svr_addr config)))\<rparr>)"

definition FriendSystem_Init :: "'w Backends \<Rightarrow> ZoneConfig \<Rightarrow> 'w FriendSystem option" where
  "FriendSystem_Init N config =
     (if \<not> RpcClientBase_Connect N (zc_friend_svr_addr config) (\<not> zc_standalone config) then None
      else Some \<lparr>fs_rpc_client = Some (Some (net_friend N (zc_friend_svr_addr config)))\<rparr>)"

definition GroupSystem_Init :: "'w Backends \<Rightarrow> ZoneConfig \<Rightarrow> 'w GroupSystem option" where
  "GroupSystem_Init N config =
     (if \<not> RpcClientBase_Connect N (zc_chat_svr_addr config) (\<not> zc_standalone config) then None
      else Some \<lparr>gs_rpc_client = Some (Some (net_group N (zc_chat_svr_addr config)))\<rparr>)"

definition FileSystem_Init :: "'w Backends \<Rightarrow> int \<Rightarrow> ZoneConfig \<Rightarrow> 'w FileSystem option" where
  "FileSystem_Init N indet config =
     (if \<not> RpcClientBase_Connect N (zc_file_svr_addr config) (\<not> zc_standalone config) then None
      else Some \<lparr>fl_rpc_client = Some (Some (net_file N (zc_file_svr_addr config))), fl_indet = indet\<rparr>)"

record 'w SystemManager =
  sm_auth :: "'w AuthSystem option"
  sm_chat :: "'w ChatSystem option"
  sm_friend :: "'w FriendSystem option"
  sm_group :: "'w GroupSystem option"
  sm_file :: "'w FileSystem option"

datatype SessionStoreChoice = UseRedis string | UseMemory

definition SystemManager_Init :: "'w Backends \<Rightarrow> int \<Rightarrow> ZoneConfig \<Rightarrow> (SessionStoreChoice \<times> 'w SystemManager) option" where
  "SystemManager_Init N indet config =
     (let store = (if zc_session_store_type config = ''redis'' then UseRedis (zc_redis_url config) else UseMemory)
      in case (AuthSystem_Init N config, ChatSystem_Init N config, FriendSystem_Init N config, GroupSystem_Init N config,
               FileSystem_Init N indet config) of
           (Some auth, Some chat, Some fr, Some grp, Some fl) \<Rightarrow>
             Some (store, \<lparr>sm_auth = Some auth, sm_chat = Some chat, sm_friend = Some fr, sm_group = Some grp, sm_file = Some fl\<rparr>)
         | _ \<Rightarrow> None)"

definition SystemManager_Shutdown :: "'w SystemManager \<Rightarrow> 'w SystemManager" where
  "SystemManager_Shutdown m = m\<lparr>sm_file := None, sm_group := None, sm_friend := None, sm_chat := None, sm_auth := None\<rparr>"

end
