(* ===== verification/Zone_Messages.thy ===== *)
theory Zone_Messages
  imports Main
begin

text \<open>
  \<^verbatim>\<open>backend/zonesvr/proto/zone.proto\<close>: the messages in the payload of a client's command and of its answer, and the
  read receipt of \<^verbatim>\<open>gatesvr/proto/gate.proto\<close>.  The code that protoc generates is a parameter: reading a message, which
  fails on malformed bytes, and writing one.
\<close>

record AuthLoginPayload =
  pal_username :: string
  pal_password :: string
  pal_device_id :: string
  pal_device_type :: string

record AuthLoginResponsePayload =
  palr_success :: bool
  palr_user_id :: string
  palr_token :: string
  palr_expire_at :: int
  palr_error :: string

record AuthRegisterPayload =
  par_username :: string
  par_password :: string
  par_nickname :: string
  par_email :: string
  par_avatar_url :: string

record AuthRegisterResponsePayload =
  parr_success :: bool
  parr_user_id :: string
  parr_error :: string

record AuthLogoutPayload =
  palt_user_id :: string
  palt_token :: string

record AuthValidateTokenPayload =
  pavt_token :: string

record AuthValidateTokenResponsePayload =
  pavtr_user_id :: string

record ChatSendMessagePayload =
  pcsm_from_user_id :: string
  pcsm_to_id :: string
  pcsm_chat_type :: int
  pcsm_content :: string
  pcsm_media_url :: string
  pcsm_media_type :: string
  pcsm_client_msg_id :: string
  pcsm_file_size :: int
  pcsm_mentions :: "string list"
  pcsm_reply_to_msg_id :: string

record ChatSendMessageResponsePayload =
  pcsmr_success :: bool
  pcsmr_msg_id :: string
  pcsmr_timestamp :: int
  pcsmr_error :: string

record ChatMessagePushPayload =
  pcmp_msg_id :: string
  pcmp_from_user_id :: string
  pcmp_to_id :: string
  pcmp_chat_type :: int
  pcmp_content :: string
  pcmp_media_url :: string
  pcmp_media_type :: string
  pcmp_timestamp :: int
  pcmp_mentions :: "string list"
  pcmp_reply_to_msg_id :: string

record ChatRecallMessagePayload =
  pcrm_msg_id :: string
  pcrm_user_id :: string

record ChatMarkReadPayload =
  pcmr_chat_id :: string
  pcmr_chat_type :: int
  pcmr_last_msg_id :: string

record ChatPullOfflinePayload =
  pcpo_limit :: int
  pcpo_cursor :: string

record ChatPullOfflineResponsePayload =
  pcpor_messages :: "ChatMessagePushPayload list"
  pcpor_next_cursor :: string
  pcpor_has_more :: bool

record FriendAddPayload =
  pfa_user_id :: string
  pfa_friend_id :: string
  pfa_remark :: string

record FriendHandleRequestPayload =
  pfhr_user_id :: string
  pfhr_request_id :: string
  pfhr_accept :: bool

record FriendRemovePayload =
  pfr_user_id :: string
  pfr_friend_id :: string

record FriendBlockPayload =
  pfb_user_id :: string
  pfb_target_id :: string

record FriendGetFriendsPayload =
  pfgf_group_id :: string

record FriendInfoPayload =
  pfi_friend_id :: string
  pfi_remark :: string
  pfi_group_id :: string
  pfi_nickname :: string
  pfi_avatar_url :: string
  pfi_added_at :: int

record FriendGetFriendsResponsePayload =
  pfgfr_friends :: "FriendInfoPayload list"

record FriendGetRequestsPayload =
  pfgr_type :: int

record FriendRequestInfoPayload =
  pfri_request_id :: string
  pfri_from_user_id :: string
  pfri_to_user_id :: string
  pfri_remark :: string
  pfri_status :: int
  pfri_created_at :: int
  pfri_from_nickname :: string
  pfri_from_avatar_url :: string

record FriendGetRequestsResponsePayload =
  pfgrr_requests :: "FriendRequestInfoPayload list"

record FriendSearchPayload =
  pfs_keyword :: string
  pfs_limit :: int

record FriendSearchUserPayload =
  pfsu_user_id :: string
  pfsu_username :: string
  pfsu_nickname :: string
  pfsu_avatar_url :: string
  pfsu_signature :: string
  pfsu_gender :: int

record FriendSearchResponsePayload =
  pfsr_users :: "FriendSearchUserPayload list"

record FriendGetBlockListPayload =
  pfgbl_user_id :: string

record FriendGetBlockListResponsePayload =
  pfgblr_success :: bool
  pfgblr_blocked_ids :: "string list"
  pfgblr_error :: string

record FriendCreateGroupPayload =
  pfcg_user_id :: string
  pfcg_group_name :: string

record FriendCreateGroupResponsePayload =
  pfcgr_success :: bool
  pfcgr_group_id :: string
  pfcgr_error :: string

record FriendGetGroupsPayload =
  pfgg_user_id :: string

record FriendGroupPayload =
  pfg_group_id :: string
  pfg_group_name :: string
  pfg_friend_count :: int
  pfg_sort_order :: int

record FriendGetGroupsResponsePayload =
  pfggr_success :: bool
  pfggr_groups :: "FriendGroupPayload list"
  pfggr_error :: string

record FriendMoveToGroupPayload =
  pfmtg_user_id :: string
  pfmtg_friend_id :: string
  pfmtg_group_id :: string

record FriendMoveToGroupResponsePayload =
  pfmtgr_success :: bool
  pfmtgr_error :: string

record FriendDeleteGroupPayload =
  pfdg_user_id :: string
  pfdg_group_id :: string

record FriendDeleteGroupResponsePayload =
  pfdgr_success :: bool
  pfdgr_error :: string

record FriendSetRemarkPayload =
  pfsrk_user_id :: string
  pfsrk_friend_id :: string
  pfsrk_remark :: string

record FriendSetRemarkResponsePayload =
  pfsrr_success :: bool
  pfsrr_error :: string

record GroupCreatePayload =
  pgc_creator_id :: string
  pgc_group_name :: string
  pgc_member_ids :: "string list"

record GroupCreateResponsePayload =
  pgcr_success :: bool
  pgcr_group_id :: string
  pgcr_error :: string

record GroupDismissPayload =
  pgd_group_id :: string
  pgd_operator_id :: string

record GroupInviteMembersPayload =
  pgim_group_id :: string
  pgim_inviter_id :: string
  pgim_member_ids :: "string list"

record GroupRemoveMemberPayload =
  pgrm_group_id :: string
  pgrm_operator_id :: string
  pgrm_member_id :: string

record GroupLeavePayload =
  pgl_group_id :: string
  pgl_user_id :: string

record GroupGetInfoPayload =
  pggi_group_id :: string

record GroupInfoPayload =
  pgi_group_id :: string
  pgi_group_name :: string
  pgi_avatar_url :: string
  pgi_owner_id :: string
  pgi_member_count :: int
  pgi_announcement :: string
  pgi_created_at :: int

record GroupGetInfoResponsePayload =
  pggir_group :: GroupInfoPayload

record GroupGetMembersPayload =
  pggm_group_id :: string
  pggm_page :: int
  pggm_page_size :: int

record GroupMemberPayload =
  pgm_user_id :: string
  pgm_role :: int
  pgm_nickname :: string
  pgm_joined_at :: int

record GroupGetMembersResponsePayload =
  pggmr_members :: "GroupMemberPayload list"
  pggmr_total :: int

type_synonym GroupGetUserGroupsPayload = unit

record GroupGetUserGroupsResponsePayload =
  pggugr_groups :: "GroupInfoPayload list"

record ChatGetHistoryPayload =
  pcgh_chat_id :: string
  pcgh_chat_type :: int
  pcgh_before_msg_id :: string
  pcgh_limit :: int

record ChatGetHistoryResponsePayload =
  pcghr_messages :: "ChatMessagePushPayload list"
  pcghr_has_more :: bool

record ChatSyncConversationsPayload =
  pcsc_last_sync_time :: int

record ChatConversationPayload =
  pcc_chat_id :: string
  pcc_chat_type :: int
  pcc_peer_id :: string
  pcc_peer_name :: string
  pcc_peer_avatar :: string
  pcc_unread_count :: int
  pcc_updated_at :: int
  pcc_last_msg_id :: string
  pcc_last_content :: string
  pcc_last_timestamp :: int

record ChatSyncConversationsResponsePayload =
  pcscr_conversations :: "ChatConversationPayload list"

record ChatDeleteConversationPayload =
  pcdc_chat_id :: string
  pcdc_chat_type :: int

record FileGetUploadTokenPayload =
  pfgut_user_id :: string
  pfgut_file_name :: string
  pfgut_file_size :: int

record FileGetUploadTokenResponsePayload =
  pfgutr_success :: bool
  pfgutr_upload_token :: string
  pfgutr_upload_url :: string
  pfgutr_expire_at :: int
  pfgutr_error :: string

record FileInitUploadPayload =
  pfiu_user_id :: string
  pfiu_file_name :: string
  pfiu_content_type :: string
  pfiu_file_size :: int
  pfiu_md5 :: string
  pfiu_msg_id :: string

record FileInitUploadResponsePayload =
  pfiur_success :: bool
  pfiur_upload_id :: string
  pfiur_expire_at :: int
  pfiur_error :: string

record FileGetFileInfoPayload =
  pfgfi_file_id :: string

record FileGetFileInfoResponsePayload =
  pfgfir_success :: bool
  pfgfir_file_id :: string
  pfgfir_file_name :: string
  pfgfir_file_size :: int
  pfgfir_content_type :: string
  pfgfir_uploader_id :: string
  pfgfir_uploaded_at :: int
  pfgfir_md5 :: string
  pfgfir_error :: string

record FileGetFileUrlPayload =
  pfgfu_file_id :: string
  pfgfu_user_id :: string

record FileGetFileUrlResponsePayload =
  pfgfur_success :: bool
  pfgfur_file_url :: string
  pfgfur_file_name :: string
  pfgfur_file_size :: int
  pfgfur_content_type :: string
  pfgfur_expire_at :: int
  pfgfur_error :: string

record FileDeletePayload =
  pfd_file_id :: string
  pfd_user_id :: string

record ReadReceiptNotify =
  rrn_chat_id :: string
  rrn_user_id :: string
  rrn_last_read_msg_id :: string

section \<open>Reading and writing\<close>

record AuthProto =
  parse_AuthRegisterPayload :: "string \<Rightarrow> AuthRegisterPayload option"
  parse_AuthLoginPayload :: "string \<Rightarrow> AuthLoginPayload option"
  parse_AuthLogoutPayload :: "string \<Rightarrow> AuthLogoutPayload option"
  parse_AuthValidateTokenPayload :: "string \<Rightarrow> AuthValidateTokenPayload option"
  ser_AuthRegisterResponsePayload :: "AuthRegisterResponsePayload \<Rightarrow> string option"
  ser_AuthLoginResponsePayload :: "AuthLoginResponsePayload \<Rightarrow> string option"
  ser_AuthValidateTokenResponsePayload :: "AuthValidateTokenResponsePayload \<Rightarrow> string option"

record ChatProto =
  parse_ChatSendMessagePayload :: "string \<Rightarrow> ChatSendMessagePayload option"
  parse_ChatMarkReadPayload :: "string \<Rightarrow> ChatMarkReadPayload option"
  parse_ChatPullOfflinePayload :: "string \<Rightarrow> ChatPullOfflinePayload option"
  parse_ChatRecallMessagePayload :: "string \<Rightarrow> ChatRecallMessagePayload option"
  parse_ChatGetHistoryPayload :: "string \<Rightarrow> ChatGetHistoryPayload option"
  parse_ChatSyncConversationsPayload :: "string \<Rightarrow> ChatSyncConversationsPayload option"
  parse_ChatDeleteConversationPayload :: "string \<Rightarrow> ChatDeleteConversationPayload option"
  ser_ChatSendMessageResponsePayload :: "ChatSendMessageResponsePayload \<Rightarrow> string option"
  ser_ChatMessagePushPayload :: "ChatMessagePushPayload \<Rightarrow> string option"
  ser_ChatPullOfflineResponsePayload :: "ChatPullOfflineResponsePayload \<Rightarrow> string option"
  ser_ChatGetHistoryResponsePayload :: "ChatGetHistoryResponsePayload \<Rightarrow> string option"
  ser_ChatSyncConversationsResponsePayload :: "ChatSyncConversationsResponsePayload \<Rightarrow> string option"
  ser_ReadReceiptNotify :: "ReadReceiptNotify \<Rightarrow> string option"

record FriendProto =
  parse_FriendAddPayload :: "string \<Rightarrow> FriendAddPayload option"
  parse_FriendHandleRequestPayload :: "string \<Rightarrow> FriendHandleRequestPayload option"
  parse_FriendRemovePayload :: "string \<Rightarrow> FriendRemovePayload option"
  parse_FriendBlockPayload :: "string \<Rightarrow> FriendBlockPayload option"
  parse_FriendGetFriendsPayload :: "string \<Rightarrow> FriendGetFriendsPayload option"
  parse_FriendGetRequestsPayload :: "string \<Rightarrow> FriendGetRequestsPayload option"
  parse_FriendSearchPayload :: "string \<Rightarrow> FriendSearchPayload option"
  parse_FriendGetBlockListPayload :: "string \<Rightarrow> FriendGetBlockListPayload option"
  parse_FriendCreateGroupPayload :: "string \<Rightarrow> FriendCreateGroupPayload option"
  parse_FriendGetGroupsPayload :: "string \<Rightarrow> FriendGetGroupsPayload option"
  parse_FriendMoveToGroupPayload :: "string \<Rightarrow> FriendMoveToGroupPayload option"
  parse_FriendDeleteGroupPayload :: "string \<Rightarrow> FriendDeleteGroupPayload option"
  parse_FriendSetRemarkPayload :: "string \<Rightarrow> FriendSetRemarkPayload option"
  ser_FriendGetFriendsResponsePayload :: "FriendGetFriendsResponsePayload \<Rightarrow> string option"
  ser_FriendGetRequestsResponsePayload :: "FriendGetRequestsResponsePayload \<Rightarrow> string option"
  ser_FriendSearchResponsePayload :: "FriendSearchResponsePayload \<Rightarrow> string option"
  ser_FriendGetBlockListResponsePayload :: "FriendGetBlockListResponsePayload \<Rightarrow> string option"
  ser_FriendCreateGroupResponsePayload :: "FriendCreateGroupResponsePayload \<Rightarrow> string option"
  ser_FriendGetGroupsResponsePayload :: "FriendGetGroupsResponsePayload \<Rightarrow> string option"
  ser_FriendMoveToGroupResponsePayload :: "FriendMoveToGroupResponsePayload \<Rightarrow> string option"
  ser_FriendDeleteGroupResponsePayload :: "FriendDeleteGroupResponsePayload \<Rightarrow> string option"
  ser_FriendSetRemarkResponsePayload :: "FriendSetRemarkResponsePayload \<Rightarrow> string option"

record GroupProto =
  parse_GroupCreatePayload :: "string \<Rightarrow> GroupCreatePayload option"
  parse_GroupDismissPayload :: "string \<Rightarrow> GroupDismissPayload option"
  parse_GroupInviteMembersPayload :: "string \<Rightarrow> GroupInviteMembersPayload option"
  parse_GroupRemoveMemberPayload :: "string \<Rightarrow> GroupRemoveMemberPayload option"
  parse_GroupLeavePayload :: "string \<Rightarrow> GroupLeavePayload option"
  parse_GroupGetInfoPayload :: "string \<Rightarrow> GroupGetInfoPayload option"
  parse_GroupGetMembersPayload :: "string \<Rightarrow> GroupGetMembersPayload option"
  parse_GroupGetUserGroupsPayload :: "string \<Rightarrow> GroupGetUserGroupsPayload option"
  ser_GroupCreateResponsePayload :: "GroupCreateResponsePayload \<Rightarrow> string option"
  ser_GroupGetInfoResponsePayload :: "GroupGetInfoResponsePayload \<Rightarrow> string option"
  ser_GroupGetMembersResponsePayload :: "GroupGetMembersResponsePayload \<Rightarrow> string option"
  ser_GroupGetUserGroupsResponsePayload :: "GroupGetUserGroupsResponsePayload \<Rightarrow> string option"

record FileProto =
  parse_FileGetUploadTokenPayload :: "string \<Rightarrow> FileGetUploadTokenPayload option"
  parse_FileInitUploadPayload :: "string \<Rightarrow> FileInitUploadPayload option"
  parse_FileGetFileInfoPayload :: "string \<Rightarrow> FileGetFileInfoPayload option"
  parse_FileGetFileUrlPayload :: "string \<Rightarrow> FileGetFileUrlPayload option"
  parse_FileDeletePayload :: "string \<Rightarrow> FileDeletePayload option"
  ser_FileGetUploadTokenResponsePayload :: "FileGetUploadTokenResponsePayload \<Rightarrow> string option"
  ser_FileInitUploadResponsePayload :: "FileInitUploadResponsePayload \<Rightarrow> string option"
  ser_FileGetFileInfoResponsePayload :: "FileGetFileInfoResponsePayload \<Rightarrow> string option"
  ser_FileGetFileUrlResponsePayload :: "FileGetFileUrlResponsePayload \<Rightarrow> string option"

record ZoneProto =
  zp_auth :: AuthProto
  zp_chat :: ChatProto
  zp_friend :: FriendProto
  zp_group :: GroupProto
  zp_file :: FileProto

end
