(* ===== verification/Zone_Session_Store.thy ===== *)
theory Zone_Session_Store
  imports Cpp_Std "HOL-Library.Sublist"
begin

text \<open>
  \<^verbatim>\<open>backend/zonesvr/internal/store/session_store.{h,cpp}\<close>: which user is connected to which gate, and the
  gates that have registered.  The class \<^verbatim>\<open>SessionStore\<close> is the record \<open>ZoneSessionStore\<close>, with an
  implementation in memory and one on a Redis server.  Every operation returns its result and the new
  state (reading from Redis may reconnect).  The system clock is an argument.  Logging is left out.
\<close>

section \<open>Data\<close>

record UserSession =
  us_user_id :: string
  us_gate_id :: string
  us_gate_addr :: string
  us_device_type :: string
  us_device_id :: string
  us_online_at :: int
  us_last_active_at :: int

definition UserSession_default :: UserSession where
  "UserSession_default = \<lparr>us_user_id = [], us_gate_id = [], us_gate_addr = [], us_device_type = [], us_device_id = [],
     us_online_at = 0, us_last_active_at = 0\<rparr>"

record GateNode =
  gn_gate_id :: string
  gn_address :: string
  gn_current_connections :: int
  gn_registered_at :: int
  gn_last_heartbeat :: int

definition GateNode_default :: GateNode where
  "GateNode_default = \<lparr>gn_gate_id = [], gn_address = [], gn_current_connections = 0, gn_registered_at = 0, gn_last_heartbeat = 0\<rparr>"

record 's ZoneSessionStore =
  zs_SetOnline :: "'s \<Rightarrow> UserSession \<Rightarrow> bool \<times> 's"
  zs_SetOffline :: "'s \<Rightarrow> string \<Rightarrow> bool \<times> 's"
  zs_GetSession :: "'s \<Rightarrow> string \<Rightarrow> UserSession option \<times> 's"
  zs_GetSessions :: "'s \<Rightarrow> string list \<Rightarrow> UserSession list \<times> 's"
  zs_IsOnline :: "'s \<Rightarrow> string \<Rightarrow> bool \<times> 's"
  zs_UpdateLastActive :: "'s \<Rightarrow> string \<Rightarrow> int \<Rightarrow> bool \<times> 's"
  zs_RegisterGate :: "'s \<Rightarrow> GateNode \<Rightarrow> bool \<times> 's"
  zs_UnregisterGate :: "'s \<Rightarrow> string \<Rightarrow> bool \<times> 's"
  zs_UpdateGateHeartbeat :: "'s \<Rightarrow> int \<Rightarrow> string \<Rightarrow> int \<Rightarrow> bool \<times> 's"
  zs_GetGate :: "'s \<Rightarrow> string \<Rightarrow> GateNode option \<times> 's"
  zs_GetAllGates :: "'s \<Rightarrow> GateNode list \<times> 's"

section \<open>In memory\<close>

text \<open>
  The hash tables are maps; \<open>order\<close> is the order in which the table of the gates is iterated, which
  the standard library leaves open.
\<close>

record MemorySessions =
  ms_sessions :: "string \<rightharpoonup> UserSession"
  ms_gates :: "string \<rightharpoonup> GateNode"

definition MemorySessions_empty :: MemorySessions where
  "MemorySessions_empty = \<lparr>ms_sessions = Map.empty, ms_gates = Map.empty\<rparr>"

definition MemorySessionStore_SetOnline :: "MemorySessions \<Rightarrow> UserSession \<Rightarrow> bool \<times> MemorySessions" where
  "MemorySessionStore_SetOnline s session =
     (True, s\<lparr>ms_sessions := (ms_sessions s)(us_user_id session \<mapsto> session)\<rparr>)"

definition MemorySessionStore_SetOffline :: "MemorySessions \<Rightarrow> string \<Rightarrow> bool \<times> MemorySessions" where
  "MemorySessionStore_SetOffline s user_id = (True, s\<lparr>ms_sessions := (ms_sessions s)(user_id := None)\<rparr>)"

definition MemorySessionStore_GetSession :: "MemorySessions \<Rightarrow> string \<Rightarrow> UserSession option \<times> MemorySessions" where
  "MemorySessionStore_GetSession s user_id = (ms_sessions s user_id, s)"

definition MemorySessionStore_GetSessions :: "MemorySessions \<Rightarrow> string list \<Rightarrow> UserSession list \<times> MemorySessions" where
  "MemorySessionStore_GetSessions s user_ids = (List.map_filter (ms_sessions s) user_ids, s)"

definition MemorySessionStore_IsOnline :: "MemorySessions \<Rightarrow> string \<Rightarrow> bool \<times> MemorySessions" where
  "MemorySessionStore_IsOnline s user_id = (ms_sessions s user_id \<noteq> None, s)"

definition MemorySessionStore_UpdateLastActive :: "MemorySessions \<Rightarrow> string \<Rightarrow> int \<Rightarrow> bool \<times> MemorySessions" where
  "MemorySessionStore_UpdateLastActive s user_id timestamp =
     (case ms_sessions s user_id of
        Some x \<Rightarrow> (True, s\<lparr>ms_sessions := (ms_sessions s)(user_id \<mapsto> x\<lparr>us_last_active_at := timestamp\<rparr>)\<rparr>)
      | None \<Rightarrow> (False, s))"

definition MemorySessionStore_RegisterGate :: "MemorySessions \<Rightarrow> GateNode \<Rightarrow> bool \<times> MemorySessions" where
  "MemorySessionStore_RegisterGate s node = (True, s\<lparr>ms_gates := (ms_gates s)(gn_gate_id node \<mapsto> node)\<rparr>)"

definition MemorySessionStore_UnregisterGate :: "MemorySessions \<Rightarrow> string \<Rightarrow> bool \<times> MemorySessions" where
  "MemorySessionStore_UnregisterGate s gate_id = (True, s\<lparr>ms_gates := (ms_gates s)(gate_id := None)\<rparr>)"

definition MemorySessionStore_UpdateGateHeartbeat :: "MemorySessions \<Rightarrow> int \<Rightarrow> string \<Rightarrow> int \<Rightarrow> bool \<times> MemorySessions" where
  "MemorySessionStore_UpdateGateHeartbeat s now_s gate_id connections =
     (case ms_gates s gate_id of
        Some node \<Rightarrow>
          (True, s\<lparr>ms_gates := (ms_gates s)
                     (gate_id \<mapsto> node\<lparr>gn_current_connections := connections, gn_last_heartbeat := now_s\<rparr>)\<rparr>)
      | None \<Rightarrow> (False, s))"

definition MemorySessionStore_GetGate :: "MemorySessions \<Rightarrow> string \<Rightarrow> GateNode option \<times> MemorySessions" where
  "MemorySessionStore_GetGate s gate_id = (ms_gates s gate_id, s)"

definition MemorySessionStore_GetAllGates :: "((string \<rightharpoonup> GateNode) \<Rightarrow> string list) \<Rightarrow> MemorySessions \<Rightarrow> GateNode list \<times> MemorySessions" where
  "MemorySessionStore_GetAllGates order s = (List.map_filter (ms_gates s) (order (ms_gates s)), s)"

definition MemorySessionStore :: "((string \<rightharpoonup> GateNode) \<Rightarrow> string list) \<Rightarrow> MemorySessions ZoneSessionStore" where
  "MemorySessionStore order =
     \<lparr>zs_SetOnline = MemorySessionStore_SetOnline, zs_SetOffline = MemorySessionStore_SetOffline,
      zs_GetSession = MemorySessionStore_GetSession, zs_GetSessions = MemorySessionStore_GetSessions,
      zs_IsOnline = MemorySessionStore_IsOnline, zs_UpdateLastActive = MemorySessionStore_UpdateLastActive,
      zs_RegisterGate = MemorySessionStore_RegisterGate, zs_UnregisterGate = MemorySessionStore_UnregisterGate,
      zs_UpdateGateHeartbeat = MemorySessionStore_UpdateGateHeartbeat, zs_GetGate = MemorySessionStore_GetGate,
      zs_GetAllGates = MemorySessionStore_GetAllGates order\<rparr>"

section \<open>On a Redis server\<close>

text \<open>
  hiredis is a parameter: the error flag of the connection (\<open>None\<close> without one), freeing and opening
  it, and a command, given by its words, with its reply (\<open>None\<close> when the connection breaks).
\<close>

datatype redisReply =
    REDIS_REPLY_STATUS string
  | REDIS_REPLY_STRING string
  | REDIS_REPLY_INTEGER int
  | REDIS_REPLY_ARRAY "redisReply list"
  | REDIS_REPLY_NIL
  | REDIS_REPLY_ERROR string

record 'r hiredis =
  redis_err :: "'r \<Rightarrow> bool option"
  redisFree :: "'r \<Rightarrow> 'r"
  redisConnect :: "'r \<Rightarrow> string \<Rightarrow> int \<Rightarrow> 'r"
  redisvCommand :: "'r \<Rightarrow> string list \<Rightarrow> redisReply option \<times> 'r"

definition kSessionExpireSeconds :: int where "kSessionExpireSeconds = 3600"
definition kGateExpireSeconds :: int where "kGateExpireSeconds = 60"
definition kZoneSessionPrefix :: string where "kZoneSessionPrefix = ''session:''"
definition kGatePrefix :: string where "kGatePrefix = ''gate:''"
definition kGateListKey :: string where "kGateListKey = ''gate:list''"

definition ParseRedisUrl :: "string \<Rightarrow> string \<times> int" where
  "ParseRedisUrl redis_url =
     (let v = (if take 8 redis_url = ''redis://'' then drop 8 redis_url else redis_url)
      in case find_char CHR '':'' v of
           Some colon \<Rightarrow>
             (let p = (case strtoll (drop (colon + 1) v) of None \<Rightarrow> 0 | Some p \<Rightarrow> p)
              in (take colon v, if p > 0 \<and> p < 65536 then p else 6379))
         | None \<Rightarrow> (v, 6379))"

record RedisConfig =
  rc_host :: string
  rc_port :: int

definition RedisSessionStore_EnsureConnected :: "'r hiredis \<Rightarrow> RedisConfig \<Rightarrow> 'r \<Rightarrow> bool \<times> 'r" where
  "RedisSessionStore_EnsureConnected H rc r =
     (if redis_err H r = Some False then (True, r)
      else
        (let r = (if redis_err H r = Some True then redisFree H r else r);
             r = redisConnect H r (rc_host rc) (rc_port rc)
         in (redis_err H r = Some False, r)))"

text \<open>A word of a command is formatted with \<^verbatim>\<open>%s\<close> from \<^verbatim>\<open>c_str()\<close>: it ends at the first null character.\<close>

definition c_str :: "string \<Rightarrow> string" where
  "c_str s = takeWhile (\<lambda>c. c \<noteq> CHR 0x00) s"

definition reply_ok :: "redisReply \<Rightarrow> bool" where
  "reply_ok r = (case r of REDIS_REPLY_STATUS x \<Rightarrow> True | REDIS_REPLY_STRING x \<Rightarrow> True | _ \<Rightarrow> False)"

definition reply_int :: "redisReply \<Rightarrow> int option" where
  "reply_int r = (case r of REDIS_REPLY_INTEGER n \<Rightarrow> Some n | _ \<Rightarrow> None)"

text \<open>\<^verbatim>\<open>EXPIRE\<close>, as it ends four of the operations: a missing reply keeps the verdict so far.\<close>

definition redis_expire :: "'r hiredis \<Rightarrow> 'r \<Rightarrow> string \<Rightarrow> int \<Rightarrow> bool \<Rightarrow> bool \<times> 'r" where
  "redis_expire H r key seconds ok =
     (case redisvCommand H r [''EXPIRE'', c_str key, to_string seconds] of
        (None, r) \<Rightarrow> (ok, r)
      | (Some reply, r) \<Rightarrow> (reply_int reply = Some 1, r))"

definition RedisSessionStore_SetOnline :: "'r hiredis \<Rightarrow> RedisConfig \<Rightarrow> 'r \<Rightarrow> UserSession \<Rightarrow> bool \<times> 'r" where
  "RedisSessionStore_SetOnline H rc r session =
     (case RedisSessionStore_EnsureConnected H rc r of
        (False, r) \<Rightarrow> (False, r)
      | (True, r) \<Rightarrow>
          (let key = kZoneSessionPrefix @ us_user_id session
           in case redisvCommand H r
                     [''HMSET'', c_str key, ''user_id'', c_str (us_user_id session), ''gate_id'', c_str (us_gate_id session),
                      ''gate_addr'', c_str (us_gate_addr session), ''device_type'', c_str (us_device_type session),
                      ''device_id'', c_str (us_device_id session), ''online_at'', to_string (us_online_at session),
                      ''last_active_at'', to_string (us_last_active_at session)] of
                (None, r) \<Rightarrow> (False, r)
              | (Some reply, r) \<Rightarrow>
                  if reply_ok reply then redis_expire H r key kSessionExpireSeconds True else (False, r)))"

definition RedisSessionStore_SetOffline :: "'r hiredis \<Rightarrow> RedisConfig \<Rightarrow> 'r \<Rightarrow> string \<Rightarrow> bool \<times> 'r" where
  "RedisSessionStore_SetOffline H rc r user_id =
     (case RedisSessionStore_EnsureConnected H rc r of
        (False, r) \<Rightarrow> (False, r)
      | (True, r) \<Rightarrow>
          (case redisvCommand H r [''DEL'', c_str (kZoneSessionPrefix @ user_id)] of
             (None, r) \<Rightarrow> (False, r)
           | (Some reply, r) \<Rightarrow> (True, r)))"

text \<open>The loop over the pairs of a hash: elements that are not strings are skipped.\<close>

fun reply_fields :: "redisReply list \<Rightarrow> (string \<times> string) list" where
  "reply_fields (REDIS_REPLY_STRING f # REDIS_REPLY_STRING v # rs) = (f, v) # reply_fields rs"
| "reply_fields (_ # _ # rs) = reply_fields rs"
| "reply_fields _ = []"

definition set_session_field :: "UserSession \<Rightarrow> string \<times> string \<Rightarrow> UserSession" where
  "set_session_field s fv =
     (case fv of (field, val) \<Rightarrow>
        if field = ''gate_id'' then s\<lparr>us_gate_id := val\<rparr>
        else if field = ''gate_addr'' then s\<lparr>us_gate_addr := val\<rparr>
        else if field = ''device_type'' then s\<lparr>us_device_type := val\<rparr>
        else if field = ''device_id'' then s\<lparr>us_device_id := val\<rparr>
        else if field = ''online_at'' then (case stoll val of Some n \<Rightarrow> s\<lparr>us_online_at := n\<rparr> | None \<Rightarrow> s)
        else if field = ''last_active_at'' then (case stoll val of Some n \<Rightarrow> s\<lparr>us_last_active_at := n\<rparr> | None \<Rightarrow> s)
        else s)"

definition ParseUserSessionHash :: "redisReply option \<Rightarrow> string \<Rightarrow> UserSession option" where
  "ParseUserSessionHash r user_id =
     (case r of
        Some (REDIS_REPLY_ARRAY elements) \<Rightarrow>
          if elements = [] then None
          else Some (foldl set_session_field (UserSession_default\<lparr>us_user_id := user_id\<rparr>) (reply_fields elements))
      | _ \<Rightarrow> None)"

definition RedisSessionStore_GetSession :: "'r hiredis \<Rightarrow> RedisConfig \<Rightarrow> 'r \<Rightarrow> string \<Rightarrow> UserSession option \<times> 'r" where
  "RedisSessionStore_GetSession H rc r user_id =
     (case RedisSessionStore_EnsureConnected H rc r of
        (False, r) \<Rightarrow> (None, r)
      | (True, r) \<Rightarrow>
          (case redisvCommand H r [''HGETALL'', c_str (kZoneSessionPrefix @ user_id)] of
             (reply, r) \<Rightarrow> (ParseUserSessionHash reply user_id, r)))"

fun RedisSessionStore_GetSessions :: "'r hiredis \<Rightarrow> RedisConfig \<Rightarrow> 'r \<Rightarrow> string list \<Rightarrow> UserSession list \<times> 'r" where
  "RedisSessionStore_GetSessions H rc r [] = ([], r)"
| "RedisSessionStore_GetSessions H rc r (uid # user_ids) =
     (let (opt, r) = RedisSessionStore_GetSession H rc r uid;
          (result, r) = RedisSessionStore_GetSessions H rc r user_ids
      in ((case opt of Some x \<Rightarrow> x # result | None \<Rightarrow> result), r))"

definition RedisSessionStore_IsOnline :: "'r hiredis \<Rightarrow> RedisConfig \<Rightarrow> 'r \<Rightarrow> string \<Rightarrow> bool \<times> 'r" where
  "RedisSessionStore_IsOnline H rc r user_id =
     (case RedisSessionStore_EnsureConnected H rc r of
        (False, r) \<Rightarrow> (False, r)
      | (True, r) \<Rightarrow>
          (case redisvCommand H r [''EXISTS'', c_str (kZoneSessionPrefix @ user_id)] of
             (None, r) \<Rightarrow> (False, r)
           | (Some reply, r) \<Rightarrow> (reply_int reply = Some 1, r)))"

definition RedisSessionStore_UpdateLastActive :: "'r hiredis \<Rightarrow> RedisConfig \<Rightarrow> 'r \<Rightarrow> string \<Rightarrow> int \<Rightarrow> bool \<times> 'r" where
  "RedisSessionStore_UpdateLastActive H rc r user_id timestamp =
     (case RedisSessionStore_EnsureConnected H rc r of
        (False, r) \<Rightarrow> (False, r)
      | (True, r) \<Rightarrow>
          (let key = kZoneSessionPrefix @ user_id
           in case redisvCommand H r [''HSET'', c_str key, ''last_active_at'', to_string timestamp] of
                (None, r) \<Rightarrow> (False, r)
              | (Some reply, r) \<Rightarrow> redis_expire H r key kSessionExpireSeconds True))"

definition RedisSessionStore_RegisterGate :: "'r hiredis \<Rightarrow> RedisConfig \<Rightarrow> 'r \<Rightarrow> GateNode \<Rightarrow> bool \<times> 'r" where
  "RedisSessionStore_RegisterGate H rc r node =
     (case RedisSessionStore_EnsureConnected H rc r of
        (False, r) \<Rightarrow> (False, r)
      | (True, r) \<Rightarrow>
          (let key = kGatePrefix @ gn_gate_id node
           in case redisvCommand H r
                     [''HMSET'', c_str key, ''gate_id'', c_str (gn_gate_id node), ''address'', c_str (gn_address node),
                      ''current_connections'', to_string (gn_current_connections node),
                      ''registered_at'', to_string (gn_registered_at node),
                      ''last_heartbeat'', to_string (gn_last_heartbeat node)] of
                (None, r) \<Rightarrow> (False, r)
              | (Some reply, r) \<Rightarrow>
                  if \<not> reply_ok reply then (False, r)
                  else
                    (case redis_expire H r key kGateExpireSeconds True of
                       (False, r) \<Rightarrow> (False, r)
                     | (True, r) \<Rightarrow>
                         (case redisvCommand H r [''SADD'', kGateListKey, c_str (gn_gate_id node)] of
                            (None, r) \<Rightarrow> (True, r)
                          | (Some reply, r) \<Rightarrow> (reply_int reply \<noteq> None, r)))))"

definition RedisSessionStore_UnregisterGate :: "'r hiredis \<Rightarrow> RedisConfig \<Rightarrow> 'r \<Rightarrow> string \<Rightarrow> bool \<times> 'r" where
  "RedisSessionStore_UnregisterGate H rc r gate_id =
     (case RedisSessionStore_EnsureConnected H rc r of
        (False, r) \<Rightarrow> (False, r)
      | (True, r) \<Rightarrow>
          (let (reply, r) = redisvCommand H r [''DEL'', c_str (kGatePrefix @ gate_id)];
               (reply, r) = redisvCommand H r [''SREM'', kGateListKey, c_str gate_id]
           in (True, r)))"

definition RedisSessionStore_UpdateGateHeartbeat :: "'r hiredis \<Rightarrow> RedisConfig \<Rightarrow> 'r \<Rightarrow> int \<Rightarrow> string \<Rightarrow> int \<Rightarrow> bool \<times> 'r" where
  "RedisSessionStore_UpdateGateHeartbeat H rc r now_s gate_id connections =
     (case RedisSessionStore_EnsureConnected H rc r of
        (False, r) \<Rightarrow> (False, r)
      | (True, r) \<Rightarrow>
          (let key = kGatePrefix @ gate_id
           in case redisvCommand H r [''HSET'', c_str key, ''current_connections'', to_string connections,
                                      ''last_heartbeat'', to_string now_s] of
                (None, r) \<Rightarrow> (False, r)
              | (Some reply, r) \<Rightarrow> redis_expire H r key kGateExpireSeconds False))"

definition set_gate_field :: "GateNode \<Rightarrow> string \<times> string \<Rightarrow> GateNode" where
  "set_gate_field node fv =
     (case fv of (field, val) \<Rightarrow>
        if field = ''address'' then node\<lparr>gn_address := val\<rparr>
        else if field = ''current_connections'' then (case stoi val of Some n \<Rightarrow> node\<lparr>gn_current_connections := n\<rparr> | None \<Rightarrow> node)
        else if field = ''registered_at'' then (case stoll val of Some n \<Rightarrow> node\<lparr>gn_registered_at := n\<rparr> | None \<Rightarrow> node)
        else if field = ''last_heartbeat'' then (case stoll val of Some n \<Rightarrow> node\<lparr>gn_last_heartbeat := n\<rparr> | None \<Rightarrow> node)
        else node)"

definition ParseGateNodeHash :: "redisReply option \<Rightarrow> string \<Rightarrow> GateNode option" where
  "ParseGateNodeHash r gate_id =
     (case r of
        Some (REDIS_REPLY_ARRAY elements) \<Rightarrow>
          if elements = [] then None
          else Some (foldl set_gate_field (GateNode_default\<lparr>gn_gate_id := gate_id\<rparr>) (reply_fields elements))
      | _ \<Rightarrow> None)"

definition RedisSessionStore_GetGate :: "'r hiredis \<Rightarrow> RedisConfig \<Rightarrow> 'r \<Rightarrow> string \<Rightarrow> GateNode option \<times> 'r" where
  "RedisSessionStore_GetGate H rc r gate_id =
     (case RedisSessionStore_EnsureConnected H rc r of
        (False, r) \<Rightarrow> (None, r)
      | (True, r) \<Rightarrow>
          (case redisvCommand H r [''HGETALL'', c_str (kGatePrefix @ gate_id)] of
             (reply, r) \<Rightarrow> (ParseGateNodeHash reply gate_id, r)))"

fun all_gates_loop :: "'r hiredis \<Rightarrow> 'r \<Rightarrow> redisReply list \<Rightarrow> GateNode list \<times> 'r" where
  "all_gates_loop H r [] = ([], r)"
| "all_gates_loop H r (REDIS_REPLY_STRING gid # elements) =
     (let (h, r) = redisvCommand H r [''HGETALL'', c_str (kGatePrefix @ gid)];
          (result, r) = all_gates_loop H r elements
      in ((case ParseGateNodeHash h gid of Some node \<Rightarrow> node # result | None \<Rightarrow> result), r))"
| "all_gates_loop H r (_ # elements) = all_gates_loop H r elements"

definition RedisSessionStore_GetAllGates :: "'r hiredis \<Rightarrow> RedisConfig \<Rightarrow> 'r \<Rightarrow> GateNode list \<times> 'r" where
  "RedisSessionStore_GetAllGates H rc r =
     (case RedisSessionStore_EnsureConnected H rc r of
        (False, r) \<Rightarrow> ([], r)
      | (True, r) \<Rightarrow>
          (case redisvCommand H r [''SMEMBERS'', kGateListKey] of
             (Some (REDIS_REPLY_ARRAY elements), r) \<Rightarrow> all_gates_loop H r elements
           | (_, r) \<Rightarrow> ([], r)))"

definition RedisSessionStore :: "'r hiredis \<Rightarrow> RedisConfig \<Rightarrow> 'r ZoneSessionStore" where
  "RedisSessionStore H rc =
     \<lparr>zs_SetOnline = RedisSessionStore_SetOnline H rc, zs_SetOffline = RedisSessionStore_SetOffline H rc,
      zs_GetSession = RedisSessionStore_GetSession H rc, zs_GetSessions = RedisSessionStore_GetSessions H rc,
      zs_IsOnline = RedisSessionStore_IsOnline H rc, zs_UpdateLastActive = RedisSessionStore_UpdateLastActive H rc,
      zs_RegisterGate = RedisSessionStore_RegisterGate H rc, zs_UnregisterGate = RedisSessionStore_UnregisterGate H rc,
      zs_UpdateGateHeartbeat = RedisSessionStore_UpdateGateHeartbeat H rc, zs_GetGate = RedisSessionStore_GetGate H rc,
      zs_GetAllGates = RedisSessionStore_GetAllGates H rc\<rparr>"

text \<open>The constructor connects at once; a failure shows only in the operations.\<close>

definition RedisSessionStore_new :: "'r hiredis \<Rightarrow> 'r \<Rightarrow> string \<Rightarrow> RedisConfig \<times> 'r" where
  "RedisSessionStore_new H r redis_url =
     (let (host, port) = ParseRedisUrl redis_url;
          rc = \<lparr>rc_host = host, rc_port = port\<rparr>
      in (rc, snd (RedisSessionStore_EnsureConnected H rc r)))"

lemma MemorySessionStore_simps [simp]:
  "zs_SetOnline (MemorySessionStore order) = MemorySessionStore_SetOnline"
  "zs_SetOffline (MemorySessionStore order) = MemorySessionStore_SetOffline"
  "zs_GetSession (MemorySessionStore order) = MemorySessionStore_GetSession"
  "zs_GetSessions (MemorySessionStore order) = MemorySessionStore_GetSessions"
  "zs_IsOnline (MemorySessionStore order) = MemorySessionStore_IsOnline"
  "zs_UpdateLastActive (MemorySessionStore order) = MemorySessionStore_UpdateLastActive"
  "zs_RegisterGate (MemorySessionStore order) = MemorySessionStore_RegisterGate"
  "zs_UnregisterGate (MemorySessionStore order) = MemorySessionStore_UnregisterGate"
  "zs_UpdateGateHeartbeat (MemorySessionStore order) = MemorySessionStore_UpdateGateHeartbeat"
  "zs_GetGate (MemorySessionStore order) = MemorySessionStore_GetGate"
  by (simp_all add: MemorySessionStore_def)

lemma RedisSessionStore_simps [simp]:
  "zs_SetOnline (RedisSessionStore H rc) = RedisSessionStore_SetOnline H rc"
  "zs_SetOffline (RedisSessionStore H rc) = RedisSessionStore_SetOffline H rc"
  "zs_GetSession (RedisSessionStore H rc) = RedisSessionStore_GetSession H rc"
  "zs_GetSessions (RedisSessionStore H rc) = RedisSessionStore_GetSessions H rc"
  "zs_IsOnline (RedisSessionStore H rc) = RedisSessionStore_IsOnline H rc"
  "zs_UpdateLastActive (RedisSessionStore H rc) = RedisSessionStore_UpdateLastActive H rc"
  "zs_RegisterGate (RedisSessionStore H rc) = RedisSessionStore_RegisterGate H rc"
  "zs_UnregisterGate (RedisSessionStore H rc) = RedisSessionStore_UnregisterGate H rc"
  "zs_UpdateGateHeartbeat (RedisSessionStore H rc) = RedisSessionStore_UpdateGateHeartbeat H rc"
  "zs_GetGate (RedisSessionStore H rc) = RedisSessionStore_GetGate H rc"
  by (simp_all add: RedisSessionStore_def)

end
