(* ===== verification/Zone_Session_Laws.thy ===== *)
theory Zone_Session_Laws
  imports Zone_Session_Store "HOL-Library.AList"
begin

text \<open>
  The two session stores of the zone server.  \<open>zone_store\<close> is the contract of the class
  \<^verbatim>\<open>SessionStore\<close>: an implementation answers and changes as the store in memory does, for the operations
  that are admissible in its state.  The store on Redis satisfies it on every server that follows the
  documented meaning of its commands (\<open>redis_server\<close>), call by call.  Over time it does not: the server removes a session 3600 seconds
  and a gate 60 seconds after it was last written, the store in memory keeps both.  \<open>TimedSessions\<close> is the
  specification with expiry that the store on Redis meets for every sequence of calls and passing seconds, also when a
  call touches what is not there (any more).
\<close>

section \<open>Operations as data\<close>

datatype ZoneStoreOp =
    SO_SetOnline UserSession
  | SO_SetOffline string
  | SO_GetSession string
  | SO_GetSessions "string list"
  | SO_IsOnline string
  | SO_UpdateLastActive string int
  | SO_RegisterGate GateNode
  | SO_UnregisterGate string
  | SO_UpdateGateHeartbeat int string int
  | SO_GetGate string

datatype ZoneStoreResult =
    SR_Bool bool
  | SR_Session "UserSession option"
  | SR_Sessions "UserSession list"
  | SR_Gate "GateNode option"

fun store_exec :: "'s ZoneSessionStore \<Rightarrow> ZoneStoreOp \<Rightarrow> 's \<Rightarrow> ZoneStoreResult \<times> 's" where
  "store_exec V (SO_SetOnline session) s = map_prod SR_Bool id (zs_SetOnline V s session)"
| "store_exec V (SO_SetOffline u) s = map_prod SR_Bool id (zs_SetOffline V s u)"
| "store_exec V (SO_GetSession u) s = map_prod SR_Session id (zs_GetSession V s u)"
| "store_exec V (SO_GetSessions us) s = map_prod SR_Sessions id (zs_GetSessions V s us)"
| "store_exec V (SO_IsOnline u) s = map_prod SR_Bool id (zs_IsOnline V s u)"
| "store_exec V (SO_UpdateLastActive u t) s = map_prod SR_Bool id (zs_UpdateLastActive V s u t)"
| "store_exec V (SO_RegisterGate node) s = map_prod SR_Bool id (zs_RegisterGate V s node)"
| "store_exec V (SO_UnregisterGate g) s = map_prod SR_Bool id (zs_UnregisterGate V s g)"
| "store_exec V (SO_UpdateGateHeartbeat now_s g n) s = map_prod SR_Bool id (zs_UpdateGateHeartbeat V s now_s g n)"
| "store_exec V (SO_GetGate g) s = map_prod SR_Gate id (zs_GetGate V s g)"

fun store_run :: "'s ZoneSessionStore \<Rightarrow> ZoneStoreOp list \<Rightarrow> 's \<Rightarrow> ZoneStoreResult list \<times> 's" where
  "store_run V [] s = ([], s)"
| "store_run V (op # ops) s = (let (x, s) = store_exec V op s; (xs, s) = store_run V ops s in (x # xs, s))"

abbreviation mem_exec :: "ZoneStoreOp \<Rightarrow> MemorySessions \<Rightarrow> ZoneStoreResult \<times> MemorySessions" where
  "mem_exec \<equiv> store_exec (MemorySessionStore (\<lambda>_. []))"

text \<open>
  An operation fits when its strings have no null character, its numbers fit their types and no gate is called \<open>list\<close> (its key would be
  that of the list of gates); it is admissible when it also updates times only for what is there.
\<close>

definition no_nul :: "string \<Rightarrow> bool" where
  "no_nul s \<longleftrightarrow> CHR 0x00 \<notin> set s"

definition session_fits :: "UserSession \<Rightarrow> bool" where
  "session_fits x \<longleftrightarrow> no_nul (us_user_id x) \<and> no_nul (us_gate_id x) \<and> no_nul (us_gate_addr x) \<and> no_nul (us_device_type x)
     \<and> no_nul (us_device_id x) \<and> is_int64 (us_online_at x) \<and> is_int64 (us_last_active_at x)"

definition gate_id_ok :: "string \<Rightarrow> bool" where
  "gate_id_ok g \<longleftrightarrow> no_nul g \<and> g \<noteq> ''list''"

definition gate_fits :: "GateNode \<Rightarrow> bool" where
  "gate_fits n \<longleftrightarrow> gate_id_ok (gn_gate_id n) \<and> no_nul (gn_address n) \<and> is_int32 (gn_current_connections n)
     \<and> is_int64 (gn_registered_at n) \<and> is_int64 (gn_last_heartbeat n)"

fun op_fits :: "ZoneStoreOp \<Rightarrow> bool" where
  "op_fits (SO_SetOnline session) = session_fits session"
| "op_fits (SO_SetOffline u) = no_nul u"
| "op_fits (SO_GetSession u) = no_nul u"
| "op_fits (SO_GetSessions us) = list_all no_nul us"
| "op_fits (SO_IsOnline u) = no_nul u"
| "op_fits (SO_UpdateLastActive u t) = (no_nul u \<and> is_int64 t)"
| "op_fits (SO_RegisterGate node) = gate_fits node"
| "op_fits (SO_UnregisterGate g) = gate_id_ok g"
| "op_fits (SO_UpdateGateHeartbeat now_s g n) = (gate_id_ok g \<and> is_int64 now_s \<and> is_int32 n)"
| "op_fits (SO_GetGate g) = gate_id_ok g"

fun op_finds :: "ZoneStoreOp \<Rightarrow> MemorySessions \<Rightarrow> bool" where
  "op_finds (SO_UpdateLastActive u t) m = (ms_sessions m u \<noteq> None)"
| "op_finds (SO_UpdateGateHeartbeat now_s g n) m = (ms_gates m g \<noteq> None)"
| "op_finds _ m = True"

definition op_admissible :: "ZoneStoreOp \<Rightarrow> MemorySessions \<Rightarrow> bool" where
  [simp]: "op_admissible op m \<longleftrightarrow> op_fits op \<and> op_finds op m"

fun run_admissible :: "ZoneStoreOp list \<Rightarrow> MemorySessions \<Rightarrow> bool" where
  "run_admissible [] m = True"
| "run_admissible (op # ops) m = (op_admissible op m \<and> run_admissible ops (snd (mem_exec op m)))"

section \<open>The contract\<close>

locale zone_store =
  fixes V :: "'s ZoneSessionStore" and inv :: "'s \<Rightarrow> bool" and abs :: "'s \<Rightarrow> MemorySessions"
  assumes refines: "inv s \<Longrightarrow> op_admissible op (abs s) \<Longrightarrow>
      inv (snd (store_exec V op s)) \<and> fst (store_exec V op s) = fst (mem_exec op (abs s))
      \<and> abs (snd (store_exec V op s)) = snd (mem_exec op (abs s))"
begin

lemma run_refines:
  assumes "inv s" and "run_admissible ops (abs s)"
  shows "fst (store_run V ops s) = fst (store_run (MemorySessionStore (\<lambda>_. [])) ops (abs s)) \<and> inv (snd (store_run V ops s))
    \<and> abs (snd (store_run V ops s)) = snd (store_run (MemorySessionStore (\<lambda>_. [])) ops (abs s))"
  using assms
proof (induction ops arbitrary: s)
  case (Cons op ops)
  have r: "inv (snd (store_exec V op s))" "fst (store_exec V op s) = fst (mem_exec op (abs s))"
    "abs (snd (store_exec V op s)) = snd (mem_exec op (abs s))"
    using refines [of s op] Cons.prems by auto
  then show ?case
    using Cons.IH [OF r(1)] Cons.prems by (simp add: Let_def split_beta)
qed simp

lemma GetSession_eq:
  assumes "inv s" and "no_nul u"
  shows "fst (zs_GetSession V s u) = ms_sessions (abs s) u" and "inv (snd (zs_GetSession V s u))"
    and "abs (snd (zs_GetSession V s u)) = abs s"
  using refines [OF assms(1), of "SO_GetSession u"] assms(2) by (simp_all add: MemorySessionStore_GetSession_def)

lemma GetSessions_eq:
  assumes "inv s" and "list_all no_nul us"
  shows "fst (zs_GetSessions V s us) = List.map_filter (ms_sessions (abs s)) us" and "inv (snd (zs_GetSessions V s us))"
    and "abs (snd (zs_GetSessions V s us)) = abs s"
  using refines [OF assms(1), of "SO_GetSessions us"] assms(2) by (simp_all add: MemorySessionStore_GetSessions_def)

lemma GetGate_eq:
  assumes "inv s" and "gate_id_ok g"
  shows "fst (zs_GetGate V s g) = ms_gates (abs s) g" and "inv (snd (zs_GetGate V s g))"
    and "abs (snd (zs_GetGate V s g)) = abs s"
  using refines [OF assms(1), of "SO_GetGate g"] assms(2) by (simp_all add: MemorySessionStore_GetGate_def)

lemma SetOnline_eq:
  assumes "inv s" and "session_fits x"
  shows "fst (zs_SetOnline V s x)" and "inv (snd (zs_SetOnline V s x))"
    and "abs (snd (zs_SetOnline V s x)) = (abs s)\<lparr>ms_sessions := (ms_sessions (abs s))(us_user_id x \<mapsto> x)\<rparr>"
  using refines [OF assms(1), of "SO_SetOnline x"] assms(2) by (simp_all add: MemorySessionStore_SetOnline_def)

lemma SetOffline_eq:
  assumes "inv s" and "no_nul u"
  shows "fst (zs_SetOffline V s u)" and "inv (snd (zs_SetOffline V s u))"
    and "abs (snd (zs_SetOffline V s u)) = (abs s)\<lparr>ms_sessions := (ms_sessions (abs s))(u := None)\<rparr>"
  using refines [OF assms(1), of "SO_SetOffline u"] assms(2) by (simp_all add: MemorySessionStore_SetOffline_def)

lemma RegisterGate_eq:
  assumes "inv s" and "gate_fits n"
  shows "fst (zs_RegisterGate V s n)" and "inv (snd (zs_RegisterGate V s n))"
    and "abs (snd (zs_RegisterGate V s n)) = (abs s)\<lparr>ms_gates := (ms_gates (abs s))(gn_gate_id n \<mapsto> n)\<rparr>"
  using refines [OF assms(1), of "SO_RegisterGate n"] assms(2) by (simp_all add: MemorySessionStore_RegisterGate_def)

end

lemma memory_exec_order: "op_admissible op s \<Longrightarrow> store_exec (MemorySessionStore order) op s = mem_exec op s"
  by (cases op) simp_all

interpretation memory_zs: zone_store "MemorySessionStore order" "\<lambda>_. True" id for order
proof unfold_locales
  fix s op
  assume "op_admissible op (id s)"
  then show "True \<and> fst (store_exec (MemorySessionStore order) op s) = fst (mem_exec op (id s)) \<and>
      id (snd (store_exec (MemorySessionStore order) op s)) = snd (mem_exec op (id s))"
    using memory_exec_order [of op s order] by simp
qed

section \<open>A Redis server\<close>

text \<open>
  What the Redis documentation says of the commands, over the keys and their values: a hash or a set.  A
  command for the other kind of value is refused and changes nothing; \<^verbatim>\<open>EXPIRE\<close> tells whether the key is there.
\<close>

datatype RedisValue = RHash "string \<rightharpoonup> string" | RSet "string set"

definition hash_at :: "(string \<rightharpoonup> RedisValue) \<Rightarrow> string \<Rightarrow> (string \<rightharpoonup> string) option" where
  "hash_at ks key = (case ks key of None \<Rightarrow> Some Map.empty | Some (RHash h) \<Rightarrow> Some h | Some (RSet _) \<Rightarrow> None)"

definition set_at :: "(string \<rightharpoonup> RedisValue) \<Rightarrow> string \<Rightarrow> string set option" where
  "set_at ks key = (case ks key of None \<Rightarrow> Some {} | Some (RSet x) \<Rightarrow> Some x | Some (RHash _) \<Rightarrow> None)"

fun words_fields :: "string list \<Rightarrow> (string \<times> string) list" where
  "words_fields (f # v # ws) = (f, v) # words_fields ws"
| "words_fields _ = []"

lemma c_str_no_nul [simp]: "no_nul s \<Longrightarrow> c_str s = s"
  by (auto simp: c_str_def no_nul_def takeWhile_eq_all_conv)

lemma no_nul_append [simp]: "no_nul (s @ t) \<longleftrightarrow> no_nul s \<and> no_nul t"
  by (simp add: no_nul_def)

lemma no_nul_keys [simp]: "no_nul kZoneSessionPrefix" "no_nul kGatePrefix" "no_nul kGateListKey"
  by (simp_all add: no_nul_def kZoneSessionPrefix_def kGatePrefix_def kGateListKey_def)

lemma redis_keys_disjoint [simp]: "kZoneSessionPrefix @ u \<noteq> kGatePrefix @ g" "kGatePrefix @ g \<noteq> kZoneSessionPrefix @ u"
  "kZoneSessionPrefix @ u \<noteq> kGateListKey" "kGateListKey \<noteq> kZoneSessionPrefix @ u"
  "kGatePrefix @ g = kGateListKey \<longleftrightarrow> g = ''list''" "kGateListKey = kGatePrefix @ g \<longleftrightarrow> g = ''list''"
  by (auto simp: kZoneSessionPrefix_def kGatePrefix_def kGateListKey_def)

section \<open>What the hashes stand for\<close>

definition text_field :: "(string \<rightharpoonup> string) \<Rightarrow> string \<Rightarrow> string \<Rightarrow> string" where
  "text_field h f dflt = (case h f of Some v \<Rightarrow> v | None \<Rightarrow> dflt)"

definition num_field :: "(string \<Rightarrow> int option) \<Rightarrow> (string \<rightharpoonup> string) \<Rightarrow> string \<Rightarrow> int \<Rightarrow> int" where
  "num_field read h f dflt = (case h f of Some v \<Rightarrow> (case read v of Some n \<Rightarrow> n | None \<Rightarrow> dflt) | None \<Rightarrow> dflt)"

definition merge_session :: "UserSession \<Rightarrow> (string \<rightharpoonup> string) \<Rightarrow> UserSession" where
  "merge_session s h =
     \<lparr>us_user_id = us_user_id s, us_gate_id = text_field h ''gate_id'' (us_gate_id s), us_gate_addr = text_field h ''gate_addr'' (us_gate_addr s),
      us_device_type = text_field h ''device_type'' (us_device_type s), us_device_id = text_field h ''device_id'' (us_device_id s),
      us_online_at = num_field stoll h ''online_at'' (us_online_at s), us_last_active_at = num_field stoll h ''last_active_at'' (us_last_active_at s)\<rparr>"

definition merge_gate :: "GateNode \<Rightarrow> (string \<rightharpoonup> string) \<Rightarrow> GateNode" where
  "merge_gate n h =
     \<lparr>gn_gate_id = gn_gate_id n, gn_address = text_field h ''address'' (gn_address n),
      gn_current_connections = num_field stoi h ''current_connections'' (gn_current_connections n),
      gn_registered_at = num_field stoll h ''registered_at'' (gn_registered_at n),
      gn_last_heartbeat = num_field stoll h ''last_heartbeat'' (gn_last_heartbeat n)\<rparr>"

lemma field_empty [simp]: "text_field Map.empty f d = d" "num_field read Map.empty f n = n"
  by (simp_all add: text_field_def num_field_def)

lemma field_upd:
  assumes "h f = None"
  shows "text_field (h(f \<mapsto> v)) g d = text_field h g (if g = f then v else d)"
    and "num_field read (h(f \<mapsto> v)) g n = num_field read h g (if g = f then (case read v of Some k \<Rightarrow> k | None \<Rightarrow> n) else n)"
  using assms by (simp_all add: text_field_def num_field_def split: option.split)

lemma set_session_field_simps [simp]:
  "us_user_id (set_session_field s (f, v)) = us_user_id s"
  "us_gate_id (set_session_field s (f, v)) = (if f = ''gate_id'' then v else us_gate_id s)"
  "us_gate_addr (set_session_field s (f, v)) = (if f = ''gate_addr'' then v else us_gate_addr s)"
  "us_device_type (set_session_field s (f, v)) = (if f = ''device_type'' then v else us_device_type s)"
  "us_device_id (set_session_field s (f, v)) = (if f = ''device_id'' then v else us_device_id s)"
  "us_online_at (set_session_field s (f, v)) =
     (if f = ''online_at'' then (case stoll v of Some n \<Rightarrow> n | None \<Rightarrow> us_online_at s) else us_online_at s)"
  "us_last_active_at (set_session_field s (f, v)) =
     (if f = ''last_active_at'' then (case stoll v of Some n \<Rightarrow> n | None \<Rightarrow> us_last_active_at s) else us_last_active_at s)"
  by (simp_all add: set_session_field_def split: option.split)

lemma set_gate_field_simps [simp]:
  "gn_gate_id (set_gate_field s (f, v)) = gn_gate_id s"
  "gn_address (set_gate_field s (f, v)) = (if f = ''address'' then v else gn_address s)"
  "gn_current_connections (set_gate_field s (f, v)) =
     (if f = ''current_connections'' then (case stoi v of Some n \<Rightarrow> n | None \<Rightarrow> gn_current_connections s) else gn_current_connections s)"
  "gn_registered_at (set_gate_field s (f, v)) =
     (if f = ''registered_at'' then (case stoll v of Some n \<Rightarrow> n | None \<Rightarrow> gn_registered_at s) else gn_registered_at s)"
  "gn_last_heartbeat (set_gate_field s (f, v)) =
     (if f = ''last_heartbeat'' then (case stoll v of Some n \<Rightarrow> n | None \<Rightarrow> gn_last_heartbeat s) else gn_last_heartbeat s)"
  by (simp_all add: set_gate_field_def split: option.split)

lemma foldl_session: "distinct (map fst fvs) \<Longrightarrow> foldl set_session_field s fvs = merge_session s (map_of fvs)"
proof (induction fvs arbitrary: s)
  case (Cons fv fvs)
  obtain f v where fv: "fv = (f, v)" by (cases fv)
  have "map_of fvs f = None" using Cons.prems fv by (simp add: map_of_eq_None_iff)
  then have "merge_session (set_session_field s (f, v)) (map_of fvs) = merge_session s ((map_of fvs)(f \<mapsto> v))"
    by (simp add: merge_session_def field_upd eq_commute [of f])
  then show ?case using Cons fv by (simp add: fun_upd_def)
qed (simp add: merge_session_def)

lemma foldl_gate: "distinct (map fst fvs) \<Longrightarrow> foldl set_gate_field n fvs = merge_gate n (map_of fvs)"
proof (induction fvs arbitrary: n)
  case (Cons fv fvs)
  obtain f v where fv: "fv = (f, v)" by (cases fv)
  have "map_of fvs f = None" using Cons.prems fv by (simp add: map_of_eq_None_iff)
  then have "merge_gate (set_gate_field n (f, v)) (map_of fvs) = merge_gate n ((map_of fvs)(f \<mapsto> v))"
    by (simp add: merge_gate_def field_upd eq_commute [of f])
  then show ?case using Cons fv by (simp add: fun_upd_def)
qed (simp add: merge_gate_def)

fun hash_reply :: "(string \<times> string) list \<Rightarrow> redisReply list" where
  "hash_reply [] = []"
| "hash_reply ((f, v) # fvs) = REDIS_REPLY_STRING f # REDIS_REPLY_STRING v # hash_reply fvs"

lemma reply_fields_hash_reply [simp]: "reply_fields (hash_reply fvs) = fvs"
  by (induction fvs rule: hash_reply.induct) simp_all

lemma hash_reply_Nil [simp]: "hash_reply fvs = [] \<longleftrightarrow> fvs = []"
  by (cases fvs rule: hash_reply.cases) simp_all

definition stored_session :: "string \<Rightarrow> (string \<rightharpoonup> string) \<Rightarrow> UserSession" where
  "stored_session u h = merge_session (UserSession_default\<lparr>us_user_id := u\<rparr>) h"

definition stored_gate :: "string \<Rightarrow> (string \<rightharpoonup> string) \<Rightarrow> GateNode" where
  "stored_gate g h = merge_gate (GateNode_default\<lparr>gn_gate_id := g\<rparr>) h"

lemma ParseUserSessionHash_eq:
  assumes "distinct (map fst fvs)"
  shows "ParseUserSessionHash (Some (REDIS_REPLY_ARRAY (hash_reply fvs))) u =
    (if map_of fvs = Map.empty then None else Some (stored_session u (map_of fvs)))"
  using assms by (simp add: ParseUserSessionHash_def stored_session_def foldl_session)

lemma ParseGateNodeHash_eq:
  assumes "distinct (map fst fvs)"
  shows "ParseGateNodeHash (Some (REDIS_REPLY_ARRAY (hash_reply fvs))) g =
    (if map_of fvs = Map.empty then None else Some (stored_gate g (map_of fvs)))"
  using assms by (simp add: ParseGateNodeHash_def stored_gate_def foldl_gate)

definition hashed :: "(string \<rightharpoonup> RedisValue) \<Rightarrow> string \<Rightarrow> (string \<rightharpoonup> string) option" where
  "hashed ks key = (case ks key of Some (RHash h) \<Rightarrow> Some h | _ \<Rightarrow> None)"

definition redis_abs :: "(string \<rightharpoonup> RedisValue) \<Rightarrow> MemorySessions" where
  "redis_abs ks =
     \<lparr>ms_sessions = (\<lambda>u. if no_nul u then map_option (stored_session u) (hashed ks (kZoneSessionPrefix @ u)) else None),
      ms_gates = (\<lambda>g. if gate_id_ok g then map_option (stored_gate g) (hashed ks (kGatePrefix @ g)) else None)\<rparr>"

definition proper_hash :: "(string \<rightharpoonup> RedisValue) \<Rightarrow> string \<Rightarrow> bool" where
  "proper_hash ks key = (case ks key of None \<Rightarrow> True | Some (RHash h) \<Rightarrow> h \<noteq> Map.empty | Some (RSet _) \<Rightarrow> False)"

definition redis_keys_ok :: "(string \<rightharpoonup> RedisValue) \<Rightarrow> bool" where
  "redis_keys_ok ks \<longleftrightarrow> (\<forall>u. proper_hash ks (kZoneSessionPrefix @ u)) \<and> (\<forall>g. g \<noteq> ''list'' \<longrightarrow> proper_hash ks (kGatePrefix @ g))
     \<and> set_at ks kGateListKey \<noteq> None"

lemma proper_hash_at: "proper_hash ks key \<Longrightarrow> hash_at ks key = Some (case hashed ks key of None \<Rightarrow> Map.empty | Some h \<Rightarrow> h)"
  by (auto simp: proper_hash_def hash_at_def hashed_def split: option.splits RedisValue.splits)

lemma proper_hashed: "proper_hash ks key \<Longrightarrow> hashed ks key \<noteq> Some Map.empty" "proper_hash ks key \<Longrightarrow> hashed ks key = None \<longleftrightarrow> ks key = None"
  by (auto simp: proper_hash_def hashed_def split: option.splits RedisValue.splits)

lemma stored_session_written:
  assumes "session_fits x" and "ws = [''user_id'', us_user_id x, ''gate_id'', us_gate_id x, ''gate_addr'', us_gate_addr x,
    ''device_type'', us_device_type x, ''device_id'', us_device_id x, ''online_at'', to_string (us_online_at x),
    ''last_active_at'', to_string (us_last_active_at x)]"
  shows "stored_session (us_user_id x) (h ++ map_of (rev (words_fields ws))) = x"
  using assms
  by (simp add: stored_session_def merge_session_def text_field_def num_field_def stoll_to_string session_fits_def)

lemma stored_gate_written:
  assumes "gate_fits x" and "ws = [''gate_id'', gn_gate_id x, ''address'', gn_address x,
    ''current_connections'', to_string (gn_current_connections x), ''registered_at'', to_string (gn_registered_at x),
    ''last_heartbeat'', to_string (gn_last_heartbeat x)]"
  shows "stored_gate (gn_gate_id x) (h ++ map_of (rev (words_fields ws))) = x"
  using assms
  by (simp add: stored_gate_def merge_gate_def text_field_def num_field_def stoll_to_string stoi_to_string gate_fits_def)

lemma stored_session_active:
  assumes "is_int64 t"
  shows "stored_session u (h ++ map_of (rev (words_fields [''last_active_at'', to_string t]))) = (stored_session u h)\<lparr>us_last_active_at := t\<rparr>"
  using assms by (simp add: stored_session_def merge_session_def text_field_def num_field_def stoll_to_string)

lemma stored_gate_heartbeat:
  assumes "is_int64 t" and "is_int32 n"
  shows "stored_gate g (h ++ map_of (rev (words_fields [''current_connections'', to_string n, ''last_heartbeat'', to_string t]))) =
    (stored_gate g h)\<lparr>gn_current_connections := n, gn_last_heartbeat := t\<rparr>"
  using assms by (simp add: stored_gate_def merge_gate_def text_field_def num_field_def stoll_to_string stoi_to_string)

lemma hashed_upd [simp]:
  "hashed (ks(key \<mapsto> RHash h)) k = (if k = key then Some h else hashed ks k)"
  "hashed (ks(key := None)) k = (if k = key then None else hashed ks k)"
  by (simp_all add: hashed_def)

lemma redis_abs_session:
  "no_nul u \<Longrightarrow> redis_abs (ks(kZoneSessionPrefix @ u \<mapsto> RHash h)) =
     (redis_abs ks)\<lparr>ms_sessions := (ms_sessions (redis_abs ks))(u \<mapsto> stored_session u h)\<rparr>"
  "no_nul u \<Longrightarrow> redis_abs (ks(kZoneSessionPrefix @ u := None)) =
     (redis_abs ks)\<lparr>ms_sessions := (ms_sessions (redis_abs ks))(u := None)\<rparr>"
  by (simp_all add: redis_abs_def fun_eq_iff)

lemma redis_abs_gate:
  "gate_id_ok g \<Longrightarrow> redis_abs (ks(kGatePrefix @ g \<mapsto> RHash h)) =
     (redis_abs ks)\<lparr>ms_gates := (ms_gates (redis_abs ks))(g \<mapsto> stored_gate g h)\<rparr>"
  "gate_id_ok g \<Longrightarrow> redis_abs (ks(kGatePrefix @ g := None)) =
     (redis_abs ks)\<lparr>ms_gates := (ms_gates (redis_abs ks))(g := None)\<rparr>"
  by (simp_all add: redis_abs_def fun_eq_iff)

lemma redis_abs_list: "redis_abs (ks(kGateListKey := v)) = redis_abs ks"
  by (auto simp: redis_abs_def hashed_def fun_eq_iff gate_id_ok_def)

lemma redis_keys_ok_upd:
  "redis_keys_ok ks \<Longrightarrow> h \<noteq> Map.empty \<Longrightarrow> key \<noteq> kGateListKey \<Longrightarrow> redis_keys_ok (ks(key \<mapsto> RHash h))"
  "redis_keys_ok ks \<Longrightarrow> redis_keys_ok (ks(key := None))"
  "redis_keys_ok ks \<Longrightarrow> redis_keys_ok (ks(kGateListKey \<mapsto> RSet x))"
  by (auto simp: redis_keys_ok_def set_at_def proper_hash_def)

text \<open>
  \<open>keys\<close> are the keys with their values, \<open>ttl\<close> the seconds until the server removes a key (\<open>None\<close> without a timeout), and \<open>pass n\<close> is the
  server after \<open>n\<close> seconds in which no command came: the keys whose timeout has passed are gone.  \<^verbatim>\<open>EXPIRE\<close> with a positive number
  of seconds sets the timeout of a key that exists; writing fields or elements keeps it; deleting the key clears it.  The commands of one call
  of the store take less than a second, so that no timeout passes among them.
\<close>

definition timed_out :: "(string \<rightharpoonup> int) \<Rightarrow> nat \<Rightarrow> string \<Rightarrow> bool" where
  "timed_out tm n k = (case tm k of None \<Rightarrow> False | Some t \<Rightarrow> t \<le> int n)"

definition remaining :: "nat \<Rightarrow> (string \<rightharpoonup> int) \<Rightarrow> (string \<rightharpoonup> int) \<Rightarrow> string \<rightharpoonup> int" where
  "remaining n tm m k = (if timed_out tm n k then None else map_option (\<lambda>t. t - int n) (m k))"

definition surviving :: "nat \<Rightarrow> (string \<rightharpoonup> int) \<Rightarrow> (string \<rightharpoonup> 'a) \<Rightarrow> string \<rightharpoonup> 'a" where
  "surviving n tm m k = (if timed_out tm n k then None else m k)"

lemma surviving_simps [simp]: "surviving n t m k = (if timed_out t n k then None else m k)"
  by (simp add: surviving_def)

lemma hashed_surviving: "hashed (surviving n t ks) k = (if timed_out t n k then None else hashed ks k)"
  by (simp add: hashed_def)

lemma redis_keys_ok_surviving: "redis_keys_ok ks \<Longrightarrow> redis_keys_ok (surviving n t ks)"
  by (auto simp: redis_keys_ok_def proper_hash_def set_at_def)

text \<open>
  What the store on Redis promises, in terms of sessions and gates: the store in memory, with the seconds each session and each gate is still
  kept.  Setting a user online and touching its session give it \<open>kSessionExpireSeconds\<close>, registering a gate and its heartbeat give it
  \<open>kGateExpireSeconds\<close>.  Touching what is not there (any more) makes a record that has only the touched fields.
\<close>

record TimedSessions =
  ts_store :: MemorySessions
  ts_users :: "string \<rightharpoonup> int"
  ts_gates :: "string \<rightharpoonup> int"

definition touch_session :: "string \<Rightarrow> int \<Rightarrow> MemorySessions \<Rightarrow> MemorySessions" where
  "touch_session u t m =
     (let x = (case ms_sessions m u of Some x \<Rightarrow> x | None \<Rightarrow> UserSession_default\<lparr>us_user_id := u\<rparr>)
      in m\<lparr>ms_sessions := (ms_sessions m)(u \<mapsto> x\<lparr>us_last_active_at := t\<rparr>)\<rparr>)"

definition touch_gate :: "int \<Rightarrow> string \<Rightarrow> int \<Rightarrow> MemorySessions \<Rightarrow> MemorySessions" where
  "touch_gate now_s g n m =
     (let x = (case ms_gates m g of Some x \<Rightarrow> x | None \<Rightarrow> GateNode_default\<lparr>gn_gate_id := g\<rparr>)
      in m\<lparr>ms_gates := (ms_gates m)(g \<mapsto> x\<lparr>gn_current_connections := n, gn_last_heartbeat := now_s\<rparr>)\<rparr>)"

fun timed_exec :: "ZoneStoreOp \<Rightarrow> TimedSessions \<Rightarrow> ZoneStoreResult \<times> TimedSessions" where
  "timed_exec (SO_UpdateLastActive u t) e =
     (SR_Bool True, e\<lparr>ts_store := touch_session u t (ts_store e), ts_users := (ts_users e)(u \<mapsto> kSessionExpireSeconds)\<rparr>)"
| "timed_exec (SO_UpdateGateHeartbeat now_s g n) e =
     (SR_Bool True, e\<lparr>ts_store := touch_gate now_s g n (ts_store e), ts_gates := (ts_gates e)(g \<mapsto> kGateExpireSeconds)\<rparr>)"
| "timed_exec op e =
     (let (x, m) = mem_exec op (ts_store e)
      in (x, e\<lparr>ts_store := m,
             ts_users := (case op of SO_SetOnline session \<Rightarrow> (ts_users e)(us_user_id session \<mapsto> kSessionExpireSeconds)
                                   | SO_SetOffline u \<Rightarrow> (ts_users e)(u := None) | _ \<Rightarrow> ts_users e),
             ts_gates := (case op of SO_RegisterGate node \<Rightarrow> (ts_gates e)(gn_gate_id node \<mapsto> kGateExpireSeconds)
                                   | SO_UnregisterGate g \<Rightarrow> (ts_gates e)(g := None) | _ \<Rightarrow> ts_gates e)\<rparr>))"

definition timed_pass :: "nat \<Rightarrow> TimedSessions \<Rightarrow> TimedSessions" where
  "timed_pass n e =
     \<lparr>ts_store = \<lparr>ms_sessions = surviving n (ts_users e) (ms_sessions (ts_store e)), ms_gates = surviving n (ts_gates e) (ms_gates (ts_store e))\<rparr>,
      ts_users = remaining n (ts_users e) (ts_users e), ts_gates = remaining n (ts_gates e) (ts_gates e)\<rparr>"

text \<open>Calls of the store with time passing between them; the answers of the calls.\<close>

datatype StoreEvent = Store_Call ZoneStoreOp | Seconds nat

fun event_fits :: "StoreEvent \<Rightarrow> bool" where
  "event_fits (Store_Call op) = op_fits op"
| "event_fits (Seconds n) = True"

fun event_run :: "(ZoneStoreOp \<Rightarrow> 's \<Rightarrow> ZoneStoreResult \<times> 's) \<Rightarrow> (nat \<Rightarrow> 's \<Rightarrow> 's) \<Rightarrow> StoreEvent list \<Rightarrow> 's \<Rightarrow> ZoneStoreResult list \<times> 's" where
  "event_run exec elapse [] s = ([], s)"
| "event_run exec elapse (Store_Call op # evs) s = (let (x, s) = exec op s; (xs, s) = event_run exec elapse evs s in (x # xs, s))"
| "event_run exec elapse (Seconds n # evs) s = event_run exec elapse evs (elapse n s)"

text \<open>Nothing is dropped while time passes, and nothing is touched that is not there.\<close>

fun nothing_expires :: "StoreEvent list \<Rightarrow> TimedSessions \<Rightarrow> bool" where
  "nothing_expires [] e = True"
| "nothing_expires (Store_Call op # evs) e = (op_admissible op (ts_store e) \<and> nothing_expires evs (snd (timed_exec op e)))"
| "nothing_expires (Seconds n # evs) e = (ts_store (timed_pass n e) = ts_store e \<and> nothing_expires evs (timed_pass n e))"

lemma timed_as_memory:
  assumes "op_admissible op (ts_store e)"
  shows "fst (timed_exec op e) = fst (mem_exec op (ts_store e)) \<and> ts_store (snd (timed_exec op e)) = snd (mem_exec op (ts_store e))"
  using assms
  by (cases op) (auto simp: split_beta Let_def touch_session_def touch_gate_def MemorySessionStore_UpdateLastActive_def
      MemorySessionStore_UpdateGateHeartbeat_def)

lemma run_as_memory:
  assumes "nothing_expires evs e"
  shows "fst (event_run timed_exec timed_pass evs e) = fst (event_run mem_exec (\<lambda>_ m. m) evs (ts_store e))
    \<and> ts_store (snd (event_run timed_exec timed_pass evs e)) = snd (event_run mem_exec (\<lambda>_ m. m) evs (ts_store e))"
  using assms
proof (induction evs e rule: nothing_expires.induct)
  case (2 op evs e)
  then show ?case using timed_as_memory [of op e] by (simp add: split_beta Let_def)
qed simp_all

definition timed_abs :: "(string \<rightharpoonup> RedisValue) \<Rightarrow> (string \<rightharpoonup> int) \<Rightarrow> TimedSessions" where
  "timed_abs ks t =
     \<lparr>ts_store = redis_abs ks, ts_users = (\<lambda>u. if no_nul u then t (kZoneSessionPrefix @ u) else None),
      ts_gates = (\<lambda>g. if gate_id_ok g then t (kGatePrefix @ g) else None)\<rparr>"

lemma timed_abs_simps [simp]:
  "ts_store (timed_abs ks t) = redis_abs ks"
  "ts_users (timed_abs ks t) = (\<lambda>u. if no_nul u then t (kZoneSessionPrefix @ u) else None)"
  "ts_gates (timed_abs ks t) = (\<lambda>g. if gate_id_ok g then t (kGatePrefix @ g) else None)"
  by (simp_all add: timed_abs_def)

lemma timed_abs_iff: "timed_abs ks t = e \<longleftrightarrow> redis_abs ks = ts_store e
    \<and> (\<forall>u. ts_users e u = (if no_nul u then t (kZoneSessionPrefix @ u) else None))
    \<and> (\<forall>g. ts_gates e g = (if gate_id_ok g then t (kGatePrefix @ g) else None))"
  by (cases e) (auto simp: timed_abs_def fun_eq_iff)

lemma timed_abs_pass: "timed_abs (surviving n t ks) (remaining n t t) = timed_pass n (timed_abs ks t)"
  by (simp add: timed_abs_def timed_pass_def redis_abs_def hashed_surviving fun_eq_iff remaining_def timed_out_def split: option.split)

lemma stored_empty:
  "stored_session u Map.empty = UserSession_default\<lparr>us_user_id := u\<rparr>" "stored_gate g Map.empty = GateNode_default\<lparr>gn_gate_id := g\<rparr>"
  by (simp_all add: stored_session_def stored_gate_def merge_session_def merge_gate_def UserSession_default_def GateNode_default_def)

locale redis_server =
  fixes H :: "'r hiredis" and rc :: RedisConfig and connected :: "'r \<Rightarrow> bool" and keys :: "'r \<Rightarrow> string \<rightharpoonup> RedisValue"
    and ttl :: "'r \<Rightarrow> string \<rightharpoonup> int" and pass :: "nat \<Rightarrow> 'r \<Rightarrow> 'r"
  assumes connected: "connected r \<Longrightarrow> redis_err H r = Some False"
    and hash_write: "connected r \<Longrightarrow> c \<in> {''HMSET'', ''HSET''} \<Longrightarrow> hash_at (keys r) key = Some h \<Longrightarrow> ws \<noteq> [] \<Longrightarrow> even (length ws) \<Longrightarrow>
      \<exists>reply r'. redisvCommand H r (c # key # ws) = (Some reply, r') \<and> connected r'
        \<and> (c = ''HMSET'' \<longrightarrow> reply = REDIS_REPLY_STATUS ''OK'') \<and> keys r' = (keys r)(key \<mapsto> RHash (h ++ map_of (rev (words_fields ws))))
        \<and> ttl r' = ttl r"
    and expire: "connected r \<Longrightarrow> 0 < n \<Longrightarrow> is_int32 n \<Longrightarrow>
      \<exists>r'. redisvCommand H r [''EXPIRE'', key, to_string n] = (Some (REDIS_REPLY_INTEGER (if keys r key = None then 0 else 1)), r')
        \<and> connected r' \<and> keys r' = keys r \<and> ttl r' = (if keys r key = None then ttl r else (ttl r)(key \<mapsto> n))"
    and del: "connected r \<Longrightarrow>
      \<exists>reply r'. redisvCommand H r [''DEL'', key] = (Some reply, r') \<and> connected r' \<and> keys r' = (keys r)(key := None) \<and> ttl r' = (ttl r)(key := None)"
    and hgetall: "connected r \<Longrightarrow> hash_at (keys r) key = Some h \<Longrightarrow>
      \<exists>fvs r'. redisvCommand H r [''HGETALL'', key] =
          (Some (REDIS_REPLY_ARRAY (hash_reply fvs)), r')
        \<and> connected r' \<and> keys r' = keys r \<and> ttl r' = ttl r \<and> distinct (map fst fvs) \<and> map_of fvs = h"
    and exists: "connected r \<Longrightarrow>
      \<exists>r'. redisvCommand H r [''EXISTS'', key] = (Some (REDIS_REPLY_INTEGER (if keys r key = None then 0 else 1)), r')
        \<and> connected r' \<and> keys r' = keys r \<and> ttl r' = ttl r"
    and sadd: "connected r \<Longrightarrow> set_at (keys r) key = Some x \<Longrightarrow>
      \<exists>n r'. redisvCommand H r [''SADD'', key, m] = (Some (REDIS_REPLY_INTEGER n), r') \<and> connected r'
        \<and> keys r' = (keys r)(key \<mapsto> RSet (insert m x)) \<and> ttl r' = ttl r"
    and srem: "connected r \<Longrightarrow> set_at (keys r) key = Some x \<Longrightarrow>
      \<exists>reply r'. redisvCommand H r [''SREM'', key, m] = (Some reply, r') \<and> connected r'
        \<and> keys r' = (keys r)(key := (if x - {m} = {} then None else Some (RSet (x - {m}))))
        \<and> ttl r' = (if x - {m} = {} then (ttl r)(key := None) else ttl r)"
    and pass: "connected r \<Longrightarrow> connected (pass d r) \<and> keys (pass d r) = surviving d (ttl r) (keys r) \<and> ttl (pass d r) = remaining d (ttl r) (ttl r)"
begin

lemma expire_positive: "0 < kSessionExpireSeconds \<and> is_int32 kSessionExpireSeconds" "0 < kGateExpireSeconds \<and> is_int32 kGateExpireSeconds"
  by (simp_all add: kSessionExpireSeconds_def kGateExpireSeconds_def is_int32_def)

lemma EnsureConnected_eq: "connected r \<Longrightarrow> RedisSessionStore_EnsureConnected H rc r = (True, r)"
  by (simp add: RedisSessionStore_EnsureConnected_def connected)

lemma expire_eq:
  assumes "connected r" and "no_nul key" and "keys r key \<noteq> None" and "0 < n \<and> is_int32 n"
  obtains r' where "redis_expire H r key n ok = (True, r')" "connected r'" "keys r' = keys r" "ttl r' = (ttl r)(key \<mapsto> n)"
  using expire [of r n key] assms
  by (auto simp: redis_expire_def reply_int_def)

definition rinv :: "'r \<Rightarrow> bool" where
  "rinv r \<longleftrightarrow> connected r \<and> redis_keys_ok (keys r)"

abbreviation rabs :: "'r \<Rightarrow> MemorySessions" where
  "rabs r \<equiv> redis_abs (keys r)"

abbreviation tabs :: "'r \<Rightarrow> TimedSessions" where
  "tabs r \<equiv> timed_abs (keys r) (ttl r)"

lemma rinvD: "rinv r \<Longrightarrow> connected r" "rinv r \<Longrightarrow> redis_keys_ok (keys r)"
  by (simp_all add: rinv_def)

lemma hash_keys:
  assumes "rinv r"
  shows "proper_hash (keys r) (kZoneSessionPrefix @ u)" and "g \<noteq> ''list'' \<Longrightarrow> proper_hash (keys r) (kGatePrefix @ g)"
  using assms by (simp_all add: rinv_def redis_keys_ok_def)

lemma hgetall_session:
  assumes "rinv r" and "no_nul u"
  shows "fst (RedisSessionStore_GetSession H rc r u) = ms_sessions (rabs r) u"
    and "rinv (snd (RedisSessionStore_GetSession H rc r u))"
    and "keys (snd (RedisSessionStore_GetSession H rc r u)) = keys r" and "ttl (snd (RedisSessionStore_GetSession H rc r u)) = ttl r"
proof -
  note hk = hash_keys(1) [OF assms(1), of u]
  obtain fvs r' where "redisvCommand H r [''HGETALL'', kZoneSessionPrefix @ u] =
      (Some (REDIS_REPLY_ARRAY (hash_reply fvs)), r')"
    "connected r'" "keys r' = keys r" "ttl r' = ttl r" "distinct (map fst fvs)"
    "map_of fvs = (case hashed (keys r) (kZoneSessionPrefix @ u) of None \<Rightarrow> Map.empty | Some h \<Rightarrow> h)"
    using hgetall [OF rinvD(1) [OF assms(1)] proper_hash_at [OF hk]] by blast
  then show "fst (RedisSessionStore_GetSession H rc r u) = ms_sessions (rabs r) u"
    "rinv (snd (RedisSessionStore_GetSession H rc r u))" "keys (snd (RedisSessionStore_GetSession H rc r u)) = keys r"
    "ttl (snd (RedisSessionStore_GetSession H rc r u)) = ttl r"
    using assms proper_hashed(1) [OF hk]
    by (auto simp: RedisSessionStore_GetSession_def EnsureConnected_eq rinv_def ParseUserSessionHash_eq redis_abs_def
        split: option.splits)
qed

lemma hgetall_gate:
  assumes "rinv r" and "gate_id_ok g"
  shows "fst (RedisSessionStore_GetGate H rc r g) = ms_gates (rabs r) g"
    and "rinv (snd (RedisSessionStore_GetGate H rc r g))" and "keys (snd (RedisSessionStore_GetGate H rc r g)) = keys r"
    and "ttl (snd (RedisSessionStore_GetGate H rc r g)) = ttl r"
proof -
  have g: "no_nul g" "g \<noteq> ''list''" using assms(2) by (simp_all add: gate_id_ok_def)
  note hk = hash_keys(2) [OF assms(1) g(2)]
  obtain fvs r' where "redisvCommand H r [''HGETALL'', kGatePrefix @ g] =
      (Some (REDIS_REPLY_ARRAY (hash_reply fvs)), r')"
    "connected r'" "keys r' = keys r" "ttl r' = ttl r" "distinct (map fst fvs)"
    "map_of fvs = (case hashed (keys r) (kGatePrefix @ g) of None \<Rightarrow> Map.empty | Some h \<Rightarrow> h)"
    using hgetall [OF rinvD(1) [OF assms(1)] proper_hash_at [OF hk]] by blast
  then show "fst (RedisSessionStore_GetGate H rc r g) = ms_gates (rabs r) g"
    "rinv (snd (RedisSessionStore_GetGate H rc r g))" "keys (snd (RedisSessionStore_GetGate H rc r g)) = keys r"
    "ttl (snd (RedisSessionStore_GetGate H rc r g)) = ttl r"
    using assms g proper_hashed(1) [OF hk]
    by (auto simp: RedisSessionStore_GetGate_def EnsureConnected_eq rinv_def ParseGateNodeHash_eq redis_abs_def
        split: option.splits)
qed

lemma GetSessions_refines:
  assumes "rinv r" and "list_all no_nul us"
  shows "fst (RedisSessionStore_GetSessions H rc r us) = List.map_filter (ms_sessions (rabs r)) us
    \<and> rinv (snd (RedisSessionStore_GetSessions H rc r us)) \<and> keys (snd (RedisSessionStore_GetSessions H rc r us)) = keys r
    \<and> ttl (snd (RedisSessionStore_GetSessions H rc r us)) = ttl r"
  using assms
proof (induction us arbitrary: r)
  case (Cons u us)
  then have u: "no_nul u" by simp
  note g = hgetall_session [OF Cons.prems(1) u]
  show ?case
    using Cons.IH [OF g(2)] Cons.prems(2) g(1,3,4)
    by (auto simp: Let_def split_beta List.map_filter_simps split: option.splits)
qed (simp add: List.map_filter_simps)

lemma written_not_empty: "h ++ map_of (rev (words_fields (f # v # ws))) \<noteq> Map.empty"
proof
  assume "h ++ map_of (rev (words_fields (f # v # ws))) = Map.empty"
  then have "dom (h ++ map_of (rev (words_fields (f # v # ws)))) = {}" by simp
  then show False by (simp add: dom_map_of_conv_image_fst)
qed

text \<open>Writing a hash and renewing its expiry.\<close>

lemma write_hash:
  assumes r: "rinv r" and k: "no_nul key" "key \<noteq> kGateListKey" "proper_hash (keys r) key" and c: "c \<in> {''HMSET'', ''HSET''}"
    and ws: "ws = f # v # ws'" "even (length ws)"
  obtains reply r1 h where "redisvCommand H r (c # key # ws) = (Some reply, r1)" "c = ''HMSET'' \<longrightarrow> reply_ok reply"
    "\<And>n ok. 0 < n \<and> is_int32 n \<Longrightarrow> \<exists>r2. redis_expire H r1 key n ok = (True, r2) \<and> rinv r2 \<and> keys r2 = (keys r)(key \<mapsto> RHash (h ++ map_of (rev (words_fields ws))))
       \<and> ttl r2 = (ttl r)(key \<mapsto> n)"
    "h = (case hashed (keys r) key of None \<Rightarrow> Map.empty | Some h \<Rightarrow> h)"
proof -
  define h where "h = (case hashed (keys r) key of None \<Rightarrow> Map.empty | Some h \<Rightarrow> h)"
  have "hash_at (keys r) key = Some h" using proper_hash_at [OF k(3)] by (simp add: h_def)
  from hash_write [OF rinvD(1) [OF r] c this, of ws] ws obtain reply r1 where
    w: "redisvCommand H r (c # key # ws) = (Some reply, r1)" "connected r1" "c = ''HMSET'' \<longrightarrow> reply = REDIS_REPLY_STATUS ''OK''"
      "keys r1 = (keys r)(key \<mapsto> RHash (h ++ map_of (rev (words_fields ws))))" "ttl r1 = ttl r"
    by (auto simp: ws(1))
  have "\<exists>r2. redis_expire H r1 key n ok = (True, r2) \<and> rinv r2 \<and> keys r2 = keys r1 \<and> ttl r2 = (ttl r)(key \<mapsto> n)" if n: "0 < n \<and> is_int32 n" for n ok
  proof -
    obtain r2 where "redis_expire H r1 key n ok = (True, r2)" "connected r2" "keys r2 = keys r1" "ttl r2 = (ttl r)(key \<mapsto> n)"
      by (rule expire_eq [OF w(2) k(1), of n ok]) (simp_all add: w(4,5) n)
    moreover have "redis_keys_ok (keys r1)"
      unfolding w(4) ws(1) by (rule redis_keys_ok_upd(1) [OF rinvD(2) [OF r] written_not_empty k(2)])
    ultimately show ?thesis by (auto simp: rinv_def)
  qed
  then show thesis using that [OF w(1) _ _ h_def] w(3,4) by (simp add: reply_ok_def)
qed

lemma SetOnline_refines:
  assumes "rinv r" and "session_fits x"
  shows "fst (RedisSessionStore_SetOnline H rc r x) \<and> rinv (snd (RedisSessionStore_SetOnline H rc r x))
    \<and> rabs (snd (RedisSessionStore_SetOnline H rc r x)) = snd (MemorySessionStore_SetOnline (rabs r) x)
    \<and> ttl (snd (RedisSessionStore_SetOnline H rc r x)) = (ttl r)(kZoneSessionPrefix @ us_user_id x \<mapsto> kSessionExpireSeconds)"
proof -
  let ?ws = "[''user_id'', us_user_id x, ''gate_id'', us_gate_id x, ''gate_addr'', us_gate_addr x,
    ''device_type'', us_device_type x, ''device_id'', us_device_id x, ''online_at'', to_string (us_online_at x),
    ''last_active_at'', to_string (us_last_active_at x)]"
  have n: "no_nul (us_user_id x)" using assms(2) by (simp add: session_fits_def)
  obtain reply r1 h where w: "redisvCommand H r (''HMSET'' # (kZoneSessionPrefix @ us_user_id x) # ?ws) = (Some reply, r1)"
    "''HMSET'' = ''HMSET'' \<longrightarrow> reply_ok reply"
    "\<And>n ok. 0 < n \<and> is_int32 n \<Longrightarrow> \<exists>r2. redis_expire H r1 (kZoneSessionPrefix @ us_user_id x) n ok = (True, r2) \<and> rinv r2 \<and>
       keys r2 = (keys r)(kZoneSessionPrefix @ us_user_id x \<mapsto> RHash (h ++ map_of (rev (words_fields ?ws))))
       \<and> ttl r2 = (ttl r)(kZoneSessionPrefix @ us_user_id x \<mapsto> n)"
    by (rule write_hash [where key = "kZoneSessionPrefix @ us_user_id x" and c = "''HMSET''" and ws = ?ws,
          OF assms(1) _ _ hash_keys(1) [OF assms(1)]]) (use n in auto)
  obtain r2 where e: "redis_expire H r1 (kZoneSessionPrefix @ us_user_id x) kSessionExpireSeconds True = (True, r2)" "rinv r2"
       "keys r2 = (keys r)(kZoneSessionPrefix @ us_user_id x \<mapsto> RHash (h ++ map_of (rev (words_fields ?ws))))"
       "ttl r2 = (ttl r)(kZoneSessionPrefix @ us_user_id x \<mapsto> kSessionExpireSeconds)"
    using w(3) [OF expire_positive(1)] by blast
  have run: "RedisSessionStore_SetOnline H rc r x = (True, r2)"
    using assms w(1,2) e(1)
    by (simp add: RedisSessionStore_SetOnline_def EnsureConnected_eq rinvD Let_def session_fits_def)
  have "rabs r2 = (rabs r)\<lparr>ms_sessions := (ms_sessions (rabs r))(us_user_id x \<mapsto> x)\<rparr>"
    unfolding e(3) redis_abs_session(1) [OF n] stored_session_written [OF assms(2) refl] ..
  then show ?thesis using run e(2,4) by (simp add: MemorySessionStore_SetOnline_def)
qed

lemma UpdateLastActive_refines:
  assumes "rinv r" and "no_nul u" and "is_int64 t"
  shows "fst (RedisSessionStore_UpdateLastActive H rc r u t) \<and> rinv (snd (RedisSessionStore_UpdateLastActive H rc r u t))
    \<and> rabs (snd (RedisSessionStore_UpdateLastActive H rc r u t)) = touch_session u t (rabs r)
    \<and> ttl (snd (RedisSessionStore_UpdateLastActive H rc r u t)) = (ttl r)(kZoneSessionPrefix @ u \<mapsto> kSessionExpireSeconds)"
proof -
  let ?ws = "[''last_active_at'', to_string t]" and ?k = "kZoneSessionPrefix @ u"
  obtain reply r1 h where w: "redisvCommand H r (''HSET'' # ?k # ?ws) = (Some reply, r1)"
    "\<And>n ok. 0 < n \<and> is_int32 n \<Longrightarrow> \<exists>r2. redis_expire H r1 ?k n ok = (True, r2) \<and> rinv r2 \<and> keys r2 = (keys r)(?k \<mapsto> RHash (h ++ map_of (rev (words_fields ?ws))))
       \<and> ttl r2 = (ttl r)(?k \<mapsto> n)"
    "h = (case hashed (keys r) ?k of None \<Rightarrow> Map.empty | Some h \<Rightarrow> h)"
    by (rule write_hash [where key = ?k and c = "''HSET''" and ws = ?ws, OF assms(1) _ _ hash_keys(1) [OF assms(1)]])
      (use assms(2) in auto)
  obtain r2 where e: "redis_expire H r1 ?k kSessionExpireSeconds True = (True, r2)" "rinv r2"
       "keys r2 = (keys r)(?k \<mapsto> RHash (h ++ map_of (rev (words_fields ?ws))))" "ttl r2 = (ttl r)(?k \<mapsto> kSessionExpireSeconds)"
    using w(2) [OF expire_positive(1)] by blast
  have run: "RedisSessionStore_UpdateLastActive H rc r u t = (True, r2)"
    using assms(1,2) w(1) e(1) by (simp add: RedisSessionStore_UpdateLastActive_def EnsureConnected_eq rinvD Let_def)
  have "rabs r2 = (rabs r)\<lparr>ms_sessions := (ms_sessions (rabs r))(u \<mapsto> (stored_session u h)\<lparr>us_last_active_at := t\<rparr>)\<rparr>"
    unfolding e(3) redis_abs_session(1) [OF assms(2)] stored_session_active [OF assms(3)] ..
  then show ?thesis
    using run e(2,4) w(3) assms(2) by (simp add: touch_session_def redis_abs_def stored_empty split: option.split)
qed

lemma UpdateGateHeartbeat_refines:
  assumes "rinv r" and g: "gate_id_ok g" and "is_int64 t" and "is_int32 n"
  shows "fst (RedisSessionStore_UpdateGateHeartbeat H rc r t g n) \<and> rinv (snd (RedisSessionStore_UpdateGateHeartbeat H rc r t g n))
    \<and> rabs (snd (RedisSessionStore_UpdateGateHeartbeat H rc r t g n)) = touch_gate t g n (rabs r)
    \<and> ttl (snd (RedisSessionStore_UpdateGateHeartbeat H rc r t g n)) = (ttl r)(kGatePrefix @ g \<mapsto> kGateExpireSeconds)"
proof -
  let ?ws = "[''current_connections'', to_string n, ''last_heartbeat'', to_string t]" and ?k = "kGatePrefix @ g"
  have g': "no_nul g" "g \<noteq> ''list''" using g by (simp_all add: gate_id_ok_def)
  obtain reply r1 h where w: "redisvCommand H r (''HSET'' # ?k # ?ws) = (Some reply, r1)"
    "\<And>n ok. 0 < n \<and> is_int32 n \<Longrightarrow> \<exists>r2. redis_expire H r1 ?k n ok = (True, r2) \<and> rinv r2 \<and> keys r2 = (keys r)(?k \<mapsto> RHash (h ++ map_of (rev (words_fields ?ws))))
       \<and> ttl r2 = (ttl r)(?k \<mapsto> n)"
    "h = (case hashed (keys r) ?k of None \<Rightarrow> Map.empty | Some h \<Rightarrow> h)"
    by (rule write_hash [where key = ?k and c = "''HSET''" and ws = ?ws, OF assms(1) _ _ hash_keys(2) [OF assms(1) g'(2)]])
      (use g' in auto)
  obtain r2 where e: "redis_expire H r1 ?k kGateExpireSeconds False = (True, r2)" "rinv r2"
       "keys r2 = (keys r)(?k \<mapsto> RHash (h ++ map_of (rev (words_fields ?ws))))" "ttl r2 = (ttl r)(?k \<mapsto> kGateExpireSeconds)"
    using w(2) [OF expire_positive(2)] by blast
  have run: "RedisSessionStore_UpdateGateHeartbeat H rc r t g n = (True, r2)"
    using assms(1) g' w(1) e(1) by (simp add: RedisSessionStore_UpdateGateHeartbeat_def EnsureConnected_eq rinvD Let_def)
  have "rabs r2 = (rabs r)\<lparr>ms_gates := (ms_gates (rabs r))(g \<mapsto> (stored_gate g h)\<lparr>gn_current_connections := n, gn_last_heartbeat := t\<rparr>)\<rparr>"
    unfolding e(3) redis_abs_gate(1) [OF g] stored_gate_heartbeat [OF assms(3,4)] ..
  then show ?thesis
    using run e(2,4) w(3) g by (simp add: touch_gate_def redis_abs_def stored_empty split: option.split)
qed

lemma RegisterGate_refines:
  assumes "rinv r" and "gate_fits x"
  shows "fst (RedisSessionStore_RegisterGate H rc r x) \<and> rinv (snd (RedisSessionStore_RegisterGate H rc r x))
    \<and> rabs (snd (RedisSessionStore_RegisterGate H rc r x)) = snd (MemorySessionStore_RegisterGate (rabs r) x)
    \<and> ttl (snd (RedisSessionStore_RegisterGate H rc r x)) = (ttl r)(kGatePrefix @ gn_gate_id x \<mapsto> kGateExpireSeconds)"
proof -
  let ?ws = "[''gate_id'', gn_gate_id x, ''address'', gn_address x,
    ''current_connections'', to_string (gn_current_connections x), ''registered_at'', to_string (gn_registered_at x),
    ''last_heartbeat'', to_string (gn_last_heartbeat x)]" and ?k = "kGatePrefix @ gn_gate_id x"
  have g: "gate_id_ok (gn_gate_id x)" "no_nul (gn_address x)" using assms(2) by (simp_all add: gate_fits_def)
  then have g': "no_nul (gn_gate_id x)" "gn_gate_id x \<noteq> ''list''" by (simp_all add: gate_id_ok_def)
  obtain reply r1 h where w: "redisvCommand H r (''HMSET'' # ?k # ?ws) = (Some reply, r1)" "''HMSET'' = ''HMSET'' \<longrightarrow> reply_ok reply"
    "\<And>n ok. 0 < n \<and> is_int32 n \<Longrightarrow> \<exists>r2. redis_expire H r1 ?k n ok = (True, r2) \<and> rinv r2 \<and> keys r2 = (keys r)(?k \<mapsto> RHash (h ++ map_of (rev (words_fields ?ws))))
       \<and> ttl r2 = (ttl r)(?k \<mapsto> n)"
    by (rule write_hash [where key = ?k and c = "''HMSET''" and ws = ?ws, OF assms(1) _ _ hash_keys(2) [OF assms(1) g'(2)]])
      (use g' in auto)
  obtain r2 where e: "redis_expire H r1 ?k kGateExpireSeconds True = (True, r2)" "rinv r2"
       "keys r2 = (keys r)(?k \<mapsto> RHash (h ++ map_of (rev (words_fields ?ws))))" "ttl r2 = (ttl r)(?k \<mapsto> kGateExpireSeconds)"
    using w(3) [OF expire_positive(2)] by blast
  obtain ids where "set_at (keys r2) kGateListKey = Some ids"
    using rinvD(2) [OF e(2)] by (auto simp: redis_keys_ok_def)
  from sadd [OF rinvD(1) [OF e(2)] this, of "gn_gate_id x"] obtain n r3 where
    s: "redisvCommand H r2 [''SADD'', kGateListKey, gn_gate_id x] = (Some (REDIS_REPLY_INTEGER n), r3)" "connected r3"
      "keys r3 = (keys r2)(kGateListKey \<mapsto> RSet (insert (gn_gate_id x) ids))" "ttl r3 = ttl r2"
    by blast
  have run: "RedisSessionStore_RegisterGate H rc r x = (True, r3)"
    using assms(1) g(2) g'(1) w(1,2) e(1) s(1)
    by (simp add: RedisSessionStore_RegisterGate_def EnsureConnected_eq rinvD Let_def reply_int_def)
  have "rabs r3 = (rabs r)\<lparr>ms_gates := (ms_gates (rabs r))(gn_gate_id x \<mapsto> x)\<rparr>"
    unfolding s(3) redis_abs_list e(3) redis_abs_gate(1) [OF g(1)] stored_gate_written [OF assms(2) refl] ..
  moreover have "rinv r3" using s(2) redis_keys_ok_upd(3) [OF rinvD(2) [OF e(2)]] by (simp add: rinv_def s(3))
  ultimately show ?thesis using run s(4) e(4) by (simp add: MemorySessionStore_RegisterGate_def)
qed

lemma SetOffline_refines:
  assumes "rinv r" and "no_nul u"
  shows "fst (RedisSessionStore_SetOffline H rc r u) \<and> rinv (snd (RedisSessionStore_SetOffline H rc r u))
    \<and> rabs (snd (RedisSessionStore_SetOffline H rc r u)) = snd (MemorySessionStore_SetOffline (rabs r) u)
    \<and> ttl (snd (RedisSessionStore_SetOffline H rc r u)) = (ttl r)(kZoneSessionPrefix @ u := None)"
  using del [OF rinvD(1) [OF assms(1)], of "kZoneSessionPrefix @ u"] assms
  by (auto simp: RedisSessionStore_SetOffline_def EnsureConnected_eq rinv_def redis_abs_session redis_keys_ok_upd
      MemorySessionStore_SetOffline_def)

lemma IsOnline_refines:
  assumes "rinv r" and "no_nul u"
  shows "fst (RedisSessionStore_IsOnline H rc r u) = (ms_sessions (rabs r) u \<noteq> None) \<and> rinv (snd (RedisSessionStore_IsOnline H rc r u))
    \<and> rabs (snd (RedisSessionStore_IsOnline H rc r u)) = rabs r \<and> ttl (snd (RedisSessionStore_IsOnline H rc r u)) = ttl r"
proof -
  have "hashed (keys r) (kZoneSessionPrefix @ u) = None \<longleftrightarrow> keys r (kZoneSessionPrefix @ u) = None"
    by (rule proper_hashed(2) [OF hash_keys(1) [OF assms(1)]])
  then have "ms_sessions (rabs r) u = None \<longleftrightarrow> keys r (kZoneSessionPrefix @ u) = None"
    using assms(2) by (simp add: redis_abs_def)
  then show ?thesis
    using exists [OF rinvD(1) [OF assms(1)], of "kZoneSessionPrefix @ u"] assms
    by (auto simp: RedisSessionStore_IsOnline_def EnsureConnected_eq rinv_def reply_int_def)
qed

lemma UnregisterGate_refines:
  assumes "rinv r" and g: "gate_id_ok g"
  shows "fst (RedisSessionStore_UnregisterGate H rc r g) \<and> rinv (snd (RedisSessionStore_UnregisterGate H rc r g))
    \<and> rabs (snd (RedisSessionStore_UnregisterGate H rc r g)) = snd (MemorySessionStore_UnregisterGate (rabs r) g)
    \<and> (\<forall>k. k \<noteq> kGateListKey \<longrightarrow> ttl (snd (RedisSessionStore_UnregisterGate H rc r g)) k = ((ttl r)(kGatePrefix @ g := None)) k)"
proof -
  have g': "no_nul g" "g \<noteq> ''list''" using g by (simp_all add: gate_id_ok_def)
  obtain reply r1 where d: "redisvCommand H r [''DEL'', kGatePrefix @ g] = (Some reply, r1)" "connected r1"
    "keys r1 = (keys r)(kGatePrefix @ g := None)" "ttl r1 = (ttl r)(kGatePrefix @ g := None)"
    using del [OF rinvD(1) [OF assms(1)]] by blast
  have ok: "redis_keys_ok (keys r1)" by (simp add: d(3) redis_keys_ok_upd rinvD [OF assms(1)])
  then obtain x where "set_at (keys r1) kGateListKey = Some x" by (auto simp: redis_keys_ok_def)
  define v where "v = (if x - {g} = {} then None else Some (RSet (x - {g})))"
  from srem [OF d(2) \<open>set_at (keys r1) kGateListKey = Some x\<close>, of g] obtain reply' r2 where
    s: "redisvCommand H r1 [''SREM'', kGateListKey, g] = (Some reply', r2)" "connected r2" "keys r2 = (keys r1)(kGateListKey := v)"
      "\<And>k. k \<noteq> kGateListKey \<Longrightarrow> ttl r2 k = ttl r1 k"
    by (auto simp: v_def)
  have "redis_keys_ok (keys r2)" using redis_keys_ok_upd(2,3) [OF ok] by (simp add: s(3) v_def)
  moreover have "rabs r2 = snd (MemorySessionStore_UnregisterGate (rabs r) g)"
    by (simp add: s(3) redis_abs_list d(3) redis_abs_gate [OF g] MemorySessionStore_UnregisterGate_def)
  ultimately show ?thesis
    using d(1,4) s(1,2,4) g'
    by (simp add: RedisSessionStore_UnregisterGate_def EnsureConnected_eq [OF rinvD(1) [OF assms(1)]] rinv_def)
qed

lemma timed_refines:
  assumes "rinv r" and "op_fits op"
  shows "rinv (snd (store_exec (RedisSessionStore H rc) op r)) \<and> fst (store_exec (RedisSessionStore H rc) op r) = fst (timed_exec op (tabs r))
    \<and> tabs (snd (store_exec (RedisSessionStore H rc) op r)) = snd (timed_exec op (tabs r))"
proof (cases op)
  case (SO_UpdateLastActive u t)
  then show ?thesis using UpdateLastActive_refines [OF assms(1), of u t] assms(2) by (auto simp: timed_abs_iff)
next
  case (SO_UpdateGateHeartbeat now_s g n)
  then show ?thesis using UpdateGateHeartbeat_refines [OF assms(1), of g now_s n] assms(2) by (auto simp: timed_abs_iff)
next
  case (SO_GetSessions us)
  then show ?thesis
    using GetSessions_refines [OF assms(1), of us] assms(2) by (auto simp: timed_abs_iff MemorySessionStore_GetSessions_def)
next
  case (SO_SetOnline x)
  then show ?thesis
    using SetOnline_refines [OF assms(1), of x] assms(2) by (auto simp: timed_abs_iff MemorySessionStore_SetOnline_def session_fits_def)
next
  case (SO_SetOffline u)
  then show ?thesis
    using SetOffline_refines [OF assms(1), of u] assms(2) by (auto simp: timed_abs_iff MemorySessionStore_SetOffline_def)
next
  case (SO_GetSession u)
  then show ?thesis
    using hgetall_session [OF assms(1), of u] assms(2) by (auto simp: timed_abs_iff MemorySessionStore_GetSession_def)
next
  case (SO_IsOnline u)
  then show ?thesis
    using IsOnline_refines [OF assms(1), of u] assms(2) by (auto simp: timed_abs_iff MemorySessionStore_IsOnline_def)
next
  case (SO_RegisterGate x)
  then show ?thesis
    using RegisterGate_refines [OF assms(1), of x] assms(2) by (auto simp: timed_abs_iff MemorySessionStore_RegisterGate_def gate_fits_def)
next
  case (SO_UnregisterGate g)
  then show ?thesis
    using UnregisterGate_refines [OF assms(1), of g] assms(2)
    by (auto simp: timed_abs_iff MemorySessionStore_UnregisterGate_def gate_id_ok_def)
next
  case (SO_GetGate g)
  then show ?thesis
    using hgetall_gate [OF assms(1), of g] assms(2) by (auto simp: timed_abs_iff MemorySessionStore_GetGate_def)
qed

lemma pass_refines:
  assumes "rinv r"
  shows "rinv (pass n r) \<and> tabs (pass n r) = timed_pass n (tabs r)"
  using pass [OF rinvD(1) [OF assms], of n] rinvD(2) [OF assms] by (simp add: rinv_def redis_keys_ok_surviving timed_abs_pass)

lemma redis_refines:
  assumes "rinv r" and "op_admissible op (rabs r)"
  shows "rinv (snd (store_exec (RedisSessionStore H rc) op r)) \<and> fst (store_exec (RedisSessionStore H rc) op r) = fst (mem_exec op (rabs r))
    \<and> rabs (snd (store_exec (RedisSessionStore H rc) op r)) = snd (mem_exec op (rabs r))"
proof -
  have "op_admissible op (ts_store (tabs r))" using assms(2) by (simp add: timed_abs_def)
  from timed_refines [OF assms(1), of op] timed_as_memory [OF this] assms(2) show ?thesis
    by (metis op_admissible_def timed_abs_simps(1))
qed

lemma timed_run_refines:
  assumes "rinv r" and "list_all event_fits evs"
  shows "fst (event_run (store_exec (RedisSessionStore H rc)) pass evs r) = fst (event_run timed_exec timed_pass evs (tabs r))
    \<and> rinv (snd (event_run (store_exec (RedisSessionStore H rc)) pass evs r))
    \<and> tabs (snd (event_run (store_exec (RedisSessionStore H rc)) pass evs r)) = snd (event_run timed_exec timed_pass evs (tabs r))"
  using assms
proof (induction evs arbitrary: r)
  case (Cons ev evs)
  show ?case
  proof (cases ev)
    case (Store_Call op)
    have "rinv (snd (store_exec (RedisSessionStore H rc) op r))" using timed_refines [OF Cons.prems(1), of op] Cons.prems(2) Store_Call by simp
    from Cons.IH [OF this] timed_refines [OF Cons.prems(1), of op] Cons.prems(2) Store_Call show ?thesis by (simp add: Let_def split_beta)
  next
    case (Seconds n)
    then show ?thesis
      using Cons.IH [of "pass n r"] pass_refines [OF Cons.prems(1), of n] Cons.prems(2) by simp
  qed
qed simp

end

sublocale redis_server \<subseteq> redis_zs: zone_store "RedisSessionStore H rc" rinv "\<lambda>r. redis_abs (keys r)"
  by unfold_locales (rule redis_refines)

section \<open>A table as Redis server\<close>

text \<open>
  A server that follows the documentation: the keys in a list, with the fields of a hash and the elements of a set as lists, and the timeouts of
  the keys that have one.
\<close>

datatype TableValue = THash "(string \<times> string) list" | TSet "string list"

type_synonym Table = "(string \<times> TableValue) list"

fun table_value :: "TableValue \<Rightarrow> RedisValue" where
  "table_value (THash fvs) = RHash (map_of fvs)"
| "table_value (TSet xs) = RSet (set xs)"

definition table_keys :: "Table \<Rightarrow> string \<rightharpoonup> RedisValue" where
  "table_keys s key = map_option table_value (map_of s key)"

definition table_ok :: "Table \<Rightarrow> bool" where
  "table_ok s \<longleftrightarrow> (\<forall>key fvs. map_of s key = Some (THash fvs) \<longrightarrow> distinct (map fst fvs))"

definition table_hash :: "Table \<Rightarrow> string \<Rightarrow> (string \<times> string) list option" where
  "table_hash s key = (case map_of s key of None \<Rightarrow> Some [] | Some (THash fvs) \<Rightarrow> Some fvs | Some (TSet _) \<Rightarrow> None)"

definition table_set :: "Table \<Rightarrow> string \<Rightarrow> string list option" where
  "table_set s key = (case map_of s key of None \<Rightarrow> Some [] | Some (TSet xs) \<Rightarrow> Some xs | Some (THash _) \<Rightarrow> None)"

definition table_command :: "Table \<times> (string \<rightharpoonup> int) \<Rightarrow> string list \<Rightarrow> redisReply option \<times> Table \<times> (string \<rightharpoonup> int)" where
  "table_command st words =
     (case (st, words) of
        ((s, t), c # key # ws) \<Rightarrow>
          if c = ''HMSET'' \<or> c = ''HSET'' then
            (case table_hash s key of
               None \<Rightarrow> (Some (REDIS_REPLY_ERROR ''WRONGTYPE''), s, t)
             | Some fvs \<Rightarrow> (Some (if c = ''HMSET'' then REDIS_REPLY_STATUS ''OK'' else REDIS_REPLY_INTEGER 0),
                 AList.update key (THash (foldl (\<lambda>al (f, v). AList.update f v al) fvs (words_fields ws))) s, t))
          else if c = ''EXPIRE'' then
            (case (map_of s key, stoll (hd ws)) of
               (_, None) \<Rightarrow> (Some (REDIS_REPLY_ERROR ''ERR value is not an integer or out of range''), s, t)
             | (None, Some n) \<Rightarrow> (Some (REDIS_REPLY_INTEGER 0), s, t)
             | (Some _, Some n) \<Rightarrow> (Some (REDIS_REPLY_INTEGER 1), if 0 < n then (s, t(key \<mapsto> n)) else (AList.delete key s, t(key := None))))
          else if c = ''EXISTS'' then (Some (REDIS_REPLY_INTEGER (if map_of s key = None then 0 else 1)), s, t)
          else if c = ''DEL'' then (Some (REDIS_REPLY_INTEGER (if map_of s key = None then 0 else 1)), AList.delete key s, t(key := None))
          else if c = ''HGETALL'' then
            (case table_hash s key of
               None \<Rightarrow> (Some (REDIS_REPLY_ERROR ''WRONGTYPE''), s, t)
             | Some fvs \<Rightarrow> (Some (REDIS_REPLY_ARRAY (hash_reply fvs)), s, t))
          else
            (case table_set s key of
               None \<Rightarrow> (Some (REDIS_REPLY_ERROR ''WRONGTYPE''), s, t)
             | Some xs \<Rightarrow>
                 if c = ''SADD'' then (Some (REDIS_REPLY_INTEGER 1), AList.update key (TSet (List.insert (hd ws) xs)) s, t)
                 else if c = ''SREM'' then
                   (let ys = removeAll (hd ws) xs
                    in (Some (REDIS_REPLY_INTEGER 1), if ys = [] then (AList.delete key s, t(key := None)) else (AList.update key (TSet ys) s, t)))
                 else if c = ''SMEMBERS'' then (Some (REDIS_REPLY_ARRAY (map REDIS_REPLY_STRING xs)), s, t)
                 else (Some (REDIS_REPLY_ERROR ''ERR unknown command''), s, t))
      | _ \<Rightarrow> (Some (REDIS_REPLY_ERROR ''ERR unknown command''), st))"

definition table_pass :: "nat \<Rightarrow> Table \<times> (string \<rightharpoonup> int) \<Rightarrow> Table \<times> (string \<rightharpoonup> int)" where
  "table_pass n st = (case st of (s, t) \<Rightarrow> (filter (\<lambda>(key, v). \<not> timed_out t n key) s, remaining n t t))"

definition table_redis :: "(Table \<times> (string \<rightharpoonup> int)) hiredis" where
  "table_redis = \<lparr>redis_err = (\<lambda>s. Some False), redisFree = (\<lambda>s. s), redisConnect = (\<lambda>s host port. s), redisvCommand = table_command\<rparr>"

lemma map_of_filter_key: "map_of (filter (\<lambda>(key, v). P key) s) k = (if P k then map_of s k else None)"
  by (induction s) auto

lemma table_pass_simps:
  "table_keys (fst (table_pass n st)) = surviving n (snd st) (table_keys (fst st))" "snd (table_pass n st) = remaining n (snd st) (snd st)"
  "table_ok (fst st) \<Longrightarrow> table_ok (fst (table_pass n st))"
  by (auto simp: table_pass_def table_keys_def table_ok_def fun_eq_iff map_of_filter_key split_beta split: if_splits)

lemma foldl_update_map: "map_of (foldl (\<lambda>al (f, v). AList.update f v al) fvs ws) = map_of fvs ++ map_of (rev ws)"
proof (induction ws arbitrary: fvs)
  case (Cons fv ws)
  have "map_of fvs ++ map_of (rev (fv # ws)) = (map_of fvs)(fst fv \<mapsto> snd fv) ++ map_of (rev ws)"
    by (cases fv) (auto simp: map_add_def fun_eq_iff split: option.splits)
  then show ?case using Cons by (simp add: split_beta update_conv' fun_upd_def)
qed simp

lemma foldl_update_distinct:
  "distinct (map fst fvs) \<Longrightarrow> distinct (map fst (foldl (\<lambda>al (f, v). AList.update f v al) fvs ws))"
  by (induction ws arbitrary: fvs) (auto simp: split_beta distinct_update)

lemma table_hash_at:
  assumes "table_ok s" and "hash_at (table_keys s) key = Some h"
  obtains fvs where "table_hash s key = Some fvs" "distinct (map fst fvs)" "map_of fvs = h"
proof (cases "map_of s key")
  case (Some v)
  then show ?thesis
    using assms that by (cases v) (auto simp: hash_at_def table_keys_def table_hash_def table_ok_def)
qed (use assms that in \<open>auto simp: hash_at_def table_keys_def table_hash_def\<close>)

lemma table_set_at: "set_at (table_keys s) key = Some x \<Longrightarrow> \<exists>xs. table_set s key = Some xs \<and> set xs = x"
  by (cases "map_of s key"; cases "the (map_of s key)") (auto simp: set_at_def table_keys_def table_set_def)

lemma table_keys_upd:
  "table_keys (AList.update key v s) = (table_keys s)(key \<mapsto> table_value v)"
  "table_keys (AList.delete key s) = (table_keys s)(key := None)"
  by (simp_all add: table_keys_def fun_eq_iff update_conv' delete_conv')

lemma table_ok_upd:
  "table_ok s \<Longrightarrow> distinct (map fst fvs) \<Longrightarrow> table_ok (AList.update key (THash fvs) s)"
  "table_ok s \<Longrightarrow> table_ok (AList.update key (TSet xs) s)"
  "table_ok s \<Longrightarrow> table_ok (AList.delete key s)"
  by (auto simp: table_ok_def update_conv' delete_conv' split: if_splits)

lemma table_keys_None: "map_of s key = None \<longleftrightarrow> table_keys s key = None"
  by (simp add: table_keys_def)

interpretation table: redis_server table_redis rc "\<lambda>st. table_ok (fst st)" "\<lambda>st. table_keys (fst st)" snd table_pass for rc
proof unfold_locales
  fix r :: "Table \<times> (string \<rightharpoonup> int)" and c key h ws
  assume a: "table_ok (fst r)" "c \<in> {''HMSET'', ''HSET''}" "hash_at (table_keys (fst r)) key = Some h"
  obtain fvs where "table_hash (fst r) key = Some fvs" "distinct (map fst fvs)" "map_of fvs = h"
    by (rule table_hash_at [OF a(1,3)])
  then show "\<exists>reply r'. redisvCommand table_redis r (c # key # ws) = (Some reply, r') \<and> table_ok (fst r')
      \<and> (c = ''HMSET'' \<longrightarrow> reply = REDIS_REPLY_STATUS ''OK'')
      \<and> table_keys (fst r') = (table_keys (fst r))(key \<mapsto> RHash (h ++ map_of (rev (words_fields ws)))) \<and> snd r' = snd r"
    using a by (cases r) (auto simp: table_redis_def table_command_def table_keys_upd table_ok_upd foldl_update_map foldl_update_distinct)
next
  fix r :: "Table \<times> (string \<rightharpoonup> int)" and n :: int and key
  assume a: "table_ok (fst r)" "0 < n" "is_int32 n"
  then have "stoll (to_string n) = Some n" by (intro stoll_to_string) (simp add: is_int32_def is_int64_def)
  then show "\<exists>r'. redisvCommand table_redis r [''EXPIRE'', key, to_string n] =
        (Some (REDIS_REPLY_INTEGER (if table_keys (fst r) key = None then 0 else 1)), r')
      \<and> table_ok (fst r') \<and> table_keys (fst r') = table_keys (fst r)
      \<and> snd r' = (if table_keys (fst r) key = None then snd r else (snd r)(key \<mapsto> n))"
    using a by (cases r) (auto simp: table_redis_def table_command_def table_keys_None [symmetric] split: option.split)
next
  fix r :: "Table \<times> (string \<rightharpoonup> int)" and key h
  assume a: "table_ok (fst r)" "hash_at (table_keys (fst r)) key = Some h"
  obtain fvs where "table_hash (fst r) key = Some fvs" "distinct (map fst fvs)" "map_of fvs = h"
    by (rule table_hash_at [OF a])
  then show "\<exists>fvs r'. redisvCommand table_redis r [''HGETALL'', key] = (Some (REDIS_REPLY_ARRAY (hash_reply fvs)), r')
      \<and> table_ok (fst r') \<and> table_keys (fst r') = table_keys (fst r) \<and> snd r' = snd r \<and> distinct (map fst fvs) \<and> map_of fvs = h"
    using a by (cases r) (auto simp: table_redis_def table_command_def)
next
  fix r :: "Table \<times> (string \<rightharpoonup> int)" and key x m
  assume a: "table_ok (fst r)" "set_at (table_keys (fst r)) key = Some x"
  obtain xs where xs: "table_set (fst r) key = Some xs" "set xs = x" using table_set_at [OF a(2)] by blast
  show "\<exists>n r'. redisvCommand table_redis r [''SADD'', key, m] = (Some (REDIS_REPLY_INTEGER n), r') \<and> table_ok (fst r')
      \<and> table_keys (fst r') = (table_keys (fst r))(key \<mapsto> RSet (insert m x)) \<and> snd r' = snd r"
    using a(1) xs by (cases r) (auto simp: table_redis_def table_command_def table_keys_upd table_ok_upd)
  have "removeAll m xs = [] \<longleftrightarrow> x - {m} = {}" using xs(2) set_removeAll [of m xs] by (metis set_empty)
  then show "\<exists>reply r'. redisvCommand table_redis r [''SREM'', key, m] = (Some reply, r') \<and> table_ok (fst r')
      \<and> table_keys (fst r') = (table_keys (fst r))(key := (if x - {m} = {} then None else Some (RSet (x - {m}))))
      \<and> snd r' = (if x - {m} = {} then (snd r)(key := None) else snd r)"
    using a(1) xs by (cases r) (simp add: table_redis_def table_command_def table_keys_upd table_ok_upd Let_def)
qed (auto simp: table_redis_def table_command_def table_keys_upd table_ok_upd table_keys_None table_pass_simps split_beta)

lemma table_empty [simp]: "table_ok []" "redis_keys_ok (table_keys [])" "redis_abs (table_keys []) = MemorySessions_empty"
  by (simp_all add: table_ok_def table_keys_def redis_keys_ok_def proper_hash_def set_at_def redis_abs_def
      hashed_def MemorySessions_empty_def fun_eq_iff)

section \<open>Properties\<close>

text \<open>C36: the store on Redis is the store in memory with expiry.  On a connected server that follows the documentation and whose keys are
  in order, take any sequence of calls of the store (all but the listing of the gates), with any number of seconds passing between them.  The
  answers, and the sessions and gates the server's keys then stand for, are those of a table in memory from which a session disappears when it
  was not set or touched for 3600 seconds, and a gate when it was neither registered nor heard of for 60.  As long as nothing disappears and nothing
  is touched that is not there, they are the answers and the state of \<^verbatim>\<open>MemorySessionStore\<close>, which never forgets.  Touching what is not there is
  where the two differ otherwise: the store in memory refuses the heartbeat of an unknown gate, Redis accepts it and then knows a gate without an
  address.  Strings have no null characters, numbers fit their C++ types, no gate is called \<open>list\<close>, and no timeout passes among the commands
  of one call.\<close>

theorem redis_simulates_memory:
  assumes "redis_server H connected keys ttl pass" and "connected r" and "redis_keys_ok (keys r)" and "list_all event_fits evs"
    and "(answers, r') = event_run (store_exec (RedisSessionStore H rc)) pass evs r"
  shows "answers = fst (event_run timed_exec timed_pass evs (timed_abs (keys r) (ttl r)))
    \<and> timed_abs (keys r') (ttl r') = snd (event_run timed_exec timed_pass evs (timed_abs (keys r) (ttl r)))
    \<and> (nothing_expires evs (timed_abs (keys r) (ttl r)) \<longrightarrow>
         answers = fst (event_run mem_exec (\<lambda>_ m. m) evs (redis_abs (keys r)))
         \<and> redis_abs (keys r') = snd (event_run mem_exec (\<lambda>_ m. m) evs (redis_abs (keys r))))
    \<and> (\<forall>g now_s n. gate_id_ok g \<and> is_int64 now_s \<and> is_int32 n \<and> ms_gates (redis_abs (keys r')) g = None \<longrightarrow>
         \<not> fst (MemorySessionStore_UpdateGateHeartbeat (redis_abs (keys r')) now_s g n)
         \<and> fst (RedisSessionStore_UpdateGateHeartbeat H rc r' now_s g n)
         \<and> map_option gn_address (ms_gates (redis_abs (keys (snd (RedisSessionStore_UpdateGateHeartbeat H rc r' now_s g n)))) g) = Some [])"
proof -
  have "redis_server.rinv connected keys r" using assms(2,3) by (simp add: redis_server.rinv_def [OF assms(1)])
  from redis_server.timed_run_refines [OF assms(1) this assms(4), of rc] assms(5)
  have run: "answers = fst (event_run timed_exec timed_pass evs (timed_abs (keys r) (ttl r)))" "redis_server.rinv connected keys r'"
    "timed_abs (keys r') (ttl r') = snd (event_run timed_exec timed_pass evs (timed_abs (keys r) (ttl r)))"
    by (metis fst_conv snd_conv)+
  have mem: "nothing_expires evs (timed_abs (keys r) (ttl r)) \<longrightarrow> answers = fst (event_run mem_exec (\<lambda>_ m. m) evs (redis_abs (keys r)))
         \<and> redis_abs (keys r') = snd (event_run mem_exec (\<lambda>_ m. m) evs (redis_abs (keys r)))"
    using run_as_memory [of evs "timed_abs (keys r) (ttl r)"] run(1) run(3) [symmetric] by simp
  show ?thesis
    using run(1,3) mem redis_server.UpdateGateHeartbeat_refines [OF assms(1) run(2), of _ _ _ rc]
    by (simp add: MemorySessionStore_UpdateGateHeartbeat_def touch_gate_def GateNode_default_def)
qed

definition demo_node :: GateNode where
  "demo_node = \<lparr>gn_gate_id = ''g1'', gn_address = ''host:9091'', gn_current_connections = 0, gn_registered_at = 5, gn_last_heartbeat = 5\<rparr>"

definition demo_session :: UserSession where
  "demo_session = \<lparr>us_user_id = ''alice'', us_gate_id = ''g1'', us_gate_addr = ''host:9091'', us_device_type = ''web'', us_device_id = ''d1'',
     us_online_at = 6, us_last_active_at = 6\<rparr>"

definition demo_events :: "StoreEvent list" where
  "demo_events = [Store_Call (SO_RegisterGate demo_node), Store_Call (SO_SetOnline demo_session), Seconds 40,
     Store_Call (SO_UpdateGateHeartbeat 7 ''g1'' 3), Seconds 40, Store_Call (SO_GetGate ''g1''), Seconds 20, Store_Call (SO_GetGate ''g1''),
     Store_Call (SO_GetSessions [''bob'', ''alice'']), Seconds 3500, Store_Call (SO_IsOnline ''alice'')]"

lemmas demo_simps = demo_events_def demo_node_def demo_session_def gate_fits_def session_fits_def gate_id_ok_def no_nul_def is_int32_def
  is_int64_def MemorySessions_empty_def

lemmas memory_ops_defs = MemorySessionStore_RegisterGate_def MemorySessionStore_SetOnline_def MemorySessionStore_UpdateGateHeartbeat_def
  MemorySessionStore_GetGate_def MemorySessionStore_GetSessions_def MemorySessionStore_SetOffline_def MemorySessionStore_IsOnline_def

lemma table_timed_empty: "timed_abs (table_keys []) Map.empty = \<lparr>ts_store = MemorySessions_empty, ts_users = Map.empty, ts_gates = Map.empty\<rparr>"
  by (simp add: timed_abs_def)

text \<open>The gate answers 40 seconds after its heartbeat and is gone after 60; the session lives 3600.\<close>

lemma demo_answers: "fst (event_run timed_exec timed_pass demo_events \<lparr>ts_store = MemorySessions_empty, ts_users = Map.empty, ts_gates = Map.empty\<rparr>) =
  [SR_Bool True, SR_Bool True, SR_Bool True, SR_Gate (Some (demo_node\<lparr>gn_current_connections := 3, gn_last_heartbeat := 7\<rparr>)),
   SR_Gate None, SR_Sessions [demo_session], SR_Bool False]"
  by (simp add: demo_events_def demo_node_def demo_session_def MemorySessions_empty_def memory_ops_defs timed_pass_def touch_gate_def
      timed_out_def remaining_def kGateExpireSeconds_def kSessionExpireSeconds_def List.map_filter_simps)

theorem redis_simulates_memory_witness:
  "list_all event_fits demo_events
   \<and> fst (event_run (store_exec (RedisSessionStore table_redis \<lparr>rc_host = ''localhost'', rc_port = 6379\<rparr>)) table_pass demo_events ([], Map.empty)) =
     [SR_Bool True, SR_Bool True, SR_Bool True, SR_Gate (Some (demo_node\<lparr>gn_current_connections := 3, gn_last_heartbeat := 7\<rparr>)),
      SR_Gate None, SR_Sessions [demo_session], SR_Bool False]
   \<and> fst (event_run (store_exec (RedisSessionStore table_redis \<lparr>rc_host = ''localhost'', rc_port = 6379\<rparr>)) table_pass (take 5 demo_events) ([], Map.empty)) =
     fst (event_run mem_exec (\<lambda>_ m. m) (take 5 demo_events) MemorySessions_empty)"
proof -
  let ?V = "RedisSessionStore table_redis \<lparr>rc_host = ''localhost'', rc_port = 6379\<rparr>"
  have fits: "list_all event_fits demo_events" "list_all event_fits (take 5 demo_events)" by (simp_all add: demo_simps)
  have quiet: "nothing_expires (take 5 demo_events) (timed_abs (table_keys []) Map.empty)"
    unfolding table_timed_empty
    by (simp add: demo_simps memory_ops_defs timed_pass_def touch_gate_def timed_out_def remaining_def kGateExpireSeconds_def
        kSessionExpireSeconds_def fun_eq_iff)
  note sim = redis_simulates_memory [OF table.redis_server_axioms, where r = "([], Map.empty)", simplified, OF _ prod.collapse,
      where rc = "\<lparr>rc_host = ''localhost'', rc_port = 6379\<rparr>"]
  have "fst (event_run (store_exec ?V) table_pass demo_events ([], Map.empty)) =
      fst (event_run timed_exec timed_pass demo_events (timed_abs (table_keys []) Map.empty))"
    using sim [OF fits(1)] by blast
  moreover have "fst (event_run (store_exec ?V) table_pass (take 5 demo_events) ([], Map.empty)) =
      fst (event_run mem_exec (\<lambda>_ m. m) (take 5 demo_events) MemorySessions_empty)"
    using sim [OF fits(2)] quiet by blast
  ultimately show ?thesis
    using fits(1) by (simp only: table_timed_empty demo_answers)
qed

end
