(* ===== verification/Zone_Service.thy ===== *)
theory Zone_Service
  imports Zone_Systems Zone_Messages Zone_Session_Laws
begin

text \<open>
  \<^verbatim>\<open>backend/zonesvr/internal/service/zone_service.cpp\<close>: the zone server.  It keeps the session store and a cache of
  channels to gates; a call to a business service or to a gate may change anything behind it.  The state is
  therefore a pair of the zone's own state and the rest of the world, and the stubs act on the pair: while a
  call is running, other requests may be handled.  The clock is an argument of the methods that read it.
\<close>

section \<open>State and results\<close>

record 's ZoneState =
  z_sessions :: 's
  z_gate_clients :: "string \<rightharpoonup> bool"

type_synonym ('s, 'w) zone = "'s ZoneState \<times> 'w"

record ('s, 'w) ZoneServiceImpl =
  zi_store :: "'s ZoneSessionStore"
  zi_manager :: "('s, 'w) zone SystemManager option"
  zi_gates :: "('s, 'w) zone GateNet"
  zi_proto :: ZoneProto

definition on_store :: "('s \<Rightarrow> 'a \<times> 's) \<Rightarrow> ('s, 'w) zone \<Rightarrow> 'a \<times> ('s, 'w) zone" where
  "on_store f z = (case f (z_sessions (fst z)) of (x, s) \<Rightarrow> (x, ((fst z)\<lparr>z_sessions := s\<rparr>, snd z)))"

record HandleClientRequestResult =
  hr_code :: int
  hr_message :: string
  hr_payload :: string
  hr_request_id :: string

definition new_result :: "string \<Rightarrow> HandleClientRequestResult" where
  "new_result request_id = \<lparr>hr_code = 0, hr_message = [], hr_payload = [], hr_request_id = request_id\<rparr>"

definition SetResultError :: "HandleClientRequestResult \<Rightarrow> ErrorCode \<Rightarrow> string \<Rightarrow> HandleClientRequestResult" where
  "SetResultError r ec request_id =
     r\<lparr>hr_code := ErrorCodeToInt ec, hr_message := ErrorCodeToString ec, hr_request_id := request_id\<rparr>"

definition error_result :: "ErrorCode \<Rightarrow> string \<Rightarrow> HandleClientRequestResult" where
  "error_result ec request_id = SetResultError (new_result request_id) ec request_id"

definition NotImplemented :: "string \<Rightarrow> HandleClientRequestResult" where
  "NotImplemented request_id = error_result EC_UNSUPPORTED request_id"

section \<open>Users and gates\<close>

definition ZoneServiceImpl_UserOnline ::
  "('s, 'w) ZoneServiceImpl \<Rightarrow> int \<Rightarrow> string \<Rightarrow> string \<Rightarrow> string \<Rightarrow> string \<Rightarrow> ('s, 'w) zone \<Rightarrow> bool \<times> ('s, 'w) zone" where
  "ZoneServiceImpl_UserOnline Z now user_id gate_id device_type device_id z =
     (case on_store (\<lambda>s. zs_GetGate (zi_store Z) s gate_id) z of
        (None, z) \<Rightarrow> (False, z)
      | (Some gate, z) \<Rightarrow>
          on_store (\<lambda>s. zs_SetOnline (zi_store Z) s
            \<lparr>us_user_id = user_id, us_gate_id = gate_id, us_gate_addr = gn_address gate, us_device_type = device_type,
             us_device_id = device_id, us_online_at = now, us_last_active_at = now\<rparr>) z)"

definition ZoneServiceImpl_UserOffline ::
  "('s, 'w) ZoneServiceImpl \<Rightarrow> string \<Rightarrow> string \<Rightarrow> ('s, 'w) zone \<Rightarrow> bool \<times> ('s, 'w) zone" where
  "ZoneServiceImpl_UserOffline Z user_id gate_id z = on_store (\<lambda>s. zs_SetOffline (zi_store Z) s user_id) z"

definition ZoneServiceImpl_GetUserSession ::
  "('s, 'w) ZoneServiceImpl \<Rightarrow> string \<Rightarrow> ('s, 'w) zone \<Rightarrow> UserSession option \<times> ('s, 'w) zone" where
  "ZoneServiceImpl_GetUserSession Z user_id z = on_store (\<lambda>s. zs_GetSession (zi_store Z) s user_id) z"

definition ZoneServiceImpl_GetUserStatuses ::
  "('s, 'w) ZoneServiceImpl \<Rightarrow> string list \<Rightarrow> ('s, 'w) zone \<Rightarrow> UserSession list \<times> ('s, 'w) zone" where
  "ZoneServiceImpl_GetUserStatuses Z user_ids z = on_store (\<lambda>s. zs_GetSessions (zi_store Z) s user_ids) z"

text \<open>
  The cache of clients: an address is mapped to whether its client still has a channel.  A client whose channel is
  not usable any more is disconnected, and replaced when a new one connects.
\<close>

definition GetOrCreateGateClient :: "('s, 'w) ZoneServiceImpl \<Rightarrow> string \<Rightarrow> ('s, 'w) zone \<Rightarrow> bool \<times> ('s, 'w) zone" where
  "GetOrCreateGateClient Z gate_addr z =
     (if gate_addr = [] then (False, z)
      else if z_gate_clients (fst z) gate_addr = Some True \<and> gate_channel_up (zi_gates Z) gate_addr z then (True, z)
      else
        (let z = (if z_gate_clients (fst z) gate_addr = None then z
                  else ((fst z)\<lparr>z_gate_clients := (z_gate_clients (fst z))(gate_addr \<mapsto> False)\<rparr>, snd z))
         in if \<not> gate_WaitForConnected (zi_gates Z) gate_addr z then (False, z)
            else (True, ((fst z)\<lparr>z_gate_clients := (z_gate_clients (fst z))(gate_addr \<mapsto> True)\<rparr>, snd z))))"

definition PushToGate ::
  "('s, 'w) ZoneServiceImpl \<Rightarrow> string \<Rightarrow> string \<Rightarrow> string \<Rightarrow> string \<Rightarrow> ('s, 'w) zone \<Rightarrow> bool \<times> ('s, 'w) zone" where
  "PushToGate Z gate_addr user_id cmd payload z =
     (case GetOrCreateGateClient Z gate_addr z of
        (False, z) \<Rightarrow> (False, z)
      | (True, z) \<Rightarrow> apfst rpc_ok (GateRpcClient_PushMessage (zi_gates Z) gate_addr user_id cmd payload z))"

record RouteResult =
  rr_delivered :: bool
  rr_user_online :: bool
  rr_gate_id :: string

definition RouteToUser ::
  "('s, 'w) ZoneServiceImpl \<Rightarrow> string \<Rightarrow> string \<Rightarrow> string \<Rightarrow> ('s, 'w) zone \<Rightarrow> RouteResult \<times> ('s, 'w) zone" where
  "RouteToUser Z user_id cmd payload z =
     (case on_store (\<lambda>s. zs_GetSession (zi_store Z) s user_id) z of
        (None, z) \<Rightarrow> (\<lparr>rr_delivered = False, rr_user_online = False, rr_gate_id = []\<rparr>, z)
      | (Some session, z) \<Rightarrow>
          (let (delivered, z) = PushToGate Z (us_gate_addr session) user_id cmd payload z
           in (\<lparr>rr_delivered = delivered, rr_user_online = True, rr_gate_id = us_gate_id session\<rparr>, z)))"

fun broadcast_loop ::
  "('s, 'w) ZoneServiceImpl \<Rightarrow> string \<Rightarrow> string \<Rightarrow> UserSession list \<Rightarrow> int \<Rightarrow> ('s, 'w) zone \<Rightarrow> int \<times> ('s, 'w) zone" where
  "broadcast_loop Z cmd payload [] n z = (n, z)"
| "broadcast_loop Z cmd payload (s # sessions) n z =
     (let (ok, z) = PushToGate Z (us_gate_addr s) (us_user_id s) cmd payload z
      in broadcast_loop Z cmd payload sessions (if ok then n + 1 else n) z)"

definition ZoneServiceImpl_Broadcast ::
  "('s, 'w) ZoneServiceImpl \<Rightarrow> string list \<Rightarrow> string \<Rightarrow> string \<Rightarrow> ('s, 'w) zone \<Rightarrow> (int \<times> int) \<times> ('s, 'w) zone" where
  "ZoneServiceImpl_Broadcast Z user_ids cmd payload z =
     (let (sessions, z) = on_store (\<lambda>s. zs_GetSessions (zi_store Z) s user_ids) z;
          (delivered_count, z) = broadcast_loop Z cmd payload sessions 0 z
      in ((wrap32 (int (length sessions)), delivered_count), z))"

definition ZoneServiceImpl_RegisterGate ::
  "('s, 'w) ZoneServiceImpl \<Rightarrow> int \<Rightarrow> string \<Rightarrow> string \<Rightarrow> ('s, 'w) zone \<Rightarrow> bool \<times> ('s, 'w) zone" where
  "ZoneServiceImpl_RegisterGate Z now gate_id address z =
     on_store (\<lambda>s. zs_RegisterGate (zi_store Z) s
       \<lparr>gn_gate_id = gate_id, gn_address = address, gn_current_connections = 0, gn_registered_at = now, gn_last_heartbeat = now\<rparr>) z"

definition ZoneServiceImpl_GateHeartbeat ::
  "('s, 'w) ZoneServiceImpl \<Rightarrow> int \<Rightarrow> string \<Rightarrow> int \<Rightarrow> ('s, 'w) zone \<Rightarrow> bool \<times> ('s, 'w) zone" where
  "ZoneServiceImpl_GateHeartbeat Z now_s gate_id connections z =
     on_store (\<lambda>s. zs_UpdateGateHeartbeat (zi_store Z) s now_s gate_id connections) z"

definition ZoneServiceImpl_KickUser :: "('s, 'w) ZoneServiceImpl \<Rightarrow> string \<Rightarrow> string \<Rightarrow> ('s, 'w) zone \<Rightarrow> bool \<times> ('s, 'w) zone" where
  "ZoneServiceImpl_KickUser Z user_id reason z = on_store (\<lambda>s. zs_SetOffline (zi_store Z) s user_id) z"

section \<open>Frames of the commands\<close>

text \<open>Every command reads its payload first, and answers \<^verbatim>\<open>INVALID_PARAM\<close> when it is malformed; a command that
  answers with a message of its own fails with \<^verbatim>\<open>INTERNAL_ERROR\<close> when that cannot be written.\<close>

type_synonym ('s, 'w) command = "('s, 'w) zone \<Rightarrow> HandleClientRequestResult \<times> ('s, 'w) zone"

definition with_payload :: "'p option \<Rightarrow> string \<Rightarrow> ('p \<Rightarrow> ('s, 'w) command) \<Rightarrow> ('s, 'w) command" where
  "with_payload req request_id run z =
     (case req of None \<Rightarrow> (error_result EC_INVALID_PARAM request_id, z) | Some x \<Rightarrow> run x z)"

definition with_session :: "string \<Rightarrow> string \<Rightarrow> ('s, 'w) command \<Rightarrow> ('s, 'w) command" where
  "with_session user_id request_id run z = (if user_id = [] then (error_result EC_SESSION_INVALID request_id, z) else run z)"

definition with_answer :: "string option \<Rightarrow> string \<Rightarrow> (string \<Rightarrow> HandleClientRequestResult) \<Rightarrow> HandleClientRequestResult" where
  "with_answer data request_id answer =
     (case data of None \<Rightarrow> error_result EC_INTERNAL_ERROR request_id | Some payload \<Rightarrow> answer payload)"

definition ok_answer :: "string option \<Rightarrow> string \<Rightarrow> HandleClientRequestResult" where
  "ok_answer data request_id = with_answer data request_id (\<lambda>payload. (new_result request_id)\<lparr>hr_payload := payload, hr_code := ErrorCodeToInt EC_OK\<rparr>)"

definition fail_text :: "string \<Rightarrow> string \<Rightarrow> string \<Rightarrow> HandleClientRequestResult" where
  "fail_text err text request_id =
     (new_result request_id)\<lparr>hr_code := ErrorCodeToInt EC_INTERNAL_ERROR, hr_message := (if err = [] then text else err)\<rparr>"

text \<open>A result that is only a code.\<close>

definition code_result :: "bool \<Rightarrow> ErrorCode \<Rightarrow> string \<Rightarrow> HandleClientRequestResult" where
  "code_result ok ec request_id =
     (new_result request_id)\<lparr>hr_code := (if ok then ErrorCodeToInt EC_OK else ErrorCodeToInt ec)\<rparr>"

section \<open>auth\<close>

definition auth_register_cmd :: "AuthProto \<Rightarrow> ('s, 'w) zone AuthSystem \<Rightarrow> string \<Rightarrow> string \<Rightarrow> ('s, 'w) command" where
  "auth_register_cmd P auth payload request_id =
     with_payload (parse_AuthRegisterPayload P payload) request_id (\<lambda>req z.
       (let (reg, z) = AuthSystem_Register auth (par_username req) (par_password req) (par_nickname req) (par_email req) (par_avatar_url req) z
        in (with_answer (ser_AuthRegisterResponsePayload P
                \<lparr>parr_success = arr_success reg, parr_user_id = arr_user_id reg, parr_error = arr_error reg\<rparr>) request_id
              (\<lambda>data. if arr_success reg
                 then (new_result request_id)\<lparr>hr_payload := data, hr_code := ErrorCodeToInt EC_OK\<rparr>
                 else (new_result request_id)\<lparr>hr_payload := data,
                        hr_code := (if arr_error_code reg > 0 then arr_error_code reg else ErrorCodeToInt EC_AUTH_FAILED),
                        hr_message := arr_error reg\<rparr>), z)))"

definition auth_login_cmd :: "AuthProto \<Rightarrow> ('s, 'w) zone AuthSystem \<Rightarrow> string \<Rightarrow> string \<Rightarrow> ('s, 'w) command" where
  "auth_login_cmd P auth payload request_id =
     with_payload (parse_AuthLoginPayload P payload) request_id (\<lambda>req z.
       (let (login, z) = AuthSystem_Login auth (pal_username req) (pal_password req) (pal_device_id req) (pal_device_type req) z
        in (with_answer (ser_AuthLoginResponsePayload P
                \<lparr>palr_success = alr_success login, palr_user_id = alr_user_id login, palr_token = alr_token login,
                 palr_expire_at = alr_expire_at login, palr_error = alr_error login\<rparr>) request_id
              (\<lambda>data. (new_result request_id)\<lparr>hr_payload := data,
                 hr_code := (if alr_success login then ErrorCodeToInt EC_OK else ErrorCodeToInt EC_AUTH_FAILED),
                 hr_message := (if alr_error login \<noteq> [] then alr_error login
                                else if \<not> alr_success login then ErrorCodeToString EC_AUTH_FAILED else [])\<rparr>), z)))"

definition auth_logout_cmd :: "AuthProto \<Rightarrow> ('s, 'w) zone AuthSystem \<Rightarrow> string \<Rightarrow> string \<Rightarrow> ('s, 'w) command" where
  "auth_logout_cmd P auth payload request_id =
     with_payload (parse_AuthLogoutPayload P payload) request_id (\<lambda>req z.
       (case AuthSystem_Logout auth (palt_user_id req) (palt_token req) z of
          (Inr _, z) \<Rightarrow> (code_result True EC_AUTH_FAILED request_id, z)
        | (Inl e, z) \<Rightarrow> ((code_result False EC_AUTH_FAILED request_id)
              \<lparr>hr_message := (if e \<noteq> [] then e else ErrorCodeToString EC_AUTH_FAILED)\<rparr>, z)))"

definition auth_validate_token_cmd :: "AuthProto \<Rightarrow> ('s, 'w) zone AuthSystem \<Rightarrow> string \<Rightarrow> string \<Rightarrow> ('s, 'w) command" where
  "auth_validate_token_cmd P auth payload request_id =
     with_payload (parse_AuthValidateTokenPayload P payload) request_id (\<lambda>req z.
       (let (uid, z) = AuthSystem_ValidateToken auth (pavt_token req) z
        in (ok_answer (ser_AuthValidateTokenResponsePayload P \<lparr>pavtr_user_id = uid\<rparr>) request_id, z)))"

definition HandleAuth ::
  "ZoneProto \<Rightarrow> ('s, 'w) zone SystemManager \<Rightarrow> string \<Rightarrow> string \<Rightarrow> string \<Rightarrow> ('s, 'w) command" where
  "HandleAuth P m cmd payload request_id z =
     (case sm_auth m of
        None \<Rightarrow> (error_result EC_SERVICE_UNAVAILABLE request_id, z)
      | Some auth \<Rightarrow>
          if cmd = ''auth.register'' then auth_register_cmd (zp_auth P) auth payload request_id z
          else if cmd = ''auth.login'' then auth_login_cmd (zp_auth P) auth payload request_id z
          else if cmd = ''auth.logout'' then auth_logout_cmd (zp_auth P) auth payload request_id z
          else if cmd = ''auth.validate_token'' then auth_validate_token_cmd (zp_auth P) auth payload request_id z
          else (NotImplemented request_id, z))"

section \<open>chat\<close>

text \<open>Notifying the members of a group, in the order of the list, apart from one user.\<close>

fun route_members ::
  "('s, 'w) ZoneServiceImpl \<Rightarrow> string \<Rightarrow> string \<Rightarrow> string \<Rightarrow> GroupMemberResult list \<Rightarrow> ('s, 'w) zone \<Rightarrow> ('s, 'w) zone" where
  "route_members Z skip cmd payload [] z = z"
| "route_members Z skip cmd payload (m # members) z =
     route_members Z skip cmd payload members
       (if gmr_user_id m \<noteq> skip then snd (RouteToUser Z (gmr_user_id m) cmd payload z) else z)"

definition notify_chat ::
  "('s, 'w) ZoneServiceImpl \<Rightarrow> ('s, 'w) zone SystemManager \<Rightarrow> int \<Rightarrow> string \<Rightarrow> string \<Rightarrow> string \<Rightarrow> string \<Rightarrow> ('s, 'w) zone \<Rightarrow> ('s, 'w) zone" where
  "notify_chat Z m chat_type target skip cmd payload z =
     (if chat_type = ChatType_int PRIVATE then snd (RouteToUser Z target cmd payload z)
      else if chat_type \<noteq> ChatType_int GROUP then z
      else
        (case sm_group m of
           None \<Rightarrow> z
         | Some grp \<Rightarrow>
             (case GroupSystem_GetGroupMembers grp target 0 10000 z of
                (Inl e, z) \<Rightarrow> z
              | (Inr (members, _), z) \<Rightarrow> route_members Z skip cmd payload members z)))"

definition push_of_message :: "ChatSendMessagePayload \<Rightarrow> string \<Rightarrow> int \<Rightarrow> ChatMessagePushPayload" where
  "push_of_message req msg_id timestamp =
     \<lparr>pcmp_msg_id = msg_id, pcmp_from_user_id = pcsm_from_user_id req, pcmp_to_id = pcsm_to_id req, pcmp_chat_type = pcsm_chat_type req,
      pcmp_content = pcsm_content req, pcmp_media_url = pcsm_media_url req, pcmp_media_type = pcsm_media_type req,
      pcmp_timestamp = timestamp, pcmp_mentions = pcsm_mentions req, pcmp_reply_to_msg_id = pcsm_reply_to_msg_id req\<rparr>"

definition chat_send_message_cmd ::
  "('s, 'w) ZoneServiceImpl \<Rightarrow> ('s, 'w) zone SystemManager \<Rightarrow> ('s, 'w) zone ChatSystem \<Rightarrow> string \<Rightarrow> string \<Rightarrow> string \<Rightarrow> ('s, 'w) command" where
  "chat_send_message_cmd Z m chat payload request_id token =
     with_payload (parse_ChatSendMessagePayload (zp_chat (zi_proto Z)) payload) request_id (\<lambda>req z.
       (let (r, z) = ChatSystem_SendMessage chat (pcsm_from_user_id req) (pcsm_to_id req) (pcsm_chat_type req) (pcsm_content req)
                       (pcsm_media_url req) (pcsm_media_type req) (pcsm_mentions req) (pcsm_reply_to_msg_id req)
                       (pcsm_client_msg_id req) (pcsm_file_size req) token z;
            msg_id = (case r of Inl e \<Rightarrow> [] | Inr (i, t) \<Rightarrow> i);
            timestamp = (case r of Inl e \<Rightarrow> 0 | Inr (i, t) \<Rightarrow> t);
            err = (case r of Inl e \<Rightarrow> e | Inr x \<Rightarrow> [])
        in case ser_ChatSendMessageResponsePayload (zp_chat (zi_proto Z))
                  \<lparr>pcsmr_success = rpc_ok r, pcsmr_msg_id = msg_id, pcsmr_timestamp = timestamp, pcsmr_error = err\<rparr> of
             None \<Rightarrow> (error_result EC_INTERNAL_ERROR request_id, z)
           | Some data \<Rightarrow>
               (let result = (new_result request_id)\<lparr>hr_payload := data,
                      hr_code := (if rpc_ok r then ErrorCodeToInt EC_OK else ErrorCodeToInt EC_MSG_SEND_FAILED),
                      hr_message := (if err \<noteq> [] then err else if \<not> rpc_ok r then ErrorCodeToString EC_MSG_SEND_FAILED else [])\<rparr>
                in if \<not> rpc_ok r \<or> msg_id = [] then (result, z)
                   else
                     (case ser_ChatMessagePushPayload (zp_chat (zi_proto Z)) (push_of_message req msg_id timestamp) of
                        None \<Rightarrow> (result, z)
                      | Some push_payload \<Rightarrow>
                          (result, notify_chat Z m (pcsm_chat_type req) (pcsm_to_id req) (pcsm_from_user_id req) ''chat.message'' push_payload z)))))"

definition chat_mark_read_cmd ::
  "('s, 'w) ZoneServiceImpl \<Rightarrow> ('s, 'w) zone SystemManager \<Rightarrow> ('s, 'w) zone ChatSystem \<Rightarrow> string \<Rightarrow> string \<Rightarrow> string \<Rightarrow> string \<Rightarrow> ('s, 'w) command" where
  "chat_mark_read_cmd Z m chat user_id payload request_id token =
     with_payload (parse_ChatMarkReadPayload (zp_chat (zi_proto Z)) payload) request_id (\<lambda>req z.
       (let (r, z) = ChatSystem_MarkRead chat user_id (pcmr_chat_id req) (pcmr_chat_type req) (pcmr_last_msg_id req) token z;
            result = (code_result (rpc_ok r) EC_INVALID_PARAM request_id)
              \<lparr>hr_message := (case r of Inl e \<Rightarrow> (if e \<noteq> [] then e else ''mark read failed'') | Inr _ \<Rightarrow> [])\<rparr>
        in if \<not> rpc_ok r \<or> pcmr_last_msg_id req = [] then (result, z)
           else
             (case ser_ReadReceiptNotify (zp_chat (zi_proto Z))
                     \<lparr>rrn_chat_id = pcmr_chat_id req, rrn_user_id = user_id, rrn_last_read_msg_id = pcmr_last_msg_id req\<rparr> of
                None \<Rightarrow> (result, z)
              | Some receipt_payload \<Rightarrow>
                  (result, notify_chat Z m (pcmr_chat_type req) (pcmr_chat_id req) user_id ''chat.read_receipt'' receipt_payload z))))"

definition offline_push :: "OfflineMessage \<Rightarrow> ChatMessagePushPayload" where
  "offline_push m =
     \<lparr>pcmp_msg_id = om_msg_id m, pcmp_from_user_id = om_from_user_id m, pcmp_to_id = om_to_id m, pcmp_chat_type = om_chat_type m,
      pcmp_content = om_content m, pcmp_media_url = om_media_url m, pcmp_media_type = om_media_type m, pcmp_timestamp = om_timestamp m,
      pcmp_mentions = [], pcmp_reply_to_msg_id = []\<rparr>"

definition chat_pull_offline_cmd ::
  "ChatProto \<Rightarrow> ('s, 'w) zone ChatSystem \<Rightarrow> string \<Rightarrow> string \<Rightarrow> string \<Rightarrow> string \<Rightarrow> ('s, 'w) command" where
  "chat_pull_offline_cmd P chat user_id payload request_id token =
     with_payload (parse_ChatPullOfflinePayload P payload) request_id (\<lambda>req. with_session user_id request_id (\<lambda>z.
       (let limit = (if pcpo_limit req > 0 \<and> pcpo_limit req < 200 then pcpo_limit req else if pcpo_limit req \<ge> 200 then 200 else 100)
        in case ChatSystem_PullOffline chat user_id limit (pcpo_cursor req) token z of
             (Inl e, z) \<Rightarrow> (fail_text e ''pull offline failed'' request_id, z)
           | (Inr (msgs, next_cursor, has_more), z) \<Rightarrow>
               (ok_answer (ser_ChatPullOfflineResponsePayload P
                  \<lparr>pcpor_messages = map offline_push msgs, pcpor_next_cursor = next_cursor, pcpor_has_more = has_more\<rparr>) request_id, z))))"

definition chat_recall_message_cmd :: "ChatProto \<Rightarrow> ('s, 'w) zone ChatSystem \<Rightarrow> string \<Rightarrow> string \<Rightarrow> string \<Rightarrow> ('s, 'w) command" where
  "chat_recall_message_cmd P chat payload request_id token =
     with_payload (parse_ChatRecallMessagePayload P payload) request_id (\<lambda>req z.
       (let (r, z) = ChatSystem_RecallMessage chat (pcrm_msg_id req) (pcrm_user_id req) token z
        in ((code_result (rpc_ok r) EC_RECALL_NOT_ALLOWED request_id)
              \<lparr>hr_message := (case r of Inl e \<Rightarrow> (if e \<noteq> [] then e else ErrorCodeToString EC_RECALL_NOT_ALLOWED) | Inr _ \<Rightarrow> [])\<rparr>, z)))"

definition history_push :: "ChatMessageResult \<Rightarrow> ChatMessagePushPayload" where
  "history_push m =
     \<lparr>pcmp_msg_id = mr_msg_id m, pcmp_from_user_id = mr_from_user_id m, pcmp_to_id = mr_to_id m, pcmp_chat_type = mr_chat_type m,
      pcmp_content = mr_content m, pcmp_media_url = mr_media_url m, pcmp_media_type = mr_media_type m, pcmp_timestamp = mr_timestamp m,
      pcmp_mentions = [], pcmp_reply_to_msg_id = []\<rparr>"

definition chat_get_history_cmd ::
  "ChatProto \<Rightarrow> ('s, 'w) zone ChatSystem \<Rightarrow> string \<Rightarrow> string \<Rightarrow> string \<Rightarrow> string \<Rightarrow> ('s, 'w) command" where
  "chat_get_history_cmd P chat user_id payload request_id token =
     with_payload (parse_ChatGetHistoryPayload P payload) request_id (\<lambda>req. with_session user_id request_id (\<lambda>z.
       (let limit = (if pcgh_limit req > 0 \<and> pcgh_limit req \<le> 100 then pcgh_limit req else 50)
        in case ChatSystem_GetHistory chat user_id (pcgh_chat_id req) (pcgh_chat_type req) (pcgh_before_msg_id req) limit token z of
             (Inl e, z) \<Rightarrow> (fail_text e ''get history failed'' request_id, z)
           | (Inr (msgs, has_more), z) \<Rightarrow>
               (ok_answer (ser_ChatGetHistoryResponsePayload P
                  \<lparr>pcghr_messages = map history_push msgs, pcghr_has_more = has_more\<rparr>) request_id, z))))"

definition conversation_payload :: "ConversationResult \<Rightarrow> ChatConversationPayload" where
  "conversation_payload c =
     \<lparr>pcc_chat_id = cvr_chat_id c, pcc_chat_type = cvr_chat_type c, pcc_peer_id = cvr_peer_id c, pcc_peer_name = cvr_peer_name c,
      pcc_peer_avatar = cvr_peer_avatar c, pcc_unread_count = cvr_unread_count c, pcc_updated_at = cvr_updated_at c,
      pcc_last_msg_id = cvr_last_msg_id c, pcc_last_content = cvr_last_content c, pcc_last_timestamp = cvr_last_timestamp c\<rparr>"

definition chat_sync_conversations_cmd ::
  "ChatProto \<Rightarrow> ('s, 'w) zone ChatSystem \<Rightarrow> string \<Rightarrow> string \<Rightarrow> string \<Rightarrow> string \<Rightarrow> ('s, 'w) command" where
  "chat_sync_conversations_cmd P chat user_id payload request_id token =
     with_payload (parse_ChatSyncConversationsPayload P payload) request_id (\<lambda>req. with_session user_id request_id (\<lambda>z.
       (case ChatSystem_SyncConversations chat user_id (pcsc_last_sync_time req) token z of
          (Inl e, z) \<Rightarrow> (fail_text e ''sync conversations failed'' request_id, z)
        | (Inr conversations, z) \<Rightarrow>
            (ok_answer (ser_ChatSyncConversationsResponsePayload P
               \<lparr>pcscr_conversations = map conversation_payload conversations\<rparr>) request_id, z))))"

definition chat_delete_conversation_cmd ::
  "ChatProto \<Rightarrow> ('s, 'w) zone ChatSystem \<Rightarrow> string \<Rightarrow> string \<Rightarrow> string \<Rightarrow> string \<Rightarrow> ('s, 'w) command" where
  "chat_delete_conversation_cmd P chat user_id payload request_id token =
     with_payload (parse_ChatDeleteConversationPayload P payload) request_id (\<lambda>req. with_session user_id request_id (\<lambda>z.
       (let (r, z) = ChatSystem_DeleteConversation chat user_id (pcdc_chat_id req) (pcdc_chat_type req) token z
        in ((code_result (rpc_ok r) EC_INVALID_PARAM request_id)\<lparr>hr_message := (case r of Inl e \<Rightarrow> e | Inr _ \<Rightarrow> [])\<rparr>, z))))"

definition HandleChat ::
  "('s, 'w) ZoneServiceImpl \<Rightarrow> ('s, 'w) zone SystemManager \<Rightarrow> string \<Rightarrow> string \<Rightarrow> string \<Rightarrow> string \<Rightarrow> string \<Rightarrow> ('s, 'w) command" where
  "HandleChat Z m user_id cmd payload request_id token z =
     (case sm_chat m of
        None \<Rightarrow> (error_result EC_SERVICE_UNAVAILABLE request_id, z)
      | Some chat \<Rightarrow>
          (let P = zp_chat (zi_proto Z) in
           if cmd = ''chat.send_message'' then chat_send_message_cmd Z m chat payload request_id token z
           else if cmd = ''chat.mark_read'' then chat_mark_read_cmd Z m chat user_id payload request_id token z
           else if cmd = ''chat.pull_offline'' then chat_pull_offline_cmd P chat user_id payload request_id token z
           else if cmd = ''chat.recall_message'' then chat_recall_message_cmd P chat payload request_id token z
           else if cmd = ''chat.get_history'' then chat_get_history_cmd P chat user_id payload request_id token z
           else if cmd = ''chat.sync_conversations'' then chat_sync_conversations_cmd P chat user_id payload request_id token z
           else if cmd = ''chat.delete_conversation'' then chat_delete_conversation_cmd P chat user_id payload request_id token z
           else (NotImplemented request_id, z)))"

section \<open>friend\<close>

definition friend_add_cmd :: "FriendProto \<Rightarrow> ('s, 'w) zone FriendSystem \<Rightarrow> string \<Rightarrow> string \<Rightarrow> string \<Rightarrow> ('s, 'w) command" where
  "friend_add_cmd P fr payload request_id token =
     with_payload (parse_FriendAddPayload P payload) request_id (\<lambda>req z.
       (let (ok, z) = FriendSystem_AddFriend fr (pfa_user_id req) (pfa_friend_id req) (pfa_remark req) token z in (code_result ok EC_UNKNOWN request_id, z)))"

definition friend_handle_request_cmd :: "FriendProto \<Rightarrow> ('s, 'w) zone FriendSystem \<Rightarrow> string \<Rightarrow> string \<Rightarrow> string \<Rightarrow> ('s, 'w) command" where
  "friend_handle_request_cmd P fr payload request_id token =
     with_payload (parse_FriendHandleRequestPayload P payload) request_id (\<lambda>req z.
       (let (ok, z) = FriendSystem_HandleFriendRequest fr (pfhr_user_id req) (pfhr_request_id req) (pfhr_accept req) token z in (code_result ok EC_UNKNOWN request_id, z)))"

definition friend_remove_cmd :: "FriendProto \<Rightarrow> ('s, 'w) zone FriendSystem \<Rightarrow> string \<Rightarrow> string \<Rightarrow> string \<Rightarrow> ('s, 'w) command" where
  "friend_remove_cmd P fr payload request_id token =
     with_payload (parse_FriendRemovePayload P payload) request_id (\<lambda>req z.
       (let (ok, z) = FriendSystem_RemoveFriend fr (pfr_user_id req) (pfr_friend_id req) token z in (code_result ok EC_UNKNOWN request_id, z)))"

definition friend_block_cmd :: "FriendProto \<Rightarrow> ('s, 'w) zone FriendSystem \<Rightarrow> string \<Rightarrow> string \<Rightarrow> string \<Rightarrow> ('s, 'w) command" where
  "friend_block_cmd P fr payload request_id token =
     with_payload (parse_FriendBlockPayload P payload) request_id (\<lambda>req z.
       (let (ok, z) = FriendSystem_BlockUser fr (pfb_user_id req) (pfb_target_id req) token z in (code_result ok EC_UNKNOWN request_id, z)))"

definition friend_unblock_cmd :: "FriendProto \<Rightarrow> ('s, 'w) zone FriendSystem \<Rightarrow> string \<Rightarrow> string \<Rightarrow> string \<Rightarrow> ('s, 'w) command" where
  "friend_unblock_cmd P fr payload request_id token =
     with_payload (parse_FriendBlockPayload P payload) request_id (\<lambda>req z.
       (let (ok, z) = FriendSystem_UnblockUser fr (pfb_user_id req) (pfb_target_id req) token z in (code_result ok EC_UNKNOWN request_id, z)))"

definition friend_info_payload :: "FriendInfoResult \<Rightarrow> FriendInfoPayload" where
  "friend_info_payload f =
     \<lparr>pfi_friend_id = fir_friend_id f, pfi_remark = fir_remark f, pfi_group_id = fir_group_id f, pfi_nickname = fir_nickname f,
      pfi_avatar_url = fir_avatar_url f, pfi_added_at = fir_added_at f\<rparr>"

definition friend_get_friends_cmd ::
  "FriendProto \<Rightarrow> ('s, 'w) zone FriendSystem \<Rightarrow> string \<Rightarrow> string \<Rightarrow> string \<Rightarrow> string \<Rightarrow> ('s, 'w) command" where
  "friend_get_friends_cmd P fr user_id payload request_id token =
     with_payload (parse_FriendGetFriendsPayload P payload) request_id (\<lambda>req. with_session user_id request_id (\<lambda>z.
       (case FriendSystem_GetFriends fr user_id (pfgf_group_id req) token z of
          (Inl e, z) \<Rightarrow> (fail_text e ''get friends failed'' request_id, z)
        | (Inr xs, z) \<Rightarrow> (ok_answer (ser_FriendGetFriendsResponsePayload P \<lparr>pfgfr_friends = map friend_info_payload xs\<rparr>) request_id, z))))"

definition friend_request_payload :: "FriendRequestInfoResult \<Rightarrow> FriendRequestInfoPayload" where
  "friend_request_payload r =
     \<lparr>pfri_request_id = rir_request_id r, pfri_from_user_id = rir_from_user_id r, pfri_to_user_id = rir_to_user_id r, pfri_remark = rir_remark r,
      pfri_status = rir_status r, pfri_created_at = rir_created_at r, pfri_from_nickname = rir_from_nickname r,
      pfri_from_avatar_url = rir_from_avatar_url r\<rparr>"

definition friend_get_requests_cmd ::
  "FriendProto \<Rightarrow> ('s, 'w) zone FriendSystem \<Rightarrow> string \<Rightarrow> string \<Rightarrow> string \<Rightarrow> string \<Rightarrow> ('s, 'w) command" where
  "friend_get_requests_cmd P fr user_id payload request_id token =
     with_payload (parse_FriendGetRequestsPayload P payload) request_id (\<lambda>req. with_session user_id request_id (\<lambda>z.
       (case FriendSystem_GetFriendRequests fr user_id (pfgr_type req) token z of
          (Inl e, z) \<Rightarrow> (fail_text e ''get friend requests failed'' request_id, z)
        | (Inr xs, z) \<Rightarrow> (ok_answer (ser_FriendGetRequestsResponsePayload P \<lparr>pfgrr_requests = map friend_request_payload xs\<rparr>) request_id, z))))"

definition search_user_payload :: "SearchUserResult \<Rightarrow> FriendSearchUserPayload" where
  "search_user_payload u =
     \<lparr>pfsu_user_id = sur_user_id u, pfsu_username = sur_username u, pfsu_nickname = sur_nickname u, pfsu_avatar_url = sur_avatar_url u,
      pfsu_signature = sur_signature u, pfsu_gender = sur_gender u\<rparr>"

definition friend_search_cmd ::
  "FriendProto \<Rightarrow> ('s, 'w) zone AuthSystem option \<Rightarrow> string \<Rightarrow> string \<Rightarrow> string \<Rightarrow> string \<Rightarrow> ('s, 'w) command" where
  "friend_search_cmd P auth_system user_id payload request_id token =
     with_payload (parse_FriendSearchPayload P payload) request_id (\<lambda>req. with_session user_id request_id (\<lambda>z.
       (case auth_system of
          None \<Rightarrow> (error_result EC_SERVICE_UNAVAILABLE request_id, z)
        | Some auth \<Rightarrow>
            (case AuthSystem_SearchUsers auth (pfs_keyword req) (if pfs_limit req > 0 then pfs_limit req else 20) token z of
               (Inl e, z) \<Rightarrow> (fail_text e ''search users failed'' request_id, z)
             | (Inr users, z) \<Rightarrow>
                 (ok_answer (ser_FriendSearchResponsePayload P
                    \<lparr>pfsr_users = map search_user_payload (filter (\<lambda>u. sur_user_id u \<noteq> user_id) users)\<rparr>) request_id, z)))))"

definition friend_get_block_list_cmd ::
  "FriendProto \<Rightarrow> ('s, 'w) zone FriendSystem \<Rightarrow> string \<Rightarrow> string \<Rightarrow> string \<Rightarrow> string \<Rightarrow> ('s, 'w) command" where
  "friend_get_block_list_cmd P fr user_id payload request_id token =
     with_payload (parse_FriendGetBlockListPayload P payload) request_id (\<lambda>req. with_session user_id request_id (\<lambda>z.
       (case FriendSystem_GetBlockList fr user_id token z of
          (Inl e, z) \<Rightarrow> (fail_text e ''get block list failed'' request_id, z)
        | (Inr xs, z) \<Rightarrow> (ok_answer (ser_FriendGetBlockListResponsePayload P \<lparr>pfgblr_success = True, pfgblr_blocked_ids = xs, pfgblr_error = []\<rparr>) request_id, z))))"

definition friend_group_payload :: "FriendGroup \<Rightarrow> FriendGroupPayload" where
  "friend_group_payload g =
     \<lparr>pfg_group_id = gi_group_id g, pfg_group_name = gi_group_name g, pfg_friend_count = gi_friend_count g, pfg_sort_order = gi_sort_order g\<rparr>"

definition friend_get_groups_cmd ::
  "FriendProto \<Rightarrow> ('s, 'w) zone FriendSystem \<Rightarrow> string \<Rightarrow> string \<Rightarrow> string \<Rightarrow> string \<Rightarrow> ('s, 'w) command" where
  "friend_get_groups_cmd P fr user_id payload request_id token =
     with_payload (parse_FriendGetGroupsPayload P payload) request_id (\<lambda>req. with_session user_id request_id (\<lambda>z.
       (case FriendSystem_GetFriendGroups fr user_id token z of
          (Inl e, z) \<Rightarrow> (fail_text e ''get groups failed'' request_id, z)
        | (Inr xs, z) \<Rightarrow> (ok_answer (ser_FriendGetGroupsResponsePayload P \<lparr>pfggr_success = True, pfggr_groups = map friend_group_payload xs, pfggr_error = []\<rparr>) request_id, z))))"

text \<open>Four commands change the caller's lists and answer with success or an error.\<close>

definition done_answer :: "string option \<Rightarrow> string + unit \<Rightarrow> string \<Rightarrow> HandleClientRequestResult" where
  "done_answer data r request_id =
     with_answer data request_id (\<lambda>payload.
       (code_result (rpc_ok r) EC_INTERNAL_ERROR request_id)
         \<lparr>hr_payload := payload, hr_message := (case r of Inl e \<Rightarrow> e | Inr _ \<Rightarrow> [])\<rparr>)"

definition done_error :: "string + unit \<Rightarrow> string \<Rightarrow> string" where
  "done_error r text = (case r of Inl e \<Rightarrow> (if e = [] then text else e) | Inr _ \<Rightarrow> [])"

definition friend_create_group_cmd ::
  "FriendProto \<Rightarrow> ('s, 'w) zone FriendSystem \<Rightarrow> string \<Rightarrow> string \<Rightarrow> string \<Rightarrow> string \<Rightarrow> ('s, 'w) command" where
  "friend_create_group_cmd P fr user_id payload request_id token =
     with_payload (parse_FriendCreateGroupPayload P payload) request_id (\<lambda>req. with_session user_id request_id (\<lambda>z.
       (let (r, z) = FriendSystem_CreateFriendGroup fr user_id (pfcg_group_name req) token z
        in (done_answer (ser_FriendCreateGroupResponsePayload P
              \<lparr>pfcgr_success = rpc_ok r, pfcgr_group_id = [], pfcgr_error = done_error r ''create group failed''\<rparr>) r request_id, z))))"

definition friend_move_to_group_cmd ::
  "FriendProto \<Rightarrow> ('s, 'w) zone FriendSystem \<Rightarrow> string \<Rightarrow> string \<Rightarrow> string \<Rightarrow> string \<Rightarrow> ('s, 'w) command" where
  "friend_move_to_group_cmd P fr user_id payload request_id token =
     with_payload (parse_FriendMoveToGroupPayload P payload) request_id (\<lambda>req. with_session user_id request_id (\<lambda>z.
       (let (r, z) = FriendSystem_MoveFriendToGroup fr user_id (pfmtg_friend_id req) (pfmtg_group_id req) token z
        in (done_answer (ser_FriendMoveToGroupResponsePayload P
              \<lparr>pfmtgr_success = rpc_ok r, pfmtgr_error = done_error r ''move to group failed''\<rparr>) r request_id, z))))"

definition friend_delete_group_cmd ::
  "FriendProto \<Rightarrow> ('s, 'w) zone FriendSystem \<Rightarrow> string \<Rightarrow> string \<Rightarrow> string \<Rightarrow> string \<Rightarrow> ('s, 'w) command" where
  "friend_delete_group_cmd P fr user_id payload request_id token =
     with_payload (parse_FriendDeleteGroupPayload P payload) request_id (\<lambda>req. with_session user_id request_id (\<lambda>z.
       (let (r, z) = FriendSystem_DeleteFriendGroup fr user_id (pfdg_group_id req) token z
        in (done_answer (ser_FriendDeleteGroupResponsePayload P
              \<lparr>pfdgr_success = rpc_ok r, pfdgr_error = done_error r ''delete group failed''\<rparr>) r request_id, z))))"

definition friend_set_remark_cmd ::
  "FriendProto \<Rightarrow> ('s, 'w) zone FriendSystem \<Rightarrow> string \<Rightarrow> string \<Rightarrow> string \<Rightarrow> string \<Rightarrow> ('s, 'w) command" where
  "friend_set_remark_cmd P fr user_id payload request_id token =
     with_payload (parse_FriendSetRemarkPayload P payload) request_id (\<lambda>req. with_session user_id request_id (\<lambda>z.
       (let (r, z) = FriendSystem_SetRemark fr user_id (pfsrk_friend_id req) (pfsrk_remark req) token z
        in (done_answer (ser_FriendSetRemarkResponsePayload P
              \<lparr>pfsrr_success = rpc_ok r, pfsrr_error = done_error r ''set remark failed''\<rparr>) r request_id, z))))"

definition HandleFriend ::
  "ZoneProto \<Rightarrow> ('s, 'w) zone SystemManager \<Rightarrow> string \<Rightarrow> string \<Rightarrow> string \<Rightarrow> string \<Rightarrow> string \<Rightarrow> ('s, 'w) command" where
  "HandleFriend ZP m user_id cmd payload request_id token z =
     (case sm_friend m of
        None \<Rightarrow> (error_result EC_SERVICE_UNAVAILABLE request_id, z)
      | Some fr \<Rightarrow>
          (let P = zp_friend ZP in
           if cmd = ''friend.add'' then friend_add_cmd P fr payload request_id token z
           else if cmd = ''friend.handle_request'' then friend_handle_request_cmd P fr payload request_id token z
           else if cmd = ''friend.remove'' then friend_remove_cmd P fr payload request_id token z
           else if cmd = ''friend.block'' then friend_block_cmd P fr payload request_id token z
           else if cmd = ''friend.unblock'' then friend_unblock_cmd P fr payload request_id token z
           else if cmd = ''friend.get_friends'' then friend_get_friends_cmd P fr user_id payload request_id token z
           else if cmd = ''friend.get_requests'' \<or> cmd = ''friend.get_friend_requests''
             then friend_get_requests_cmd P fr user_id payload request_id token z
           else if cmd = ''friend.search'' then friend_search_cmd P (sm_auth m) user_id payload request_id token z
           else if cmd = ''friend.get_block_list'' then friend_get_block_list_cmd P fr user_id payload request_id token z
           else if cmd = ''friend.create_group'' then friend_create_group_cmd P fr user_id payload request_id token z
           else if cmd = ''friend.get_groups'' then friend_get_groups_cmd P fr user_id payload request_id token z
           else if cmd = ''friend.move_to_group'' then friend_move_to_group_cmd P fr user_id payload request_id token z
           else if cmd = ''friend.delete_group'' then friend_delete_group_cmd P fr user_id payload request_id token z
           else if cmd = ''friend.set_remark'' then friend_set_remark_cmd P fr user_id payload request_id token z
           else (NotImplemented request_id, z)))"

section \<open>group\<close>

definition group_create_cmd :: "GroupProto \<Rightarrow> ('s, 'w) zone GroupSystem \<Rightarrow> string \<Rightarrow> string \<Rightarrow> ('s, 'w) command" where
  "group_create_cmd P grp payload request_id =
     with_payload (parse_GroupCreatePayload P payload) request_id (\<lambda>req z.
       (let (group_id, z) = GroupSystem_CreateGroup grp (pgc_creator_id req) (pgc_group_name req) (pgc_member_ids req) z
        in (with_answer (ser_GroupCreateResponsePayload P
              \<lparr>pgcr_success = (group_id \<noteq> []), pgcr_group_id = group_id,
               pgcr_error = (if group_id = [] then ErrorCodeToString EC_INTERNAL_ERROR else [])\<rparr>) request_id
              (\<lambda>data. (code_result (group_id \<noteq> []) EC_INTERNAL_ERROR request_id)
                 \<lparr>hr_payload := data, hr_message := (if group_id = [] then ErrorCodeToString EC_INTERNAL_ERROR else [])\<rparr>), z)))"

definition group_dismiss_cmd :: "GroupProto \<Rightarrow> ('s, 'w) zone GroupSystem \<Rightarrow> string \<Rightarrow> string \<Rightarrow> ('s, 'w) command" where
  "group_dismiss_cmd P grp payload request_id =
     with_payload (parse_GroupDismissPayload P payload) request_id (\<lambda>req z.
       (let (ok, z) = GroupSystem_DismissGroup grp (pgd_group_id req) (pgd_operator_id req) z
        in ((code_result ok EC_NOT_GROUP_OWNER request_id)\<lparr>hr_message := (if ok then [] else ErrorCodeToString EC_NOT_GROUP_OWNER)\<rparr>, z)))"

definition group_invite_members_cmd :: "GroupProto \<Rightarrow> ('s, 'w) zone GroupSystem \<Rightarrow> string \<Rightarrow> string \<Rightarrow> ('s, 'w) command" where
  "group_invite_members_cmd P grp payload request_id =
     with_payload (parse_GroupInviteMembersPayload P payload) request_id (\<lambda>req z.
       (let (ok, z) = GroupSystem_InviteMembers grp (pgim_group_id req) (pgim_inviter_id req) (pgim_member_ids req) z
        in (code_result ok EC_UNKNOWN request_id, z)))"

definition group_remove_member_cmd :: "GroupProto \<Rightarrow> ('s, 'w) zone GroupSystem \<Rightarrow> string \<Rightarrow> string \<Rightarrow> ('s, 'w) command" where
  "group_remove_member_cmd P grp payload request_id =
     with_payload (parse_GroupRemoveMemberPayload P payload) request_id (\<lambda>req z.
       (let (ok, z) = GroupSystem_RemoveMember grp (pgrm_group_id req) (pgrm_operator_id req) (pgrm_member_id req) z
        in (code_result ok EC_UNKNOWN request_id, z)))"

definition group_leave_cmd :: "GroupProto \<Rightarrow> ('s, 'w) zone GroupSystem \<Rightarrow> string \<Rightarrow> string \<Rightarrow> ('s, 'w) command" where
  "group_leave_cmd P grp payload request_id =
     with_payload (parse_GroupLeavePayload P payload) request_id (\<lambda>req z.
       (let (ok, z) = GroupSystem_LeaveGroup grp (pgl_group_id req) (pgl_user_id req) z
        in (code_result ok EC_UNKNOWN request_id, z)))"

definition group_info_payload :: "GroupInfoResult \<Rightarrow> GroupInfoPayload" where
  "group_info_payload g =
     \<lparr>pgi_group_id = gir_group_id g, pgi_group_name = gir_group_name g, pgi_avatar_url = gir_avatar_url g, pgi_owner_id = gir_owner_id g,
      pgi_member_count = gir_member_count g, pgi_announcement = gir_announcement g, pgi_created_at = gir_created_at g\<rparr>"

definition group_get_info_cmd :: "GroupProto \<Rightarrow> ('s, 'w) zone GroupSystem \<Rightarrow> string \<Rightarrow> string \<Rightarrow> ('s, 'w) command" where
  "group_get_info_cmd P grp payload request_id =
     with_payload (parse_GroupGetInfoPayload P payload) request_id (\<lambda>req z.
       (case GroupSystem_GetGroupInfo grp (pggi_group_id req) z of
          (Inl e, z) \<Rightarrow> (fail_text e ''get group info failed'' request_id, z)
        | (Inr info, z) \<Rightarrow> (ok_answer (ser_GroupGetInfoResponsePayload P \<lparr>pggir_group = group_info_payload info\<rparr>) request_id, z)))"

definition group_member_payload :: "GroupMemberResult \<Rightarrow> GroupMemberPayload" where
  "group_member_payload m =
     \<lparr>pgm_user_id = gmr_user_id m, pgm_role = gmr_role m, pgm_nickname = gmr_nickname m, pgm_joined_at = gmr_joined_at m\<rparr>"

definition group_get_members_cmd :: "GroupProto \<Rightarrow> ('s, 'w) zone GroupSystem \<Rightarrow> string \<Rightarrow> string \<Rightarrow> ('s, 'w) command" where
  "group_get_members_cmd P grp payload request_id =
     with_payload (parse_GroupGetMembersPayload P payload) request_id (\<lambda>req z.
       (let page = (if pggm_page req > 0 then pggm_page req else 1);
            page_size = (if pggm_page_size req > 0 \<and> pggm_page_size req \<le> 100 then pggm_page_size req else 20)
        in case GroupSystem_GetGroupMembers grp (pggm_group_id req) page page_size z of
             (Inl e, z) \<Rightarrow> (fail_text e ''get members failed'' request_id, z)
           | (Inr (members, n), z) \<Rightarrow>
               (ok_answer (ser_GroupGetMembersResponsePayload P
                  \<lparr>pggmr_members = map group_member_payload members, pggmr_total = n\<rparr>) request_id, z)))"

definition group_get_user_groups_cmd :: "GroupProto \<Rightarrow> ('s, 'w) zone GroupSystem \<Rightarrow> string \<Rightarrow> string \<Rightarrow> string \<Rightarrow> ('s, 'w) command" where
  "group_get_user_groups_cmd P grp user_id payload request_id =
     with_payload (parse_GroupGetUserGroupsPayload P payload) request_id (\<lambda>req. with_session user_id request_id (\<lambda>z.
       (case GroupSystem_GetUserGroups grp user_id z of
          (Inl e, z) \<Rightarrow> (fail_text e ''get user groups failed'' request_id, z)
        | (Inr groups, z) \<Rightarrow>
            (ok_answer (ser_GroupGetUserGroupsResponsePayload P \<lparr>pggugr_groups = map group_info_payload groups\<rparr>) request_id, z))))"

definition HandleGroup :: "ZoneProto \<Rightarrow> ('s, 'w) zone SystemManager \<Rightarrow> string \<Rightarrow> string \<Rightarrow> string \<Rightarrow> string \<Rightarrow> ('s, 'w) command" where
  "HandleGroup ZP m user_id cmd payload request_id z =
     (case sm_group m of
        None \<Rightarrow> (error_result EC_SERVICE_UNAVAILABLE request_id, z)
      | Some grp \<Rightarrow>
          (let P = zp_group ZP in
           if cmd = ''group.create'' then group_create_cmd P grp payload request_id z
           else if cmd = ''group.dismiss'' then group_dismiss_cmd P grp payload request_id z
           else if cmd = ''group.invite_members'' then group_invite_members_cmd P grp payload request_id z
           else if cmd = ''group.remove_member'' then group_remove_member_cmd P grp payload request_id z
           else if cmd = ''group.leave'' then group_leave_cmd P grp payload request_id z
           else if cmd = ''group.get_info'' then group_get_info_cmd P grp payload request_id z
           else if cmd = ''group.get_members'' then group_get_members_cmd P grp payload request_id z
           else if cmd = ''group.get_user_groups'' then group_get_user_groups_cmd P grp user_id payload request_id z
           else (NotImplemented request_id, z)))"

section \<open>file\<close>

definition file_get_upload_token_cmd :: "FileProto \<Rightarrow> ('s, 'w) zone FileSystem \<Rightarrow> string \<Rightarrow> string \<Rightarrow> ('s, 'w) command" where
  "file_get_upload_token_cmd P fl payload request_id =
     with_payload (parse_FileGetUploadTokenPayload P payload) request_id (\<lambda>req z.
       (let (tok, z) = FileSystem_GetUploadToken fl (pfgut_user_id req) (pfgut_file_name req) (pfgut_file_size req) z
        in (with_answer (ser_FileGetUploadTokenResponsePayload P
              \<lparr>pfgutr_success = (ut_token tok \<noteq> []), pfgutr_upload_token = ut_token tok, pfgutr_upload_url = ut_upload_url tok,
               pfgutr_expire_at = ut_expire_at tok, pfgutr_error = []\<rparr>) request_id
              (\<lambda>data. (code_result (ut_token tok \<noteq> []) EC_UPLOAD_FAILED request_id)
                 \<lparr>hr_payload := data, hr_message := (if ut_token tok = [] then ErrorCodeToString EC_UPLOAD_FAILED else [])\<rparr>), z)))"

definition file_init_upload_cmd :: "FileProto \<Rightarrow> ('s, 'w) zone FileSystem \<Rightarrow> string \<Rightarrow> string \<Rightarrow> ('s, 'w) command" where
  "file_init_upload_cmd P fl payload request_id =
     with_payload (parse_FileInitUploadPayload P payload) request_id (\<lambda>req z.
       (let (r, z) = FileSystem_InitUpload fl (pfiu_user_id req) (pfiu_file_name req) (pfiu_content_type req) (pfiu_file_size req)
                       (pfiu_md5 req) (pfiu_msg_id req) z;
            err = (case r of Inl e \<Rightarrow> e | Inr _ \<Rightarrow> [])
        in (with_answer (ser_FileInitUploadResponsePayload P
              \<lparr>pfiur_success = rpc_ok r, pfiur_upload_id = (case r of Inl _ \<Rightarrow> [] | Inr (i, _) \<Rightarrow> i),
               pfiur_expire_at = (case r of Inl _ \<Rightarrow> 0 | Inr (_, t) \<Rightarrow> t), pfiur_error = err\<rparr>) request_id
              (\<lambda>data. (code_result (rpc_ok r) EC_UPLOAD_FAILED request_id)\<lparr>hr_payload := data, hr_message := err\<rparr>), z)))"

definition file_get_file_info_cmd :: "FileProto \<Rightarrow> ('s, 'w) zone FileSystem \<Rightarrow> string \<Rightarrow> string \<Rightarrow> ('s, 'w) command" where
  "file_get_file_info_cmd P fl payload request_id =
     with_payload (parse_FileGetFileInfoPayload P payload) request_id (\<lambda>req z.
       (let (r, z) = FileSystem_GetFileInfo fl (pfgfi_file_id req) z
        in (with_answer (ser_FileGetFileInfoResponsePayload P
              \<lparr>pfgfir_success = sfi_success r, pfgfir_file_id = fi_file_id r, pfgfir_file_name = fi_file_name r, pfgfir_file_size = fi_file_size r,
               pfgfir_content_type = fi_content_type r, pfgfir_uploader_id = fi_uploader_id r, pfgfir_uploaded_at = fi_uploaded_at r,
               pfgfir_md5 = fi_md5 r, pfgfir_error = sfi_error r\<rparr>) request_id
              (\<lambda>data. (code_result (sfi_success r) EC_FILE_NOT_FOUND request_id)
                 \<lparr>hr_payload := data, hr_message := (if sfi_success r then [] else sfi_error r)\<rparr>), z)))"

definition file_get_file_url_cmd :: "FileProto \<Rightarrow> ('s, 'w) zone FileSystem \<Rightarrow> string \<Rightarrow> string \<Rightarrow> ('s, 'w) command" where
  "file_get_file_url_cmd P fl payload request_id =
     with_payload (parse_FileGetFileUrlPayload P payload) request_id (\<lambda>req z.
       (let (url, z) = FileSystem_GetFileUrl fl (pfgfu_file_id req) (pfgfu_user_id req) z
        in (with_answer (ser_FileGetFileUrlResponsePayload P
              \<lparr>pfgfur_success = (fu_url url \<noteq> []), pfgfur_file_url = fu_url url, pfgfur_file_name = fu_file_name url,
               pfgfur_file_size = fu_file_size url, pfgfur_content_type = fu_content_type url, pfgfur_expire_at = fu_expire_at url,
               pfgfur_error = []\<rparr>) request_id
              (\<lambda>data. (code_result (fu_url url \<noteq> []) EC_FILE_NOT_FOUND request_id)
                 \<lparr>hr_payload := data, hr_message := (if fu_url url = [] then ErrorCodeToString EC_FILE_NOT_FOUND else [])\<rparr>), z)))"

definition file_delete_cmd :: "FileProto \<Rightarrow> ('s, 'w) zone FileSystem \<Rightarrow> string \<Rightarrow> string \<Rightarrow> ('s, 'w) command" where
  "file_delete_cmd P fl payload request_id =
     with_payload (parse_FileDeletePayload P payload) request_id (\<lambda>req z.
       (let (ok, z) = FileSystem_DeleteFile fl (pfd_file_id req) (pfd_user_id req) z
        in ((code_result ok EC_FILE_NOT_FOUND request_id)\<lparr>hr_message := (if ok then [] else ErrorCodeToString EC_FILE_NOT_FOUND)\<rparr>, z)))"

definition HandleFile :: "ZoneProto \<Rightarrow> ('s, 'w) zone SystemManager \<Rightarrow> string \<Rightarrow> string \<Rightarrow> string \<Rightarrow> ('s, 'w) command" where
  "HandleFile ZP m cmd payload request_id z =
     (case sm_file m of
        None \<Rightarrow> (error_result EC_SERVICE_UNAVAILABLE request_id, z)
      | Some fl \<Rightarrow>
          (let P = zp_file ZP in
           if cmd = ''file.get_upload_token'' then file_get_upload_token_cmd P fl payload request_id z
           else if cmd = ''file.init_upload'' then file_init_upload_cmd P fl payload request_id z
           else if cmd = ''file.get_file_info'' then file_get_file_info_cmd P fl payload request_id z
           else if cmd = ''file.get_file_url'' then file_get_file_url_cmd P fl payload request_id z
           else if cmd = ''file.delete'' then file_delete_cmd P fl payload request_id z
           else (NotImplemented request_id, z)))"

section \<open>All commands\<close>

definition cmd_prefix :: "string \<Rightarrow> string" where
  "cmd_prefix cmd = (case find_char CHR ''.'' cmd of Some dot \<Rightarrow> take dot cmd | None \<Rightarrow> cmd)"

definition HandleClientRequest ::
  "('s, 'w) ZoneServiceImpl \<Rightarrow> string \<Rightarrow> string \<Rightarrow> string \<Rightarrow> string \<Rightarrow> string \<Rightarrow> string \<Rightarrow> ('s, 'w) command" where
  "HandleClientRequest Z conn_id user_id cmd payload request_id token z =
     (case zi_manager Z of
        None \<Rightarrow> (error_result EC_INTERNAL_ERROR request_id, z)
      | Some m \<Rightarrow>
          (let p = cmd_prefix cmd in
           if p = ''auth'' then HandleAuth (zi_proto Z) m cmd payload request_id z
           else if p = ''chat'' then HandleChat Z m user_id cmd payload request_id token z
           else if p = ''friend'' then HandleFriend (zi_proto Z) m user_id cmd payload request_id token z
           else if p = ''group'' then HandleGroup (zi_proto Z) m user_id cmd payload request_id z
           else if p = ''file'' then HandleFile (zi_proto Z) m cmd payload request_id z
           else (NotImplemented request_id, z)))"

text \<open>Pushing through the chat system calls back into the routing.\<close>

definition BindChatPushToUser ::
  "('s, 'w) ZoneServiceImpl \<Rightarrow> (string \<Rightarrow> string \<Rightarrow> string \<Rightarrow> ('s, 'w) zone \<Rightarrow> bool \<times> ('s, 'w) zone) option" where
  "BindChatPushToUser Z =
     (case zi_manager Z of
        None \<Rightarrow> None
      | Some m \<Rightarrow>
          if sm_chat m = None then None
          else Some (\<lambda>user_id cmd payload z. apfst rr_delivered (RouteToUser Z user_id cmd payload z)))"

definition ChatSystem_PushToUser ::
  "(string \<Rightarrow> string \<Rightarrow> string \<Rightarrow> 'z \<Rightarrow> bool \<times> 'z) option \<Rightarrow> string \<Rightarrow> string \<Rightarrow> string \<Rightarrow> 'z \<Rightarrow> bool \<times> 'z" where
  "ChatSystem_PushToUser callback user_id cmd payload z =
     (case callback of Some push \<Rightarrow> push user_id cmd payload z | None \<Rightarrow> (False, z))"

end
