(* ===== verification/Zone_Handler.thy ===== *)
theory Zone_Handler
  imports Zone_Service
begin

text \<open>
  \<^verbatim>\<open>backend/zonesvr/internal/handler/zone_handler.cpp\<close>, the gRPC methods of the zone server, and
  \<^verbatim>\<open>interceptor/internal_secret_processor.cpp\<close>, the check of the secret that gates send with every call.  A method
  takes the fields of its request; requests and responses are never null.
\<close>

definition kMetadataKey :: string where
  "kMetadataKey = ''x-internal-secret''"

definition InternalSecretProcessor_Process :: "string \<Rightarrow> (string \<times> string) list \<Rightarrow> grpc_Status" where
  "InternalSecretProcessor_Process expected auth_metadata =
     (if expected = [] then grpc_OK
      else
        (case map_of auth_metadata kMetadataKey of
           None \<Rightarrow> grpc_UNAUTHENTICATED ''missing or invalid x-internal-secret''
         | Some value \<Rightarrow>
             if value \<noteq> expected then grpc_UNAUTHENTICATED ''missing or invalid x-internal-secret'' else grpc_OK))"

definition verdict_response :: "bool \<Rightarrow> ErrorCode \<Rightarrow> CommonResponse" where
  "verdict_response ok ec =
     (if ok then \<lparr>resp_code = ErrorCodeToInt EC_OK, resp_message = []\<rparr>
      else \<lparr>resp_code = ErrorCodeToInt ec, resp_message = ErrorCodeToString ec\<rparr>)"

definition ZoneHandler_UserOnline ::
  "('s, 'w) ZoneServiceImpl \<Rightarrow> int \<Rightarrow> string \<Rightarrow> string \<Rightarrow> string \<Rightarrow> string \<Rightarrow> ('s, 'w) zone \<Rightarrow> CommonResponse \<times> ('s, 'w) zone" where
  "ZoneHandler_UserOnline Z now user_id gate_id device_type device_id z =
     (let (ok, z) = ZoneServiceImpl_UserOnline Z now user_id gate_id device_type device_id z
      in (verdict_response ok EC_SERVICE_UNAVAILABLE, z))"

definition ZoneHandler_UserOffline ::
  "('s, 'w) ZoneServiceImpl \<Rightarrow> string \<Rightarrow> string \<Rightarrow> ('s, 'w) zone \<Rightarrow> CommonResponse \<times> ('s, 'w) zone" where
  "ZoneHandler_UserOffline Z user_id gate_id z =
     (let (ok, z) = ZoneServiceImpl_UserOffline Z user_id gate_id z in (verdict_response ok EC_INTERNAL_ERROR, z))"

record RouteMessageResponse = CommonResponse +
  rmr_delivered :: bool

definition ZoneHandler_RouteMessage ::
  "('s, 'w) ZoneServiceImpl \<Rightarrow> string \<Rightarrow> string \<Rightarrow> string \<Rightarrow> ('s, 'w) zone \<Rightarrow> RouteMessageResponse \<times> ('s, 'w) zone" where
  "ZoneHandler_RouteMessage Z to_user_id payload msg_type z =
     (let (result, z) = RouteToUser Z to_user_id (if msg_type = [] then ''message'' else msg_type) payload z
      in (\<lparr>resp_code = ErrorCodeToInt EC_OK, resp_message = [], rmr_delivered = rr_delivered result\<rparr>, z))"

record BroadcastResponse = CommonResponse +
  bcr_online_count :: int
  bcr_delivered_count :: int

definition ZoneHandler_Broadcast ::
  "('s, 'w) ZoneServiceImpl \<Rightarrow> string list \<Rightarrow> string \<Rightarrow> string \<Rightarrow> ('s, 'w) zone \<Rightarrow> BroadcastResponse \<times> ('s, 'w) zone" where
  "ZoneHandler_Broadcast Z user_ids payload msg_type z =
     (let ((online_count, delivered_count), z) = ZoneServiceImpl_Broadcast Z user_ids (if msg_type = [] then ''broadcast'' else msg_type) payload z
      in (\<lparr>resp_code = ErrorCodeToInt EC_OK, resp_message = [], bcr_online_count = online_count, bcr_delivered_count = delivered_count\<rparr>, z))"

record UserStatus =
  ust_user_id :: string
  ust_online :: bool
  ust_gate_id :: string
  ust_device_type :: string
  ust_last_active_at :: int

fun ZoneHandler_GetUserStatus ::
  "('s, 'w) ZoneServiceImpl \<Rightarrow> string list \<Rightarrow> ('s, 'w) zone \<Rightarrow> UserStatus list \<times> ('s, 'w) zone" where
  "ZoneHandler_GetUserStatus Z [] z = ([], z)"
| "ZoneHandler_GetUserStatus Z (uid # user_ids) z =
     (let (opt, z) = ZoneServiceImpl_GetUserSession Z uid z;
          status = (case opt of
              Some s \<Rightarrow> \<lparr>ust_user_id = uid, ust_online = True, ust_gate_id = us_gate_id s, ust_device_type = us_device_type s,
                 ust_last_active_at = us_last_active_at s\<rparr>
            | None \<Rightarrow> \<lparr>ust_user_id = uid, ust_online = False, ust_gate_id = [], ust_device_type = [], ust_last_active_at = 0\<rparr>);
          (statuses, z) = ZoneHandler_GetUserStatus Z user_ids z
      in (status # statuses, z))"

definition ZoneHandler_PushToUser ::
  "('s, 'w) ZoneServiceImpl \<Rightarrow> string \<Rightarrow> string \<Rightarrow> string \<Rightarrow> ('s, 'w) zone \<Rightarrow> CommonResponse \<times> ('s, 'w) zone" where
  "ZoneHandler_PushToUser Z user_id cmd payload z =
     (let (result, z) = RouteToUser Z user_id (if cmd = [] then ''push'' else cmd) payload z
      in (if \<not> rr_user_online result then verdict_response False EC_USER_OFFLINE
          else verdict_response (rr_delivered result) EC_FORWARD_FAILED, z))"

definition ZoneHandler_KickUser ::
  "('s, 'w) ZoneServiceImpl \<Rightarrow> string \<Rightarrow> string \<Rightarrow> ('s, 'w) zone \<Rightarrow> CommonResponse \<times> ('s, 'w) zone" where
  "ZoneHandler_KickUser Z user_id reason z =
     (let (ok, z) = ZoneServiceImpl_KickUser Z user_id reason z in (verdict_response ok EC_FORWARD_FAILED, z))"

definition ZoneHandler_GateRegister ::
  "('s, 'w) ZoneServiceImpl \<Rightarrow> int \<Rightarrow> string \<Rightarrow> string \<Rightarrow> int \<Rightarrow> ('s, 'w) zone \<Rightarrow> CommonResponse \<times> ('s, 'w) zone" where
  "ZoneHandler_GateRegister Z now gate_id address current_connections z =
     (let (ok, z) = ZoneServiceImpl_RegisterGate Z now gate_id address z in (verdict_response ok EC_INTERNAL_ERROR, z))"

definition ZoneHandler_GateHeartbeat ::
  "('s, 'w) ZoneServiceImpl \<Rightarrow> int \<Rightarrow> string \<Rightarrow> int \<Rightarrow> ('s, 'w) zone \<Rightarrow> CommonResponse \<times> ('s, 'w) zone" where
  "ZoneHandler_GateHeartbeat Z now_s gate_id current_connections z =
     (let (ok, z) = ZoneServiceImpl_GateHeartbeat Z now_s gate_id current_connections z in (verdict_response ok EC_GATE_NOT_FOUND, z))"

text \<open>The response takes over the fields of the result that are not empty, and is otherwise empty.\<close>

definition ZoneHandler_HandleClientRequest ::
  "('s, 'w) ZoneServiceImpl \<Rightarrow> string \<Rightarrow> string \<Rightarrow> string \<Rightarrow> string \<Rightarrow> string \<Rightarrow> string \<Rightarrow> ('s, 'w) command" where
  "ZoneHandler_HandleClientRequest Z conn_id user_id cmd payload request_id token z =
     HandleClientRequest Z conn_id user_id cmd payload request_id token z"

end
