(* ===== verification/Gate_Service.thy ===== *)
theory Gate_Service
  imports Zone_Handler
begin

text \<open>
  \<^verbatim>\<open>backend/gatesvr\<close>: \<^verbatim>\<open>config/config.cpp\<close>, \<^verbatim>\<open>rpc/zone_rpc_client.cpp\<close>, \<^verbatim>\<open>service/gate_service.cpp\<close> and the handlers.
  A gate keeps its connections, which connection a user is on, and the callbacks by which a session is
  told to send or to close.  The state is a pair of the gate and the rest of the world, on which the stub of the
  zone server acts: while a call to the zone runs, the zone may push to this gate and other connections go on.
  The callbacks are those that \<^verbatim>\<open>WsSession\<close> registers: they post a task to the session, which is appended to
  \<open>g_posted\<close>.  The clock is an argument.
\<close>

section \<open>Settings\<close>

record GateConfig =
  gc_host :: string
  gc_advertise_host :: string
  gc_websocket_port :: int
  gc_grpc_port :: int
  gc_gate_id :: string
  gc_zone_svr_addr :: string
  gc_zonesvr_internal_secret :: string
  gc_max_connections :: int
  gc_heartbeat_interval_seconds :: int
  gc_heartbeat_timeout_seconds :: int
  gc_log_dir :: string
  gc_log_level :: string

definition gate_LoadConfig :: "string list option \<Rightarrow> string list \<Rightarrow> GateConfig" where
  "gate_LoadConfig config_file environ =
     (let kv = LoadKeyValueConfig config_file ''GATESVR_'' environ in
      \<lparr>gc_host = config_Get kv ''host'' ''0.0.0.0'',
       gc_advertise_host = config_Get kv ''advertise_host'' [],
       gc_websocket_port = GetInt kv ''websocket_port'' 9090,
       gc_grpc_port = GetInt kv ''grpc_port'' 9091,
       gc_gate_id = config_Get kv ''gate_id'' [],
       gc_zone_svr_addr = config_Get kv ''zone_svr_addr'' ''localhost:9092'',
       gc_zonesvr_internal_secret = config_Get kv ''zonesvr_internal_secret'' [],
       gc_max_connections = GetInt kv ''max_connections'' 10000,
       gc_heartbeat_interval_seconds = GetInt kv ''heartbeat_interval_seconds'' 30,
       gc_heartbeat_timeout_seconds = GetInt kv ''heartbeat_timeout_seconds'' 90,
       gc_log_dir = config_Get kv ''log_dir'' ''/data/logs'',
       gc_log_level = config_Get kv ''log_level'' ''INFO''\<rparr>)"

section \<open>The client of the zone server\<close>

record 'z ZoneStub =
  zone_UserOnline :: "ClientContext \<Rightarrow> string \<Rightarrow> string \<Rightarrow> string \<Rightarrow> string \<Rightarrow> (CommonResponse, 'z) rpc"
  zone_UserOffline :: "ClientContext \<Rightarrow> string \<Rightarrow> string \<Rightarrow> (CommonResponse, 'z) rpc"
  zone_GateRegister :: "ClientContext \<Rightarrow> string \<Rightarrow> string \<Rightarrow> int \<Rightarrow> (CommonResponse, 'z) rpc"
  zone_GateHeartbeat :: "ClientContext \<Rightarrow> string \<Rightarrow> int \<Rightarrow> (CommonResponse, 'z) rpc"
  zone_HandleClientRequest :: "ClientContext \<Rightarrow> string \<Rightarrow> string \<Rightarrow> string \<Rightarrow> string \<Rightarrow> string \<Rightarrow> string \<Rightarrow> (HandleClientRequestResult, 'z) rpc"

record 'z ZoneRpcClient =
  zrc_stub :: "'z ZoneStub option"
  zrc_secret :: string

definition AddInternalSecret :: "string \<Rightarrow> ClientContext" where
  "AddInternalSecret secret = (if secret \<noteq> [] then [(''x-internal-secret'', secret)] else [])"

definition common_ok :: "string + CommonResponse \<Rightarrow> bool" where
  "common_ok r = (case r of Inl _ \<Rightarrow> False | Inr resp \<Rightarrow> resp_code resp = 0)"

definition zone_call :: "'z ZoneRpcClient \<Rightarrow> ('z ZoneStub \<Rightarrow> ClientContext \<Rightarrow> (CommonResponse, 'z) rpc) \<Rightarrow> 'z \<Rightarrow> bool \<times> 'z" where
  "zone_call client call z =
     (case zrc_stub client of
        None \<Rightarrow> (False, z)
      | Some stub \<Rightarrow> apfst common_ok (call stub (AddInternalSecret (zrc_secret client)) z))"

definition ZoneRpcClient_UserOnline :: "'z ZoneRpcClient \<Rightarrow> string \<Rightarrow> string \<Rightarrow> string \<Rightarrow> string \<Rightarrow> 'z \<Rightarrow> bool \<times> 'z" where
  "ZoneRpcClient_UserOnline client user_id gate_id device_type device_id =
     zone_call client (\<lambda>stub ctx. zone_UserOnline stub ctx user_id gate_id device_type device_id)"

definition ZoneRpcClient_UserOffline :: "'z ZoneRpcClient \<Rightarrow> string \<Rightarrow> string \<Rightarrow> 'z \<Rightarrow> bool \<times> 'z" where
  "ZoneRpcClient_UserOffline client user_id gate_id = zone_call client (\<lambda>stub ctx. zone_UserOffline stub ctx user_id gate_id)"

definition ZoneRpcClient_GateRegister :: "'z ZoneRpcClient \<Rightarrow> string \<Rightarrow> string \<Rightarrow> int \<Rightarrow> 'z \<Rightarrow> bool \<times> 'z" where
  "ZoneRpcClient_GateRegister client gate_id address current_connections =
     zone_call client (\<lambda>stub ctx. zone_GateRegister stub ctx gate_id address current_connections)"

definition ZoneRpcClient_GateHeartbeat :: "'z ZoneRpcClient \<Rightarrow> string \<Rightarrow> int \<Rightarrow> 'z \<Rightarrow> bool \<times> 'z" where
  "ZoneRpcClient_GateHeartbeat client gate_id current_connections =
     zone_call client (\<lambda>stub ctx. zone_GateHeartbeat stub ctx gate_id current_connections)"

text \<open>\<open>False\<close> comes with the result as far as it is set: a failed status gives the code \<open>-1\<close>, a null stub leaves the defaults.\<close>

definition ZoneRpcClient_HandleClientRequest ::
  "'z ZoneRpcClient \<Rightarrow> string \<Rightarrow> string \<Rightarrow> string \<Rightarrow> string \<Rightarrow> string \<Rightarrow> string \<Rightarrow> 'z \<Rightarrow> (bool \<times> HandleClientRequestResult) \<times> 'z" where
  "ZoneRpcClient_HandleClientRequest client conn_id user_id cmd payload request_id token z =
     (case zrc_stub client of
        None \<Rightarrow> ((False, new_result []), z)
      | Some stub \<Rightarrow>
          apfst (\<lambda>r. case r of
                   Inl e \<Rightarrow> (False, \<lparr>hr_code = -1, hr_message = e, hr_payload = [], hr_request_id = request_id\<rparr>)
                 | Inr resp \<Rightarrow> (True, resp))
            (zone_HandleClientRequest stub (AddInternalSecret (zrc_secret client)) conn_id user_id cmd payload request_id token z))"

section \<open>State\<close>

record Connection =
  cn_conn_id :: string
  cn_user_id :: string
  cn_token :: string
  cn_device_id :: string
  cn_device_type :: string
  cn_connected_at :: int
  cn_last_heartbeat :: int
  cn_authenticated :: bool

datatype Posted = PostSend string string | PostClose string

record GateState =
  g_connections :: "string \<rightharpoonup> Connection"
  g_user_to_conn :: "string \<rightharpoonup> string"
  g_send_callbacks :: "string \<rightharpoonup> string"
  g_close_callbacks :: "string \<rightharpoonup> string"
  g_posted :: "Posted list"

definition GateState_empty :: GateState where
  "GateState_empty = \<lparr>g_connections = Map.empty, g_user_to_conn = Map.empty, g_send_callbacks = Map.empty, g_close_callbacks = Map.empty,
     g_posted = []\<rparr>"

record ServerMessage =
  sm_cmd :: string
  sm_payload :: string
  sm_request_id :: string
  sm_code :: int
  sm_message :: string

record ClientMessage =
  cm_cmd :: string
  cm_payload :: string
  cm_request_id :: string

record GateProto =
  gp_parse_ClientMessage :: "string \<Rightarrow> ClientMessage option"
  gp_ser_ServerMessage :: "ServerMessage \<Rightarrow> string option"
  gp_ser_HeartbeatResponse :: "int \<Rightarrow> string option"
  gp_parse_AuthLogin :: "string \<Rightarrow> AuthLoginPayload option"
  gp_parse_AuthLoginResponse :: "string \<Rightarrow> AuthLoginResponsePayload option"
  gp_parse_AuthValidateToken :: "string \<Rightarrow> AuthValidateTokenPayload option"
  gp_parse_AuthValidateTokenResponse :: "string \<Rightarrow> AuthValidateTokenResponsePayload option"

record 'w GateService =
  gs_zone_client :: "(GateState \<times> 'w) ZoneRpcClient option"
  gs_gate_id :: string
  gs_heartbeat_timeout_seconds :: int
  gs_proto :: GateProto

definition FallbackGateId :: "string option \<Rightarrow> int \<Rightarrow> string" where
  "FallbackGateId hostname grpc_port = (case hostname of Some name \<Rightarrow> name | None \<Rightarrow> []) @ '':'' @ to_string grpc_port"

definition GateService_Init :: "string option \<Rightarrow> (GateState \<times> 'w) ZoneStub \<Rightarrow> GateProto \<Rightarrow> GateConfig \<Rightarrow> 'w GateService" where
  "GateService_Init hostname stub P config =
     \<lparr>gs_zone_client = Some \<lparr>zrc_stub = Some stub, zrc_secret = gc_zonesvr_internal_secret config\<rparr>,
      gs_gate_id = (if gc_gate_id config = [] then FallbackGateId hostname (gc_grpc_port config) else gc_gate_id config),
      gs_heartbeat_timeout_seconds = (if gc_heartbeat_timeout_seconds config > 0 then gc_heartbeat_timeout_seconds config else 90),
      gs_proto = P\<rparr>"

section \<open>Connections\<close>

definition AddConnection :: "int \<Rightarrow> string \<Rightarrow> GateState \<Rightarrow> GateState" where
  "AddConnection now conn_id g =
     g\<lparr>g_connections := (g_connections g)(conn_id \<mapsto>
         \<lparr>cn_conn_id = conn_id, cn_user_id = [], cn_token = [], cn_device_id = [], cn_device_type = [],
          cn_connected_at = now, cn_last_heartbeat = now, cn_authenticated = False\<rparr>)\<rparr>"

definition NotifyUserOffline :: "'w GateService \<Rightarrow> string \<Rightarrow> GateState \<times> 'w \<Rightarrow> GateState \<times> 'w" where
  "NotifyUserOffline S user_id z =
     (case gs_zone_client S of
        None \<Rightarrow> z
      | Some client \<Rightarrow> snd (ZoneRpcClient_UserOffline client user_id (gs_gate_id S) z))"

definition drop_connection :: "string \<Rightarrow> GateState \<Rightarrow> GateState" where
  "drop_connection conn_id g =
     (case g_connections g conn_id of
        None \<Rightarrow> g
      | Some c \<Rightarrow>
          (let g = (if cn_user_id c \<noteq> [] then g\<lparr>g_user_to_conn := (g_user_to_conn g)(cn_user_id c := None)\<rparr> else g)
           in g\<lparr>g_connections := (g_connections g)(conn_id := None)\<rparr>))"

definition RemoveConnection :: "'w GateService \<Rightarrow> string \<Rightarrow> GateState \<times> 'w \<Rightarrow> GateState \<times> 'w" where
  "RemoveConnection S conn_id z =
     (let user_id = (case g_connections (fst z) conn_id of None \<Rightarrow> [] | Some c \<Rightarrow> cn_user_id c);
          z = apfst (drop_connection conn_id) z
      in if user_id \<noteq> [] then NotifyUserOffline S user_id z else z)"

definition BindUser :: "string \<Rightarrow> string \<Rightarrow> string \<Rightarrow> string \<Rightarrow> string \<Rightarrow> GateState \<Rightarrow> bool \<times> GateState" where
  "BindUser conn_id user_id token device_id device_type g =
     (case g_connections g conn_id of
        None \<Rightarrow> (False, g)
      | Some c \<Rightarrow>
          (let g = (if cn_user_id c \<noteq> [] then g\<lparr>g_user_to_conn := (g_user_to_conn g)(cn_user_id c := None)\<rparr> else g);
               g = g\<lparr>g_connections := (g_connections g)(conn_id \<mapsto>
                       c\<lparr>cn_user_id := user_id, cn_token := token, cn_device_id := device_id, cn_device_type := device_type,
                         cn_authenticated := True\<rparr>)\<rparr>
           in (True, g\<lparr>g_user_to_conn := (g_user_to_conn g)(user_id \<mapsto> conn_id)\<rparr>)))"

text \<open>\<open>order\<close> lists the keys of the table of connections in the order of its iteration.\<close>

definition UnbindUser :: "string list \<Rightarrow> string \<Rightarrow> GateState \<Rightarrow> GateState" where
  "UnbindUser order user_id g =
     (let g = g\<lparr>g_user_to_conn := (g_user_to_conn g)(user_id := None)\<rparr>
      in case List.find (\<lambda>cid. map_option cn_user_id (g_connections g cid) = Some user_id) order of
           None \<Rightarrow> g
         | Some cid \<Rightarrow>
             g\<lparr>g_connections := (g_connections g)(cid := map_option
                 (\<lambda>c. c\<lparr>cn_user_id := [], cn_device_id := [], cn_device_type := [], cn_authenticated := False\<rparr>) (g_connections g cid))\<rparr>)"

definition GetConnIdByUser :: "GateState \<Rightarrow> string \<Rightarrow> string" where
  "GetConnIdByUser g user_id = (case g_user_to_conn g user_id of Some conn_id \<Rightarrow> conn_id | None \<Rightarrow> [])"

definition GetConnectionByUserId :: "GateState \<Rightarrow> string \<Rightarrow> Connection option" where
  "GetConnectionByUserId g user_id =
     (case g_user_to_conn g user_id of None \<Rightarrow> None | Some conn_id \<Rightarrow> g_connections g conn_id)"

definition UpdateHeartbeat :: "int \<Rightarrow> string \<Rightarrow> GateState \<Rightarrow> GateState" where
  "UpdateHeartbeat now conn_id g =
     (case g_connections g conn_id of
        None \<Rightarrow> g
      | Some c \<Rightarrow> g\<lparr>g_connections := (g_connections g)(conn_id \<mapsto> c\<lparr>cn_last_heartbeat := now\<rparr>)\<rparr>)"

definition SetSendCallback :: "string \<Rightarrow> string \<Rightarrow> GateState \<Rightarrow> GateState" where
  "SetSendCallback conn_id session g = g\<lparr>g_send_callbacks := (g_send_callbacks g)(conn_id \<mapsto> session)\<rparr>"

definition RemoveSendCallback :: "string \<Rightarrow> GateState \<Rightarrow> GateState" where
  "RemoveSendCallback conn_id g = g\<lparr>g_send_callbacks := (g_send_callbacks g)(conn_id := None)\<rparr>"

definition SetCloseCallback :: "string \<Rightarrow> string \<Rightarrow> GateState \<Rightarrow> GateState" where
  "SetCloseCallback conn_id session g = g\<lparr>g_close_callbacks := (g_close_callbacks g)(conn_id \<mapsto> session)\<rparr>"

definition RemoveCloseCallback :: "string \<Rightarrow> GateState \<Rightarrow> GateState" where
  "RemoveCloseCallback conn_id g = g\<lparr>g_close_callbacks := (g_close_callbacks g)(conn_id := None)\<rparr>"

definition CloseConnection :: "string \<Rightarrow> GateState \<Rightarrow> GateState" where
  "CloseConnection conn_id g =
     (case g_close_callbacks g conn_id of None \<Rightarrow> g | Some session \<Rightarrow> g\<lparr>g_posted := g_posted g @ [PostClose session]\<rparr>)"

definition SendToConn :: "string \<Rightarrow> string \<Rightarrow> GateState \<Rightarrow> bool \<times> GateState" where
  "SendToConn conn_id data g =
     (case g_send_callbacks g conn_id of
        None \<Rightarrow> (False, g)
      | Some session \<Rightarrow> (True, g\<lparr>g_posted := g_posted g @ [PostSend session data]\<rparr>))"

definition SendResponse ::
  "GateProto \<Rightarrow> string \<Rightarrow> string \<Rightarrow> string \<Rightarrow> int \<Rightarrow> string \<Rightarrow> string \<Rightarrow> GateState \<Rightarrow> bool \<times> GateState" where
  "SendResponse P conn_id cmd request_id rcode message payload g =
     (case gp_ser_ServerMessage P
             \<lparr>sm_cmd = cmd, sm_payload = payload, sm_request_id = request_id, sm_code = rcode, sm_message = message\<rparr> of
        None \<Rightarrow> (False, g)
      | Some data \<Rightarrow> SendToConn conn_id data g)"

definition PushToUser :: "GateProto \<Rightarrow> string \<Rightarrow> string \<Rightarrow> string \<Rightarrow> GateState \<Rightarrow> bool \<times> GateState" where
  "PushToUser P user_id cmd payload g =
     (let conn_id = GetConnIdByUser g user_id in
      if conn_id = [] then (False, g)
      else
        (case gp_ser_ServerMessage P
                \<lparr>sm_cmd = (if cmd = [] then ''message'' else cmd), sm_payload = payload, sm_request_id = [], sm_code = 0, sm_message = []\<rparr> of
           None \<Rightarrow> (False, g)
         | Some data \<Rightarrow> SendToConn conn_id data g))"

definition CheckHeartbeat :: "'w GateService \<Rightarrow> int \<Rightarrow> string list \<Rightarrow> GateState \<Rightarrow> GateState" where
  "CheckHeartbeat S now_ms order g =
     (let timeout_ms = gs_heartbeat_timeout_seconds S * 1000;
          to_close = filter (\<lambda>cid. case g_connections g cid of
              Some c \<Rightarrow> now_ms - cn_last_heartbeat c > timeout_ms | None \<Rightarrow> False) order
      in fold CloseConnection to_close g)"

text \<open>\<open>connections_.size()\<close>, converted to \<^verbatim>\<open>int\<close>.\<close>

definition GetConnectionCount :: "GateState \<Rightarrow> int" where
  "GetConnectionCount g = wrap32 (int (card (dom (g_connections g))))"

section \<open>Commands of a client\<close>

definition respond :: "'w GateService \<Rightarrow> string \<Rightarrow> string \<Rightarrow> string \<Rightarrow> int \<Rightarrow> string \<Rightarrow> string \<Rightarrow> GateState \<times> 'w \<Rightarrow> GateState \<times> 'w" where
  "respond S conn_id cmd request_id rcode message payload z =
     apfst (\<lambda>g. snd (SendResponse (gs_proto S) conn_id cmd request_id rcode message payload g)) z"

definition respond_error :: "'w GateService \<Rightarrow> string \<Rightarrow> string \<Rightarrow> string \<Rightarrow> ErrorCode \<Rightarrow> GateState \<times> 'w \<Rightarrow> GateState \<times> 'w" where
  "respond_error S conn_id cmd request_id ec z = respond S conn_id cmd request_id (ErrorCodeToInt ec) (ErrorCodeToString ec) [] z"

text \<open>The answer to a request that did not get through to the zone server.\<close>

definition respond_failed :: "'w GateService \<Rightarrow> string \<Rightarrow> string \<Rightarrow> string \<Rightarrow> HandleClientRequestResult \<Rightarrow> GateState \<times> 'w \<Rightarrow> GateState \<times> 'w" where
  "respond_failed S conn_id cmd request_id result z =
     respond S conn_id cmd request_id
       (if hr_code result < 0 then ErrorCodeToInt EC_RPC_FAILED else hr_code result)
       (if hr_message result = [] then ErrorCodeToString EC_RPC_FAILED else hr_message result) [] z"

definition HandleLogin :: "'w GateService \<Rightarrow> string \<Rightarrow> string \<Rightarrow> string \<Rightarrow> GateState \<times> 'w \<Rightarrow> GateState \<times> 'w" where
  "HandleLogin S conn_id payload request_id z =
     (case gs_zone_client S of
        None \<Rightarrow> respond_error S conn_id ''auth.login'' request_id EC_UPSTREAM_UNAVAILABLE z
      | Some client \<Rightarrow>
          (case gp_parse_AuthLogin (gs_proto S) payload of
             None \<Rightarrow> respond_error S conn_id ''auth.login'' request_id EC_INVALID_PARAM z
           | Some account_login_req \<Rightarrow>
               (let ((sent, login_result), z) =
                      ZoneRpcClient_HandleClientRequest client conn_id [] ''auth.login'' payload request_id [] z
                in if \<not> sent then respond_failed S conn_id ''auth.login'' request_id login_result z
                   else if hr_code login_result \<noteq> ErrorCodeToInt EC_OK then
                     respond S conn_id ''auth.login'' (hr_request_id login_result) (hr_code login_result) (hr_message login_result) (hr_payload login_result) z
                   else
                     (case gp_parse_AuthLoginResponse (gs_proto S) (hr_payload login_result) of
                        None \<Rightarrow> respond_error S conn_id ''auth.login'' request_id EC_INTERNAL_ERROR z
                      | Some login_resp \<Rightarrow>
                          if palr_user_id login_resp = [] \<or> palr_token login_resp = []
                          then respond_error S conn_id ''auth.login'' request_id EC_INTERNAL_ERROR z
                          else
                            (let (bound, g) = BindUser conn_id (palr_user_id login_resp) (palr_token login_resp)
                                   (pal_device_id account_login_req) (pal_device_type account_login_req) (fst z);
                                 z = (g, snd z)
                             in if \<not> bound then respond_error S conn_id ''auth.login'' request_id EC_INTERNAL_ERROR z
                                else
                                  respond S conn_id ''auth.login'' (hr_request_id login_result) (hr_code login_result) (hr_message login_result)
                                    (hr_payload login_result)
                                    (snd (ZoneRpcClient_UserOnline client (palr_user_id login_resp) (gs_gate_id S)
                                       (pal_device_type account_login_req) (pal_device_id account_login_req) z)))))))"

definition HandleHeartbeat :: "'w GateService \<Rightarrow> int \<Rightarrow> int \<Rightarrow> string \<Rightarrow> string \<Rightarrow> GateState \<times> 'w \<Rightarrow> GateState \<times> 'w" where
  "HandleHeartbeat S now server_time conn_id request_id z =
     (let z = apfst (UpdateHeartbeat now conn_id) z
      in case gp_ser_HeartbeatResponse (gs_proto S) server_time of
           None \<Rightarrow> z
         | Some payload \<Rightarrow> respond S conn_id ''heartbeat'' request_id (ErrorCodeToInt EC_OK) (ErrorCodeToString EC_OK) payload z)"

text \<open>A token that the zone server has validated binds the connection to its user.\<close>

definition bind_validated ::
  "'w GateService \<Rightarrow> (GateState \<times> 'w) ZoneRpcClient \<Rightarrow> string \<Rightarrow> string \<Rightarrow> string \<Rightarrow> HandleClientRequestResult \<Rightarrow> GateState \<times> 'w \<Rightarrow> GateState \<times> 'w" where
  "bind_validated S client conn_id cmd payload result z =
     (if cmd = ''auth.validate_token'' \<and> hr_code result = ErrorCodeToInt EC_OK then
        (let validated_user_id = (case gp_parse_AuthValidateTokenResponse (gs_proto S) (hr_payload result) of
                 Some r \<Rightarrow> pavtr_user_id r | None \<Rightarrow> []);
             validated_token = (case gp_parse_AuthValidateToken (gs_proto S) payload of Some r \<Rightarrow> pavt_token r | None \<Rightarrow> [])
         in if validated_user_id \<noteq> [] \<and> validated_token \<noteq> [] then
              (let device_id = (case g_connections (fst z) conn_id of Some c \<Rightarrow> cn_device_id c | None \<Rightarrow> []);
                   device_type = (case g_connections (fst z) conn_id of Some c \<Rightarrow> cn_device_type c | None \<Rightarrow> []);
                   z = apfst (\<lambda>g. snd (BindUser conn_id validated_user_id validated_token device_id device_type g)) z
               in snd (ZoneRpcClient_UserOnline client validated_user_id (gs_gate_id S) device_type device_id z))
            else z)
      else z)"

definition ForwardToZone :: "'w GateService \<Rightarrow> string \<Rightarrow> string \<Rightarrow> string \<Rightarrow> string \<Rightarrow> GateState \<times> 'w \<Rightarrow> GateState \<times> 'w" where
  "ForwardToZone S conn_id cmd payload request_id z =
     (case gs_zone_client S of
        None \<Rightarrow> respond_error S conn_id cmd request_id EC_UPSTREAM_UNAVAILABLE z
      | Some client \<Rightarrow>
          (let user_id = (case g_connections (fst z) conn_id of Some c \<Rightarrow> cn_user_id c | None \<Rightarrow> []);
               token = (case g_connections (fst z) conn_id of Some c \<Rightarrow> cn_token c | None \<Rightarrow> []);
               ((sent, result), z) = ZoneRpcClient_HandleClientRequest client conn_id user_id cmd payload request_id token z
           in if \<not> sent then respond_failed S conn_id cmd request_id result z
              else
                respond S conn_id cmd (hr_request_id result) (hr_code result) (hr_message result) (hr_payload result)
                  (bind_validated S client conn_id cmd payload result z)))"

definition forwarded_domain :: "string \<Rightarrow> bool" where
  "forwarded_domain cmd \<longleftrightarrow> prefix ''chat.'' cmd \<or> prefix ''friend.'' cmd \<or> prefix ''group.'' cmd \<or> prefix ''file.'' cmd"

definition HandleClientMessage ::
  "'w GateService \<Rightarrow> int \<Rightarrow> int \<Rightarrow> string \<Rightarrow> string \<Rightarrow> string \<Rightarrow> string \<Rightarrow> GateState \<times> 'w \<Rightarrow> GateState \<times> 'w" where
  "HandleClientMessage S now server_time conn_id cmd payload request_id z =
     (if cmd = ''auth.login'' then HandleLogin S conn_id payload request_id z
      else if cmd = ''auth.register'' then ForwardToZone S conn_id cmd payload request_id z
      else if cmd = ''heartbeat'' then HandleHeartbeat S now server_time conn_id request_id z
      else if cmd = ''auth.logout'' \<or> cmd = ''auth.validate_token'' then ForwardToZone S conn_id cmd payload request_id z
      else if forwarded_domain cmd then ForwardToZone S conn_id cmd payload request_id z
      else respond_error S conn_id cmd request_id EC_UNSUPPORTED z)"

section \<open>Reports to the zone server\<close>

definition GateService_RegisterGate :: "'w GateService \<Rightarrow> string \<Rightarrow> GateState \<times> 'w \<Rightarrow> bool \<times> (GateState \<times> 'w)" where
  "GateService_RegisterGate S grpc_address z =
     (case gs_zone_client S of
        None \<Rightarrow> (False, z)
      | Some client \<Rightarrow> ZoneRpcClient_GateRegister client (gs_gate_id S) grpc_address (GetConnectionCount (fst z)) z)"

definition GateService_GateHeartbeat :: "'w GateService \<Rightarrow> GateState \<times> 'w \<Rightarrow> bool \<times> (GateState \<times> 'w)" where
  "GateService_GateHeartbeat S z =
     (case gs_zone_client S of
        None \<Rightarrow> (False, z)
      | Some client \<Rightarrow> ZoneRpcClient_GateHeartbeat client (gs_gate_id S) (GetConnectionCount (fst z)) z)"

section \<open>Handlers\<close>

definition WebSocketHandler_OnMessage :: "'w GateService \<Rightarrow> int \<Rightarrow> int \<Rightarrow> string \<Rightarrow> string \<Rightarrow> GateState \<times> 'w \<Rightarrow> GateState \<times> 'w" where
  "WebSocketHandler_OnMessage S now server_time conn_id data z =
     (case gp_parse_ClientMessage (gs_proto S) data of
        None \<Rightarrow> z
      | Some msg \<Rightarrow> HandleClientMessage S now server_time conn_id (cm_cmd msg) (cm_payload msg) (cm_request_id msg) z)"

definition WebSocketHandler_SendToClient :: "string \<Rightarrow> string \<Rightarrow> GateState \<Rightarrow> bool \<times> GateState" where
  "WebSocketHandler_SendToClient conn_id data g = SendToConn conn_id data g"

definition GateInternalGrpcHandler_PushMessage :: "GateProto \<Rightarrow> string \<Rightarrow> string \<Rightarrow> string \<Rightarrow> GateState \<Rightarrow> CommonResponse \<times> GateState" where
  "GateInternalGrpcHandler_PushMessage P user_id cmd payload g =
     (let (ok, g) = PushToUser P user_id (if cmd = [] then ''message'' else cmd) payload g
      in (verdict_response ok EC_USER_OFFLINE, g))"

definition GateInternalGrpcHandler_DisconnectUser :: "string \<Rightarrow> string \<Rightarrow> GateState \<Rightarrow> CommonResponse \<times> GateState" where
  "GateInternalGrpcHandler_DisconnectUser user_id reason g =
     (let conn_id = GetConnIdByUser g user_id
      in (\<lparr>resp_code = ErrorCodeToInt EC_OK, resp_message = []\<rparr>, if conn_id \<noteq> [] then CloseConnection conn_id g else g))"

end
