(* ===== verification/Gate_Session.thy ===== *)
theory Gate_Session
  imports Gate_Service
begin

text \<open>
  \<^verbatim>\<open>backend/gatesvr/internal/websocket/ws_listener.cpp\<close> and the parts of \<^verbatim>\<open>cmd/main.cpp\<close> that decide anything: the sessions
  of the clients of a gate, and the gate as a whole.  Boost.Beast and Boost.Asio are the environment: they complete an
  operation that a session has started, with a result of their choice.  Of the stream of a session we keep what is
  visible of it: the buffers handed to \<^verbatim>\<open>async_write\<close> so far, and how many of these writes have not completed.

  The context \<^verbatim>\<open>ioc\<close> runs on one thread, so that the handlers of the sessions, and the commands of their clients with
  the calls to the zone server in them, run one at a time; only the gRPC methods and the heartbeat thread run beside them.
\<close>

section \<open>Sessions\<close>

datatype WsPhase = ReadingHandshake | Accepting | Reading | Finished

record WsSession =
  ws_conn_id :: string
  ws_phase :: WsPhase
  ws_write_queue :: "string list"
  ws_write_buffer :: string
  ws_writing :: bool
  ws_closed :: bool
  ws_started :: "string list"
  ws_outstanding :: nat
  ws_ran :: nat

text \<open>\<open>ws_ran\<close> counts the posted tasks of the session that have run.  The counter \<^verbatim>\<open>g_session_seq\<close> is an integer: it would wrap
  after \<open>2 ^ 63\<close> connections.\<close>

definition GenerateConnId :: "int \<Rightarrow> int \<Rightarrow> string" where
  "GenerateConnId seq now = ''conn_'' @ to_string now @ ''_'' @ to_string seq"

definition WsSession_new :: "string \<Rightarrow> WsSession" where
  "WsSession_new conn_id =
     \<lparr>ws_conn_id = conn_id, ws_phase = ReadingHandshake, ws_write_queue = [], ws_write_buffer = [], ws_writing = False, ws_closed = False,
      ws_started = [], ws_outstanding = 0, ws_ran = 0\<rparr>"

definition IsExpectedWsPath :: "string \<Rightarrow> bool" where
  "IsExpectedWsPath target = (target = ''/ws'')"

datatype Handshake = HandshakeError | HandshakeRequest bool string

definition OnReadHandshake :: "Handshake \<Rightarrow> WsSession \<Rightarrow> WsSession" where
  "OnReadHandshake h s =
     (case h of
        HandshakeError \<Rightarrow> s\<lparr>ws_phase := Finished\<rparr>
      | HandshakeRequest is_upgrade target \<Rightarrow>
          if \<not> is_upgrade then s\<lparr>ws_phase := Finished\<rparr>
          else if \<not> IsExpectedWsPath target then s\<lparr>ws_phase := Finished\<rparr>
          else s\<lparr>ws_phase := Accepting\<rparr>)"

definition OnAccept :: "bool \<Rightarrow> int \<Rightarrow> WsSession \<Rightarrow> GateState \<Rightarrow> WsSession \<times> GateState" where
  "OnAccept ec now s g =
     (if ec then (s\<lparr>ws_phase := Finished\<rparr>, g)
      else
        (let g = AddConnection now (ws_conn_id s) g;
             g = SetSendCallback (ws_conn_id s) (ws_conn_id s) g;
             g = SetCloseCallback (ws_conn_id s) (ws_conn_id s) g
         in (s\<lparr>ws_phase := Reading\<rparr>, g)))"

definition Close :: "'w GateService \<Rightarrow> WsSession \<Rightarrow> GateState \<times> 'w \<Rightarrow> WsSession \<times> (GateState \<times> 'w)" where
  "Close S s z =
     (if ws_closed s then (s, z)
      else
        (let z = apfst (RemoveCloseCallback (ws_conn_id s)) z;
             z = apfst (RemoveSendCallback (ws_conn_id s)) z
         in (s\<lparr>ws_closed := True\<rparr>, RemoveConnection S (ws_conn_id s) z)))"

text \<open>
  \<open>Close\<close> ends in the source with the closing handshake of the WebSocket stream (\<^verbatim>\<open>ws_.close\<close>, which blocks and whose error is ignored); it is left
  out, since nothing of the gate depends on it.  The removals of the callbacks and of the connection, three calls with locks of
  their own in the source, are one step here.

  What a read completes with; after a binary message the session reads on.
\<close>

datatype WsReadResult = ReadClosed | ReadError | ReadText | ReadBinary string

definition OnRead :: "'w GateService \<Rightarrow> int \<Rightarrow> int \<Rightarrow> WsReadResult \<Rightarrow> WsSession \<Rightarrow> GateState \<times> 'w \<Rightarrow> WsSession \<times> (GateState \<times> 'w)" where
  "OnRead S now server_time r s z =
     (case r of
        ReadBinary data \<Rightarrow> (s, WebSocketHandler_OnMessage S now server_time (ws_conn_id s) data z)
      | _ \<Rightarrow> Close S (s\<lparr>ws_phase := Finished\<rparr>) z)"

definition DoWrite :: "WsSession \<Rightarrow> WsSession" where
  "DoWrite s =
     (if ws_closed s \<or> ws_write_queue s = [] then s
      else s\<lparr>ws_writing := True, ws_write_buffer := hd (ws_write_queue s), ws_write_queue := tl (ws_write_queue s),
             ws_started := ws_started s @ [hd (ws_write_queue s)], ws_outstanding := ws_outstanding s + 1\<rparr>)"

definition QueueSend :: "string \<Rightarrow> WsSession \<Rightarrow> WsSession" where
  "QueueSend data s =
     (if ws_closed s then s
      else
        (let s = s\<lparr>ws_write_queue := ws_write_queue s @ [data]\<rparr>
         in if \<not> ws_writing s then DoWrite s else s))"

definition OnWrite :: "'w GateService \<Rightarrow> bool \<Rightarrow> WsSession \<Rightarrow> GateState \<times> 'w \<Rightarrow> WsSession \<times> (GateState \<times> 'w)" where
  "OnWrite S ec s z =
     (let s = s\<lparr>ws_outstanding := ws_outstanding s - 1, ws_writing := False\<rparr>
      in if ec then (if \<not> ws_closed s then Close S s z else (s, z))
         else if ws_write_queue s \<noteq> [] then (DoWrite s, z)
         else (s, z))"

text \<open>A posted task: what \<^verbatim>\<open>Send\<close> and the close callback put on the strand of the session.\<close>

definition run_posted :: "'w GateService \<Rightarrow> Posted \<Rightarrow> WsSession \<Rightarrow> GateState \<times> 'w \<Rightarrow> WsSession \<times> (GateState \<times> 'w)" where
  "run_posted S p s z =
     (case p of PostSend _ data \<Rightarrow> (QueueSend data s, z) | PostClose _ \<Rightarrow> Close S s z)"

section \<open>The gate\<close>

record 'w Gate =
  gt_service :: "GateState \<times> 'w"
  gt_sessions :: "string \<rightharpoonup> WsSession"
  gt_seq :: int
  gt_accepting :: bool
  gt_stopped :: bool

definition Gate_start :: "'w \<Rightarrow> 'w Gate" where
  "Gate_start w = \<lparr>gt_service = (GateState_empty, w), gt_sessions = Map.empty, gt_seq = 0, gt_accepting = True, gt_stopped = False\<rparr>"

definition posted_session :: "Posted \<Rightarrow> string" where
  "posted_session p = (case p of PostSend session _ \<Rightarrow> session | PostClose session \<Rightarrow> session)"

text \<open>The tasks posted to a session, in the order in which its strand runs them.\<close>

definition tasks_of :: "string \<Rightarrow> GateState \<Rightarrow> Posted list" where
  "tasks_of c g = filter (\<lambda>p. posted_session p = c) (g_posted g)"

definition put_session :: "string \<Rightarrow> WsSession \<times> (GateState \<times> 'w) \<Rightarrow> 'w Gate \<Rightarrow> 'w Gate" where
  "put_session c r gt = gt\<lparr>gt_sessions := (gt_sessions gt)(c \<mapsto> fst r), gt_service := snd r\<rparr>"

text \<open>\<open>gt_accepting\<close> tells that an \<^verbatim>\<open>async_accept\<close> is outstanding.  When one fails, no other is started.\<close>

definition WsListener_DoAccept :: "'w Gate \<Rightarrow> 'w Gate" where
  "WsListener_DoAccept gt = (if gt_stopped gt then gt else gt\<lparr>gt_accepting := True\<rparr>)"

definition WsListener_OnAccept :: "bool \<Rightarrow> int \<Rightarrow> 'w Gate \<Rightarrow> 'w Gate" where
  "WsListener_OnAccept ec now gt =
     (let gt = gt\<lparr>gt_accepting := False\<rparr>
      in if ec then gt
         else
           (let c = GenerateConnId (gt_seq gt) now
            in WsListener_DoAccept (gt\<lparr>gt_sessions := (gt_sessions gt)(c \<mapsto> WsSession_new c), gt_seq := gt_seq gt + 1\<rparr>)))"

definition WsListener_Stop :: "'w Gate \<Rightarrow> 'w Gate" where
  "WsListener_Stop gt = gt\<lparr>gt_stopped := True\<rparr>"

datatype GateEvent =
    Accepted bool int
  | HandshakeRead string Handshake
  | HandshakeAccepted string bool int
  | ReadDone string int int WsReadResult
  | WriteDone string bool
  | RunPosted string
  | Push string string string
  | Disconnect string string
  | RegisterRound
  | CheckRound int "string list"
  | ReportRound
  | StopListening

text \<open>An event is what the environment does next; it can only complete what has been started.  \<open>addr\<close> is the address that the
  gate registers under.  The heartbeat thread registers, checks and reports in turn.\<close>

inductive gate_step :: "'w GateService \<Rightarrow> string \<Rightarrow> 'w Gate \<Rightarrow> GateEvent \<Rightarrow> 'w Gate \<Rightarrow> bool" for S addr where
  accepted: "gt_accepting gt \<Longrightarrow> gate_step S addr gt (Accepted ec now) (WsListener_OnAccept ec now gt)"
| handshake_read: "gt_sessions gt c = Some s \<Longrightarrow> ws_phase s = ReadingHandshake \<Longrightarrow>
    gate_step S addr gt (HandshakeRead c h) (put_session c (OnReadHandshake h s, gt_service gt) gt)"
| handshake_accepted: "gt_sessions gt c = Some s \<Longrightarrow> ws_phase s = Accepting \<Longrightarrow>
    gate_step S addr gt (HandshakeAccepted c ec now)
      (put_session c (let (s', g) = OnAccept ec now s (fst (gt_service gt)) in (s', (g, snd (gt_service gt)))) gt)"
| read_done: "gt_sessions gt c = Some s \<Longrightarrow> ws_phase s = Reading \<Longrightarrow>
    gate_step S addr gt (ReadDone c now server_time r) (put_session c (OnRead S now server_time r s (gt_service gt)) gt)"
| write_done: "gt_sessions gt c = Some s \<Longrightarrow> ws_outstanding s > 0 \<Longrightarrow>
    gate_step S addr gt (WriteDone c ec) (put_session c (OnWrite S ec s (gt_service gt)) gt)"
| posted: "gt_sessions gt c = Some s \<Longrightarrow> ws_ran s < length (tasks_of c (fst (gt_service gt))) \<Longrightarrow>
    gate_step S addr gt (RunPosted c)
      (put_session c (run_posted S (tasks_of c (fst (gt_service gt)) ! ws_ran s) (s\<lparr>ws_ran := ws_ran s + 1\<rparr>) (gt_service gt)) gt)"
| push: "gate_step S addr gt (Push user_id cmd payload)
    (gt\<lparr>gt_service := apfst (\<lambda>g. snd (GateInternalGrpcHandler_PushMessage (gs_proto S) user_id cmd payload g)) (gt_service gt)\<rparr>)"
| disconnect: "gate_step S addr gt (Disconnect user_id reason)
    (gt\<lparr>gt_service := apfst (\<lambda>g. snd (GateInternalGrpcHandler_DisconnectUser user_id reason g)) (gt_service gt)\<rparr>)"
| register_round: "gate_step S addr gt RegisterRound (gt\<lparr>gt_service := snd (GateService_RegisterGate S addr (gt_service gt))\<rparr>)"
| check_round: "gate_step S addr gt (CheckRound now_ms order) (gt\<lparr>gt_service := apfst (CheckHeartbeat S now_ms order) (gt_service gt)\<rparr>)"
| report_round: "gate_step S addr gt ReportRound (gt\<lparr>gt_service := snd (GateService_GateHeartbeat S (gt_service gt))\<rparr>)"
| stop: "gate_step S addr gt StopListening (WsListener_Stop gt)"

inductive gate_reach :: "'w GateService \<Rightarrow> string \<Rightarrow> 'w \<Rightarrow> 'w Gate \<Rightarrow> bool" for S addr w where
  gate_start: "gate_reach S addr w (Gate_start w)"
| gate_next: "gate_reach S addr w gt \<Longrightarrow> gate_step S addr gt e gt' \<Longrightarrow> gate_reach S addr w gt'"

section \<open>The address a gate registers under\<close>

definition IsWildcardHost :: "string \<Rightarrow> bool" where
  "IsWildcardHost host = (host = [] \<or> host = ''0.0.0.0'' \<or> host = ''::'')"

text \<open>\<open>hostname\<close> is what \<^verbatim>\<open>gethostname\<close> writes, if it succeeds.\<close>

definition ResolveAdvertiseHost :: "string option \<Rightarrow> string option \<Rightarrow> GateConfig \<Rightarrow> string" where
  "ResolveAdvertiseHost pod_ip hostname config =
     (if gc_advertise_host config \<noteq> [] then gc_advertise_host config
      else
        (case pod_ip of
           Some (c # cs) \<Rightarrow> c # cs
         | _ \<Rightarrow>
             if \<not> IsWildcardHost (gc_host config) then gc_host config
             else (case hostname of Some (c # cs) \<Rightarrow> c # cs | _ \<Rightarrow> gc_host config)))"

definition register_address :: "string option \<Rightarrow> string option \<Rightarrow> GateConfig \<Rightarrow> string" where
  "register_address pod_ip hostname config = ResolveAdvertiseHost pod_ip hostname config @ '':'' @ to_string (gc_grpc_port config)"

end
