(* ===== verification/Gate_Laws.thy ===== *)
theory Gate_Laws
  imports Gate_Session
begin

text \<open>
  The gate, as a state machine over the events of its environment.  What it needs of the zone server is the locale
  \<open>gate_calls\<close>: a call leaves the gate alone but for the tasks that the other threads post meanwhile; and \<open>gate_zone\<close>, which
  adds that answers name the request and that \<open>Q\<close> holds of every user and token the zone server has accepted.  The invariant
  \<open>gate_ok\<close> of reachable gates is proved in it, by rule induction.
\<close>

section \<open>What the zone server promises\<close>

definition post_all :: "Posted list \<Rightarrow> GateState \<Rightarrow> GateState" where
  "post_all ps g = g\<lparr>g_posted := g_posted g @ ps\<rparr>"

text \<open>Tasks are posted through the callbacks.\<close>

definition posted_from :: "GateState \<Rightarrow> GateState \<Rightarrow> bool" where
  "posted_from g g' \<longleftrightarrow>
     (\<exists>ps. g' = post_all ps g \<and> posted_session ` set ps \<subseteq> ran (g_send_callbacks g) \<union> ran (g_close_callbacks g))"

definition posts_only :: "('w \<Rightarrow> bool) \<Rightarrow> (GateState \<times> 'w \<Rightarrow> 'a \<times> (GateState \<times> 'w)) \<Rightarrow> bool" where
  "posts_only I f \<longleftrightarrow> (\<forall>z. posted_from (fst z) (fst (snd (f z))) \<and> (I (snd z) \<longrightarrow> I (snd (snd (f z)))))"

definition zone_stub_posts :: "('w \<Rightarrow> bool) \<Rightarrow> (GateState \<times> 'w) ZoneStub \<Rightarrow> bool" where
  "zone_stub_posts I stub \<longleftrightarrow>
     (\<forall>ctx u g ty d. posts_only I (zone_UserOnline stub ctx u g ty d)) \<and>
     (\<forall>ctx u g. posts_only I (zone_UserOffline stub ctx u g)) \<and>
     (\<forall>ctx g a n. posts_only I (zone_GateRegister stub ctx g a n)) \<and>
     (\<forall>ctx g n. posts_only I (zone_GateHeartbeat stub ctx g n)) \<and>
     (\<forall>ctx c u cmd p r t. posts_only I (zone_HandleClientRequest stub ctx c u cmd p r t))"

text \<open>The answers of the zone server to the two commands that make a gate accept a user.\<close>

definition login_accepted :: "GateProto \<Rightarrow> HandleClientRequestResult \<Rightarrow> string \<Rightarrow> string \<Rightarrow> bool" where
  "login_accepted P resp u t \<longleftrightarrow> hr_code resp = 0 \<and> u \<noteq> [] \<and> t \<noteq> [] \<and>
     (\<exists>r. gp_parse_AuthLoginResponse P (hr_payload resp) = Some r \<and> palr_user_id r = u \<and> palr_token r = t)"

definition token_accepted :: "GateProto \<Rightarrow> string \<Rightarrow> HandleClientRequestResult \<Rightarrow> string \<Rightarrow> string \<Rightarrow> bool" where
  "token_accepted P payload resp u t \<longleftrightarrow> hr_code resp = 0 \<and> u \<noteq> [] \<and> t \<noteq> [] \<and>
     (\<exists>r q. gp_parse_AuthValidateTokenResponse P (hr_payload resp) = Some r \<and> pavtr_user_id r = u \<and>
        gp_parse_AuthValidateToken P payload = Some q \<and> pavt_token q = t)"

locale gate_calls =
  fixes S :: "'w GateService" and I :: "'w \<Rightarrow> bool"
  assumes calls_post: "gs_zone_client S = Some client \<Longrightarrow> zrc_stub client = Some stub \<Longrightarrow> zone_stub_posts I stub"

locale gate_zone = gate_calls S I for S :: "'w GateService" and I +
  fixes Q :: "string \<Rightarrow> string \<Rightarrow> bool"
  assumes echoes: "gs_zone_client S = Some client \<Longrightarrow> zrc_stub client = Some stub \<Longrightarrow>
      zone_HandleClientRequest stub ctx c uid cmd payload rid tok z = (Inr resp, z') \<Longrightarrow> hr_request_id resp = rid"
    and login_vouched: "gs_zone_client S = Some client \<Longrightarrow> zrc_stub client = Some stub \<Longrightarrow>
      zone_HandleClientRequest stub ctx c uid ''auth.login'' payload rid tok z = (Inr resp, z') \<Longrightarrow> I (snd z) \<Longrightarrow>
      login_accepted (gs_proto S) resp u t \<Longrightarrow> Q u t"
    and token_vouched: "gs_zone_client S = Some client \<Longrightarrow> zrc_stub client = Some stub \<Longrightarrow>
      zone_HandleClientRequest stub ctx c uid ''auth.validate_token'' payload rid tok z = (Inr resp, z') \<Longrightarrow> I (snd z) \<Longrightarrow>
      token_accepted (gs_proto S) payload resp u t \<Longrightarrow> Q u t"

lemma post_all_simps [simp]:
  "g_connections (post_all ps g) = g_connections g" "g_user_to_conn (post_all ps g) = g_user_to_conn g"
  "g_send_callbacks (post_all ps g) = g_send_callbacks g" "g_close_callbacks (post_all ps g) = g_close_callbacks g"
  "g_posted (post_all ps g) = g_posted g @ ps" "post_all [] g = g" "post_all qs (post_all ps g) = post_all (ps @ qs) g"
  by (simp_all add: post_all_def)

lemma posted_from_refl [simp]: "posted_from g g"
  unfolding posted_from_def by (rule exI [of _ "[]"]) simp

lemma posted_from_trans [trans]: "posted_from g g' \<Longrightarrow> posted_from g' g'' \<Longrightarrow> posted_from g g''"
  unfolding posted_from_def by (clarsimp, rule exI, rule conjI, rule refl, auto)

text \<open>The same for the gate with the world behind it, where \<open>I\<close> is an invariant of that world.\<close>

definition posts :: "('w \<Rightarrow> bool) \<Rightarrow> GateState \<times> 'w \<Rightarrow> GateState \<times> 'w \<Rightarrow> bool" where
  "posts I z z' \<longleftrightarrow> posted_from (fst z) (fst z') \<and> (I (snd z) \<longrightarrow> I (snd z'))"

lemma posts_refl [simp]: "posts I z z"
  by (simp add: posts_def)

lemma posts_apfst: "posted_from (fst z) (f (fst z)) \<Longrightarrow> posts I z (apfst f z)"
  by (simp add: posts_def)

lemma posts_onlyD: "posts_only I f \<Longrightarrow> posts I z (snd (f z))"
  unfolding posts_only_def posts_def by (rule spec)

section \<open>Tables\<close>

text \<open>The tables of a gate agree: a user is routed to a connection of its own, and a connection can be sent to and closed.\<close>

definition tables_ok :: "(string \<Rightarrow> string \<Rightarrow> bool) \<Rightarrow> GateState \<Rightarrow> bool" where
  "tables_ok Q g \<longleftrightarrow>
     (\<forall>u c. g_user_to_conn g u = Some c \<longrightarrow> u \<noteq> [] \<and> map_option cn_user_id (g_connections g c) = Some u) \<and>
     (\<forall>c k. g_connections g c = Some k \<longrightarrow> cn_conn_id k = c \<and> (cn_authenticated k \<longleftrightarrow> cn_user_id k \<noteq> []) \<and>
        (if cn_user_id k = [] then cn_token k = [] else Q (cn_user_id k) (cn_token k))) \<and>
     g_send_callbacks g = (\<lambda>c. if g_connections g c = None then None else Some c) \<and>
     g_close_callbacks g = g_send_callbacks g \<and> g_connections g [] = None"

lemma tables_routeD:
  "tables_ok Q g \<Longrightarrow> g_user_to_conn g u = Some c \<Longrightarrow>
     u \<noteq> [] \<and> c \<noteq> [] \<and> g_send_callbacks g c = Some c \<and>
     (\<exists>k. g_connections g c = Some k \<and> cn_user_id k = u \<and> cn_authenticated k \<and> Q u (cn_token k))"
  unfolding tables_ok_def by fastforce

lemma tables_post [simp]: "tables_ok Q (post_all ps g) = tables_ok Q g"
  by (simp add: tables_ok_def)

lemma tables_empty: "tables_ok Q GateState_empty"
  by (simp add: tables_ok_def GateState_empty_def)

lemma tables_heartbeat: "tables_ok Q g \<Longrightarrow> tables_ok Q (UpdateHeartbeat now c g)"
  by (fastforce simp: tables_ok_def UpdateHeartbeat_def split: option.splits)

lemma tables_bind:
  assumes "tables_ok Q g" "u \<noteq> []" "Q u t"
  shows "tables_ok Q (snd (BindUser c u t d ty g))"
proof (cases "g_connections g c")
  case None
  then show ?thesis using assms by (simp add: BindUser_def)
next
  case (Some k)
  have "u' = cn_user_id k" if "g_user_to_conn g u' = Some c" for u'
    using assms(1) that Some by (force simp: tables_ok_def)
  then show ?thesis using assms Some by (auto simp: tables_ok_def BindUser_def Let_def)
qed

lemma tables_accept:
  assumes "tables_ok Q g" "g_connections g c = None" "c \<noteq> []"
  shows "tables_ok Q (SetCloseCallback c c (SetSendCallback c c (AddConnection now c g)))"
  using assms by (fastforce simp: tables_ok_def SetCloseCallback_def SetSendCallback_def AddConnection_def)

lemma tables_drop:
  assumes "tables_ok Q g"
  shows "tables_ok Q (drop_connection c (RemoveSendCallback c (RemoveCloseCallback c g)))"
proof (cases "g_connections g c")
  case None
  then show ?thesis using assms
    by (auto simp: tables_ok_def drop_connection_def RemoveSendCallback_def RemoveCloseCallback_def fun_eq_iff)
next
  case (Some k)
  have "u' = cn_user_id k" if "g_user_to_conn g u' = Some c" for u'
    using assms that Some by (force simp: tables_ok_def)
  then show ?thesis using assms Some
    by (auto simp: tables_ok_def drop_connection_def RemoveSendCallback_def RemoveCloseCallback_def Let_def fun_eq_iff)
qed

section \<open>Commands\<close>

text \<open>What a command of a client may do to the gate: no connection comes or goes, and tasks are only added.\<close>

definition world_ok :: "(string \<Rightarrow> string \<Rightarrow> bool) \<Rightarrow> ('w \<Rightarrow> bool) \<Rightarrow> GateState \<times> 'w \<Rightarrow> bool" where
  "world_ok Q I z \<longleftrightarrow> tables_ok Q (fst z) \<and> I (snd z)"

definition quiet :: "(string \<Rightarrow> string \<Rightarrow> bool) \<Rightarrow> ('w \<Rightarrow> bool) \<Rightarrow> GateState \<times> 'w \<Rightarrow> GateState \<times> 'w \<Rightarrow> bool" where
  "quiet Q I z z' \<longleftrightarrow> (world_ok Q I z \<longrightarrow> world_ok Q I z') \<and> dom (g_connections (fst z')) = dom (g_connections (fst z)) \<and>
     (\<exists>ps. g_posted (fst z') = g_posted (fst z) @ ps \<and> (world_ok Q I z \<longrightarrow> posted_session ` set ps \<subseteq> dom (g_connections (fst z))))"

lemma quiet_trans [trans]: "quiet Q I z z' \<Longrightarrow> quiet Q I z' z'' \<Longrightarrow> quiet Q I z z''"
proof -
  assume l: "quiet Q I z z'" and r: "quiet Q I z' z''"
  from l obtain ps where ps: "g_posted (fst z') = g_posted (fst z) @ ps"
      "world_ok Q I z \<longrightarrow> posted_session ` set ps \<subseteq> dom (g_connections (fst z))"
    by (auto simp: quiet_def)
  from r obtain qs where qs: "g_posted (fst z'') = g_posted (fst z') @ qs"
      "world_ok Q I z' \<longrightarrow> posted_session ` set qs \<subseteq> dom (g_connections (fst z'))"
    by (auto simp: quiet_def)
  have "\<exists>ps. g_posted (fst z'') = g_posted (fst z) @ ps \<and> (world_ok Q I z \<longrightarrow> posted_session ` set ps \<subseteq> dom (g_connections (fst z)))"
    using l ps qs by (intro exI [of _ "ps @ qs"]) (auto simp: quiet_def)
  then show ?thesis using l r by (simp add: quiet_def)
qed

lemma tables_ran: "tables_ok Q g \<Longrightarrow> ran (g_send_callbacks g) \<union> ran (g_close_callbacks g) \<subseteq> dom (g_connections g)"
  by (auto simp: tables_ok_def ran_def split: if_splits)

lemma quiet_posts: "posts I z z' \<Longrightarrow> quiet Q I z z'"
  unfolding posts_def posted_from_def quiet_def world_ok_def
  by (elim exE conjE) (use tables_ran [of Q "fst z"] in \<open>simp; blast\<close>)

lemma quiet_refl [simp]: "quiet Q I z z"
  by (simp add: quiet_posts)

lemma quiet_heartbeat [simp]: "quiet Q I z (apfst (UpdateHeartbeat now c) z)"
  by (auto simp: quiet_def world_ok_def tables_heartbeat) (auto simp: UpdateHeartbeat_def split: option.splits if_splits)

lemma quiet_bind:
  assumes "quiet Q I z z1" "u \<noteq> []" "world_ok Q I z \<Longrightarrow> Q u t"
  shows "quiet Q I z (apfst (\<lambda>g. snd (BindUser c u t d ty g)) z1)"
proof -
  have "dom (g_connections (snd (BindUser c u t d ty g))) = dom (g_connections g)" "g_posted (snd (BindUser c u t d ty g)) = g_posted g" for g
    by (auto simp: BindUser_def Let_def split: option.splits if_splits)
  moreover have "tables_ok Q (fst z1) \<Longrightarrow> world_ok Q I z \<Longrightarrow> tables_ok Q (snd (BindUser c u t d ty (fst z1)))" using assms tables_bind by metis
  ultimately show ?thesis using assms(1) by (simp add: quiet_def world_ok_def)
qed

text \<open>Sending and closing only post.\<close>

lemma SendToConn_posts: "posted_from g (snd (SendToConn c data g))"
  by (cases "g_send_callbacks g c")
    (auto simp: SendToConn_def posted_from_def post_all_def posted_session_def ranI intro: exI [of _ "[]"])

lemma SendResponse_posts: "posted_from g (snd (SendResponse P c cmd rid rc msg payload g))"
  using SendToConn_posts by (auto simp: SendResponse_def split: option.splits)

lemma PushToUser_posts: "posted_from g (snd (PushToUser P u cmd payload g))"
  using SendToConn_posts by (auto simp: PushToUser_def Let_def split: option.splits)

lemma CloseConnection_posts: "posted_from g (CloseConnection c g)"
  by (cases "g_close_callbacks g c")
    (auto simp: CloseConnection_def posted_from_def post_all_def posted_session_def ranI intro: exI [of _ "[]"])

lemma fold_CloseConnection_posts: "posted_from g (fold CloseConnection cs g)"
  by (induction cs arbitrary: g) (auto intro: posted_from_trans CloseConnection_posts)

lemma CheckHeartbeat_posts: "posted_from g (CheckHeartbeat S now order g)"
  by (simp add: CheckHeartbeat_def Let_def fold_CloseConnection_posts)

lemma handlers_post:
  "posted_from g (snd (GateInternalGrpcHandler_PushMessage P u cmd payload g))"
  "posted_from g (snd (GateInternalGrpcHandler_DisconnectUser u reason g))"
  by (simp_all add: GateInternalGrpcHandler_PushMessage_def GateInternalGrpcHandler_DisconnectUser_def Let_def case_prod_beta
      PushToUser_posts CloseConnection_posts)

lemma respond_quiet [simp]: "quiet Q I z (respond S c cmd rid rc msg payload z)"
  by (simp add: respond_def quiet_posts posts_apfst SendResponse_posts)

lemmas respond_defs = respond_error_def respond_failed_def

context gate_calls
begin

lemma zone_call_quiet:
  assumes "gs_zone_client S = Some client"
    and "\<And>stub ctx. zone_stub_posts I stub \<Longrightarrow> posts_only I (call stub ctx)"
  shows "posts I z (snd (zone_call client call z))"
proof (cases "zrc_stub client")
  case None
  then show ?thesis by (simp add: zone_call_def)
next
  case (Some stub)
  then have "posts_only I (call stub (AddInternalSecret (zrc_secret client)))" using assms calls_post by blast
  then show ?thesis using Some posts_onlyD by (simp add: zone_call_def)
qed

lemma reports_post:
  assumes "gs_zone_client S = Some client"
  shows "posts I z (snd (ZoneRpcClient_UserOnline client u gid ty d z))"
    and "posts I z (snd (ZoneRpcClient_UserOffline client u gid z))"
    and "posts I z (snd (ZoneRpcClient_GateRegister client gid a n z))"
    and "posts I z (snd (ZoneRpcClient_GateHeartbeat client gid n z))"
  unfolding ZoneRpcClient_UserOnline_def ZoneRpcClient_UserOffline_def ZoneRpcClient_GateRegister_def ZoneRpcClient_GateHeartbeat_def
  by (rule zone_call_quiet [OF assms]; simp add: zone_stub_posts_def)+

lemma request_posts:
  assumes "gs_zone_client S = Some client"
  shows "posts I z (snd (ZoneRpcClient_HandleClientRequest client c u cmd payload rid tok z))"
proof (cases "zrc_stub client")
  case None
  then show ?thesis by (simp add: ZoneRpcClient_HandleClientRequest_def)
next
  case (Some stub)
  then have "zone_stub_posts I stub" using calls_post assms by blast
  then have "posts_only I (zone_HandleClientRequest stub (AddInternalSecret (zrc_secret client)) c u cmd payload rid tok)"
    by (simp add: zone_stub_posts_def)
  then show ?thesis using Some posts_onlyD by (simp add: ZoneRpcClient_HandleClientRequest_def)
qed

lemma NotifyUserOffline_posts: "posts I z (NotifyUserOffline S u z)"
  using reports_post(2) by (auto simp: NotifyUserOffline_def split: option.splits)

end

text \<open>A command ends with an answer on its connection; what comes before is \<open>quiet\<close>.\<close>

definition answers ::
  "'w GateService \<Rightarrow> (string \<Rightarrow> string \<Rightarrow> bool) \<Rightarrow> ('w \<Rightarrow> bool) \<Rightarrow> string \<Rightarrow> string \<Rightarrow> string \<Rightarrow> GateState \<times> 'w \<Rightarrow> GateState \<times> 'w \<Rightarrow> bool" where
  "answers S Q I c cmd rid z z' \<longleftrightarrow>
     (\<exists>z1 rc msg payload. quiet Q I z z1 \<and> z' = respond S c cmd rid rc msg payload z1)"

lemma answersI: "quiet Q I z z1 \<Longrightarrow> answers S Q I c cmd rid z (respond S c cmd rid rc msg payload z1)"
  unfolding answers_def by blast

lemma answers_quiet: "answers S Q I c cmd rid z z' \<Longrightarrow> quiet Q I z z'"
  unfolding answers_def using quiet_trans respond_quiet by blast

lemma answers_if:
  "(b \<Longrightarrow> answers S Q I c cmd rid z x) \<Longrightarrow> (\<not> b \<Longrightarrow> answers S Q I c cmd rid z y) \<Longrightarrow> answers S Q I c cmd rid z (if b then x else y)"
  by simp

lemma quiet_if: "quiet Q I z x \<Longrightarrow> quiet Q I z y \<Longrightarrow> quiet Q I z (if b then x else y)"
  by simp

lemma HandleHeartbeat_quiet: "quiet Q I z (HandleHeartbeat S now t c rid z)"
proof -
  have "quiet Q I z (respond S c cmd rid rc msg payload (apfst (UpdateHeartbeat now c) z))" for cmd rc msg payload
    by (rule quiet_trans [OF _ respond_quiet]) simp
  then show ?thesis by (auto simp: HandleHeartbeat_def Let_def split: option.splits)
qed

context gate_zone
begin

lemma request_result:
  assumes "gs_zone_client S = Some client"
    and "ZoneRpcClient_HandleClientRequest client c u cmd payload rid tok z = ((sent, r), z')"
  shows "quiet Q I z z'" "sent \<Longrightarrow> hr_request_id r = rid"
    "sent \<Longrightarrow> cmd = ''auth.login'' \<Longrightarrow> login_accepted (gs_proto S) r v t \<Longrightarrow> world_ok Q I z \<Longrightarrow> Q v t"
    "sent \<Longrightarrow> cmd = ''auth.validate_token'' \<Longrightarrow> token_accepted (gs_proto S) payload r v t \<Longrightarrow> world_ok Q I z \<Longrightarrow> Q v t"
proof -
  show "quiet Q I z z'" using request_posts [OF assms(1), of z c u cmd payload rid tok] assms(2) by (simp add: quiet_posts)
  have stub: "\<exists>stub. zrc_stub client = Some stub \<and>
      zone_HandleClientRequest stub (AddInternalSecret (zrc_secret client)) c u cmd payload rid tok z = (Inr r, z')" if "sent"
    using assms(2) that by (auto simp: ZoneRpcClient_HandleClientRequest_def apfst_def map_prod_def split: option.splits sum.splits prod.splits)
  show "hr_request_id r = rid" if "sent" using stub [OF that] echoes assms(1) by blast
  show "Q v t" if "sent" "cmd = ''auth.login''" "login_accepted (gs_proto S) r v t" "world_ok Q I z"
    using stub [OF that(1)] login_vouched assms(1) that world_ok_def by metis
  show "Q v t" if "sent" "cmd = ''auth.validate_token''" "token_accepted (gs_proto S) payload r v t" "world_ok Q I z"
    using stub [OF that(1)] token_vouched assms(1) that world_ok_def by metis
qed

lemma online_quiet:
  assumes "gs_zone_client S = Some client" "quiet Q I z z1"
  shows "quiet Q I z (snd (ZoneRpcClient_UserOnline client u gid ty d z1))"
  by (rule quiet_trans [OF assms(2) quiet_posts [OF reports_post(1) [OF assms(1)]]])

lemma HandleLogin_answers: "answers S Q I c ''auth.login'' rid z (HandleLogin S c payload rid z)"
proof (cases "gs_zone_client S")
  case None
  then show ?thesis by (simp add: HandleLogin_def respond_defs answersI)
next
  case client: (Some client)
  show ?thesis
  proof (cases "gp_parse_AuthLogin (gs_proto S) payload")
    case None
    then show ?thesis using client by (simp add: HandleLogin_def respond_defs answersI)
  next
    case (Some req)
    obtain sent r z1 where call: "ZoneRpcClient_HandleClientRequest client c [] ''auth.login'' payload rid [] z = ((sent, r), z1)"
      by (metis surj_pair)
    note res = request_result [OF client call]
    show ?thesis
    proof (cases "sent \<and> hr_code r = 0")
      case False
      then show ?thesis using client Some call res(1,2)
        by (auto simp: HandleLogin_def respond_defs answersI ErrorCodeToInt_def)
    next
      case True
      have bound: "quiet Q I z (snd (BindUser c (palr_user_id x) (palr_token x) d ty (fst z1)), snd z1)"
        if "gp_parse_AuthLoginResponse (gs_proto S) (hr_payload r) = Some x" "palr_user_id x \<noteq> []" "palr_token x \<noteq> []" for x d ty
      proof -
        have "login_accepted (gs_proto S) r (palr_user_id x) (palr_token x)" using that True by (simp add: login_accepted_def)
        then have "quiet Q I z (apfst (\<lambda>g. snd (BindUser c (palr_user_id x) (palr_token x) d ty g)) z1)"
          using res(3) True that by (intro quiet_bind [OF res(1)]) blast+
        then show ?thesis by (simp add: apfst_def map_prod_def case_prod_beta)
      qed
      show ?thesis using client Some call res True bound
        by (auto simp: HandleLogin_def respond_defs ErrorCodeToInt_def Let_def split: option.splits prod.splits
            intro!: answersI online_quiet [OF client]) (metis snd_conv)+
    qed
  qed
qed

lemma bind_validated_quiet:
  assumes "gs_zone_client S = Some client" "ZoneRpcClient_HandleClientRequest client c u cmd payload rid tok z = ((True, r), z1)"
  shows "quiet Q I z (bind_validated S client c cmd payload r z1)"
proof -
  let ?u = "case gp_parse_AuthValidateTokenResponse (gs_proto S) (hr_payload r) of Some x \<Rightarrow> pavtr_user_id x | None \<Rightarrow> []"
  let ?t = "case gp_parse_AuthValidateToken (gs_proto S) payload of Some x \<Rightarrow> pavt_token x | None \<Rightarrow> []"
  have accepted: "Q ?u ?t" if "cmd = ''auth.validate_token''" "hr_code r = 0" "?u \<noteq> []" "?t \<noteq> []" "world_ok Q I z"
  proof -
    have "token_accepted (gs_proto S) payload r ?u ?t" using that by (auto simp: token_accepted_def split: option.splits)
    then show ?thesis using request_result(4) [OF assms] that by blast
  qed
  show ?thesis
    unfolding bind_validated_def Let_def ErrorCodeToInt_def
    using accepted request_result(1) [OF assms] by (auto intro!: online_quiet [OF assms(1)] quiet_bind)
qed

lemma ForwardToZone_answers: "answers S Q I c cmd rid z (ForwardToZone S c cmd payload rid z)"
proof (cases "gs_zone_client S")
  case None
  then show ?thesis by (simp add: ForwardToZone_def respond_defs answersI)
next
  case client: (Some client)
  let ?u = "case g_connections (fst z) c of Some k \<Rightarrow> cn_user_id k | None \<Rightarrow> []"
  let ?t = "case g_connections (fst z) c of Some k \<Rightarrow> cn_token k | None \<Rightarrow> []"
  obtain sent r z1 where call: "ZoneRpcClient_HandleClientRequest client c ?u cmd payload rid ?t z = ((sent, r), z1)"
    by (metis surj_pair)
  note res = request_result [OF client call]
  show ?thesis
  proof (cases sent)
    case False
    then show ?thesis using client call res(1) by (simp add: ForwardToZone_def respond_defs answersI)
  next
    case True
    then have call': "ZoneRpcClient_HandleClientRequest client c ?u cmd payload rid ?t z = ((True, r), z1)" using call by simp
    have "quiet Q I z (bind_validated S client c cmd payload r z1)"
      by (rule bind_validated_quiet [OF client call'])
    then show ?thesis using client call res(2) True by (simp add: ForwardToZone_def answersI)
  qed
qed

lemma HandleHeartbeat_answers:
  assumes "gp_ser_HeartbeatResponse (gs_proto S) t \<noteq> None"
  shows "answers S Q I c ''heartbeat'' rid z (HandleHeartbeat S now t c rid z)"
  using assms by (auto simp: HandleHeartbeat_def Let_def intro!: answersI)

lemma HandleClientMessage_answers:
  assumes "gp_ser_HeartbeatResponse (gs_proto S) t \<noteq> None"
  shows "answers S Q I c cmd rid z (HandleClientMessage S now t c cmd payload rid z)"
  unfolding HandleClientMessage_def
  by (intro answers_if) (simp_all add: HandleLogin_answers ForwardToZone_answers HandleHeartbeat_answers [OF assms] respond_defs answersI)

lemma HandleClientMessage_quiet: "quiet Q I z (HandleClientMessage S now t c cmd payload rid z)"
  unfolding HandleClientMessage_def
  by (intro quiet_if HandleLogin_answers [THEN answers_quiet] ForwardToZone_answers [THEN answers_quiet] HandleHeartbeat_quiet)
    (simp add: respond_defs)

lemma OnMessage_quiet: "quiet Q I z (WebSocketHandler_OnMessage S now t c data z)"
  by (auto simp: WebSocketHandler_OnMessage_def HandleClientMessage_quiet split: option.splits)

end

section \<open>Sessions\<close>

fun sends :: "Posted list \<Rightarrow> string list" where
  "sends [] = []"
| "sends (PostSend c data # ps) = data # sends ps"
| "sends (PostClose c # ps) = sends ps"

lemma sends_append [simp]: "sends (ps @ qs) = sends ps @ sends qs"
  by (induction ps rule: sends.induct) auto

text \<open>The messages written and queued are those of the tasks that ran, until the session closes; at most one write is
  outstanding, of the buffer that the session keeps for it.\<close>

definition ws_ok :: "Posted list \<Rightarrow> WsSession \<Rightarrow> bool" where
  "ws_ok ts s \<longleftrightarrow> ws_ran s \<le> length ts \<and> prefix (ws_started s @ ws_write_queue s) (sends (take (ws_ran s) ts)) \<and>
     (\<not> ws_closed s \<longrightarrow> ws_started s @ ws_write_queue s = sends (take (ws_ran s) ts)) \<and>
     ws_outstanding s = (if ws_writing s then 1 else 0) \<and>
     (ws_writing s \<longrightarrow> ws_started s \<noteq> [] \<and> ws_write_buffer s = last (ws_started s)) \<and>
     (\<not> ws_closed s \<and> ws_write_queue s \<noteq> [] \<longrightarrow> ws_writing s)"

lemma ws_ok_new: "ws_ok ts (WsSession_new c)"
  by (simp add: ws_ok_def WsSession_new_def)

lemma ws_ok_phase [simp]: "ws_ok ts (s\<lparr>ws_phase := p\<rparr>) = ws_ok ts s"
  by (simp add: ws_ok_def)

lemma ws_ok_more: "ws_ok ts s \<Longrightarrow> ws_ok (ts @ ts') s"
  by (auto simp: ws_ok_def)

lemma ws_ok_close: "ws_ok ts s \<Longrightarrow> ws_ok ts (s\<lparr>ws_closed := True\<rparr>)"
  by (simp add: ws_ok_def)

lemma ws_ok_DoWrite:
  assumes "ws_ran s \<le> length ts" "ws_started s @ ws_write_queue s = sends (take (ws_ran s) ts)" "\<not> ws_writing s" "ws_outstanding s = 0"
    "\<not> ws_closed s"
  shows "ws_ok ts (DoWrite s)"
  using assms by (cases "ws_write_queue s") (auto simp: ws_ok_def DoWrite_def)

lemma ws_ok_QueueSend:
  assumes "ws_ok ts s" "ws_ran s < length ts" "ts ! ws_ran s = PostSend c data"
  shows "ws_ok ts (QueueSend data (s\<lparr>ws_ran := ws_ran s + 1\<rparr>))"
proof -
  have ran: "sends (take (ws_ran s + 1) ts) = sends (take (ws_ran s) ts) @ [data]"
    using assms(2,3) by (simp add: take_Suc_conv_app_nth)
  show ?thesis
  proof (cases "ws_closed s \<or> ws_writing s")
    case True
    then show ?thesis using assms ran by (auto simp: ws_ok_def QueueSend_def Let_def)
  next
    case False
    have "ws_ok ts (DoWrite (s\<lparr>ws_ran := ws_ran s + 1, ws_write_queue := ws_write_queue s @ [data]\<rparr>))"
      by (rule ws_ok_DoWrite) (use False assms ran in \<open>auto simp: ws_ok_def\<close>)
    then show ?thesis using False by (simp add: QueueSend_def Let_def)
  qed
qed

lemma ws_ok_ran_close:
  assumes "ws_ok ts s" "ws_ran s < length ts" "ts ! ws_ran s = PostClose c"
  shows "ws_ok ts (s\<lparr>ws_ran := ws_ran s + 1\<rparr>)"
  using assms by (auto simp: ws_ok_def take_Suc_conv_app_nth)

lemma Close_session [simp]: "fst (Close S s z) = s\<lparr>ws_closed := True\<rparr>"
  by (simp add: Close_def Let_def)

lemma ws_ok_OnWrite:
  assumes "ws_ok ts s" "ws_outstanding s > 0"
  shows "ws_ok ts (fst (OnWrite S ec s z))"
proof (cases "ec \<or> ws_write_queue s = [] \<or> ws_closed s")
  case True
  then show ?thesis using assms by (auto simp: OnWrite_def Let_def ws_ok_def DoWrite_def split: if_splits)
next
  case False
  have "ws_ok ts (DoWrite (s\<lparr>ws_outstanding := ws_outstanding s - 1, ws_writing := False\<rparr>))"
    by (rule ws_ok_DoWrite) (use False assms in \<open>auto simp: ws_ok_def split: if_splits\<close>)
  then show ?thesis using False by (simp add: OnWrite_def Let_def)
qed

section \<open>Identifiers of connections\<close>

lemma to_string_chars: "set (to_string x) \<subseteq> insert (CHR ''-'') {c. isdigit c}"
  using show_nat_digits by (auto simp: to_string_def)

lemma to_string_no_underscore: "CHR ''_'' \<notin> set (to_string x)"
  using to_string_chars [of x] by (auto simp: isdigit_def code_def)

lemma to_string_inj: "to_string x = to_string y \<Longrightarrow> x = y"
  by (metis option.inject strtoll_to_string)

lemma GenerateConnId_inj: "GenerateConnId k t = GenerateConnId k' t' \<Longrightarrow> k = k'"
proof -
  assume eq: "GenerateConnId k t = GenerateConnId k' t'"
  have "dropWhile (\<lambda>c. c \<noteq> CHR ''_'') (to_string x @ ''_'' @ b) = ''_'' @ b" for x b
    using to_string_no_underscore [of x] by (simp add: dropWhile_append)
  then have "''_'' @ to_string k = ''_'' @ to_string k'" using eq unfolding GenerateConnId_def by (metis append_same_eq same_append_eq)
  then show "k = k'" using to_string_inj by simp
qed

lemma GenerateConnId_nonempty [simp]: "GenerateConnId k t \<noteq> []"
  by (simp add: GenerateConnId_def)

section \<open>Reachable gates\<close>

definition conn_name :: "int \<Rightarrow> string \<Rightarrow> bool" where
  "conn_name seq c \<longleftrightarrow> (\<exists>k t. c = GenerateConnId k t \<and> k < seq)"

lemma conn_name_facts: "\<not> conn_name seq []" "\<not> conn_name seq (GenerateConnId seq t)" "conn_name seq c \<Longrightarrow> conn_name (seq + 1) c"
    "conn_name (seq + 1) (GenerateConnId seq t)"
  by (auto simp: conn_name_def dest: GenerateConnId_inj GenerateConnId_nonempty [THEN not_sym, THEN notE])

definition gsession_ok :: "GateState \<Rightarrow> int \<Rightarrow> string \<Rightarrow> WsSession \<Rightarrow> bool" where
  "gsession_ok g seq c s \<longleftrightarrow> ws_conn_id s = c \<and> (g_connections g c \<noteq> None \<longleftrightarrow> ws_phase s = Reading \<and> \<not> ws_closed s) \<and>
     ws_ok (tasks_of c g) s \<and> (ws_phase s \<in> {ReadingHandshake, Accepting} \<longrightarrow> \<not> ws_closed s) \<and>
     (ws_phase s \<noteq> Reading \<and> \<not> ws_closed s \<longrightarrow> tasks_of c g = []) \<and> conn_name seq c"

lemma gsession_okD: "gsession_ok g seq c s \<Longrightarrow> ws_ok (tasks_of c g) s"
  by (simp add: gsession_ok_def)

definition gate_ok :: "(string \<Rightarrow> string \<Rightarrow> bool) \<Rightarrow> ('w \<Rightarrow> bool) \<Rightarrow> 'w Gate \<Rightarrow> bool" where
  "gate_ok Q I gt \<longleftrightarrow> world_ok Q I (gt_service gt) \<and>
     (\<forall>c s. gt_sessions gt c = Some s \<longrightarrow> gsession_ok (fst (gt_service gt)) (gt_seq gt) c s) \<and>
     (\<forall>c. gt_sessions gt c = None \<longrightarrow> g_connections (fst (gt_service gt)) c = None \<and> tasks_of c (fst (gt_service gt)) = [])"

lemma tasks_of_more: "g_posted g' = g_posted g @ ps \<Longrightarrow> tasks_of c g' = tasks_of c g @ tasks_of c (g\<lparr>g_posted := ps\<rparr>)"
  by (simp add: tasks_of_def)

lemma tasks_of_none: "posted_session ` set ps \<subseteq> D \<Longrightarrow> c \<notin> D \<Longrightarrow> tasks_of c (g\<lparr>g_posted := ps\<rparr>) = []"
  by (auto simp: tasks_of_def filter_empty_conv)

text \<open>A quiet change keeps every session as it is.\<close>

lemma quiet_tasks:
  assumes "quiet Q I z z'" "world_ok Q I z"
  shows "\<exists>ts. tasks_of c (fst z') = tasks_of c (fst z) @ ts \<and> (g_connections (fst z) c = None \<longrightarrow> ts = [])"
proof -
  obtain ps where "g_posted (fst z') = g_posted (fst z) @ ps" "posted_session ` set ps \<subseteq> dom (g_connections (fst z))"
    using assms by (auto simp: quiet_def)
  then show ?thesis using tasks_of_more tasks_of_none by (metis domIff)
qed

lemma quiet_none: "quiet Q I z z' \<Longrightarrow> g_connections (fst z') c = None \<longleftrightarrow> g_connections (fst z) c = None"
  unfolding quiet_def by (metis domIff)

lemma gsession_ok_more:
  assumes "gsession_ok g seq c s" "g_connections g' c = None \<longleftrightarrow> g_connections g c = None"
    and "\<exists>ts. tasks_of c g' = tasks_of c g @ ts \<and> (g_connections g c = None \<longrightarrow> ts = [])"
  shows "gsession_ok g' seq c s"
proof -
  obtain ts where "tasks_of c g' = tasks_of c g @ ts" "g_connections g c = None \<longrightarrow> ts = []" using assms(3) by (elim exE conjE)
  moreover have "ws_ok (tasks_of c g @ ts) s" using assms(1) ws_ok_more unfolding gsession_ok_def by blast
  moreover have "ws_phase s \<noteq> Reading \<Longrightarrow> g_connections g c = None" using assms(1) unfolding gsession_ok_def by force
  ultimately show ?thesis using assms(1,2) unfolding gsession_ok_def by (metis append_Nil2)
qed

lemma gsession_ok_quiet: "quiet Q I z z' \<Longrightarrow> world_ok Q I z \<Longrightarrow> gsession_ok (fst z) seq c s \<Longrightarrow> gsession_ok (fst z') seq c s"
  by (rule gsession_ok_more) (assumption, erule quiet_none, erule quiet_tasks, assumption)

lemma gate_ok_quiet:
  assumes "gate_ok Q I gt" "quiet Q I (gt_service gt) z"
  shows "gate_ok Q I (gt\<lparr>gt_service := z\<rparr>)"
proof -
  have "tasks_of c (fst z) = []" if "gt_sessions gt c = None" for c
    using quiet_tasks [OF assms(2), of c] assms(1) that by (auto simp: gate_ok_def)
  then show ?thesis using assms gsession_ok_quiet [OF assms(2)] quiet_none [OF assms(2)]
    by (auto simp: gate_ok_def) (auto simp: quiet_def)
qed

lemma gate_ok_put:
  assumes "gate_ok Q I gt" "gt_sessions gt c = Some s"
    and "world_ok Q I (snd r)"
    and "\<And>c'. c' \<noteq> c \<Longrightarrow> g_connections (fst (snd r)) c' = None \<longleftrightarrow> g_connections (fst (gt_service gt)) c' = None"
    and "\<And>c'. c' \<noteq> c \<Longrightarrow> \<exists>ts. tasks_of c' (fst (snd r)) = tasks_of c' (fst (gt_service gt)) @ ts \<and>
           (g_connections (fst (gt_service gt)) c' = None \<longrightarrow> ts = [])"
    and "gsession_ok (fst (snd r)) (gt_seq gt) c (fst r)"
  shows "gate_ok Q I (put_session c r gt)"
proof -
  have other: "gsession_ok (fst (snd r)) (gt_seq gt) c' s'" if "c' \<noteq> c" "gsession_ok (fst (gt_service gt)) (gt_seq gt) c' s'" for c' s'
    by (rule gsession_ok_more [OF that(2) assms(4,5) [OF that(1)]])
  show ?thesis using assms other unfolding gate_ok_def put_session_def by (auto, metis append_Nil2)
qed

text \<open>The rules that change a session without changing a connection.\<close>

lemma gate_ok_session:
  assumes "gate_ok Q I gt" "gt_sessions gt c = Some s" "quiet Q I (gt_service gt) (snd r)"
    and "\<And>g. gsession_ok g (gt_seq gt) c s \<Longrightarrow> prefix (tasks_of c (fst (gt_service gt))) (tasks_of c g) \<Longrightarrow> gsession_ok g (gt_seq gt) c (fst r)"
  shows "gate_ok Q I (put_session c r gt)"
proof -
  have ok: "world_ok Q I (gt_service gt)" "gsession_ok (fst (gt_service gt)) (gt_seq gt) c s"
    using assms(1,2) by (auto simp: gate_ok_def)
  show ?thesis
  proof (rule gate_ok_put [OF assms(1,2)])
    show "world_ok Q I (snd r)" using ok assms(3) by (simp add: quiet_def)
    show "gsession_ok (fst (snd r)) (gt_seq gt) c (fst r)"
      using assms(4) gsession_ok_quiet [OF assms(3) ok] quiet_tasks [OF assms(3) ok(1), of c] by auto
  qed (use quiet_none [OF assms(3)] quiet_tasks [OF assms(3) ok(1)] in auto)
qed

lemma gate_ok_handshake:
  assumes "gate_ok Q I gt" "gt_sessions gt c = Some s" "ws_phase s = ReadingHandshake"
  shows "gate_ok Q I (put_session c (OnReadHandshake h s, gt_service gt) gt)"
  using assms(3) by (intro gate_ok_session [OF assms(1,2)])
    (auto simp: gsession_ok_def OnReadHandshake_def split: Handshake.splits)

lemma gate_ok_accepted:
  assumes "gate_ok Q I gt" "gt_sessions gt c = Some s" "ws_phase s = Accepting"
  shows "gate_ok Q I (put_session c (let (s', g) = OnAccept ec now s (fst (gt_service gt)) in (s', (g, snd (gt_service gt)))) gt)"
proof -
  have ok: "world_ok Q I (gt_service gt)" "gsession_ok (fst (gt_service gt)) (gt_seq gt) c s"
    using assms(1,2) by (auto simp: gate_ok_def)
  then have fresh: "g_connections (fst (gt_service gt)) c = None" "c \<noteq> []" using assms(3) conn_name_facts(1) by (auto simp: gsession_ok_def)
  let ?g = "SetCloseCallback c c (SetSendCallback c c (AddConnection now c (fst (gt_service gt))))"
  have tasks: "tasks_of c' ?g = tasks_of c' (fst (gt_service gt))" for c'
    by (simp add: tasks_of_def SetCloseCallback_def SetSendCallback_def AddConnection_def)
  show ?thesis
  proof (cases ec)
    case True
    then show ?thesis using assms(3) by (intro gate_ok_session [OF assms(1,2)]) (auto simp: OnAccept_def gsession_ok_def)
  next
    case False
    have "gate_ok Q I (put_session c (s\<lparr>ws_phase := Reading\<rparr>, ?g, snd (gt_service gt)) gt)"
    proof (rule gate_ok_put [OF assms(1,2)])
      show "world_ok Q I (snd (s\<lparr>ws_phase := Reading\<rparr>, ?g, snd (gt_service gt)))" using ok(1) tables_accept [OF _ fresh] by (simp add: world_ok_def)
    qed (use ok(2) assms(3) tasks in \<open>auto simp: gsession_ok_def SetCloseCallback_def SetSendCallback_def AddConnection_def tasks_of_def\<close>)
    then show ?thesis using False ok(2) by (simp add: OnAccept_def Let_def gsession_ok_def)
  qed
qed

text \<open>Closing a session removes its connection, whatever the zone server does with the report.\<close>

lemma drop_more [simp]: "g_posted (drop_connection c g) = g_posted g"
  by (simp add: drop_connection_def Let_def split: option.splits)

lemma drop_connections: "g_connections (drop_connection c g) = (g_connections g)(c := None)"
  by (auto simp: drop_connection_def Let_def fun_eq_iff split: option.splits)

context gate_calls
begin

lemma Close_service:
  assumes "\<not> ws_closed s"
  shows "posts I (apfst (\<lambda>g. drop_connection (ws_conn_id s) (RemoveSendCallback (ws_conn_id s) (RemoveCloseCallback (ws_conn_id s) g))) z)
    (snd (Close S s z))"
  using assms NotifyUserOffline_posts by (cases z) (simp add: Close_def RemoveConnection_def Let_def)

lemma gate_ok_close:
  assumes "gate_ok Q I gt" "gt_sessions gt c = Some s" "ws_phase s = Reading \<or> ws_closed s"
    and same: "ws_conn_id s' = c" "ws_closed s' = ws_closed s" "ws_phase s' \<noteq> ReadingHandshake" "ws_phase s' \<noteq> Accepting"
    "ws_ok (tasks_of c (fst (gt_service gt))) (s'\<lparr>ws_closed := True\<rparr>)"
  shows "gate_ok Q I (put_session c (Close S s' (gt_service gt)) gt)"
proof -
  let ?g = "fst (gt_service gt)"
  have ok: "world_ok Q I (gt_service gt)" "gsession_ok ?g (gt_seq gt) c s" using assms(1,2) by (auto simp: gate_ok_def)
  show ?thesis
  proof (cases "ws_closed s")
    case True
    then have "Close S s' (gt_service gt) = (s', gt_service gt)" "ws_ok (tasks_of c ?g) s'" using same by (simp_all add: Close_def ws_ok_def)
    note closed = this
    have "gate_ok Q I (put_session c (s', gt_service gt) gt)"
      by (rule gate_ok_put [OF assms(1,2)]) (use ok same closed(2) True assms(3) in \<open>auto simp: gsession_ok_def\<close>)
    then show ?thesis using closed(1) by simp
  next
    case False
    let ?d = "drop_connection c (RemoveSendCallback c (RemoveCloseCallback c ?g))"
    let ?z = "apfst (\<lambda>g. drop_connection c (RemoveSendCallback c (RemoveCloseCallback c g))) (gt_service gt)"
    have post: "posts I ?z (snd (Close S s' (gt_service gt)))" using Close_service False same by metis
    have d: "world_ok Q I ?z" "g_connections ?d = (g_connections ?g)(c := None)" "\<And>c'. tasks_of c' ?d = tasks_of c' ?g"
      using ok(1) tables_drop
      by (auto simp: world_ok_def drop_connections tasks_of_def RemoveSendCallback_def RemoveCloseCallback_def)
    note q = quiet_posts [OF post]
    have tasks: "\<exists>ts. tasks_of c' (fst (snd (Close S s' (gt_service gt)))) = tasks_of c' ?g @ ts \<and> (g_connections ?d c' = None \<longrightarrow> ts = [])" for c'
      using quiet_tasks [OF q d(1), of c'] d(3) by simp
    show ?thesis
    proof (rule gate_ok_put [OF assms(1,2)])
      show "world_ok Q I (snd (Close S s' (gt_service gt)))" using q d(1) by (simp add: quiet_def)
      show "gsession_ok (fst (snd (Close S s' (gt_service gt)))) (gt_seq gt) c (fst (Close S s' (gt_service gt)))"
        using ok(2) same tasks [of c] quiet_none [OF q, of c] d(2) by (auto simp: gsession_ok_def)
      show "g_connections (fst (snd (Close S s' (gt_service gt)))) c' = None \<longleftrightarrow> g_connections ?g c' = None" if "c' \<noteq> c" for c'
        using quiet_none [OF q, of c'] d(2) that by simp
      show "\<exists>ts. tasks_of c' (fst (snd (Close S s' (gt_service gt)))) = tasks_of c' ?g @ ts \<and> (g_connections ?g c' = None \<longrightarrow> ts = [])"
        if "c' \<noteq> c" for c'
        using tasks [of c'] d(2) that by simp
    qed
  qed
qed

lemma gate_ok_write:
  assumes "gate_ok Q I gt" "gt_sessions gt c = Some s" "ws_outstanding s > 0"
  shows "gate_ok Q I (put_session c (OnWrite S ec s (gt_service gt)) gt)"
proof -
  let ?s = "s\<lparr>ws_outstanding := ws_outstanding s - 1, ws_writing := False\<rparr>"
  have ok: "gsession_ok (fst (gt_service gt)) (gt_seq gt) c s" using assms(1,2) by (auto simp: gate_ok_def)
  have open_phase: "ws_phase s = Reading \<or> ws_closed s" using ok assms(3) by (auto simp: gsession_ok_def ws_ok_def split: if_splits)
  have ws: "ws_ok (tasks_of c g) (fst (OnWrite S ec s z))" if "gsession_ok g (gt_seq gt) c s" for g z
    by (rule ws_ok_OnWrite [OF gsession_okD [OF that] assms(3)])
  show ?thesis
  proof (cases "ec \<and> \<not> ws_closed s")
    case True
    then have run: "OnWrite S ec s (gt_service gt) = Close S ?s (gt_service gt)" by (simp add: OnWrite_def Let_def)
    show ?thesis unfolding run
      by (rule gate_ok_close [OF assms(1,2) open_phase]) (use ok True assms(3) in \<open>auto simp: gsession_ok_def ws_ok_def split: if_splits\<close>)
  next
    case False
    then have "snd (OnWrite S ec s (gt_service gt)) = gt_service gt" by (simp add: OnWrite_def Let_def)
    moreover have "ws_conn_id (fst (OnWrite S ec s z)) = ws_conn_id s \<and> ws_phase (fst (OnWrite S ec s z)) = ws_phase s \<and>
        ws_closed (fst (OnWrite S ec s z)) = ws_closed s" for z :: "GateState \<times> 'w"
      using False by (auto simp: OnWrite_def DoWrite_def Let_def)
    ultimately show ?thesis using ws by (intro gate_ok_session [OF assms(1,2)]) (auto simp: gsession_ok_def)
  qed
qed

lemma gate_ok_posted:
  assumes "gate_ok Q I gt" "gt_sessions gt c = Some s" "ws_ran s < length (tasks_of c (fst (gt_service gt)))"
  shows "gate_ok Q I (put_session c (run_posted S (tasks_of c (fst (gt_service gt)) ! ws_ran s) (s\<lparr>ws_ran := ws_ran s + 1\<rparr>) (gt_service gt)) gt)"
proof -
  let ?ts = "tasks_of c (fst (gt_service gt))"
  have ok: "gsession_ok (fst (gt_service gt)) (gt_seq gt) c s" using assms(1,2) by (auto simp: gate_ok_def)
  then have open_phase: "ws_phase s = Reading \<or> ws_closed s" using assms(3) by (auto simp: gsession_ok_def)
  show ?thesis
  proof (cases "?ts ! ws_ran s")
    case (PostSend c' data)
    have same: "ws_conn_id (QueueSend data s') = ws_conn_id s' \<and> ws_phase (QueueSend data s') = ws_phase s' \<and> ws_closed (QueueSend data s') = ws_closed s'"
      for s' by (simp add: QueueSend_def DoWrite_def Let_def)
    have "ws_ok (tasks_of c g) (QueueSend data (s\<lparr>ws_ran := ws_ran s + 1\<rparr>))"
      if "gsession_ok g (gt_seq gt) c s" "prefix ?ts (tasks_of c g)" for g
      using that PostSend assms(3) by (intro ws_ok_QueueSend) (auto simp: gsession_ok_def prefix_def nth_append)
    then show ?thesis using PostSend same by (intro gate_ok_session [OF assms(1,2)]) (auto simp: run_posted_def gsession_ok_def)
  next
    case (PostClose c')
    then have run: "run_posted S (?ts ! ws_ran s) (s\<lparr>ws_ran := ws_ran s + 1\<rparr>) (gt_service gt) = Close S (s\<lparr>ws_ran := ws_ran s + 1\<rparr>) (gt_service gt)"
      by (simp add: run_posted_def)
    have "ws_ok ?ts (s\<lparr>ws_ran := ws_ran s + 1, ws_closed := True\<rparr>)"
      using ws_ok_close [OF ws_ok_ran_close [OF gsession_okD [OF ok] assms(3) PostClose]] by simp
    then show ?thesis unfolding run
      by (intro gate_ok_close [OF assms(1,2) open_phase]) (use ok open_phase in \<open>auto simp: gsession_ok_def\<close>)
  qed
qed

end

context gate_zone
begin

lemma gate_ok_read:
  assumes "gate_ok Q I gt" "gt_sessions gt c = Some s" "ws_phase s = Reading"
  shows "gate_ok Q I (put_session c (OnRead S now t r s (gt_service gt)) gt)"
proof (cases "\<exists>data. r = ReadBinary data")
  case True
  then obtain data where r: "r = ReadBinary data" by blast
  show ?thesis
    by (rule gate_ok_session [OF assms(1,2)]) (simp_all add: r OnRead_def OnMessage_quiet)
next
  case False
  have ok: "gsession_ok (fst (gt_service gt)) (gt_seq gt) c s" using assms(1,2) by (auto simp: gate_ok_def)
  have run: "OnRead S now t r s (gt_service gt) = Close S (s\<lparr>ws_phase := Finished\<rparr>) (gt_service gt)"
    using False by (auto simp: OnRead_def split: WsReadResult.splits)
  show ?thesis unfolding run
    by (rule gate_ok_close [OF assms(1,2)]) (use assms(3) ok ws_ok_close in \<open>auto simp: gsession_ok_def\<close>)
qed

lemma gate_ok_listener:
  assumes "gate_ok Q I gt"
  shows "gate_ok Q I (WsListener_OnAccept ec now gt)"
proof -
  let ?c = "GenerateConnId (gt_seq gt) now"
  have fresh: "gt_sessions gt ?c = None" using assms conn_name_facts(2) by (fastforce simp: gate_ok_def gsession_ok_def)
  have old: "gsession_ok g (gt_seq gt + 1) c s" if "gsession_ok g (gt_seq gt) c s" for g c s
    using that conn_name_facts(3) by (simp add: gsession_ok_def)
  have new: "gsession_ok (fst (gt_service gt)) (gt_seq gt + 1) ?c (WsSession_new ?c)"
    using assms fresh conn_name_facts(4) ws_ok_new [of _ ?c] by (simp add: gate_ok_def gsession_ok_def WsSession_new_def)
  show ?thesis using assms old new by (simp add: WsListener_OnAccept_def WsListener_DoAccept_def Let_def gate_ok_def)
qed

lemma gate_ok_step: "gate_step S addr gt e gt' \<Longrightarrow> gate_ok Q I gt \<Longrightarrow> gate_ok Q I gt'"
proof (induction rule: gate_step.induct)
  case (handshake_accepted gt c s ec now)
  then show ?case by (intro gate_ok_accepted)
next
  case (posted gt c s)
  then show ?case by (intro gate_ok_posted)
next
  case (register_round gt)
  then show ?case
    by (auto simp: GateService_RegisterGate_def intro!: gate_ok_quiet quiet_posts reports_post(3) split: option.splits)
next
  case (report_round gt)
  then show ?case
    by (auto simp: GateService_GateHeartbeat_def intro!: gate_ok_quiet quiet_posts reports_post(4) split: option.splits)
next
  case (stop gt)
  then show ?case by (simp add: WsListener_Stop_def gate_ok_def)
qed (simp_all add: gate_ok_listener gate_ok_handshake gate_ok_read gate_ok_write gate_ok_quiet quiet_posts posts_apfst handlers_post CheckHeartbeat_posts)

theorem reachable_gate_ok: "gate_reach S addr w gt \<Longrightarrow> I w \<Longrightarrow> gate_ok Q I gt"
proof (induction rule: gate_reach.induct)
  case gate_start
  then show ?case
    using tables_empty [of Q] by (simp add: gate_ok_def world_ok_def Gate_start_def GateState_empty_def tasks_of_def)
qed (rule gate_ok_step)

end

end
