(* ===== verification/Zone_Deploy.thy ===== *)
theory Zone_Deploy
  imports Gate_Laws
begin

text \<open>
  The servers put together.  The zone server is connected to the business servers and to the gates of the deployment: its world
  has the state of every gate, by address, the state \<open>'o\<close> of the online server and the state \<open>'b\<close> of the other business servers.
  A call to a business server changes the state of that server only; a push to a gate is the gRPC method of that gate.
  A gate in turn calls the zone server through \<open>zone_server\<close>, which checks the internal secret first.

  This is a deployment in which every server is up and every connection works: \<open>deployed_manager\<close> has a stub for each of the business
  servers, and a call between servers fails in transit only for a wrong internal secret or, for a push, when the gate is not up.  Deadlines that pass, broken
  channels and servers that are down do not occur in the theorems on the deployed system.  The code that handles them (the
  error branches of the RPC clients and of \<^verbatim>\<open>Init\<close>) is modelled for arbitrary stubs in the theories of the zone server.
\<close>

section \<open>Business servers\<close>

record ('o, 'b) Business =
  bz_auth :: "'b AuthStub"
  bz_online :: "'o OnlineStub"
  bz_friend :: "'b FriendStub"
  bz_chat :: "'b ChatStub"
  bz_group :: "'b GroupStub"
  bz_file :: "'b FileStub"

definition lift_rpc :: "('a, 'b) rpc \<Rightarrow> ('a, ('s, 'g \<times> 'o \<times> 'b) zone) rpc" where
  "lift_rpc f z = (case z of (zs, gs, o', b) \<Rightarrow> (fst (f b), (zs, gs, o', snd (f b))))"

definition lift_online :: "('a, 'o) rpc \<Rightarrow> ('a, ('s, 'g \<times> 'o \<times> 'b) zone) rpc" where
  "lift_online f z = (case z of (zs, gs, o', b) \<Rightarrow> (fst (f o'), (zs, gs, snd (f o'), b)))"

definition lift_ChatStub :: "'b ChatStub \<Rightarrow> ('s, 'g \<times> 'o \<times> 'b) zone ChatStub" where
  "lift_ChatStub s =
     \<lparr>chat_SendMessage = (\<lambda>ctx a b c d e f g h i j. lift_rpc (chat_SendMessage s ctx a b c d e f g h i j)),
      chat_RecallMessage = (\<lambda>ctx a b. lift_rpc (chat_RecallMessage s ctx a b)),
      chat_PullOffline = (\<lambda>ctx a b c. lift_rpc (chat_PullOffline s ctx a b c)),
      chat_GetHistory = (\<lambda>ctx a b c d e. lift_rpc (chat_GetHistory s ctx a b c d e)),
      chat_SyncConversations = (\<lambda>ctx a b. lift_rpc (chat_SyncConversations s ctx a b)),
      chat_DeleteConversation = (\<lambda>ctx a b c. lift_rpc (chat_DeleteConversation s ctx a b c)),
      chat_MarkRead = (\<lambda>ctx a b c d. lift_rpc (chat_MarkRead s ctx a b c d))\<rparr>"

definition lift_GroupStub :: "'b GroupStub \<Rightarrow> ('s, 'g \<times> 'o \<times> 'b) zone GroupStub" where
  "lift_GroupStub s =
     \<lparr>group_CreateGroup = (\<lambda>ctx a b c d. lift_rpc (group_CreateGroup s ctx a b c d)),
      group_DismissGroup = (\<lambda>ctx a b. lift_rpc (group_DismissGroup s ctx a b)),
      group_GetGroupInfo = (\<lambda>ctx a. lift_rpc (group_GetGroupInfo s ctx a)),
      group_GetGroupMembers = (\<lambda>ctx a b c. lift_rpc (group_GetGroupMembers s ctx a b c)),
      group_GetUserGroups = (\<lambda>ctx a. lift_rpc (group_GetUserGroups s ctx a)),
      group_InviteMembers = (\<lambda>ctx a b c. lift_rpc (group_InviteMembers s ctx a b c)),
      group_RemoveMember = (\<lambda>ctx a b c. lift_rpc (group_RemoveMember s ctx a b c)),
      group_LeaveGroup = (\<lambda>ctx a b. lift_rpc (group_LeaveGroup s ctx a b)),
      group_TransferOwner = (\<lambda>ctx a b c. lift_rpc (group_TransferOwner s ctx a b c))\<rparr>"

definition lift_FriendStub :: "'b FriendStub \<Rightarrow> ('s, 'g \<times> 'o \<times> 'b) zone FriendStub" where
  "lift_FriendStub s =
     \<lparr>friend_AddFriend = (\<lambda>ctx a b c d. lift_rpc (friend_AddFriend s ctx a b c d)),
      friend_HandleFriendRequest = (\<lambda>ctx a b c d. lift_rpc (friend_HandleFriendRequest s ctx a b c d)),
      friend_RemoveFriend = (\<lambda>ctx a b. lift_rpc (friend_RemoveFriend s ctx a b)),
      friend_GetFriends = (\<lambda>ctx a b. lift_rpc (friend_GetFriends s ctx a b)),
      friend_GetFriendRequests = (\<lambda>ctx a b. lift_rpc (friend_GetFriendRequests s ctx a b)),
      friend_BlockUser = (\<lambda>ctx a b. lift_rpc (friend_BlockUser s ctx a b)),
      friend_UnblockUser = (\<lambda>ctx a b. lift_rpc (friend_UnblockUser s ctx a b)),
      friend_GetBlockList = (\<lambda>ctx a. lift_rpc (friend_GetBlockList s ctx a)),
      friend_CreateFriendGroup = (\<lambda>ctx a b. lift_rpc (friend_CreateFriendGroup s ctx a b)),
      friend_GetFriendGroups = (\<lambda>ctx a. lift_rpc (friend_GetFriendGroups s ctx a)),
      friend_MoveFriend = (\<lambda>ctx a b c. lift_rpc (friend_MoveFriend s ctx a b c)),
      friend_DeleteFriendGroup = (\<lambda>ctx a b. lift_rpc (friend_DeleteFriendGroup s ctx a b)),
      friend_SetRemark = (\<lambda>ctx a b c. lift_rpc (friend_SetRemark s ctx a b c))\<rparr>"

definition lift_AuthStub :: "'b AuthStub \<Rightarrow> ('s, 'g \<times> 'o \<times> 'b) zone AuthStub" where
  "lift_AuthStub s =
     \<lparr>auth_Register = (\<lambda>ctx a b c d e. lift_rpc (auth_Register s ctx a b c d e)),
      auth_VerifyCredentials = (\<lambda>ctx a b. lift_rpc (auth_VerifyCredentials s ctx a b)),
      auth_GetProfile = (\<lambda>ctx a. lift_rpc (auth_GetProfile s ctx a)),
      auth_UpdateProfile = (\<lambda>ctx a b c d. lift_rpc (auth_UpdateProfile s ctx a b c d)),
      auth_SearchUsers = (\<lambda>ctx a b. lift_rpc (auth_SearchUsers s ctx a b))\<rparr>"

definition lift_FileStub :: "'b FileStub \<Rightarrow> ('s, 'g \<times> 'o \<times> 'b) zone FileStub" where
  "lift_FileStub s =
     \<lparr>file_InitUpload = (\<lambda>ctx a b c d e f. lift_rpc (file_InitUpload s ctx a b c d e f)),
      file_GetFileUrl = (\<lambda>ctx a b. lift_rpc (file_GetFileUrl s ctx a b)),
      file_GetUploadToken = (\<lambda>ctx a b c. lift_rpc (file_GetUploadToken s ctx a b c)),
      file_DeleteFile = (\<lambda>ctx a b. lift_rpc (file_DeleteFile s ctx a b)),
      file_GetFileInfo = (\<lambda>ctx a. lift_rpc (file_GetFileInfo s ctx a))\<rparr>"

definition lift_OnlineStub :: "'o OnlineStub \<Rightarrow> ('s, 'g \<times> 'o \<times> 'b) zone OnlineStub" where
  "lift_OnlineStub s =
     \<lparr>online_Login = (\<lambda>ctx a b c. lift_online (online_Login s ctx a b c)),
      online_Logout = (\<lambda>ctx a b. lift_online (online_Logout s ctx a b)),
      online_ValidateToken = (\<lambda>ctx a. lift_online (online_ValidateToken s ctx a))\<rparr>"

definition deployed_backends :: "('o, 'b) Business \<Rightarrow> ('s, 'g \<times> 'o \<times> 'b) zone Backends" where
  "deployed_backends B =
     \<lparr>net_WaitForConnected = (\<lambda>address. True), net_auth = (\<lambda>address. lift_AuthStub (bz_auth B)),
      net_online = (\<lambda>address. lift_OnlineStub (bz_online B)), net_friend = (\<lambda>address. lift_FriendStub (bz_friend B)),
      net_chat = (\<lambda>address. lift_ChatStub (bz_chat B)), net_group = (\<lambda>address. lift_GroupStub (bz_group B)),
      net_file = (\<lambda>address. lift_FileStub (bz_file B))\<rparr>"

definition deployed_manager :: "int \<Rightarrow> ('o, 'b) Business \<Rightarrow> ('s, 'g \<times> 'o \<times> 'b) zone SystemManager" where
  "deployed_manager indet B =
     \<lparr>sm_auth = Some \<lparr>as_auth_rpc_client = Some (Some (lift_AuthStub (bz_auth B))), as_online_rpc_client = Some (Some (lift_OnlineStub (bz_online B)))\<rparr>,
      sm_chat = Some \<lparr>cs_rpc_client = Some (Some (lift_ChatStub (bz_chat B)))\<rparr>,
      sm_friend = Some \<lparr>fs_rpc_client = Some (Some (lift_FriendStub (bz_friend B)))\<rparr>,
      sm_group = Some \<lparr>gs_rpc_client = Some (Some (lift_GroupStub (bz_group B)))\<rparr>,
      sm_file = Some \<lparr>fl_rpc_client = Some (Some (lift_FileStub (bz_file B))), fl_indet = indet\<rparr>\<rparr>"

lemma SystemManager_Init_deployed:
  "map_option snd (SystemManager_Init (deployed_backends B) indet config) = Some (deployed_manager indet B)"
  by (simp add: SystemManager_Init_def AuthSystem_Init_def ChatSystem_Init_def FriendSystem_Init_def GroupSystem_Init_def FileSystem_Init_def
      RpcClientBase_Connect_def deployed_backends_def deployed_manager_def Let_def)

section \<open>Gates\<close>

type_synonym Gates = "string \<Rightarrow> GateState"

definition on_gate :: "string \<Rightarrow> (GateState \<Rightarrow> CommonResponse \<times> GateState) \<Rightarrow> (CommonResponse, ('s, Gates \<times> 'r) zone) rpc" where
  "on_gate a f z = (case z of (zs, gs, r) \<Rightarrow> (Inr (fst (f (gs a))), (zs, gs(a := snd (f (gs a))), r)))"

definition gate_net :: "GateProto \<Rightarrow> (string \<Rightarrow> bool) \<Rightarrow> ('s, Gates \<times> 'r) zone GateNet" where
  "gate_net P up =
     \<lparr>gate_WaitForConnected = (\<lambda>a z. up a), gate_channel_up = (\<lambda>a z. up a),
      gate_PushMessage = (\<lambda>a ctx u cmd payload. on_gate a (GateInternalGrpcHandler_PushMessage P u cmd payload)),
      gate_DisconnectUser = (\<lambda>a ctx u reason. on_gate a (GateInternalGrpcHandler_DisconnectUser u reason))\<rparr>"

definition deployed_zone ::
  "'s ZoneSessionStore \<Rightarrow> ZoneProto \<Rightarrow> GateProto \<Rightarrow> (string \<Rightarrow> bool) \<Rightarrow> int \<Rightarrow> ('o, 'b) Business \<Rightarrow> ('s, Gates \<times> 'o \<times> 'b) ZoneServiceImpl" where
  "deployed_zone store P GP up indet B =
     \<lparr>zi_store = store, zi_manager = Some (deployed_manager indet B), zi_gates = gate_net GP up, zi_proto = P\<rparr>"

section \<open>The zone server as a gate sees it\<close>

definition guarded :: "string \<Rightarrow> ClientContext \<Rightarrow> ('z \<Rightarrow> 'a \<times> 'z) \<Rightarrow> ('a, 'z) rpc" where
  "guarded expected ctx f z =
     (case InternalSecretProcessor_Process expected ctx of
        grpc_OK \<Rightarrow> apfst Inr (f z)
      | grpc_UNAUTHENTICATED msg \<Rightarrow> (Inl msg, z)
      | grpc_NOT_FOUND msg \<Rightarrow> (Inl msg, z)
      | grpc_INTERNAL msg \<Rightarrow> (Inl msg, z))"

text \<open>\<open>now\<close> is the clock of the zone server, in milliseconds.\<close>

definition zone_server :: "('s, 'w) ZoneServiceImpl \<Rightarrow> string \<Rightarrow> (('s, 'w) zone \<Rightarrow> int) \<Rightarrow> ('s, 'w) zone ZoneStub" where
  "zone_server Z expected now =
     \<lparr>zone_UserOnline = (\<lambda>ctx u g ty d. guarded expected ctx (\<lambda>z. ZoneHandler_UserOnline Z (now z) u g ty d z)),
      zone_UserOffline = (\<lambda>ctx u g. guarded expected ctx (ZoneHandler_UserOffline Z u g)),
      zone_GateRegister = (\<lambda>ctx g a n. guarded expected ctx (\<lambda>z. ZoneHandler_GateRegister Z (now z) g a n z)),
      zone_GateHeartbeat = (\<lambda>ctx g n. guarded expected ctx (\<lambda>z. ZoneHandler_GateHeartbeat Z (now z div 1000) g n z)),
      zone_HandleClientRequest = (\<lambda>ctx c u cmd p r t. guarded expected ctx (ZoneHandler_HandleClientRequest Z c u cmd p r t))\<rparr>"

text \<open>The world behind the gate at address \<open>a\<close> has the other gates, the zone server and the business servers.\<close>

definition seen_from :: "string \<Rightarrow> ('x, ('s, Gates \<times> 'r) zone) rpc \<Rightarrow> ('x, GateState \<times> (Gates \<times> 's ZoneState \<times> 'r)) rpc" where
  "seen_from a f z =
     (case z of (g, gs, zs, r) \<Rightarrow> (case f (zs, gs(a := g), r) of (x, (zs', gs', r')) \<Rightarrow> (x, (gs' a, gs', zs', r'))))"

definition zone_of_gate :: "string \<Rightarrow> ('s, Gates \<times> 'r) zone ZoneStub \<Rightarrow> (GateState \<times> (Gates \<times> 's ZoneState \<times> 'r)) ZoneStub" where
  "zone_of_gate a stub =
     \<lparr>zone_UserOnline = (\<lambda>ctx u g ty d. seen_from a (zone_UserOnline stub ctx u g ty d)),
      zone_UserOffline = (\<lambda>ctx u g. seen_from a (zone_UserOffline stub ctx u g)),
      zone_GateRegister = (\<lambda>ctx g ad n. seen_from a (zone_GateRegister stub ctx g ad n)),
      zone_GateHeartbeat = (\<lambda>ctx g n. seen_from a (zone_GateHeartbeat stub ctx g n)),
      zone_HandleClientRequest = (\<lambda>ctx c u cmd p r t. seen_from a (zone_HandleClientRequest stub ctx c u cmd p r t))\<rparr>"

definition deployed_gate ::
  "string option \<Rightarrow> GateConfig \<Rightarrow> string \<Rightarrow> GateProto \<Rightarrow> ('s, Gates \<times> 'r) ZoneServiceImpl \<Rightarrow> string \<Rightarrow> (('s, Gates \<times> 'r) zone \<Rightarrow> int)
     \<Rightarrow> (Gates \<times> 's ZoneState \<times> 'r) GateService" where
  "deployed_gate hostname config a GP Z expected now =
     GateService_Init hostname (zone_of_gate a (zone_server Z expected now)) GP config"

end
