(* ===== verification/Zone_Deploy_Laws.thy ===== *)
theory Zone_Deploy_Laws
  imports Zone_Deploy
begin

text \<open>
  What a command of a client can do to the deployed servers: it answers with the identifier of the request, gates only get
  tasks posted, and an invariant of the online server is kept (\<open>frame\<close>).  From this follow the promises that the gates rely on.
\<close>

section \<open>Frames\<close>

text \<open>
  \<open>R\<close> relates the states of the business servers before and after a call.  \<open>X\<close> holds the metadata that calls to the auth,
  friend and chat servers carry; calls to the group and file servers carry none.  \<open>ids\<close> are the receivers of messages.
\<close>

definition rpc_moves :: "('o \<times> 'b \<Rightarrow> 'o \<times> 'b \<Rightarrow> bool) \<Rightarrow> ('a, 'b) rpc \<Rightarrow> bool" where
  "rpc_moves R f \<longleftrightarrow> (\<forall>o' b. R (o', b) (o', snd (f b)))"

definition auth_moves :: "('o \<times> 'b \<Rightarrow> 'o \<times> 'b \<Rightarrow> bool) \<Rightarrow> ClientContext set \<Rightarrow> 'b AuthStub \<Rightarrow> bool" where
  "auth_moves R X s \<longleftrightarrow> (\<forall>ctx \<in> X.
     (\<forall>a b c d e. rpc_moves R (auth_Register s ctx a b c d e)) \<and>
     (\<forall>a b. rpc_moves R (auth_VerifyCredentials s ctx a b)) \<and>
     (\<forall>a. rpc_moves R (auth_GetProfile s ctx a)) \<and>
     (\<forall>a b c d. rpc_moves R (auth_UpdateProfile s ctx a b c d)) \<and>
     (\<forall>a b. rpc_moves R (auth_SearchUsers s ctx a b)))"

definition friend_moves :: "('o \<times> 'b \<Rightarrow> 'o \<times> 'b \<Rightarrow> bool) \<Rightarrow> ClientContext set \<Rightarrow> 'b FriendStub \<Rightarrow> bool" where
  "friend_moves R X s \<longleftrightarrow> (\<forall>ctx \<in> X.
     (\<forall>a b c d. rpc_moves R (friend_AddFriend s ctx a b c d)) \<and>
     (\<forall>a b c d. rpc_moves R (friend_HandleFriendRequest s ctx a b c d)) \<and>
     (\<forall>a b. rpc_moves R (friend_RemoveFriend s ctx a b)) \<and>
     (\<forall>a b. rpc_moves R (friend_GetFriends s ctx a b)) \<and>
     (\<forall>a b. rpc_moves R (friend_GetFriendRequests s ctx a b)) \<and>
     (\<forall>a b. rpc_moves R (friend_BlockUser s ctx a b)) \<and>
     (\<forall>a b. rpc_moves R (friend_UnblockUser s ctx a b)) \<and>
     (\<forall>a. rpc_moves R (friend_GetBlockList s ctx a)) \<and>
     (\<forall>a b. rpc_moves R (friend_CreateFriendGroup s ctx a b)) \<and>
     (\<forall>a. rpc_moves R (friend_GetFriendGroups s ctx a)) \<and>
     (\<forall>a b c. rpc_moves R (friend_MoveFriend s ctx a b c)) \<and>
     (\<forall>a b. rpc_moves R (friend_DeleteFriendGroup s ctx a b)) \<and>
     (\<forall>a b c. rpc_moves R (friend_SetRemark s ctx a b c)))"

definition chat_moves :: "('o \<times> 'b \<Rightarrow> 'o \<times> 'b \<Rightarrow> bool) \<Rightarrow> ClientContext set \<Rightarrow> (string \<Rightarrow> bool) \<Rightarrow> 'b ChatStub \<Rightarrow> bool" where
  "chat_moves R X ids s \<longleftrightarrow> (\<forall>ctx \<in> X.
     (\<forall>a b c d e f g h i j. ids b \<longrightarrow> rpc_moves R (chat_SendMessage s ctx a b c d e f g h i j)) \<and>
     (\<forall>a b. rpc_moves R (chat_RecallMessage s ctx a b)) \<and>
     (\<forall>a b c. rpc_moves R (chat_PullOffline s ctx a b c)) \<and>
     (\<forall>a b c d e. rpc_moves R (chat_GetHistory s ctx a b c d e)) \<and>
     (\<forall>a b. rpc_moves R (chat_SyncConversations s ctx a b)) \<and>
     (\<forall>a b c. rpc_moves R (chat_DeleteConversation s ctx a b c)) \<and>
     (\<forall>a b c d. rpc_moves R (chat_MarkRead s ctx a b c d)))"

definition group_moves :: "('o \<times> 'b \<Rightarrow> 'o \<times> 'b \<Rightarrow> bool) \<Rightarrow> 'b GroupStub \<Rightarrow> bool" where
  "group_moves R s \<longleftrightarrow>
     (\<forall>a b c d. rpc_moves R (group_CreateGroup s (CreateContext []) a b c d)) \<and>
     (\<forall>a b. rpc_moves R (group_DismissGroup s (CreateContext []) a b)) \<and>
     (\<forall>a. rpc_moves R (group_GetGroupInfo s (CreateContext []) a)) \<and>
     (\<forall>a b c. rpc_moves R (group_GetGroupMembers s (CreateContext []) a b c)) \<and>
     (\<forall>a. rpc_moves R (group_GetUserGroups s (CreateContext []) a)) \<and>
     (\<forall>a b c. rpc_moves R (group_InviteMembers s (CreateContext []) a b c)) \<and>
     (\<forall>a b c. rpc_moves R (group_RemoveMember s (CreateContext []) a b c)) \<and>
     (\<forall>a b. rpc_moves R (group_LeaveGroup s (CreateContext []) a b)) \<and>
     (\<forall>a b c. rpc_moves R (group_TransferOwner s (CreateContext []) a b c))"

definition file_moves :: "('o \<times> 'b \<Rightarrow> 'o \<times> 'b \<Rightarrow> bool) \<Rightarrow> 'b FileStub \<Rightarrow> bool" where
  "file_moves R s \<longleftrightarrow>
     (\<forall>a b c d e f. rpc_moves R (file_InitUpload s (CreateContext []) a b c d e f)) \<and>
     (\<forall>a b. rpc_moves R (file_GetFileUrl s (CreateContext []) a b)) \<and>
     (\<forall>a b c. rpc_moves R (file_GetUploadToken s (CreateContext []) a b c)) \<and>
     (\<forall>a b. rpc_moves R (file_DeleteFile s (CreateContext []) a b)) \<and>
     (\<forall>a. rpc_moves R (file_GetFileInfo s (CreateContext []) a))"

definition online_moves :: "('o \<times> 'b \<Rightarrow> 'o \<times> 'b \<Rightarrow> bool) \<Rightarrow> 'o OnlineStub \<Rightarrow> bool" where
  "online_moves R s \<longleftrightarrow> (\<forall>o' b.
     (\<forall>ctx u d t. R (o', b) (snd (online_Login s ctx u d t o'), b)) \<and> (\<forall>ctx u t. R (o', b) (snd (online_Logout s ctx u t o'), b)) \<and>
     (\<forall>ctx t. R (o', b) (snd (online_ValidateToken s ctx t o'), b)))"

definition calm :: "('o \<times> 'b \<Rightarrow> 'o \<times> 'b \<Rightarrow> bool) \<Rightarrow> ('s, Gates \<times> 'o \<times> 'b) zone \<Rightarrow> ('s, Gates \<times> 'o \<times> 'b) zone \<Rightarrow> bool" where
  "calm R z z' \<longleftrightarrow> (\<forall>a. posted_from (fst (snd z) a) (fst (snd z') a)) \<and> R (snd (snd z)) (snd (snd z'))"

definition frame ::
  "('o \<times> 'b \<Rightarrow> 'o \<times> 'b \<Rightarrow> bool) \<Rightarrow> string \<Rightarrow> ('s, Gates \<times> 'o \<times> 'b) zone \<Rightarrow> HandleClientRequestResult \<times> ('s, Gates \<times> 'o \<times> 'b) zone \<Rightarrow> bool" where
  "frame R rid z p \<longleftrightarrow> hr_request_id (fst p) = rid \<and> calm R z (snd p)"

lemma calm_tuple [simp]:
  "calm R (zs, gs, r) (zs', gs', r') \<longleftrightarrow> (\<forall>a. posted_from (gs a) (gs' a)) \<and> R r r'"
  by (simp add: calm_def)

lemma lift_tuple [simp]:
  "lift_rpc f (zs, gs, o', b) = (fst (f b), (zs, gs, o', snd (f b)))"
  "lift_online h (zs, gs, o', b) = (fst (h o'), (zs, gs, snd (h o'), b))"
  by (simp_all add: lift_rpc_def lift_online_def)

lemmas result_defs = new_result_def SetResultError_def error_result_def NotImplemented_def with_payload_def with_session_def with_answer_def
  ok_answer_def fail_text_def code_result_def done_answer_def

lemmas client_defs = with_stub_def with_client_def
  ChatRpcClient_SendMessage_def ChatRpcClient_RecallMessage_def ChatRpcClient_PullOffline_def ChatRpcClient_GetHistory_def
  ChatRpcClient_SyncConversations_def ChatRpcClient_DeleteConversation_def ChatRpcClient_MarkRead_def
  GroupRpcClient_CreateGroup_def GroupRpcClient_DismissGroup_def GroupRpcClient_GetGroupInfo_def
  GroupRpcClient_GetGroupMembers_def GroupRpcClient_GetUserGroups_def GroupRpcClient_InviteMembers_def
  GroupRpcClient_RemoveMember_def GroupRpcClient_LeaveGroup_def GroupRpcClient_TransferOwner_def FriendRpcClient_AddFriend_def
  FriendRpcClient_HandleFriendRequest_def FriendRpcClient_RemoveFriend_def FriendRpcClient_GetFriends_def
  FriendRpcClient_GetFriendRequests_def FriendRpcClient_BlockUser_def FriendRpcClient_UnblockUser_def
  FriendRpcClient_GetBlockList_def FriendRpcClient_CreateFriendGroup_def FriendRpcClient_GetFriendGroups_def
  FriendRpcClient_MoveFriendToGroup_def FriendRpcClient_DeleteFriendGroup_def FriendRpcClient_SetRemark_def
  AuthRpcClient_Register_def AuthRpcClient_VerifyCredentials_def AuthRpcClient_GetProfile_def AuthRpcClient_UpdateProfile_def
  AuthRpcClient_SearchUsers_def OnlineRpcClient_Login_def OnlineRpcClient_Logout_def OnlineRpcClient_ValidateToken_def
  FileRpcClient_InitUpload_def FileRpcClient_GetFileUrl_def FileRpcClient_GetUploadToken_def FileRpcClient_DeleteFile_def
  FileRpcClient_GetFileInfo_def AuthSystem_Register_def AuthSystem_Login_def AuthSystem_Logout_def AuthSystem_ValidateToken_def
  AuthSystem_SearchUsers_def ChatSystem_SendMessage_def ChatSystem_PullOffline_def ChatSystem_RecallMessage_def
  ChatSystem_MarkRead_def ChatSystem_GetHistory_def ChatSystem_SyncConversations_def ChatSystem_DeleteConversation_def
  FriendSystem_AddFriend_def FriendSystem_HandleFriendRequest_def FriendSystem_RemoveFriend_def FriendSystem_GetFriends_def
  FriendSystem_GetFriendRequests_def FriendSystem_BlockUser_def FriendSystem_UnblockUser_def FriendSystem_IsFriend_def
  FriendSystem_IsBlocked_def FriendSystem_GetBlockList_def FriendSystem_CreateFriendGroup_def FriendSystem_GetFriendGroups_def
  FriendSystem_MoveFriendToGroup_def FriendSystem_DeleteFriendGroup_def FriendSystem_SetRemark_def GroupSystem_CreateGroup_def
  GroupSystem_DismissGroup_def GroupSystem_InviteMembers_def GroupSystem_RemoveMember_def GroupSystem_LeaveGroup_def
  GroupSystem_TransferOwner_def GroupSystem_GetGroupMembers_def GroupSystem_GetGroupInfo_def GroupSystem_GetUserGroups_def
  FileSystem_InitUpload_def FileSystem_GetUploadToken_def FileSystem_GetFileUrl_def FileSystem_GetFileInfo_def
  FileSystem_DeleteFile_def
  lift_ChatStub_def lift_GroupStub_def lift_FriendStub_def lift_AuthStub_def lift_OnlineStub_def lift_FileStub_def deployed_manager_def

locale business_frame =
  fixes R :: "'o \<times> 'b \<Rightarrow> 'o \<times> 'b \<Rightarrow> bool" and B :: "('o, 'b) Business" and X :: "ClientContext set" and ids :: "string \<Rightarrow> bool"
  assumes R_refl [simp]: "R p p" and R_trans: "R p q \<Longrightarrow> R q r \<Longrightarrow> R p r"
    and no_token: "CreateContext [] \<in> X"
    and online_moves: "online_moves R (bz_online B)" and auth_moves: "auth_moves R X (bz_auth B)" and friend_moves: "friend_moves R X (bz_friend B)"
    and chat_moves: "chat_moves R X ids (bz_chat B)" and group_moves: "group_moves R (bz_group B)" and file_moves: "file_moves R (bz_file B)"
begin

lemma calm_refl [simp]: "calm R z z"
  by (simp add: calm_def)

lemma calm_trans: "calm R z z' \<Longrightarrow> calm R z' z'' \<Longrightarrow> calm R z z''"
  unfolding calm_def using posted_from_trans R_trans by blast

section \<open>Routing\<close>

lemma on_store_calm [simp]: "calm R z (snd (on_store f z))"
  by (cases z) (simp add: on_store_def split: prod.splits)

lemma on_gate_calm:
  assumes "\<And>g. posted_from g (snd (f g))"
  shows "calm R z (snd (on_gate a f z))"
  using assms by (cases z) (simp add: on_gate_def)

lemma GetOrCreateGateClient_calm: "calm R z (snd (GetOrCreateGateClient Z a z))"
  by (cases z) (simp add: GetOrCreateGateClient_def Let_def)

lemma PushToGate_calm:
  assumes "zi_gates Z = gate_net GP up"
  shows "calm R z (snd (PushToGate Z a u cmd payload z))"
proof -
  obtain ok z1 where c: "GetOrCreateGateClient Z a z = (ok, z1)" by (metis surj_pair)
  then have "calm R z z1" using GetOrCreateGateClient_calm [of z Z a] by simp
  moreover have "calm R z1 (snd (GateRpcClient_PushMessage (zi_gates Z) a u cmd payload z1))"
    by (simp add: assms GateRpcClient_PushMessage_def gate_net_def on_gate_calm handlers_post)
  ultimately show ?thesis using c by (cases ok) (auto simp: PushToGate_def elim: calm_trans)
qed

lemma RouteToUser_calm:
  assumes "zi_gates Z = gate_net GP up"
  shows "calm R z (snd (RouteToUser Z u cmd payload z))"
proof -
  obtain s z1 where c: "on_store (\<lambda>s. zs_GetSession (zi_store Z) s u) z = (s, z1)" by (metis surj_pair)
  then have "calm R z z1" using on_store_calm [of z] by (metis snd_conv)
  show ?thesis
  proof (cases s)
    case None
    then show ?thesis using c \<open>calm R z z1\<close> by (simp add: RouteToUser_def)
  next
    case (Some session)
    have "snd (RouteToUser Z u cmd payload z) = snd (PushToGate Z (us_gate_addr session) u cmd payload z1)"
      using c Some by (simp add: RouteToUser_def case_prod_beta)
    then show ?thesis using calm_trans [OF \<open>calm R z z1\<close> PushToGate_calm [OF assms]] by simp
  qed
qed

lemma route_members_calm:
  assumes "zi_gates Z = gate_net GP up"
  shows "calm R z (route_members Z skip cmd payload ms z)"
proof (induction ms arbitrary: z)
  case (Cons m ms)
  show ?case unfolding route_members.simps by (rule calm_trans [OF _ Cons.IH]) (simp add: RouteToUser_calm [OF assms])
qed simp

section \<open>Calls to the business servers\<close>

lemma auth_calls:
  "ctx \<in> X \<Longrightarrow> R (o', s) (o', snd (auth_Register (bz_auth B) ctx a0 b0 c0 d0 e0 s))"
  "ctx \<in> X \<Longrightarrow> R (o', s) (o', snd (auth_VerifyCredentials (bz_auth B) ctx a1 b1 s))"
  "ctx \<in> X \<Longrightarrow> R (o', s) (o', snd (auth_SearchUsers (bz_auth B) ctx a2 b2 s))"
  using auth_moves by (simp_all add: auth_moves_def rpc_moves_def)

lemma friend_calls:
  "ctx \<in> X \<Longrightarrow> R (o', s) (o', snd (friend_AddFriend (bz_friend B) ctx a0 b0 c0 d0 s))"
  "ctx \<in> X \<Longrightarrow> R (o', s) (o', snd (friend_HandleFriendRequest (bz_friend B) ctx a1 b1 c1 d1 s))"
  "ctx \<in> X \<Longrightarrow> R (o', s) (o', snd (friend_RemoveFriend (bz_friend B) ctx a2 b2 s))"
  "ctx \<in> X \<Longrightarrow> R (o', s) (o', snd (friend_GetFriends (bz_friend B) ctx a3 b3 s))"
  "ctx \<in> X \<Longrightarrow> R (o', s) (o', snd (friend_GetFriendRequests (bz_friend B) ctx a4 b4 s))"
  "ctx \<in> X \<Longrightarrow> R (o', s) (o', snd (friend_BlockUser (bz_friend B) ctx a5 b5 s))"
  "ctx \<in> X \<Longrightarrow> R (o', s) (o', snd (friend_UnblockUser (bz_friend B) ctx a6 b6 s))"
  "ctx \<in> X \<Longrightarrow> R (o', s) (o', snd (friend_GetBlockList (bz_friend B) ctx a7 s))"
  "ctx \<in> X \<Longrightarrow> R (o', s) (o', snd (friend_CreateFriendGroup (bz_friend B) ctx a8 b8 s))"
  "ctx \<in> X \<Longrightarrow> R (o', s) (o', snd (friend_GetFriendGroups (bz_friend B) ctx a9 s))"
  "ctx \<in> X \<Longrightarrow> R (o', s) (o', snd (friend_MoveFriend (bz_friend B) ctx a10 b10 c10 s))"
  "ctx \<in> X \<Longrightarrow> R (o', s) (o', snd (friend_DeleteFriendGroup (bz_friend B) ctx a11 b11 s))"
  "ctx \<in> X \<Longrightarrow> R (o', s) (o', snd (friend_SetRemark (bz_friend B) ctx a12 b12 c12 s))"
  using friend_moves by (simp_all add: friend_moves_def rpc_moves_def)

lemma chat_calls:
  "ctx \<in> X \<Longrightarrow> ids b0 \<Longrightarrow> R (o', s) (o', snd (chat_SendMessage (bz_chat B) ctx a0 b0 c0 d0 e0 f0 g0 h0 i0 j0 s))"
  "ctx \<in> X \<Longrightarrow> R (o', s) (o', snd (chat_RecallMessage (bz_chat B) ctx a1 b1 s))"
  "ctx \<in> X \<Longrightarrow> R (o', s) (o', snd (chat_PullOffline (bz_chat B) ctx a2 b2 c2 s))"
  "ctx \<in> X \<Longrightarrow> R (o', s) (o', snd (chat_GetHistory (bz_chat B) ctx a3 b3 c3 d3 e3 s))"
  "ctx \<in> X \<Longrightarrow> R (o', s) (o', snd (chat_SyncConversations (bz_chat B) ctx a4 b4 s))"
  "ctx \<in> X \<Longrightarrow> R (o', s) (o', snd (chat_DeleteConversation (bz_chat B) ctx a5 b5 c5 s))"
  "ctx \<in> X \<Longrightarrow> R (o', s) (o', snd (chat_MarkRead (bz_chat B) ctx a6 b6 c6 d6 s))"
  using chat_moves by (simp_all add: chat_moves_def rpc_moves_def)

lemma group_calls:
  "R (o', s) (o', snd (group_CreateGroup (bz_group B) (CreateContext []) a0 b0 c0 d0 s))"
  "R (o', s) (o', snd (group_DismissGroup (bz_group B) (CreateContext []) a1 b1 s))"
  "R (o', s) (o', snd (group_GetGroupInfo (bz_group B) (CreateContext []) a2 s))"
  "R (o', s) (o', snd (group_GetGroupMembers (bz_group B) (CreateContext []) a3 b3 c3 s))"
  "R (o', s) (o', snd (group_GetUserGroups (bz_group B) (CreateContext []) a4 s))"
  "R (o', s) (o', snd (group_InviteMembers (bz_group B) (CreateContext []) a5 b5 c5 s))"
  "R (o', s) (o', snd (group_RemoveMember (bz_group B) (CreateContext []) a6 b6 c6 s))"
  "R (o', s) (o', snd (group_LeaveGroup (bz_group B) (CreateContext []) a7 b7 s))"
  "R (o', s) (o', snd (group_TransferOwner (bz_group B) (CreateContext []) a8 b8 c8 s))"
  using group_moves by (simp_all add: group_moves_def rpc_moves_def)

lemma file_calls:
  "R (o', s) (o', snd (file_InitUpload (bz_file B) (CreateContext []) a0 b0 c0 d0 e0 f0 s))"
  "R (o', s) (o', snd (file_GetFileUrl (bz_file B) (CreateContext []) a1 b1 s))"
  "R (o', s) (o', snd (file_GetUploadToken (bz_file B) (CreateContext []) a2 b2 c2 s))"
  "R (o', s) (o', snd (file_DeleteFile (bz_file B) (CreateContext []) a3 b3 s))"
  "R (o', s) (o', snd (file_GetFileInfo (bz_file B) (CreateContext []) a4 s))"
  using file_moves by (simp_all add: file_moves_def rpc_moves_def)

lemma online_calls:
  "R (o', b) (snd (online_Login (bz_online B) ctx u d t o'), b)" "R (o', b) (snd (online_Logout (bz_online B) ctx u t o'), b)"
  "R (o', b) (snd (online_ValidateToken (bz_online B) ctx t o'), b)"
  using online_moves by (simp_all add: online_moves_def)

lemma auth_calm:
  assumes "sm_auth (deployed_manager indet B) = Some sys" "CreateContext token \<in> X"
  shows "calm R z (snd (AuthSystem_Register sys username password nickname email avatar_url z))"
    "calm R z (snd (AuthSystem_Login sys username password device_id device_type z))"
    "calm R z (snd (AuthSystem_Logout sys user_id tok z))"
    "calm R z (snd (AuthSystem_ValidateToken sys tok z))"
    "calm R z (snd (AuthSystem_SearchUsers sys keyword limit token z))"
  using assms
  by (cases z; auto simp: auth_calls online_calls no_token R_trans [OF auth_calls(2) online_calls(1)] deployed_manager_def with_client_def with_stub_def lift_AuthStub_def lift_OnlineStub_def 
      AuthSystem_Register_def AuthRpcClient_Register_def AuthSystem_Login_def OnlineRpcClient_Login_def AuthRpcClient_VerifyCredentials_def AuthSystem_Logout_def OnlineRpcClient_Logout_def AuthSystem_ValidateToken_def OnlineRpcClient_ValidateToken_def AuthSystem_SearchUsers_def AuthRpcClient_SearchUsers_def split: sum.splits prod.splits)+

lemma chat_calm:
  assumes "sm_chat (deployed_manager indet B) = Some sys" "CreateContext token \<in> X"
  shows "ids to_id \<Longrightarrow> calm R z (snd (ChatSystem_SendMessage sys from_user_id to_id chat_type content media_url media_type mentions reply_to_msg_id client_msg_id file_size token z))"
    "calm R z (snd (ChatSystem_PullOffline sys user_id limit cursor token z))"
    "calm R z (snd (ChatSystem_RecallMessage sys msg_id user_id token z))"
    "calm R z (snd (ChatSystem_MarkRead sys user_id chat_id chat_type last_msg_id token z))"
    "calm R z (snd (ChatSystem_GetHistory sys user_id chat_id chat_type before_msg_id limit token z))"
    "calm R z (snd (ChatSystem_SyncConversations sys user_id last_sync_time token z))"
    "calm R z (snd (ChatSystem_DeleteConversation sys user_id chat_id chat_type token z))"
  using assms
  by (cases z; auto simp: chat_calls deployed_manager_def with_client_def with_stub_def lift_ChatStub_def
      ChatSystem_SendMessage_def ChatRpcClient_SendMessage_def ChatSystem_PullOffline_def ChatRpcClient_PullOffline_def ChatSystem_RecallMessage_def ChatRpcClient_RecallMessage_def ChatSystem_MarkRead_def ChatRpcClient_MarkRead_def ChatSystem_GetHistory_def ChatRpcClient_GetHistory_def ChatSystem_SyncConversations_def ChatRpcClient_SyncConversations_def ChatSystem_DeleteConversation_def ChatRpcClient_DeleteConversation_def split: sum.splits prod.splits)+

lemma friend_calm:
  assumes "sm_friend (deployed_manager indet B) = Some sys" "CreateContext token \<in> X"
  shows "calm R z (snd (FriendSystem_AddFriend sys user_id friend_id remark token z))"
    "calm R z (snd (FriendSystem_HandleFriendRequest sys user_id request_id accept token z))"
    "calm R z (snd (FriendSystem_RemoveFriend sys user_id friend_id token z))"
    "calm R z (snd (FriendSystem_GetFriends sys user_id group_id token z))"
    "calm R z (snd (FriendSystem_GetFriendRequests sys user_id type token z))"
    "calm R z (snd (FriendSystem_BlockUser sys user_id target_id token z))"
    "calm R z (snd (FriendSystem_UnblockUser sys user_id target_id token z))"
    "calm R z (snd (FriendSystem_IsFriend sys user_id friend_id z))"
    "calm R z (snd (FriendSystem_IsBlocked sys user_id target_id z))"
    "calm R z (snd (FriendSystem_GetBlockList sys user_id token z))"
    "calm R z (snd (FriendSystem_CreateFriendGroup sys user_id group_name token z))"
    "calm R z (snd (FriendSystem_GetFriendGroups sys user_id token z))"
    "calm R z (snd (FriendSystem_MoveFriendToGroup sys user_id friend_id group_id token z))"
    "calm R z (snd (FriendSystem_DeleteFriendGroup sys user_id group_id token z))"
    "calm R z (snd (FriendSystem_SetRemark sys user_id friend_id remark token z))"
  using assms
  by (cases z; auto simp: friend_calls no_token deployed_manager_def with_client_def with_stub_def lift_FriendStub_def
      FriendSystem_AddFriend_def FriendRpcClient_AddFriend_def FriendSystem_HandleFriendRequest_def FriendRpcClient_HandleFriendRequest_def FriendSystem_RemoveFriend_def FriendRpcClient_RemoveFriend_def FriendSystem_GetFriends_def FriendRpcClient_GetFriends_def FriendSystem_GetFriendRequests_def FriendRpcClient_GetFriendRequests_def FriendSystem_BlockUser_def FriendRpcClient_BlockUser_def FriendSystem_UnblockUser_def FriendRpcClient_UnblockUser_def FriendSystem_IsFriend_def FriendSystem_IsBlocked_def FriendRpcClient_GetBlockList_def FriendSystem_GetBlockList_def FriendSystem_CreateFriendGroup_def FriendRpcClient_CreateFriendGroup_def FriendSystem_GetFriendGroups_def FriendRpcClient_GetFriendGroups_def FriendSystem_MoveFriendToGroup_def FriendRpcClient_MoveFriendToGroup_def FriendSystem_DeleteFriendGroup_def FriendRpcClient_DeleteFriendGroup_def FriendSystem_SetRemark_def FriendRpcClient_SetRemark_def split: sum.splits prod.splits)+

lemma group_calm:
  assumes "sm_group (deployed_manager indet B) = Some sys"
  shows "calm R z (snd (GroupSystem_CreateGroup sys creator_id group_name member_ids z))"
    "calm R z (snd (GroupSystem_DismissGroup sys group_id operator_id z))"
    "calm R z (snd (GroupSystem_InviteMembers sys group_id inviter_id member_ids z))"
    "calm R z (snd (GroupSystem_RemoveMember sys group_id operator_id member_id z))"
    "calm R z (snd (GroupSystem_LeaveGroup sys group_id user_id z))"
    "calm R z (snd (GroupSystem_TransferOwner sys group_id old_owner_id new_owner_id z))"
    "calm R z (snd (GroupSystem_GetGroupMembers sys group_id page page_size z))"
    "calm R z (snd (GroupSystem_GetGroupInfo sys group_id z))"
    "calm R z (snd (GroupSystem_GetUserGroups sys user_id z))"
  using assms
  by (cases z; auto simp: group_calls deployed_manager_def with_client_def with_stub_def lift_GroupStub_def
      GroupSystem_CreateGroup_def GroupRpcClient_CreateGroup_def GroupSystem_DismissGroup_def GroupRpcClient_DismissGroup_def GroupSystem_InviteMembers_def GroupRpcClient_InviteMembers_def GroupSystem_RemoveMember_def GroupRpcClient_RemoveMember_def GroupSystem_LeaveGroup_def GroupRpcClient_LeaveGroup_def GroupSystem_TransferOwner_def GroupRpcClient_TransferOwner_def GroupSystem_GetGroupMembers_def GroupRpcClient_GetGroupMembers_def GroupSystem_GetGroupInfo_def GroupRpcClient_GetGroupInfo_def GroupSystem_GetUserGroups_def GroupRpcClient_GetUserGroups_def split: sum.splits prod.splits)+

lemma file_calm:
  assumes "sm_file (deployed_manager indet B) = Some sys"
  shows "calm R z (snd (FileSystem_InitUpload sys user_id file_name content_type file_size md5 msg_id z))"
    "calm R z (snd (FileSystem_GetUploadToken sys user_id file_name file_size z))"
    "calm R z (snd (FileSystem_GetFileUrl sys file_id user_id z))"
    "calm R z (snd (FileSystem_GetFileInfo sys file_id z))"
    "calm R z (snd (FileSystem_DeleteFile sys file_id user_id z))"
  using assms
  by (cases z; auto simp: file_calls deployed_manager_def with_client_def with_stub_def lift_FileStub_def
      FileSystem_InitUpload_def FileRpcClient_InitUpload_def FileSystem_GetUploadToken_def FileRpcClient_GetUploadToken_def FileSystem_GetFileUrl_def FileRpcClient_GetFileUrl_def FileSystem_GetFileInfo_def FileRpcClient_GetFileInfo_def FileSystem_DeleteFile_def FileRpcClient_DeleteFile_def split: sum.splits prod.splits)+

section \<open>Commands\<close>

lemma answer_ids [simp]:
  "hr_request_id (new_result rid) = rid" "hr_request_id (error_result ec rid) = rid" "hr_request_id (NotImplemented rid) = rid"
  "hr_request_id (ok_answer data rid) = rid" "hr_request_id (fail_text e t rid) = rid" "hr_request_id (code_result ok ec rid) = rid"
  "hr_request_id (done_answer data r rid) = rid"
  "(\<And>d. hr_request_id (f d) = rid) \<Longrightarrow> hr_request_id (with_answer data rid f) = rid"
  by (simp_all add: result_defs split: option.splits)

lemma frame_pair: "calm R z z' \<Longrightarrow> hr_request_id r = rid \<Longrightarrow> frame R rid z (r, z')"
  by (simp add: frame_def)

lemma frame_payload: "(\<And>x. frame R rid z (run x z)) \<Longrightarrow> frame R rid z (with_payload p rid run z)"
  by (simp add: with_payload_def frame_pair split: option.splits)

lemma frame_session: "frame R rid z (run z) \<Longrightarrow> frame R rid z (with_session u rid run z)"
  by (simp add: with_session_def frame_pair)

lemma frame_call: "calm R z (snd c) \<Longrightarrow> (\<And>r z'. c = (r, z') \<Longrightarrow> calm R z z' \<Longrightarrow> frame R rid z (k r z')) \<Longrightarrow> frame R rid z (case c of (r, z') \<Rightarrow> k r z')"
  by (cases c) simp

lemmas frame_intros = frame_payload frame_session frame_call frame_pair

lemmas frame_splits = sum.splits prod.splits option.splits

text \<open>The commands that only call a business server.\<close>

lemma auth_frames:
  assumes "sm_auth (deployed_manager indet B) = Some auth"
  shows "frame R rid z (auth_register_cmd P auth payload rid z)"
    "frame R rid z (auth_login_cmd P auth payload rid z)"
    "frame R rid z (auth_logout_cmd P auth payload rid z)"
    "frame R rid z (auth_validate_token_cmd P auth payload rid z)"
  unfolding auth_register_cmd_def auth_login_cmd_def auth_logout_cmd_def auth_validate_token_cmd_def Let_def
  by (intro frame_intros auth_calm [OF assms no_token]; simp add: frame_pair split: frame_splits)+

lemma chat_frames:
  assumes "sm_chat (deployed_manager indet B) = Some chat" "CreateContext token \<in> X"
  shows "frame R rid z (chat_pull_offline_cmd P chat user_id payload rid token z)"
    "frame R rid z (chat_recall_message_cmd P chat payload rid token z)"
    "frame R rid z (chat_get_history_cmd P chat user_id payload rid token z)"
    "frame R rid z (chat_sync_conversations_cmd P chat user_id payload rid token z)"
    "frame R rid z (chat_delete_conversation_cmd P chat user_id payload rid token z)"
  unfolding chat_pull_offline_cmd_def chat_recall_message_cmd_def chat_get_history_cmd_def chat_sync_conversations_cmd_def chat_delete_conversation_cmd_def Let_def
  by (intro frame_intros chat_calm [OF assms]; simp add: frame_pair split: frame_splits)+

lemma friend_frames:
  assumes "sm_friend (deployed_manager indet B) = Some fr" "CreateContext token \<in> X"
  shows "frame R rid z (friend_add_cmd P fr payload rid token z)"
    "frame R rid z (friend_handle_request_cmd P fr payload rid token z)"
    "frame R rid z (friend_remove_cmd P fr payload rid token z)"
    "frame R rid z (friend_block_cmd P fr payload rid token z)"
    "frame R rid z (friend_unblock_cmd P fr payload rid token z)"
    "frame R rid z (friend_get_friends_cmd P fr user_id payload rid token z)"
    "frame R rid z (friend_get_requests_cmd P fr user_id payload rid token z)"
    "frame R rid z (friend_get_block_list_cmd P fr user_id payload rid token z)"
    "frame R rid z (friend_get_groups_cmd P fr user_id payload rid token z)"
    "frame R rid z (friend_create_group_cmd P fr user_id payload rid token z)"
    "frame R rid z (friend_move_to_group_cmd P fr user_id payload rid token z)"
    "frame R rid z (friend_delete_group_cmd P fr user_id payload rid token z)"
    "frame R rid z (friend_set_remark_cmd P fr user_id payload rid token z)"
  unfolding friend_add_cmd_def friend_handle_request_cmd_def friend_remove_cmd_def friend_block_cmd_def friend_unblock_cmd_def friend_get_friends_cmd_def friend_get_requests_cmd_def friend_get_block_list_cmd_def friend_get_groups_cmd_def friend_create_group_cmd_def friend_move_to_group_cmd_def friend_delete_group_cmd_def friend_set_remark_cmd_def Let_def
  by (intro frame_intros friend_calm [OF assms]; simp add: frame_pair split: frame_splits)+

lemma group_frames:
  assumes "sm_group (deployed_manager indet B) = Some grp"
  shows "frame R rid z (group_create_cmd P grp payload rid z)"
    "frame R rid z (group_dismiss_cmd P grp payload rid z)"
    "frame R rid z (group_invite_members_cmd P grp payload rid z)"
    "frame R rid z (group_remove_member_cmd P grp payload rid z)"
    "frame R rid z (group_leave_cmd P grp payload rid z)"
    "frame R rid z (group_get_info_cmd P grp payload rid z)"
    "frame R rid z (group_get_members_cmd P grp payload rid z)"
    "frame R rid z (group_get_user_groups_cmd P grp user_id payload rid z)"
  unfolding group_create_cmd_def group_dismiss_cmd_def group_invite_members_cmd_def group_remove_member_cmd_def group_leave_cmd_def group_get_info_cmd_def group_get_members_cmd_def group_get_user_groups_cmd_def Let_def
  by (intro frame_intros group_calm [OF assms]; simp add: frame_pair split: frame_splits)+

lemma file_frames:
  assumes "sm_file (deployed_manager indet B) = Some fl"
  shows "frame R rid z (file_get_upload_token_cmd P fl payload rid z)"
    "frame R rid z (file_init_upload_cmd P fl payload rid z)"
    "frame R rid z (file_get_file_info_cmd P fl payload rid z)"
    "frame R rid z (file_get_file_url_cmd P fl payload rid z)"
    "frame R rid z (file_delete_cmd P fl payload rid z)"
  unfolding file_get_upload_token_cmd_def file_init_upload_cmd_def file_get_file_info_cmd_def file_get_file_url_cmd_def file_delete_cmd_def Let_def
  by (intro frame_intros file_calm [OF assms]; simp add: frame_pair split: frame_splits)+

lemma friend_search_frame:
  fixes z :: "('s, Gates \<times> 'o \<times> 'b) zone"
  assumes "CreateContext token \<in> X"
  shows "frame R rid z (friend_search_cmd P (sm_auth (deployed_manager indet B)) user_id payload rid token z)"
proof -
  obtain auth where auth: "sm_auth (deployed_manager indet B :: ('s, Gates \<times> 'o \<times> 'b) zone SystemManager) = Some auth" by (simp add: deployed_manager_def)
  show ?thesis unfolding friend_search_cmd_def auth option.case
    by (intro frame_intros auth_calm [OF auth assms]; simp add: frame_pair split: frame_splits)
qed

text \<open>The commands that also notify.\<close>

lemma notify_chat_calm:
  fixes z :: "('s, Gates \<times> 'o \<times> 'b) zone"
  assumes "zi_gates Z = gate_net GP up"
  shows "calm R z (notify_chat Z (deployed_manager indet B) chat_type target skip cmd payload z)"
proof -
  obtain grp where grp: "sm_group (deployed_manager indet B :: ('s, Gates \<times> 'o \<times> 'b) zone SystemManager) = Some grp" by (simp add: deployed_manager_def)
  obtain r z1 where c: "GroupSystem_GetGroupMembers grp target 0 10000 z = (r, z1)" by (metis surj_pair)
  have "calm R z (snd (GroupSystem_GetGroupMembers grp target 0 10000 z))" by (rule group_calm [OF grp])
  then have "calm R z z1" using c by simp
  moreover have "calm R z1 (route_members Z skip cmd payload ms z1)" for ms by (rule route_members_calm [OF assms])
  ultimately show ?thesis using c grp RouteToUser_calm [OF assms, of z]
    by (auto simp: notify_chat_def elim: calm_trans split: sum.splits)
qed

lemma chat_send_message_frame:
  assumes "zi_gates Z = gate_net GP up" "sm_chat (deployed_manager indet B) = Some chat" "CreateContext token \<in> X"
    and "\<And>req. parse_ChatSendMessagePayload (zp_chat (zi_proto Z)) payload = Some req \<Longrightarrow> ids (pcsm_to_id req)"
  shows "frame R rid z (chat_send_message_cmd Z (deployed_manager indet B) chat payload rid token z)"
proof (cases "parse_ChatSendMessagePayload (zp_chat (zi_proto Z)) payload")
  case None
  then show ?thesis by (simp add: chat_send_message_cmd_def with_payload_def frame_pair)
next
  case (Some req)
  show ?thesis
    unfolding chat_send_message_cmd_def Let_def with_payload_def Some option.case
    by (intro frame_call chat_calm(1) [OF assms(2,3) assms(4) [OF Some]])
      (auto intro!: frame_pair calm_trans [OF _ notify_chat_calm [OF assms(1)]] split: option.splits)
qed

lemma chat_mark_read_frame:
  assumes "zi_gates Z = gate_net GP up" "sm_chat (deployed_manager indet B) = Some chat" "CreateContext token \<in> X"
  shows "frame R rid z (chat_mark_read_cmd Z (deployed_manager indet B) chat user_id payload rid token z)"
  unfolding chat_mark_read_cmd_def Let_def
  by (intro frame_payload frame_call chat_calm [OF assms(2,3)])
    (auto intro!: frame_pair calm_trans [OF _ notify_chat_calm [OF assms(1)]] split: option.splits)

lemma frame_if: "frame R rid z x \<Longrightarrow> frame R rid z y \<Longrightarrow> frame R rid z (if b then x else y)"
  by simp

lemma frame_Some: "x = Some y \<Longrightarrow> frame R rid z (f y) \<Longrightarrow> frame R rid z (case x of None \<Rightarrow> a | Some y \<Rightarrow> f y)"
  by simp

lemma systems_deployed:
  obtains auth chat fr grp fl where "sm_auth (deployed_manager indet B) = Some auth" "sm_chat (deployed_manager indet B) = Some chat"
    "sm_friend (deployed_manager indet B) = Some fr" "sm_group (deployed_manager indet B) = Some grp" "sm_file (deployed_manager indet B) = Some fl"
  by (simp add: deployed_manager_def)

lemma HandleClientRequest_frame:
  fixes z :: "('s, Gates \<times> 'o \<times> 'b) zone"
  assumes "CreateContext token \<in> X" and ids: "\<And>req. parse_ChatSendMessagePayload (zp_chat P) payload = Some req \<Longrightarrow> ids (pcsm_to_id req)"
  shows "frame R rid z (HandleClientRequest (deployed_zone store P GP up indet B) c u cmd payload rid token z)"
proof -
  obtain auth chat fr grp fl where m: "sm_auth (deployed_manager indet B :: ('s, Gates \<times> 'o \<times> 'b) zone SystemManager) = Some auth" "sm_chat (deployed_manager indet B :: ('s, Gates \<times> 'o \<times> 'b) zone SystemManager) = Some chat"
    "sm_friend (deployed_manager indet B :: ('s, Gates \<times> 'o \<times> 'b) zone SystemManager) = Some fr" "sm_group (deployed_manager indet B :: ('s, Gates \<times> 'o \<times> 'b) zone SystemManager) = Some grp" "sm_file (deployed_manager indet B :: ('s, Gates \<times> 'o \<times> 'b) zone SystemManager) = Some fl"
    by (rule systems_deployed)
  have Z: "zi_manager (deployed_zone store P GP up indet B) = Some (deployed_manager indet B :: ('s, Gates \<times> 'o \<times> 'b) zone SystemManager)"
    "zi_gates (deployed_zone store P GP up indet B) = gate_net GP up" by (simp_all add: deployed_zone_def)
  have search: "frame R rid z (friend_search_cmd P' (Some auth) u payload rid token z)" for P'
    using friend_search_frame [OF assms(1), of rid z P' indet u payload] m(1) by simp
  have send: "frame R rid z (chat_send_message_cmd (deployed_zone store P GP up indet B) (deployed_manager indet B) chat payload rid token z)"
    by (rule chat_send_message_frame [OF Z(2) m(2) assms(1)]) (simp add: deployed_zone_def ids)
  show ?thesis
    unfolding HandleClientRequest_def Z(1) option.case HandleAuth_def HandleChat_def HandleFriend_def HandleGroup_def HandleFile_def m Let_def
    by (intro frame_if auth_frames [OF m(1)] chat_frames [OF m(2) assms(1)] friend_frames [OF m(3) assms(1)] group_frames [OF m(4)] file_frames [OF m(5)]
        send chat_mark_read_frame [OF Z(2) m(2) assms(1)] search frame_pair) simp_all
qed

lemma handlers_calm:
  "calm R z (snd (ZoneHandler_UserOnline Z now u g ty d z))" "calm R z (snd (ZoneHandler_UserOffline Z u g z))"
  "calm R z (snd (ZoneHandler_GateRegister Z now g a n z))" "calm R z (snd (ZoneHandler_GateHeartbeat Z now g n z))"
proof -
  obtain r z1 where c: "on_store (\<lambda>s. zs_GetGate (zi_store Z) s g) z = (r, z1)" by (metis surj_pair)
  then have "calm R z z1" using on_store_calm [of z] by (metis snd_conv)
  then have "calm R z (snd (ZoneServiceImpl_UserOnline Z now u g ty d z))"
    using c on_store_calm [of z1] by (auto simp: ZoneServiceImpl_UserOnline_def elim: calm_trans split: option.splits)
  then show "calm R z (snd (ZoneHandler_UserOnline Z now u g ty d z))" by (simp add: ZoneHandler_UserOnline_def case_prod_beta)
qed (simp_all add: ZoneHandler_UserOffline_def ZoneHandler_GateRegister_def ZoneHandler_GateHeartbeat_def ZoneServiceImpl_UserOffline_def
    ZoneServiceImpl_RegisterGate_def ZoneServiceImpl_GateHeartbeat_def case_prod_beta)

end

section \<open>What the gates rely on\<close>

text \<open>The online server keeps an invariant of its sessions, and \<open>Q\<close> holds of the users and tokens that it accepts.\<close>

definition online_keeps :: "('o \<Rightarrow> bool) \<Rightarrow> 'o OnlineStub \<Rightarrow> bool" where
  "online_keeps I stub \<longleftrightarrow>
     (\<forall>ctx u d t x. I x \<longrightarrow> I (snd (online_Login stub ctx u d t x))) \<and> (\<forall>ctx u t x. I x \<longrightarrow> I (snd (online_Logout stub ctx u t x))) \<and>
     (\<forall>ctx t x. I x \<longrightarrow> I (snd (online_ValidateToken stub ctx t x)))"

lemma online_frame: "online_keeps I (bz_online B) \<Longrightarrow> business_frame (\<lambda>p q. I (fst p) \<longrightarrow> I (fst q)) B UNIV (\<lambda>_. True)"
  by unfold_locales (simp_all add: online_keeps_def online_moves_def auth_moves_def friend_moves_def chat_moves_def group_moves_def file_moves_def rpc_moves_def)

lemma HandleClientRequest_calm:
  "online_keeps I (bz_online B) \<Longrightarrow>
    calm (\<lambda>p q. I (fst p) \<longrightarrow> I (fst q)) z (snd (HandleClientRequest (deployed_zone store P GP up indet B) c u cmd payload rid token z))"
  using business_frame.HandleClientRequest_frame [OF online_frame, where z = z] unfolding frame_def by blast

lemma HandleClientRequest_id: "hr_request_id (fst (HandleClientRequest (deployed_zone store P GP up indet B) c u cmd payload rid token z)) = rid"
  using business_frame.HandleClientRequest_frame [OF online_frame [where I = "\<lambda>_. True"], where z = z] unfolding frame_def online_keeps_def by blast

locale online_contract =
  fixes stub :: "'o OnlineStub" and I :: "'o \<Rightarrow> bool" and Q :: "string \<Rightarrow> string \<Rightarrow> bool"
  assumes keeps: "online_keeps I stub"
    and login: "I x \<Longrightarrow> fst (online_Login stub ctx u d ty x) = Inr resp \<Longrightarrow> lresp_code resp = 0 \<Longrightarrow> Q u (lresp_token resp)"
    and validate: "I x \<Longrightarrow> fst (online_ValidateToken stub ctx t x) = Inr tresp \<Longrightarrow> tresp_code tresp = 0 \<Longrightarrow> tresp_valid tresp \<Longrightarrow>
      Q (tresp_user_id tresp) t"

text \<open>The messages of the login commands are written and read by the same generated code on both sides.\<close>

definition protos_agree :: "AuthProto \<Rightarrow> GateProto \<Rightarrow> bool" where
  "protos_agree P GP \<longleftrightarrow>
     (\<forall>r d. ser_AuthLoginResponsePayload P r = Some d \<longrightarrow> gp_parse_AuthLoginResponse GP d = Some r) \<and>
     (\<forall>r d. ser_AuthValidateTokenResponsePayload P r = Some d \<longrightarrow> gp_parse_AuthValidateTokenResponse GP d = Some r) \<and>
     gp_parse_AuthValidateToken GP = parse_AuthValidateTokenPayload P"

lemma guarded_snd: "snd (guarded expected ctx f z) = snd (f z) \<or> snd (guarded expected ctx f z) = z"
  by (simp add: guarded_def split: grpc_Status.splits)

lemma guarded_Inr: "guarded expected ctx f z = (Inr x, z') \<Longrightarrow> f z = (x, z')"
  by (cases "f z") (auto simp: guarded_def split: grpc_Status.splits)

context business_frame
begin

lemma guarded_calm: "calm R z (snd (f z)) \<Longrightarrow> calm R z (snd (guarded expected ctx f z))"
  using guarded_snd [of expected ctx f z] by auto

end

lemma seen_from_posts:
  assumes "\<And>z. calm (\<lambda>p q. I (fst p) \<longrightarrow> I (fst q)) z (snd (f z))"
  shows "posts_only (\<lambda>(gs, zs, o', b). I o') (seen_from a f)"
proof (unfold posts_only_def, intro allI)
  fix z :: "GateState \<times> Gates \<times> 'a ZoneState \<times> 'b \<times> 'c"
  obtain g gs zs o' b where z: "z = (g, gs, zs, o', b)" by (metis surj_pair)
  obtain x zs' gs' o'' b' where r: "f (zs, gs(a := g), o', b) = (x, zs', gs', o'', b')" by (metis surj_pair)
  have "calm (\<lambda>p q. I (fst p) \<longrightarrow> I (fst q)) (zs, gs(a := g), o', b) (zs', gs', o'', b')" using assms [of "(zs, gs(a := g), o', b)"] r by simp
  then have "posted_from g (gs' a)" "I o' \<longrightarrow> I o''" by (auto dest: spec [of _ a])
  then show "posted_from (fst z) (fst (snd (seen_from a f z))) \<and>
      ((case snd z of (gs, zs, o', b) \<Rightarrow> I o') \<longrightarrow> (case snd (snd (seen_from a f z)) of (gs, zs, o', b) \<Rightarrow> I o'))"
    by (simp add: z r seen_from_def)
qed

lemma zone_of_gate_posts:
  assumes "online_keeps I (bz_online B)"
  shows "zone_stub_posts (\<lambda>(gs, zs, o', b). I o') (zone_of_gate a (zone_server (deployed_zone store P GP up indet B) expected now))"
  unfolding zone_stub_posts_def zone_of_gate_def zone_server_def ZoneStub.simps ZoneHandler_HandleClientRequest_def
  by (intro conjI allI seen_from_posts business_frame.guarded_calm [OF online_frame [OF assms]]
      business_frame.handlers_calm [OF online_frame [OF assms]] HandleClientRequest_calm assms)

end
