(* ===== verification/Deployment.thy ===== *)
theory Deployment
  imports Zone_Deploy_Laws
begin

text \<open>
  The chain from a client to the business servers.  A gate binds a connection to a user only on the word of the online server,
  and its answers name the request; the online server keeps its word.
\<close>

section \<open>Users that the zone server accepts\<close>

lemma login_command_vouched:
  assumes "online_contract (bz_online B) I Q" "protos_agree (zp_auth P) GP" "I o'"
    and "HandleClientRequest (deployed_zone store P GP' up indet B) c uid ''auth.login'' payload rid tok (zs, gs, o', b) = (resp, z')"
    and "login_accepted GP resp u t"
  shows "Q u t"
proof -
  note login = online_contract.login [OF assms(1,3)]
  show ?thesis using assms(2,4,5) login
    by (auto simp: HandleClientRequest_def deployed_zone_def cmd_prefix_def HandleAuth_def deployed_manager_def auth_login_cmd_def
        with_payload_def with_answer_def error_result_def SetResultError_def new_result_def Let_def login_accepted_def protos_agree_def AuthSystem_Login_def
        AuthRpcClient_VerifyCredentials_def OnlineRpcClient_Login_def with_stub_def lift_AuthStub_def lift_OnlineStub_def Zone_Systems.login_error_def
        rpc_outcome_def ErrorCodeToInt_def split: option.splits sum.splits if_splits)
qed

lemma validate_command_vouched:
  assumes "online_contract (bz_online B) I Q" "protos_agree (zp_auth P) GP" "I o'"
    and "HandleClientRequest (deployed_zone store P GP' up indet B) c uid ''auth.validate_token'' payload rid tok (zs, gs, o', b) = (resp, z')"
    and "token_accepted GP payload resp u t"
  shows "Q u t"
proof -
  note validate = online_contract.validate [OF assms(1,3)]
  show ?thesis using assms(2,4,5) validate
    by (auto simp: HandleClientRequest_def deployed_zone_def cmd_prefix_def HandleAuth_def deployed_manager_def auth_validate_token_cmd_def
        with_payload_def with_answer_def ok_answer_def error_result_def SetResultError_def new_result_def Let_def token_accepted_def protos_agree_def
        AuthSystem_ValidateToken_def OnlineRpcClient_ValidateToken_def lift_OnlineStub_def ErrorCodeToInt_def split: option.splits sum.splits if_splits)
qed

lemma deployed_stub:
  assumes "gs_zone_client (deployed_gate hostname config a GP Z expected now) = Some client" "zrc_stub client = Some stub"
  shows "stub = zone_of_gate a (zone_server Z expected now)"
  using assms by (auto simp: deployed_gate_def GateService_Init_def)

lemma deployed_proto [simp]: "gs_proto (deployed_gate hostname config a GP Z expected now) = GP"
  by (simp add: deployed_gate_def GateService_Init_def)

lemma HandleClientRequest_handler: "ZoneHandler_HandleClientRequest Z c u cmd payload rid tok = HandleClientRequest Z c u cmd payload rid tok"
  by (rule ext) (simp add: ZoneHandler_HandleClientRequest_def)

lemma deployed_request:
  assumes "zone_HandleClientRequest (zone_of_gate a (zone_server Z expected now)) ctx c uid cmd payload rid tok z = (Inr resp, z')"
  obtains g gs zs r z'' where "z = (g, gs, zs, r)" "HandleClientRequest Z c uid cmd payload rid tok (zs, gs(a := g), r) = (resp, z'')"
proof -
  obtain g gs zs r where z: "z = (g, gs, zs, r)" by (metis surj_pair)
  obtain x zs' gs' r' where f: "guarded expected ctx (HandleClientRequest Z c uid cmd payload rid tok) (zs, gs(a := g), r) = (x, zs', gs', r')"
    by (metis surj_pair)
  have "x = Inr resp" using assms f
    by (simp add: z zone_of_gate_def zone_server_def seen_from_def HandleClientRequest_handler)
  then show ?thesis using that z guarded_Inr [OF f [unfolded \<open>x = Inr resp\<close>]] by blast
qed

lemma deployed_gate_zone:
  assumes "online_contract (bz_online B) I Q" "protos_agree (zp_auth P) GP"
  shows "gate_zone (deployed_gate hostname config a GP (deployed_zone store P GP up indet B) expected now) (\<lambda>(gs, zs, o', b). I o') Q"
proof (unfold_locales, goal_cases)
  case (1 client stub)
  show ?case unfolding deployed_stub [OF 1] by (rule zone_of_gate_posts [OF online_contract.keeps [OF assms(1)]])
next
  case (2 client stub ctx c uid cmd payload rid tok z resp z')
  show ?case using 2(3) unfolding deployed_stub [OF 2(1,2)] by (rule deployed_request) (metis HandleClientRequest_id fst_conv)
next
  case (3 client stub ctx c uid payload rid tok z resp z' u t)
  show ?case using 3(3) unfolding deployed_stub [OF 3(1,2)]
  proof (rule deployed_request)
    fix g gs zs r z''
    assume z: "z = (g, gs, zs, r)"
      and run: "HandleClientRequest (deployed_zone store P GP up indet B) c uid ''auth.login'' payload rid tok (zs, gs(a := g), r) = (resp, z'')"
    show "Q u t" using login_command_vouched [OF assms, of "fst r" store GP up indet c uid payload rid tok zs "gs(a := g)" "snd r" resp z'' u t]
      z run 3(4,5) by (simp add: case_prod_beta)
  qed
next
  case (4 client stub ctx c uid payload rid tok z resp z' u t)
  show ?case using 4(3) unfolding deployed_stub [OF 4(1,2)]
  proof (rule deployed_request)
    fix g gs zs r z''
    assume z: "z = (g, gs, zs, r)"
      and run: "HandleClientRequest (deployed_zone store P GP up indet B) c uid ''auth.validate_token'' payload rid tok (zs, gs(a := g), r) = (resp, z'')"
    show "Q u t" using validate_command_vouched [OF assms, of "fst r" store GP up indet c uid payload rid tok zs "gs(a := g)" "snd r" resp z'' u t]
      z run 4(4,5) by (simp add: case_prod_beta)
  qed
qed

section \<open>The online server\<close>

text \<open>The state is the store and whatever the clock depends on.\<close>

definition online_server ::
  "'s SessionStore \<Rightarrow> 'j nlohmann \<Rightarrow> (string \<Rightarrow> string \<Rightarrow> string) \<Rightarrow> string \<Rightarrow> ('t \<Rightarrow> nat \<Rightarrow> int) \<Rightarrow> ('t \<Rightarrow> 't) \<Rightarrow> ('s \<times> 't) OnlineStub" where
  "online_server SS J hmac secret clock tick =
     \<lparr>online_Login = (\<lambda>ctx u d ty (s, t). case OnlineHandler_Login SS J hmac secret (clock t) s u d ty of (r, s') \<Rightarrow> (Inr r, (s', tick t))),
      online_Logout = (\<lambda>ctx u tok (s, t). case OnlineHandler_Logout SS s u tok of (r, s') \<Rightarrow> (Inr r, (s', tick t))),
      online_ValidateToken = (\<lambda>ctx tok (s, t). case OnlineHandler_ValidateToken SS J hmac secret (clock t) s tok of (r, s') \<Rightarrow> (Inr r, (s', tick t)))\<rparr>"

definition issued_to :: "'j nlohmann \<Rightarrow> (string \<Rightarrow> string \<Rightarrow> string) \<Rightarrow> string \<Rightarrow> string \<Rightarrow> string \<Rightarrow> bool" where
  "issued_to J hmac secret u token \<longleftrightarrow> u \<noteq> [] \<and> (\<exists>now. 0 \<le> now \<and> now div 1000 + 7 * 24 * 3600 < 2 ^ 31 \<and> token = JwtCreate J hmac now u secret 168 [])"

lemma issued_session_to: "issued_session J hmac secret uid d \<Longrightarrow> issued_to J hmac secret uid (sd_token d)"
  unfolding issued_session_def issued_to_def by blast

context session_store
begin

lemma Login_issued:
  assumes "online_inv SS J hmac secret s" "clock_ok clock" "json_laws J"
    and "OnlineServiceCore_Login SS J hmac secret clock s u d ty = (r, s')" "lr_success r"
  shows "issued_to J hmac secret u (lr_token r)"
proof -
  obtain d' where "ss_GetSession SS s' u = Some d'" "sd_token d' = lr_token r" using Login_result(2) [OF assms(1-4)] assms(5) by blast
  moreover have "online_inv SS J hmac secret s'" by (rule Login_result(1) [OF assms(1-4)])
  ultimately have "issued_session J hmac secret u d'" by (simp add: online_inv_def)
  from issued_session_to [OF this] show ?thesis using \<open>sd_token d' = lr_token r\<close> by simp
qed

lemma ValidateToken_issued:
  assumes "online_inv SS J hmac secret s" "OnlineServiceCore_ValidateToken SS J hmac secret clock s token = (r, s')" "tr_valid r"
  shows "issued_to J hmac secret (tr_user_id r) token"
proof -
  obtain d where "ss_GetSession SS s (tr_user_id r) = Some d" "sd_token d = token"
    using assms(2,3) by (auto simp: OnlineServiceCore_ValidateToken_def token_invalid_def Let_def split: if_splits option.splits)
  then show ?thesis using assms(1) issued_session_to unfolding online_inv_def by blast
qed

lemma online_server_contract:
  assumes "json_laws J" "\<And>t. clock_ok (clock t)"
  shows "online_contract (online_server SS J hmac secret clock tick) (\<lambda>(s, t). online_inv SS J hmac secret s) (issued_to J hmac secret)"
proof
  have validate_inv: "online_inv SS J hmac secret (snd (OnlineServiceCore_ValidateToken SS J hmac secret clock s token))"
    if "online_inv SS J hmac secret s" for clock s token
    using that by (auto simp: OnlineServiceCore_ValidateToken_def Let_def remove_keeps_inv split: option.splits)
  have logout_inv: "online_inv SS J hmac secret (snd (OnlineServiceCore_Logout SS s u token))" if "online_inv SS J hmac secret s" for s u token
    using that by (auto simp: OnlineServiceCore_Logout_def remove_keeps_inv split: option.splits)
  show "online_keeps (\<lambda>(s, t). online_inv SS J hmac secret s) (online_server SS J hmac secret clock tick)"
    using Login_result(1) [OF _ assms(2,1)] validate_inv logout_inv
    by (auto simp: online_keeps_def online_server_def OnlineHandler_Login_def OnlineHandler_Logout_def OnlineHandler_ValidateToken_def Let_def
        split: prod.splits) (metis snd_conv)+
qed (use Login_issued [OF _ assms(2,1)] ValidateToken_issued in
    \<open>auto simp: online_server_def OnlineHandler_Login_def OnlineHandler_ValidateToken_def ErrorCodeToInt_def Let_def split: prod.splits if_splits\<close>)

end

section \<open>Properties of the gates\<close>

text \<open>Whatever the business servers do.\<close>

lemma deployed_gate_any: "gate_zone (deployed_gate hostname config a GP (deployed_zone store P GP up indet B) expected now) (\<lambda>_. True) (\<lambda>_ _. True)"
proof (unfold_locales, goal_cases)
  case (1 client stub)
  have "zone_stub_posts (\<lambda>(gs, zs, o', b). True) (zone_of_gate a (zone_server (deployed_zone store P GP up indet B) expected now))"
    by (rule zone_of_gate_posts) (simp add: online_keeps_def)
  then show ?case unfolding deployed_stub [OF 1] by (simp add: case_prod_unfold)
next
  case (2 client stub ctx c uid cmd payload rid tok z resp z')
  show ?case using 2(3) unfolding deployed_stub [OF 2(1,2)] by (rule deployed_request) (metis HandleClientRequest_id fst_conv)
qed simp_all

lemmas reachable_ok = gate_zone.reachable_gate_ok [OF deployed_gate_any _ TrueI]

lemma reachable_session:
  assumes "gate_reach (deployed_gate hostname config a GP (deployed_zone store P GP up indet B) expected now) addr w gt" "gt_sessions gt c = Some s"
  shows "gsession_ok (fst (gt_service gt)) (gt_seq gt) c s"
  using reachable_ok [OF assms(1)] assms(2) by (simp add: gate_ok_def)

lemma OnWrite_drains:
  assumes "ws_ok ts s" "\<not> ws_closed s"
  shows "ws_started (((\<lambda>s. fst (OnWrite S False s z)) ^^ (length (ws_write_queue s) + ws_outstanding s)) s) = ws_started s @ ws_write_queue s"
  using assms
proof (induction "length (ws_write_queue s)" arbitrary: s)
  case 0
  then have "ws_started (fst (OnWrite S False s z)) = ws_started s" by (simp add: OnWrite_def Let_def)
  then show ?case using 0 by (auto simp: ws_ok_def)
next
  case (Suc n)
  then obtain m q where q: "ws_write_queue s = m # q" by (cases "ws_write_queue s") auto
  let ?s = "fst (OnWrite S False s z)"
  have out: "ws_outstanding s = 1" using Suc.prems q by (simp add: ws_ok_def)
  then have step: "ws_write_queue ?s = q" "ws_started ?s = ws_started s @ [m]" "ws_outstanding ?s = 1" "\<not> ws_closed ?s"
    using q Suc.prems(2) by (simp_all add: OnWrite_def DoWrite_def Let_def)
  have "ws_ok ts ?s" using ws_ok_OnWrite [OF Suc.prems(1)] out by simp
  from Suc.hyps(1) [OF _ this step(4)] Suc.hyps(2) step q
  have "ws_started (((\<lambda>s. fst (OnWrite S False s z)) ^^ (n + 1)) ?s) = ws_started s @ ws_write_queue s" by simp
  then show ?case using Suc.hyps(2) [symmetric] out by (simp add: funpow_Suc_right del: funpow.simps(2))
qed

text \<open>The connections of a gate whose zone server is connected to the online server.\<close>

lemma tables_connD:
  "tables_ok Q g \<Longrightarrow> g_connections g c = Some k \<Longrightarrow>
     (cn_authenticated k \<longleftrightarrow> cn_user_id k \<noteq> []) \<and> (if cn_user_id k = [] then cn_token k = [] else Q (cn_user_id k) (cn_token k))"
  unfolding tables_ok_def by blast

lemma reachable_connection:
  assumes "store_env R J" and "db_Get R db0 = Map.empty" and "online_reach (RocksDBSessionStore R J) J hmac secret db0 db"
    and "\<And>t. clock_ok (clock t)"
    and "bz_online B = online_server (RocksDBSessionStore R J) J hmac secret clock tick" and "protos_agree (zp_auth P) GP"
    and "gate_reach (deployed_gate hostname config a GP (deployed_zone store P GP up indet B) expected now) addr (gs0, zs0, (db, t0), b0) gt"
    and "g_connections (fst (gt_service gt)) c = Some k"
  shows "(cn_authenticated k \<longleftrightarrow> cn_user_id k \<noteq> []) \<and> (if cn_user_id k = [] then cn_token k = [] else issued_to J hmac secret (cn_user_id k) (cn_token k))"
proof -
  note ss = store_env.rocksdb_session_store [OF assms(1)]
  have J: "json_laws J" using assms(1) by (simp add: store_env_def)
  have "online_inv (RocksDBSessionStore R J) J hmac secret db0" by (simp add: online_inv_def RocksDBSessionStore_GetSession_def assms(2))
  then have inv: "online_inv (RocksDBSessionStore R J) J hmac secret db" by (rule session_store.reach_online_inv [OF ss assms(3) J])
  have "online_contract (bz_online B) (\<lambda>(s, t). online_inv (RocksDBSessionStore R J) J hmac secret s) (issued_to J hmac secret)"
    unfolding assms(5) by (rule session_store.online_server_contract [OF ss J assms(4)])
  from gate_zone.reachable_gate_ok [OF deployed_gate_zone [OF this assms(6)] assms(7)] inv
  have "tables_ok (issued_to J hmac secret) (fst (gt_service gt))" by (simp add: gate_ok_def world_ok_def)
  from tables_connD [OF this assms(8)] show ?thesis .
qed

end
