(* ===== verification/Deployment_Demo.thy ===== *)
theory Deployment_Demo
  imports Deployment
begin

text \<open>
  A deployment that can be run: a coding of the messages, an online server on a list as its database, an auth server that
  accepts every password, one gate.  The contracts of the gate are interpreted on it, and it serves the examples.
\<close>

section \<open>A coding of messages\<close>

text \<open>A message is the list of its fields; each character of a field is preceded by \<^verbatim>\<open>1\<close>, and \<^verbatim>\<open>0\<close> ends a field.\<close>

fun put_field :: "string \<Rightarrow> string" where
  "put_field [] = ''0''"
| "put_field (c # cs) = CHR ''1'' # c # put_field cs"

definition put_fields :: "string list \<Rightarrow> string" where
  "put_fields fs = concat (map put_field fs)"

fun get_fields_from :: "string \<Rightarrow> string \<Rightarrow> string list" where
  "get_fields_from acc [] = []"
| "get_fields_from acc [x] = (if x = CHR ''0'' then [rev acc] else [])"
| "get_fields_from acc (x # c # cs) = (if x = CHR ''0'' then rev acc # get_fields_from [] (c # cs) else get_fields_from (c # acc) cs)"

definition get_fields :: "string \<Rightarrow> string list" where
  "get_fields d = get_fields_from [] d"

lemma get_fields_from_end: "get_fields_from acc (CHR ''0'' # r) = rev acc # get_fields_from [] r"
  by (cases r) simp_all

lemma get_fields_from_put: "get_fields_from acc (put_field f @ r) = (rev acc @ f) # get_fields_from [] r"
  by (induction f arbitrary: acc) (simp_all add: get_fields_from_end)

lemma get_put_fields [simp]: "get_fields (put_fields fs) = fs"
  by (induction fs) (simp_all add: get_fields_def put_fields_def get_fields_from_put)

definition get_int :: "string \<Rightarrow> int" where
  "get_int s = (case strtoll s of Some x \<Rightarrow> x | None \<Rightarrow> 0)"

lemma get_int_to_string [simp]: "get_int (to_string x) = x"
  by (simp add: get_int_def strtoll_to_string)

definition demo_gate_proto :: GateProto where
  "demo_gate_proto =
     \<lparr>gp_parse_ClientMessage = (\<lambda>d. case get_fields d of
          [cmd, payload, rid] \<Rightarrow> Some \<lparr>cm_cmd = cmd, cm_payload = payload, cm_request_id = rid\<rparr> | _ \<Rightarrow> None),
      gp_ser_ServerMessage = (\<lambda>m. Some (put_fields [sm_cmd m, sm_payload m, sm_request_id m, to_string (sm_code m), sm_message m])),
      gp_ser_HeartbeatResponse = (\<lambda>t. Some (put_fields [to_string t])),
      gp_parse_AuthLogin = (\<lambda>d. case get_fields d of
          [u, p, i, t] \<Rightarrow> Some \<lparr>pal_username = u, pal_password = p, pal_device_id = i, pal_device_type = t\<rparr> | _ \<Rightarrow> None),
      gp_parse_AuthLoginResponse = (\<lambda>d. case get_fields d of
          [ok, u, t, x, e] \<Rightarrow> Some \<lparr>palr_success = (ok = ''y''), palr_user_id = u, palr_token = t, palr_expire_at = get_int x, palr_error = e\<rparr>
        | _ \<Rightarrow> None),
      gp_parse_AuthValidateToken = (\<lambda>d. case get_fields d of [t] \<Rightarrow> Some \<lparr>pavt_token = t\<rparr> | _ \<Rightarrow> None),
      gp_parse_AuthValidateTokenResponse = (\<lambda>d. case get_fields d of [u] \<Rightarrow> Some \<lparr>pavtr_user_id = u\<rparr> | _ \<Rightarrow> None)\<rparr>"

definition demo_auth_proto :: AuthProto where
  "demo_auth_proto =
     \<lparr>parse_AuthRegisterPayload = (\<lambda>d. None),
      parse_AuthLoginPayload = gp_parse_AuthLogin demo_gate_proto,
      parse_AuthLogoutPayload = (\<lambda>d. case get_fields d of [u, t] \<Rightarrow> Some \<lparr>palt_user_id = u, palt_token = t\<rparr> | _ \<Rightarrow> None),
      parse_AuthValidateTokenPayload = gp_parse_AuthValidateToken demo_gate_proto,
      ser_AuthRegisterResponsePayload = (\<lambda>r. None),
      ser_AuthLoginResponsePayload = (\<lambda>r. Some (put_fields
          [if palr_success r then ''y'' else ''n'', palr_user_id r, palr_token r, to_string (palr_expire_at r), palr_error r])),
      ser_AuthValidateTokenResponsePayload = (\<lambda>r. Some (put_fields [pavtr_user_id r]))\<rparr>"

definition demo_chat_proto :: ChatProto where
  "demo_chat_proto =
     \<lparr>parse_ChatSendMessagePayload = (\<lambda>d. case get_fields d of
          [from, to, ty, txt, url, mty, cid, sz, reply] \<Rightarrow>
            Some \<lparr>pcsm_from_user_id = from, pcsm_to_id = to, pcsm_chat_type = get_int ty, pcsm_content = txt, pcsm_media_url = url,
              pcsm_media_type = mty, pcsm_client_msg_id = cid, pcsm_file_size = get_int sz, pcsm_mentions = [], pcsm_reply_to_msg_id = reply\<rparr>
        | _ \<Rightarrow> None),
      parse_ChatMarkReadPayload = (\<lambda>d. None), parse_ChatPullOfflinePayload = (\<lambda>d. None), parse_ChatRecallMessagePayload = (\<lambda>d. None),
      parse_ChatGetHistoryPayload = (\<lambda>d. None), parse_ChatSyncConversationsPayload = (\<lambda>d. None),
      parse_ChatDeleteConversationPayload = (\<lambda>d. None),
      ser_ChatSendMessageResponsePayload = (\<lambda>r. Some (put_fields
          [if pcsmr_success r then ''y'' else ''n'', pcsmr_msg_id r, to_string (pcsmr_timestamp r), pcsmr_error r])),
      ser_ChatMessagePushPayload = (\<lambda>p. Some (put_fields [pcmp_msg_id p, pcmp_from_user_id p, pcmp_to_id p, pcmp_content p])),
      ser_ChatPullOfflineResponsePayload = (\<lambda>r. None), ser_ChatGetHistoryResponsePayload = (\<lambda>r. None),
      ser_ChatSyncConversationsResponsePayload = (\<lambda>r. None), ser_ReadReceiptNotify = (\<lambda>r. None)\<rparr>"

definition demo_friend_proto :: FriendProto where
  "demo_friend_proto =
     \<lparr>parse_FriendAddPayload = (\<lambda>d. None), parse_FriendHandleRequestPayload = (\<lambda>d. None), parse_FriendRemovePayload = (\<lambda>d. None),
      parse_FriendBlockPayload = (\<lambda>d. None), parse_FriendGetFriendsPayload = (\<lambda>d. None), parse_FriendGetRequestsPayload = (\<lambda>d. None),
      parse_FriendSearchPayload = (\<lambda>d. None), parse_FriendGetBlockListPayload = (\<lambda>d. None), parse_FriendCreateGroupPayload = (\<lambda>d. None),
      parse_FriendGetGroupsPayload = (\<lambda>d. None), parse_FriendMoveToGroupPayload = (\<lambda>d. None), parse_FriendDeleteGroupPayload = (\<lambda>d. None),
      parse_FriendSetRemarkPayload = (\<lambda>d. None), ser_FriendGetFriendsResponsePayload = (\<lambda>r. None),
      ser_FriendGetRequestsResponsePayload = (\<lambda>r. None), ser_FriendSearchResponsePayload = (\<lambda>r. None),
      ser_FriendGetBlockListResponsePayload = (\<lambda>r. None), ser_FriendCreateGroupResponsePayload = (\<lambda>r. None),
      ser_FriendGetGroupsResponsePayload = (\<lambda>r. None), ser_FriendMoveToGroupResponsePayload = (\<lambda>r. None),
      ser_FriendDeleteGroupResponsePayload = (\<lambda>r. None), ser_FriendSetRemarkResponsePayload = (\<lambda>r. None)\<rparr>"

definition demo_group_proto :: GroupProto where
  "demo_group_proto =
     \<lparr>parse_GroupCreatePayload = (\<lambda>d. None),
      parse_GroupDismissPayload = (\<lambda>d. case get_fields d of [g, u] \<Rightarrow> Some \<lparr>pgd_group_id = g, pgd_operator_id = u\<rparr> | _ \<Rightarrow> None),
      parse_GroupInviteMembersPayload = (\<lambda>d. None), parse_GroupRemoveMemberPayload = (\<lambda>d. None), parse_GroupLeavePayload = (\<lambda>d. None),
      parse_GroupGetInfoPayload = (\<lambda>d. None), parse_GroupGetMembersPayload = (\<lambda>d. None), parse_GroupGetUserGroupsPayload = (\<lambda>d. None),
      ser_GroupCreateResponsePayload = (\<lambda>r. None), ser_GroupGetInfoResponsePayload = (\<lambda>r. None),
      ser_GroupGetMembersResponsePayload = (\<lambda>r. None), ser_GroupGetUserGroupsResponsePayload = (\<lambda>r. None)\<rparr>"

definition demo_file_proto :: FileProto where
  "demo_file_proto =
     \<lparr>parse_FileGetUploadTokenPayload = (\<lambda>d. None), parse_FileInitUploadPayload = (\<lambda>d. None), parse_FileGetFileInfoPayload = (\<lambda>d. None),
      parse_FileGetFileUrlPayload = (\<lambda>d. None), parse_FileDeletePayload = (\<lambda>d. None), ser_FileGetUploadTokenResponsePayload = (\<lambda>r. None),
      ser_FileInitUploadResponsePayload = (\<lambda>r. None), ser_FileGetFileInfoResponsePayload = (\<lambda>r. None), ser_FileGetFileUrlResponsePayload = (\<lambda>r. None)\<rparr>"

definition demo_zone_proto :: ZoneProto where
  "demo_zone_proto = \<lparr>zp_auth = demo_auth_proto, zp_chat = demo_chat_proto, zp_friend = demo_friend_proto, zp_group = demo_group_proto,
     zp_file = demo_file_proto\<rparr>"

lemma demo_protos_agree: "protos_agree demo_auth_proto demo_gate_proto"
  by (auto simp: protos_agree_def demo_auth_proto_def demo_gate_proto_def)

section \<open>Business servers\<close>

definition no_answer :: "('a, 'b) rpc" where
  "no_answer b = (Inl ''unavailable'', b)"

definition demo_auth :: "'b AuthStub" where
  "demo_auth =
     \<lparr>auth_Register = (\<lambda>ctx a b c d e. no_answer),
      auth_VerifyCredentials = (\<lambda>ctx u p b. (Inr \<lparr>vresp_code = 0, vresp_message = [], vresp_user_id = u, vresp_profile = None\<rparr>, b)),
      auth_GetProfile = (\<lambda>ctx a. no_answer), auth_UpdateProfile = (\<lambda>ctx a b c d. no_answer), auth_SearchUsers = (\<lambda>ctx a b. no_answer)\<rparr>"

definition no_friend :: "'b FriendStub" where
  "no_friend =
     \<lparr>friend_AddFriend = (\<lambda>ctx a b c d. no_answer), friend_HandleFriendRequest = (\<lambda>ctx a b c d. no_answer),
      friend_RemoveFriend = (\<lambda>ctx a b. no_answer), friend_GetFriends = (\<lambda>ctx a b. no_answer),
      friend_GetFriendRequests = (\<lambda>ctx a b. no_answer), friend_BlockUser = (\<lambda>ctx a b. no_answer),
      friend_UnblockUser = (\<lambda>ctx a b. no_answer), friend_GetBlockList = (\<lambda>ctx a. no_answer),
      friend_CreateFriendGroup = (\<lambda>ctx a b. no_answer), friend_GetFriendGroups = (\<lambda>ctx a. no_answer),
      friend_MoveFriend = (\<lambda>ctx a b c. no_answer), friend_DeleteFriendGroup = (\<lambda>ctx a b. no_answer),
      friend_SetRemark = (\<lambda>ctx a b c. no_answer)\<rparr>"

definition no_chat :: "'b ChatStub" where
  "no_chat =
     \<lparr>chat_SendMessage = (\<lambda>ctx a b c d e f g h i j. no_answer), chat_RecallMessage = (\<lambda>ctx a b. no_answer),
      chat_PullOffline = (\<lambda>ctx a b c. no_answer), chat_GetHistory = (\<lambda>ctx a b c d e. no_answer),
      chat_SyncConversations = (\<lambda>ctx a b. no_answer), chat_DeleteConversation = (\<lambda>ctx a b c. no_answer),
      chat_MarkRead = (\<lambda>ctx a b c d. no_answer)\<rparr>"

definition no_group :: "'b GroupStub" where
  "no_group =
     \<lparr>group_CreateGroup = (\<lambda>ctx a b c d. no_answer), group_DismissGroup = (\<lambda>ctx a b. no_answer),
      group_GetGroupInfo = (\<lambda>ctx a. no_answer), group_GetGroupMembers = (\<lambda>ctx a b c. no_answer),
      group_GetUserGroups = (\<lambda>ctx a. no_answer), group_InviteMembers = (\<lambda>ctx a b c. no_answer),
      group_RemoveMember = (\<lambda>ctx a b c. no_answer), group_LeaveGroup = (\<lambda>ctx a b. no_answer),
      group_TransferOwner = (\<lambda>ctx a b c. no_answer)\<rparr>"

definition no_file :: "'b FileStub" where
  "no_file =
     \<lparr>file_InitUpload = (\<lambda>ctx a b c d e f. no_answer), file_GetFileUrl = (\<lambda>ctx a b. no_answer),
      file_GetUploadToken = (\<lambda>ctx a b c. no_answer), file_DeleteFile = (\<lambda>ctx a b. no_answer), file_GetFileInfo = (\<lambda>ctx a. no_answer)\<rparr>"

definition demo_hmac :: "string \<Rightarrow> string \<Rightarrow> string" where
  "demo_hmac k d = rev d"

abbreviation demo_sessions :: "(string \<times> string) list SessionStore" where
  "demo_sessions \<equiv> RocksDBSessionStore alist_db text_json"

definition demo_online :: "((string \<times> string) list \<times> unit) OnlineStub" where
  "demo_online = online_server demo_sessions text_json demo_hmac ''key'' (\<lambda>t i. 1700000000000) id"

definition demo_business :: "'b ChatStub \<Rightarrow> 'b GroupStub \<Rightarrow> ((string \<times> string) list \<times> unit, 'b) Business" where
  "demo_business chat grp =
     \<lparr>bz_auth = demo_auth, bz_online = demo_online, bz_friend = no_friend, bz_chat = chat, bz_group = grp, bz_file = no_file\<rparr>"

section \<open>A gate\<close>

definition demo_config :: GateConfig where
  "demo_config = (gate_LoadConfig None [])\<lparr>gc_gate_id := ''gate''\<rparr>"

definition demo_addr :: string where
  "demo_addr = ''gate:9091''"

definition demo_zone :: "'b ChatStub \<Rightarrow> 'b GroupStub \<Rightarrow> (MemorySessions, Gates \<times> ((string \<times> string) list \<times> unit) \<times> 'b) ZoneServiceImpl" where
  "demo_zone chat grp = deployed_zone (MemorySessionStore (\<lambda>m. [])) demo_zone_proto demo_gate_proto (\<lambda>a. True) 0 (demo_business chat grp)"

definition demo_gate :: "'b ChatStub \<Rightarrow> 'b GroupStub \<Rightarrow> (Gates \<times> MemorySessions ZoneState \<times> ((string \<times> string) list \<times> unit) \<times> 'b) GateService" where
  "demo_gate chat grp = deployed_gate None demo_config demo_addr demo_gate_proto (demo_zone chat grp) [] (\<lambda>z. 1700000000000)"

definition demo_world :: "'b \<Rightarrow> Gates \<times> MemorySessions ZoneState \<times> ((string \<times> string) list \<times> unit) \<times> 'b" where
  "demo_world b = (\<lambda>a. GateState_empty, \<lparr>z_sessions = MemorySessions_empty, z_gate_clients = Map.empty\<rparr>, ([], ()), b)"

text \<open>The contracts of the gate, for this deployment.\<close>

lemma demo_online_contract: "online_contract demo_online (\<lambda>(s, t). online_inv demo_sessions text_json demo_hmac ''key'' s) (issued_to text_json demo_hmac ''key'')"
  unfolding demo_online_def
  by (rule alist_env.ss.online_server_contract [OF text_json.json_laws_axioms]) (simp add: clock_ok_def)

interpretation demo_tokens: online_contract demo_online "\<lambda>(s, t). online_inv demo_sessions text_json demo_hmac ''key'' s"
    "issued_to text_json demo_hmac ''key''"
  by (rule demo_online_contract)

interpretation demo_gate: gate_zone "demo_gate chat grp" "\<lambda>(gs, zs, o', b). online_inv demo_sessions text_json demo_hmac ''key'' (fst o')"
    "issued_to text_json demo_hmac ''key''" for chat grp
  using deployed_gate_zone [of "demo_business chat grp" _ _ demo_zone_proto demo_gate_proto] demo_online_contract demo_protos_agree
  by (simp add: demo_gate_def demo_zone_def demo_business_def demo_zone_proto_def case_prod_unfold)

section \<open>Runs of a gate\<close>

text \<open>The next state is a function of the state and the event.\<close>

definition gate_do :: "'w GateService \<Rightarrow> string \<Rightarrow> 'w Gate \<Rightarrow> GateEvent \<Rightarrow> 'w Gate option" where
  "gate_do S addr gt e =
     (case e of
        Accepted ec now \<Rightarrow> if gt_accepting gt then Some (WsListener_OnAccept ec now gt) else None
      | HandshakeRead c h \<Rightarrow>
          (case gt_sessions gt c of
             None \<Rightarrow> None
           | Some s \<Rightarrow> if ws_phase s = ReadingHandshake then Some (put_session c (OnReadHandshake h s, gt_service gt) gt) else None)
      | HandshakeAccepted c ec now \<Rightarrow>
          (case gt_sessions gt c of
             None \<Rightarrow> None
           | Some s \<Rightarrow>
               if ws_phase s = Accepting
               then Some (put_session c (let (s', g) = OnAccept ec now s (fst (gt_service gt)) in (s', (g, snd (gt_service gt)))) gt)
               else None)
      | ReadDone c now server_time r \<Rightarrow>
          (case gt_sessions gt c of
             None \<Rightarrow> None
           | Some s \<Rightarrow> if ws_phase s = Reading then Some (put_session c (OnRead S now server_time r s (gt_service gt)) gt) else None)
      | WriteDone c ec \<Rightarrow>
          (case gt_sessions gt c of
             None \<Rightarrow> None
           | Some s \<Rightarrow> if ws_outstanding s > 0 then Some (put_session c (OnWrite S ec s (gt_service gt)) gt) else None)
      | RunPosted c \<Rightarrow>
          (case gt_sessions gt c of
             None \<Rightarrow> None
           | Some s \<Rightarrow>
               if ws_ran s < length (tasks_of c (fst (gt_service gt)))
               then Some (put_session c (run_posted S (tasks_of c (fst (gt_service gt)) ! ws_ran s) (s\<lparr>ws_ran := ws_ran s + 1\<rparr>) (gt_service gt)) gt)
               else None)
      | Push user_id cmd payload \<Rightarrow>
          Some (gt\<lparr>gt_service := apfst (\<lambda>g. snd (GateInternalGrpcHandler_PushMessage (gs_proto S) user_id cmd payload g)) (gt_service gt)\<rparr>)
      | Disconnect user_id reason \<Rightarrow>
          Some (gt\<lparr>gt_service := apfst (\<lambda>g. snd (GateInternalGrpcHandler_DisconnectUser user_id reason g)) (gt_service gt)\<rparr>)
      | RegisterRound \<Rightarrow> Some (gt\<lparr>gt_service := snd (GateService_RegisterGate S addr (gt_service gt))\<rparr>)
      | CheckRound now_ms order \<Rightarrow> Some (gt\<lparr>gt_service := apfst (CheckHeartbeat S now_ms order) (gt_service gt)\<rparr>)
      | ReportRound \<Rightarrow> Some (gt\<lparr>gt_service := snd (GateService_GateHeartbeat S (gt_service gt))\<rparr>)
      | StopListening \<Rightarrow> Some (WsListener_Stop gt))"

lemma gate_step_iff: "gate_step S addr gt e gt' \<longleftrightarrow> gate_do S addr gt e = Some gt'"
  by (cases e) (auto simp: gate_do_def gate_step.simps split: option.splits if_splits)

fun gate_run :: "'w GateService \<Rightarrow> string \<Rightarrow> 'w Gate \<Rightarrow> GateEvent list \<Rightarrow> 'w Gate option" where
  "gate_run S addr gt [] = Some gt"
| "gate_run S addr gt (e # es) = (case gate_do S addr gt e of None \<Rightarrow> None | Some gt' \<Rightarrow> gate_run S addr gt' es)"

lemma gate_run_reach: "gate_run S addr gt es = Some gt' \<Longrightarrow> gate_reach S addr w gt \<Longrightarrow> gate_reach S addr w gt'"
  by (induction es arbitrary: gt) (auto simp: gate_step_iff [symmetric] split: option.splits intro: gate_next)

definition demo_conn :: "int \<Rightarrow> string" where
  "demo_conn n = GenerateConnId n 0"

definition demo_ws_session :: "string \<Rightarrow> WsSession" where
  "demo_ws_session c = (WsSession_new c)\<lparr>ws_phase := Reading\<rparr>"

definition connect_events :: "string \<Rightarrow> GateEvent list" where
  "connect_events c = [Accepted False 0, HandshakeRead c (HandshakeRequest True ''/ws''), HandshakeAccepted c False 0]"

definition login_message :: "string \<Rightarrow> string \<Rightarrow> string" where
  "login_message u rid = put_fields [''auth.login'', put_fields [u, ''secret'', [], []], rid]"

lemma connect_events_run:
  assumes "gt_accepting gt" "\<not> gt_stopped gt" "c = GenerateConnId (gt_seq gt) 0" "gt_service gt = (g, w)"
  shows "gate_run S addr gt (connect_events c) = Some (gt\<lparr>gt_sessions := (gt_sessions gt)(c \<mapsto> demo_ws_session c), gt_seq := gt_seq gt + 1,
    gt_service := (SetCloseCallback c c (SetSendCallback c c (AddConnection 0 c g)), w)\<rparr>)"
  using assms
  by (simp add: connect_events_def gate_do_def WsListener_OnAccept_def WsListener_DoAccept_def put_session_def WsSession_new_def
      OnReadHandshake_def IsExpectedWsPath_def OnAccept_def demo_ws_session_def Let_def)

section \<open>Two users\<close>

lemma demo_users [simp]: "alice \<noteq> []" "bob \<noteq> []" "alice \<noteq> bob" "bob \<noteq> alice"
  using chat_demo_ids by (auto simp: account_id_def)

definition demo_token :: "string \<Rightarrow> string" where
  "demo_token u = JwtCreate text_json demo_hmac 1700000000000 u ''key'' 168 []"

definition demo_login_db :: "string \<Rightarrow> (string \<times> string) list \<Rightarrow> (string \<times> string) list" where
  "demo_login_db u db = snd (OnlineServiceCore_Login demo_sessions text_json demo_hmac ''key'' (\<lambda>i. 1700000000000) db u [] [])"

lemma demo_online_login:
  assumes "u \<noteq> []" "ss_GetSession demo_sessions db u = None"
  shows "online_Login demo_online ctx u [] [] (db, ()) =
    (Inr \<lparr>lresp_code = 0, lresp_message = [], lresp_token = demo_token u, lresp_expire_at = 1700604800000\<rparr>, (demo_login_db u db, ()))"
  using assms by (simp add: demo_online_def online_server_def OnlineHandler_Login_def demo_login_db_def OnlineServiceCore_Login_def login_new_def GenerateToken_def 
        RocksDBSessionStore_SetSession_def db_Put_def alist_db_def kTokenExpireDays_def kMsPerDay_def demo_token_def ErrorCodeToInt_def Let_def)

lemma demo_login_command:
  assumes "u \<noteq> []" "ss_GetSession demo_sessions db u = None"
  shows "HandleClientRequest (demo_zone chat grp) c [] ''auth.login'' (put_fields [u, ''secret'', [], []]) rid [] (zs, gs, (db, ()), b) =
    (\<lparr>hr_code = 0, hr_message = [], hr_payload = put_fields [''y'', u, demo_token u, to_string 1700604800000, []], hr_request_id = rid\<rparr>,
     (zs, gs, (demo_login_db u db, ()), b))"
  using assms demo_online_login [OF assms]
    by (simp add: HandleClientRequest_def demo_zone_def deployed_zone_def cmd_prefix_def HandleAuth_def deployed_manager_def auth_login_cmd_def
        with_payload_def with_answer_def error_result_def SetResultError_def new_result_def Let_def AuthSystem_Login_def demo_zone_proto_def demo_auth_proto_def
        demo_gate_proto_def demo_business_def demo_auth_def lift_rpc_def lift_online_def
        AuthRpcClient_VerifyCredentials_def OnlineRpcClient_Login_def with_stub_def lift_AuthStub_def lift_OnlineStub_def
        rpc_outcome_def ErrorCodeToInt_def)

definition demo_bound :: "string \<Rightarrow> Connection \<Rightarrow> Connection" where
  "demo_bound u k = k\<lparr>cn_user_id := u, cn_token := demo_token u, cn_device_id := [], cn_device_type := [], cn_authenticated := True\<rparr>"

definition demo_user_session :: "string \<Rightarrow> UserSession" where
  "demo_user_session u = \<lparr>us_user_id = u, us_gate_id = ''gate'', us_gate_addr = demo_addr, us_device_type = [], us_device_id = [],
     us_online_at = 1700000000000, us_last_active_at = 1700000000000\<rparr>"

definition demo_login_answer :: "string \<Rightarrow> string \<Rightarrow> string" where
  "demo_login_answer u rid = put_fields [''auth.login'', put_fields [''y'', u, demo_token u, to_string 1700604800000, []], rid, to_string 0, []]"

lemma demo_gate_simps [simp]:
  "gs_zone_client (demo_gate chat grp) =
     Some \<lparr>zrc_stub = Some (zone_of_gate demo_addr (zone_server (demo_zone chat grp) [] (\<lambda>z. 1700000000000))), zrc_secret = []\<rparr>"
  "gs_gate_id (demo_gate chat grp) = ''gate''" "gs_proto (demo_gate chat grp) = demo_gate_proto"
  by (simp_all add: demo_gate_def deployed_gate_def GateService_Init_def demo_config_def gate_LoadConfig_def LoadKeyValueConfig_def config_Get_def
    config_Load_def ApplyEnvOverrides_def LoadFile_def GetInt_def Let_def)

lemma demo_HandleLogin:
  assumes "u \<noteq> []" "ss_GetSession demo_sessions db u = None" "g_connections g c = Some k" "cn_user_id k = []" "g_send_callbacks g c = Some c"
    and "ms_gates (z_sessions zs) ''gate'' = Some node" "gn_address node = demo_addr"
  shows "HandleLogin (demo_gate chat grp) c (put_fields [u, ''secret'', [], []]) rid (g, gs, zs, (db, ()), b) =
    (g\<lparr>g_connections := (g_connections g)(c \<mapsto> demo_bound u k), g_user_to_conn := (g_user_to_conn g)(u \<mapsto> c),
       g_posted := g_posted g @ [PostSend c (demo_login_answer u rid)]\<rparr>,
     gs(demo_addr := g\<lparr>g_connections := (g_connections g)(c \<mapsto> demo_bound u k), g_user_to_conn := (g_user_to_conn g)(u \<mapsto> c)\<rparr>),
     zs\<lparr>z_sessions := (z_sessions zs)\<lparr>ms_sessions := (ms_sessions (z_sessions zs))(u \<mapsto> demo_user_session u)\<rparr>\<rparr>,
     (demo_login_db u db, ()), b)"
  using assms demo_login_command [OF assms(1,2), of chat grp c rid zs "gs(demo_addr := g)" b]
  by (simp add: HandleLogin_def ZoneRpcClient_HandleClientRequest_def ZoneRpcClient_UserOnline_def zone_call_def zone_of_gate_def zone_server_def
    seen_from_def guarded_def InternalSecretProcessor_Process_def AddInternalSecret_def HandleClientRequest_handler ZoneHandler_UserOnline_def
    ZoneServiceImpl_UserOnline_def on_store_def demo_gate_proto_def JwtCreate_not_Nil BindUser_def respond_def SendResponse_def SendToConn_def
    ErrorCodeToInt_def verdict_response_def demo_zone_def deployed_zone_def demo_bound_def demo_user_session_def demo_login_answer_def demo_token_def MemorySessionStore_GetGate_def
   MemorySessionStore_SetOnline_def Let_def)

definition demo_gate_node :: GateNode where
  "demo_gate_node = \<lparr>gn_gate_id = ''gate'', gn_address = demo_addr, gn_current_connections = 0, gn_registered_at = 1700000000000, gn_last_heartbeat = 1700000000000\<rparr>"

lemma demo_register:
  "snd (GateService_RegisterGate (demo_gate chat grp) demo_addr (g, gs, zs, r)) =
    (g, gs(demo_addr := g), zs\<lparr>z_sessions := (z_sessions zs)\<lparr>ms_gates := (ms_gates (z_sessions zs))(''gate'' \<mapsto> demo_gate_node)\<rparr>\<rparr>, r)"
  by (simp add: GateService_RegisterGate_def ZoneRpcClient_GateRegister_def zone_call_def zone_of_gate_def zone_server_def
    seen_from_def guarded_def InternalSecretProcessor_Process_def AddInternalSecret_def ZoneHandler_GateRegister_def ZoneServiceImpl_RegisterGate_def
    on_store_def demo_zone_def deployed_zone_def demo_gate_node_def MemorySessionStore_RegisterGate_def Let_def)

lemma demo_login_run:
  assumes "gt_sessions gt c = Some s" "ws_phase s = Reading" "ws_conn_id s = c" "gt_service gt = (g, gs, zs, (db, ()), b)"
    and "u \<noteq> []" "ss_GetSession demo_sessions db u = None" "g_connections g c = Some k" "cn_user_id k = []" "g_send_callbacks g c = Some c"
    and "ms_gates (z_sessions zs) ''gate'' = Some demo_gate_node"
  shows "gate_run (demo_gate chat grp) demo_addr gt [ReadDone c 0 0 (ReadBinary (login_message u rid))] =
    Some (put_session c (s, HandleLogin (demo_gate chat grp) c (put_fields [u, ''secret'', [], []]) rid (g, gs, zs, (db, ()), b)) gt)"
  using assms by (simp add: gate_do_def OnRead_def WebSocketHandler_OnMessage_def demo_gate_proto_def login_message_def HandleClientMessage_def)

lemma gate_run_append: "gate_run S addr gt (es @ es') = (case gate_run S addr gt es of None \<Rightarrow> None | Some gt' \<Rightarrow> gate_run S addr gt' es')"
  by (induction es arbitrary: gt) (auto split: option.splits)

text \<open>The gate registers, and \<open>alice\<close> and \<open>bob\<close> connect and log in.\<close>

definition enter_events :: "string \<Rightarrow> string \<Rightarrow> string \<Rightarrow> GateEvent list" where
  "enter_events c u rid = connect_events c @ [ReadDone c 0 0 (ReadBinary (login_message u rid))]"

definition demo_events :: "GateEvent list" where
  "demo_events = RegisterRound # enter_events (demo_conn 0) alice ''r1'' @ enter_events (demo_conn 1) bob ''r2''"

definition demo_connection :: "string \<Rightarrow> Connection" where
  "demo_connection c = \<lparr>cn_conn_id = c, cn_user_id = [], cn_token = [], cn_device_id = [], cn_device_type = [], cn_connected_at = 0, cn_last_heartbeat = 0,
     cn_authenticated = False\<rparr>"

definition demo_gate_state :: GateState where
  "demo_gate_state =
     \<lparr>g_connections = [demo_conn 0 \<mapsto> demo_bound alice (demo_connection (demo_conn 0)), demo_conn 1 \<mapsto> demo_bound bob (demo_connection (demo_conn 1))],
      g_user_to_conn = [alice \<mapsto> demo_conn 0, bob \<mapsto> demo_conn 1],
      g_send_callbacks = [demo_conn 0 \<mapsto> demo_conn 0, demo_conn 1 \<mapsto> demo_conn 1],
      g_close_callbacks = [demo_conn 0 \<mapsto> demo_conn 0, demo_conn 1 \<mapsto> demo_conn 1],
      g_posted = [PostSend (demo_conn 0) (demo_login_answer alice ''r1''), PostSend (demo_conn 1) (demo_login_answer bob ''r2'')]\<rparr>"

definition demo_zone_state :: "MemorySessions ZoneState" where
  "demo_zone_state =
     \<lparr>z_sessions = \<lparr>ms_sessions = [alice \<mapsto> demo_user_session alice, bob \<mapsto> demo_user_session bob], ms_gates = [''gate'' \<mapsto> demo_gate_node]\<rparr>,
      z_gate_clients = Map.empty\<rparr>"

lemma demo_conn_eq [simp]: "demo_conn m = demo_conn n \<longleftrightarrow> m = n"
  by (auto simp: demo_conn_def GenerateConnId_def dest: arg_cong [where f = strtoll] simp: strtoll_to_string)

lemma demo_bob_fresh: "ss_GetSession demo_sessions (demo_login_db alice []) bob = None"
proof -
  have inv: "online_inv demo_sessions text_json demo_hmac ''key'' []" by (simp add: online_inv_def RocksDBSessionStore_GetSession_def alist_db_def)
  then show ?thesis
    using alist_env.ss.Login_result(4) [OF inv _ text_json.json_laws_axioms prod.collapse [symmetric], of "\<lambda>i. 1700000000000" bob alice "[]" "[]"]
    by (simp add: demo_login_db_def clock_ok_def RocksDBSessionStore_GetSession_def alist_db_def)
qed



lemma demo_enter:
  assumes "gt_accepting gt" "\<not> gt_stopped gt" "gt_service gt = (g, gs, zs, (db, ()), b)" "c = demo_conn (gt_seq gt)"
    and "u \<noteq> []" "ss_GetSession demo_sessions db u = None" "ms_gates (z_sessions zs) ''gate'' = Some demo_gate_node"
  shows "\<exists>gs'. gate_run (demo_gate chat grp) demo_addr gt (enter_events c u rid) =
    Some (gt\<lparr>gt_sessions := (gt_sessions gt)(c \<mapsto> demo_ws_session c), gt_seq := gt_seq gt + 1,
      gt_service := (g\<lparr>g_connections := (g_connections g)(c \<mapsto> demo_bound u (demo_connection c)), g_user_to_conn := (g_user_to_conn g)(u \<mapsto> c),
          g_send_callbacks := (g_send_callbacks g)(c \<mapsto> c), g_close_callbacks := (g_close_callbacks g)(c \<mapsto> c),
          g_posted := g_posted g @ [PostSend c (demo_login_answer u rid)]\<rparr>, gs',
        zs\<lparr>z_sessions := (z_sessions zs)\<lparr>ms_sessions := (ms_sessions (z_sessions zs))(u \<mapsto> demo_user_session u)\<rparr>\<rparr>, (demo_login_db u db, ()), b)\<rparr>)"
proof -
  let ?gt = "gt\<lparr>gt_sessions := (gt_sessions gt)(c \<mapsto> demo_ws_session c), gt_seq := gt_seq gt + 1,
    gt_service := (SetCloseCallback c c (SetSendCallback c c (AddConnection 0 c g)), (gs, zs, (db, ()), b))\<rparr>"
  have "gate_run (demo_gate chat grp) demo_addr gt (connect_events c) = Some ?gt"
    by (rule connect_events_run) (use assms in \<open>simp_all add: demo_conn_def\<close>)
  moreover have "gn_address demo_gate_node = demo_addr" by (simp add: demo_gate_node_def)
  ultimately show ?thesis
    using demo_login_run [of ?gt c "demo_ws_session c" _ gs zs db b u "demo_connection c" chat grp rid]
      demo_HandleLogin [OF assms(5,6), of "SetCloseCallback c c (SetSendCallback c c (AddConnection 0 c g))" c "demo_connection c" zs demo_gate_node chat grp rid gs b]
      assms(5-)
    by (cases gt; cases g)
      (auto simp: enter_events_def gate_run_append demo_ws_session_def WsSession_new_def SetCloseCallback_def SetSendCallback_def AddConnection_def demo_connection_def put_session_def)
qed

definition demo_gate_end :: "Gates \<Rightarrow> 'b \<Rightarrow> (Gates \<times> MemorySessions ZoneState \<times> ((string \<times> string) list \<times> unit) \<times> 'b) Gate" where
  "demo_gate_end gs b = \<lparr>gt_service = (demo_gate_state, gs, demo_zone_state, (demo_login_db bob (demo_login_db alice []), ()), b),
     gt_sessions = [demo_conn 0 \<mapsto> demo_ws_session (demo_conn 0), demo_conn 1 \<mapsto> demo_ws_session (demo_conn 1)],
     gt_seq = 2, gt_accepting = True, gt_stopped = False\<rparr>"

lemma demo_run: "\<exists>gs. gate_run (demo_gate chat grp) demo_addr (Gate_start (demo_world b)) demo_events = Some (demo_gate_end gs b)"
proof -
  let ?zs = "\<lparr>z_sessions = \<lparr>ms_sessions = Map.empty, ms_gates = [''gate'' \<mapsto> demo_gate_node]\<rparr>, z_gate_clients = Map.empty\<rparr>"
  let ?gt0 = "(Gate_start (demo_world b))\<lparr>gt_service := (GateState_empty, (\<lambda>a. GateState_empty)(demo_addr := GateState_empty), ?zs, ([], ()), b)\<rparr>"
  have reg: "gate_do (demo_gate chat grp) demo_addr (Gate_start (demo_world b)) RegisterRound = Some ?gt0"
    by (simp add: gate_do_def demo_register Gate_start_def demo_world_def MemorySessions_empty_def)
  have fresh: "ss_GetSession demo_sessions [] alice = None" by (simp add: RocksDBSessionStore_GetSession_def alist_db_def)
  obtain gs1 where ann: "gate_run (demo_gate chat grp) demo_addr ?gt0
      (enter_events (demo_conn 0) alice ''r1'') = Some \<lparr>gt_service =
        (\<lparr>g_connections = [demo_conn 0 \<mapsto> demo_bound alice (demo_connection (demo_conn 0))], g_user_to_conn = [alice \<mapsto> demo_conn 0],
           g_send_callbacks = [demo_conn 0 \<mapsto> demo_conn 0], g_close_callbacks = [demo_conn 0 \<mapsto> demo_conn 0],
           g_posted = [PostSend (demo_conn 0) (demo_login_answer alice ''r1'')]\<rparr>, gs1,
         \<lparr>z_sessions = \<lparr>ms_sessions = [alice \<mapsto> demo_user_session alice], ms_gates = [''gate'' \<mapsto> demo_gate_node]\<rparr>, z_gate_clients = Map.empty\<rparr>,
         (demo_login_db alice [], ()), b),
        gt_sessions = [demo_conn 0 \<mapsto> demo_ws_session (demo_conn 0)], gt_seq = 1, gt_accepting = True, gt_stopped = False\<rparr>" (is "_ = Some ?gt1")
    using demo_enter [of ?gt0 GateState_empty _ ?zs "[]" b "demo_conn 0" alice chat grp "''r1''"] fresh
    by (auto simp: Gate_start_def GateState_empty_def)
  obtain gs2 where "gate_run (demo_gate chat grp) demo_addr ?gt1
      (enter_events (demo_conn 1) bob ''r2'') = Some (demo_gate_end gs2 b)"
    using demo_enter [of ?gt1 _ gs1 _ "demo_login_db alice []" b "demo_conn 1" bob chat grp "''r2''"] demo_bob_fresh
    by (auto simp: demo_gate_end_def demo_gate_state_def demo_zone_state_def)
  then show ?thesis using reg ann by (auto simp: demo_events_def gate_run_append)
qed

lemma demo_reach: "\<exists>gs. gate_reach (demo_gate chat grp) demo_addr (demo_world b) (demo_gate_end gs b)"
proof -
  obtain gs where "gate_run (demo_gate chat grp) demo_addr (Gate_start (demo_world b)) demo_events = Some (demo_gate_end gs b)"
    by (rule exE [OF demo_run])
  from gate_run_reach [OF this gate_start] show ?thesis by (intro exI)
qed

end
