(* ===== verification/Business_Servers.thy ===== *)
theory Business_Servers
  imports Deployment_Demo
begin

text \<open>
  The chat server behind the zone server: its stubs are the gRPC handlers of \<^verbatim>\<open>chat_handler.cpp\<close> and \<^verbatim>\<open>group_handler.cpp\<close>,
  which find the caller in the metadata of the call.  The state of a server is a part of the state \<open>'b\<close> of the business
  servers, read by \<open>get\<close> and written by \<open>put\<close>; its clocks and random draws depend on that state.
\<close>

section \<open>Servers as stubs\<close>

definition host_call :: "('b \<Rightarrow> 's) \<Rightarrow> ('s \<Rightarrow> 'b \<Rightarrow> 'b) \<Rightarrow> ('s \<Rightarrow> 'a \<times> 's) \<Rightarrow> ('a, 'b) rpc" where
  "host_call get put f b = (Inr (fst (f (get b))), put (snd (f (get b))) b)"

definition host_read :: "('b \<Rightarrow> 's) \<Rightarrow> ('s \<Rightarrow> 'a) \<Rightarrow> ('a, 'b) rpc" where
  "host_read get f b = (Inr (f (get b)), b)"

record ('j, 'b) ServerEnv =
  env_json :: "'j nlohmann"
  env_hmac :: "string \<Rightarrow> string \<Rightarrow> string"
  env_secret :: string
  env_now :: "'b \<Rightarrow> int"
  env_draws :: "'b \<Rightarrow> nat list"

definition group_server :: "('j, 'b) ServerEnv \<Rightarrow> 's GroupStore \<Rightarrow> ('b \<Rightarrow> 's) \<Rightarrow> ('s \<Rightarrow> 'b \<Rightarrow> 'b) \<Rightarrow> 'b GroupStub" where
  "group_server E GS get put =
     (let J = env_json E; hmac = env_hmac E; secret = env_secret E; now = env_now E; draws = env_draws E in
      \<lparr>group_CreateGroup = (\<lambda>ctx creator name avatar members b. host_call get put
         (\<lambda>s. GroupHandler_CreateGroup GS J hmac secret (now b) (draws b) (now b) s (Some ctx) name avatar members) b),
       group_DismissGroup = (\<lambda>ctx gid operator b. host_call get put (\<lambda>s. GroupHandler_DismissGroup GS J hmac secret (now b) s (Some ctx) gid) b),
       group_GetGroupInfo = (\<lambda>ctx gid b. host_read get (\<lambda>s. GroupHandler_GetGroupInfo GS J hmac secret (now b) s (Some ctx) gid) b),
       group_GetGroupMembers = (\<lambda>ctx gid page size b.
         (case GroupHandler_GetGroupMembers GS J hmac secret (now b) (get b) (Some ctx) gid page size of
            None \<Rightarrow> (Inl [], b) | Some r \<Rightarrow> (Inr r, b))),
       group_GetUserGroups = (\<lambda>ctx uid b. host_read get (\<lambda>s. GroupHandler_GetUserGroups GS J hmac secret (now b) s (Some ctx)) b),
       group_InviteMembers = (\<lambda>ctx gid inviter members b. host_call get put
         (\<lambda>s. GroupHandler_InviteMembers GS J hmac secret (now b) (now b) s (Some ctx) gid members) b),
       group_RemoveMember = (\<lambda>ctx gid operator member b. host_call get put
         (\<lambda>s. GroupHandler_RemoveMember GS J hmac secret (now b) s (Some ctx) gid member) b),
       group_LeaveGroup = (\<lambda>ctx gid uid b. host_call get put (\<lambda>s. GroupHandler_LeaveGroup GS J hmac secret (now b) s (Some ctx) gid) b),
       group_TransferOwner = (\<lambda>ctx gid old new b. host_call get put
         (\<lambda>s. GroupHandler_TransferOwner GS J hmac secret (now b) s (Some ctx) gid new) b)\<rparr>)"

definition chat_server ::
  "('j, 'b) ServerEnv \<Rightarrow> ('m, 'c, 'r, 'g) ChatServiceCore \<Rightarrow> ('b \<Rightarrow> ('m, 'c, 'r, 'g) ChatState) \<Rightarrow> (('m, 'c, 'r, 'g) ChatState \<Rightarrow> 'b \<Rightarrow> 'b) \<Rightarrow> 'b ChatStub" where
  "chat_server E C get put =
     (let J = env_json E; hmac = env_hmac E; secret = env_secret E; now = env_now E; draws = env_draws E in
      \<lparr>chat_SendMessage = (\<lambda>ctx sender to ty content url mty mentions reply cid size b. host_call get put
         (\<lambda>s. ChatHandler_SendMessage C J hmac secret (now b) (draws b) (now b) s (Some ctx) to ty content url mty mentions reply) b),
       chat_RecallMessage = (\<lambda>ctx mid uid b. host_call get put (\<lambda>s. ChatHandler_RecallMessage C J hmac secret (now b) (now b) s (Some ctx) mid) b),
       chat_PullOffline = (\<lambda>ctx uid limit cursor b. host_read get (\<lambda>s. ChatHandler_PullOffline C J hmac secret (now b) s (Some ctx) limit cursor) b),
       chat_GetHistory = (\<lambda>ctx uid cid ty before limit b. host_call get put
         (\<lambda>s. ChatHandler_GetHistory C J hmac secret (now b) s (Some ctx) cid ty before limit) b),
       chat_SyncConversations = (\<lambda>ctx uid last b. host_read get (\<lambda>s. ChatHandler_SyncConversations C J hmac secret (now b) s (Some ctx)) b),
       chat_DeleteConversation = (\<lambda>ctx uid cid ty b. host_call get put
         (\<lambda>s. ChatHandler_DeleteConversation C J hmac secret (now b) s (Some ctx) cid ty) b),
       chat_MarkRead = (\<lambda>ctx uid cid ty mid b. host_call get put
         (\<lambda>s. ChatHandler_MarkRead C J hmac secret (now b) s (Some ctx) cid ty mid) b)\<rparr>)"

section \<open>Group commands\<close>

text \<open>The clients of the group service in the zone server send no token, so that the handlers refuse every call.\<close>

lemma no_caller [simp]: "GetAuthenticatedUserId J hmac now (Some (CreateContext [])) secret = []"
  by (simp add: GetAuthenticatedUserId_def CreateContext_def GetTokenFromContext_def Let_def)

lemma refused_caller: "common_call J hmac secret now s (Some (CreateContext [])) f = (SetCommonFail CommonResponse_default EC_TOKEN_INVALID [], s)"
  by (simp add: common_call_def)

lemma group_server_refuses:
  assumes "\<And>b. put (get b) b = b"
  shows "group_CreateGroup (group_server E GS get put) (CreateContext []) u n v ms b =
      (Inr \<lparr>resp_code = ErrorCodeToInt EC_TOKEN_INVALID, resp_message = ''token invalid or missing'', cgresp_group_id = []\<rparr>, b)"
    and "group_DismissGroup (group_server E GS get put) (CreateContext []) gid u b = (Inr (SetCommonFail CommonResponse_default EC_TOKEN_INVALID []), b)"
    and "group_GetGroupInfo (group_server E GS get put) (CreateContext []) gid b =
      (Inr \<lparr>resp_code = ErrorCodeToInt EC_TOKEN_INVALID, resp_message = ''token invalid or missing'', giresp_group = None\<rparr>, b)"
    and "group_GetGroupMembers (group_server E GS get put) (CreateContext []) gid page sz b =
      (Inr \<lparr>resp_code = ErrorCodeToInt EC_TOKEN_INVALID, resp_message = ''token invalid or missing'', gmresp_members = [], gmresp_total = 0\<rparr>, b)"
    and "group_GetUserGroups (group_server E GS get put) (CreateContext []) u b =
      (Inr \<lparr>resp_code = ErrorCodeToInt EC_TOKEN_INVALID, resp_message = ''token invalid or missing'', ugresp_groups = []\<rparr>, b)"
    and "group_InviteMembers (group_server E GS get put) (CreateContext []) gid u ms b = (Inr (SetCommonFail CommonResponse_default EC_TOKEN_INVALID []), b)"
    and "group_RemoveMember (group_server E GS get put) (CreateContext []) gid u v b = (Inr (SetCommonFail CommonResponse_default EC_TOKEN_INVALID []), b)"
    and "group_LeaveGroup (group_server E GS get put) (CreateContext []) gid u b = (Inr (SetCommonFail CommonResponse_default EC_TOKEN_INVALID []), b)"
    and "group_TransferOwner (group_server E GS get put) (CreateContext []) gid u v b = (Inr (SetCommonFail CommonResponse_default EC_TOKEN_INVALID []), b)"
  using assms
  by (simp_all add: group_server_def host_call_def host_read_def GroupHandler_CreateGroup_def GroupHandler_DismissGroup_def GroupHandler_GetGroupInfo_def
      GroupHandler_GetGroupMembers_def GroupHandler_GetUserGroups_def GroupHandler_InviteMembers_def GroupHandler_RemoveMember_def
      GroupHandler_LeaveGroup_def GroupHandler_TransferOwner_def refused_caller Let_def)

lemma fail_text_code: "hr_code (fail_text e txt rid) = ErrorCodeToInt EC_INTERNAL_ERROR"
  by (simp add: fail_text_def new_result_def)

text \<open>A command of the group domain, whatever its payload and token, changes nothing and is answered with an error.\<close>

definition refused :: "'z \<Rightarrow> HandleClientRequestResult \<times> 'z \<Rightarrow> bool" where
  "refused z r \<longleftrightarrow> snd r = z \<and> hr_code (fst r) \<noteq> 0"

lemmas refused_defs = refused_def lift_GroupStub_def lift_rpc_def with_client_def with_stub_def with_payload_def with_session_def with_answer_def
  rpc_reply_def rpc_outcome_def rpc_ok_def code_result_def error_result_def SetResultError_def new_result_def NotImplemented_def SetCommonFail_def ErrorCodeToInt_def
  fail_text_code Let_def

lemma group_commands_refused:
  fixes z :: "('s, Gates \<times> 'o \<times> 'b) zone"
  assumes "grp = \<lparr>gs_rpc_client = Some (Some (lift_GroupStub (group_server E GS get put)))\<rparr>" "\<And>b. put (get b) b = b"
  shows "refused z (group_create_cmd P grp payload rid z)" and "refused z (group_dismiss_cmd P grp payload rid z)"
    and "refused z (group_invite_members_cmd P grp payload rid z)" and "refused z (group_remove_member_cmd P grp payload rid z)"
    and "refused z (group_leave_cmd P grp payload rid z)" and "refused z (group_get_info_cmd P grp payload rid z)"
    and "refused z (group_get_members_cmd P grp payload rid z)" and "refused z (group_get_user_groups_cmd P grp uid payload rid z)"
proof -
  obtain zs gs o' b where z: "z = (zs, gs, o', b)" by (metis surj_pair)
  note refuses = group_server_refuses [of put get, OF assms(2)]
  show "refused z (group_create_cmd P grp payload rid z)"
    by (auto simp: assms(1) z group_create_cmd_def GroupSystem_CreateGroup_def GroupRpcClient_CreateGroup_def refuses refused_defs split: option.splits)
  show "refused z (group_dismiss_cmd P grp payload rid z)"
    by (auto simp: assms(1) z group_dismiss_cmd_def GroupSystem_DismissGroup_def GroupRpcClient_DismissGroup_def refuses refused_defs split: option.splits)
  show "refused z (group_invite_members_cmd P grp payload rid z)"
    by (auto simp: assms(1) z group_invite_members_cmd_def GroupSystem_InviteMembers_def GroupRpcClient_InviteMembers_def refuses refused_defs
        split: option.splits)
  show "refused z (group_remove_member_cmd P grp payload rid z)"
    by (auto simp: assms(1) z group_remove_member_cmd_def GroupSystem_RemoveMember_def GroupRpcClient_RemoveMember_def refuses refused_defs
        split: option.splits)
  show "refused z (group_leave_cmd P grp payload rid z)"
    by (auto simp: assms(1) z group_leave_cmd_def GroupSystem_LeaveGroup_def GroupRpcClient_LeaveGroup_def refuses refused_defs split: option.splits)
  show "refused z (group_get_info_cmd P grp payload rid z)"
    by (auto simp: assms(1) z group_get_info_cmd_def GroupSystem_GetGroupInfo_def GroupRpcClient_GetGroupInfo_def refuses refused_defs split: option.splits)
  show "refused z (group_get_members_cmd P grp payload rid z)"
    by (auto simp: assms(1) z group_get_members_cmd_def GroupSystem_GetGroupMembers_def GroupRpcClient_GetGroupMembers_def refuses refused_defs
        split: option.splits)
  show "refused z (group_get_user_groups_cmd P grp uid payload rid z)"
    by (auto simp: assms(1) z group_get_user_groups_cmd_def GroupSystem_GetUserGroups_def GroupRpcClient_GetUserGroups_def refuses refused_defs
        split: option.splits)
qed

lemma HandleGroup_refused:
  fixes z :: "('s, Gates \<times> 'o \<times> 'b) zone"
  assumes "bz_group B = group_server E GS get put" "\<And>b. put (get b) b = b"
  shows "refused z (HandleGroup ZP (deployed_manager indet B) uid cmd payload rid z)"
  using group_commands_refused [where get = get and put = put and E = E and GS = GS and z = z, OF refl assms(2)]
  by (simp add: HandleGroup_def deployed_manager_def assms(1) refused_def NotImplemented_def error_result_def SetResultError_def ErrorCodeToInt_def Let_def)

lemma group_notify_silent:
  fixes z :: "('s, Gates \<times> 'o \<times> 'b) zone"
  assumes "bz_group B = group_server E GS get put" "\<And>b. put (get b) b = b"
  shows "notify_chat Z (deployed_manager indet B) (ChatType_int GROUP) target skip cmd payload z = z"
  using group_server_refuses(4) [of put get E GS, OF assms(2)]
  by (cases z) (auto simp: notify_chat_def deployed_manager_def assms(1) GroupSystem_GetGroupMembers_def GroupRpcClient_GetGroupMembers_def
      lift_GroupStub_def lift_rpc_def with_client_def with_stub_def rpc_reply_def rpc_outcome_def ErrorCodeToInt_def ChatType_int_def split: prod.splits)

end
