(* ===== verification/Deployment_Properties.thy ===== *)
theory Deployment_Properties
  imports Business_Servers
begin

text \<open>
  What holds in every reachable state of a gate of the deployment.
\<close>

section \<open>Sessions and routes\<close>

text \<open>C8: A session of a reachable gate writes the messages posted to it in their order, without loss or repetition: the buffers
  given to \<^verbatim>\<open>async_write\<close> are an initial part of the messages posted.  At most one write is outstanding and its
  buffer is not touched meanwhile; a session that is open and has no outstanding write has written everything it was asked to so
  far, and one that has gets there once the write and those of its queue complete.\<close>

theorem messages_written_in_order:
  assumes "gate_reach (deployed_gate hostname config a GP (deployed_zone store P GP up indet B) expected now) addr w gt"
    and "gt_sessions gt c = Some s"
  shows "prefix (ws_started s) (sends (tasks_of c (fst (gt_service gt))))
    \<and> ws_outstanding s \<le> 1 \<and> (ws_outstanding s = 1 \<longrightarrow> ws_started s \<noteq> [] \<and> ws_write_buffer s = last (ws_started s))
    \<and> (\<not> ws_closed s \<and> ws_outstanding s = 0 \<longrightarrow> ws_started s = sends (take (ws_ran s) (tasks_of c (fst (gt_service gt)))))
    \<and> (\<not> ws_closed s \<longrightarrow> ws_started (((\<lambda>s. fst (OnWrite S False s z)) ^^ (length (ws_write_queue s) + ws_outstanding s)) s) =
         sends (take (ws_ran s) (tasks_of c (fst (gt_service gt)))))"
proof -
  let ?ts = "tasks_of c (fst (gt_service gt))"
  have ok: "ws_ok ?ts s" using reachable_session [OF assms] by (simp add: gsession_ok_def)
  have "prefix (ws_started s) (sends (take (ws_ran s) ?ts))" using ok by (auto simp: ws_ok_def prefix_def)
  moreover have "prefix (sends (take n ts)) (sends ts)" for n ts by (metis append_take_drop_id prefixI sends_append)
  ultimately have "prefix (ws_started s) (sends ?ts)" using prefix_order.trans by blast
  moreover have "ws_outstanding s \<le> 1" "ws_outstanding s = 1 \<longrightarrow> ws_started s \<noteq> [] \<and> ws_write_buffer s = last (ws_started s)"
    using ok unfolding ws_ok_def by (auto split: if_splits)
  moreover have "ws_started s @ ws_write_queue s = sends (take (ws_ran s) ?ts)" if "\<not> ws_closed s"
    using ok that unfolding ws_ok_def by blast
  moreover have "ws_write_queue s = []" if "\<not> ws_closed s \<and> ws_outstanding s = 0" using ok that unfolding ws_ok_def by fastforce
  ultimately show ?thesis using OnWrite_drains [OF ok, of S z] by (metis append_Nil2)
qed

theorem messages_written_in_order_witness:
  "\<exists>gt s. gate_reach (demo_gate no_chat no_group) demo_addr (demo_world ()) gt \<and> gt_sessions gt (demo_conn 0) = Some s
    \<and> ws_started s = [demo_login_answer alice ''r1''] \<and> ws_outstanding s = 1 \<and> ws_write_buffer s = last (ws_started s)"
proof -
  obtain gs where "gate_reach (demo_gate no_chat no_group) demo_addr (demo_world ()) (demo_gate_end gs ())" by (rule exE [OF demo_reach])
  moreover obtain gt where gt: "gate_do (demo_gate no_chat no_group) demo_addr (demo_gate_end gs ()) (RunPosted (demo_conn 0)) = Some gt"
    by (simp add: gate_do_def demo_gate_end_def demo_ws_session_def WsSession_new_def tasks_of_def demo_gate_state_def posted_session_def)
  ultimately have reach: "gate_reach (demo_gate no_chat no_group) demo_addr (demo_world ()) gt" by (auto simp: gate_step_iff [symmetric] intro: gate_next)
  obtain s where s: "gt_sessions gt (demo_conn 0) = Some s" "ws_started s = [demo_login_answer alice ''r1'']" "ws_outstanding s = 1"
    using gt by (auto simp: gate_do_def demo_gate_end_def demo_ws_session_def WsSession_new_def tasks_of_def demo_gate_state_def posted_session_def
        put_session_def run_posted_def QueueSend_def DoWrite_def)
  have "ws_write_buffer s = last (ws_started s)"
    using messages_written_in_order [OF reach [unfolded demo_gate_def demo_zone_def] s(1)] s(3) by blast
  with reach s show ?thesis by blast
qed

text \<open>C37: A push to a user goes to one connection: the one on record for the user, which is open and was authenticated as this very
  user.  It posts exactly the message to its session and reports success; without a connection on record nothing is posted
  and the answer is \<^verbatim>\<open>USER_OFFLINE\<close>.\<close>

theorem push_reaches_bound_user:
  assumes "gate_reach (deployed_gate hostname config a GP (deployed_zone store P GP up indet B) expected now) addr w gt"
    and "g = fst (gt_service gt)"
    and "gp_ser_ServerMessage GP \<lparr>sm_cmd = (if cmd = [] then ''message'' else cmd), sm_payload = payload, sm_request_id = [], sm_code = 0, sm_message = []\<rparr> =
      Some data"
  shows "case g_user_to_conn g u of
      None \<Rightarrow> GateInternalGrpcHandler_PushMessage GP u cmd payload g =
        (\<lparr>resp_code = ErrorCodeToInt EC_USER_OFFLINE, resp_message = ErrorCodeToString EC_USER_OFFLINE\<rparr>, g)
    | Some c \<Rightarrow> GateInternalGrpcHandler_PushMessage GP u cmd payload g = (\<lparr>resp_code = 0, resp_message = []\<rparr>, post_all [PostSend c data] g)
        \<and> (\<exists>k s. g_connections g c = Some k \<and> cn_user_id k = u \<and> cn_authenticated k
             \<and> gt_sessions gt c = Some s \<and> ws_phase s = Reading \<and> \<not> ws_closed s)"
proof (cases "g_user_to_conn g u")
  case None
  then show ?thesis
    by (simp add: GateInternalGrpcHandler_PushMessage_def PushToUser_def GetConnIdByUser_def verdict_response_def Let_def)
next
  case (Some c)
  note ok = reachable_ok [OF assms(1)]
  have "tables_ok (\<lambda>_ _. True) g" using ok assms(2) by (simp add: gate_ok_def world_ok_def)
  from tables_routeD [OF this Some] obtain k where k: "c \<noteq> []" "g_send_callbacks g c = Some c" "g_connections g c = Some k"
    "cn_user_id k = u" "cn_authenticated k" by blast
  then obtain s where s: "gt_sessions gt c = Some s" using ok assms(2) by (cases "gt_sessions gt c") (auto simp: gate_ok_def)
  then have "ws_phase s = Reading \<and> \<not> ws_closed s" using reachable_session [OF assms(1) s] k(3) assms(2) by (simp add: gsession_ok_def)
  then show ?thesis using Some k s assms(3)
    by (simp add: GateInternalGrpcHandler_PushMessage_def PushToUser_def GetConnIdByUser_def SendToConn_def verdict_response_def post_all_def
        ErrorCodeToInt_def Let_def)
qed

theorem push_reaches_bound_user_witness:
  "GateInternalGrpcHandler_PushMessage demo_gate_proto alice ''chat.message'' ''hello'' demo_gate_state =
    (\<lparr>resp_code = 0, resp_message = []\<rparr>, post_all [PostSend (demo_conn 0) (put_fields [''chat.message'', ''hello'', [], to_string 0, []])] demo_gate_state)"
proof -
  obtain gs where reach: "gate_reach (demo_gate no_chat no_group) demo_addr (demo_world ()) (demo_gate_end gs ())" by (rule exE [OF demo_reach])
  have "demo_gate_state = fst (gt_service (demo_gate_end gs ()))" by (simp add: demo_gate_end_def)
  from push_reaches_bound_user [OF reach [unfolded demo_gate_def demo_zone_def] this, of "''chat.message''" "''hello''" _ alice]
  show ?thesis by (simp add: demo_gate_proto_def demo_gate_state_def)
qed

text \<open>Every command of a client is answered, once, on its connection, with the command and the request identifier that the client
  sent, whatever the zone server and the servers behind it do; what is posted before the answer are pushes that
  arrived meanwhile.\<close>

lemma request_posts_answer:
  assumes "gate_reach (deployed_gate hostname config a GP (deployed_zone store P GP up indet B) expected now) addr w gt"
    and "gt_sessions gt c = Some s" and "ws_phase s = Reading" and "\<not> ws_closed s"
    and "\<And>m. gp_ser_ServerMessage GP m \<noteq> None" and "gp_ser_HeartbeatResponse GP server_time \<noteq> None"
    and "z = HandleClientMessage (deployed_gate hostname config a GP (deployed_zone store P GP up indet B) expected now) now_ms server_time c cmd payload
      request_id (gt_service gt)"
  shows "\<exists>ps rc msg answer data. gp_ser_ServerMessage GP
      \<lparr>sm_cmd = cmd, sm_payload = answer, sm_request_id = request_id, sm_code = rc, sm_message = msg\<rparr> = Some data
    \<and> g_posted (fst z) = g_posted (fst (gt_service gt)) @ ps @ [PostSend c data]"
proof -
  let ?S = "deployed_gate hostname config a GP (deployed_zone store P GP up indet B) expected now"
  have "answers ?S (\<lambda>_ _. True) (\<lambda>_. True) c cmd request_id (gt_service gt) z"
    unfolding assms(7) by (rule gate_zone.HandleClientMessage_answers [OF deployed_gate_any]) (simp add: assms(6))
  then obtain z1 rc msg answer where z1: "quiet (\<lambda>_ _. True) (\<lambda>_. True) (gt_service gt) z1"
    "z = respond ?S c cmd request_id rc msg answer z1" unfolding answers_def by blast
  have w: "world_ok (\<lambda>_ _. True) (\<lambda>_. True) (gt_service gt)" using reachable_ok [OF assms(1)] by (simp add: gate_ok_def)
  have conn: "g_connections (fst (gt_service gt)) c \<noteq> None" using reachable_session [OF assms(1,2)] assms(3,4) by (simp add: gsession_ok_def)
  have "tables_ok (\<lambda>_ _. True) (fst z1)" "g_connections (fst z1) c \<noteq> None"
    using z1(1) w conn quiet_none [OF z1(1)] by (auto simp: quiet_def world_ok_def)
  then have cb: "g_send_callbacks (fst z1) c = Some c" by (auto simp: tables_ok_def)
  obtain ps where ps: "g_posted (fst z1) = g_posted (fst (gt_service gt)) @ ps" using z1(1) by (auto simp: quiet_def)
  obtain data where "gp_ser_ServerMessage GP \<lparr>sm_cmd = cmd, sm_payload = answer, sm_request_id = request_id, sm_code = rc, sm_message = msg\<rparr> = Some data"
    using assms(5) by blast
  moreover from this have "g_posted (fst z) = g_posted (fst (gt_service gt)) @ ps @ [PostSend c data]"
    using cb ps by (simp add: z1(2) respond_def SendResponse_def SendToConn_def)
  ultimately show ?thesis by blast
qed

text \<open>C1: No client can make itself another user: in every reachable state of a gate, a connection that is bound to a user holds a
  token that the online server issued to that user.  The chain goes from the gate through the commands \<^verbatim>\<open>auth.login\<close> and
  \<^verbatim>\<open>auth.validate_token\<close> of the zone server to the sessions of the online server, which may start in any state that
  an empty store reaches.  The clocks
  of the online server show times before 2038.\<close>

theorem bound_connections_hold_issued_tokens:
  assumes "store_env R J" and "db_Get R db0 = Map.empty" and "online_reach (RocksDBSessionStore R J) J hmac secret db0 db"
    and "\<And>t. clock_ok (clock t)"
    and "bz_online B = online_server (RocksDBSessionStore R J) J hmac secret clock tick" and "protos_agree (zp_auth P) GP"
    and "gate_reach (deployed_gate hostname config a GP (deployed_zone store P GP up indet B) expected now) addr (gs0, zs0, (db, t0), b0) gt"
    and "g_connections (fst (gt_service gt)) c = Some k"
  shows "(cn_authenticated k \<longleftrightarrow> cn_user_id k \<noteq> [])
    \<and> (cn_user_id k \<noteq> [] \<longrightarrow> (\<exists>t. cn_token k = JwtCreate J hmac t (cn_user_id k) secret 168 []))"
  using reachable_connection [OF assms] by (auto simp: issued_to_def)

theorem bound_connections_hold_issued_tokens_witness:
  "\<exists>gs k. gate_reach (demo_gate no_chat no_group) demo_addr (demo_world ()) (demo_gate_end gs ())
    \<and> g_connections (fst (gt_service (demo_gate_end gs ()))) (demo_conn 0) = Some k \<and> cn_user_id k = alice
    \<and> (\<exists>t. cn_token k = JwtCreate text_json demo_hmac t alice ''key'' 168 [])"
proof -
  obtain gs where reach: "gate_reach (demo_gate no_chat no_group) demo_addr (demo_world ()) (demo_gate_end gs ())" by (rule exE [OF demo_reach])
  define k where "k = demo_bound alice (demo_connection (demo_conn 0))"
  have k: "g_connections (fst (gt_service (demo_gate_end gs ()))) (demo_conn 0) = Some k" "cn_user_id k = alice"
    by (simp_all add: k_def demo_gate_end_def demo_gate_state_def demo_bound_def)
  have "\<exists>t. cn_token k = JwtCreate text_json demo_hmac t alice ''key'' 168 []"
    using bound_connections_hold_issued_tokens [OF alist_env.store_env_axioms _ online_reach.start _ _ _
        reach [unfolded demo_gate_def demo_zone_def demo_world_def] k(1), of "\<lambda>t i. 1700000000000" demo_hmac "''key''" id] k(2)
    by (simp add: clock_ok_def alist_db_def demo_business_def demo_online_def demo_zone_proto_def demo_protos_agree)
  with reach k show ?thesis by (elim exE) (intro exI conjI)
qed

end
