(* ===== verification/End_To_End.thy ===== *)
theory End_To_End
  imports Business_Servers
begin

text \<open>
  What a client can change behind the gate.  A command of a client carries the token of its connection, so that the chat
  server acts for the user that the connection is bound to, whatever the payload says.
\<close>

section \<open>From the gate to the business servers\<close>

definition behind :: "GateState \<times> Gates \<times> 's ZoneState \<times> 'r \<Rightarrow> 'r" where
  "behind z = snd (snd (snd z))"

lemma behind_gate [simp]: "behind (apfst f z) = behind z" "behind (g, snd z) = behind z"
  by (simp_all add: behind_def)

lemma respond_behind [simp]: "behind (respond S c cmd rid rc msg payload z) = behind z"
  by (simp add: respond_def)

context business_frame
begin

lemma seen_from_moves:
  assumes "\<And>z. calm R z (snd (f z))"
  shows "R (behind z) (behind (snd (seen_from a f z)))"
proof -
  obtain g gs zs r where z: "z = (g, gs, zs, r)" by (metis surj_pair)
  obtain x zs' gs' r' where f: "f (zs, gs(a := g), r) = (x, zs', gs', r')" by (metis surj_pair)
  show ?thesis using assms [of "(zs, gs(a := g), r)"] by (simp add: z f seen_from_def behind_def)
qed

lemma zone_request_moves:
  assumes "CreateContext token \<in> X" "\<And>req. parse_ChatSendMessagePayload (zp_chat P) payload = Some req \<Longrightarrow> ids (pcsm_to_id req)"
  shows "R (behind z) (behind (snd (zone_HandleClientRequest (zone_of_gate a (zone_server (deployed_zone store P GP up indet B) expected now))
    ctx c u cmd payload rid token z)))"
proof -
  have "calm R z (snd (HandleClientRequest (deployed_zone store P GP up indet B) c u cmd payload rid token z))" for z
    using HandleClientRequest_frame [OF assms, where z = z] unfolding frame_def by blast
  then show ?thesis unfolding zone_of_gate_def zone_server_def ZoneStub.simps ZoneHandler_HandleClientRequest_def
    by (intro seen_from_moves guarded_calm)
qed

lemma zone_online_moves:
  "R (behind z) (behind (snd (zone_UserOnline (zone_of_gate a (zone_server Z expected now)) ctx u g ty d z)))"
  unfolding zone_of_gate_def zone_server_def ZoneStub.simps by (intro seen_from_moves guarded_calm handlers_calm)

lemma forward_moves:
  assumes "zrc_stub client = Some (zone_of_gate a (zone_server (deployed_zone store P GP up indet B) expected now))" "CreateContext token \<in> X"
    and "\<And>req. parse_ChatSendMessagePayload (zp_chat P) payload = Some req \<Longrightarrow> ids (pcsm_to_id req)"
  shows "R (behind z) (behind (snd (ZoneRpcClient_HandleClientRequest client c u cmd payload rid token z)))"
  using zone_request_moves [OF assms(2,3), where z = z] by (simp add: ZoneRpcClient_HandleClientRequest_def assms(1))

lemma report_moves:
  assumes "zrc_stub client = Some (zone_of_gate a (zone_server Z expected now))"
  shows "R (behind z) (behind (snd (ZoneRpcClient_UserOnline client u g ty d z)))"
  using zone_online_moves [where z = z] by (simp add: ZoneRpcClient_UserOnline_def zone_call_def assms)

lemma HandleLogin_moves:
  assumes "gs_zone_client S = Some client" "zrc_stub client = Some (zone_of_gate a (zone_server (deployed_zone store P GP up indet B) expected now))"
    and "\<And>req. parse_ChatSendMessagePayload (zp_chat P) payload = Some req \<Longrightarrow> ids (pcsm_to_id req)"
  shows "R (behind z) (behind (HandleLogin S c payload rid z))"
proof -
  obtain sent result z1 where call: "ZoneRpcClient_HandleClientRequest client c [] ''auth.login'' payload rid [] z = ((sent, result), z1)" by (metis surj_pair)
  have moved: "R (behind z) (behind z1)" using forward_moves [OF assms(2) no_token assms(3), where z = z] call by (metis snd_conv)
  have "R (behind z) (behind (snd (ZoneRpcClient_UserOnline client u g ty d (g', snd z1))))" for u g ty d g'
    using R_trans [OF moved] report_moves [OF assms(2), where z = "(g', snd z1)"] by simp
  then show ?thesis using moved call
    by (auto simp: HandleLogin_def assms(1) respond_error_def respond_failed_def Let_def split: option.splits prod.splits)
qed

lemma ForwardToZone_moves:
  assumes "gs_zone_client S = Some client" "zrc_stub client = Some (zone_of_gate a (zone_server (deployed_zone store P GP up indet B) expected now))"
    and "\<And>req. parse_ChatSendMessagePayload (zp_chat P) payload = Some req \<Longrightarrow> ids (pcsm_to_id req)"
    and "CreateContext (case g_connections (fst z) c of Some k \<Rightarrow> cn_token k | None \<Rightarrow> []) \<in> X"
  shows "R (behind z) (behind (ForwardToZone S c cmd payload rid z))"
proof -
  let ?u = "case g_connections (fst z) c of Some k \<Rightarrow> cn_user_id k | None \<Rightarrow> []"
  let ?t = "case g_connections (fst z) c of Some k \<Rightarrow> cn_token k | None \<Rightarrow> []"
  obtain sent result z1 where call: "ZoneRpcClient_HandleClientRequest client c ?u cmd payload rid ?t z = ((sent, result), z1)" by (metis surj_pair)
  have moved: "R (behind z) (behind z1)" using forward_moves [OF assms(2,4,3), where z = z] call by (metis snd_conv)
  have "R (behind z) (behind (bind_validated S client c cmd payload result z1))"
    using moved R_trans [OF moved] report_moves [OF assms(2)] by (simp add: bind_validated_def Let_def) (metis behind_gate(1))
  then show ?thesis using moved call by (simp add: ForwardToZone_def assms(1) respond_failed_def Let_def)
qed

lemma HandleClientMessage_moves:
  assumes "S = deployed_gate hostname config a GP (deployed_zone store P GP up indet B) expected now"
    and "\<And>req. parse_ChatSendMessagePayload (zp_chat P) payload = Some req \<Longrightarrow> ids (pcsm_to_id req)"
    and "CreateContext (case g_connections (fst z) c of Some k \<Rightarrow> cn_token k | None \<Rightarrow> []) \<in> X"
  shows "R (behind z) (behind (HandleClientMessage S now_ms server_time c cmd payload rid z))"
proof -
  obtain client where "gs_zone_client S = Some client" "zrc_stub client = Some (zone_of_gate a (zone_server (deployed_zone store P GP up indet B) expected now))"
    by (simp add: assms(1) deployed_gate_def GateService_Init_def)
  note moves = HandleLogin_moves [OF this assms(2)] ForwardToZone_moves [OF this assms(2,3)]
  show ?thesis using moves
    by (simp add: HandleClientMessage_def HandleHeartbeat_def respond_error_def Let_def split: option.splits)
qed

end

section \<open>Whom the chat server acts for\<close>

lemma issued_caller:
  assumes "json_laws J" "issued_to J hmac secret u token"
  shows "GetAuthenticatedUserId J hmac now (Some (CreateContext token)) secret \<in> {[], u}"
proof -
  obtain t where t: "0 \<le> t" "t div 1000 + 7 * 24 * 3600 < 2 ^ 31" "token = JwtCreate J hmac t u secret 168 []"
    using assms(2) unfolding issued_to_def by blast
  have "GetTokenFromContext (CreateContext token) = token" unfolding t(3) CreateContext_def
    by (simp add: JwtCreate_not_Nil) (rule GetTokenFromContext_bearer [unfolded kBearerPrefix_def kAuthHeader_def], auto simp: JwtCreate_not_Nil dest: JwtCreate_no_blank)
  moreover have "is_int64 (t div 1000)" "is_int64 (t div 1000 + 168 * 3600)" using t(1,2) by (auto simp: is_int64_def)
  then have "jwt_user_id (JwtVerify J hmac now token secret) = u"
    unfolding t(3) by (simp add: json_laws.JwtVerify_created [OF assms(1)] Let_def)
  ultimately show ?thesis by (simp add: GetAuthenticatedUserId_def Let_def)
qed

definition sent_by :: "('m, 'c, 'r, 'g) ChatServiceCore \<Rightarrow> string \<Rightarrow> ('m, 'c, 'r, 'g) ChatState \<Rightarrow> ('m, 'c, 'r, 'g) ChatState \<Rightarrow> bool" where
  "sent_by C u s s' \<longleftrightarrow> (\<forall>mid. ChatServiceCore_GetMessageById C s' mid \<noteq> ChatServiceCore_GetMessageById C s mid \<longrightarrow>
     (\<exists>d. ChatServiceCore_GetMessageById C s' mid = Some d \<and> md_from_user_id d = u))"

lemma sent_by_refl [simp]: "sent_by C u s s"
  by (simp add: sent_by_def)

lemma sent_by_trans: "sent_by C u s t \<Longrightarrow> sent_by C u t v \<Longrightarrow> sent_by C u s v"
  unfolding sent_by_def by metis

lemma chat_dispatch_effect:
  assumes "store_env R J" "empty_chat R s0" "chat_reach clean (rocksdb_chat R J) (RocksDBGroupStore R J) s0 s"
    and "GetAuthenticatedUserId J hmac now_ms x jwt_secret \<in> {[], u}" "u = [] \<or> account_id u"
    and "chat_rpc_ok rpc" "draws_ok 16 draws" "Chat_Service_Laws.clock_ok now"
    and "chat_dispatch (rocksdb_chat R J) J hmac jwt_secret now_ms draws now s x rpc = (ec, s')"
  shows "chat_reach clean (rocksdb_chat R J) (RocksDBGroupStore R J) s0 s' \<and> sent_by (rocksdb_chat R J) u s s' \<and> (u = [] \<longrightarrow> s' = s)"
proof (cases "GetAuthenticatedUserId J hmac now_ms x jwt_secret = []")
  case True
  then have "s' = s" using assms(9) chat_dispatch_unauthenticated by (metis snd_conv)
  with assms(3) show ?thesis by simp
next
  case False
  then have caller: "GetAuthenticatedUserId J hmac now_ms x jwt_secret = u" "account_id u" using assms(4,5) by auto
  note c = store_env.rocksdb_chat_stores [OF assms(1)]
  have inv: "chat_stores.chat_inv (message_inv R J) (conversation_inv R J) (group_inv R J) (group_abs R J) s"
    using chat_stores.chat_reach_effect [OF c, folded rocksdb_chat_def, OF assms(3) store_env.empty_chat_state(6) [OF assms(1,2)]]
      store_env.empty_chat_state(4) [OF assms(1,2)] by simp
  note e = chat_stores.chat_dispatch_by [OF c caller assms(6-8) inv, folded rocksdb_chat_def, OF assms(9)]
  have r: "chat_reach clean (rocksdb_chat R J) (RocksDBGroupStore R J) s0 s'" using e assms(3) chat_reach.step by blast
  have m: "message_inv R J (cs_msg s)" "message_inv R J (cs_msg s')"
    using store_env.chat_reach_facts(1) [OF assms(1,2)] assms(3) r by blast+
  from e r show ?thesis
    unfolding sent_by_def GetMessageById_eq [OF assms(1) m(1)] GetMessageById_eq [OF assms(1) m(2)] messages_by_def using False assms(4) by blast
qed

text \<open>The relation between the states of the chat server before and after a command of the user \<open>u\<close>.\<close>

definition chat_moved where
  "chat_moved R J s0 u get p q \<longleftrightarrow> chat_reach clean (rocksdb_chat R J) (RocksDBGroupStore R J) s0 (get (snd p)) \<longrightarrow>
     chat_reach clean (rocksdb_chat R J) (RocksDBGroupStore R J) s0 (get (snd q)) \<and> sent_by (rocksdb_chat R J) u (get (snd p)) (get (snd q))
       \<and> (u = [] \<longrightarrow> get (snd q) = get (snd p))"

definition same_chat where
  "same_chat get p q \<longleftrightarrow> get (snd q) = get (snd p)"

lemma same_chat_moved: "same_chat get p q \<Longrightarrow> chat_moved R J s0 u get p q"
  by (simp add: same_chat_def chat_moved_def)

lemma chat_call_moved:
  assumes "store_env R J" "empty_chat R s0" "u = [] \<or> account_id u" "env_json E = J"
    and "\<And>s b. get (put s b) = s" "\<And>b. draws_ok 16 (env_draws E b)" "\<And>b. Chat_Service_Laws.clock_ok (env_now E b)"
    and "GetAuthenticatedUserId J (env_hmac E) (env_now E b) (Some ctx) (env_secret E) \<in> {[], u}" "chat_rpc_ok rpc"
  shows "chat_moved R J s0 u get (o', b)
    (o', put (snd (chat_dispatch (rocksdb_chat R J) J (env_hmac E) (env_secret E) (env_now E b) (env_draws E b) (env_now E b) (get b) (Some ctx) rpc)) b)"
  using chat_dispatch_effect [OF assms(1,2) _ assms(8,3,9,6,7) prod.collapse [symmetric]] by (simp add: chat_moved_def assms(5))

lemma chat_server_moves:
  assumes "store_env R J" "empty_chat R s0" "u = [] \<or> account_id u" "env_json E = J"
    and "\<And>s b. get (put s b) = s" "\<And>b. draws_ok 16 (env_draws E b)" "\<And>b. Chat_Service_Laws.clock_ok (env_now E b)"
    and "\<And>b ctx. ctx \<in> X \<Longrightarrow> GetAuthenticatedUserId J (env_hmac E) (env_now E b) (Some ctx) (env_secret E) \<in> {[], u}"
  shows "chat_moves (chat_moved R J s0 u get :: 'o \<times> 'b \<Rightarrow> 'o \<times> 'b \<Rightarrow> bool) X clean (chat_server E (rocksdb_chat R J) get put)"
proof -
  have moved: "chat_moved R J s0 u get (o', b)
      (o', put (snd (chat_dispatch (rocksdb_chat R J) J (env_hmac E) (env_secret E) (env_now E b) (env_draws E b) (env_now E b) (get b) (Some ctx) rpc)) b)"
    if "ctx \<in> X" "chat_rpc_ok rpc" for ctx rpc b and o' :: 'o
    by (rule chat_call_moved [OF assms(1-7) assms(8) [OF that(1)] that(2)])
  have same: "chat_moved R J s0 u get p p" for p :: "'o \<times> 'b" by (simp add: chat_moved_def)
  show ?thesis
    unfolding chat_moves_def rpc_moves_def chat_server_def host_call_def host_read_def Let_def ChatStub.simps assms(4)
    using moved [of _ "Chat_SendMessage x1 x2 x3 x4 x5 x6 x7" for x1 x2 x3 x4 x5 x6 x7] moved [of _ "Chat_RecallMessage x" for x]
      moved [of _ "Chat_MarkRead x1 x2 x3" for x1 x2 x3] moved [of _ "Chat_GetHistory x1 x2 x3 x4" for x1 x2 x3 x4]
      moved [of _ "Chat_DeleteConversation x1 x2" for x1 x2] same
    by simp
qed

lemma chat_frame:
  fixes B :: "('o, 'b) Business"
  assumes "store_env R J" "empty_chat R s0" "u = [] \<or> account_id u" "env_json E = J"
    and "\<And>s b. get (put s b) = s" "\<And>b. draws_ok 16 (env_draws E b)" "\<And>b. Chat_Service_Laws.clock_ok (env_now E b)"
    and "\<And>b ctx. ctx \<in> X \<Longrightarrow> GetAuthenticatedUserId J (env_hmac E) (env_now E b) (Some ctx) (env_secret E) \<in> {[], u}"
    and "CreateContext [] \<in> X" "\<And>b. put (get b) b = b"
    and "bz_chat B = chat_server E (rocksdb_chat R J) get put"
    and "bz_group B = group_server E (RocksDBGroupStore R J) (\<lambda>b. cs_grp (get b)) (\<lambda>g b. put ((get b)\<lparr>cs_grp := g\<rparr>) b)"
    and "auth_moves (same_chat get :: 'o \<times> 'b \<Rightarrow> 'o \<times> 'b \<Rightarrow> bool) UNIV (bz_auth B)" "friend_moves (same_chat get :: 'o \<times> 'b \<Rightarrow> 'o \<times> 'b \<Rightarrow> bool) UNIV (bz_friend B)"
    and "file_moves (same_chat get :: 'o \<times> 'b \<Rightarrow> 'o \<times> 'b \<Rightarrow> bool) (bz_file B)"
  shows "business_frame (chat_moved R J s0 u get) B X clean"
proof
  show "chat_moves (chat_moved R J s0 u get :: 'o \<times> 'b \<Rightarrow> 'o \<times> 'b \<Rightarrow> bool) X clean (bz_chat B)" unfolding assms(11) by (rule chat_server_moves [OF assms(1-8)])
  show "auth_moves (chat_moved R J s0 u get :: 'o \<times> 'b \<Rightarrow> 'o \<times> 'b \<Rightarrow> bool) X (bz_auth B)"
    "friend_moves (chat_moved R J s0 u get :: 'o \<times> 'b \<Rightarrow> 'o \<times> 'b \<Rightarrow> bool) X (bz_friend B)"
    "file_moves (chat_moved R J s0 u get :: 'o \<times> 'b \<Rightarrow> 'o \<times> 'b \<Rightarrow> bool) (bz_file B)"
    using assms(13-15) by (simp_all add: auth_moves_def friend_moves_def file_moves_def rpc_moves_def same_chat_moved)
  have "(\<lambda>g b. put ((get b)\<lparr>cs_grp := g\<rparr>) b) (cs_grp (get b)) b = b" for b using assms(10) by simp
  note refuses = group_server_refuses [of "\<lambda>g b. put ((get b)\<lparr>cs_grp := g\<rparr>) b" "\<lambda>b. cs_grp (get b)", OF this]
  show "group_moves (chat_moved R J s0 u get :: 'o \<times> 'b \<Rightarrow> 'o \<times> 'b \<Rightarrow> bool) (bz_group B)"
    unfolding assms(12) group_moves_def rpc_moves_def by (simp add: refuses chat_moved_def)
qed (use assms(9) sent_by_trans in \<open>auto simp: chat_moved_def online_moves_def\<close>)

section \<open>Acting as the bound user\<close>

text \<open>The chat server of the deployment checks tokens with the secret of the online server, and no other server has its data.\<close>

definition chat_deployed where
  "chat_deployed R J hmac secret E get put (B :: ('o, 'b) Business) \<longleftrightarrow>
     env_json E = J \<and> env_hmac E = hmac \<and> env_secret E = secret \<and>
     (\<forall>b. draws_ok 16 (env_draws E b)) \<and> (\<forall>b. Chat_Service_Laws.clock_ok (env_now E b)) \<and>
     (\<forall>s b. get (put s b) = s) \<and> (\<forall>b. put (get b) b = b) \<and>
     bz_chat B = chat_server E (rocksdb_chat R J) get put \<and>
     bz_group B = group_server E (RocksDBGroupStore R J) (\<lambda>b. cs_grp (get b)) (\<lambda>g b. put ((get b)\<lparr>cs_grp := g\<rparr>) b) \<and>
     auth_moves (same_chat get :: 'o \<times> 'b \<Rightarrow> 'o \<times> 'b \<Rightarrow> bool) UNIV (bz_auth B) \<and>
     friend_moves (same_chat get :: 'o \<times> 'b \<Rightarrow> 'o \<times> 'b \<Rightarrow> bool) UNIV (bz_friend B) \<and>
     file_moves (same_chat get :: 'o \<times> 'b \<Rightarrow> 'o \<times> 'b \<Rightarrow> bool) (bz_file B)"

lemma chat_deployed_frame:
  assumes "store_env R J" "empty_chat R s0" "chat_deployed R J hmac secret E get put B"
    and "u = [] \<or> account_id u" "if u = [] then token = [] else issued_to J hmac secret u token"
  shows "business_frame (chat_moved R J s0 u get) B {CreateContext [], CreateContext token} clean"
proof -
  have J: "json_laws J" using assms(1) by (simp add: store_env_def)
  have caller: "GetAuthenticatedUserId J (env_hmac E) (env_now E b) (Some ctx) (env_secret E) \<in> {[], u}"
    if "ctx \<in> {CreateContext [], CreateContext token}" for b ctx
    using that assms(3,5) issued_caller [OF J, of hmac secret u token] by (auto simp: chat_deployed_def split: if_splits)
  show ?thesis
    by (rule chat_frame [OF assms(1,2,4) _ _ _ _ caller]) (use assms(3) in \<open>simp_all add: chat_deployed_def\<close>)
qed

text \<open>C2: Through a gate a client acts as the user that its connection is bound to, and as nobody else: after any command, with any
  payload, every message of the chat server that is new or different has that user as its sender; a connection
  that is bound to no user changes nothing there.  The gates, the zone server, the online server and the chat server take part:
  the token of the connection goes with the command to the chat server, which takes the sender from it.  Account ids, and the receiver that the
  payload names, have no colon.\<close>

theorem clients_act_as_bound_user:
  assumes "store_env R J" and "db_Get R db0 = Map.empty" and "online_reach (RocksDBSessionStore R J) J hmac secret db0 db"
    and "\<And>t. Online_Service.clock_ok (clock t)"
    and "bz_online B = online_server (RocksDBSessionStore R J) J hmac secret clock tick" and "protos_agree (zp_auth P) GP"
    and "empty_chat R s0" and "chat_deployed R J hmac secret E get put B"
    and "S = deployed_gate hostname config a GP (deployed_zone store P GP up indet B) expected now"
    and "gate_reach S addr (gs0, zs0, (db, t0), b0) gt"
    and "g_connections (fst (gt_service gt)) c = Some k" and "cn_user_id k = [] \<or> account_id (cn_user_id k)"
    and "\<And>req. parse_ChatSendMessagePayload (zp_chat P) payload = Some req \<Longrightarrow> clean (pcsm_to_id req)"
    and "s = get (snd (behind (gt_service gt)))" and "chat_reach clean (rocksdb_chat R J) (RocksDBGroupStore R J) s0 s"
    and "s' = get (snd (behind (HandleClientMessage S now_ms server_time c cmd payload rid (gt_service gt))))"
  shows "chat_reach clean (rocksdb_chat R J) (RocksDBGroupStore R J) s0 s' \<and> (cn_user_id k = [] \<longrightarrow> s' = s)
    \<and> (\<forall>mid. ChatServiceCore_GetMessageById (rocksdb_chat R J) s' mid \<noteq> ChatServiceCore_GetMessageById (rocksdb_chat R J) s mid \<longrightarrow>
         (\<exists>d. ChatServiceCore_GetMessageById (rocksdb_chat R J) s' mid = Some d \<and> md_from_user_id d = cn_user_id k))"
proof -
  have "if cn_user_id k = [] then cn_token k = [] else issued_to J hmac secret (cn_user_id k) (cn_token k)"
    using reachable_connection [OF assms(1-6) assms(10) [unfolded assms(9)] assms(11)] by blast
  from business_frame.HandleClientMessage_moves [OF chat_deployed_frame [OF assms(1,7,8,12) this] assms(9,13),
      where z = "gt_service gt" and c = c and now_ms = now_ms and server_time = server_time and cmd = cmd and rid = rid]
  have "chat_moved R J s0 (cn_user_id k) get (behind (gt_service gt)) (behind (HandleClientMessage S now_ms server_time c cmd payload rid (gt_service gt)))"
    using assms(11) by simp
  then show ?thesis using assms(14-16) by (simp add: chat_moved_def sent_by_def)
qed

definition demo_env where
  "demo_env = \<lparr>env_json = text_json, env_hmac = demo_hmac, env_secret = ''key'', env_now = (\<lambda>b. 1700000000000), env_draws = (\<lambda>b. chat_demo_draws 2)\<rparr>"

definition demo_chat where
  "demo_chat = chat_server demo_env (rocksdb_chat alist_db text_json) (\<lambda>b. b) (\<lambda>s b. s)"

definition demo_group where
  "demo_group = group_server demo_env (RocksDBGroupStore alist_db text_json) cs_grp (\<lambda>g b. b\<lparr>cs_grp := g\<rparr>)"

lemma demo_chat_deployed: "chat_deployed alist_db text_json demo_hmac ''key'' demo_env (\<lambda>b. b) (\<lambda>s b. s) (demo_business demo_chat demo_group)"
  by (simp add: chat_deployed_def demo_env_def chat_demo_draws_ok Chat_Service_Laws.clock_ok_def MAX_TS_def demo_business_def demo_chat_def demo_group_def
      auth_moves_def friend_moves_def file_moves_def rpc_moves_def same_chat_def demo_auth_def no_friend_def no_file_def no_answer_def)

text \<open>A message to \<open>bob\<close>, with any sender that the payload may claim.\<close>

definition demo_send :: "string \<Rightarrow> string" where
  "demo_send from = put_fields [from, bob, to_string 1, ''hello'', [], [], [], to_string 0, []]"

lemma demo_send_parsed: "parse_ChatSendMessagePayload demo_chat_proto (demo_send from) = Some
    \<lparr>pcsm_from_user_id = from, pcsm_to_id = bob, pcsm_chat_type = 1, pcsm_content = ''hello'', pcsm_media_url = [], pcsm_media_type = [],
     pcsm_client_msg_id = [], pcsm_file_size = 0, pcsm_mentions = [], pcsm_reply_to_msg_id = []\<rparr>"
  by (simp add: demo_chat_proto_def demo_send_def)

theorem clients_act_as_bound_user_witness:
  "\<exists>gs. let s' = snd (behind (HandleClientMessage (demo_gate demo_chat demo_group) 0 0 (demo_conn 0) ''chat.send_message'' (demo_send bob) ''r3''
        (gt_service (demo_gate_end gs chat_demo0))))
   in {mid. ChatServiceCore_GetMessageById (rocksdb_chat alist_db text_json) s' mid \<noteq>
        ChatServiceCore_GetMessageById (rocksdb_chat alist_db text_json) chat_demo0 mid}
      \<subseteq> {mid. \<exists>d. ChatServiceCore_GetMessageById (rocksdb_chat alist_db text_json) s' mid = Some d \<and> md_from_user_id d = alice}"
proof -
  obtain gs where reach: "gate_reach (demo_gate demo_chat demo_group) demo_addr (demo_world chat_demo0) (demo_gate_end gs chat_demo0)" by (rule exE [OF demo_reach])
  define k where "k = demo_bound alice (demo_connection (demo_conn 0))"
  have k: "g_connections (fst (gt_service (demo_gate_end gs chat_demo0))) (demo_conn 0) = Some k" "cn_user_id k = alice"
    by (simp_all add: k_def demo_gate_end_def demo_gate_state_def demo_bound_def)
  have s: "chat_demo0 = snd (behind (gt_service (demo_gate_end gs chat_demo0)))" by (simp add: demo_gate_end_def behind_def)
  have db: "db_Get alist_db [] = Map.empty" by (simp add: alist_db_def)
  have online: "bz_online (demo_business demo_chat demo_group) = online_server demo_sessions text_json demo_hmac ''key'' (\<lambda>t i. 1700000000000) id"
    by (simp add: demo_business_def demo_online_def)
  have protos: "protos_agree (zp_auth demo_zone_proto) demo_gate_proto" by (simp add: demo_zone_proto_def demo_protos_agree)
  have clock: "Online_Service.clock_ok (\<lambda>i. 1700000000000)" by (simp add: Online_Service.clock_ok_def)
  have bob: "clean (pcsm_to_id req)" if "parse_ChatSendMessagePayload (zp_chat demo_zone_proto) (demo_send bob) = Some req" for req
    using that chat_demo_ids(4) by (auto simp: demo_zone_proto_def demo_send_parsed id_ok_def)
  from clients_act_as_bound_user [OF alist_env.store_env_axioms db online_reach.start clock online protos chat_demo0_empty demo_chat_deployed
      demo_gate_def [unfolded demo_zone_def] reach [unfolded demo_world_def] k(1) _ bob s chat_reach.start refl,
      where now_ms = 0 and server_time = 0 and cmd = "''chat.send_message''" and rid = "''r3''"]
  show ?thesis using chat_demo_ids(1) k(2) by (auto simp: Let_def)
qed

end
