(* ===== verification/Zone_Properties.thy ===== *)
theory Zone_Properties
  imports End_To_End
begin

text \<open>
  Commands of clients that reach other users: groups, private messages, and the routes of a gate.
\<close>

section \<open>Groups\<close>

text \<open>C38: Through the zone server nobody can use groups: its clients of the group service send no token, so that the group service
  refuses every call.  Every command of the group domain, with every payload and token, is answered with an error and
  changes nothing at all, and a message or a read receipt in a group is never passed on to its members.\<close>

theorem group_commands_rejected:
  fixes z :: "('s, Gates \<times> 'o \<times> 'b) zone"
  assumes "bz_group B = group_server E GS get put" and "\<And>b. put (get b) b = b" and "cmd_prefix cmd = ''group''"
  shows "snd (HandleClientRequest (deployed_zone store P GP up indet B) c uid cmd payload rid token z) = z
    \<and> hr_code (fst (HandleClientRequest (deployed_zone store P GP up indet B) c uid cmd payload rid token z)) \<noteq> 0
    \<and> notify_chat (deployed_zone store P GP up indet B) (deployed_manager indet B) (ChatType_int GROUP) gid skip push_cmd push z = z"
proof -
  have "refused z (HandleGroup P (deployed_manager indet B) uid cmd payload rid z)" by (rule HandleGroup_refused [OF assms(1,2)])
  moreover have "HandleClientRequest (deployed_zone store P GP up indet B) c uid cmd payload rid token z =
      HandleGroup P (deployed_manager indet B) uid cmd payload rid z"
    using assms(3) by (simp add: HandleClientRequest_def deployed_zone_def)
  ultimately show ?thesis using group_notify_silent [OF assms(1,2)] by (simp add: refused_def)
qed

theorem group_commands_rejected_witness:
  "hr_code (fst (HandleClientRequest (demo_zone demo_chat demo_group) (demo_conn 0) alice ''group.dismiss'' (put_fields [''g'', alice]) ''r3''
     (demo_token alice) (demo_zone_state, (\<lambda>a. demo_gate_state), ([], ()), chat_demo0))) \<noteq> 0"
proof -
  have "bz_group (demo_business demo_chat demo_group) = group_server demo_env (RocksDBGroupStore alist_db text_json) cs_grp (\<lambda>g b. b\<lparr>cs_grp := g\<rparr>)"
    by (simp add: demo_business_def demo_group_def)
  from group_commands_rejected [OF this, where cmd = "''group.dismiss''" and store = "MemorySessionStore (\<lambda>m. [])"] show ?thesis
    unfolding demo_zone_def by (simp add: cmd_prefix_def)
qed

section \<open>Private messages\<close>

text \<open>A user whom the session store has on record is reached at the address that it gives, if there is one and the gate there is up.\<close>

lemma RouteToUser_deployed:
  assumes "zs_GetSession store (z_sessions zs) u = (session, st)"
  shows "\<exists>clients. snd (RouteToUser (deployed_zone store P GP up indet B) u cmd payload (zs, gs, r)) =
    (zs\<lparr>z_sessions := st, z_gate_clients := clients\<rparr>,
     (case session of
        None \<Rightarrow> gs
      | Some us \<Rightarrow>
          if us_gate_addr us = [] \<or> \<not> up (us_gate_addr us) then gs
          else gs(us_gate_addr us := snd (GateInternalGrpcHandler_PushMessage GP u cmd payload (gs (us_gate_addr us))))), r)"
proof (cases session)
  case None
  then show ?thesis using assms by (intro exI [of _ "z_gate_clients zs"]) (simp add: RouteToUser_def on_store_def deployed_zone_def)
next
  case (Some us)
  let ?a = "us_gate_addr us" and ?Z = "deployed_zone store P GP up indet B" and ?zs = "zs\<lparr>z_sessions := st\<rparr>"
  have route: "snd (RouteToUser ?Z u cmd payload (zs, gs, r)) = snd (PushToGate ?Z ?a u cmd payload (?zs, gs, r))"
    using assms Some by (simp add: RouteToUser_def on_store_def deployed_zone_def case_prod_beta)
  have same: "\<exists>clients. ?zs = zs\<lparr>z_sessions := st, z_gate_clients := clients\<rparr>" by (intro exI [of _ "z_gate_clients zs"]) simp
  show ?thesis
  proof (cases "?a = [] \<or> \<not> up ?a")
    case True
    then show ?thesis using same unfolding route
      by (auto simp: Some PushToGate_def GetOrCreateGateClient_def gate_net_def deployed_zone_def)
  next
    case False
    then show ?thesis using same unfolding route
      by (auto simp: Some PushToGate_def GetOrCreateGateClient_def gate_net_def deployed_zone_def GateRpcClient_PushMessage_def on_gate_def case_prod_beta)
  qed
qed

text \<open>C6: A private message that the chat server accepts is stored as sent by the user of the token and passed on at most once, whichever
  session store the zone server has.  If the store has the receiver on record, with an address, and the gate at that address is up, then
  this gate gets one push to the receiver, and no other gate and no other server sees anything.  If the store does not have the receiver on record (or
  cannot be reached), if the record has no address (as a heartbeat of an unregistered gate makes on Redis), or if the gate is not up, then nothing is
  pushed.  The answer to the sender is the same in all cases.  The sender named in the push is the one that the payload claims, not
  the user of the token.  The calls to the chat server and to the gates themselves do not fail in transit.\<close>

theorem private_message_delivered:
  fixes B :: "('o, 'b) Business"
  assumes "bz_chat B = chat_server E C get put" and "parse_ChatSendMessagePayload (zp_chat P) payload = Some req"
    and "pcsm_chat_type req = ChatType_int PRIVATE" and "pcsm_to_id req \<noteq> []"
    and "u = GetAuthenticatedUserId (env_json E) (env_hmac E) (env_now E b) (Some (CreateContext token)) (env_secret E)" and "u \<noteq> []"
    and "ChatServiceCore_SendMessage C (env_draws E b) (env_now E b) (get b) u (pcsm_to_id req) PRIVATE (pcsm_content req) (pcsm_media_url req)
      (pcsm_media_type req) (pcsm_mentions req) (pcsm_reply_to_msg_id req) = (result, s')"
    and "sr_success result" and "sr_msg_id result \<noteq> []"
    and "ser_ChatSendMessageResponsePayload (zp_chat P)
      \<lparr>pcsmr_success = True, pcsmr_msg_id = sr_msg_id result, pcsmr_timestamp = sr_timestamp result, pcsmr_error = []\<rparr> = Some answer"
    and "ser_ChatMessagePushPayload (zp_chat P) (push_of_message req (sr_msg_id result) (sr_timestamp result)) = Some push"
    and "zs_GetSession store (z_sessions zs) (pcsm_to_id req) = (session, st)"
    and "HandleClientRequest (deployed_zone store P GP up indet B) c uid ''chat.send_message'' payload rid token (zs, gs, o', b) =
      (resp, (zs', gs', o'', b'))"
  shows "resp = \<lparr>hr_code = 0, hr_message = [], hr_payload = answer, hr_request_id = rid\<rparr> \<and> b' = put s' b \<and> o'' = o' \<and> z_sessions zs' = st
    \<and> gs' = (case session of
        None \<Rightarrow> gs
      | Some us \<Rightarrow>
          if us_gate_addr us = [] \<or> \<not> up (us_gate_addr us) then gs
          else gs(us_gate_addr us := snd (GateInternalGrpcHandler_PushMessage GP (pcsm_to_id req) ''chat.message'' push (gs (us_gate_addr us)))))
    \<and> pcmp_from_user_id (push_of_message req (sr_msg_id result) (sr_timestamp result)) = pcsm_from_user_id req"
proof -
  have sent: "chat_SendMessage (bz_chat B) (CreateContext token) from (pcsm_to_id req) (pcsm_chat_type req) (pcsm_content req) (pcsm_media_url req)
      (pcsm_media_type req) (pcsm_mentions req) (pcsm_reply_to_msg_id req) cid sz b =
    (Inr \<lparr>resp_code = 0, resp_message = ErrorCodeToString EC_OK, smresp_msg_id = sr_msg_id result, smresp_timestamp = sr_timestamp result\<rparr>, put s' b)" for "from" cid sz
    using assms(3-8) by (simp add: assms(1) chat_server_def host_call_def ChatHandler_SendMessage_def request_chat_type_def ChatType_int_def ErrorCodeToInt_def Let_def)
  obtain clients where route: "snd (RouteToUser (deployed_zone store P GP up indet B) (pcsm_to_id req) ''chat.message'' push (zs, gs, o', put s' b)) =
      (zs\<lparr>z_sessions := st, z_gate_clients := clients\<rparr>,
       (case session of
          None \<Rightarrow> gs
        | Some us \<Rightarrow>
            if us_gate_addr us = [] \<or> \<not> up (us_gate_addr us) then gs
            else gs(us_gate_addr us := snd (GateInternalGrpcHandler_PushMessage GP (pcsm_to_id req) ''chat.message'' push (gs (us_gate_addr us))))),
       o', put s' b)"
    using RouteToUser_deployed [OF assms(12)] by blast
  have "HandleClientRequest (deployed_zone store P GP up indet B) c uid ''chat.send_message'' payload rid token (zs, gs, o', b) =
      (\<lparr>hr_code = 0, hr_message = [], hr_payload = answer, hr_request_id = rid\<rparr>,
       snd (RouteToUser (deployed_zone store P GP up indet B) (pcsm_to_id req) ''chat.message'' push (zs, gs, o', put s' b)))"
    using assms(2,3,9-11) sent
    by (simp add: HandleClientRequest_def deployed_zone_def cmd_prefix_def HandleChat_def chat_send_message_cmd_def with_payload_def deployed_manager_def
        ChatSystem_SendMessage_def ChatRpcClient_SendMessage_def with_client_def with_stub_def lift_ChatStub_def rpc_reply_def rpc_outcome_def rpc_ok_def
        notify_chat_def new_result_def ErrorCodeToInt_def Let_def)
  with route assms(13) show ?thesis by (auto simp: push_of_message_def)
qed

lemma demo_message_sent:
  obtains result s' where "ChatServiceCore_SendMessage (rocksdb_chat alist_db text_json) (chat_demo_draws 2) 1700000000000 chat_demo0 alice bob PRIVATE ''hello'' [] [] [] [] = (result, s')"
    "sr_success result" "sr_msg_id result \<noteq> []"
proof -
  obtain result s' where r: "ChatServiceCore_SendMessage (rocksdb_chat alist_db text_json) (chat_demo_draws 2) 1700000000000 chat_demo0 alice bob PRIVATE ''hello'' [] [] [] [] = (result, s')"
    by fastforce
  have clock: "Chat_Service_Laws.clock_ok 1700000000000" by (simp add: Chat_Service_Laws.clock_ok_def MAX_TS_def)
  have e: "message_abs alist_db text_json (cs_msg chat_demo0) = \<lparr>am_msg = Map.empty, am_queued = {}\<rparr>"
    using message_inv_empty(2) [of alist_db "[]" text_json] by (simp add: chat_demo0_def alist_db_def)
  note x = alist_reliable_chat.SendMessage_exact [OF alist_env.empty_chat_state(1-3) [OF chat_demo0_empty] chat_demo_ids(1,4) clock _ _
      r [unfolded rocksdb_chat_def], unfolded e, simplified]
  show ?thesis by (rule that [OF r]) (use x(1) in \<open>simp_all add: GenerateMsgId_def GenerateShortId_def\<close>)
qed

theorem private_message_delivered_witness:
  "\<exists>mid. g_posted (fst (snd (snd (HandleClientRequest (demo_zone demo_chat demo_group) (demo_conn 0) alice ''chat.send_message'' (demo_send bob) ''r3''
       (demo_token alice) (demo_zone_state, (\<lambda>a. demo_gate_state), ([], ()), chat_demo0)))) demo_addr) =
     g_posted demo_gate_state @ [PostSend (demo_conn 1) (put_fields [''chat.message'', put_fields [mid, bob, bob, ''hello''], [], to_string 0, []])]"
proof -
  obtain result s' where r: "ChatServiceCore_SendMessage (rocksdb_chat alist_db text_json) (chat_demo_draws 2) 1700000000000 chat_demo0 alice bob PRIVATE ''hello'' [] [] [] [] = (result, s')"
    "sr_success result" "sr_msg_id result \<noteq> []" by (rule demo_message_sent)
  obtain resp zs' gs' o'' b' where run: "HandleClientRequest (deployed_zone (MemorySessionStore (\<lambda>m. [])) demo_zone_proto demo_gate_proto (\<lambda>a. True) 0 (demo_business demo_chat demo_group))
      (demo_conn 0) alice ''chat.send_message'' (demo_send bob) ''r3'' (demo_token alice) (demo_zone_state, (\<lambda>a. demo_gate_state), ([], ()), chat_demo0) =
      (resp, (zs', gs', o'', b'))" by (metis surj_pair)
  have caller: "alice = GetAuthenticatedUserId (env_json demo_env) (env_hmac demo_env) (env_now demo_env b) (Some (CreateContext (demo_token alice))) (env_secret demo_env)" for b
    unfolding demo_env_def demo_token_def CreateContext_def
    by (simp add: JwtCreate_not_Nil, rule bearer_identity [OF text_json.json_laws_axioms, symmetric, of "''key''" alice "[]" 1700000000000 168],
        simp_all add: kAuthHeader_def kBearerPrefix_def)
  have chat: "bz_chat (demo_business demo_chat demo_group) = chat_server demo_env (rocksdb_chat alist_db text_json) (\<lambda>b. b) (\<lambda>s b. s)"
    by (simp add: demo_business_def demo_chat_def)
  define req where "req = \<lparr>pcsm_from_user_id = bob, pcsm_to_id = bob, pcsm_chat_type = 1, pcsm_content = ''hello'', pcsm_media_url = [], pcsm_media_type = [],
     pcsm_client_msg_id = [], pcsm_file_size = 0, pcsm_mentions = [], pcsm_reply_to_msg_id = []\<rparr>"
  have req: "parse_ChatSendMessagePayload (zp_chat demo_zone_proto) (demo_send bob) = Some req" "pcsm_chat_type req = ChatType_int PRIVATE" "pcsm_to_id req \<noteq> []"
    by (simp_all add: req_def demo_zone_proto_def demo_send_parsed ChatType_int_def)
  have send: "ChatServiceCore_SendMessage (rocksdb_chat alist_db text_json) (env_draws demo_env chat_demo0) (env_now demo_env chat_demo0) chat_demo0 alice
      (pcsm_to_id req) PRIVATE (pcsm_content req) (pcsm_media_url req) (pcsm_media_type req) (pcsm_mentions req) (pcsm_reply_to_msg_id req) = (result, s')"
    using r(1) by (simp add: req_def demo_env_def)
  have sers: "ser_ChatSendMessageResponsePayload (zp_chat demo_zone_proto) x \<noteq> None"
    "ser_ChatMessagePushPayload (zp_chat demo_zone_proto) (push_of_message req m t) = Some (put_fields [m, bob, bob, ''hello''])" for x m t
    by (simp_all add: demo_zone_proto_def demo_chat_proto_def push_of_message_def req_def)
  obtain answer where answer: "ser_ChatSendMessageResponsePayload (zp_chat demo_zone_proto)
      \<lparr>pcsmr_success = True, pcsmr_msg_id = sr_msg_id result, pcsmr_timestamp = sr_timestamp result, pcsmr_error = []\<rparr> = Some answer" using sers(1) by blast
  have session: "zs_GetSession (MemorySessionStore (\<lambda>m. [])) (z_sessions demo_zone_state) (pcsm_to_id req) =
      (Some (demo_user_session bob), z_sessions demo_zone_state)" by (simp add: demo_zone_state_def req_def MemorySessionStore_GetSession_def)
  have "gs' demo_addr = snd (GateInternalGrpcHandler_PushMessage demo_gate_proto bob ''chat.message'' (put_fields [sr_msg_id result, bob, bob, ''hello'']) demo_gate_state)"
    using private_message_delivered [OF chat req caller _ send r(2,3) answer sers(2) session run]
    by simp (simp add: demo_user_session_def demo_addr_def req_def)
  moreover have "snd (GateInternalGrpcHandler_PushMessage demo_gate_proto bob ''chat.message'' data demo_gate_state) =
      demo_gate_state\<lparr>g_posted := g_posted demo_gate_state @ [PostSend (demo_conn 1) (put_fields [''chat.message'', data, [], to_string 0, []])]\<rparr>" for data
  proof -
    have "g_user_to_conn demo_gate_state bob = Some (demo_conn 1)" "g_send_callbacks demo_gate_state (demo_conn 1) = Some (demo_conn 1)" "demo_conn 1 \<noteq> []"
      "gp_ser_ServerMessage demo_gate_proto m = Some (put_fields [sm_cmd m, sm_payload m, sm_request_id m, to_string (sm_code m), sm_message m])" for m
      by (simp_all add: demo_gate_state_def demo_gate_proto_def demo_conn_def GenerateConnId_def)
    then show ?thesis by (simp add: GateInternalGrpcHandler_PushMessage_def PushToUser_def GetConnIdByUser_def SendToConn_def Let_def)
  qed
  ultimately show ?thesis using run by (intro exI [of _ "sr_msg_id result"]) (simp add: demo_zone_def)
qed

end
