(* ===== verification/Log_Sinks.thy ===== *)
theory Log_Sinks
  imports Cpp_Std
begin

text \<open>
  \<^verbatim>\<open>component/asynclogger\<close>: levels, entries, tags and configuration (\<^verbatim>\<open>log_level.h\<close>, \<^verbatim>\<open>ring_buffer.h\<close>,
  \<^verbatim>\<open>async_logger.h\<close>, \<^verbatim>\<open>log_config.h\<close>), the formatter (\<^verbatim>\<open>log_formatter.cpp\<close>) and the sinks that entries are
  written to (\<^verbatim>\<open>console_sink.cpp\<close>, \<^verbatim>\<open>file_sink.cpp\<close>, as compiled on POSIX).

  The record \<open>LogEnv\<close> has what the operating system provides: the clock, the local time as text, whether a file can
  be opened or removed.  The files are an association list from paths to contents, in the order of \<^verbatim>\<open>readdir\<close>; text that
  is still in the buffer of a stream counts as written.  The value \<open>None\<close> stands for undefined behaviour.
\<close>

section \<open>Levels, entries, tags\<close>

datatype LogLevel = LL_TRACE | LL_DEBUG | LL_INFO | LL_WARN | LL_ERROR | LL_FATAL | LL_OFF

fun LogLevel_int :: "LogLevel \<Rightarrow> int" where
  "LogLevel_int LL_TRACE = 0"
| "LogLevel_int LL_DEBUG = 1"
| "LogLevel_int LL_INFO = 2"
| "LogLevel_int LL_WARN = 3"
| "LogLevel_int LL_ERROR = 4"
| "LogLevel_int LL_FATAL = 5"
| "LogLevel_int LL_OFF = 6"

text \<open>An entry keeps its level as an \<^verbatim>\<open>int\<close>; \<open>LogLevelToString\<close> is applied to the cast of that number.\<close>

definition LogLevelToString :: "int \<Rightarrow> string" where
  "LogLevelToString level =
     (if level = 0 then ''TRACE''
      else if level = 1 then ''DEBUG''
      else if level = 2 then ''INFO''
      else if level = 3 then ''WARN''
      else if level = 4 then ''ERROR''
      else if level = 5 then ''FATAL''
      else if level = 6 then ''OFF''
      else ''UNKNOWN'')"

definition StringToLogLevel :: "string \<Rightarrow> LogLevel" where
  "StringToLogLevel str =
     (if str = ''TRACE'' \<or> str = ''trace'' then LL_TRACE
      else if str = ''DEBUG'' \<or> str = ''debug'' then LL_DEBUG
      else if str = ''INFO'' \<or> str = ''info'' then LL_INFO
      else if str = ''WARN'' \<or> str = ''warn'' then LL_WARN
      else if str = ''ERROR'' \<or> str = ''error'' then LL_ERROR
      else if str = ''FATAL'' \<or> str = ''fatal'' then LL_FATAL
      else if str = ''OFF'' \<or> str = ''off'' then LL_OFF
      else LL_INFO)"

record LogEntry =
  e_timestamp :: int
  e_level :: int
  e_line :: int
  e_file :: string
  e_message :: string
  e_tags :: string

type_synonym Tag = "(string \<times> string) list"

definition Tag_Add :: "Tag \<Rightarrow> string \<Rightarrow> string \<Rightarrow> Tag" where
  "Tag_Add tag key val = tag @ [(key, val)]"

fun tag_loop :: "Tag \<Rightarrow> bool \<Rightarrow> string" where
  "tag_loop [] first = []"
| "tag_loop (t # tags) first = (if first then [] else '', '') @ fst t @ ''='' @ snd t @ tag_loop tags False"

definition Tag_ToString :: "Tag \<Rightarrow> string" where
  "Tag_ToString tag = (if tag = [] then [] else tag_loop tag True)"

record LogConfig =
  lc_min_level :: LogLevel
  lc_buffer_size :: nat
  lc_flush_interval_ms :: nat
  lc_enable_file :: bool
  lc_log_dir :: string
  lc_file_prefix :: string
  lc_max_file_size :: nat
  lc_max_file_count :: int
  lc_enable_console :: bool
  lc_console_color :: bool
  lc_show_file_line :: bool
  lc_show_thread_id :: bool

definition LogConfig_default :: LogConfig where
  "LogConfig_default =
     \<lparr>lc_min_level = LL_INFO, lc_buffer_size = 4 * 1024 * 1024, lc_flush_interval_ms = 100,
      lc_enable_file = True, lc_log_dir = ''./logs'', lc_file_prefix = ''app'', lc_max_file_size = 100 * 1024 * 1024,
      lc_max_file_count = 10, lc_enable_console = True, lc_console_color = True, lc_show_file_line = True,
      lc_show_thread_id = False\<rparr>"

section \<open>The system\<close>

type_synonym LogFiles = "(string \<times> string) list"

record LogEnv =
  le_clock_ms :: "nat \<Rightarrow> int"        \<comment> \<open>the system clock at the n-th reading by the file sink\<close>
  le_file_time :: "int \<Rightarrow> string"      \<comment> \<open>\<^verbatim>\<open>put_time(localtime(t), "%Y%m%d_%H%M%S")\<close>\<close>
  le_line_time :: "int \<Rightarrow> string"      \<comment> \<open>\<^verbatim>\<open>put_time(localtime(t), "%Y-%m-%d %H:%M:%S")\<close>\<close>
  le_opens :: "string \<Rightarrow> bool"
  le_removes :: "string \<Rightarrow> bool"
  le_backend_id :: string
  le_main_id :: string

section \<open>Formatter\<close>

record LogFormatter =
  fmt_show_file_line :: bool
  fmt_show_thread_id :: bool

text \<open>Quotient and remainder of C++ truncate; time stamps are not negative.\<close>

definition FormatTimestamp :: "LogEnv \<Rightarrow> int \<Rightarrow> string" where
  "FormatTimestamp E timestamp =
     (let seconds = timestamp div 1000000; micros = timestamp mod 1000000
      in le_line_time E seconds @ ''.'' @ pad0 3 (to_string (micros div 1000)))"

text \<open>The thread that is named is the one that formats, not the one that logged.\<close>

definition Format :: "LogEnv \<Rightarrow> string \<Rightarrow> LogFormatter \<Rightarrow> LogEntry \<Rightarrow> string" where
  "Format E thread_id fmt entry =
     ''['' @ FormatTimestamp E (e_timestamp entry) @ ''] '' @
     ''['' @ LogLevelToString (e_level entry) @ ''] '' @
     (if fmt_show_thread_id fmt then ''[tid:'' @ thread_id @ ''] '' else []) @
     (if e_tags entry \<noteq> [] then ''['' @ e_tags entry @ ''] '' else []) @
     (if fmt_show_file_line fmt \<and> e_file entry \<noteq> [] then ''['' @ e_file entry @ '':'' @ to_string (e_line entry) @ ''] '' else []) @
     e_message entry @ [CHR 10]"

section \<open>Console\<close>

record ConsoleSink =
  con_enable_color :: bool
  con_out :: string

definition GetColorCode :: "int \<Rightarrow> string" where
  "GetColorCode level =
     CHR 27 # (if level = 0 then ''[37m''
       else if level = 1 then ''[36m''
       else if level = 2 then ''[32m''
       else if level = 3 then ''[33m''
       else if level = 4 then ''[31m''
       else if level = 5 then ''[35;1m''
       else ''[0m'')"

definition GetResetCode :: string where
  "GetResetCode = CHR 27 # ''[0m''"

definition ConsoleSink_Write :: "string \<Rightarrow> ConsoleSink \<Rightarrow> ConsoleSink" where
  "ConsoleSink_Write formatted_log s = s\<lparr>con_out := con_out s @ formatted_log\<rparr>"

definition WriteWithLevel :: "int \<Rightarrow> string \<Rightarrow> ConsoleSink \<Rightarrow> ConsoleSink" where
  "WriteWithLevel level formatted_log s =
     (if con_enable_color s then s\<lparr>con_out := con_out s @ GetColorCode level @ formatted_log @ GetResetCode\<rparr>
      else s\<lparr>con_out := con_out s @ formatted_log\<rparr>)"

section \<open>Log files\<close>

text \<open>\<open>fk_ticks\<close> counts the readings of the clock; \<open>fk_files\<close> are the files of the system as the sink finds them.\<close>

record FileSink =
  fk_log_dir :: string
  fk_file_prefix :: string
  fk_max_file_size :: nat
  fk_max_file_count :: int
  fk_file :: "string option"
  fk_current_file_size :: nat
  fk_ticks :: nat
  fk_files :: LogFiles

definition file_name :: "LogEnv \<Rightarrow> string \<Rightarrow> int \<Rightarrow> string" where
  "file_name E file_prefix now_ms =
     file_prefix @ ''_'' @ le_file_time E (now_ms div 1000) @ ''_'' @ pad0 3 (to_string (now_ms mod 1000)) @ ''.log''"

definition GenerateFileName :: "LogEnv \<Rightarrow> FileSink \<Rightarrow> string" where
  "GenerateFileName E s = fk_log_dir s @ ''/'' @ file_name E (fk_file_prefix s) (le_clock_ms E (fk_ticks s))"

text \<open>Opening for appending creates a missing file.\<close>

definition open_append :: "string \<Rightarrow> LogFiles \<Rightarrow> LogFiles" where
  "open_append path fs = (if path \<in> fst ` set fs then fs else fs @ [(path, [])])"

definition append_file :: "string \<Rightarrow> string \<Rightarrow> LogFiles \<Rightarrow> LogFiles" where
  "append_file path text = map (\<lambda>(p, c). (p, if p = path then c @ text else c))"

definition remove_file :: "LogEnv \<Rightarrow> string \<Rightarrow> LogFiles \<Rightarrow> LogFiles" where
  "remove_file E path fs = (if le_removes E path then filter (\<lambda>f. fst f \<noteq> path) fs else fs)"

definition OpenNewFile :: "LogEnv \<Rightarrow> FileSink \<Rightarrow> bool \<times> FileSink" where
  "OpenNewFile E s =
     (let file_path = GenerateFileName E s; s = s\<lparr>fk_ticks := fk_ticks s + 1\<rparr>
      in if le_opens E file_path
         then let fs = open_append file_path (fk_files s)
              in (True, s\<lparr>fk_file := Some file_path, fk_files := fs, fk_current_file_size := length (the (map_of fs file_path))\<rparr>)
         else (False, s))"

text \<open>The names in a directory.  The entries \<^verbatim>\<open>.\<close> and \<^verbatim>\<open>..\<close> never pass the test of \<open>is_log_file\<close> and are left out.\<close>

definition readdir :: "string \<Rightarrow> LogFiles \<Rightarrow> string list" where
  "readdir dir fs = [drop (length dir + 1) p. (p, c) \<leftarrow> fs, prefix (dir @ ''/'') p, CHR ''/'' \<notin> set (drop (length dir + 1) p)]"

text \<open>\<^verbatim>\<open>filename.find(prefix) == 0 && filename.rfind(".log") == filename.size() - 4\<close>, where \<^verbatim>\<open>rfind\<close> gives
  \<open>npos\<close> (\<open>2\<^sup>6\<^sup>4 - 1\<close>) for a name without \<^verbatim>\<open>.log\<close> and the difference is computed modulo \<open>2\<^sup>6\<^sup>4\<close>: a name of three letters passes as well.\<close>

definition rfind :: "string \<Rightarrow> string \<Rightarrow> nat" where
  "rfind s sub = foldl (\<lambda>r i. if prefix sub (drop i s) then i else r) (2 ^ 64 - 1) [0..<length s + 1]"

definition is_log_file :: "string \<Rightarrow> string \<Rightarrow> bool" where
  "is_log_file file_prefix filename \<longleftrightarrow>
     find_sub file_prefix filename = Some 0 \<and> int (rfind filename ''.log'') mod 2 ^ 64 = (int (length filename) - 4) mod 2 ^ 64"

text \<open>Taking the first of no elements is undefined, which happens when \<open>max_file_count\<close> is not positive.\<close>

fun cleanup_loop :: "LogEnv \<Rightarrow> int \<Rightarrow> string list \<Rightarrow> LogFiles \<Rightarrow> LogFiles option" where
  "cleanup_loop E max_file_count [] fs = (if 0 > max_file_count - 1 then None else Some fs)"
| "cleanup_loop E max_file_count (f # log_files) fs =
     (if wrap32 (int (length (f # log_files))) > max_file_count - 1
      then cleanup_loop E max_file_count log_files (remove_file E f fs)
      else Some fs)"

definition CleanupOldFiles :: "LogEnv \<Rightarrow> FileSink \<Rightarrow> FileSink option" where
  "CleanupOldFiles E s =
     (let log_files = map (\<lambda>filename. fk_log_dir s @ ''/'' @ filename)
            (filter (is_log_file (fk_file_prefix s)) (readdir (fk_log_dir s) (fk_files s)))
      in map_option (\<lambda>fs. s\<lparr>fk_files := fs\<rparr>) (cleanup_loop E (fk_max_file_count s) (sort log_files) (fk_files s)))"

definition RotateFile :: "LogEnv \<Rightarrow> FileSink \<Rightarrow> FileSink option" where
  "RotateFile E s = map_option (\<lambda>s. snd (OpenNewFile E s)) (CleanupOldFiles E (s\<lparr>fk_file := None\<rparr>))"

definition CheckRotate :: "LogEnv \<Rightarrow> FileSink \<Rightarrow> FileSink option" where
  "CheckRotate E s = (if fk_current_file_size s \<ge> fk_max_file_size s then RotateFile E s else Some s)"

definition file_put :: "string \<Rightarrow> FileSink \<Rightarrow> FileSink" where
  "file_put log s =
     s\<lparr>fk_files := append_file (the (fk_file s)) log (fk_files s), fk_current_file_size := fk_current_file_size s + length log\<rparr>"

text \<open>A missing file is opened first; when that fails the text is dropped.\<close>

definition with_open :: "LogEnv \<Rightarrow> (FileSink \<Rightarrow> FileSink option) \<Rightarrow> FileSink \<Rightarrow> FileSink option" where
  "with_open E write s =
     (if fk_file s = None
      then case OpenNewFile E s of (ok, s) \<Rightarrow> if ok then write s else Some s
      else write s)"

definition FileSink_Write :: "LogEnv \<Rightarrow> string \<Rightarrow> FileSink \<Rightarrow> FileSink option" where
  "FileSink_Write E formatted_log = with_open E (\<lambda>s. CheckRotate E (file_put formatted_log s))"

definition FileSink_WriteBatch :: "LogEnv \<Rightarrow> string list \<Rightarrow> FileSink \<Rightarrow> FileSink option" where
  "FileSink_WriteBatch E logs = with_open E (\<lambda>s. CheckRotate E (foldl (\<lambda>s log. file_put log s) s logs))"

definition FileSink_Close :: "FileSink \<Rightarrow> FileSink" where
  "FileSink_Close s = s\<lparr>fk_file := None\<rparr>"

definition FileSink_new :: "LogEnv \<Rightarrow> string \<Rightarrow> string \<Rightarrow> nat \<Rightarrow> int \<Rightarrow> nat \<Rightarrow> LogFiles \<Rightarrow> FileSink" where
  "FileSink_new E log_dir file_prefix max_file_size max_file_count ticks fs =
     snd (OpenNewFile E \<lparr>fk_log_dir = log_dir, fk_file_prefix = file_prefix, fk_max_file_size = max_file_size,
       fk_max_file_count = max_file_count, fk_file = None, fk_current_file_size = 0, fk_ticks = ticks, fk_files = fs\<rparr>)"

end
