(* ===== verification/Log_Files.thy ===== *)
theory Log_Files
  imports Log_Sinks
begin

text \<open>
  The log files of a sink that starts in an empty directory, on a system where files can be opened and removed and the
  names of later files are greater: the rotation keeps the latest text, in whole lines, in at most \<open>max_file_count\<close> files.
  The names carry the local time (\<^verbatim>\<open>GenerateFileName\<close>: \<^verbatim>\<open>system_clock\<close> and \<^verbatim>\<open>localtime_r\<close>).  Nothing in the code makes them increase: a clock that is set
  back, the end of daylight saving time or two rotations within the resolution of the name break the order, and then the
  cleanup may remove newer text first.  That they increase is the assumption \<open>names_increase\<close> of \<open>log_disk\<close>.
\<close>

section \<open>Names of log files\<close>

lemma foldl_last_match:
  assumes "\<And>i. i \<in> set zs \<Longrightarrow> \<not> P i" and "P y"
  shows "foldl (\<lambda>r i. if P i then i else r) d (xs @ y # zs) = y"
proof -
  have "foldl (\<lambda>r i. if P i then i else r) r zs = r" for r using assms(1) by (induction zs arbitrary: r) auto
  then show ?thesis using assms(2) by simp
qed

lemma rfind_suffix [simp]:
  assumes "sub \<noteq> []"
  shows "rfind (a @ sub) sub = length a"
proof -
  have u: "[0..<length (a @ sub) + 1] = [0..<length a] @ length a # [Suc (length a)..<length (a @ sub) + 1]"
    using upt_add_eq_append [of 0 "length a" "Suc (length sub)"] by (simp add: upt_conv_Cons del: upt_Suc)
  have "\<not> prefix sub (drop i (a @ sub))" if "i \<in> set [Suc (length a)..<length (a @ sub) + 1]" for i
    using that assms by (auto dest!: prefix_length_le)
  moreover have "prefix sub (drop (length a) (a @ sub))" by (simp add: drop_append)
  ultimately show ?thesis unfolding rfind_def u by (rule foldl_last_match)
qed

lemma find_sub_prefix: "find_sub a (a @ b) = Some 0"
proof -
  have "prefix a (a @ b)" by simp
  then show ?thesis by (cases "a @ b") auto
qed

lemma file_name_is_log_file [simp]: "is_log_file pre (file_name E pre t)"
proof -
  obtain x where x: "file_name E pre t = (pre @ x) @ ''.log''" by (simp add: file_name_def)
  have "find_sub pre (file_name E pre t) = Some 0" unfolding x append_assoc by (rule find_sub_prefix)
  moreover have "rfind (file_name E pre t) ''.log'' = length (pre @ x)" unfolding x by (rule rfind_suffix) simp
  moreover have "length (file_name E pre t) = length (pre @ x) + 4" by (simp add: x)
  ultimately show ?thesis by (simp add: is_log_file_def)
qed

text \<open>Two edge cases of the test.\<close>

lemma is_log_file_edge:
  "is_log_file ''app'' ''app''" "is_log_file ''auth'' ''authsvr_20240101_000000_000.log''"
  by (simp_all add: is_log_file_def rfind_def)

section \<open>A disk\<close>

definition log_path :: "LogEnv \<Rightarrow> string \<Rightarrow> string \<Rightarrow> nat \<Rightarrow> string" where
  "log_path E dir pre i = dir @ ''/'' @ file_name E pre (le_clock_ms E i)"

locale log_disk =
  fixes E :: LogEnv and dir pre :: string
  assumes opens: "le_opens E p" and removes: "le_removes E p"
    and names_increase: "i < j \<Longrightarrow> file_name E pre (le_clock_ms E i) < file_name E pre (le_clock_ms E j)"
    and names_plain: "CHR ''/'' \<notin> set (file_name E pre (le_clock_ms E i))"
begin

lemma log_path_less: "i < j \<Longrightarrow> log_path E dir pre i < log_path E dir pre j"
proof -
  have "a < b \<Longrightarrow> xs @ a < xs @ b" for xs a b :: string by (induction xs) auto
  then show "i < j \<Longrightarrow> log_path E dir pre i < log_path E dir pre j" using names_increase by (simp add: log_path_def)
qed

lemma log_path_eq [simp]: "log_path E dir pre i = log_path E dir pre j \<longleftrightarrow> i = j"
  by (metis log_path_less less_irrefl linorder_neqE_nat)

lemma sorted_paths:
  assumes "sorted_wrt (<) is"
  shows "sort (map (log_path E dir pre) is) = map (log_path E dir pre) is"
proof -
  have "sorted_wrt (\<le>) (map (log_path E dir pre) is)" using assms
    by (auto simp: sorted_wrt_map intro: sorted_wrt_mono_rel [of _ "(<)"] log_path_less [THEN less_imp_le])
  then show ?thesis by (rule sorted_sort_id)
qed

lemma listed_paths:
  "map (\<lambda>filename. dir @ ''/'' @ filename) (filter (is_log_file pre) (readdir dir (map (\<lambda>(i, c). (log_path E dir pre i, f c)) cs))) =
     map (log_path E dir pre) (map fst cs)"
  by (induction cs) (auto simp: readdir_def log_path_def names_plain)

end

text \<open>LogFiles by the readings of the clock at which they were opened, each with its lines.\<close>

definition files_of :: "LogEnv \<Rightarrow> string \<Rightarrow> string \<Rightarrow> (nat \<times> string list) list \<Rightarrow> LogFiles" where
  "files_of E dir pre = map (\<lambda>(i, ls). (log_path E dir pre i, concat ls))"

lemma files_of_append [simp]: "files_of E dir pre (xs @ ys) = files_of E dir pre xs @ files_of E dir pre ys"
  by (simp add: files_of_def)

lemma files_of_Cons [simp]: "files_of E dir pre ((i, ls) # ys) = (log_path E dir pre i, concat ls) # files_of E dir pre ys"
  by (simp add: files_of_def)

lemma length_files_of [simp]: "length (files_of E dir pre cs) = length cs"
  by (simp add: files_of_def)

lemma files_of_Nil [simp]: "files_of E dir pre [] = []"
  by (simp add: files_of_def)

context log_disk
begin

lemma files_of_keys: "log_path E dir pre i \<in> fst ` set (files_of E dir pre cs) \<longleftrightarrow> i \<in> fst ` set cs"
  by (auto simp: files_of_def image_iff Bex_def)

lemma append_file_files_of:
  assumes "i \<notin> fst ` set cs"
  shows "append_file (log_path E dir pre i) text (files_of E dir pre cs) = files_of E dir pre cs"
  using assms by (auto simp: append_file_def files_of_def image_iff)

lemma remove_first:
  assumes "i \<notin> fst ` set cs"
  shows "remove_file E (log_path E dir pre i) ((log_path E dir pre i, text) # files_of E dir pre cs) = files_of E dir pre cs"
proof -
  have "filter (\<lambda>f. fst f \<noteq> log_path E dir pre i) (files_of E dir pre cs) = files_of E dir pre cs"
    using assms files_of_keys [of i cs] by (auto simp: filter_id_conv rev_image_eqI)
  then show ?thesis by (simp add: remove_file_def removes)
qed

lemma cleanup_keeps_last:
  assumes "sorted_wrt (<) (map fst cs)" and "length cs < 2 ^ 31" and "1 \<le> n"
  shows "cleanup_loop E (int n) (map (log_path E dir pre) (map fst cs)) (files_of E dir pre cs) =
    Some (files_of E dir pre (drop (length cs - (n - 1)) cs))"
  using assms
proof (induction cs)
  case (Cons c cs)
  obtain i ls where c: "c = (i, ls)" by (cases c)
  have i: "i \<notin> fst ` set cs" using Cons.prems(1) by (auto simp: c)
  show ?case
  proof (cases "length (c # cs) > n - 1")
    case True
    then have "Suc (length cs) - (n - 1) = Suc (length cs - (n - 1))" by (simp add: Suc_diff_le)
    moreover have "int n - 1 < int (Suc (length cs))" using True Cons.prems(3) by simp
    ultimately show ?thesis using Cons i by (simp add: c remove_first is_int32_def)
  next
    case False
    then have "\<not> int n - 1 < int (Suc (length cs))" by simp
    with False Cons.prems show ?thesis by (simp add: c is_int32_def)
  qed
qed simp

end

section \<open>Writing\<close>

fun write_lines :: "LogEnv \<Rightarrow> string list \<Rightarrow> FileSink \<Rightarrow> FileSink option" where
  "write_lines E [] s = Some s"
| "write_lines E (l # ls) s = (case FileSink_Write E l s of None \<Rightarrow> None | Some s \<Rightarrow> write_lines E ls s)"

text \<open>The sink after writing \<open>lines\<close>: the files \<open>cs\<close> hold what is left after the first \<open>k\<close> lines, the last one is open.\<close>

definition sink_holds :: "LogEnv \<Rightarrow> string \<Rightarrow> string \<Rightarrow> nat \<Rightarrow> nat \<Rightarrow> string list \<Rightarrow> FileSink \<Rightarrow> nat \<Rightarrow> (nat \<times> string list) list \<Rightarrow> nat \<Rightarrow> string list \<Rightarrow> bool" where
  "sink_holds E dir pre mx n lines s k cs i ls \<longleftrightarrow>
     fk_log_dir s = dir \<and> fk_file_prefix s = pre \<and> fk_max_file_size s = mx \<and> fk_max_file_count s = int n
   \<and> fk_files s = files_of E dir pre (cs @ [(i, ls)]) \<and> fk_file s = Some (log_path E dir pre i) \<and> fk_current_file_size s = length (concat ls)
   \<and> sorted_wrt (<) (map fst cs @ [i]) \<and> i < fk_ticks s \<and> length cs < n
   \<and> k \<le> length lines \<and> drop k lines = concat (map snd cs) @ ls \<and> (k > 0 \<longrightarrow> Suc (length cs) = n)
   \<and> (\<forall>c \<in> set cs. mx \<le> length (concat (snd c)))"

text \<open>Dropping files drops lines from the front.\<close>

lemma drop_lines_of_dropped_files:
  assumes "drop k xs = concat (map snd cs)" and "k \<le> length xs"
  shows "drop (k + length (concat (map snd (take d cs)))) xs = concat (map snd (drop d cs))"
    "k + length (concat (map snd (take d cs))) \<le> length xs"
proof -
  have cs: "concat (map snd cs) = concat (map snd (take d cs)) @ concat (map snd (drop d cs))"
    by (metis append_take_drop_id concat_append map_append)
  show "drop (k + length (concat (map snd (take d cs)))) xs = concat (map snd (drop d cs))"
    using assms(1) cs by (metis add.commute append_eq_conv_conj drop_drop)
  show "k + length (concat (map snd (take d cs))) \<le> length xs"
    using arg_cong [OF assms(1), of length] assms(2) unfolding cs by simp
qed

context log_disk
begin

lemma OpenNewFile_fresh:
  assumes "fk_log_dir s = dir" and "fk_file_prefix s = pre" and "fk_files s = files_of E dir pre cs" and "fk_ticks s \<notin> fst ` set cs"
  shows "OpenNewFile E s = (True, s\<lparr>fk_ticks := Suc (fk_ticks s), fk_file := Some (log_path E dir pre (fk_ticks s)),
    fk_files := files_of E dir pre (cs @ [(fk_ticks s, [])]), fk_current_file_size := 0\<rparr>)"
proof -
  have name: "GenerateFileName E s = log_path E dir pre (fk_ticks s)" using assms(1,2) by (simp add: GenerateFileName_def log_path_def)
  have new: "log_path E dir pre (fk_ticks s) \<notin> fst ` set (files_of E dir pre cs)" using assms(4) by (simp add: files_of_keys)
  then have "map_of (files_of E dir pre cs) (log_path E dir pre (fk_ticks s)) = None" by (simp add: map_of_eq_None_iff)
  with new assms(3) show ?thesis unfolding OpenNewFile_def name Let_def by (simp add: opens open_append_def map_add_def)
qed

lemma RotateFile_keeps_last:
  assumes "fk_log_dir s = dir" and "fk_file_prefix s = pre" and "fk_max_file_count s = int n" and "fk_files s = files_of E dir pre cs"
    and "sorted_wrt (<) (map fst cs)" and "\<And>i. i \<in> fst ` set cs \<Longrightarrow> i < fk_ticks s" and "length cs \<le> n" and "1 \<le> n" and "n < 2 ^ 31"
  shows "RotateFile E s = Some (s\<lparr>fk_ticks := Suc (fk_ticks s), fk_file := Some (log_path E dir pre (fk_ticks s)),
    fk_files := files_of E dir pre (drop (length cs - (n - 1)) cs @ [(fk_ticks s, [])]), fk_current_file_size := 0\<rparr>)"
proof -
  let ?left = "drop (length cs - (n - 1)) cs"
  have "CleanupOldFiles E (s\<lparr>fk_file := None\<rparr>) = Some (s\<lparr>fk_file := None, fk_files := files_of E dir pre ?left\<rparr>)"
    using assms cleanup_keeps_last [OF assms(5), of n] sorted_paths [OF assms(5)] listed_paths [of concat cs]
    by (simp add: CleanupOldFiles_def files_of_def)
  moreover have "fk_ticks s \<notin> fst ` set ?left" using assms(6) by (meson image_mono less_irrefl set_drop_subset subsetD)
  ultimately show ?thesis
    using OpenNewFile_fresh [of "s\<lparr>fk_file := None, fk_files := files_of E dir pre ?left\<rparr>" ?left] assms(1,2)
    by (simp add: RotateFile_def)
qed

lemma Write_holds:
  assumes "sink_holds E dir pre mx n lines s k cs i ls" and "n < 2 ^ 31"
  shows "\<exists>s' k' cs' i' ls'. FileSink_Write E l s = Some s' \<and> sink_holds E dir pre mx n (lines @ [l]) s' k' cs' i' ls'"
proof -
  let ?cs = "cs @ [(i, ls @ [l])]" and ?s = "file_put l s"
  note h = assms(1) [unfolded sink_holds_def]
  have i: "i \<notin> fst ` set cs" using h by (auto simp: sorted_wrt_append)
  have files: "fk_files ?s = files_of E dir pre ?cs"
    using h append_file_files_of [OF i] by (simp add: file_put_def) (simp add: append_file_def)
  have put: "fk_log_dir ?s = dir" "fk_file_prefix ?s = pre" "fk_max_file_size ?s = mx" "fk_max_file_count ?s = int n" "fk_file ?s = fk_file s"
    "fk_ticks ?s = fk_ticks s" "fk_current_file_size ?s = length (concat (ls @ [l]))"
    using h by (simp_all add: file_put_def)
  have w: "FileSink_Write E l s = CheckRotate E ?s" using h by (simp add: FileSink_Write_def with_open_def)
  have lines: "drop k (lines @ [l]) = concat (map snd ?cs)" using h by simp
  show ?thesis
  proof (cases "mx \<le> length (concat (ls @ [l]))")
    case False
    then have "CheckRotate E ?s = Some ?s" using put by (simp add: CheckRotate_def)
    moreover have "sink_holds E dir pre mx n (lines @ [l]) ?s k cs i (ls @ [l])"
      using h put files lines by (auto simp: sink_holds_def)
    ultimately show ?thesis using w by auto
  next
    case True
    define d where "d = Suc (length cs) - (n - 1)"
    define k' where "k' = k + length (concat (map snd (take d ?cs)))"
    let ?s' = "?s\<lparr>fk_ticks := Suc (fk_ticks s), fk_file := Some (log_path E dir pre (fk_ticks s)),
      fk_files := files_of E dir pre (drop d ?cs @ [(fk_ticks s, [])]), fk_current_file_size := 0\<rparr>"
    have old: "sorted_wrt (<) (map fst ?cs)" "\<And>j. j \<in> fst ` set ?cs \<Longrightarrow> j < fk_ticks ?s"
      using h put(6) by (auto simp: sorted_wrt_append)
    have "FileSink_Write E l s = Some ?s'"
      using w True put RotateFile_keeps_last [OF put(1,2,4) files old] h assms(2) by (simp add: CheckRotate_def d_def)
    moreover have "drop k' (lines @ [l]) = concat (map snd (drop d ?cs))" "k' \<le> length (lines @ [l])"
      unfolding k'_def by (rule drop_lines_of_dropped_files [OF lines], use h in simp)+
    moreover have "sorted_wrt (<) (map fst (drop d ?cs) @ [fk_ticks s])"
    proof -
      have "sorted_wrt (<) (map fst (drop d ?cs))" using sorted_wrt_drop [OF old(1), of d] by (simp only: drop_map)
      moreover have "\<forall>j \<in> set (map fst (drop d ?cs)). j < fk_ticks s"
        using old(2) put(6) by (metis in_set_dropD drop_map image_set)
      ultimately show ?thesis by (simp only: sorted_wrt_append) simp
    qed
    moreover have "length (drop d ?cs) < n" "k' > 0 \<longrightarrow> Suc (length (drop d ?cs)) = n"
    proof -
      have "length (drop d ?cs) = Suc (length cs) - d" by simp
      moreover have "k' > 0 \<Longrightarrow> d > 0 \<or> k > 0" by (cases d) (simp_all add: k'_def)
      ultimately show "length (drop d ?cs) < n" "k' > 0 \<longrightarrow> Suc (length (drop d ?cs)) = n" using h unfolding d_def by auto
    qed
    moreover have "\<forall>c \<in> set (drop d ?cs). mx \<le> length (concat (snd c))" using h True by (auto dest!: in_set_dropD)
    ultimately have "sink_holds E dir pre mx n (lines @ [l]) ?s' k' (drop d ?cs) (fk_ticks s) []"
      using put by (simp add: sink_holds_def)
    with \<open>FileSink_Write E l s = Some ?s'\<close> show ?thesis by blast
  qed
qed

lemma write_lines_holds:
  assumes "sink_holds E dir pre mx n lines s k cs i ls" and "n < 2 ^ 31"
  shows "\<exists>s' k' cs' i' ls'. write_lines E later s = Some s' \<and> sink_holds E dir pre mx n (lines @ later) s' k' cs' i' ls'"
  using assms(1)
proof (induction later arbitrary: lines s k cs i ls)
  case (Cons l later)
  from Write_holds [OF Cons.prems assms(2), of l] obtain s' k' cs' i' ls' where
    s': "FileSink_Write E l s = Some s'" "sink_holds E dir pre mx n (lines @ [l]) s' k' cs' i' ls'" by blast
  from Cons.IH [OF s'(2)] s'(1) show ?case by simp
qed auto

lemma FileSink_new_holds:
  assumes "1 \<le> n"
  shows "sink_holds E dir pre mx n [] (FileSink_new E dir pre mx (int n) t []) 0 [] t []"
proof -
  let ?s = "\<lparr>fk_log_dir = dir, fk_file_prefix = pre, fk_max_file_size = mx, fk_max_file_count = int n, fk_file = None,
    fk_current_file_size = 0, fk_ticks = t, fk_files = []\<rparr>"
  have "OpenNewFile E ?s = (True, ?s\<lparr>fk_ticks := Suc t, fk_file := Some (log_path E dir pre t),
    fk_files := [(log_path E dir pre t, [])], fk_current_file_size := 0\<rparr>)"
    using OpenNewFile_fresh [of ?s "[]"] by simp
  then show ?thesis using assms by (simp add: FileSink_new_def sink_holds_def)
qed

end

text \<open>C16: Log files rotate without losing recent text.  Whatever lines are written to a sink that starts in an empty directory,
  the sink never fails; the files, in the order of their names, hold exactly the lines from some line on, whole and in
  order; there are at most \<open>max_file_count\<close> of them; and lines are dropped only when at least
  \<open>max_file_count - 1\<close> full files of later text are kept.  Every new file gets a name that comes after all names before it, as the time stamps in
  the names do while the local clock is not set back and no two files are opened in the same
  instant; files can be opened and removed; and \<open>max_file_count\<close> is at least one.\<close>

theorem log_files_keep_latest:
  assumes "log_disk E pre" and "1 \<le> n" and "n < 2 ^ 31"
  shows "\<exists>s k. write_lines E lines (FileSink_new E dir pre mx (int n) 0 []) = Some s
    \<and> concat (map snd (fk_files s)) = concat (drop k lines) \<and> sorted_wrt (<) (map fst (fk_files s)) \<and> length (fk_files s) \<le> n
    \<and> (k > 0 \<longrightarrow> length (fk_files s) = n \<and> (n - 1) * mx \<le> length (concat (drop k lines)))"
proof -
  note disk = log_disk.write_lines_holds [OF assms(1)] log_disk.FileSink_new_holds [OF assms(1,2)] log_disk.log_path_less [OF assms(1)]
  from disk(1) [OF disk(2) assms(3), where later = lines and mx = mx and i = 0 and dir = dir] obtain s k cs i ls where
    s: "write_lines E lines (FileSink_new E dir pre mx (int n) 0 []) = Some s" "sink_holds E dir pre mx n lines s k cs i ls" by auto
  note h = s(2) [unfolded sink_holds_def]
  have lines: "drop k lines = concat (map snd (cs @ [(i, ls)]))" using h by simp
  have content: "concat (map snd (files_of E dir pre xs)) = concat (concat (map snd xs))" for xs
    by (induction xs) (auto simp: files_of_def)
  have names: "map fst (files_of E dir pre xs) = map (log_path E dir pre) (map fst xs)" for xs by (auto simp: files_of_def)
  have "sorted_wrt (<) (map fst cs @ [i])" using h by simp
  then have "sorted_wrt (\<lambda>i j. log_path E dir pre i < log_path E dir pre j) (map fst cs @ [i])"
    by (rule sorted_wrt_mono_rel [rotated]) (rule disk(3))
  then have "sorted_wrt (<) (map (log_path E dir pre) (map fst (cs @ [(i, ls)])))" by (simp add: sorted_wrt_map sorted_wrt_append)
  moreover have "\<forall>c \<in> set cs. mx \<le> length (concat (snd c))" using h by blast
  then have "length cs * mx \<le> length (concat (concat (map snd cs)))" by (induction cs) auto
  ultimately show ?thesis using s(1) h by (intro exI [of _ s] exI [of _ k]) (auto simp: content names lines)
qed

text \<open>A disk whose clock gives the names \<^verbatim>\<open>app__000.log\<close>, \<^verbatim>\<open>app_z_000.log\<close>, \<^verbatim>\<open>app_zz_000.log\<close> and so on.\<close>

definition demo_log_env :: LogEnv where
  "demo_log_env = \<lparr>le_clock_ms = (\<lambda>n. 1000 * int n), le_file_time = (\<lambda>t. replicate (nat t) CHR ''z''),
     le_line_time = (\<lambda>t. ''2024-01-01 00:00:00''), le_opens = (\<lambda>p. True), le_removes = (\<lambda>p. True), le_backend_id = ''2'', le_main_id = ''1''\<rparr>"

interpretation demo_log_disk: log_disk demo_log_env dir "''app''" for dir
proof
  fix i j :: nat
  have n: "show_nat 0 = ''0''" by code_simp
  have e: "file_name demo_log_env ''app'' (le_clock_ms demo_log_env n) = ''app_'' @ replicate n CHR ''z'' @ ''_000.log''" for n
    by (simp add: file_name_def demo_log_env_def pad0_def to_string_def n numeral_2_eq_2)
  show "CHR ''/'' \<notin> set (file_name demo_log_env ''app'' (le_clock_ms demo_log_env i))" by (simp add: e)
  have "replicate i CHR ''z'' @ ''_000.log'' < replicate j CHR ''z'' @ ''_000.log''" if "i < j"
    using that by (induction i arbitrary: j) (auto simp: less_char_def gr0_conv_Suc Suc_less_eq2)
  then show "file_name demo_log_env ''app'' (le_clock_ms demo_log_env i) < file_name demo_log_env ''app'' (le_clock_ms demo_log_env j)" if "i < j"
    unfolding e using that by simp
qed (simp_all add: demo_log_env_def)

text \<open>Three lines in files of four letters, of which two are kept.\<close>

theorem log_files_keep_latest_witness:
  "\<exists>s k. write_lines demo_log_env [''abcd'', ''ef'', ''gh'', ''i''] (FileSink_new demo_log_env ''logs'' ''app'' 4 (int 2) 0 []) = Some s
    \<and> concat (map snd (fk_files s)) = concat (drop k [''abcd'', ''ef'', ''gh'', ''i'']) \<and> length (fk_files s) \<le> 2"
  using log_files_keep_latest [OF demo_log_disk.log_disk_axioms, of 2 "[''abcd'', ''ef'', ''gh'', ''i'']" "''logs''" 4] by auto

end
