(* ===== verification/Async_Logger.thy ===== *)
theory Async_Logger
  imports Log_Files
begin

text \<open>
  \<^verbatim>\<open>component/asynclogger/src\<close>: the buffer between the threads that log and the thread that writes (\<^verbatim>\<open>ring_buffer.cpp\<close>), that
  thread (\<^verbatim>\<open>backend_thread.cpp\<close>) and the logger (\<^verbatim>\<open>async_logger.cpp\<close>).

  The operations are functions on the state of their object.  How they interleave is the step function \<open>log_do\<close>: every
  access to an atomic variable and every section under a mutex is one step, the threads are given by their program
  counters.  Waiting for the condition variable has no step of its own: \<open>SwapAndGet\<close> takes place when the wait is over, with
  or without entries.  Ghost fields record which entries the buffer accepted and which were given to the sinks.
  \<open>lg_undefined\<close> marks a use of the buffer after it was freed, and undefined behaviour of a sink; then nothing more is stepped.
\<close>

section \<open>The buffer\<close>

record RingBuffer =
  rb_capacity :: nat
  rb_front :: "LogEntry list"
  rb_back :: "LogEntry list"
  rb_stopped :: bool

definition RingBuffer_new :: "nat \<Rightarrow> RingBuffer" where
  "RingBuffer_new capacity = \<lparr>rb_capacity = capacity, rb_front = [], rb_back = [], rb_stopped = False\<rparr>"

text \<open>\<open>Push\<close> first looks at \<open>stopped_\<close>, without the mutex, and then does the rest under the mutex.\<close>

definition Push_locked :: "LogEntry \<Rightarrow> RingBuffer \<Rightarrow> bool \<times> RingBuffer" where
  "Push_locked entry rb =
     (if length (rb_front rb) \<ge> rb_capacity rb then (False, rb)
      else (True, rb\<lparr>rb_front := rb_front rb @ [entry]\<rparr>))"

definition Push :: "LogEntry \<Rightarrow> RingBuffer \<Rightarrow> bool \<times> RingBuffer" where
  "Push entry rb = (if rb_stopped rb then (False, rb) else Push_locked entry rb)"

definition SwapAndGet :: "RingBuffer \<Rightarrow> LogEntry list \<times> RingBuffer" where
  "SwapAndGet rb = (if rb_front rb \<noteq> [] then (rb_front rb, rb\<lparr>rb_front := [], rb_back := []\<rparr>) else ([], rb))"

definition RingBuffer_Size :: "RingBuffer \<Rightarrow> nat" where
  "RingBuffer_Size rb = length (rb_front rb)"

definition RingBuffer_Empty :: "RingBuffer \<Rightarrow> bool" where
  "RingBuffer_Empty rb \<longleftrightarrow> rb_front rb = []"

definition RingBuffer_Stop :: "RingBuffer \<Rightarrow> RingBuffer" where
  "RingBuffer_Stop rb = rb\<lparr>rb_stopped := True\<rparr>"

section \<open>The thread that writes\<close>

datatype Sink = ConsoleS ConsoleSink | FileS FileSink

definition formatter_of :: "LogConfig \<Rightarrow> LogFormatter" where
  "formatter_of C = \<lparr>fmt_show_file_line = lc_show_file_line C, fmt_show_thread_id = lc_show_thread_id C\<rparr>"

definition Sink_Write :: "LogEnv \<Rightarrow> LogConfig \<Rightarrow> LogEntry \<Rightarrow> string \<Rightarrow> Sink \<Rightarrow> Sink option" where
  "Sink_Write E C entry formatted sink =
     (case sink of
        ConsoleS s \<Rightarrow> Some (ConsoleS (if lc_console_color C then WriteWithLevel (e_level entry) formatted s else ConsoleSink_Write formatted s))
      | FileS s \<Rightarrow> map_option FileS (FileSink_Write E formatted s))"

fun sinks_write :: "LogEnv \<Rightarrow> LogConfig \<Rightarrow> LogEntry \<Rightarrow> string \<Rightarrow> Sink list \<Rightarrow> Sink list option" where
  "sinks_write E C entry formatted [] = Some []"
| "sinks_write E C entry formatted (sink # sinks) =
     (case Sink_Write E C entry formatted sink of
        None \<Rightarrow> None
      | Some sink \<Rightarrow> map_option ((#) sink) (sinks_write E C entry formatted sinks))"

fun ProcessEntries :: "LogEnv \<Rightarrow> string \<Rightarrow> LogConfig \<Rightarrow> LogEntry list \<Rightarrow> Sink list \<Rightarrow> Sink list option" where
  "ProcessEntries E thread_id C [] sinks = Some sinks"
| "ProcessEntries E thread_id C (entry # entries) sinks =
     (case sinks_write E C entry (Format E thread_id (formatter_of C) entry) sinks of
        None \<Rightarrow> None
      | Some sinks \<Rightarrow> ProcessEntries E thread_id C entries sinks)"

definition Sink_Close :: "Sink \<Rightarrow> Sink" where
  "Sink_Close sink = (case sink of ConsoleS s \<Rightarrow> ConsoleS s | FileS s \<Rightarrow> FileS (FileSink_Close s))"

section \<open>The logger\<close>

record LogCall =
  k_level :: LogLevel
  k_file :: "string option"
  k_line :: int
  k_message :: string
  k_tag :: "Tag option"

definition log_entry :: "int \<Rightarrow> LogCall \<Rightarrow> LogEntry" where
  "log_entry now c =
     \<lparr>e_timestamp = now, e_level = LogLevel_int (k_level c), e_line = k_line c,
      e_file = (case k_file c of None \<Rightarrow> [] | Some f \<Rightarrow> f), e_message = k_message c,
      e_tags = (case k_tag c of None \<Rightarrow> [] | Some t \<Rightarrow> Tag_ToString t)\<rparr>"

text \<open>Program counters.  A thread that logs: before the look at \<open>initialized_\<close>, before the look at the level, before the look at
  \<open>stopped_\<close>, before the mutex.\<close>

datatype producer = PIdle | PCalled LogCall | PInit LogCall | PPush LogEntry | PLock LogEntry

text \<open>The thread of \<open>BackendThread::Run\<close>: not started, at the loop condition (\<open>running_\<close>, then \<open>Empty\<close>), at \<open>SwapAndGet\<close>, with entries
  to process, at \<open>Flush\<close>, ended.\<close>

datatype backend = BNone | BLoop | BEmpty | BSwap | BProcess "LogEntry list" | BFlush | BExited

text \<open>The thread that calls \<open>Init\<close> and \<open>Shutdown\<close>: in \<open>BackendThread::Stop\<close> before \<open>running_\<close>, before \<open>buffer_.Stop\<close>, joining,
  draining, closing the sinks; before the two \<open>reset\<close>s.\<close>

datatype control = CIdle | CStop | CStopBuffer | CJoin | CDrain | CClose | CReset

record Logger =
  lg_config :: LogConfig
  lg_initialized :: bool
  lg_min_level :: int
  lg_buffer :: "RingBuffer option"
  lg_sinks :: "Sink list"
  lg_running :: bool
  lg_backend :: backend
  lg_control :: control
  lg_producers :: "nat \<Rightarrow> producer"
  lg_files :: LogFiles
  lg_ticks :: nat
  lg_undefined :: bool
  lg_accepted :: "LogEntry list"
  lg_written :: "(string \<times> LogEntry) list"
  lg_opened :: "Sink list"

definition Logger_start :: "LogFiles \<Rightarrow> Logger" where
  "Logger_start fs =
     \<lparr>lg_config = LogConfig_default, lg_initialized = False, lg_min_level = LogLevel_int LL_INFO, lg_buffer = None, lg_sinks = [],
      lg_running = False, lg_backend = BNone, lg_control = CIdle, lg_producers = (\<lambda>t. PIdle), lg_files = fs, lg_ticks = 0,
      lg_undefined = False, lg_accepted = [], lg_written = [], lg_opened = []\<rparr>"

definition initial_sinks :: "LogEnv \<Rightarrow> LogConfig \<Rightarrow> nat \<Rightarrow> LogFiles \<Rightarrow> Sink list" where
  "initial_sinks E C ticks fs =
     (if lc_enable_console C then [ConsoleS \<lparr>con_enable_color = lc_console_color C, con_out = []\<rparr>] else [])
   @ (if lc_enable_file C
      then [FileS (FileSink_new E (lc_log_dir C) (lc_file_prefix C) (lc_max_file_size C) (lc_max_file_count C) ticks fs)] else [])"

definition Logger_Init :: "LogEnv \<Rightarrow> LogConfig \<Rightarrow> Logger \<Rightarrow> Logger" where
  "Logger_Init E C lg =
     (if lg_initialized lg then lg
      else
        let buffer_entries = lc_buffer_size C div 256;
            buffer_entries = (if buffer_entries < 1024 then 1024 else buffer_entries);
            sinks = initial_sinks E C (lg_ticks lg) (lg_files lg)
        in lg\<lparr>lg_config := C, lg_min_level := LogLevel_int (lc_min_level C), lg_buffer := Some (RingBuffer_new buffer_entries),
             lg_sinks := sinks, lg_running := True, lg_backend := BLoop, lg_initialized := True,
             lg_accepted := [], lg_written := [], lg_opened := sinks\<rparr>)"

definition ShouldLog :: "LogLevel \<Rightarrow> Logger \<Rightarrow> bool" where
  "ShouldLog level lg \<longleftrightarrow> lg_initialized lg \<and> LogLevel_int level \<ge> lg_min_level lg"

section \<open>Steps\<close>

definition undefined_step :: "Logger \<Rightarrow> Logger" where
  "undefined_step lg = lg\<lparr>lg_undefined := True\<rparr>"

definition set_producer :: "nat \<Rightarrow> producer \<Rightarrow> Logger \<Rightarrow> Logger" where
  "set_producer t p lg = lg\<lparr>lg_producers := (lg_producers lg)(t := p)\<rparr>"

text \<open>\<open>AsyncLoggerImpl::Log\<close> and \<open>LogWithTag\<close>.\<close>

definition Log_step :: "nat \<Rightarrow> int \<Rightarrow> Logger \<Rightarrow> Logger option" where
  "Log_step t now lg =
     (case lg_producers lg t of
        PIdle \<Rightarrow> None
      | PCalled c \<Rightarrow> Some (set_producer t (if lg_initialized lg then PInit c else PIdle) lg)
      | PInit c \<Rightarrow> Some (set_producer t (if LogLevel_int (k_level c) < lg_min_level lg then PIdle else PPush (log_entry now c)) lg)
      | PPush entry \<Rightarrow>
          (case lg_buffer lg of
             None \<Rightarrow> Some (undefined_step lg)
           | Some b \<Rightarrow> Some (set_producer t (if rb_stopped b then PIdle else PLock entry) lg))
      | PLock entry \<Rightarrow>
          (case lg_buffer lg of
             None \<Rightarrow> Some (undefined_step lg)
           | Some b \<Rightarrow>
               let (ok, b) = Push_locked entry b
               in Some (set_producer t PIdle
                    (lg\<lparr>lg_buffer := Some b, lg_accepted := (if ok then lg_accepted lg @ [entry] else lg_accepted lg)\<rparr>))))"

definition process_entries :: "LogEnv \<Rightarrow> string \<Rightarrow> LogEntry list \<Rightarrow> Logger \<Rightarrow> Logger option" where
  "process_entries E thread_id entries lg =
     (case ProcessEntries E thread_id (lg_config lg) entries (lg_sinks lg) of
        None \<Rightarrow> None
      | Some sinks \<Rightarrow> Some (lg\<lparr>lg_sinks := sinks, lg_written := lg_written lg @ map (Pair thread_id) entries\<rparr>))"

text \<open>\<open>BackendThread::Run\<close>.  Flushing moves no entries.\<close>

definition Run_step :: "LogEnv \<Rightarrow> Logger \<Rightarrow> Logger option" where
  "Run_step E lg =
     (case lg_backend lg of
        BNone \<Rightarrow> None
      | BExited \<Rightarrow> None
      | BLoop \<Rightarrow> Some (lg\<lparr>lg_backend := (if lg_running lg then BSwap else BEmpty)\<rparr>)
      | BEmpty \<Rightarrow>
          (case lg_buffer lg of
             None \<Rightarrow> Some (undefined_step lg)
           | Some b \<Rightarrow> Some (lg\<lparr>lg_backend := (if \<not> RingBuffer_Empty b then BSwap else BExited)\<rparr>))
      | BSwap \<Rightarrow>
          (case lg_buffer lg of
             None \<Rightarrow> Some (undefined_step lg)
           | Some b \<Rightarrow> let (entries, b) = SwapAndGet b in Some (lg\<lparr>lg_buffer := Some b, lg_backend := BProcess entries\<rparr>))
      | BProcess entries \<Rightarrow>
          (case process_entries E (le_backend_id E) entries lg of
             None \<Rightarrow> Some (undefined_step lg)
           | Some lg \<Rightarrow> Some (lg\<lparr>lg_backend := BFlush\<rparr>))
      | BFlush \<Rightarrow> Some (lg\<lparr>lg_backend := BLoop\<rparr>))"

definition disk_of :: "Sink list \<Rightarrow> (LogFiles \<times> nat) option" where
  "disk_of sinks = (case [(fk_files s, fk_ticks s). FileS s \<leftarrow> sinks] of [] \<Rightarrow> None | d # ds \<Rightarrow> Some d)"

text \<open>\<open>Shutdown\<close> after its first store: \<open>BackendThread::Stop\<close> and the two \<open>reset\<close>s.  The sinks stay in the record for what they
  have written.\<close>

definition Shutdown_step :: "LogEnv \<Rightarrow> Logger \<Rightarrow> Logger option" where
  "Shutdown_step E lg =
     (case lg_control lg of
        CIdle \<Rightarrow> None
      | CStop \<Rightarrow> Some (if \<not> lg_running lg then lg\<lparr>lg_control := CReset\<rparr> else lg\<lparr>lg_running := False, lg_control := CStopBuffer\<rparr>)
      | CStopBuffer \<Rightarrow> Some (lg\<lparr>lg_buffer := map_option RingBuffer_Stop (lg_buffer lg), lg_control := CJoin\<rparr>)
      | CJoin \<Rightarrow> if lg_backend lg = BExited then Some (lg\<lparr>lg_control := CDrain\<rparr>) else None
      | CDrain \<Rightarrow>
          (case lg_buffer lg of
             None \<Rightarrow> Some (undefined_step lg)
           | Some b \<Rightarrow>
               let (remaining, b) = SwapAndGet b
               in (case process_entries E (le_main_id E) remaining (lg\<lparr>lg_buffer := Some b\<rparr>) of
                     None \<Rightarrow> Some (undefined_step lg)
                   | Some lg \<Rightarrow> Some (lg\<lparr>lg_control := CClose\<rparr>)))
      | CClose \<Rightarrow> Some (lg\<lparr>lg_sinks := map Sink_Close (lg_sinks lg), lg_control := CReset\<rparr>)
      | CReset \<Rightarrow>
          let (fs, ticks) = (case disk_of (lg_sinks lg) of None \<Rightarrow> (lg_files lg, lg_ticks lg) | Some d \<Rightarrow> d)
          in Some (lg\<lparr>lg_backend := BNone, lg_buffer := None, lg_files := fs, lg_ticks := ticks, lg_control := CIdle\<rparr>))"

datatype log_event = CallLog nat LogCall | LogStep nat int | RunStep | CallInit LogConfig | CallShutdown | ShutdownStep | CallSetLevel LogLevel

fun log_do :: "LogEnv \<Rightarrow> log_event \<Rightarrow> Logger \<Rightarrow> Logger option" where
  "log_do E ev lg =
     (if lg_undefined lg then None
      else case ev of
        CallLog t c \<Rightarrow> if lg_producers lg t = PIdle then Some (set_producer t (PCalled c) lg) else None
      | LogStep t now \<Rightarrow> Log_step t now lg
      | RunStep \<Rightarrow> Run_step E lg
      | CallInit C \<Rightarrow> if lg_control lg = CIdle then Some (Logger_Init E C lg) else None
      | CallShutdown \<Rightarrow>
          if lg_control lg = CIdle
          then Some (if \<not> lg_initialized lg then lg else lg\<lparr>lg_initialized := False, lg_control := CStop\<rparr>) else None
      | ShutdownStep \<Rightarrow> Shutdown_step E lg
      | CallSetLevel level \<Rightarrow> Some (lg\<lparr>lg_min_level := LogLevel_int level\<rparr>))"

fun log_run :: "LogEnv \<Rightarrow> log_event list \<Rightarrow> Logger \<Rightarrow> Logger option" where
  "log_run E [] lg = Some lg"
| "log_run E (ev # evs) lg = (case log_do E ev lg of None \<Rightarrow> None | Some lg \<Rightarrow> log_run E evs lg)"

inductive log_reach :: "LogEnv \<Rightarrow> LogFiles \<Rightarrow> Logger \<Rightarrow> bool" for E :: LogEnv and fs :: LogFiles where
  start: "log_reach E fs (Logger_start fs)"
| step: "log_reach E fs lg \<Longrightarrow> log_do E ev lg = Some lg' \<Longrightarrow> log_reach E fs lg'"

end
