(* ===== verification/Async_Logger_Laws.thy ===== *)
theory Async_Logger_Laws
  imports Async_Logger
begin

text \<open>
  What holds of the logger whatever the threads do and in whatever order: entries are written once, in the order of
  acceptance.  \<open>Shutdown\<close> writes everything that was accepted and returns, if no call of \<open>Log\<close> is under way when it starts.
\<close>

section \<open>Sinks\<close>

text \<open>Entries with the thread that formats each of them.\<close>

fun sinks_run :: "LogEnv \<Rightarrow> LogConfig \<Rightarrow> (string \<times> LogEntry) list \<Rightarrow> Sink list \<Rightarrow> Sink list option" where
  "sinks_run E C [] sinks = Some sinks"
| "sinks_run E C ((thread_id, entry) # es) sinks =
     (case sinks_write E C entry (Format E thread_id (formatter_of C) entry) sinks of
        None \<Rightarrow> None
      | Some sinks \<Rightarrow> sinks_run E C es sinks)"

lemma sinks_run_append:
  "sinks_run E C (xs @ ys) sinks = (case sinks_run E C xs sinks of None \<Rightarrow> None | Some sinks \<Rightarrow> sinks_run E C ys sinks)"
  by (induction E C xs sinks rule: sinks_run.induct) (auto split: option.splits)

lemma ProcessEntries_run: "ProcessEntries E thread_id C entries sinks = sinks_run E C (map (Pair thread_id) entries) sinks"
  by (induction entries arbitrary: sinks) (auto split: option.splits)

text \<open>A file sink with a positive number of files never fails.\<close>

definition sink_ok :: "LogConfig \<Rightarrow> Sink \<Rightarrow> bool" where
  "sink_ok C sink = (case sink of ConsoleS s \<Rightarrow> True | FileS s \<Rightarrow> fk_max_file_count s = lc_max_file_count C)"

lemma cleanup_loop_total: "1 \<le> n \<Longrightarrow> cleanup_loop E n xs fs \<noteq> None"
  by (induction xs arbitrary: fs) auto

lemma OpenNewFile_count [simp]: "fk_max_file_count (snd (OpenNewFile E s)) = fk_max_file_count s"
  by (simp add: OpenNewFile_def Let_def)

lemma file_put_count [simp]: "fk_max_file_count (file_put l s) = fk_max_file_count s"
  by (simp add: file_put_def)

lemma CheckRotate_count: "CheckRotate E s = Some s' \<Longrightarrow> fk_max_file_count s' = fk_max_file_count s"
  by (auto simp: CheckRotate_def RotateFile_def CleanupOldFiles_def Let_def split: if_splits)

lemma FileSink_Write_count: "FileSink_Write E l s = Some s' \<Longrightarrow> fk_max_file_count s' = fk_max_file_count s"
  by (auto simp: FileSink_Write_def with_open_def case_prod_beta dest!: CheckRotate_count split: if_splits)

lemma CheckRotate_total: "1 \<le> fk_max_file_count s \<Longrightarrow> CheckRotate E s \<noteq> None"
  using cleanup_loop_total by (simp add: CheckRotate_def RotateFile_def CleanupOldFiles_def Let_def)

lemma FileSink_Write_total: "1 \<le> fk_max_file_count s \<Longrightarrow> FileSink_Write E l s \<noteq> None"
  using CheckRotate_total [of "file_put l s"] CheckRotate_total [of "file_put l (snd (OpenNewFile E s))"]
  by (simp add: FileSink_Write_def with_open_def case_prod_beta)

lemma sinks_write_ok:
  assumes "list_all (sink_ok C) sinks"
  shows "sinks_write E C e l sinks = Some sinks' \<Longrightarrow> list_all (sink_ok C) sinks'"
    "1 \<le> lc_max_file_count C \<Longrightarrow> sinks_write E C e l sinks \<noteq> None"
  using assms
  by (induction sinks arbitrary: sinks')
    (auto simp: sink_ok_def Sink_Write_def FileSink_Write_total split: Sink.splits option.splits dest!: FileSink_Write_count)

lemma sinks_run_ok:
  assumes "list_all (sink_ok C) sinks"
  shows "sinks_run E C es sinks = Some sinks' \<Longrightarrow> list_all (sink_ok C) sinks'"
    "1 \<le> lc_max_file_count C \<Longrightarrow> sinks_run E C es sinks \<noteq> None"
  using assms
  by (induction E C es sinks rule: sinks_run.induct) (auto split: option.splits dest: sinks_write_ok)

lemma initial_sinks_ok: "list_all (sink_ok C) (initial_sinks E C t fs)"
  by (simp add: initial_sinks_def sink_ok_def FileSink_new_def)

lemma Sink_Close_Close [simp]: "Sink_Close (Sink_Close s) = Sink_Close s"
  by (auto simp: Sink_Close_def FileSink_Close_def split: Sink.splits)

lemma sink_ok_Close [simp]: "sink_ok C (Sink_Close s) = sink_ok C s"
  by (auto simp: Sink_Close_def FileSink_Close_def sink_ok_def split: Sink.splits)

section \<open>Invariant\<close>

fun in_flight :: "backend \<Rightarrow> LogEntry list" where
  "in_flight (BProcess entries) = entries"
| "in_flight b = []"

text \<open>Where the threads can be.\<close>

definition placed :: "bool \<Rightarrow> bool \<Rightarrow> control \<Rightarrow> backend \<Rightarrow> bool \<Rightarrow> bool" where
  "placed initialized running c b freed \<longleftrightarrow>
     (running \<longleftrightarrow> initialized \<or> c = CStop) \<and> (initialized \<longrightarrow> c = CIdle) \<and> (running \<longrightarrow> b \<notin> {BNone, BEmpty, BExited})
   \<and> (freed \<longleftrightarrow> \<not> initialized \<and> c = CIdle) \<and> (b = BNone \<longleftrightarrow> freed) \<and> (c \<in> {CDrain, CClose, CReset} \<longrightarrow> b = BExited)"

definition threads_ok :: "Logger \<Rightarrow> bool" where
  "threads_ok lg \<longleftrightarrow> placed (lg_initialized lg) (lg_running lg) (lg_control lg) (lg_backend lg) (lg_buffer lg = None)"

text \<open>What was accepted is what was written, what the writing thread holds, and what is in the buffer, in this order.\<close>

definition entries_ok :: "Logger \<Rightarrow> bool" where
  "entries_ok lg \<longleftrightarrow>
     (\<forall>b. lg_buffer lg = Some b \<longrightarrow>
        lg_accepted lg = map snd (lg_written lg) @ in_flight (lg_backend lg) @ rb_front b \<and> length (rb_front b) \<le> rb_capacity b)"

definition sinks_ok :: "LogEnv \<Rightarrow> Logger \<Rightarrow> bool" where
  "sinks_ok E lg \<longleftrightarrow>
     list_all (sink_ok (lg_config lg)) (lg_sinks lg)
   \<and> (if lg_initialized lg \<or> lg_control lg \<notin> {CIdle, CReset}
      then sinks_run E (lg_config lg) (lg_written lg) (lg_opened lg) = Some (lg_sinks lg)
      else \<exists>sinks. sinks_run E (lg_config lg) (lg_written lg) (lg_opened lg) = Some sinks \<and> lg_sinks lg = map Sink_Close sinks)"

lemmas log_step_defs = Log_step_def Run_step_def Shutdown_step_def process_entries_def undefined_step_def set_producer_def Logger_Init_def

lemma Log_step_places:
  assumes "Log_step t now lg = Some lg'"
  shows "lg_initialized lg' = lg_initialized lg \<and> lg_running lg' = lg_running lg \<and> lg_control lg' = lg_control lg
    \<and> lg_backend lg' = lg_backend lg \<and> (lg_buffer lg' = None \<longleftrightarrow> lg_buffer lg = None)"
  using assms
  by (cases "lg_producers lg t"; cases "lg_buffer lg") (auto simp: Log_step_def undefined_step_def set_producer_def case_prod_beta)

lemma Run_step_places:
  assumes "Run_step E lg = Some lg'"
  shows "lg_initialized lg' = lg_initialized lg \<and> lg_running lg' = lg_running lg \<and> lg_control lg' = lg_control lg
    \<and> (lg_buffer lg' = None \<longleftrightarrow> lg_buffer lg = None)
    \<and> (lg_undefined lg' \<and> lg_backend lg' = lg_backend lg \<or> lg_backend lg' \<noteq> BNone \<and> lg_backend lg \<notin> {BNone, BExited}
       \<and> (lg_backend lg' = BEmpty \<longrightarrow> \<not> lg_running lg) \<and> (lg_backend lg' = BExited \<longrightarrow> lg_backend lg = BEmpty))"
  using assms
  by (cases "lg_backend lg"; cases "lg_buffer lg")
    (auto simp: Run_step_def process_entries_def undefined_step_def case_prod_beta split: option.split_asm if_split_asm)

lemma placed_run:
  assumes "placed i r c b f" and "b' = b \<or> b' \<noteq> BNone \<and> b \<notin> {BNone, BExited} \<and> (b' = BEmpty \<longrightarrow> \<not> r) \<and> (b' = BExited \<longrightarrow> b = BEmpty)"
  shows "placed i r c b' f"
  using assms by (auto simp: placed_def)

fun next_control :: "control \<Rightarrow> control" where
  "next_control CIdle = CIdle"
| "next_control CStop = CStopBuffer"
| "next_control CStopBuffer = CJoin"
| "next_control CJoin = CDrain"
| "next_control CDrain = CClose"
| "next_control CClose = CReset"
| "next_control CReset = CIdle"

lemma Shutdown_step_places:
  assumes "Shutdown_step E lg = Some lg'" and "threads_ok lg"
  shows "lg' = lg\<lparr>lg_undefined := True\<rparr> \<or>
     lg_control lg \<noteq> CIdle \<and> lg_control lg' = next_control (lg_control lg) \<and> lg_initialized lg' = lg_initialized lg
       \<and> lg_running lg' = (lg_running lg \<and> lg_control lg \<noteq> CStop)
       \<and> lg_backend lg' = (if lg_control lg = CReset then BNone else lg_backend lg) \<and> (lg_control lg = CJoin \<longrightarrow> lg_backend lg = BExited)
       \<and> (lg_buffer lg' = None \<longleftrightarrow> lg_buffer lg = None \<or> lg_control lg = CReset)"
  using assms
  by (cases "lg_control lg"; cases "lg_buffer lg")
    (auto simp: threads_ok_def placed_def Shutdown_step_def process_entries_def undefined_step_def case_prod_beta Let_def split: option.split_asm if_split_asm)

lemma placed_shutdown:
  "placed i r c b f \<Longrightarrow> c \<noteq> CIdle \<Longrightarrow> (c = CJoin \<longrightarrow> b = BExited) \<Longrightarrow>
   placed i (r \<and> c \<noteq> CStop) (next_control c) (if c = CReset then BNone else b) (f \<or> c = CReset)"
  by (cases c) (auto simp: placed_def)

lemma snd_comp_Pair [simp]: "snd \<circ> Pair x = id"
  by auto

lemma Push_locked_split: "Push_locked e b = (ok, b') \<Longrightarrow>
    rb_front b' = (if ok then rb_front b @ [e] else rb_front b) \<and> rb_capacity b' = rb_capacity b \<and> rb_stopped b' = rb_stopped b
    \<and> (length (rb_front b) \<le> rb_capacity b \<longrightarrow> length (rb_front b') \<le> rb_capacity b)"
  by (auto simp: Push_locked_def split: if_splits)

lemma SwapAndGet_split: "SwapAndGet b = (es, b') \<Longrightarrow>
    es = rb_front b \<and> rb_front b' = [] \<and> rb_capacity b' = rb_capacity b \<and> rb_stopped b' = rb_stopped b"
  by (auto simp: SwapAndGet_def split: if_splits)

lemma threads_ok_step:
  assumes "threads_ok lg" and "log_do E ev lg = Some lg'"
  shows "threads_ok lg'"
proof (cases ev)
  case (CallLog t c)
  with assms show ?thesis by (auto simp: set_producer_def threads_ok_def split: if_split_asm)
next
  case (LogStep t now)
  with assms show ?thesis using Log_step_places [of t now lg lg'] by (simp add: threads_ok_def split: if_split_asm)
next
  case RunStep
  with assms have "Run_step E lg = Some lg'" by (simp split: if_split_asm)
  from Run_step_places [OF this] assms(1) show ?thesis
    unfolding threads_ok_def by (elim conjE) (rule placed_run [of _ _ _ "lg_backend lg"], simp_all, blast)
next
  case (CallInit C)
  with assms show ?thesis by (cases "lg_initialized lg") (auto simp: Logger_Init_def Let_def threads_ok_def placed_def split: if_split_asm)
next
  case CallShutdown
  with assms show ?thesis by (cases "lg_initialized lg") (auto simp: threads_ok_def placed_def split: if_split_asm)
next
  case ShutdownStep
  with assms have "Shutdown_step E lg = Some lg'" by (simp split: if_split_asm)
  from Shutdown_step_places [OF this assms(1)] show ?thesis
  proof
    assume "lg' = lg\<lparr>lg_undefined := True\<rparr>"
    with assms(1) show ?thesis by (simp add: threads_ok_def)
  next
    assume h: "lg_control lg \<noteq> CIdle \<and> lg_control lg' = next_control (lg_control lg) \<and> lg_initialized lg' = lg_initialized lg
       \<and> lg_running lg' = (lg_running lg \<and> lg_control lg \<noteq> CStop)
       \<and> lg_backend lg' = (if lg_control lg = CReset then BNone else lg_backend lg) \<and> (lg_control lg = CJoin \<longrightarrow> lg_backend lg = BExited)
       \<and> (lg_buffer lg' = None \<longleftrightarrow> lg_buffer lg = None \<or> lg_control lg = CReset)"
    then have "placed (lg_initialized lg) (lg_running lg \<and> lg_control lg \<noteq> CStop) (next_control (lg_control lg))
        (if lg_control lg = CReset then BNone else lg_backend lg) (lg_buffer lg = None \<or> lg_control lg = CReset)"
      by (intro placed_shutdown [OF assms(1) [unfolded threads_ok_def]]) blast+
    with h show ?thesis by (simp add: threads_ok_def)
  qed
next
  case (CallSetLevel l)
  with assms show ?thesis by (auto simp: threads_ok_def split: if_split_asm)
qed

lemma entries_ok_step:
  assumes "threads_ok lg" and "entries_ok lg" and "log_do E ev lg = Some lg'"
  shows "entries_ok lg'"
proof (cases ev)
  case (CallLog t c)
  with assms show ?thesis by (auto simp: set_producer_def entries_ok_def split: if_split_asm)
next
  case (LogStep t now)
  with assms(3) have "Log_step t now lg = Some lg'" by (simp split: if_split_asm)
  with assms(2) show ?thesis
    by (cases "lg_producers lg t"; cases "lg_buffer lg")
      (auto simp: entries_ok_def Log_step_def undefined_step_def set_producer_def split: prod.split_asm dest!: Push_locked_split)
next
  case RunStep
  with assms(3) have "Run_step E lg = Some lg'" by (simp split: if_split_asm)
  with assms(2) show ?thesis
    by (cases "lg_backend lg"; cases "lg_buffer lg")
      (auto simp: entries_ok_def Run_step_def process_entries_def undefined_step_def RingBuffer_Empty_def
        split: option.split_asm prod.split_asm if_split_asm dest!: SwapAndGet_split)
next
  case (CallInit C)
  with assms show ?thesis by (cases "lg_initialized lg") (auto simp: Logger_Init_def Let_def entries_ok_def RingBuffer_new_def split: if_split_asm)
next
  case CallShutdown
  with assms show ?thesis by (cases "lg_initialized lg") (auto simp: entries_ok_def split: if_split_asm)
next
  case ShutdownStep
  with assms(3) have "Shutdown_step E lg = Some lg'" by (simp split: if_split_asm)
  with assms(1,2) show ?thesis
    by (cases "lg_control lg"; cases "lg_buffer lg")
      (auto simp: entries_ok_def threads_ok_def placed_def Shutdown_step_def process_entries_def undefined_step_def RingBuffer_Stop_def Let_def
        split: option.split_asm prod.split_asm if_split_asm dest!: SwapAndGet_split)
next
  case (CallSetLevel l)
  with assms show ?thesis by (auto simp: entries_ok_def split: if_split_asm)
qed

lemma sinks_ok_steps:
  assumes "threads_ok lg" and "sinks_ok E lg"
  shows "Run_step E lg = Some lg' \<Longrightarrow> sinks_ok E lg'" "Shutdown_step E lg = Some lg' \<Longrightarrow> sinks_ok E lg'"
proof -
  have run: "sinks_run E (lg_config lg) (lg_written lg @ map (Pair tid) es) (lg_opened lg) = Some sinks \<and> list_all (sink_ok (lg_config lg)) sinks"
    if "ProcessEntries E tid (lg_config lg) es (lg_sinks lg) = Some sinks" "lg_initialized lg \<or> lg_control lg \<notin> {CIdle, CReset}" for tid es sinks
    using that assms(2) sinks_run_ok(1) [of "lg_config lg" "lg_sinks lg"]
    by (auto simp: sinks_ok_def ProcessEntries_run sinks_run_append)
  show "sinks_ok E lg'" if "Run_step E lg = Some lg'"
  proof (cases "lg_backend lg")
    case (BProcess es)
    then have "lg_initialized lg \<or> lg_control lg \<notin> {CIdle, CReset}" using assms(1) by (auto simp: threads_ok_def placed_def)
    with that BProcess assms(2) run [of "le_backend_id E" es] show ?thesis
      by (cases "ProcessEntries E (le_backend_id E) (lg_config lg) es (lg_sinks lg)")
        (auto simp: sinks_ok_def Run_step_def process_entries_def undefined_step_def)
  qed (use that assms(2) in \<open>auto simp: sinks_ok_def Run_step_def undefined_step_def split: option.split_asm prod.split_asm if_split_asm\<close>)
  show "sinks_ok E lg'" if "Shutdown_step E lg = Some lg'"
  proof (cases "lg_control lg")
    case CDrain
    with that assms run [of "le_main_id E"] show ?thesis
      by (auto simp: sinks_ok_def Shutdown_step_def process_entries_def undefined_step_def Let_def threads_ok_def placed_def
          split: option.split_asm prod.split_asm)
  qed (use that assms in \<open>auto simp: sinks_ok_def Shutdown_step_def threads_ok_def placed_def Let_def list.pred_map o_def split: if_split_asm prod.split_asm\<close>)
qed

lemma Log_step_keeps:
  assumes "Log_step t now lg = Some lg'"
  shows "lg_config lg' = lg_config lg \<and> lg_sinks lg' = lg_sinks lg \<and> lg_written lg' = lg_written lg \<and> lg_opened lg' = lg_opened lg"
  using assms
  by (cases "lg_producers lg t"; cases "lg_buffer lg") (auto simp: Log_step_def undefined_step_def set_producer_def case_prod_beta)

lemma sinks_ok_step:
  assumes "threads_ok lg" and "sinks_ok E lg" and "log_do E ev lg = Some lg'"
  shows "sinks_ok E lg'"
proof (cases ev)
  case (CallLog t c)
  with assms show ?thesis by (auto simp: set_producer_def sinks_ok_def split: if_split_asm)
next
  case (LogStep t now)
  with assms(3) have "Log_step t now lg = Some lg'" by (simp split: if_split_asm)
  from Log_step_keeps [OF this] Log_step_places [OF this] assms(2) show ?thesis by (simp add: sinks_ok_def)
next
  case (CallInit C)
  with assms(2,3) show ?thesis
    by (cases "lg_initialized lg") (auto simp: Logger_Init_def Let_def sinks_ok_def initial_sinks_ok split: if_split_asm)
next
  case CallShutdown
  with assms(2,3) show ?thesis by (cases "lg_initialized lg") (auto simp: sinks_ok_def split: if_split_asm)
next
  case (CallSetLevel l)
  with assms show ?thesis by (auto simp: sinks_ok_def split: if_split_asm)
qed (use assms sinks_ok_steps [OF assms(1,2)] in \<open>auto split: if_split_asm\<close>)

lemma log_reach_ok:
  assumes "log_reach E fs lg"
  shows "threads_ok lg \<and> entries_ok lg \<and> sinks_ok E lg"
  using assms
proof induction
  case start
  show ?case by (auto simp: Logger_start_def threads_ok_def placed_def entries_ok_def sinks_ok_def)
next
  case (step lg ev lg')
  then show ?case using threads_ok_step entries_ok_step sinks_ok_step by blast
qed

section \<open>Shutting down\<close>

text \<open>No thread is past the look at \<open>initialized_\<close>.\<close>

definition quiet :: "Logger \<Rightarrow> bool" where
  "quiet lg \<longleftrightarrow> (\<forall>t. lg_producers lg t = PIdle \<or> (\<exists>c. lg_producers lg t = PCalled c))"

definition closing :: "Logger \<Rightarrow> bool" where
  "closing lg \<longleftrightarrow> \<not> lg_initialized lg \<and> quiet lg
   \<and> (lg_control lg \<in> {CClose, CReset} \<longrightarrow> (\<forall>b. lg_buffer lg = Some b \<longrightarrow> rb_front b = []))
   \<and> (lg_control lg = CIdle \<longrightarrow> lg_accepted lg = map snd (lg_written lg))"

definition log_inv :: "LogEnv \<Rightarrow> Logger \<Rightarrow> bool" where
  "log_inv E lg \<longleftrightarrow> threads_ok lg \<and> entries_ok lg \<and> sinks_ok E lg \<and> 1 \<le> lc_max_file_count (lg_config lg) \<and> \<not> lg_undefined lg"

lemma ProcessEntries_total:
  "log_inv E lg \<Longrightarrow> ProcessEntries E tid (lg_config lg) es (lg_sinks lg) \<noteq> None"
  using sinks_run_ok(2) by (simp add: log_inv_def sinks_ok_def ProcessEntries_run)

lemma Log_step_closing:
  assumes "closing lg" and "Log_step t now lg = Some lg'"
  shows "lg' = set_producer t PIdle lg"
proof -
  have "lg_producers lg t = PIdle \<or> (\<exists>c. lg_producers lg t = PCalled c)" "\<not> lg_initialized lg" using assms(1) by (simp_all add: closing_def quiet_def)
  with assms(2) show ?thesis by (auto simp: Log_step_def)
qed

lemma Run_step_defined:
  assumes "log_inv E lg" and "Run_step E lg = Some lg'"
  shows "\<not> lg_undefined lg' \<and> lg_config lg' = lg_config lg \<and> lg_accepted lg' = lg_accepted lg \<and> lg_producers lg' = lg_producers lg
    \<and> lg_opened lg' = lg_opened lg \<and> lg_control lg' = lg_control lg"
  using assms
  by (cases "lg_backend lg"; cases "lg_buffer lg")
    (auto simp: log_inv_def threads_ok_def placed_def Run_step_def process_entries_def case_prod_beta split: option.split_asm if_split_asm
      elim: notE [OF ProcessEntries_total [OF assms(1)]])

lemma Shutdown_step_defined:
  assumes "log_inv E lg" and "Shutdown_step E lg = Some lg'"
  shows "\<not> lg_undefined lg' \<and> lg_config lg' = lg_config lg \<and> lg_accepted lg' = lg_accepted lg \<and> lg_producers lg' = lg_producers lg
    \<and> lg_opened lg' = lg_opened lg"
  using assms
  by (cases "lg_control lg"; cases "lg_buffer lg")
    (auto simp: log_inv_def threads_ok_def placed_def Shutdown_step_def process_entries_def case_prod_beta Let_def split: option.split_asm if_split_asm
      elim: notE [OF ProcessEntries_total [OF assms(1)]])

lemma closing_step:
  assumes "log_inv E lg" and "closing lg" and "log_do E ev lg = Some lg'" and "\<And>C. ev \<noteq> CallInit C"
  shows "log_inv E lg' \<and> closing lg' \<and> lg_config lg' = lg_config lg \<and> lg_accepted lg' = lg_accepted lg \<and> lg_opened lg' = lg_opened lg"
proof -
  have inv: "threads_ok lg" "entries_ok lg" "sinks_ok E lg" using assms(1) by (simp_all add: log_inv_def)
  have inv': "threads_ok lg'" "entries_ok lg'" "sinks_ok E lg'"
    using threads_ok_step [OF inv(1) assms(3)] entries_ok_step [OF inv(1,2) assms(3)] sinks_ok_step [OF inv(1,3) assms(3)] by auto
  have "\<not> lg_undefined lg' \<and> closing lg' \<and> lg_config lg' = lg_config lg \<and> lg_accepted lg' = lg_accepted lg \<and> lg_opened lg' = lg_opened lg"
  proof (cases ev)
    case (CallLog t c)
    with assms(1-3) show ?thesis by (auto simp: set_producer_def closing_def quiet_def log_inv_def split: if_split_asm)
  next
    case (LogStep t now)
    with assms(2,3) have "lg' = set_producer t PIdle lg" using Log_step_closing by (simp split: if_split_asm)
    with assms(1,2) show ?thesis by (auto simp: set_producer_def closing_def quiet_def log_inv_def)
  next
    case RunStep
    with assms(3) have r: "Run_step E lg = Some lg'" by (simp split: if_split_asm)
    then have "lg_control lg \<notin> {CIdle, CDrain, CClose, CReset}" "\<not> lg_initialized lg"
      using inv(1) assms(2) by (auto simp: Run_step_def threads_ok_def placed_def closing_def)
    with Run_step_defined [OF assms(1) r] Run_step_places [OF r] assms(2) show ?thesis by (auto simp: closing_def quiet_def)
  next
    case ShutdownStep
    with assms(3) have r: "Shutdown_step E lg = Some lg'" by (simp split: if_split_asm)
    note d = Shutdown_step_defined [OF assms(1) r]
    have "closing lg'"
      using assms(2) inv(1,2) r d
      by (cases "lg_control lg"; cases "lg_buffer lg")
        (auto simp: closing_def quiet_def threads_ok_def placed_def entries_ok_def Shutdown_step_def process_entries_def undefined_step_def Let_def
          split: option.split_asm prod.split_asm if_split_asm dest!: SwapAndGet_split)
    with d show ?thesis by simp
  next
    case CallShutdown
    with assms(1-3) show ?thesis by (auto simp: closing_def log_inv_def split: if_split_asm)
  next
    case (CallSetLevel l)
    with assms(1-3) show ?thesis by (auto simp: closing_def quiet_def log_inv_def split: if_split_asm)
  qed (use assms(4) in auto)
  with inv' assms(1) show ?thesis by (simp add: log_inv_def)
qed

lemma closing_run:
  assumes "log_inv E lg" and "closing lg" and "log_run E evs lg = Some lg'" and "\<And>C. CallInit C \<notin> set evs"
  shows "log_inv E lg' \<and> closing lg' \<and> lg_config lg' = lg_config lg \<and> lg_accepted lg' = lg_accepted lg \<and> lg_opened lg' = lg_opened lg"
  using assms
proof (induction evs arbitrary: lg)
  case (Cons ev evs)
  obtain lg1 where lg1: "log_do E ev lg = Some lg1" "log_run E evs lg1 = Some lg'" using Cons.prems(3) by (auto split: option.split_asm)
  from closing_step [OF Cons.prems(1,2) lg1(1)] Cons.prems(4) have "log_inv E lg1 \<and> closing lg1 \<and> lg_config lg1 = lg_config lg
    \<and> lg_accepted lg1 = lg_accepted lg \<and> lg_opened lg1 = lg_opened lg" by auto
  with Cons.IH [of lg1] lg1(2) Cons.prems(4) show ?case by auto
qed auto

lemma CallShutdown_closing:
  assumes "log_reach E fs lg" and "lg_initialized lg" and "\<And>t. lg_producers lg t = PIdle" and "1 \<le> lc_max_file_count (lg_config lg)"
    and "log_do E CallShutdown lg = Some lg'"
  shows "log_inv E lg' \<and> closing lg' \<and> lg' = lg\<lparr>lg_initialized := False, lg_control := CStop\<rparr>"
proof -
  have "threads_ok lg" "entries_ok lg" "sinks_ok E lg" using log_reach_ok [OF assms(1)] by auto
  then have "threads_ok lg'" "entries_ok lg'" "sinks_ok E lg'" using threads_ok_step entries_ok_step sinks_ok_step assms(5) by blast+
  moreover have "lg' = lg\<lparr>lg_initialized := False, lg_control := CStop\<rparr>" "\<not> lg_undefined lg"
    using assms(2,5) by (auto split: if_split_asm)
  ultimately show ?thesis using assms(3,4) by (simp add: log_inv_def closing_def quiet_def)
qed

end
