(* ===== verification/Logger_Properties.thy ===== *)
theory Logger_Properties
  imports Async_Logger_Laws
begin

text \<open>
  The promises of the asynchronous logger: nothing that was accepted is lost, and shutting down ends.
\<close>

section \<open>A run\<close>

lemma log_run_reach: "log_reach E fs lg \<Longrightarrow> log_run E evs lg = Some lg' \<Longrightarrow> log_reach E fs lg'"
  by (induction evs arbitrary: lg) (auto simp del: log_do.simps split: option.split_asm intro: log_reach.step)

definition demo_log_config :: LogConfig where
  "demo_log_config = LogConfig_default\<lparr>lc_buffer_size := 0, lc_enable_file := False\<rparr>"

definition demo_log_call :: LogCall where
  "demo_log_call = \<lparr>k_level = LL_WARN, k_file = Some ''main.cpp'', k_line = 7, k_message = ''hello'', k_tag = Some [(''user'', ''alice'')]\<rparr>"

text \<open>One thread logs; then the logger is shut down, while a thread calls again.\<close>

definition demo_log_events :: "log_event list" where
  "demo_log_events = [CallInit demo_log_config, CallLog 0 demo_log_call, LogStep 0 5, LogStep 0 6, LogStep 0 7, LogStep 0 8]"

definition demo_stop_events :: "log_event list" where
  "demo_stop_events = [RunStep, ShutdownStep, CallLog 1 demo_log_call, ShutdownStep, LogStep 1 9, RunStep, RunStep, RunStep, RunStep, RunStep,
     ShutdownStep, ShutdownStep, ShutdownStep, ShutdownStep]"

definition demo_logger :: Logger where
  "demo_logger = (Logger_Init demo_log_env demo_log_config (Logger_start []))
     \<lparr>lg_buffer := Some ((RingBuffer_new 1024)\<lparr>rb_front := [log_entry 6 demo_log_call]\<rparr>), lg_accepted := [log_entry 6 demo_log_call]\<rparr>"

lemmas demo_log_defs = demo_log_events_def demo_stop_events_def demo_log_config_def LogConfig_default_def Logger_start_def Logger_Init_def
  Log_step_def Run_step_def Shutdown_step_def process_entries_def set_producer_def RingBuffer_new_def RingBuffer_Stop_def RingBuffer_Empty_def
  Push_locked_def SwapAndGet_def initial_sinks_def disk_of_def Let_def

lemma demo_log_run: "log_run demo_log_env demo_log_events (Logger_start []) = Some demo_logger"
  by (simp add: demo_log_defs demo_logger_def demo_log_call_def fun_upd_idem_iff)

lemma demo_log_reach: "log_reach demo_log_env [] demo_logger"
  by (rule log_run_reach [OF log_reach.start demo_log_run])

lemma demo_logger_ready:
  "lg_initialized demo_logger" "lg_producers demo_logger t = PIdle" "1 \<le> lc_max_file_count (lg_config demo_logger)" "lg_accepted demo_logger = [log_entry 6 demo_log_call]"
  by (simp_all add: demo_logger_def Logger_Init_def Logger_start_def Let_def demo_log_config_def LogConfig_default_def)

lemma demo_stop_run: "\<exists>lg. log_run demo_log_env (CallShutdown # demo_stop_events) demo_logger = Some lg \<and> lg_control lg = CIdle"
  by (simp add: demo_log_defs demo_logger_def Sink_Write_def Sink_Close_def)

lemma demo_stop_no_Init: "CallInit C \<notin> set demo_stop_events"
  by (simp add: demo_stop_events_def)

text \<open>A thread that has passed the look at \<open>initialized_\<close> when \<open>Shutdown\<close> starts uses the buffer after it was freed.\<close>

lemma late_Log_undefined:
  "\<exists>lg. log_run demo_log_env ([CallInit demo_log_config, CallLog 0 demo_log_call, LogStep 0 5, LogStep 0 6, CallShutdown, ShutdownStep, ShutdownStep,
     RunStep, RunStep, ShutdownStep, ShutdownStep, ShutdownStep, ShutdownStep, LogStep 0 7]) (Logger_start []) = Some lg \<and> lg_undefined lg"
  by (simp add: demo_log_defs undefined_step_def demo_log_call_def Sink_Close_def)

section \<open>Nothing is lost\<close>

text \<open>C14: Whatever the threads do, in whatever order, the entries that the buffer accepted are the entries written so far, those that
  the writing thread holds and those in the buffer, in this order, each once; the buffer never exceeds its capacity.  When \<open>Shutdown\<close>
  is called while no thread is inside \<open>Log\<close>, threads may go on calling \<open>Log\<close>: nothing undefined happens, no entry is accepted any
  more, and when \<open>Shutdown\<close> has returned every accepted entry has been written to every sink, in order.  For the part about \<open>Shutdown\<close>
  the setting \<open>max_file_count\<close> is at least one.\<close>

theorem shutdown_writes_accepted:
  assumes "log_reach E fs lg"
  shows "(\<forall>b. lg_buffer lg = Some b \<longrightarrow>
      lg_accepted lg = map snd (lg_written lg) @ in_flight (lg_backend lg) @ rb_front b \<and> length (rb_front b) \<le> rb_capacity b)
    \<and> (\<forall>evs lg'. lg_initialized lg \<and> (\<forall>t. lg_producers lg t = PIdle) \<and> 1 \<le> lc_max_file_count (lg_config lg)
        \<and> log_run E (CallShutdown # evs) lg = Some lg' \<and> (\<forall>C. CallInit C \<notin> set evs) \<longrightarrow>
        \<not> lg_undefined lg' \<and> lg_accepted lg' = lg_accepted lg
      \<and> (lg_control lg' = CIdle \<longrightarrow> map snd (lg_written lg') = lg_accepted lg
          \<and> (\<exists>sinks. sinks_run E (lg_config lg) (lg_written lg') (lg_opened lg) = Some sinks \<and> lg_sinks lg' = map Sink_Close sinks)))"
proof (intro conjI allI impI; (elim conjE)?)
  fix b assume "lg_buffer lg = Some b"
  then show "lg_accepted lg = map snd (lg_written lg) @ in_flight (lg_backend lg) @ rb_front b" "length (rb_front b) \<le> rb_capacity b"
    using log_reach_ok [OF assms] by (auto simp: entries_ok_def)
next
  fix evs lg' assume h: "lg_initialized lg" "\<forall>t. lg_producers lg t = PIdle" "1 \<le> lc_max_file_count (lg_config lg)"
    "log_run E (CallShutdown # evs) lg = Some lg'" "\<forall>C. CallInit C \<notin> set evs"
  obtain lg1 where lg1: "log_do E CallShutdown lg = Some lg1" "log_run E evs lg1 = Some lg'" using h(4) by (auto split: option.split_asm)
  have c: "log_inv E lg1" "closing lg1" "lg1 = lg\<lparr>lg_initialized := False, lg_control := CStop\<rparr>"
    using CallShutdown_closing [OF assms h(1) _ h(3) lg1(1)] h(2) by auto
  have r: "log_inv E lg'" "closing lg'" "lg_config lg' = lg_config lg" "lg_accepted lg' = lg_accepted lg" "lg_opened lg' = lg_opened lg"
    using closing_run [OF c(1,2) lg1(2)] h(5) c(3) by auto
  show "\<not> lg_undefined lg'" "lg_accepted lg' = lg_accepted lg" using r by (simp_all add: log_inv_def)
  show "map snd (lg_written lg') = lg_accepted lg" if "lg_control lg' = CIdle" using r(2,4) that by (simp add: closing_def)
  show "\<exists>sinks. sinks_run E (lg_config lg) (lg_written lg') (lg_opened lg) = Some sinks \<and> lg_sinks lg' = map Sink_Close sinks"
    if "lg_control lg' = CIdle"
    using r that by (auto simp: log_inv_def sinks_ok_def closing_def)
qed

theorem shutdown_writes_accepted_witness:
  "\<exists>lg. log_run demo_log_env (CallShutdown # demo_stop_events) demo_logger = Some lg \<and> \<not> lg_undefined lg
    \<and> map snd (lg_written lg) = [log_entry 6 demo_log_call]"
proof -
  obtain lg where lg: "log_run demo_log_env (CallShutdown # demo_stop_events) demo_logger = Some lg" "lg_control lg = CIdle" using demo_stop_run by blast
  have "\<not> lg_undefined lg \<and> lg_accepted lg = lg_accepted demo_logger \<and> map snd (lg_written lg) = lg_accepted demo_logger"
    using conjunct2 [OF shutdown_writes_accepted [OF demo_log_reach], rule_format, of demo_stop_events lg] lg demo_logger_ready(1-3) demo_stop_no_Init by simp
  with lg(1) demo_logger_ready(4) show ?thesis by (intro exI [of _ lg]) (simp only: simp_thms)
qed

section \<open>Shutting down ends\<close>

text \<open>How many more steps of its own the writing thread has, once \<open>running_\<close> is false.\<close>

fun run_steps :: "backend \<Rightarrow> bool \<Rightarrow> nat" where
  "run_steps BNone more_entries = 0"
| "run_steps BExited more_entries = 0"
| "run_steps BSwap more_entries = 5"
| "run_steps BEmpty more_entries = 1 + (if more_entries then 5 else 0)"
| "run_steps BLoop more_entries = 2 + (if more_entries then 5 else 0)"
| "run_steps BFlush more_entries = 3 + (if more_entries then 5 else 0)"
| "run_steps (BProcess entries) more_entries = 4 + (if more_entries then 5 else 0)"

fun shutdown_steps :: "control \<Rightarrow> nat" where
  "shutdown_steps CIdle = 0"
| "shutdown_steps CReset = 1"
| "shutdown_steps CClose = 2"
| "shutdown_steps CDrain = 3"
| "shutdown_steps CJoin = 4"
| "shutdown_steps CStopBuffer = 5"
| "shutdown_steps CStop = 6"

definition steps_left :: "Logger \<Rightarrow> nat" where
  "steps_left lg = shutdown_steps (lg_control lg) + run_steps (lg_backend lg) (\<exists>b. lg_buffer lg = Some b \<and> rb_front b \<noteq> [])"

definition own_step :: "log_event \<Rightarrow> bool" where
  "own_step ev \<longleftrightarrow> ev = RunStep \<or> ev = ShutdownStep"

lemma steps_left_step:
  assumes "log_inv E lg" and "closing lg" and "\<not> lg_running lg" and "log_do E ev lg = Some lg'" and "\<And>C. ev \<noteq> CallInit C"
  shows "\<not> lg_running lg' \<and> steps_left lg' + (if own_step ev then 1 else 0) \<le> steps_left lg"
proof -
  have i: "\<not> lg_undefined lg" "threads_ok lg" "\<not> lg_initialized lg" using assms(1,2) by (simp_all add: log_inv_def closing_def)
  show ?thesis
  proof (cases ev)
    case (CallLog t c)
    with assms(3,4) show ?thesis by (auto simp: steps_left_def set_producer_def own_step_def split: if_split_asm)
  next
    case (LogStep t now)
    with assms(4) i(1) have "lg' = set_producer t PIdle lg" using Log_step_closing [OF assms(2)] by simp
    with LogStep assms(3) show ?thesis by (simp add: steps_left_def set_producer_def own_step_def)
  next
    case RunStep
    with assms(4) i(1) have r: "Run_step E lg = Some lg'" by simp
    with Run_step_defined [OF assms(1) r] assms(3) i RunStep show ?thesis
      by (cases "lg_backend lg"; cases "lg_buffer lg")
        (auto simp: steps_left_def own_step_def Run_step_def process_entries_def undefined_step_def RingBuffer_Empty_def
          split: option.split_asm prod.split_asm dest!: SwapAndGet_split)
  next
    case ShutdownStep
    with assms(4) i(1) have r: "Shutdown_step E lg = Some lg'" by simp
    with Shutdown_step_defined [OF assms(1) r] assms(3) i ShutdownStep show ?thesis
      by (cases "lg_control lg"; cases "lg_buffer lg")
        (auto simp: steps_left_def own_step_def Shutdown_step_def process_entries_def undefined_step_def RingBuffer_Stop_def Let_def threads_ok_def placed_def
          split: option.split_asm prod.split_asm if_split_asm dest!: SwapAndGet_split)
  next
    case CallShutdown
    with assms(3,4) i show ?thesis by (auto simp: own_step_def split: if_split_asm)
  next
    case (CallSetLevel l)
    with assms(3,4) i(1) show ?thesis by (auto simp: steps_left_def own_step_def)
  qed (use assms(5) in auto)
qed

lemma steps_left_run:
  assumes "log_inv E lg" and "closing lg" and "\<not> lg_running lg" and "log_run E evs lg = Some lg'" and "\<And>C. CallInit C \<notin> set evs"
  shows "length (filter own_step evs) \<le> steps_left lg"
  using assms
proof (induction evs arbitrary: lg)
  case (Cons ev evs)
  obtain lg1 where lg1: "log_do E ev lg = Some lg1" "log_run E evs lg1 = Some lg'" using Cons.prems(4) by (auto split: option.split_asm)
  have ev: "\<And>C. ev \<noteq> CallInit C" "\<And>C. CallInit C \<notin> set evs" using Cons.prems(5) by auto
  note c = closing_step [OF Cons.prems(1,2) lg1(1) ev(1)] and d = steps_left_step [OF Cons.prems(1-3) lg1(1) ev(1)]
  from Cons.IH [OF _ _ _ lg1(2) ev(2)] c d show ?case by (auto split: if_split_asm)
qed simp

lemma steps_left_bound: "threads_ok lg \<Longrightarrow> \<not> lg_running lg \<Longrightarrow> steps_left lg \<le> 14"
  by (cases "lg_backend lg"; cases "lg_control lg") (auto simp: steps_left_def threads_ok_def placed_def)

lemma closing_progress:
  assumes "log_inv E lg" and "lg_control lg \<noteq> CIdle"
  shows "\<exists>ev. own_step ev \<and> log_do E ev lg \<noteq> None"
proof -
  have i: "threads_ok lg" "\<not> lg_undefined lg" using assms(1) by (simp_all add: log_inv_def)
  show ?thesis
  proof (cases "lg_control lg = CJoin \<and> lg_backend lg \<noteq> BExited")
    case True
    then have "Run_step E lg \<noteq> None" using i(1)
      by (cases "lg_backend lg"; cases "lg_buffer lg") (auto simp: Run_step_def case_prod_beta threads_ok_def placed_def split: option.split)
    with i(2) show ?thesis by (intro exI [of _ RunStep]) (simp add: own_step_def)
  next
    case False
    with assms(2) have "Shutdown_step E lg \<noteq> None"
      by (cases "lg_control lg"; cases "lg_buffer lg") (auto simp: Shutdown_step_def case_prod_beta Let_def split: option.split)
    with i(2) show ?thesis by (intro exI [of _ ShutdownStep]) (simp add: own_step_def)
  qed
qed

text \<open>C17: \<open>Shutdown\<close> returns.  When it is called while no thread is inside \<open>Log\<close>, and whatever other threads then do: until it has
  returned, the thread that shuts down or the writing thread can make a step; the first step of the former is never blocked; and from
  that step on the two together make at most 14 steps.\<close>

theorem shutdown_returns:
  assumes "log_reach E fs lg" and "lg_initialized lg" and "\<And>t. lg_producers lg t = PIdle" and "1 \<le> lc_max_file_count (lg_config lg)"
    and "log_run E (CallShutdown # evs) lg = Some lg'" and "\<And>C. CallInit C \<notin> set evs"
  shows "(lg_control lg' \<noteq> CIdle \<longrightarrow> (\<exists>ev. own_step ev \<and> log_do E ev lg' \<noteq> None))
    \<and> (lg_control lg' = CStop \<longrightarrow> log_do E ShutdownStep lg' = Some (lg'\<lparr>lg_running := False, lg_control := CStopBuffer\<rparr>))
    \<and> (\<forall>evs' lg''. \<not> lg_running lg' \<and> log_run E evs' lg' = Some lg'' \<and> (\<forall>C. CallInit C \<notin> set evs') \<longrightarrow> length (filter own_step evs') \<le> 14)"
proof -
  obtain lg1 where lg1: "log_do E CallShutdown lg = Some lg1" "log_run E evs lg1 = Some lg'" using assms(5) by (auto split: option.split_asm)
  have c: "log_inv E lg1" "closing lg1" using CallShutdown_closing [OF assms(1-4) lg1(1)] by auto
  have r: "log_inv E lg'" "closing lg'" using closing_run [OF c lg1(2) assms(6)] by auto
  then have i: "threads_ok lg'" "\<not> lg_undefined lg'" by (simp_all add: log_inv_def)
  have "length (filter own_step evs') \<le> 14" if "\<not> lg_running lg'" "log_run E evs' lg' = Some lg''" "\<And>C. CallInit C \<notin> set evs'" for evs' lg''
    using steps_left_run [OF r that] steps_left_bound [OF i(1) that(1)] by simp
  moreover have "lg_control lg' = CStop \<Longrightarrow> lg_running lg'" using i(1) by (simp add: threads_ok_def placed_def)
  ultimately show ?thesis using closing_progress [OF r(1)] i(2) by (auto simp: Shutdown_step_def)
qed

theorem shutdown_returns_witness:
  "\<exists>lg. log_run demo_log_env [CallShutdown, ShutdownStep] demo_logger = Some lg \<and> (\<exists>ev. own_step ev \<and> log_do demo_log_env ev lg \<noteq> None)"
proof -
  obtain lg where lg: "log_run demo_log_env [CallShutdown, ShutdownStep] demo_logger = Some lg" "lg_control lg = CStopBuffer"
    by (simp add: demo_log_defs demo_logger_def)
  from shutdown_returns [OF demo_log_reach demo_logger_ready(1-3) lg(1)] lg show ?thesis by auto
qed

end
