(* ===== verification/Service_Start.thy ===== *)
theory Service_Start
  imports Log_Sinks Config_Loader File_Config Gate_Session Zone_Systems
begin

text \<open>
  How the servers come up: \<^verbatim>\<open>common/include/swift/log_helper.h\<close>, the settings of the servers
  (\<^verbatim>\<open>internal/config/config.{h,cpp}\<close>; those of the file server, the gate and the zone server are with their components) and the main
  functions (\<^verbatim>\<open>cmd/main.cpp\<close>) up to the point where the gRPC server waits.

  The record \<open>Host\<close> has what a main function asks of the system: configuration files by name, the environment, whether a
  database can be opened, a directory made, an address bound.  The result of a main function is \<open>Serving\<close> with what the server
  was built from, or the reason for which it exits with code 1.  \<open>asynclog::Init\<close> always succeeds, so that the branch for a
  logger that cannot be initialised is never taken.
\<close>

section \<open>Logging\<close>

datatype Level = L_TRACE | L_DEBUG | L_INFO | L_WARN | L_ERROR | L_FATAL

record LogHelperConfig =
  hc_log_dir :: string
  hc_file_prefix :: string
  hc_min_level :: Level
  hc_enable_console :: bool
  hc_enable_file :: bool
  hc_show_file_line :: bool
  hc_console_color :: bool
  hc_max_file_size :: nat
  hc_max_file_count :: int

definition LogHelperConfig_default :: LogHelperConfig where
  "LogHelperConfig_default =
     \<lparr>hc_log_dir = ''./logs'', hc_file_prefix = ''app'', hc_min_level = L_INFO, hc_enable_console = True, hc_enable_file = True,
      hc_show_file_line = True, hc_console_color = True, hc_max_file_size = 100 * 1024 * 1024, hc_max_file_count = 10\<rparr>"

fun impl_level :: "Level \<Rightarrow> LogLevel" where
  "impl_level L_TRACE = LL_TRACE"
| "impl_level L_DEBUG = LL_DEBUG"
| "impl_level L_INFO = LL_INFO"
| "impl_level L_WARN = LL_WARN"
| "impl_level L_ERROR = LL_ERROR"
| "impl_level L_FATAL = LL_FATAL"

text \<open>What \<open>log::Init\<close> hands to \<open>asynclog::Init\<close>.\<close>

definition log_Init :: "LogHelperConfig \<Rightarrow> LogConfig" where
  "log_Init config =
     LogConfig_default\<lparr>lc_log_dir := hc_log_dir config, lc_file_prefix := hc_file_prefix config,
       lc_enable_console := hc_enable_console config, lc_enable_file := hc_enable_file config,
       lc_show_file_line := hc_show_file_line config, lc_console_color := hc_console_color config,
       lc_max_file_size := hc_max_file_size config, lc_max_file_count := hc_max_file_count config,
       lc_min_level := impl_level (hc_min_level config)\<rparr>"

fun getenv :: "string list \<Rightarrow> string \<Rightarrow> string option" where
  "getenv [] name = None"
| "getenv (v # environ) name = (if prefix (name @ ''='') v then Some (drop (length name + 1) v) else getenv environ name)"

definition env_level :: "string \<Rightarrow> Level \<Rightarrow> Level" where
  "env_level level old =
     (if level = ''TRACE'' then L_TRACE
      else if level = ''DEBUG'' then L_DEBUG
      else if level = ''INFO'' then L_INFO
      else if level = ''WARN'' then L_WARN
      else if level = ''ERROR'' then L_ERROR
      else if level = ''FATAL'' then L_FATAL
      else old)"

definition InitFromEnv :: "string list \<Rightarrow> string \<Rightarrow> LogConfig" where
  "InitFromEnv environ service_name =
     (let config = LogHelperConfig_default\<lparr>hc_file_prefix := service_name\<rparr>;
          config = (case getenv environ ''LOG_DIR'' of None \<Rightarrow> config | Some log_dir \<Rightarrow> config\<lparr>hc_log_dir := log_dir\<rparr>);
          config = (case getenv environ ''LOG_LEVEL'' of None \<Rightarrow> config
                    | Some level \<Rightarrow> config\<lparr>hc_min_level := env_level level (hc_min_level config)\<rparr>);
          config = (case getenv environ ''LOG_CONSOLE'' of None \<Rightarrow> config
                    | Some log_console \<Rightarrow> config\<lparr>hc_enable_console := (log_console \<noteq> ''false'')\<rparr>)
      in log_Init config)"

section \<open>Settings\<close>

record AuthConfig =
  auc_host :: string
  auc_port :: int
  auc_store_type :: string
  auc_rocksdb_path :: string
  auc_mysql_dsn :: string
  auc_jwt_secret :: string
  auc_log_dir :: string
  auc_log_level :: string

definition auth_LoadConfig :: "string list option \<Rightarrow> string list \<Rightarrow> AuthConfig" where
  "auth_LoadConfig config_file environ =
     (let kv = LoadKeyValueConfig config_file ''AUTHSVR_'' environ in
      \<lparr>auc_host = config_Get kv ''host'' ''0.0.0.0'',
       auc_port = GetInt kv ''port'' 9094,
       auc_store_type = config_Get kv ''store_type'' ''rocksdb'',
       auc_rocksdb_path = config_Get kv ''rocksdb_path'' ''/data/auth'',
       auc_mysql_dsn = config_Get kv ''mysql_dsn'' [],
       auc_jwt_secret = config_Get kv ''jwt_secret'' ''swift_online_secret_2026'',
       auc_log_dir = config_Get kv ''log_dir'' ''/data/logs'',
       auc_log_level = config_Get kv ''log_level'' ''INFO''\<rparr>)"

record FriendConfig =
  frc_host :: string
  frc_port :: int
  frc_store_type :: string
  frc_rocksdb_path :: string
  frc_mysql_dsn :: string
  frc_jwt_secret :: string
  frc_log_dir :: string
  frc_log_level :: string

definition friend_LoadConfig :: "string list option \<Rightarrow> string list \<Rightarrow> FriendConfig" where
  "friend_LoadConfig config_file environ =
     (let kv = LoadKeyValueConfig config_file ''FRIENDSVR_'' environ in
      \<lparr>frc_host = config_Get kv ''host'' ''0.0.0.0'',
       frc_port = GetInt kv ''port'' 9096,
       frc_store_type = config_Get kv ''store_type'' ''rocksdb'',
       frc_rocksdb_path = config_Get kv ''rocksdb_path'' ''/data/friend'',
       frc_mysql_dsn = config_Get kv ''mysql_dsn'' [],
       frc_jwt_secret = config_Get kv ''jwt_secret'' ''swift_online_secret_2026'',
       frc_log_dir = config_Get kv ''log_dir'' ''/data/logs'',
       frc_log_level = config_Get kv ''log_level'' ''INFO''\<rparr>)"

record ChatConfig =
  chc_host :: string
  chc_port :: int
  chc_store_type :: string
  chc_rocksdb_path :: string
  chc_mysql_dsn :: string
  chc_recall_timeout_seconds :: int
  chc_offline_max_count :: int
  chc_history_page_size :: int
  chc_jwt_secret :: string
  chc_log_dir :: string
  chc_log_level :: string

definition chat_LoadConfig :: "string list option \<Rightarrow> string list \<Rightarrow> ChatConfig" where
  "chat_LoadConfig config_file environ =
     (let kv = LoadKeyValueConfig config_file ''CHATSVR_'' environ in
      \<lparr>chc_host = config_Get kv ''host'' ''0.0.0.0'',
       chc_port = GetInt kv ''port'' 9098,
       chc_store_type = config_Get kv ''store_type'' ''rocksdb'',
       chc_rocksdb_path = config_Get kv ''rocksdb_path'' ''/data/chat'',
       chc_mysql_dsn = config_Get kv ''mysql_dsn'' [],
       chc_recall_timeout_seconds = GetInt kv ''recall_timeout_seconds'' 120,
       chc_offline_max_count = GetInt kv ''offline_max_count'' 1000,
       chc_history_page_size = GetInt kv ''history_page_size'' 50,
       chc_jwt_secret = config_Get kv ''jwt_secret'' ''swift_online_secret_2026'',
       chc_log_dir = config_Get kv ''log_dir'' ''/data/logs'',
       chc_log_level = config_Get kv ''log_level'' ''INFO''\<rparr>)"

record OnlineConfig =
  onc_host :: string
  onc_port :: int
  onc_store_type :: string
  onc_rocksdb_path :: string
  onc_jwt_secret :: string
  onc_jwt_expire_hours :: int
  onc_log_dir :: string
  onc_log_level :: string

definition online_LoadConfig :: "string list option \<Rightarrow> string list \<Rightarrow> OnlineConfig" where
  "online_LoadConfig config_file environ =
     (let kv = LoadKeyValueConfig config_file ''ONLINESVR_'' environ in
      \<lparr>onc_host = config_Get kv ''host'' ''0.0.0.0'',
       onc_port = GetInt kv ''port'' 9095,
       onc_store_type = config_Get kv ''store_type'' ''rocksdb'',
       onc_rocksdb_path = config_Get kv ''rocksdb_path'' ''/data/online'',
       onc_jwt_secret = config_Get kv ''jwt_secret'' ''swift_online_secret_2026'',
       onc_jwt_expire_hours = GetInt kv ''jwt_expire_hours'' (24 * 7),
       onc_log_dir = config_Get kv ''log_dir'' ''/data/logs'',
       onc_log_level = config_Get kv ''log_level'' ''INFO''\<rparr>)"

section \<open>Main functions\<close>

record Host =
  h_files :: "string \<Rightarrow> string list option"
  h_environ :: "string list"
  h_opens_db :: "string \<Rightarrow> bool"
  h_makes_dir :: "string \<Rightarrow> bool"
  h_binds :: "string \<Rightarrow> bool"

text \<open>A server that waits for calls: its address, the secret with which its handlers check tokens (the online server: signs them),
  its databases, and the settings of its logger.\<close>

record Server =
  sv_addr :: string
  sv_jwt_secret :: string
  sv_databases :: "string list"
  sv_log :: LogConfig

datatype Startup = StartFailed string | Serving Server

text \<open>The argument, else the environment, else a default.  The servers for accounts, friends, chat and files take an empty
  argument as it is.\<close>

definition config_path :: "Host \<Rightarrow> string option \<Rightarrow> string \<Rightarrow> string \<Rightarrow> string" where
  "config_path H argv1 var dflt =
     (case argv1 of Some a \<Rightarrow> a | None \<Rightarrow> (case getenv (h_environ H) var of Some v \<Rightarrow> v | None \<Rightarrow> dflt))"

definition config_path_nonempty :: "Host \<Rightarrow> string option \<Rightarrow> string \<Rightarrow> string \<Rightarrow> string" where
  "config_path_nonempty H argv1 var dflt =
     (let config_file = (case argv1 of Some a \<Rightarrow> a | None \<Rightarrow> [])
      in if config_file = [] then (case getenv (h_environ H) var of Some v \<Rightarrow> v | None \<Rightarrow> dflt) else config_file)"

definition listen :: "Host \<Rightarrow> Server \<Rightarrow> Startup" where
  "listen H s = (if h_binds H (sv_addr s) then Serving s else StartFailed ''Failed to start gRPC server'')"

definition authsvr_main :: "Host \<Rightarrow> string option \<Rightarrow> Startup" where
  "authsvr_main H argv1 =
     (let config_file = config_path H argv1 ''AUTHSVR_CONFIG'' ''authsvr.conf'';
          log = InitFromEnv (h_environ H) ''authsvr'';
          config = auth_LoadConfig (h_files H config_file) (h_environ H)
      in if auc_store_type config = ''rocksdb''
         then if h_opens_db H (auc_rocksdb_path config)
              then listen H \<lparr>sv_addr = auc_host config @ '':'' @ to_string (auc_port config), sv_jwt_secret = auc_jwt_secret config,
                sv_databases = [auc_rocksdb_path config], sv_log = log\<rparr>
              else StartFailed ''Failed to open RocksDB''
         else StartFailed ''Unsupported store_type'')"

definition friendsvr_main :: "Host \<Rightarrow> string option \<Rightarrow> Startup" where
  "friendsvr_main H argv1 =
     (let config_file = config_path H argv1 ''FRIENDSVR_CONFIG'' ''friendsvr.conf'';
          log = InitFromEnv (h_environ H) ''friendsvr'';
          config = friend_LoadConfig (h_files H config_file) (h_environ H)
      in if frc_store_type config = ''rocksdb''
         then if h_opens_db H (frc_rocksdb_path config)
              then listen H \<lparr>sv_addr = frc_host config @ '':'' @ to_string (frc_port config), sv_jwt_secret = frc_jwt_secret config,
                sv_databases = [frc_rocksdb_path config], sv_log = log\<rparr>
              else StartFailed ''Failed to open RocksDB''
         else StartFailed ''Unsupported store_type'')"

text \<open>\<open>OnlineServiceCore\<close> replaces an empty secret by the default.\<close>

definition onlinesvr_main :: "Host \<Rightarrow> string option \<Rightarrow> Startup" where
  "onlinesvr_main H argv1 =
     (let config_file = config_path_nonempty H argv1 ''ONLINESVR_CONFIG'' ''onlinesvr.conf'';
          log = InitFromEnv (h_environ H) ''onlinesvr'';
          config = online_LoadConfig (h_files H config_file) (h_environ H)
      in if onc_store_type config = ''rocksdb''
         then if h_opens_db H (onc_rocksdb_path config)
              then listen H \<lparr>sv_addr = onc_host config @ '':'' @ to_string (onc_port config),
                sv_jwt_secret = (if onc_jwt_secret config = [] then ''swift_online_secret_2026'' else onc_jwt_secret config),
                sv_databases = [onc_rocksdb_path config], sv_log = log\<rparr>
              else StartFailed ''Failed to open RocksDB''
         else StartFailed ''Unsupported store_type'')"

text \<open>The chat server opens four databases and never looks at \<open>store_type\<close>.\<close>

definition chatsvr_main :: "Host \<Rightarrow> string option \<Rightarrow> Startup" where
  "chatsvr_main H argv1 =
     (let config_file = config_path H argv1 ''CHATSVR_CONFIG'' ''chatsvr.conf'';
          log = InitFromEnv (h_environ H) ''chatsvr'';
          config = chat_LoadConfig (h_files H config_file) (h_environ H);
          group_db_path = chc_rocksdb_path config @ ''/group'';
          message_db_path = chc_rocksdb_path config @ ''/message'';
          conv_db_path = chc_rocksdb_path config @ ''/conv'';
          conv_meta_db_path = chc_rocksdb_path config @ ''/conv_meta''
      in if \<not> h_opens_db H group_db_path then StartFailed ''Failed to open RocksDB (group)''
         else if \<not> (h_opens_db H message_db_path \<and> h_opens_db H conv_db_path \<and> h_opens_db H conv_meta_db_path)
         then StartFailed ''Failed to open RocksDB (message/conv)''
         else listen H \<lparr>sv_addr = chc_host config @ '':'' @ to_string (chc_port config), sv_jwt_secret = chc_jwt_secret config,
           sv_databases = [group_db_path, message_db_path, conv_db_path, conv_meta_db_path], sv_log = log\<rparr>)"

definition filesvr_main :: "Host \<Rightarrow> string option \<Rightarrow> Startup" where
  "filesvr_main H argv1 =
     (let config_file = config_path H argv1 ''FILESVR_CONFIG'' ''filesvr.conf'';
          log = InitFromEnv (h_environ H) ''filesvr'';
          config = file_LoadConfig (h_files H config_file) (h_environ H)
      in if \<not> h_makes_dir H (fc_storage_path config) then StartFailed ''Failed to create storage_path''
         else if \<not> h_makes_dir H (fc_storage_path config @ ''/.tmp'') then StartFailed ''Failed to create storage_path/.tmp''
         else if fc_store_type config = ''rocksdb''
         then if h_opens_db H (fc_rocksdb_path config)
              then listen H \<lparr>sv_addr = fc_host config @ '':'' @ to_string (fc_grpc_port config), sv_jwt_secret = fc_jwt_secret config,
                sv_databases = [fc_rocksdb_path config], sv_log = log\<rparr>
              else StartFailed ''Failed to open RocksDB''
         else StartFailed ''Unsupported store_type'')"

text \<open>The zone server first connects to the other servers; the secret is the one that gates have to send.\<close>

definition zonesvr_main :: "'w Backends \<Rightarrow> int \<Rightarrow> Host \<Rightarrow> string option \<Rightarrow> (SessionStoreChoice \<times> 'w SystemManager) option \<times> Startup" where
  "zonesvr_main N indet H argv1 =
     (let config_file = config_path_nonempty H argv1 ''ZONESVR_CONFIG'' ''zonesvr.conf'';
          log = InitFromEnv (h_environ H) ''zonesvr'';
          config = zone_LoadConfig (h_files H config_file) (h_environ H)
      in case SystemManager_Init N indet config of
           None \<Rightarrow> (None, StartFailed ''SystemManager Init failed'')
         | Some m \<Rightarrow>
             (Some m, listen H \<lparr>sv_addr = zc_host config @ '':'' @ to_string (zc_port config), sv_jwt_secret = zc_internal_secret config,
               sv_databases = [], sv_log = log\<rparr>))"

section \<open>The gate finds the zone server\<close>

text \<open>Times are milliseconds of the steady clock.  \<open>attempt n\<close> is the outcome and the duration of the \<open>n\<close>-th attempt to connect,
  \<open>late n\<close> how much longer than asked the \<open>n\<close>-th sleep lasts.\<close>

partial_function (option) wait_loop :: "(nat \<Rightarrow> bool \<times> nat) \<Rightarrow> (nat \<Rightarrow> nat) \<Rightarrow> nat \<Rightarrow> int \<Rightarrow> nat \<Rightarrow> int \<Rightarrow> (bool \<times> int) option" where
  "wait_loop attempt late poll_interval_sec deadline n now =
     (if now < deadline
      then (if fst (attempt n) then Some (True, now + int (snd (attempt n)))
            else if now + int (snd (attempt n)) \<ge> deadline then Some (False, now + int (snd (attempt n)))
            else wait_loop attempt late poll_interval_sec deadline (n + 1)
                   (now + int (snd (attempt n)) + 1000 * int poll_interval_sec + int (late n)))
      else Some (False, now))"

text \<open>\<^verbatim>\<open>rfind(':')\<close>, with nothing after it or nothing before it refused.\<close>

definition split_addr :: "string \<Rightarrow> (string \<times> string) option" where
  "split_addr addr =
     (let tail = takeWhile (\<lambda>c. c \<noteq> CHR '':'') (rev addr)
      in if CHR '':'' \<notin> set addr \<or> tail = [] then None
         else let host = take (length addr - length tail - 1) addr
              in if host = [] then None else Some (host, rev tail))"

definition WaitForZoneSvrReady :: "(string \<Rightarrow> string \<Rightarrow> nat \<Rightarrow> bool \<times> nat) \<Rightarrow> (nat \<Rightarrow> nat) \<Rightarrow> string \<Rightarrow> nat \<Rightarrow> nat \<Rightarrow> int \<Rightarrow> (bool \<times> int) option" where
  "WaitForZoneSvrReady connect late zone_svr_addr timeout_sec poll_interval_sec now =
     (if zone_svr_addr = [] then Some (False, now)
      else case split_addr zone_svr_addr of
        None \<Rightarrow> Some (False, now)
      | Some (host, port) \<Rightarrow> wait_loop (connect host port) late poll_interval_sec (now + 1000 * int timeout_sec) 0 now)"

text \<open>\<open>reg\<close> is \<open>RegisterGate\<close>; \<open>dur n\<close> is how long its \<open>n\<close>-th call takes.  The result has the outcome, the number of calls, the time and
  the state.\<close>

partial_function (option) retry_loop ::
    "('w \<Rightarrow> bool \<times> 'w) \<Rightarrow> (nat \<Rightarrow> nat) \<Rightarrow> (nat \<Rightarrow> nat) \<Rightarrow> int \<Rightarrow> nat \<Rightarrow> int \<Rightarrow> int \<Rightarrow> 'w \<Rightarrow> (bool \<times> nat \<times> int \<times> 'w) option" where
  "retry_loop reg dur late deadline n backoff_sec now w =
     (if now < deadline
      then (if fst (reg w) then Some (True, n + 1, now + int (dur n), snd (reg w))
            else if (deadline - (now + int (dur n))) div 1000 \<le> 0 then Some (False, n + 1, now + int (dur n), snd (reg w))
            else retry_loop reg dur late deadline (n + 1) (if backoff_sec < 8 then backoff_sec * 2 else backoff_sec)
                   (now + int (dur n)
                    + 1000 * (if backoff_sec < (deadline - (now + int (dur n))) div 1000 then backoff_sec else (deadline - (now + int (dur n))) div 1000)
                    + int (late n))
                   (snd (reg w)))
      else Some (False, n, now, w))"

definition RegisterGateWithRetry ::
    "('w \<Rightarrow> bool \<times> 'w) \<Rightarrow> (nat \<Rightarrow> nat) \<Rightarrow> (nat \<Rightarrow> nat) \<Rightarrow> nat \<Rightarrow> int \<Rightarrow> 'w \<Rightarrow> (bool \<times> nat \<times> int \<times> 'w) option" where
  "RegisterGateWithRetry reg dur late total_timeout_sec now w = retry_loop reg dur late (now + 1000 * int total_timeout_sec) 0 1 now w"

text \<open>The part of \<^verbatim>\<open>gatesvr/cmd/main.cpp\<close> between the start of the gRPC server and that of the WebSocket listener.\<close>

definition gate_announce ::
    "'w GateService \<Rightarrow> GateConfig \<Rightarrow> string \<Rightarrow> (string \<Rightarrow> string \<Rightarrow> nat \<Rightarrow> bool \<times> nat) \<Rightarrow> (nat \<Rightarrow> nat) \<Rightarrow> (nat \<Rightarrow> nat) \<Rightarrow> int
       \<Rightarrow> GateState \<times> 'w \<Rightarrow> (bool \<times> (GateState \<times> 'w)) option" where
  "gate_announce S config register_addr connect dur late now z =
     (if gc_zone_svr_addr config = [] then Some (False, z)
      else case WaitForZoneSvrReady connect late (gc_zone_svr_addr config) 30 2 now of
        None \<Rightarrow> None
      | Some (ready, now) \<Rightarrow>
          if ready
          then map_option (\<lambda>(ok, calls, t, z). (ok, z)) (RegisterGateWithRetry (GateService_RegisterGate S register_addr) dur late 60 now z)
          else Some (False, z))"

end
