(* ===== verification/Service_Properties.thy ===== *)
theory Service_Properties
  imports Service_Start End_To_End
begin

text \<open>
  The servers after they have come up: tokens pass between them, and a gate does not wait for ever for the zone server.
\<close>

section \<open>Secrets\<close>

lemma listen_Serving: "listen H s = Serving s' \<Longrightarrow> s' = s"
  by (simp add: listen_def split: if_split_asm)

definition unset :: "Host \<Rightarrow> string \<Rightarrow> string \<Rightarrow> bool" where
  "unset H file pref \<longleftrightarrow> LoadKeyValueConfig (h_files H file) pref (h_environ H) ''jwt_secret'' = None"

lemma config_Get_unset:
  "LoadKeyValueConfig f pref e ''jwt_secret'' = None \<Longrightarrow> config_Get (LoadKeyValueConfig f pref e) ''jwt_secret'' d = d"
  by (simp add: config_Get_def ToLowerKey_def tolower_def isupper_def code_def)

lemma onlinesvr_secret:
  assumes "onlinesvr_main H a = Serving s" and "unset H (config_path_nonempty H a ''ONLINESVR_CONFIG'' ''onlinesvr.conf'') ''ONLINESVR_''"
  shows "sv_jwt_secret s = ''swift_online_secret_2026''"
proof -
  have "onc_jwt_secret (online_LoadConfig (h_files H (config_path_nonempty H a ''ONLINESVR_CONFIG'' ''onlinesvr.conf'')) (h_environ H)) = ''swift_online_secret_2026''"
    using assms(2) by (simp add: online_LoadConfig_def Let_def unset_def config_Get_unset)
  with assms(1) show ?thesis by (simp add: onlinesvr_main_def Let_def listen_def split: if_split_asm) (auto simp: Server.defs)
qed

lemma authsvr_secret:
  assumes "authsvr_main H a = Serving s" and "unset H (config_path H a ''AUTHSVR_CONFIG'' ''authsvr.conf'') ''AUTHSVR_''"
  shows "sv_jwt_secret s = ''swift_online_secret_2026''"
proof -
  have "auc_jwt_secret (auth_LoadConfig (h_files H (config_path H a ''AUTHSVR_CONFIG'' ''authsvr.conf'')) (h_environ H)) = ''swift_online_secret_2026''"
    using assms(2) by (simp add: auth_LoadConfig_def Let_def unset_def config_Get_unset)
  with assms(1) show ?thesis by (simp add: authsvr_main_def Let_def listen_def split: if_split_asm) (auto simp: Server.defs)
qed

lemma friendsvr_secret:
  assumes "friendsvr_main H a = Serving s" and "unset H (config_path H a ''FRIENDSVR_CONFIG'' ''friendsvr.conf'') ''FRIENDSVR_''"
  shows "sv_jwt_secret s = ''swift_online_secret_2026''"
proof -
  have "frc_jwt_secret (friend_LoadConfig (h_files H (config_path H a ''FRIENDSVR_CONFIG'' ''friendsvr.conf'')) (h_environ H)) = ''swift_online_secret_2026''"
    using assms(2) by (simp add: friend_LoadConfig_def Let_def unset_def config_Get_unset)
  with assms(1) show ?thesis by (simp add: friendsvr_main_def Let_def listen_def split: if_split_asm) (auto simp: Server.defs)
qed

lemma chatsvr_secret:
  assumes "chatsvr_main H a = Serving s" and "unset H (config_path H a ''CHATSVR_CONFIG'' ''chatsvr.conf'') ''CHATSVR_''"
  shows "sv_jwt_secret s = ''swift_online_secret_2026''"
proof -
  have "chc_jwt_secret (chat_LoadConfig (h_files H (config_path H a ''CHATSVR_CONFIG'' ''chatsvr.conf'')) (h_environ H)) = ''swift_online_secret_2026''"
    using assms(2) by (simp add: chat_LoadConfig_def Let_def unset_def config_Get_unset)
  with assms(1) show ?thesis by (simp add: chatsvr_main_def Let_def listen_def split: if_split_asm) (auto simp: Server.defs)
qed

lemma filesvr_secret:
  assumes "filesvr_main H a = Serving s" and "unset H (config_path H a ''FILESVR_CONFIG'' ''filesvr.conf'') ''FILESVR_''"
  shows "sv_jwt_secret s = []"
proof -
  have "fc_jwt_secret (file_LoadConfig (h_files H (config_path H a ''FILESVR_CONFIG'' ''filesvr.conf'')) (h_environ H)) = []"
    using assms(2) by (simp add: file_LoadConfig_def Let_def unset_def config_Get_unset)
  with assms(1) show ?thesis by (simp add: filesvr_main_def Let_def listen_def split: if_split_asm) (auto simp: Server.defs)
qed

text \<open>C39: With no secret configured anywhere, a user who logs in at the online server is recognised by the servers for accounts, friends and chat
  for seven days, as that user; the file server, whose secret is then empty, recognises nobody.  The token expires before 2038.\<close>

theorem default_secrets:
  assumes "json_laws J" and "onlinesvr_main H a0 = Serving online" and "authsvr_main H a1 = Serving auth" and "friendsvr_main H a2 = Serving fr"
    and "chatsvr_main H a3 = Serving chat" and "filesvr_main H a4 = Serving fl"
    and "unset H (config_path_nonempty H a0 ''ONLINESVR_CONFIG'' ''onlinesvr.conf'') ''ONLINESVR_''"
    and "unset H (config_path H a1 ''AUTHSVR_CONFIG'' ''authsvr.conf'') ''AUTHSVR_''"
    and "unset H (config_path H a2 ''FRIENDSVR_CONFIG'' ''friendsvr.conf'') ''FRIENDSVR_''"
    and "unset H (config_path H a3 ''CHATSVR_CONFIG'' ''chatsvr.conf'') ''CHATSVR_''"
    and "unset H (config_path H a4 ''FILESVR_CONFIG'' ''filesvr.conf'') ''FILESVR_''"
    and "u \<noteq> []" and "0 \<le> now" and "later div 1000 \<le> now div 1000 + 7 * 24 * 3600" and "now div 1000 + 7 * 24 * 3600 < 2 ^ 31"
    and "token = fst (GenerateToken J hmac (sv_jwt_secret online) t now u)" and "server \<in> {auth, fr, chat}"
  shows "GetAuthenticatedUserId J hmac later (Some (CreateContext token)) (sv_jwt_secret server) = u
    \<and> GetAuthenticatedUserId J hmac later ctx (sv_jwt_secret fl) = []"
proof -
  have s: "sv_jwt_secret online = ''swift_online_secret_2026''" "sv_jwt_secret auth = ''swift_online_secret_2026''"
    "sv_jwt_secret fr = ''swift_online_secret_2026''" "sv_jwt_secret chat = ''swift_online_secret_2026''" "sv_jwt_secret fl = []"
    using onlinesvr_secret [OF assms(2,7)] authsvr_secret [OF assms(3,8)] friendsvr_secret [OF assms(4,9)] chatsvr_secret [OF assms(5,10)]
      filesvr_secret [OF assms(6,11)] by simp_all
  have token: "token = JwtCreate J hmac now u ''swift_online_secret_2026'' 168 []"
    using assms(16) s(1) by (simp add: GenerateToken_def Let_def kTokenExpireDays_def)
  have "GetAuthenticatedUserId J hmac later (Some (CreateContext token)) ''swift_online_secret_2026'' = u"
    unfolding token CreateContext_def
    by (simp add: JwtCreate_not_Nil, rule bearer_identity [OF assms(1) _ assms(12), of _ "[]" now 168])
      (use assms(13-15) in \<open>simp_all add: kAuthHeader_def kBearerPrefix_def\<close>)
  moreover have "GetAuthenticatedUserId J hmac later ctx [] = []" by (simp add: GetAuthenticatedUserId_def split: option.split)
  ultimately show ?thesis using assms(17) s by auto
qed

definition demo_host :: Host where
  "demo_host = \<lparr>h_files = (\<lambda>f. None), h_environ = [], h_opens_db = (\<lambda>p. True), h_makes_dir = (\<lambda>p. True), h_binds = (\<lambda>a. True)\<rparr>"

lemma demo_host_unset: "unset demo_host f pref"
  by (simp add: unset_def demo_host_def LoadKeyValueConfig_def config_Load_def LoadFile_def ApplyEnvOverrides_def)

lemma demo_host_serves:
  "\<exists>s. onlinesvr_main demo_host None = Serving s" "\<exists>s. authsvr_main demo_host None = Serving s" "\<exists>s. friendsvr_main demo_host None = Serving s"
  "\<exists>s. chatsvr_main demo_host None = Serving s" "\<exists>s. filesvr_main demo_host None = Serving s"
  by (simp_all add: onlinesvr_main_def authsvr_main_def friendsvr_main_def chatsvr_main_def filesvr_main_def Let_def listen_def demo_host_def
      online_LoadConfig_def auth_LoadConfig_def friend_LoadConfig_def chat_LoadConfig_def file_LoadConfig_def config_Get_def
      LoadKeyValueConfig_def config_Load_def LoadFile_def ApplyEnvOverrides_def)

theorem default_secrets_witness:
  "\<exists>online auth fl. onlinesvr_main demo_host None = Serving online \<and> authsvr_main demo_host None = Serving auth \<and> filesvr_main demo_host None = Serving fl
    \<and> (let token = fst (GenerateToken text_json (\<lambda>k d. rev d) (sv_jwt_secret online) 1700000000000 1700000000000 ''u_1'')
       in GetAuthenticatedUserId text_json (\<lambda>k d. rev d) 1700000500000 (Some (CreateContext token)) (sv_jwt_secret auth) = ''u_1''
        \<and> GetAuthenticatedUserId text_json (\<lambda>k d. rev d) 1700000500000 (Some (CreateContext token)) (sv_jwt_secret fl) = [])"
proof -
  obtain online auth fr chat fl where s: "onlinesvr_main demo_host None = Serving online" "authsvr_main demo_host None = Serving auth"
    "friendsvr_main demo_host None = Serving fr" "chatsvr_main demo_host None = Serving chat" "filesvr_main demo_host None = Serving fl"
    using demo_host_serves by blast
  show ?thesis
    using default_secrets [OF text_json.json_laws_axioms s demo_host_unset demo_host_unset demo_host_unset demo_host_unset demo_host_unset,
        of "''u_1''" 1700000000000 1700000500000 _ "\<lambda>k d. rev d" 1700000000000 auth, OF _ _ _ _ refl] s
    by (intro exI [of _ online] exI [of _ auth] exI [of _ fl]) (simp add: Let_def)
qed

section \<open>The gate finds the zone server\<close>

lemma wait_loop_returns:
  assumes "0 < poll"
  shows "\<exists>r. wait_loop attempt late poll deadline n now = Some r"
proof (induction "nat (deadline - now)" arbitrary: n now rule: less_induct)
  case less
  show ?case
  proof (cases "now < deadline \<and> \<not> fst (attempt n) \<and> now + int (snd (attempt n)) < deadline")
    case True
    then have "nat (deadline - (now + int (snd (attempt n)) + 1000 * int poll + int (late n))) < nat (deadline - now)" using assms by simp
    from less [OF this, of "n + 1"] True show ?thesis by (simp add: wait_loop.simps [of attempt late poll deadline n now])
  next
    case False
    then show ?thesis by (auto simp: wait_loop.simps [of attempt late poll deadline n now])
  qed
qed

text \<open>The world after \<open>n\<close> calls, all but the last refused.\<close>

lemma retry_loop_returns:
  assumes "1 \<le> backoff"
  shows "\<exists>ok m t. retry_loop reg dur late deadline n backoff now w = Some (ok, n + m, t, ((snd \<circ> reg) ^^ m) w)
    \<and> (ok \<longrightarrow> 0 < m \<and> fst (reg (((snd \<circ> reg) ^^ (m - 1)) w))) \<and> (\<forall>i < m. (ok \<and> i = m - 1) \<or> \<not> fst (reg (((snd \<circ> reg) ^^ i) w)))
    \<and> 1000 * int m \<le> max 0 (deadline - now + 999)"
  using assms
proof (induction "nat (deadline - now)" arbitrary: n now backoff w rule: less_induct)
  case less
  let ?left = "(deadline - (now + int (dur n))) div 1000"
  note unfold = retry_loop.simps [of reg dur late deadline n backoff now w]
  show ?case
  proof (cases "now < deadline \<and> \<not> fst (reg w) \<and> 0 < ?left")
    case True
    let ?sleep = "if backoff < ?left then backoff else ?left"
    let ?now = "now + int (dur n) + 1000 * ?sleep + int (late n)" and ?b = "if backoff < 8 then backoff * 2 else backoff"
    have sleep: "1 \<le> ?sleep" using True less.prems by auto
    then have "nat (deadline - ?now) < nat (deadline - now)" using True by linarith
    moreover have "1 \<le> ?b" using less.prems by auto
    ultimately have "\<exists>ok m t. retry_loop reg dur late deadline (n + 1) ?b ?now (snd (reg w)) = Some (ok, n + 1 + m, t, ((snd \<circ> reg) ^^ m) (snd (reg w)))
        \<and> (ok \<longrightarrow> 0 < m \<and> fst (reg (((snd \<circ> reg) ^^ (m - 1)) (snd (reg w)))))
        \<and> (\<forall>i < m. (ok \<and> i = m - 1) \<or> \<not> fst (reg (((snd \<circ> reg) ^^ i) (snd (reg w))))) \<and> 1000 * int m \<le> max 0 (deadline - ?now + 999)"
      by (rule less.hyps)
    then obtain ok m t where
      r: "retry_loop reg dur late deadline (n + 1) ?b ?now (snd (reg w)) = Some (ok, n + 1 + m, t, ((snd \<circ> reg) ^^ m) (snd (reg w)))"
        "ok \<longrightarrow> 0 < m \<and> fst (reg (((snd \<circ> reg) ^^ (m - 1)) (snd (reg w))))"
        "\<forall>i < m. (ok \<and> i = m - 1) \<or> \<not> fst (reg (((snd \<circ> reg) ^^ i) (snd (reg w))))" "1000 * int m \<le> max 0 (deadline - ?now + 999)"
      by blast
    have pow: "((snd \<circ> reg) ^^ i) (snd (reg w)) = ((snd \<circ> reg) ^^ Suc i) w" for i by (simp add: funpow_Suc_right del: funpow.simps)
    have "retry_loop reg dur late deadline n backoff now w = Some (ok, n + Suc m, t, ((snd \<circ> reg) ^^ Suc m) w)"
      using True r(1) unfold unfolding pow by simp
    moreover have "ok \<longrightarrow> fst (reg (((snd \<circ> reg) ^^ (Suc m - 1)) w))" using r(2) unfolding pow by (cases m) auto
    moreover have "\<forall>i < Suc m. (ok \<and> i = Suc m - 1) \<or> \<not> fst (reg (((snd \<circ> reg) ^^ i) w))"
    proof (intro allI impI)
      fix i assume "i < Suc m"
      then show "(ok \<and> i = Suc m - 1) \<or> \<not> fst (reg (((snd \<circ> reg) ^^ i) w))" using r(2,3) True unfolding pow by (cases i) auto
    qed
    moreover have "1000 * int (Suc m) \<le> max 0 (deadline - now + 999)"
    proof -
      have "deadline - ?now + 999 \<le> deadline - now - 1" using sleep by linarith
      with r(4) True show ?thesis by (auto simp: max_def split: if_split_asm)
    qed
    ultimately show ?thesis by (intro exI [of _ ok] exI [of _ "Suc m"] exI [of _ t]) auto
  next
    case False
    show ?thesis
    proof (cases "now < deadline")
      case True
      with False unfold have "retry_loop reg dur late deadline n backoff now w = Some (fst (reg w), n + 1, now + int (dur n), snd (reg w))" by auto
      with True show ?thesis by (intro exI [of _ "fst (reg w)"] exI [of _ 1] exI) auto
    next
      case False
      with unfold show ?thesis by (intro exI [of _ False] exI [of _ 0] exI [of _ now]) simp
    qed
  qed
qed

text \<open>C40: A gate that comes up never waits for ever for the zone server, however long connections, calls and sleeps take: the attempts end, the gate
  is announced exactly when the last of at most sixty calls of \<open>RegisterGate\<close> succeeds, every call before it has failed, and nothing else was
  changed.\<close>

theorem gate_announce_returns:
  "\<exists>ok m. gate_announce S config addr connect dur late now z = Some (ok, ((snd \<circ> GateService_RegisterGate S addr) ^^ m) z)
    \<and> m \<le> 60 \<and> (ok \<longrightarrow> 0 < m) \<and> (\<forall>i < m. fst (GateService_RegisterGate S addr (((snd \<circ> GateService_RegisterGate S addr) ^^ i) z)) = (ok \<and> i = m - 1))"
proof -
  let ?reg = "GateService_RegisterGate S addr"
  have silent: ?thesis if "gate_announce S config addr connect dur late now z = Some (False, z)"
    using that by (intro exI [of _ False] exI [of _ 0]) simp
  obtain ready t where w: "WaitForZoneSvrReady connect late (gc_zone_svr_addr config) 30 2 now = Some (ready, t)"
  proof (cases "gc_zone_svr_addr config = [] \<or> split_addr (gc_zone_svr_addr config) = None")
    case True
    then have "WaitForZoneSvrReady connect late (gc_zone_svr_addr config) 30 2 now = Some (False, now)" by (auto simp: WaitForZoneSvrReady_def)
    then show ?thesis by (rule that)
  next
    case False
    then obtain host port where a: "gc_zone_svr_addr config \<noteq> []" "split_addr (gc_zone_svr_addr config) = Some (host, port)" by auto
    obtain r where "wait_loop (connect host port) late 2 (now + 1000 * int 30) 0 now = Some r"
      using wait_loop_returns [of 2 "connect host port" late "now + 1000 * int 30" 0 now] by auto
    with a show ?thesis using that [of "fst r" "snd r"] by (simp add: WaitForZoneSvrReady_def)
  qed
  show ?thesis
  proof (cases "gc_zone_svr_addr config \<noteq> [] \<and> ready")
    case True
    obtain ok m t' where r: "retry_loop ?reg dur late (t + 1000 * int 60) 0 1 t z = Some (ok, m, t', ((snd \<circ> ?reg) ^^ m) z)"
      "ok \<longrightarrow> 0 < m \<and> fst (?reg (((snd \<circ> ?reg) ^^ (m - 1)) z))" "\<forall>i < m. (ok \<and> i = m - 1) \<or> \<not> fst (?reg (((snd \<circ> ?reg) ^^ i) z))"
      "1000 * int m \<le> max 0 (t + 1000 * int 60 - t + 999)"
      using retry_loop_returns [of 1 ?reg dur late "t + 1000 * int 60" 0 t z] by auto
    have "gate_announce S config addr connect dur late now z = Some (ok, ((snd \<circ> ?reg) ^^ m) z)"
      using True w r(1) by (simp add: gate_announce_def RegisterGateWithRetry_def)
    moreover have "\<forall>i < m. fst (?reg (((snd \<circ> ?reg) ^^ i) z)) = (ok \<and> i = m - 1)" using r(2,3) by auto
    ultimately show ?thesis using r(2,4) by (intro exI [of _ ok] exI [of _ m]) simp
  next
    case False
    then have "gate_announce S config addr connect dur late now z = Some (False, z)" using w by (auto simp: gate_announce_def)
    then show ?thesis by (rule silent)
  qed
qed

theorem gate_announce_returns_witness:
  "\<exists>ok m. gate_announce (demo_gate no_chat no_group) demo_config demo_addr (\<lambda>host port n. (3 \<le> n, 5)) (\<lambda>n. 20) (\<lambda>n. 1) 0 (GateState_empty, demo_world ()) =
      Some (ok, ((snd \<circ> GateService_RegisterGate (demo_gate no_chat no_group) demo_addr) ^^ m) (GateState_empty, demo_world ())) \<and> m \<le> 60"
  using gate_announce_returns [of "demo_gate no_chat no_group" demo_config demo_addr "\<lambda>host port n. (3 \<le> n, 5)" "\<lambda>n. 20" "\<lambda>n. 1" 0 "(GateState_empty, demo_world ())"]
  by blast

end
