(* ===== verification/Client_Network.thy ===== *)
theory Client_Network
  imports Gate_Laws "HOL-Library.Multiset"
begin

text \<open>
  \<^verbatim>\<open>client/desktop/src/network\<close>: requests and their answers (\<^verbatim>\<open>protocol_handler.cpp\<close>), the two requests of the
  application layer (\<^verbatim>\<open>app_service.cpp\<close>) and the WebSocket client (\<^verbatim>\<open>websocket_client.cpp\<close>), wired as in
  \<^verbatim>\<open>client/desktop/src/main.cpp\<close>.

  A callback is a closure of the user interface; here it is a value of any type \<open>'k\<close>, and calling it is an output.  Every operation gives the
  list of its outputs: callbacks, Qt signals and data for the socket.  What a callback does in turn are further events.  The generated
  message classes and \<open>QUrl\<close> are parameters.  The counter behind the request ids is a 32-bit \<^verbatim>\<open>int\<close> in \<^verbatim>\<open>protocol_handler.h\<close>,
  whose overflow would be undefined; here it is unbounded, so that the model is that of a client which has sent fewer than 2^31 requests.
\<close>

section \<open>Requests and answers\<close>

record ClientProto =
  cp_ser_ClientMessage :: "ClientMessage \<Rightarrow> string option"
  cp_parse_ServerMessage :: "string \<Rightarrow> ServerMessage option"
  cp_parse_KickedNotify :: "string \<Rightarrow> string option"

record 'k PendingRequest =
  pr_callback :: "'k option"
  pr_callback_with_message :: "'k option"
  pr_cmd :: string
  pr_start_ms :: int

record 'k ProtocolHandler =
  ph_pending :: "(string \<times> 'k PendingRequest) list"
  ph_requestIdCounter :: int

definition ProtocolHandler_new :: "'k ProtocolHandler" where
  "ProtocolHandler_new = \<lparr>ph_pending = [], ph_requestIdCounter = 0\<rparr>"

datatype 'k client_out =
    DataToSend string
  | CallBack 'k int string
  | CallBackWithMessage 'k int string string
  | NewMessageNotify string
  | RecallNotify string
  | ReadReceiptNotify string
  | FriendRequestNotify string
  | FriendAcceptedNotify string
  | UserStatusChangeNotify string
  | KickedNotify string

text \<open>The callback with the message comes first; a request has one of the two.\<close>

definition call_back :: "'k option \<Rightarrow> 'k option \<Rightarrow> int \<Rightarrow> string \<Rightarrow> string \<Rightarrow> 'k client_out list" where
  "call_back cb cbm rcode payload message =
     (case cbm of
        Some k \<Rightarrow> [CallBackWithMessage k rcode payload message]
      | None \<Rightarrow> (case cb of Some k \<Rightarrow> [CallBack k rcode payload] | None \<Rightarrow> []))"

definition generateRequestId :: "'k ProtocolHandler \<Rightarrow> string \<times> 'k ProtocolHandler" where
  "generateRequestId h =
     (let counter = ph_requestIdCounter h + 1 in (''req_'' @ to_string counter, h\<lparr>ph_requestIdCounter := counter\<rparr>))"

definition erase_pending :: "string \<Rightarrow> 'k ProtocolHandler \<Rightarrow> 'k ProtocolHandler" where
  "erase_pending requestId h = h\<lparr>ph_pending := filter (\<lambda>p. fst p \<noteq> requestId) (ph_pending h)\<rparr>"

definition sendRequestImpl ::
    "ClientProto \<Rightarrow> int \<Rightarrow> string \<Rightarrow> string \<Rightarrow> 'k option \<Rightarrow> 'k option \<Rightarrow> 'k ProtocolHandler \<Rightarrow> 'k client_out list \<times> 'k ProtocolHandler" where
  "sendRequestImpl P now_ms cmd payload callback callbackWithMessage h =
     (let (requestId, h) = generateRequestId h
      in case cp_ser_ClientMessage P \<lparr>cm_cmd = cmd, cm_payload = payload, cm_request_id = requestId\<rparr> of
           None \<Rightarrow> (call_back callback callbackWithMessage (- 1) [] [], h)
         | Some serialized \<Rightarrow>
             ([DataToSend serialized],
              if callback \<noteq> None \<or> callbackWithMessage \<noteq> None
              then (erase_pending requestId h)\<lparr>ph_pending := ph_pending (erase_pending requestId h) @
                 [(requestId, \<lparr>pr_callback = callback, pr_callback_with_message = callbackWithMessage, pr_cmd = cmd, pr_start_ms = now_ms\<rparr>)]\<rparr>
              else h))"

definition sendRequest :: "ClientProto \<Rightarrow> int \<Rightarrow> string \<Rightarrow> string \<Rightarrow> 'k option \<Rightarrow> 'k ProtocolHandler \<Rightarrow> 'k client_out list \<times> 'k ProtocolHandler" where
  "sendRequest P now_ms cmd payload callback = sendRequestImpl P now_ms cmd payload callback None"

definition sendRequestWithMessage :: "ClientProto \<Rightarrow> int \<Rightarrow> string \<Rightarrow> string \<Rightarrow> 'k option \<Rightarrow> 'k ProtocolHandler \<Rightarrow> 'k client_out list \<times> 'k ProtocolHandler" where
  "sendRequestWithMessage P now_ms cmd payload callback = sendRequestImpl P now_ms cmd payload None callback"

text \<open>The slot of the timer of a request, which fires 15 seconds after it was sent unless it is stopped before.\<close>

definition onRequestTimeout :: "string \<Rightarrow> 'k ProtocolHandler \<Rightarrow> 'k client_out list \<times> 'k ProtocolHandler" where
  "onRequestTimeout requestId h =
     (case map_of (ph_pending h) requestId of
        None \<Rightarrow> ([], h)
      | Some pending \<Rightarrow> (call_back (pr_callback pending) (pr_callback_with_message pending) (- 2) [] [], erase_pending requestId h))"

definition push_signal :: "ClientProto \<Rightarrow> string \<Rightarrow> string \<Rightarrow> 'k client_out list" where
  "push_signal P cmd payload =
     (if cmd = ''chat.new_message'' \<or> cmd = ''chat.message'' then [NewMessageNotify payload]
      else if cmd = ''chat.recall'' then [RecallNotify payload]
      else if cmd = ''chat.read_receipt'' then [ReadReceiptNotify payload]
      else if cmd = ''friend.request'' then [FriendRequestNotify payload]
      else if cmd = ''friend.accepted'' then [FriendAcceptedNotify payload]
      else if cmd = ''user.status_change'' then [UserStatusChangeNotify payload]
      else if cmd = ''system.kicked''
      then [KickedNotify (if payload \<noteq> [] then (case cp_parse_KickedNotify P payload of Some reason \<Rightarrow> reason | None \<Rightarrow> []) else [])]
      else [])"

definition handleMessage :: "ClientProto \<Rightarrow> string \<Rightarrow> 'k ProtocolHandler \<Rightarrow> 'k client_out list \<times> 'k ProtocolHandler" where
  "handleMessage P data h =
     (case cp_parse_ServerMessage P data of
        None \<Rightarrow> ([], h)
      | Some msg \<Rightarrow>
          (case (if sm_request_id msg \<noteq> [] then map_of (ph_pending h) (sm_request_id msg) else None) of
             Some pending \<Rightarrow>
               (call_back (pr_callback pending) (pr_callback_with_message pending) (sm_code msg) (sm_payload msg) (sm_message msg),
                erase_pending (sm_request_id msg) h)
           | None \<Rightarrow> (push_signal P (sm_cmd msg) (sm_payload msg), h)))"

text \<open>The map is emptied first and its requests are then called back in the order of their identifiers.\<close>

definition clearPendingRequests :: "'k ProtocolHandler \<Rightarrow> 'k client_out list \<times> 'k ProtocolHandler" where
  "clearPendingRequests h =
     (concat (map (\<lambda>(requestId, request). call_back (pr_callback request) (pr_callback_with_message request) (- 1) [] [])
        (sort_key fst (ph_pending h))),
      h\<lparr>ph_pending := []\<rparr>)"

section \<open>The application layer\<close>

text \<open>What the callback of a request of the application layer makes of an answer: the code, the message and the response for the user
  interface.\<close>

definition authLoginAnswer ::
    "(string \<Rightarrow> AuthLoginResponsePayload option) \<Rightarrow> AuthLoginResponsePayload \<Rightarrow> int \<Rightarrow> string \<Rightarrow> string \<Rightarrow> int \<times> string \<times> AuthLoginResponsePayload" where
  "authLoginAnswer parse emptyResp rcode data message =
     (if rcode \<noteq> 0 then (rcode, message, emptyResp)
      else case parse data of
        None \<Rightarrow> (- 1, ''auth.login response parse failed'', emptyResp)
      | Some resp \<Rightarrow> (rcode, palr_error resp, resp))"

definition sendAuthLogin ::
    "ClientProto \<Rightarrow> (AuthLoginPayload \<Rightarrow> string option) \<Rightarrow> int \<Rightarrow> string \<Rightarrow> string \<Rightarrow> string \<Rightarrow> string \<Rightarrow> 'k \<Rightarrow> 'k ProtocolHandler option
       \<Rightarrow> (int \<times> string) option \<times> 'k client_out list \<times> 'k ProtocolHandler option" where
  "sendAuthLogin P ser now_ms username password deviceId deviceType callback protocol =
     (case protocol of
        None \<Rightarrow> (Some (- 1, ''network layer unavailable''), [], None)
      | Some h \<Rightarrow>
          (case ser \<lparr>pal_username = username, pal_password = password, pal_device_id = deviceId, pal_device_type = deviceType\<rparr> of
             None \<Rightarrow> (Some (- 1, ''auth.login serialize failed''), [], Some h)
           | Some serialized \<Rightarrow>
               let (outs, h) = sendRequestWithMessage P now_ms ''auth.login'' serialized (Some callback) h in (None, outs, Some h)))"

definition chatGetHistoryAnswer ::
    "(string \<Rightarrow> ChatGetHistoryResponsePayload option) \<Rightarrow> ChatGetHistoryResponsePayload \<Rightarrow> int \<Rightarrow> string \<Rightarrow> string
       \<Rightarrow> int \<times> string \<times> ChatGetHistoryResponsePayload" where
  "chatGetHistoryAnswer parse emptyResp rcode data message =
     (if rcode \<noteq> 0 then (rcode, message, emptyResp)
      else case parse data of
        None \<Rightarrow> (- 1, ''chat.get_history response parse failed'', emptyResp)
      | Some resp \<Rightarrow> (rcode, [], resp))"

definition sendChatGetHistory ::
    "ClientProto \<Rightarrow> (ChatGetHistoryPayload \<Rightarrow> string option) \<Rightarrow> (string \<Rightarrow> string) \<Rightarrow> int \<Rightarrow> string \<Rightarrow> int \<Rightarrow> string \<Rightarrow> int \<Rightarrow> 'k \<Rightarrow> 'k ProtocolHandler option
       \<Rightarrow> (int \<times> string) option \<times> 'k client_out list \<times> 'k ProtocolHandler option" where
  "sendChatGetHistory P ser trimmed_text now_ms chatId chatType beforeMsgId limit callback protocol =
     (case protocol of
        None \<Rightarrow> (Some (- 1, ''network layer unavailable''), [], None)
      | Some h \<Rightarrow>
          (case ser \<lparr>pcgh_chat_id = chatId, pcgh_chat_type = chatType, pcgh_before_msg_id = (if trimmed_text beforeMsgId \<noteq> [] then beforeMsgId else []),
                     pcgh_limit = (if limit > 0 then limit else 50)\<rparr> of
             None \<Rightarrow> (Some (- 1, ''chat.get_history serialize failed''), [], Some h)
           | Some serialized \<Rightarrow>
               let (outs, h) = sendRequestWithMessage P now_ms ''chat.get_history'' serialized (Some callback) h in (None, outs, Some h)))"

section \<open>The socket\<close>

datatype SocketState = Unconnected | Connecting | Connected | Closing

record QUrl =
  qu_valid :: bool
  qu_scheme :: string
  qu_host :: string
  qu_path :: string

text \<open>What the WebSocket client does to the socket or tells the rest of the client.\<close>

datatype socket_out = SocketClose | SocketOpen QUrl | SocketSend string | ErrorOccurred string

definition socket_connect :: "(string \<Rightarrow> QUrl) \<Rightarrow> (string \<Rightarrow> string) \<Rightarrow> string \<Rightarrow> SocketState \<Rightarrow> socket_out list" where
  "socket_connect fromUserInput trimmed_text url st =
     (let parsed = fromUserInput (trimmed_text url); scheme = map tolower (qu_scheme parsed)
      in if \<not> qu_valid parsed \<or> (scheme \<noteq> ''ws'' \<and> scheme \<noteq> ''wss'') \<or> qu_path parsed \<noteq> ''/ws''
         then [ErrorOccurred ''Invalid WebSocket URL. Expected format: ws://host:port/ws or wss://host:port/ws'']
         else if trimmed_text (qu_host parsed) = [] then [ErrorOccurred ''Invalid WebSocket URL. Host is required.'']
         else (if st = Connecting \<or> st = Connected then [SocketClose] else []) @ [SocketOpen parsed])"

definition socket_sendMessage :: "string \<Rightarrow> SocketState \<Rightarrow> socket_out list" where
  "socket_sendMessage data st = (if st \<noteq> Connected then [ErrorOccurred ''WebSocket is not connected.''] else [SocketSend data])"

definition onTextMessageReceived :: "string \<Rightarrow> socket_out list" where
  "onTextMessageReceived message = [ErrorOccurred ''Text frame is not supported, binary frame required.'', SocketClose]"

datatype SocketError = ConnectionRefusedError | HostNotFoundError | SocketTimeoutError | OtherSocketError

definition onError :: "SocketError \<Rightarrow> string \<Rightarrow> socket_out list" where
  "onError err errorString =
     [ErrorOccurred (case err of
        ConnectionRefusedError \<Rightarrow> ''ConnectionRefused: '' @ errorString
      | HostNotFoundError \<Rightarrow> ''HostNotFound: '' @ errorString
      | SocketTimeoutError \<Rightarrow> ''Timeout: '' @ errorString
      | OtherSocketError \<Rightarrow> errorString)]"

section \<open>The client\<close>

text \<open>What happens to the handler: the user interface sends a request, a message arrives, a timer fires, the connection is lost.\<close>

datatype 'k client_event = Request int string string "'k option" "'k option" | Message string | TimerFires string | ConnectionLost

fun client_do :: "ClientProto \<Rightarrow> 'k client_event \<Rightarrow> 'k ProtocolHandler \<Rightarrow> 'k client_out list \<times> 'k ProtocolHandler" where
  "client_do P (Request now_ms cmd payload cb cbm) h = sendRequestImpl P now_ms cmd payload cb cbm h"
| "client_do P (Message data) h = handleMessage P data h"
| "client_do P (TimerFires requestId) h = onRequestTimeout requestId h"
| "client_do P ConnectionLost h = clearPendingRequests h"

fun client_run :: "ClientProto \<Rightarrow> 'k client_event list \<Rightarrow> 'k ProtocolHandler \<Rightarrow> 'k client_out list \<times> 'k ProtocolHandler" where
  "client_run P [] h = ([], h)"
| "client_run P (ev # evs) h = (let (outs, h) = client_do P ev h; (outs', h) = client_run P evs h in (outs @ outs', h))"

section \<open>Every request is called back once\<close>

definition calls :: "'k \<Rightarrow> 'k client_out list \<Rightarrow> nat" where
  "calls k outs = length (filter (\<lambda>out. case out of CallBack k' c p \<Rightarrow> k' = k | CallBackWithMessage k' c p m \<Rightarrow> k' = k | _ \<Rightarrow> False) outs)"

definition chosen :: "'k option \<Rightarrow> 'k option \<Rightarrow> 'k option" where
  "chosen cb cbm = (case cbm of Some k \<Rightarrow> Some k | None \<Rightarrow> cb)"

definition waiting :: "'k \<Rightarrow> 'k ProtocolHandler \<Rightarrow> nat" where
  "waiting k h = length (filter (\<lambda>(i, r). chosen (pr_callback r) (pr_callback_with_message r) = Some k) (ph_pending h))"

definition requests :: "'k \<Rightarrow> 'k client_event list \<Rightarrow> nat" where
  "requests k evs = length (filter (\<lambda>ev. case ev of Request t c p cb cbm \<Rightarrow> chosen cb cbm = Some k | _ \<Rightarrow> False) evs)"

lemma calls_append [simp]: "calls k (xs @ ys) = calls k xs + calls k ys" "calls k [] = 0" "calls k [DataToSend d] = 0"
  by (simp_all add: calls_def)

lemma calls_call_back [simp]: "calls k (call_back cb cbm c p m) = (if chosen cb cbm = Some k then 1 else 0)"
  by (auto simp: calls_def call_back_def chosen_def split: option.split)

lemma calls_push_signal [simp]: "calls k (push_signal P cmd payload) = 0"
  by (simp add: calls_def push_signal_def)

definition ids_ok :: "'k ProtocolHandler \<Rightarrow> bool" where
  "ids_ok h \<longleftrightarrow> 0 \<le> ph_requestIdCounter h \<and> distinct (map fst (ph_pending h)) \<and>
     (\<forall>i \<in> fst ` set (ph_pending h). \<exists>n. i = ''req_'' @ to_string n \<and> 0 < n \<and> n \<le> ph_requestIdCounter h)"

lemma fresh_request_id:
  assumes "ids_ok h"
  shows "''req_'' @ to_string (ph_requestIdCounter h + 1) \<notin> fst ` set (ph_pending h)"
proof
  assume "''req_'' @ to_string (ph_requestIdCounter h + 1) \<in> fst ` set (ph_pending h)"
  then obtain n where "''req_'' @ to_string (ph_requestIdCounter h + 1) = ''req_'' @ to_string n" "n \<le> ph_requestIdCounter h"
    using assms unfolding ids_ok_def by blast
  then show False by (auto dest: to_string_inj)
qed

lemma ids_ok_counter: "ids_ok h \<Longrightarrow> ids_ok (h\<lparr>ph_requestIdCounter := ph_requestIdCounter h + 1\<rparr>)"
  unfolding ids_ok_def by simp (meson add_increasing2 zero_le_one)

lemma ids_ok_add:
  assumes "ids_ok h"
  shows "ids_ok (h\<lparr>ph_requestIdCounter := ph_requestIdCounter h + 1, ph_pending := ph_pending h @ [(''req_'' @ to_string (ph_requestIdCounter h + 1), r)]\<rparr>)"
proof -
  have "distinct (map fst (ph_pending h @ [(''req_'' @ to_string (ph_requestIdCounter h + 1), r)]))"
    using fresh_request_id [OF assms(1)] assms(1) unfolding ids_ok_def by simp
  moreover have "\<exists>n. i = ''req_'' @ to_string n \<and> 0 < n \<and> n \<le> ph_requestIdCounter h + 1" if "i \<in> fst ` set (ph_pending h)" for i
    using that assms unfolding ids_ok_def by (metis add_increasing2 zero_le_one)
  moreover have "0 < ph_requestIdCounter h + 1" using assms by (simp add: ids_ok_def)
  ultimately show ?thesis using assms unfolding ids_ok_def by auto
qed

lemma waiting_erase:
  assumes "distinct (map fst (ph_pending h))" and "map_of (ph_pending h) i = Some r"
  shows "waiting k h = waiting k (erase_pending i h) + (if chosen (pr_callback r) (pr_callback_with_message r) = Some k then 1 else 0)"
proof -
  have "length (filter (\<lambda>(i, r). Q r) xs) = length (filter (\<lambda>(i, r). Q r) (filter (\<lambda>p. fst p \<noteq> i) xs)) + (if Q r then 1 else 0)"
    if "distinct (map fst xs)" "map_of xs i = Some r" for Q and xs :: "(string \<times> 'a PendingRequest) list"
    using that
  proof (induction xs)
    case (Cons x xs)
    show ?case
    proof (cases "fst x = i")
      case True
      then have "filter (\<lambda>p. fst p \<noteq> i) xs = xs" using Cons.prems(1) by (auto simp: filter_id_conv rev_image_eqI)
      with True Cons.prems show ?thesis by (cases x) auto
    next
      case False
      with Cons show ?thesis by (cases x) auto
    qed
  qed simp
  from this [OF assms, of "\<lambda>r. chosen (pr_callback r) (pr_callback_with_message r) = Some k"] show ?thesis by (simp add: waiting_def erase_pending_def)
qed

lemma ids_ok_erase: "ids_ok h \<Longrightarrow> ids_ok (erase_pending i h)"
  unfolding ids_ok_def erase_pending_def by (auto simp: distinct_map_filter)

lemma ids_ok_distinct: "ids_ok h \<Longrightarrow> distinct (map fst (ph_pending h))"
  by (simp add: ids_ok_def)

lemma ids_ok_empty [simp]: "ids_ok h \<Longrightarrow> ids_ok (h\<lparr>ph_pending := []\<rparr>)"
  by (simp add: ids_ok_def)

lemma calls_concat_sorted:
  "calls k (concat (map (\<lambda>(i, r). call_back (pr_callback r) (pr_callback_with_message r) c [] []) (sort_key fst xs))) =
   length (filter (\<lambda>(i, r). chosen (pr_callback r) (pr_callback_with_message r) = Some k) xs)"
proof -
  have "calls k (concat (map (\<lambda>(i, r). call_back (pr_callback r) (pr_callback_with_message r) c [] []) ys)) =
      size {#x \<in># mset ys. case x of (i, r) \<Rightarrow> chosen (pr_callback r) (pr_callback_with_message r) = Some k#}" for ys
    by (induction ys) auto
  from this [of "sort_key fst xs"] show ?thesis by (simp add: mset_filter [symmetric] del: mset_filter)
qed

lemma client_do_counts:
  assumes "ids_ok h" and "client_do P ev h = (outs, h')"
  shows "ids_ok h' \<and> calls k outs + waiting k h' = requests k [ev] + waiting k h"
proof (cases ev)
  case (Request t c p cb cbm)
  define i where "i = ''req_'' @ to_string (ph_requestIdCounter h + 1)"
  define r where "r = \<lparr>pr_callback = cb, pr_callback_with_message = cbm, pr_cmd = c, pr_start_ms = t\<rparr>"
  define g where "g = h\<lparr>ph_requestIdCounter := ph_requestIdCounter h + 1\<rparr>"
  have new: "i \<notin> fst ` set (ph_pending h)" unfolding i_def by (rule fresh_request_id [OF assms(1)])
  then have kept: "filter (\<lambda>p. fst p \<noteq> i) (ph_pending h) = ph_pending h" by (auto simp: filter_id_conv rev_image_eqI)
  have g: "ids_ok g" "waiting k g = waiting k h" using ids_ok_counter [OF assms(1)] by (simp_all add: g_def waiting_def)
  have add: "ids_ok (g\<lparr>ph_pending := ph_pending h @ [(i, r)]\<rparr>)" unfolding g_def i_def by (rule ids_ok_add [OF assms(1)])
  have w: "waiting k (g\<lparr>ph_pending := ph_pending h @ [(i, r)]\<rparr>) = waiting k h + (if chosen cb cbm = Some k then 1 else 0)"
    by (simp add: waiting_def r_def)
  have q: "requests k [ev] = (if chosen cb cbm = Some k then 1 else 0)" using Request by (simp add: requests_def)
  have none: "chosen cb cbm = None" if "cb = None" "cbm = None" using that by (simp add: chosen_def)
  have er: "erase_pending i g = g" "ph_pending g = ph_pending h" using kept by (simp_all add: erase_pending_def g_def)
  have "client_do P ev h = (case cp_ser_ClientMessage P \<lparr>cm_cmd = c, cm_payload = p, cm_request_id = i\<rparr> of
      None \<Rightarrow> (call_back cb cbm (- 1) [] [], g)
    | Some d \<Rightarrow> ([DataToSend d], if cb \<noteq> None \<or> cbm \<noteq> None then g\<lparr>ph_pending := ph_pending h @ [(i, r)]\<rparr> else g))"
    unfolding Request client_do.simps sendRequestImpl_def generateRequestId_def Let_def prod.case i_def [symmetric] g_def [symmetric] er r_def [symmetric] by (rule refl)
  then have "(outs, h') = (case cp_ser_ClientMessage P \<lparr>cm_cmd = c, cm_payload = p, cm_request_id = i\<rparr> of
      None \<Rightarrow> (call_back cb cbm (- 1) [] [], g)
    | Some d \<Rightarrow> ([DataToSend d], if cb \<noteq> None \<or> cbm \<noteq> None then g\<lparr>ph_pending := ph_pending h @ [(i, r)]\<rparr> else g))"
    unfolding assms(2) .
  then show ?thesis
    using g add w q none by (cases "cp_ser_ClientMessage P \<lparr>cm_cmd = c, cm_payload = p, cm_request_id = i\<rparr>") (simp_all split: if_split_asm)
next
  case (Message d)
  with assms waiting_erase [OF ids_ok_distinct [OF assms(1)]] ids_ok_erase [OF assms(1)] show ?thesis
    by (auto simp: handleMessage_def requests_def split: option.split_asm if_split_asm)
next
  case (TimerFires i)
  with assms waiting_erase [OF ids_ok_distinct [OF assms(1)]] ids_ok_erase [OF assms(1)] show ?thesis
    by (auto simp: onRequestTimeout_def requests_def split: option.split_asm)
next
  case ConnectionLost
  with assms show ?thesis by (auto simp: clearPendingRequests_def calls_concat_sorted requests_def waiting_def)
qed

lemma client_run_counts:
  assumes "ids_ok h" and "client_run P evs h = (outs, h')"
  shows "ids_ok h' \<and> calls k outs + waiting k h' = requests k evs + waiting k h"
  using assms
proof (induction evs arbitrary: h outs)
  case (Cons ev evs)
  obtain o1 h1 o2 where r: "client_do P ev h = (o1, h1)" "client_run P evs h1 = (o2, h')" "outs = o1 @ o2"
    using Cons.prems(2) by (auto simp: Let_def split: prod.split_asm)
  note c = client_do_counts [OF Cons.prems(1) r(1), of k]
  moreover have "ids_ok h' \<and> calls k o2 + waiting k h' = requests k evs + waiting k h1" by (rule Cons.IH [OF conjunct1 [OF c] r(2)])
  moreover have "requests k (ev # evs) = requests k [ev] + requests k evs" by (simp add: requests_def)
  ultimately show ?case using r(3) by auto
qed (simp_all add: requests_def)

text \<open>C15: Every request of the client is called back at most once, and exactly once as soon as it is no longer waiting: by its answer, by its timer or by
  the loss of the connection, whichever comes first, whatever else arrives.  When the connection is lost nothing is left waiting.  The
  counter behind the request ids, an \<^verbatim>\<open>int\<close>, has not overflowed, that is, the client has sent fewer than 2^31 requests.\<close>

theorem requests_called_back_once:
  assumes "client_run P evs ProtocolHandler_new = (outs, h)"
  shows "calls k outs + waiting k h = requests k evs
    \<and> (\<exists>outs' h'. client_run P (evs @ [ConnectionLost]) ProtocolHandler_new = (outs @ outs', h') \<and> calls k (outs @ outs') = requests k evs \<and> ph_pending h' = [])"
proof -
  have new: "ids_ok (ProtocolHandler_new :: 'a ProtocolHandler)" "waiting k ProtocolHandler_new = 0"
    by (simp_all add: ids_ok_def ProtocolHandler_new_def waiting_def)
  note r = client_run_counts [OF new(1) assms, of k]
  have app: "client_run P (evs @ [ConnectionLost]) g = (fst (client_run P evs g) @ fst (clearPendingRequests (snd (client_run P evs g))),
      snd (clearPendingRequests (snd (client_run P evs g))))" for g
    by (induction evs arbitrary: g) (auto simp: Let_def case_prod_beta)
  have l: "client_do P ConnectionLost h = (fst (clearPendingRequests h), snd (clearPendingRequests h))" by simp
  have "calls k (fst (clearPendingRequests h)) + waiting k (snd (clearPendingRequests h)) = waiting k h"
    using client_do_counts [OF conjunct1 [OF r] l, of k] by (simp add: requests_def)
  moreover have "ph_pending (snd (clearPendingRequests h)) = []" "waiting k (snd (clearPendingRequests h)) = 0"
    by (simp_all add: clearPendingRequests_def waiting_def)
  ultimately show ?thesis using r app [of ProtocolHandler_new] assms new(2) by simp
qed

definition demo_client_proto :: ClientProto where
  "demo_client_proto = \<lparr>cp_ser_ClientMessage = (\<lambda>m. Some (cm_request_id m)),
     cp_parse_ServerMessage = (\<lambda>d. Some \<lparr>sm_cmd = [], sm_payload = ''ok'', sm_request_id = d, sm_code = 0, sm_message = []\<rparr>), cp_parse_KickedNotify = (\<lambda>d. None)\<rparr>"

theorem requests_called_back_once_witness:
  "calls (7 :: nat) (fst (client_run demo_client_proto [Request 0 ''heartbeat'' [] (Some 7) None, Message ''req_1'', TimerFires ''req_1''] ProtocolHandler_new))
     + waiting (7 :: nat) (snd (client_run demo_client_proto [Request 0 ''heartbeat'' [] (Some 7) None, Message ''req_1'', TimerFires ''req_1''] ProtocolHandler_new)) = 1"
  using requests_called_back_once [of demo_client_proto "[Request 0 ''heartbeat'' [] (Some (7 :: nat)) None, Message ''req_1'', TimerFires ''req_1'']", OF surjective_pairing, of 7]
  by (simp add: requests_def chosen_def del: client_run.simps)

end
