(* ===== verification/Client_Properties.thy ===== *)
theory Client_Properties
  imports Client_Network Deployment_Properties
begin

text \<open>
  The desktop client and a gate together: a request of the user interface comes back to its callback.
\<close>

text \<open>Both sides use the classes that are generated from \<^verbatim>\<open>gate.proto\<close>: what one side serialises the other parses.\<close>

definition wire_agrees :: "ClientProto \<Rightarrow> GateProto \<Rightarrow> bool" where
  "wire_agrees CP GP \<longleftrightarrow>
     (\<forall>m d. cp_ser_ClientMessage CP m = Some d \<longrightarrow> gp_parse_ClientMessage GP d = Some m)
   \<and> (\<forall>m d. gp_ser_ServerMessage GP m = Some d \<longrightarrow> cp_parse_ServerMessage CP d = Some m)"

lemma sendRequest_sent:
  assumes "sendRequest CP t cmd payload (Some k) h = ([DataToSend data], h')"
  obtains rid where "cp_ser_ClientMessage CP \<lparr>cm_cmd = cmd, cm_payload = payload, cm_request_id = rid\<rparr> = Some data" "rid \<noteq> []"
    "map_of (ph_pending h') rid = Some \<lparr>pr_callback = Some k, pr_callback_with_message = None, pr_cmd = cmd, pr_start_ms = t\<rparr>"
proof -
  have none: "map_of (filter (\<lambda>p. fst p \<noteq> i) xs) i = None" for i and xs :: "(string \<times> 'a PendingRequest) list" by (auto simp: map_of_eq_None_iff)
  show thesis
    using assms that [of "''req_'' @ to_string (ph_requestIdCounter h + 1)"] none
    by (auto simp: sendRequest_def sendRequestImpl_def generateRequestId_def Let_def erase_pending_def call_back_def map_add_def
        split: option.split_asm option.split)
qed

text \<open>C7: The round trip of a request.  The client sends a request with a callback over an open connection; the gate answers with one message for this connection, after pushes
  that arrived meanwhile; and when the client receives that message it calls the callback, with the code and the payload of the answer, and the request
  no longer waits.\<close>

theorem request_reaches_callback:
  assumes "S = deployed_gate hostname config a GP (deployed_zone store P GP up indet B) expected now" and "gate_reach S addr w gt"
    and "gt_sessions gt c = Some s" and "ws_phase s = Reading" and "\<not> ws_closed s"
    and "\<And>m. gp_ser_ServerMessage GP m \<noteq> None" and "gp_ser_HeartbeatResponse GP server_time \<noteq> None" and "wire_agrees CP GP"
    and "sendRequest CP t cmd payload (Some k) h = ([DataToSend data], h')"
  shows "\<exists>ps data' rc answer h''.
      g_posted (fst (WebSocketHandler_OnMessage S now_ms server_time c data (gt_service gt))) = g_posted (fst (gt_service gt)) @ ps @ [PostSend c data']
    \<and> handleMessage CP data' h' = ([CallBack k rc answer], h'') \<and> set (ph_pending h'') \<subset> set (ph_pending h')"
proof -
  obtain rid where rid: "cp_ser_ClientMessage CP \<lparr>cm_cmd = cmd, cm_payload = payload, cm_request_id = rid\<rparr> = Some data" "rid \<noteq> []"
    "map_of (ph_pending h') rid = Some \<lparr>pr_callback = Some k, pr_callback_with_message = None, pr_cmd = cmd, pr_start_ms = t\<rparr>"
    by (rule sendRequest_sent [OF assms(9)])
  have "gp_parse_ClientMessage (gs_proto S) data = Some \<lparr>cm_cmd = cmd, cm_payload = payload, cm_request_id = rid\<rparr>"
    using assms(8) rid(1) by (simp add: wire_agrees_def assms(1) deployed_gate_def GateService_Init_def Let_def)
  then have m: "WebSocketHandler_OnMessage S now_ms server_time c data (gt_service gt) = HandleClientMessage S now_ms server_time c cmd payload rid (gt_service gt)"
    by (simp add: WebSocketHandler_OnMessage_def)
  obtain ps rc msg answer data' where a: "gp_ser_ServerMessage GP
      \<lparr>sm_cmd = cmd, sm_payload = answer, sm_request_id = rid, sm_code = rc, sm_message = msg\<rparr> = Some data'"
      "g_posted (fst (HandleClientMessage S now_ms server_time c cmd payload rid (gt_service gt))) = g_posted (fst (gt_service gt)) @ ps @ [PostSend c data']"
    using request_posts_answer [OF assms(2) [unfolded assms(1)] assms(3-7) refl, folded assms(1)] by blast
  from a(1) assms(8) have "cp_parse_ServerMessage CP data' = Some \<lparr>sm_cmd = cmd, sm_payload = answer, sm_request_id = rid, sm_code = rc, sm_message = msg\<rparr>"
    by (simp add: wire_agrees_def)
  then have "handleMessage CP data' h' = ([CallBack k rc answer], erase_pending rid h')"
    using rid(2,3) by (simp add: handleMessage_def call_back_def)
  moreover have "set (ph_pending (erase_pending rid h')) \<subset> set (ph_pending h')"
    using map_of_SomeD [OF rid(3)] by (force simp: erase_pending_def)
  ultimately show ?thesis using a(2) unfolding m by blast
qed

definition demo_wire :: ClientProto where
  "demo_wire =
     \<lparr>cp_ser_ClientMessage = (\<lambda>m. Some (put_fields [cm_cmd m, cm_payload m, cm_request_id m])),
      cp_parse_ServerMessage = (\<lambda>d. case get_fields d of
          [cmd, payload, rid, rc, msg] \<Rightarrow> Some \<lparr>sm_cmd = cmd, sm_payload = payload, sm_request_id = rid, sm_code = the (strtoll rc), sm_message = msg\<rparr> | _ \<Rightarrow> None),
      cp_parse_KickedNotify = (\<lambda>d. None)\<rparr>"

lemma demo_wire_agrees: "wire_agrees demo_wire demo_gate_proto"
  by (auto simp: wire_agrees_def demo_wire_def demo_gate_proto_def strtoll_to_string)

theorem request_reaches_callback_witness:
  "\<exists>gs data h' data' rc answer h''. sendRequest demo_wire 0 ''heartbeat'' [] (Some (7 :: nat)) ProtocolHandler_new = ([DataToSend data], h')
    \<and> (\<exists>ps. g_posted (fst (WebSocketHandler_OnMessage (demo_gate no_chat no_group) 0 0 (demo_conn 0) data (gt_service (demo_gate_end gs ())))) =
        g_posted demo_gate_state @ ps @ [PostSend (demo_conn 0) data'])
    \<and> handleMessage demo_wire data' h' = ([CallBack 7 rc answer], h'')"
proof -
  obtain gs where reach: "gate_reach (demo_gate no_chat no_group) demo_addr (demo_world ()) (demo_gate_end gs ())" by (rule exE [OF demo_reach])
  have s: "gt_sessions (demo_gate_end gs ()) (demo_conn 0) = Some (demo_ws_session (demo_conn 0))" "fst (gt_service (demo_gate_end gs ())) = demo_gate_state"
    by (simp_all add: demo_gate_end_def)
  obtain data h' where d: "sendRequest demo_wire 0 ''heartbeat'' [] (Some (7 :: nat)) ProtocolHandler_new = ([DataToSend data], h')"
    by (simp add: sendRequest_def sendRequestImpl_def generateRequestId_def Let_def demo_wire_def)
  have g: "ws_phase (demo_ws_session (demo_conn 0)) = Reading" "\<not> ws_closed (demo_ws_session (demo_conn 0))"
    "gp_ser_ServerMessage demo_gate_proto m \<noteq> None" "gp_ser_HeartbeatResponse demo_gate_proto 0 \<noteq> None" for m
    by (simp_all add: demo_ws_session_def WsSession_new_def demo_gate_proto_def)
  from request_reaches_callback [OF demo_gate_def [unfolded demo_zone_def] reach s(1) g(1-4) demo_wire_agrees d, of 0] d s(2)
  show ?thesis by (metis (no_types))
qed

end
