(* ===== verification/Client_Storage.thy ===== *)
theory Client_Storage
  imports Cpp_Std "HOL-Library.Multiset"
begin

text \<open>
  \<^verbatim>\<open>client/desktop/src/utils/chat_storage.cpp\<close>: conversations and messages that the desktop client keeps on disk, one JSON file for each user.

  \<open>QJsonValue\<close> is the data type of Qt; numbers are the integers that the client stores (a \<^verbatim>\<open>double\<close> holds them exactly up to \<open>2\<^sup>5\<^sup>3\<close>).
  Parameters are the conversion of a document from and to the text of a file (of any type), which letters are letters or digits, and \<^verbatim>\<open>std::sort\<close>, which may order
  messages of one time stamp in any way.
\<close>

section \<open>JSON values of Qt\<close>

datatype QJsonValue = QNull | QBool bool | QNum int | QStr string | QArr "QJsonValue list" | QObj "(string \<times> QJsonValue) list"

fun qj_toString :: "QJsonValue \<Rightarrow> string" where
  "qj_toString (QStr s) = s"
| "qj_toString v = []"

fun qj_toInt :: "int \<Rightarrow> QJsonValue \<Rightarrow> int" where
  "qj_toInt d (QNum n) = (if is_int32 n then n else d)"
| "qj_toInt d v = d"

fun qj_toDouble :: "int \<Rightarrow> QJsonValue \<Rightarrow> int" where
  "qj_toDouble d (QNum n) = n"
| "qj_toDouble d v = d"

fun qj_toBool :: "bool \<Rightarrow> QJsonValue \<Rightarrow> bool" where
  "qj_toBool d (QBool b) = b"
| "qj_toBool d v = d"

fun qj_toArray :: "QJsonValue \<Rightarrow> QJsonValue list" where
  "qj_toArray (QArr vs) = vs"
| "qj_toArray v = []"

type_synonym QJsonObject = "(string \<times> QJsonValue) list"

fun qj_toObject :: "QJsonValue \<Rightarrow> QJsonObject" where
  "qj_toObject (QObj kvs) = kvs"
| "qj_toObject v = []"

definition qo_get :: "QJsonObject \<Rightarrow> string \<Rightarrow> QJsonValue" where
  "qo_get kvs k = (case map_of kvs k of None \<Rightarrow> QNull | Some v \<Rightarrow> v)"

definition qo_put :: "string \<Rightarrow> QJsonValue \<Rightarrow> QJsonObject \<Rightarrow> QJsonObject" where
  "qo_put k v kvs = filter (\<lambda>kv. fst kv \<noteq> k) kvs @ [(k, v)]"

lemma qo_get_put [simp]: "qo_get (qo_put k v kvs) k' = (if k' = k then v else qo_get kvs k')"
proof -
  have "map_of (filter (\<lambda>kv. fst kv \<noteq> k) kvs) k' = (if k' = k then None else map_of kvs k')" by (induction kvs) auto
  then show ?thesis by (simp add: qo_get_def qo_put_def map_add_def split: option.split)
qed

section \<open>Messages and conversations\<close>

record ClientMsg =
  m_msgId :: string
  m_fromUserId :: string
  m_toId :: string
  m_chatType :: int
  m_content :: string
  m_mediaUrl :: string
  m_mediaType :: string
  m_mentions :: "string list"
  m_replyToMsgId :: string
  m_timestamp :: int
  m_status :: int
  m_isSelf :: bool
  m_sending :: bool
  m_sendFailed :: bool

record ClientConversation =
  c_chatId :: string
  c_chatType :: int
  c_peerId :: string
  c_peerName :: string
  c_peerAvatar :: string
  c_lastMessage :: ClientMsg
  c_unreadCount :: int
  c_updatedAt :: int
  c_isPinned :: bool
  c_isMuted :: bool

definition Message_default :: ClientMsg where
  "Message_default = \<lparr>m_msgId = [], m_fromUserId = [], m_toId = [], m_chatType = 1, m_content = [], m_mediaUrl = [], m_mediaType = [],
     m_mentions = [], m_replyToMsgId = [], m_timestamp = 0, m_status = 0, m_isSelf = False, m_sending = False, m_sendFailed = False\<rparr>"

definition messageToJson :: "ClientMsg \<Rightarrow> QJsonObject" where
  "messageToJson m =
     [(''msgId'', QStr (m_msgId m)), (''fromUserId'', QStr (m_fromUserId m)), (''toId'', QStr (m_toId m)), (''chatType'', QNum (m_chatType m)),
      (''content'', QStr (m_content m)), (''mediaUrl'', QStr (m_mediaUrl m)), (''mediaType'', QStr (m_mediaType m)),
      (''timestamp'', QNum (m_timestamp m)), (''status'', QNum (m_status m)), (''isSelf'', QBool (m_isSelf m)), (''sending'', QBool (m_sending m)),
      (''sendFailed'', QBool (m_sendFailed m)), (''mentions'', QArr (map QStr (m_mentions m))), (''replyToMsgId'', QStr (m_replyToMsgId m))]"

definition jsonToMessage :: "QJsonObject \<Rightarrow> ClientMsg" where
  "jsonToMessage j =
     \<lparr>m_msgId = qj_toString (qo_get j ''msgId''), m_fromUserId = qj_toString (qo_get j ''fromUserId''), m_toId = qj_toString (qo_get j ''toId''),
      m_chatType = qj_toInt 1 (qo_get j ''chatType''), m_content = qj_toString (qo_get j ''content''), m_mediaUrl = qj_toString (qo_get j ''mediaUrl''),
      m_mediaType = qj_toString (qo_get j ''mediaType''), m_mentions = map qj_toString (qj_toArray (qo_get j ''mentions'')),
      m_replyToMsgId = qj_toString (qo_get j ''replyToMsgId''), m_timestamp = qj_toDouble 0 (qo_get j ''timestamp''),
      m_status = qj_toInt 0 (qo_get j ''status''), m_isSelf = qj_toBool False (qo_get j ''isSelf''), m_sending = qj_toBool False (qo_get j ''sending''),
      m_sendFailed = qj_toBool False (qo_get j ''sendFailed'')\<rparr>"

text \<open>Of the last message of a conversation only three fields are kept.\<close>

definition conversationToJson :: "ClientConversation \<Rightarrow> QJsonObject" where
  "conversationToJson c =
     [(''chatId'', QStr (c_chatId c)), (''chatType'', QNum (c_chatType c)), (''peerId'', QStr (c_peerId c)), (''peerName'', QStr (c_peerName c)),
      (''peerAvatar'', QStr (c_peerAvatar c)), (''unreadCount'', QNum (c_unreadCount c)), (''updatedAt'', QNum (c_updatedAt c)),
      (''isPinned'', QBool (c_isPinned c)), (''isMuted'', QBool (c_isMuted c)), (''lastMsgId'', QStr (m_msgId (c_lastMessage c))),
      (''lastContent'', QStr (m_content (c_lastMessage c))), (''lastTimestamp'', QNum (m_timestamp (c_lastMessage c)))]"

definition jsonToConversation :: "QJsonObject \<Rightarrow> ClientConversation" where
  "jsonToConversation j =
     \<lparr>c_chatId = qj_toString (qo_get j ''chatId''), c_chatType = qj_toInt 1 (qo_get j ''chatType''), c_peerId = qj_toString (qo_get j ''peerId''),
      c_peerName = qj_toString (qo_get j ''peerName''), c_peerAvatar = qj_toString (qo_get j ''peerAvatar''),
      c_lastMessage = Message_default\<lparr>m_msgId := qj_toString (qo_get j ''lastMsgId''), m_content := qj_toString (qo_get j ''lastContent''),
        m_timestamp := qj_toDouble 0 (qo_get j ''lastTimestamp'')\<rparr>,
      c_unreadCount = qj_toInt 0 (qo_get j ''unreadCount''), c_updatedAt = qj_toDouble 0 (qo_get j ''updatedAt''),
      c_isPinned = qj_toBool False (qo_get j ''isPinned''), c_isMuted = qj_toBool False (qo_get j ''isMuted'')\<rparr>"

section \<open>The files\<close>

record 'x StorageEnv =
  st_dir :: string
  st_isLetterOrNumber :: "char \<Rightarrow> bool"
  st_fromJson :: "'x \<Rightarrow> QJsonObject option"    \<comment> \<open>\<open>None\<close> for a text that is not an object\<close>
  st_toJson :: "QJsonObject \<Rightarrow> 'x"
  st_writable :: "string \<Rightarrow> bool"
  st_sort :: "(ClientMsg \<Rightarrow> int) \<Rightarrow> ClientMsg list \<Rightarrow> ClientMsg list"
  st_sort_conversations :: "(ClientConversation \<Rightarrow> int) \<Rightarrow> ClientConversation list \<Rightarrow> ClientConversation list"

type_synonym 'x Disk = "string \<rightharpoonup> 'x"

definition dataFilePath :: "'x StorageEnv \<Rightarrow> string \<Rightarrow> string" where
  "dataFilePath E userId =
     (let safe = map (\<lambda>c. if \<not> st_isLetterOrNumber E c \<and> c \<noteq> CHR ''_'' \<and> c \<noteq> CHR ''-'' then CHR ''_'' else c) userId;
          safe = (if safe = [] then ''default'' else safe)
      in st_dir E @ ''/chat_'' @ safe @ ''.json'')"

definition chat_key :: "string \<Rightarrow> int \<Rightarrow> string" where
  "chat_key chatId chatType = chatId @ ''_'' @ to_string chatType"

definition loadConversations :: "'x StorageEnv \<Rightarrow> 'x Disk \<Rightarrow> string \<Rightarrow> ClientConversation list" where
  "loadConversations E disk userId =
     (case disk (dataFilePath E userId) of
        None \<Rightarrow> []
      | Some text \<Rightarrow>
          (case st_fromJson E text of
             None \<Rightarrow> []
           | Some root \<Rightarrow> map (\<lambda>v. jsonToConversation (qj_toObject v)) (qj_toArray (qo_get root ''conversations''))))"

definition latest :: "'x StorageEnv \<Rightarrow> nat \<Rightarrow> ClientMsg list \<Rightarrow> ClientMsg list" where
  "latest E n ms = (if length ms > n then drop (length ms - n) (st_sort E m_timestamp ms) else ms)"

definition loadMessages :: "'x StorageEnv \<Rightarrow> 'x Disk \<Rightarrow> string \<Rightarrow> string \<Rightarrow> int \<Rightarrow> nat \<Rightarrow> ClientMsg list" where
  "loadMessages E disk userId chatId chatType maxMessages =
     (case disk (dataFilePath E userId) of
        None \<Rightarrow> []
      | Some text \<Rightarrow>
          (case st_fromJson E text of
             None \<Rightarrow> []
           | Some root \<Rightarrow>
               latest E maxMessages (map (\<lambda>v. jsonToMessage (qj_toObject v))
                 (qj_toArray (qo_get (qj_toObject (qo_get root ''messages'')) (chat_key chatId chatType))))))"

definition root_of :: "'x StorageEnv \<Rightarrow> 'x Disk \<Rightarrow> string \<Rightarrow> QJsonObject" where
  "root_of E disk path =
     (case disk path of None \<Rightarrow> [] | Some text \<Rightarrow> (case st_fromJson E text of None \<Rightarrow> [] | Some root \<Rightarrow> root))"

definition save_root :: "'x StorageEnv \<Rightarrow> string \<Rightarrow> QJsonObject \<Rightarrow> 'x Disk \<Rightarrow> bool \<times> 'x Disk" where
  "save_root E path root disk = (if st_writable E path then (True, disk(path \<mapsto> st_toJson E root)) else (False, disk))"

definition saveConversations :: "'x StorageEnv \<Rightarrow> string \<Rightarrow> ClientConversation list \<Rightarrow> 'x Disk \<Rightarrow> bool \<times> 'x Disk" where
  "saveConversations E userId conversations disk =
     (let path = dataFilePath E userId
      in save_root E path (qo_put ''conversations'' (QArr (map (\<lambda>c. QObj (conversationToJson c)) conversations)) (root_of E disk path)) disk)"

definition saveMessages :: "'x StorageEnv \<Rightarrow> string \<Rightarrow> string \<Rightarrow> int \<Rightarrow> ClientMsg list \<Rightarrow> 'x Disk \<Rightarrow> bool \<times> 'x Disk" where
  "saveMessages E userId chatId chatType ms disk =
     (let path = dataFilePath E userId;
          root = root_of E disk path;
          msgObj = qo_put (chat_key chatId chatType) (QArr (map (\<lambda>m. QObj (messageToJson m)) ms)) (qj_toObject (qo_get root ''messages''))
      in save_root E path (qo_put ''messages'' (QObj msgObj) root) disk)"

definition mergeAndSaveConversations :: "'x StorageEnv \<Rightarrow> string \<Rightarrow> ClientConversation list \<Rightarrow> 'x Disk \<Rightarrow> 'x Disk" where
  "mergeAndSaveConversations E userId convs disk = snd (saveConversations E userId (st_sort_conversations E (\<lambda>c. - c_updatedAt c) convs) disk)"

fun merge_new :: "string set \<Rightarrow> ClientMsg list \<Rightarrow> ClientMsg list" where
  "merge_new seen [] = []"
| "merge_new seen (m # ms) =
     (if m_msgId m \<noteq> [] \<and> m_msgId m \<notin> seen then m # merge_new (insert (m_msgId m) seen) ms else merge_new seen ms)"

definition mergeAndSaveMessages :: "'x StorageEnv \<Rightarrow> string \<Rightarrow> string \<Rightarrow> int \<Rightarrow> ClientMsg list \<Rightarrow> nat \<Rightarrow> 'x Disk \<Rightarrow> 'x Disk" where
  "mergeAndSaveMessages E userId chatId chatType newMessages maxStored disk =
     (let existing = loadMessages E disk userId chatId chatType (maxStored * 2);
          seen = set (filter (\<lambda>i. i \<noteq> []) (map m_msgId existing));
          existing = st_sort E m_timestamp (existing @ merge_new seen newMessages);
          existing = (if length existing > maxStored then drop (length existing - maxStored) existing else existing)
      in snd (saveMessages E userId chatId chatType existing disk))"

section \<open>What is kept\<close>

locale client_storage =
  fixes E :: "'x StorageEnv"
  assumes fromJson_toJson: "st_fromJson E (st_toJson E root) = Some root"
    and sort_mset: "mset (st_sort E key ms) = mset ms"
    and sort_sorted: "sorted (map key (st_sort E key ms))"
begin

lemma load_saved:
  assumes "st_writable E (dataFilePath E userId)"
  shows "loadMessages E (snd (saveMessages E userId chatId chatType ms disk)) userId chatId' chatType' n =
    (if chat_key chatId' chatType' = chat_key chatId chatType then latest E n (map (\<lambda>m. jsonToMessage (messageToJson m)) ms)
     else loadMessages E disk userId chatId' chatType' n)"
proof -
  have "qj_toArray (qo_get (qj_toObject (qo_get (root_of E disk (dataFilePath E userId)) ''messages'')) k) =
      (case disk (dataFilePath E userId) of None \<Rightarrow> [] | Some text \<Rightarrow> (case st_fromJson E text of None \<Rightarrow> []
       | Some root \<Rightarrow> qj_toArray (qo_get (qj_toObject (qo_get root ''messages'')) k)))" for k
    by (simp add: root_of_def qo_get_def split: option.split)
  then show ?thesis using assms
    by (simp add: saveMessages_def save_root_def Let_def loadMessages_def fromJson_toJson o_def latest_def split: option.split)
qed

lemma latest_parts:
  obtains dropped where "mset ms = mset dropped + mset (latest E n ms)" "length (latest E n ms) \<le> n" "dropped \<noteq> [] \<Longrightarrow> length (latest E n ms) = n"
    "\<And>d m. d \<in> set dropped \<Longrightarrow> m \<in> set (latest E n ms) \<Longrightarrow> m_timestamp d \<le> m_timestamp m"
proof (cases "length ms > n")
  case True
  let ?s = "st_sort E m_timestamp ms" and ?k = "length ms - n"
  have len: "length ?s = length ms" using sort_mset mset_eq_length by blast
  have "sorted (map m_timestamp (take ?k ?s @ drop ?k ?s))" using sort_sorted by simp
  then have "m_timestamp d \<le> m_timestamp m" if "d \<in> set (take ?k ?s)" "m \<in> set (drop ?k ?s)" for d m
    using that unfolding map_append sorted_append by auto
  moreover have "mset ms = mset (take ?k ?s) + mset (drop ?k ?s)" by (metis append_take_drop_id mset_append sort_mset)
  ultimately show ?thesis using that [of "take ?k ?s"] True len by (simp add: latest_def)
next
  case False
  then show ?thesis using that [of "[]"] by (simp add: latest_def)
qed

end

definition storable :: "ClientMsg \<Rightarrow> bool" where
  "storable m \<longleftrightarrow> is_int32 (m_chatType m) \<and> is_int32 (m_status m)"

lemma jsonToMessage_messageToJson [simp]: "storable m \<Longrightarrow> jsonToMessage (messageToJson m) = m"
  by (simp add: storable_def jsonToMessage_def messageToJson_def qo_get_def o_def)

lemma qj_toInt_int32: "is_int32 d \<Longrightarrow> is_int32 (qj_toInt d v)"
  by (cases v) auto

lemma storable_jsonToMessage [simp]: "storable (jsonToMessage j)"
proof -
  have "is_int32 1" "is_int32 0" by (simp_all add: is_int32_def)
  then show ?thesis by (simp add: storable_def jsonToMessage_def qj_toInt_int32)
qed

lemma set_merge_new: "set (merge_new seen ms) \<subseteq> set ms"
  by (induction seen ms rule: merge_new.induct) auto

lemma merge_new_ids:
  "distinct (map m_msgId (merge_new seen ms)) \<and> set (map m_msgId (merge_new seen ms)) \<inter> seen = {}
   \<and> (\<forall>m \<in> set ms. m_msgId m = [] \<or> m_msgId m \<in> seen \<union> set (map m_msgId (merge_new seen ms)))"
  by (induction seen ms rule: merge_new.induct) auto

context client_storage
begin

lemma storable_loaded: "m \<in> set (loadMessages E disk userId chatId chatType n) \<Longrightarrow> storable m"
proof -
  have "m \<in> set (latest E n ms) \<Longrightarrow> m \<in> set ms" for ms
    using mset_eq_setD [OF sort_mset [of m_timestamp ms]] by (auto simp: latest_def split: if_split_asm dest!: in_set_dropD)
  then show "m \<in> set (loadMessages E disk userId chatId chatType n) \<Longrightarrow> storable m"
    by (fastforce simp: loadMessages_def split: option.split_asm)
qed

text \<open>Merging keeps the latest messages of old and new, each once, and nothing of another conversation changes.\<close>

lemma mergeAndSaveMessages_keeps_latest:
  fixes disk :: "'x Disk"
  assumes "st_writable E (dataFilePath E userId)" and "\<And>m. m \<in> set newMessages \<Longrightarrow> storable m"
    and "old = loadMessages E disk userId chatId chatType (2 * n)"
    and "all = old @ merge_new (set (filter (\<lambda>i. i \<noteq> []) (map m_msgId old))) newMessages"
    and "disk' = mergeAndSaveMessages E userId chatId chatType newMessages n disk"
    and "kept = loadMessages E disk' userId chatId chatType n"
  shows "\<exists>dropped. mset all = mset dropped + mset kept \<and> length kept \<le> n \<and> (dropped \<noteq> [] \<longrightarrow> length kept = n) \<and> sorted (map m_timestamp kept)
    \<and> (\<forall>d \<in> set dropped. \<forall>m \<in> set kept. m_timestamp d \<le> m_timestamp m)"
    and "chat_key chatId' chatType' \<noteq> chat_key chatId chatType \<Longrightarrow>
      loadMessages E disk' userId chatId' chatType' k = loadMessages E disk userId chatId' chatType' k"
proof -
  let ?s = "st_sort E m_timestamp all"
  define stored where "stored = (if length ?s > n then drop (length ?s - n) ?s else ?s)"
  have disk': "disk' = snd (saveMessages E userId chatId chatType stored disk)"
    unfolding assms(5) mergeAndSaveMessages_def stored_def Let_def assms(3,4) by (simp add: mult.commute)
  have len: "length ?s = length all" using sort_mset mset_eq_length by blast
  have sorted: "sorted (map m_timestamp (take (length ?s - n) ?s @ drop (length ?s - n) ?s))" using sort_sorted by simp
  have "storable m" if "m \<in> set all" for m
    using that assms(2) set_merge_new storable_loaded unfolding assms(3,4) by auto
  then have "storable m" if "m \<in> set stored" for m
    using that mset_eq_setD [OF sort_mset [of m_timestamp all]] by (auto simp: stored_def split: if_split_asm dest!: in_set_dropD)
  then have "map (\<lambda>m. jsonToMessage (messageToJson m)) stored = stored" by (simp add: map_idI)
  then have kept: "kept = stored"
    using load_saved [OF assms(1), of chatId chatType stored disk chatId chatType n] len unfolding assms(6) disk'
    by (simp add: latest_def stored_def split: if_split_asm)
  have "mset all = mset (take (length ?s - n) ?s) + mset (drop (length ?s - n) ?s)" by (metis append_take_drop_id mset_append sort_mset)
  moreover have "\<forall>d \<in> set (take (length ?s - n) ?s). \<forall>m \<in> set (drop (length ?s - n) ?s). m_timestamp d \<le> m_timestamp m"
    "sorted (map m_timestamp (drop (length ?s - n) ?s))"
    using sorted unfolding map_append sorted_append by auto
  ultimately show "\<exists>dropped. mset all = mset dropped + mset kept \<and> length kept \<le> n \<and> (dropped \<noteq> [] \<longrightarrow> length kept = n) \<and> sorted (map m_timestamp kept)
    \<and> (\<forall>d \<in> set dropped. \<forall>m \<in> set kept. m_timestamp d \<le> m_timestamp m)"
    unfolding kept stored_def by (intro exI [of _ "take (length ?s - n) ?s"]) auto
  show "loadMessages E disk' userId chatId' chatType' k = loadMessages E disk userId chatId' chatType' k"
    if "chat_key chatId' chatType' \<noteq> chat_key chatId chatType"
    unfolding disk' load_saved [OF assms(1)] using that by simp
qed

end

definition demo_storage :: "QJsonObject StorageEnv" where
  "demo_storage = \<lparr>st_dir = ''/home'', st_isLetterOrNumber = isalnum, st_fromJson = Some, st_toJson = id, st_writable = (\<lambda>p. True),
     st_sort = sort_key, st_sort_conversations = sort_key\<rparr>"

interpretation demo_storage: client_storage demo_storage
  by unfold_locales (simp_all add: demo_storage_def)

text \<open>Users whose names differ only in other characters share a file.\<close>

lemma dataFilePath_collision: "dataFilePath demo_storage ''a.b'' = dataFilePath demo_storage ''a_b''"
  by (simp add: dataFilePath_def demo_storage_def isalnum_def isdigit_def isupper_def islower_def code_def)

end
