(* ===== verification/Spec2Isabelle.thy ===== *)
theory Spec2Isabelle
  imports Error_Code Swift_Utils Config_Loader Jwt_Helper Grpc_Auth Auth_Handler Online_Service Friend_Handler Group_Handler Chat_Handler Chat_Paging File_Handler Deployment_Properties Zone_Properties Logger_Properties Service_Properties Client_Properties Client_Storage
begin

text \<open>
  A verification development for SwiftChatSystem, a chat system made of small C++ services that talk
  gRPC (\<^verbatim>\<open>src/backend\<close>) and a Qt client.  Clients connect to a gate by WebSocket; the gate forwards their
  commands to the zone server, which calls the business services: accounts (\<^verbatim>\<open>authsvr\<close>), login sessions
  (\<^verbatim>\<open>onlinesvr\<close>), friends (\<^verbatim>\<open>friendsvr\<close>), messages and groups (\<^verbatim>\<open>chatsvr\<close>) and files (\<^verbatim>\<open>filesvr\<close>).  Every
  business service has the same three layers: a store over RocksDB with JSON values, a service with the
  rules, and a handler that takes the caller from the token of the call and maps results to codes.

  \<^bold>\<open>Shared ground.\<close>  \<open>Swift_Prelude\<close> and \<open>Cpp_Std\<close> have the generic lemmas and what the sources use of the C++
  library: byte strings, machine integers (\<open>wrap32\<close>, \<open>is_int32\<close>, \<open>is_int64\<close>), character classes, number
  parsing.  \<open>Third_Party\<close> has RocksDB and nlohmann::json as parameters \<open>R\<close> and \<open>J\<close>: records of the calls the
  sources make, with their documented behaviour as the locale \<open>store_env\<close> (a failing write changes
  nothing, iteration is in key order, a dumped object parses back).  \<open>Third_Party_Instances\<close> has executable
  instances, on which every witness runs.  \<open>hmac\<close> and \<open>evp\<close> are OpenSSL, \<open>draws\<close>, \<open>now\<close> and \<open>clock\<close> the random
  values and clock readings of a call.  The strings that reach JSON are protocol buffer strings and
  hence valid UTF-8, so that \<^verbatim>\<open>dump\<close> does not throw.

  \<^bold>\<open>Components.\<close>
  \<^item> \<open>Error_Code\<close>: \<^verbatim>\<open>common/include/swift/error_code.h\<close>; \<open>Swift_Utils\<close>: \<^verbatim>\<open>common/src/utils.cpp\<close>;
    \<open>Config_Loader\<close>: \<^verbatim>\<open>common/src/config_loader.cpp\<close>.  Round trips of the codecs, and that a setting comes from the
    environment, then the file, then the default.
  \<^item> \<open>Jwt_Helper\<close>, \<open>Grpc_Auth\<close>: \<^verbatim>\<open>common/src/jwt_helper.cpp\<close>, \<^verbatim>\<open>grpc_auth.cpp\<close>.  Tokens verify exactly when
    signed and unexpired; the caller of a handler is the user of a verified token.
  \<^item> \<open>User_Store\<close>, \<open>Auth_Service\<close>, \<open>Auth_Handler\<close>: \<^verbatim>\<open>authsvr\<close>.  User names stay unique, registered accounts log in.
  \<^item> \<open>Session_Store\<close>, \<open>Online_Service\<close>: \<^verbatim>\<open>onlinesvr\<close>.  Exactly the token of the stored session validates.
  \<^item> \<open>Friend_Store\<close>, \<open>Friend_Store_Laws\<close>, \<open>Friend_Service\<close>, \<open>Friend_Properties\<close>, \<open>Friend_Handler\<close>: \<^verbatim>\<open>friendsvr\<close>.
    Friendship is symmetric, a request is settled once by its receiver, callers act for themselves only.
  \<^item> \<open>Group_Store\<close>, \<open>Group_Store_Laws\<close>, \<open>Group_Service\<close>, \<open>Group_Properties\<close>, \<open>Group_Handler\<close>: the groups of
    \<^verbatim>\<open>chatsvr\<close>.  The three tables of memberships agree, owners are members, outsiders change nothing.
    Runs have a condition on the ids of members as a parameter; the theorems are for ids without a colon (\<open>clean\<close>), which is what
    accounts have and the code does not check.  \<open>colon_member_confuses\<close> shows what a colon does to the index of a user's groups.
  \<^item> \<open>Message_Store\<close>, \<open>Conversation_Store\<close> and their laws, \<open>Chat_Service\<close>, \<open>Chat_Service_Laws\<close>, \<open>Chat_Properties\<close>,
    \<open>Chat_Paging\<close>, \<open>Chat_Handler\<close>: the messages of \<^verbatim>\<open>chatsvr\<close>.  Who sees a private history, what sending
    and recalling do, that stored messages stay, and that paging ends and returns everything up to equal time stamps.
  \<^item> \<open>File_Config\<close>, \<open>File_Store\<close>, \<open>File_Store_Laws\<close>, \<open>File_Service\<close>, \<open>File_Service_Laws\<close>, \<open>File_Uploads\<close>, \<open>File_Properties\<close>,
    \<open>File_Handler\<close>: \<^verbatim>\<open>filesvr\<close>, its streams and its HTTP download.  \<open>File_Uploads\<close> has the runs of one upload with every operation
    and every failure, and the log of what was accepted and what failed calls left behind.  An upload stores the bytes that were
    sent, also when it is resumed, unless a failed call left bytes in the temporary file; stored files do not change, and only their uploader deletes them.
  \<^item> \<open>Zone_Session_Store\<close>, \<open>Zone_Session_Laws\<close>: the two session stores of \<^verbatim>\<open>zonesvr\<close>.  The one on Redis is the one in memory with
    expiry: \<open>redis_server\<close> has the documented commands of Redis with the timeouts of keys and the passing of time, \<open>TimedSessions\<close> what the
    store then promises.  \<open>Zone_Messages\<close> (\<^verbatim>\<open>zone.proto\<close>), \<open>Zone_Rpc\<close>, \<open>Zone_Systems\<close>, \<open>Zone_Service\<close>, \<open>Zone_Handler\<close>: the commands of
    clients, the calls of the business services and the pushes to gates.
  \<^item> \<open>Gate_Service\<close>, \<open>Gate_Session\<close>: \<^verbatim>\<open>gatesvr\<close>, with the sessions of the WebSocket listener as a step relation (\<open>gate_step\<close>) over the
    completions of the io_context.  \<open>Gate_Laws\<close> has what the gate guarantees for a zone server that keeps the locales \<open>gate_calls\<close> and
    \<open>gate_zone\<close>.
  \<^item> \<open>Zone_Deploy\<close>, \<open>Zone_Deploy_Laws\<close>, \<open>Deployment\<close>, \<open>Deployment_Demo\<close>, \<open>Business_Servers\<close>: the servers put together, so that
    the stubs of one are the handlers of the next.  \<open>Deployment_Properties\<close>, \<open>End_To_End\<close>, \<open>Zone_Properties\<close>: a connection is bound by a
    token that the online server issued, its commands act for that user only, and a private message reaches the
    connection of its receiver.  The deployed servers are all up and a call between them fails only for a wrong internal
    secret, or for a gate that is not up; the error branches for deadlines and broken channels are modelled in \<open>Zone_Rpc\<close> and \<open>Zone_Systems\<close>, for
    arbitrary stubs, and do not occur in the deployed system.
  \<^item> \<open>Log_Sinks\<close>, \<open>Log_Files\<close>, \<open>Async_Logger\<close>, \<open>Async_Logger_Laws\<close>, \<open>Logger_Properties\<close>: \<^verbatim>\<open>component/asynclogger\<close>.  The steps of the threads
    that log, of the thread that writes and of the one that shuts down interleave freely; the theorems hold for every
    interleaving.
  \<^item> \<open>Service_Start\<close>, \<open>Service_Properties\<close>: the settings of the servers and the loops of the main functions.  With the default settings
    a token of the online server is accepted by the auth, friend and chat servers and by no file server; a gate gives up
    announcing itself after at most 60 calls.
  \<^item> \<open>Client_Network\<close>, \<open>Client_Properties\<close>, \<open>Client_Storage\<close>: \<^verbatim>\<open>client/desktop/src/network\<close> and \<^verbatim>\<open>utils/chat_storage.cpp\<close>.  Every
    request is called back once, and by the answer of the gate when it comes in time.

  \<^bold>\<open>Structure of a component.\<close>  The abstract store class is a record of its methods over a state, the
  RocksDB class an instance.  A \<open>..._Laws\<close> theory has the abstract state, the contract as a locale over
  (methods, invariant, abstraction), and the refinement as a sublocale of \<open>store_env\<close>; the service
  theories prove their effects inside the contract locale, for reachable states of a step relation;
  properties are stated over the RocksDB store, with failing writes allowed unless \<open>reliable_env\<close> is assumed.

  \<^bold>\<open>Conventions.\<close>  A throw is \<open>None\<close> or an \<open>Inl\<close>; undefined integer overflow is \<open>None\<close>; conversions to
  32 bits are \<open>wrap32\<close>.  Logging, and null checks of objects that the main functions always create,
  are left out.  Clocks of the services for accounts and login sessions show times before 2038 where a theorem needs the expiry
  of a token (see \<open>JwtVerify_after_2038\<close>), and the request counter of the client, an \<^verbatim>\<open>int\<close>, is unbounded.  The loops of a client that reads a history or an offline queue to its end take a bound
  on the number of calls, which the theorems show to be enough: one more than the number of messages.

  \<^bold>\<open>Not modelled.\<close>  The widgets of the Qt client, the macros of the logger, the code generated from the protocol files, and input
  and output around libraries: opening sockets and gRPC servers, signal handlers, the probe of a port, the clock's formatting,
  the Base64 filter of OpenSSL and the closing handshake of a WebSocket.  Threads of a gRPC server are modelled as calls one after the other; only the gate's
  strands and the logger's threads interleave.
\<close>

end
